(* ===== verification/Prelude.thy ===== *)
theory Prelude
  imports Main "HOL-Library.Word" "HOL-Library.List_Lexorder" "HOL-Library.Char_ord"
    "HOL-Library.Option_ord" "HOL-Library.Product_Lexorder" "HOL-Library.Multiset"
begin

text \<open>
  What every component of the development shares: the Rust results and their \<open>?\<close> operator,
  the functions of Rust's \<open>str\<close> that the sources call, decimal printing and parsing of
  integers, and Rust's \<open>BTreeMap\<close> and \<open>BTreeSet\<close> with the interface their clients use.

  A Rust \<open>String\<close> is its sequence of UTF-8 bytes, so \<^typ>\<open>string\<close> (a list of 8-bit
  \<^typ>\<open>char\<close>) is that sequence byte for byte: \<open>length\<close> is \<open>str::len\<close> and the list order
  is the byte order of \<open>str\<close>'s \<open>Ord\<close>. A function of the sources that works on Unicode
  scalar values (\<open>trim\<close>, \<open>encode_utf16\<close>) is written on the UTF-8 encoding.
\<close>

section \<open>Collections of rules\<close>

named_theorems res_simps \<open>rewriting of results: the ? operator and collecting\<close>
named_theorems str_simps \<open>rewriting of string operations\<close>
named_theorems bt_simps \<open>rewriting of ordered maps and sets\<close>

section \<open>Results\<close>

text \<open>\<open>Result<T, E>\<close>: \<^const>\<open>Inr\<close> is \<open>Ok\<close>, \<^const>\<open>Inl\<close> is \<open>Err\<close>.\<close>

type_synonym 'a res = "string + 'a"

text \<open>The \<open>?\<close> operator: go on with the value, or return the error.\<close>

definition res_bind :: "'e + 'a \<Rightarrow> ('a \<Rightarrow> 'e + 'b) \<Rightarrow> 'e + 'b" where
  "res_bind r f = (case r of Inl e \<Rightarrow> Inl e | Inr x \<Rightarrow> f x)"

text \<open>\<open>ok_or_else\<close> on an \<open>Option\<close>.\<close>

definition ok_or :: "'e \<Rightarrow> 'a option \<Rightarrow> 'e + 'a" where
  "ok_or e v = (case v of None \<Rightarrow> Inl e | Some x \<Rightarrow> Inr x)"

text \<open>\<open>iter().map(f).collect::<Result<Vec<_>, _>>()\<close>: the first error wins.\<close>

fun collect_res :: "('a \<Rightarrow> 'e + 'b) \<Rightarrow> 'a list \<Rightarrow> 'e + 'b list" where
  "collect_res f [] = Inr []"
| "collect_res f (x # xs) =
     res_bind (f x) (\<lambda>y. res_bind (collect_res f xs) (\<lambda>ys. Inr (y # ys)))"

lemma res_bind_simps [simp, res_simps]:
  "res_bind (Inl e) f = Inl e"
  "res_bind (Inr x) f = f x"
  by (simp_all add: res_bind_def)

lemma res_bind_Inr_iff [res_simps]: "res_bind r f = Inr y \<longleftrightarrow> (\<exists>x. r = Inr x \<and> f x = Inr y)"
  by (simp add: res_bind_def split: sum.splits)

lemma res_bind_Inl_iff [res_simps]:
  "res_bind r f = Inl e \<longleftrightarrow> r = Inl e \<or> (\<exists>x. r = Inr x \<and> f x = Inl e)"
  by (auto simp: res_bind_def split: sum.splits)

lemma ok_or_simps [simp, res_simps]:
  "ok_or e None = Inl e"
  "ok_or e (Some x) = Inr x"
  by (simp_all add: ok_or_def)

lemma ok_or_Inr_iff [res_simps]: "ok_or e v = Inr x \<longleftrightarrow> v = Some x"
  by (cases v) simp_all

lemma ok_or_Inl_iff [res_simps]: "ok_or e v = Inl e' \<longleftrightarrow> v = None \<and> e' = e"
  by (cases v) auto

lemma collect_res_Inr_iff [res_simps]:
  "collect_res f xs = Inr ys \<longleftrightarrow> list_all2 (\<lambda>x y. f x = Inr y) xs ys"
proof (induction xs arbitrary: ys)
  case (Cons x xs)
  then show ?case by (cases ys) (auto simp: res_simps)
qed auto

lemma collect_res_append_Inl:
  "\<forall>u \<in> set us. \<exists>y. f u = Inr y \<Longrightarrow> f x = Inl e \<Longrightarrow> collect_res f (us @ x # vs) = Inl e"
  by (induction us) auto

lemma collect_res_InlE:
  assumes "collect_res f xs = Inl e"
  obtains us x vs where "xs = us @ x # vs" and "f x = Inl e" and "\<forall>u \<in> set us. \<exists>y. f u = Inr y"
proof -
  from assms have "\<exists>us x vs. xs = us @ x # vs \<and> f x = Inl e \<and> (\<forall>u \<in> set us. \<exists>y. f u = Inr y)"
  proof (induction xs)
    case (Cons x xs)
    show ?case
    proof (cases "f x")
      case (Inl e')
      with Cons.prems show ?thesis by (auto intro!: exI [of _ "[]"])
    next
      case (Inr y)
      with Cons.prems have "collect_res f xs = Inl e" by (auto simp: res_simps)
      with Cons.IH obtain us z vs where "xs = us @ z # vs" "f z = Inl e" "\<forall>u \<in> set us. \<exists>y. f u = Inr y"
        by blast
      with Inr show ?thesis by (auto intro!: exI [of _ "x # us"])
    qed
  qed simp
  then show thesis using that by blast
qed

lemma collect_res_pure: "(\<And>x. x \<in> set xs \<Longrightarrow> f x = Inr (g x)) \<Longrightarrow> collect_res f xs = Inr (map g xs)"
  by (induction xs) auto

lemma collect_res_length: "collect_res f xs = Inr ys \<Longrightarrow> length ys = length xs"
  by (auto simp: res_simps dest: list_all2_lengthD)

lemma list_all2_in2: "list_all2 R xs ys \<Longrightarrow> y \<in> set ys \<Longrightarrow> \<exists>x \<in> set xs. R x y"
  by (induction rule: list_all2_induct) auto

text \<open>No element occurs earlier in the list.\<close>

lemma distinct_take_iff: "(\<forall>i < length vs. vs ! i \<notin> set (take i vs)) \<longleftrightarrow> distinct vs"
proof
  assume *: "\<forall>i < length vs. vs ! i \<notin> set (take i vs)"
  show "distinct vs" unfolding distinct_conv_nth
  proof (intro allI impI)
    fix i j assume "i < length vs" "j < length vs" "i \<noteq> j"
    then show "vs ! i \<noteq> vs ! j"
      using * by (metis in_set_conv_nth length_take linorder_neqE_nat min_less_iff_conj nth_take)
  qed
qed (auto simp: in_set_conv_nth nth_eq_iff_index_eq)

lemma map_filter_Nil_iff: "List.map_filter f xs = [] \<longleftrightarrow> (\<forall>x \<in> set xs. f x = None)"
  by (auto simp: List.map_filter_def filter_empty_conv)

section \<open>Strings\<close>

definition byte_of :: "char \<Rightarrow> nat" where
  "byte_of c = of_char c"

definition is_ascii_digit :: "char \<Rightarrow> bool" where
  "is_ascii_digit c \<longleftrightarrow> 48 \<le> byte_of c \<and> byte_of c \<le> 57"

definition is_ascii_upper :: "char \<Rightarrow> bool" where
  "is_ascii_upper c \<longleftrightarrow> 65 \<le> byte_of c \<and> byte_of c \<le> 90"

definition is_ascii_lower :: "char \<Rightarrow> bool" where
  "is_ascii_lower c \<longleftrightarrow> 97 \<le> byte_of c \<and> byte_of c \<le> 122"

definition is_ascii_alphanumeric :: "char \<Rightarrow> bool" where
  "is_ascii_alphanumeric c \<longleftrightarrow> is_ascii_digit c \<or> is_ascii_upper c \<or> is_ascii_lower c"

definition ascii_lower :: "char \<Rightarrow> char" where
  "ascii_lower c = (if is_ascii_upper c then char_of (byte_of c + 32) else c)"

definition ascii_upper :: "char \<Rightarrow> char" where
  "ascii_upper c = (if is_ascii_lower c then char_of (byte_of c - 32) else c)"

text \<open>\<open>slice.join(separator)\<close>.\<close>

fun join_with :: "string \<Rightarrow> string list \<Rightarrow> string" where
  "join_with sep [] = []"
| "join_with sep [x] = x"
| "join_with sep (x # y # ys) = x @ sep @ join_with sep (y # ys)"

text \<open>\<open>str::split\<close> with an ASCII separator: one piece more than there are separators.\<close>

fun split_on :: "char \<Rightarrow> string \<Rightarrow> string list" where
  "split_on c [] = [[]]"
| "split_on c (x # xs) =
     (if x = c then [] # split_on c xs
      else (case split_on c xs of [] \<Rightarrow> [[x]] | p # ps \<Rightarrow> (x # p) # ps))"

text \<open>\<open>str::split_once\<close> with an ASCII separator.\<close>

fun split_once :: "char \<Rightarrow> string \<Rightarrow> (string \<times> string) option" where
  "split_once c [] = None"
| "split_once c (x # xs) =
     (if x = c then Some ([], xs)
      else map_option (\<lambda>(a, b). (x # a, b)) (split_once c xs))"

text \<open>\<open>str::rsplit_once\<close> with an ASCII separator.\<close>

definition rsplit_once :: "char \<Rightarrow> string \<Rightarrow> (string \<times> string) option" where
  "rsplit_once c s = map_option (\<lambda>(after, before). (rev before, rev after)) (split_once c (rev s))"

text \<open>\<open>str::strip_prefix\<close> and \<open>str::strip_suffix\<close> with a string.\<close>

definition strip_prefix :: "string \<Rightarrow> string \<Rightarrow> string option" where
  "strip_prefix p s = (if take (length p) s = p then Some (drop (length p) s) else None)"

definition strip_suffix :: "string \<Rightarrow> string \<Rightarrow> string option" where
  "strip_suffix p s = map_option rev (strip_prefix (rev p) (rev s))"

text \<open>
  Java's \<open>String.split\<close> drops the trailing empty pieces; the sources pop them off the end
  of the vector.
\<close>

fun pop_empty :: "string list \<Rightarrow> string list" where
  "pop_empty [] = []"
| "pop_empty (x # xs) = (case pop_empty xs of [] \<Rightarrow> (if x = [] then [] else [x]) | y # ys \<Rightarrow> x # y # ys)"

lemma split_on_not_Nil [simp]: "split_on c s \<noteq> []"
  by (induction s) (auto split: list.splits)

lemma join_with_Cons: "ys \<noteq> [] \<Longrightarrow> join_with sep (x # ys) = x @ sep @ join_with sep ys"
  by (cases ys) auto

lemma join_split_on [str_simps]: "join_with [c] (split_on c s) = s"
proof (induction s)
  case (Cons x s)
  obtain p ps where ps: "split_on c s = p # ps"
    using split_on_not_Nil [of c s] by (cases "split_on c s") auto
  with Cons show ?case by (cases ps) auto
qed simp

lemma split_on_no_sep [str_simps]: "c \<notin> set s \<Longrightarrow> split_on c s = [s]"
  by (induction s) auto

lemma split_on_append_sep: "c \<notin> set s \<Longrightarrow> split_on c (s @ c # t) = s # split_on c t"
  by (induction s) auto

lemma split_on_join [str_simps]:
  "xs \<noteq> [] \<Longrightarrow> \<forall>x \<in> set xs. c \<notin> set x \<Longrightarrow> split_on c (join_with [c] xs) = xs"
  by (induction "[c]" xs rule: join_with.induct) (auto simp: str_simps split_on_append_sep)

lemma split_once_Some_iff:
  "split_once c s = Some (a, b) \<longleftrightarrow> s = a @ c # b \<and> c \<notin> set a"
proof (induction s arbitrary: a)
  case (Cons x s)
  show ?case
  proof (cases "x = c")
    case True
    then show ?thesis by (auto simp: Cons_eq_append_conv)
  next
    case False
    then have "split_once c (x # s) = Some (a, b) \<longleftrightarrow>
        (\<exists>a'. a = x # a' \<and> split_once c s = Some (a', b))"
      by auto
    also have "\<dots> \<longleftrightarrow> x # s = a @ c # b \<and> c \<notin> set a"
      using False by (cases a) (auto simp: Cons.IH)
    finally show ?thesis .
  qed
qed simp

lemma split_once_append [str_simps]: "c \<notin> set a \<Longrightarrow> split_once c (a @ c # b) = Some (a, b)"
  by (simp add: split_once_Some_iff)

lemma split_once_None_iff: "split_once c s = None \<longleftrightarrow> c \<notin> set s"
  by (induction s) auto

lemma strip_prefix_Some_iff [str_simps]: "strip_prefix p s = Some r \<longleftrightarrow> s = p @ r"
proof
  assume "strip_prefix p s = Some r"
  then have "take (length p) s = p" and "drop (length p) s = r"
    by (auto simp: strip_prefix_def split: if_splits)
  then show "s = p @ r"
    by (metis append_take_drop_id)
qed (simp add: strip_prefix_def)

lemma strip_suffix_Some_iff [str_simps]: "strip_suffix p s = Some r \<longleftrightarrow> s = r @ p"
proof -
  have "strip_suffix p s = Some r \<longleftrightarrow> strip_prefix (rev p) (rev s) = Some (rev r)"
    by (auto simp: strip_suffix_def)
  also have "\<dots> \<longleftrightarrow> rev s = rev (r @ p)"
    by (simp add: strip_prefix_Some_iff)
  finally show ?thesis by (simp only: rev_is_rev_conv)
qed

lemma pop_empty_no_trailing: "xs \<noteq> [] \<Longrightarrow> last xs \<noteq> [] \<Longrightarrow> pop_empty xs = xs"
  by (induction xs) (auto split: list.splits if_splits)

lemma pop_empty_last: "pop_empty xs \<noteq> [] \<Longrightarrow> last (pop_empty xs) \<noteq> []"
  by (induction xs) (auto split: list.splits if_splits)

lemma pop_empty_append: "\<exists>n. xs = pop_empty xs @ replicate n []"
proof (induction xs)
  case (Cons x xs)
  then obtain n where n: "xs = pop_empty xs @ replicate n []" by blast
  show ?case
  proof (cases "pop_empty xs")
    case Nil
    with n have "xs = replicate n []" by simp
    with Nil show ?thesis
      by (cases "x = []") (auto intro: exI [of _ "Suc n"] exI [of _ n])
  next
    case (Cons y ys)
    with n show ?thesis by (auto intro: exI [of _ n])
  qed
qed simp

text \<open>
  \<open>str::trim\<close>: the Unicode \<open>White_Space\<close> characters, each by its UTF-8 encoding, are stripped
  from both ends.
\<close>

definition white_space :: "string list" where
  "white_space =
     [[CHR 0x09], [CHR 0x0A], [CHR 0x0B], [CHR 0x0C], [CHR 0x0D], [CHR 0x20],
      [CHR 0xC2, CHR 0x85], [CHR 0xC2, CHR 0xA0], [CHR 0xE1, CHR 0x9A, CHR 0x80]] @
     map (\<lambda>b. [CHR 0xE2, CHR 0x80, char_of b]) [128..<139 :: nat] @
     [[CHR 0xE2, CHR 0x80, CHR 0xA8], [CHR 0xE2, CHR 0x80, CHR 0xA9],
      [CHR 0xE2, CHR 0x80, CHR 0xAF], [CHR 0xE2, CHR 0x81, CHR 0x9F],
      [CHR 0xE3, CHR 0x80, CHR 0x80]]"

function strip_any :: "string list \<Rightarrow> string \<Rightarrow> string" where
  "strip_any ps s =
     (case find (\<lambda>p. p \<noteq> [] \<and> take (length p) s = p) ps of
        None \<Rightarrow> s
      | Some p \<Rightarrow> strip_any ps (drop (length p) s))"
  by pat_completeness auto
termination
proof (relation "measure (\<lambda>(ps, s). length s)", goal_cases)
  case (2 ps s p)
  then have "p \<noteq> []" and "take (length p) s = p"
    by (auto simp: find_Some_iff)
  then have "s \<noteq> []" and "0 < length p" by auto
  then show ?case by simp
qed simp

declare strip_any.simps [simp del]

definition trim_start :: "string \<Rightarrow> string" where
  "trim_start s = strip_any white_space s"

definition trim_end :: "string \<Rightarrow> string" where
  "trim_end s = rev (strip_any (map rev white_space) (rev s))"

definition trim :: "string \<Rightarrow> string" where
  "trim s = trim_end (trim_start s)"

lemma strip_any_Nil [simp]: "strip_any ps [] = []"
  by (subst strip_any.simps) (auto simp: find_None_iff split: option.split dest: find_Some_iff [THEN iffD1])

lemma trim_Nil [simp]: "trim [] = []"
  by (simp add: trim_def trim_start_def trim_end_def)

text \<open>Visible ASCII at the ends is not stripped.\<close>

definition graphic :: "char \<Rightarrow> bool" where
  "graphic c \<longleftrightarrow> 33 \<le> byte_of c \<and> byte_of c \<le> 126"

lemma strip_any_graphic:
  assumes "list_all (\<lambda>p. p \<noteq> [] \<and> \<not> graphic (hd p)) ps" and "s \<noteq> []" and "graphic (hd s)"
  shows "strip_any ps s = s"
proof -
  have "\<not> (p \<noteq> [] \<and> take (length p) s = p)" if "p \<in> set ps" for p
  proof
    assume p: "p \<noteq> [] \<and> take (length p) s = p"
    then have "hd p = hd s" using assms(2) by (metis hd_take length_greater_0_conv)
    with assms(1,3) that show False by (auto simp: list_all_iff)
  qed
  then have "find (\<lambda>p. p \<noteq> [] \<and> take (length p) s = p) ps = None" by (auto simp: find_None_iff)
  then show ?thesis by (subst strip_any.simps) simp
qed

lemma trim_graphic [str_simps]:
  assumes "s \<noteq> []" and "graphic (hd s)" and "graphic (last s)"
  shows "trim s = s"
proof -
  have "list_all (\<lambda>p. p \<noteq> [] \<and> \<not> graphic (hd p)) white_space"
    "list_all (\<lambda>p. p \<noteq> [] \<and> \<not> graphic (hd p)) (map rev white_space)" by code_simp+
  then show ?thesis
    using assms strip_any_graphic [of _ s] strip_any_graphic [of _ "rev s"]
    by (simp add: trim_def trim_start_def trim_end_def hd_rev)
qed

section \<open>Decimal integers\<close>

definition digit_char :: "nat \<Rightarrow> char" where
  "digit_char n = char_of (48 + n)"

definition digit_val :: "char \<Rightarrow> nat" where
  "digit_val c = byte_of c - 48"

fun show_nat :: "nat \<Rightarrow> string" where
  "show_nat n = (if n < 10 then [digit_char n] else show_nat (n div 10) @ [digit_char (n mod 10)])"

declare show_nat.simps [simp del]

text \<open>\<open>Display\<close> of the signed integers.\<close>

definition show_int :: "int \<Rightarrow> string" where
  "show_int i = (if i < 0 then CHR ''-'' # show_nat (nat (- i)) else show_nat (nat i))"

definition digits_value :: "string \<Rightarrow> nat" where
  "digits_value s = foldl (\<lambda>acc c. 10 * acc + digit_val c) 0 s"

text \<open>
  \<open>str::parse\<close> of a signed integer type with the range from \<open>lo\<close> to \<open>hi\<close>: an optional sign,
  then at least one ASCII digit and nothing else, and the value in range.
\<close>

definition parse_signed :: "int \<Rightarrow> int \<Rightarrow> string \<Rightarrow> int option" where
  "parse_signed lo hi s =
     (let (neg, ds) = (case s of
            c # cs \<Rightarrow> if c = CHR ''-'' then (True, cs) else if c = CHR ''+'' then (False, cs) else (False, s)
          | [] \<Rightarrow> (False, s));
          v = (if neg then - int (digits_value ds) else int (digits_value ds))
      in if ds \<noteq> [] \<and> list_all is_ascii_digit ds \<and> lo \<le> v \<and> v \<le> hi then Some v else None)"

abbreviation i16_min :: int where "i16_min \<equiv> - (2 ^ 15)"
abbreviation i16_max :: int where "i16_max \<equiv> 2 ^ 15 - 1"
abbreviation i32_min :: int where "i32_min \<equiv> - (2 ^ 31)"
abbreviation i32_max :: int where "i32_max \<equiv> 2 ^ 31 - 1"
abbreviation i64_min :: int where "i64_min \<equiv> - (2 ^ 63)"
abbreviation i64_max :: int where "i64_max \<equiv> 2 ^ 63 - 1"

abbreviation parse_i16 :: "string \<Rightarrow> int option" where "parse_i16 \<equiv> parse_signed i16_min i16_max"
abbreviation parse_i32 :: "string \<Rightarrow> int option" where "parse_i32 \<equiv> parse_signed i32_min i32_max"
abbreviation parse_i64 :: "string \<Rightarrow> int option" where "parse_i64 \<equiv> parse_signed i64_min i64_max"

text \<open>\<open>i64::saturating_add\<close>.\<close>

definition saturating_add_i64 :: "int \<Rightarrow> int \<Rightarrow> int" where
  "saturating_add_i64 a b = max i64_min (min i64_max (a + b))"

lemma digit_char_props:
  assumes "n < 10"
  shows "is_ascii_digit (digit_char n)" and "digit_val (digit_char n) = n"
  using assms
  by (simp_all add: is_ascii_digit_def digit_char_def digit_val_def byte_of_def of_char_of)

lemma show_nat_not_Nil [simp]: "show_nat n \<noteq> []"
  by (subst show_nat.simps) simp

lemma show_nat_digits: "list_all is_ascii_digit (show_nat n)"
proof (induction n rule: show_nat.induct)
  case (1 n)
  then show ?case
    by (subst show_nat.simps) (simp add: digit_char_props)
qed

lemma digits_value_snoc: "digits_value (s @ [c]) = 10 * digits_value s + digit_val c"
  by (simp add: digits_value_def)

lemma digits_value_show_nat [simp]: "digits_value (show_nat n) = n"
proof (induction n rule: show_nat.induct)
  case (1 n)
  show ?case
  proof (cases "n < 10")
    case True
    then show ?thesis
      by (subst show_nat.simps) (simp add: digits_value_def digit_char_props)
  next
    case False
    with 1 show ?thesis
      by (subst show_nat.simps) (simp add: digits_value_snoc digit_char_props)
  qed
qed

lemma show_nat_inj [simp]: "show_nat m = show_nat n \<longleftrightarrow> m = n"
  by (metis digits_value_show_nat)

lemma hd_show_nat_no_sign:
  "\<exists>c cs. show_nat n = c # cs \<and> c \<noteq> CHR ''-'' \<and> c \<noteq> CHR ''+''"
proof -
  obtain c cs where c: "show_nat n = c # cs" by (cases "show_nat n") auto
  then have "is_ascii_digit c" using show_nat_digits [of n] by simp
  then have "c \<noteq> CHR ''-''" and "c \<noteq> CHR ''+''"
    by (auto simp: is_ascii_digit_def byte_of_def)
  with c show ?thesis by blast
qed

lemma parse_signed_show_int [str_simps]:
  assumes "lo \<le> i" and "i \<le> hi"
  shows "parse_signed lo hi (show_int i) = Some i"
proof (cases "i < 0")
  case True
  then show ?thesis using assms
    by (simp add: parse_signed_def show_int_def show_nat_digits)
next
  case False
  moreover obtain c cs where c: "show_nat (nat i) = c # cs" "c \<noteq> CHR ''-''" "c \<noteq> CHR ''+''"
    using hd_show_nat_no_sign by blast
  moreover have "list_all is_ascii_digit (c # cs)" and "digits_value (c # cs) = nat i"
    using show_nat_digits [of "nat i"] digits_value_show_nat [of "nat i"] c by simp_all
  ultimately show ?thesis using assms by (simp add: parse_signed_def show_int_def)
qed

lemma show_int_inj [simp]: "show_int i = show_int j \<longleftrightarrow> i = j"
proof
  assume "show_int i = show_int j"
  then have "parse_signed (min i j) (max i j) (show_int i) = parse_signed (min i j) (max i j) (show_int j)"
    by simp
  then show "i = j" by (simp add: parse_signed_show_int)
qed simp

lemma parse_signed_range: "parse_signed lo hi s = Some v \<Longrightarrow> lo \<le> v \<and> v \<le> hi"
  by (auto simp: parse_signed_def Let_def split: if_splits prod.splits)

lemma parse_signed_mono:
  "parse_signed lo hi s = Some v \<Longrightarrow> lo' \<le> lo \<Longrightarrow> hi \<le> hi' \<Longrightarrow> parse_signed lo' hi' s = Some v"
  by (auto simp: parse_signed_def Let_def split: if_splits prod.splits)

lemma parse_signed_show_int_iff:
  "parse_signed lo hi (show_int i) = (if lo \<le> i \<and> i \<le> hi then Some i else None)"
proof (cases "parse_signed lo hi (show_int i)")
  case None
  then show ?thesis by (auto simp: parse_signed_show_int)
next
  case (Some v)
  then have "parse_signed (min lo i) (max hi i) (show_int i) = Some v" by (rule parse_signed_mono) auto
  then have "v = i" by (simp add: parse_signed_show_int)
  then show ?thesis using Some parse_signed_range [OF Some] by simp
qed

lemma show_int_chars: "set (show_int i) \<subseteq> insert (CHR ''-'') {c. is_ascii_digit c}"
  using show_nat_digits [of "nat (- i)"] show_nat_digits [of "nat i"]
  by (auto simp: show_int_def list_all_iff)

lemma show_int_not_Nil [simp]: "show_int i \<noteq> []"
  by (simp add: show_int_def)

lemma show_int_no_char [simp]:
  assumes "\<not> is_ascii_digit c" and "c \<noteq> CHR ''-''"
  shows "c \<notin> set (show_int i)"
  using assms show_int_chars [of i] by auto

lemma is_ascii_digit_punct [simp]:
  "\<not> is_ascii_digit (CHR '','')" "\<not> is_ascii_digit (CHR '':'')" "\<not> is_ascii_digit (CHR ''='')"
  "\<not> is_ascii_digit (CHR ''.'')" "\<not> is_ascii_digit (CHR ''-'')" "\<not> is_ascii_digit (CHR ''+'')"
  by (simp_all add: is_ascii_digit_def byte_of_def)

section \<open>Ordered maps and sets\<close>

text \<open>
  \<open>BTreeMap<K, V>\<close> is the list of its entries in the order it iterates them: strictly
  increasing keys. \<open>get\<close> is \<^const>\<open>map_of\<close>.
\<close>

type_synonym ('k, 'v) btmap = "('k \<times> 'v) list"

definition bt_ok :: "('k::linorder, 'v) btmap \<Rightarrow> bool" where
  "bt_ok m \<longleftrightarrow> sorted_wrt (<) (map fst m)"

fun bt_insert :: "'k::linorder \<Rightarrow> 'v \<Rightarrow> ('k, 'v) btmap \<Rightarrow> ('k, 'v) btmap" where
  "bt_insert k v [] = [(k, v)]"
| "bt_insert k v ((k', v') # m) =
     (if k < k' then (k, v) # (k', v') # m
      else if k = k' then (k, v) # m
      else (k', v') # bt_insert k v m)"

definition bt_remove :: "'k::linorder \<Rightarrow> ('k, 'v) btmap \<Rightarrow> ('k, 'v) btmap" where
  "bt_remove k m = filter (\<lambda>e. fst e \<noteq> k) m"

text \<open>\<open>into_iter().collect::<BTreeMap<_, _>>()\<close>: a later entry replaces an earlier one.\<close>

definition bt_of_list :: "('k::linorder \<times> 'v) list \<Rightarrow> ('k, 'v) btmap" where
  "bt_of_list xs = foldl (\<lambda>m e. bt_insert (fst e) (snd e) m) [] xs"

text \<open>\<open>BTreeSet<T>\<close> is the increasing list of its elements.\<close>

definition bs_of_list :: "'a::linorder list \<Rightarrow> 'a list" where
  "bs_of_list xs = sort (remdups xs)"

lemma bt_ok_Nil [simp]: "bt_ok []"
  by (simp add: bt_ok_def)

lemma bt_ok_Cons [simp]: "bt_ok ((k, v) # m) \<longleftrightarrow> (\<forall>k' \<in> fst ` set m. k < k') \<and> bt_ok m"
  by (auto simp: bt_ok_def)

lemma fst_set_bt_insert [bt_simps]: "fst ` set (bt_insert k v m) = insert k (fst ` set m)"
  by (induction k v m rule: bt_insert.induct) (simp_all add: insert_commute)

lemma bt_ok_insert [simp, intro]: "bt_ok m \<Longrightarrow> bt_ok (bt_insert k v m)"
  by (induction m) (force simp: bt_simps)+

lemma map_of_not_below: "\<forall>k' \<in> fst ` set m. k < (k' :: 'a::linorder) \<Longrightarrow> map_of m k = None"
  by (metis less_irrefl map_of_eq_None_iff)

lemma map_of_bt_insert [bt_simps]: "bt_ok m \<Longrightarrow> map_of (bt_insert k v m) = (map_of m)(k \<mapsto> v)"
proof (induction m)
  case (Cons e m)
  obtain k' v' where e: "e = (k', v')" by (cases e)
  from Cons.prems e have m: "bt_ok m" "\<forall>k'' \<in> fst ` set m. k' < k''" by auto
  then show ?case using Cons.IH [OF m(1)] e
    by (auto simp: fun_eq_iff)
qed simp

lemma bt_ok_distinct: "bt_ok m \<Longrightarrow> distinct (map fst m)"
  by (simp add: bt_ok_def strict_sorted_iff)

lemma bt_ok_sorted: "bt_ok m \<Longrightarrow> sorted (map fst m)"
  by (auto simp: bt_ok_def intro: sorted_wrt_mono_rel [rotated])

lemma bt_ok_filter [simp, intro]: "bt_ok m \<Longrightarrow> bt_ok (filter P m)"
  by (induction m) auto

lemma bt_ok_remove [simp, intro]: "bt_ok m \<Longrightarrow> bt_ok (bt_remove k m)"
  by (simp add: bt_remove_def)

lemma map_of_bt_remove [bt_simps]: "map_of (bt_remove k m) = (map_of m)(k := None)"
  by (induction m) (auto simp: bt_remove_def fun_eq_iff)

lemma bt_ok_map_val [simp]: "bt_ok (map (\<lambda>(k, v). (k, f k v)) m) \<longleftrightarrow> bt_ok m"
  by (simp add: bt_ok_def comp_def case_prod_beta)

lemma map_of_map_val: "map_of (map (\<lambda>(k, v). (k, f k v)) m) k = map_option (f k) (map_of m k)"
  by (induction m) auto

lemma bs_of_list_set [simp]: "set (bs_of_list xs) = set xs"
  by (simp add: bs_of_list_def)

lemma bs_of_list_sorted [simp]: "sorted (bs_of_list xs)"
  by (simp add: bs_of_list_def)

lemma bs_of_list_distinct [simp]: "distinct (bs_of_list xs)"
  by (simp add: bs_of_list_def)

lemma bs_of_list_Nil_iff [simp]: "bs_of_list xs = [] \<longleftrightarrow> xs = []"
  by (metis bs_of_list_set set_empty)

text \<open>
  The interface that the clients of an ordered map rely on. \<open>of_list\<close> stands for a loop of
  insertions, so what it holds follows from the laws of a single one.
\<close>

locale ordered_map =
  fixes empty :: 'm
    and insert :: "'k::linorder \<Rightarrow> 'v \<Rightarrow> 'm \<Rightarrow> 'm"
    and get :: "'m \<Rightarrow> 'k \<Rightarrow> 'v option"
    and keys :: "'m \<Rightarrow> 'k list"
    and ok :: "'m \<Rightarrow> bool"
  assumes ok_empty: "ok empty"
    and ok_insert: "ok m \<Longrightarrow> ok (insert k v m)"
    and get_empty: "get empty = (\<lambda>_. None)"
    and get_insert: "ok m \<Longrightarrow> get (insert k v m) = (get m)(k \<mapsto> v)"
    and keys_dom: "ok m \<Longrightarrow> set (keys m) = dom (get m)"
    and keys_sorted: "ok m \<Longrightarrow> sorted_wrt (<) (keys m)"
begin

lemma ok_fold: "ok m \<Longrightarrow> ok (foldl (\<lambda>m e. insert (fst e) (snd e) m) m xs)"
  by (induction xs arbitrary: m) (auto simp: ok_insert)

lemma get_fold:
  "ok m \<Longrightarrow> get (foldl (\<lambda>m e. insert (fst e) (snd e) m) m xs) = get m ++ map_of (rev xs)"
proof (induction xs arbitrary: m)
  case (Cons e xs)
  then show ?case
    by (auto simp: ok_insert get_insert fun_eq_iff map_add_def split: option.splits)
qed simp

lemma get_of_list: "get (foldl (\<lambda>m e. insert (fst e) (snd e) m) empty xs) = map_of (rev xs)"
  by (simp add: get_fold ok_empty get_empty)

lemma keys_of_list: "set (keys (foldl (\<lambda>m e. insert (fst e) (snd e) m) empty xs)) = fst ` set xs"
  by (simp add: keys_dom ok_fold ok_empty get_of_list dom_map_of_conv_image_fst)

lemma keys_unique:
  assumes "ok m" and "ok m'" and "get m = get m'"
  shows "keys m = keys m'"
proof -
  have "sorted (keys m)" "distinct (keys m)" "sorted (keys m')" "distinct (keys m')"
    using keys_sorted [OF assms(1)] keys_sorted [OF assms(2)]
    by (auto simp: strict_sorted_iff)
  moreover have "set (keys m) = set (keys m')"
    using assms by (simp add: keys_dom)
  ultimately show ?thesis by (rule sorted_distinct_set_unique)
qed

end

interpretation bt: ordered_map "[]" bt_insert map_of "map fst" bt_ok
proof
  fix m :: "('a::linorder, 'b) btmap"
  assume m: "bt_ok m"
  show "set (map fst m) = dom (map_of m)" by (simp add: dom_map_of_conv_image_fst)
  show "sorted_wrt (<) (map fst m)" using m by (simp add: bt_ok_def)
qed (auto simp: bt_simps)

lemma bt_ok_of_list [simp]: "bt_ok (bt_of_list xs)"
  unfolding bt_of_list_def by (rule bt.ok_fold) simp

lemma map_of_bt_of_list [bt_simps]: "map_of (bt_of_list xs) = map_of (rev xs)"
  unfolding bt_of_list_def by (rule bt.get_of_list)

lemma fst_set_bt_of_list [bt_simps]: "fst ` set (bt_of_list xs) = fst ` set xs"
  using bt.keys_of_list [of xs] by (simp add: bt_of_list_def)

lemma map_of_rev_distinct: "distinct (map fst xs) \<Longrightarrow> map_of (rev xs) = map_of xs"
proof (induction xs)
  case (Cons e xs)
  then have "map_of xs (fst e) = None"
    by (simp add: map_of_eq_None_iff)
  with Cons show ?case
    by (auto simp: fun_eq_iff map_add_def split: option.splits)
qed simp

lemma map_of_bt_of_list_distinct: "distinct (map fst xs) \<Longrightarrow> map_of (bt_of_list xs) = map_of xs"
  by (simp add: bt_simps map_of_rev_distinct)

text \<open>Entries whose value is a function of the key: their order does not matter.\<close>

lemma map_of_functional:
  assumes "\<And>k v. (k, v) \<in> set xs \<Longrightarrow> g k = Some v"
  shows "map_of xs k = (if k \<in> fst ` set xs then g k else None)"
proof (cases "map_of xs k")
  case None
  then show ?thesis by (simp add: map_of_eq_None_iff)
next
  case (Some v)
  then have "(k, v) \<in> set xs" by (rule map_of_SomeD)
  with Some assms show ?thesis by force
qed

section \<open>Maps of maps\<close>

text \<open>
  \<open>BTreeMap<K, BTreeMap<A, V>>\<close> as the sources fill it, with \<open>entry(k).or_default().insert(a, v)\<close>:
  an ordered map from pairs of keys.
\<close>

type_synonym ('k, 'a, 'v) btmap2 = "('k, ('a, 'v) btmap) btmap"

definition nested_entry :: "'k::linorder \<Rightarrow> ('k, 'a, 'v) btmap2 \<Rightarrow> ('a, 'v) btmap" where
  "nested_entry k m = (case map_of m k of Some inner \<Rightarrow> inner | None \<Rightarrow> [])"

definition nested_insert ::
    "'k::linorder \<times> 'a::linorder \<Rightarrow> 'v \<Rightarrow> ('k, 'a, 'v) btmap2 \<Rightarrow> ('k, 'a, 'v) btmap2" where
  "nested_insert ka v m = bt_insert (fst ka) (bt_insert (snd ka) v (nested_entry (fst ka) m)) m"

definition nested_get :: "('k::linorder, 'a::linorder, 'v) btmap2 \<Rightarrow> 'k \<times> 'a \<Rightarrow> 'v option" where
  "nested_get m ka = map_of (nested_entry (fst ka) m) (snd ka)"

definition nested_keys :: "('k, 'a, 'v) btmap2 \<Rightarrow> ('k \<times> 'a) list" where
  "nested_keys m = concat (map (\<lambda>(k, inner). map (\<lambda>e. (k, fst e)) inner) m)"

definition nested_ok :: "('k::linorder, 'a::linorder, 'v) btmap2 \<Rightarrow> bool" where
  "nested_ok m \<longleftrightarrow> bt_ok m \<and> list_all (\<lambda>e. bt_ok (snd e)) m"

lemma nested_entry_ok: "nested_ok m \<Longrightarrow> bt_ok (nested_entry k m)"
  by (force simp: nested_ok_def nested_entry_def list_all_iff split: option.split dest: map_of_SomeD)

lemma set_bt_insert: "set (bt_insert k v m) \<subseteq> insert (k, v) (set m)"
  by (induction m) (auto split: if_splits)

lemma nested_ok_insert: "nested_ok m \<Longrightarrow> nested_ok (nested_insert ka v m)"
proof -
  assume m: "nested_ok m"
  have "bt_ok (bt_insert (snd ka) v (nested_entry (fst ka) m))"
    using nested_entry_ok [OF m] by (rule bt_ok_insert)
  with m show ?thesis
    using set_bt_insert [of "fst ka" "bt_insert (snd ka) v (nested_entry (fst ka) m)" m]
    by (auto simp: nested_ok_def nested_insert_def list_all_iff)
qed

lemma nested_get_insert: "nested_ok m \<Longrightarrow> nested_get (nested_insert ka v m) = (nested_get m)(ka \<mapsto> v)"
proof -
  assume m: "nested_ok m"
  then have "bt_ok m" by (simp add: nested_ok_def)
  then show ?thesis
    using nested_entry_ok [OF m]
    by (cases ka) (auto simp: fun_eq_iff nested_get_def nested_insert_def nested_entry_def map_of_bt_insert
        split: option.splits)
qed

lemma nested_keys_sorted: "nested_ok m \<Longrightarrow> sorted_wrt (<) (nested_keys m)"
proof (induction m)
  case (Cons e m)
  obtain k inner where e: "e = (k, inner)" by (cases e)
  have inner: "sorted_wrt (<) (map (\<lambda>e. (k, fst e)) inner)"
    using Cons.prems by (simp add: e nested_ok_def bt_ok_def sorted_wrt_map)
  have "nested_ok m" using Cons.prems by (simp add: e nested_ok_def)
  moreover have "fst x < fst y" if "x \<in> set (map (\<lambda>e. (k, fst e)) inner)" "y \<in> set (nested_keys m)" for x y
    using that Cons.prems by (force simp: e nested_ok_def nested_keys_def)
  then have "x < y" if "x \<in> set (map (\<lambda>e. (k, fst e)) inner)" "y \<in> set (nested_keys m)" for x y
    using that by (cases x; cases y) fastforce
  moreover have "nested_keys (e # m) = map (\<lambda>e. (k, fst e)) inner @ nested_keys m"
    by (simp add: e nested_keys_def)
  ultimately show ?case using Cons.IH inner by (simp only: sorted_wrt_append) blast
qed (simp add: nested_keys_def)

lemma nested_keys_dom: "nested_ok m \<Longrightarrow> set (nested_keys m) = dom (nested_get m)"
proof -
  assume "nested_ok m"
  then have d: "distinct (map fst m)" by (simp add: nested_ok_def bt_ok_distinct)
  have "(k, a) \<in> set (nested_keys m) \<longleftrightarrow> (k, a) \<in> dom (nested_get m)" for k a
  proof -
    have "(k, a) \<in> set (nested_keys m) \<longleftrightarrow> (\<exists>inner. (k, inner) \<in> set m \<and> a \<in> fst ` set inner)"
      by (force simp: nested_keys_def)
    also have "\<dots> \<longleftrightarrow> (\<exists>inner. map_of m k = Some inner \<and> a \<in> dom (map_of inner))"
      using d by (auto simp: dom_map_of_conv_image_fst)
    also have "\<dots> \<longleftrightarrow> (k, a) \<in> dom (nested_get m)"
      by (auto simp: nested_get_def nested_entry_def dom_def split: option.splits)
    finally show ?thesis .
  qed
  then show ?thesis by auto
qed

interpretation nested: ordered_map "[]" nested_insert nested_get nested_keys nested_ok
proof
  show "nested_ok []" by (simp add: nested_ok_def)
  show "nested_get [] = (\<lambda>_. None)" by (simp add: nested_get_def nested_entry_def fun_eq_iff)
qed (simp_all add: nested_ok_insert nested_get_insert nested_keys_sorted nested_keys_dom)

end
