(* ===== verification/Jvm.thy ===== *)
theory Jvm
  imports Prelude
begin

unbundle bit_operations_syntax

text \<open>
  \<^verbatim>\<open>crates/krabka-cli/src/jvm.rs\<close> and \<^verbatim>\<open>topic_partition.rs\<close>: Java's hash codes, the iteration
  order of a \<open>java.util.HashMap\<close>, and \<open>Integer.parseInt\<close>. An \<open>i32\<close> hash is a \<^typ>\<open>32 word\<close>,
  on which Rust's wrapping operations are the word operations; a \<open>usize\<close> is a \<^typ>\<open>nat\<close>.
\<close>

section \<open>Hash codes\<close>

text \<open>
  \<open>str::encode_utf16\<close>: the Unicode scalar values of the UTF-8 bytes, then their UTF-16 code
  units. Every \<open>str\<close> is valid UTF-8, so the byte after a leading byte is its continuation.
\<close>

fun scalars :: "nat list \<Rightarrow> nat list" where
  "scalars [] = []"
| "scalars (a # as) =
     (if a < 192 then a # scalars as
      else if a < 224 then
        (case as of b # bs \<Rightarrow> ((a - 192) * 64 + (b - 128)) # scalars bs | _ \<Rightarrow> [])
      else if a < 240 then
        (case as of b # c # cs \<Rightarrow> ((a - 224) * 4096 + (b - 128) * 64 + (c - 128)) # scalars cs | _ \<Rightarrow> [])
      else
        (case as of b # c # d # ds \<Rightarrow>
           ((a - 240) * 262144 + (b - 128) * 4096 + (c - 128) * 64 + (d - 128)) # scalars ds | _ \<Rightarrow> []))"

definition utf16_units :: "nat \<Rightarrow> nat list" where
  "utf16_units u =
     (if u < 65536 then [u] else [55296 + (u - 65536) div 1024, 56320 + (u - 65536) mod 1024])"

definition encode_utf16 :: "string \<Rightarrow> nat list" where
  "encode_utf16 s = concat (map utf16_units (scalars (map byte_of s)))"

definition string_hash :: "string \<Rightarrow> 32 word" where
  "string_hash value = foldl (\<lambda>hash unit. hash * 31 + of_nat unit) 0 (encode_utf16 value)"

definition integer_hash :: "int \<Rightarrow> 32 word" where
  "integer_hash value = word_of_int value"

definition topic_partition_hash :: "string \<Rightarrow> int \<Rightarrow> 32 word" where
  "topic_partition_hash topic index = 31 * (31 + word_of_int index) + string_hash topic"

section \<open>Topic partitions\<close>

text \<open>\<open>TopicPartition\<close>, with the derived order: the topic name, then the partition index.\<close>

datatype TopicPartition = TopicPartition (tp_topic: string) (tp_partition: int)

instantiation TopicPartition :: linorder
begin

definition less_eq_TopicPartition :: "TopicPartition \<Rightarrow> TopicPartition \<Rightarrow> bool" where
  "less_eq_TopicPartition a b \<longleftrightarrow> (tp_topic a, tp_partition a) \<le> (tp_topic b, tp_partition b)"

definition less_TopicPartition :: "TopicPartition \<Rightarrow> TopicPartition \<Rightarrow> bool" where
  "less_TopicPartition a b \<longleftrightarrow> (tp_topic a, tp_partition a) < (tp_topic b, tp_partition b)"

instance
proof
  fix x y :: TopicPartition
  show "x < y \<longleftrightarrow> x \<le> y \<and> \<not> y \<le> x"
    by (auto simp: less_eq_TopicPartition_def less_TopicPartition_def)
  show "x \<le> x" by (simp add: less_eq_TopicPartition_def)
  show "x \<le> y \<or> y \<le> x" by (auto simp: less_eq_TopicPartition_def)
  show "x \<le> y \<Longrightarrow> y \<le> x \<Longrightarrow> x = y"
    by (cases x; cases y) (auto simp: less_eq_TopicPartition_def)
next
  fix x y z :: TopicPartition
  show "x \<le> y \<Longrightarrow> y \<le> z \<Longrightarrow> x \<le> z"
    unfolding less_eq_TopicPartition_def by (rule order_trans)
qed

end

definition java_hash :: "TopicPartition \<Rightarrow> 32 word" where
  "java_hash p = topic_partition_hash (tp_topic p) (tp_partition p)"

text \<open>\<open>Display\<close> of a partition: \<open>topic-partition\<close>.\<close>

definition show_tp :: "TopicPartition \<Rightarrow> string" where
  "show_tp p = tp_topic p @ ''-'' @ show_int (tp_partition p)"

definition join_tp :: "string \<Rightarrow> TopicPartition list \<Rightarrow> string" where
  "join_tp separator partitions = join_with separator (map show_tp partitions)"

section \<open>The iteration order of a hash table\<close>

definition MAXIMUM_CAPACITY :: nat where "MAXIMUM_CAPACITY = 2 ^ 30"
definition TREEIFY_THRESHOLD :: nat where "TREEIFY_THRESHOLD = 8"
definition MIN_TREEIFY_CAPACITY :: nat where "MIN_TREEIFY_CAPACITY = 64"

datatype Table = Default | WithCapacity nat | Copy | HashSetCopy

text \<open>\<open>usize::next_power_of_two\<close> of a positive number.\<close>

function next_power_of_two_from :: "nat \<Rightarrow> nat \<Rightarrow> nat" where
  "next_power_of_two_from p n = (if p < n \<and> 0 < p then next_power_of_two_from (2 * p) n else p)"
  by pat_completeness auto
termination by (relation "measure (\<lambda>(p, n). n - p)") auto

declare next_power_of_two_from.simps [simp del]

definition table_size_for :: "nat \<Rightarrow> nat" where
  "table_size_for wanted = min (next_power_of_two_from 1 (max wanted 1)) MAXIMUM_CAPACITY"

definition capacity_for :: "nat \<Rightarrow> nat" where
  "capacity_for entries = (entries * 4 + 2) div 3"

fun initial_capacity :: "Table \<Rightarrow> nat \<Rightarrow> nat" where
  "initial_capacity Default entries = 16"
| "initial_capacity (WithCapacity initial) entries = table_size_for initial"
| "initial_capacity Copy entries = table_size_for (capacity_for entries)"
| "initial_capacity HashSetCopy entries = table_size_for (capacity_for (max entries 12))"

text \<open>\<open>hash ^ (hash >> 16)\<close> on the unsigned hash.\<close>

definition spread :: "32 word \<Rightarrow> nat" where
  "spread hash = unat (hash XOR drop_bit 16 hash)"

text \<open>The bin of a spread hash in a table of \<open>capacity\<close> bins, \<open>spread & (capacity - 1)\<close>.\<close>

definition bin_of :: "nat \<Rightarrow> nat \<Rightarrow> nat" where
  "bin_of capacity s = s AND (capacity - 1)"

definition push_bin :: "nat \<Rightarrow> nat \<Rightarrow> nat list list \<Rightarrow> nat list list" where
  "push_bin bin index bins = bins[bin := bins ! bin @ [index]]"

definition resize :: "nat list \<Rightarrow> nat list list \<Rightarrow> nat \<Rightarrow> nat list list" where
  "resize spreads bins capacity =
     foldl (\<lambda>resized index. push_bin (bin_of capacity (spreads ! index)) index resized)
       (replicate capacity []) (concat bins)"

text \<open>One round of the insertion loop: push, then the two reasons to grow.\<close>

definition treeify_resize :: "nat list \<Rightarrow> nat \<Rightarrow> nat \<times> nat list list \<Rightarrow> nat \<times> nat list list" where
  "treeify_resize spreads bin st =
     (case st of (capacity, bins) \<Rightarrow>
        if TREEIFY_THRESHOLD < length (bins ! bin) \<and> capacity < MIN_TREEIFY_CAPACITY
        then (capacity * 2, resize spreads bins (capacity * 2)) else (capacity, bins))"

definition threshold_resize :: "nat list \<Rightarrow> nat \<Rightarrow> nat \<times> nat list list \<Rightarrow> nat \<times> nat list list" where
  "threshold_resize spreads index st =
     (case st of (capacity, bins) \<Rightarrow>
        if capacity div 4 * 3 + capacity mod 4 * 3 div 4 < index + 1 \<and> capacity < MAXIMUM_CAPACITY
        then (capacity * 2, resize spreads bins (capacity * 2)) else (capacity, bins))"

definition insert_step :: "nat list \<Rightarrow> nat \<times> nat list list \<Rightarrow> nat \<Rightarrow> nat \<times> nat list list" where
  "insert_step spreads st index =
     (case st of (capacity, bins) \<Rightarrow>
        let bin = bin_of capacity (spreads ! index)
        in threshold_resize spreads index
             (treeify_resize spreads bin (capacity, push_bin bin index bins)))"

definition hash_table :: "nat list \<Rightarrow> Table \<Rightarrow> nat \<times> nat list list" where
  "hash_table spreads table =
     (let capacity = initial_capacity table (length spreads)
      in foldl (insert_step spreads) (capacity, replicate capacity []) [0..<length spreads])"

definition hash_order :: "'a list \<Rightarrow> Table \<Rightarrow> ('a \<Rightarrow> 32 word) \<Rightarrow> 'a list" where
  "hash_order keys table hash =
     map (\<lambda>index. keys ! index) (concat (snd (hash_table (map (spread \<circ> hash) keys) table)))"

definition order_in_table :: "'a list \<Rightarrow> nat \<Rightarrow> ('a \<Rightarrow> 32 word) \<Rightarrow> 'a list" where
  "order_in_table keys capacity hash = sort_key (\<lambda>key. bin_of capacity (spread (hash key))) keys"

function default_capacity_from :: "nat \<Rightarrow> nat \<Rightarrow> nat" where
  "default_capacity_from capacity entries =
     (if capacity div 4 * 3 < entries \<and> capacity < MAXIMUM_CAPACITY \<and> 0 < capacity
      then default_capacity_from (capacity * 2) entries else capacity)"
  by pat_completeness auto
termination by (relation "measure (\<lambda>(c, n). MAXIMUM_CAPACITY - c)") auto

declare default_capacity_from.simps [simp del]

definition default_capacity :: "nat \<Rightarrow> nat" where
  "default_capacity entries = default_capacity_from 16 entries"

text \<open>The first occurrence of each value, in order, then the order of a default table.\<close>

fun push_unique :: "'a list \<Rightarrow> 'a list \<Rightarrow> 'a list" where
  "push_unique unique [] = unique"
| "push_unique unique (x # xs) = push_unique (if x \<in> set unique then unique else unique @ [x]) xs"

definition hash_set_order :: "'a list \<Rightarrow> ('a \<Rightarrow> 32 word) \<Rightarrow> 'a list" where
  "hash_set_order values hash = hash_order (push_unique [] values) Default hash"

section \<open>Printing and parsing\<close>

definition collection_to_string :: "('a \<Rightarrow> string) \<Rightarrow> 'a list \<Rightarrow> string" where
  "collection_to_string display values = ''['' @ join_with '', '' (map display values) @ '']''"

definition input_string_error :: "string \<Rightarrow> string" where
  "input_string_error value = ''For input string: \"'' @ value @ ''\"''"

definition parse_int :: "string \<Rightarrow> int res" where
  "parse_int value =
     (let digits = (case value of
            c # cs \<Rightarrow> if c = CHR ''-'' \<or> c = CHR ''+'' then cs else value
          | [] \<Rightarrow> value)
      in if digits = [] \<or> \<not> list_all is_ascii_digit digits then Inl (input_string_error value)
         else ok_or (input_string_error value) (parse_i32 value))"

section \<open>Capacities are powers of two\<close>

definition pow2 :: "nat \<Rightarrow> bool" where
  "pow2 n \<longleftrightarrow> (\<exists>k. n = 2 ^ k)"

lemma pow2_pos: "pow2 n \<Longrightarrow> 0 < n"
  by (auto simp: pow2_def)

lemma pow2_double: "pow2 n \<Longrightarrow> pow2 (n * 2)"
  by (auto simp: pow2_def intro: exI [of _ "Suc _"])

lemma next_power_of_two_from_pow2: "pow2 p \<Longrightarrow> pow2 (next_power_of_two_from p n)"
proof (induction p n rule: next_power_of_two_from.induct)
  case (1 p n)
  then show ?case
    by (subst next_power_of_two_from.simps) (auto simp: mult.commute [of 2] intro: pow2_double)
qed

lemma table_size_for_pow2: "pow2 (table_size_for n)"
proof -
  have "pow2 1" and "pow2 MAXIMUM_CAPACITY"
    unfolding MAXIMUM_CAPACITY_def pow2_def by (metis power_0, blast)
  then show ?thesis
    by (simp add: table_size_for_def min_def next_power_of_two_from_pow2)
qed

lemma initial_capacity_pow2: "pow2 (initial_capacity table n)"
proof (cases table)
  case Default
  have "(16 :: nat) = 2 ^ 4" by simp
  then show ?thesis unfolding Default initial_capacity.simps pow2_def by blast
qed (auto simp: table_size_for_pow2)

lemma bin_of_pow2: "pow2 c \<Longrightarrow> bin_of c s = s mod c"
proof -
  assume "pow2 c"
  then obtain k where k: "c = 2 ^ k" by (auto simp: pow2_def)
  have "c - 1 = mask k" by (simp add: k mask_eq_exp_minus_1)
  then show ?thesis by (simp add: bin_of_def k flip: take_bit_eq_mask take_bit_eq_mod)
qed

lemma bin_of_less: "pow2 c \<Longrightarrow> bin_of c s < c"
  by (simp add: bin_of_pow2 pow2_pos)

lemma bin_of_double: "pow2 c \<Longrightarrow> bin_of (c * 2) s mod c = bin_of c s"
  by (simp add: bin_of_pow2 pow2_double mod_mod_cancel)

section \<open>The table invariant\<close>

text \<open>
  After the first \<open>n\<close> keys each bin holds the indexes of its keys, in insertion order.
\<close>

definition table_inv :: "nat list \<Rightarrow> nat \<Rightarrow> nat \<times> nat list list \<Rightarrow> bool" where
  "table_inv spreads n st \<longleftrightarrow>
     (case st of (c, bins) \<Rightarrow> pow2 c \<and> length bins = c \<and>
        (\<forall>b < c. bins ! b = filter (\<lambda>i. bin_of c (spreads ! i) = b) [0..<n]))"

lemma push_bin_length [simp]: "length (push_bin b i bins) = length bins"
  by (simp add: push_bin_def)

lemma push_bin_nth:
  "b < length bins \<Longrightarrow> push_bin b i bins ! b' = (if b' = b then bins ! b @ [i] else bins ! b')"
  by (simp add: push_bin_def)

lemma push_bins_fold:
  fixes f :: "nat \<Rightarrow> nat"
  assumes "\<forall>i \<in> set xs. f i < length bins"
  shows "length (foldl (\<lambda>r i. push_bin (f i) i r) bins xs) = length bins"
    and "b < length bins \<Longrightarrow>
      foldl (\<lambda>r i. push_bin (f i) i r) bins xs ! b = bins ! b @ filter (\<lambda>i. f i = b) xs"
  using assms by (induction xs arbitrary: bins) (auto simp: push_bin_nth)

lemma filter_concat_single:
  assumes "c < length xss" and "\<And>c'. c' < length xss \<Longrightarrow> c' \<noteq> c \<Longrightarrow> filter P (xss ! c') = []"
  shows "filter P (concat xss) = filter P (xss ! c)"
  using assms
proof (induction xss arbitrary: c)
  case (Cons xs xss)
  show ?case
  proof (cases c)
    case 0
    have "filter P (xss ! i) = []" if "i < length xss" for i
      using Cons.prems(2) [of "Suc i"] that 0 by simp
    then have "\<forall>xs \<in> set xss. filter P xs = []"
      by (simp add: all_set_conv_all_nth)
    then have "filter P (concat xss) = []"
      by (auto simp: filter_empty_conv)
    with 0 show ?thesis by simp
  next
    case (Suc k)
    have "filter P xs = []" using Cons.prems(2) [of 0] Suc by simp
    moreover have "filter P (concat xss) = filter P (xss ! k)"
    proof (rule Cons.IH)
      show "k < length xss" using Cons.prems(1) Suc by simp
      show "filter P (xss ! c') = []" if "c' < length xss" and "c' \<noteq> k" for c'
        using Cons.prems(2) [of "Suc c'"] that Suc by simp
    qed
    ultimately show ?thesis using Suc by simp
  qed
qed simp

lemma resize_inv:
  assumes "table_inv spreads n (c, bins)"
  shows "table_inv spreads n (c * 2, resize spreads bins (c * 2))"
proof -
  let ?new = "\<lambda>i. bin_of (c * 2) (spreads ! i)"
  from assms have c: "pow2 c" and len: "length bins = c"
    and bins: "\<And>b. b < c \<Longrightarrow> bins ! b = filter (\<lambda>i. bin_of c (spreads ! i) = b) [0..<n]"
    by (auto simp: table_inv_def)
  have c2: "pow2 (c * 2)" by (rule pow2_double [OF c])
  have less: "\<forall>i \<in> set (concat bins). ?new i < length (replicate (c * 2) ([] :: nat list))"
    by (simp add: bin_of_less [OF c2])
  have "filter (\<lambda>i. ?new i = b) (concat bins) = filter (\<lambda>i. ?new i = b) [0..<n]" if b: "b < c * 2" for b
  proof -
    have old: "bin_of c (spreads ! i) = b mod c" if "?new i = b" for i
      using that bin_of_double [OF c, of "spreads ! i"] by simp
    have m: "b mod c < c" using pow2_pos [OF c] by simp
    have "filter (\<lambda>i. ?new i = b) (concat bins) = filter (\<lambda>i. ?new i = b) (bins ! (b mod c))"
      using m len old by (intro filter_concat_single) (auto simp: bins filter_empty_conv)
    also have "\<dots> = filter (\<lambda>i. ?new i = b) [0..<n]"
      using old by (auto simp: bins [OF m] intro!: filter_cong)
    finally show ?thesis .
  qed
  with c2 push_bins_fold [OF less] show ?thesis
    by (simp add: table_inv_def resize_def)
qed

lemma push_bin_inv:
  assumes "table_inv spreads n (c, bins)"
  shows "table_inv spreads (Suc n) (c, push_bin (bin_of c (spreads ! n)) n bins)"
  using assms by (auto simp: table_inv_def push_bin_nth bin_of_less)

lemma insert_step_inv:
  assumes "table_inv spreads n st"
  shows "table_inv spreads (Suc n) (insert_step spreads st n)"
proof -
  have keep: "table_inv spreads m (treeify_resize spreads b st')"
    "table_inv spreads m (threshold_resize spreads i st')" if "table_inv spreads m st'" for m b i st'
    using that by (auto simp: treeify_resize_def threshold_resize_def resize_inv split: prod.splits)
  show ?thesis using assms
    by (auto simp: insert_step_def Let_def intro!: keep push_bin_inv split: prod.splits)
qed

lemma hash_table_inv_upto:
  assumes "table_inv spreads 0 st"
  shows "table_inv spreads n (foldl (insert_step spreads) st [0..<n])"
  using assms by (induction n) (auto intro: insert_step_inv)

lemma hash_table_inv: "table_inv spreads (length spreads) (hash_table spreads table)"
  unfolding hash_table_def Let_def
  by (rule hash_table_inv_upto) (auto simp: table_inv_def initial_capacity_pow2)

section \<open>The order is that of the final table\<close>

lemma sort_key_buckets:
  fixes f :: "'a \<Rightarrow> nat"
  assumes "\<forall>x \<in> set xs. f x < m"
  shows "sort_key f xs = concat (map (\<lambda>b. filter (\<lambda>x. f x = b) xs) [0..<m])"
proof (rule properties_for_sort_key)
  have flt: "filter (\<lambda>x. k = f x) (concat (map (\<lambda>b. filter (\<lambda>x. f x = b) xs) [0..<m])) = filter (\<lambda>x. k = f x) xs"
    if "k < m" for k
  proof -
    have "filter (\<lambda>x. k = f x) (concat (map (\<lambda>b. filter (\<lambda>x. f x = b) xs) [0..<m])) =
        filter (\<lambda>x. k = f x) (map (\<lambda>b. filter (\<lambda>x. f x = b) xs) [0..<m] ! k)"
      using that by (intro filter_concat_single) (auto simp: filter_empty_conv)
    also have "\<dots> = filter (\<lambda>x. k = f x) xs"
      using that by (auto intro: filter_cong)
    finally show ?thesis .
  qed
  show "mset (concat (map (\<lambda>b. filter (\<lambda>x. f x = b) xs) [0..<m])) = mset xs"
  proof (rule multiset_eqI)
    fix x
    show "count (mset (concat (map (\<lambda>b. filter (\<lambda>x. f x = b) xs) [0..<m]))) x = count (mset xs) x"
    proof (cases "x \<in> set xs")
      case True
      then have "f x < m" using assms by simp
      from flt [OF this] have "filter_mset (\<lambda>y. f x = f y) (mset (concat (map (\<lambda>b. filter (\<lambda>x. f x = b) xs) [0..<m]))) = filter_mset (\<lambda>y. f x = f y) (mset xs)"
        by (metis mset_filter)
      then show ?thesis by (metis (mono_tags, lifting) count_filter_mset)
    qed (auto simp: count_eq_zero_iff [THEN iffD2] not_in_iff [symmetric])
  qed
  show "filter (\<lambda>x. f k = f x) (concat (map (\<lambda>b. filter (\<lambda>x. f x = b) xs) [0..<m])) = filter (\<lambda>x. f k = f x) xs"
    if "k \<in> set (concat (map (\<lambda>b. filter (\<lambda>x. f x = b) xs) [0..<m]))" for k
    using that assms by (intro flt) auto
  have "sorted (map f (concat (map (\<lambda>b. filter (\<lambda>x. f x = b) xs) [0..<n])))" for n
    by (induction n) (auto simp: sorted_append intro!: sorted_wrt_map_mono sorted_map_same)
  then show "sorted (map f (concat (map (\<lambda>b. filter (\<lambda>x. f x = b) xs) [0..<m])))" .
qed

lemma insort_key_map: "map f (insort_key (\<lambda>x. g (f x)) x xs) = insort_key g (f x) (map f xs)"
  by (induction xs) auto

lemma sort_key_map: "map f (sort_key (\<lambda>x. g (f x)) xs) = sort_key g (map f xs)"
  by (induction xs) (auto simp: insort_key_map)

lemma hash_order_eq:
  "hash_order keys table hash =
     order_in_table keys (fst (hash_table (map (spread \<circ> hash) keys) table)) hash"
proof -
  let ?s = "map (spread \<circ> hash) keys"
  obtain c bins where t: "hash_table ?s table = (c, bins)" by (cases "hash_table ?s table")
  let ?f = "\<lambda>i. bin_of c (spread (hash (keys ! i)))"
  from hash_table_inv [of ?s table] have inv: "pow2 c" "length bins = c"
      "\<And>b. b < c \<Longrightarrow> bins ! b = filter (\<lambda>i. bin_of c (?s ! i) = b) [0..<length keys]"
    by (auto simp: t table_inv_def)
  have "bins ! b = filter (\<lambda>i. ?f i = b) [0..<length keys]" if "b < c" for b
    unfolding inv(3) [OF that] by (rule filter_cong) auto
  with inv(2) have "bins = map (\<lambda>b. filter (\<lambda>i. ?f i = b) [0..<length keys]) [0..<c]"
    by (auto intro!: nth_equalityI)
  then have "concat bins = sort_key ?f [0..<length keys]"
    using sort_key_buckets [of "[0..<length keys]" ?f c] bin_of_less [OF inv(1)] by simp
  then have "hash_order keys table hash =
      map (\<lambda>i. keys ! i) (sort_key (\<lambda>i. bin_of c (spread (hash (keys ! i)))) [0..<length keys])"
    by (simp add: hash_order_def t)
  also have "\<dots> = sort_key (\<lambda>k. bin_of c (spread (hash k))) keys"
    by (simp add: sort_key_map [of "\<lambda>i. keys ! i" "\<lambda>k. bin_of c (spread (hash k))"] map_nth)
  finally show ?thesis by (simp add: order_in_table_def t)
qed
section \<open>What the clients of an order rely on\<close>

text \<open>
  What a client of an iteration order relies on: every key is printed, each as often as it
  was given.
\<close>

locale key_order =
  fixes order :: "'a list \<Rightarrow> 'a list"
  assumes order_mset: "mset (order xs) = mset xs"
begin

lemma order_set: "set (order xs) = set xs"
  by (metis order_mset set_mset_mset)

lemma order_length: "length (order xs) = length xs"
  by (metis order_mset size_mset)

lemma order_distinct: "distinct (order xs) \<longleftrightarrow> distinct xs"
  by (metis order_mset mset_eq_imp_distinct_iff)

lemma order_Nil: "order xs = [] \<longleftrightarrow> xs = []"
  by (metis order_length length_0_conv)

lemma order_map_of:
  fixes m :: "('b \<times> 'c) list"
  assumes "mset ys = mset m" and "distinct (map fst m)"
  shows "map_of ys = map_of m"
proof -
  have "distinct (map fst ys)"
    using assms by (metis mset_map mset_eq_imp_distinct_iff)
  moreover have "set ys = set m" using assms(1) by (rule mset_eq_setD)
  ultimately show ?thesis using assms(2) by (metis map_of_inject_set)
qed

end

interpretation tbl: key_order "\<lambda>keys. order_in_table keys capacity hash" for capacity hash
  by unfold_locales (simp add: order_in_table_def)

interpretation ho: key_order "\<lambda>keys. hash_order keys table hash" for table hash
  by unfold_locales (simp add: hash_order_eq tbl.order_mset)

lemma hash_order_single: "hash_order [x] table hash = [x]"
proof -
  have "mset (hash_order [x] table hash) = {#x#}" by (simp add: ho.order_mset)
  then show ?thesis by (simp add: mset_single_iff)
qed

section \<open>The capacity of a table\<close>

definition threshold :: "nat \<Rightarrow> nat" where
  "threshold c = c div 4 * 3 + c mod 4 * 3 div 4"

lemma threshold_eq: "threshold c = c * 3 div 4"
proof -
  have "c * 3 = c mod 4 * 3 + c div 4 * 3 * 4"
    by (metis add.commute add_mult_distrib div_mult_mod_eq mult.assoc mult.commute)
  then have "c * 3 div 4 = (c mod 4 * 3 + c div 4 * 3 * 4) div 4" by (rule arg_cong)
  also have "\<dots> = c div 4 * 3 + c mod 4 * 3 div 4" by (rule div_mult_self1) simp
  finally show ?thesis by (simp add: threshold_def)
qed

lemma threshold_double: "0 < c \<Longrightarrow> n \<le> threshold c \<Longrightarrow> Suc n \<le> threshold (c * 2)"
  unfolding threshold_eq by (cases "c = 1") (simp, linarith)

lemma threshold_mono_double: "threshold c \<le> threshold (c * 2)"
  unfolding threshold_eq by linarith

lemma insert_step_fst:
  "fst (insert_step spreads (c, bins) i) =
     (let c' = (if TREEIFY_THRESHOLD < length (push_bin (bin_of c (spreads ! i)) i bins ! bin_of c (spreads ! i))
                   \<and> c < MIN_TREEIFY_CAPACITY then c * 2 else c)
      in if threshold c' < Suc i \<and> c' < MAXIMUM_CAPACITY then c' * 2 else c')"
  by (auto simp: insert_step_def treeify_resize_def threshold_resize_def threshold_def Let_def)

lemma insert_step_load:
  assumes "0 < c" and "n \<le> threshold c \<or> MAXIMUM_CAPACITY \<le> c"
  shows "Suc n \<le> threshold (fst (insert_step spreads (c, bins) n)) \<or>
    MAXIMUM_CAPACITY \<le> fst (insert_step spreads (c, bins) n)"
proof -
  have "n \<le> threshold (c * 2) \<or> MAXIMUM_CAPACITY \<le> c * 2"
    using assms(2) threshold_mono_double [of c] by linarith
  then show ?thesis using assms threshold_double [of c n] threshold_double [of "c * 2" n]
    by (auto simp: insert_step_fst Let_def not_less)
qed

lemma hash_table_load_upto:
  assumes "table_inv spreads 0 st"
  shows "n \<le> threshold (fst (foldl (insert_step spreads) st [0..<n])) \<or>
    MAXIMUM_CAPACITY \<le> fst (foldl (insert_step spreads) st [0..<n])"
proof (induction n)
  case (Suc n)
  obtain c bins where st: "foldl (insert_step spreads) st [0..<n] = (c, bins)"
    by (cases "foldl (insert_step spreads) st [0..<n]")
  with hash_table_inv_upto [OF assms, of n] have "0 < c"
    by (auto simp: table_inv_def pow2_pos)
  with Suc st insert_step_load [of c n spreads bins] show ?case by simp
qed simp

text \<open>Once the loop ends, the table is no more than three quarters full.\<close>

lemma hash_table_load:
  "length spreads \<le> threshold (fst (hash_table spreads table)) \<or>
   MAXIMUM_CAPACITY \<le> fst (hash_table spreads table)"
  unfolding hash_table_def Let_def
  by (rule hash_table_load_upto) (auto simp: table_inv_def initial_capacity_pow2)

lemma default_capacity_from_Suc:
  assumes "4 \<le> c"
  shows "default_capacity_from c (Suc n) =
    (let r = default_capacity_from c n
     in if r div 4 * 3 < Suc n \<and> r < MAXIMUM_CAPACITY then r * 2 else r)"
  using assms
proof (induction c n rule: default_capacity_from.induct)
  case (1 c n)
  show ?case
  proof (cases "c div 4 * 3 < n \<and> c < MAXIMUM_CAPACITY")
    case True
    with 1 show ?thesis
      by (simp add: default_capacity_from.simps [of c])
  next
    case False
    have "default_capacity_from (c * 2) (Suc n) = c * 2" if "c < MAXIMUM_CAPACITY"
    proof -
      have "\<not> (c * 2) div 4 * 3 < Suc n"
        using False that \<open>4 \<le> c\<close> by linarith
      then show ?thesis by (simp add: default_capacity_from.simps [of "c * 2"])
    qed
    with False \<open>4 \<le> c\<close> show ?thesis
      by (auto simp: default_capacity_from.simps [of c] Let_def)
  qed
qed

lemma pow2_16_dvd: "pow2 c \<Longrightarrow> 16 \<le> c \<Longrightarrow> 16 dvd c"
proof -
  assume c: "pow2 c" "16 \<le> c"
  then obtain k where k: "c = 2 ^ k" by (auto simp: pow2_def)
  have "(2::nat) ^ 4 \<le> 2 ^ k" using c k by simp
  then have "4 \<le> k" by (rule power_le_imp_le_exp [rotated]) simp
  then have "(2::nat) ^ 4 dvd 2 ^ k" by (rule le_imp_power_dvd)
  then show ?thesis by (simp add: k)
qed

lemma bin_load_small:
  assumes inv: "table_inv spreads n (c, bins)" and c: "16 \<le> c" and n: "n \<le> length spreads" and b: "b < c"
    and small: "\<And>b. length (filter (\<lambda>s. s mod 16 = b) spreads) \<le> 8"
  shows "length (bins ! b) \<le> 8"
proof -
  from inv have p: "pow2 c" by (simp add: table_inv_def)
  have dvd: "16 dvd c" by (rule pow2_16_dvd [OF p c])
  have "length (bins ! b) = length (filter (\<lambda>i. bin_of c (spreads ! i) = b) [0..<n])"
    using inv b by (simp add: table_inv_def)
  also have "\<dots> \<le> length (filter (\<lambda>i. spreads ! i mod 16 = b mod 16) [0..<n])"
  proof -
    have "bin_of c (spreads ! i) = b \<Longrightarrow> spreads ! i mod 16 = b mod 16" for i
      using mod_mod_cancel [OF dvd, of "spreads ! i"] by (simp add: bin_of_pow2 [OF p])
    then show ?thesis by (induction n) auto
  qed
  also have "\<dots> \<le> length (filter (\<lambda>i. spreads ! i mod 16 = b mod 16) [0..<length spreads])"
    using upt_add_eq_append [of 0 n "length spreads - n"] n by simp
  also have "\<dots> = length (filter (\<lambda>s. s mod 16 = b mod 16) (map ((!) spreads) [0..<length spreads]))"
    by (simp only: filter_map length_map comp_def)
  also have "\<dots> \<le> 8" using small by (simp add: map_nth)
  finally show ?thesis .
qed

lemma hash_table_capacity_upto:
  assumes small: "\<And>b. length (filter (\<lambda>s. s mod 16 = b) spreads) \<le> 8" and "n \<le> length spreads"
  shows "fst (foldl (insert_step spreads) (16, replicate 16 []) [0..<n]) = default_capacity n"
  using assms(2)
proof (induction n)
  case 0
  show ?case by (simp add: default_capacity_def default_capacity_from.simps)
next
  case (Suc n)
  obtain c bins where st: "foldl (insert_step spreads) (16, replicate 16 []) [0..<n] = (c, bins)"
    by (cases "foldl (insert_step spreads) (16, replicate 16 []) [0..<n]")
  have start: "table_inv spreads 0 (16, replicate 16 [])"
    using initial_capacity_pow2 [of Default 0] by (simp add: table_inv_def)
  from hash_table_inv_upto [OF start, of n] st have inv: "table_inv spreads n (c, bins)" by simp
  have dc: "c = default_capacity n" using Suc st by simp
  have c16: "16 \<le> c" unfolding dc default_capacity_def
  proof -
    have "k \<le> default_capacity_from k m" for k m
      by (induction k m rule: default_capacity_from.induct) (subst default_capacity_from.simps, auto)
    then show "16 \<le> default_capacity_from 16 n" .
  qed
  have bl: "bin_of c (spreads ! n) < c" using inv by (simp add: table_inv_def bin_of_less)
  have "length (push_bin (bin_of c (spreads ! n)) n bins ! bin_of c (spreads ! n)) \<le> 8"
    using bin_load_small [OF push_bin_inv [OF inv] c16 Suc.prems bl] small by blast
  then have "fst (insert_step spreads (c, bins) n) = (if threshold c < Suc n \<and> c < MAXIMUM_CAPACITY then c * 2 else c)"
    by (auto simp: insert_step_fst TREEIFY_THRESHOLD_def Let_def)
  moreover have "threshold c = c div 4 * 3"
  proof -
    have "16 dvd c" using inv c16 by (simp add: table_inv_def pow2_16_dvd)
    then have "c mod 4 = 0" by presburger
    then show ?thesis by (simp add: threshold_def)
  qed
  moreover have "default_capacity (Suc n) = (if c div 4 * 3 < Suc n \<and> c < MAXIMUM_CAPACITY then c * 2 else c)"
    using default_capacity_from_Suc [of 16 n] by (simp add: default_capacity_def dc Let_def)
  ultimately show ?case using st by simp
qed

lemma hash_table_default_capacity:
  assumes "\<And>b. length (filter (\<lambda>s. s mod 16 = b) spreads) \<le> 8"
  shows "fst (hash_table spreads Default) = default_capacity (length spreads)"
  using hash_table_capacity_upto [OF assms] by (simp add: hash_table_def Let_def)

section \<open>Sets and integers\<close>

lemma push_unique_set: "set (push_unique u xs) = set u \<union> set xs"
  by (induction xs arbitrary: u) auto

lemma push_unique_distinct: "distinct u \<Longrightarrow> distinct (push_unique u xs)"
  by (induction xs arbitrary: u) auto

lemma hash_set_order_set [simp]: "set (hash_set_order xs h) = set xs"
  by (simp add: hash_set_order_def ho.order_set push_unique_set)

lemma hash_set_order_distinct [simp]: "distinct (hash_set_order xs h)"
  by (simp add: hash_set_order_def ho.order_distinct push_unique_distinct)

lemma hash_set_order_Nil_iff [simp]: "hash_set_order xs h = [] \<longleftrightarrow> xs = []"
  by (metis hash_set_order_set set_empty)

lemma parse_int_eq: "parse_int value = ok_or (input_string_error value) (parse_i32 value)"
  by (auto simp: parse_int_def parse_signed_def Let_def split: list.splits if_splits)

section \<open>Properties\<close>

text \<open>C35. The simulated insertions, with every growth of the table, end in the order of the bins of
  the last table: iterating is a stable sort of the keys by bin, a power of two of bins that are
  at most three quarters full unless the table has its largest size.\<close>

theorem hash_order_is_stable_bin_sort:
  "hash_order keys table hash =
     sort_key (\<lambda>key. spread (hash key) mod fst (hash_table (map (spread \<circ> hash) keys) table)) keys
   \<and> pow2 (fst (hash_table (map (spread \<circ> hash) keys) table))
   \<and> (length keys \<le> threshold (fst (hash_table (map (spread \<circ> hash) keys) table))
      \<or> MAXIMUM_CAPACITY \<le> fst (hash_table (map (spread \<circ> hash) keys) table))"
proof -
  let ?t = "hash_table (map (spread \<circ> hash) keys) table"
  have "pow2 (fst ?t)" using hash_table_inv [of "map (spread \<circ> hash) keys" table] by (auto simp: table_inv_def)
  then show ?thesis
    using hash_table_load [of "map (spread \<circ> hash) keys" table]
    by (simp add: hash_order_eq order_in_table_def bin_of_pow2)
qed

text \<open>When no bin of the smallest table gets more than eight keys, the table of a \<open>new HashMap\<close>
  has the capacity that \<open>default_capacity\<close> computes, so that the two ways to order keys agree.\<close>

theorem hash_order_default_capacity:
  assumes "\<forall>b. length (filter (\<lambda>k. spread (hash k) mod 16 = b) keys) \<le> 8"
  shows "hash_order keys Default hash = order_in_table keys (default_capacity (length keys)) hash"
proof -
  have "length (filter (\<lambda>s. s mod 16 = b) (map (spread \<circ> hash) keys)) \<le> 8" for b
    using assms by (simp add: filter_map o_def)
  from hash_table_default_capacity [OF this] show ?thesis by (simp add: hash_order_eq)
qed

theorem hash_order_default_capacity_witness:
  "hash_order [''a'', ''b''] Default string_hash = order_in_table [''a'', ''b''] (default_capacity (length [''a'', ''b''])) string_hash"
  by (rule hash_order_default_capacity) simp

text \<open>\<open>parse_int\<close> reads back every number an \<open>int\<close> can hold and returns only such numbers.\<close>

theorem parse_int_roundtrip:
  "parse_int (show_int i) = (if i32_min \<le> i \<and> i \<le> i32_max then Inr i else Inl (input_string_error (show_int i)))
   \<and> (parse_int s = Inr j \<longrightarrow> i32_min \<le> j \<and> j \<le> i32_max)"
proof -
  have "parse_int s = Inr j \<Longrightarrow> i32_min \<le> j \<and> j \<le> i32_max"
    using parse_signed_range [of i32_min i32_max s j] by (simp add: parse_int_eq ok_or_Inr_iff)
  moreover have "parse_int (show_int i) =
      (if i32_min \<le> i \<and> i \<le> i32_max then Inr i else Inl (input_string_error (show_int i)))"
    by (simp add: parse_int_eq parse_signed_show_int_iff)
  ultimately show ?thesis by blast
qed

theorem parse_int_roundtrip_witness:
  "parse_int (show_int 7) = Inr 7 \<and> i32_min \<le> (7::int) \<and> 7 \<le> i32_max"
  using parse_int_roundtrip [of 7 "show_int 7" 7] by simp

end
