(* ===== verification/Java_Random.thy ===== *)
theory Java_Random
  imports Jvm
begin

unbundle bit_operations_syntax

text \<open>
  The trait \<open>JavaRandom\<close> of \<^verbatim>\<open>crates/krabka-cli/src/replica_placer.rs\<close> and its implementation
  \<open>Lcg48\<close>. The trait's required method \<open>next\<close> is an argument \<open>nxt\<close> of the provided methods; a
  call returns the bits and the new state of the source. \<open>next_int\<close> rejects and draws again
  until a draw is acceptable, so it is a partial function: \<^const>\<open>None\<close> means that it does not
  return (in \<open>shuffle\<close> also that it panics). The locale \<open>java_random\<close> states what the methods
  need of \<open>next\<close> to return, and \<open>Lcg48\<close> is shown to have it.
\<close>

section \<open>The provided methods\<close>

type_synonym 'r next_bits = "'r \<Rightarrow> nat \<Rightarrow> int \<times> 'r"

text \<open>Rust's \<open>%\<close> truncates towards zero; \<open>wrapping_add\<close> and \<open>wrapping_sub\<close> wrap at 32 bits.\<close>

definition rust_rem :: "int \<Rightarrow> int \<Rightarrow> int" where
  "rust_rem a b = sgn a * (\<bar>a\<bar> mod \<bar>b\<bar>)"

definition wrap_i32 :: "int \<Rightarrow> int" where
  "wrap_i32 x = signed_take_bit 31 x"

partial_function (option) next_int_loop :: "'r next_bits \<Rightarrow> int \<Rightarrow> int \<Rightarrow> 'r \<Rightarrow> (int \<times> 'r) option" where
  "next_int_loop nxt bound u random =
     (let r = rust_rem u bound
      in if 0 \<le> wrap_i32 (wrap_i32 (u - r) + (bound - 1)) then Some (r, random)
         else next_int_loop nxt bound (fst (nxt random 31)) (snd (nxt random 31)))"

definition next_int :: "'r next_bits \<Rightarrow> int \<Rightarrow> 'r \<Rightarrow> (int \<times> 'r) option" where
  "next_int nxt bound random =
     (let (r, random') = nxt random 31; m = bound - 1
      in if bound AND m = 0 then
           (let scaled = drop_bit 31 (bound * r)
            in Some (if i32_min \<le> scaled \<and> scaled \<le> i32_max then scaled else 0, random'))
         else next_int_loop nxt bound r random')"

text \<open>\<open>slice::swap\<close> panics on an index out of range.\<close>

definition swap :: "nat \<Rightarrow> nat \<Rightarrow> 'a list \<Rightarrow> 'a list option" where
  "swap a b xs =
     (if a < length xs \<and> b < length xs then Some (xs[a := xs ! b, b := xs ! a]) else None)"

text \<open>\<open>i32::try_from(n).unwrap_or(i32::MAX)\<close> of a \<open>usize\<close>.\<close>

definition i32_of_usize :: "nat \<Rightarrow> int" where
  "i32_of_usize n = min (int n) i32_max"

fun shuffle_from :: "'r next_bits \<Rightarrow> nat \<Rightarrow> 'a list \<Rightarrow> 'r \<Rightarrow> ('a list \<times> 'r) option" where
  "shuffle_from nxt 0 xs random = Some (xs, random)"
| "shuffle_from nxt (Suc 0) xs random = Some (xs, random)"
| "shuffle_from nxt (Suc (Suc k)) xs random =
     Option.bind (next_int nxt (i32_of_usize (Suc (Suc k))) random) (\<lambda>(j, random').
     Option.bind (swap (Suc k) (nat j) xs) (\<lambda>xs'.
     shuffle_from nxt (Suc k) xs' random'))"

definition shuffle :: "'r next_bits \<Rightarrow> 'a list \<Rightarrow> 'r \<Rightarrow> ('a list \<times> 'r) option" where
  "shuffle nxt xs random = shuffle_from nxt (length xs) xs random"

section \<open>The linear congruential generator\<close>

definition MULTIPLIER :: "64 word" where "MULTIPLIER = 0x5DEECE66D"
definition MASK :: "64 word" where "MASK = push_bit 48 1 - 1"

record Lcg48 =
  seed :: "64 word"

definition Lcg48_new :: "64 word \<Rightarrow> Lcg48" where
  "Lcg48_new s = \<lparr>seed = (s XOR MULTIPLIER) AND MASK\<rparr>"

definition Lcg48_next :: "Lcg48 next_bits" where
  "Lcg48_next random bits =
     (let s = (seed random * MULTIPLIER + 0xB) AND MASK;
          shifted = sint (signed_drop_bit (48 - bits) s);
          u = (if 0 \<le> shifted \<and> shifted < 2 ^ 32 then shifted else 0)
      in (sint (word_of_int u :: 32 word), random\<lparr>seed := s\<rparr>))"

section \<open>What a random source promises\<close>

text \<open>
  \<open>next(31)\<close> is a 31-bit number, and a source does not give numbers of the upper half for
  ever. Every number of the lower half is acceptable to \<open>next_int\<close>, whatever the bound.
\<close>

locale java_random =
  fixes nxt :: "'r next_bits"
  assumes next31_range: "0 \<le> fst (nxt random 31) \<and> fst (nxt random 31) < 2 ^ 31"
    and next31_low: "\<exists>n. fst (nxt (((\<lambda>r. snd (nxt r 31)) ^^ n) random) 31) < 2 ^ 30"
begin

lemma accept_low:
  assumes "0 \<le> u" and "u < 2 ^ 30" and "0 < bound" and "bound \<le> i32_max"
  shows "next_int_loop nxt bound u random = Some (u mod bound, random)"
proof -
  have r: "rust_rem u bound = u mod bound"
    using assms by (auto simp: rust_rem_def sgn_if)
  have "0 \<le> u - u mod bound" and "u - u mod bound + (bound - 1) < 2 ^ 31"
  proof -
    have nn: "0 \<le> u mod bound" using assms by simp
    show "0 \<le> u - u mod bound" using assms by (simp add: zmod_le_nonneg_dividend)
    show "u - u mod bound + (bound - 1) < 2 ^ 31"
    proof (cases "bound \<le> 2 ^ 30")
      case True
      moreover have "(2::int) ^ 31 = 2 * 2 ^ 30" by simp
      ultimately show ?thesis using assms nn by linarith
    next
      case False
      then have "u mod bound = u" using assms by (intro mod_pos_pos_trivial) auto
      then show ?thesis using assms by simp
    qed
  qed
  then have "wrap_i32 (wrap_i32 (u - u mod bound) + (bound - 1)) = u - u mod bound + (bound - 1)"
    using assms by (simp add: wrap_i32_def signed_take_bit_int_eq_self)
  with \<open>0 \<le> u - u mod bound\<close> r show ?thesis
    using assms by (subst next_int_loop.simps) (simp add: Let_def)
qed

lemma loop_range:
  assumes ret: "next_int_loop nxt bound u random = Some (v, random')" and "0 \<le> u" and "0 < bound"
  shows "0 \<le> v \<and> v < bound"
proof -
  have "nxt = nxt \<longrightarrow> 0 \<le> u \<longrightarrow> 0 < bound \<longrightarrow> 0 \<le> fst (v, random') \<and> fst (v, random') < bound"
  proof (rule next_int_loop.raw_induct [where
      P = "\<lambda>n b u r v. n = nxt \<longrightarrow> 0 \<le> u \<longrightarrow> 0 < b \<longrightarrow> 0 \<le> fst v \<and> fst v < b", OF _ ret])
    fix f n b u r v
    assume IH: "\<And>n b u r v. f n b u r = Some v \<Longrightarrow>
        n = nxt \<longrightarrow> 0 \<le> u \<longrightarrow> 0 < b \<longrightarrow> 0 \<le> fst v \<and> fst v < b"
      and step: "(let r' = rust_rem u b
        in if 0 \<le> wrap_i32 (wrap_i32 (u - r') + (b - 1)) then Some (r', r)
           else f n b (fst (n r 31)) (snd (n r 31))) = Some v"
    show "n = nxt \<longrightarrow> 0 \<le> u \<longrightarrow> 0 < b \<longrightarrow> 0 \<le> fst v \<and> fst v < b"
      using step next31_range IH [of nxt b "fst (nxt r 31)" "snd (nxt r 31)" v]
      by (auto simp: Let_def rust_rem_def sgn_if split: if_splits)
  qed
  with assms show ?thesis by simp
qed

lemma loop_returns:
  assumes "0 < bound" and "bound \<le> i32_max" and "0 \<le> u"
    and "u < 2 ^ 30 \<or> fst (nxt (((\<lambda>r. snd (nxt r 31)) ^^ n) random) 31) < 2 ^ 30"
  shows "\<exists>v random'. next_int_loop nxt bound u random = Some (v, random')"
  using assms(3,4)
proof (induction n arbitrary: u random)
  case 0
  show ?case
  proof (cases "u < 2 ^ 30")
    case True
    then show ?thesis using 0 assms accept_low by blast
  next
    case False
    then have "next_int_loop nxt bound (fst (nxt random 31)) (snd (nxt random 31)) =
        Some (fst (nxt random 31) mod bound, snd (nxt random 31))"
      using 0 assms next31_range by (intro accept_low) auto
    then show ?thesis by (subst next_int_loop.simps) (auto simp: Let_def)
  qed
next
  case (Suc n)
  show ?case
  proof (cases "u < 2 ^ 30")
    case True
    then show ?thesis using Suc assms accept_low by blast
  next
    case False
    with Suc.prems have "fst (nxt (((\<lambda>r. snd (nxt r 31)) ^^ n) (snd (nxt random 31))) 31) < 2 ^ 30"
      using funpow_swap1 [of "\<lambda>r. snd (nxt r 31)" n random] by simp
    then have "\<exists>v random'. next_int_loop nxt bound (fst (nxt random 31)) (snd (nxt random 31)) = Some (v, random')"
      using next31_range by (intro Suc.IH) auto
    then show ?thesis by (subst next_int_loop.simps) (auto simp: Let_def)
  qed
qed

lemma next_int_returns:
  assumes "0 < bound" and "bound \<le> i32_max"
  shows "\<exists>v random'. next_int nxt bound random = Some (v, random') \<and> 0 \<le> v \<and> v < bound"
proof -
  obtain r random' where n: "nxt random 31 = (r, random')" by (cases "nxt random 31")
  then have r: "0 \<le> r" "r < 2 ^ 31" using next31_range [of random] by auto
  show ?thesis
  proof (cases "bound AND (bound - 1) = 0")
    case True
    have "bound * r < bound * 2 ^ 31" using r assms by simp
    then have "bound * r div 2 ^ 31 < bound" by (simp add: div_less_iff_less_mult mult.commute)
    moreover have "0 \<le> bound * r div 2 ^ 31"
      using r assms by (simp add: pos_imp_zdiv_nonneg_iff)
    ultimately have "next_int nxt bound random = Some (bound * r div 2 ^ 31, random')"
      using True assms n by (simp add: next_int_def drop_bit_eq_div Let_def)
    with \<open>bound * r div 2 ^ 31 < bound\<close> \<open>0 \<le> bound * r div 2 ^ 31\<close> show ?thesis by blast
  next
    case False
    obtain k where "fst (nxt (((\<lambda>r. snd (nxt r 31)) ^^ k) random') 31) < 2 ^ 30"
      using next31_low by blast
    then obtain v random'' where v: "next_int_loop nxt bound r random' = Some (v, random'')"
      using loop_returns [OF assms r(1)] by blast
    with False n have "next_int nxt bound random = Some (v, random'')"
      by (simp add: next_int_def Let_def)
    with loop_range [OF v r(1) assms(1)] show ?thesis by blast
  qed
qed

lemma shuffle_from_returns:
  assumes "i \<le> length xs"
  shows "\<exists>ys random'. shuffle_from nxt i xs random = Some (ys, random') \<and> mset ys = mset xs"
  using assms
proof (induction i arbitrary: xs random)
  case (Suc i)
  show ?case
  proof (cases i)
    case 0
    then show ?thesis by simp
  next
    case (Suc k)
    let ?b = "i32_of_usize (Suc (Suc k))"
    have b: "0 < ?b" "?b \<le> i32_max" "?b \<le> int (Suc (Suc k))" by (auto simp: i32_of_usize_def)
    obtain j random' where j: "next_int nxt ?b random = Some (j, random')" "0 \<le> j" "j < ?b"
      using next_int_returns [OF b(1,2)] by blast
    have len: "Suc k < length xs" using Suc.prems Suc by simp
    have jl: "nat j < length xs" using j b(3) Suc.prems Suc by linarith
    let ?ys = "xs[Suc k := xs ! nat j, nat j := xs ! Suc k]"
    have ys: "swap (Suc k) (nat j) xs = Some ?ys" "mset ?ys = mset xs" "length ?ys = length xs"
      using len jl by (auto simp: swap_def mset_swap)
    obtain zs random'' where "shuffle_from nxt (Suc k) ?ys random' = Some (zs, random'')" "mset zs = mset ?ys"
      using Suc.IH [of ?ys random'] Suc.prems Suc ys(3) by auto
    with Suc j(1) ys show ?thesis by simp
  qed
qed simp

lemma shuffle_returns:
  "\<exists>ys random'. shuffle nxt xs random = Some (ys, random') \<and> mset ys = mset xs"
  unfolding shuffle_def by (rule shuffle_from_returns) simp

end

section \<open>The generator keeps the promise\<close>

text \<open>
  On the low 48 bits the generator is the map \<open>x \<mapsto> a x + c\<close> modulo \<open>2 ^ 48\<close>. Because \<open>a\<close> is 1
  modulo 4 and \<open>c\<close> is odd, \<open>2 ^ 47\<close> rounds flip the top bit and keep the others, so within that
  many rounds a number of the lower half is drawn.
\<close>

definition affine :: "nat \<Rightarrow> nat \<Rightarrow> nat \<Rightarrow> nat \<Rightarrow> nat" where
  "affine a c m x = (a * x + c) mod m"

definition geo :: "nat \<Rightarrow> nat \<Rightarrow> nat" where
  "geo a n = (\<Sum>i<n. a ^ i)"

lemma geo_add: "geo a (n + m) = geo a n + a ^ n * geo a m"
  by (induction m) (auto simp: geo_def algebra_simps power_add)

lemma geo_double: "geo a (2 * n) = geo a n * (1 + a ^ n)"
proof -
  have "2 * n = n + n" by simp
  then show ?thesis by (simp only: geo_add) (simp add: algebra_simps)
qed

lemma geo_Suc: "geo a (Suc n) = 1 + a * geo a n"
  using geo_add [of a 1 n] by (simp add: geo_def)

lemma geo_pred: "1 \<le> a \<Longrightarrow> a ^ n = (a - 1) * geo a n + 1"
proof (induction n)
  case (Suc n)
  have "a ^ Suc n = (a - 1) * a ^ n + a ^ n"
    using \<open>1 \<le> a\<close> by (simp add: algebra_simps)
  with Suc show ?case by (simp add: geo_def algebra_simps)
qed (simp add: geo_def)

lemma geo_pow2:
  assumes "a mod 4 = 1"
  shows "\<exists>q. geo a (2 ^ k) = 2 ^ k * (2 * q + 1)"
proof (induction k)
  case 0
  show ?case by (auto simp: geo_def)
next
  case (Suc k)
  then obtain q where q: "geo a (2 ^ k) = 2 ^ k * (2 * q + 1)" by blast
  have "a ^ (2 ^ k) mod 4 = (a mod 4) ^ (2 ^ k) mod 4" by (simp only: power_mod)
  also have "\<dots> = 1" using assms by simp
  finally obtain p where "a ^ (2 ^ k) = 4 * p + 1"
    by (metis mult.commute div_mult_mod_eq)
  then have "geo a (2 ^ Suc k) = 2 ^ k * (2 * q + 1) * (4 * p + 2)"
    using geo_double [of a "2 ^ k"] q by simp
  also have "\<dots> = 2 ^ Suc k * (2 * (2 * q * p + q + p) + 1)"
    by (simp add: algebra_simps)
  finally show ?case by blast
qed

lemma affine_iterate: "(affine a c m ^^ n) x mod m = (a ^ n * x + c * geo a n) mod m"
proof (induction n)
  case (Suc n)
  have "(affine a c m ^^ Suc n) x mod m = (a * ((affine a c m ^^ n) x mod m) + c) mod m"
    by (simp add: affine_def) (metis mod_add_left_eq mod_mult_right_eq)
  also have "\<dots> = (a * (a ^ n * x + c * geo a n) + c) mod m"
    unfolding Suc by (metis mod_add_left_eq mod_mult_right_eq)
  also have "a * (a ^ n * x + c * geo a n) + c = a ^ Suc n * x + c * geo a (Suc n)"
    by (simp add: geo_Suc algebra_simps)
  finally show ?case .
qed (simp add: geo_def)

lemma affine_flips_top:
  assumes "a mod 4 = 1" and "odd c"
  shows "(affine a c (2 ^ Suc k) ^^ (2 ^ k)) x mod 2 ^ Suc k = (x + 2 ^ k) mod 2 ^ Suc k"
proof -
  obtain q where q: "geo a (2 ^ k) = 2 ^ k * (2 * q + 1)" using geo_pow2 [OF assms(1)] by blast
  obtain d where d: "a = 4 * d + 1" using assms(1) by (metis mult.commute div_mult_mod_eq)
  obtain e where e: "c = 2 * e + 1" using assms(2) by (elim oddE)
  have "a ^ (2 ^ k) = 4 * d * geo a (2 ^ k) + 1" using geo_pred [of a "2 ^ k"] d by simp
  also have "\<dots> = 2 ^ Suc k * (2 * d * (2 * q + 1)) + 1" by (simp add: q algebra_simps)
  finally have "a ^ (2 ^ k) * x + c * geo a (2 ^ k) =
      x + 2 ^ k + 2 ^ Suc k * (2 * d * (2 * q + 1) * x + (2 * e * q + e + q))"
    by (simp add: q e algebra_simps)
  then show ?thesis by (simp only: affine_iterate mod_mult_self2)
qed

lemma affine_reaches_low:
  assumes "a mod 4 = 1" and "odd c"
  shows "\<exists>n. (affine a c (2 ^ Suc k) ^^ Suc n) x < 2 ^ k"
proof -
  let ?f = "affine a c (2 ^ Suc k)"
  have less: "(?f ^^ Suc n) x < 2 ^ Suc k" for n by (simp add: affine_def)
  show ?thesis
  proof (cases "?f x < 2 ^ k")
    case True
    then show ?thesis by (intro exI [of _ 0]) simp
  next
    case False
    let ?y = "?f x"
    have y: "2 ^ k \<le> ?y" "?y < 2 ^ Suc k" using False less [of 0] by auto
    have "(?f ^^ (2 ^ k)) ?y mod 2 ^ Suc k = (?y + 2 ^ k) mod 2 ^ Suc k"
      by (rule affine_flips_top [OF assms])
    also have "\<dots> = ?y - 2 ^ k"
    proof -
      have "?y + 2 ^ k = (?y - 2 ^ k) + 2 ^ Suc k" using y by simp
      moreover have "?y - 2 ^ k < 2 ^ Suc k" using y by simp
      ultimately show ?thesis by (metis mod_add_self2 mod_less)
    qed
    finally have "(?f ^^ Suc (2 ^ k)) x mod 2 ^ Suc k < 2 ^ k"
      using y by (simp add: funpow_swap1)
    then show ?thesis using less [of "2 ^ k"] by (intro exI [of _ "2 ^ k"]) (simp only: mod_less)
  qed
qed

definition lcg_val :: "Lcg48 \<Rightarrow> nat" where
  "lcg_val random = unat (seed random)"

abbreviation lcg_affine :: "nat \<Rightarrow> nat" where
  "lcg_affine \<equiv> affine 0x5DEECE66D 11 (2 ^ 48)"

lemma unat_mask48: "unat (w AND MASK) = unat w mod 2 ^ 48"
proof -
  have "MASK = mask 48" by (simp add: MASK_def mask_eq_exp_minus_1)
  then have "w AND MASK = take_bit 48 w" by (simp only: take_bit_eq_mask)
  then have "unat (w AND MASK) = take_bit 48 (unat w)" by (simp only: unsigned_take_bit_eq)
  then show ?thesis by (simp only: take_bit_eq_mod)
qed

lemma lcg_val_next: "lcg_val (snd (Lcg48_next random bits)) = lcg_affine (lcg_val random)"
proof -
  have "unat (seed random * MULTIPLIER + 0xB) mod 2 ^ 48 = (unat (seed random) * 0x5DEECE66D + 11) mod 2 ^ 48"
    by (simp add: unat_word_ariths MULTIPLIER_def mod_mod_cancel mod_simps)
  then show ?thesis
    by (simp add: lcg_val_def Lcg48_next_def Let_def unat_mask48 affine_def mult.commute)
qed


lemma sint_small:
  assumes "unat (w :: 'a::len word) < 2 ^ (LENGTH('a) - 1)"
  shows "sint w = int (unat w)"
proof -
  have u: "uint w = int (unat w)" by simp
  have "int (unat w) < int (2 ^ (LENGTH('a) - 1))" using assms by (simp only: of_nat_less_iff)
  then have "uint w < 2 ^ (LENGTH('a) - 1)" by (simp only: u of_nat_power of_nat_numeral)
  moreover have "- (2 ^ (LENGTH('a) - 1)) \<le> uint w"
    by (rule order_trans [of _ 0]) simp_all
  ultimately have "signed_take_bit (LENGTH('a) - 1) (uint w) = uint w"
    by (intro signed_take_bit_int_eq_self)
  then show ?thesis by (simp only: sint_uint u One_nat_def)
qed

lemma Lcg48_next31:
  "fst (Lcg48_next random 31) = int (lcg_affine (lcg_val random) div 2 ^ 17)"
  "lcg_affine (lcg_val random) div 2 ^ 17 < 2 ^ 31"
proof -
  let ?s = "(seed random * MULTIPLIER + 0xB) AND MASK"
  let ?x = "lcg_affine (lcg_val random)"
  have x: "unat ?s = ?x"
    using lcg_val_next [of random 31] by (simp add: lcg_val_def Lcg48_next_def Let_def)
  have less: "?x < 2 ^ 48" by (simp add: affine_def)
  then show d: "?x div 2 ^ 17 < 2 ^ 31" by (simp add: div_less_iff_less_mult)
  have s64: "sint ?s = int ?x" using x less sint_small [of ?s] by simp
  have drop: "sint (signed_drop_bit 17 ?s) = int (?x div 2 ^ 17)"
    by (simp add: sint_signed_drop_bit_eq s64 drop_bit_eq_div zdiv_int)
  have "unat (word_of_int (int (?x div 2 ^ 17)) :: 32 word) = ?x div 2 ^ 17"
    using d by (simp add: unat_of_nat)
  then have "sint (word_of_int (int (?x div 2 ^ 17)) :: 32 word) = int (?x div 2 ^ 17)"
    using d by (subst sint_small) simp_all
  with drop d show "fst (Lcg48_next random 31) = int (?x div 2 ^ 17)"
    by (simp add: Lcg48_next_def Let_def)
qed

lemma Lcg48_val_funpow:
  "lcg_val (((\<lambda>r. snd (Lcg48_next r 31)) ^^ n) random) = (lcg_affine ^^ n) (lcg_val random)"
  by (induction n) (simp_all add: lcg_val_next)

interpretation lcg: java_random Lcg48_next
proof
  fix random
  show "0 \<le> fst (Lcg48_next random 31) \<and> fst (Lcg48_next random 31) < 2 ^ 31"
    using Lcg48_next31 [of random] by simp
  obtain n where n: "(affine 0x5DEECE66D 11 (2 ^ Suc 47) ^^ Suc n) (lcg_val random) < 2 ^ 47"
    using affine_reaches_low [of "0x5DEECE66D" 11 47 "lcg_val random"] by auto
  have suc: "Suc 47 = 48" by simp
  let ?r = "((\<lambda>r. snd (Lcg48_next r 31)) ^^ n) random"
  have "lcg_affine (lcg_val ?r) < 2 ^ 47"
    using n unfolding suc by (simp only: Lcg48_val_funpow funpow.simps o_apply)
  then have "lcg_affine (lcg_val ?r) div 2 ^ 17 < 2 ^ 30" by (simp add: div_less_iff_less_mult)
  then have "fst (Lcg48_next ?r 31) < 2 ^ 30" unfolding Lcg48_next31 by simp
  then show "\<exists>n. fst (Lcg48_next (((\<lambda>r. snd (Lcg48_next r 31)) ^^ n) random) 31) < 2 ^ 30" ..
qed

section \<open>Properties\<close>

text \<open>\<open>next_int\<close> of the generator returns for every seed and every positive bound, although it
  rejects draws, and the number is in range.\<close>

theorem lcg_next_int_returns:
  assumes "0 < bound" and "bound \<le> i32_max"
  shows "\<exists>v random'. next_int Lcg48_next bound random = Some (v, random') \<and> 0 \<le> v \<and> v < bound"
  using assms by (rule lcg.next_int_returns)

theorem lcg_next_int_returns_witness:
  "\<exists>v random'. next_int Lcg48_next 3 (Lcg48_new 1) = Some (v, random') \<and> 0 \<le> v \<and> v < 3"
  by (rule lcg_next_int_returns) simp_all

text \<open>\<open>shuffle\<close> of the generator returns a permutation of the list: it neither panics on an
  index nor loses an element.\<close>

theorem lcg_shuffle_permutes:
  "\<exists>ys random'. shuffle Lcg48_next xs random = Some (ys, random') \<and> mset ys = mset xs"
  by (rule lcg.shuffle_returns)

end
