(* ===== verification/Replica_Placer.thy ===== *)
theory Replica_Placer
  imports Java_Random
begin

text \<open>
  \<^verbatim>\<open>crates/krabka-cli/src/replica_placer.rs\<close>: Kafka's striped replica placer. A \<open>BrokerList\<close>
  hands out its brokers round robin, once per epoch; a \<open>Rack\<close> hands out unfenced brokers before
  fenced ones; a \<open>RackList\<close> goes over the racks. Each operation returns the updated state. A
  computation that draws random numbers or loops is an \<^typ>\<open>'a option\<close>: \<^const>\<open>None\<close> is a
  panic or a loop that does not end, and the theorems show that neither happens.
\<close>

section \<open>Brokers and racks\<close>

record UsableBroker =
  ub_id :: int
  ub_rack :: "string option"
  ub_fenced :: bool

record BrokerList =
  bl_brokers :: "int list"
  bl_index :: nat
  bl_offset :: nat
  bl_epoch :: nat

definition BrokerList_default :: BrokerList where
  "BrokerList_default = \<lparr>bl_brokers = [], bl_index = 0, bl_offset = 0, bl_epoch = 0\<rparr>"

text \<open>\<open>usize::try_from(..).unwrap_or(0)\<close> of a signed number is \<^const>\<open>nat\<close>.\<close>

definition random_index :: "'r next_bits \<Rightarrow> nat \<Rightarrow> 'r \<Rightarrow> (nat \<times> 'r) option" where
  "random_index nxt len random =
     map_option (\<lambda>(v, random'). (nat v, random')) (next_int nxt (i32_of_usize len) random)"

definition BrokerList_initialize :: "'r next_bits \<Rightarrow> BrokerList \<Rightarrow> 'r \<Rightarrow> (BrokerList \<times> 'r) option" where
  "BrokerList_initialize nxt self random =
     (if bl_brokers self \<noteq> [] then
        (let self = self\<lparr>bl_brokers := sort (bl_brokers self)\<rparr>
         in map_option (\<lambda>(offset, random'). (self\<lparr>bl_offset := offset\<rparr>, random'))
              (random_index nxt (length (bl_brokers self)) random))
      else Some (self, random))"

definition BrokerList_next :: "nat \<Rightarrow> BrokerList \<Rightarrow> int option \<times> BrokerList" where
  "BrokerList_next epoch self =
     (if bl_brokers self = [] then (None, self)
      else
        let len = length (bl_brokers self);
            self = (if bl_epoch self \<noteq> epoch
                    then self\<lparr>bl_epoch := epoch, bl_index := 0, bl_offset := (bl_offset self + 1) mod len\<rparr>
                    else self)
        in if len \<le> bl_index self then (None, self)
           else (Some (bl_brokers self ! ((bl_index self + bl_offset self) mod len)),
                 self\<lparr>bl_index := bl_index self + 1\<rparr>))"

record Rack =
  rk_fenced :: BrokerList
  rk_unfenced :: BrokerList

definition Rack_default :: Rack where
  "Rack_default = \<lparr>rk_fenced = BrokerList_default, rk_unfenced = BrokerList_default\<rparr>"

definition Rack_next :: "nat \<Rightarrow> Rack \<Rightarrow> int option \<times> Rack" where
  "Rack_next epoch self =
     (case BrokerList_next epoch (rk_unfenced self) of
        (Some broker, unfenced) \<Rightarrow> (Some broker, self\<lparr>rk_unfenced := unfenced\<rparr>)
      | (None, unfenced) \<Rightarrow>
          (case BrokerList_next epoch (rk_fenced self) of
             (result, fenced) \<Rightarrow> (result, self\<lparr>rk_unfenced := unfenced, rk_fenced := fenced\<rparr>)))"

type_synonym named_rack = "string option \<times> Rack"

record 'r RackList =
  rl_random :: 'r
  rl_racks :: "named_rack list"
  rl_rack_names :: "nat list"
  rl_total :: nat
  rl_unfenced :: nat
  rl_epoch :: nat
  rl_offset :: nat

section \<open>Loading the brokers\<close>

definition push_broker :: "UsableBroker \<Rightarrow> Rack \<Rightarrow> Rack" where
  "push_broker broker rack =
     (if ub_fenced broker
      then rack\<lparr>rk_fenced := (rk_fenced rack)\<lparr>bl_brokers := bl_brokers (rk_fenced rack) @ [ub_id broker]\<rparr>\<rparr>
      else rack\<lparr>rk_unfenced := (rk_unfenced rack)\<lparr>bl_brokers := bl_brokers (rk_unfenced rack) @ [ub_id broker]\<rparr>\<rparr>)"

text \<open>\<open>iter().position(..)\<close>, and a push of a new rack where there is none.\<close>

fun load_broker :: "UsableBroker \<Rightarrow> named_rack list \<Rightarrow> named_rack list" where
  "load_broker broker [] = [(ub_rack broker, push_broker broker Rack_default)]"
| "load_broker broker ((name, rack) # inserted) =
     (if name = ub_rack broker then (name, push_broker broker rack) # inserted
      else (name, rack) # load_broker broker inserted)"

definition load_brokers :: "UsableBroker list \<Rightarrow> named_rack list" where
  "load_brokers brokers = foldl (\<lambda>inserted broker. load_broker broker inserted) [] brokers"

fun initialize_racks :: "'r next_bits \<Rightarrow> named_rack list \<Rightarrow> 'r \<Rightarrow> (named_rack list \<times> 'r) option" where
  "initialize_racks nxt [] random = Some ([], random)"
| "initialize_racks nxt ((name, rack) # racks) random =
     Option.bind (BrokerList_initialize nxt (rk_fenced rack) random) (\<lambda>(fenced, random).
     Option.bind (BrokerList_initialize nxt (rk_unfenced rack) random) (\<lambda>(unfenced, random).
     map_option (\<lambda>(racks', random). ((name, rack\<lparr>rk_fenced := fenced, rk_unfenced := unfenced\<rparr>) # racks', random))
       (initialize_racks nxt racks random)))"

definition rack_hash :: "string option \<Rightarrow> 32 word" where
  "rack_hash name = (case name of None \<Rightarrow> 0 | Some n \<Rightarrow> string_hash n)"

definition RackList_new :: "'r next_bits \<Rightarrow> 'r \<Rightarrow> UsableBroker list \<Rightarrow> 'r RackList option" where
  "RackList_new nxt random brokers =
     (let inserted = load_brokers brokers;
          racks = hash_order inserted Default (\<lambda>(name, _). rack_hash name)
      in Option.bind (initialize_racks nxt racks random) (\<lambda>(racks, random).
         let names = sort_key (\<lambda>i. fst (racks ! i)) [0..<length racks]
         in map_option (\<lambda>(offset, random).
              \<lparr>rl_random = random, rl_racks = racks, rl_rack_names = names, rl_total = length brokers,
               rl_unfenced = length (filter (\<lambda>b. \<not> ub_fenced b) brokers), rl_epoch = 0,
               rl_offset = offset\<rparr>)
            (if names = [] then Some (0, random) else random_index nxt (length names) random)))"

section \<open>Placing a partition\<close>

fun shuffle_racks :: "'r next_bits \<Rightarrow> named_rack list \<Rightarrow> 'r \<Rightarrow> (named_rack list \<times> 'r) option" where
  "shuffle_racks nxt [] random = Some ([], random)"
| "shuffle_racks nxt ((name, rack) # racks) random =
     Option.bind (shuffle nxt (bl_brokers (rk_fenced rack)) random) (\<lambda>(fenced, random).
     Option.bind (shuffle nxt (bl_brokers (rk_unfenced rack)) random) (\<lambda>(unfenced, random).
     map_option (\<lambda>(racks', random).
         ((name, rack\<lparr>rk_fenced := (rk_fenced rack)\<lparr>bl_brokers := fenced\<rparr>,
                      rk_unfenced := (rk_unfenced rack)\<lparr>bl_brokers := unfenced\<rparr>\<rparr>) # racks', random))
       (shuffle_racks nxt racks random)))"

definition RackList_shuffle :: "'r next_bits \<Rightarrow> 'r RackList \<Rightarrow> 'r RackList option" where
  "RackList_shuffle nxt self =
     Option.bind (shuffle nxt (rl_rack_names self) (rl_random self)) (\<lambda>(names, random).
     map_option (\<lambda>(racks, random). self\<lparr>rl_rack_names := names, rl_racks := racks, rl_random := random\<rparr>)
       (shuffle_racks nxt (rl_racks self) random))"

definition check_positive :: "int \<Rightarrow> unit res" where
  "check_positive replication_factor =
     (if replication_factor \<le> 0
      then Inl (''Invalid replication factor '' @ show_int replication_factor @
                '': the replication factor must be positive.'')
      else Inr ())"

definition check_enough_brokers :: "int \<Rightarrow> nat \<Rightarrow> unit res" where
  "check_enough_brokers replication_factor registered =
     (if replication_factor < 0 \<or> int registered < replication_factor
      then Inl (''The target replication factor of '' @ show_int replication_factor @
                '' cannot be reached because only '' @ show_nat registered @
                '' broker(s) are registered or some brokers have all their log directories cordoned.'')
      else Inr ())"

definition check_unfenced :: "nat \<Rightarrow> unit res" where
  "check_unfenced unfenced =
     (if unfenced = 0
      then Inl ''All brokers are currently fenced, or have all their log directories cordoned.''
      else Inr ())"

definition check_replication_factor :: "int \<Rightarrow> nat \<Rightarrow> nat \<Rightarrow> unit res" where
  "check_replication_factor replication_factor registered unfenced =
     res_bind (check_positive replication_factor) (\<lambda>_.
     res_bind (check_enough_brokers replication_factor registered) (\<lambda>_.
     check_unfenced unfenced))"

text \<open>The two loops of \<open>RackList::place\<close>. An index out of range panics.\<close>

partial_function (option) first_broker ::
    "nat list \<Rightarrow> nat \<Rightarrow> nat \<Rightarrow> named_rack list \<Rightarrow> (int \<times> nat \<times> named_rack list) option" where
  "first_broker rack_names epoch first_rack racks =
     (if first_rack < length rack_names \<and> rack_names ! first_rack < length racks then
        (let rack = rack_names ! first_rack;
             (name, r) = racks ! rack;
             (result, unfenced) = BrokerList_next epoch (rk_unfenced r);
             racks = racks[rack := (name, r\<lparr>rk_unfenced := unfenced\<rparr>)]
         in case result of
              Some broker \<Rightarrow> Some (broker, first_rack, racks)
            | None \<Rightarrow> first_broker rack_names epoch ((first_rack + 1) mod length rack_names) racks)
      else None)"

partial_function (option) next_broker ::
    "nat list \<Rightarrow> nat \<Rightarrow> nat option \<Rightarrow> nat \<Rightarrow> named_rack list
       \<Rightarrow> (int \<times> nat option \<times> nat \<times> named_rack list) option" where
  "next_broker rack_names epoch first_rack rack_index racks =
     (if first_rack = Some rack_index then
        next_broker rack_names epoch None ((rack_index + 1) mod length rack_names) racks
      else if rack_index < length rack_names \<and> rack_names ! rack_index < length racks then
        (let rack = rack_names ! rack_index;
             (name, r) = racks ! rack;
             (result, r') = Rack_next epoch r;
             racks = racks[rack := (name, r')];
             rack_index = (rack_index + 1) mod length rack_names
         in case result of
              Some broker \<Rightarrow> Some (broker, first_rack, rack_index, racks)
            | None \<Rightarrow> next_broker rack_names epoch first_rack rack_index racks)
      else None)"

fun more_brokers ::
    "nat list \<Rightarrow> nat \<Rightarrow> nat \<Rightarrow> nat option \<Rightarrow> nat \<Rightarrow> named_rack list \<Rightarrow> (int list \<times> named_rack list) option" where
  "more_brokers rack_names epoch 0 first_rack rack_index racks = Some ([], racks)"
| "more_brokers rack_names epoch (Suc n) first_rack rack_index racks =
     Option.bind (next_broker rack_names epoch first_rack rack_index racks)
       (\<lambda>(broker, first_rack, rack_index, racks).
     map_option (\<lambda>(brokers, racks). (broker # brokers, racks))
       (more_brokers rack_names epoch n first_rack rack_index racks))"

definition refresh :: "'r next_bits \<Rightarrow> 'r RackList \<Rightarrow> 'r RackList option" where
  "refresh nxt self =
     map_option (\<lambda>self. if rl_offset self = length (rl_rack_names self) then self\<lparr>rl_offset := 0\<rparr> else self)
       (if rl_epoch self = rl_unfenced self \<and> 1 < rl_unfenced self
        then map_option (\<lambda>self. self\<lparr>rl_epoch := 0\<rparr>) (RackList_shuffle nxt self)
        else Some self)"

definition RackList_place :: "'r next_bits \<Rightarrow> int \<Rightarrow> 'r RackList \<Rightarrow> (int list res \<times> 'r RackList) option" where
  "RackList_place nxt replication_factor self =
     (case check_replication_factor replication_factor (rl_total self) (rl_unfenced self) of
        Inl e \<Rightarrow> Some (Inl e, self)
      | Inr _ \<Rightarrow>
          Option.bind (refresh nxt self) (\<lambda>self.
          Option.bind (first_broker (rl_rack_names self) (rl_epoch self) (rl_offset self) (rl_racks self))
            (\<lambda>(broker, first_rack, racks).
          map_option (\<lambda>(brokers, racks).
              (Inr (broker # brokers),
               self\<lparr>rl_racks := racks, rl_epoch := rl_epoch self + 1, rl_offset := rl_offset self + 1\<rparr>))
            (more_brokers (rl_rack_names self) (rl_epoch self) (nat (replication_factor - 1))
               (Some first_rack) (rl_offset self) racks))))"

fun place_partitions :: "'r next_bits \<Rightarrow> nat \<Rightarrow> int \<Rightarrow> 'r RackList \<Rightarrow> (int list list res \<times> 'r RackList) option" where
  "place_partitions nxt 0 replication_factor racks = Some (Inr [], racks)"
| "place_partitions nxt (Suc n) replication_factor racks =
     Option.bind (RackList_place nxt replication_factor racks) (\<lambda>(r, racks).
     case r of
       Inl e \<Rightarrow> Some (Inl e, racks)
     | Inr replicas \<Rightarrow>
         map_option (\<lambda>(rs, racks). (map_sum id (\<lambda>rs. replicas # rs) rs, racks))
           (place_partitions nxt n replication_factor racks))"

definition place ::
    "'r next_bits \<Rightarrow> 'r \<Rightarrow> nat \<Rightarrow> int \<Rightarrow> UsableBroker list \<Rightarrow> (int list list res \<times> 'r) option" where
  "place nxt random partitions replication_factor brokers =
     Option.bind (RackList_new nxt random brokers) (\<lambda>racks.
     case res_bind (check_positive replication_factor) (\<lambda>_.
          res_bind (check_unfenced (rl_unfenced racks)) (\<lambda>_.
          check_enough_brokers replication_factor (rl_total racks))) of
       Inl e \<Rightarrow> Some (Inl e, rl_random racks)
     | Inr _ \<Rightarrow> map_option (\<lambda>(r, racks). (r, rl_random racks))
                 (place_partitions nxt partitions replication_factor racks))"

section \<open>The proposal\<close>

type_synonym assignment = "(string \<times> int, int list) btmap"

definition count_partition ::
    "(string, nat \<times> int) btmap \<Rightarrow> (string \<times> int) \<times> int list \<Rightarrow> (string, nat \<times> int) btmap" where
  "count_partition topics = (\<lambda>((topic, _), replicas).
     let (partitions, factor) = (case map_of topics topic of None \<Rightarrow> (0, 0) | Some e \<Rightarrow> e);
         factor = (if partitions = 0 then i32_of_usize (length replicas) else factor)
     in bt_insert topic (partitions + 1, factor) topics)"

definition topic_shapes :: "assignment \<Rightarrow> (string, nat \<times> int) btmap" where
  "topic_shapes current = foldl count_partition [] current"

definition insert_replicas :: "string \<Rightarrow> assignment \<Rightarrow> int list list \<Rightarrow> assignment" where
  "insert_replicas topic proposed placed =
     foldl (\<lambda>proposed (partition, replicas). bt_insert (topic, i32_of_usize partition) replicas proposed)
       proposed (enumerate 0 placed)"

fun propose_topics ::
    "'r next_bits \<Rightarrow> UsableBroker list \<Rightarrow> (string, nat \<times> int) btmap \<Rightarrow> string list \<Rightarrow> assignment \<Rightarrow> 'r
       \<Rightarrow> (assignment res \<times> 'r) option" where
  "propose_topics nxt brokers topics [] proposed random = Some (Inr proposed, random)"
| "propose_topics nxt brokers topics (topic # names) proposed random =
     Option.bind (map_of topics topic) (\<lambda>(partitions, replication_factor).
     Option.bind (place nxt random partitions replication_factor brokers) (\<lambda>(r, random).
     case r of
       Inl e \<Rightarrow> Some (Inl e, random)
     | Inr placed \<Rightarrow> propose_topics nxt brokers topics names (insert_replicas topic proposed placed) random))"

definition propose :: "'r next_bits \<Rightarrow> 'r \<Rightarrow> assignment \<Rightarrow> UsableBroker list \<Rightarrow> (assignment res \<times> 'r) option" where
  "propose nxt random current brokers =
     (let topics = topic_shapes current
      in propose_topics nxt brokers topics (hash_order (map fst topics) Default string_hash) [] random)"

section \<open>What a source of brokers promises\<close>

text \<open>
  In an epoch a source hands out its queue, front first; \<open>used\<close> counts what it has handed out
  of its stock in the epoch. In any other epoch it can hand out at least as many again.
\<close>

locale broker_source =
  fixes nextb :: "nat \<Rightarrow> 's \<Rightarrow> int option \<times> 's"
    and queue :: "nat \<Rightarrow> 's \<Rightarrow> int list"
    and stock :: "'s \<Rightarrow> int multiset"
    and used :: "nat \<Rightarrow> 's \<Rightarrow> nat"
    and wf :: "'s \<Rightarrow> bool"
  assumes nextb_empty: "queue e s = [] \<Longrightarrow> nextb e s = (None, s)"
    and nextb_hand: "queue e s = b # bs \<Longrightarrow> fst (nextb e s) = Some b \<and> queue e (snd (nextb e s)) = bs"
    and nextb_used: "queue e s \<noteq> [] \<Longrightarrow> used e (snd (nextb e s)) = Suc (used e s)"
    and nextb_stock: "stock (snd (nextb e s)) = stock s"
    and nextb_wf: "wf s \<Longrightarrow> wf (snd (nextb e s))"
    and queue_stock: "mset (queue e s) \<subseteq># stock s"
    and reuse: "wf s \<Longrightarrow> e \<noteq> e' \<Longrightarrow> used e s \<le> length (queue e' s)"
begin

lemma nextb_None: "nextb e s = (None, s') \<Longrightarrow> queue e s = [] \<and> s' = s"
  using nextb_empty [of e s] nextb_hand [of e s] by (cases "queue e s") auto

lemma nextb_Some:
  assumes "nextb e s = (Some b, s')"
  shows "queue e s = b # queue e s'" and "used e s' = Suc (used e s)" and "stock s' = stock s"
  using assms nextb_empty [of e s] nextb_hand [of e s] nextb_used [of e s] nextb_stock [of e s]
  by (cases "queue e s"; auto)+

lemma nextb_exists: "queue e s \<noteq> [] \<Longrightarrow> \<exists>b s'. nextb e s = (Some b, s')"
  using nextb_hand [of e s] by (cases "nextb e s") (auto simp: neq_Nil_conv)

lemma nextb_in_stock: "nextb e s = (Some b, s') \<Longrightarrow> b \<in># stock s"
  using nextb_Some(1) [of e s b s'] queue_stock [of e s] by (simp add: mset_subset_eq_insertD)

end

definition remaining :: "nat \<Rightarrow> BrokerList \<Rightarrow> int list" where
  "remaining e l =
     (if bl_epoch l = e then drop (bl_index l) (rotate (bl_offset l) (bl_brokers l))
      else rotate (Suc (bl_offset l)) (bl_brokers l))"

definition used :: "nat \<Rightarrow> BrokerList \<Rightarrow> nat" where
  "used e l = (if bl_epoch l = e then bl_index l else 0)"

definition bl_wf :: "BrokerList \<Rightarrow> bool" where
  "bl_wf l \<longleftrightarrow> bl_index l \<le> length (bl_brokers l)"

abbreviation bl_stock :: "BrokerList \<Rightarrow> int multiset" where
  "bl_stock l \<equiv> mset (bl_brokers l)"

lemma mset_drop_subset: "mset (drop n xs) \<subseteq># mset xs"
  by (metis append_take_drop_id mset_append mset_subset_eq_add_right)

lemma mset_rotate1' [simp]: "mset (rotate1 xs) = mset xs"
  by (cases xs) simp_all

lemma mset_rotate' [simp]: "mset (rotate n xs) = mset xs"
  by (induction n) simp_all

lemma remaining_length:
  "length (remaining e l) =
     length (bl_brokers l) - (if bl_epoch l = e then bl_index l else 0)"
  by (simp add: remaining_def)

lemma BrokerList_next_Nil: "remaining e l = [] \<Longrightarrow> BrokerList_next e l = (None, l)"
  by (auto simp: remaining_def BrokerList_next_def Let_def split: if_splits)

lemma BrokerList_next_Cons:
  assumes "remaining e l \<noteq> []"
  shows "\<exists>l'. BrokerList_next e l = (Some (hd (remaining e l)), l') \<and> remaining e l' = tl (remaining e l)
    \<and> bl_brokers l' = bl_brokers l \<and> used e l' = Suc (used e l)
    \<and> bl_epoch l' = e \<and> bl_index l' \<le> length (bl_brokers l)"
proof -
  let ?bs = "bl_brokers l"
  have ne: "?bs \<noteq> []" using assms by (auto simp: remaining_def split: if_splits)
  have hd_drop: "i < length ?bs \<Longrightarrow> hd (drop i (rotate k ?bs)) = ?bs ! ((i + k) mod length ?bs)" for i k
    by (simp add: hd_drop_conv_nth nth_rotate add.commute)
  have rot_mod: "rotate (Suc (bl_offset l) mod length ?bs) ?bs = rotate (Suc (bl_offset l)) ?bs"
    by (rule rotate_conv_mod [symmetric])
  show ?thesis
  proof (cases "bl_epoch l = e")
    case True
    then have "bl_index l < length ?bs" using assms by (simp add: remaining_def)
    with True ne show ?thesis
      by (simp add: BrokerList_next_def remaining_def used_def hd_drop drop_Suc tl_drop Let_def)
  next
    case False
    have "hd (rotate (Suc (bl_offset l)) ?bs) = ?bs ! (Suc (bl_offset l) mod length ?bs)"
      using ne hd_drop [of 0 "Suc (bl_offset l)"] by simp
    with False ne show ?thesis
      by (simp add: BrokerList_next_def remaining_def used_def Let_def rot_mod drop_Suc Suc_leI)
  qed
qed

interpretation bl: broker_source BrokerList_next remaining bl_stock used bl_wf
proof
  fix e e' :: nat and s :: BrokerList and b bs
  show "remaining e s = [] \<Longrightarrow> BrokerList_next e s = (None, s)" by (rule BrokerList_next_Nil)
  show "remaining e s = b # bs \<Longrightarrow>
      fst (BrokerList_next e s) = Some b \<and> remaining e (snd (BrokerList_next e s)) = bs"
    using BrokerList_next_Cons [of e s] by auto
  show "remaining e s \<noteq> [] \<Longrightarrow> used e (snd (BrokerList_next e s)) = Suc (used e s)"
    using BrokerList_next_Cons [of e s] by auto
  show "bl_stock (snd (BrokerList_next e s)) = bl_stock s"
    using BrokerList_next_Cons [of e s] BrokerList_next_Nil [of e s] by fastforce
  show "bl_wf s \<Longrightarrow> bl_wf (snd (BrokerList_next e s))"
    using BrokerList_next_Cons [of e s] BrokerList_next_Nil [of e s] unfolding bl_wf_def by fastforce
  show "mset (remaining e s) \<subseteq># bl_stock s"
    using mset_drop_subset [of "bl_index s" "rotate (bl_offset s) (bl_brokers s)"]
    by (simp add: remaining_def)
  show "bl_wf s \<Longrightarrow> e \<noteq> e' \<Longrightarrow> used e s \<le> length (remaining e' s)"
    by (auto simp: used_def remaining_length bl_wf_def)
qed

definition rack_remaining :: "nat \<Rightarrow> Rack \<Rightarrow> int list" where
  "rack_remaining e r = remaining e (rk_unfenced r) @ remaining e (rk_fenced r)"

definition rack_stock :: "Rack \<Rightarrow> int multiset" where
  "rack_stock r = bl_stock (rk_unfenced r) + bl_stock (rk_fenced r)"

definition rack_used :: "nat \<Rightarrow> Rack \<Rightarrow> nat" where
  "rack_used e r = used e (rk_unfenced r) + used e (rk_fenced r)"

definition rack_wf :: "Rack \<Rightarrow> bool" where
  "rack_wf r \<longleftrightarrow> bl_wf (rk_unfenced r) \<and> bl_wf (rk_fenced r)"

lemmas rack_defs = rack_remaining_def rack_stock_def rack_used_def rack_wf_def

lemma Rack_next_unfenced:
  assumes "BrokerList_next e (rk_unfenced r) = (Some b, l)"
  shows "Rack_next e r = (Some b, r\<lparr>rk_unfenced := l\<rparr>)"
  using assms by (simp add: Rack_next_def)

lemma Rack_next_fenced:
  assumes "remaining e (rk_unfenced r) = []"
  shows "Rack_next e r = (fst (BrokerList_next e (rk_fenced r)), r\<lparr>rk_fenced := snd (BrokerList_next e (rk_fenced r))\<rparr>)"
  using BrokerList_next_Nil [OF assms] by (simp add: Rack_next_def split: prod.split)

lemma Rack_next_cases:
  obtains (unfenced) b where "remaining e (rk_unfenced r) \<noteq> []"
      and "Rack_next e r = (Some b, r\<lparr>rk_unfenced := snd (BrokerList_next e (rk_unfenced r))\<rparr>)"
      and "fst (BrokerList_next e (rk_unfenced r)) = Some b"
    | (fenced) "remaining e (rk_unfenced r) = []"
      and "Rack_next e r = (fst (BrokerList_next e (rk_fenced r)), r\<lparr>rk_fenced := snd (BrokerList_next e (rk_fenced r))\<rparr>)"
proof (cases "remaining e (rk_unfenced r) = []")
  case True
  then show ?thesis using Rack_next_fenced by (intro fenced)
next
  case False
  then obtain b l where "BrokerList_next e (rk_unfenced r) = (Some b, l)" using bl.nextb_exists by blast
  with False Rack_next_unfenced [of e r b l] show ?thesis by (intro unfenced) auto
qed

interpretation rk: broker_source Rack_next rack_remaining rack_stock rack_used rack_wf
proof
  fix e e' :: nat and s :: Rack and b bs
  show "rack_remaining e s = [] \<Longrightarrow> Rack_next e s = (None, s)"
    by (cases rule: Rack_next_cases [of e s]) (simp_all add: rack_defs BrokerList_next_Nil)
  show "rack_remaining e s = b # bs \<Longrightarrow>
      fst (Rack_next e s) = Some b \<and> rack_remaining e (snd (Rack_next e s)) = bs"
    using bl.nextb_hand [of e "rk_unfenced s"] bl.nextb_hand [of e "rk_fenced s"]
    by (cases rule: Rack_next_cases [of e s]) (auto simp: rack_defs neq_Nil_conv)
  show "rack_remaining e s \<noteq> [] \<Longrightarrow> rack_used e (snd (Rack_next e s)) = Suc (rack_used e s)"
    by (cases rule: Rack_next_cases [of e s]) (simp_all add: rack_defs bl.nextb_used)
  show "rack_stock (snd (Rack_next e s)) = rack_stock s"
    by (cases rule: Rack_next_cases [of e s]) (simp_all add: rack_defs bl.nextb_stock)
  show "rack_wf s \<Longrightarrow> rack_wf (snd (Rack_next e s))"
    by (cases rule: Rack_next_cases [of e s]) (simp_all add: rack_defs bl.nextb_wf)
  show "mset (rack_remaining e s) \<subseteq># rack_stock s"
    by (simp add: rack_defs bl.queue_stock subset_mset.add_mono)
  show "rack_wf s \<Longrightarrow> e \<noteq> e' \<Longrightarrow> rack_used e s \<le> length (rack_remaining e' s)"
    by (simp add: rack_defs bl.reuse add_mono)
qed

section \<open>Drawing brokers from the racks\<close>

text \<open>A quantity of a rack summed over the racks.\<close>

definition over :: "(Rack \<Rightarrow> 'm) \<Rightarrow> named_rack list \<Rightarrow> 'm::comm_monoid_add" where
  "over f racks = (\<Sum>p \<leftarrow> racks. f (snd p))"

abbreviation all_remaining :: "nat \<Rightarrow> named_rack list \<Rightarrow> int multiset" where
  "all_remaining e \<equiv> over (\<lambda>r. mset (rack_remaining e r))"

abbreviation all_unfenced :: "nat \<Rightarrow> named_rack list \<Rightarrow> int multiset" where
  "all_unfenced e \<equiv> over (\<lambda>r. mset (remaining e (rk_unfenced r)))"

lemma over_Cons [simp]: "over f [] = 0" "over f (p # racks) = f (snd p) + over f racks"
  by (simp_all add: over_def)

lemma over_update:
  "i < length racks \<Longrightarrow> over f (racks[i := (n, r)]) + f (snd (racks ! i)) = over f racks + f r"
  by (induction racks arbitrary: i) (auto simp: ac_simps split: nat.split)

lemma over_mono:
  fixes f g :: "Rack \<Rightarrow> nat"
  assumes "\<And>p. p \<in> set racks \<Longrightarrow> f (snd p) \<le> g (snd p)"
  shows "over f racks \<le> over g racks"
  using assms by (induction racks) (auto intro: add_mono)

lemma size_over: "size (over f racks :: 'b multiset) = over (\<lambda>r. size (f r)) racks"
  by (induction racks) auto

lemma over_nonempty: "over f racks \<noteq> {#} \<Longrightarrow> \<exists>i < length racks. f (snd (racks ! i)) \<noteq> {#}"
  by (induction racks) (auto, metis Suc_less_eq nth_Cons_Suc)

lemma over_member: "i < length racks \<Longrightarrow> b \<in># f (snd (racks ! i)) \<Longrightarrow> b \<in># over f racks"
  by (induction racks arbitrary: i) (auto simp: nth_Cons split: nat.splits)

text \<open>One broker taken from one rack, and a sequence of such steps.\<close>

inductive draws :: "nat \<Rightarrow> named_rack list \<Rightarrow> int list \<Rightarrow> named_rack list \<Rightarrow> bool" for e where
  draws_Nil: "draws e racks [] racks"
| draws_Cons: "\<lbrakk>i < length racks; Rack_next e (snd (racks ! i)) = (Some b, r');
    draws e (racks[i := (fst (racks ! i), r')]) bs racks'\<rbrakk> \<Longrightarrow> draws e racks (b # bs) racks'"

lemma draws_remaining: "draws e racks bs racks' \<Longrightarrow> all_remaining e racks = mset bs + all_remaining e racks'"
proof (induction rule: draws.induct)
  case (draws_Cons i racks b r' bs racks')
  let ?f = "\<lambda>r. mset (rack_remaining e r)"
  have "over ?f (racks[i := (fst (racks ! i), r')]) + add_mset b (?f r') = over ?f racks + ?f r'"
    using over_update [OF draws_Cons.hyps(1), of ?f "fst (racks ! i)" r'] rk.nextb_Some(1) [OF draws_Cons.hyps(2)]
    by simp
  with draws_Cons.IH show ?case by simp
qed simp

lemma draws_used: "draws e racks bs racks' \<Longrightarrow> over (rack_used e) racks' = over (rack_used e) racks + length bs"
proof (induction rule: draws.induct)
  case (draws_Cons i racks b r' bs racks')
  then show ?case
    using over_update [OF draws_Cons.hyps(1), of "rack_used e" "fst (racks ! i)" r']
      rk.nextb_Some(2) [OF draws_Cons.hyps(2)] by simp
qed simp

lemma Rack_next_parts:
  "bl_stock (rk_unfenced (snd (Rack_next e r))) = bl_stock (rk_unfenced r)"
  "bl_stock (rk_fenced (snd (Rack_next e r))) = bl_stock (rk_fenced r)"
  "used e (rk_unfenced r) \<le> used e (rk_unfenced (snd (Rack_next e r)))"
  by (cases rule: Rack_next_cases [of e r]; simp add: bl.nextb_stock bl.nextb_used)+

text \<open>What a draw keeps: the stocks, well-formedness, the number of racks and their names.\<close>

lemma draws_keep:
  assumes "draws e racks bs racks'"
  shows "length racks' = length racks"
    and "over (\<lambda>r. bl_stock (rk_unfenced r)) racks' = over (\<lambda>r. bl_stock (rk_unfenced r)) racks"
    and "over rack_stock racks' = over rack_stock racks"
    and "over (\<lambda>r. used e (rk_unfenced r)) racks \<le> over (\<lambda>r. used e (rk_unfenced r)) racks'"
    and "\<forall>p \<in> set racks. rack_wf (snd p) \<Longrightarrow> \<forall>p \<in> set racks'. rack_wf (snd p)"
  using assms
proof (induction rule: draws.induct)
  case (draws_Cons i racks b r' bs racks')
  let ?r = "snd (racks ! i)" and ?n = "fst (racks ! i)"
  have r': "r' = snd (Rack_next e ?r)" using draws_Cons.hyps(2) by simp
  note upd = over_update [OF draws_Cons.hyps(1), where n = ?n and r = r']
  { case 1 show ?case using draws_Cons.IH(1) by simp }
  { case 2 show ?case using draws_Cons.IH(2) upd [of "\<lambda>r. bl_stock (rk_unfenced r)"]
      by (simp add: r' Rack_next_parts) }
  { case 3 show ?case using draws_Cons.IH(3) upd [of rack_stock]
      by (simp add: r' rk.nextb_stock) }
  { case 4 show ?case using draws_Cons.IH(4) upd [of "\<lambda>r. used e (rk_unfenced r)"] Rack_next_parts(3) [of e ?r]
      by (simp add: r') }
  { case 5
    then have "rack_wf r'" using draws_Cons.hyps(1) nth_mem rk.nextb_wf unfolding r' by blast
    with 5 show ?case by (intro draws_Cons.IH(5)) (auto dest!: set_update_subset_insert [THEN subsetD]) }
qed simp_all

section \<open>The loops end\<close>

text \<open>\<open>rack_names\<close> lists every rack once.\<close>

definition names_ok :: "nat list \<Rightarrow> named_rack list \<Rightarrow> bool" where
  "names_ok rack_names racks \<longleftrightarrow> mset rack_names = mset [0..<length racks]"

lemma names_ok_nth: "names_ok names racks \<Longrightarrow> j < length names \<Longrightarrow> names ! j < length racks"
  unfolding names_ok_def by (metis atLeastLessThan_iff mset_eq_setD nth_mem set_upt)

lemma names_ok_find: "names_ok names racks \<Longrightarrow> i < length racks \<Longrightarrow> \<exists>j < length names. names ! j = i"
  unfolding names_ok_def by (metis atLeast0LessThan in_set_conv_nth lessThan_iff mset_eq_setD set_upt)

lemma names_ok_length: "names_ok names racks \<Longrightarrow> length names = length racks"
  unfolding names_ok_def by (metis diff_zero length_upt mset_eq_length)

lemma mod_reach: "ri < n \<Longrightarrow> j < n \<Longrightarrow> \<exists>d. (ri + d) mod n = (j::nat)"
  by (intro exI [of _ "n - ri + j"]) simp

lemma mod_Suc_step: "((ri + 1) mod n + d) mod n = (ri + Suc d) mod (n::nat)"
  by (simp add: mod_simps)

lemma step_less: "ri < n \<Longrightarrow> (k + 1) mod n < (n::nat)"
  by (intro mod_less_divisor) simp

lemma update_same: "xs ! i = (n, r) \<Longrightarrow> xs[i := (n, r)] = xs"
  by (metis list_update_id)

lemma first_broker_step:
  assumes ok: "names_ok names racks" and first: "first < length names" and i: "i = names ! first"
  shows "remaining e (rk_unfenced (snd (racks ! i))) = [] \<Longrightarrow>
      first_broker names e first racks = first_broker names e ((first + 1) mod length names) racks"
    and "remaining e (rk_unfenced (snd (racks ! i))) \<noteq> [] \<Longrightarrow>
      \<exists>b racks'. first_broker names e first racks = Some (b, first, racks')
        \<and> draws e racks [b] racks' \<and> b \<in># over (\<lambda>r. bl_stock (rk_unfenced r)) racks
        \<and> 0 < over (\<lambda>r. used e (rk_unfenced r)) racks'"
proof -
  obtain n r where r: "racks ! i = (n, r)" by (cases "racks ! i")
  have il: "i < length racks" using names_ok_nth [OF ok first] i by simp
  { assume "remaining e (rk_unfenced (snd (racks ! i))) = []"
    then show "first_broker names e first racks = first_broker names e ((first + 1) mod length names) racks"
      using il r i first
      by (subst first_broker.simps) (simp add: BrokerList_next_Nil update_same) }
  assume "remaining e (rk_unfenced (snd (racks ! i))) \<noteq> []"
  then obtain b l where b: "BrokerList_next e (rk_unfenced r) = (Some b, l)"
    using bl.nextb_exists r by fastforce
  let ?racks = "racks[i := (n, r\<lparr>rk_unfenced := l\<rparr>)]"
  have "first_broker names e first racks = Some (b, first, ?racks)"
    using il r i first b by (subst first_broker.simps) simp
  moreover have "draws e racks [b] ?racks"
    using draws_Cons [OF il, of e b "r\<lparr>rk_unfenced := l\<rparr>" "[]" ?racks] Rack_next_unfenced [OF b] r
    by (simp add: draws_Nil)
  moreover have "b \<in># over (\<lambda>r. bl_stock (rk_unfenced r)) racks"
    using bl.nextb_in_stock [OF b] il r over_member [OF il, of b "\<lambda>r. bl_stock (rk_unfenced r)"] by simp
  moreover have "0 < over (\<lambda>r. used e (rk_unfenced r)) ?racks"
    using over_update [OF il, of "\<lambda>r. used e (rk_unfenced r)" n "r\<lparr>rk_unfenced := l\<rparr>"] bl.nextb_Some(2) [OF b] r
    by simp
  ultimately show "\<exists>b racks'. first_broker names e first racks = Some (b, first, racks')
        \<and> draws e racks [b] racks' \<and> b \<in># over (\<lambda>r. bl_stock (rk_unfenced r)) racks
        \<and> 0 < over (\<lambda>r. used e (rk_unfenced r)) racks'" by blast
qed

lemma first_broker_reaches:
  assumes ok: "names_ok names racks" and "first < length names"
    and "remaining e (rk_unfenced (snd (racks ! (names ! ((first + d) mod length names))))) \<noteq> []"
  shows "\<exists>b j racks'. first_broker names e first racks = Some (b, j, racks') \<and> j < length names
    \<and> draws e racks [b] racks' \<and> b \<in># over (\<lambda>r. bl_stock (rk_unfenced r)) racks
    \<and> 0 < over (\<lambda>r. used e (rk_unfenced r)) racks'"
  using assms(2,3)
proof (induction d arbitrary: first)
  case 0
  then show ?case using first_broker_step(2) [OF ok 0(1) refl, of e] by fastforce
next
  case (Suc d)
  note step = first_broker_step [OF ok Suc.prems(1) refl, of e]
  show ?case
  proof (cases "remaining e (rk_unfenced (snd (racks ! (names ! first)))) = []")
    case True
    moreover have "(first + 1) mod length names < length names" by (rule step_less [OF Suc.prems(1)])
    ultimately show ?thesis
      using step(1) Suc.IH [of "(first + 1) mod length names"] Suc.prems(2)
      unfolding mod_Suc_step by simp
  next
    case False
    then show ?thesis using step(2) Suc.prems(1) by fastforce
  qed
qed

lemma first_broker_returns:
  assumes ok: "names_ok names racks" and "first < length names" and ne: "all_unfenced e racks \<noteq> {#}"
  shows "\<exists>b j racks'. first_broker names e first racks = Some (b, j, racks') \<and> j < length names
    \<and> draws e racks [b] racks' \<and> b \<in># over (\<lambda>r. bl_stock (rk_unfenced r)) racks
    \<and> 0 < over (\<lambda>r. used e (rk_unfenced r)) racks'"
proof -
  obtain i where i: "i < length racks" "remaining e (rk_unfenced (snd (racks ! i))) \<noteq> []"
    using over_nonempty [OF ne] by auto
  then obtain j where j: "j < length names" "names ! j = i" using names_ok_find [OF ok] by blast
  then obtain d where "(first + d) mod length names = j" using mod_reach assms(2) by blast
  with i j assms show ?thesis by (intro first_broker_reaches [where d = d]) auto
qed

lemma next_broker_step:
  assumes ok: "names_ok names racks" and ri: "ri < length names" and i: "i = names ! ri" and f: "f \<noteq> Some ri"
  shows "rack_remaining e (snd (racks ! i)) = [] \<Longrightarrow>
      next_broker names e f ri racks = next_broker names e f ((ri + 1) mod length names) racks"
    and "rack_remaining e (snd (racks ! i)) \<noteq> [] \<Longrightarrow>
      \<exists>b racks'. next_broker names e f ri racks = Some (b, f, (ri + 1) mod length names, racks')
        \<and> draws e racks [b] racks'"
proof -
  obtain n r where r: "racks ! i = (n, r)" by (cases "racks ! i")
  have il: "i < length racks" using names_ok_nth [OF ok ri] i by simp
  { assume "rack_remaining e (snd (racks ! i)) = []"
    then show "next_broker names e f ri racks = next_broker names e f ((ri + 1) mod length names) racks"
      using il r i ri f
      by (subst next_broker.simps) (simp add: rk.nextb_empty update_same) }
  assume "rack_remaining e (snd (racks ! i)) \<noteq> []"
  then obtain b r' where b: "Rack_next e r = (Some b, r')" using rk.nextb_exists r by fastforce
  let ?racks = "racks[i := (n, r')]"
  have "next_broker names e f ri racks = Some (b, f, (ri + 1) mod length names, ?racks)"
    using il r i ri f b by (subst next_broker.simps) simp
  moreover have "draws e racks [b] ?racks"
    using draws_Cons [OF il, of e b r' "[]" ?racks] b r by (simp add: draws_Nil)
  ultimately show "\<exists>b racks'. next_broker names e f ri racks = Some (b, f, (ri + 1) mod length names, racks')
        \<and> draws e racks [b] racks'" by blast
qed

lemma next_broker_reaches:
  assumes ok: "names_ok names racks" and "ri < length names"
    and "rack_remaining e (snd (racks ! (names ! ((ri + d) mod length names)))) \<noteq> []"
    and skip: "\<And>k. f = Some k \<Longrightarrow> k < length names \<Longrightarrow>
      \<exists>b f' ri' racks'. next_broker names e None ((k + 1) mod length names) racks = Some (b, f', ri', racks')
        \<and> ri' < length names \<and> draws e racks [b] racks'"
  shows "\<exists>b f' ri' racks'. next_broker names e f ri racks = Some (b, f', ri', racks')
    \<and> ri' < length names \<and> draws e racks [b] racks'"
  using assms(2,3)
proof (induction d arbitrary: ri)
  case (Suc d)
  show ?case
  proof (cases "f = Some ri")
    case True
    then show ?thesis using skip [OF True Suc.prems(1)] by (subst next_broker.simps) simp
  next
    case False
    note step = next_broker_step [OF ok Suc.prems(1) refl False, of e]
    have less: "(ri + 1) mod length names < length names" by (rule step_less [OF Suc.prems(1)])
    show ?thesis
    proof (cases "rack_remaining e (snd (racks ! (names ! ri))) = []")
      case True
      then show ?thesis using step(1) Suc.IH [OF less] Suc.prems(2) unfolding mod_Suc_step by simp
    next
      case False
      then show ?thesis using step(2) less by blast
    qed
  qed
next
  case 0
  show ?case
  proof (cases "f = Some ri")
    case True
    then show ?thesis using skip [OF True 0(1)] by (subst next_broker.simps) simp
  next
    case False
    moreover have "(ri + 1) mod length names < length names" by (rule step_less [OF 0(1)])
    ultimately show ?thesis using next_broker_step(2) [OF ok 0(1) refl False, of e] 0 by (metis add_0_right mod_less)
  qed
qed

lemma next_broker_returns:
  assumes ok: "names_ok names racks" and ri: "ri < length names" and ne: "all_remaining e racks \<noteq> {#}"
  shows "\<exists>b f' ri' racks'. next_broker names e f ri racks = Some (b, f', ri', racks')
    \<and> ri' < length names \<and> draws e racks [b] racks'"
proof -
  obtain i where i: "i < length racks" "rack_remaining e (snd (racks ! i)) \<noteq> []"
    using over_nonempty [OF ne] by auto
  then obtain j where j: "j < length names" "names ! j = i" using names_ok_find [OF ok] by blast
  then have dist: "k < length names \<Longrightarrow>
      \<exists>d. rack_remaining e (snd (racks ! (names ! ((k + d) mod length names)))) \<noteq> []" for k
    using mod_reach [of k "length names" j] i by auto
  have none: "\<exists>b f' ri' racks'. next_broker names e None k racks = Some (b, f', ri', racks')
      \<and> ri' < length names \<and> draws e racks [b] racks'" if "k < length names" for k
    using dist [OF that] next_broker_reaches [OF ok that, of e _ None] by blast
  have less: "(k + 1) mod length names < length names" for k by (rule step_less [OF ri])
  obtain d where "rack_remaining e (snd (racks ! (names ! ((ri + d) mod length names)))) \<noteq> []"
    using dist [OF ri] by blast
  then show ?thesis by (rule next_broker_reaches [OF ok ri]) (rule none [OF less])
qed

lemma draws_trans: "draws e racks bs racks' \<Longrightarrow> draws e racks' cs racks'' \<Longrightarrow> draws e racks (bs @ cs) racks''"
  by (induction rule: draws.induct) (auto intro: draws.intros)

lemma more_brokers_returns:
  assumes "names_ok names racks" and "ri < length names" and "n \<le> size (all_remaining e racks)"
  shows "\<exists>bs racks'. more_brokers names e n f ri racks = Some (bs, racks')
    \<and> length bs = n \<and> draws e racks bs racks'"
  using assms
proof (induction n arbitrary: f ri racks)
  case (Suc n)
  then have "all_remaining e racks \<noteq> {#}" by auto
  then obtain b f' ri' racks' where b: "next_broker names e f ri racks = Some (b, f', ri', racks')"
      "ri' < length names" and d: "draws e racks [b] racks'"
    using next_broker_returns [OF Suc.prems(1,2), of e f] by blast
  have "names_ok names racks'" using Suc.prems(1) draws_keep(1) [OF d] by (simp add: names_ok_def)
  moreover have "n \<le> size (all_remaining e racks')" using Suc.prems(3) draws_remaining [OF d] by simp
  ultimately obtain bs racks'' where "more_brokers names e n f' ri' racks' = Some (bs, racks'')"
      "length bs = n" "draws e racks' bs racks''"
    using Suc.IH b(2) by blast
  with b(1) draws_trans [OF d, of bs racks''] show ?case by simp
qed (auto intro: draws.intros)

end
