(* ===== verification/Replica_Placement.thy ===== *)
theory Replica_Placement
  imports Replica_Placer
begin

text \<open>
  What the placer of \<^verbatim>\<open>replica_placer.rs\<close> guarantees: the invariant of a \<open>RackList\<close>, that every
  partition gets the requested number of distinct registered brokers with an unfenced leader,
  that the loops end, exactly which errors are returned, and what a proposal keeps of the
  current assignment.
\<close>

section \<open>The invariant of a rack list\<close>

abbreviation broker_ids :: "UsableBroker list \<Rightarrow> int multiset" where
  "broker_ids brokers \<equiv> mset (map ub_id brokers)"

abbreviation unfenced_ids :: "UsableBroker list \<Rightarrow> int multiset" where
  "unfenced_ids brokers \<equiv> mset (map ub_id (filter (\<lambda>b. \<not> ub_fenced b) brokers))"

definition rl_inv :: "UsableBroker list \<Rightarrow> 'r RackList \<Rightarrow> bool" where
  "rl_inv brokers self \<longleftrightarrow>
     names_ok (rl_rack_names self) (rl_racks self)
     \<and> over rack_stock (rl_racks self) = broker_ids brokers
     \<and> over (\<lambda>r. bl_stock (rk_unfenced r)) (rl_racks self) = unfenced_ids brokers
     \<and> (\<forall>p \<in> set (rl_racks self). rack_wf (snd p))
     \<and> rl_total self = length brokers
     \<and> rl_unfenced self = length (filter (\<lambda>b. \<not> ub_fenced b) brokers)
     \<and> rl_offset self \<le> length (rl_rack_names self)"

text \<open>
  The epoch of the next call, and that the racks can then hand out the replicas, an unfenced
  broker among them. A list that has handed out in the last call can do so again, because the
  epoch of the next call is another one: with one unfenced broker the epoch never starts over,
  and with more it starts over at 0 from a last epoch that is at least 1.
\<close>

definition next_epoch :: "'r RackList \<Rightarrow> nat" where
  "next_epoch self = (if rl_epoch self = rl_unfenced self \<and> 1 < rl_unfenced self then 0 else rl_epoch self)"

definition ready :: "nat \<Rightarrow> 'r RackList \<Rightarrow> bool" where
  "ready n self \<longleftrightarrow>
     n \<le> over (\<lambda>r. length (rack_remaining (next_epoch self) r)) (rl_racks self)
     \<and> 0 < over (\<lambda>r. length (remaining (next_epoch self) (rk_unfenced r))) (rl_racks self)"

lemma next_epoch_other:
  assumes "rl_epoch self' = Suc (next_epoch self)" and "rl_unfenced self' = rl_unfenced self"
  shows "next_epoch self' \<noteq> next_epoch self"
  using assms by (auto simp: next_epoch_def)

text \<open>What a shuffle keeps: only the order of the brokers in a list changes.\<close>

definition list_permuted :: "BrokerList \<Rightarrow> BrokerList \<Rightarrow> bool" where
  "list_permuted l l' \<longleftrightarrow> bl_stock l' = bl_stock l \<and> bl_index l' = bl_index l \<and> bl_epoch l' = bl_epoch l"

definition same_shape :: "named_rack list \<Rightarrow> named_rack list \<Rightarrow> bool" where
  "same_shape racks racks' \<longleftrightarrow>
     list_all2 (\<lambda>p p'. list_permuted (rk_fenced (snd p)) (rk_fenced (snd p'))
        \<and> list_permuted (rk_unfenced (snd p)) (rk_unfenced (snd p'))) racks racks'"

lemma list_permuted_facts:
  assumes "list_permuted l l'"
  shows "bl_stock l' = bl_stock l" and "length (remaining e l') = length (remaining e l)" and "bl_wf l' \<longleftrightarrow> bl_wf l"
  using assms mset_eq_length [of "bl_brokers l'" "bl_brokers l"]
  by (auto simp: list_permuted_def remaining_length bl_wf_def)

lemma same_shape_refl: "same_shape racks racks"
  by (simp add: same_shape_def list_permuted_def list.rel_refl)

lemma same_shape_over:
  assumes "same_shape racks racks'"
    and "\<And>r r'. list_permuted (rk_fenced r) (rk_fenced r') \<Longrightarrow> list_permuted (rk_unfenced r) (rk_unfenced r') \<Longrightarrow> f r' = f r"
  shows "over f racks' = over f racks"
  using assms(1) unfolding same_shape_def
  by (induction rule: list_all2_induct) (simp, metis assms(2) over_Cons(2))

lemma same_shape_facts:
  assumes "same_shape racks racks'"
  shows "length racks' = length racks"
    and "over rack_stock racks' = over rack_stock racks"
    and "over (\<lambda>r. bl_stock (rk_unfenced r)) racks' = over (\<lambda>r. bl_stock (rk_unfenced r)) racks"
    and "over (\<lambda>r. length (rack_remaining e r)) racks' = over (\<lambda>r. length (rack_remaining e r)) racks"
    and "over (\<lambda>r. length (remaining e (rk_unfenced r))) racks' = over (\<lambda>r. length (remaining e (rk_unfenced r))) racks"
    and "\<forall>p \<in> set racks. rack_wf (snd p) \<Longrightarrow> \<forall>p \<in> set racks'. rack_wf (snd p)"
proof -
  show "length racks' = length racks" using assms list_all2_lengthD unfolding same_shape_def by fastforce
  show "over rack_stock racks' = over rack_stock racks"
    by (rule same_shape_over [OF assms]) (metis rack_stock_def list_permuted_facts(1))
  show "over (\<lambda>r. bl_stock (rk_unfenced r)) racks' = over (\<lambda>r. bl_stock (rk_unfenced r)) racks"
    by (rule same_shape_over [OF assms]) (rule list_permuted_facts(1))
  show "over (\<lambda>r. length (rack_remaining e r)) racks' = over (\<lambda>r. length (rack_remaining e r)) racks"
    by (rule same_shape_over [OF assms]) (metis rack_remaining_def length_append list_permuted_facts(2))
  show "over (\<lambda>r. length (remaining e (rk_unfenced r))) racks' = over (\<lambda>r. length (remaining e (rk_unfenced r))) racks"
    by (rule same_shape_over [OF assms]) (rule list_permuted_facts(2))
  show "\<forall>p \<in> set racks. rack_wf (snd p) \<Longrightarrow> \<forall>p \<in> set racks'. rack_wf (snd p)"
    using assms unfolding same_shape_def rack_wf_def by (fastforce dest!: list_all2_in2 simp: list_permuted_facts(3))
qed

lemma all_remaining_stock: "all_remaining e racks \<subseteq># over rack_stock racks"
  by (induction racks) (simp_all add: subset_mset.add_mono rk.queue_stock)

lemma draws_ready:
  assumes d: "draws e racks bs racks'" and wf: "\<forall>p \<in> set racks. rack_wf (snd p)" and other: "e \<noteq> e'"
  shows "length bs \<le> over (\<lambda>r. length (rack_remaining e' r)) racks'"
    and "over (\<lambda>r. used e (rk_unfenced r)) racks' \<le> over (\<lambda>r. length (remaining e' (rk_unfenced r))) racks'"
proof -
  have wf': "\<forall>p \<in> set racks'. rack_wf (snd p)" using draws_keep(5) [OF d wf] .
  have "over (rack_used e) racks' \<le> over (\<lambda>r. length (rack_remaining e' r)) racks'"
    using wf' other by (intro over_mono) (simp add: rk.reuse)
  then show "length bs \<le> over (\<lambda>r. length (rack_remaining e' r)) racks'" using draws_used [OF d] by simp
  show "over (\<lambda>r. used e (rk_unfenced r)) racks' \<le> over (\<lambda>r. length (remaining e' (rk_unfenced r))) racks'"
    using wf' other by (intro over_mono) (simp add: bl.reuse rack_wf_def)
qed

context java_random
begin

lemma shuffle_racks_returns:
  "\<exists>racks' random'. shuffle_racks nxt racks random = Some (racks', random') \<and> same_shape racks racks'"
proof (induction racks arbitrary: random)
  case Nil
  show ?case by (simp add: same_shape_def)
next
  case (Cons p racks)
  obtain name r where p: "p = (name, r)" by (cases p)
  obtain fs random1 where f: "shuffle nxt (bl_brokers (rk_fenced r)) random = Some (fs, random1)"
      "mset fs = bl_stock (rk_fenced r)"
    using shuffle_returns by blast
  obtain us random2 where u: "shuffle nxt (bl_brokers (rk_unfenced r)) random1 = Some (us, random2)"
      "mset us = bl_stock (rk_unfenced r)"
    using shuffle_returns by blast
  obtain racks' random3 where r: "shuffle_racks nxt racks random2 = Some (racks', random3)" "same_shape racks racks'"
    using Cons.IH by blast
  let ?r = "r\<lparr>rk_fenced := (rk_fenced r)\<lparr>bl_brokers := fs\<rparr>, rk_unfenced := (rk_unfenced r)\<lparr>bl_brokers := us\<rparr>\<rparr>"
  have "list_permuted (rk_fenced r) (rk_fenced ?r)" "list_permuted (rk_unfenced r) (rk_unfenced ?r)"
    using f(2) u(2) by (simp_all add: list_permuted_def)
  then have "same_shape (p # racks) ((name, ?r) # racks')" using r(2) p by (simp add: same_shape_def)
  with f(1) u(1) r(1) p show ?case by simp
qed

lemma refresh_returns:
  assumes inv: "rl_inv brokers self" and racks: "rl_racks self \<noteq> []"
  shows "\<exists>self'. refresh nxt self = Some self' \<and> rl_inv brokers self'
    \<and> rl_epoch self' = next_epoch self \<and> rl_offset self' < length (rl_rack_names self')
    \<and> same_shape (rl_racks self) (rl_racks self')"
proof -
  obtain names random1 where n: "shuffle nxt (rl_rack_names self) (rl_random self) = Some (names, random1)"
      "mset names = mset (rl_rack_names self)"
    using shuffle_returns by blast
  obtain racks' random2 where r: "shuffle_racks nxt (rl_racks self) random1 = Some (racks', random2)"
      "same_shape (rl_racks self) racks'"
    using shuffle_racks_returns by blast
  note same = same_shape_facts [OF r(2)] and len = mset_eq_length [OF n(2)]
  let ?again = "rl_epoch self = rl_unfenced self \<and> 1 < rl_unfenced self"
  obtain mid where mid: "(if ?again then map_option (\<lambda>self. self\<lparr>rl_epoch := 0\<rparr>) (RackList_shuffle nxt self)
        else Some self) = Some mid"
      "rl_inv brokers mid" "rl_epoch mid = next_epoch self" "same_shape (rl_racks self) (rl_racks mid)"
  proof (cases ?again)
    case True
    let ?mid = "self\<lparr>rl_rack_names := names, rl_racks := racks', rl_random := random2, rl_epoch := 0\<rparr>"
    have "rl_inv brokers ?mid"
      using inv same(6) unfolding rl_inv_def names_ok_def by (simp add: n(2) same(1,2,3) len)
    moreover have "map_option (\<lambda>self. self\<lparr>rl_epoch := 0\<rparr>) (RackList_shuffle nxt self) = Some ?mid"
      by (simp add: RackList_shuffle_def n(1) r(1))
    ultimately show ?thesis using True r(2) by (intro that [of ?mid]) (simp_all add: next_epoch_def)
  next
    case False
    show ?thesis
    proof (rule that)
      show "(if ?again then map_option (\<lambda>self. self\<lparr>rl_epoch := 0\<rparr>) (RackList_shuffle nxt self)
        else Some self) = Some self" by (simp only: False if_False)
      show "rl_epoch self = next_epoch self" using False unfolding next_epoch_def by argo
    qed (rule inv same_shape_refl)+
  qed
  have "length (rl_rack_names mid) = length (rl_racks self)"
    using names_ok_length [of "rl_rack_names mid" "rl_racks mid"] mid(2) same_shape_facts(1) [OF mid(4)]
    by (simp add: rl_inv_def)
  then have pos: "0 < length (rl_rack_names mid)" using racks by simp
  have offset: "rl_offset mid \<le> length (rl_rack_names mid)" using mid(2) unfolding rl_inv_def by blast
  let ?self = "if rl_offset mid = length (rl_rack_names mid) then mid\<lparr>rl_offset := 0\<rparr> else mid"
  have "refresh nxt self = Some ?self" unfolding refresh_def mid(1) by (rule option.map(2))
  moreover have "rl_inv brokers ?self" using mid(2) by (simp add: rl_inv_def)
  moreover have "rl_epoch ?self = next_epoch self" "same_shape (rl_racks self) (rl_racks ?self)"
      "rl_offset ?self < length (rl_rack_names ?self)"
    using mid(3,4) pos offset by simp_all
  ultimately show ?thesis by blast
qed

lemma place_returns:
  assumes inv: "rl_inv brokers self" and ready: "ready (nat rf) self" and rf: "0 < rf" "rf \<le> int (length brokers)"
  shows "\<exists>rs self'. RackList_place nxt rf self = Some (Inr rs, self') \<and> length rs = nat rf
    \<and> mset rs \<subseteq># broker_ids brokers \<and> hd rs \<in># unfenced_ids brokers
    \<and> rl_inv brokers self' \<and> ready (nat rf) self'"
proof -
  let ?e = "next_epoch self"
  have "rl_racks self \<noteq> []" using ready by (auto simp: ready_def)
  then obtain s where s: "refresh nxt self = Some s" "rl_inv brokers s" "rl_epoch s = ?e"
      "rl_offset s < length (rl_rack_names s)" "same_shape (rl_racks self) (rl_racks s)"
    using refresh_returns [OF inv] by blast
  let ?names = "rl_rack_names s"
  have ok: "names_ok ?names (rl_racks s)" and wf: "\<forall>p \<in> set (rl_racks s). rack_wf (snd p)"
    and stock: "over rack_stock (rl_racks s) = broker_ids brokers"
      "over (\<lambda>r. bl_stock (rk_unfenced r)) (rl_racks s) = unfenced_ids brokers"
    using s(2) by (auto simp: rl_inv_def)
  have avail: "nat rf \<le> size (all_remaining ?e (rl_racks s))" and "0 < size (all_unfenced ?e (rl_racks s))"
    using ready same_shape_facts(4,5) [OF s(5)] by (simp_all add: ready_def size_over)
  then have "all_unfenced ?e (rl_racks s) \<noteq> {#}" by auto
  then obtain b j racks1 where b: "first_broker ?names ?e (rl_offset s) (rl_racks s) = Some (b, j, racks1)"
      "draws ?e (rl_racks s) [b] racks1" "b \<in># unfenced_ids brokers" "0 < over (\<lambda>r. used ?e (rk_unfenced r)) racks1"
    using first_broker_returns [OF ok s(4), of ?e] unfolding stock by blast
  have "names_ok ?names racks1" using ok draws_keep(1) [OF b(2)] by (simp add: names_ok_def)
  moreover have "nat (rf - 1) \<le> size (all_remaining ?e racks1)"
    using avail draws_remaining [OF b(2)] rf by simp
  ultimately obtain bs racks2 where bs: "length bs = nat (rf - 1)" "draws ?e racks1 bs racks2"
      "more_brokers ?names ?e (nat (rf - 1)) (Some j) (rl_offset s) racks1 = Some (bs, racks2)"
    using more_brokers_returns s(4) by blast
  have d: "draws ?e (rl_racks s) (b # bs) racks2" using draws_trans [OF b(2) bs(2)] by simp
  let ?s = "s\<lparr>rl_racks := racks2, rl_epoch := rl_epoch s + 1, rl_offset := rl_offset s + 1\<rparr>"
  have unf: "rl_unfenced self = rl_unfenced s" using inv s(2) by (simp add: rl_inv_def)
  have total: "rl_total self = length brokers" using inv by (simp add: rl_inv_def)
  have "filter (\<lambda>b. \<not> ub_fenced b) brokers \<noteq> []" using b(3) by (auto simp: filter_empty_conv)
  then have pos: "0 < rl_unfenced self" using inv by (simp add: rl_inv_def)
  have placed: "RackList_place nxt rf self = Some (Inr (b # bs), ?s)"
    using rf pos total s(1,3) b(1) bs(3)
    by (simp add: RackList_place_def check_replication_factor_def check_positive_def
        check_enough_brokers_def check_unfenced_def)
  have inv': "rl_inv brokers ?s"
    using s(2,4) draws_keep(1,2,3,5) [OF d] wf by (simp add: rl_inv_def names_ok_def)
  have "mset (b # bs) \<subseteq># all_remaining ?e (rl_racks s)" using draws_remaining [OF d] by simp
  then have sub: "mset (b # bs) \<subseteq># broker_ids brokers"
    using all_remaining_stock [of ?e "rl_racks s"] unfolding stock by (rule subset_mset.order_trans)
  have other: "next_epoch ?s \<noteq> ?e" using s(3) unf by (intro next_epoch_other) simp_all
  have "ready (nat rf) ?s"
    using draws_ready [OF d wf other [symmetric]] b(4) draws_keep(4) [OF bs(2)] bs(1) rf
    by (simp add: ready_def Suc_nat_eq_nat_zadd1)
  with placed inv' sub b(3) bs(1) rf show ?thesis by (auto simp: nat_diff_distrib)
qed

end

text \<open>A placement is possible: the factor is positive and reachable, and a broker is unfenced.\<close>

definition placeable :: "int \<Rightarrow> UsableBroker list \<Rightarrow> bool" where
  "placeable rf brokers \<longleftrightarrow> 0 < rf \<and> rf \<le> int (length brokers) \<and> (\<exists>b \<in> set brokers. \<not> ub_fenced b)"

section \<open>Loading\<close>

lemma over_mset: "mset racks = mset racks' \<Longrightarrow> over f racks = over f racks'"
proof -
  have "over f rs = sum_mset (image_mset (\<lambda>p. f (snd p)) (mset rs))" for rs
    by (induction rs) simp_all
  then show "mset racks = mset racks' \<Longrightarrow> over f racks = over f racks'" by simp
qed

lemma load_broker_over:
  assumes "\<And>r. f (push_broker b r) = f r + g" and "f Rack_default = 0"
  shows "over f (load_broker b racks) = over f racks + g"
proof (induction racks)
  case Nil
  show ?case by (simp add: assms)
next
  case (Cons p racks)
  then show ?case by (cases p) (simp add: assms(1) ac_simps)
qed

lemma load_brokers_over:
  assumes "\<And>b r. f (push_broker b r) = f r + g b" and "f Rack_default = (0 :: 'm::comm_monoid_add)"
  shows "over f (load_brokers brokers) = (\<Sum>b \<leftarrow> brokers. g b)"
proof -
  have "over f (foldl (\<lambda>inserted broker. load_broker broker inserted) acc brokers) =
      over f acc + (\<Sum>b \<leftarrow> brokers. g b)" for acc
    by (induction brokers arbitrary: acc)
      (simp_all add: load_broker_over [of f, OF assms(1) assms(2)] ac_simps)
  then show ?thesis by (simp add: load_brokers_def)
qed

lemma sum_list_ids: "(\<Sum>b \<leftarrow> brokers. {#ub_id b#}) = broker_ids brokers"
  "(\<Sum>b \<leftarrow> brokers. if ub_fenced b then {#} else {#ub_id b#}) = unfenced_ids brokers"
  by (induction brokers) auto

lemma load_brokers_stock:
  "over rack_stock (load_brokers brokers) = broker_ids brokers"
  "over (\<lambda>r. bl_stock (rk_unfenced r)) (load_brokers brokers) = unfenced_ids brokers"
proof -
  have "over rack_stock (load_brokers brokers) = (\<Sum>b \<leftarrow> brokers. {#ub_id b#})"
    by (rule load_brokers_over)
      (simp_all add: rack_stock_def push_broker_def Rack_default_def BrokerList_default_def)
  then show "over rack_stock (load_brokers brokers) = broker_ids brokers" by (simp only: sum_list_ids)
  have "over (\<lambda>r. bl_stock (rk_unfenced r)) (load_brokers brokers) =
      (\<Sum>b \<leftarrow> brokers. if ub_fenced b then {#} else {#ub_id b#})"
    by (rule load_brokers_over) (simp_all add: push_broker_def Rack_default_def BrokerList_default_def)
  then show "over (\<lambda>r. bl_stock (rk_unfenced r)) (load_brokers brokers) = unfenced_ids brokers"
    by (simp only: sum_list_ids)
qed

text \<open>A rack that has not handed out a broker yet.\<close>

definition fresh_rack :: "Rack \<Rightarrow> bool" where
  "fresh_rack r \<longleftrightarrow> bl_index (rk_unfenced r) = 0 \<and> bl_epoch (rk_unfenced r) = 0
     \<and> bl_index (rk_fenced r) = 0 \<and> bl_epoch (rk_fenced r) = 0"

lemma load_broker_fresh:
  "\<forall>p \<in> set racks. fresh_rack (snd p) \<Longrightarrow> \<forall>p \<in> set (load_broker b racks). fresh_rack (snd p)"
  by (induction b racks rule: load_broker.induct)
    (auto simp: fresh_rack_def push_broker_def Rack_default_def BrokerList_default_def)

lemma load_brokers_fresh: "\<forall>p \<in> set (load_brokers brokers). fresh_rack (snd p)"
proof -
  have "\<forall>p \<in> set acc. fresh_rack (snd p) \<Longrightarrow>
      \<forall>p \<in> set (foldl (\<lambda>inserted broker. load_broker broker inserted) acc brokers). fresh_rack (snd p)" for acc
    by (induction brokers arbitrary: acc) (simp, metis foldl_Cons load_broker_fresh)
  from this [of "[]"] show ?thesis by (simp add: load_brokers_def)
qed

lemma same_shape_fresh:
  "same_shape racks racks' \<Longrightarrow> \<forall>p \<in> set racks. fresh_rack (snd p) \<Longrightarrow> \<forall>p \<in> set racks'. fresh_rack (snd p)"
  unfolding same_shape_def by (auto dest!: list_all2_in2 simp: fresh_rack_def list_permuted_def)

lemma fresh_remaining:
  assumes "\<forall>p \<in> set racks. fresh_rack (snd p)"
  shows "over (\<lambda>r. length (rack_remaining 0 r)) racks = size (over rack_stock racks)"
    and "over (\<lambda>r. length (remaining 0 (rk_unfenced r))) racks = size (over (\<lambda>r. bl_stock (rk_unfenced r)) racks)"
    and "\<forall>p \<in> set racks. rack_wf (snd p)"
  using assms
  by (induction racks) (simp_all add: fresh_rack_def rack_defs remaining_length bl_wf_def)

context java_random
begin

lemma random_index_returns:
  assumes "0 < n"
  shows "\<exists>v random'. random_index nxt n random = Some (v, random') \<and> v < n"
proof -
  have "0 < i32_of_usize n" "i32_of_usize n \<le> i32_max" "i32_of_usize n \<le> int n"
    using assms by (auto simp: i32_of_usize_def)
  then show ?thesis
    using next_int_returns [of "i32_of_usize n" random] by (fastforce simp: random_index_def)
qed

lemma BrokerList_initialize_returns:
  "\<exists>l' random'. BrokerList_initialize nxt l random = Some (l', random') \<and> list_permuted l l'"
proof (cases "bl_brokers l = []")
  case True
  then show ?thesis by (simp add: BrokerList_initialize_def list_permuted_def)
next
  case False
  then obtain v random' where "random_index nxt (length (bl_brokers l)) random = Some (v, random')"
    using random_index_returns [of "length (bl_brokers l)" random] by auto
  with False show ?thesis by (simp add: BrokerList_initialize_def list_permuted_def Let_def)
qed

lemma initialize_racks_returns:
  "\<exists>racks' random'. initialize_racks nxt racks random = Some (racks', random') \<and> same_shape racks racks'"
proof (induction racks arbitrary: random)
  case Nil
  show ?case by (simp add: same_shape_def)
next
  case (Cons p racks)
  obtain name r where p: "p = (name, r)" by (cases p)
  obtain f random1 where f: "BrokerList_initialize nxt (rk_fenced r) random = Some (f, random1)" "list_permuted (rk_fenced r) f"
    using BrokerList_initialize_returns by blast
  obtain u random2 where u: "BrokerList_initialize nxt (rk_unfenced r) random1 = Some (u, random2)" "list_permuted (rk_unfenced r) u"
    using BrokerList_initialize_returns by blast
  obtain racks' random3 where "initialize_racks nxt racks random2 = Some (racks', random3)" "same_shape racks racks'"
    using Cons.IH by blast
  with p f u show ?case by (simp add: same_shape_def)
qed

lemma RackList_new_returns:
  "\<exists>self. RackList_new nxt random brokers = Some self \<and> rl_inv brokers self
     \<and> (unfenced_ids brokers \<noteq> {#} \<longrightarrow> n \<le> length brokers \<longrightarrow> ready n self)"
proof -
  let ?racks = "hash_order (load_brokers brokers) Default (\<lambda>(name, _). rack_hash name)"
  have m: "mset ?racks = mset (load_brokers brokers)" by (rule ho.order_mset)
  obtain racks random1 where r: "initialize_racks nxt ?racks random = Some (racks, random1)" "same_shape ?racks racks"
    using initialize_racks_returns by blast
  note same = same_shape_facts [OF r(2)]
  have "\<forall>p \<in> set ?racks. fresh_rack (snd p)" using load_brokers_fresh mset_eq_setD [OF m] by simp
  then have fresh: "\<forall>p \<in> set racks. fresh_rack (snd p)" by (rule same_shape_fresh [OF r(2)])
  have stock: "over rack_stock racks = broker_ids brokers"
      "over (\<lambda>r. bl_stock (rk_unfenced r)) racks = unfenced_ids brokers"
    unfolding same(2,3) over_mset [OF m] by (rule load_brokers_stock)+
  let ?names = "sort_key (\<lambda>i. fst (racks ! i)) [0..<length racks]"
  let ?offset = "if ?names = [] then Some (0, random1) else random_index nxt (length ?names) random1"
  have "?names = [] \<longleftrightarrow> racks = []" by (metis diff_zero length_0_conv length_sort length_upt)
  then obtain v random2 where v: "?offset = Some (v, random2)" "v \<le> length ?names"
    using random_index_returns [of "length ?names" random1] by (cases "?names = []") auto
  let ?self = "\<lparr>rl_random = random2, rl_racks = racks, rl_rack_names = ?names, rl_total = length brokers,
     rl_unfenced = length (filter (\<lambda>b. \<not> ub_fenced b) brokers), rl_epoch = 0, rl_offset = v\<rparr>"
  have "RackList_new nxt random brokers = Some ?self"
    unfolding RackList_new_def Let_def r(1) by (simp only: bind.bind_lunit prod.case v(1) option.map)
  moreover have "rl_inv brokers ?self"
    using stock fresh_remaining(3) [OF fresh] v(2) by (simp add: rl_inv_def names_ok_def)
  moreover have "ready n ?self" if ne: "unfenced_ids brokers \<noteq> {#}" and n: "n \<le> length brokers"
  proof -
    have "0 < size (unfenced_ids brokers)" using ne by (simp only: nonempty_has_size)
    then show ?thesis
      using fresh_remaining(1,2) [OF fresh] n unfolding stock by (simp add: ready_def next_epoch_def)
  qed
  ultimately show ?thesis by blast
qed

lemma place_partitions_returns:
  assumes "rl_inv brokers self" and "ready (nat rf) self" and rf: "0 < rf" "rf \<le> int (length brokers)"
  shows "\<exists>rss self'. place_partitions nxt n rf self = Some (Inr rss, self') \<and> length rss = n
    \<and> (\<forall>rs \<in> set rss. length rs = nat rf \<and> mset rs \<subseteq># broker_ids brokers \<and> hd rs \<in># unfenced_ids brokers)"
  using assms(1,2)
proof (induction n arbitrary: self)
  case (Suc n)
  obtain rs self1 where "RackList_place nxt rf self = Some (Inr rs, self1)" "length rs = nat rf"
      "mset rs \<subseteq># broker_ids brokers" "hd rs \<in># unfenced_ids brokers"
      "rl_inv brokers self1" "ready (nat rf) self1"
    using place_returns [OF Suc.prems rf] by blast
  with Suc.IH [of self1] show ?case by fastforce
qed simp

text \<open>The outcome of a placement: exactly the checks decide between the error and the replicas.\<close>

lemma place_cases:
  assumes "placeable rf brokers"
  shows "\<exists>rss random'. place nxt random n rf brokers = Some (Inr rss, random') \<and> length rss = n
    \<and> (\<forall>rs \<in> set rss. length rs = nat rf \<and> mset rs \<subseteq># broker_ids brokers \<and> hd rs \<in># unfenced_ids brokers)"
proof -
  have rf: "0 < rf" "rf \<le> int (length brokers)" and unf: "unfenced_ids brokers \<noteq> {#}"
    using assms by (auto simp: placeable_def)
  then have n: "nat rf \<le> length brokers" by simp
  obtain self where self: "RackList_new nxt random brokers = Some self" "rl_inv brokers self" "ready (nat rf) self"
    using RackList_new_returns [of random brokers "nat rf"] unf n by blast
  obtain rss self' where "place_partitions nxt n rf self = Some (Inr rss, self')" "length rss = n"
      "\<forall>rs \<in> set rss. length rs = nat rf \<and> mset rs \<subseteq># broker_ids brokers \<and> hd rs \<in># unfenced_ids brokers"
    using place_partitions_returns [OF self(2,3) rf] by blast
  moreover have "rl_total self = length brokers" "0 < rl_unfenced self"
    using self(2) assms by (auto simp: rl_inv_def placeable_def filter_empty_conv)
  ultimately show ?thesis
    using self(1) rf by (simp add: place_def check_positive_def check_unfenced_def check_enough_brokers_def)
qed

lemma place_error:
  assumes "\<not> placeable rf brokers"
  shows "\<exists>e random'. place nxt random n rf brokers = Some (Inl e, random')"
proof -
  obtain self where "RackList_new nxt random brokers = Some self" "rl_inv brokers self"
    using RackList_new_returns [of random brokers 0] by blast
  with assms show ?thesis
    by (auto simp: place_def check_positive_def check_unfenced_def check_enough_brokers_def rl_inv_def
        placeable_def filter_empty_conv)
qed

end

section \<open>The proposal\<close>

text \<open>The entries of a topic, and its shape: the number of partitions and the replication factor of
  the first one.\<close>

definition of_topic :: "string \<Rightarrow> assignment \<Rightarrow> assignment" where
  "of_topic topic current = filter (\<lambda>e. fst (fst e) = topic) current"

definition shape :: "assignment \<Rightarrow> (nat \<times> int) option" where
  "shape entries = (case entries of [] \<Rightarrow> None | e # es \<Rightarrow> Some (Suc (length es), i32_of_usize (length (snd e))))"

lemma topic_shapes_snoc: "topic_shapes (current @ [e]) = count_partition (topic_shapes current) e"
  by (simp add: topic_shapes_def)

lemma topic_shapes_ok: "bt_ok (topic_shapes current)"
  by (induction current rule: rev_induct)
    (auto simp: topic_shapes_snoc count_partition_def topic_shapes_def Let_def split: prod.splits)

lemma shape_snoc:
  "shape (es @ [e]) = Some (case shape es of None \<Rightarrow> (1, i32_of_usize (length (snd e))) | Some (n, f) \<Rightarrow> (n + 1, f))"
  by (simp add: shape_def split: list.split)

lemma shape_pos: "shape es = Some (n, f) \<Longrightarrow> 0 < n"
  by (auto simp: shape_def split: list.splits)

lemma topic_shapes_get: "map_of (topic_shapes current) topic = shape (of_topic topic current)"
proof (induction current rule: rev_induct)
  case Nil
  show ?case by (simp add: topic_shapes_def of_topic_def shape_def)
next
  case (snoc e current)
  obtain t p rs where e: "e = ((t, p), rs)" by (metis prod.exhaust)
  show ?case
  proof (cases "t = topic")
    case True
    then have "of_topic topic (current @ [e]) = of_topic topic current @ [e]" by (simp add: of_topic_def e)
    then show ?thesis
      using snoc True shape_pos [of "of_topic topic current"]
      by (auto simp: topic_shapes_snoc shape_snoc e count_partition_def Let_def
          map_of_bt_insert topic_shapes_ok split: option.split prod.split)
  next
    case False
    then have "of_topic topic (current @ [e]) = of_topic topic current" by (simp add: of_topic_def e)
    with snoc False show ?thesis
      by (simp add: topic_shapes_snoc e count_partition_def Let_def map_of_bt_insert topic_shapes_ok
          split: prod.split)
  qed
qed

lemma insert_replicas_snoc:
  "insert_replicas topic proposed (placed @ [rs]) =
     bt_insert (topic, i32_of_usize (length placed)) rs (insert_replicas topic proposed placed)"
  by (simp add: insert_replicas_def enumerate_append_eq)

lemma insert_replicas_ok: "bt_ok proposed \<Longrightarrow> bt_ok (insert_replicas topic proposed placed)"
proof (induction placed rule: rev_induct)
  case Nil
  then show ?case by (simp add: insert_replicas_def)
qed (simp add: insert_replicas_snoc bt_ok_insert)

lemma insert_replicas_get:
  assumes "bt_ok proposed" and "int (length placed) \<le> i32_max"
  shows "map_of (insert_replicas topic proposed placed) (t, p) =
    (if t = topic \<and> 0 \<le> p \<and> p < int (length placed) then Some (placed ! nat p) else map_of proposed (t, p))"
  using assms(2)
proof (induction placed rule: rev_induct)
  case Nil
  show ?case by (auto simp: insert_replicas_def)
next
  case (snoc rs placed)
  have "i32_of_usize (length placed) = int (length placed)" using snoc.prems by (simp add: i32_of_usize_def)
  then show ?case
    using snoc by (auto simp: insert_replicas_snoc map_of_bt_insert insert_replicas_ok assms(1) nth_append
        nat_less_iff)
qed

text \<open>What a proposal is for each topic it covers.\<close>

definition good_replicas :: "UsableBroker list \<Rightarrow> nat \<Rightarrow> int list \<Rightarrow> bool" where
  "good_replicas brokers rf rs \<longleftrightarrow>
     length rs = rf \<and> mset rs \<subseteq># broker_ids brokers \<and> hd rs \<in># unfenced_ids brokers"

context java_random
begin

lemma propose_topics_error:
  assumes "\<forall>t \<in> set names. \<exists>n rf. map_of topics t = Some (n, rf)"
  shows "\<exists>r random'. propose_topics nxt brokers topics names proposed random = Some (r, random')
    \<and> (isl r \<longleftrightarrow> (\<exists>t \<in> set names. \<exists>n rf. map_of topics t = Some (n, rf) \<and> \<not> placeable rf brokers))"
  using assms
proof (induction names arbitrary: proposed random)
  case (Cons t names)
  then obtain n rf where t: "map_of topics t = Some (n, rf)" by auto
  show ?case
  proof (cases "placeable rf brokers")
    case True
    then obtain rss random' where "place nxt random n rf brokers = Some (Inr rss, random')"
      using place_cases by blast
    with Cons.IH [of "insert_replicas t proposed rss" random'] Cons.prems t True show ?thesis by auto
  next
    case False
    then obtain e random' where "place nxt random n rf brokers = Some (Inl e, random')"
      using place_error by blast
    with t False show ?thesis by auto
  qed
qed simp

lemma propose_topics_get:
  assumes "distinct names" and "bt_ok proposed"
    and "\<forall>t \<in> set names. \<exists>n rf. map_of topics t = Some (n, rf) \<and> placeable rf brokers \<and> int n \<le> i32_max"
  shows "\<exists>proposed' random'. propose_topics nxt brokers topics names proposed random = Some (Inr proposed', random')
    \<and> bt_ok proposed'
    \<and> (\<forall>t p. t \<notin> set names \<longrightarrow> map_of proposed' (t, p) = map_of proposed (t, p))
    \<and> (\<forall>t n rf p. t \<in> set names \<longrightarrow> map_of topics t = Some (n, rf) \<longrightarrow>
         (if 0 \<le> p \<and> p < int n then \<exists>rs. map_of proposed' (t, p) = Some rs \<and> good_replicas brokers (nat rf) rs
          else map_of proposed' (t, p) = map_of proposed (t, p)))"
  using assms
proof (induction names arbitrary: proposed random)
  case (Cons t names)
  obtain n rf where t: "map_of topics t = Some (n, rf)" "placeable rf brokers" "int n \<le> i32_max"
    using Cons.prems(3) by auto
  obtain rss random1 where rss: "place nxt random n rf brokers = Some (Inr rss, random1)" "length rss = n"
      "\<forall>rs \<in> set rss. good_replicas brokers (nat rf) rs"
    using place_cases [OF t(2)] unfolding good_replicas_def by blast
  let ?p = "insert_replicas t proposed rss"
  have get: "map_of ?p (u, p) =
      (if u = t \<and> 0 \<le> p \<and> p < int n then Some (rss ! nat p) else map_of proposed (u, p))" for u p
    using insert_replicas_get [OF Cons.prems(2)] rss(2) t(3) by simp
  have good: "0 \<le> p \<Longrightarrow> p < int n \<Longrightarrow> good_replicas brokers (nat rf) (rss ! nat p)" for p
    using rss(2,3) by (simp add: nat_less_iff)
  obtain proposed' random' where IH:
      "propose_topics nxt brokers topics names ?p random1 = Some (Inr proposed', random')" "bt_ok proposed'"
      "\<forall>u p. u \<notin> set names \<longrightarrow> map_of proposed' (u, p) = map_of ?p (u, p)"
      "\<forall>u m rf' p. u \<in> set names \<longrightarrow> map_of topics u = Some (m, rf') \<longrightarrow>
         (if 0 \<le> p \<and> p < int m then \<exists>rs. map_of proposed' (u, p) = Some rs \<and> good_replicas brokers (nat rf') rs
          else map_of proposed' (u, p) = map_of ?p (u, p))"
    using Cons.IH [of ?p random1] Cons.prems insert_replicas_ok by auto
  have "propose_topics nxt brokers topics (t # names) proposed random = Some (Inr proposed', random')"
    using t(1) rss(1) IH(1) by simp
  moreover have "\<forall>u p. u \<notin> set (t # names) \<longrightarrow> map_of proposed' (u, p) = map_of proposed (u, p)"
    using IH(3) get by simp
  moreover have "\<forall>u m rf' p. u \<in> set (t # names) \<longrightarrow> map_of topics u = Some (m, rf') \<longrightarrow>
         (if 0 \<le> p \<and> p < int m then \<exists>rs. map_of proposed' (u, p) = Some rs \<and> good_replicas brokers (nat rf') rs
          else map_of proposed' (u, p) = map_of proposed (u, p))"
    using IH(3,4) get good t(1) Cons.prems(1) by (auto split: if_splits)
  ultimately show ?case using IH(2) by blast
qed simp

end

lemma submset_distinct: "mset xs \<subseteq># mset ys \<Longrightarrow> distinct ys \<Longrightarrow> distinct xs"
proof (induction xs arbitrary: ys)
  case (Cons x xs)
  then have "x \<in> set ys" "mset xs \<subseteq># mset (remove1 x ys)"
    by (auto simp: insert_subset_eq_iff)
  moreover have "x \<notin> set xs"
    using calculation(2) Cons.prems(2) by (metis in_set_remove1 mset_subset_eqD set_mset_mset distinct_remove1_removeAll removeAll_id set_removeAll Diff_iff singletonI)
  ultimately show ?case using Cons.IH [of "remove1 x ys"] Cons.prems(2) by simp
qed simp

lemma good_replicas_facts:
  assumes "good_replicas brokers rf rs" and "distinct (map ub_id brokers)" 
  shows "length rs = rf" and "distinct rs" and "set rs \<subseteq> ub_id ` set brokers"
    and "\<exists>b \<in> set brokers. \<not> ub_fenced b \<and> ub_id b = hd rs"
proof -
  have sub: "mset rs \<subseteq># broker_ids brokers" using assms(1) by (simp add: good_replicas_def)
  then show "distinct rs" using assms(2) by (rule submset_distinct)
  show "set rs \<subseteq> ub_id ` set brokers" using set_mset_mono [OF sub] by simp
  show "length rs = rf" "\<exists>b \<in> set brokers. \<not> ub_fenced b \<and> ub_id b = hd rs"
    using assms(1) by (auto simp: good_replicas_def)
qed

lemma topic_names: "set (map fst (topic_shapes current)) = (fst \<circ> fst) ` set current"
proof -
  have "t \<in> fst ` set (topic_shapes current) \<longleftrightarrow> t \<in> (fst \<circ> fst) ` set current" for t
  proof -
    have "t \<in> fst ` set (topic_shapes current) \<longleftrightarrow> shape (of_topic t current) \<noteq> None"
      by (simp add: map_of_eq_None_iff flip: topic_shapes_get)
    also have "\<dots> \<longleftrightarrow> of_topic t current \<noteq> []" by (simp add: shape_def split: list.split)
    also have "\<dots> \<longleftrightarrow> t \<in> (fst \<circ> fst) ` set current" by (auto simp: of_topic_def filter_empty_conv)
    finally show ?thesis .
  qed
  then show ?thesis by auto
qed

lemma shape_Some:
  "shape es = Some (n, rf) \<longleftrightarrow> es \<noteq> [] \<and> n = length es \<and> rf = i32_of_usize (length (snd (hd es)))"
  by (auto simp: shape_def split: list.splits)

section \<open>Properties\<close>

text \<open>C3. With the generator of \<open>java.util.Random\<close> the placer ends for every seed and gives every
  partition the requested number of distinct, registered brokers, with an unfenced broker first.\<close>

theorem place_assigns_distinct_brokers:
  assumes "distinct (map ub_id brokers)" and "placeable rf brokers"
  shows "\<exists>rss random'. place Lcg48_next random n rf brokers = Some (Inr rss, random') \<and> length rss = n
    \<and> (\<forall>rs \<in> set rss. length rs = nat rf \<and> distinct rs \<and> set rs \<subseteq> ub_id ` set brokers
         \<and> (\<exists>b \<in> set brokers. \<not> ub_fenced b \<and> ub_id b = hd rs))"
proof -
  obtain rss random' where "place Lcg48_next random n rf brokers = Some (Inr rss, random')" "length rss = n"
      "\<forall>rs \<in> set rss. good_replicas brokers (nat rf) rs"
    using lcg.place_cases [OF assms(2)] unfolding good_replicas_def by blast
  then show ?thesis using good_replicas_facts [OF _ assms(1)] by blast
qed

theorem place_assigns_distinct_brokers_witness:
  "\<exists>rss random'. place Lcg48_next (Lcg48_new 42) 7 2
       [\<lparr>ub_id = 1, ub_rack = None, ub_fenced = False\<rparr>, \<lparr>ub_id = 2, ub_rack = Some ''b'', ub_fenced = True\<rparr>,
        \<lparr>ub_id = 3, ub_rack = Some ''b'', ub_fenced = False\<rparr>] = Some (Inr rss, random') \<and> length rss = 7
    \<and> (\<forall>rs \<in> set rss. length rs = nat 2 \<and> distinct rs \<and> set rs \<subseteq> ub_id ` set
       [\<lparr>ub_id = 1, ub_rack = None, ub_fenced = False\<rparr>, \<lparr>ub_id = 2, ub_rack = Some ''b'', ub_fenced = True\<rparr>,
        \<lparr>ub_id = 3, ub_rack = Some ''b'', ub_fenced = False\<rparr>]
         \<and> (\<exists>b \<in> set
       [\<lparr>ub_id = 1, ub_rack = None, ub_fenced = False\<rparr>, \<lparr>ub_id = 2, ub_rack = Some ''b'', ub_fenced = True\<rparr>,
        \<lparr>ub_id = 3, ub_rack = Some ''b'', ub_fenced = False\<rparr>]. \<not> ub_fenced b \<and> ub_id b = hd rs))"
  by (rule place_assigns_distinct_brokers) (simp_all add: placeable_def)

text \<open>A placement that is not possible is refused with Kafka's message: a factor that is not
  positive first, then a cluster without an unfenced broker, then too few brokers.\<close>

theorem place_refuses:
  assumes "\<not> placeable rf brokers"
  shows "\<exists>random'. place Lcg48_next random n rf brokers = Some (Inl
    (if rf \<le> 0 then ''Invalid replication factor '' @ show_int rf @ '': the replication factor must be positive.''
     else if \<forall>b \<in> set brokers. ub_fenced b
       then ''All brokers are currently fenced, or have all their log directories cordoned.''
     else ''The target replication factor of '' @ show_int rf @ '' cannot be reached because only '' @
       show_nat (length brokers) @
       '' broker(s) are registered or some brokers have all their log directories cordoned.''), random')"
proof -
  obtain self where "RackList_new Lcg48_next random brokers = Some self" "rl_inv brokers self"
    using lcg.RackList_new_returns [of random brokers 0] by blast
  with assms show ?thesis
    by (auto simp: place_def check_positive_def check_unfenced_def check_enough_brokers_def rl_inv_def
        placeable_def filter_empty_conv)
qed

theorem place_refuses_witness:
  "\<exists>random'. place Lcg48_next (Lcg48_new 0) 1 2 [\<lparr>ub_id = 1, ub_rack = None, ub_fenced = False\<rparr>] = Some (Inl
    (''The target replication factor of '' @ show_int 2 @ '' cannot be reached because only '' @
       show_nat 1 @
       '' broker(s) are registered or some brokers have all their log directories cordoned.''), random')"
  using place_refuses [of 2 "[\<lparr>ub_id = 1, ub_rack = None, ub_fenced = False\<rparr>]" "Lcg48_new 0" 1]
  by (simp add: placeable_def del: show_nat.simps)

text \<open>The shape of a topic of the current assignment, and the placements that follow from it.\<close>

lemma topic_shapes_at:
  assumes "\<forall>e \<in> set current. int (length (snd e)) \<le> i32_max" and "of_topic t current \<noteq> []"
  shows "map_of (topic_shapes current) t = Some (length (of_topic t current), int (length (snd (hd (of_topic t current)))))"
proof -
  have "hd (of_topic t current) \<in> set current" using hd_in_set [OF assms(2)] by (auto simp: of_topic_def)
  with assms show ?thesis by (simp add: topic_shapes_get shape_Some i32_of_usize_def)
qed

lemma proposed_in_shape:
  assumes "of_topic t current \<noteq> [] \<Longrightarrow> if 0 \<le> p \<and> p < int (length (of_topic t current))
      then \<exists>rs. map_of proposed (t, p) = Some rs \<and> good_replicas brokers (length (snd (hd (of_topic t current)))) rs
      else map_of proposed (t, p) = None"
    and "of_topic t current = [] \<Longrightarrow> map_of proposed (t, p) = None" and "distinct (map ub_id brokers)"
  shows "case map_of proposed (t, p) of
      None \<Rightarrow> \<not> (0 \<le> p \<and> p < int (length (of_topic t current)))
    | Some rs \<Rightarrow> 0 \<le> p \<and> p < int (length (of_topic t current))
        \<and> length rs = length (snd (hd (of_topic t current))) \<and> distinct rs
        \<and> set rs \<subseteq> ub_id ` set brokers \<and> (\<exists>b \<in> set brokers. \<not> ub_fenced b \<and> ub_id b = hd rs)"
proof -
  have "case map_of proposed (t, p) of
      None \<Rightarrow> \<not> (0 \<le> p \<and> p < int (length (of_topic t current)))
    | Some rs \<Rightarrow> 0 \<le> p \<and> p < int (length (of_topic t current))
        \<and> good_replicas brokers (length (snd (hd (of_topic t current)))) rs"
    using assms(1,2) by (cases "of_topic t current = []") (auto split: if_splits)
  then show ?thesis
    using good_replicas_facts [OF _ assms(3)] unfolding option.case_eq_if by (meson option.collapse)
qed

text \<open>A topic as a broker creates it: its partitions are numbered from 0 without a gap and have one
  replication factor.\<close>

definition regular_topic :: "string \<Rightarrow> nat \<Rightarrow> assignment \<Rightarrow> bool" where
  "regular_topic t factor current \<longleftrightarrow>
     map (snd \<circ> fst) (of_topic t current) = map int [0..<length (of_topic t current)]
     \<and> list_all (\<lambda>e. length (snd e) = factor) (of_topic t current)"

lemma map_of_of_topic: "map_of current (t, p) = map_of (of_topic t current) (t, p)"
  by (induction current) (auto simp: of_topic_def)

lemma regular_topic_get:
  assumes "regular_topic t factor current"
  shows "map_option length (map_of current (t, p)) =
    (if 0 \<le> p \<and> p < int (length (of_topic t current)) then Some factor else None)"
proof -
  let ?es = "of_topic t current"
  have keys: "fst ` set ?es = (\<lambda>i. (t, int i)) ` {0..<length ?es}"
  proof -
    have "map fst ?es = map (Pair t) (map (snd \<circ> fst) ?es)" by (auto simp: of_topic_def)
    then have "map fst ?es = map (Pair t) (map int [0..<length ?es])" using assms unfolding regular_topic_def by (elim conjE) (simp only:)
    from arg_cong [OF this, of set] show ?thesis by (simp add: image_image)
  qed
  have known: "map_of ?es (t, p) = None \<longleftrightarrow> \<not> (0 \<le> p \<and> p < int (length ?es))"
    unfolding map_of_eq_None_iff keys by (auto simp: image_iff) (metis nat_0_le nat_less_iff atLeastLessThan_iff le0)
  have "length rs = factor" if "map_of ?es (t, p) = Some rs" for rs
    using assms map_of_SomeD [OF that] by (auto simp: regular_topic_def list_all_iff)
  then show ?thesis unfolding map_of_of_topic [of current] using known by (cases "map_of ?es (t, p)") auto
qed

lemma regular_topic_factor: "regular_topic t factor current \<Longrightarrow> of_topic t current \<noteq> [] \<Longrightarrow> length (snd (hd (of_topic t current))) = factor"
  by (cases "of_topic t current") (simp_all add: regular_topic_def)

text \<open>C5. A proposal for placeable topics gives each topic as many partitions as the current assignment has of
  it, numbered from 0, and each the replication factor of the \<^emph>\<open>first\<close> partition of the topic, in
  distinct registered brokers with an unfenced one first. So a topic whose partitions are
  numbered from 0 without a gap and have one replication factor keeps its partitions and its factor;
  one with different factors does not.\<close>

theorem propose_keeps_shape:
  assumes "distinct (map ub_id brokers)"
    and "\<forall>t. int (length (of_topic t current)) \<le> i32_max"
    and "\<forall>e \<in> set current. int (length (snd e)) \<le> i32_max \<and>
      placeable (int (length (snd (hd (of_topic (fst (fst e)) current))))) brokers"
  shows "\<exists>proposed random'. propose Lcg48_next random current brokers = Some (Inr proposed, random')
    \<and> (\<forall>t p. case map_of proposed (t, p) of
         None \<Rightarrow> \<not> (0 \<le> p \<and> p < int (length (of_topic t current)))
       | Some rs \<Rightarrow> 0 \<le> p \<and> p < int (length (of_topic t current))
           \<and> length rs = length (snd (hd (of_topic t current))) \<and> distinct rs
           \<and> set rs \<subseteq> ub_id ` set brokers \<and> (\<exists>b \<in> set brokers. \<not> ub_fenced b \<and> ub_id b = hd rs))
    \<and> (\<forall>t factor. regular_topic t factor current \<longrightarrow>
         (\<forall>p. map_option length (map_of proposed (t, p)) = map_option length (map_of current (t, p))))"
proof -
  let ?topics = "topic_shapes current"
  let ?names = "hash_order (map fst ?topics) Default string_hash"
  have names: "set ?names = (fst \<circ> fst) ` set current" "distinct ?names"
    unfolding ho.order_set ho.order_distinct by (rule topic_names) (rule bt_ok_distinct [OF topic_shapes_ok])
  have in_names: "t \<in> set ?names \<longleftrightarrow> of_topic t current \<noteq> []" for t
    unfolding names(1) by (auto simp: of_topic_def filter_empty_conv)
  have shape: "map_of ?topics t = Some (length (of_topic t current), int (length (snd (hd (of_topic t current)))))"
    if "t \<in> set ?names" for t
    using topic_shapes_at assms(3) in_names that by blast
  have "\<forall>t \<in> set ?names. \<exists>n rf. map_of ?topics t = Some (n, rf) \<and> placeable rf brokers \<and> int n \<le> i32_max"
  proof
    fix t assume t: "t \<in> set ?names"
    with names obtain e where "e \<in> set current" "fst (fst e) = t" by auto
    with assms(3) have "placeable (int (length (snd (hd (of_topic t current))))) brokers" by blast
    with assms(2) shape [OF t]
    show "\<exists>n rf. map_of ?topics t = Some (n, rf) \<and> placeable rf brokers \<and> int n \<le> i32_max" by blast
  qed
  then obtain proposed random' where p: "propose_topics Lcg48_next brokers ?topics ?names [] random = Some (Inr proposed, random')"
      "\<forall>t p. t \<notin> set ?names \<longrightarrow> map_of proposed (t, p) = None"
      "\<forall>t n rf p. t \<in> set ?names \<longrightarrow> map_of ?topics t = Some (n, rf) \<longrightarrow>
         (if 0 \<le> p \<and> p < int n then \<exists>rs. map_of proposed (t, p) = Some rs \<and> good_replicas brokers (nat rf) rs
          else map_of proposed (t, p) = None)"
    using lcg.propose_topics_get [OF names(2) bt_ok_Nil, of ?topics brokers random, unfolded map_of.simps]
    by blast
  have "if 0 \<le> p \<and> p < int (length (of_topic t current))
      then \<exists>rs. map_of proposed (t, p) = Some rs \<and> good_replicas brokers (length (snd (hd (of_topic t current)))) rs
      else map_of proposed (t, p) = None" if "of_topic t current \<noteq> []" for t p
    using p(3) shape in_names that by (metis nat_int)
  moreover have "map_of proposed (t, p) = None" if "of_topic t current = []" for t p
    using p(2) in_names that by blast
  ultimately have placed: "case map_of proposed (t, p) of
         None \<Rightarrow> \<not> (0 \<le> p \<and> p < int (length (of_topic t current)))
       | Some rs \<Rightarrow> 0 \<le> p \<and> p < int (length (of_topic t current))
           \<and> length rs = length (snd (hd (of_topic t current))) \<and> distinct rs
           \<and> set rs \<subseteq> ub_id ` set brokers \<and> (\<exists>b \<in> set brokers. \<not> ub_fenced b \<and> ub_id b = hd rs)" for t p
    using proposed_in_shape [OF _ _ assms(1)] by blast
  have "map_option length (map_of proposed (t, p)) = map_option length (map_of current (t, p))"
    if "regular_topic t factor current" for t factor p
    using placed [where t = t and p = p] regular_topic_factor [OF that] unfolding regular_topic_get [OF that]
    by (cases "map_of proposed (t, p)"; cases "of_topic t current = []") auto
  with p(1) placed show ?thesis unfolding propose_def Let_def by blast
qed

text \<open>The second partition has two replicas; the proposal gives it one.\<close>

theorem propose_keeps_shape_witness:
  "\<exists>proposed random'. propose Lcg48_next (Lcg48_new 5) [((''t'', 0), [1]), ((''t'', 1), [1, 2]), ((''u'', 0), [1, 2])]
      [\<lparr>ub_id = 1, ub_rack = None, ub_fenced = False\<rparr>, \<lparr>ub_id = 2, ub_rack = None, ub_fenced = False\<rparr>]
      = Some (Inr proposed, random')
    \<and> map_option length (map_of proposed (''t'', 1)) = Some 1
    \<and> map_option length (map_of proposed (''u'', 0)) = Some 2 \<and> map_of proposed (''u'', 1) = None"
proof -
  let ?current = "[((''t'', 0), [1]), ((''t'', 1), [1, 2]), ((''u'', 0), [1, 2])]"
  let ?brokers = "[\<lparr>ub_id = 1, ub_rack = None, ub_fenced = False\<rparr>, \<lparr>ub_id = 2, ub_rack = None, ub_fenced = False\<rparr>]"
  have ts: "of_topic ''t'' ?current = [((''t'', 0), [1]), ((''t'', 1), [1, 2])]" "of_topic ''u'' ?current = [((''u'', 0), [1, 2])]"
    by (simp_all add: of_topic_def)
  have short: "int (length (of_topic t ?current)) \<le> i32_max" for t by (simp add: of_topic_def)
  have e: "\<forall>e \<in> set ?current. int (length (snd e)) \<le> i32_max \<and>
      placeable (int (length (snd (hd (of_topic (fst (fst e)) ?current))))) ?brokers"
    using ts by (simp add: placeable_def)
  obtain proposed random' where p: "propose Lcg48_next (Lcg48_new 5) ?current ?brokers = Some (Inr proposed, random')"
      and t: "\<And>t p. case map_of proposed (t, p) of
         None \<Rightarrow> \<not> (0 \<le> p \<and> p < int (length (of_topic t ?current)))
       | Some rs \<Rightarrow> 0 \<le> p \<and> p < int (length (of_topic t ?current))
           \<and> length rs = length (snd (hd (of_topic t ?current))) \<and> distinct rs
           \<and> set rs \<subseteq> ub_id ` set ?brokers \<and> (\<exists>b \<in> set ?brokers. \<not> ub_fenced b \<and> ub_id b = hd rs)"
      and u: "\<And>t factor p. regular_topic t factor ?current \<Longrightarrow>
         map_option length (map_of proposed (t, p)) = map_option length (map_of ?current (t, p))"
    using propose_keeps_shape [of ?brokers ?current "Lcg48_new 5"] short e by fastforce
  have "regular_topic ''u'' 2 ?current" by (simp add: regular_topic_def ts)
  from u [OF this, of 0] u [OF this, of 1] have "map_option length (map_of proposed (''u'', 0)) = Some 2"
    "map_of proposed (''u'', 1) = None" by (simp_all add: numeral_2_eq_2)
  moreover have "map_option length (map_of proposed (''t'', 1)) = Some 1"
    using t [of 1 "''t''"] by (auto simp: ts split: option.splits)
  ultimately show ?thesis using p by blast
qed

end
