(* ===== verification/Kafka_Json.thy ===== *)
theory Kafka_Json
  imports Jvm
begin

text \<open>
  \<^verbatim>\<open>crates/krabka-cli/src/kafka_json.rs\<close>: Kafka's \<open>DecodeJson\<close> reading of tool input files. The
  value type is that of \<open>serde_json\<close>: a number is an integer, which \<open>as_i64\<close> reads when it fits,
  or a float, of which the sources use only the printed form. The parser \<open>from_str\<close> and the
  printer \<open>to_str\<close> of \<open>serde_json\<close> are arguments of the functions that call them.
\<close>

datatype json =
    JNull
  | JBool bool
  | JInt int
  | JFloat string
  | JString string
  | JArray "json list"
  | JObject "(string \<times> json) list"

type_synonym json_object = "(string \<times> json) list"
type_synonym json_parser = "string \<Rightarrow> json res"
type_synonym json_printer = "json \<Rightarrow> string"

fun as_i64 :: "json \<Rightarrow> int option" where
  "as_i64 (JInt n) = (if i64_min \<le> n \<and> n \<le> i64_max then Some n else None)"
| "as_i64 _ = None"

fun as_str :: "json \<Rightarrow> string option" where
  "as_str (JString s) = Some s"
| "as_str _ = None"

fun as_array :: "json \<Rightarrow> json list option" where
  "as_array (JArray vs) = Some vs"
| "as_array _ = None"

fun as_object :: "json \<Rightarrow> json_object option" where
  "as_object (JObject fs) = Some fs"
| "as_object _ = None"

section \<open>Documents\<close>

type_synonym document = "json option"

definition try_parse_full :: "json_parser \<Rightarrow> string \<Rightarrow> document res" where
  "try_parse_full from_str text =
     (if text = [] then Inl ''The input string shouldn't be empty''
      else if trim text = [] then Inr None
      else map_sum id Some (from_str text))"

definition parse_full :: "json_parser \<Rightarrow> string \<Rightarrow> document option" where
  "parse_full from_str text = (case try_parse_full from_str text of Inr d \<Rightarrow> Some d | Inl _ \<Rightarrow> None)"

definition object :: "json_printer \<Rightarrow> json \<Rightarrow> json_object res" where
  "object to_str value = ok_or (''Expected JSON object, received '' @ to_str value) (as_object value)"

definition document_object :: "json_printer \<Rightarrow> document \<Rightarrow> json_object res" where
  "document_object to_str document =
     (case document of None \<Rightarrow> Inl ''Expected JSON object, received '' | Some v \<Rightarrow> object to_str v)"

definition array :: "json_printer \<Rightarrow> json \<Rightarrow> json list res" where
  "array to_str value = ok_or (''Expected JSON array, received '' @ to_str value) (as_array value)"

definition field :: "json_object \<Rightarrow> string \<Rightarrow> json res" where
  "field obj name = ok_or (''No such field exists: `'' @ name @ ''`'') (map_of obj name)"

definition mismatch :: "json_printer \<Rightarrow> string \<Rightarrow> json \<Rightarrow> string" where
  "mismatch to_str expected value =
     ''Expected `'' @ expected @ ''` value, received '' @ to_str value"

section \<open>Values\<close>

definition json_int :: "json_printer \<Rightarrow> json \<Rightarrow> int res" where
  "json_int to_str value =
     ok_or (mismatch to_str ''Integer'' value)
       (Option.bind (as_i64 value) (\<lambda>n. if i32_min \<le> n \<and> n \<le> i32_max then Some n else None))"

definition json_string :: "json_printer \<Rightarrow> json \<Rightarrow> string res" where
  "json_string to_str value = ok_or (mismatch to_str ''String'' value) (as_str value)"

definition int_list :: "json_printer \<Rightarrow> json \<Rightarrow> int list res" where
  "int_list to_str value =
     res_bind (ok_or (mismatch to_str ''JSON array'' value) (as_array value))
       (collect_res (json_int to_str))"

definition string_list :: "json_printer \<Rightarrow> json \<Rightarrow> string list res" where
  "string_list to_str value =
     res_bind (ok_or (mismatch to_str ''JSON array'' value) (as_array value))
       (collect_res (json_string to_str))"

section \<open>What decoding gives back\<close>

named_theorems json_simps \<open>decoding of values that were encoded\<close>

lemma json_int_JInt [json_simps]: "i32_min \<le> n \<Longrightarrow> n \<le> i32_max \<Longrightarrow> json_int to_str (JInt n) = Inr n"
  by (simp add: json_int_def)

lemma json_int_Inr: "json_int to_str v = Inr n \<longleftrightarrow> v = JInt n \<and> i32_min \<le> n \<and> n \<le> i32_max"
  by (cases v) (auto simp: json_int_def ok_or_Inr_iff bind_eq_Some_conv)

lemma json_string_JString [json_simps]: "json_string to_str (JString s) = Inr s"
  by (simp add: json_string_def)

lemma json_string_Inr: "json_string to_str v = Inr s \<longleftrightarrow> v = JString s"
  by (cases v) (auto simp: json_string_def)

lemma object_JObject [json_simps]: "object to_str (JObject fs) = Inr fs"
  by (simp add: object_def)

lemma array_JArray [json_simps]: "array to_str (JArray vs) = Inr vs"
  by (simp add: array_def)

lemma array_Inr: "array to_str v = Inr vs \<longleftrightarrow> v = JArray vs"
  by (cases v) (auto simp: array_def)

lemma object_Inr: "object to_str v = Inr fs \<longleftrightarrow> v = JObject fs"
  by (cases v) (auto simp: object_def)

lemma collect_res_map: "collect_res f (map g xs) = collect_res (\<lambda>x. f (g x)) xs"
  by (induction xs) simp_all

lemma int_list_JArray [json_simps]:
  assumes "\<forall>n \<in> set ns. i32_min \<le> n \<and> n \<le> i32_max"
  shows "int_list to_str (JArray (map JInt ns)) = Inr ns"
  using assms collect_res_pure [of ns "\<lambda>n. json_int to_str (JInt n)" id]
  by (simp add: int_list_def collect_res_map json_int_JInt)

lemma string_list_JArray [json_simps]: "string_list to_str (JArray (map JString ss)) = Inr ss"
  using collect_res_pure [of ss "\<lambda>s. json_string to_str (JString s)" id]
  by (simp add: string_list_def collect_res_map json_string_JString)

lemma int_list_all: "int_list to_str v = Inr ns \<Longrightarrow> list_all (\<lambda>n. i32_min \<le> n \<and> n \<le> i32_max) ns"
proof -
  assume "int_list to_str v = Inr ns"
  then obtain vs where "collect_res (json_int to_str) vs = Inr ns"
    by (auto simp: int_list_def res_bind_Inr_iff)
  then have "list_all2 (\<lambda>v n. json_int to_str v = Inr n) vs ns" by (simp add: collect_res_Inr_iff)
  from list_all2_in2 [OF this] show ?thesis by (fastforce simp: json_int_Inr list_all_iff)
qed

lemma try_parse_full_Some:
  "trim text \<noteq> [] \<Longrightarrow> from_str text = Inr v \<Longrightarrow> try_parse_full from_str text = Inr (Some v)"
  by (auto simp: try_parse_full_def)

end
