(* ===== verification/Reassign_Files.thy ===== *)
theory Reassign_Files
  imports Kafka_Json
begin

text \<open>
  \<^verbatim>\<open>crates/krabka-cli/src/reassign_partitions/files.rs\<close>: the two JSON files of
  \<open>kafka-reassign-partitions\<close>, the refusals of their contents, and the writer of the
  reassignment file.
\<close>

section \<open>Data\<close>

definition ANY_LOG_DIR :: string where "ANY_LOG_DIR = ''any''"

record PartitionTarget =
  pt_partition :: TopicPartition
  pt_replicas :: "int list"
  pt_log_dirs :: "string list"

type_synonym ReassignmentFile = "PartitionTarget list"

text \<open>\<open>Replica\<close>, with the derived order: the broker, the topic name, then the partition index.\<close>

datatype Replica = Replica (rp_broker: int) (rp_topic: string) (rp_partition: int)

instantiation Replica :: linorder
begin

definition less_eq_Replica :: "Replica \<Rightarrow> Replica \<Rightarrow> bool" where
  "less_eq_Replica a b \<longleftrightarrow> (rp_broker a, rp_topic a, rp_partition a) \<le> (rp_broker b, rp_topic b, rp_partition b)"

definition less_Replica :: "Replica \<Rightarrow> Replica \<Rightarrow> bool" where
  "less_Replica a b \<longleftrightarrow> (rp_broker a, rp_topic a, rp_partition a) < (rp_broker b, rp_topic b, rp_partition b)"

instance
proof
  fix x y :: Replica
  show "x < y \<longleftrightarrow> x \<le> y \<and> \<not> y \<le> x" unfolding less_eq_Replica_def less_Replica_def by (rule less_le_not_le)
  show "x \<le> x" by (simp add: less_eq_Replica_def)
  show "x \<le> y \<or> y \<le> x" unfolding less_eq_Replica_def by (rule linear)
  show "x \<le> y \<Longrightarrow> y \<le> x \<Longrightarrow> x = y"
    unfolding less_eq_Replica_def by (drule (1) order_antisym) (simp add: Replica.expand)
next
  fix x y z :: Replica
  show "x \<le> y \<Longrightarrow> y \<le> z \<Longrightarrow> x \<le> z"
    unfolding less_eq_Replica_def by (rule order_trans)
qed

end

definition show_replica :: "Replica \<Rightarrow> string" where
  "show_replica r = rp_topic r @ ''-'' @ show_int (rp_partition r) @ ''-'' @ show_int (rp_broker r)"

definition targets :: "ReassignmentFile \<Rightarrow> (TopicPartition \<times> int list) list" where
  "targets file = map (\<lambda>t. (pt_partition t, pt_replicas t)) file"

definition target_moves :: "PartitionTarget \<Rightarrow> (Replica \<times> string) list" where
  "target_moves target =
     map (\<lambda>(broker, log_dir). (Replica broker (tp_topic (pt_partition target)) (tp_partition (pt_partition target)), log_dir))
       (filter (\<lambda>(broker, log_dir). log_dir \<noteq> ANY_LOG_DIR) (zip (pt_replicas target) (pt_log_dirs target)))"

definition log_dir_moves :: "ReassignmentFile \<Rightarrow> (Replica, string) btmap" where
  "log_dir_moves file = bt_of_list (concat (map target_moves file))"

section \<open>Reading\<close>

definition check_version :: "json_printer \<Rightarrow> json_object \<Rightarrow> unit res" where
  "check_version to_str obj =
     res_bind (case map_of obj ''version'' of None \<Rightarrow> Inr 1 | Some v \<Rightarrow> json_int to_str v) (\<lambda>version.
     if version \<noteq> 1 then Inl (''Not supported version field value '' @ show_int version) else Inr ())"

definition parse_target :: "json_printer \<Rightarrow> json \<Rightarrow> PartitionTarget res" where
  "parse_target to_str entry =
     res_bind (object to_str entry) (\<lambda>entry.
     res_bind (res_bind (field entry ''topic'') (json_string to_str)) (\<lambda>topic.
     res_bind (res_bind (field entry ''partition'') (json_int to_str)) (\<lambda>partition.
     res_bind (res_bind (field entry ''replicas'') (int_list to_str)) (\<lambda>replicas.
     res_bind (case map_of entry ''log_dirs'' of
                 Some log_dirs \<Rightarrow> string_list to_str log_dirs
               | None \<Rightarrow> Inr (replicate (length replicas) ANY_LOG_DIR)) (\<lambda>log_dirs.
     let tp = TopicPartition topic partition
     in if length replicas \<noteq> length log_dirs
        then Inl (''Size of replicas list '' @ collection_to_string show_int replicas @
                  '' is different from size of log dirs list '' @ collection_to_string id log_dirs @
                  '' for partition '' @ show_tp tp)
        else Inr \<lparr>pt_partition = tp, pt_replicas = replicas, pt_log_dirs = log_dirs\<rparr>)))))"

definition parse_reassignment :: "json_parser \<Rightarrow> json_printer \<Rightarrow> string \<Rightarrow> ReassignmentFile res" where
  "parse_reassignment from_str to_str text =
     res_bind (try_parse_full from_str text) (\<lambda>document.
     res_bind (document_object to_str document) (\<lambda>obj.
     res_bind (check_version to_str obj) (\<lambda>_.
     case map_of obj ''partitions'' of
       None \<Rightarrow> Inr []
     | Some partitions \<Rightarrow>
         res_bind (array to_str partitions) (collect_res (parse_target to_str)))))"

text \<open>The values that occur earlier in the list, each once, in hash set order.\<close>

definition duplicates :: "'a list \<Rightarrow> ('a \<Rightarrow> 32 word) \<Rightarrow> 'a list" where
  "duplicates values hash =
     hash_set_order
       (map snd (filter (\<lambda>(index, value). value \<in> set (take index values)) (enumerate 0 values))) hash"

definition repeated_replicas :: "PartitionTarget \<Rightarrow> string option" where
  "repeated_replicas target =
     (let repeated = duplicates (pt_replicas target) integer_hash
      in if repeated \<noteq> []
         then Some (show_tp (pt_partition target) @ '' contains multiple entries for '' @
                    join_with '','' (map show_int repeated))
         else None)"

definition check_execute :: "ReassignmentFile \<Rightarrow> unit res" where
  "check_execute file =
     (if file = [] then Inl ''Partition reassignment list cannot be empty''
      else if list_ex (\<lambda>t. pt_replicas t = []) file then Inl ''Partition replica list cannot be empty''
      else
        let repeated = duplicates (map pt_partition file) java_hash
        in if repeated \<noteq> []
           then Inl (''Partition reassignment contains duplicate topic partitions: '' @
                     join_with '','' (map show_tp repeated))
           else
             let lines = List.map_filter repeated_replicas file
             in if lines \<noteq> []
                then Inl (''Partition replica lists may not contain duplicate entries: '' @ join_with ''. '' lines)
                else Inr ())"

definition parse_topics :: "json_parser \<Rightarrow> json_printer \<Rightarrow> string \<Rightarrow> string list res" where
  "parse_topics from_str to_str text =
     res_bind (ok_or ''The input string is not a valid JSON'' (parse_full from_str text)) (\<lambda>document.
     res_bind (document_object to_str document) (\<lambda>obj.
     res_bind (check_version to_str obj) (\<lambda>_.
     case map_of obj ''topics'' of
       None \<Rightarrow> Inr []
     | Some topics \<Rightarrow>
         res_bind (array to_str topics)
           (collect_res (\<lambda>entry.
              res_bind (res_bind (object to_str entry) (\<lambda>e. field e ''topic'')) (json_string to_str))))))"

text \<open>Java's \<open>String.split\<close>: trailing empty strings are dropped, except for an empty input.\<close>

definition java_split :: "string \<Rightarrow> char \<Rightarrow> string list" where
  "java_split value separator =
     (let parts = split_on separator value in if value = [] then parts else pop_empty parts)"

definition parse_generate :: "json_parser \<Rightarrow> json_printer \<Rightarrow> string \<Rightarrow> string \<Rightarrow> (int list \<times> string list) res" where
  "parse_generate from_str to_str topics_json broker_list =
     res_bind (collect_res (\<lambda>i. ok_or (''For input string: \"'' @ i @ ''\"'') (parse_i32 i))
                (java_split broker_list CHR '','')) (\<lambda>brokers.
     let repeated = duplicates brokers integer_hash
     in if repeated \<noteq> []
        then Inl (''Broker list contains duplicate entries: '' @ collection_to_string show_int repeated)
        else
          res_bind (parse_topics from_str to_str topics_json) (\<lambda>topics.
          let repeated = duplicates topics string_hash
          in if repeated \<noteq> []
             then Inl (''List of topics to reassign contains duplicate entries: '' @
                       collection_to_string id repeated)
             else Inr (brokers, topics)))"

section \<open>Writing\<close>

definition entry_log_dirs :: "(Replica, string) btmap \<Rightarrow> TopicPartition \<Rightarrow> int list \<Rightarrow> string list" where
  "entry_log_dirs log_dirs tp replicas =
     map (\<lambda>broker. case map_of log_dirs (Replica broker (tp_topic tp) (tp_partition tp)) of
            Some log_dir \<Rightarrow> log_dir | None \<Rightarrow> ANY_LOG_DIR) replicas"

definition entry_json :: "(Replica, string) btmap \<Rightarrow> TopicPartition \<times> int list \<Rightarrow> json" where
  "entry_json log_dirs = (\<lambda>(tp, replicas). JObject
     [(''topic'', JString (tp_topic tp)),
      (''partition'', JInt (tp_partition tp)),
      (''replicas'', JArray (map JInt replicas)),
      (''log_dirs'', JArray (map JString (entry_log_dirs log_dirs tp replicas)))])"

definition file_json :: "(TopicPartition, int list) btmap \<Rightarrow> (Replica, string) btmap \<Rightarrow> json" where
  "file_json assignment log_dirs = JObject
     [(''version'', JInt 1), (''partitions'', JArray (map (entry_json log_dirs) assignment))]"

definition format_reassignment ::
    "json_printer \<Rightarrow> (TopicPartition, int list) btmap \<Rightarrow> (Replica, string) btmap \<Rightarrow> string" where
  "format_reassignment to_str assignment log_dirs = to_str (file_json assignment log_dirs)"

section \<open>Duplicates\<close>

lemma enumerate_mem: "(i, v) \<in> set (enumerate n xs) \<longleftrightarrow> n \<le> i \<and> i < n + length xs \<and> xs ! (i - n) = v"
  by (auto simp: in_set_enumerate_eq)

lemma in_duplicates: "v \<in> set (duplicates vs h) \<longleftrightarrow> (\<exists>i < length vs. vs ! i = v \<and> v \<in> set (take i vs))"
  by (force simp: duplicates_def enumerate_mem image_iff)

lemma duplicates_Nil_iff: "duplicates vs h = [] \<longleftrightarrow> distinct vs"
proof -
  have "duplicates vs h = [] \<longleftrightarrow> (\<forall>i < length vs. vs ! i \<notin> set (take i vs))"
    using in_duplicates [of _ vs h] by (metis list.set_intros(1) neq_Nil_conv set_empty equals0I empty_iff)
  also have "\<dots> \<longleftrightarrow> distinct vs" by (rule distinct_take_iff)
  finally show ?thesis .
qed

lemma repeated_replicas_None: "repeated_replicas t = None \<longleftrightarrow> distinct (pt_replicas t)"
  by (auto simp: repeated_replicas_def Let_def duplicates_Nil_iff)

section \<open>Reading back what was written\<close>

text \<open>\<open>serde_json\<close> keeps an object as a \<open>BTreeMap\<close>: reading gives its fields in key order.\<close>

fun norm_json :: "json \<Rightarrow> json" where
  "norm_json (JArray vs) = JArray (map norm_json vs)"
| "norm_json (JObject fs) = JObject (bt_of_list (map (\<lambda>(k, v). (k, norm_json v)) fs))"
| "norm_json v = v"

lemma norm_json_atoms [simp]: "norm_json \<circ> JInt = JInt" "norm_json \<circ> JString = JString"
  by (simp_all add: fun_eq_iff)

definition written_target :: "(Replica, string) btmap \<Rightarrow> TopicPartition \<times> int list \<Rightarrow> PartitionTarget" where
  "written_target log_dirs = (\<lambda>(tp, replicas).
     \<lparr>pt_partition = tp, pt_replicas = replicas, pt_log_dirs = entry_log_dirs log_dirs tp replicas\<rparr>)"

definition i32_assignment :: "(TopicPartition, int list) btmap \<Rightarrow> bool" where
  "i32_assignment assignment \<longleftrightarrow>
     (\<forall>(tp, replicas) \<in> set assignment. i32_min \<le> tp_partition tp \<and> tp_partition tp \<le> i32_max
        \<and> (\<forall>r \<in> set replicas. i32_min \<le> r \<and> r \<le> i32_max))"

lemma parse_target_written:
  assumes "i32_min \<le> tp_partition tp" and "tp_partition tp \<le> i32_max"
    and "\<forall>r \<in> set replicas. i32_min \<le> r \<and> r \<le> i32_max"
  shows "parse_target to_str (norm_json (entry_json log_dirs (tp, replicas))) = Inr (written_target log_dirs (tp, replicas))"
proof -
  let ?ds = "entry_log_dirs log_dirs tp replicas"
  let ?fs = "[(''topic'', JString (tp_topic tp)), (''partition'', JInt (tp_partition tp)),
      (''replicas'', JArray (map JInt replicas)), (''log_dirs'', JArray (map JString ?ds))]"
  have n: "norm_json (entry_json log_dirs (tp, replicas)) = JObject (bt_of_list ?fs)"
    by (simp add: entry_json_def)
  have m: "map_of (bt_of_list ?fs) = map_of ?fs" by (rule map_of_bt_of_list_distinct) simp
  have len: "length ?ds = length replicas" by (simp add: entry_log_dirs_def)
  show ?thesis
    unfolding n parse_target_def object_JObject res_bind_simps field_def m
    using assms len by (simp add: json_simps int_list_JArray written_target_def Let_def)
qed

lemma parse_reassignment_written:
  assumes "i32_assignment assignment"
    and "from_str (format_reassignment to_str assignment log_dirs) = Inr (norm_json (file_json assignment log_dirs))"
    and "trim (format_reassignment to_str assignment log_dirs) \<noteq> []"
  shows "parse_reassignment from_str to_str (format_reassignment to_str assignment log_dirs) =
    Inr (map (written_target log_dirs) assignment)"
proof -
  let ?fs = "[(''version'', JInt 1), (''partitions'', JArray (map (norm_json \<circ> entry_json log_dirs) assignment))]"
  have n: "norm_json (file_json assignment log_dirs) = JObject (bt_of_list ?fs)" by (simp add: file_json_def)
  have m: "map_of (bt_of_list ?fs) = map_of ?fs" by (rule map_of_bt_of_list_distinct) simp
  have "collect_res (\<lambda>e. parse_target to_str (norm_json (entry_json log_dirs e))) assignment =
      Inr (map (written_target log_dirs) assignment)"
    using assms(1) by (intro collect_res_pure) (auto simp: i32_assignment_def intro!: parse_target_written)
  then have "collect_res (parse_target to_str) (map (norm_json \<circ> entry_json log_dirs) assignment) =
      Inr (map (written_target log_dirs) assignment)"
    by (simp add: collect_res_map)
  then show ?thesis
    unfolding parse_reassignment_def
      try_parse_full_Some [of "format_reassignment to_str assignment log_dirs" from_str, OF assms(3,2)] n
    by (simp add: document_object_def json_simps check_version_def m)
qed

text \<open>The named log dir that a written file gives a replica.\<close>

definition named_log_dir :: "(Replica, string) btmap \<Rightarrow> Replica \<Rightarrow> string option" where
  "named_log_dir log_dirs r =
     (case map_of log_dirs r of Some d \<Rightarrow> if d \<noteq> ANY_LOG_DIR then Some d else None | None \<Rightarrow> None)"

lemma in_target_moves_written:
  "(Replica b t p, d) \<in> set (target_moves (written_target log_dirs (tp, replicas))) \<longleftrightarrow>
     TopicPartition t p = tp \<and> b \<in> set replicas \<and> named_log_dir log_dirs (Replica b t p) = Some d"
  by (cases tp) (auto simp: target_moves_def written_target_def entry_log_dirs_def zip_map2 zip_same_conv_map
      named_log_dir_def image_iff split: option.splits if_splits)

lemma log_dir_moves_written:
  assumes "bt_ok assignment"
  shows "map_of (log_dir_moves (map (written_target log_dirs) assignment)) (Replica b t p) =
    (case map_of assignment (TopicPartition t p) of
       Some replicas \<Rightarrow> if b \<in> set replicas then named_log_dir log_dirs (Replica b t p) else None
     | None \<Rightarrow> None)"
proof -
  let ?xs = "concat (map target_moves (map (written_target log_dirs) assignment))"
  have mem: "(Replica b t p, d) \<in> set ?xs \<longleftrightarrow>
      (\<exists>replicas. map_of assignment (TopicPartition t p) = Some replicas \<and> b \<in> set replicas
        \<and> named_log_dir log_dirs (Replica b t p) = Some d)" for b t p d
    using bt_ok_distinct [OF assms] by (force simp: in_target_moves_written)
  have "map_of (bt_of_list ?xs) (Replica b t p) =
      (if Replica b t p \<in> fst ` set ?xs then named_log_dir log_dirs (Replica b t p) else None)"
    using map_of_functional [of "rev ?xs" "named_log_dir log_dirs" "Replica b t p"]
    by (simp only: map_of_bt_of_list set_rev) (metis Replica.exhaust mem)
  moreover have "Replica b t p \<in> fst ` set ?xs \<longleftrightarrow> (\<exists>d. (Replica b t p, d) \<in> set ?xs)"
    by (force simp del: set_concat)
  ultimately show ?thesis
    unfolding log_dir_moves_def mem by (auto split: option.splits)
qed

section \<open>Properties\<close>

text \<open>C31. A reassignment file that the tool writes is one that it reads back, when the JSON library
  reads what it prints: the targets are the assignment, and the moves to a log dir are exactly
  the named log dirs of the assigned replicas.\<close>

theorem reassignment_file_roundtrip:
  assumes "bt_ok assignment" and "i32_assignment assignment"
    and "from_str (format_reassignment to_str assignment log_dirs) = Inr (norm_json (file_json assignment log_dirs))"
    and "trim (format_reassignment to_str assignment log_dirs) \<noteq> []"
  shows "\<exists>file. parse_reassignment from_str to_str (format_reassignment to_str assignment log_dirs) = Inr file
    \<and> targets file = assignment
    \<and> (\<forall>b t p. map_of (log_dir_moves file) (Replica b t p) =
         (case map_of assignment (TopicPartition t p) of
            Some replicas \<Rightarrow> if b \<in> set replicas then named_log_dir log_dirs (Replica b t p) else None
          | None \<Rightarrow> None))"
proof -
  have "targets (map (written_target log_dirs) assignment) = assignment"
    by (simp add: targets_def written_target_def o_def case_prod_beta)
  then show ?thesis
    using parse_reassignment_written [of assignment from_str to_str log_dirs, OF assms(2,3,4)]
      log_dir_moves_written [OF assms(1), of log_dirs] by blast
qed

definition sample_assignment :: "(TopicPartition, int list) btmap" where
  "sample_assignment = [(TopicPartition ''t'' 0, [1, 2])]"

definition sample_printer :: json_printer where
  "sample_printer v = ''{}''"

definition sample_parser :: json_parser where
  "sample_parser text = Inr (norm_json (file_json sample_assignment [(Replica 1 ''t'' 0, ''/d'')]))"

theorem reassignment_file_roundtrip_witness:
  "\<exists>file. parse_reassignment sample_parser sample_printer
      (format_reassignment sample_printer sample_assignment [(Replica 1 ''t'' 0, ''/d'')]) = Inr file
    \<and> targets file = sample_assignment
    \<and> (\<forall>b t p. map_of (log_dir_moves file) (Replica b t p) =
         (case map_of sample_assignment (TopicPartition t p) of
            Some replicas \<Rightarrow> if b \<in> set replicas then named_log_dir [(Replica 1 ''t'' 0, ''/d'')] (Replica b t p) else None
          | None \<Rightarrow> None))"
proof (rule reassignment_file_roundtrip)
  show "trim (format_reassignment sample_printer sample_assignment [(Replica 1 ''t'' 0, ''/d'')]) \<noteq> []"
    unfolding format_reassignment_def sample_printer_def by code_simp
qed (simp_all add: sample_assignment_def sample_parser_def i32_assignment_def)

text \<open>\<open>--execute\<close> accepts a file exactly when it has a partition, no partition twice, and for each
  partition a replica and no replica twice.\<close>

theorem check_execute_iff:
  "check_execute file = Inr () \<longleftrightarrow>
     file \<noteq> [] \<and> distinct (map pt_partition file)
     \<and> list_all (\<lambda>t. pt_replicas t \<noteq> [] \<and> distinct (pt_replicas t)) file"
  by (auto simp: check_execute_def Let_def duplicates_Nil_iff map_filter_Nil_iff repeated_replicas_None
      list_all_iff list_ex_iff)

text \<open>C36. A reassignment file that is accepted gives every replica a log dir and has only partition and
  broker numbers that fit an \<open>int\<close>.\<close>

theorem parse_reassignment_sound:
  assumes "parse_reassignment from_str to_str text = Inr file"
  shows "list_all (\<lambda>t. length (pt_log_dirs t) = length (pt_replicas t)
    \<and> i32_min \<le> tp_partition (pt_partition t) \<and> tp_partition (pt_partition t) \<le> i32_max
    \<and> list_all (\<lambda>r. i32_min \<le> r \<and> r \<le> i32_max) (pt_replicas t)) file"
proof -
  have one: "parse_target to_str v = Inr t \<Longrightarrow> length (pt_log_dirs t) = length (pt_replicas t)
    \<and> i32_min \<le> tp_partition (pt_partition t) \<and> tp_partition (pt_partition t) \<le> i32_max
    \<and> list_all (\<lambda>r. i32_min \<le> r \<and> r \<le> i32_max) (pt_replicas t)" for v t
    by (auto simp: parse_target_def res_bind_Inr_iff Let_def json_int_Inr dest: int_list_all split: if_splits)
  consider "file = []" | vs where "collect_res (parse_target to_str) vs = Inr file"
    using assms by (auto simp: parse_reassignment_def res_bind_Inr_iff split: option.splits)
  then show ?thesis
  proof cases
    case 2
    then show ?thesis using one by (auto simp: collect_res_Inr_iff list_all_iff dest: list_all2_in2)
  qed simp
qed

theorem parse_reassignment_sound_witness:
  "list_all (\<lambda>t. length (pt_log_dirs t) = length (pt_replicas t)
    \<and> i32_min \<le> tp_partition (pt_partition t) \<and> tp_partition (pt_partition t) \<le> i32_max
    \<and> list_all (\<lambda>r. i32_min \<le> r \<and> r \<le> i32_max) (pt_replicas t)) [\<lparr>pt_partition = TopicPartition ''t'' 0, pt_replicas = [1], pt_log_dirs = [''any'']\<rparr>]"
proof (rule parse_reassignment_sound)
  have m: "trim ''{}'' \<noteq> []" by code_simp
  show "parse_reassignment
      (\<lambda>_. Inr (JObject [(''partitions'', JArray [JObject [(''topic'', JString ''t''), (''partition'', JInt 0), (''replicas'', JArray [JInt 1])]])]))
      (\<lambda>_. []) ''{}'' = Inr [\<lparr>pt_partition = TopicPartition ''t'' 0, pt_replicas = [1], pt_log_dirs = [''any'']\<rparr>]"
    using m by (simp add: parse_reassignment_def try_parse_full_def document_object_def object_def check_version_def
        array_def parse_target_def field_def json_string_def json_int_def int_list_def ANY_LOG_DIR_def Let_def)
qed

text \<open>\<open>--generate\<close> accepts only brokers and topics without duplicates, and brokers that fit an
  \<open>int\<close>; a printed list of distinct brokers is read back.\<close>

theorem parse_generate_sound:
  assumes "parse_generate from_str to_str topics_json broker_list = Inr (brokers, topics)"
  shows "distinct brokers \<and> distinct topics \<and> list_all (\<lambda>b. i32_min \<le> b \<and> b \<le> i32_max) brokers
    \<and> parse_topics from_str to_str topics_json = Inr topics"
proof -
  have "collect_res (\<lambda>i. ok_or (''For input string: \"'' @ i @ ''\"'') (parse_i32 i)) (java_split broker_list CHR '','') = Inr brokers"
    using assms by (auto simp: parse_generate_def Let_def res_bind_Inr_iff split: if_splits)
  then have "list_all (\<lambda>b. i32_min \<le> b \<and> b \<le> i32_max) brokers"
    unfolding collect_res_Inr_iff ok_or_Inr_iff list_all_iff
    by (auto dest!: list_all2_in2 dest: parse_signed_range)
  with assms show ?thesis
    by (auto simp: parse_generate_def Let_def res_bind_Inr_iff duplicates_Nil_iff split: if_splits)
qed

theorem parse_generate_sound_witness:
  "distinct [2, 1 :: int] \<and> distinct ([] :: string list) \<and> list_all (\<lambda>b. i32_min \<le> b \<and> b \<le> i32_max) [2, 1 :: int]
    \<and> parse_topics (\<lambda>_. Inr (JObject [])) (\<lambda>_. []) ''{}'' = Inr []"
proof (rule parse_generate_sound)
  have m: "trim ''{}'' \<noteq> []" by code_simp
  have b: "java_split ''2,1'' CHR '','' = [''2'', ''1'']" by code_simp
  have p: "parse_i32 ''2'' = Some 2" "parse_i32 ''1'' = Some 1" by code_simp+
  have t: "parse_topics (\<lambda>_. Inr (JObject [])) (\<lambda>_. []) ''{}'' = Inr []"
    using m by (simp add: parse_topics_def parse_full_def try_parse_full_def document_object_def object_def check_version_def)
  have d: "duplicates [2, 1 :: int] integer_hash = []" "duplicates ([] :: string list) string_hash = []"
    by (simp_all add: duplicates_Nil_iff)
  show "parse_generate (\<lambda>_. Inr (JObject [])) (\<lambda>_. []) ''{}'' ''2,1'' = Inr ([2, 1], [])"
    unfolding parse_generate_def b using p by (simp add: d t)
qed

end
