(* ===== verification/Reassign_Plan.thy ===== *)
theory Reassign_Plan
  imports Reassign_Files Kafka_Errors Replica_Placer
begin

text \<open>
  \<^verbatim>\<open>crates/krabka-cli/src/reassign_partitions/plan.rs\<close>: partition states, moves, throttle values
  and the lines that \<open>kafka-reassign-partitions\<close> prints. A \<open>BTreeSet<i32>\<close> is the increasing list
  of its elements. \<open>PartitionAssignment\<close>, \<open>ReplicaLogDirInfo\<close> and \<open>ClusterNode\<close> are types of the
  admin client with the fields that are read here.
\<close>

section \<open>Data of the admin client\<close>

record PartitionAssignment =
  pa_topic :: string
  pa_partition :: int
  pa_replicas :: "int list"
  pa_adding :: "int list"
  pa_removing :: "int list"

record ReplicaLogDirInfo =
  ld_current :: "string option"
  ld_future :: "string option"

record ClusterNode =
  node_id :: int
  node_rack :: "string option"

definition LEADER_RATE :: string where "LEADER_RATE = ''leader.replication.throttled.rate''"
definition FOLLOWER_RATE :: string where "FOLLOWER_RATE = ''follower.replication.throttled.rate''"
definition LOG_DIR_RATE :: string where "LOG_DIR_RATE = ''replica.alter.log.dirs.io.max.bytes.per.second''"
definition LEADER_REPLICAS :: string where "LEADER_REPLICAS = ''leader.replication.throttled.replicas''"
definition FOLLOWER_REPLICAS :: string where "FOLLOWER_REPLICAS = ''follower.replication.throttled.replicas''"

definition ids :: "int list \<Rightarrow> string" where
  "ids is = join_with '','' (map show_int is)"

type_synonym active_map = "(TopicPartition, PartitionAssignment) btmap"
type_synonym replica_map = "(TopicPartition, int list) btmap"

definition list_line :: "TopicPartition \<times> PartitionAssignment \<Rightarrow> string" where
  "list_line = (\<lambda>(tp, assignment).
     show_tp tp @ '': replicas: '' @ ids (pa_replicas assignment) @ ''.'' @
     concat (map (\<lambda>(label, replicas). if replicas \<noteq> [] then label @ ids replicas @ ''.'' else [])
       [('' adding: '', pa_adding assignment), ('' removing: '', pa_removing assignment)]))"

definition list_lines :: "active_map \<Rightarrow> string list" where
  "list_lines active =
     (if active = [] then [''No partition reassignments found.'']
      else ''Current partition reassignments:'' # map list_line active)"

section \<open>Partition states\<close>

record PartitionState =
  ps_current :: "int list"
  ps_target :: "int list"
  ps_done :: bool

definition partition_state :: "active_map \<Rightarrow> replica_map \<Rightarrow> TopicPartition \<Rightarrow> int list \<Rightarrow> PartitionState" where
  "partition_state active described tp target =
     (case map_of active tp of
        Some assignment \<Rightarrow> \<lparr>ps_current = pa_replicas assignment, ps_target = target, ps_done = False\<rparr>
      | None \<Rightarrow> \<lparr>ps_current = (case map_of described tp of Some r \<Rightarrow> r | None \<Rightarrow> []), ps_target = target, ps_done = True\<rparr>)"

definition partition_states ::
    "(TopicPartition \<times> int list) list \<Rightarrow> active_map \<Rightarrow> replica_map \<Rightarrow> (TopicPartition, PartitionState) btmap" where
  "partition_states tgts active described =
     bt_of_list (map (\<lambda>(tp, target). (tp, partition_state active described tp target)) tgts)"

definition status_line :: "TopicPartition \<times> PartitionState \<Rightarrow> string" where
  "status_line = (\<lambda>(tp, state).
     if \<not> ps_done state then ''Reassignment of partition '' @ show_tp tp @ '' is still in progress.''
     else if ps_current state = ps_target state then ''Reassignment of partition '' @ show_tp tp @ '' is completed.''
     else ''There is no active reassignment of partition '' @ show_tp tp @ '', but replica set is '' @
          ids (ps_current state) @ '' rather than '' @ ids (ps_target state) @ ''.'')"

definition status_lines :: "(TopicPartition, PartitionState) btmap \<Rightarrow> string list" where
  "status_lines states = ''Status of partition reassignment:'' # map status_line states"

definition state_json :: "TopicPartition \<times> PartitionState \<Rightarrow> json" where
  "state_json = (\<lambda>(tp, state).
     let progress = (if \<not> ps_done state then ''in_progress''
                     else if ps_current state = ps_target state then ''completed'' else ''mismatch'')
     in JObject [(''topic'', JString (tp_topic tp)), (''partition'', JInt (tp_partition tp)),
          (''current_replicas'', JArray (map JInt (ps_current state))),
          (''target_replicas'', JArray (map JInt (ps_target state))), (''status'', JString progress)])"

definition states_json :: "(TopicPartition, PartitionState) btmap \<Rightarrow> json list" where
  "states_json states = map state_json states"

section \<open>Moves\<close>

record PartitionMove =
  pm_sources :: "int list"
  pm_destinations :: "int list"

type_synonym MoveMap = "(string, int, PartitionMove) btmap2"

text \<open>The key of a partition in a \<open>MoveMap\<close>.\<close>

definition tp_key :: "TopicPartition \<Rightarrow> string \<times> int" where
  "tp_key tp = (tp_topic tp, tp_partition tp)"

definition active_move :: "PartitionAssignment \<Rightarrow> PartitionMove" where
  "active_move assignment =
     (let destinations = bs_of_list (pa_adding assignment);
          sources = bs_of_list (filter (\<lambda>i. i \<notin> set destinations) (pa_replicas assignment))
      in \<lparr>pm_sources = sources, pm_destinations = destinations\<rparr>)"

definition active_moves :: "active_map \<Rightarrow> MoveMap" where
  "active_moves active = foldl (\<lambda>moves (tp, assignment). nested_insert (tp_key tp) (active_move assignment) moves) [] active"

definition proposed_sources :: "replica_map \<Rightarrow> TopicPartition \<Rightarrow> MoveMap \<Rightarrow> int list res" where
  "proposed_sources current tp moves =
     (case (nested_get moves (tp_key tp), map_of current tp) of
        (Some movement, _) \<Rightarrow> Inr (pm_sources movement)
      | (None, Some replicas) \<Rightarrow> Inr (bs_of_list replicas)
      | (None, None) \<Rightarrow> Inl (''Trying to reassign a topic partition '' @ show_tp tp @ '' with 0 replicas''))"

fun add_proposed :: "replica_map \<Rightarrow> replica_map \<Rightarrow> MoveMap \<Rightarrow> MoveMap res" where
  "add_proposed current [] moves = Inr moves"
| "add_proposed current ((tp, replicas) # proposed) moves =
     res_bind (proposed_sources current tp moves) (\<lambda>sources.
     let destinations = bs_of_list (filter (\<lambda>i. i \<notin> set sources) replicas)
     in add_proposed current proposed
          (nested_insert (tp_key tp) \<lparr>pm_sources = sources, pm_destinations = destinations\<rparr> moves))"

definition MoveMap_proposed :: "active_map \<Rightarrow> replica_map \<Rightarrow> replica_map \<Rightarrow> MoveMap res" where
  "MoveMap_proposed active proposed current = add_proposed current proposed (active_moves active)"

definition topic_throttle :: "(PartitionMove \<Rightarrow> int list) \<Rightarrow> (int, PartitionMove) btmap \<Rightarrow> string" where
  "topic_throttle brokers partitions =
     join_with '','' (bs_of_list (concat (map (\<lambda>(p, m). map (\<lambda>b. show_int p @ '':'' @ show_int b) (brokers m)) partitions)))"

definition throttles :: "(PartitionMove \<Rightarrow> int list) \<Rightarrow> MoveMap \<Rightarrow> (string, string) btmap" where
  "throttles brokers moves = map (\<lambda>(topic, partitions). (topic, topic_throttle brokers partitions)) moves"

definition leader_throttles :: "MoveMap \<Rightarrow> (string, string) btmap" where
  "leader_throttles moves = throttles pm_sources moves"

definition follower_throttles :: "MoveMap \<Rightarrow> (string, string) btmap" where
  "follower_throttles moves =
     throttles (\<lambda>m. filter (\<lambda>b. b \<notin> set (pm_sources m)) (pm_destinations m)) moves"

definition move_brokers :: "MoveMap \<Rightarrow> int list" where
  "move_brokers moves =
     bs_of_list (concat (map (\<lambda>m. pm_sources m @ pm_destinations m) (concat (map (map snd \<circ> snd) moves))))"

section \<open>Throttles\<close>

type_synonym configs = "(string, string) btmap"

record Throttles =
  th_topics :: "(string, configs) btmap"
  th_brokers :: "(int, configs) btmap"
  th_throttle :: int
  th_log_dir_throttle :: int

definition Throttles_new :: "MoveMap \<Rightarrow> (Replica, string) btmap \<Rightarrow> int \<Rightarrow> int \<Rightarrow> Throttles" where
  "Throttles_new moves log_moves throttle log_dir_throttle =
     (let leaders = foldl (\<lambda>m (topic, value). nested_insert (topic, LEADER_REPLICAS) value m) [] (leader_throttles moves);
          topics = foldl (\<lambda>m (topic, value). nested_insert (topic, FOLLOWER_REPLICAS) value m) leaders (follower_throttles moves);
          rates = foldl (\<lambda>m broker. nested_insert (broker, FOLLOWER_RATE) (show_int throttle)
                           (nested_insert (broker, LEADER_RATE) (show_int throttle) m)) [] (move_brokers moves);
          brokers = (if 0 \<le> throttle then rates else []);
          brokers = (if 0 \<le> log_dir_throttle
                     then foldl (\<lambda>m replica. nested_insert (rp_broker replica, LOG_DIR_RATE) (show_int log_dir_throttle) m)
                            brokers (map fst log_moves)
                     else brokers)
      in \<lparr>th_topics = (if 0 \<le> throttle then topics else []), th_brokers = brokers,
          th_throttle = throttle, th_log_dir_throttle = log_dir_throttle\<rparr>)"

definition warning_line :: "Throttles \<Rightarrow> string option" where
  "warning_line self =
     (if 0 \<le> th_throttle self \<or> 0 \<le> th_log_dir_throttle self
      then Some ''Warning: You must run --verify periodically, until the reassignment completes, to ensure the throttle is removed.''
      else None)"

definition inter_broker_line :: "Throttles \<Rightarrow> string option" where
  "inter_broker_line self =
     (if 0 \<le> th_throttle self
      then Some (''The inter-broker throttle limit was set to '' @ show_int (th_throttle self) @ '' B/s'') else None)"

definition log_dir_line :: "Throttles \<Rightarrow> string option" where
  "log_dir_line self =
     (if 0 \<le> th_log_dir_throttle self
      then Some (''The replica-alter-dir throttle limit was set to '' @ show_int (th_log_dir_throttle self) @ '' B/s'')
      else None)"

definition throttle_lines :: "Throttles \<Rightarrow> string list" where
  "throttle_lines self =
     List.map_filter id [warning_line self, inter_broker_line self, log_dir_line self]"

definition broker_configs :: "string list \<Rightarrow> Throttles \<Rightarrow> (int, configs) btmap" where
  "broker_configs keys self =
     filter (\<lambda>(_, configs). configs \<noteq> [])
       (map (\<lambda>(broker, configs). (broker, filter (\<lambda>(name, _). name \<in> set keys) configs)) (th_brokers self))"

definition configs_json :: "configs \<Rightarrow> json" where
  "configs_json configs = JObject (map (\<lambda>(name, value). (name, JString value)) configs)"

definition throttles_json :: "Throttles \<Rightarrow> json" where
  "throttles_json self = JObject
     [(''topics'', JObject (map (\<lambda>(topic, configs). (topic, configs_json configs)) (th_topics self))),
      (''brokers'', JObject (bt_of_list (map (\<lambda>(broker, configs). (show_int broker, configs_json configs)) (th_brokers self))))]"

section \<open>Lines\<close>

definition rollback_lines :: "string \<Rightarrow> string list" where
  "rollback_lines current_json =
     [''Current partition replica assignment'', [], current_json, [],
      ''Save this to use as the --reassignment-json-file option during rollback'']"

definition started_line :: "TopicPartition list \<Rightarrow> string" where
  "started_line partitions =
     ''Successfully started partition reassignment'' @ (if length partitions = 1 then [] else ''s'') @
     '' for '' @ join_tp '','' partitions"

definition move_line :: "Replica \<times> string \<Rightarrow> string" where
  "move_line = (\<lambda>(replica, log_dir).
     ''Successfully started moving log directory to '' @ log_dir @ '' for replica '' @ rp_topic replica @ ''-'' @
     show_int (rp_partition replica) @ '' with broker '' @ show_int (rp_broker replica) @ '' '')"

definition move_lines :: "(Replica, string) btmap \<Rightarrow> string list" where
  "move_lines moves = map move_line moves"

definition cancelled_line :: "TopicPartition list \<Rightarrow> string" where
  "cancelled_line partitions =
     ''Successfully cancelled partition reassignment'' @ (if length partitions = 1 then [] else ''s'') @
     '' for: '' @ join_tp '','' partitions"

definition partition_errors :: "(TopicPartition, KafkaError) btmap \<Rightarrow> string list" where
  "partition_errors errors = map (\<lambda>(tp, e). show_tp tp @ '': '' @ java_message e) errors"

section \<open>Log dir moves\<close>

datatype MoveState =
    MissingLogDir
  | Active string string string
  | Cancelled string string
  | Completed

definition MoveState_new :: "ReplicaLogDirInfo \<Rightarrow> string \<Rightarrow> MoveState" where
  "MoveState_new info target =
     (case (ld_current info, ld_future info) of
        (None, _) \<Rightarrow> MissingLogDir
      | (Some current, None) \<Rightarrow> if current = target then Completed else Cancelled current target
      | (Some current, Some future) \<Rightarrow> Active current target future)"

fun move_done :: "MoveState \<Rightarrow> bool" where
  "move_done (Cancelled _ _) = True"
| "move_done Completed = True"
| "move_done _ = False"

definition move_state_line :: "Replica \<times> MoveState \<Rightarrow> string" where
  "move_state_line = (\<lambda>(replica, state).
     let tp = rp_topic replica @ ''-'' @ show_int (rp_partition replica); broker = show_int (rp_broker replica)
     in case state of
          MissingLogDir \<Rightarrow> ''Partition '' @ tp @ '' is not found in any live log dir on broker '' @ broker @
            ''. There is likely an offline log directory on the broker.''
        | Active _ target future \<Rightarrow>
            if target = future then ''Reassignment of replica '' @ show_replica replica @ '' is still in progress.''
            else ''Partition '' @ tp @ '' on broker '' @ broker @ '' is being moved to log dir '' @ future @
                 '' instead of '' @ target @ ''.''
        | Cancelled current target \<Rightarrow> ''Partition '' @ tp @ '' on broker '' @ broker @
            '' is not being moved from log dir '' @ current @ '' to '' @ target @ ''.''
        | Completed \<Rightarrow> ''Reassignment of replica '' @ show_replica replica @ '' completed successfully.'')"

definition move_state_lines :: "(Replica, MoveState) btmap \<Rightarrow> string list" where
  "move_state_lines states = map move_state_line states"

definition clearing_line :: "string \<Rightarrow> string \<Rightarrow> string list \<Rightarrow> string" where
  "clearing_line level noun names =
     ''Clearing '' @ level @ ''-level throttles on '' @ noun @ (if length names = 1 then [] else ''s'') @ '' '' @
     join_with '','' names"

definition usable_brokers :: "ClusterNode list \<Rightarrow> int list \<Rightarrow> bool \<Rightarrow> UsableBroker list res" where
  "usable_brokers nodes brokers rack_aware =
     (let usable = map (\<lambda>node. \<lparr>ub_id = node_id node,
              ub_rack = (if rack_aware then node_rack node else None), ub_fenced = False\<rparr>)
            (filter (\<lambda>node. node_id node \<in> set brokers) nodes);
          rackless = length (filter (\<lambda>b. ub_rack b = None) usable)
      in if rack_aware \<and> rackless \<noteq> 0 \<and> rackless \<noteq> length usable
         then Inl ''Not all brokers have rack information. Add --disable-rack-aware in command line to make replica assignment without rack information.''
         else Inr usable)"

section \<open>The moves\<close>

lemma tp_key_inj [simp]: "tp_key a = tp_key b \<longleftrightarrow> a = b"
  by (cases a; cases b) (simp add: tp_key_def)

lemma active_moves_fold:
  "active_moves active =
     foldl (\<lambda>m e. nested_insert (fst e) (snd e) m) [] (map (\<lambda>(tp, a). (tp_key tp, active_move a)) active)"
  by (simp add: active_moves_def foldl_map case_prod_beta')

lemma active_moves_ok: "nested_ok (active_moves active)"
  unfolding active_moves_fold by (rule nested.ok_fold [OF nested.ok_empty])

lemma map_of_tp_key: "map_of (map (\<lambda>(tp, a). (tp_key tp, f a)) xs) (tp_key tp) = map_option f (map_of xs tp)"
  by (induction xs) auto

lemma active_moves_get:
  assumes "bt_ok active"
  shows "nested_get (active_moves active) (tp_key tp) = map_option active_move (map_of active tp)"
proof -
  have "nested_get (active_moves active) (tp_key tp) =
      map_of (map (\<lambda>(tp, a). (tp_key tp, active_move a)) (rev active)) (tp_key tp)"
    by (simp only: active_moves_fold nested.get_of_list rev_map)
  then show ?thesis
    by (simp only: map_of_tp_key map_of_rev_distinct [OF bt_ok_distinct [OF assms]])
qed

definition sources_of :: "replica_map \<Rightarrow> MoveMap \<Rightarrow> TopicPartition \<Rightarrow> int list option" where
  "sources_of current moves tp =
     (case nested_get moves (tp_key tp) of
        Some m \<Rightarrow> Some (pm_sources m) | None \<Rightarrow> map_option bs_of_list (map_of current tp))"

definition move_to :: "int list \<Rightarrow> int list \<Rightarrow> PartitionMove" where
  "move_to sources replicas =
     \<lparr>pm_sources = sources, pm_destinations = bs_of_list (filter (\<lambda>i. i \<notin> set sources) replicas)\<rparr>"

lemma proposed_sources_eq:
  "proposed_sources current tp moves =
     ok_or (''Trying to reassign a topic partition '' @ show_tp tp @ '' with 0 replicas'') (sources_of current moves tp)"
  by (auto simp: proposed_sources_def sources_of_def split: option.split)

lemma add_proposed_Cons:
  "add_proposed current ((tp, replicas) # proposed) moves =
     res_bind (proposed_sources current tp moves) (\<lambda>sources.
       add_proposed current proposed (nested_insert (tp_key tp) (move_to sources replicas) moves))"
  by (simp add: move_to_def Let_def)

lemma sources_of_other:
  "nested_ok moves \<Longrightarrow> tp \<noteq> tp' \<Longrightarrow> sources_of current (nested_insert (tp_key tp') m moves) tp = sources_of current moves tp"
  by (simp add: sources_of_def nested.get_insert)

lemma add_proposed_outcome:
  assumes "nested_ok moves" and "distinct (map fst proposed)"
  shows "case add_proposed current proposed moves of
      Inl e \<Rightarrow> \<exists>tp \<in> fst ` set proposed. sources_of current moves tp = None
        \<and> e = ''Trying to reassign a topic partition '' @ show_tp tp @ '' with 0 replicas''
    | Inr moves' \<Rightarrow> nested_ok moves' \<and> (\<forall>tp. nested_get moves' (tp_key tp) =
        (case map_of proposed tp of
           None \<Rightarrow> nested_get moves (tp_key tp)
         | Some replicas \<Rightarrow> map_option (\<lambda>sources. move_to sources replicas) (sources_of current moves tp)))
        \<and> (\<forall>tp \<in> fst ` set proposed. sources_of current moves tp \<noteq> None)"
  using assms
proof (induction proposed arbitrary: moves)
  case (Cons e proposed)
  obtain tp replicas where e: "e = (tp, replicas)" by (cases e)
  show ?case
  proof (cases "sources_of current moves tp")
    case None
    then show ?thesis by (simp add: e add_proposed_Cons proposed_sources_eq del: add_proposed.simps)
  next
    case (Some sources)
    let ?m = "nested_insert (tp_key tp) (move_to sources replicas) moves"
    have ok: "nested_ok ?m" using Cons.prems(1) by (rule nested.ok_insert)
    have new: "tp \<notin> fst ` set proposed" and d: "distinct (map fst proposed)" using Cons.prems(2) by (auto simp: e)
    have src: "t \<in> fst ` set proposed \<Longrightarrow> sources_of current ?m t = sources_of current moves t" for t
      using new Cons.prems(1) by (intro sources_of_other) auto
    have step: "add_proposed current (e # proposed) moves = add_proposed current proposed ?m"
      by (simp add: e add_proposed_Cons proposed_sources_eq Some del: add_proposed.simps)
    have get: "nested_get ?m (tp_key t) = (if t = tp then Some (move_to sources replicas) else nested_get moves (tp_key t))" for t
      using Cons.prems(1) by (simp add: nested.get_insert)
    have srcp: "map_of proposed t = Some r \<Longrightarrow> sources_of current ?m t = sources_of current moves t" for t r
      by (rule src) (metis domI dom_map_of_conv_image_fst)
    have lookup: "(case map_of proposed t of None \<Rightarrow> nested_get ?m (tp_key t)
        | Some rs \<Rightarrow> map_option (\<lambda>sources. move_to sources rs) (sources_of current ?m t)) =
      (case map_of (e # proposed) t of None \<Rightarrow> nested_get moves (tp_key t)
        | Some rs \<Rightarrow> map_option (\<lambda>sources. move_to sources rs) (sources_of current moves t))" for t
    proof (cases "t = tp")
      case True
      then have "map_of proposed t = None" using new by (simp add: map_of_eq_None_iff)
      with True show ?thesis by (simp add: e get Some)
    next
      case False
      then show ?thesis by (cases "map_of proposed t") (simp_all add: e get srcp)
    qed
    have keys: "fst ` set (e # proposed) = insert tp (fst ` set proposed)" by (simp add: e)
    show ?thesis
    proof (cases "add_proposed current proposed ?m")
      case (Inl err)
      then show ?thesis using Cons.IH [OF ok d] src unfolding step keys by auto
    next
      case (Inr moves')
      then have "nested_ok moves'" "\<forall>t \<in> fst ` set proposed. sources_of current ?m t \<noteq> None"
          "\<forall>t. nested_get moves' (tp_key t) = (case map_of proposed t of None \<Rightarrow> nested_get ?m (tp_key t)
            | Some rs \<Rightarrow> map_option (\<lambda>sources. move_to sources rs) (sources_of current ?m t))"
        using Cons.IH [OF ok d] by simp_all
      then show ?thesis using Inr src Some unfolding step keys lookup by simp
    qed
  qed
qed simp

lemma active_move_disjoint: "set (pm_sources (active_move a)) \<inter> set (pm_destinations (active_move a)) = {}"
  by (auto simp: active_move_def Let_def)

lemma move_to_disjoint: "set (pm_sources (move_to s r)) \<inter> set (pm_destinations (move_to s r)) = {}"
  by (auto simp: move_to_def)

section \<open>The throttle configs\<close>

lemma foldl_concat_map: "foldl f a (concat (map g xs)) = foldl (\<lambda>a x. foldl f a (g x)) a xs"
  by (induction xs arbitrary: a) simp_all

text \<open>Writing the same configs for each key of a list.\<close>

definition write_all :: "('k::linorder \<Rightarrow> ((('k \<times> string) \<times> string) list)) \<Rightarrow> 'k list \<Rightarrow> ('k, configs) btmap \<Rightarrow> ('k, configs) btmap" where
  "write_all entries keys m = foldl (\<lambda>m e. nested_insert (fst e) (snd e) m) m (concat (map entries keys))"

lemma write_all_ok: "nested_ok m \<Longrightarrow> nested_ok (write_all entries keys m)"
  unfolding write_all_def by (rule nested.ok_fold)

lemma write_all_get:
  assumes "nested_ok m" and "\<And>k e. e \<in> set (entries k) \<Longrightarrow> g (fst e) = Some (snd e)"
  shows "nested_get (write_all entries keys m) kn =
    (if kn \<in> fst ` set (concat (map entries keys)) then g kn else nested_get m kn)"
proof -
  let ?xs = "concat (map entries keys)"
  have "map_of (rev ?xs) kn = (if kn \<in> fst ` set (rev ?xs) then g kn else None)"
    using assms(2) by (intro map_of_functional) fastforce
  then have m: "map_of (rev ?xs) kn = (if kn \<in> fst ` set ?xs then g kn else None)" by (simp only: set_rev)
  show ?thesis
  proof (cases "kn \<in> fst ` set ?xs")
    case True
    then obtain v where "g kn = Some v" using assms(2) by fastforce
    with True m show ?thesis by (simp only: write_all_def nested.get_fold [OF assms(1)] map_add_def if_True option.case)
  next
    case False
    with m show ?thesis by (simp only: write_all_def nested.get_fold [OF assms(1)] map_add_def if_False option.case)
  qed
qed

definition rate_entries :: "int \<Rightarrow> int \<Rightarrow> ((int \<times> string) \<times> string) list" where
  "rate_entries throttle broker = [((broker, LEADER_RATE), show_int throttle), ((broker, FOLLOWER_RATE), show_int throttle)]"

definition log_dir_entries :: "int \<Rightarrow> int \<Rightarrow> ((int \<times> string) \<times> string) list" where
  "log_dir_entries throttle broker = [((broker, LOG_DIR_RATE), show_int throttle)]"

lemma Throttles_brokers:
  "th_brokers (Throttles_new moves log_moves throttle log_dir_throttle) =
     (let rates = (if 0 \<le> throttle then write_all (rate_entries throttle) (move_brokers moves) [] else [])
      in if 0 \<le> log_dir_throttle
         then write_all (log_dir_entries log_dir_throttle) (map (rp_broker \<circ> fst) log_moves) rates else rates)"
  by (simp add: Throttles_new_def Let_def write_all_def rate_entries_def log_dir_entries_def
      foldl_concat_map foldl_map)

lemma config_names_distinct:
  "LEADER_RATE \<noteq> FOLLOWER_RATE" "LEADER_RATE \<noteq> LOG_DIR_RATE" "FOLLOWER_RATE \<noteq> LOG_DIR_RATE"
  "LEADER_REPLICAS \<noteq> FOLLOWER_REPLICAS"
  by (simp_all add: LEADER_RATE_def FOLLOWER_RATE_def LOG_DIR_RATE_def LEADER_REPLICAS_def FOLLOWER_REPLICAS_def)

lemma rates_get:
  "nested_get (write_all (rate_entries t) bs []) (b, n) =
     (if b \<in> set bs \<and> (n = LEADER_RATE \<or> n = FOLLOWER_RATE) then Some (show_int t) else None)"
proof -
  have "nested_get (write_all (rate_entries t) bs []) (b, n) =
      (if (b, n) \<in> fst ` set (concat (map (rate_entries t) bs)) then Some (show_int t) else nested_get [] (b, n))"
    by (rule write_all_get) (auto simp: rate_entries_def nested.ok_empty)
  then show ?thesis by (auto simp: rate_entries_def nested.get_empty image_iff)
qed

lemma log_dir_rates_get:
  assumes "nested_ok m"
  shows "nested_get (write_all (log_dir_entries t) bs m) (b, n) =
     (if b \<in> set bs \<and> n = LOG_DIR_RATE then Some (show_int t) else nested_get m (b, n))"
proof -
  have "nested_get (write_all (log_dir_entries t) bs m) (b, n) =
      (if (b, n) \<in> fst ` set (concat (map (log_dir_entries t) bs)) then Some (show_int t) else nested_get m (b, n))"
    using assms by (rule write_all_get) (auto simp: log_dir_entries_def)
  then show ?thesis by (auto simp: log_dir_entries_def image_iff)
qed

lemma set_move_brokers:
  assumes "nested_ok moves"
  shows "b \<in> set (move_brokers moves) \<longleftrightarrow>
    (\<exists>k m. nested_get moves k = Some m \<and> (b \<in> set (pm_sources m) \<or> b \<in> set (pm_destinations m)))"
proof -
  have "b \<in> set (move_brokers moves) \<longleftrightarrow>
      (\<exists>t inner p m. (t, inner) \<in> set moves \<and> (p, m) \<in> set inner \<and> (b \<in> set (pm_sources m) \<or> b \<in> set (pm_destinations m)))"
    by (force simp: move_brokers_def)
  moreover have "(t, inner) \<in> set moves \<Longrightarrow> (p, m) \<in> set inner \<Longrightarrow> nested_get moves (t, p) = Some m" for t inner p m
    using assms bt_ok_distinct [of moves] bt_ok_distinct [of inner]
    by (force simp: nested_ok_def nested_get_def nested_entry_def list_all_iff)
  moreover have "nested_get moves (t, p) = Some m \<Longrightarrow> \<exists>inner. (t, inner) \<in> set moves \<and> (p, m) \<in> set inner" for t p m
    by (auto simp: nested_get_def nested_entry_def split: option.splits dest!: map_of_SomeD)
  ultimately show ?thesis by (metis surj_pair)
qed

section \<open>Properties\<close>

text \<open>The move map of \<open>--execute\<close>: the active reassignments with their moves, and for each proposed
  partition a move from the sources of its active movement, or else from its current replicas,
  to the proposed replicas that are not sources. It fails exactly for a proposed partition that
  has neither.\<close>

theorem MoveMap_proposed_spec:
  assumes "bt_ok active" and "bt_ok proposed"
  shows "case MoveMap_proposed active proposed current of
      Inl e \<Rightarrow> \<exists>tp \<in> fst ` set proposed. map_of active tp = None \<and> map_of current tp = None
        \<and> e = ''Trying to reassign a topic partition '' @ show_tp tp @ '' with 0 replicas''
    | Inr moves \<Rightarrow> \<forall>tp. nested_get moves (tp_key tp) =
        (case (map_of proposed tp, map_of active tp, map_of current tp) of
           (None, a, _) \<Rightarrow> map_option active_move a
         | (Some replicas, Some a, _) \<Rightarrow> Some (move_to (pm_sources (active_move a)) replicas)
         | (Some replicas, None, Some cur) \<Rightarrow> Some (move_to (bs_of_list cur) replicas)
         | (Some replicas, None, None) \<Rightarrow> None)"
proof -
  have src: "sources_of current (active_moves active) tp =
      (case map_of active tp of Some a \<Rightarrow> Some (pm_sources (active_move a)) | None \<Rightarrow> map_option bs_of_list (map_of current tp))" for tp
    by (simp add: sources_of_def active_moves_get [OF assms(1)] split: option.split)
  show ?thesis
    using add_proposed_outcome [OF active_moves_ok bt_ok_distinct [OF assms(2)], of current active]
    unfolding MoveMap_proposed_def src active_moves_get [OF assms(1)]
    by (auto split: sum.splits option.splits)
qed

theorem MoveMap_proposed_spec_witness:
  "case MoveMap_proposed [] [(TopicPartition ''t'' 0, [2, 3])] [(TopicPartition ''t'' 0, [1, 2])] of
      Inl e \<Rightarrow> \<exists>tp \<in> fst ` set [(TopicPartition ''t'' 0, [2, 3 :: int])]. map_of ([] :: active_map) tp = None
        \<and> map_of [(TopicPartition ''t'' 0, [1, 2 :: int])] tp = None
        \<and> e = ''Trying to reassign a topic partition '' @ show_tp tp @ '' with 0 replicas''
    | Inr moves \<Rightarrow> \<forall>tp. nested_get moves (tp_key tp) =
        (case (map_of [(TopicPartition ''t'' 0, [2, 3])] tp, map_of ([] :: active_map) tp, map_of [(TopicPartition ''t'' 0, [1, 2])] tp) of
           (None, a, _) \<Rightarrow> map_option active_move a
         | (Some replicas, Some a, _) \<Rightarrow> Some (move_to (pm_sources (active_move a)) replicas)
         | (Some replicas, None, Some cur) \<Rightarrow> Some (move_to (bs_of_list cur) replicas)
         | (Some replicas, None, None) \<Rightarrow> None)"
  by (rule MoveMap_proposed_spec) simp_all

text \<open>The broker configs that \<open>--execute\<close> writes: exactly the brokers that are a source or a
  destination of a move get both replication rates, when the throttle is not negative, and
  exactly the brokers of a log dir move get the log dir rate, when that throttle is not negative.\<close>

theorem Throttles_broker_rates:
  assumes "nested_ok moves"
  shows "nested_get (th_brokers (Throttles_new moves log_moves throttle log_dir_throttle)) (b, n) =
    (if n = LOG_DIR_RATE \<and> 0 \<le> log_dir_throttle \<and> b \<in> rp_broker ` fst ` set log_moves then Some (show_int log_dir_throttle)
     else if (n = LEADER_RATE \<or> n = FOLLOWER_RATE) \<and> 0 \<le> throttle
       \<and> (\<exists>k m. nested_get moves k = Some m \<and> (b \<in> set (pm_sources m) \<or> b \<in> set (pm_destinations m)))
     then Some (show_int throttle) else None)"
proof -
  have ok: "nested_ok (if 0 \<le> throttle then write_all (rate_entries throttle) (move_brokers moves) [] else [])"
    by (simp add: write_all_ok nested.ok_empty)
  let ?moving = "\<exists>k m. nested_get moves k = Some m \<and> (b \<in> set (pm_sources m) \<or> b \<in> set (pm_destinations m))"
  have mem: "b \<in> set (move_brokers moves) \<longleftrightarrow> ?moving" by (rule set_move_brokers [OF assms])
  have rates: "nested_get (if 0 \<le> throttle then write_all (rate_entries throttle) (move_brokers moves) [] else []) (b, n) =
      (if (n = LEADER_RATE \<or> n = FOLLOWER_RATE) \<and> 0 \<le> throttle \<and> ?moving then Some (show_int throttle) else None)"
    unfolding mem [symmetric] by (cases "0 \<le> throttle") (auto simp: rates_get nested.get_empty)
  have "b \<in> set (map (rp_broker \<circ> fst) log_moves) \<longleftrightarrow> b \<in> rp_broker ` fst ` set log_moves" by auto
  then show ?thesis
    unfolding Throttles_brokers Let_def
    using log_dir_rates_get [OF ok, of log_dir_throttle "map (rp_broker \<circ> fst) log_moves" b n] rates
      config_names_distinct
    unfolding mem [symmetric] by (cases "0 \<le> log_dir_throttle") auto
qed

theorem Throttles_broker_rates_witness:
  "nested_get (th_brokers (Throttles_new [] [(Replica 4 ''t'' 0, ''/d'')] 5 9)) (4, LOG_DIR_RATE) = Some (show_int 9)"
  using Throttles_broker_rates [of "[]" "[(Replica 4 ''t'' 0, ''/d'')]" 5 9 4 LOG_DIR_RATE]
  by (simp add: nested.ok_empty)

text \<open>\<open>--generate\<close> uses exactly the listed brokers that the cluster has. Rack-aware, it accepts them
  when all or none have a rack; otherwise it ignores the racks and accepts every list.\<close>

theorem usable_brokers_spec:
  "(case usable_brokers nodes brokers rack_aware of
      Inl e \<Rightarrow> rack_aware \<and> (\<exists>m \<in> set nodes. node_id m \<in> set brokers \<and> node_rack m = None)
        \<and> (\<exists>m \<in> set nodes. node_id m \<in> set brokers \<and> node_rack m \<noteq> None)
    | Inr us \<Rightarrow> map ub_id us = filter (\<lambda>i. i \<in> set brokers) (map node_id nodes)
        \<and> list_all (\<lambda>u. \<not> ub_fenced u) us
        \<and> (if rack_aware then map ub_rack us = map node_rack (filter (\<lambda>m. node_id m \<in> set brokers) nodes)
             \<and> (list_all (\<lambda>u. ub_rack u = None) us \<or> list_all (\<lambda>u. ub_rack u \<noteq> None) us)
           else list_all (\<lambda>u. ub_rack u = None) us))"
proof -
  let ?l = "filter (\<lambda>m. node_id m \<in> set brokers) nodes"
  let ?u = "map (\<lambda>m. \<lparr>ub_id = node_id m, ub_rack = (if rack_aware then node_rack m else None), ub_fenced = False\<rparr>) ?l"
  let ?rackless = "length (filter (\<lambda>b. ub_rack b = None) ?u)"
  have zero: "?rackless = 0 \<longleftrightarrow> list_all (\<lambda>u. ub_rack u \<noteq> None) ?u"
    by (simp only: length_0_conv filter_empty_conv list_all_iff)
  have full: "?rackless = length ?u \<longleftrightarrow> list_all (\<lambda>u. ub_rack u = None) ?u"
    by (metis (no_types, lifting) filter_True length_filter_less list_all_iff nat_neq_iff)
  have ids: "map ub_id ?u = filter (\<lambda>i. i \<in> set brokers) (map node_id nodes)"
    by (simp add: filter_map o_def)
  show ?thesis
  proof (cases "rack_aware \<and> ?rackless \<noteq> 0 \<and> ?rackless \<noteq> length ?u")
    case True
    then have "usable_brokers nodes brokers rack_aware = Inl ''Not all brokers have rack information. Add --disable-rack-aware in command line to make replica assignment without rack information.''"
      unfolding usable_brokers_def Let_def by (intro if_P)
    moreover have "\<exists>m \<in> set nodes. node_id m \<in> set brokers \<and> node_rack m = None"
        "\<exists>m \<in> set nodes. node_id m \<in> set brokers \<and> node_rack m \<noteq> None"
      using True unfolding zero full by (auto simp: list_all_iff)
    ultimately show ?thesis using True by simp
  next
    case False
    then have "usable_brokers nodes brokers rack_aware = Inr ?u"
      unfolding usable_brokers_def Let_def by (intro if_not_P)
    moreover have "rack_aware \<Longrightarrow> list_all (\<lambda>u. ub_rack u = None) ?u \<or> list_all (\<lambda>u. ub_rack u \<noteq> None) ?u"
      using False unfolding zero full by blast
    ultimately show ?thesis using ids by (auto simp: list_all_iff)
  qed
qed

end
