(* ===== verification/Cli_Output.thy ===== *)
theory Cli_Output
  imports Kafka_Json Kafka_Errors
begin

text \<open>
  \<^verbatim>\<open>crates/krabka-cli/src/exit.rs\<close>, \<^verbatim>\<open>safety.rs\<close> and \<^verbatim>\<open>output.rs\<close>: the exit codes, the confirmation
  prompt, and the rendering of results and failures. A writer is the text written to it. The
  standard streams are taken to accept writes, except in \<open>confirm_with\<close>, whose result depends
  on a failed write or read: there both are arguments.
\<close>

section \<open>Exit codes\<close>

datatype Exit =
    Exit_Success
  | Exit_Failure
  | Exit_Usage
  | Exit_CannotExecute
  | Exit_NotFound
  | Exit_Signal int
  | Exit_Cancelled
  | Exit_Passthrough int

fun exit_code :: "Exit \<Rightarrow> int" where
  "exit_code Exit_Success = 0"
| "exit_code Exit_Failure = 1"
| "exit_code Exit_Usage = 2"
| "exit_code Exit_CannotExecute = 126"
| "exit_code Exit_NotFound = 127"
| "exit_code (Exit_Signal signal) = 128 + signal"
| "exit_code Exit_Cancelled = 130"
| "exit_code (Exit_Passthrough code) = code"

definition from_failed :: "bool \<Rightarrow> Exit" where
  "from_failed failed = (if failed then Exit_Failure else Exit_Success)"

section \<open>Confirmation\<close>

record ConfirmArgs =
  ca_dry_run :: bool
  ca_yes :: bool

record Impact =
  im_summary :: string
  im_resources :: "string list"

datatype Refusal = NonInteractive | Declined

fun refusal_exit :: "Refusal \<Rightarrow> Exit" where
  "refusal_exit NonInteractive = Exit_Usage"
| "refusal_exit Declined = Exit_Cancelled"

fun refusal_message :: "Refusal \<Rightarrow> string" where
  "refusal_message NonInteractive =
     ''refusing to prompt for confirmation on a non-interactive stdin; pass --yes to proceed''"
| "refusal_message Declined = ''not confirmed; nothing was changed''"

text \<open>The terminal of a prompt: whether stdin is one, whether the writes to stderr succeed, and the line
  read, \<^const>\<open>None\<close> for a failed read and empty at the end of the input.\<close>

record Terminal =
  tm_interactive :: bool
  tm_write_ok :: bool
  tm_line :: "string option"

definition newline :: string where "newline = [CHR 0x0A]"

definition prompt_text :: "string \<Rightarrow> Impact \<Rightarrow> string" where
  "prompt_text command impact =
     command @ '': this will '' @ im_summary impact @ '':'' @ newline @
     concat (map (\<lambda>resource. ''  '' @ resource @ newline) (im_resources impact)) @ ''Proceed? [y/N] ''"

definition affirmative :: "string \<Rightarrow> bool" where
  "affirmative answer \<longleftrightarrow> map ascii_lower (trim answer) \<in> {''y'', ''yes''}"

text \<open>The decision, and the prompt that is written.\<close>

definition confirm_with :: "bool \<Rightarrow> Terminal \<Rightarrow> string \<Rightarrow> Impact \<Rightarrow> (Refusal + unit) \<times> string" where
  "confirm_with yes terminal command impact =
     (if yes then (Inr (), [])
      else if \<not> tm_interactive terminal then (Inl NonInteractive, [])
      else
        let asked = (if tm_write_ok terminal then tm_line terminal else None)
        in (case asked of
              Some answer \<Rightarrow> if affirmative answer then Inr () else Inl Declined
            | None \<Rightarrow> Inl Declined, prompt_text command impact))"

definition confirm :: "bool \<Rightarrow> Terminal \<Rightarrow> string \<Rightarrow> Impact \<Rightarrow> Refusal + unit" where
  "confirm yes terminal command impact =
     (if yes then Inr () else fst (confirm_with yes terminal command impact))"

section \<open>Results\<close>

datatype OutputFormat = Human | Json
datatype LastLine = Newline | Bare

record CommandResult =
  cr_human :: "string list"
  cr_data :: json
  cr_failed :: bool
  cr_dry_run :: bool
  cr_notices :: "string list"
  cr_marker_on_stderr :: bool
  cr_last_line :: LastLine

definition DRY_RUN_MARKER :: string where "DRY_RUN_MARKER = ''DRY RUN: no change was made.''"

definition result_rows :: "string list \<Rightarrow> json \<Rightarrow> bool \<Rightarrow> CommandResult" where
  "result_rows human data failed =
     \<lparr>cr_human = human, cr_data = data, cr_failed = failed, cr_dry_run = False, cr_notices = [],
      cr_marker_on_stderr = False, cr_last_line = Newline\<rparr>"

definition result_success :: "string list \<Rightarrow> json \<Rightarrow> CommandResult" where
  "result_success human data = result_rows human data False"

definition without_final_newline :: "CommandResult \<Rightarrow> CommandResult" where
  "without_final_newline self = self\<lparr>cr_last_line := Bare\<rparr>"

definition with_notices :: "string list \<Rightarrow> CommandResult \<Rightarrow> CommandResult" where
  "with_notices notices self = self\<lparr>cr_notices := cr_notices self @ notices\<rparr>"

definition into_dry_run :: "CommandResult \<Rightarrow> CommandResult" where
  "into_dry_run self = self\<lparr>cr_dry_run := True\<rparr>"

definition into_kafka_dry_run :: "CommandResult \<Rightarrow> CommandResult" where
  "into_kafka_dry_run self = self\<lparr>cr_dry_run := True, cr_marker_on_stderr := True\<rparr>"

fun human_lines :: "LastLine \<Rightarrow> string list \<Rightarrow> string" where
  "human_lines ending [] = []"
| "human_lines ending [line] = (if ending = Bare then line else line @ newline)"
| "human_lines ending (line # l # lines) = line @ newline @ human_lines ending (l # lines)"

definition emit_human :: "CommandResult \<Rightarrow> string" where
  "emit_human self =
     (if cr_dry_run self \<and> \<not> cr_marker_on_stderr self then DRY_RUN_MARKER @ newline else []) @
     human_lines (cr_last_line self) (cr_human self)"

definition emit_notices :: "CommandResult \<Rightarrow> string list" where
  "emit_notices self =
     (if cr_dry_run self \<and> cr_marker_on_stderr self then [DRY_RUN_MARKER] else []) @ cr_notices self"

section \<open>Failures\<close>

text \<open>\<open>AdminError\<close> of the admin client: a refusal of the broker, a bootstrap that found no broker, a request
  that the broker has no version for, or any other failure; the last three with the text that
  they print as.\<close>

datatype AdminError =
    AdminBroker string int string "string option"
  | AdminConnect string
  | AdminIncompatibleVersion string
  | AdminOther string

datatype CommandError =
    ErrBroker string int string "string option"
  | ErrRefused Refusal
  | ErrUsage string
  | ErrOther string

fun error_exit :: "CommandError \<Rightarrow> Exit" where
  "error_exit (ErrRefused refusal) = refusal_exit refusal"
| "error_exit (ErrUsage _) = Exit_Usage"
| "error_exit (ErrBroker _ _ _ _) = Exit_Failure"
| "error_exit (ErrOther _) = Exit_Failure"

fun from_admin_error :: "AdminError \<Rightarrow> CommandError" where
  "from_admin_error (AdminBroker api code name message) =
     ErrBroker api code (if name = ''UNKNOWN'' then ex_name (for_code code) else name) message"
| "from_admin_error (AdminConnect text) = ErrOther text"
| "from_admin_error (AdminIncompatibleVersion text) = ErrOther text"
| "from_admin_error (AdminOther text) = ErrOther text"

text \<open>\<open>kafka_errors::admin_error\<close>: Kafka's name for a known code, and its message where there is none.\<close>

fun admin_error :: "AdminError \<Rightarrow> CommandError" where
  "admin_error (AdminBroker api code name message) =
     (let known = is_known code; exception = for_code code
      in ErrBroker api code (if known then ex_name exception else name)
           (case message of
              Some m \<Rightarrow> if m \<noteq> [] then Some m else if known then Some (ex_message exception) else None
            | None \<Rightarrow> if known then Some (ex_message exception) else None))"
| "admin_error other = from_admin_error other"

fun show_error :: "CommandError \<Rightarrow> string" where
  "show_error (ErrBroker api code name message) =
     api @ '' failed: '' @ name @ '' ('' @ show_int code @ '')'' @
     (case message of Some m \<Rightarrow> if m \<noteq> [] then '': '' @ m else [] | None \<Rightarrow> [])"
| "show_error (ErrRefused refusal) = refusal_message refusal"
| "show_error (ErrUsage message) = message"
| "show_error (ErrOther message) = message"

definition opt_json :: "string option \<Rightarrow> json" where
  "opt_json v = (case v of Some s \<Rightarrow> JString s | None \<Rightarrow> JNull)"

definition kafka_error :: "KafkaError option \<Rightarrow> json" where
  "kafka_error error =
     (case error of
        None \<Rightarrow> JNull
      | Some e \<Rightarrow> JObject [(''code'', JInt (ke_code e)), (''name'', JString (ke_name e)), (''message'', opt_json (ke_message e))])"

section \<open>Rendering\<close>

definition envelope :: "CommandResult \<Rightarrow> json" where
  "envelope value =
     JObject (bt_of_list ((''data'', cr_data value) # (if cr_dry_run value then [(''dry_run'', JBool True)] else [])))"

definition render_success :: "json_printer \<Rightarrow> CommandResult \<Rightarrow> OutputFormat \<Rightarrow> string" where
  "render_success to_str value format =
     (case format of Human \<Rightarrow> emit_human value | Json \<Rightarrow> to_str (envelope value) @ newline)"

definition error_envelope :: "string \<Rightarrow> Exit \<Rightarrow> json" where
  "error_envelope message code =
     JObject [(''error'', JObject [(''code'', JInt (exit_code code)), (''message'', JString message)])]"

definition render_error :: "json_printer \<Rightarrow> string \<Rightarrow> string \<Rightarrow> Exit \<Rightarrow> OutputFormat \<Rightarrow> string" where
  "render_error to_str command message code format =
     (case format of
        Human \<Rightarrow> command @ '': '' @ message @ newline
      | Json \<Rightarrow> to_str (error_envelope message code) @ newline)"

definition render_notices :: "CommandResult \<Rightarrow> OutputFormat \<Rightarrow> string" where
  "render_notices value format =
     (if format = Human then concat (map (\<lambda>notice. notice @ newline) (emit_notices value)) else [])"

text \<open>\<open>emit_success\<close>: the text of stdout and of stderr.\<close>

definition emit_success :: "json_printer \<Rightarrow> CommandResult \<Rightarrow> OutputFormat \<Rightarrow> string \<times> string" where
  "emit_success to_str value format = (render_success to_str value format, render_notices value format)"

section \<open>Properties\<close>

lemma human_lines_newline: "human_lines Newline lines = concat (map (\<lambda>l. l @ newline) lines)"
  by (induction Newline lines rule: human_lines.induct) simp_all

lemma human_lines_bare: "human_lines Bare lines = join_with newline lines"
  by (induction Bare lines rule: human_lines.induct) simp_all

text \<open>The prompt lets an operation proceed exactly under \<open>--yes\<close>, or on a terminal where the prompt could
  be written and the answer is \<open>y\<close> or \<open>yes\<close> in any case; the prompt is written only when it is
  asked, and the refusal tells the two reasons apart.\<close>

theorem confirm_with_spec:
  "(fst (confirm_with yes terminal command impact) = Inr () \<longleftrightarrow>
      yes \<or> tm_interactive terminal \<and> tm_write_ok terminal
        \<and> (\<exists>answer. tm_line terminal = Some answer \<and> affirmative answer))
   \<and> (fst (confirm_with yes terminal command impact) = Inl NonInteractive \<longleftrightarrow> \<not> yes \<and> \<not> tm_interactive terminal)
   \<and> snd (confirm_with yes terminal command impact) =
       (if \<not> yes \<and> tm_interactive terminal then prompt_text command impact else [])
   \<and> confirm yes terminal command impact = fst (confirm_with yes terminal command impact)"
  by (auto simp: confirm_with_def confirm_def Let_def split: option.splits)

text \<open>A dry run is marked once: under human output with a line of stdout before the report, or with a
  line of stderr before the notices when stdout must stay Kafka's; under JSON output with a
  field beside the data. A run that is not dry has none of the marks.\<close>

theorem dry_run_marked_once:
  "emit_success to_str r Human =
     ((if cr_dry_run r \<and> \<not> cr_marker_on_stderr r then DRY_RUN_MARKER @ newline else []) @
        (if cr_last_line r = Bare then join_with newline (cr_human r) else concat (map (\<lambda>l. l @ newline) (cr_human r))),
      (if cr_dry_run r \<and> cr_marker_on_stderr r then DRY_RUN_MARKER @ newline else []) @
        concat (map (\<lambda>l. l @ newline) (cr_notices r)))
   \<and> emit_success to_str r Json =
     (to_str (JObject ((''data'', cr_data r) # (if cr_dry_run r then [(''dry_run'', JBool True)] else []))) @ newline, [])"
proof -
  have "human_lines (cr_last_line r) (cr_human r) =
      (if cr_last_line r = Bare then join_with newline (cr_human r) else concat (map (\<lambda>l. l @ newline) (cr_human r)))"
    by (cases "cr_last_line r") (simp_all add: human_lines_newline human_lines_bare)
  then show ?thesis
    by (simp add: emit_success_def render_success_def render_notices_def emit_human_def emit_notices_def envelope_def
        bt_of_list_def)
qed

text \<open>A failure reports the number that the process exits with: under JSON output the code of the error
  envelope is the exit code, which is 0 for no failure, 2 for a refusal that the command line
  corrects and 130 for a declined prompt.\<close>

theorem error_code_is_exit_code:
  "render_error to_str command (show_error e) (error_exit e) Json =
     to_str (JObject [(''error'', JObject [(''code'', JInt (exit_code (error_exit e))), (''message'', JString (show_error e))])]) @ newline
   \<and> exit_code (error_exit e) =
     (case e of ErrRefused NonInteractive \<Rightarrow> 2 | ErrRefused Declined \<Rightarrow> 130 | ErrUsage _ \<Rightarrow> 2 | _ \<Rightarrow> 1)"
  by (cases e) (simp_all add: render_error_def error_envelope_def split: Refusal.split)

end
