(* ===== verification/Command_Monad.thy ===== *)
theory Command_Monad
  imports Cli_Output
begin

text \<open>
  The control flow of an asynchronous command: it talks to a client, whose state is of type
  \<^typ>\<open>'c\<close>, and ends with a value or a \<open>CommandError\<close>, which the \<open>?\<close> operator returns. \<^const>\<open>None\<close>
  is a panic or a loop that does not end.
\<close>

type_synonym ('c, 'a) cmd = "'c \<Rightarrow> ((CommandError + 'a) \<times> 'c) option"

definition cmd_ret :: "'a \<Rightarrow> ('c, 'a) cmd" where
  "cmd_ret x st = Some (Inr x, st)"

definition cmd_fail :: "CommandError \<Rightarrow> ('c, 'a) cmd" where
  "cmd_fail e st = Some (Inl e, st)"

definition cmd_bind :: "('c, 'a) cmd \<Rightarrow> ('a \<Rightarrow> ('c, 'b) cmd) \<Rightarrow> ('c, 'b) cmd" where
  "cmd_bind m f st =
     (case m st of
        None \<Rightarrow> None
      | Some (Inl e, st') \<Rightarrow> Some (Inl e, st')
      | Some (Inr x, st') \<Rightarrow> f x st')"

text \<open>The conversions of the \<open>?\<close> operator: a message, an error of the admin client, a refusal.\<close>

definition cmd_try :: "'a res \<Rightarrow> ('c, 'a) cmd" where
  "cmd_try r = (case r of Inl message \<Rightarrow> cmd_fail (ErrOther message) | Inr x \<Rightarrow> cmd_ret x)"

definition cmd_admin :: "('c \<Rightarrow> (AdminError + 'a) \<times> 'c) \<Rightarrow> ('c, 'a) cmd" where
  "cmd_admin call st = (case call st of (r, st') \<Rightarrow> Some (map_sum from_admin_error id r, st'))"

definition cmd_confirm :: "Refusal + unit \<Rightarrow> ('c, unit) cmd" where
  "cmd_confirm r = (case r of Inl refusal \<Rightarrow> cmd_fail (ErrRefused refusal) | Inr _ \<Rightarrow> cmd_ret ())"

text \<open>A call that always answers, with a result per row.\<close>

definition cmd_call :: "('c \<Rightarrow> 'a \<times> 'c) \<Rightarrow> ('c, 'a) cmd" where
  "cmd_call call st = (case call st of (r, st') \<Rightarrow> Some (Inr r, st'))"

text \<open>A result of the command's own error type, a call whose failure the code maps before \<open>?\<close>, and a call whose result is looked at.\<close>

definition cmd_res :: "CommandError + 'a \<Rightarrow> ('c, 'a) cmd" where
  "cmd_res r = (case r of Inl e \<Rightarrow> cmd_fail e | Inr x \<Rightarrow> cmd_ret x)"

definition cmd_admin_as :: "(AdminError \<Rightarrow> CommandError) \<Rightarrow> ('c \<Rightarrow> (AdminError + 'a) \<times> 'c) \<Rightarrow> ('c, 'a) cmd" where
  "cmd_admin_as f call st = (case call st of (r, st') \<Rightarrow> Some (map_sum f id r, st'))"

definition cmd_result :: "('c, 'a) cmd \<Rightarrow> ('c, CommandError + 'a) cmd" where
  "cmd_result m st = map_option (\<lambda>(r, st'). (Inr r, st')) (m st)"

text \<open>An index of a map, which panics where the key is absent.\<close>

definition cmd_index :: "'a option \<Rightarrow> ('c, 'a) cmd" where
  "cmd_index x st = (case x of None \<Rightarrow> None | Some v \<Rightarrow> Some (Inr v, st))"

definition cmd_when :: "bool \<Rightarrow> ('c, unit) cmd \<Rightarrow> ('c, unit) cmd" where
  "cmd_when b m = (if b then m else cmd_ret ())"

named_theorems cmd_simps \<open>running a command step by step\<close>

lemma cmd_bind_ret [cmd_simps]: "cmd_bind (cmd_ret x) f = f x"
  by (simp add: fun_eq_iff cmd_bind_def cmd_ret_def)

lemma cmd_bind_fail [cmd_simps]: "cmd_bind (cmd_fail e) f = cmd_fail e"
  by (simp add: fun_eq_iff cmd_bind_def cmd_fail_def)

lemma cmd_try_simps [cmd_simps]: "cmd_try (Inr x) = cmd_ret x" "cmd_try (Inl m) = cmd_fail (ErrOther m)"
  by (simp_all add: cmd_try_def)

lemma cmd_res_simps [cmd_simps]: "cmd_res (Inr x) = cmd_ret x" "cmd_res (Inl e) = cmd_fail e"
  by (simp_all add: cmd_res_def)

lemma cmd_bind_assoc: "cmd_bind (cmd_bind m f) g = cmd_bind m (\<lambda>x. cmd_bind (f x) g)"
  by (auto simp: fun_eq_iff cmd_bind_def split: option.splits sum.splits)

lemma cmd_when_simps [cmd_simps]: "cmd_when True m = m" "cmd_when False m = cmd_ret ()"
  by (simp_all add: cmd_when_def)

lemma cmd_bind_Inr_iff:
  "cmd_bind m f st = Some (Inr y, st'') \<longleftrightarrow> (\<exists>x st'. m st = Some (Inr x, st') \<and> f x st' = Some (Inr y, st''))"
  by (auto simp: cmd_bind_def split: option.splits sum.splits)

lemma cmd_ret_iff: "cmd_ret x st = Some (Inr y, st') \<longleftrightarrow> y = x \<and> st' = st"
  by (auto simp: cmd_ret_def)

lemma cmd_fail_not_Inr: "cmd_fail e st \<noteq> Some (Inr y, st')"
  by (simp add: cmd_fail_def)

lemma cmd_try_Inr_iff: "cmd_try r st = Some (Inr y, st') \<longleftrightarrow> r = Inr y \<and> st' = st"
  by (cases r) (auto simp: cmd_try_def cmd_ret_def cmd_fail_def)

lemma cmd_confirm_Inr_iff: "cmd_confirm r st = Some (Inr y, st') \<longleftrightarrow> r = Inr () \<and> st' = st"
  by (cases r) (auto simp: cmd_confirm_def cmd_ret_def cmd_fail_def)

lemma cmd_index_simps [cmd_simps]: "cmd_index (Some x) = cmd_ret x"
  by (simp add: fun_eq_iff cmd_index_def cmd_ret_def)

lemma cmd_index_Inr_iff: "cmd_index x st = Some (Inr y, st') \<longleftrightarrow> x = Some y \<and> st' = st"
  by (cases x) (auto simp: cmd_index_def)

lemma cmd_bind_None_iff: "cmd_bind m f st = None \<longleftrightarrow> m st = None \<or> (\<exists>x st'. m st = Some (Inr x, st') \<and> f x st' = None)"
  by (auto simp: cmd_bind_def split: option.splits sum.splits)

lemma cmd_not_None [simp]:
  "cmd_ret x st \<noteq> None" "cmd_fail e st \<noteq> None" "cmd_try r st \<noteq> None" "cmd_confirm c st \<noteq> None" "cmd_admin a st \<noteq> None"
  by (simp_all add: cmd_ret_def cmd_fail_def cmd_try_def cmd_confirm_def cmd_admin_def split: sum.splits prod.splits)

lemma cmd_bind_cong:
  "m = m' \<Longrightarrow> (\<And>x. f x = f' x) \<Longrightarrow> cmd_bind m f = cmd_bind m' f'"
  by (metis ext)

lemmas cmd_Inr_iff = cmd_bind_Inr_iff cmd_ret_iff cmd_fail_not_Inr cmd_try_Inr_iff cmd_confirm_Inr_iff cmd_index_Inr_iff

section \<open>What a step leaves alone\<close>

text \<open>A step keeps an observation of the client when no outcome of it changes what is observed.\<close>

definition keeps :: "('c \<Rightarrow> 'd) \<Rightarrow> ('c, 'a) cmd \<Rightarrow> bool" where
  "keeps f m \<longleftrightarrow> (\<forall>st r st'. m st = Some (r, st') \<longrightarrow> f st' = f st)"

definition call_keeps :: "('c \<Rightarrow> 'd) \<Rightarrow> ('c \<Rightarrow> 'a \<times> 'c) \<Rightarrow> bool" where
  "call_keeps f call \<longleftrightarrow> (\<forall>st. f (snd (call st)) = f st)"

named_theorems keeps_intros \<open>steps that keep an observation\<close>

lemma keepsD: "keeps f m \<Longrightarrow> m st = Some (r, st') \<Longrightarrow> f st' = f st"
  by (simp add: keeps_def)

lemma keeps_bind [keeps_intros]: "keeps f m \<Longrightarrow> (\<And>x. keeps f (g x)) \<Longrightarrow> keeps f (cmd_bind m g)"
  unfolding keeps_def cmd_bind_def by (force split: option.splits sum.splits)

lemma keeps_basic [keeps_intros]:
  "keeps f (cmd_ret x)" "keeps f (cmd_fail e)" "keeps f (cmd_try r)" "keeps f (cmd_confirm c)" "keeps f (cmd_index v)"
  by (auto simp: keeps_def cmd_ret_def cmd_fail_def cmd_try_def cmd_confirm_def cmd_index_def split: sum.splits option.splits)

lemma keeps_call [keeps_intros]: "call_keeps f call \<Longrightarrow> keeps f (cmd_call call)"
  by (simp add: keeps_def call_keeps_def cmd_call_def case_prod_unfold)

lemma keeps_admin [keeps_intros]: "call_keeps f call \<Longrightarrow> keeps f (cmd_admin call)"
  by (simp add: keeps_def call_keeps_def cmd_admin_def case_prod_unfold)

lemma keeps_if [keeps_intros]: "(b \<Longrightarrow> keeps f m) \<Longrightarrow> (\<not> b \<Longrightarrow> keeps f n) \<Longrightarrow> keeps f (if b then m else n)"
  by simp

lemma keeps_option [keeps_intros]:
  "keeps f m \<Longrightarrow> (\<And>x. keeps f (g x)) \<Longrightarrow> keeps f (case v of None \<Rightarrow> m | Some x \<Rightarrow> g x)"
  by (cases v) simp_all

lemma keeps_sum [keeps_intros]:
  "(\<And>x. keeps f (g x)) \<Longrightarrow> (\<And>y. keeps f (h y)) \<Longrightarrow> keeps f (case v of Inl x \<Rightarrow> g x | Inr y \<Rightarrow> h y)"
  by (cases v) simp_all

lemma keeps_prod [keeps_intros]: "(\<And>x y. keeps f (g x y)) \<Longrightarrow> keeps f (case v of (x, y) \<Rightarrow> g x y)"
  by (cases v) simp

lemma keeps_Let [keeps_intros]: "(\<And>x. keeps f (g x)) \<Longrightarrow> keeps f (let x = v in g x)"
  by simp

end
