(* ===== verification/Reassign_Command.thy ===== *)
theory Reassign_Command
  imports Reassign_Plan Command_Monad
begin

text \<open>
  \<^verbatim>\<open>crates/krabka-cli/src/reassign_partitions.rs\<close>, and \<open>cluster_nodes\<close> of \<^verbatim>\<open>cluster.rs\<close>: the validation of
  the command line and the actions of \<open>kafka-reassign-partitions\<close>. The admin client, the clock,
  the terminal and the JSON library are the record \<open>Env\<close>: each client operation maps its
  arguments and the client's state to its answer and the new state. A request that the client
  takes as a map is the list of its entries; the order of the client's map is the client's.
\<close>

section \<open>The environment\<close>

datatype ConfigResource = TopicResource string | BrokerResource int

datatype AlterConfigOp = SetOp string string | DeleteOp string

record Outcome =
  oc_topic :: string
  oc_partition :: int
  oc_error :: "KafkaError option"

record 'c Env =
  env_list_reassignments :: "(string, int list) btmap \<Rightarrow> nat \<Rightarrow> 'c \<Rightarrow> (AdminError + PartitionAssignment list) \<times> 'c"
  env_describe_assignments :: "string list \<Rightarrow> 'c \<Rightarrow> (AdminError + PartitionAssignment list) \<times> 'c"
  env_describe_cluster :: "bool \<Rightarrow> 'c \<Rightarrow> (AdminError + ClusterNode list) \<times> 'c"
  env_describe_replica_log_dirs :: "Replica list \<Rightarrow> 'c \<Rightarrow> (Replica \<times> (KafkaError + ReplicaLogDirInfo)) list \<times> 'c"
  env_alter_configs :: "(ConfigResource \<times> AlterConfigOp list) list \<Rightarrow> 'c \<Rightarrow> (AdminError + (ConfigResource \<times> (KafkaError + unit)) list) \<times> 'c"
  env_alter_replica_log_dirs :: "(Replica \<times> string) list \<Rightarrow> 'c \<Rightarrow> (Replica \<times> (KafkaError + unit)) list \<times> 'c"
  env_alter_assignments :: "((string \<times> int) \<times> int list option) list \<Rightarrow> nat \<Rightarrow> bool \<Rightarrow> 'c \<Rightarrow> (AdminError + Outcome list) \<times> 'c"
  env_default_allow_change :: bool
  env_reconcile :: "string \<Rightarrow> int \<Rightarrow> nat \<Rightarrow> 'c \<Rightarrow> (AdminError + string) \<times> 'c"
  env_expired :: "nat \<Rightarrow> bool"
  env_terminal :: Terminal
  env_from_str :: json_parser
  env_to_str :: json_printer
  env_seed :: "64 word"

text \<open>\<open>env_default_allow_change\<close> is the client's default of the option \<open>allow_replication_factor_change\<close>, which
  \<open>--cancel\<close> sends. \<open>env_expired n\<close>: whether the timeout has passed after attempt \<open>n\<close> to start the log dir moves.\<close>

section \<open>The command line\<close>

record ReassignArgs =
  ra_bootstrap_server :: "string list"
  ra_bootstrap_controller :: "string list"
  ra_generate :: bool
  ra_execute :: bool
  ra_verify :: bool
  ra_cancel :: bool
  ra_list :: bool
  ra_reassignment_json_file :: "string option"
  ra_topics_to_move_json_file :: "string option"
  ra_broker_list :: "string option"
  ra_disable_rack_aware :: bool
  ra_throttle :: "int option"
  ra_log_dirs_throttle :: "int option"
  ra_additional :: bool
  ra_preserve_throttles :: bool
  ra_disallow_rf_change :: bool
  ra_topic :: "string option"
  ra_replication_factor :: "int option"
  ra_confirm :: ConfirmArgs

datatype Action =
    Act_Generate string string bool
  | Act_Execute string bool int int bool
  | Act_Verify string bool
  | Act_Cancel string bool
  | Act_List
  | Act_ReplicationFactor string int bool

definition permitted_options :: "string \<Rightarrow> bool \<Rightarrow> string list" where
  "permitted_options action bootstrap_server =
     (let bootstrap = (if bootstrap_server then ''bootstrap-server'' else ''bootstrap-controller'')
      in if action = ''verify'' then [''bootstrap-server'', ''reassignment-json-file'', ''preserve-throttles'']
         else if action = ''generate''
           then [''bootstrap-server'', ''topics-to-move-json-file'', ''broker-list'', ''disable-rack-aware'']
         else if action = ''execute''
           then [''reassignment-json-file'', ''additional'', ''bootstrap-server'', ''throttle'',
                 ''replica-alter-log-dirs-throttle'', ''disallow-replication-factor-change'']
         else if action = ''cancel'' then [bootstrap, ''reassignment-json-file'', ''preserve-throttles'']
         else [bootstrap])"

definition given_options :: "ReassignArgs \<Rightarrow> (string \<times> bool) list" where
  "given_options self =
     [(''bootstrap-server'', ra_bootstrap_server self \<noteq> []),
      (''bootstrap-controller'', ra_bootstrap_controller self \<noteq> []),
      (''reassignment-json-file'', ra_reassignment_json_file self \<noteq> None),
      (''topics-to-move-json-file'', ra_topics_to_move_json_file self \<noteq> None),
      (''broker-list'', ra_broker_list self \<noteq> None),
      (''disable-rack-aware'', ra_disable_rack_aware self),
      (''throttle'', ra_throttle self \<noteq> None),
      (''replica-alter-log-dirs-throttle'', ra_log_dirs_throttle self \<noteq> None),
      (''additional'', ra_additional self),
      (''preserve-throttles'', ra_preserve_throttles self),
      (''disallow-replication-factor-change'', ra_disallow_rf_change self)]"

definition required_options :: "ReassignArgs \<Rightarrow> string \<Rightarrow> (string \<times> bool) list" where
  "required_options self action =
     (if action = ''generate''
      then [(''topics-to-move-json-file'', ra_topics_to_move_json_file self \<noteq> None),
            (''broker-list'', ra_broker_list self \<noteq> None)]
      else if action = ''list'' then []
      else [(''reassignment-json-file'', ra_reassignment_json_file self \<noteq> None)])"

definition chosen_actions :: "ReassignArgs \<Rightarrow> string list" where
  "chosen_actions self =
     map fst (filter snd [(''generate'', ra_generate self), (''execute'', ra_execute self), (''verify'', ra_verify self),
       (''cancel'', ra_cancel self), (''list'', ra_list self)])"

definition ONLY_WITH_CHANGES :: string where
  "ONLY_WITH_CHANGES = ''--dry-run and --yes are only valid with --execute or --cancel''"

definition validate_replication_factor :: "ReassignArgs \<Rightarrow> string \<Rightarrow> Action res" where
  "validate_replication_factor self action =
     (case (ra_topic self, ra_replication_factor self) of
        (Some topic, Some replication_factor) \<Rightarrow>
          (let others = ra_reassignment_json_file self \<noteq> None \<or> ra_topics_to_move_json_file self \<noteq> None
                 \<or> ra_broker_list self \<noteq> None \<or> ra_disable_rack_aware self \<or> ra_throttle self \<noteq> None
                 \<or> ra_log_dirs_throttle self \<noteq> None \<or> ra_additional self \<or> ra_preserve_throttles self
                 \<or> ra_disallow_rf_change self \<or> ra_bootstrap_controller self \<noteq> []
           in if \<not> (action = ''execute'' \<or> action = ''verify'') \<or> others
              then Inl ''--topic and --replication-factor take only --execute or --verify and the broker connection flags''
              else if action = ''verify'' \<and> (ca_dry_run (ra_confirm self) \<or> ca_yes (ra_confirm self))
              then Inl ONLY_WITH_CHANGES
              else Inr (Act_ReplicationFactor topic replication_factor (action = ''execute'')))
      | _ \<Rightarrow> Inl ''--topic and --replication-factor must be given together'')"

definition action_of :: "ReassignArgs \<Rightarrow> string \<Rightarrow> Action" where
  "action_of self action =
     (let or_empty = (\<lambda>v. case v of Some s \<Rightarrow> s | None \<Rightarrow> []);
          or_minus = (\<lambda>v. case v of Some n \<Rightarrow> n | None \<Rightarrow> - 1);
          file = or_empty (ra_reassignment_json_file self)
      in if action = ''generate''
         then Act_Generate (or_empty (ra_topics_to_move_json_file self)) (or_empty (ra_broker_list self))
                (\<not> ra_disable_rack_aware self)
         else if action = ''execute''
         then Act_Execute file (ra_additional self) (or_minus (ra_throttle self)) (or_minus (ra_log_dirs_throttle self))
                (ra_disallow_rf_change self)
         else if action = ''verify'' then Act_Verify file (ra_preserve_throttles self)
         else if action = ''cancel'' then Act_Cancel file (ra_preserve_throttles self)
         else Act_List)"

definition validate :: "ReassignArgs \<Rightarrow> Action res" where
  "validate self =
     (case chosen_actions self of
        [action] \<Rightarrow>
          (let server = ra_bootstrap_server self \<noteq> []; controller = ra_bootstrap_controller self \<noteq> []
           in if server \<and> controller
              then Inl ''Please don't specify both --bootstrap-server and --bootstrap-controller''
              else if \<not> server \<and> \<not> controller
              then Inl ''Please specify either --bootstrap-server or --bootstrap-controller''
              else if ra_topic self \<noteq> None \<or> ra_replication_factor self \<noteq> None
              then validate_replication_factor self action
              else
                case List.find (\<lambda>(_, present). \<not> present) (required_options self action) of
                  Some (name, _) \<Rightarrow> Inl (''Missing required argument \"['' @ name @ '']\"'')
                | None \<Rightarrow>
                    case List.find (\<lambda>(name, present). present \<and> name \<notin> set (permitted_options action server)) (given_options self) of
                      Some (name, _) \<Rightarrow> Inl (''Option \"['' @ name @ '']\" can't be used with action \"['' @ action @ '']\"'')
                    | None \<Rightarrow>
                        if (ca_dry_run (ra_confirm self) \<or> ca_yes (ra_confirm self)) \<and> action \<notin> {''execute'', ''cancel''}
                        then Inl ONLY_WITH_CHANGES
                        else Inr (action_of self action))
      | _ \<Rightarrow> Inl ''Command must include exactly one action: --generate, --execute, --verify, --cancel, --list'')"

section \<open>Reads\<close>

fun put_node :: "ClusterNode \<Rightarrow> ClusterNode list \<Rightarrow> ClusterNode list" where
  "put_node node [] = [node]"
| "put_node node (known # nodes) =
     (if node_id known = node_id node then node # nodes else known # put_node node nodes)"

definition node_order :: "ClusterNode list \<Rightarrow> ClusterNode list" where
  "node_order nodes =
     hash_order (foldl (\<lambda>unique node. put_node node unique) [] nodes) Default (\<lambda>node. integer_hash (node_id node))"

definition cluster_nodes :: "'c Env \<Rightarrow> bool \<Rightarrow> ('c, ClusterNode list) cmd" where
  "cluster_nodes env include_fenced =
     cmd_bind (cmd_admin (env_describe_cluster env include_fenced)) (\<lambda>nodes. cmd_ret (node_order nodes))"

definition active_reassignments :: "'c Env \<Rightarrow> (string, int list) btmap \<Rightarrow> nat \<Rightarrow> ('c, active_map) cmd" where
  "active_reassignments env filt timeout =
     cmd_bind (cmd_admin (env_list_reassignments env filt timeout)) (\<lambda>assignments.
     cmd_ret (bt_of_list (map (\<lambda>a. (TopicPartition (pa_topic a) (pa_partition a), a)) assignments)))"

definition topic_replicas :: "'c Env \<Rightarrow> string list \<Rightarrow> ('c, replica_map) cmd" where
  "topic_replicas env topics =
     (if topics = [] then cmd_ret []
      else
        cmd_bind (cmd_admin (env_describe_assignments env topics)) (\<lambda>assignments.
        cmd_ret (bt_of_list (map (\<lambda>a. (TopicPartition (pa_topic a) (pa_partition a), pa_replicas a))
          (filter (\<lambda>a. pa_topic a \<in> set topics) assignments)))))"

definition missing_topic :: "string list \<Rightarrow> replica_map \<Rightarrow> unit res" where
  "missing_topic topics found =
     (case List.find (\<lambda>topic. \<not> list_ex (\<lambda>(p, _). tp_topic p = topic) found) topics of
        Some topic \<Rightarrow> Inl (''org.apache.kafka.common.errors.UnknownTopicOrPartitionException: Topic '' @ topic @ '' not found.'')
      | None \<Rightarrow> Inr ())"

definition missing_partitions :: "TopicPartition list \<Rightarrow> replica_map \<Rightarrow> unit res" where
  "missing_partitions partitions found =
     (let missing = filter (\<lambda>p. map_of found p = None) partitions
      in if missing = [] then Inr ()
         else Inl (''org.apache.kafka.common.errors.UnknownTopicOrPartitionException: Unable to find partition: '' @
                   join_tp '', '' (hash_set_order missing java_hash)))"

definition partition_replicas :: "'c Env \<Rightarrow> TopicPartition list \<Rightarrow> ('c, replica_map) cmd" where
  "partition_replicas env partitions =
     (let topics = bs_of_list (map tp_topic partitions)
      in cmd_bind (topic_replicas env topics) (\<lambda>everything.
         cmd_bind (cmd_try (missing_topic topics everything)) (\<lambda>_.
         cmd_bind (cmd_try (missing_partitions partitions everything)) (\<lambda>_.
         cmd_ret (filter (\<lambda>(p, _). p \<in> set partitions) everything)))))"

definition future_error :: "KafkaError \<Rightarrow> CommandError" where
  "future_error error = ErrOther (java_exception error)"

fun collect_log_dirs :: "(Replica \<times> (KafkaError + ReplicaLogDirInfo)) list \<Rightarrow> (Replica, string) btmap \<Rightarrow> CommandError + (Replica, string) btmap" where
  "collect_log_dirs [] log_dirs = Inr log_dirs"
| "collect_log_dirs ((replica, result) # rs) log_dirs =
     (case result of
        Inl error \<Rightarrow> Inl (future_error error)
      | Inr info \<Rightarrow> collect_log_dirs rs
          (case ld_current info of Some path \<Rightarrow> bt_insert replica path log_dirs | None \<Rightarrow> log_dirs))"

definition cmd_result :: "CommandError + 'a \<Rightarrow> ('c, 'a) cmd" where
  "cmd_result r = (case r of Inl e \<Rightarrow> cmd_fail e | Inr x \<Rightarrow> cmd_ret x)"

definition replica_log_dirs :: "'c Env \<Rightarrow> replica_map \<Rightarrow> ClusterNode list \<Rightarrow> ('c, (Replica, string) btmap) cmd" where
  "replica_log_dirs env current nodes =
     (let replicas = concat (map (\<lambda>(p, brokers).
            map (\<lambda>broker. Replica broker (tp_topic p) (tp_partition p))
              (filter (\<lambda>broker. list_ex (\<lambda>node. node_id node = broker) nodes) brokers)) current)
      in if replicas = [] then cmd_ret []
         else
           cmd_bind (cmd_call (env_describe_replica_log_dirs env replicas)) (\<lambda>infos.
           cmd_result (collect_log_dirs infos [])))"

text \<open>\<open>targets[&replica]\<close> panics for a replica that was not asked for.\<close>

fun collect_move_states ::
    "(Replica, string) btmap \<Rightarrow> (Replica \<times> (KafkaError + ReplicaLogDirInfo)) list \<Rightarrow> (Replica, MoveState) btmap
       \<Rightarrow> (CommandError + (Replica, MoveState) btmap) option" where
  "collect_move_states tgts [] states = Some (Inr states)"
| "collect_move_states tgts ((replica, info) # rs) states =
     (case info of
        Inl error \<Rightarrow> Some (Inl (future_error error))
      | Inr i \<Rightarrow> Option.bind (map_of tgts replica) (\<lambda>target.
          collect_move_states tgts rs (bt_insert replica (MoveState_new i target) states)))"

definition move_states :: "'c Env \<Rightarrow> (Replica, string) btmap \<Rightarrow> ('c, (Replica, MoveState) btmap) cmd" where
  "move_states env tgts =
     (if tgts = [] then cmd_ret []
      else
        cmd_bind (cmd_call (env_describe_replica_log_dirs env (map fst tgts))) (\<lambda>infos st.
        map_option (\<lambda>r. (r, st)) (collect_move_states tgts infos [])))"

section \<open>Writes\<close>

definition alter_configs :: "'c Env \<Rightarrow> (ConfigResource \<times> AlterConfigOp list) list \<Rightarrow> ('c, unit) cmd" where
  "alter_configs env configs =
     (if configs = [] then cmd_ret ()
      else
        cmd_bind (cmd_admin (env_alter_configs env configs)) (\<lambda>results.
        case List.map_filter (\<lambda>(_, r). case r of Inl e \<Rightarrow> Some e | Inr _ \<Rightarrow> None) results of
          error # _ \<Rightarrow> cmd_fail (future_error error)
        | [] \<Rightarrow> cmd_ret ()))"

definition set_ops :: "configs \<Rightarrow> string list \<Rightarrow> AlterConfigOp list" where
  "set_ops configs order = List.map_filter (\<lambda>name. map_option (SetOp name) (map_of configs name)) order"

definition BROKER_LEVEL_THROTTLES :: "string list" where
  "BROKER_LEVEL_THROTTLES = [LEADER_RATE, FOLLOWER_RATE, LOG_DIR_RATE]"

definition TOPIC_LEVEL_THROTTLES :: "string list" where
  "TOPIC_LEVEL_THROTTLES = [LEADER_REPLICAS, FOLLOWER_REPLICAS]"

definition REPLICA_NOT_AVAILABLE :: int where "REPLICA_NOT_AVAILABLE = 9"

definition topic_throttle_requests :: "Throttles \<Rightarrow> (ConfigResource \<times> AlterConfigOp list) list" where
  "topic_throttle_requests ths =
     filter (\<lambda>(_, ops). ops \<noteq> [])
       (map (\<lambda>(topic, configs). (TopicResource topic, set_ops configs TOPIC_LEVEL_THROTTLES)) (th_topics ths))"

definition broker_throttle_requests :: "string list \<Rightarrow> Throttles \<Rightarrow> (ConfigResource \<times> AlterConfigOp list) list" where
  "broker_throttle_requests keys ths =
     map (\<lambda>(broker, configs). (BrokerResource broker, set_ops configs keys)) (broker_configs keys ths)"

text \<open>\<open>write_throttles\<close> returns the lines that it adds to the report.\<close>

definition write_throttles :: "'c Env \<Rightarrow> Throttles \<Rightarrow> ('c, string list) cmd" where
  "write_throttles env ths =
     cmd_bind (case inter_broker_line ths of
         None \<Rightarrow> cmd_ret []
       | Some line \<Rightarrow>
           cmd_bind (alter_configs env (topic_throttle_requests ths)) (\<lambda>_.
           cmd_bind (alter_configs env (broker_throttle_requests [LEADER_RATE, FOLLOWER_RATE] ths)) (\<lambda>_.
           cmd_ret [line]))) (\<lambda>lines.
     case log_dir_line ths of
       None \<Rightarrow> cmd_ret lines
     | Some line \<Rightarrow>
         cmd_bind (alter_configs env (broker_throttle_requests [LOG_DIR_RATE] ths)) (\<lambda>_.
         cmd_ret (lines @ [line])))"

definition clear_all_throttles :: "'c Env \<Rightarrow> (TopicPartition \<times> int list) list \<Rightarrow> bool \<Rightarrow> ('c, string list) cmd" where
  "clear_all_throttles env tgts dry_run =
     cmd_bind (cluster_nodes env False) (\<lambda>nodes.
     let brokers = hash_set_order (map node_id nodes @ concat (map snd tgts)) integer_hash;
         topics = hash_set_order (map (tp_topic \<circ> fst) tgts) string_hash
     in cmd_bind (cmd_when (\<not> dry_run) (alter_configs env
             (map (\<lambda>broker. (BrokerResource broker, map DeleteOp BROKER_LEVEL_THROTTLES)) brokers))) (\<lambda>_.
        cmd_bind (cmd_when (\<not> dry_run) (alter_configs env
             (map (\<lambda>topic. (TopicResource topic, map DeleteOp TOPIC_LEVEL_THROTTLES)) topics))) (\<lambda>_.
        cmd_ret [clearing_line ''broker'' ''broker'' (map show_int brokers), clearing_line ''topic'' ''topic'' topics])))"

text \<open>The answers to one attempt: the moves that started, or the first replica that failed. An answer for a
  replica that is not pending panics.\<close>

fun started_moves ::
    "(Replica, string) btmap \<Rightarrow> (Replica \<times> (KafkaError + unit)) list \<Rightarrow> (Replica, string) btmap
       \<Rightarrow> (Replica + (Replica, string) btmap) option" where
  "started_moves pending [] started = Some (Inr started)"
| "started_moves pending ((replica, result) # rs) started =
     (case result of
        Inr _ \<Rightarrow> Option.bind (map_of pending replica) (\<lambda>path. started_moves pending rs (bt_insert replica path started))
      | Inl error \<Rightarrow> if ke_code error = REPLICA_NOT_AVAILABLE then started_moves pending rs started else Some (Inl replica))"

definition timed_out_line :: "(Replica, string) btmap \<Rightarrow> string" where
  "timed_out_line pending =
     ''Timed out before log directory move'' @ (if length pending = 1 then [] else ''s'') @
     '' could be started for: '' @ join_with '','' (map (show_replica \<circ> fst) pending)"

partial_function (option) execute_moves_from ::
    "'c Env \<Rightarrow> nat \<Rightarrow> (Replica, string) btmap \<Rightarrow> string list \<Rightarrow> 'c \<Rightarrow> ((string list \<times> bool) \<times> 'c) option" where
  "execute_moves_from env attempt pending lines st =
     (case env_alter_replica_log_dirs env pending st of (results, st) \<Rightarrow>
      case started_moves pending results [] of
        None \<Rightarrow> None
      | Some (Inl replica) \<Rightarrow> Some ((lines @ [''Error: Failed to alter dir for '' @ show_replica replica], True), st)
      | Some (Inr started) \<Rightarrow>
          let lines = lines @ move_lines started;
              pending = filter (\<lambda>(r, _). r \<notin> fst ` set started) pending
          in if pending = [] then Some ((lines, False), st)
             else if env_expired env attempt then Some ((lines @ [timed_out_line pending], True), st)
             else execute_moves_from env (Suc attempt) pending lines st)"

definition execute_moves :: "'c Env \<Rightarrow> (Replica, string) btmap \<Rightarrow> ('c, string list \<times> bool) cmd" where
  "execute_moves env moves st =
     map_option (\<lambda>(r, st). (Inr r, st)) (execute_moves_from env 0 moves [] st)"

definition UNSUPPORTED_VERSION :: int where "UNSUPPORTED_VERSION = 35"

definition ALLOW_REPLICATION_FACTOR_CHANGE_UNSUPPORTED :: string where
  "ALLOW_REPLICATION_FACTOR_CHANGE_UNSUPPORTED =
     ''The broker does not support the AllowReplicationFactorChange option for the AlterPartitionReassignments API. Consider re-sending the request without the option or updating the server version''"

definition alter_reassignments ::
    "'c Env \<Rightarrow> ((string \<times> int) \<times> int list option) list \<Rightarrow> nat \<Rightarrow> bool \<Rightarrow> ('c, (TopicPartition, KafkaError) btmap) cmd" where
  "alter_reassignments env request timeout allow_change st =
     (case env_alter_assignments env request timeout allow_change st of (r, st) \<Rightarrow>
      case r of
        Inr outcomes \<Rightarrow> Some (Inr (bt_of_list (List.map_filter (\<lambda>oc.
            map_option (\<lambda>e. (TopicPartition (oc_topic oc) (oc_partition oc), e)) (oc_error oc)) outcomes)), st)
      | Inl error \<Rightarrow>
          (case error of
             AdminIncompatibleVersion text \<Rightarrow>
               if \<not> allow_change
               then Some (Inr (bt_of_list (map (\<lambda>((topic, p), _). (TopicPartition topic p,
                      \<lparr>ke_code = UNSUPPORTED_VERSION, ke_name = ''UNSUPPORTED_VERSION'',
                       ke_message = Some ALLOW_REPLICATION_FACTOR_CHANGE_UNSUPPORTED\<rparr>)) request)), st)
               else Some (Inl (from_admin_error error), st)
           | _ \<Rightarrow> Some (Inl (from_admin_error error), st)))"

section \<open>Actions\<close>

definition assignment_json :: "PartitionAssignment \<Rightarrow> json" where
  "assignment_json a = JObject [(''topic'', JString (pa_topic a)), (''partition'', JInt (pa_partition a)),
     (''replicas'', JArray (map JInt (pa_replicas a))), (''adding_replicas'', JArray (map JInt (pa_adding a))),
     (''removing_replicas'', JArray (map JInt (pa_removing a)))]"

definition list_action :: "'c Env \<Rightarrow> nat \<Rightarrow> ('c, CommandResult) cmd" where
  "list_action env timeout =
     cmd_bind (active_reassignments env [] timeout) (\<lambda>active.
     cmd_ret (result_success (list_lines active) (JArray (map (assignment_json \<circ> snd) active))))"

definition parse_or_null :: "'c Env \<Rightarrow> string \<Rightarrow> json" where
  "parse_or_null env text = (case env_from_str env text of Inr v \<Rightarrow> v | Inl _ \<Rightarrow> JNull)"

text \<open>\<open>propose(&mut Lcg48::from_time(), ..)\<close>.\<close>

definition cmd_propose :: "'c Env \<Rightarrow> assignment \<Rightarrow> UsableBroker list \<Rightarrow> ('c, assignment) cmd" where
  "cmd_propose env current usable st =
     map_option (\<lambda>(r, _). (map_sum ErrOther id r, st))
       (propose Lcg48_next (Lcg48_new (env_seed env)) current usable)"

definition generate :: "'c Env \<Rightarrow> string \<Rightarrow> string \<Rightarrow> bool \<Rightarrow> ('c, CommandResult) cmd" where
  "generate env topics_json broker_list rack_aware =
     cmd_bind (cmd_try (parse_generate (env_from_str env) (env_to_str env) topics_json broker_list)) (\<lambda>(brokers, topics).
     let topics = bs_of_list topics in
     cmd_bind (topic_replicas env topics) (\<lambda>current.
     cmd_bind (cmd_try (missing_topic topics current)) (\<lambda>_.
     cmd_bind (cluster_nodes env False) (\<lambda>nodes.
     cmd_bind (replica_log_dirs env current nodes) (\<lambda>current_log_dirs.
     cmd_bind (cmd_try (usable_brokers nodes brokers rack_aware)) (\<lambda>usable.
     cmd_bind (cmd_propose env (bt_of_list (map (\<lambda>(p, replicas). (tp_key p, replicas)) current)) usable) (\<lambda>proposed.
     let proposed = bt_of_list (map (\<lambda>((topic, p), replicas). (TopicPartition topic p, replicas)) proposed);
         current_json = format_reassignment (env_to_str env) current current_log_dirs;
         proposed_json = format_reassignment (env_to_str env) proposed []
     in cmd_ret (result_success
          [''Current partition replica assignment'', current_json, [],
           ''Proposed partition reassignment configuration'', proposed_json]
          (JObject [(''current'', parse_or_null env current_json), (''proposed'', parse_or_null env proposed_json)])))))))))"

definition unknown_broker :: "replica_map \<Rightarrow> ClusterNode list \<Rightarrow> unit res" where
  "unknown_broker brokers nodes =
     (case List.find (\<lambda>i. \<not> list_ex (\<lambda>node. node_id node = i) nodes)
         (hash_set_order (concat (map snd brokers)) integer_hash) of
        Some i \<Rightarrow> Inl (''Unknown broker id '' @ show_int i)
      | None \<Rightarrow> Inr ())"

record ExecuteOptions =
  eo_additional :: bool
  eo_throttle :: int
  eo_log_dir_throttle :: int
  eo_disallow_rf_change :: bool
  eo_timeout :: nat
  eo_confirm :: ConfirmArgs

definition CANNOT_EXECUTE_BECAUSE_OF_EXISTING :: string where
  "CANNOT_EXECUTE_BECAUSE_OF_EXISTING =
     ''Cannot execute because there is an existing partition assignment.  Use --additional to override this and create a new partition assignment in addition to the existing one. The --additional flag can also be used to change the throttle by resubmitting the current reassignment.''"

text \<open>What \<open>execute\<close> has computed when it starts to make changes.\<close>

record ExecutePlan =
  ep_proposed :: replica_map
  ep_moves :: "(Replica, string) btmap"
  ep_throttles :: Throttles
  ep_human :: "string list"
  ep_started :: string
  ep_data :: json

definition execute_plan :: "'c Env \<Rightarrow> ReassignmentFile \<Rightarrow> ExecuteOptions \<Rightarrow> ('c, ExecutePlan) cmd" where
  "execute_plan env file options =
     cmd_bind (cmd_try (check_execute file)) (\<lambda>_.
     let proposed = bt_of_list (targets file); moves = log_dir_moves file in
     cmd_bind (active_reassignments env [] (eo_timeout options)) (\<lambda>active.
     if \<not> eo_additional options \<and> active \<noteq> [] then cmd_fail (ErrOther CANNOT_EXECUTE_BECAUSE_OF_EXISTING)
     else
     cmd_bind (cluster_nodes env False) (\<lambda>nodes.
     cmd_bind (cmd_try (unknown_broker proposed nodes)) (\<lambda>_.
     cmd_bind (partition_replicas env (map fst proposed)) (\<lambda>current.
     cmd_bind (replica_log_dirs env current nodes) (\<lambda>current_log_dirs.
     let rollback = format_reassignment (env_to_str env) current current_log_dirs in
     cmd_bind (cmd_try (MoveMap_proposed active proposed current)) (\<lambda>move_map.
     let ths = Throttles_new move_map moves (eo_throttle options) (eo_log_dir_throttle options)
     in cmd_ret \<lparr>ep_proposed = proposed, ep_moves = moves, ep_throttles = ths, ep_human = rollback_lines rollback,
          ep_started = started_line (map fst proposed),
          ep_data = JObject [(''rollback'', parse_or_null env rollback),
            (''partitions'', JArray (map (\<lambda>(p, replicas). JObject [(''topic'', JString (tp_topic p)),
               (''partition'', JInt (tp_partition p)), (''replicas'', JArray (map JInt replicas))]) proposed)),
            (''throttles'', throttles_json ths)]\<rparr>)))))))"

definition execute_changes :: "'c Env \<Rightarrow> ExecutePlan \<Rightarrow> ExecuteOptions \<Rightarrow> ('c, CommandResult) cmd" where
  "execute_changes env pl options =
     cmd_bind (cmd_confirm (confirm (ca_yes (eo_confirm options)) (env_terminal env) ''krabka reassign-partitions''
         \<lparr>im_summary = ''reassign '' @ show_nat (length (ep_proposed pl)) @ '' partition(s)'',
          im_resources = map (\<lambda>(p, replicas). show_tp p @ '': replicas '' @ ids replicas) (ep_proposed pl)\<rparr>)) (\<lambda>_.
     cmd_bind (write_throttles env (ep_throttles pl)) (\<lambda>throttle_report.
     let human = ep_human pl @ (case warning_line (ep_throttles pl) of Some l \<Rightarrow> [l] | None \<Rightarrow> []) @ throttle_report in
     cmd_bind (alter_reassignments env (map (\<lambda>(p, replicas). (tp_key p, Some replicas)) (ep_proposed pl))
         (eo_timeout options) (\<not> eo_disallow_rf_change options)) (\<lambda>errors.
     if errors \<noteq> []
     then cmd_ret (result_rows (human @ [''Error reassigning partition(s):''] @ partition_errors errors) (ep_data pl) True)
     else if ep_moves pl = [] then cmd_ret (result_rows (human @ [ep_started pl]) (ep_data pl) False)
     else
       cmd_bind (execute_moves env (ep_moves pl)) (\<lambda>(lines, failed).
       cmd_ret (result_rows (human @ [ep_started pl] @ lines) (ep_data pl) failed)))))"

definition execute :: "'c Env \<Rightarrow> ReassignmentFile \<Rightarrow> ExecuteOptions \<Rightarrow> ('c, CommandResult) cmd" where
  "execute env file options =
     cmd_bind (execute_plan env file options) (\<lambda>pl.
     if ca_dry_run (eo_confirm options)
     then cmd_ret (into_dry_run (result_success
            (ep_human pl @ throttle_lines (ep_throttles pl) @ [ep_started pl] @ move_lines (ep_moves pl)) (ep_data pl)))
     else execute_changes env pl options)"

definition verify :: "'c Env \<Rightarrow> ReassignmentFile \<Rightarrow> bool \<Rightarrow> nat \<Rightarrow> ('c, CommandResult) cmd" where
  "verify env file preserve_throttles timeout =
     cmd_bind (active_reassignments env [] timeout) (\<lambda>active.
     let tgts = targets file;
         topics = bs_of_list (map (tp_topic \<circ> fst) (filter (\<lambda>(p, _). map_of active p = None) tgts)) in
     cmd_bind (topic_replicas env topics) (\<lambda>described.
     let states = partition_states tgts active described in
     cmd_bind (move_states env (log_dir_moves file)) (\<lambda>mstates.
     let lines = move_state_lines mstates;
         human = status_lines states @ (if lines = [] then [[]] else lines);
         parts_ongoing = active \<noteq> [];
         moves_ongoing = list_ex (\<lambda>(_, s). \<not> move_done s) mstates;
         clear = \<not> parts_ongoing \<and> \<not> moves_ongoing \<and> \<not> preserve_throttles in
     cmd_bind (if clear then clear_all_throttles env tgts False else cmd_ret []) (\<lambda>clearing.
     let incomplete = moves_ongoing \<or> list_ex (\<lambda>(_, s). \<not> ps_done s \<or> ps_current s \<noteq> ps_target s) states
     in cmd_ret (result_rows (human @ clearing)
          (JObject [(''partitions'', JArray (states_json states)),
            (''moves'', JArray (map (\<lambda>(r, s). JObject [(''topic'', JString (rp_topic r)), (''partition'', JInt (rp_partition r)),
               (''broker'', JInt (rp_broker r)), (''done'', JBool (move_done s))]) mstates)),
            (''throttles_cleared'', JBool clear)]) incomplete)))))"

record CancelOptions =
  co_preserve_throttles :: bool
  co_timeout :: nat
  co_confirm :: ConfirmArgs

definition cancel_filter :: "(TopicPartition \<times> int list) list \<Rightarrow> (string, int list) btmap" where
  "cancel_filter tgts =
     foldl (\<lambda>f (p, _).
       let indexes = (case map_of f (tp_topic p) of Some is \<Rightarrow> is | None \<Rightarrow> [])
       in bt_insert (tp_topic p) (if tp_partition p \<in> set indexes then indexes else indexes @ [tp_partition p]) f) [] tgts"

definition reassigning_partitions :: "active_map \<Rightarrow> TopicPartition list" where
  "reassigning_partitions active =
     bs_of_list (map (\<lambda>(_, a). TopicPartition (pa_topic a) (pa_partition a))
       (filter (\<lambda>(_, a). pa_adding a \<noteq> [] \<or> pa_removing a \<noteq> []) active))"

definition moving_replicas :: "(Replica, MoveState) btmap \<Rightarrow> (Replica, string) btmap" where
  "moving_replicas states =
     List.map_filter (\<lambda>(r, s). case s of Active current _ _ \<Rightarrow> Some (r, current) | _ \<Rightarrow> None) states"

definition cancel_json :: "TopicPartition list \<Rightarrow> (Replica, string) btmap \<Rightarrow> bool \<Rightarrow> json" where
  "cancel_json reassigning moving cleared = JObject
     [(''cancelled'', JArray (map (\<lambda>p. JObject [(''topic'', JString (tp_topic p)), (''partition'', JInt (tp_partition p))]) reassigning)),
      (''moves'', JArray (map (\<lambda>(r, _). JObject [(''topic'', JString (rp_topic r)), (''partition'', JInt (rp_partition r)),
         (''broker'', JInt (rp_broker r))]) moving)),
      (''throttles_cleared'', JBool cleared)]"

text \<open>The end of \<open>cancel\<close>: the throttles, and the line that shares its place with what follows.\<close>

definition cancel_clear ::
    "'c Env \<Rightarrow> (TopicPartition \<times> int list) list \<Rightarrow> TopicPartition list \<Rightarrow> (Replica, string) btmap \<Rightarrow> CancelOptions
       \<Rightarrow> string list \<Rightarrow> ('c, CommandResult) cmd" where
  "cancel_clear env tgts reassigning moving options human =
     (let dry_run = ca_dry_run (co_confirm options) in
      cmd_bind (if co_preserve_throttles options then cmd_ret [] else clear_all_throttles env tgts dry_run) (\<lambda>clearing.
      let line = ''None of the specified partition moves are active.'';
          tail = (if moving = []
                  then (case clearing of [] \<Rightarrow> [line] | c # cs \<Rightarrow> (line @ c) # cs)
                  else clearing);
          result = result_success (human @ tail)
            (cancel_json reassigning moving (\<not> co_preserve_throttles options \<and> \<not> dry_run))
      in cmd_ret (if dry_run then into_dry_run result else result)))"

definition cancel_moves ::
    "'c Env \<Rightarrow> (TopicPartition \<times> int list) list \<Rightarrow> TopicPartition list \<Rightarrow> (Replica, string) btmap \<Rightarrow> CancelOptions
       \<Rightarrow> string list \<Rightarrow> ('c, CommandResult) cmd" where
  "cancel_moves env tgts reassigning moving options human =
     (if moving = [] then cancel_clear env tgts reassigning moving options human
      else if ca_dry_run (co_confirm options)
      then cancel_clear env tgts reassigning moving options (human @ move_lines moving)
      else
        cmd_bind (execute_moves env moving) (\<lambda>(lines, failed).
        if failed then cmd_ret (result_rows (human @ lines) (cancel_json reassigning moving False) True)
        else cancel_clear env tgts reassigning moving options (human @ lines)))"

definition cancel :: "'c Env \<Rightarrow> ReassignmentFile \<Rightarrow> CancelOptions \<Rightarrow> ('c, CommandResult) cmd" where
  "cancel env file options =
     (let tgts = targets file; dry_run = ca_dry_run (co_confirm options) in
      cmd_bind (active_reassignments env (cancel_filter tgts) (co_timeout options)) (\<lambda>active.
      let reassigning = reassigning_partitions active in
      cmd_bind (move_states env (log_dir_moves file)) (\<lambda>mstates.
      let moving = moving_replicas mstates;
          changes = reassigning \<noteq> [] \<or> moving \<noteq> [] \<or> \<not> co_preserve_throttles options in
      cmd_bind (cmd_when (changes \<and> \<not> dry_run) (cmd_confirm (confirm (ca_yes (co_confirm options)) (env_terminal env)
          ''krabka reassign-partitions''
          \<lparr>im_summary = ''cancel '' @ show_nat (length reassigning) @ '' partition reassignment(s) and '' @
             show_nat (length moving) @ '' log dir move(s)'',
           im_resources = map show_tp reassigning @ map (show_replica \<circ> fst) moving\<rparr>))) (\<lambda>_.
      if reassigning = []
      then cancel_moves env tgts reassigning moving options [''None of the specified partition reassignments are active.'']
      else if dry_run
      then cancel_moves env tgts reassigning moving options [cancelled_line reassigning]
      else
        cmd_bind (alter_reassignments env (map (\<lambda>p. (tp_key p, None)) reassigning) (co_timeout options)
            (env_default_allow_change env)) (\<lambda>errors.
        if errors \<noteq> []
        then cmd_ret (result_rows
               ((''Error cancelling partition reassignment'' @ (if length errors = 1 then [] else ''s'') @ '' for:'') #
                  partition_errors errors) (cancel_json reassigning moving False) True)
        else cancel_moves env tgts reassigning moving options [cancelled_line reassigning])))))"

definition convergence_report :: "string \<Rightarrow> string \<Rightarrow> bool \<Rightarrow> CommandResult" where
  "convergence_report topic status incomplete =
     result_rows [topic @ '': '' @ status] (JObject [(''topic'', JString topic), (''status'', JString status)]) incomplete"

definition convergence_status :: "PartitionAssignment list \<Rightarrow> PartitionAssignment list \<Rightarrow> int \<Rightarrow> string" where
  "convergence_status assignments active replication_factor =
     (if active \<noteq> [] then ''ReassignmentInProgress''
      else if assignments \<noteq> [] \<and> list_all (\<lambda>a. int (length (pa_replicas a)) = replication_factor) assignments
      then ''InSync'' else ''ReplicationFactorMismatch'')"

definition convergence :: "'c Env \<Rightarrow> string \<times> int \<Rightarrow> nat \<Rightarrow> ('c, CommandResult) cmd" where
  "convergence env target timeout =
     (case target of (topic, replication_factor) \<Rightarrow>
      cmd_bind (cmd_admin (env_describe_assignments env [topic])) (\<lambda>assignments.
      cmd_bind (cmd_admin (env_list_reassignments env [(topic, map pa_partition assignments)] timeout)) (\<lambda>active.
      let status = convergence_status assignments active replication_factor
      in cmd_ret (convergence_report topic status (status \<noteq> ''InSync'')))))"

definition converge :: "'c Env \<Rightarrow> string \<times> int \<Rightarrow> nat \<Rightarrow> ConfirmArgs \<Rightarrow> ('c, CommandResult) cmd" where
  "converge env target timeout confirm_args =
     (case target of (topic, replication_factor) \<Rightarrow>
      if ca_dry_run confirm_args
      then cmd_bind (convergence env target timeout) (\<lambda>report. cmd_ret (into_dry_run report))
      else
        cmd_bind (cmd_confirm (confirm (ca_yes confirm_args) (env_terminal env) ''krabka reassign-partitions''
            \<lparr>im_summary = ''converge topic '' @ topic @ '' to replication factor '' @ show_int replication_factor,
             im_resources = [topic]\<rparr>)) (\<lambda>_.
        cmd_bind (cmd_admin (env_reconcile env topic replication_factor timeout)) (\<lambda>status.
        cmd_ret (convergence_report topic status False))))"

text \<open>\<open>run\<close>, after the connection; \<open>read\<close> reads a file or fails with a message.\<close>

definition run :: "'c Env \<Rightarrow> (string \<Rightarrow> string res) \<Rightarrow> ReassignArgs \<Rightarrow> nat \<Rightarrow> ('c, unit) cmd \<Rightarrow> ('c, CommandResult) cmd" where
  "run env read self timeout connect =
     cmd_bind (cmd_try (validate self)) (\<lambda>action.
     cmd_bind connect (\<lambda>_.
     let parse = (\<lambda>path. cmd_bind (cmd_try (read path)) (\<lambda>text.
           cmd_try (parse_reassignment (env_from_str env) (env_to_str env) text)))
     in case action of
          Act_List \<Rightarrow> list_action env timeout
        | Act_Generate topics_file broker_list rack_aware \<Rightarrow>
            cmd_bind (cmd_try (read topics_file)) (\<lambda>text. generate env text broker_list rack_aware)
        | Act_Execute path additional throttle log_dir_throttle disallow \<Rightarrow>
            cmd_bind (parse path) (\<lambda>file. execute env file
              \<lparr>eo_additional = additional, eo_throttle = throttle, eo_log_dir_throttle = log_dir_throttle,
               eo_disallow_rf_change = disallow, eo_timeout = timeout, eo_confirm = ra_confirm self\<rparr>)
        | Act_Verify path preserve \<Rightarrow> cmd_bind (parse path) (\<lambda>file. verify env file preserve timeout)
        | Act_Cancel path preserve \<Rightarrow>
            cmd_bind (parse path) (\<lambda>file. cancel env file
              \<lparr>co_preserve_throttles = preserve, co_timeout = timeout, co_confirm = ra_confirm self\<rparr>)
        | Act_ReplicationFactor topic replication_factor exec \<Rightarrow>
            if exec then converge env (topic, replication_factor) timeout (ra_confirm self)
            else convergence env (topic, replication_factor) timeout))"

end
