(* ===== verification/Reassign_Safety.thy ===== *)
theory Reassign_Safety
  imports Reassign_Command
begin

text \<open>
  What \<open>kafka-reassign-partitions\<close> of \<^verbatim>\<open>reassign_partitions.rs\<close> guarantees: which command lines it
  accepts, that a dry run only reads, that starting the log dir moves ends and leaves none out,
  what \<open>--verify\<close> reports, and that \<open>--execute\<close> has the replicas it needs.
\<close>

section \<open>Reads\<close>

text \<open>Two environments that answer every read in the same way. The operations that change the cluster, the
  terminal and the clock may differ in every respect.\<close>

definition same_reads :: "'c Env \<Rightarrow> 'c Env \<Rightarrow> bool" where
  "same_reads env env' \<longleftrightarrow>
     env_list_reassignments env = env_list_reassignments env'
     \<and> env_describe_assignments env = env_describe_assignments env'
     \<and> env_describe_cluster env = env_describe_cluster env'
     \<and> env_describe_replica_log_dirs env = env_describe_replica_log_dirs env'
     \<and> env_from_str env = env_from_str env' \<and> env_to_str env = env_to_str env' \<and> env_seed env = env_seed env'"

lemma reads_same:
  assumes "same_reads env env'"
  shows "cluster_nodes env = cluster_nodes env'"
    and "active_reassignments env = active_reassignments env'"
    and "topic_replicas env = topic_replicas env'"
    and "partition_replicas env = partition_replicas env'"
    and "replica_log_dirs env = replica_log_dirs env'"
    and "move_states env = move_states env'"
    and "parse_or_null env = parse_or_null env'"
    and "env_to_str env = env_to_str env'"
    and "convergence env = convergence env'"
proof -
  have eqs: "env_list_reassignments env = env_list_reassignments env'"
      "env_describe_assignments env = env_describe_assignments env'"
      "env_describe_cluster env = env_describe_cluster env'"
      "env_describe_replica_log_dirs env = env_describe_replica_log_dirs env'"
      "env_from_str env = env_from_str env'" "env_to_str env = env_to_str env'"
    using assms by (simp_all add: same_reads_def)
  show "cluster_nodes env = cluster_nodes env'" by (rule ext) (simp add: cluster_nodes_def eqs)
  show "active_reassignments env = active_reassignments env'" by (intro ext) (simp add: active_reassignments_def eqs)
  show topics: "topic_replicas env = topic_replicas env'" by (rule ext) (simp add: topic_replicas_def eqs)
  show "partition_replicas env = partition_replicas env'" by (rule ext) (simp add: partition_replicas_def topics)
  show "replica_log_dirs env = replica_log_dirs env'" by (intro ext) (simp only: replica_log_dirs_def eqs)
  show "move_states env = move_states env'" by (rule ext) (simp add: move_states_def eqs)
  show "parse_or_null env = parse_or_null env'" by (rule ext) (simp add: parse_or_null_def eqs)
  show "env_to_str env = env_to_str env'" by (rule eqs)
  show "convergence env = convergence env'" by (intro ext) (simp add: convergence_def eqs)
qed

lemma execute_plan_same: "same_reads env env' \<Longrightarrow> execute_plan env = execute_plan env'"
proof (intro ext)
  fix f options st
  assume same: "same_reads env env'"
  show "execute_plan env f options st = execute_plan env' f options st"
    unfolding execute_plan_def reads_same [OF same] ..
qed

lemma clear_all_throttles_dry: "same_reads env env' \<Longrightarrow> clear_all_throttles env tgts True = clear_all_throttles env' tgts True"
  using reads_same(1) [of env env'] by (simp add: clear_all_throttles_def cmd_simps)

lemma cancel_clear_dry:
  assumes "same_reads env env'" and "ca_dry_run (co_confirm options)"
  shows "cancel_clear env tgts reassigning moving options = cancel_clear env' tgts reassigning moving options"
  using assms(2) clear_all_throttles_dry [OF assms(1)] by (intro ext) (simp add: cancel_clear_def Let_def)

lemma cancel_moves_dry:
  assumes "same_reads env env'" and "ca_dry_run (co_confirm options)"
  shows "cancel_moves env tgts reassigning moving options = cancel_moves env' tgts reassigning moving options"
  using assms(2) cancel_clear_dry [OF assms] by (intro ext) (simp add: cancel_moves_def)

section \<open>Replicas of partitions\<close>

lemma missing_partitions_ok: "missing_partitions ps found = Inr () \<longleftrightarrow> list_all (\<lambda>p. map_of found p \<noteq> None) ps"
  by (auto simp: missing_partitions_def Let_def filter_empty_conv list_all_iff)

lemma partition_replicas_found:
  assumes "partition_replicas env ps st = Some (Inr current, st')" and "p \<in> set ps"
  shows "map_of current p \<noteq> None"
proof -
  obtain everything where e: "missing_partitions ps everything = Inr ()" "current = filter (\<lambda>(p, _). p \<in> set ps) everything"
    using assms(1) by (auto simp: partition_replicas_def Let_def cmd_bind_Inr_iff cmd_try_Inr_iff cmd_ret_iff)
  then have "map_of everything p \<noteq> None" using assms(2) by (simp add: missing_partitions_ok list_all_iff)
  then show ?thesis using e(2) assms(2) unfolding map_of_eq_None_iff by force
qed

section \<open>Starting the log dir moves\<close>

lemma started_moves_subset:
  assumes "started_moves pending rs started = Some (Inr started')" and "bt_ok started"
    and "set started \<subseteq> set pending"
  shows "bt_ok started' \<and> set started' \<subseteq> set pending"
  using assms
proof (induction pending rs started rule: started_moves.induct)
  case (2 pending replica result rs started)
  show ?case
  proof (cases result)
    case (Inl e)
    with 2 show ?thesis by (auto split: if_splits)
  next
    case (Inr u)
    with 2(3) obtain path where p: "map_of pending replica = Some path"
        "started_moves pending rs (bt_insert replica path started) = Some (Inr started')"
      by (auto simp: bind_eq_Some_conv)
    then have "set (bt_insert replica path started) \<subseteq> set pending"
      using set_bt_insert [of replica path started] 2(5) map_of_SomeD by fastforce
    with 2(2) [OF Inr p(1)] 2(4) show ?thesis using p(2) by (simp add: bt_ok_insert)
  qed
qed auto

lemma mset_split: "mset xs = mset (filter P xs) + mset (filter (\<lambda>x. \<not> P x) xs)"
  by (induction xs) auto

lemma started_filter:
  assumes "bt_ok pending" and "set started \<subseteq> set pending" and "e \<in> set pending"
  shows "fst e \<in> fst ` set started \<longleftrightarrow> e \<in> set started"
proof
  assume "fst e \<in> fst ` set started"
  then obtain e' where e': "e' \<in> set started" "fst e' = fst e" by auto
  with assms(2,3) have "e' = e"
    using eq_key_imp_eq_value [OF bt_ok_distinct [OF assms(1)], of "fst e" "snd e'" "snd e"]
    by (metis prod.collapse subsetD)
  with e' show "e \<in> set started" by simp
qed simp

lemma split_started:
  assumes "bt_ok pending" and "bt_ok started" and "set started \<subseteq> set pending"
  shows "mset pending = mset started + mset (filter (\<lambda>(r, _). r \<notin> fst ` set started) pending)"
proof -
  let ?P = "\<lambda>e. fst e \<in> fst ` set started"
  have d: "distinct pending" "distinct started"
    using bt_ok_distinct assms(1,2) by (auto simp: distinct_map)
  have "set (filter ?P pending) = set started"
    using started_filter [OF assms(1,3)] assms(3) by auto
  then have started: "mset (filter ?P pending) = mset started"
    using d set_eq_iff_mset_eq_distinct [of "filter ?P pending" started] by (simp only: distinct_filter)
  have rest: "filter (\<lambda>e. \<not> ?P e) pending = filter (\<lambda>(r, _). r \<notin> fst ` set started) pending"
    by (simp add: case_prod_unfold)
  show ?thesis using mset_split [of pending ?P] unfolding started rest .
qed

lemma move_lines_mset:
  "mset xs = mset ys + mset zs \<Longrightarrow> mset (move_lines xs) = mset (move_lines ys) + mset (move_lines zs)"
  by (simp add: move_lines_def)

lemma execute_moves_from_success:
  assumes "execute_moves_from env attempt pending lines st = Some ((lines', False), st')" and "bt_ok pending"
  shows "mset lines' = mset lines + mset (move_lines pending)"
proof -
  have "bt_ok pending \<longrightarrow> \<not> snd (fst ((lines', False), st')) \<longrightarrow>
      mset (fst (fst ((lines', False), st'))) = mset lines + mset (move_lines pending)"
  proof (rule execute_moves_from.raw_induct [where
      P = "\<lambda>env attempt pending lines st r. bt_ok pending \<longrightarrow> \<not> snd (fst r) \<longrightarrow>
        mset (fst (fst r)) = mset lines + mset (move_lines pending)", OF _ assms(1)])
    fix loop :: "'a Env \<Rightarrow> nat \<Rightarrow> (Replica, string) btmap \<Rightarrow> string list \<Rightarrow> 'a \<Rightarrow> ((string list \<times> bool) \<times> 'a) option"
    fix env attempt pending lines st r
    assume IH: "\<And>env attempt pending lines st r. loop env attempt pending lines st = Some r \<Longrightarrow>
        bt_ok pending \<longrightarrow> \<not> snd (fst r) \<longrightarrow> mset (fst (fst r)) = mset lines + mset (move_lines pending)"
      and step: "(case env_alter_replica_log_dirs env pending st of (results, st) \<Rightarrow>
      case started_moves pending results [] of
        None \<Rightarrow> None
      | Some (Inl replica) \<Rightarrow> Some ((lines @ [''Error: Failed to alter dir for '' @ show_replica replica], True), st)
      | Some (Inr started) \<Rightarrow>
          let lines = lines @ move_lines started;
              pending = filter (\<lambda>(r, _). r \<notin> fst ` set started) pending
          in if pending = [] then Some ((lines, False), st)
             else if env_expired env attempt then Some ((lines @ [timed_out_line pending], True), st)
             else loop env (Suc attempt) pending lines st) = Some r"
    show "bt_ok pending \<longrightarrow> \<not> snd (fst r) \<longrightarrow> mset (fst (fst r)) = mset lines + mset (move_lines pending)"
    proof (intro impI)
      assume ok: "bt_ok pending" and nf: "\<not> snd (fst r)"
      obtain results st1 where res: "env_alter_replica_log_dirs env pending st = (results, st1)"
        by (cases "env_alter_replica_log_dirs env pending st")
      obtain started where s: "started_moves pending results [] = Some (Inr started)"
        using step nf by (auto simp: res split: option.splits sum.splits)
      then have st: "bt_ok started" "set started \<subseteq> set pending"
        using started_moves_subset [OF s] by auto
      let ?rest = "filter (\<lambda>(r, _). r \<notin> fst ` set started) pending"
      note lines = move_lines_mset [OF split_started [OF ok st]]
      have ok': "bt_ok ?rest" using ok by (rule bt_ok_filter)
      show "mset (fst (fst r)) = mset lines + mset (move_lines pending)"
      proof (cases "?rest = []")
        case True
        then have "r = ((lines @ move_lines started, False), st1)" using step by (simp add: res s Let_def)
        with True lines show ?thesis by (simp add: move_lines_def)
      next
        case False
        then have "loop env (Suc attempt) ?rest (lines @ move_lines started) st1 = Some r"
          using step nf by (auto simp: res s Let_def split: if_splits)
        from IH [OF this] ok' nf lines show ?thesis by simp
      qed
    qed
  qed
  with assms(2) show ?thesis by simp
qed

text \<open>The loop ends when the clock runs out, whatever the brokers answer about the pending replicas.\<close>

definition answers_pending :: "'c Env \<Rightarrow> bool" where
  "answers_pending env \<longleftrightarrow> (\<forall>pending st r. r \<in> set (fst (env_alter_replica_log_dirs env pending st)) \<longrightarrow> fst r \<in> fst ` set pending)"

lemma started_moves_total:
  assumes "\<forall>r \<in> set rs. fst r \<in> fst ` set pending"
  shows "started_moves pending rs started \<noteq> None"
  using assms
proof (induction pending rs started rule: started_moves.induct)
  case (2 pending replica result rs started)
  then have "map_of pending replica \<noteq> None" by (simp add: map_of_eq_None_iff)
  with 2 show ?case by (auto split: sum.split)
qed simp

lemma execute_moves_from_returns:
  assumes "answers_pending env" and "env_expired env (attempt + n)"
  shows "execute_moves_from env attempt pending lines st \<noteq> None"
  using assms(2)
proof (induction n arbitrary: attempt pending lines st)
  case 0
  obtain results st1 where res: "env_alter_replica_log_dirs env pending st = (results, st1)"
    by (cases "env_alter_replica_log_dirs env pending st")
  have "\<forall>r \<in> set results. fst r \<in> fst ` set pending"
    using assms(1) res unfolding answers_pending_def by (metis fst_conv)
  then have "started_moves pending results [] \<noteq> None" by (rule started_moves_total)
  with 0 show ?case by (subst execute_moves_from.simps) (auto simp: res Let_def split: option.split sum.split)
next
  case (Suc n)
  obtain results st1 where res: "env_alter_replica_log_dirs env pending st = (results, st1)"
    by (cases "env_alter_replica_log_dirs env pending st")
  have "\<forall>r \<in> set results. fst r \<in> fst ` set pending"
    using assms(1) res unfolding answers_pending_def by (metis fst_conv)
  then have "started_moves pending results [] \<noteq> None" by (rule started_moves_total)
  with Suc.IH [of "Suc attempt"] Suc.prems show ?case
    by (subst execute_moves_from.simps) (auto simp: res Let_def split: option.split sum.split)
qed

section \<open>What is accepted, read and changed\<close>

text \<open>A run without \<open>--yes\<close> whose prompt is not answered with yes.\<close>

definition unconfirmed :: "ConfirmArgs \<Rightarrow> Terminal \<Rightarrow> bool" where
  "unconfirmed args terminal \<longleftrightarrow>
     \<not> ca_yes args \<and> \<not> (tm_interactive terminal \<and> tm_write_ok terminal
       \<and> (case tm_line terminal of Some answer \<Rightarrow> affirmative answer | None \<Rightarrow> False))"

lemma unconfirmed_confirm:
  assumes "unconfirmed args terminal"
  shows "\<exists>refusal. confirm (ca_yes args) terminal command impact = Inl refusal"
  using assms by (auto simp: unconfirmed_def confirm_def confirm_with_def Let_def split: option.splits)

lemma cmd_confirm_unconfirmed:
  fixes env :: "'c Env"
  assumes "unconfirmed args (env_terminal env)"
  shows "\<exists>e. (cmd_confirm (confirm (ca_yes args) (env_terminal env) command impact) :: ('c, unit) cmd) = cmd_fail e"
  using unconfirmed_confirm [OF assms, of command impact] by (auto simp: cmd_confirm_def)

lemma execute_dry_same:
  assumes "same_reads env env'" and "ca_dry_run (eo_confirm options)"
  shows "execute env f options = execute env' f options"
  using assms(2) execute_plan_same [OF assms(1)] by (simp add: execute_def)

lemma cancel_dry_same:
  assumes "same_reads env env'" and "ca_dry_run (co_confirm options)"
  shows "cancel env f options = cancel env' f options"
proof -
  have moves: "cancel_moves env tgts reassigning moving options = cancel_moves env' tgts reassigning moving options"
    for tgts reassigning moving
    by (rule cancel_moves_dry [OF assms])
  show ?thesis
    unfolding cancel_def reads_same [OF assms(1)] moves using assms(2)
    by (simp add: Let_def cmd_simps cong: if_cong)
qed

lemma converge_dry_same:
  assumes "same_reads env env'" and "ca_dry_run args"
  shows "converge env target timeout args = converge env' target timeout args"
  using assms(2) reads_same(9) [OF assms(1)] by (simp add: converge_def split: prod.split)

lemma execute_unconfirmed_same:
  assumes "same_reads env env'" and "unconfirmed (eo_confirm options) (env_terminal env)"
    and "env_terminal env = env_terminal env'"
  shows "execute env f options = execute env' f options"
proof -
  have "execute_changes env pl options = execute_changes env' pl options" for pl
    using cmd_confirm_unconfirmed [OF assms(2)] unfolding execute_changes_def assms(3)
    by (metis cmd_bind_fail)
  then show ?thesis by (simp add: execute_def execute_plan_same [OF assms(1)] cong: if_cong)
qed

lemma converge_unconfirmed_same:
  assumes "same_reads env env'" and "unconfirmed args (env_terminal env)"
    and "env_terminal env = env_terminal env'"
  shows "converge env target timeout args = converge env' target timeout args"
  using cmd_confirm_unconfirmed [OF assms(2)] reads_same(9) [OF assms(1)]
  unfolding converge_def assms(3) by (metis cmd_bind_fail)

lemma cancel_unconfirmed_same:
  assumes "same_reads env env'" and "unconfirmed (co_confirm options) (env_terminal env)"
    and "env_terminal env = env_terminal env'"
  shows "cancel env f options = cancel env' f options"
proof (cases "ca_dry_run (co_confirm options)")
  case True
  then show ?thesis by (rule cancel_dry_same [OF assms(1)])
next
  case False
  have none: "cancel_moves env tgts [] [] options human = cancel_moves env' tgts [] [] options human"
    if "co_preserve_throttles options" for tgts human
    using that by (simp add: cancel_moves_def cancel_clear_def)
  have step: "cmd_bind (cmd_when (changes \<and> \<not> ca_dry_run (co_confirm options))
        (cmd_confirm (confirm (ca_yes (co_confirm options)) (env_terminal env') command impact))) m =
      cmd_bind (cmd_when (changes \<and> \<not> ca_dry_run (co_confirm options))
        (cmd_confirm (confirm (ca_yes (co_confirm options)) (env_terminal env') command impact))) m'"
    if "\<not> changes \<Longrightarrow> m = m'" for changes command impact and m m' :: "unit \<Rightarrow> ('a, CommandResult) cmd"
    using that cmd_confirm_unconfirmed [OF assms(2) [unfolded assms(3)], of command impact] False
    by (cases changes) (auto simp: cmd_simps)
  show ?thesis
    unfolding cancel_def reads_same [OF assms(1)] assms(3) Let_def
    by (intro cmd_bind_cong refl step) (auto simp: none)
qed

lemma verify_preserve_same:
  assumes "same_reads env env'"
  shows "verify env f True timeout = verify env' f True timeout"
  unfolding verify_def reads_same [OF assms] by (simp add: Let_def)

lemma list_generate_same:
  assumes "same_reads env env'"
  shows "list_action env timeout = list_action env' timeout"
    and "generate env topics_json broker_list rack_aware = generate env' topics_json broker_list rack_aware"
proof -
  have seed: "env_seed env = env_seed env'" and f: "env_from_str env = env_from_str env'"
    using assms by (simp_all add: same_reads_def)
  show "list_action env timeout = list_action env' timeout"
    unfolding list_action_def reads_same [OF assms] ..
  show "generate env topics_json broker_list rack_aware = generate env' topics_json broker_list rack_aware"
    unfolding generate_def cmd_propose_def reads_same [OF assms] seed f ..
qed

section \<open>Properties\<close>

text \<open>Which actions may change the cluster after a confirmation, and the action flag of each.\<close>

fun changing :: "Action \<Rightarrow> bool" where
  "changing (Act_Execute _ _ _ _ _) = True"
| "changing (Act_Cancel _ _) = True"
| "changing (Act_ReplicationFactor _ _ exec) = exec"
| "changing _ = False"

fun action_flag :: "Action \<Rightarrow> string" where
  "action_flag (Act_Generate _ _ _) = ''generate''"
| "action_flag (Act_Execute _ _ _ _ _) = ''execute''"
| "action_flag (Act_Verify _ _) = ''verify''"
| "action_flag (Act_Cancel _ _) = ''cancel''"
| "action_flag Act_List = ''list''"
| "action_flag (Act_ReplicationFactor _ _ exec) = (if exec then ''execute'' else ''verify'')"

lemma chosen_actions_cases:
  "chosen_actions self = [action] \<Longrightarrow> action \<in> {''generate'', ''execute'', ''verify'', ''cancel'', ''list''}"
proof -
  assume "chosen_actions self = [action]"
  then have "action \<in> set (chosen_actions self)" by simp
  then show ?thesis by (auto simp: chosen_actions_def split: if_splits)
qed

lemma validate_Inr:
  assumes "validate self = Inr a"
  shows "chosen_actions self = [action_flag a]"
    and "(ra_bootstrap_server self = []) \<noteq> (ra_bootstrap_controller self = [])"
    and "ca_dry_run (ra_confirm self) \<or> ca_yes (ra_confirm self) \<Longrightarrow> changing a"
proof -
  obtain action where act: "chosen_actions self = [action]"
    using assms by (auto simp: validate_def split: list.splits)
  show boot: "(ra_bootstrap_server self = []) \<noteq> (ra_bootstrap_controller self = [])"
    using assms by (auto simp: validate_def act Let_def split: if_splits)
  have flag: "action_flag (action_of self action) = action"
    using chosen_actions_cases [OF act] by (auto simp: action_of_def Let_def)
  have chg: "changing (action_of self action) \<longleftrightarrow> action \<in> {''execute'', ''cancel''}"
    using chosen_actions_cases [OF act] by (auto simp: action_of_def Let_def)
  have "action_flag a = action
      \<and> (ca_dry_run (ra_confirm self) \<or> ca_yes (ra_confirm self) \<longrightarrow> changing a)"
  proof (cases "ra_topic self \<noteq> None \<or> ra_replication_factor self \<noteq> None")
    case True
    then have "validate_replication_factor self action = Inr a"
      using assms boot by (auto simp: validate_def act Let_def)
    then show ?thesis
      by (auto simp: validate_replication_factor_def Let_def split: option.splits if_splits)
  next
    case False
    then have "a = action_of self action
        \<and> \<not> ((ca_dry_run (ra_confirm self) \<or> ca_yes (ra_confirm self)) \<and> action \<notin> {''execute'', ''cancel''})"
      using assms boot by (simp add: validate_def act Let_def split: option.splits if_splits prod.splits)
    then show ?thesis using flag chg by blast
  qed
  then show "chosen_actions self = [action_flag a]"
    and "ca_dry_run (ra_confirm self) \<or> ca_yes (ra_confirm self) \<Longrightarrow> changing a"
    using act by auto
qed

text \<open>An environment of an empty cluster whose state counts its changes by \<open>change\<close>, and a command line.\<close>

definition sample_env :: "(nat \<Rightarrow> nat) \<Rightarrow> nat Env" where
  "sample_env change = \<lparr>
     env_list_reassignments = (\<lambda>_ _ st. (Inr [], st)),
     env_describe_assignments = (\<lambda>_ st. (Inr [], st)),
     env_describe_cluster = (\<lambda>_ st. (Inr [], st)),
     env_describe_replica_log_dirs = (\<lambda>_ st. ([], st)),
     env_alter_configs = (\<lambda>_ st. (Inr [], change st)),
     env_alter_replica_log_dirs = (\<lambda>pending st. (map (\<lambda>(r, _). (r, Inr ())) pending, change st)),
     env_alter_assignments = (\<lambda>_ _ _ st. (Inr [], change st)),
     env_default_allow_change = True,
     env_reconcile = (\<lambda>_ _ _ st. (Inr ''Reconciled'', change st)),
     env_expired = (\<lambda>n. 3 \<le> n),
     env_terminal = \<lparr>tm_interactive = False, tm_write_ok = True, tm_line = None\<rparr>,
     env_from_str = (\<lambda>_. Inr (JObject [])),
     env_to_str = (\<lambda>_. []),
     env_seed = 0\<rparr>"

definition sample_args :: "bool \<Rightarrow> ReassignArgs" where
  "sample_args dry_run = \<lparr>
     ra_bootstrap_server = [''localhost:9092''], ra_bootstrap_controller = [],
     ra_generate = False, ra_execute = False, ra_verify = False, ra_cancel = True, ra_list = False,
     ra_reassignment_json_file = Some ''plan.json'', ra_topics_to_move_json_file = None,
     ra_broker_list = None, ra_disable_rack_aware = False, ra_throttle = None, ra_log_dirs_throttle = None,
     ra_additional = False, ra_preserve_throttles = False, ra_disallow_rf_change = False,
     ra_topic = None, ra_replication_factor = None,
     ra_confirm = \<lparr>ca_dry_run = dry_run, ca_yes = False\<rparr>\<rparr>"

lemma sample_same_reads: "same_reads (sample_env f) (sample_env g)"
  by (simp add: same_reads_def sample_env_def)

text \<open>An accepted command line names exactly one action, which is the one that runs, and one of the two
  bootstrap options; \<open>--dry-run\<close> and \<open>--yes\<close> come only with an action that changes the cluster;
  every option given beside the action is one that the action takes, and none that it needs is
  missing.\<close>

theorem validate_accepts:
  assumes "validate self = Inr a"
  shows "chosen_actions self = [action_flag a]
    \<and> (ra_bootstrap_server self = []) \<noteq> (ra_bootstrap_controller self = [])
    \<and> (ca_dry_run (ra_confirm self) \<or> ca_yes (ra_confirm self) \<longrightarrow> changing a)
    \<and> (case a of
         Act_ReplicationFactor topic rf exec \<Rightarrow>
           ra_topic self = Some topic \<and> ra_replication_factor self = Some rf \<and> ra_bootstrap_server self \<noteq> []
       | _ \<Rightarrow> ra_topic self = None \<and> ra_replication_factor self = None
           \<and> list_all snd (required_options self (action_flag a))
           \<and> list_all (\<lambda>(name, present). present \<longrightarrow>
               name \<in> set (permitted_options (action_flag a) (ra_bootstrap_server self \<noteq> []))) (given_options self))"
proof -
  note v = validate_Inr [OF assms]
  have "case a of
         Act_ReplicationFactor topic rf exec \<Rightarrow>
           ra_topic self = Some topic \<and> ra_replication_factor self = Some rf \<and> ra_bootstrap_server self \<noteq> []
       | _ \<Rightarrow> ra_topic self = None \<and> ra_replication_factor self = None
           \<and> list_all snd (required_options self (action_flag a))
           \<and> list_all (\<lambda>(name, present). present \<longrightarrow>
               name \<in> set (permitted_options (action_flag a) (ra_bootstrap_server self \<noteq> []))) (given_options self)"
  proof (cases "ra_topic self \<noteq> None \<or> ra_replication_factor self \<noteq> None")
    case True
    then have "validate_replication_factor self (action_flag a) = Inr a"
      using assms v(2) by (auto simp: validate_def v(1) Let_def)
    then show ?thesis using v(2)
      by (auto simp: validate_replication_factor_def Let_def split: option.splits if_splits)
  next
    case False
    then have "a = action_of self (action_flag a)"
      and req: "List.find (\<lambda>(_, present). \<not> present) (required_options self (action_flag a)) = None"
      and giv: "List.find (\<lambda>(name, present). present \<and> name \<notin> set (permitted_options (action_flag a)
        (ra_bootstrap_server self \<noteq> []))) (given_options self) = None"
      using assms v(2) by (simp_all add: validate_def v(1) Let_def split: option.splits if_splits prod.splits)
    then have "\<not> (\<exists>topic rf exec. a = Act_ReplicationFactor topic rf exec)"
      by (auto simp: action_of_def Let_def split: if_splits)
    moreover from req have "list_all snd (required_options self (action_flag a))"
      unfolding find_None_iff list_all_iff case_prod_unfold by blast
    moreover from giv have "list_all (\<lambda>(name, present). present \<longrightarrow>
        name \<in> set (permitted_options (action_flag a) (ra_bootstrap_server self \<noteq> []))) (given_options self)"
      by (auto simp: find_None_iff list_all_iff)
    ultimately show ?thesis using False by (cases a) simp_all
  qed
  with v show ?thesis by blast
qed

theorem validate_accepts_witness:
  "validate (sample_args True) = Inr (Act_Cancel ''plan.json'' False)
   \<and> chosen_actions (sample_args True) = [action_flag (Act_Cancel ''plan.json'' False)]"
proof -
  have v: "validate (sample_args True) = Inr (Act_Cancel ''plan.json'' False)" by code_simp
  from validate_accepts [OF v] v show ?thesis by blast
qed

text \<open>C2. A dry run only reads: between two environments that answer every read alike, the whole command has
  the same outcome and leaves the client in the same state, whatever the operations that change
  the cluster, the terminal and the clock would do.\<close>

theorem dry_run_only_reads:
  assumes "same_reads env env'" and "ca_dry_run (ra_confirm self)"
  shows "run env read self timeout connect = run env' read self timeout connect"
proof (cases "validate self")
  case (Inl e)
  then show ?thesis by (simp add: run_def cmd_simps)
next
  case (Inr a)
  have "env_from_str env = env_from_str env'" and "env_to_str env = env_to_str env'"
    using assms(1) by (simp_all add: same_reads_def)
  then show ?thesis
    using validate_Inr(3) [OF Inr] assms execute_dry_same [OF assms(1)] cancel_dry_same [OF assms(1)]
      converge_dry_same [OF assms(1)]
    by (cases a) (simp_all add: run_def Inr cmd_simps Let_def)
qed

theorem dry_run_only_reads_witness:
  "run (sample_env Suc) (\<lambda>_. Inr []) (sample_args True) 5 (cmd_ret ()) =
   run (sample_env id) (\<lambda>_. Inr []) (sample_args True) 5 (cmd_ret ())
   \<and> execute_moves (sample_env Suc) [] \<noteq> execute_moves (sample_env id) []"
proof -
  have "execute_moves (sample_env Suc) [] 0 \<noteq> execute_moves (sample_env id) [] 0"
    by (simp add: execute_moves_def execute_moves_from.simps sample_env_def)
  moreover have "ca_dry_run (ra_confirm (sample_args True))" by (simp add: sample_args_def)
  ultimately show ?thesis using dry_run_only_reads [OF sample_same_reads] by metis
qed

text \<open>C4. Without \<open>--yes\<close> and a prompt answered with yes, the command only reads, with the exception of a
  \<open>--verify\<close> that may clear the throttles.\<close>

theorem unconfirmed_only_reads:
  assumes "same_reads env env'" and "env_terminal env = env_terminal env'"
    and "unconfirmed (ra_confirm self) (env_terminal env)"
    and "\<not> ra_verify self \<or> ra_preserve_throttles self"
  shows "run env read self timeout connect = run env' read self timeout connect"
proof (cases "validate self")
  case (Inl e)
  then show ?thesis by (simp add: run_def cmd_simps)
next
  case (Inr a)
  have preserve: "preserve" if "a = Act_Verify path preserve" for path preserve
  proof -
    have "''verify'' \<in> set (chosen_actions self)" using validate_Inr(1) [OF Inr] that by simp
    then have "ra_verify self" by (auto simp: chosen_actions_def split: if_splits)
    with assms(4) have "ra_preserve_throttles self" by simp
    moreover have "preserve = ra_preserve_throttles self"
      using Inr that by (auto simp: validate_def validate_replication_factor_def action_of_def Let_def
          split: list.splits option.splits if_splits)
    ultimately show ?thesis by simp
  qed
  have "env_from_str env = env_from_str env'" and "env_to_str env = env_to_str env'"
    using assms(1) by (simp_all add: same_reads_def)
  then show ?thesis
    using preserve execute_unconfirmed_same [OF assms(1) _ assms(2)] cancel_unconfirmed_same [OF assms(1) _ assms(2)]
      converge_unconfirmed_same [OF assms(1,3,2)] reads_same(9) [OF assms(1)] list_generate_same [OF assms(1)]
      verify_preserve_same [OF assms(1)] assms(3)
    by (cases a) (simp_all add: run_def Inr cmd_simps Let_def)
qed

theorem unconfirmed_only_reads_witness:
  "run (sample_env Suc) (\<lambda>_. Inr []) (sample_args False) 5 (cmd_ret ()) =
   run (sample_env id) (\<lambda>_. Inr []) (sample_args False) 5 (cmd_ret ())"
  by (rule unconfirmed_only_reads [OF sample_same_reads])
    (simp_all add: sample_env_def sample_args_def unconfirmed_def)

text \<open>C33. Starting the log dir moves ends, once the clock has run out at some attempt, whatever the brokers
  answer about the replicas asked for; when it does not fail, every move is reported exactly
  once.\<close>

theorem execute_moves_ends:
  assumes "answers_pending env" and "env_expired env n" and "bt_ok moves"
  shows "\<exists>lines failed st'. execute_moves env moves st = Some (Inr (lines, failed), st')
    \<and> (\<not> failed \<longrightarrow> mset lines = mset (move_lines moves))"
proof -
  have "execute_moves_from env 0 moves [] st \<noteq> None"
    by (rule execute_moves_from_returns [OF assms(1), of 0 n]) (simp add: assms(2))
  then obtain lines failed st' where r: "execute_moves_from env 0 moves [] st = Some ((lines, failed), st')"
    by auto
  moreover have "mset lines = mset (move_lines moves)" if "\<not> failed"
    using execute_moves_from_success [of env 0 moves "[]" st lines st'] r that assms(3) by simp
  ultimately show ?thesis by (auto simp: execute_moves_def)
qed

theorem execute_moves_ends_witness:
  "\<exists>lines failed st'. execute_moves (sample_env Suc) [(Replica 1 ''t'' 0, ''/d'')] 0 = Some (Inr (lines, failed), st')
    \<and> (\<not> failed \<longrightarrow> mset lines = mset (move_lines [(Replica 1 ''t'' 0, ''/d'')]))"
proof (rule execute_moves_ends)
  show "answers_pending (sample_env Suc)" by (force simp: answers_pending_def sample_env_def)
  show "env_expired (sample_env Suc) 3" by (simp add: sample_env_def)
qed simp

lemma unknown_broker_ok:
  "unknown_broker proposed nodes = Inr () \<longleftrightarrow> list_all (\<lambda>(_, replicas). set replicas \<subseteq> node_id ` set nodes) proposed"
proof -
  let ?unknown = "\<lambda>i. \<not> list_ex (\<lambda>node. node_id node = i) nodes"
  have "unknown_broker proposed nodes = Inr () \<longleftrightarrow>
      List.find ?unknown (hash_set_order (concat (map snd proposed)) integer_hash) = None"
    by (simp add: unknown_broker_def split: option.splits)
  also have "\<dots> \<longleftrightarrow> (\<forall>i \<in> set (concat (map snd proposed)). i \<in> node_id ` set nodes)"
    unfolding find_None_iff hash_set_order_set list_ex_iff image_iff by metis
  finally show ?thesis by (fastforce simp: list_all_iff)
qed

lemma cmd_admin_Inr_iff: "cmd_admin call st = Some (Inr x, st') \<longleftrightarrow> call st = (Inr x, st')"
  by (auto simp: cmd_admin_def map_sum_def split: prod.splits sum.splits)

lemma set_put_node: "set (put_node node nodes) \<subseteq> insert node (set nodes)"
  by (induction nodes) auto

lemma set_put_nodes: "set (foldl (\<lambda>unique node. put_node node unique) known nodes) \<subseteq> set known \<union> set nodes"
proof (induction nodes arbitrary: known)
  case (Cons n nodes)
  show ?case using Cons [of "put_node n known"] set_put_node [of n known] by auto
qed simp

lemma set_node_order: "set (node_order nodes) \<subseteq> set nodes"
  using set_put_nodes [of "[]" nodes] by (simp add: node_order_def ho.order_set)

lemma cluster_nodes_listed:
  assumes "cluster_nodes env fenced st = Some (Inr nodes, st')"
  shows "\<exists>listed. env_describe_cluster env fenced st = (Inr listed, st') \<and> set nodes \<subseteq> set listed"
  using assms set_node_order
  by (auto simp: cluster_nodes_def cmd_bind_Inr_iff cmd_admin_Inr_iff cmd_ret_iff)

lemma bt_of_list_Nil_iff: "bt_of_list xs = [] \<longleftrightarrow> xs = []"
  using fst_set_bt_of_list [of xs] by (metis image_is_empty set_empty)

lemma active_reassignments_none:
  assumes "active_reassignments env f timeout st = Some (Inr [], st')"
  shows "env_list_reassignments env f timeout st = (Inr [], st')"
proof -
  obtain listed where l: "env_list_reassignments env f timeout st = (Inr listed, st')"
      "[] = bt_of_list (map (\<lambda>a. (TopicPartition (pa_topic a) (pa_partition a), a)) listed)"
    using assms by (auto simp: active_reassignments_def cmd_bind_Inr_iff cmd_admin_Inr_iff cmd_ret_iff)
  from l(2) have "listed = []" unfolding eq_commute [of "[]"] bt_of_list_Nil_iff by simp
  with l(1) show ?thesis by simp
qed


lemma cmd_if_fail_Inr_iff:
  "(if c then cmd_fail e else m) st = Some (Inr x, st') \<longleftrightarrow> \<not> c \<and> m st = Some (Inr x, st')"
  by (simp add: cmd_fail_not_Inr)

lemmas cmd_Inr_iffs = cmd_bind_Inr_iff cmd_try_Inr_iff cmd_ret_iff cmd_if_fail_Inr_iff

lemma execute_plan_steps:
  assumes "execute_plan env file options st = Some (Inr pl, st')"
  shows "\<exists>active nodes current st1 st2 st3.
    check_execute file = Inr ()
    \<and> active_reassignments env [] (eo_timeout options) st = Some (Inr active, st1)
    \<and> (eo_additional options \<or> active = [])
    \<and> cluster_nodes env False st1 = Some (Inr nodes, st2)
    \<and> unknown_broker (bt_of_list (targets file)) nodes = Inr ()
    \<and> partition_replicas env (map fst (bt_of_list (targets file))) st2 = Some (Inr current, st3)
    \<and> ep_proposed pl = bt_of_list (targets file) \<and> ep_moves pl = log_dir_moves file"
  using assms unfolding execute_plan_def Let_def cmd_Inr_iffs
  by (elim exE conjE) fastforce

text \<open>A plan of one partition on a cluster of two brokers.\<close>

definition two_broker_env :: "nat Env" where
  "two_broker_env = (sample_env Suc)\<lparr>
     env_describe_cluster := (\<lambda>_ st. (Inr [\<lparr>node_id = 1, node_rack = None\<rparr>, \<lparr>node_id = 2, node_rack = None\<rparr>], st)),
     env_describe_assignments := (\<lambda>_ st. (Inr [\<lparr>pa_topic = ''t'', pa_partition = 0, pa_replicas = [1],
       pa_adding = [], pa_removing = []\<rparr>], st))\<rparr>"

definition one_target :: ReassignmentFile where
  "one_target = [\<lparr>pt_partition = TopicPartition ''t'' 0, pt_replicas = [2], pt_log_dirs = [''any'']\<rparr>]"

definition plain_options :: ExecuteOptions where
  "plain_options = \<lparr>eo_additional = False, eo_throttle = -1, eo_log_dir_throttle = -1, eo_disallow_rf_change = False,
     eo_timeout = 5, eo_confirm = \<lparr>ca_dry_run = False, ca_yes = True\<rparr>\<rparr>"

definition succeeds :: "(('e + 'a) \<times> 'c) option \<Rightarrow> bool" where
  "succeeds r = (case r of Some (Inr _, _) \<Rightarrow> True | _ \<Rightarrow> False)"

lemma succeeds_iff: "succeeds r \<longleftrightarrow> (\<exists>x st. r = Some (Inr x, st))"
  by (auto simp: succeeds_def split: option.splits sum.splits)

text \<open>C32. The plan that \<open>--execute\<close> acts on has the partitions of a file that passed the checks, each of
  which exists, and only brokers that the cluster lists; a reassignment in progress is
  accepted only with \<open>--additional\<close>.\<close>

theorem execute_plan_sound:
  assumes "execute_plan env file options st = Some (Inr pl, st')"
  shows "check_execute file = Inr () \<and> ep_proposed pl = bt_of_list (targets file) \<and> ep_moves pl = log_dir_moves file
    \<and> (eo_additional options \<or> (\<exists>st1. env_list_reassignments env [] (eo_timeout options) st = (Inr [], st1)))
    \<and> (\<exists>listed st1 st2. env_describe_cluster env False st1 = (Inr listed, st2)
         \<and> list_all (\<lambda>(_, replicas). set replicas \<subseteq> node_id ` set listed) (ep_proposed pl))
    \<and> (\<exists>current st1 st2. topic_replicas env (bs_of_list (map (tp_topic \<circ> fst) (ep_proposed pl))) st1 = Some (Inr current, st2)
         \<and> list_all (\<lambda>(p, _). map_of current p \<noteq> None) (ep_proposed pl))"
proof -
  obtain active nodes current st1 st2 st3 where p: "check_execute file = Inr ()"
      "active_reassignments env [] (eo_timeout options) st = Some (Inr active, st1)"
      "eo_additional options \<or> active = []" "cluster_nodes env False st1 = Some (Inr nodes, st2)"
      "unknown_broker (bt_of_list (targets file)) nodes = Inr ()"
      "partition_replicas env (map fst (bt_of_list (targets file))) st2 = Some (Inr current, st3)"
    and pl: "ep_proposed pl = bt_of_list (targets file)" "ep_moves pl = log_dir_moves file"
    using execute_plan_steps [OF assms] by blast
  obtain listed where l: "env_describe_cluster env False st1 = (Inr listed, st2)" "set nodes \<subseteq> set listed"
    using cluster_nodes_listed [OF p(4)] by blast
  have "list_all (\<lambda>(_, replicas). set replicas \<subseteq> node_id ` set listed) (ep_proposed pl)"
    using p(5) l(2) unfolding pl unknown_broker_ok list_all_iff by fastforce
  then have brokers: "\<exists>listed st1 st2. env_describe_cluster env False st1 = (Inr listed, st2)
      \<and> list_all (\<lambda>(_, replicas). set replicas \<subseteq> node_id ` set listed) (ep_proposed pl)"
    using l(1) by blast
  obtain everything where "topic_replicas env (bs_of_list (map tp_topic (map fst (ep_proposed pl)))) st2 =
      Some (Inr everything, st3)" "missing_partitions (map fst (ep_proposed pl)) everything = Inr ()"
    using p(6) by (auto simp: partition_replicas_def Let_def cmd_Inr_iffs pl)
  moreover from this(2) have "list_all (\<lambda>(p, _). map_of everything p \<noteq> None) (ep_proposed pl)"
    unfolding missing_partitions_ok list_all_iff by fastforce
  ultimately have "\<exists>current st1 st2. topic_replicas env (bs_of_list (map (tp_topic \<circ> fst) (ep_proposed pl))) st1 = Some (Inr current, st2)
      \<and> list_all (\<lambda>(p, _). map_of current p \<noteq> None) (ep_proposed pl)"
    by (metis map_map)
  moreover have "eo_additional options \<or> (\<exists>st1. env_list_reassignments env [] (eo_timeout options) st = (Inr [], st1))"
    using p(2,3) active_reassignments_none [of env "[]" "eo_timeout options" st st1] by auto
  ultimately show ?thesis using p(1) pl brokers by blast
qed

theorem execute_plan_sound_witness:
  "\<exists>pl st'. execute_plan two_broker_env one_target plain_options 0 = Some (Inr pl, st')
    \<and> check_execute one_target = Inr () \<and> ep_proposed pl = bt_of_list (targets one_target)"
proof -
  have "succeeds (execute_plan two_broker_env one_target plain_options 0)" by code_simp
  then obtain pl st' where "execute_plan two_broker_env one_target plain_options 0 = Some (Inr pl, st')"
    by (auto simp: succeeds_iff)
  with execute_plan_sound [OF this] show ?thesis by blast
qed

text \<open>After the partitions of a plan were found, the moves of the plan can be computed: the error of a
  partition without replicas is not reachable from \<open>--execute\<close>.\<close>

theorem execute_moves_defined:
  assumes "partition_replicas env (map fst proposed) st = Some (Inr current, st')" and "bt_ok proposed"
  shows "\<exists>moves. MoveMap_proposed active proposed current = Inr moves"
proof (cases "MoveMap_proposed active proposed current")
  case (Inl e)
  then obtain tp where "tp \<in> fst ` set proposed" "sources_of current (active_moves active) tp = None"
    using add_proposed_outcome [OF active_moves_ok bt_ok_distinct [OF assms(2)], of current active]
    by (auto simp: MoveMap_proposed_def)
  moreover from this(1) have "map_of current tp \<noteq> None" using partition_replicas_found [OF assms(1)] by simp
  ultimately show ?thesis by (auto simp: sources_of_def split: option.splits)
qed simp

theorem execute_moves_defined_witness:
  "\<exists>current moves st'. partition_replicas two_broker_env [TopicPartition ''t'' 0] 0 = Some (Inr current, st')
    \<and> MoveMap_proposed [] [(TopicPartition ''t'' 0, [2])] current = Inr moves"
proof -
  have "succeeds (partition_replicas two_broker_env [TopicPartition ''t'' 0] 0)" by code_simp
  then obtain current st' where c: "partition_replicas two_broker_env (map fst [(TopicPartition ''t'' 0, [2::int])]) 0 =
      Some (Inr current, st')"
    by (auto simp: succeeds_iff)
  have ok: "bt_ok [(TopicPartition ''t'' 0, [2::int])]" by simp
  show ?thesis using execute_moves_defined [OF c ok, of "[]"] c by auto
qed

lemma verify_steps:
  assumes "verify env file preserve timeout st = Some (Inr r, st')"
  shows "\<exists>active described mstates clearing st1 st2 st3.
    active_reassignments env [] timeout st = Some (Inr active, st1)
    \<and> topic_replicas env (bs_of_list (map (tp_topic \<circ> fst) (filter (\<lambda>(p, _). map_of active p = None) (targets file)))) st1 =
        Some (Inr described, st2)
    \<and> move_states env (log_dir_moves file) st2 = Some (Inr mstates, st3)
    \<and> (if active = [] \<and> list_all (move_done \<circ> snd) mstates \<and> \<not> preserve
       then clear_all_throttles env (targets file) False else cmd_ret []) st3 = Some (Inr clearing, st')
    \<and> (cr_failed r \<longleftrightarrow> \<not> list_all (move_done \<circ> snd) mstates
        \<or> list_ex (\<lambda>(_, s). \<not> ps_done s \<or> ps_current s \<noteq> ps_target s) (partition_states (targets file) active described))"
proof -
  have moved: "list_ex (\<lambda>(_, s). \<not> move_done s) ms \<longleftrightarrow> \<not> list_all (move_done \<circ> snd) ms" for ms :: "(Replica, MoveState) btmap"
    by (force simp: list_ex_iff list_all_iff)
  show ?thesis
    using assms unfolding verify_def Let_def cmd_Inr_iffs moved not_not
    by (elim exE conjE) (fastforce simp: result_rows_def)
qed

lemma list_all_bt:
  assumes "bt_ok m"
  shows "list_all P m \<longleftrightarrow> (\<forall>k v. map_of m k = Some v \<longrightarrow> P (k, v))"
  using bt_ok_distinct [OF assms] by (auto simp: list_all_iff)

lemma map_of_partition_states:
  "map_of (partition_states tgts active described) p =
     map_option (partition_state active described p) (map_of (rev tgts) p)"
proof -
  have "map_of (map (\<lambda>(tp, target). (tp, partition_state active described tp target)) xs) p =
      map_option (partition_state active described p) (map_of xs p)" for xs
    by (induction xs) auto
  then show ?thesis by (simp add: partition_states_def map_of_bt_of_list rev_map)
qed

lemma not_list_ex_pairs: "\<not> list_ex (\<lambda>(_, s). \<not> Q s) m \<longleftrightarrow> list_all (\<lambda>(_, s). Q s) m"
  by (induction m) auto

lemma all_map_option:
  "(\<forall>p s. map_option (f p) (g p) = Some s \<longrightarrow> Q s) \<longleftrightarrow> (\<forall>p t. g p = Some t \<longrightarrow> Q (f p t))"
  by auto

lemma partition_states_ok: "bt_ok (partition_states tgts active described)"
  by (simp add: partition_states_def)

lemma partition_state_complete:
  "ps_done (partition_state active described p target)
     \<and> ps_current (partition_state active described p target) = ps_target (partition_state active described p target) \<longleftrightarrow>
   map_of active p = None \<and> (case map_of described p of Some replicas \<Rightarrow> replicas | None \<Rightarrow> []) = target"
  by (simp add: partition_state_def split: option.split)

lemma partition_states_complete:
  "\<not> list_ex (\<lambda>(_, s). \<not> ps_done s \<or> ps_current s \<noteq> ps_target s) (partition_states tgts active described) \<longleftrightarrow>
     (\<forall>p target. map_of (rev tgts) p = Some target \<longrightarrow>
        map_of active p = None \<and> (case map_of described p of Some replicas \<Rightarrow> replicas | None \<Rightarrow> []) = target)"
proof -
  let ?states = "partition_states tgts active described"
  have "\<not> list_ex (\<lambda>(_, s). \<not> ps_done s \<or> ps_current s \<noteq> ps_target s) ?states \<longleftrightarrow>
      list_all (\<lambda>(_, s). ps_done s \<and> ps_current s = ps_target s) ?states"
    unfolding de_Morgan_conj [symmetric] by (rule not_list_ex_pairs)
  also have "\<dots> \<longleftrightarrow> (\<forall>p s. map_of ?states p = Some s \<longrightarrow> ps_done s \<and> ps_current s = ps_target s)"
    unfolding list_all_bt [OF partition_states_ok] prod.case ..
  also have "\<dots> \<longleftrightarrow> (\<forall>p target. map_of (rev tgts) p = Some target \<longrightarrow>
      ps_done (partition_state active described p target)
      \<and> ps_current (partition_state active described p target) = ps_target (partition_state active described p target))"
    unfolding map_of_partition_states by (rule all_map_option)
  finally show ?thesis unfolding partition_state_complete .
qed

text \<open>C34. \<open>--verify\<close> succeeds exactly when every partition of the file has its target replicas and no
  reassignment, and every log dir move of the file is done; and it leaves the throttles alone
  while any reassignment or move goes on, or under \<open>--preserve-throttles\<close>. For a partition named
  more than once the last entry of the file counts.\<close>

theorem verify_reports:
  assumes "verify env file preserve timeout st = Some (Inr r, st')"
  shows "\<exists>active described mstates st1 st2 st3.
    active_reassignments env [] timeout st = Some (Inr active, st1)
    \<and> topic_replicas env (bs_of_list (map (tp_topic \<circ> fst) (filter (\<lambda>(p, _). map_of active p = None) (targets file)))) st1 =
        Some (Inr described, st2)
    \<and> move_states env (log_dir_moves file) st2 = Some (Inr mstates, st3)
    \<and> (\<not> cr_failed r \<longleftrightarrow> list_all (move_done \<circ> snd) mstates
        \<and> (\<forall>p target. map_of (rev (targets file)) p = Some target \<longrightarrow>
             map_of active p = None \<and> (case map_of described p of Some replicas \<Rightarrow> replicas | None \<Rightarrow> []) = target))
    \<and> (active \<noteq> [] \<or> \<not> list_all (move_done \<circ> snd) mstates \<or> preserve \<longrightarrow> st' = st3)"
proof -
  obtain active described mstates clearing st1 st2 st3 where v:
      "active_reassignments env [] timeout st = Some (Inr active, st1)"
      "topic_replicas env (bs_of_list (map (tp_topic \<circ> fst) (filter (\<lambda>(p, _). map_of active p = None) (targets file)))) st1 =
        Some (Inr described, st2)"
      "move_states env (log_dir_moves file) st2 = Some (Inr mstates, st3)"
      "(if active = [] \<and> list_all (move_done \<circ> snd) mstates \<and> \<not> preserve
       then clear_all_throttles env (targets file) False else cmd_ret []) st3 = Some (Inr clearing, st')"
      "cr_failed r \<longleftrightarrow> \<not> list_all (move_done \<circ> snd) mstates
        \<or> list_ex (\<lambda>(_, s). \<not> ps_done s \<or> ps_current s \<noteq> ps_target s) (partition_states (targets file) active described)"
    using verify_steps [OF assms] by blast
  have "active \<noteq> [] \<or> \<not> list_all (move_done \<circ> snd) mstates \<or> preserve \<longrightarrow> st' = st3"
    using v(4) by (auto simp: cmd_ret_iff split: if_splits)
  moreover have "\<not> cr_failed r \<longleftrightarrow> list_all (move_done \<circ> snd) mstates
      \<and> \<not> list_ex (\<lambda>(_, s). \<not> ps_done s \<or> ps_current s \<noteq> ps_target s) (partition_states (targets file) active described)"
    using v(5) by blast
  ultimately show ?thesis using v(1-3) unfolding partition_states_complete by blast
qed

theorem verify_reports_witness:
  "\<exists>r st'. verify two_broker_env one_target True 5 0 = Some (Inr r, st')
    \<and> (\<exists>active st1. active_reassignments two_broker_env [] 5 0 = Some (Inr active, st1))"
proof -
  have "succeeds (verify two_broker_env one_target True 5 0)" by code_simp
  then obtain r st' where v: "verify two_broker_env one_target True 5 0 = Some (Inr r, st')"
    by (auto simp: succeeds_iff)
  show ?thesis using v verify_reports [OF v]
    by (elim exE conjE) (intro exI conjI, assumption+)
qed

end
