(* ===== verification/Reset_Plan.thy ===== *)
theory Reset_Plan
  imports Jvm Command_Monad
begin

text \<open>
  \<^verbatim>\<open>crates/krabka-cli/src/consumer_groups/reset.rs\<close>: the plan of \<^verbatim>\<open>--reset-offsets\<close>. A plan runs the lookup as a step of a client, whose later answers may differ from its
  earlier ones; an index of the code that panics is \<^const>\<open>cmd_index\<close> of \<^const>\<open>None\<close>.
\<close>

section \<open>The plan\<close>

type_synonym Partition = "string \<times> int"
type_synonym Plan = "(Partition \<times> int) list"

datatype Scenario =
    ToOffset int
  | ToEarliest
  | ToLatest
  | ToCurrent
  | ShiftBy int
  | ToDatetime int
  | ByDuration int
  | FromFile "(Partition, int) btmap option"

record Planned =
  pl_plan :: Plan
  pl_stdout :: "string list"
  pl_notices :: "string list"

datatype OffsetSpec =
    Spec_Earliest | Spec_Latest | Spec_MaxTimestamp | Spec_EarliestLocal | Spec_LatestTiered
  | Spec_EarliestPendingUpload | Spec_ForTimestamp int

text \<open>\<open>OffsetLookup\<close>: the offset of each partition that is known, or its error code.\<close>

type_synonym PartitionOffset = "int + int"
type_synonym 'c OffsetLookup = "Partition list \<Rightarrow> OffsetSpec \<Rightarrow> ('c, (Partition, PartitionOffset) btmap) cmd"

definition partition_name :: "Partition \<Rightarrow> string" where
  "partition_name = (\<lambda>(topic, p). topic @ ''-'' @ show_int p)"

definition ordered :: "Plan \<Rightarrow> Plan" where
  "ordered offsets = hash_order offsets Default (\<lambda>((topic, p), _). topic_partition_hash topic p)"

definition known :: "(Partition, PartitionOffset) btmap \<Rightarrow> (Partition, int) btmap res" where
  "known answers =
     collect_res (\<lambda>(p, answer). case answer of
       Inr offset \<Rightarrow> Inr (p, offset)
     | Inl code \<Rightarrow> Inl (to_java_string (for_code code))) answers"

definition required :: "'c OffsetLookup \<Rightarrow> Partition list \<Rightarrow> OffsetSpec \<Rightarrow> string \<Rightarrow> ('c, (Partition, int) btmap) cmd" where
  "required lookup partitions spec missing =
     cmd_bind (lookup partitions spec) (\<lambda>answers.
     cmd_bind (cmd_try (known answers)) (\<lambda>offsets.
     case List.find (\<lambda>p. map_of offsets p = None) partitions of
       Some p \<Rightarrow> cmd_fail (ErrOther (missing @ partition_name p))
     | None \<Rightarrow> cmd_ret offsets))"

definition higher_notice :: "int \<Rightarrow> Partition \<Rightarrow> int \<Rightarrow> string" where
  "higher_notice offset p end_offset =
     ''WARN New offset ('' @ show_int offset @ '') is higher than latest offset for topic partition '' @ partition_name p @
     ''. Value will be set to '' @ show_int end_offset"

definition lower_notice :: "int \<Rightarrow> Partition \<Rightarrow> int \<Rightarrow> string" where
  "lower_notice offset p start =
     ''WARN New offset ('' @ show_int offset @ '') is lower than earliest offset for topic partition '' @ partition_name p @
     ''. Value will be set to '' @ show_int start"

definition clamp_one :: "int option \<Rightarrow> int \<Rightarrow> Partition \<Rightarrow> int \<Rightarrow> int \<times> string list" where
  "clamp_one start end_offset p offset =
     (if end_offset < offset then (end_offset, [higher_notice offset p end_offset])
      else case start of
             Some start \<Rightarrow> if offset < start then (start, [lower_notice offset p start]) else (offset, [])
           | None \<Rightarrow> (offset, []))"

fun clamp_all :: "(Partition, int) btmap \<Rightarrow> (Partition, int) btmap \<Rightarrow> (Partition \<times> int) list \<Rightarrow> (Plan \<times> string list) res" where
  "clamp_all starts ends [] = Inr ([], [])"
| "clamp_all starts ends ((p, offset) # requested) =
     res_bind (ok_or (''Unexpected non-existing offset value for topic partition '' @ partition_name p) (map_of ends p)) (\<lambda>end_offset.
     let (offset, notices) = clamp_one (map_of starts p) end_offset p offset
     in res_bind (clamp_all starts ends requested) (\<lambda>(plan, more). Inr ((p, offset) # plan, notices @ more)))"

definition clamped :: "'c OffsetLookup \<Rightarrow> (Partition, int) btmap \<Rightarrow> ('c, Plan \<times> string list) cmd" where
  "clamped lookup requested =
     (let partitions = map fst requested
      in cmd_bind (lookup partitions Spec_Earliest) (\<lambda>answers.
         cmd_bind (cmd_try (known answers)) (\<lambda>starts.
         cmd_bind (lookup partitions Spec_Latest) (\<lambda>answers.
         cmd_bind (cmd_try (known answers)) (\<lambda>ends.
         cmd_bind (cmd_try (clamp_all starts ends requested)) (\<lambda>(plan, notices). cmd_ret (ordered plan, notices)))))))"

definition TIMESTAMP_MISSING :: string where
  "TIMESTAMP_MISSING = ''Error getting offset by timestamp of topic partition: ''"

definition STARTING_MISSING :: string where
  "STARTING_MISSING = ''Error getting starting offset of topic partition: ''"

definition ENDING_MISSING :: string where
  "ENDING_MISSING = ''Error getting ending offset of topic partition: ''"

fun index_all :: "(Partition \<Rightarrow> int option) \<Rightarrow> Partition list \<Rightarrow> ('c, Plan) cmd" where
  "index_all f [] = cmd_ret []"
| "index_all f (p # ps) =
     cmd_bind (cmd_index (f p)) (\<lambda>offset. cmd_bind (index_all f ps) (\<lambda>plan. cmd_ret ((p, offset) # plan)))"

definition empty_warning :: "Partition \<Rightarrow> string list" where
  "empty_warning = (\<lambda>(topic, p).
     [[], ''Warn: Partition '' @ show_int p @ '' from topic '' @ topic @ '' is empty. Falling back to latest known offset.''])"

definition by_timestamp :: "'c OffsetLookup \<Rightarrow> Partition list \<Rightarrow> int \<Rightarrow> ('c, Plan \<times> string list) cmd" where
  "by_timestamp lookup partitions timestamp =
     cmd_bind (required lookup partitions (Spec_ForTimestamp timestamp) TIMESTAMP_MISSING) (\<lambda>found.
     let empty = filter (\<lambda>p. map_of found p = Some (-1)) partitions;
         stdout = concat (map empty_warning empty)
     in cmd_bind (if empty = [] then cmd_ret [] else required lookup empty Spec_Latest TIMESTAMP_MISSING) (\<lambda>ends.
        cmd_bind (index_all (\<lambda>p. case map_of found p of
            Some offset \<Rightarrow> if offset = -1 then map_of ends p else Some offset | None \<Rightarrow> None) partitions) (\<lambda>plan.
        cmd_ret (ordered plan, stdout))))"

definition shifted :: "(Partition, int) btmap \<Rightarrow> int \<Rightarrow> Partition \<Rightarrow> (Partition \<times> int) res" where
  "shifted committed shift p =
     map_sum id (\<lambda>current. (p, saturating_add_i64 current shift))
       (ok_or (''Cannot shift offset for partition '' @ partition_name p @ '' since there is no current committed offset'')
         (map_of committed p))"

definition to_current :: "'c OffsetLookup \<Rightarrow> (Partition, int) btmap \<Rightarrow> Partition list \<Rightarrow> ('c, Plan) cmd" where
  "to_current lookup committed partitions =
     (let present = filter (\<lambda>p. map_of committed p \<noteq> None) partitions;
          absent = filter (\<lambda>p. map_of committed p = None) partitions
      in cmd_bind (index_all (map_of committed) present) (\<lambda>offsets.
         cmd_bind (if absent = [] then cmd_ret offsets
                   else cmd_bind (required lookup absent Spec_Latest ENDING_MISSING) (\<lambda>ends.
                     cmd_ret (offsets @ filter (\<lambda>(p, _). p \<in> set absent) ends))) (\<lambda>offsets.
         cmd_ret (ordered offsets))))"

definition clamped_plan :: "'c OffsetLookup \<Rightarrow> (Partition, int) btmap \<Rightarrow> ('c, Planned) cmd" where
  "clamped_plan lookup requested =
     cmd_bind (clamped lookup requested) (\<lambda>(plan, notices). cmd_ret \<lparr>pl_plan = plan, pl_stdout = [], pl_notices = notices\<rparr>)"

definition filtered_plan :: "'c OffsetLookup \<Rightarrow> Partition list \<Rightarrow> OffsetSpec \<Rightarrow> string \<Rightarrow> ('c, Planned) cmd" where
  "filtered_plan lookup partitions spec missing =
     cmd_bind (required lookup partitions spec missing) (\<lambda>offsets.
     cmd_ret \<lparr>pl_plan = ordered (filter (\<lambda>(p, _). p \<in> set partitions) offsets), pl_stdout = [], pl_notices = []\<rparr>)"

definition timestamp_plan :: "'c OffsetLookup \<Rightarrow> Partition list \<Rightarrow> int \<Rightarrow> ('c, Planned) cmd" where
  "timestamp_plan lookup partitions timestamp =
     cmd_bind (by_timestamp lookup partitions timestamp) (\<lambda>(plan, stdout).
     cmd_ret \<lparr>pl_plan = plan, pl_stdout = stdout, pl_notices = []\<rparr>)"

fun reset_plan :: "Scenario \<Rightarrow> string \<Rightarrow> Partition list \<Rightarrow> (Partition, int) btmap \<Rightarrow> 'c OffsetLookup \<Rightarrow> ('c, Planned) cmd" where
  "reset_plan (ToOffset offset) group_id partitions committed lookup =
     clamped_plan lookup (bt_of_list (map (\<lambda>p. (p, offset)) partitions))"
| "reset_plan ToEarliest group_id partitions committed lookup = filtered_plan lookup partitions Spec_Earliest STARTING_MISSING"
| "reset_plan ToLatest group_id partitions committed lookup = filtered_plan lookup partitions Spec_Latest ENDING_MISSING"
| "reset_plan (ShiftBy shift) group_id partitions committed lookup =
     cmd_bind (cmd_try (collect_res (shifted committed shift) partitions)) (\<lambda>requested.
     clamped_plan lookup (bt_of_list requested))"
| "reset_plan (ToDatetime timestamp) group_id partitions committed lookup = timestamp_plan lookup partitions timestamp"
| "reset_plan (ByDuration timestamp) group_id partitions committed lookup = timestamp_plan lookup partitions timestamp"
| "reset_plan (FromFile None) group_id partitions committed lookup =
     cmd_ret \<lparr>pl_plan = [], pl_stdout = [[], ''Error: No reset plan for group '' @ group_id @ '' found''], pl_notices = []\<rparr>"
| "reset_plan (FromFile (Some requested)) group_id partitions committed lookup = clamped_plan lookup requested"
| "reset_plan ToCurrent group_id partitions committed lookup =
     cmd_bind (to_current lookup committed partitions) (\<lambda>plan.
     cmd_ret \<lparr>pl_plan = plan, pl_stdout = [], pl_notices = []\<rparr>)"

section \<open>What a plan sets\<close>

lemma mset_ordered: "mset (ordered xs) = mset xs"
  by (simp add: ordered_def ho.order_mset)

lemma mset_fst_ordered: "mset (map fst (ordered xs)) = mset (map fst xs)"
  by (simp only: mset_map mset_ordered)

lemma set_ordered [simp]: "set (ordered xs) = set xs"
  by (metis mset_ordered set_mset_mset)

lemma distinct_ordered [simp]: "distinct (map fst (ordered xs)) \<longleftrightarrow> distinct (map fst xs)"
  by (metis mset_ordered mset_eq_imp_distinct_iff mset_map)

text \<open>A plan whose offsets are a function of the partition has that offset for each of its partitions, in any order.\<close>

lemma map_of_plan:
  assumes "\<And>p offset. (p, offset) \<in> set xs \<Longrightarrow> g p = Some offset"
  shows "map_of (ordered xs) p = (if p \<in> fst ` set xs then g p else None)"
  using map_of_functional [of "ordered xs" g p] assms by simp

lemma map_keyed_id_iff:
  assumes "distinct (map fst m)"
  shows "map (\<lambda>(k, v). (k, f k v)) m = m \<longleftrightarrow> map_of (map (\<lambda>(k, v). (k, f k v)) m) = map_of m"
proof
  assume eq: "map_of (map (\<lambda>(k, v). (k, f k v)) m) = map_of m"
  have "f k v = v" if "(k, v) \<in> set m" for k v
    using fun_cong [OF eq, of k] map_of_is_SomeI [OF assms that] by (simp add: map_of_map_val)
  then show "map (\<lambda>(k, v). (k, f k v)) m = m" by (intro map_idI) auto
qed simp

lemma known_Inr_iff: "known answers = Inr offsets \<longleftrightarrow> answers = map (\<lambda>(p, offset). (p, Inr offset)) offsets"
proof
  assume "known answers = Inr offsets"
  then have "list_all2 (\<lambda>(p, answer) (q, offset). p = q \<and> answer = Inr offset) answers offsets"
    unfolding known_def collect_res_Inr_iff
    by (rule list.rel_mono_strong) (auto split: sum.splits)
  then show "answers = map (\<lambda>(p, offset). (p, Inr offset)) offsets"
    by (induction rule: list_all2_induct) auto
next
  assume "answers = map (\<lambda>(p, offset). (p, Inr offset)) offsets"
  then show "known answers = Inr offsets"
    unfolding known_def by (auto simp: collect_res_Inr_iff list.rel_map intro!: list.rel_refl)
qed

lemma map_of_known: "known answers = Inr offsets \<Longrightarrow> map_of answers p = map_option Inr (map_of offsets p)"
  by (simp add: known_Inr_iff map_of_map)

definition clamp_offset :: "int option \<Rightarrow> int \<Rightarrow> int \<Rightarrow> int" where
  "clamp_offset start end_offset offset =
     (if end_offset < offset then end_offset else case start of Some s \<Rightarrow> max s offset | None \<Rightarrow> offset)"

lemma fst_clamp_one: "fst (clamp_one start end_offset p offset) = clamp_offset start end_offset offset"
  by (auto simp: clamp_one_def clamp_offset_def max_def split: option.splits)

lemma snd_clamp_one: "snd (clamp_one start end_offset p offset) = [] \<longleftrightarrow> clamp_offset start end_offset offset = offset"
  by (auto simp: clamp_one_def clamp_offset_def split: option.splits)

lemma clamp_all_Inr:
  "clamp_all starts ends requested = Inr (plan, notices) \<Longrightarrow>
     plan = map (\<lambda>(p, offset). (p, clamp_offset (map_of starts p) (the (map_of ends p)) offset)) requested
     \<and> (\<forall>p \<in> fst ` set requested. map_of ends p \<noteq> None) \<and> (notices = [] \<longleftrightarrow> plan = requested)"
proof (induction requested arbitrary: plan notices)
  case (Cons q requested)
  obtain p offset where q: "q = (p, offset)" by (cases q)
  from Cons.prems obtain e plan' more where e: "map_of ends p = Some e"
    and rest: "clamp_all starts ends requested = Inr (plan', more)"
    and plan: "plan = (p, fst (clamp_one (map_of starts p) e p offset)) # plan'"
    and notices: "notices = snd (clamp_one (map_of starts p) e p offset) @ more"
    by (auto simp: q res_simps Let_def case_prod_unfold)
  from Cons.IH [OF rest] show ?case
    using e plan notices by (simp add: q fst_clamp_one snd_clamp_one)
qed simp

lemma clamp_all_total:
  "\<forall>p \<in> fst ` set requested. map_of ends p \<noteq> None \<Longrightarrow> \<exists>plan notices. clamp_all starts ends requested = Inr (plan, notices)"
proof (induction requested)
  case (Cons q requested)
  then obtain plan notices where "clamp_all starts ends requested = Inr (plan, notices)" by auto
  with Cons.prems show ?case by (cases q) (auto simp: Let_def case_prod_unfold)
qed simp

text \<open>The offset that a clamping scenario asks for.\<close>

fun requested_offset :: "Scenario \<Rightarrow> Partition list \<Rightarrow> (Partition, int) btmap \<Rightarrow> Partition \<Rightarrow> int option" where
  "requested_offset (ToOffset offset) partitions committed p = (if p \<in> set partitions then Some offset else None)"
| "requested_offset (ShiftBy shift) partitions committed p =
     (if p \<in> set partitions then map_option (\<lambda>current. saturating_add_i64 current shift) (map_of committed p) else None)"
| "requested_offset (FromFile (Some requested)) partitions committed p = map_of requested p"
| "requested_offset _ partitions committed p = None"

fun clamps :: "Scenario \<Rightarrow> bool" where
  "clamps (ToOffset offset) = True"
| "clamps (ShiftBy shift) = True"
| "clamps (FromFile (Some requested)) = bt_ok requested"
| "clamps _ = False"

lemma collect_shifted:
  "collect_res (shifted committed shift) partitions = Inr requested \<Longrightarrow>
     requested = map (\<lambda>p. (p, saturating_add_i64 (the (map_of committed p)) shift)) partitions
     \<and> (\<forall>p \<in> set partitions. map_of committed p \<noteq> None)"
proof (induction partitions arbitrary: requested)
  case (Cons p partitions)
  then show ?case by (cases "map_of committed p") (auto simp: res_simps shifted_def)
qed simp

lemma map_of_same_value: "map_of (bt_of_list (map (\<lambda>p. (p, g p)) ps)) p = (if p \<in> set ps then Some (g p) else None)"
proof -
  have "map_of (rev (map (\<lambda>p. (p, g p)) ps)) p =
      (if p \<in> fst ` set (rev (map (\<lambda>p. (p, g p)) ps)) then Some (g p) else None)"
    by (rule map_of_functional) auto
  moreover have "fst ` set (rev (map (\<lambda>p. (p, g p)) ps)) = set ps" by (simp add: image_image)
  ultimately show ?thesis by (simp only: map_of_bt_of_list)
qed

lemma clamped_scenario:
  assumes "clamps scenario" and "reset_plan scenario group_id partitions committed lookup st = Some (Inr planned, st')"
  obtains requested where "bt_ok requested" and "map_of requested = requested_offset scenario partitions committed"
    and "clamped_plan lookup requested st = Some (Inr planned, st')"
proof -
  note rules = cmd_Inr_iff
  consider (offset) offset where "scenario = ToOffset offset" | (shift) shift where "scenario = ShiftBy shift"
    | (plans) requested where "scenario = FromFile (Some requested)"
    using assms(1) by (cases scenario rule: clamps.cases) auto
  then show thesis
  proof cases
    case offset
    show thesis
      by (rule that [of "bt_of_list (map (\<lambda>p. (p, offset)) partitions)"])
        (use assms offset in \<open>auto simp: map_of_same_value fun_eq_iff\<close>)
  next
    case shift
    with assms(2) obtain requested where r: "collect_res (shifted committed shift) partitions = Inr requested"
      and run: "clamped_plan lookup (bt_of_list requested) st = Some (Inr planned, st')"
      by (auto simp: rules)
    show thesis
      by (rule that [of "bt_of_list requested", OF _ _ run])
        (use collect_shifted [OF r] shift in \<open>auto simp: map_of_same_value fun_eq_iff\<close>)
  next
    case plans
    show thesis by (rule that [of requested]) (use assms plans in auto)
  qed
qed

text \<open>C23. A scenario that names offsets (\<^verbatim>\<open>--to-offset\<close>, \<^verbatim>\<open>--shift-by\<close>, \<^verbatim>\<open>--from-file\<close>) plans for exactly the partitions it names. The
  new offset of each lies in its log: it is the requested offset brought between the start and the end that the lookup
  answers (only below the end, where the lookup knows no start). There is no warning exactly when every partition gets the offset that was asked for.\<close>

theorem plan_within_log:
  assumes "clamps scenario" and "reset_plan scenario group_id partitions committed lookup st = Some (Inr planned, st')"
  shows "\<exists>ps starts ends st1.
    lookup ps Spec_Earliest st = Some (Inr starts, st1) \<and> lookup ps Spec_Latest st1 = Some (Inr ends, st')
    \<and> set ps = dom (requested_offset scenario partitions committed) \<and> distinct (map fst (pl_plan planned))
    \<and> dom (map_of (pl_plan planned)) = set ps
    \<and> (\<forall>p offset. map_of (pl_plan planned) p = Some offset \<longrightarrow>
          (\<exists>e r. map_of ends p = Some (Inr e) \<and> requested_offset scenario partitions committed p = Some r
             \<and> (map_of starts p = None \<longrightarrow> offset = min e r)
             \<and> (\<forall>s. map_of starts p = Some (Inr s) \<and> s \<le> e \<longrightarrow> s \<le> offset \<and> offset \<le> e \<and> offset = min e (max s r))))
    \<and> (pl_notices planned = [] \<longleftrightarrow> map_of (pl_plan planned) = requested_offset scenario partitions committed)"
proof -
  obtain requested where ok: "bt_ok requested" and req: "map_of requested = requested_offset scenario partitions committed"
    and run: "clamped_plan lookup requested st = Some (Inr planned, st')"
    using clamped_scenario [OF assms] .
  let ?ps = "map fst requested"
  from run obtain starts st1 starts' ends ends' plan where
      l1: "lookup ?ps Spec_Earliest st = Some (Inr starts, st1)" and k1: "known starts = Inr starts'"
    and l2: "lookup ?ps Spec_Latest st1 = Some (Inr ends, st')" and k2: "known ends = Inr ends'"
    and c: "clamp_all starts' ends' requested = Inr (plan, pl_notices planned)" and pl: "pl_plan planned = ordered plan"
    by (auto simp: clamped_plan_def clamped_def Let_def cmd_Inr_iff)
  let ?c = "\<lambda>p. clamp_offset (map_of starts' p) (the (map_of ends' p))"
  have plan: "plan = map (\<lambda>(p, offset). (p, ?c p offset)) requested"
    and ends: "\<forall>p \<in> fst ` set requested. map_of ends' p \<noteq> None" and notices: "pl_notices planned = [] \<longleftrightarrow> plan = requested"
    using clamp_all_Inr [OF c] by simp_all
  have keys: "map fst plan = ?ps" by (simp add: plan case_prod_unfold)
  have dist: "distinct ?ps" using bt_ok_distinct [OF ok] .
  have lookup_plan: "map_of (pl_plan planned) = map_of plan"
    using dist keys by (simp add: pl ho.order_map_of [OF mset_ordered])
  have value_of: "\<exists>e r. map_of ends p = Some (Inr e) \<and> map_of requested p = Some r
      \<and> (map_of starts p = None \<longrightarrow> offset = min e r)
      \<and> (\<forall>s. map_of starts p = Some (Inr s) \<and> s \<le> e \<longrightarrow> s \<le> offset \<and> offset \<le> e \<and> offset = min e (max s r))"
    if planned: "map_of plan p = Some offset" for p offset
  proof -
    from planned obtain r where r: "map_of requested p = Some r" and offset: "offset = ?c p r"
      by (auto simp: plan map_of_map_val)
    from ends map_of_SomeD [OF r] obtain e where e: "map_of ends' p = Some e" by force
    then have e': "map_of ends p = Some (Inr e)" by (simp add: map_of_known [OF k2])
    have "map_of starts p = map_option Inr (map_of starts' p)" by (rule map_of_known [OF k1])
    then show ?thesis
      using offset e e' r by (intro exI [of _ e] exI [of _ r]) (auto simp: clamp_offset_def split: option.splits)
  qed
  show ?thesis
  proof (intro exI conjI)
    show "lookup ?ps Spec_Earliest st = Some (Inr starts, st1)" "lookup ?ps Spec_Latest st1 = Some (Inr ends, st')"
      by (fact l1, fact l2)
    show "set ?ps = dom (requested_offset scenario partitions committed)"
      by (simp add: req [symmetric] dom_map_of_conv_image_fst)
    show "distinct (map fst (pl_plan planned))" using dist keys by (simp add: pl)
    show "dom (map_of (pl_plan planned)) = set ?ps"
      using keys by (metis lookup_plan dom_map_of_conv_image_fst set_map)
    show "pl_notices planned = [] \<longleftrightarrow> map_of (pl_plan planned) = requested_offset scenario partitions committed"
      using map_keyed_id_iff [OF dist, of ?c] by (simp add: notices lookup_plan req [symmetric] plan)
  qed (use value_of in \<open>simp add: lookup_plan req [symmetric]\<close>)
qed

section \<open>A plan against the offsets of a cluster\<close>

text \<open>A cluster whose partitions have the offsets \<open>f\<close>, as the lookup answers them.\<close>

type_synonym cluster_offsets = "OffsetSpec \<Rightarrow> Partition \<Rightarrow> PartitionOffset option"

definition table_lookup :: "cluster_offsets \<Rightarrow> 'c OffsetLookup" where
  "table_lookup f ps spec = cmd_ret (bt_of_list (map (\<lambda>p. (p, the (f spec p))) (filter (\<lambda>p. f spec p \<noteq> None) ps)))"

definition offset_at :: "cluster_offsets \<Rightarrow> OffsetSpec \<Rightarrow> Partition \<Rightarrow> int option" where
  "offset_at f spec p = (case f spec p of Some (Inr offset) \<Rightarrow> Some offset | _ \<Rightarrow> None)"

definition all_known :: "cluster_offsets \<Rightarrow> Partition set \<Rightarrow> bool" where
  "all_known f ps \<longleftrightarrow> (\<forall>p \<in> ps. \<forall>spec. \<exists>offset. f spec p = Some (Inr offset))"

text \<open>The requested offset brought into the log of the partition.\<close>

definition into_log :: "cluster_offsets \<Rightarrow> Partition \<Rightarrow> int \<Rightarrow> int option" where
  "into_log f p r = map_option (\<lambda>e. clamp_offset (offset_at f Spec_Earliest p) e r) (offset_at f Spec_Latest p)"

definition timestamp_target :: "cluster_offsets \<Rightarrow> int \<Rightarrow> Partition \<Rightarrow> int option" where
  "timestamp_target f timestamp p =
     (if offset_at f (Spec_ForTimestamp timestamp) p = Some (-1) then offset_at f Spec_Latest p
      else offset_at f (Spec_ForTimestamp timestamp) p)"

text \<open>The new offset that a scenario means for a partition, \<^const>\<open>None\<close> for a partition it leaves alone.\<close>

fun plan_target :: "cluster_offsets \<Rightarrow> Scenario \<Rightarrow> Partition list \<Rightarrow> (Partition, int) btmap \<Rightarrow> Partition \<Rightarrow> int option" where
  "plan_target f ToEarliest ps committed p = (if p \<in> set ps then offset_at f Spec_Earliest p else None)"
| "plan_target f ToLatest ps committed p = (if p \<in> set ps then offset_at f Spec_Latest p else None)"
| "plan_target f ToCurrent ps committed p =
     (if p \<in> set ps then case map_of committed p of Some offset \<Rightarrow> Some offset | None \<Rightarrow> offset_at f Spec_Latest p else None)"
| "plan_target f (ToDatetime timestamp) ps committed p = (if p \<in> set ps then timestamp_target f timestamp p else None)"
| "plan_target f (ByDuration timestamp) ps committed p = (if p \<in> set ps then timestamp_target f timestamp p else None)"
| "plan_target f scenario ps committed p = Option.bind (requested_offset scenario ps committed p) (into_log f p)"

fun plan_scope :: "Scenario \<Rightarrow> Partition list \<Rightarrow> Partition set" where
  "plan_scope (FromFile None) ps = {}"
| "plan_scope (FromFile (Some requested)) ps = fst ` set requested"
| "plan_scope _ ps = set ps"

text \<open>What a scenario needs of the group: the maps of a file are ordered, and a shift has committed offsets to shift.\<close>

fun plan_possible :: "Scenario \<Rightarrow> Partition list \<Rightarrow> (Partition, int) btmap \<Rightarrow> bool" where
  "plan_possible (FromFile (Some requested)) ps committed = bt_ok requested"
| "plan_possible (ShiftBy shift) ps committed = (\<forall>p \<in> set ps. map_of committed p \<noteq> None)"
| "plan_possible _ ps committed = True"

lemma offset_at_known: "all_known f ps \<Longrightarrow> p \<in> ps \<Longrightarrow> \<exists>offset. offset_at f spec p = Some offset \<and> f spec p = Some (Inr offset)"
  unfolding all_known_def offset_at_def by (metis option.simps(5) sum.simps(6))

lemma all_known_subset: "all_known f ps \<Longrightarrow> qs \<subseteq> ps \<Longrightarrow> all_known f qs"
  by (auto simp: all_known_def)

lemma table_lookup_known:
  assumes "all_known f (set ps)"
  obtains answers offsets where "(table_lookup f :: 'c OffsetLookup) ps spec = cmd_ret answers" and "known answers = Inr offsets" and "bt_ok offsets"
    and "map_of offsets = (\<lambda>p. if p \<in> set ps then offset_at f spec p else None)"
proof -
  let ?answers = "bt_of_list (map (\<lambda>p. (p, the (f spec p))) (filter (\<lambda>p. f spec p \<noteq> None) ps))"
  let ?offsets = "map (\<lambda>(p, answer). (p, projr answer)) ?answers"
  have ok: "bt_ok ?answers" by simp
  have lookup: "map_of ?answers p = (if p \<in> set ps then f spec p else None)" for p
    by (simp only: map_of_same_value) auto
  have right: "\<exists>offset. answer = Inr offset" if "(p, answer) \<in> set ?answers" for p answer
    using lookup [of p] map_of_is_SomeI [OF bt_ok_distinct [OF ok] that] offset_at_known [OF assms, of p spec]
    by (auto split: if_splits)
  show thesis
  proof (rule that [of ?answers ?offsets])
    have "?answers = map (\<lambda>(p, answer). (p, Inr (projr answer))) ?answers"
      by (rule map_idI [symmetric]) (use right in force)
    then show "known ?answers = Inr ?offsets"
      unfolding known_Inr_iff by (simp add: comp_def case_prod_unfold)
    show "map_of ?offsets = (\<lambda>p. if p \<in> set ps then offset_at f spec p else None)"
    proof
      fix p show "map_of ?offsets p = (if p \<in> set ps then offset_at f spec p else None)"
        unfolding map_of_map_val lookup using offset_at_known [OF assms, of p spec] by auto
    qed
  qed (simp_all add: table_lookup_def ok)
qed

lemma required_known:
  assumes "all_known f (set ps)"
  obtains offsets where "required (table_lookup f :: 'c OffsetLookup) ps spec missing = cmd_ret offsets" and "bt_ok offsets"
    and "map_of offsets = (\<lambda>p. if p \<in> set ps then offset_at f spec p else None)"
proof -
  from assms obtain answers offsets where t: "(table_lookup f :: 'c OffsetLookup) ps spec = cmd_ret answers" and k: "known answers = Inr offsets"
    and ok: "bt_ok offsets" and m: "map_of offsets = (\<lambda>p. if p \<in> set ps then offset_at f spec p else None)"
    by (rule table_lookup_known)
  have "List.find (\<lambda>p. map_of offsets p = None) ps = None"
    using offset_at_known [OF assms, of _ spec] by (auto simp: find_None_iff m)
  then have "required (table_lookup f :: 'c OffsetLookup) ps spec missing = cmd_ret offsets"
    by (simp add: required_def t k cmd_simps)
  then show thesis using ok m that by blast
qed

lemma index_all_known:
  "(\<And>p. p \<in> set ps \<Longrightarrow> g p \<noteq> None) \<Longrightarrow> index_all g ps = cmd_ret (map (\<lambda>p. (p, the (g p))) ps)"
proof (induction ps)
  case (Cons p ps)
  then obtain offset where "g p = Some offset" by fastforce
  with Cons show ?case by (simp add: cmd_simps)
qed simp

lemma clamped_known:
  assumes "all_known f (fst ` set requested)" and "bt_ok requested"
  obtains plan notices where "clamped (table_lookup f :: 'c OffsetLookup) requested = cmd_ret (plan, notices)" and "distinct (map fst plan)"
    and "map_of plan = (\<lambda>p. Option.bind (map_of requested p) (into_log f p))"
proof -
  let ?ps = "map fst requested"
  have known: "all_known f (set ?ps)" using assms(1) by simp
  obtain answers1 starts where t1: "(table_lookup f :: 'c OffsetLookup) ?ps Spec_Earliest = cmd_ret answers1" and k1: "known answers1 = Inr starts"
    and m1: "map_of starts = (\<lambda>p. if p \<in> set ?ps then offset_at f Spec_Earliest p else None)"
    using known by (rule table_lookup_known)
  obtain answers2 ends where t2: "(table_lookup f :: 'c OffsetLookup) ?ps Spec_Latest = cmd_ret answers2" and k2: "known answers2 = Inr ends"
    and m2: "map_of ends = (\<lambda>p. if p \<in> set ?ps then offset_at f Spec_Latest p else None)"
    using known by (rule table_lookup_known)
  have e: "\<exists>e. map_of ends p = Some e" if "p \<in> fst ` set requested" for p
    using offset_at_known [OF assms(1) that, of Spec_Latest] that by (auto simp: m2)
  then obtain plan notices where c: "clamp_all starts ends requested = Inr (plan, notices)"
    using clamp_all_total [of requested ends starts] by blast
  have plan: "plan = map (\<lambda>(p, offset). (p, clamp_offset (map_of starts p) (the (map_of ends p)) offset)) requested"
    using clamp_all_Inr [OF c] by simp
  have dist: "distinct (map fst plan)" using bt_ok_distinct [OF assms(2)] by (simp add: plan case_prod_unfold comp_def)
  have value_of: "map_of plan p = Option.bind (map_of requested p) (into_log f p)" for p
  proof (cases "map_of requested p")
    case (Some r)
    then have "p \<in> fst ` set requested" by (metis domI dom_map_of_conv_image_fst)
    with Some e [OF this] show ?thesis by (auto simp: plan map_of_map_val into_log_def m1 m2)
  qed (simp add: plan map_of_map_val)
  show thesis
  proof (rule that [of "ordered plan" notices])
    show "clamped (table_lookup f :: 'c OffsetLookup) requested = cmd_ret (ordered plan, notices)"
      by (simp add: clamped_def Let_def t1 t2 k1 k2 c cmd_simps)
    show "map_of (ordered plan) = (\<lambda>p. Option.bind (map_of requested p) (into_log f p))"
      using value_of by (simp add: ho.order_map_of [OF mset_ordered dist] fun_eq_iff)
  qed (simp add: dist)
qed

lemma filtered_known:
  assumes "all_known f (set ps)"
  obtains plan where "filtered_plan (table_lookup f :: 'c OffsetLookup) ps spec missing = cmd_ret \<lparr>pl_plan = plan, pl_stdout = [], pl_notices = []\<rparr>"
    and "distinct (map fst plan)" and "map_of plan = (\<lambda>p. if p \<in> set ps then offset_at f spec p else None)"
proof -
  obtain offsets where r: "required (table_lookup f :: 'c OffsetLookup) ps spec missing = cmd_ret offsets" and ok: "bt_ok offsets"
    and m: "map_of offsets = (\<lambda>p. if p \<in> set ps then offset_at f spec p else None)"
    using assms by (rule required_known)
  let ?plan = "filter (\<lambda>(p, _). p \<in> set ps) offsets"
  have "fst ` set offsets \<subseteq> set ps"
    using m by (auto simp: dom_map_of_conv_image_fst [symmetric] split: if_splits)
  then have "?plan = offsets" by (force intro: filter_True)
  moreover have "distinct (map fst offsets)" using ok by (rule bt_ok_distinct)
  ultimately show thesis
    using m by (intro that [of "ordered ?plan"]) (simp_all add: filtered_plan_def r cmd_simps ho.order_map_of [OF mset_ordered])
qed

lemma timestamp_known:
  assumes "all_known f (set ps)"
  obtains plan stdout where "timestamp_plan (table_lookup f :: 'c OffsetLookup) ps timestamp = cmd_ret \<lparr>pl_plan = plan, pl_stdout = stdout, pl_notices = []\<rparr>"
    and "mset (map fst plan) = mset ps"
    and "map_of plan = (\<lambda>p. if p \<in> set ps then timestamp_target f timestamp p else None)"
proof -
  obtain found where r: "required (table_lookup f :: 'c OffsetLookup) ps (Spec_ForTimestamp timestamp) TIMESTAMP_MISSING = cmd_ret found"
    and m: "map_of found = (\<lambda>p. if p \<in> set ps then offset_at f (Spec_ForTimestamp timestamp) p else None)"
    using assms by (rule required_known)
  let ?empty = "filter (\<lambda>p. map_of found p = Some (-1)) ps"
  have "all_known f (set ?empty)" using assms by (rule all_known_subset) auto
  then obtain ends' where r': "required (table_lookup f :: 'c OffsetLookup) ?empty Spec_Latest TIMESTAMP_MISSING = cmd_ret ends'"
    and m': "map_of ends' = (\<lambda>p. if p \<in> set ?empty then offset_at f Spec_Latest p else None)"
    by (rule required_known)
  define ends where "ends = (if ?empty = [] then [] else ends')"
  have ends: "(if ?empty = [] then cmd_ret [] else required (table_lookup f :: 'c OffsetLookup) ?empty Spec_Latest TIMESTAMP_MISSING) = cmd_ret ends"
    by (simp add: ends_def r')
  have m_ends: "map_of ends p = offset_at f Spec_Latest p" if "p \<in> set ?empty" for p
    using that by (auto simp: ends_def m' filter_empty_conv)
  let ?g = "\<lambda>p. case map_of found p of Some offset \<Rightarrow> if offset = -1 then map_of ends p else Some offset | None \<Rightarrow> None"
  have g: "?g p = timestamp_target f timestamp p \<and> ?g p \<noteq> None" if "p \<in> set ps" for p
    using that m_ends [of p] offset_at_known [OF assms that, of Spec_Latest] offset_at_known [OF assms that, of "Spec_ForTimestamp timestamp"]
    by (auto simp: m timestamp_target_def)
  let ?plan = "map (\<lambda>p. (p, the (?g p))) ps"
  have "?g p \<noteq> None" if "p \<in> set ps" for p using g [OF that] by blast
  then have "index_all ?g ps = (cmd_ret ?plan :: ('c, _) cmd)" by (rule index_all_known)
  then have run: "timestamp_plan (table_lookup f :: 'c OffsetLookup) ps timestamp =
      cmd_ret \<lparr>pl_plan = ordered ?plan, pl_stdout = concat (map empty_warning ?empty), pl_notices = []\<rparr>"
    by (simp add: timestamp_plan_def by_timestamp_def r Let_def ends cmd_simps)
  have "map_of (ordered ?plan) p = (if p \<in> fst ` set ?plan then timestamp_target f timestamp p else None)" for p
  proof (rule map_of_plan)
    fix q offset assume "(q, offset) \<in> set ?plan"
    then have "q \<in> set ps" and "offset = the (?g q)" by auto
    with g show "timestamp_target f timestamp q = Some offset" by (metis option.collapse)
  qed
  then have "map_of (ordered ?plan) = (\<lambda>p. if p \<in> set ps then timestamp_target f timestamp p else None)"
    by (simp add: fun_eq_iff image_image)
  moreover have "mset (map fst (ordered ?plan)) = mset ps"
    unfolding mset_fst_ordered by (simp add: comp_def)
  ultimately show thesis using that [OF run] by simp
qed

lemma to_current_known:
  assumes "all_known f (set ps)"
  obtains plan where "to_current (table_lookup f :: 'c OffsetLookup) committed ps = cmd_ret plan"
    and "distinct ps \<Longrightarrow> distinct (map fst plan)" and "map_of plan = plan_target f ToCurrent ps committed"
proof -
  let ?present = "filter (\<lambda>p. map_of committed p \<noteq> None) ps" and ?absent = "filter (\<lambda>p. map_of committed p = None) ps"
  let ?offsets = "map (\<lambda>p. (p, the (map_of committed p))) ?present"
  have "all_known f (set ?absent)" using assms by (rule all_known_subset) auto
  then obtain ends' where r: "required (table_lookup f :: 'c OffsetLookup) ?absent Spec_Latest ENDING_MISSING = cmd_ret ends'"
    and ok: "bt_ok ends'" and m: "map_of ends' = (\<lambda>p. if p \<in> set ?absent then offset_at f Spec_Latest p else None)"
    by (rule required_known)
  define ends where "ends = (if ?absent = [] then [] else ends')"
  have ends: "map_of ends p = (if p \<in> set ?absent then offset_at f Spec_Latest p else None)" for p
    by (auto simp: ends_def m filter_empty_conv)
  have "bt_ok ends" using ok by (simp add: ends_def)
  then have dist: "distinct (map fst ends)" by (rule bt_ok_distinct)
  have keys: "fst ` set ends \<subseteq> set ?absent"
    using ends by (auto simp: dom_map_of_conv_image_fst [symmetric] split: if_splits)
  have "(if ?absent = [] then cmd_ret ?offsets
         else cmd_bind (required (table_lookup f :: 'c OffsetLookup) ?absent Spec_Latest ENDING_MISSING)
           (\<lambda>ends. cmd_ret (?offsets @ filter (\<lambda>(p, _). p \<in> set ?absent) ends))) = cmd_ret (?offsets @ ends)"
  proof (cases "?absent = []")
    case False
    then have "filter (\<lambda>(p, _). p \<in> set ?absent) ends' = ends'"
      using keys by (intro filter_True) (force simp: ends_def)
    with False show ?thesis by (simp only: r ends_def cmd_simps if_False)
  qed (simp add: ends_def)
  moreover have "index_all (map_of committed) ?present = (cmd_ret ?offsets :: ('c, _) cmd)"
    by (rule index_all_known) simp
  ultimately have run: "to_current (table_lookup f :: 'c OffsetLookup) committed ps = cmd_ret (ordered (?offsets @ ends))"
    unfolding to_current_def Let_def by (simp only: cmd_simps)
  have target: "plan_target f ToCurrent ps committed p = Some offset" if "(p, offset) \<in> set (?offsets @ ends)" for p offset
  proof (cases "(p, offset) \<in> set ends")
    case True
    then have "map_of ends p = Some offset" by (rule map_of_is_SomeI [OF dist])
    then show ?thesis using ends [of p] by (auto split: if_splits)
  next
    case False
    with that show ?thesis by auto
  qed
  have "map_of ends p \<noteq> None" if "p \<in> set ?absent" for p
    using that ends [of p] offset_at_known [OF assms, of p Spec_Latest] by auto
  then have "set ?absent \<subseteq> fst ` set ends" by (auto simp only: map_of_eq_None_iff)
  with keys have "fst ` set ends = set ?absent" by (rule equalityI)
  then have "fst ` set (?offsets @ ends) = set ?present \<union> set ?absent" by (simp only: set_append image_Un set_map image_image fst_conv image_ident)
  also have "\<dots> = set ps" by auto
  finally have "fst ` set (?offsets @ ends) = set ps" .
  moreover have "map_of (ordered (?offsets @ ends)) p =
      (if p \<in> fst ` set (?offsets @ ends) then plan_target f ToCurrent ps committed p else None)" for p
    by (rule map_of_plan) (rule target)
  ultimately have "map_of (ordered (?offsets @ ends)) p = (if p \<in> set ps then plan_target f ToCurrent ps committed p else None)" for p
    by (simp only:)
  then have "map_of (ordered (?offsets @ ends)) = plan_target f ToCurrent ps committed"
    by (simp add: fun_eq_iff)
  moreover have "distinct (map fst (ordered (?offsets @ ends)))" if "distinct ps"
  proof -
    have "map fst ?offsets = ?present" by (simp add: comp_def)
    moreover have "set ?present \<inter> fst ` set ends = {}" using keys by auto
    ultimately show ?thesis using that dist by simp
  qed
  ultimately show thesis by (rule that [OF run, rotated])
qed

text \<open>A command that plans the offsets \<open>target\<close>, for each partition at most once.\<close>

definition plans_to :: "('c, Planned) cmd \<Rightarrow> (Partition \<Rightarrow> int option) \<Rightarrow> bool \<Rightarrow> bool" where
  "plans_to m target once \<longleftrightarrow>
     (\<exists>planned. m = cmd_ret planned \<and> map_of (pl_plan planned) = target \<and> (once \<longrightarrow> distinct (map fst (pl_plan planned))))"

lemma clamped_plan_plans:
  assumes "all_known f (fst ` set requested)" and "bt_ok requested"
  shows "plans_to (clamped_plan (table_lookup f :: 'c OffsetLookup) requested) (\<lambda>p. Option.bind (map_of requested p) (into_log f p)) once"
proof -
  obtain plan notices where "clamped (table_lookup f :: 'c OffsetLookup) requested = cmd_ret (plan, notices)"
    and "distinct (map fst plan)" and "map_of plan = (\<lambda>p. Option.bind (map_of requested p) (into_log f p))"
    using assms by (rule clamped_known)
  then show ?thesis
    unfolding plans_to_def
    by (intro exI [of _ "\<lparr>pl_plan = plan, pl_stdout = [], pl_notices = notices\<rparr>"]) (simp add: clamped_plan_def cmd_simps)
qed

lemma offsets_plan_plans:
  assumes "all_known f (set ps)" and "\<And>p. p \<in> set ps \<Longrightarrow> requested_offset scenario ps committed p = Some (g p)"
    and "\<And>p. p \<notin> set ps \<Longrightarrow> requested_offset scenario ps committed p = None"
  shows "plans_to (clamped_plan (table_lookup f :: 'c OffsetLookup) (bt_of_list (map (\<lambda>p. (p, g p)) ps)))
    (\<lambda>p. Option.bind (requested_offset scenario ps committed p) (into_log f p)) once"
proof -
  let ?m = "bt_of_list (map (\<lambda>p. (p, g p)) ps)"
  have "map_of ?m = requested_offset scenario ps committed"
    using assms(2,3) by (simp add: fun_eq_iff map_of_same_value)
  moreover have "fst ` set ?m = set ps" by (simp add: bt_simps image_image)
  ultimately show ?thesis using clamped_plan_plans [of f ?m once] assms(1) by simp
qed

lemma filtered_plan_plans:
  assumes "all_known f (set ps)"
  shows "plans_to (filtered_plan (table_lookup f :: 'c OffsetLookup) ps spec missing)
    (\<lambda>p. if p \<in> set ps then offset_at f spec p else None) once"
  using assms by (rule filtered_known [where 'c = 'c]) (auto simp: plans_to_def)

lemma timestamp_plan_plans:
  assumes "all_known f (set ps)"
  shows "plans_to (timestamp_plan (table_lookup f :: 'c OffsetLookup) ps timestamp)
    (\<lambda>p. if p \<in> set ps then timestamp_target f timestamp p else None) (distinct ps)"
proof -
  obtain plan stdout where "timestamp_plan (table_lookup f :: 'c OffsetLookup) ps timestamp =
      cmd_ret \<lparr>pl_plan = plan, pl_stdout = stdout, pl_notices = []\<rparr>" and "mset (map fst plan) = mset ps"
    and "map_of plan = (\<lambda>p. if p \<in> set ps then timestamp_target f timestamp p else None)"
    using assms by (rule timestamp_known)
  then show ?thesis unfolding plans_to_def by (metis Planned.select_convs(1) mset_eq_imp_distinct_iff)
qed

lemma reset_plan_plans:
  assumes known: "all_known f (plan_scope scenario ps)" and possible: "plan_possible scenario ps committed"
  shows "plans_to (reset_plan scenario group_id ps committed (table_lookup f :: 'c OffsetLookup))
    (plan_target f scenario ps committed) (distinct ps)"
proof (cases scenario)
  case (ToOffset offset)
  moreover have "plan_target f scenario ps committed = (\<lambda>p. Option.bind (requested_offset scenario ps committed p) (into_log f p))"
    by (simp add: ToOffset fun_eq_iff)
  ultimately show ?thesis using offsets_plan_plans [of f ps scenario committed "\<lambda>_. offset"] known by simp
next
  case ToCurrent
  with known have "all_known f (set ps)" by simp
  then show ?thesis
    by (rule to_current_known [where 'c = 'c and committed = committed]) (auto simp: ToCurrent plans_to_def cmd_simps)
next
  case (ShiftBy shift)
  let ?g = "\<lambda>p. saturating_add_i64 (the (map_of committed p)) shift"
  have "collect_res (shifted committed shift) ps = Inr (map (\<lambda>p. (p, ?g p)) ps)"
    by (rule collect_res_pure) (use possible ShiftBy in \<open>auto simp: shifted_def\<close>)
  moreover have "plans_to (clamped_plan (table_lookup f :: 'c OffsetLookup) (bt_of_list (map (\<lambda>p. (p, ?g p)) ps)))
      (\<lambda>p. Option.bind (requested_offset scenario ps committed p) (into_log f p)) (distinct ps)"
    by (rule offsets_plan_plans) (use known possible ShiftBy in auto)
  moreover have "plan_target f scenario ps committed = (\<lambda>p. Option.bind (requested_offset scenario ps committed p) (into_log f p))"
    by (simp add: ShiftBy fun_eq_iff)
  ultimately show ?thesis by (simp add: ShiftBy cmd_simps)
next
  case (FromFile requested)
  then show ?thesis
  proof (cases requested)
    case (Some m)
    have "plan_target f scenario ps committed = (\<lambda>p. Option.bind (map_of m p) (into_log f p))"
      by (simp add: FromFile Some fun_eq_iff)
    with Some FromFile known possible show ?thesis using clamped_plan_plans [of f m] by simp
  qed (auto simp: plans_to_def fun_eq_iff)
next
  case ToEarliest
  then show ?thesis using filtered_plan_plans [of f ps] known by (simp add: plan_target.simps(1) [abs_def])
next
  case ToLatest
  then show ?thesis using filtered_plan_plans [of f ps] known by (simp add: plan_target.simps(2) [abs_def])
next
  case (ToDatetime timestamp)
  then show ?thesis using timestamp_plan_plans [of f ps] known by (simp add: plan_target.simps(4) [abs_def])
next
  case (ByDuration timestamp)
  then show ?thesis using timestamp_plan_plans [of f ps] known by (simp add: plan_target.simps(5) [abs_def])
qed

text \<open>C19. Against a cluster that knows the offsets of the partitions in scope, every scenario has a plan (no index panics), and its
  plan gives each partition the offset that the scenario means: the start or the end of its log, the offset of the
  timestamp or the end where there is none, the committed offset or the end, or the requested offset brought into
  the log; it leaves every other partition alone, and it names no partition twice. The hypotheses: the cluster answers
  with an offset for every partition in scope, a shift has a committed offset for each, and the map of a file is
  ordered. The argument of \<open>ByDuration\<close> is the timestamp that the command stores there, the present less the
  duration, not the duration.\<close>

theorem plan_meets_target:
  assumes "all_known f (plan_scope scenario ps)" and "plan_possible scenario ps committed"
  shows "\<exists>planned. reset_plan scenario group_id ps committed (table_lookup f) (st :: 'c) = Some (Inr planned, st)
    \<and> map_of (pl_plan planned) = plan_target f scenario ps committed
    \<and> (distinct ps \<longrightarrow> distinct (map fst (pl_plan planned)))"
  using reset_plan_plans [OF assms, of group_id, where 'c = 'c] by (auto simp: plans_to_def cmd_ret_def)

text \<open>A cluster with a log from 2 to 10 and a record at 5, for the witnesses.\<close>

definition sample_offsets :: cluster_offsets where
  "sample_offsets spec p = Some (Inr (case spec of Spec_Earliest \<Rightarrow> 2 | Spec_Latest \<Rightarrow> 10 | _ \<Rightarrow> 5))"

lemma sample_known: "all_known sample_offsets ps"
  by (simp add: all_known_def sample_offsets_def)

lemma sample_target: "plan_target sample_offsets (ToOffset 42) [(''orders'', 0)] [] (''orders'', 0) = Some 10"
  by (simp add: into_log_def offset_at_def sample_offsets_def clamp_offset_def)

theorem plan_meets_target_witness:
  "\<exists>planned. reset_plan (ToOffset 42) ''g'' [(''orders'', 0)] [] (table_lookup sample_offsets) () = Some (Inr planned, ())
    \<and> map_of (pl_plan planned) (''orders'', 0) = Some 10"
  using plan_meets_target [OF sample_known, of "ToOffset 42" "[(''orders'', 0)]" "[]" "''g''" "()"] sample_target by auto

theorem plan_within_log_witness:
  "\<exists>planned. reset_plan (ToOffset 42) ''g'' [(''orders'', 0)] [] (table_lookup sample_offsets) () = Some (Inr planned, ())
    \<and> pl_notices planned \<noteq> []"
proof -
  obtain planned where run: "reset_plan (ToOffset 42) ''g'' [(''orders'', 0)] [] (table_lookup sample_offsets) () = Some (Inr planned, ())"
    and target: "map_of (pl_plan planned) = plan_target sample_offsets (ToOffset 42) [(''orders'', 0)] []"
    using reset_plan_plans [OF sample_known, of "ToOffset 42" "[(''orders'', 0)]" "[]" "''g''", where 'c = unit]
    by (auto simp: plans_to_def cmd_ret_def)
  have "map_of (pl_plan planned) \<noteq> requested_offset (ToOffset 42) [(''orders'', 0)] []"
    using sample_target fun_cong [OF target, of "(''orders'', 0)"] by auto
  then have "pl_notices planned \<noteq> []" using plan_within_log [OF _ run] by auto
  with run show ?thesis by blast
qed

end
