(* ===== verification/Reset_File.thy ===== *)
theory Reset_File
  imports Reset_Plan
begin

text \<open>
  \<^verbatim>\<open>crates/krabka-cli/src/consumer_groups/reset.rs\<close>: the topics of \<^verbatim>\<open>--reset-offsets\<close> and the file of \<^verbatim>\<open>--from-file\<close>; and
  of \<^verbatim>\<open>render.rs\<close> the CSV that \<^verbatim>\<open>--export\<close> writes, which the file reads back.
\<close>

section \<open>Topics and files\<close>

text \<open>\<open>java_split\<close> of this file, which keeps at least one piece.\<close>

definition keep_split :: "string \<Rightarrow> char \<Rightarrow> string list" where
  "keep_split value separator =
     (let parts = split_on separator value
      in case pop_empty parts of [] \<Rightarrow> [hd parts] | p # ps \<Rightarrow> p # ps)"

definition topic_arg :: "string \<Rightarrow> (string \<times> int list option) res" where
  "topic_arg arg =
     (if CHR '':'' \<notin> set arg then Inr (arg, None)
      else case keep_split arg CHR '':'' of
             [topic, partitions] \<Rightarrow>
               map_sum id (\<lambda>ps. (topic, Some ps))
                 (collect_res (\<lambda>p. ok_or (''Invalid partition '' @ [CHR 0x27] @ p @ [CHR 0x27] @ '' specified in topic arg '' @
                    [CHR 0x27] @ arg @ [CHR 0x27, CHR 0x27]) (parse_i32 p)) (keep_split partitions CHR '',''))
           | _ \<Rightarrow> Inl (''Invalid topic arg '' @ [CHR 0x27] @ arg @ [CHR 0x27] @ '', expected topic name and partitions''))"

definition reset_record :: "string \<Rightarrow> nat \<Rightarrow> string list option" where
  "reset_record line width =
     (let values = split_on CHR '','' line
      in if length values = width \<and> parse_i32 (values ! (width - 2)) \<noteq> None \<and> parse_i64 (values ! (width - 1)) \<noteq> None
         then Some values else None)"

text \<open>The group, the partition and the offset of a line.\<close>

definition reset_line :: "string option \<Rightarrow> string \<Rightarrow> (string \<times> Partition \<times> int) res" where
  "reset_line single line =
     (let row = (case single of
                   Some group_id \<Rightarrow> map_option (\<lambda>values. (group_id, values)) (reset_record line 3)
                 | None \<Rightarrow> map_option (\<lambda>values. (values ! 0, drop 1 values)) (reset_record line 4))
      in map_sum id (\<lambda>(group_id, values).
           (group_id, (values ! 0, case parse_i32 (values ! 1) of Some p \<Rightarrow> p | None \<Rightarrow> 0),
            case parse_i64 (values ! 2) of Some offset \<Rightarrow> offset | None \<Rightarrow> 0))
           (ok_or (''Unable to parse the reset plan line: '' @ line) row))"

definition insert_row :: "(string, (Partition, int) btmap) btmap \<Rightarrow> string \<times> Partition \<times> int \<Rightarrow> (string, (Partition, int) btmap) btmap" where
  "insert_row plans = (\<lambda>(group_id, p, offset).
     bt_insert group_id (bt_insert p offset (case map_of plans group_id of Some plan \<Rightarrow> plan | None \<Rightarrow> [])) plans)"

definition parse_reset_file :: "string \<Rightarrow> string list \<Rightarrow> (string, (Partition, int) btmap) btmap res" where
  "parse_reset_file csv groups =
     (let lines = keep_split csv CHR 0x0A;
          without_group = (length groups = 1 \<and> reset_record (hd lines) 3 \<noteq> None)
      in map_sum id (foldl insert_row [])
           (collect_res (reset_line (if without_group then Some (hd groups) else None)) lines))"

text \<open>The CSV of an export.\<close>

fun double_quotes :: "string \<Rightarrow> string" where
  "double_quotes [] = []"
| "double_quotes (c # cs) = (if c = CHR 0x22 then [CHR 0x22, CHR 0x22] else [c]) @ double_quotes cs"

definition csv_field :: "string \<Rightarrow> string" where
  "csv_field value =
     (if list_ex (\<lambda>c. c = CHR '','' \<or> c = CHR 0x22 \<or> c = CHR 0x0A \<or> c = CHR 0x0D) value
      then [CHR 0x22] @ double_quotes value @ [CHR 0x22] else value)"

definition export_line :: "bool \<Rightarrow> string \<Rightarrow> Partition \<times> int \<Rightarrow> string" where
  "export_line single_group group_id = (\<lambda>((topic, p), offset).
     (if single_group then [] else csv_field group_id @ '','') @ csv_field topic @ '','' @ show_int p @ '','' @ show_int offset @ [CHR 0x0A])"

definition export_csv :: "(string \<times> Plan) list \<Rightarrow> bool \<Rightarrow> string" where
  "export_csv plans single_group =
     concat (map (\<lambda>(group_id, plan). concat (map (export_line single_group group_id) plan)) plans) @ [CHR 0x0A]"

section \<open>The CSV reads back\<close>

definition plain_name :: "string \<Rightarrow> bool" where
  "plain_name s \<longleftrightarrow> list_all (\<lambda>c. c \<noteq> CHR '','' \<and> c \<noteq> CHR 0x22 \<and> c \<noteq> CHR 0x0A \<and> c \<noteq> CHR 0x0D) s"

text \<open>A row of a plan whose names need no quotes and whose numbers fit their types.\<close>

definition plain_row :: "Partition \<times> int \<Rightarrow> bool" where
  "plain_row = (\<lambda>((topic, p), offset). plain_name topic \<and> i32_min \<le> p \<and> p \<le> i32_max \<and> i64_min \<le> offset \<and> offset \<le> i64_max)"

definition plan_rows :: "(string \<times> Plan) list \<Rightarrow> ((string \<times> Partition) \<times> int) list" where
  "plan_rows plans = concat (map (\<lambda>(group_id, plan). map (\<lambda>(p, offset). ((group_id, p), offset)) plan) plans)"

lemma csv_field_plain: "plain_name s \<Longrightarrow> csv_field s = s"
  by (auto simp: csv_field_def plain_name_def list_ex_iff list_all_iff)

definition plain_line :: "bool \<Rightarrow> (string \<times> Partition) \<times> int \<Rightarrow> string" where
  "plain_line single_group = (\<lambda>((group_id, (topic, p)), offset).
     join_with '','' ((if single_group then [] else [group_id]) @ [topic, show_int p, show_int offset]))"

lemma export_csv_plain:
  assumes "\<And>group_id plan. (group_id, plan) \<in> set plans \<Longrightarrow> plain_name group_id \<and> list_all plain_row plan"
  shows "export_csv plans single_group = concat (map (\<lambda>row. plain_line single_group row @ [CHR 0x0A]) (plan_rows plans)) @ [CHR 0x0A]"
proof -
  have line: "export_line single_group group_id (p, offset) = plain_line single_group ((group_id, p), offset) @ [CHR 0x0A]"
    if "plain_name group_id" "plain_row (p, offset)" for group_id p offset
    using that by (cases p) (auto simp: export_line_def plain_line_def plain_row_def csv_field_plain)
  have "map (export_line single_group group_id) plan =
      map (\<lambda>row. plain_line single_group row @ [CHR 0x0A]) (map (\<lambda>(p, offset). ((group_id, p), offset)) plan)"
    if "(group_id, plan) \<in> set plans" for group_id plan
    using assms [OF that] line by (auto simp: list_all_iff)
  then have "map (\<lambda>(group_id, plan). concat (map (export_line single_group group_id) plan)) plans =
      map (\<lambda>(group_id, plan). concat (map (\<lambda>row. plain_line single_group row @ [CHR 0x0A])
        (map (\<lambda>(p, offset). ((group_id, p), offset)) plan))) plans"
    by (intro map_cong) (auto simp only: split: prod.splits)
  moreover have "concat (map (\<lambda>(group_id, plan). concat (map (\<lambda>row. plain_line single_group row @ [CHR 0x0A])
        (map (\<lambda>(p, offset). ((group_id, p), offset)) plan))) plans) =
      concat (map (\<lambda>row. plain_line single_group row @ [CHR 0x0A]) (plan_rows plans))"
    by (induction plans) (auto simp: plan_rows_def)
  ultimately show ?thesis by (simp only: export_csv_def)
qed

lemma split_lines:
  assumes "lines \<noteq> []" and "\<forall>line \<in> set lines. c \<notin> set line \<and> line \<noteq> []"
  shows "keep_split (concat (map (\<lambda>line. line @ [c]) lines) @ [c]) c = lines"
proof -
  have split: "split_on c (concat (map (\<lambda>line. line @ [c]) ls) @ [c]) = ls @ [[], []]" if "\<forall>line \<in> set ls. c \<notin> set line" for ls
    using that by (induction ls) (auto simp: split_on_append_sep)
  have pop: "pop_empty (ls @ [[], []]) = ls" if "\<forall>line \<in> set ls. line \<noteq> []" for ls :: "string list"
    using that by (induction ls) (auto split: list.splits)
  have "pop_empty (split_on c (concat (map (\<lambda>line. line @ [c]) lines) @ [c])) = lines"
    using assms(2) split [of lines] pop [of lines] by simp
  then show ?thesis using assms(1) by (simp add: keep_split_def split: list.split)
qed

lemma plain_line_fields:
  assumes "plain_name group_id" and "plain_row ((topic, p), offset)"
  shows "split_on CHR '','' (plain_line single_group ((group_id, (topic, p)), offset)) =
    (if single_group then [] else [group_id]) @ [topic, show_int p, show_int offset]"
  unfolding plain_line_def split
  by (rule split_on_join) (use assms in \<open>auto simp: plain_row_def plain_name_def list_all_iff\<close>)

lemma reset_line_plain:
  assumes "plain_name group_id" and "plain_row (p, offset)"
  shows "reset_line (if single_group then Some group_id else None) (plain_line single_group ((group_id, p), offset)) =
    Inr (group_id, p, offset)"
proof (cases single_group)
  case True
  then show ?thesis
    using plain_line_fields [of group_id "fst p" "snd p" offset True] assms
    by (cases p) (simp add: reset_line_def reset_record_def Let_def plain_row_def parse_signed_show_int)
next
  case False
  then show ?thesis
    using plain_line_fields [of group_id "fst p" "snd p" offset False] assms
    by (cases p) (simp add: reset_line_def reset_record_def Let_def plain_row_def parse_signed_show_int numeral_2_eq_2 numeral_3_eq_3)
qed

lemma reset_record_plain:
  assumes "plain_name group_id" and "plain_row (p, offset)"
  shows "reset_record (plain_line True ((group_id, p), offset)) 3 \<noteq> None"
  using plain_line_fields [of group_id "fst p" "snd p" offset True] assms
  by (cases p) (auto simp: reset_record_def Let_def plain_row_def parse_signed_show_int)

lemma plain_line_clean:
  assumes "plain_name group_id" and "plain_row (p, offset)"
  shows "CHR 0x0A \<notin> set (plain_line single_group ((group_id, p), offset))" and "plain_line single_group ((group_id, p), offset) \<noteq> []"
proof -
  have "\<not> is_ascii_digit (CHR 0x0A)" by (simp add: is_ascii_digit_def byte_of_def)
  then show "CHR 0x0A \<notin> set (plain_line single_group ((group_id, p), offset))"
    using assms by (cases p) (auto simp: plain_line_def plain_row_def plain_name_def list_all_iff)
  show "plain_line single_group ((group_id, p), offset) \<noteq> []" by (cases p) (auto simp: plain_line_def)
qed

lemma insert_row_nested: "insert_row plans (group_id, p, offset) = nested_insert (group_id, p) offset plans"
  by (simp add: insert_row_def nested_insert_def nested_entry_def)

lemma map_of_plan_rows:
  assumes "distinct (map fst plans)" and "\<forall>(group_id, plan) \<in> set plans. distinct (map fst plan)"
  shows "map_of (rev (plan_rows plans)) (group_id, p) = Option.bind (map_of plans group_id) (\<lambda>plan. map_of plan p)"
proof -
  let ?g = "\<lambda>(group_id, p). Option.bind (map_of plans group_id) (\<lambda>plan. map_of plan p)"
  have rows: "((h, q), offset) \<in> set (plan_rows plans) \<longleftrightarrow> (\<exists>plan. (h, plan) \<in> set plans \<and> (q, offset) \<in> set plan)" for h q offset
    by (force simp: plan_rows_def)
  have get: "?g (h, q) = Some offset \<longleftrightarrow> ((h, q), offset) \<in> set (plan_rows plans)" for h q offset
  proof -
    have inner: "map_of plan q = Some offset \<longleftrightarrow> (q, offset) \<in> set plan" if "(h, plan) \<in> set plans" for plan
      using assms(2) that by (intro map_of_eq_Some_iff) auto
    show ?thesis
      unfolding rows using map_of_eq_Some_iff [OF assms(1), of h] inner by (auto simp: bind_eq_Some_conv)
  qed
  have "?g k = Some offset" if "(k, offset) \<in> set (rev (plan_rows plans))" for k offset
    using that get [of "fst k" "snd k" offset] by simp
  from map_of_functional [of _ ?g, OF this]
  have "map_of (rev (plan_rows plans)) (group_id, p) =
      (if (group_id, p) \<in> fst ` set (rev (plan_rows plans)) then ?g (group_id, p) else None)" .
  moreover have "(group_id, p) \<in> fst ` set (plan_rows plans)" if "?g (group_id, p) = Some offset" for offset
    using that get [of group_id p offset] by (metis fst_conv image_eqI)
  ultimately show ?thesis by (cases "?g (group_id, p)") (auto split: if_splits)
qed

lemma export_csv_reads:
  assumes "plan_rows plans \<noteq> []" and "distinct (map fst plans)"
    and "\<And>group_id plan. (group_id, plan) \<in> set plans \<Longrightarrow> plain_name group_id \<and> list_all plain_row plan \<and> distinct (map fst plan)"
    and "length groups = 1 \<Longrightarrow> map fst plans = groups"
  shows "\<exists>m. parse_reset_file (export_csv plans (length groups = 1)) groups = Inr m \<and> nested_ok m
    \<and> (\<forall>group_id p. nested_get m (group_id, p) = Option.bind (map_of plans group_id) (\<lambda>plan. map_of plan p))"
proof -
  let ?single = "length groups = 1" and ?rows = "plan_rows plans"
  let ?lines = "map (plain_line ?single) ?rows"
  have row: "plain_name group_id \<and> plain_row (p, offset) \<and> (?single \<longrightarrow> groups = [group_id])"
    if "((group_id, p), offset) \<in> set ?rows" for group_id p offset
  proof -
    from that obtain plan where plan: "(group_id, plan) \<in> set plans" "(p, offset) \<in> set plan" by (auto simp: plan_rows_def)
    then have "group_id \<in> set (map fst plans)" by force
    with plan show ?thesis using assms(3) [OF plan(1)] assms(4) by (auto simp: list_all_iff length_Suc_conv)
  qed
  have csv: "export_csv plans ?single = concat (map (\<lambda>line. line @ [CHR 0x0A]) ?lines) @ [CHR 0x0A]"
    using export_csv_plain [of plans ?single] assms(3) by (simp add: comp_def)
  have lines: "keep_split (export_csv plans ?single) CHR 0x0A = ?lines"
    unfolding csv
  proof (rule split_lines)
    show "\<forall>line \<in> set ?lines. CHR 0x0A \<notin> set line \<and> line \<noteq> []"
      using row plain_line_clean [of _ _ _ ?single] by fastforce
  qed (simp add: assms(1))
  obtain r rest where r: "?rows = r # rest" using assms(1) by (cases ?rows) auto
  have "(?single \<and> reset_record (hd ?lines) 3 \<noteq> None) = ?single"
    using row [of "fst (fst r)" "snd (fst r)" "snd r"] reset_record_plain [of "fst (fst r)" "snd (fst r)" "snd r"] r by auto
  then have single: "(if ?single \<and> reset_record (hd ?lines) 3 \<noteq> None then Some (hd groups) else None) =
      (if ?single then Some (hd groups) else None)" by simp
  have "collect_res (reset_line (if ?single then Some (hd groups) else None)) ?lines =
      Inr (map (\<lambda>((group_id, p), offset). (group_id, p, offset)) ?rows)"
    unfolding collect_res_map
    by (rule collect_res_pure) (use row reset_line_plain [of _ _ _ ?single] in \<open>fastforce split: if_splits\<close>)
  then have "parse_reset_file (export_csv plans ?single) groups =
      Inr (foldl insert_row [] (map (\<lambda>((group_id, p), offset). (group_id, p, offset)) ?rows))"
    by (simp only: parse_reset_file_def Let_def lines single map_sum.simps)
  also have "foldl insert_row [] (map (\<lambda>((group_id, p), offset). (group_id, p, offset)) ?rows) =
      foldl (\<lambda>m e. nested_insert (fst e) (snd e) m) [] ?rows"
    by (simp add: foldl_map insert_row_nested case_prod_unfold)
  finally have run: "parse_reset_file (export_csv plans ?single) groups = Inr (foldl (\<lambda>m e. nested_insert (fst e) (snd e) m) [] ?rows)" .
  have "\<forall>(group_id, plan) \<in> set plans. distinct (map fst plan)" using assms(3) by blast
  with run show ?thesis
    using nested.get_of_list [of ?rows] nested.ok_fold [OF nested.ok_empty, of ?rows] map_of_plan_rows [OF assms(2)]
    by (intro exI [of _ "foldl (\<lambda>m e. nested_insert (fst e) (snd e) m) [] ?rows"]) simp
qed

lemma export_csv_no_rows:
  assumes "plan_rows plans = []"
  shows "parse_reset_file (export_csv plans single_group) groups = Inl ''Unable to parse the reset plan line: ''"
proof -
  have "plan = []" if "(group_id, plan) \<in> set plans" for group_id plan
    using assms that by (force simp: plan_rows_def)
  then have "concat (map (\<lambda>(group_id, plan). concat (map (export_line single_group group_id) plan)) plans) = []" by fastforce
  then have csv: "export_csv plans single_group = [CHR 0x0A]" by (simp add: export_csv_def)
  have lines: "keep_split [CHR 0x0A] CHR 0x0A = [[]]" and none: "reset_record [] 3 = None" "reset_record [] 4 = None" by code_simp+
  show ?thesis unfolding parse_reset_file_def csv lines Let_def by (simp add: none reset_line_def ok_or_def)
qed

text \<open>C24. The CSV of \<^verbatim>\<open>--export\<close> reads back with \<^verbatim>\<open>--from-file\<close> as the plans it was written from, with and without the group column,
  where no name needs a quote and there is a row. An export without a row, which is a line end only, is refused.\<close>

theorem export_csv_roundtrip:
  assumes "distinct (map fst plans)"
    and "\<And>group_id plan. (group_id, plan) \<in> set plans \<Longrightarrow> plain_name group_id \<and> list_all plain_row plan \<and> distinct (map fst plan)"
    and "length groups = 1 \<Longrightarrow> map fst plans = groups"
  shows "if plan_rows plans = []
    then parse_reset_file (export_csv plans (length groups = 1)) groups = Inl ''Unable to parse the reset plan line: ''
    else \<exists>m. parse_reset_file (export_csv plans (length groups = 1)) groups = Inr m \<and> nested_ok m
      \<and> (\<forall>group_id p. nested_get m (group_id, p) = Option.bind (map_of plans group_id) (\<lambda>plan. map_of plan p))"
  using export_csv_no_rows [of plans "length groups = 1" groups] export_csv_reads [OF _ assms] by simp

theorem export_csv_roundtrip_witness:
  "\<exists>m. parse_reset_file (export_csv [(''g'', [((''orders'', 0), 7)])] True) [''g''] = Inr m
    \<and> nested_get m (''g'', (''orders'', 0)) = Some 7"
  using export_csv_roundtrip [of "[(''g'', [((''orders'', 0), 7)])]" "[''g'']"]
  by (auto simp: plan_rows_def plain_name_def plain_row_def)

text \<open>A name with a comma is quoted by the export, and the file does not read quotes; an export with no row does not read
  back either.\<close>

theorem export_csv_quotes_unread:
  "parse_reset_file (export_csv [(''g,h'', [((''orders'', 0), 7)]), (''i'', [])] False) [''g,h'', ''i''] =
     Inl (''Unable to parse the reset plan line: '' @ [CHR 0x22] @ ''g,h'' @ [CHR 0x22] @ '',orders,0,7'')"
  by code_simp

theorem export_csv_empty_unread:
  "parse_reset_file (export_csv [(''g'', [])] True) [''g''] = Inl ''Unable to parse the reset plan line: ''"
  by code_simp

text \<open>A topic argument names partitions exactly in its two-part form, and a name without a colon is the whole topic.\<close>

lemma topic_arg_whole: "CHR '':'' \<notin> set arg \<Longrightarrow> topic_arg arg = Inr (arg, None)"
  by (simp add: topic_arg_def)

end
