(* ===== verification/Group_Tables.thy ===== *)
theory Group_Tables
  imports Reset_File
begin

text \<open>
  \<^verbatim>\<open>crates/krabka-cli/src/consumer_groups/render.rs\<close>: the tables of \<open>kafka-consumer-groups\<close>. A function of the code that
  builds a line in a closure is a definition of its own, with the widths that the closure captures as arguments.
\<close>

section \<open>Columns\<close>

definition MISSING :: string where "MISSING = ''-''"

text \<open>\<open>chars().count()\<close>.\<close>

definition char_count :: "string \<Rightarrow> nat" where
  "char_count s = length (scalars (map byte_of s))"

definition pad :: "string \<Rightarrow> nat \<Rightarrow> string" where
  "pad value width = value @ replicate (width - char_count value) (CHR '' '')"

definition widest :: "nat \<Rightarrow> string list \<Rightarrow> nat" where
  "widest least values = foldl max least (map char_count values)"

definition or_missing :: "('a \<Rightarrow> string) \<Rightarrow> 'a option \<Rightarrow> string" where
  "or_missing to_str v = (case v of Some x \<Rightarrow> to_str x | None \<Rightarrow> MISSING)"

definition show_bool :: "bool \<Rightarrow> string" where
  "show_bool b = (if b then ''true'' else ''false'')"

section \<open>Listed groups\<close>

record ListedGroup =
  lg_group_id :: string
  lg_group_type :: string
  lg_state :: string

definition group_list_line :: "bool \<Rightarrow> bool \<Rightarrow> nat \<Rightarrow> string \<Rightarrow> string \<Rightarrow> string \<Rightarrow> string" where
  "group_list_line include_type include_state group_width group_id kind state =
     pad group_id group_width @ (if include_type then '' '' @ pad kind 20 else [])
       @ (if include_state then '' '' @ pad state 20 else []) @ [CHR 0x0A]"

definition list_group_width :: "ListedGroup list \<Rightarrow> nat" where
  "list_group_width groups = widest 15 (map lg_group_id groups) + 10"

definition list_table :: "ListedGroup list \<Rightarrow> bool \<Rightarrow> bool \<Rightarrow> string" where
  "list_table groups include_type include_state =
     (let line = group_list_line include_type include_state (list_group_width groups)
      in line ''GROUP'' ''TYPE'' ''STATE'' @ concat (map (\<lambda>g. line (lg_group_id g) (lg_group_type g) (lg_state g)) groups))"

section \<open>Offsets\<close>

record OffsetRow =
  or_group :: string
  or_topic :: "string option"
  or_partition :: "int option"
  or_leader_epoch :: "int option"
  or_offset :: "int option"
  or_log_end_offset :: "int option"
  or_lag :: "int option"
  or_consumer_id :: "string option"
  or_host :: "string option"
  or_client_id :: "string option"

text \<open>\<open>lag\<close>. The subtraction of \<open>i64\<close> values wraps where the build does not check it.\<close>

definition wrap_i64 :: "int \<Rightarrow> int" where
  "wrap_i64 n = (n + 2 ^ 63) mod 2 ^ 64 - 2 ^ 63"

definition lag :: "int option \<Rightarrow> int option \<Rightarrow> int option" where
  "lag offset log_end_offset =
     Option.bind (case offset of Some n \<Rightarrow> if n \<noteq> -1 then Some n else None | None \<Rightarrow> None)
       (\<lambda>n. map_option (\<lambda>e. wrap_i64 (e - n)) log_end_offset)"

record OffsetWidths =
  ow_group :: nat
  ow_topic :: nat
  ow_consumer :: nat
  ow_host :: nat

definition str_or_missing :: "string option \<Rightarrow> string" where
  "str_or_missing v = (case v of Some s \<Rightarrow> s | None \<Rightarrow> MISSING)"

definition offset_widths :: "OffsetRow list \<Rightarrow> OffsetWidths" where
  "offset_widths rows =
     \<lparr>ow_group = widest 15 (map or_group rows),
      ow_topic = widest 15 (map (str_or_missing \<circ> or_topic) rows),
      ow_consumer = widest 15 (map (str_or_missing \<circ> or_consumer_id) rows),
      ow_host = widest 15 (map (str_or_missing \<circ> or_host) rows)\<rparr>"

text \<open>The columns of a line: group, topic, partition, epoch, offset, end, lag, consumer, host, client.\<close>

record OffsetColumns =
  oc_group :: string
  oc_topic_name :: string
  oc_partition_id :: string
  oc_epoch :: string
  oc_offset :: string
  oc_end :: string
  oc_lag :: string
  oc_consumer :: string
  oc_host :: string
  oc_client :: string

definition offset_line :: "bool \<Rightarrow> OffsetWidths \<Rightarrow> OffsetColumns \<Rightarrow> string" where
  "offset_line verbose w c =
     [CHR 0x0A] @ pad (oc_group c) (ow_group w) @ '' '' @ pad (oc_topic_name c) (ow_topic w) @ '' '' @ pad (oc_partition_id c) 10 @ '' ''
     @ (if verbose then pad (oc_epoch c) 15 @ '' '' else [])
     @ pad (oc_offset c) 15 @ '' '' @ pad (oc_end c) 15 @ '' '' @ pad (oc_lag c) 15 @ '' ''
     @ pad (oc_consumer c) (ow_consumer w) @ '' '' @ pad (oc_host c) (ow_host w) @ '' '' @ oc_client c"

definition offset_header :: OffsetColumns where
  "offset_header =
     \<lparr>oc_group = ''GROUP'', oc_topic_name = ''TOPIC'', oc_partition_id = ''PARTITION'', oc_epoch = ''LEADER-EPOCH'',
      oc_offset = ''CURRENT-OFFSET'', oc_end = ''LOG-END-OFFSET'', oc_lag = ''LAG'', oc_consumer = ''CONSUMER-ID'',
      oc_host = ''HOST'', oc_client = ''CLIENT-ID''\<rparr>"

definition offset_columns :: "OffsetRow \<Rightarrow> OffsetColumns" where
  "offset_columns row =
     \<lparr>oc_group = or_group row, oc_topic_name = str_or_missing (or_topic row),
      oc_partition_id = or_missing show_int (or_partition row), oc_epoch = or_missing show_int (or_leader_epoch row),
      oc_offset = or_missing show_int (or_offset row), oc_end = or_missing show_int (or_log_end_offset row),
      oc_lag = or_missing show_int (or_lag row), oc_consumer = str_or_missing (or_consumer_id row),
      oc_host = str_or_missing (or_host row), oc_client = str_or_missing (or_client_id row)\<rparr>"

definition offsets_table :: "OffsetRow list \<Rightarrow> bool \<Rightarrow> string" where
  "offsets_table rows verbose =
     (let line = offset_line verbose (offset_widths rows)
      in line offset_header @ concat (map (line \<circ> offset_columns) rows) @ [CHR 0x0A])"

section \<open>Members\<close>

record MemberRow =
  mr_group :: string
  mr_consumer_id :: string
  mr_group_instance_id :: string
  mr_host :: string
  mr_client_id :: string
  mr_assignment :: "(string \<times> int) list"
  mr_target_assignment :: "(string \<times> int) list"
  mr_current_epoch :: "int option"
  mr_target_epoch :: "int option"
  mr_upgraded :: "bool option"

definition by_topic :: "(string \<times> int) list \<Rightarrow> (string, int list) btmap" where
  "by_topic assignment =
     foldl (\<lambda>topics (topic, p). bt_insert topic ((case map_of topics topic of Some ps \<Rightarrow> ps | None \<Rightarrow> []) @ [p]) topics) [] assignment"

definition assignment_string :: "(string \<times> int) list \<Rightarrow> string" where
  "assignment_string assignment =
     join_with '';'' (sort (map (\<lambda>(topic, ps). topic @ '':'' @ join_with '','' (map show_int (sort ps))) (by_topic assignment)))"

definition assignment_or_missing :: "(string \<times> int) list \<Rightarrow> string" where
  "assignment_or_missing assignment = (if assignment = [] then MISSING else assignment_string assignment)"

record MemberWidths =
  mw_group :: nat
  mw_consumer :: nat
  mw_instance :: nat
  mw_host :: nat
  mw_client :: nat
  mw_current :: nat
  mw_target :: nat
  mw_include_instance :: bool
  mw_migrating :: bool

definition member_widths :: "MemberRow list \<Rightarrow> MemberWidths" where
  "member_widths rows =
     \<lparr>mw_group = widest 15 (map mr_group rows), mw_consumer = widest 15 (map mr_consumer_id rows),
      mw_instance = widest 17 (map mr_group_instance_id rows), mw_host = widest 15 (map mr_host rows),
      mw_client = widest 15 (map mr_client_id rows),
      mw_current = widest 20 (map (assignment_or_missing \<circ> mr_assignment) rows),
      mw_target = widest 20 (map (assignment_or_missing \<circ> mr_target_assignment) rows),
      mw_include_instance = list_ex (\<lambda>row. mr_group_instance_id row \<noteq> []) rows,
      mw_migrating = (list_ex (\<lambda>row. mr_upgraded row = Some False) rows \<and> list_ex (\<lambda>row. mr_upgraded row = Some True) rows)\<rparr>"

definition member_identity :: "MemberWidths \<Rightarrow> string \<Rightarrow> string \<Rightarrow> string \<Rightarrow> string \<Rightarrow> string \<Rightarrow> string \<Rightarrow> string" where
  "member_identity w group_id consumer inst host client size_text =
     pad group_id (mw_group w) @ '' '' @ pad consumer (mw_consumer w) @ '' ''
     @ (if mw_include_instance w then pad inst (mw_instance w) @ '' '' else [])
     @ pad host (mw_host w) @ '' '' @ pad client (mw_client w) @ '' '' @ pad size_text 15 @ '' ''"

definition member_detail :: "MemberWidths \<Rightarrow> string \<Rightarrow> string \<Rightarrow> string \<Rightarrow> string \<Rightarrow> string \<Rightarrow> string" where
  "member_detail w current_epoch current target_epoch target upgraded =
     pad current_epoch 15 @ '' '' @ pad current (mw_current w) @ '' '' @ pad target_epoch 15 @ '' '' @ pad target (mw_target w)
     @ (if mw_migrating w then '' '' @ upgraded else [])"

definition member_line :: "bool \<Rightarrow> MemberWidths \<Rightarrow> MemberRow \<Rightarrow> string" where
  "member_line verbose w row =
     member_identity w (mr_group row) (mr_consumer_id row) (mr_group_instance_id row) (mr_host row) (mr_client_id row)
       (show_nat (length (mr_assignment row)))
     @ (if verbose
        then member_detail w (or_missing show_int (mr_current_epoch row)) (assignment_or_missing (mr_assignment row))
               (or_missing show_int (mr_target_epoch row)) (assignment_or_missing (mr_target_assignment row))
               (or_missing show_bool (mr_upgraded row))
        else []) @ [CHR 0x0A]"

definition members_table :: "MemberRow list \<Rightarrow> bool \<Rightarrow> string" where
  "members_table rows verbose =
     (let w = member_widths rows
      in [CHR 0x0A] @ member_identity w ''GROUP'' ''CONSUMER-ID'' ''GROUP-INSTANCE-ID'' ''HOST'' ''CLIENT-ID'' ''#PARTITIONS''
         @ (if verbose
            then member_detail w ''CURRENT-EPOCH'' ''CURRENT-ASSIGNMENT'' ''TARGET-EPOCH'' ''TARGET-ASSIGNMENT'' ''UPGRADED''
            else []) @ [CHR 0x0A]
         @ concat (map (member_line verbose w) rows))"

section \<open>State\<close>

record StateRow =
  sr_group :: string
  sr_coordinator :: string
  sr_assignment_strategy :: string
  sr_state :: string
  sr_members :: nat
  sr_group_epoch :: "int option"
  sr_target_assignment_epoch :: "int option"

definition state_line :: "bool \<Rightarrow> nat \<Rightarrow> nat \<Rightarrow> string \<Rightarrow> string \<Rightarrow> string \<Rightarrow> string \<Rightarrow> string \<Rightarrow> string \<Rightarrow> string \<Rightarrow> string" where
  "state_line verbose group_width coordinator_width group_id coordinator strategy state epoch target members =
     [CHR 0x0A] @ pad group_id group_width @ '' '' @ pad coordinator coordinator_width @ '' '' @ pad strategy 20 @ '' '' @ pad state 20 @ '' ''
     @ (if verbose then pad epoch 15 @ '' '' @ pad target 25 @ '' '' else []) @ members"

definition state_table :: "StateRow \<Rightarrow> bool \<Rightarrow> string" where
  "state_table row verbose =
     (let line = state_line verbose (max (char_count (sr_group row)) 15) (max (char_count (sr_coordinator row)) 25);
          strategy = (if sr_assignment_strategy row = [] then MISSING else sr_assignment_strategy row)
      in line ''GROUP'' ''COORDINATOR (ID)'' ''ASSIGNMENT-STRATEGY'' ''STATE'' ''GROUP-EPOCH'' ''TARGET-ASSIGNMENT-EPOCH'' ''#MEMBERS''
         @ line (sr_group row) (sr_coordinator row) strategy (sr_state row) (or_missing show_int (sr_group_epoch row))
             (or_missing show_int (sr_target_assignment_epoch row)) (show_nat (sr_members row)) @ [CHR 0x0A])"

section \<open>Plans and deleted offsets\<close>

definition reset_table_line :: "nat \<Rightarrow> nat \<Rightarrow> string \<Rightarrow> string \<Rightarrow> string \<Rightarrow> string \<Rightarrow> string" where
  "reset_table_line group_width topic_width group_id topic p offset =
     [CHR 0x0A] @ pad group_id group_width @ '' '' @ pad topic topic_width @ '' '' @ pad p 10 @ '' '' @ offset"

definition reset_table :: "(string \<times> Plan) list \<Rightarrow> string" where
  "reset_table plans =
     (let group_width = widest 15 (map fst plans);
          topic_width = widest 15 (concat (map (\<lambda>(_, plan). map (\<lambda>((topic, _), _). topic) plan) plans));
          line = reset_table_line group_width topic_width
      in (if plans \<noteq> [] then line ''GROUP'' ''TOPIC'' ''PARTITION'' ''NEW-OFFSET'' else [])
         @ concat (map (\<lambda>(group_id, plan). concat (map (\<lambda>((topic, p), offset). line group_id topic (show_int p) (show_int offset)) plan)) plans)
         @ [CHR 0x0A])"

type_synonym DeleteOffsetRow = "(string \<times> int option) \<times> string option"

definition delete_line :: "nat \<Rightarrow> string \<Rightarrow> string \<Rightarrow> string \<Rightarrow> string" where
  "delete_line topic_width topic p status =
     [CHR 0x0A] @ pad topic topic_width @ '' '' @ pad p 10 @ '' '' @ pad status 15"

definition delete_offsets_table :: "DeleteOffsetRow list \<Rightarrow> string" where
  "delete_offsets_table rows =
     (let line = delete_line (widest 15 (map (fst \<circ> fst) rows));
          sorted = sort_key (\<lambda>((topic, p), _). topic @ show_int (case p of Some n \<Rightarrow> n | None \<Rightarrow> - 1)) rows
      in line ''TOPIC'' ''PARTITION'' ''STATUS''
         @ concat (map (\<lambda>((topic, p), error).
             line topic (or_missing show_int p) (case error of None \<Rightarrow> ''Successful'' | Some e \<Rightarrow> ''Error: '' @ e)) sorted)
         @ [CHR 0x0A])"

end
