(* ===== verification/Reset_Time.thy ===== *)
theory Reset_Time
  imports Prelude
begin

text \<open>
  \<^verbatim>\<open>crates/krabka-cli/src/consumer_groups/reset.rs\<close>: the date and the duration that
  \<^verbatim>\<open>--to-datetime\<close> and \<^verbatim>\<open>--by-duration\<close> take. The outer \<open>option\<close> of a result is \<^const>\<open>None\<close> where the code panics: at a
  slice inside a UTF-8 character, and at an overflow in a build with overflow checks.
\<close>

section \<open>Dates\<close>

definition days_from_civil :: "int \<Rightarrow> int \<Rightarrow> int \<Rightarrow> int" where
  "days_from_civil year month day =
     (let year = (if month \<le> 2 then year - 1 else year);
          era = year div 400;
          year_of_era = year - era * 400;
          day_of_year = (153 * (month + (if month > 2 then -3 else 9)) + 2) div 5 + day - 1;
          day_of_era = year_of_era * 365 + year_of_era div 4 - year_of_era div 100 + day_of_year
      in era * 146097 + day_of_era - 719468)"

definition days_in_month :: "int \<Rightarrow> int \<Rightarrow> int" where
  "days_in_month year month =
     (if month = 2 then (if year mod 4 = 0 \<and> year mod 100 \<noteq> 0 \<or> year mod 400 = 0 then 29 else 28)
      else if month \<in> {4, 6, 9, 11} then 30 else 31)"

definition digits :: "string \<Rightarrow> nat \<Rightarrow> int option" where
  "digits s width = (if length s = width \<and> list_all is_ascii_digit s then parse_i64 s else None)"

text \<open>\<open>str::is_char_boundary\<close>, at which \<open>&s[..i]\<close> does not panic.\<close>

definition is_char_boundary :: "string \<Rightarrow> nat \<Rightarrow> bool" where
  "is_char_boundary s i \<longleftrightarrow>
     i = 0 \<or> i = length s \<or> i < length s \<and> \<not> (128 \<le> byte_of (s ! i) \<and> byte_of (s ! i) < 192)"

definition zone_minutes :: "string \<Rightarrow> int option option" where
  "zone_minutes zone =
     (if zone = ''Z'' then Some (Some 0)
      else case zone of
        [] \<Rightarrow> Some None
      | c # cs \<Rightarrow>
          if c \<noteq> CHR ''+'' \<and> c \<noteq> CHR ''-'' then Some None
          else
            let sign = (if c = CHR ''+'' then 1 else -1); rest = remove1 CHR '':'' cs;
                minutes_of = (\<lambda>hours minutes. if hours < 24 \<and> minutes < 60 then Some (sign * (hours * 60 + minutes)) else None)
            in if length rest = 2 then Some (Option.bind (digits rest 2) (\<lambda>hours. minutes_of hours 0))
               else if length rest = 4 then
                 (if \<not> is_char_boundary rest 2 then None
                  else Some (Option.bind (digits (take 2 rest) 2) (\<lambda>hours.
                         Option.bind (digits (drop 2 rest) 2) (\<lambda>minutes. minutes_of hours minutes))))
               else Some None)"

definition zone_start :: "char \<Rightarrow> bool" where
  "zone_start c \<longleftrightarrow> c = CHR ''+'' \<or> c = CHR ''-'' \<or> c = CHR ''Z''"

text \<open>The date and the clock of a timestamp, each \<^const>\<open>None\<close> when it is not one.\<close>

definition parse_date :: "string \<Rightarrow> (int \<times> int \<times> int) option" where
  "parse_date date =
     (case split_on CHR ''-'' date of
        [y, m, d] \<Rightarrow>
          Option.bind (digits y 4) (\<lambda>year. Option.bind (digits m 2) (\<lambda>month. Option.bind (digits d 2) (\<lambda>day.
            if \<not> (1 \<le> month \<and> month \<le> 12) \<or> day < 1 \<or> days_in_month year month < day then None
            else Some (year, month, day))))
      | _ \<Rightarrow> None)"

definition parse_millis :: "string \<Rightarrow> int option" where
  "parse_millis millis =
     (if millis \<noteq> [] \<and> length millis \<le> 3 \<and> list_all is_ascii_digit millis then parse_i64 millis else None)"

definition parse_clock :: "string \<Rightarrow> (int \<times> int \<times> int \<times> int) option" where
  "parse_clock clock =
     Option.bind (split_once CHR ''.'' clock) (\<lambda>(hms, millis).
     case split_on CHR '':'' hms of
       [h, m, s] \<Rightarrow>
         Option.bind (digits h 2) (\<lambda>hour. Option.bind (digits m 2) (\<lambda>minute. Option.bind (digits s 2) (\<lambda>second.
         Option.bind (parse_millis millis) (\<lambda>millis.
           if 23 < hour \<or> 59 < minute \<or> 59 < second then None else Some (hour, minute, second, millis)))))
     | _ \<Rightarrow> None)"

definition parse_timestamp :: "string \<Rightarrow> int option option" where
  "parse_timestamp value =
     (case split_once CHR ''T'' value of
        None \<Rightarrow> Some None
      | Some (date, time) \<Rightarrow>
          (case parse_date date of
             None \<Rightarrow> Some None
           | Some (year, month, day) \<Rightarrow>
               let clock = takeWhile (\<lambda>c. \<not> zone_start c) time; zone = dropWhile (\<lambda>c. \<not> zone_start c) time
               in if zone = [] then Some None
                  else case parse_clock clock of
                         None \<Rightarrow> Some None
                       | Some (hour, minute, second, millis) \<Rightarrow>
                           let local = ((days_from_civil year month day * 24 + hour) * 60 + minute) * 60 + second
                           in map_option (map_option (\<lambda>zone. (local - zone * 60) * 1000 + millis)) (zone_minutes zone)))"

definition no_t_message :: string where
  "no_t_message =
     ''java.text.ParseException: Error parsing timestamp. It does not contain a '' @ [CHR 0x27] @ ''T'' @ [CHR 0x27] @
     '' according to ISO8601 format''"

definition parse_datetime :: "string \<Rightarrow> int res option" where
  "parse_datetime value =
     (case split_once CHR ''T'' value of
        None \<Rightarrow>
          Some (Inl no_t_message)
      | Some (_, time) \<Rightarrow>
          let value = (if list_ex zone_start time then value else value @ ''Z'')
          in map_option (ok_or (''java.text.ParseException: Unparseable date: \"'' @ value @ ''\"'')) (parse_timestamp value))"

section \<open>Durations\<close>

definition invalid_duration :: string where
  "invalid_duration = ''Text cannot be parsed to a Duration''"

text \<open>A computation that may panic or return an error, and an \<open>i128\<close> that may overflow.\<close>

definition run_bind :: "'a res option \<Rightarrow> ('a \<Rightarrow> 'b res option) \<Rightarrow> 'b res option" where
  "run_bind r f = (case r of None \<Rightarrow> None | Some (Inl e) \<Rightarrow> Some (Inl e) | Some (Inr x) \<Rightarrow> f x)"

abbreviation i128_min :: int where "i128_min \<equiv> - (2 ^ 127)"
abbreviation i128_max :: int where "i128_max \<equiv> 2 ^ 127 - 1"

definition checked :: "int \<Rightarrow> int res option" where
  "checked x = (if i128_min \<le> x \<and> x \<le> i128_max then Some (Inr x) else None)"

definition duration_number :: "string \<Rightarrow> int res" where
  "duration_number s =
     (let digits = (case s of c # cs \<Rightarrow> if c = CHR ''+'' \<or> c = CHR ''-'' then cs else s | [] \<Rightarrow> s)
      in if digits = [] \<or> \<not> list_all is_ascii_digit digits then Inl invalid_duration
         else ok_or invalid_duration (parse_signed i128_min i128_max s))"

text \<open>\<open>millis += number(amount)? * scale\<close>.\<close>

definition add_amount :: "int \<Rightarrow> string \<Rightarrow> int \<Rightarrow> int res option" where
  "add_amount millis amount scale =
     run_bind (Some (duration_number amount)) (\<lambda>n. run_bind (checked (n * scale)) (\<lambda>p. checked (millis + p)))"

text \<open>One unit of the time, when it is there.\<close>

definition add_unit :: "char \<Rightarrow> int \<Rightarrow> int \<times> bool \<times> string \<Rightarrow> (int \<times> bool \<times> string) res option" where
  "add_unit unit scale = (\<lambda>(millis, any, time).
     case split_once unit time of
       None \<Rightarrow> Some (Inr (millis, any, time))
     | Some (amount, tail) \<Rightarrow> run_bind (add_amount millis amount scale) (\<lambda>millis. Some (Inr (millis, True, tail))))"

definition split_fraction :: "string \<Rightarrow> string \<times> string" where
  "split_fraction seconds =
     (let whole = takeWhile (\<lambda>c. c \<noteq> CHR ''.'' \<and> c \<noteq> CHR '','') seconds in (whole, drop (Suc (length whole)) seconds))"

definition add_seconds :: "int \<Rightarrow> string \<Rightarrow> int res option" where
  "add_seconds millis time =
     (case strip_suffix ''S'' time of
        None \<Rightarrow> Some (Inl invalid_duration)
      | Some seconds \<Rightarrow>
          (case split_fraction seconds of
             (whole, fraction) \<Rightarrow>
               if 9 < length fraction \<or> \<not> list_all is_ascii_digit fraction then Some (Inl invalid_duration)
               else
                 run_bind (Some (duration_number whole)) (\<lambda>whole_value.
                 let fraction_millis = int (digits_value (take 3 (fraction @ replicate (3 - length fraction) CHR ''0'')));
                     sign = (case whole of c # _ \<Rightarrow> if c = CHR ''-'' then -1 else 1 | [] \<Rightarrow> 1)
                 in run_bind (checked (whole_value * 1000)) (\<lambda>p. run_bind (checked (p + sign * fraction_millis)) (\<lambda>p.
                    checked (millis + p))))))"

definition parse_duration :: "string \<Rightarrow> int res option" where
  "parse_duration value =
     (let upper = map ascii_upper value;
          (negate, rest) = (case upper of
              c # cs \<Rightarrow> if c = CHR ''-'' then (True, cs) else if c = CHR ''+'' then (False, cs) else (False, upper)
            | [] \<Rightarrow> (False, upper))
      in case strip_prefix ''P'' rest of
           None \<Rightarrow> Some (Inl invalid_duration)
         | Some rest \<Rightarrow>
             (case split_once CHR ''T'' rest of Some (_, []) \<Rightarrow> Some (Inl invalid_duration) | parts \<Rightarrow>
              let date = (case parts of Some (date, _) \<Rightarrow> date | None \<Rightarrow> rest);
                  time = (case parts of Some (_, time) \<Rightarrow> Some time | None \<Rightarrow> None)
              in run_bind
                   (if date = [] then Some (Inr (0, False))
                    else case strip_suffix ''D'' date of
                           None \<Rightarrow> Some (Inl invalid_duration)
                         | Some days \<Rightarrow> run_bind (add_amount 0 days 86400000) (\<lambda>millis. Some (Inr (millis, True))))
                   (\<lambda>(millis, any).
                 run_bind
                   (case time of
                      None \<Rightarrow> Some (Inr (millis, any))
                    | Some time \<Rightarrow>
                        run_bind (add_unit CHR ''H'' 3600000 (millis, any, time)) (\<lambda>st.
                        run_bind (add_unit CHR ''M'' 60000 st) (\<lambda>(millis, any, time).
                        if time = [] then Some (Inr (millis, any))
                        else run_bind (add_seconds millis time) (\<lambda>millis. Some (Inr (millis, True))))))
                   (\<lambda>(millis, any).
                 if \<not> any then Some (Inl invalid_duration)
                 else run_bind (if negate then checked (- millis) else Some (Inr millis)) (\<lambda>millis.
                   Some (if i64_min \<le> millis \<and> millis \<le> i64_max then Inr millis else Inl invalid_duration))))))"

section \<open>The calendar\<close>

text \<open>The days before a year that starts in March.\<close>

definition year_days :: "int \<Rightarrow> int" where
  "year_days y = 365 * y + y div 4 - y div 100 + y div 400"

lemma era_days:
  fixes y :: int
  defines "e \<equiv> y div 400"
  shows "e * 146097 + ((y - e * 400) * 365 + (y - e * 400) div 4 - (y - e * 400) div 100) = year_days y"
proof -
  let ?r = "y - e * 400"
  have "y div 4 = ?r div 4 + 100 * e" using div_mult_self2 [of 4 ?r "100 * e"] by (simp add: algebra_simps)
  moreover have "y div 100 = ?r div 100 + 4 * e" using div_mult_self2 [of 100 ?r "4 * e"] by (simp add: algebra_simps)
  ultimately show ?thesis unfolding year_days_def e_def [symmetric] by (simp add: algebra_simps)
qed

lemma days_from_civil_eq:
  "days_from_civil y m d =
     year_days (if m \<le> 2 then y - 1 else y) + (153 * (m + (if m > 2 then -3 else 9)) + 2) div 5 + d - 719469"
  using era_days [of "if m \<le> 2 then y - 1 else y"] unfolding days_from_civil_def Let_def by simp

lemma div_pred: "0 < n \<Longrightarrow> (y - 1) div n = (if y mod n = 0 then y div n - 1 else y div n)" for y n :: int
proof -
  assume n: "0 < n"
  have y: "y = n * (y div n) + y mod n" by simp
  have m: "0 \<le> y mod n" "y mod n < n" using n by simp_all
  show ?thesis
  proof (cases "y mod n = 0")
    case True
    have "(y - 1) div n = y div n - 1"
      by (rule int_div_pos_eq [where r = "n - 1"]) (use y True n in \<open>auto simp: algebra_simps\<close>)
    with True show ?thesis by simp
  next
    case False
    have "(y - 1) div n = y div n"
      by (rule int_div_pos_eq [where r = "y mod n - 1"]) (use y False m in auto)
    with False show ?thesis by simp
  qed
qed

lemma leap_year:
  "year_days y - year_days (y - 1) = 337 + days_in_month y 2"
proof -
  have "y mod 400 = 0 \<Longrightarrow> y mod 100 = 0" "y mod 100 = 0 \<Longrightarrow> y mod 4 = 0" by presburger+
  then show ?thesis by (auto simp: year_days_def days_in_month_def div_pred)
qed

text \<open>The day number of a date is the calendar's: it is 0 on the first of January 1970, grows by one from day to
  day, from the last day of a month to the first of the next and from the end of a year to the next
  year, with the length of each month that is used to reject a day.\<close>

theorem days_from_civil_calendar:
  assumes "1 \<le> m" and "m \<le> 11"
  shows "days_from_civil 1970 1 1 = 0
    \<and> days_from_civil y month (d + 1) = days_from_civil y month d + 1
    \<and> days_from_civil y (m + 1) 1 = days_from_civil y m (days_in_month y m) + 1
    \<and> days_from_civil (y + 1) 1 1 = days_from_civil y 12 (days_in_month y 12) + 1"
proof -
  have epoch: "days_from_civil 1970 1 1 = 0" by code_simp
  have day: "days_from_civil y month (d + 1) = days_from_civil y month d + 1" by (simp add: days_from_civil_eq)
  have year: "days_from_civil (y + 1) 1 1 = days_from_civil y 12 (days_in_month y 12) + 1"
    by (simp add: days_from_civil_eq days_in_month_def)
  have "m = 1 \<or> m = 2 \<or> m = 3 \<or> m = 4 \<or> m = 5 \<or> m = 6 \<or> m = 7 \<or> m = 8 \<or> m = 9 \<or> m = 10 \<or> m = 11" using assms by presburger
  then have month: "days_from_civil y (m + 1) 1 = days_from_civil y m (days_in_month y m) + 1"
  proof (cases "m = 2")
    case True
    then show ?thesis using leap_year [of y] by (simp add: days_from_civil_eq)
  next
    case False
    with \<open>m = 1 \<or> _\<close> show ?thesis by (auto simp: days_from_civil_eq days_in_month_def)
  qed
  show ?thesis using epoch day month year by blast
qed

theorem days_from_civil_calendar_witness:
  "days_from_civil 2024 (2 + 1) 1 = days_from_civil 2024 2 (days_in_month 2024 2) + 1 \<and> days_in_month 2024 2 = 29"
  using days_from_civil_calendar [of 2 2024] by (simp add: days_in_month_def)

section \<open>Printed dates\<close>

text \<open>A number with leading zeros.\<close>

fun pad_nat :: "nat \<Rightarrow> nat \<Rightarrow> string" where
  "pad_nat 0 n = []"
| "pad_nat (Suc w) n = pad_nat w (n div 10) @ [digit_char (n mod 10)]"

lemma pad_nat_length [simp]: "length (pad_nat w n) = w"
  by (induction w arbitrary: n) auto

lemma pad_nat_digits [simp]: "list_all is_ascii_digit (pad_nat w n)"
  by (induction w arbitrary: n) (simp_all add: digit_char_props)

lemma pad_nat_value: "digits_value (pad_nat w n) = n mod 10 ^ w"
proof (induction w arbitrary: n)
  case (Suc w)
  have "n mod 10 ^ Suc w = 10 * (n div 10 mod 10 ^ w) + n mod 10"
    by (metis mod_mult2_eq power_Suc mult.commute add.commute)
  with Suc show ?case by (simp add: digits_value_snoc digit_char_props)
qed (simp add: digits_value_def)

lemma no_sign_digit: "is_ascii_digit c \<Longrightarrow> c \<noteq> CHR ''-'' \<and> c \<noteq> CHR ''+''"
  by (auto simp: is_ascii_digit_def byte_of_def)

lemma parse_signed_digits:
  assumes "s \<noteq> []" and "list_all is_ascii_digit s" and "lo \<le> int (digits_value s)" and "int (digits_value s) \<le> hi"
  shows "parse_signed lo hi s = Some (int (digits_value s))"
proof -
  obtain c cs where "s = c # cs" using assms(1) by (cases s) auto
  with assms no_sign_digit [of c] show ?thesis by (simp add: parse_signed_def)
qed

lemma digits_pad:
  assumes "0 < w" and "w \<le> 9" and "n < 10 ^ w"
  shows "digits (pad_nat w n) w = Some (int n)"
proof -
  have "(10::nat) ^ w \<le> 10 ^ 9" using assms(2) by (rule power_increasing) simp
  then have "int n \<le> i64_max" using assms(3) by simp
  moreover have "pad_nat w n \<noteq> []" using assms(1) by (metis length_0_conv less_irrefl pad_nat_length)
  ultimately show ?thesis
    using parse_signed_digits [of "pad_nat w n" i64_min i64_max] assms(3) by (simp add: digits_def pad_nat_value)
qed

lemma pad_nat_no_char: "\<not> is_ascii_digit c \<Longrightarrow> c \<notin> set (pad_nat w n)"
  using pad_nat_digits [of w n] by (auto simp: list_all_iff)

definition show_date :: "nat \<Rightarrow> nat \<Rightarrow> nat \<Rightarrow> string" where
  "show_date y m d = pad_nat 4 y @ ''-'' @ pad_nat 2 m @ ''-'' @ pad_nat 2 d"

definition show_clock :: "nat \<Rightarrow> nat \<Rightarrow> nat \<Rightarrow> nat \<Rightarrow> string" where
  "show_clock h m s ms = pad_nat 2 h @ '':'' @ pad_nat 2 m @ '':'' @ pad_nat 2 s @ ''.'' @ pad_nat 3 ms"

definition show_zone :: "bool \<Rightarrow> nat \<Rightarrow> nat \<Rightarrow> string" where
  "show_zone east h m = (if east then ''+'' else ''-'') @ pad_nat 2 h @ '':'' @ pad_nat 2 m"

lemma not_digit_marks [simp]: "\<not> is_ascii_digit (CHR ''T'')" "\<not> is_ascii_digit (CHR ''Z'')" "\<not> is_ascii_digit (CHR ''D'')"
  "\<not> is_ascii_digit (CHR ''H'')" "\<not> is_ascii_digit (CHR ''M'')" "\<not> is_ascii_digit (CHR ''S'')"
  by (simp_all add: is_ascii_digit_def byte_of_def)

lemma split_on_three:
  assumes "c \<notin> set x" and "c \<notin> set y" and "c \<notin> set z"
  shows "split_on c (x @ c # y @ c # z) = [x, y, z]"
  using assms by (simp add: split_on_append_sep split_on_no_sep)

lemma parse_date_show:
  assumes "y < 10000" and "1 \<le> m" and "m \<le> 12" and "1 \<le> d" and "int d \<le> days_in_month (int y) (int m)"
  shows "parse_date (show_date y m d) = Some (int y, int m, int d)"
proof -
  have "days_in_month (int y) (int m) \<le> 31" by (simp add: days_in_month_def)
  then have "d < 100" "m < 100" using assms(3,5) by auto
  moreover have "split_on CHR ''-'' (show_date y m d) = [pad_nat 4 y, pad_nat 2 m, pad_nat 2 d]"
    using split_on_three [of "CHR ''-''" "pad_nat 4 y" "pad_nat 2 m" "pad_nat 2 d"] by (simp add: show_date_def pad_nat_no_char)
  ultimately show ?thesis
    using assms digits_pad [of 4 y] digits_pad [of 2 m] digits_pad [of 2 d] by (simp add: parse_date_def)
qed

lemma parse_clock_show:
  assumes "h < 24" and "m < 60" and "s < 60" and "ms < 1000"
  shows "parse_clock (show_clock h m s ms) = Some (int h, int m, int s, int ms)"
proof -
  let ?hms = "pad_nat 2 h @ '':'' @ pad_nat 2 m @ '':'' @ pad_nat 2 s"
  have "CHR ''.'' \<notin> set ?hms" by (simp add: pad_nat_no_char)
  then have "split_once CHR ''.'' (show_clock h m s ms) = Some (?hms, pad_nat 3 ms)"
    using split_once_append [of "CHR ''.''" ?hms "pad_nat 3 ms"] by (simp add: show_clock_def)
  moreover have "split_on CHR '':'' ?hms = [pad_nat 2 h, pad_nat 2 m, pad_nat 2 s]"
    using split_on_three [of "CHR '':''" "pad_nat 2 h" "pad_nat 2 m" "pad_nat 2 s"] by (simp add: pad_nat_no_char)
  moreover have "pad_nat 3 ms \<noteq> []" by (metis length_0_conv pad_nat_length zero_neq_numeral)
  then have "parse_millis (pad_nat 3 ms) = Some (int ms)"
    using digits_pad [of 3 ms] assms(4) by (simp add: parse_millis_def digits_def)
  ultimately show ?thesis
    using assms digits_pad [of 2 h] digits_pad [of 2 m] digits_pad [of 2 s] by (simp add: parse_clock_def)
qed

lemma char_boundary_digit: "is_ascii_digit (s ! i) \<Longrightarrow> i < length s \<Longrightarrow> is_char_boundary s i"
  by (simp add: is_char_boundary_def is_ascii_digit_def)

lemma zone_minutes_show:
  assumes "h < 24" and "m < 60"
  shows "zone_minutes (show_zone east h m) = Some (Some ((if east then 1 else -1) * (int h * 60 + int m)))"
proof -
  have "remove1 CHR '':'' (pad_nat 2 h @ CHR '':'' # pad_nat 2 m) = pad_nat 2 h @ pad_nat 2 m"
    by (simp add: remove1_append pad_nat_no_char)
  moreover have "is_char_boundary (pad_nat 2 h @ pad_nat 2 m) 2"
  proof (rule char_boundary_digit)
    have "(pad_nat 2 h @ pad_nat 2 m) ! 2 = pad_nat 2 m ! 0" by (simp add: nth_append)
    moreover have "is_ascii_digit (pad_nat 2 m ! 0)" using pad_nat_digits [of 2 m] unfolding list_all_length by simp
    ultimately show "is_ascii_digit ((pad_nat 2 h @ pad_nat 2 m) ! 2)" by simp
  qed simp
  ultimately show ?thesis
    using assms digits_pad [of 2 h] digits_pad [of 2 m] by (simp add: zone_minutes_def show_zone_def Let_def)
qed

lemma zone_start_show: "list_all (\<lambda>c. \<not> zone_start c) (show_clock h m s ms)" "\<exists>c cs. show_zone east zh zm = c # cs \<and> zone_start c"
proof -
  have "list_all (\<lambda>c. \<not> zone_start c) (pad_nat w n)" for w n
    using pad_nat_digits [of w n] by (auto simp: list_all_iff zone_start_def)
  then show "list_all (\<lambda>c. \<not> zone_start c) (show_clock h m s ms)" by (simp add: show_clock_def zone_start_def)
qed (simp add: show_zone_def zone_start_def)

lemma span_zone:
  assumes "list_all (\<lambda>c. \<not> P c) xs" and "P y"
  shows "takeWhile (\<lambda>c. \<not> P c) (xs @ y # ys) = xs" "dropWhile (\<lambda>c. \<not> P c) (xs @ y # ys) = y # ys"
  using assms by (induction xs) auto

text \<open>A date that is printed with its time, milliseconds and zone parses to its instant: the milliseconds since the
  epoch of the local time, less the offset of the zone.\<close>

theorem parse_datetime_roundtrip:
  assumes "y < 10000" and "1 \<le> mo" and "mo \<le> 12" and "1 \<le> d" and "int d \<le> days_in_month (int y) (int mo)"
    and "h < 24" and "mi < 60" and "s < 60" and "ms < 1000" and "zh < 24" and "zm < 60"
  shows "parse_datetime (show_date y mo d @ ''T'' @ show_clock h mi s ms @ show_zone east zh zm) =
    Some (Inr ((((days_from_civil (int y) (int mo) (int d) * 24 + int h) * 60 + int mi) * 60 + int s
      - (if east then 1 else -1) * (int zh * 60 + int zm) * 60) * 1000 + int ms))"
proof -
  let ?date = "show_date y mo d" and ?clock = "show_clock h mi s ms" and ?zone = "show_zone east zh zm"
  define dir :: int where "dir = (if east then 1 else -1)"
  obtain c cs where zone: "?zone = c # cs" "zone_start c" using zone_start_show(2) by blast
  have "CHR ''T'' \<notin> set ?date" by (simp add: show_date_def pad_nat_no_char)
  then have parts: "split_once CHR ''T'' (?date @ CHR ''T'' # ?clock @ ?zone) = Some (?date, ?clock @ ?zone)"
    by (rule split_once_append)
  have some_zone: "list_ex zone_start (?clock @ ?zone) = True" using zone by simp
  have "takeWhile (\<lambda>c. \<not> zone_start c) (?clock @ ?zone) = ?clock" "dropWhile (\<lambda>c. \<not> zone_start c) (?clock @ ?zone) = ?zone"
    using span_zone [of zone_start ?clock c cs] zone_start_show(1) zone by simp_all
  moreover have "?zone \<noteq> []" by (simp add: zone(1))
  ultimately have "parse_timestamp (?date @ CHR ''T'' # ?clock @ ?zone) = Some (Some
      ((((days_from_civil (int y) (int mo) (int d) * 24 + int h) * 60 + int mi) * 60 + int s
        - dir * (int zh * 60 + int zm) * 60) * 1000 + int ms))"
    using parse_date_show [OF assms(1-5)] parse_clock_show [OF assms(6-9)] zone_minutes_show [OF assms(10,11), of east]
    unfolding dir_def [symmetric] by (simp add: parse_timestamp_def parts del: dropWhile_eq_Nil_conv)
  then show ?thesis
    unfolding dir_def [symmetric] append_Cons append_Nil parse_datetime_def parts option.case prod.case Let_def some_zone if_True
    by simp
qed

theorem parse_datetime_roundtrip_witness:
  "parse_datetime ''2024-02-29T12:30:15.250+02:00'' = Some (Inr 1709202615250)"
proof -
  have "show_date 2024 2 29 @ ''T'' @ show_clock 12 30 15 250 @ show_zone True 2 0 = ''2024-02-29T12:30:15.250+02:00''" by code_simp
  moreover have "days_from_civil 2024 2 29 = 19782" "days_in_month 2024 2 = 29" by code_simp+
  ultimately show ?thesis using parse_datetime_roundtrip [of 2024 2 29 12 30 15 250 2 0 True] by simp
qed

text \<open>No text of ASCII characters makes the parser of a date panic.\<close>

theorem parse_datetime_ascii_returns:
  assumes "list_all (\<lambda>c. byte_of c < 128) input"
  shows "\<exists>r. parse_datetime input = Some r"
proof -
  have zone: "zone_minutes z \<noteq> None" if "list_all (\<lambda>c. byte_of c < 128) z" for z
  proof -
    have "is_char_boundary (remove1 CHR '':'' cs) 2" if "list_all (\<lambda>c. byte_of c < 128) cs" "length (remove1 CHR '':'' cs) = 4" for cs
    proof -
      have "remove1 CHR '':'' cs ! 2 \<in> set (remove1 CHR '':'' cs)" using that(2) by simp
      then have "byte_of (remove1 CHR '':'' cs ! 2) < 128" using that(1) set_remove1_subset [of "CHR '':''" cs] by (auto simp: list_all_iff)
      with that(2) show ?thesis by (simp add: is_char_boundary_def)
    qed
    with that show ?thesis by (auto simp: zone_minutes_def Let_def split: list.split)
  qed
  have stamp: "parse_timestamp v \<noteq> None" if "list_all (\<lambda>c. byte_of c < 128) v" for v
  proof -
    have "list_all (\<lambda>c. byte_of c < 128) (dropWhile P time)" if "split_once CHR ''T'' v = Some (date, time)" for P date time
      using that \<open>list_all _ v\<close> set_dropWhileD [of _ P time] by (auto simp: split_once_Some_iff list_all_iff)
    with zone show ?thesis by (auto simp: parse_timestamp_def Let_def split: option.split)
  qed
  have "list_all (\<lambda>c. byte_of c < 128) (input @ ''Z'')" using assms by (simp add: byte_of_def)
  with assms stamp [of input] stamp [of "input @ ''Z''"] show ?thesis
    by (auto simp: parse_datetime_def Let_def split: option.split)
qed

theorem parse_datetime_ascii_returns_witness:
  "\<exists>r. parse_datetime ''2024-01-01T00:00:00.000+02:00'' = Some r"
  by (rule parse_datetime_ascii_returns) (simp add: byte_of_def)

text \<open>A zone with a character of several bytes does.\<close>

theorem parse_datetime_panics:
  "parse_datetime (''2024-01-01T00:00:00.000+a'' @ [CHR 0xE2, CHR 0x82, CHR 0xAC]) = None"
  by code_simp

section \<open>Printed durations\<close>

lemma run_bind_simps [simp]: "run_bind None f = None" "run_bind (Some (Inl e)) f = Some (Inl e)" "run_bind (Some (Inr x)) f = f x"
  by (simp_all add: run_bind_def)

lemma duration_number_show:
  assumes "i128_min \<le> n" and "n \<le> i128_max"
  shows "duration_number (show_int n) = Inr n"
proof (cases "n < 0")
  case True
  then have s: "show_int n = CHR ''-'' # show_nat (nat (- n))" by (simp add: show_int_def)
  show ?thesis using parse_signed_show_int [OF assms] unfolding s by (simp add: duration_number_def show_nat_digits)
next
  case False
  then have s: "show_int n = show_nat (nat n)" by (simp add: show_int_def)
  obtain c cs where c: "show_nat (nat n) = c # cs" "c \<noteq> CHR ''-''" "c \<noteq> CHR ''+''" using hd_show_nat_no_sign by blast
  then have "list_all is_ascii_digit (c # cs)" using show_nat_digits [of "nat n"] by simp
  with parse_signed_show_int [OF assms] c show ?thesis unfolding s by (simp add: duration_number_def)
qed

lemma ascii_upper_other [simp]: "\<not> is_ascii_lower c \<Longrightarrow> ascii_upper c = c"
  by (simp add: ascii_upper_def)

lemma upper_show_int: "map ascii_upper (show_int n) = show_int n"
proof (rule map_idI)
  fix c assume "c \<in> set (show_int n)"
  then have "c = CHR ''-'' \<or> is_ascii_digit c" using show_int_chars [of n] by auto
  then have "\<not> is_ascii_lower c" by (auto simp: is_ascii_digit_def is_ascii_lower_def byte_of_def)
  then show "ascii_upper c = c" by simp
qed

lemma upper_pad: "map ascii_upper (pad_nat w n) = pad_nat w n"
proof (rule map_idI)
  fix c assume "c \<in> set (pad_nat w n)"
  then have "is_ascii_digit c" using pad_nat_digits [of w n] by (auto simp: list_all_iff)
  then show "ascii_upper c = c" by (simp add: is_ascii_digit_def is_ascii_lower_def)
qed

lemma upper_marks [simp]: "ascii_upper CHR ''P'' = CHR ''P''" "ascii_upper CHR ''T'' = CHR ''T''" "ascii_upper CHR ''D'' = CHR ''D''"
  "ascii_upper CHR ''H'' = CHR ''H''" "ascii_upper CHR ''M'' = CHR ''M''" "ascii_upper CHR ''S'' = CHR ''S''" "ascii_upper CHR ''.'' = CHR ''.''"
  by (simp_all add: is_ascii_lower_def byte_of_def)

lemma checked_ok: "- (2 ^ 127) \<le> x \<Longrightarrow> x \<le> 2 ^ 127 - 1 \<Longrightarrow> checked x = Some (Inr x)"
  by (simp add: checked_def)

lemma add_amount_show:
  assumes "\<bar>n\<bar> \<le> 10 ^ 11" and "0 \<le> scale" and "scale \<le> 10 ^ 9" and "\<bar>millis\<bar> \<le> 10 ^ 25"
  shows "add_amount millis (show_int n) scale = Some (Inr (millis + n * scale))"
proof -
  have "\<bar>n * scale\<bar> \<le> 10 ^ 11 * 10 ^ 9" unfolding abs_mult using assms(1-3) by (intro mult_mono) auto
  then have p: "\<bar>n * scale\<bar> \<le> 10 ^ 20" by simp
  have "duration_number (show_int n) = Inr n" by (rule duration_number_show) (use assms(1) in auto)
  moreover have "checked (n * scale) = Some (Inr (n * scale))" by (rule checked_ok) (use p in auto)
  moreover have "checked (millis + n * scale) = Some (Inr (millis + n * scale))"
    by (rule checked_ok) (use p assms(4) in \<open>auto simp: abs_le_iff\<close>)
  ultimately show ?thesis by (simp add: add_amount_def)
qed

lemma split_fraction_show: "split_fraction (show_int n @ CHR ''.'' # f) = (show_int n, f)"
proof -
  have "list_all (\<lambda>c. \<not> (c = CHR ''.'' \<or> c = CHR '','')) (show_int n)"
    using show_int_chars [of n] by (auto simp: list_all_iff)
  from span_zone(1) [OF this, of "CHR ''.''" f] show ?thesis by (simp add: split_fraction_def)
qed

lemma sign_show_int: "(case show_int n of c # _ \<Rightarrow> if c = CHR ''-'' then -1 else 1 | [] \<Rightarrow> 1) = (if n < 0 then -1 else (1::int))"
proof (cases "n < 0")
  case False
  then have "show_int n = show_nat (nat n)" by (simp add: show_int_def)
  with False show ?thesis using hd_show_nat_no_sign [of "nat n"] by auto
qed (simp add: show_int_def)

lemma add_seconds_show:
  assumes "\<bar>n\<bar> \<le> 10 ^ 11" and "ms < 1000" and "\<bar>millis\<bar> \<le> 10 ^ 25"
  shows "add_seconds millis (show_int n @ CHR ''.'' # pad_nat 3 ms @ ''S'') =
    Some (Inr (millis + n * 1000 + (if n < 0 then -1 else 1) * int ms))"
proof -
  let ?sign = "if n < 0 then -1 else (1::int)"
  have sms: "\<bar>?sign * int ms\<bar> \<le> 1000" using assms(2) by simp
  have n: "\<bar>n * 1000\<bar> \<le> 10 ^ 15" using assms(1) by (simp add: abs_mult)
  have c: "checked (n * 1000) = Some (Inr (n * 1000))" "checked (n * 1000 + ?sign * int ms) = Some (Inr (n * 1000 + ?sign * int ms))"
    "checked (millis + (n * 1000 + ?sign * int ms)) = Some (Inr (millis + (n * 1000 + ?sign * int ms)))"
    by (rule checked_ok; use n sms assms(3) in \<open>simp add: abs_le_iff\<close>)+
  have "strip_suffix ''S'' (show_int n @ CHR ''.'' # pad_nat 3 ms @ ''S'') = Some (show_int n @ CHR ''.'' # pad_nat 3 ms)"
    by (simp add: strip_suffix_Some_iff)
  moreover have "duration_number (show_int n) = Inr n" by (rule duration_number_show) (use assms(1) in auto)
  moreover have "digits_value (pad_nat 3 ms) = ms" using assms(2) by (simp add: pad_nat_value)
  ultimately show ?thesis
    using c by (simp add: add_seconds_def split_fraction_show sign_show_int Let_def algebra_simps)
qed

definition show_duration :: "int \<Rightarrow> int \<Rightarrow> int \<Rightarrow> int \<Rightarrow> nat \<Rightarrow> string" where
  "show_duration d h m s ms =
     ''P'' @ show_int d @ ''DT'' @ show_int h @ ''H'' @ show_int m @ ''M'' @ show_int s @ ''.'' @ pad_nat 3 ms @ ''S''"

lemma show_int_no_mark [simp]:
  "CHR ''T'' \<notin> set (show_int n)" "CHR ''H'' \<notin> set (show_int n)" "CHR ''M'' \<notin> set (show_int n)" "CHR ''D'' \<notin> set (show_int n)"
  by simp_all

text \<open>A duration that is printed with days, hours, minutes and seconds parses to its milliseconds, with the fraction on the
  side of its seconds' sign.\<close>

theorem parse_duration_roundtrip:
  assumes "\<bar>d\<bar> \<le> 10 ^ 10" and "\<bar>h\<bar> \<le> 10 ^ 11" and "\<bar>m\<bar> \<le> 10 ^ 11" and "\<bar>s\<bar> \<le> 10 ^ 11" and "ms < 1000"
  shows "parse_duration (show_duration d h m s ms) =
    Some (Inr (((d * 24 + h) * 60 + m) * 60000 + s * 1000 + (if s < 0 then -1 else 1) * int ms))"
proof -
  let ?secs = "show_int s @ CHR ''.'' # pad_nat 3 ms @ ''S''"
  let ?time = "show_int h @ CHR ''H'' # show_int m @ CHR ''M'' # ?secs"
  let ?date = "show_int d @ ''D''"
  let ?sign = "if s < 0 then -1 else (1::int)"
  define v where "v = ((d * 24 + h) * 60 + m) * 60000 + s * 1000 + ?sign * int ms"
  have upper: "map ascii_upper (show_duration d h m s ms) = CHR ''P'' # ?date @ CHR ''T'' # ?time"
    by (simp add: show_duration_def upper_show_int upper_pad)
  have parts: "split_once CHR ''T'' (?date @ CHR ''T'' # ?time) = Some (?date, ?time)"
    "split_once CHR ''H'' ?time = Some (show_int h, show_int m @ CHR ''M'' # ?secs)"
    "split_once CHR ''M'' (show_int m @ CHR ''M'' # ?secs) = Some (show_int m, ?secs)"
    by (rule split_once_append; simp)+
  have days: "strip_suffix ''D'' ?date = Some (show_int d)" by (simp add: strip_suffix_Some_iff)
  have d: "add_amount 0 (show_int d) 86400000 = Some (Inr (d * 86400000))"
    using add_amount_show [of d 86400000 0] assms(1) by simp
  have h: "add_amount (d * 86400000) (show_int h) 3600000 = Some (Inr (d * 86400000 + h * 3600000))"
    by (rule add_amount_show) (use assms in \<open>auto simp: abs_mult\<close>)
  have m: "add_amount (d * 86400000 + h * 3600000) (show_int m) 60000 = Some (Inr (d * 86400000 + h * 3600000 + m * 60000))"
    by (rule add_amount_show) (use assms in \<open>auto simp: abs_le_iff\<close>)
  have sec: "add_seconds (d * 86400000 + h * 3600000 + m * 60000) ?secs = Some (Inr v)"
    using add_seconds_show [of s ms "d * 86400000 + h * 3600000 + m * 60000"] assms
    by (simp add: abs_le_iff v_def algebra_simps)
  have range: "i64_min \<le> v" "v \<le> i64_max"
    unfolding v_def using assms by (auto simp: abs_le_iff)
  have "strip_prefix ''P'' (CHR ''P'' # ?date @ CHR ''T'' # ?time) = Some (?date @ CHR ''T'' # ?time)"
    by (simp add: strip_prefix_Some_iff)
  moreover obtain x xs where time: "?time = x # xs" by (cases ?time) auto
  moreover obtain y ys where secs: "?secs = y # ys" by (cases ?secs) auto
  ultimately show ?thesis
    unfolding parse_duration_def upper Let_def v_def [symmetric]
    using parts days d h m sec range by (simp add: add_unit_def)
qed

theorem parse_duration_roundtrip_witness: "parse_duration ''P1DT2H3M4.500S'' = Some (Inr 93784500)"
proof -
  have "show_duration 1 2 3 4 500 = ''P1DT2H3M4.500S''" by code_simp
  with parse_duration_roundtrip [of 1 2 3 4 500] show ?thesis by simp
qed

text \<open>The product of a number of days that fits an \<open>i128\<close> can overflow it.\<close>

lemma duration_number_digits:
  assumes "s \<noteq> []" and "list_all is_ascii_digit s" and "int (digits_value s) \<le> i128_max"
  shows "duration_number s = Inr (int (digits_value s))"
proof -
  obtain c cs where "s = c # cs" using assms(1) by (cases s) auto
  with assms no_sign_digit [of c] parse_signed_digits [OF assms(1,2), of i128_min i128_max] show ?thesis
    by (simp add: duration_number_def)
qed

theorem parse_duration_overflows: "parse_duration ''P2000000000000000000000000000000D'' = None"
proof -
  let ?n = "''2000000000000000000000000000000''"
  have upper: "map ascii_upper ''P2000000000000000000000000000000D'' = ''P'' @ ?n @ ''D''" by code_simp
  have digits: "list_all is_ascii_digit ?n" by code_simp
  have n: "digits_value ?n = 2000000000000000000000000000000"
    by (simp add: digits_value_def digit_val_def byte_of_def)
  have "duration_number ?n = Inr 2000000000000000000000000000000"
    using duration_number_digits [OF _ digits] unfolding n by simp
  then have "add_amount 0 ?n 86400000 = None" unfolding add_amount_def by (simp add: checked_def)
  moreover have "strip_prefix ''P'' (''P'' @ ?n @ ''D'') = Some (?n @ ''D'')" "strip_suffix ''D'' (?n @ ''D'') = Some ?n"
    "split_once CHR ''T'' (?n @ ''D'') = None" by code_simp+
  ultimately show ?thesis unfolding parse_duration_def upper Let_def by simp
qed

end
