(* ===== verification/Consumer_Groups.thy ===== *)
theory Consumer_Groups
  imports Group_Tables Reset_Time
begin

text \<open>
  \<^verbatim>\<open>crates/krabka-cli/src/consumer_groups.rs\<close>: \<open>kafka-consumer-groups\<close>. The admin client, the clock, the file of
  \<^verbatim>\<open>--from-file\<close>, the terminal and the regex library are the record \<open>GroupsEnv\<close>. A state and a type of a group are known by
  their names (\<open>as_str\<close>). The groups that \<^verbatim>\<open>--describe --offsets\<close> asks about at once answer one after another; \<open>Fan_Out\<close> has the
  batch itself.
\<close>

section \<open>The client\<close>

record MemberDescription =
  md_member_id :: string
  md_group_instance_id :: "string option"
  md_client_id :: string
  md_host :: string
  md_assignment :: "Partition list"
  md_target_assignment :: "Partition list option"
  md_member_epoch :: "int option"
  md_upgraded :: "bool option"

record ConsumerGroupDescription =
  cgd_state :: string
  cgd_host :: string
  cgd_port :: int
  cgd_id :: int
  cgd_partition_assignor :: string
  cgd_members :: "MemberDescription list"
  cgd_group_epoch :: "int option"
  cgd_target_assignment_epoch :: "int option"

record GroupListing =
  gl_group_id :: string
  gl_group_type :: "string option"
  gl_group_state :: "string option"

record ListGroupsError =
  le_host :: string
  le_port :: int
  le_node_id :: int
  le_error :: KafkaError

text \<open>The states and types of the options: \<open>for_consumer_groups\<close> with its own types, or with those given.\<close>

datatype ListGroupsOptions = ForConsumerGroups | ForConsumerGroupsWith "string list" "string list"

record GroupOffsetOutcome =
  go_topic :: string
  go_partition :: int
  go_error :: "KafkaError option"

record 'c GroupsEnv =
  ge_connect :: "('c, unit) cmd"
  ge_list_groups :: "ListGroupsOptions \<Rightarrow> 'c \<Rightarrow> (AdminError + (ListGroupsError + GroupListing list)) \<times> 'c"
  ge_describe_groups :: "string list \<Rightarrow> 'c \<Rightarrow> (string, KafkaError + ConsumerGroupDescription) btmap \<times> 'c"
  ge_describe_topics :: "string list \<Rightarrow> 'c \<Rightarrow> (string, KafkaError + (int \<times> int option) list) btmap \<times> 'c"
  ge_list_offsets :: "(Partition, OffsetSpec) btmap \<Rightarrow> 'c \<Rightarrow> (Partition, KafkaError + int) btmap \<times> 'c"
  ge_list_group_offsets :: "string \<Rightarrow> 'c \<Rightarrow> (AdminError + (Partition, int) btmap) \<times> 'c"
  ge_alter_group_offsets :: "string \<Rightarrow> (Partition, int) btmap \<Rightarrow> 'c \<Rightarrow> (AdminError + GroupOffsetOutcome list) \<times> 'c"
  ge_delete_groups :: "string list \<Rightarrow> 'c \<Rightarrow> (string, KafkaError + unit) btmap \<times> 'c"
  ge_delete_group_offsets :: "string \<Rightarrow> Partition list \<Rightarrow> 'c \<Rightarrow> (AdminError + GroupOffsetOutcome list) \<times> 'c"
  ge_now :: "'c \<Rightarrow> int option \<times> 'c"
  ge_read_file :: "string \<Rightarrow> 'c \<Rightarrow> string option \<times> 'c"
  ge_regex :: "string \<Rightarrow> string + unit"
  ge_terminal :: Terminal

text \<open>\<open>ge_describe_topics\<close>: the partitions of a topic, each with its leader. \<open>ge_now\<close>: the milliseconds since the epoch, \<^const>\<open>None\<close>
  before it.\<close>

definition GROUP_ID_NOT_FOUND :: int where "GROUP_ID_NOT_FOUND = 69"
definition NON_EMPTY_GROUP :: int where "NON_EMPTY_GROUP = 68"
definition UNKNOWN_SERVER_ERROR :: int where "UNKNOWN_SERVER_ERROR = - 1"

definition CONSUMER_GROUP_STATES :: "string list" where
  "CONSUMER_GROUP_STATES =
     [''Dead'', ''CompletingRebalance'', ''Empty'', ''Stable'', ''Assigning'', ''Reconciling'', ''PreparingRebalance'']"

definition CONSUMER_GROUP_TYPES :: "string list" where
  "CONSUMER_GROUP_TYPES = [''Consumer'', ''Classic'']"

record ConsumerGroupsArgs =
  cg_list :: bool
  cg_describe :: bool
  cg_delete :: bool
  cg_reset_offsets :: bool
  cg_delete_offsets :: bool
  cg_validate_regex :: "string option"
  cg_group :: "string list"
  cg_all_groups :: bool
  cg_topic :: "string list"
  cg_all_topics :: bool
  cg_execute :: bool
  cg_export :: bool
  cg_to_offset :: "int option"
  cg_to_earliest :: bool
  cg_to_latest :: bool
  cg_to_current :: bool
  cg_shift_by :: "int option"
  cg_to_datetime :: "string option"
  cg_by_duration :: "string option"
  cg_from_file :: "string option"
  cg_members :: bool
  cg_offsets :: bool
  cg_state :: "string option"
  cg_group_type :: "string option"
  cg_confirm :: ConfirmArgs

section \<open>Descriptions\<close>

record Member =
  m_consumer_id :: string
  m_group_instance_id :: "string option"
  m_client_id :: string
  m_host :: string
  m_assignment :: "Partition list"
  m_target_assignment :: "Partition list option"
  m_epoch :: "int option"
  m_upgraded :: "bool option"

record GroupDescription =
  gd_state :: string
  gd_coordinator :: "string \<times> int \<times> int"
  gd_partition_assignor :: string
  gd_members :: "Member list"
  gd_group_epoch :: "int option"
  gd_target_assignment_epoch :: "int option"

definition group_member :: "MemberDescription \<Rightarrow> Member" where
  "group_member d =
     \<lparr>m_consumer_id = md_member_id d, m_group_instance_id = md_group_instance_id d, m_client_id = md_client_id d,
      m_host = md_host d, m_assignment = md_assignment d, m_target_assignment = md_target_assignment d,
      m_epoch = md_member_epoch d, m_upgraded = md_upgraded d\<rparr>"

definition group_description :: "ConsumerGroupDescription \<Rightarrow> GroupDescription" where
  "group_description d =
     \<lparr>gd_state = cgd_state d, gd_coordinator = (cgd_host d, cgd_port d, cgd_id d),
      gd_partition_assignor = cgd_partition_assignor d, gd_members = map group_member (cgd_members d),
      gd_group_epoch = cgd_group_epoch d, gd_target_assignment_epoch = cgd_target_assignment_epoch d\<rparr>"

definition group_exception_text :: "KafkaError \<Rightarrow> string" where
  "group_exception_text error =
     (let exception = for_code (ke_code error)
      in case ke_message error of
           Some message \<Rightarrow> if message \<noteq> [] then ex_class exception @ '': '' @ message else to_java_string exception
         | None \<Rightarrow> to_java_string exception)"

definition listing_order :: "GroupListing list \<Rightarrow> GroupListing list" where
  "listing_order listed = hash_order listed Default (\<lambda>g. string_hash (gl_group_id g))"

definition list_failure :: "ListGroupsError \<Rightarrow> CommandError" where
  "list_failure failure =
     (let exception = for_code (ke_code (le_error failure));
          node = le_host failure @ '':'' @ show_int (le_port failure) @ '' (id: '' @ show_int (le_node_id failure) @
            '' rack: null isFenced: false)'';
          plain = ex_class exception @ '': Error listing groups on '' @ node
      in ErrOther (case ke_message (le_error failure) of
           Some message \<Rightarrow> if message \<noteq> [] then plain @ '': '' @ message else plain
         | None \<Rightarrow> plain))"

definition table_lines :: "string \<Rightarrow> string list" where
  "table_lines s = (if s = [] then []
     else split_on CHR 0x0A (case strip_suffix [CHR 0x0A] s of Some r \<Rightarrow> r | None \<Rightarrow> s))"

section \<open>The rules of the command line\<close>

definition takes_group :: "string \<Rightarrow> unit res" where
  "takes_group action = Inl (''Option ['' @ action @ ''] takes one of these options: [all-groups], [group]'')"

definition quoted_option :: "string \<Rightarrow> string" where
  "quoted_option name = [CHR 0x22] @ ''['' @ name @ '']'' @ [CHR 0x22]"

definition check_describe :: "ConsumerGroupsArgs \<Rightarrow> unit res" where
  "check_describe self =
     (if cg_group self = [] \<and> \<not> cg_all_groups self then takes_group ''describe''
      else if 1 < length (filter id [cg_members self, cg_offsets self, cg_state self \<noteq> None])
      then Inl ''Option [describe] takes at most one of these options: [members], [offsets], [state]''
      else if (case cg_state self of Some s \<Rightarrow> s \<noteq> [] | None \<Rightarrow> False) then Inl ''Option [describe] does not take a value for [state]''
      else Inr ())"

definition check_delete :: "ConsumerGroupsArgs \<Rightarrow> unit res" where
  "check_delete self =
     (if cg_group self = [] \<and> \<not> cg_all_groups self then takes_group ''delete''
      else if cg_topic self \<noteq> []
      then Inl ''The consumer does not support topic-specific offset deletion from a consumer group.''
      else Inr ())"

definition check_conflicts :: "ConsumerGroupsArgs \<Rightarrow> unit res" where
  "check_conflicts self =
     (if cg_group self \<noteq> [] \<and> cg_all_groups self
      then Inl (''Option '' @ quoted_option ''group'' @ '' can'' @ [CHR 0x27] @ ''t be used with option '' @ quoted_option ''all-groups'')
      else if cg_group self \<noteq> [] \<and> cg_list self
      then Inl (''Option '' @ quoted_option ''group'' @ '' can'' @ [CHR 0x27] @ ''t be used with option '' @ quoted_option ''list'')
      else if cg_topic self \<noteq> [] \<and> (cg_list self \<or> cg_describe self)
      then Inl (''Option '' @ quoted_option ''topic'' @ '' can'' @ [CHR 0x27] @ ''t be used with option '' @
             quoted_option (if cg_list self then ''list'' else ''describe''))
      else if ca_dry_run (cg_confirm self) \<and> (cg_list self \<or> cg_describe self)
      then Inl ''--dry-run is only valid with --reset-offsets, --delete or --delete-offsets''
      else Inr ())"

definition check_args :: "ConsumerGroupsArgs \<Rightarrow> bool \<Rightarrow> unit res" where
  "check_args self verbose =
     (if verbose \<and> \<not> cg_describe self
      then Inl ''Option(s) [verbose] are unavailable given other options on the command line''
      else res_bind (if cg_describe self then check_describe self else Inr ()) (\<lambda>_.
        res_bind (if cg_delete self then check_delete self else Inr ()) (\<lambda>_.
        if cg_delete_offsets self \<and> (cg_group self = [] \<or> cg_topic self = [])
        then Inl ''Option [delete-offsets] takes the following options: [topic], [group]''
        else if cg_reset_offsets self \<and> cg_group self = [] \<and> \<not> cg_all_groups self then takes_group ''reset-offsets''
        else check_conflicts self)))"

definition group_names :: "string list \<Rightarrow> (string \<Rightarrow> string) \<Rightarrow> string \<Rightarrow> string list res" where
  "group_names valid message input =
     collect_res (\<lambda>s. ok_or (message input) (List.find (\<lambda>known. map ascii_lower known = map ascii_lower (trim s)) valid))
       (split_on CHR '','' input)"

definition group_states :: "string \<Rightarrow> string list res" where
  "group_states = group_names CONSUMER_GROUP_STATES (\<lambda>input. ''Invalid state list '' @ [CHR 0x27] @ input @ [CHR 0x27] @
     ''. Valid states are: '' @ join_with '', '' CONSUMER_GROUP_STATES)"

definition group_types :: "string \<Rightarrow> string list res" where
  "group_types = group_names CONSUMER_GROUP_TYPES (\<lambda>input. ''Invalid types list '' @ [CHR 0x27] @ input @ [CHR 0x27] @
     ''. Valid types are: '' @ join_with '', '' CONSUMER_GROUP_TYPES)"

text \<open>\<open>str::lines\<close>: a line loses the carriage return before its line feed. The text of a regex error is its first line that starts
  with \<^verbatim>\<open>error: \<close>, without it.\<close>

definition str_lines :: "string \<Rightarrow> string list" where
  "str_lines s =
     (let pieces = split_on CHR 0x0A s
      in map (\<lambda>line. case strip_suffix [CHR 0x0D] line of Some r \<Rightarrow> r | None \<Rightarrow> line) (butlast pieces)
         @ (if last pieces = [] then [] else [last pieces]))"

definition regex_problem :: "string \<Rightarrow> string" where
  "regex_problem s =
     (case List.find (\<lambda>line. strip_prefix ''error: '' line \<noteq> None) (str_lines s) of
        Some line \<Rightarrow> drop (length ''error: '') line
      | None \<Rightarrow> s)"

definition validate_regex :: "(string \<Rightarrow> string + unit) \<Rightarrow> string \<Rightarrow> CommandResult" where
  "validate_regex regex_new regex =
     (case regex_new regex of
        Inr _ \<Rightarrow> result_success [''The regular expression `'' @ regex @ ''` is valid.'']
          (JObject [(''regex'', JString regex), (''valid'', JBool True), (''error'', JNull)])
      | Inl error \<Rightarrow> result_success [''The regular expression `'' @ regex @ ''` is invalid: '' @ regex_problem error @ ''.'']
          (JObject [(''regex'', JString regex), (''valid'', JBool False), (''error'', JString (regex_problem error))]))"

section \<open>Reading the cluster\<close>

text \<open>A step whose failure is a value.\<close>

definition cmd_catch :: "('c, 'a) cmd \<Rightarrow> ('c, CommandError + 'a) cmd" where
  "cmd_catch m st = (case m st of None \<Rightarrow> None | Some (r, st') \<Rightarrow> Some (Inr r, st'))"

fun cmd_each :: "('a \<Rightarrow> ('c, 'b) cmd) \<Rightarrow> 'a list \<Rightarrow> ('c, 'b list) cmd" where
  "cmd_each f [] = cmd_ret []"
| "cmd_each f (x # xs) = cmd_bind (f x) (\<lambda>y. cmd_bind (cmd_each f xs) (\<lambda>ys. cmd_ret (y # ys)))"

definition listed_groups :: "'c GroupsEnv \<Rightarrow> ListGroupsOptions \<Rightarrow> ('c, GroupListing list) cmd" where
  "listed_groups env options =
     cmd_bind (cmd_admin (ge_list_groups env options)) (\<lambda>listed.
     case listed of
       Inl failure \<Rightarrow> cmd_fail (list_failure failure)
     | Inr listed \<Rightarrow> cmd_ret (listing_order listed))"

definition all_groups :: "'c GroupsEnv \<Rightarrow> ('c, string list) cmd" where
  "all_groups env = cmd_bind (listed_groups env ForConsumerGroups) (\<lambda>listed. cmd_ret (map gl_group_id listed))"

definition target_groups :: "'c GroupsEnv \<Rightarrow> ConsumerGroupsArgs \<Rightarrow> ('c, string list) cmd" where
  "target_groups env self =
     cmd_bind (if cg_all_groups self then all_groups env else cmd_ret (cg_group self)) (\<lambda>groups.
     cmd_ret (push_unique [] groups))"

definition describe_raw :: "'c GroupsEnv \<Rightarrow> string list \<Rightarrow> ('c, (string, KafkaError + ConsumerGroupDescription) btmap) cmd" where
  "describe_raw env groups = (if groups = [] then cmd_ret [] else cmd_call (ge_describe_groups env groups))"

type_synonym Described = "string \<times> (CommandError + GroupDescription)"

text \<open>\<open>describe\<close>: the groups are distinct, so that \<open>remove\<close> finds what the answer has for each.\<close>

definition described_group :: "(string, KafkaError + ConsumerGroupDescription) btmap \<Rightarrow> string \<Rightarrow> Described" where
  "described_group described group_id =
     (group_id, case map_of described group_id of
        Some (Inr description) \<Rightarrow> Inr (group_description description)
      | Some (Inl error) \<Rightarrow> Inl (ErrOther (group_exception_text error))
      | None \<Rightarrow> Inl (ErrOther (''the coordinator did not describe group '' @ group_id)))"

definition describe :: "'c GroupsEnv \<Rightarrow> string list \<Rightarrow> ('c, Described list) cmd" where
  "describe env groups =
     cmd_bind (describe_raw env groups) (\<lambda>described. cmd_ret (map (described_group described) groups))"

type_synonym TopicLayout = "(string, KafkaError + (int \<times> bool) list) btmap"

definition topic_layout :: "'c GroupsEnv \<Rightarrow> string list \<Rightarrow> ('c, TopicLayout) cmd" where
  "topic_layout env topics =
     (if topics = [] then cmd_ret []
      else cmd_bind (cmd_call (ge_describe_topics env topics)) (\<lambda>answer.
        cmd_ret (map (\<lambda>(topic, description). (topic, map_sum id (map (\<lambda>(p, leader). (p, leader \<noteq> None))) description)) answer)))"

definition topics_of :: "Partition list \<Rightarrow> string list" where
  "topics_of partitions = remdups_adj (sort (map fst partitions))"

definition list_offsets_lookup :: "'c GroupsEnv \<Rightarrow> 'c OffsetLookup" where
  "list_offsets_lookup env partitions spec =
     cmd_bind (cmd_call (ge_list_offsets env (bt_of_list (map (\<lambda>p. (p, spec)) partitions)))) (\<lambda>answer.
     cmd_ret (map (\<lambda>(p, listed). (p, map_sum ke_code id listed)) answer))"

definition log_end_offsets :: "'c GroupsEnv \<Rightarrow> Partition list \<Rightarrow> ('c, (Partition, int) btmap) cmd" where
  "log_end_offsets env partitions =
     (if partitions = [] then cmd_ret []
      else cmd_bind (topic_layout env (topics_of partitions)) (\<lambda>layout.
        case List.find (\<lambda>(_, l). isl l) layout of
          Some (_, l) \<Rightarrow> cmd_fail (ErrOther (group_exception_text (projl l)))
        | None \<Rightarrow>
            (let led = filter (\<lambda>(topic, p). case map_of layout topic of Some (Inr ps) \<Rightarrow> (p, True) \<in> set ps | _ \<Rightarrow> False) partitions
             in if led = [] then cmd_ret []
                else cmd_bind (list_offsets_lookup env led Spec_Latest) (\<lambda>answers. cmd_try (known answers)))))"

definition layout_leader :: "TopicLayout \<Rightarrow> Partition \<Rightarrow> bool option" where
  "layout_leader layout = (\<lambda>(topic, p). case map_of layout topic of
     Some (Inr ps) \<Rightarrow> map_option snd (List.find (\<lambda>(i, _). i = p) ps) | _ \<Rightarrow> None)"

definition check_partitions_valid :: "'c GroupsEnv \<Rightarrow> Partition list \<Rightarrow> ('c, unit) cmd" where
  "check_partitions_valid env partitions =
     (if partitions = [] then cmd_ret ()
      else cmd_bind (topic_layout env (topics_of partitions)) (\<lambda>layout.
        let names = (\<lambda>wanted. join_with '','' (map partition_name (filter (\<lambda>p. wanted (layout_leader layout p)) partitions)));
            missing = names (\<lambda>found. found = None);
            leaderless = names (\<lambda>found. found = Some False)
        in if missing \<noteq> [] then cmd_fail (ErrOther (''The partitions '' @ [CHR 0x22] @ missing @ [CHR 0x22] @ '' do not exist''))
           else if leaderless \<noteq> [] then cmd_fail (ErrOther (''The partitions '' @ [CHR 0x22] @ leaderless @ [CHR 0x22] @ '' have no leader''))
           else cmd_ret ()))"

section \<open>Listing\<close>

definition nonempty_arg :: "string option \<Rightarrow> string option" where
  "nonempty_arg v = (case v of Some s \<Rightarrow> if s \<noteq> [] then Some s else None | None \<Rightarrow> None)"

definition listed_group :: "GroupListing \<Rightarrow> ListedGroup" where
  "listed_group l =
     \<lparr>lg_group_id = gl_group_id l,
      lg_group_type = (case gl_group_type l of Some t \<Rightarrow> t | None \<Rightarrow> ''Unknown''),
      lg_state = (case gl_group_state l of Some s \<Rightarrow> s | None \<Rightarrow> ''Unknown'')\<rparr>"

definition listed_json :: "ListedGroup \<Rightarrow> json" where
  "listed_json g = JObject [(''group'', JString (lg_group_id g)), (''type'', JString (lg_group_type g)), (''state'', JString (lg_state g))]"

definition list_groups :: "'c GroupsEnv \<Rightarrow> ConsumerGroupsArgs \<Rightarrow> ('c, CommandResult) cmd" where
  "list_groups env self =
     (if cg_state self \<noteq> None \<or> cg_group_type self \<noteq> None
      then cmd_bind (cmd_try (case nonempty_arg (cg_state self) of Some s \<Rightarrow> group_states s | None \<Rightarrow> Inr [])) (\<lambda>states.
           cmd_bind (cmd_try (case nonempty_arg (cg_group_type self) of Some s \<Rightarrow> group_types s | None \<Rightarrow> Inr [])) (\<lambda>types.
           cmd_bind (listed_groups env (ForConsumerGroupsWith states types)) (\<lambda>listed.
           let rows = map listed_group listed
           in cmd_ret (result_success (table_lines (list_table rows (cg_group_type self \<noteq> None) (cg_state self \<noteq> None)))
                (JArray (map listed_json rows))))))
      else cmd_bind (all_groups env) (\<lambda>groups.
           cmd_ret (result_success groups
             (JArray (map (\<lambda>g. JObject [(''group'', JString g), (''type'', JNull), (''state'', JNull)]) groups)))))"

section \<open>Describing\<close>

definition offset_row :: "string \<Rightarrow> (Partition, int) btmap \<Rightarrow> (Partition, int) btmap \<Rightarrow> Partition \<Rightarrow> Member option \<Rightarrow> OffsetRow" where
  "offset_row group_id committed log_end p m =
     (let offset = map_of committed p; end_offset = map_of log_end p;
          column = (\<lambda>f. Some (case m of Some member \<Rightarrow> f member | None \<Rightarrow> MISSING))
      in \<lparr>or_group = group_id, or_topic = Some (fst p), or_partition = Some (snd p), or_leader_epoch = None,
          or_offset = offset, or_log_end_offset = end_offset, or_lag = lag offset end_offset,
          or_consumer_id = column m_consumer_id, or_host = column m_host, or_client_id = column m_client_id\<rparr>)"

text \<open>The members with partitions, those with the most first; \<open>sort_by_key\<close> is stable.\<close>

definition assigned_members :: "Member list \<Rightarrow> Member list" where
  "assigned_members members =
     sort_key (\<lambda>m. - int (length (m_assignment m))) (filter (\<lambda>m. m_assignment m \<noteq> []) members)"

definition offset_rows :: "string \<Rightarrow> Member list \<Rightarrow> (Partition, int) btmap \<Rightarrow> (Partition, int) btmap \<Rightarrow> OffsetRow list" where
  "offset_rows group_id members committed log_end =
     (let assigned = assigned_members members; row = offset_row group_id committed log_end
      in concat (map (\<lambda>m. map (\<lambda>p. row p (Some m)) (sort (m_assignment m))) assigned)
         @ map (\<lambda>p. row p None) (filter (\<lambda>p. \<not> list_ex (\<lambda>m. p \<in> set (m_assignment m)) assigned) (map fst committed)))"

definition group_offsets :: "'c GroupsEnv \<Rightarrow> string \<Rightarrow> GroupDescription \<Rightarrow> ('c, OffsetRow list) cmd" where
  "group_offsets env group_id description =
     cmd_bind (ge_connect env) (\<lambda>_.
     cmd_bind (cmd_admin (ge_list_group_offsets env group_id)) (\<lambda>committed.
     let partitions = bs_of_list (map fst committed @ concat (map m_assignment (gd_members description)))
     in cmd_bind (log_end_offsets env partitions) (\<lambda>log_end.
        cmd_ret (offset_rows group_id (gd_members description) committed log_end))))"

definition member_state :: "string \<Rightarrow> string \<Rightarrow> nat \<Rightarrow> CommandError + (string \<times> string list \<times> bool)" where
  "member_state group_id state rows =
     (let q = [CHR 0x27]; named = ''Consumer group '' @ q @ group_id @ q
      in if state = ''Dead'' then Inr ([CHR 0x0A] @ ''Error: '' @ named @ '' does not exist.'' @ [CHR 0x0A], [], False)
         else if state = ''Empty'' then Inr ([], [[], named @ '' has no active members.''], 0 < rows)
         else if state \<in> {''PreparingRebalance'', ''CompletingRebalance'', ''Assigning'', ''Reconciling''}
         then Inr ([], [[], ''Warning: '' @ named @ '' is rebalancing.''], 0 < rows)
         else if state = ''Stable'' then Inr ([], [], 0 < rows)
         else Inl (ErrOther (''org.apache.kafka.common.KafkaException: Expected a valid consumer group state, but found '' @ q @ state @ q @ ''.'')))"

definition group_failure :: "string \<Rightarrow> CommandError \<Rightarrow> string" where
  "group_failure group_id error =
     ''Error: Executing consumer group command failed for group '' @ [CHR 0x27] @ group_id @ [CHR 0x27] @ '' due to '' @ show_error error"

definition failure_json :: "string \<Rightarrow> CommandError \<Rightarrow> json" where
  "failure_json group_id error = JObject [(''group'', JString group_id), (''error'', JString (show_error error))]"

definition opt_int_json :: "int option \<Rightarrow> json" where
  "opt_int_json v = (case v of Some n \<Rightarrow> JInt n | None \<Rightarrow> JNull)"

definition offset_row_json :: "OffsetRow \<Rightarrow> json" where
  "offset_row_json row =
     JObject [(''group'', JString (or_group row)), (''topic'', opt_json (or_topic row)),
       (''partition'', opt_int_json (or_partition row)), (''leader_epoch'', opt_int_json (or_leader_epoch row)),
       (''current_offset'', opt_int_json (or_offset row)), (''log_end_offset'', opt_int_json (or_log_end_offset row)),
       (''lag'', opt_int_json (or_lag row)), (''consumer_id'', opt_json (or_consumer_id row)),
       (''host'', opt_json (or_host row)), (''client_id'', opt_json (or_client_id row))]"

definition member_row_json :: "MemberRow \<Rightarrow> json" where
  "member_row_json row =
     JObject [(''consumer_id'', JString (mr_consumer_id row)), (''group_instance_id'', JString (mr_group_instance_id row)),
       (''host'', JString (mr_host row)), (''client_id'', JString (mr_client_id row)),
       (''partitions'', JInt (int (length (mr_assignment row))))]"

definition member_rows :: "string \<Rightarrow> GroupDescription \<Rightarrow> MemberRow list" where
  "member_rows group_id description =
     map (\<lambda>m. \<lparr>mr_group = group_id, mr_consumer_id = m_consumer_id m,
         mr_group_instance_id = (case m_group_instance_id m of Some i \<Rightarrow> i | None \<Rightarrow> []),
         mr_host = m_host m, mr_client_id = m_client_id m, mr_assignment = m_assignment m,
         mr_target_assignment = (case m_target_assignment m of Some t \<Rightarrow> t | None \<Rightarrow> []),
         mr_current_epoch = m_epoch m, mr_target_epoch = gd_target_assignment_epoch description,
         mr_upgraded = m_upgraded m\<rparr>) (gd_members description)"

definition state_row :: "string \<Rightarrow> GroupDescription \<Rightarrow> StateRow" where
  "state_row group_id description =
     (case gd_coordinator description of (host, port, node) \<Rightarrow>
        \<lparr>sr_group = group_id, sr_coordinator = host @ '':'' @ show_int port @ ''  ('' @ show_int node @ '')'',
         sr_assignment_strategy = gd_partition_assignor description, sr_state = gd_state description,
         sr_members = length (gd_members description), sr_group_epoch = gd_group_epoch description,
         sr_target_assignment_epoch = gd_target_assignment_epoch description\<rparr>)"

text \<open>What the loops of the reports gather: the text, the data, the notices and whether a group failed.\<close>

record GroupReport =
  rp_text :: string
  rp_data :: "json list"
  rp_notices :: "string list"
  rp_failed :: bool

definition empty_report :: GroupReport where
  "empty_report = \<lparr>rp_text = [], rp_data = [], rp_notices = [], rp_failed = False\<rparr>"

definition report_failure :: "GroupReport \<Rightarrow> string \<Rightarrow> CommandError \<Rightarrow> GroupReport" where
  "report_failure r group_id error =
     r\<lparr>rp_failed := True, rp_notices := rp_notices r @ [group_failure group_id error],
       rp_data := rp_data r @ [failure_json group_id error]\<rparr>"

definition report_result :: "GroupReport \<Rightarrow> CommandResult" where
  "report_result r = with_notices (rp_notices r) (result_rows (table_lines (rp_text r)) (JArray (rp_data r)) (rp_failed r))"

definition state_data :: "string \<Rightarrow> StateRow \<Rightarrow> json" where
  "state_data group_id row =
     JObject [(''group'', JString group_id), (''coordinator'', JString (sr_coordinator row)),
       (''assignment_strategy'', JString (sr_assignment_strategy row)), (''state'', JString (sr_state row)),
       (''members'', JInt (int (sr_members row)))]"

definition members_or_state_step :: "bool \<Rightarrow> bool \<Rightarrow> GroupReport \<Rightarrow> Described \<Rightarrow> GroupReport" where
  "members_or_state_step members verbose r = (\<lambda>(group_id, answer).
     case res_bind answer (\<lambda>d. map_sum id (Pair d)
            (member_state group_id (gd_state d) (if members then length (gd_members d) else 1))) of
       Inl error \<Rightarrow> report_failure r group_id error
     | Inr (d, stdout, stderr, print) \<Rightarrow>
         if members
         then (let rows = member_rows group_id d
               in r\<lparr>rp_text := rp_text r @ stdout @ members_table rows verbose, rp_notices := rp_notices r @ stderr,
                    rp_data := rp_data r @ [JObject [(''group'', JString group_id), (''state'', JString (gd_state d)),
                      (''members'', JArray (map member_row_json rows))]]\<rparr>)
         else (let row = state_row group_id d
               in r\<lparr>rp_text := rp_text r @ stdout @ (if print then state_table row verbose else []),
                    rp_notices := rp_notices r @ stderr, rp_data := rp_data r @ [state_data group_id row]\<rparr>))"

definition members_or_state_report :: "Described list \<Rightarrow> bool \<Rightarrow> bool \<Rightarrow> CommandResult" where
  "members_or_state_report described members verbose =
     report_result (foldl (members_or_state_step members verbose) empty_report described)"

type_synonym GroupOffsets = "string \<times> (CommandError + string \<times> OffsetRow list)"

definition offsets_step :: "bool \<Rightarrow> GroupReport \<Rightarrow> GroupOffsets \<Rightarrow> GroupReport" where
  "offsets_step verbose r = (\<lambda>(group_id, answer).
     case res_bind answer (\<lambda>(state, rows). map_sum id (Pair rows) (member_state group_id state (length rows))) of
       Inl error \<Rightarrow> report_failure r group_id error
     | Inr (rows, stdout, stderr, print) \<Rightarrow>
         r\<lparr>rp_text := rp_text r @ stdout @ (if print then offsets_table rows verbose else []),
           rp_notices := rp_notices r @ stderr, rp_data := rp_data r @ map offset_row_json rows\<rparr>)"

definition offsets_report :: "GroupOffsets list \<Rightarrow> bool \<Rightarrow> CommandResult" where
  "offsets_report answers verbose = report_result (foldl (offsets_step verbose) empty_report answers)"

definition group_answer :: "'c GroupsEnv \<Rightarrow> Described \<Rightarrow> ('c, GroupOffsets) cmd" where
  "group_answer env = (\<lambda>(group_id, description).
     case description of
       Inl error \<Rightarrow> cmd_ret (group_id, Inl error)
     | Inr d \<Rightarrow> cmd_bind (cmd_catch (group_offsets env group_id d)) (\<lambda>answer.
         cmd_ret (group_id, map_sum id (Pair (gd_state d)) answer)))"

definition describe_groups :: "'c GroupsEnv \<Rightarrow> ConsumerGroupsArgs \<Rightarrow> bool \<Rightarrow> ('c, CommandResult) cmd" where
  "describe_groups env self verbose =
     cmd_bind (target_groups env self) (\<lambda>groups.
     cmd_bind (describe env (sort groups)) (\<lambda>described.
     if cg_members self \<or> cg_state self \<noteq> None
     then cmd_ret (members_or_state_report described (cg_members self) verbose)
     else cmd_bind (cmd_each (group_answer env) described) (\<lambda>answers. cmd_ret (offsets_report answers verbose))))"

section \<open>Deleting groups\<close>

definition error_of :: "int \<Rightarrow> KafkaError" where
  "error_of code = \<lparr>ke_code = code, ke_name = ex_name (for_code code), ke_message = None\<rparr>"

type_synonym DeleteResult = "string \<times> KafkaError option"

definition quoted_groups :: "DeleteResult list \<Rightarrow> string" where
  "quoted_groups groups = join_with '', '' (map (\<lambda>(g, _). [CHR 0x27] @ g @ [CHR 0x27]) groups)"

definition pick_results :: "DeleteResult list \<Rightarrow> bool \<Rightarrow> DeleteResult list" where
  "pick_results results failed =
     hash_order (filter (\<lambda>(_, error). (error \<noteq> None) = failed) results) Default (\<lambda>(g, _). string_hash g)"

definition delete_error_json :: "KafkaError \<Rightarrow> json" where
  "delete_error_json error =
     (let exception = for_code (ke_code error)
      in JObject [(''code'', JInt (ke_code error)), (''name'', JString (ex_name exception)),
           (''message'', JString (case ke_message error of Some m \<Rightarrow> m | None \<Rightarrow> ex_message exception))])"

definition delete_report :: "DeleteResult list \<Rightarrow> CommandResult" where
  "delete_report results =
     (let failed = pick_results results True; succeeded = pick_results results False;
          human = (if failed = []
            then [''Deletion of requested consumer groups ('' @ quoted_groups succeeded @ '') was successful.'']
            else [[], ''Error: Deletion of some consumer groups failed:'']
              @ concat (map (\<lambda>(g, error). case error of
                    Some e \<Rightarrow> [''* Group '' @ [CHR 0x27] @ g @ [CHR 0x27] @ '' could not be deleted due to: '' @ group_exception_text e]
                  | None \<Rightarrow> []) failed)
              @ (if succeeded \<noteq> [] then [[], ''These consumer groups were deleted successfully: '' @ quoted_groups succeeded] else []))
      in result_rows human
           (JArray (map (\<lambda>(g, error). JObject [(''group'', JString g),
              (''error'', case error of Some e \<Rightarrow> delete_error_json e | None \<Rightarrow> JNull)]) results))
           (failed \<noteq> []))"

definition dry_delete_error :: "(string, KafkaError + ConsumerGroupDescription) btmap \<Rightarrow> string \<Rightarrow> KafkaError option" where
  "dry_delete_error described group_id =
     (case map_of described group_id of
        Some (Inr d) \<Rightarrow>
          if cgd_state d = ''Dead'' then Some (error_of GROUP_ID_NOT_FOUND)
          else if cgd_state d = ''Empty'' then None
          else Some (error_of NON_EMPTY_GROUP)
      | Some (Inl error) \<Rightarrow> Some error
      | None \<Rightarrow> None)"

definition deleted_error :: "(string, KafkaError + unit) btmap \<Rightarrow> string \<Rightarrow> KafkaError option" where
  "deleted_error deleted group_id =
     (case map_of deleted group_id of
        Some (Inr _) \<Rightarrow> None
      | Some (Inl error) \<Rightarrow> Some error
      | None \<Rightarrow> Some \<lparr>ke_code = UNKNOWN_SERVER_ERROR, ke_name = ex_name (for_code UNKNOWN_SERVER_ERROR),
                  ke_message = Some (''Group '' @ group_id @ '' was not included in the response'')\<rparr>)"

definition delete_groups :: "'c GroupsEnv \<Rightarrow> ConsumerGroupsArgs \<Rightarrow> ('c, CommandResult) cmd" where
  "delete_groups env self =
     cmd_bind (target_groups env self) (\<lambda>groups.
     if ca_dry_run (cg_confirm self)
     then cmd_bind (describe_raw env groups) (\<lambda>described.
       cmd_ret (into_kafka_dry_run (delete_report (map (\<lambda>g. (g, dry_delete_error described g)) groups))))
     else cmd_bind (cmd_confirm (confirm (ca_yes (cg_confirm self)) (ge_terminal env) ''krabka consumer-groups''
            \<lparr>im_summary = ''delete '' @ show_nat (length groups) @ '' consumer group(s)'', im_resources = groups\<rparr>)) (\<lambda>_.
       cmd_bind (if groups = [] then cmd_ret [] else cmd_call (ge_delete_groups env groups)) (\<lambda>deleted.
       cmd_ret (delete_report (map (\<lambda>g. (g, deleted_error deleted g)) groups)))))"

section \<open>Deleting offsets\<close>

text \<open>The topics of \<^verbatim>\<open>--topic\<close>: the partitions that are named, in order, and the topics named without partitions.\<close>

fun split_topics :: "string list \<Rightarrow> (Partition list \<times> string list) res" where
  "split_topics [] = Inr ([], [])"
| "split_topics (arg # args) =
     res_bind (topic_arg arg) (\<lambda>(name, named).
     res_bind (split_topics args) (\<lambda>(partitions, whole).
     Inr (case named of Some ps \<Rightarrow> (map (Pair name) ps @ partitions, whole) | None \<Rightarrow> (partitions, name # whole))))"

definition layout_rows :: "string \<times> (KafkaError + (int \<times> bool) list) \<Rightarrow> DeleteOffsetRow list" where
  "layout_rows = (\<lambda>(topic, layout).
     case layout of
       Inl error \<Rightarrow> [((topic, None), Some (group_exception_text error))]
     | Inr ps \<Rightarrow> map (\<lambda>(p, _). ((topic, Some p), None)) ps)"

text \<open>\<open>rows.sort()\<close> with the derived order: an absent partition or error is before a present one.\<close>

definition row_key :: "DeleteOffsetRow \<Rightarrow> (string \<times> int list) \<times> string list" where
  "row_key = (\<lambda>((topic, p), error).
     ((topic, case p of None \<Rightarrow> [] | Some n \<Rightarrow> [n]), case error of None \<Rightarrow> [] | Some e \<Rightarrow> [e]))"

definition delete_offsets_scope :: "'c GroupsEnv \<Rightarrow> ConsumerGroupsArgs \<Rightarrow> ('c, DeleteOffsetRow list) cmd" where
  "delete_offsets_scope env self =
     cmd_bind (cmd_try (split_topics (cg_topic self))) (\<lambda>(named, whole).
     cmd_bind (topic_layout env whole) (\<lambda>layout.
     cmd_ret (remdups_adj (sort_key row_key
       (map (\<lambda>(topic, p). ((topic, Some p), None)) named @ concat (map layout_rows layout))))))"

definition PARTITION_LEVEL :: string where
  "PARTITION_LEVEL = [CHR 0x0A] @ ''Error: Encountered some partition-level error, see the follow-up details.''"

definition delete_offsets_verdict :: "string \<Rightarrow> int option \<Rightarrow> bool \<Rightarrow> string" where
  "delete_offsets_verdict group_id top_level partition_failed =
     (case top_level of
        None \<Rightarrow> if \<not> partition_failed then ''Request succeeded for deleting offsets from group '' @ group_id @ ''.'' else PARTITION_LEVEL
      | Some code \<Rightarrow>
          (let name = ex_name (for_code code)
           in if name \<in> {''INVALID_GROUP_ID'', ''GROUP_ID_NOT_FOUND'', ''GROUP_AUTHORIZATION_FAILED'', ''NON_EMPTY_GROUP''}
              then [CHR 0x0A] @ ''Error: '' @ ex_message (for_code code)
              else if name \<in> {''GROUP_SUBSCRIBED_TO_TOPIC'', ''TOPIC_AUTHORIZATION_FAILED'', ''UNKNOWN_TOPIC_OR_PARTITION''}
              then PARTITION_LEVEL
              else [CHR 0x0A] @ ''Error: Encountered some unknown error: '' @ name))"

definition delete_offsets_report :: "string \<Rightarrow> int option \<Rightarrow> DeleteOffsetRow list \<Rightarrow> CommandResult" where
  "delete_offsets_report group_id top_level rows =
     (let partition_failed = list_ex (\<lambda>(_, error). error \<noteq> None) rows
      in result_rows
           (table_lines (delete_offsets_verdict group_id top_level partition_failed @ [CHR 0x0A] @ delete_offsets_table rows))
           (JObject [(''group'', JString group_id),
              (''error'', case top_level of Some code \<Rightarrow> JString (ex_name (for_code code)) | None \<Rightarrow> JNull),
              (''partitions'', JArray (map (\<lambda>((topic, p), error). JObject [(''topic'', JString topic),
                 (''partition'', opt_int_json p), (''error'', opt_json error)]) rows))])
           (top_level \<noteq> None \<or> partition_failed))"

definition DELETE_OFFSETS_DRY_RUN_CAVEAT :: string where
  "DELETE_OFFSETS_DRY_RUN_CAVEAT = ''WARN: the group has members, and a dry run does not check whether it is subscribed to these topics, for which OffsetDelete answers GROUP_SUBSCRIBED_TO_TOPIC''"

definition dry_offsets_verdict :: "(KafkaError + ConsumerGroupDescription) option \<Rightarrow> int option \<times> string list" where
  "dry_offsets_verdict answer =
     (case answer of
        Some (Inr d) \<Rightarrow>
          if cgd_state d = ''Dead'' then (Some GROUP_ID_NOT_FOUND, [])
          else if cgd_state d = ''Empty'' then (None, [])
          else (None, [DELETE_OFFSETS_DRY_RUN_CAVEAT])
      | Some (Inl error) \<Rightarrow> (Some (ke_code error), [])
      | None \<Rightarrow> (None, []))"

definition deletion_failure :: "(Partition, int option) btmap \<Rightarrow> Partition \<Rightarrow> (int \<times> string) option" where
  "deletion_failure answered p =
     (case map_of answered p of
        None \<Rightarrow> Some (UNKNOWN_SERVER_ERROR,
          ''java.lang.IllegalArgumentException: Offset deletion result for partition '' @ [CHR 0x22] @ partition_name p @ [CHR 0x22] @
          '' was not included in the response'')
      | Some None \<Rightarrow> None
      | Some (Some code) \<Rightarrow> Some (code, to_java_string (for_code code)))"

definition set_row_error :: "(Partition \<Rightarrow> string option) \<Rightarrow> DeleteOffsetRow \<Rightarrow> DeleteOffsetRow" where
  "set_row_error failure = (\<lambda>((topic, p), error).
     ((topic, p), case Option.bind p (\<lambda>n. failure (topic, n)) of Some e \<Rightarrow> Some e | None \<Rightarrow> error))"

definition apply_offset_deletions ::
    "DeleteOffsetRow list \<Rightarrow> Partition list \<Rightarrow> GroupOffsetOutcome list \<Rightarrow> DeleteOffsetRow list \<times> int option" where
  "apply_offset_deletions rows partitions outcomes =
     (let answered = bt_of_list (map (\<lambda>oc. ((go_topic oc, go_partition oc), map_option ke_code (go_error oc))) outcomes);
          failure = deletion_failure answered
      in (map (set_row_error (map_option snd \<circ> failure)) rows,
          map_option fst (Option.bind (List.find (\<lambda>p. failure p \<noteq> None)
            (hash_set_order partitions (\<lambda>(topic, p). topic_partition_hash topic p))) failure)))"

definition delete_group_offsets :: "'c GroupsEnv \<Rightarrow> ConsumerGroupsArgs \<Rightarrow> ('c, CommandResult) cmd" where
  "delete_group_offsets env self =
     cmd_bind (cmd_index (if cg_group self = [] then None else Some (hd (cg_group self)))) (\<lambda>group_id.
     cmd_bind (delete_offsets_scope env self) (\<lambda>rows.
     if ca_dry_run (cg_confirm self)
     then cmd_bind (describe_raw env [group_id]) (\<lambda>described.
       case dry_offsets_verdict (map_of described group_id) of (top_level, notices) \<Rightarrow>
         cmd_ret (into_kafka_dry_run (with_notices notices (delete_offsets_report group_id top_level rows))))
     else let partitions = concat (map (\<lambda>((topic, p), _). case p of Some n \<Rightarrow> [(topic, n)] | None \<Rightarrow> []) rows)
       in cmd_bind (cmd_confirm (confirm (ca_yes (cg_confirm self)) (ge_terminal env) ''krabka consumer-groups''
            \<lparr>im_summary = ''delete the committed offsets of '' @ show_nat (length partitions) @ '' partition(s) from group '' @ group_id,
             im_resources = map partition_name partitions\<rparr>)) (\<lambda>_.
          cmd_bind (cmd_call (ge_delete_group_offsets env group_id partitions)) (\<lambda>answer.
          case answer of
            Inr outcomes \<Rightarrow>
              (case apply_offset_deletions rows partitions outcomes of (rows, top_level) \<Rightarrow>
                 cmd_ret (delete_offsets_report group_id top_level rows))
          | Inl (AdminBroker api code name message) \<Rightarrow>
              cmd_ret (delete_offsets_report group_id (Some code)
                (map (set_row_error (\<lambda>_. Some (to_java_string (for_code code)))) rows))
          | Inl other \<Rightarrow> cmd_fail (from_admin_error other)))))"

section \<open>Resetting offsets\<close>

definition topic_partitions :: "'c GroupsEnv \<Rightarrow> string list \<Rightarrow> ('c, Partition list) cmd" where
  "topic_partitions env topics =
     cmd_bind (cmd_try (split_topics topics)) (\<lambda>(named, whole).
     cmd_bind (topic_layout env whole) (\<lambda>layout.
     cmd_bind (cmd_try (collect_res (\<lambda>(topic, l). case l of
         Inr ps \<Rightarrow> Inr (map (\<lambda>(p, _). (topic, p)) ps)
       | Inl error \<Rightarrow> Inl (java_message error)) layout)) (\<lambda>parts.
     cmd_ret (named @ concat parts))))"

text \<open>\<open>now.saturating_sub(duration)\<close>.\<close>

definition saturating_sub_i64 :: "int \<Rightarrow> int \<Rightarrow> int" where
  "saturating_sub_i64 a b = max i64_min (min i64_max (a - b))"

definition now_millis :: "'c GroupsEnv \<Rightarrow> ('c, int) cmd" where
  "now_millis env = cmd_bind (cmd_call (ge_now env)) (\<lambda>elapsed.
     cmd_ret (case elapsed of Some ms \<Rightarrow> min ms i64_max | None \<Rightarrow> 0))"

type_synonym reset_file = "(string, (Partition, int) btmap) btmap"

definition scenario :: "'c GroupsEnv \<Rightarrow> ConsumerGroupsArgs \<Rightarrow> string \<Rightarrow> reset_file option \<Rightarrow> ('c, Scenario) cmd" where
  "scenario env self group_id plans =
     (case cg_to_offset self of Some offset \<Rightarrow> cmd_ret (ToOffset offset)
      | None \<Rightarrow>
      if cg_to_earliest self then cmd_ret ToEarliest
      else if cg_to_latest self then cmd_ret ToLatest
      else case cg_shift_by self of Some shift \<Rightarrow> cmd_ret (ShiftBy shift)
      | None \<Rightarrow>
      case cg_to_datetime self of
        Some datetime \<Rightarrow>
          cmd_bind (cmd_index (parse_datetime datetime)) (\<lambda>parsed. cmd_bind (cmd_try parsed) (\<lambda>t. cmd_ret (ToDatetime t)))
      | None \<Rightarrow>
      case cg_by_duration self of
        Some duration \<Rightarrow>
          cmd_bind (now_millis env) (\<lambda>now.
          cmd_bind (cmd_index (parse_duration duration)) (\<lambda>parsed.
          cmd_bind (cmd_try parsed) (\<lambda>d. cmd_ret (ByDuration (saturating_sub_i64 now d)))))
      | None \<Rightarrow>
      case plans of
        Some plans \<Rightarrow> cmd_ret (FromFile (map_of plans group_id))
      | None \<Rightarrow> cmd_ret ToCurrent)"

record ResetState =
  rs_stdout :: "string list"
  rs_notices :: "string list"
  rs_plans :: "(string \<times> Plan) list"

definition inactive_error :: "string \<Rightarrow> string \<Rightarrow> string list" where
  "inactive_error group_id state =
     [[], ''Error: Assignments can only be reset if the group '' @ [CHR 0x27] @ group_id @ [CHR 0x27] @
      '' is inactive, but the current state is '' @ state @ ''.'']"

text \<open>The plan of a group that may be reset: its scenario, its committed offsets, its partitions, and what they give.\<close>

definition needs_committed :: "ConsumerGroupsArgs \<Rightarrow> Scenario \<Rightarrow> bool" where
  "needs_committed self sc \<longleftrightarrow> cg_all_topics self \<or> (case sc of ShiftBy _ \<Rightarrow> True | ToCurrent \<Rightarrow> True | _ \<Rightarrow> False)"

definition group_plan :: "'c GroupsEnv \<Rightarrow> ConsumerGroupsArgs \<Rightarrow> reset_file option \<Rightarrow> string \<Rightarrow> ('c, Planned) cmd" where
  "group_plan env self plans group_id =
     cmd_bind (scenario env self group_id plans) (\<lambda>sc.
     cmd_bind (if needs_committed self sc then cmd_admin (ge_list_group_offsets env group_id) else cmd_ret []) (\<lambda>committed.
     cmd_bind (if cg_all_topics self then cmd_ret (map fst committed)
               else if cg_topic self = [] then cmd_ret []
               else topic_partitions env (cg_topic self)) (\<lambda>partitions.
     cmd_bind (check_partitions_valid env partitions) (\<lambda>_.
     reset_plan sc group_id partitions committed (list_offsets_lookup env)))))"

definition execute_reset :: "'c GroupsEnv \<Rightarrow> ConsumerGroupsArgs \<Rightarrow> string \<Rightarrow> Plan \<Rightarrow> ('c, KafkaError option) cmd" where
  "execute_reset env self group_id plan =
     (if cg_execute self \<and> plan \<noteq> []
      then cmd_bind (cmd_admin (ge_alter_group_offsets env group_id (bt_of_list plan))) (\<lambda>outcomes.
        cmd_ret (Option.bind (List.find (\<lambda>oc. go_error oc \<noteq> None) outcomes) go_error))
      else cmd_ret None)"

text \<open>The loop over the groups, which ends early at the first group whose offsets were refused.\<close>

fun reset_groups ::
    "'c GroupsEnv \<Rightarrow> ConsumerGroupsArgs \<Rightarrow> reset_file option \<Rightarrow> (string, KafkaError + ConsumerGroupDescription) btmap
     \<Rightarrow> ResetState \<Rightarrow> string list \<Rightarrow> ('c, ResetState \<times> KafkaError option) cmd" where
  "reset_groups env self plans described rs [] = cmd_ret (rs, None)"
| "reset_groups env self plans described rs (group_id # groups) =
     (let proceed =
        cmd_bind (group_plan env self plans group_id) (\<lambda>planned.
        let rs' = rs\<lparr>rs_stdout := rs_stdout rs @ pl_stdout planned, rs_notices := rs_notices rs @ pl_notices planned\<rparr>
        in cmd_bind (execute_reset env self group_id (pl_plan planned)) (\<lambda>failure.
           if failure \<noteq> None then cmd_ret (rs', failure)
           else reset_groups env self plans described (rs'\<lparr>rs_plans := rs_plans rs' @ [(group_id, pl_plan planned)]\<rparr>) groups))
      in case map_of described group_id of
           Some (Inr d) \<Rightarrow>
             if cgd_state d \<noteq> ''Empty'' \<and> cgd_state d \<noteq> ''Dead''
             then reset_groups env self plans described
                    (rs\<lparr>rs_stdout := rs_stdout rs @ inactive_error group_id (cgd_state d), rs_plans := rs_plans rs @ [(group_id, [])]\<rparr>) groups
             else proceed
         | Some (Inl error) \<Rightarrow>
             if ke_code error \<noteq> GROUP_ID_NOT_FOUND then cmd_fail (ErrOther (group_exception_text error)) else proceed
         | None \<Rightarrow> proceed)"

definition plan_json :: "string \<Rightarrow> Partition \<times> int \<Rightarrow> json" where
  "plan_json group_id = (\<lambda>((topic, p), offset).
     JObject [(''group'', JString group_id), (''topic'', JString topic), (''partition'', JInt p), (''new_offset'', JInt offset)])"

definition reset_report :: "(string \<times> Plan) list \<Rightarrow> KafkaError option \<Rightarrow> string list \<Rightarrow> bool \<Rightarrow> bool \<Rightarrow> CommandResult" where
  "reset_report plans failure stdout export single_group =
     (let plans = hash_order plans Default (\<lambda>(g, _). string_hash g);
          data = concat (map (\<lambda>(g, plan). map (plan_json g) plan) plans);
          report = (case failure of
             Some error \<Rightarrow> [CHR 0x0A] @ ''Error: Executing consumer group command failed due to '' @
               (case ke_message error of Some m \<Rightarrow> if m \<noteq> [] then m else ex_message (for_code (ke_code error))
                | None \<Rightarrow> ex_message (for_code (ke_code error))) @ [CHR 0x0A]
           | None \<Rightarrow> if export then export_csv plans single_group else reset_table plans)
      in result_rows (stdout @ table_lines report)
           (JObject [(''plans'', JArray data), (''error'', kafka_error failure)]) (failure \<noteq> None))"

definition read_plans :: "'c GroupsEnv \<Rightarrow> ConsumerGroupsArgs \<Rightarrow> ('c, reset_file option) cmd" where
  "read_plans env self =
     (case cg_from_file self of
        None \<Rightarrow> cmd_ret None
      | Some path \<Rightarrow>
          cmd_bind (cmd_call (ge_read_file env path)) (\<lambda>csv.
          case csv of
            None \<Rightarrow> cmd_fail (ErrOther (''java.io.IOException: Unable to read file '' @ path))
          | Some csv \<Rightarrow> cmd_bind (cmd_try (parse_reset_file csv (cg_group self))) (\<lambda>plans. cmd_ret (Some plans))))"

definition reset :: "'c GroupsEnv \<Rightarrow> ConsumerGroupsArgs \<Rightarrow> ('c, CommandResult) cmd" where
  "reset env self =
     cmd_bind (target_groups env self) (\<lambda>groups.
     cmd_bind (read_plans env self) (\<lambda>plans.
     if \<not> cg_all_topics self \<and> cg_topic self = [] \<and> plans = None
     then cmd_fail (ErrOther ''One of the reset scopes should be defined: --all-topics, --topic.'')
     else cmd_bind (describe_raw env groups) (\<lambda>described.
       cmd_bind (reset_groups env self plans described \<lparr>rs_stdout = [], rs_notices = [], rs_plans = []\<rparr>
         (hash_order groups Default string_hash)) (\<lambda>(rs, failure).
       let result = with_notices (rs_notices rs)
             (reset_report (rs_plans rs) failure (rs_stdout rs) (cg_export self) (length (cg_group self) = 1))
       in cmd_ret (if cg_execute self then result else into_kafka_dry_run result)))))"

definition run_consumer_groups :: "'c GroupsEnv \<Rightarrow> ConsumerGroupsArgs \<Rightarrow> bool \<Rightarrow> ('c, CommandResult) cmd" where
  "run_consumer_groups env self verbose =
     cmd_bind (cmd_try (check_args self verbose)) (\<lambda>_.
     case cg_validate_regex self of
       Some regex \<Rightarrow> cmd_ret (validate_regex (ge_regex env) regex)
     | None \<Rightarrow>
         cmd_bind (ge_connect env) (\<lambda>_.
         if cg_list self then list_groups env self
         else if cg_describe self then describe_groups env self verbose
         else if cg_delete self then delete_groups env self
         else if cg_reset_offsets self then reset env self
         else delete_group_offsets env self))"

end
