(* ===== verification/Group_Safety.thy ===== *)
theory Group_Safety
  imports Consumer_Groups
begin

text \<open>What \<open>kafka-consumer-groups\<close> promises: when it only reads, what \<^verbatim>\<open>--execute\<close> writes, and what its tables hold.\<close>

section \<open>Commands that only read\<close>

text \<open>The environment with other operations that change the cluster.\<close>

definition with_changes ::
    "'c GroupsEnv \<Rightarrow> (string \<Rightarrow> (Partition, int) btmap \<Rightarrow> 'c \<Rightarrow> (AdminError + GroupOffsetOutcome list) \<times> 'c)
     \<Rightarrow> (string list \<Rightarrow> 'c \<Rightarrow> (string, KafkaError + unit) btmap \<times> 'c)
     \<Rightarrow> (string \<Rightarrow> Partition list \<Rightarrow> 'c \<Rightarrow> (AdminError + GroupOffsetOutcome list) \<times> 'c) \<Rightarrow> 'c GroupsEnv" where
  "with_changes env alter delete delete_offsets =
     env\<lparr>ge_alter_group_offsets := alter, ge_delete_groups := delete, ge_delete_group_offsets := delete_offsets\<rparr>"

lemma calls_with_changes:
  "ge_connect (with_changes env a d u) = ge_connect env"
  "ge_terminal (with_changes env a d u) = ge_terminal env"
  "ge_regex (with_changes env a d u) = ge_regex env"
  "ge_list_groups (with_changes env a d u) = ge_list_groups env"
  "ge_describe_groups (with_changes env a d u) = ge_describe_groups env"
  "ge_describe_topics (with_changes env a d u) = ge_describe_topics env"
  "ge_list_offsets (with_changes env a d u) = ge_list_offsets env"
  "ge_list_group_offsets (with_changes env a d u) = ge_list_group_offsets env"
  "ge_now (with_changes env a d u) = ge_now env"
  "ge_read_file (with_changes env a d u) = ge_read_file env"
  by (simp_all add: with_changes_def)

lemma steps_with_changes:
  "target_groups (with_changes env a d u) self = target_groups env self"
  "listed_groups (with_changes env a d u) options = listed_groups env options"
  "describe_raw (with_changes env a d u) groups = describe_raw env groups"
  "topic_layout (with_changes env a d u) topics = topic_layout env topics"
  "list_offsets_lookup (with_changes env a d u) = list_offsets_lookup env"
  "scenario (with_changes env a d u) self group_id plans = scenario env self group_id plans"
  "read_plans (with_changes env a d u) self = read_plans env self"
  unfolding target_groups_def all_groups_def listed_groups_def describe_raw_def topic_layout_def
    list_offsets_lookup_def [abs_def] scenario_def now_millis_def read_plans_def calls_with_changes
  by (rule refl)+

lemmas reads_with_changes = calls_with_changes steps_with_changes

lemma group_answer_with_changes: "group_answer (with_changes env a d u) = group_answer env"
  unfolding group_answer_def group_offsets_def log_end_offsets_def reads_with_changes ..

lemma reading_actions_with_changes:
  "list_groups (with_changes env a d u) self = list_groups env self"
  "describe_groups (with_changes env a d u) self verbose = describe_groups env self verbose"
  unfolding list_groups_def all_groups_def describe_groups_def describe_def reads_with_changes group_answer_with_changes
  by (rule refl)+

lemma group_plan_with_changes: "group_plan (with_changes env a d u) self plans group_id = group_plan env self plans group_id"
  unfolding group_plan_def topic_partitions_def check_partitions_valid_def reads_with_changes ..

lemma reset_groups_with_changes:
  "\<not> cg_execute self \<Longrightarrow> reset_groups (with_changes env a d u) self plans described rs groups = reset_groups env self plans described rs groups"
proof (induction groups arbitrary: rs)
  case (Cons group_id groups)
  then have ih: "reset_groups (with_changes env a d u) self plans described rs groups = reset_groups env self plans described rs groups" for rs
    by blast
  have "execute_reset (with_changes env a d u) self g plan = execute_reset env self g plan" for g plan
    using Cons.prems by (simp add: execute_reset_def)
  then show ?case unfolding reset_groups.simps group_plan_with_changes ih by (simp only:)
qed simp

text \<open>Whether a command may change the cluster: an executed reset, or a deletion that is no dry run and is confirmed.\<close>

definition declined :: "ConsumerGroupsArgs \<Rightarrow> Terminal \<Rightarrow> bool" where
  "declined self terminal \<longleftrightarrow> (\<forall>impact. \<exists>refusal. confirm (ca_yes (cg_confirm self)) terminal ''krabka consumer-groups'' impact = Inl refusal)"

definition only_reads :: "ConsumerGroupsArgs \<Rightarrow> Terminal \<Rightarrow> bool" where
  "only_reads self terminal \<longleftrightarrow>
     cg_list self \<or> cg_describe self \<or> cg_validate_regex self \<noteq> None
     \<or> (if \<not> cg_delete self \<and> cg_reset_offsets self then \<not> cg_execute self
        else ca_dry_run (cg_confirm self) \<or> declined self terminal)"

lemma cmd_confirm_declined:
  assumes "declined self terminal"
  shows "cmd_confirm (confirm (ca_yes (cg_confirm self)) terminal ''krabka consumer-groups'' impact) =
    cmd_fail (ErrRefused (projl (confirm (ca_yes (cg_confirm self)) terminal ''krabka consumer-groups'' impact)))"
proof -
  obtain refusal where "confirm (ca_yes (cg_confirm self)) terminal ''krabka consumer-groups'' impact = Inl refusal"
    using assms unfolding declined_def by blast
  then show ?thesis by (simp add: cmd_confirm_def)
qed

lemma dry_deletion_with_changes:
  assumes "ca_dry_run (cg_confirm self)"
  shows "delete_groups (with_changes env a d u) self = delete_groups env self"
    and "delete_group_offsets (with_changes env a d u) self = delete_group_offsets env self"
  unfolding delete_groups_def delete_group_offsets_def delete_offsets_scope_def reads_with_changes
  by (simp_all only: assms if_True)

lemma declined_deletion_with_changes:
  assumes "declined self (ge_terminal env)"
  shows "delete_groups (with_changes env a d u) self = delete_groups env self"
    and "delete_group_offsets (with_changes env a d u) self = delete_group_offsets env self"
proof -
  note declines = cmd_confirm_declined [OF assms] cmd_bind_fail
  show "delete_groups (with_changes env a d u) self = delete_groups env self"
    unfolding delete_groups_def reads_with_changes declines ..
  show "delete_group_offsets (with_changes env a d u) self = delete_group_offsets env self"
    unfolding delete_group_offsets_def delete_offsets_scope_def reads_with_changes declines ..
qed

text \<open>C20. A listing, a description, a reset without \<^verbatim>\<open>--execute\<close>, and a deletion that is a dry run or is not confirmed only read: the
  outcome of the whole command and the client after it do not depend on the operations that change the cluster.\<close>

theorem groups_only_read:
  assumes "only_reads self (ge_terminal env)"
  shows "run_consumer_groups (with_changes env alter delete delete_offsets) self verbose = run_consumer_groups env self verbose"
proof -
  let ?env = "with_changes env alter delete delete_offsets"
  have no_reset: "reset ?env self = reset env self" if "\<not> cg_execute self"
    unfolding reset_def reads_with_changes reset_groups_with_changes [OF that] ..
  have no_delete: "delete_groups ?env self = delete_groups env self" "delete_group_offsets ?env self = delete_group_offsets env self"
    if "ca_dry_run (cg_confirm self) \<or> declined self (ge_terminal env)"
    using that dry_deletion_with_changes declined_deletion_with_changes by blast+
  have rest: "(if cg_delete self then delete_groups ?env self else if cg_reset_offsets self then reset ?env self
      else delete_group_offsets ?env self) =
      (if cg_delete self then delete_groups env self else if cg_reset_offsets self then reset env self
      else delete_group_offsets env self)" if "\<not> cg_list self" "\<not> cg_describe self" "cg_validate_regex self = None"
    using assms that no_reset no_delete unfolding only_reads_def by (auto split: if_splits)
  show ?thesis
  proof (cases "cg_list self \<or> cg_describe self \<or> cg_validate_regex self \<noteq> None")
    case True
    then show ?thesis
      unfolding run_consumer_groups_def reads_with_changes reading_actions_with_changes
      by (cases "cg_validate_regex self"; cases "cg_list self"; cases "cg_describe self") simp_all
  next
    case False
    then show ?thesis
      unfolding run_consumer_groups_def reads_with_changes reading_actions_with_changes by (simp add: rest)
  qed
qed

section \<open>What an executed reset writes\<close>

text \<open>An observation \<open>seen\<close> of the client that its reads keep and that records every change of offsets.\<close>

definition reads_keep :: "('c \<Rightarrow> 'd) \<Rightarrow> 'c GroupsEnv \<Rightarrow> bool" where
  "reads_keep seen env \<longleftrightarrow>
     keeps seen (ge_connect env) \<and> (\<forall>options. call_keeps seen (ge_list_groups env options))
     \<and> (\<forall>groups. call_keeps seen (ge_describe_groups env groups)) \<and> (\<forall>topics. call_keeps seen (ge_describe_topics env topics))
     \<and> (\<forall>specs. call_keeps seen (ge_list_offsets env specs)) \<and> (\<forall>g. call_keeps seen (ge_list_group_offsets env g))
     \<and> call_keeps seen (ge_now env) \<and> (\<forall>path. call_keeps seen (ge_read_file env path))"

type_synonym altered = "(string \<times> (Partition, int) btmap) list"

definition records_changes :: "('c \<Rightarrow> altered) \<Rightarrow> 'c GroupsEnv \<Rightarrow> bool" where
  "records_changes seen env \<longleftrightarrow> reads_keep seen env
     \<and> (\<forall>g offsets st. seen (snd (ge_alter_group_offsets env g offsets st)) = seen st @ [(g, offsets)])"

lemma keeps_required [keeps_intros]: "(\<And>ps spec. keeps f (lookup ps spec)) \<Longrightarrow> keeps f (required lookup ps spec missing)"
  unfolding required_def by (intro keeps_intros)

lemma keeps_index_all [keeps_intros]: "keeps f (index_all g ps)"
  by (induction g ps rule: index_all.induct) (auto intro!: keeps_intros)

lemma keeps_clamped_plan [keeps_intros]: "(\<And>ps spec. keeps f (lookup ps spec)) \<Longrightarrow> keeps f (clamped_plan lookup requested)"
  unfolding clamped_plan_def clamped_def by (intro keeps_intros)

lemma keeps_filtered_plan [keeps_intros]: "(\<And>ps spec. keeps f (lookup ps spec)) \<Longrightarrow> keeps f (filtered_plan lookup ps spec missing)"
  unfolding filtered_plan_def by (intro keeps_intros)

lemma keeps_timestamp_plan [keeps_intros]: "(\<And>ps spec. keeps f (lookup ps spec)) \<Longrightarrow> keeps f (timestamp_plan lookup ps timestamp)"
  unfolding timestamp_plan_def by_timestamp_def by (intro keeps_intros)

lemma keeps_to_current [keeps_intros]: "(\<And>ps spec. keeps f (lookup ps spec)) \<Longrightarrow> keeps f (to_current lookup committed ps)"
  unfolding to_current_def by (intro keeps_intros)

lemma keeps_reset_plan [keeps_intros]:
  "(\<And>ps spec. keeps f (lookup ps spec)) \<Longrightarrow> keeps f (reset_plan sc group_id ps committed lookup)"
  by (cases "(sc, group_id, ps, committed, lookup)" rule: reset_plan.cases) (auto intro!: keeps_intros)

lemma keeps_group_plan:
  assumes "reads_keep seen env"
  shows "keeps seen (group_plan env self plans group_id)"
proof -
  have calls: "call_keeps seen (ge_describe_topics env topics)" "call_keeps seen (ge_list_offsets env specs)"
    "call_keeps seen (ge_list_group_offsets env g)" "call_keeps seen (ge_now env)" for topics specs g
    using assms by (simp_all add: reads_keep_def)
  have layout: "keeps seen (topic_layout env topics)" for topics
    unfolding topic_layout_def by (intro keeps_intros calls)
  have lookup: "keeps seen (list_offsets_lookup env ps spec)" for ps spec
    unfolding list_offsets_lookup_def by (intro keeps_intros calls)
  have valid: "keeps seen (check_partitions_valid env ps)" for ps
    unfolding check_partitions_valid_def by (intro keeps_intros layout)
  have topics: "keeps seen (topic_partitions env topics)" for topics
    unfolding topic_partitions_def by (intro keeps_intros layout)
  have sc: "keeps seen (scenario env self group_id plans)"
    unfolding scenario_def now_millis_def by (intro keeps_intros calls)
  show ?thesis
    unfolding group_plan_def by (intro keeps_intros sc calls topics valid lookup)
qed

text \<open>What plans ask to be altered: those with a partition, in order.\<close>

definition altered_by :: "(string \<times> Plan) list \<Rightarrow> altered" where
  "altered_by plans = map (\<lambda>(g, plan). (g, bt_of_list plan)) (filter (\<lambda>(_, plan). plan \<noteq> []) plans)"

lemma execute_reset_records:
  assumes "records_changes seen env" and "cg_execute self" and "execute_reset env self g plan st = Some (r, st')"
  shows "seen st' = seen st @ altered_by [(g, plan)]"
proof (cases "plan = []")
  case True
  with assms(3) show ?thesis by (auto simp: execute_reset_def cmd_ret_def altered_by_def)
next
  case False
  obtain answer st1 where call: "ge_alter_group_offsets env g (bt_of_list plan) st = (answer, st1)"
    by (cases "ge_alter_group_offsets env g (bt_of_list plan) st")
  have "\<forall>g offsets st. seen (snd (ge_alter_group_offsets env g offsets st)) = seen st @ [(g, offsets)]"
    using assms(1) by (simp add: records_changes_def)
  from this [rule_format, of g "bt_of_list plan" st] call have "seen st1 = seen st @ [(g, bt_of_list plan)]" by simp
  moreover have "st' = st1"
    using assms(2,3) False call
    by (auto simp: execute_reset_def cmd_bind_def cmd_admin_def cmd_ret_def split: sum.splits)
  ultimately show ?thesis using False by (simp add: altered_by_def)
qed

lemma altered_by_append: "altered_by (plans @ plans') = altered_by plans @ altered_by plans'"
  by (simp add: altered_by_def)

lemma altered_by_skip: "altered_by [(g, [])] = []"
  by (simp add: altered_by_def)

lemma execute_reset_failure:
  "execute_reset env self g plan st = Some (Inr (Some error), st') \<Longrightarrow> plan \<noteq> []"
  by (auto simp: execute_reset_def cmd_ret_def split: if_splits)

text \<open>One group of the loop: it is skipped, or its plan is made and executed.\<close>

lemma reset_groups_Cons:
  assumes "reset_groups env self plans described rs (g # groups) st = Some (Inr (rs', failure), st')"
  obtains (skip) rs1 where "rs_plans rs1 = rs_plans rs @ [(g, [])]"
      "reset_groups env self plans described rs1 groups st = Some (Inr (rs', failure), st')"
  | (fail) planned st1 where "group_plan env self plans g st = Some (Inr planned, st1)"
      "execute_reset env self g (pl_plan planned) st1 = Some (Inr failure, st')" "failure \<noteq> None" "rs_plans rs' = rs_plans rs"
  | (altered) planned st1 st2 rs1 where "group_plan env self plans g st = Some (Inr planned, st1)"
      "execute_reset env self g (pl_plan planned) st1 = Some (Inr None, st2)" "rs_plans rs1 = rs_plans rs @ [(g, pl_plan planned)]"
      "reset_groups env self plans described rs1 groups st2 = Some (Inr (rs', failure), st')"
proof -
  let ?rs = "\<lambda>planned. rs\<lparr>rs_stdout := rs_stdout rs @ pl_stdout planned, rs_notices := rs_notices rs @ pl_notices planned\<rparr>"
  let ?proceed = "cmd_bind (group_plan env self plans g) (\<lambda>planned.
      let rs' = rs\<lparr>rs_stdout := rs_stdout rs @ pl_stdout planned, rs_notices := rs_notices rs @ pl_notices planned\<rparr>
      in cmd_bind (execute_reset env self g (pl_plan planned)) (\<lambda>failure.
         if failure \<noteq> None then cmd_ret (rs', failure)
         else reset_groups env self plans described (rs'\<lparr>rs_plans := rs_plans rs' @ [(g, pl_plan planned)]\<rparr>) groups))"
  consider (skipped) d :: ConsumerGroupDescription where "reset_groups env self plans described
        (rs\<lparr>rs_stdout := rs_stdout rs @ inactive_error g (cgd_state d), rs_plans := rs_plans rs @ [(g, [])]\<rparr>) groups st
        = Some (Inr (rs', failure), st')" | (proceeded) "?proceed st = Some (Inr (rs', failure), st')"
  proof (cases "map_of described g")
    case None
    with assms show thesis by (intro proceeded) (simp only: reset_groups.simps Let_def option.case)
  next
    case (Some answer)
    show thesis
    proof (cases answer)
      case (Inl error)
      with assms Some show thesis
        by (intro proceeded, cases "ke_code error = GROUP_ID_NOT_FOUND")
          (simp_all only: reset_groups.simps Let_def option.case sum.case cmd_fail_def if_True if_False simp_thms, simp)
    next
      case (Inr d)
      show thesis
      proof (cases "cgd_state d \<noteq> ''Empty'' \<and> cgd_state d \<noteq> ''Dead''")
        case True
        with assms Some Inr show thesis
          by (intro skipped [of d]) (simp only: reset_groups.simps Let_def option.case sum.case if_True simp_thms)
      next
        case False
        with assms Some Inr show thesis
          by (intro proceeded) (simp only: reset_groups.simps Let_def option.case sum.case if_False)
      qed
    qed
  qed
  then show thesis
  proof cases
    case skipped
    then show thesis by (rule skip [rotated]) simp
  next
    case proceeded
    then obtain planned st1 f st2 where g: "group_plan env self plans g st = Some (Inr planned, st1)"
      and e: "execute_reset env self g (pl_plan planned) st1 = Some (Inr f, st2)"
      and rest: "(if f \<noteq> None then cmd_ret (?rs planned, f)
        else reset_groups env self plans described ((?rs planned)\<lparr>rs_plans := rs_plans (?rs planned) @ [(g, pl_plan planned)]\<rparr>) groups) st2
          = Some (Inr (rs', failure), st')"
      unfolding cmd_bind_Inr_iff Let_def by blast
    show thesis
    proof (cases "f = None")
      case True
      with g e rest show thesis by (intro altered [of planned st1 st2]) auto
    next
      case False
      with rest have "failure = f" "st' = st2" "rs_plans rs' = rs_plans rs" by (auto simp: cmd_ret_def)
      with g e False show thesis by (intro fail [of planned st1]) auto
    qed
  qed
qed

lemma reset_groups_records:
  assumes "records_changes seen env" and "cg_execute self"
    and "reset_groups env self plans described rs groups st = Some (Inr (rs', failure), st')"
  shows "\<exists>new refused. rs_plans rs' = rs_plans rs @ new \<and> seen st' = seen st @ altered_by new @ refused
    \<and> length refused = (if failure = None then 0 else 1)"
  using assms(3)
proof (induction groups arbitrary: rs st)
  case Nil
  then show ?case by (auto simp: cmd_ret_def altered_by_def)
next
  case (Cons g groups)
  have plan_keeps: "seen st1 = seen st" if "group_plan env self plans g st = Some (Inr planned, st1)" for planned st1
    using keepsD [OF keeps_group_plan [of seen] that] assms(1) unfolding records_changes_def by blast
  note records = execute_reset_records [OF assms(1,2)]
  from Cons.prems show ?case
  proof (cases rule: reset_groups_Cons)
    case (skip rs1)
    from Cons.IH [OF skip(2)] skip(1) show ?thesis
      by (metis (no_types, lifting) altered_by_append append_assoc altered_by_skip append_Nil)
  next
    case (fail planned st1)
    then have "pl_plan planned \<noteq> []" using execute_reset_failure by fastforce
    then show ?thesis
      using records [OF fail(2)] plan_keeps [OF fail(1)] fail(3,4)
      by (intro exI [of _ "[]"] exI [of _ "altered_by [(g, pl_plan planned)]"]) (simp add: altered_by_def)
  next
    case (altered planned st1 st2 rs1)
    from Cons.IH [OF altered(4)] obtain new refused where "rs_plans rs' = rs_plans rs1 @ new"
      "seen st' = seen st2 @ altered_by new @ refused" "length refused = (if failure = None then 0 else 1)" by blast
    then show ?thesis
      using altered(3) records [OF altered(2)] plan_keeps [OF altered(1)]
      by (intro exI [of _ "(g, pl_plan planned) # new"] exI [of _ refused])
        (simp add: altered_by_append [of "[(g, pl_plan planned)]" new, simplified])
  qed
qed

lemma reset_result:
  assumes "reset env self st = Some (Inr result, st')"
  obtains groups plans described st1 rs failure where "\<And>seen. reads_keep seen env \<Longrightarrow> seen st1 = seen st"
    and "reset_groups env self plans described \<lparr>rs_stdout = [], rs_notices = [], rs_plans = []\<rparr>
      (hash_order groups Default string_hash) st1 = Some (Inr (rs, failure), st')"
    and "cr_data result = cr_data (reset_report (rs_plans rs) failure (rs_stdout rs) (cg_export self) (length (cg_group self) = 1))"
    and "cr_failed result = (failure \<noteq> None)"
proof -
  from assms obtain groups sa plans sb described sc rs failure where
      a: "target_groups env self st = Some (Inr groups, sa)" and b: "read_plans env self sa = Some (Inr plans, sb)"
    and c: "describe_raw env groups sb = Some (Inr described, sc)"
    and d: "reset_groups env self plans described \<lparr>rs_stdout = [], rs_notices = [], rs_plans = []\<rparr>
      (hash_order groups Default string_hash) sc = Some (Inr (rs, failure), st')"
    and r: "result = (let result = with_notices (rs_notices rs)
             (reset_report (rs_plans rs) failure (rs_stdout rs) (cg_export self) (length (cg_group self) = 1))
       in if cg_execute self then result else into_kafka_dry_run result)"
    unfolding reset_def
    by (auto simp: cmd_bind_Inr_iff cmd_ret_iff cmd_fail_not_Inr Let_def split: if_splits)
  have "seen sc = seen st" if reads: "reads_keep seen env" for seen :: "'a \<Rightarrow> 'd"
  proof -
    have "keeps seen (target_groups env self)" "keeps seen (read_plans env self)" "keeps seen (describe_raw env groups)"
      unfolding target_groups_def all_groups_def listed_groups_def read_plans_def describe_raw_def
      using reads unfolding reads_keep_def by (intro keeps_intros; simp)+
    from this(1) [THEN keepsD, OF a] this(2) [THEN keepsD, OF b] this(3) [THEN keepsD, OF c] show ?thesis by simp
  qed
  moreover have "cr_data result = cr_data (reset_report (rs_plans rs) failure (rs_stdout rs) (cg_export self) (length (cg_group self) = 1))"
    "cr_failed result = (failure \<noteq> None)"
    by (simp_all add: r with_notices_def into_kafka_dry_run_def into_dry_run_def Let_def reset_report_def result_rows_def)
  ultimately show thesis using that [of sc plans described groups rs failure] d by auto
qed

text \<open>C21. What an executed reset alters is what it reports: in order, each group whose plan has a partition has its offsets set to that plan,
  once, and nothing else is altered; the data of the result are these plans. After a refusal there is one more request,
  the refused one.\<close>

theorem reset_alters_what_it_reports:
  assumes "records_changes seen env" and "cg_execute self" and "reset env self st = Some (Inr result, st')"
  shows "\<exists>plans refused error. seen st' = seen st @ altered_by plans @ refused
    \<and> length refused = (if cr_failed result then 1 else 0)
    \<and> cr_data result = JObject [(''plans'', JArray (concat (map (\<lambda>(g, plan). map (plan_json g) plan)
        (hash_order plans Default (\<lambda>(g, _). string_hash g))))), (''error'', error)]"
  using assms(3)
proof (rule reset_result)
  fix groups plans described st1 rs failure
  assume st1: "\<And>seen :: 'a \<Rightarrow> altered. reads_keep seen env \<Longrightarrow> seen st1 = seen st"
    and run: "reset_groups env self plans described \<lparr>rs_stdout = [], rs_notices = [], rs_plans = []\<rparr>
      (hash_order groups Default string_hash) st1 = Some (Inr (rs, failure), st')"
    and data: "cr_data result = cr_data (reset_report (rs_plans rs) failure (rs_stdout rs) (cg_export self) (length (cg_group self) = 1))"
    and failed: "cr_failed result = (failure \<noteq> None)"
  obtain new refused where new: "rs_plans rs = new" and seen: "seen st' = seen st1 @ altered_by new @ refused"
    and one: "length refused = (if failure = None then 0 else 1)"
    using reset_groups_records [OF assms(1,2) run] by auto
  have "seen st1 = seen st" using st1 [of seen] assms(1) unfolding records_changes_def by blast
  with seen one data failed show ?thesis
    by (intro exI [of _ new] exI [of _ refused] exI [of _ "kafka_error failure"])
      (simp add: new reset_report_def result_rows_def Let_def)
qed

text \<open>A client that keeps the log of what was altered, for the witnesses.\<close>

definition sample_groups_env :: "altered GroupsEnv" where
  "sample_groups_env =
     \<lparr>ge_connect = cmd_ret (), ge_list_groups = (\<lambda>_ st. (Inr (Inr []), st)), ge_describe_groups = (\<lambda>_ st. ([], st)),
      ge_describe_topics = (\<lambda>_ st. ([(''orders'', Inr [(0, Some 1)])], st)),
      ge_list_offsets = (\<lambda>specs st. (map (\<lambda>(p, _). (p, Inr 7)) specs, st)),
      ge_list_group_offsets = (\<lambda>_ st. (Inr [], st)), ge_alter_group_offsets = (\<lambda>g offsets st. (Inr [], st @ [(g, offsets)])),
      ge_delete_groups = (\<lambda>_ st. ([], st)), ge_delete_group_offsets = (\<lambda>_ _ st. (Inr [], st)),
      ge_now = (\<lambda>st. (Some 0, st)), ge_read_file = (\<lambda>_ st. (None, st)), ge_regex = (\<lambda>_. Inr ()),
      ge_terminal = \<lparr>tm_interactive = False, tm_write_ok = True, tm_line = None\<rparr>\<rparr>"

definition sample_groups_args :: "bool \<Rightarrow> ConsumerGroupsArgs" where
  "sample_groups_args execute =
     \<lparr>cg_list = False, cg_describe = False, cg_delete = False, cg_reset_offsets = True, cg_delete_offsets = False,
      cg_validate_regex = None, cg_group = [''g''], cg_all_groups = False, cg_topic = [''orders''], cg_all_topics = False,
      cg_execute = execute, cg_export = False, cg_to_offset = None, cg_to_earliest = False, cg_to_latest = True,
      cg_to_current = False, cg_shift_by = None, cg_to_datetime = None, cg_by_duration = None, cg_from_file = None,
      cg_members = False, cg_offsets = False, cg_state = None, cg_group_type = None,
      cg_confirm = \<lparr>ca_dry_run = \<not> execute, ca_yes = False\<rparr>\<rparr>"

lemma sample_records: "records_changes id sample_groups_env"
  by (simp add: records_changes_def reads_keep_def sample_groups_env_def call_keeps_def keeps_basic)

lemma sample_reset:
  "\<exists>result. reset sample_groups_env (sample_groups_args True) [] = Some (Inr result, [(''g'', [((''orders'', 0), 7)])])"
  by (simp add: reset_def target_groups_def read_plans_def describe_raw_def sample_groups_args_def sample_groups_env_def
      cmd_simps cmd_call_def cmd_bind_def cmd_ret_def cmd_admin_def hash_order_single group_plan_def scenario_def needs_committed_def topic_partitions_def
      topic_arg_def cmd_try_def topic_layout_def check_partitions_valid_def layout_leader_def topics_of_def filtered_plan_def
      required_def list_offsets_lookup_def known_def ordered_def execute_reset_def bt_of_list_def Let_def)

theorem reset_alters_what_it_reports_witness:
  "\<exists>plans refused result. altered_by plans @ refused = [(''g'', [((''orders'', 0), 7)])]
    \<and> length refused = (if cr_failed result then 1 else 0)
    \<and> reset sample_groups_env (sample_groups_args True) [] = Some (Inr result, [(''g'', [((''orders'', 0), 7)])])"
proof -
  obtain result where run: "reset sample_groups_env (sample_groups_args True) [] = Some (Inr result, [(''g'', [((''orders'', 0), 7)])])"
    using sample_reset by blast
  have "cg_execute (sample_groups_args True)" by (simp add: sample_groups_args_def)
  from reset_alters_what_it_reports [OF sample_records this run] run show ?thesis by fastforce
qed

theorem groups_only_read_witness:
  "run_consumer_groups (with_changes sample_groups_env (\<lambda>_ _ _. (Inr [], [])) (\<lambda>_ _. ([], [])) (\<lambda>_ _ _. (Inr [], [])))
     (sample_groups_args False) False = run_consumer_groups sample_groups_env (sample_groups_args False) False
   \<and> ge_alter_group_offsets sample_groups_env [] [] [] \<noteq> (Inr [], [])"
proof -
  have "only_reads (sample_groups_args False) (ge_terminal sample_groups_env)"
    by (simp add: only_reads_def sample_groups_args_def)
  moreover have "ge_alter_group_offsets sample_groups_env [] [] [] \<noteq> (Inr [], [])" by (simp add: sample_groups_env_def)
  ultimately show ?thesis using groups_only_read by blast
qed

section \<open>The rows of a description\<close>

definition row_partition :: "OffsetRow \<Rightarrow> Partition" where
  "row_partition row = (the (or_topic row), the (or_partition row))"

lemma row_partition_row: "row_partition (offset_row g committed log_end p m) = p"
  by (simp add: row_partition_def offset_row_def Let_def)

lemma mset_concat_sorted:
  "mset (concat (map (\<lambda>m. sort (m_assignment m)) ms)) = (\<Sum>m \<in># mset ms. mset (m_assignment m))"
  by (induction ms) auto

lemma mset_assigned: "mset (concat (map (\<lambda>m. sort (m_assignment m)) (assigned_members members))) = mset (concat (map m_assignment members))"
proof -
  have "(\<Sum>m \<in># mset (assigned_members members). mset (m_assignment m)) = mset (concat (map m_assignment members))"
    unfolding assigned_members_def mset_sort by (induction members) auto
  then show ?thesis by (simp only: mset_concat_sorted)
qed

lemma set_assigned: "set (assigned_members members) = {m \<in> set members. m_assignment m \<noteq> []}"
  by (simp add: assigned_members_def)

lemma row_partitions:
  "map row_partition (offset_rows g members committed log_end) =
     concat (map (\<lambda>m. sort (m_assignment m)) (assigned_members members))
     @ filter (\<lambda>p. \<not> list_ex (\<lambda>m. p \<in> set (m_assignment m)) (assigned_members members)) (map fst committed)"
  by (simp add: offset_rows_def Let_def map_concat comp_def row_partition_row)

lemma wrap_i64_id: "i64_min \<le> n \<Longrightarrow> n \<le> i64_max \<Longrightarrow> wrap_i64 n = n"
  by (simp add: wrap_i64_def)

lemma one_holder:
  "distinct (concat (map f ms)) \<Longrightarrow> m \<in> set ms \<Longrightarrow> m' \<in> set ms \<Longrightarrow> p \<in> set (f m) \<Longrightarrow> p \<in> set (f m') \<Longrightarrow> m = m'"
  by (induction ms) auto

lemma offset_rows_members:
  assumes "distinct (concat (map m_assignment members))" and "row \<in> set (offset_rows g members committed log_end)"
  obtains p holder where "row = offset_row g committed log_end p holder"
    and "\<And>m. m \<in> set members \<Longrightarrow> p \<in> set (m_assignment m) \<Longrightarrow> holder = Some m"
proof -
  from assms(2) consider (held) m p where "m \<in> set (assigned_members members)" "p \<in> set (m_assignment m)"
      "row = offset_row g committed log_end p (Some m)"
    | (free) p where "row = offset_row g committed log_end p None" "\<not> list_ex (\<lambda>m. p \<in> set (m_assignment m)) (assigned_members members)"
    by (auto simp: offset_rows_def Let_def)
  then show thesis
  proof cases
    case held
    then have "m \<in> set members" by (simp add: set_assigned)
    then show thesis using held one_holder [OF assms(1)] by (intro that [of p "Some m"]) auto
  next
    case free
    then show thesis by (intro that [of p None]) (auto simp: list_ex_iff set_assigned)
  qed
qed

lemma lag_in_range:
  "0 \<le> n \<Longrightarrow> 0 \<le> e \<Longrightarrow> n \<le> i64_max \<Longrightarrow> e \<le> i64_max \<Longrightarrow> lag (Some n) (Some e) = Some (e - n)"
  by (simp add: lag_def wrap_i64_id)

text \<open>The offsets of a described group: where no two members hold the same partition, there is exactly one row for every partition
  that a member holds or that has a committed offset. A row has the committed offset and the log end of its partition
  and names the member that holds it, if one does; the lag is the difference of the two, which does not wrap, where both are
  offsets of a log.\<close>

theorem offset_rows_complete:
  assumes "distinct (concat (map m_assignment members))" and "bt_ok committed"
  shows "distinct (map row_partition (offset_rows g members committed log_end))
    \<and> set (map row_partition (offset_rows g members committed log_end)) =
        set (concat (map m_assignment members)) \<union> fst ` set committed
    \<and> (\<forall>row \<in> set (offset_rows g members committed log_end). let p = row_partition row in
          or_group row = g \<and> or_offset row = map_of committed p \<and> or_log_end_offset row = map_of log_end p
          \<and> (\<forall>m \<in> set members. p \<in> set (m_assignment m) \<longrightarrow> or_consumer_id row = Some (m_consumer_id m))
          \<and> (\<forall>n e. map_of committed p = Some n \<and> map_of log_end p = Some e \<and> 0 \<le> n \<and> 0 \<le> e \<and> n \<le> i64_max \<and> e \<le> i64_max
               \<longrightarrow> or_lag row = Some (e - n)))"
proof (intro conjI ballI)
  let ?a = "assigned_members members"
  let ?held = "concat (map (\<lambda>m. sort (m_assignment m)) ?a)"
  have held: "set ?held = set (concat (map m_assignment members))" by (metis mset_assigned set_mset_mset)
  have outside: "list_ex (\<lambda>m. p \<in> set (m_assignment m)) ?a \<longleftrightarrow> p \<in> set ?held" for p
    by (auto simp: list_ex_iff)
  have "distinct ?held" using assms(1) mset_assigned mset_eq_imp_distinct_iff by blast
  moreover have "distinct (map fst committed)" using assms(2) by (rule bt_ok_distinct)
  ultimately show "distinct (map row_partition (offset_rows g members committed log_end))"
    unfolding row_partitions outside by auto
  show "set (map row_partition (offset_rows g members committed log_end)) =
      set (concat (map m_assignment members)) \<union> fst ` set committed"
    unfolding row_partitions outside held [symmetric] by auto
  fix row assume row: "row \<in> set (offset_rows g members committed log_end)"
  show "let p = row_partition row in or_group row = g \<and> or_offset row = map_of committed p \<and> or_log_end_offset row = map_of log_end p
      \<and> (\<forall>m \<in> set members. p \<in> set (m_assignment m) \<longrightarrow> or_consumer_id row = Some (m_consumer_id m))
      \<and> (\<forall>n e. map_of committed p = Some n \<and> map_of log_end p = Some e \<and> 0 \<le> n \<and> 0 \<le> e \<and> n \<le> i64_max \<and> e \<le> i64_max
           \<longrightarrow> or_lag row = Some (e - n))"
    using offset_rows_members [OF assms(1) row]
  proof cases
    case (1 p holder)
    have p: "row_partition row = p" using 1(1) by (simp add: row_partition_row)
    have "or_consumer_id row = Some (m_consumer_id m)" if "m \<in> set members" "p \<in> set (m_assignment m)" for m
      using 1(1) 1(2) [OF that] by (simp add: offset_row_def Let_def)
    moreover have "or_lag row = lag (map_of committed p) (map_of log_end p)" "or_group row = g"
      "or_offset row = map_of committed p" "or_log_end_offset row = map_of log_end p"
      using 1(1) by (simp_all add: offset_row_def Let_def)
    ultimately show ?thesis unfolding p Let_def using lag_in_range by auto
  qed
qed

definition sample_member :: "string \<Rightarrow> Partition list \<Rightarrow> Member" where
  "sample_member name ps =
     \<lparr>m_consumer_id = name, m_group_instance_id = None, m_client_id = ''c'', m_host = ''h'', m_assignment = ps,
      m_target_assignment = None, m_epoch = None, m_upgraded = None\<rparr>"

theorem offset_rows_complete_witness:
  "set (map row_partition (offset_rows ''g'' [sample_member ''a'' [(''t'', 1)], sample_member ''b'' [(''t'', 0)]] [((''t'', 2), 5)] []))
    = {(''t'', 0), (''t'', 1), (''t'', 2)}"
  using offset_rows_complete [of "[sample_member ''a'' [(''t'', 1)], sample_member ''b'' [(''t'', 0)]]" "[((''t'', 2), 5)]" "''g''" "[]"]
  by (auto simp: sample_member_def)

section \<open>Accepted command lines\<close>

text \<open>The rules of the command line accept exactly: \<^verbatim>\<open>--verbose\<close> only with \<^verbatim>\<open>--describe\<close>; a group or all groups, and not both, for every
  action on groups, with no group for a listing; at most one sub-action and no state for a description; topics and a group for
  deleting offsets, and topics for nothing that lists, describes or deletes groups; a dry run only of a change.\<close>

theorem check_args_accepts:
  "check_args self verbose = Inr () \<longleftrightarrow>
     (verbose \<longrightarrow> cg_describe self)
     \<and> (cg_describe self \<or> cg_delete self \<or> cg_reset_offsets self \<longrightarrow> cg_group self \<noteq> [] \<or> cg_all_groups self)
     \<and> (cg_describe self \<longrightarrow> length (filter id [cg_members self, cg_offsets self, cg_state self \<noteq> None]) \<le> 1
          \<and> (cg_state self = None \<or> cg_state self = Some []))
     \<and> (cg_delete_offsets self \<longrightarrow> cg_group self \<noteq> [] \<and> cg_topic self \<noteq> [])
     \<and> (cg_group self \<noteq> [] \<longrightarrow> \<not> cg_all_groups self \<and> \<not> cg_list self)
     \<and> (cg_topic self \<noteq> [] \<longrightarrow> \<not> cg_list self \<and> \<not> cg_describe self \<and> \<not> cg_delete self)
     \<and> (ca_dry_run (cg_confirm self) \<longrightarrow> \<not> cg_list self \<and> \<not> cg_describe self)"
proof -
  have describe: "check_describe self = Inr () \<longleftrightarrow> (cg_group self \<noteq> [] \<or> cg_all_groups self)
      \<and> length (filter id [cg_members self, cg_offsets self, cg_state self \<noteq> None]) \<le> 1 \<and> (cg_state self = None \<or> cg_state self = Some [])"
    unfolding check_describe_def takes_group_def by (cases "cg_state self") (auto simp del: filter.simps)
  have delete: "check_delete self = Inr () \<longleftrightarrow> (cg_group self \<noteq> [] \<or> cg_all_groups self) \<and> cg_topic self = []"
    by (auto simp: check_delete_def takes_group_def)
  have conflicts: "check_conflicts self = Inr () \<longleftrightarrow> (cg_group self \<noteq> [] \<longrightarrow> \<not> cg_all_groups self \<and> \<not> cg_list self)
      \<and> (cg_topic self \<noteq> [] \<longrightarrow> \<not> cg_list self \<and> \<not> cg_describe self) \<and> (ca_dry_run (cg_confirm self) \<longrightarrow> \<not> cg_list self \<and> \<not> cg_describe self)"
    by (auto simp: check_conflicts_def)
  have "check_args self verbose = Inr () \<longleftrightarrow> (verbose \<longrightarrow> cg_describe self)
      \<and> (cg_describe self \<longrightarrow> check_describe self = Inr ()) \<and> (cg_delete self \<longrightarrow> check_delete self = Inr ())
      \<and> (cg_delete_offsets self \<longrightarrow> cg_group self \<noteq> [] \<and> cg_topic self \<noteq> [])
      \<and> (cg_reset_offsets self \<longrightarrow> cg_group self \<noteq> [] \<or> cg_all_groups self) \<and> check_conflicts self = Inr ()"
    by (auto simp: check_args_def takes_group_def res_bind_Inr_iff)
  then show ?thesis unfolding describe delete conflicts by blast
qed


theorem check_args_accepts_witness: "check_args (sample_groups_args True) False = Inr ()"
  using check_args_accepts [of "sample_groups_args True" False] by (simp add: sample_groups_args_def)

text \<open>Deleting offsets acts on the first group only; the groups after it are ignored.\<close>

theorem delete_offsets_first_group:
  "delete_group_offsets env (self\<lparr>cg_group := [g, h]\<rparr>) = delete_group_offsets env (self\<lparr>cg_group := [g]\<rparr>)"
proof -
  have "cg_confirm (self\<lparr>cg_group := x\<rparr>) = cg_confirm self" "cg_topic (self\<lparr>cg_group := x\<rparr>) = cg_topic self"
    "cg_group (self\<lparr>cg_group := x\<rparr>) = x" for x
    by simp_all
  note same = this
  show ?thesis unfolding delete_group_offsets_def delete_offsets_scope_def same by simp
qed

end
