(* ===== verification/Fan_Out.thy ===== *)
theory Fan_Out
  imports Prelude
begin

text \<open>
  \<^verbatim>\<open>crates/krabka-cli/src/fan_out.rs\<close>: a batch of requests with a bounded number in flight. The future of an item may end
  at any poll, with an output that the environment chooses: \<open>answers item output\<close> says which outputs it may have. The
  calls of \<open>start\<close>, the only effect of the loop, are recorded in \<open>fan_started\<close>, in order.
\<close>

section \<open>The loop\<close>

record ('a, 'b) fan =
  fan_pending :: "(nat \<times> 'a) list"
  fan_running :: "(nat \<times> 'a) list"
  fan_outputs :: "'b option list"
  fan_started :: "'a list"

definition fan_start :: "'a list \<Rightarrow> ('a, 'b) fan" where
  "fan_start items =
     \<lparr>fan_pending = zip [0..<length items] items, fan_running = [], fan_outputs = replicate (length items) None,
      fan_started = []\<rparr>"

text \<open>The inner loop: it starts the next items while fewer than \<open>limit\<close> futures run.\<close>

function fan_refill :: "nat \<Rightarrow> ('a, 'b) fan \<Rightarrow> ('a, 'b) fan" where
  "fan_refill limit st =
     (if length (fan_running st) < limit
      then case fan_pending st of
             [] \<Rightarrow> st
           | next_item # rest \<Rightarrow>
               fan_refill limit (st\<lparr>fan_pending := rest, fan_running := fan_running st @ [next_item],
                 fan_started := fan_started st @ [snd next_item]\<rparr>)
      else st)"
  by pat_completeness auto
termination by (relation "measure (\<lambda>(limit, st). length (fan_pending st))") auto

declare fan_refill.simps [simp del]

text \<open>\<open>Vec::swap_remove\<close>.\<close>

definition swap_remove :: "'a list \<Rightarrow> nat \<Rightarrow> 'a list" where
  "swap_remove xs i = butlast (xs[i := last xs])"

definition fan_complete :: "('a, 'b) fan \<Rightarrow> nat \<Rightarrow> 'b \<Rightarrow> ('a, 'b) fan" where
  "fan_complete st slot output =
     st\<lparr>fan_running := swap_remove (fan_running st) slot,
        fan_outputs := (fan_outputs st)[fst (fan_running st ! slot) := Some output]\<rparr>"

text \<open>One turn of the outer loop: it refills, and the future of some slot ends. The loop ends when nothing runs after a
  refill; \<open>bounded\<close> then returns the outputs that are there.\<close>

inductive fan_step :: "('a \<Rightarrow> 'b \<Rightarrow> bool) \<Rightarrow> nat \<Rightarrow> ('a, 'b) fan \<Rightarrow> ('a, 'b) fan \<Rightarrow> bool"
  for answers limit where
  turn: "slot < length (fan_running st') \<Longrightarrow> st' = fan_refill limit st \<Longrightarrow> answers (snd (fan_running st' ! slot)) output
     \<Longrightarrow> fan_step answers limit st (fan_complete st' slot output)"

definition fan_done :: "nat \<Rightarrow> ('a, 'b) fan \<Rightarrow> bool" where
  "fan_done limit st \<longleftrightarrow> fan_running (fan_refill limit st) = []"

definition fan_result :: "('a, 'b) fan \<Rightarrow> 'b list" where
  "fan_result st = concat (map (\<lambda>out. case out of Some x \<Rightarrow> [x] | None \<Rightarrow> []) (fan_outputs st))"

definition bounded_run :: "('a \<Rightarrow> 'b \<Rightarrow> bool) \<Rightarrow> nat \<Rightarrow> 'a list \<Rightarrow> 'b list \<Rightarrow> bool" where
  "bounded_run answers limit items outputs \<longleftrightarrow>
     (\<exists>st. (fan_step answers (max limit 1))\<^sup>*\<^sup>* (fan_start items) st \<and> fan_done (max limit 1) st \<and> outputs = fan_result st)"

section \<open>The invariant\<close>

text \<open>Every index is pending, runs, or has its output; what is pending or runs is the item of its index. What
  was started and what is pending are the items, in order.\<close>

definition fan_inv :: "('a \<Rightarrow> 'b \<Rightarrow> bool) \<Rightarrow> nat \<Rightarrow> 'a list \<Rightarrow> ('a, 'b) fan \<Rightarrow> bool" where
  "fan_inv answers limit items st \<longleftrightarrow>
     length (fan_outputs st) = length items
     \<and> distinct (map fst (fan_pending st @ fan_running st))
     \<and> (\<forall>(i, item) \<in> set (fan_pending st @ fan_running st). i < length items \<and> items ! i = item)
     \<and> (\<forall>i < length items. i \<in> fst ` set (fan_pending st @ fan_running st)
          \<or> (\<exists>out. fan_outputs st ! i = Some out \<and> answers (items ! i) out))
     \<and> length (fan_running st) \<le> limit
     \<and> fan_started st @ map snd (fan_pending st) = items"

lemma fan_inv_member:
  assumes "fan_inv answers limit items st" and "(i, item) \<in> set (fan_pending st @ fan_running st)"
  shows "i < length items" and "items ! i = item"
proof -
  have "\<forall>x \<in> set (fan_pending st @ fan_running st). case x of (i, item) \<Rightarrow> i < length items \<and> items ! i = item"
    using assms(1) unfolding fan_inv_def by (elim conjE)
  from bspec [OF this assms(2)] show "i < length items" and "items ! i = item" by simp_all
qed

lemma mset_swap_remove: "i < length xs \<Longrightarrow> mset (swap_remove xs i) = mset xs - {#xs ! i#}"
proof (cases "i = length xs - 1")
  case True
  assume i: "i < length xs"
  then have "xs \<noteq> []" by auto
  with True have "xs ! i = last xs" by (simp add: last_conv_nth)
  moreover have "mset xs = mset (butlast xs) + {#last xs#}"
    using \<open>xs \<noteq> []\<close> by (metis append_butlast_last_id mset_append mset_single_iff_right)
  ultimately show ?thesis
    using True i by (simp add: swap_remove_def butlast_list_update)
next
  case False
  assume i: "i < length xs"
  with False have b: "i < length (butlast xs)" by auto
  from i have ne: "xs \<noteq> []" by auto
  have "mset (xs[i := last xs]) = add_mset (last xs) (mset xs - {#xs ! i#})" using i by (simp add: mset_update)
  moreover have "mset (xs[i := last xs]) = mset (butlast (xs[i := last xs])) + {#last (xs[i := last xs])#}"
    using ne by (metis append_butlast_last_id list_update_nonempty mset_append mset_single_iff_right)
  moreover have "last (xs[i := last xs]) = last xs" using i ne False by (simp add: last_list_update)
  ultimately show ?thesis by (simp add: swap_remove_def)
qed

lemma fan_start_inv: "fan_inv answers limit items (fan_start items)"
proof -
  have "i \<in> fst ` set (zip [0..<length items] items)" if "i < length items" for i
  proof -
    have "(i, items ! i) \<in> set (zip [0..<length items] items)" using that by (auto simp: in_set_zip intro: exI [of _ i])
    then show ?thesis by force
  qed
  then show ?thesis by (auto simp: fan_inv_def fan_start_def in_set_zip)
qed

lemma fan_refill_inv: "fan_inv answers limit items st \<Longrightarrow> fan_inv answers limit items (fan_refill limit st)"
proof (induction limit st rule: fan_refill.induct)
  case (1 limit st)
  show ?case
  proof (cases "length (fan_running st) < limit \<and> fan_pending st \<noteq> []")
    case True
    then obtain e rest where e: "fan_pending st = e # rest" by (cases "fan_pending st") auto
    have "fan_inv answers limit items (st\<lparr>fan_pending := rest, fan_running := fan_running st @ [e],
        fan_started := fan_started st @ [snd e]\<rparr>)"
      using "1.prems" True e by (auto simp: fan_inv_def)
    from "1.IH" [OF _ e this] True e show ?thesis by (simp add: fan_refill.simps [of limit st])
  next
    case False
    with "1.prems" show ?thesis by (auto simp: fan_refill.simps [of limit st] split: list.splits)
  qed
qed

lemma fan_refill_keeps:
  "fan_outputs (fan_refill limit st) = fan_outputs st"
  "length (fan_pending (fan_refill limit st)) + length (fan_running (fan_refill limit st)) =
     length (fan_pending st) + length (fan_running st)"
  by (induction limit st rule: fan_refill.induct; simp add: fan_refill.simps split: list.splits)+

lemma fan_refill_idle: "0 < limit \<Longrightarrow> fan_running (fan_refill limit st) = [] \<Longrightarrow> fan_pending st = [] \<and> fan_running st = []"
proof (induction limit st rule: fan_refill.induct)
  case (1 limit st)
  then show ?case
    by (cases "fan_pending st"; cases "length (fan_running st) < limit") (auto simp: fan_refill.simps [of limit st])
qed

lemma fan_refill_full:
  "length (fan_running st) \<le> limit \<Longrightarrow>
     fan_pending (fan_refill limit st) = [] \<or> length (fan_running (fan_refill limit st)) = limit"
proof (induction limit st rule: fan_refill.induct)
  case (1 limit st)
  then show ?case
    by (cases "fan_pending st"; cases "length (fan_running st) < limit") (auto simp: fan_refill.simps [of limit st])
qed

lemma fan_complete_inv:
  assumes inv: "fan_inv answers limit items st" and slot: "slot < length (fan_running st)"
    and out: "answers (snd (fan_running st ! slot)) output"
  shows "fan_inv answers limit items (fan_complete st slot output)"
proof -
  let ?r = "fan_running st" and ?p = "fan_pending st"
  obtain i item where e: "?r ! slot = (i, item)" by (cases "?r ! slot")
  have mem: "(i, item) \<in> set ?r" using slot e by (metis nth_mem)
  have m: "mset (swap_remove ?r slot) = mset ?r - {#(i, item)#}" using mset_swap_remove [OF slot] e by simp
  have all: "mset ?r = add_mset (i, item) (mset (swap_remove ?r slot))" using m mem by simp
  have i: "i < length items" "items ! i = item" using fan_inv_member [OF inv, of i item] mem by simp_all
  have perm: "mset (map fst (?p @ ?r)) = mset (i # map fst (?p @ swap_remove ?r slot))"
    using all by (simp add: mset_map)
  have dist: "distinct (i # map fst (?p @ swap_remove ?r slot))"
    using inv perm mset_eq_imp_distinct_iff unfolding fan_inv_def by blast
  have sub: "set (swap_remove ?r slot) \<subseteq> set ?r" using m by (metis in_diffD set_mset_mset subsetI)
  have keys: "fst ` set (?p @ ?r) = insert i (fst ` set (?p @ swap_remove ?r slot))"
    using perm by (metis list.simps(15) set_map set_mset_mset)
  have len: "length (swap_remove ?r slot) \<le> length ?r" by (simp add: swap_remove_def)
  show ?thesis
    unfolding fan_inv_def fan_complete_def
  proof (intro conjI; simp add: e)
    show "length (fan_outputs st) = length items" using inv by (simp add: fan_inv_def)
    show "distinct (map fst ?p) \<and> distinct (map fst (swap_remove ?r slot)) \<and>
        fst ` set ?p \<inter> fst ` set (swap_remove ?r slot) = {}" using dist by simp
    show "\<forall>x \<in> set ?p \<union> set (swap_remove ?r slot). case x of (i, item) \<Rightarrow> i < length items \<and> items ! i = item"
    proof clarify
      fix a b assume "(a, b) \<in> set ?p \<union> set (swap_remove ?r slot)"
      with sub have "(a, b) \<in> set (?p @ ?r)" by auto
      then show "a < length items \<and> items ! a = b" using fan_inv_member [OF inv] by blast
    qed
    show "length (swap_remove ?r slot) \<le> limit" using inv len by (simp add: fan_inv_def)
    show "fan_started st @ map snd ?p = items" using inv by (simp add: fan_inv_def)
    show "\<forall>j < length items. j \<in> fst ` (set ?p \<union> set (swap_remove ?r slot)) \<or>
        (\<exists>out. (fan_outputs st)[i := Some output] ! j = Some out \<and> answers (items ! j) out)"
    proof (intro allI impI)
      fix j assume j: "j < length items"
      show "j \<in> fst ` (set ?p \<union> set (swap_remove ?r slot)) \<or>
          (\<exists>out. (fan_outputs st)[i := Some output] ! j = Some out \<and> answers (items ! j) out)"
      proof (cases "j = i")
        case True
        with i out e inv j show ?thesis by (simp add: fan_inv_def)
      next
        case False
        with inv j keys show ?thesis by (auto simp: fan_inv_def)
      qed
    qed
  qed
qed

lemma fan_step_inv: "fan_step answers limit st st' \<Longrightarrow> fan_inv answers limit items st \<Longrightarrow> fan_inv answers limit items st'"
  by (erule fan_step.cases) (auto intro: fan_complete_inv fan_refill_inv)

lemma fan_steps_inv: "(fan_step answers limit)\<^sup>*\<^sup>* st st' \<Longrightarrow> fan_inv answers limit items st \<Longrightarrow> fan_inv answers limit items st'"
  by (induction rule: rtranclp_induct) (auto intro: fan_step_inv)

definition fan_left :: "('a, 'b) fan \<Rightarrow> nat" where
  "fan_left st = length (fan_pending st) + length (fan_running st)"

lemma fan_step_left: "fan_step answers limit st st' \<Longrightarrow> fan_left st = Suc (fan_left st')"
proof (erule fan_step.cases)
  fix slot sta stb out
  assume "st = stb" "st' = fan_complete sta slot out" and slot: "slot < length (fan_running sta)" and "sta = fan_refill limit stb"
  then have "fan_left sta = fan_left st" using fan_refill_keeps(2) [of limit st] by (simp add: fan_left_def)
  moreover have "fan_left sta = Suc (fan_left (fan_complete sta slot out))"
    using slot by (simp add: fan_left_def fan_complete_def swap_remove_def)
  ultimately show ?thesis using \<open>st' = fan_complete sta slot out\<close> by simp
qed

lemma fan_inv_items:
  assumes "fan_inv answers limit items st" and "(i, item) \<in> set (fan_running st)"
  shows "item \<in> set items"
proof -
  have "i < length items" "items ! i = item" using fan_inv_member [OF assms(1), of i item] assms(2) by simp_all
  then show ?thesis by auto
qed

lemma fan_progress:
  assumes "\<forall>item \<in> set items. \<exists>out. answers item out" and "\<not> fan_done limit st" and "fan_inv answers limit items st"
  shows "\<exists>st'. fan_step answers limit st st'"
proof -
  let ?st = "fan_refill limit st"
  from assms(2) have run: "0 < length (fan_running ?st)" by (simp add: fan_done_def)
  then have "fan_running ?st ! 0 \<in> set (fan_running ?st)" by (rule nth_mem)
  then have "snd (fan_running ?st ! 0) \<in> set items"
    using fan_inv_items [OF fan_refill_inv [OF assms(3)]] by (metis prod.collapse)
  with assms(1) obtain out where "answers (snd (fan_running ?st ! 0)) out" by blast
  then show ?thesis using fan_step.turn [OF run refl] by blast
qed

lemma fan_finishes:
  assumes "\<forall>item \<in> set items. \<exists>out. answers item out" and "fan_inv answers limit items st"
  shows "\<exists>st'. (fan_step answers limit)\<^sup>*\<^sup>* st st' \<and> fan_done limit st'"
  using assms(2)
proof (induction "fan_left st" arbitrary: st rule: less_induct)
  case less
  show ?case
  proof (cases "fan_done limit st")
    case False
    then obtain st1 where step: "fan_step answers limit st st1" using fan_progress [OF assms(1) _ less.prems] by blast
    have "fan_left st1 < fan_left st" using fan_step_left [OF step] by simp
    from less.hyps [OF this fan_step_inv [OF step less.prems]]
    show ?thesis using step by (meson converse_rtranclp_into_rtranclp)
  qed blast
qed

lemma fan_result_all:
  assumes "fan_inv answers limit items st" and "fan_pending st = [] \<and> fan_running st = []"
  shows "list_all2 answers items (fan_result st)"
proof -
  have "list_all2 (\<lambda>item out. \<exists>x. out = Some x \<and> answers item x) items (fan_outputs st)"
    using assms by (auto simp: fan_inv_def list_all2_conv_all_nth)
  then have "list_all2 answers items (concat (map (\<lambda>out. case out of Some x \<Rightarrow> [x] | None \<Rightarrow> []) (fan_outputs st)))"
    by (induction rule: list_all2_induct) auto
  then show ?thesis by (simp add: fan_result_def)
qed

section \<open>What a batch promises\<close>

lemma fan_steps_left:
  "(fan_step answers limit ^^ n) st st' \<Longrightarrow> n + fan_left st' = fan_left st"
proof (induction n arbitrary: st')
  case (Suc n)
  then obtain b where "(fan_step answers limit ^^ n) st b" and "fan_step answers limit b st'" by auto
  with Suc.IH [of b] show ?case using fan_step_left by fastforce
qed simp

lemma fan_done_idle:
  "0 < limit \<Longrightarrow> fan_done limit st \<Longrightarrow> fan_pending st = [] \<and> fan_running st = []"
  unfolding fan_done_def by (rule fan_refill_idle)

text \<open>C22. A batch in which every request can be answered ends, whatever order the answers come in: no run goes on for more turns than
  there are items, and the outputs are an answer to each item, in the order of the items. In every turn, once the loop
  has started what it starts, at most \<open>limit\<close> requests are in flight (one for a limit of 0), and exactly that many
  while items are left; what was started and what is left are the items in their order, so that when the batch is done
  every item was started once.\<close>

theorem bounded_answers_in_order:
  fixes items :: "'a list" and answers :: "'a \<Rightarrow> 'b \<Rightarrow> bool"
  assumes "\<forall>item \<in> set items. \<exists>out. answers item out"
  shows "(\<exists>outputs. bounded_run answers limit items outputs)
    \<and> (\<forall>outputs. bounded_run answers limit items outputs \<longrightarrow> list_all2 answers items outputs)
    \<and> (\<forall>n st. (fan_step answers (max limit 1) ^^ n) (fan_start items) st \<longrightarrow>
         (let turn = fan_refill (max limit 1) st in
           n \<le> length items
           \<and> length (fan_running turn) \<le> max limit 1
           \<and> (fan_pending turn = [] \<or> length (fan_running turn) = max limit 1)
           \<and> fan_started turn @ map snd (fan_pending turn) = items
           \<and> (fan_done (max limit 1) st \<longrightarrow> fan_started turn = items)))"
proof (intro conjI allI impI)
  show "\<exists>outputs. bounded_run answers limit items outputs"
    using fan_finishes [OF assms fan_start_inv] by (auto simp: bounded_run_def)
next
  fix outputs assume "bounded_run answers limit items outputs"
  then obtain st where st: "(fan_step answers (max limit 1))\<^sup>*\<^sup>* (fan_start items) st" "fan_done (max limit 1) st"
    and out: "outputs = fan_result st" by (auto simp: bounded_run_def)
  show "list_all2 answers items outputs" unfolding out
    by (rule fan_result_all [OF fan_steps_inv [OF st(1) fan_start_inv] fan_done_idle [OF _ st(2)]]) simp
next
  fix n and st :: "('a, 'b) fan" assume run: "(fan_step answers (max limit 1) ^^ n) (fan_start items) st"
  let ?turn = "fan_refill (max limit 1) st"
  have n: "n \<le> length items" using fan_steps_left [OF run] by (simp add: fan_left_def fan_start_def)
  have inv: "fan_inv answers (max limit 1) items st"
    using fan_steps_inv [OF relpowp_imp_rtranclp [OF run] fan_start_inv] .
  then have short: "length (fan_running st) \<le> max limit 1" unfolding fan_inv_def by blast
  have turn: "length (fan_running ?turn) \<le> max limit 1" "fan_started ?turn @ map snd (fan_pending ?turn) = items"
    using fan_refill_inv [OF inv] unfolding fan_inv_def by blast+
  have left: "fan_pending ?turn = []" if "fan_done (max limit 1) st"
    using fan_done_idle [OF _ that] fan_refill_keeps(2) [of "max limit 1" st] by simp
  show "let turn = ?turn in n \<le> length items \<and> length (fan_running turn) \<le> max limit 1
      \<and> (fan_pending turn = [] \<or> length (fan_running turn) = max limit 1)
      \<and> fan_started turn @ map snd (fan_pending turn) = items
      \<and> (fan_done (max limit 1) st \<longrightarrow> fan_started turn = items)"
    unfolding Let_def using n turn fan_refill_full [OF short] left by auto
qed

theorem bounded_answers_in_order_witness:
  "\<exists>outputs. bounded_run (\<lambda>item out. out = Suc item) 2 [3, 1, 2] outputs \<and> outputs = [4, 2, 3]"
proof -
  obtain outputs where run: "bounded_run (\<lambda>item out. out = Suc item) 2 [3, 1, 2] outputs"
    using bounded_answers_in_order [of "[3, 1, 2]" "\<lambda>item out. out = Suc item" 2] by auto
  moreover have "list_all2 (\<lambda>item out. out = Suc item) [3, 1, 2] outputs"
    using bounded_answers_in_order [of "[3, 1, 2]" "\<lambda>item out. out = Suc item" 2] run by auto
  then have "outputs = [4, 2, 3]" by (auto simp: list_all2_Cons1)
  ultimately show ?thesis by blast
qed

end
