(* ===== verification/Get_Offsets.thy ===== *)
theory Get_Offsets
  imports Consumer_Groups
begin

text \<open>
  \<^verbatim>\<open>crates/krabka-cli/src/get_offsets.rs\<close>: \<open>kafka-get-offsets\<close>. The lookup itself, \<open>ListOffsets\<close>, is \<^const>\<open>list_offsets_lookup\<close>. The regex
  library is the argument \<open>regex_new\<close>: a pattern compiles to what it matches, or does not compile.
\<close>

type_synonym regex_lib = "string \<Rightarrow> (string \<Rightarrow> bool) option"

definition INTERNAL_TOPICS :: "string list" where
  "INTERNAL_TOPICS = [''__consumer_offsets'', ''__transaction_state'', ''__share_group_state'']"

section \<open>Arguments\<close>

definition named_spec :: "string \<Rightarrow> OffsetSpec option" where
  "named_spec s = map_of [(''earliest'', Spec_Earliest), (''latest'', Spec_Latest), (''max-timestamp'', Spec_MaxTimestamp),
     (''earliest-local'', Spec_EarliestLocal), (''latest-tiered'', Spec_LatestTiered),
     (''earliest-pending-upload'', Spec_EarliestPendingUpload)] s"

definition timestamp_spec :: "int \<Rightarrow> OffsetSpec" where
  "timestamp_spec t =
     (if t = -1 then Spec_Latest else if t = -2 then Spec_Earliest else if t = -3 then Spec_MaxTimestamp
      else if t = -4 then Spec_EarliestLocal else if t = -5 then Spec_LatestTiered
      else if t = -6 then Spec_EarliestPendingUpload else Spec_ForTimestamp t)"

definition parse_offset_spec :: "string \<Rightarrow> OffsetSpec res" where
  "parse_offset_spec s =
     (case named_spec s of
        Some spec \<Rightarrow> Inr spec
      | None \<Rightarrow> map_sum id timestamp_spec (ok_or (''Malformed time argument '' @ s @
          ''. Please use -1 or latest / -2 or earliest / -3 or max-timestamp / -4 or earliest-local / -5 or latest-tiered / -6 or earliest-pending-upload, or a specified long format timestamp'')
          (parse_i64 s)))"

text \<open>\<open>java_split\<close> of this file, which pops every trailing empty piece when there is a comma.\<close>

definition comma_split :: "string \<Rightarrow> string list" where
  "comma_split s = (let parts = split_on CHR '','' s in if 1 < length parts then pop_empty parts else parts)"

definition is_quote :: "char \<Rightarrow> bool" where
  "is_quote c \<longleftrightarrow> c = CHR 0x22 \<or> c = CHR 0x27"

definition clean_pattern :: "string \<Rightarrow> string" where
  "clean_pattern raw =
     (let cleaned = filter (\<lambda>c. c \<noteq> CHR '' '') (map (\<lambda>c. if c = CHR '','' then CHR ''|'' else c) (trim raw))
      in rev (dropWhile is_quote (rev (dropWhile is_quote cleaned))))"

definition topic_pattern :: "regex_lib \<Rightarrow> string \<Rightarrow> (string \<Rightarrow> bool) res" where
  "topic_pattern regex_new raw =
     ok_or (clean_pattern raw @ '' is an invalid regex.'') (regex_new (''^(?:'' @ clean_pattern raw @ '')$''))"

datatype PartitionFilter = FilterSet "int list" | FilterUnique int | FilterRange int int

fun filter_allows :: "PartitionFilter \<Rightarrow> int \<Rightarrow> bool" where
  "filter_allows (FilterSet ids) p \<longleftrightarrow> ids = [] \<or> p \<in> set ids"
| "filter_allows (FilterUnique i) p \<longleftrightarrow> i = p"
| "filter_allows (FilterRange lower upper) p \<longleftrightarrow> lower \<le> p \<and> p < upper"

record Rule =
  rule_topic :: "string \<Rightarrow> bool"
  rule_partitions :: PartitionFilter

type_synonym Selection = "Rule list"

definition allows_topic :: "Selection \<Rightarrow> string \<Rightarrow> bool" where
  "allows_topic sel topic \<longleftrightarrow> list_ex (\<lambda>r. rule_topic r topic) sel"

definition allows :: "Selection \<Rightarrow> string \<Rightarrow> int \<Rightarrow> bool" where
  "allows sel topic p \<longleftrightarrow> list_ex (\<lambda>r. rule_topic r topic \<and> filter_allows (rule_partitions r) p) sel"

definition parse_partition_id :: "string \<Rightarrow> int res" where
  "parse_partition_id s = ok_or (''For input string: '' @ [CHR 0x22] @ s @ [CHR 0x22]) (parse_i32 s)"

definition parse_filter :: "string \<Rightarrow> string option \<Rightarrow> PartitionFilter res" where
  "parse_filter spec partitions =
     (case partitions of
        None \<Rightarrow> Inr (FilterRange 0 i32_max)
      | Some s \<Rightarrow>
          if s = [] then Inr (FilterRange 0 i32_max)
          else if list_all is_ascii_digit s then map_sum id FilterUnique (parse_partition_id s)
          else res_bind (ok_or (''Invalid rule specification: '' @ spec) (split_once CHR ''-'' s)) (\<lambda>(lower, upper).
            if \<not> list_all is_ascii_digit lower \<or> \<not> list_all is_ascii_digit upper then Inl (''Invalid rule specification: '' @ spec)
            else res_bind (if lower = [] then Inr 0 else parse_partition_id lower) (\<lambda>lo.
              res_bind (if upper = [] then Inr i32_max else parse_partition_id upper) (\<lambda>up. Inr (FilterRange lo up)))))"

definition parse_rule :: "regex_lib \<Rightarrow> string \<Rightarrow> Rule res" where
  "parse_rule regex_new spec =
     (let (topic, partitions) = (case split_once CHR '':'' spec of None \<Rightarrow> (spec, None) | Some (t, ps) \<Rightarrow> (t, Some ps))
      in res_bind (parse_filter spec partitions) (\<lambda>ps.
         res_bind (topic_pattern regex_new (if topic = [] then ''.*'' else topic)) (\<lambda>t.
         Inr \<lparr>rule_topic = t, rule_partitions = ps\<rparr>)))"

definition selection :: "regex_lib \<Rightarrow> string option \<Rightarrow> string option \<Rightarrow> string option \<Rightarrow> Selection res" where
  "selection regex_new rules topic partitions =
     (if rules \<noteq> None \<and> (topic \<noteq> None \<or> partitions \<noteq> None)
      then Inl ''--topic-partitions cannot be used with --topic or --partitions''
      else case rules of
        Some spec \<Rightarrow> collect_res (parse_rule regex_new) (comma_split spec)
      | None \<Rightarrow>
          res_bind (case partitions of
              None \<Rightarrow> Inr []
            | Some ids \<Rightarrow> if ids = [] then Inr []
                else collect_res (\<lambda>s. ok_or (''--partitions expects a comma separated list of numeric partition ids, but received: '' @ ids)
                       (parse_i32 s)) (comma_split ids)) (\<lambda>ids.
          res_bind (topic_pattern regex_new (case topic of Some t \<Rightarrow> t | None \<Rightarrow> ''.*'')) (\<lambda>t.
          Inr [\<lparr>rule_topic = t, rule_partitions = FilterSet ids\<rparr>])))"

definition select_partitions :: "Partition list \<Rightarrow> Selection \<Rightarrow> bool \<Rightarrow> Partition list" where
  "select_partitions cluster sel exclude_internal =
     filter (\<lambda>(topic, p). \<not> (exclude_internal \<and> topic \<in> set INTERNAL_TOPICS) \<and> allows_topic sel topic \<and> allows sel topic p) cluster"

section \<open>The command\<close>

text \<open>\<open>list_topics\<close> answers the names of the topics, with the internal ones only when asked for.\<close>

definition list_partitions ::
    "'c GroupsEnv \<Rightarrow> (bool \<Rightarrow> 'c \<Rightarrow> (AdminError + string list) \<times> 'c) \<Rightarrow> Selection \<Rightarrow> bool \<Rightarrow> ('c, Partition list) cmd" where
  "list_partitions env list_topics sel exclude_internal =
     cmd_bind (cmd_admin (list_topics (\<not> exclude_internal))) (\<lambda>topics.
     let allowed = filter (allows_topic sel) topics
     in if allowed = [] then cmd_ret []
        else cmd_bind (cmd_call (ge_describe_topics env allowed)) (\<lambda>answer.
          cmd_try (map_sum id concat (collect_res (\<lambda>(topic, description). case description of
              Inl error \<Rightarrow> Inl (group_exception_text error)
            | Inr ps \<Rightarrow> Inr (map (\<lambda>(p, _). (topic, p)) ps)) answer))))"

definition offset_json :: "Partition \<times> PartitionOffset \<Rightarrow> json" where
  "offset_json = (\<lambda>((topic, p), answer).
     JObject [(''topic'', JString topic), (''partition'', JInt p),
       (''offset'', case answer of Inr n \<Rightarrow> if n = -1 then JNull else JInt n | Inl _ \<Rightarrow> JNull),
       (''error'', case answer of Inr _ \<Rightarrow> JNull
          | Inl code \<Rightarrow> JObject [(''code'', JInt code), (''message'', JString (ex_message (for_code code)))])])"

definition offset_text :: "Partition \<times> PartitionOffset \<Rightarrow> string list" where
  "offset_text = (\<lambda>((topic, p), answer).
     case answer of Inr n \<Rightarrow> if n = -1 then [] else [topic @ '':'' @ show_int p @ '':'' @ show_int n] | Inl _ \<Rightarrow> [])"

definition offset_notice :: "Partition \<times> PartitionOffset \<Rightarrow> string list" where
  "offset_notice = (\<lambda>(p, answer).
     case answer of
       Inr _ \<Rightarrow> []
     | Inl code \<Rightarrow> [''Skip getting offsets for topic-partition '' @ partition_name p @ '' due to error: '' @ to_java_string (for_code code)])"

definition offsets_result :: "(Partition \<times> PartitionOffset) list \<Rightarrow> CommandResult" where
  "offsets_result answers =
     (let answers = sort_key (\<lambda>(p, _). partition_name p) answers;
          notices = concat (map offset_notice answers)
      in with_notices notices (result_rows (concat (map offset_text answers)) (JArray (map offset_json answers)) (notices \<noteq> [])))"

record GetOffsetsArgs =
  go_topic_partitions :: "string option"
  go_topic_filter :: "string option"
  go_partition_ids :: "string option"
  go_time :: string
  go_exclude_internal_topics :: bool

definition run_get_offsets ::
    "'c GroupsEnv \<Rightarrow> regex_lib \<Rightarrow> (bool \<Rightarrow> 'c \<Rightarrow> (AdminError + string list) \<times> 'c) \<Rightarrow> GetOffsetsArgs \<Rightarrow> ('c, CommandResult) cmd" where
  "run_get_offsets env regex_new list_topics self =
     cmd_bind (cmd_try (selection regex_new (go_topic_partitions self) (go_topic_filter self) (go_partition_ids self))) (\<lambda>sel.
     cmd_bind (cmd_try (parse_offset_spec (go_time self))) (\<lambda>spec.
     cmd_bind (ge_connect env) (\<lambda>_.
     cmd_bind (list_partitions env list_topics sel (go_exclude_internal_topics self)) (\<lambda>cluster.
     let partitions = select_partitions cluster sel (go_exclude_internal_topics self)
     in if partitions = [] then cmd_fail (ErrOther ''Could not match any topic-partitions with the specified filters'')
        else cmd_bind (list_offsets_lookup env partitions spec) (\<lambda>answers. cmd_ret (offsets_result answers))))))"

section \<open>Filters and reports\<close>

text \<open>A filter as the documentation of \<^verbatim>\<open>--topic-partitions\<close> writes it.\<close>

fun show_filter :: "PartitionFilter \<Rightarrow> string" where
  "show_filter (FilterUnique n) = show_int n"
| "show_filter (FilterRange lower upper) =
     (if lower = 0 then [] else show_int lower) @ ''-'' @ (if upper = i32_max then [] else show_int upper)"
| "show_filter (FilterSet ids) = []"

fun filter_fits :: "PartitionFilter \<Rightarrow> bool" where
  "filter_fits (FilterUnique n) \<longleftrightarrow> 0 \<le> n \<and> n \<le> i32_max"
| "filter_fits (FilterRange lower upper) \<longleftrightarrow> 0 \<le> lower \<and> lower \<le> i32_max \<and> 0 \<le> upper \<and> upper \<le> i32_max"
| "filter_fits (FilterSet ids) \<longleftrightarrow> False"

lemma show_int_digits: "0 \<le> n \<Longrightarrow> list_all is_ascii_digit (show_int n)"
  by (simp add: show_int_def show_nat_digits)

lemma parse_partition_id_show: "0 \<le> n \<Longrightarrow> n \<le> i32_max \<Longrightarrow> parse_partition_id (show_int n) = Inr n"
  by (simp add: parse_partition_id_def parse_signed_show_int)

lemma digits_no_dash: "list_all is_ascii_digit s \<Longrightarrow> CHR ''-'' \<notin> set s"
  by (auto simp: list_all_iff)

lemma parse_filter_range:
  assumes "list_all is_ascii_digit l" and "list_all is_ascii_digit u"
  shows "parse_filter spec (Some (l @ CHR ''-'' # u)) =
    res_bind (if l = [] then Inr 0 else parse_partition_id l) (\<lambda>lo.
    res_bind (if u = [] then Inr i32_max else parse_partition_id u) (\<lambda>up. Inr (FilterRange lo up)))"
proof -
  have "split_once CHR ''-'' (l @ CHR ''-'' # u) = Some (l, u)"
    by (rule split_once_append) (rule digits_no_dash [OF assms(1)])
  then show ?thesis using assms by (simp add: parse_filter_def)
qed

text \<open>A filter that is written in the form of the documentation reads back as that filter: a partition, or a range with either end left
  out.\<close>

theorem parse_filter_roundtrip:
  assumes "filter_fits f"
  shows "parse_filter spec (Some (show_filter f)) = Inr f"
proof (cases f)
  case (FilterUnique n)
  then show ?thesis using assms by (simp add: parse_filter_def show_int_digits parse_partition_id_show)
next
  case (FilterRange lower upper)
  let ?l = "if lower = 0 then [] else show_int lower" and ?u = "if upper = i32_max then [] else show_int upper"
  have l: "list_all is_ascii_digit ?l" and u: "list_all is_ascii_digit ?u"
    using assms FilterRange show_int_digits by auto
  have lo: "(if ?l = [] then Inr 0 else parse_partition_id ?l) = Inr lower"
    and up: "(if ?u = [] then Inr i32_max else parse_partition_id ?u) = Inr upper"
    using assms FilterRange parse_partition_id_show [of lower] parse_partition_id_show [of upper] by auto
  from parse_filter_range [OF l u, of spec] have "parse_filter spec (Some (?l @ CHR ''-'' # ?u)) = Inr (FilterRange lower upper)"
    by (simp only: lo up res_bind_simps)
  then show ?thesis by (simp only: FilterRange show_filter.simps append.simps append_Cons append_Nil)
next
  case (FilterSet ids)
  with assms show ?thesis by simp
qed

theorem parse_filter_roundtrip_witness: "parse_filter [] (Some (show_filter (FilterRange 0 3))) = Inr (FilterRange 0 3)"
  using parse_filter_roundtrip [of "FilterRange 0 3" "[]"] by simp

text \<open>The report of a lookup: one line for each partition that has an offset, in the order of the names of the partitions, and the command
  fails exactly when some partition failed.\<close>

theorem offsets_result_reports:
  "cr_human (offsets_result answers) =
     map (\<lambda>((topic, p), answer). topic @ '':'' @ show_int p @ '':'' @ show_int (projr answer))
       (filter (\<lambda>(_, answer). \<not> isl answer \<and> projr answer \<noteq> -1) (sort_key (\<lambda>(p, _). partition_name p) answers))
   \<and> (cr_failed (offsets_result answers) \<longleftrightarrow> list_ex (\<lambda>(_, answer). isl answer) answers)
   \<and> length (cr_notices (offsets_result answers)) = length (filter (\<lambda>(_, answer). isl answer) answers)"
proof -
  let ?sorted = "sort_key (\<lambda>(p, _). partition_name p) answers"
  have human: "concat (map offset_text xs) = map (\<lambda>((topic, p), answer). topic @ '':'' @ show_int p @ '':'' @ show_int (projr answer))
      (filter (\<lambda>(_, answer). \<not> isl answer \<and> projr answer \<noteq> -1) xs)" for xs
    by (induction xs) (auto simp: offset_text_def split: sum.splits)
  have notices: "length (concat (map offset_notice xs)) = length (filter (\<lambda>(_, answer). isl answer) xs)" for xs
    by (induction xs) (auto simp: offset_notice_def split: sum.splits)
  have "length (filter (\<lambda>(_, answer). isl answer) ?sorted) = length (filter (\<lambda>(_, answer). isl answer) answers)"
    by (metis (no_types, lifting) mset_filter mset_sort size_mset)
  moreover have "length (filter (\<lambda>(_, answer). isl answer) answers) = 0 \<longleftrightarrow> \<not> list_ex (\<lambda>(_, answer). isl answer) answers"
    by (auto simp: filter_empty_conv list_ex_iff)
  moreover from calculation notices [of ?sorted]
  have "concat (map offset_notice ?sorted) = [] \<longleftrightarrow> \<not> list_ex (\<lambda>(_, answer). isl answer) answers"
    by (metis length_0_conv)
  ultimately show ?thesis
    using notices [of ?sorted] human [of ?sorted]
    by (simp add: offsets_result_def Let_def with_notices_def result_rows_def del: concat_eq_Nil_conv)
qed

end
