(* ===== verification/Delete_Records.thy ===== *)
theory Delete_Records
  imports Command_Monad Kafka_Json
begin

text \<open>
  \<^verbatim>\<open>crates/krabka-cli/src/delete_records.rs\<close>: \<open>kafka-delete-records\<close>. The client, the file, the terminal and the JSON library are the record
  \<open>RecordsEnv\<close>.
\<close>

section \<open>The file\<close>

definition HIGH_WATERMARK :: int where "HIGH_WATERMARK = - 1"

record DeleteRecordsOp =
  dr_topic :: string
  dr_partition :: int
  dr_offset :: int

definition dr_object :: "json_printer \<Rightarrow> json \<Rightarrow> json_object res" where
  "dr_object to_str v = ok_or (''Expected JSON object, received '' @ to_str v) (as_object v)"

definition dr_field :: "json_object \<Rightarrow> string \<Rightarrow> json res" where
  "dr_field obj name = ok_or (''No such field exists: `'' @ name @ ''`'') (map_of obj name)"

definition dr_string :: "json_printer \<Rightarrow> json \<Rightarrow> string res" where
  "dr_string to_str v = ok_or (''Expected `String` value, received '' @ to_str v) (as_str v)"

definition dr_integer :: "json_printer \<Rightarrow> json \<Rightarrow> int res" where
  "dr_integer to_str v = ok_or (''Expected `Integer` value, received '' @ to_str v)
     (Option.bind (as_i64 v) (\<lambda>n. if i32_min \<le> n \<and> n \<le> i32_max then Some n else None))"

definition dr_long :: "json_printer \<Rightarrow> json \<Rightarrow> int res" where
  "dr_long to_str v = ok_or (''Expected `Long` value, received '' @ to_str v) (as_i64 v)"

definition parse_entry :: "json_printer \<Rightarrow> json \<Rightarrow> DeleteRecordsOp res" where
  "parse_entry to_str v =
     res_bind (dr_object to_str v) (\<lambda>entry.
     res_bind (res_bind (dr_field entry ''topic'') (dr_string to_str)) (\<lambda>topic.
     res_bind (res_bind (dr_field entry ''partition'') (dr_integer to_str)) (\<lambda>p.
     res_bind (res_bind (dr_field entry ''offset'') (dr_long to_str)) (\<lambda>offset.
     Inr \<lparr>dr_topic = topic, dr_partition = p, dr_offset = offset\<rparr>))))"

definition op_partition :: "DeleteRecordsOp \<Rightarrow> string \<times> int" where
  "op_partition op = (dr_topic op, dr_partition op)"

definition op_name :: "DeleteRecordsOp \<Rightarrow> string" where
  "op_name op = dr_topic op @ ''-'' @ show_int (dr_partition op)"

text \<open>The loop over the entries: the operations so far and the names that came twice.\<close>

fun parse_entries :: "json_printer \<Rightarrow> DeleteRecordsOp list \<Rightarrow> string list \<Rightarrow> json list \<Rightarrow> (DeleteRecordsOp list \<times> string list) res" where
  "parse_entries to_str ops duplicates [] = Inr (ops, duplicates)"
| "parse_entries to_str ops duplicates (v # vs) =
     res_bind (parse_entry to_str v) (\<lambda>op.
     let seen = list_ex (\<lambda>o'. op_partition o' = op_partition op) ops
     in parse_entries to_str (ops @ [op])
          (if seen \<and> op_name op \<notin> set duplicates then duplicates @ [op_name op] else duplicates) vs)"

definition parse_offset_json :: "json_parser \<Rightarrow> json_printer \<Rightarrow> string \<Rightarrow> DeleteRecordsOp list res" where
  "parse_offset_json from_str to_str s =
     res_bind (case from_str s of Inr v \<Rightarrow> Inr v | Inl _ \<Rightarrow> Inl ''The input string is not a valid JSON'') (\<lambda>v.
     res_bind (dr_object to_str v) (\<lambda>root.
     res_bind (case map_of root ''version'' of None \<Rightarrow> Inr 1 | Some n \<Rightarrow> dr_integer to_str n) (\<lambda>version.
     if version \<noteq> 1 then Inl (''Not supported version field value '' @ show_int version)
     else res_bind (ok_or ''Missing partitions field'' (map_of root ''partitions'')) (\<lambda>partitions.
       res_bind (ok_or (''Expected JSON array, received '' @ to_str partitions) (as_array partitions)) (\<lambda>entries.
       res_bind (parse_entries to_str [] [] entries) (\<lambda>(ops, duplicates).
       if duplicates \<noteq> [] then Inl (''Offset json file contains duplicate topic partitions: '' @ join_with '','' duplicates)
       else Inr ops))))))"

section \<open>Reports\<close>

definition describe_op :: "DeleteRecordsOp \<Rightarrow> string" where
  "describe_op op =
     (if dr_offset op = HIGH_WATERMARK then op_name op @ '' before the high watermark''
      else op_name op @ '' before offset '' @ show_int (dr_offset op))"

definition records_report :: "string list \<Rightarrow> string list" where
  "records_report rows = [''Executing records delete operation'', ''Records delete operation completed:''] @ rows"

record DeleteRecordsOutcome =
  do_topic :: string
  do_partition :: int
  do_low_watermark :: int
  do_error_code :: int

text \<open>The result of an operation: the low watermark, the error code of the partition, or nothing in the answer.\<close>

definition op_result :: "DeleteRecordsOutcome list \<Rightarrow> DeleteRecordsOp \<Rightarrow> int option + int" where
  "op_result outcomes op =
     (case List.find (\<lambda>oc. (do_topic oc, do_partition oc) = op_partition op) outcomes of
        None \<Rightarrow> Inl None
      | Some oc \<Rightarrow> if do_error_code oc = 0 then Inr (do_low_watermark oc) else Inl (Some (do_error_code oc)))"

definition tab_char :: string where "tab_char = [CHR 0x09]"

definition deleted_line :: "DeleteRecordsOp \<Rightarrow> int option + int \<Rightarrow> string" where
  "deleted_line op result =
     ''partition: '' @ op_name op @ tab_char @
     (case result of
        Inr low_watermark \<Rightarrow> ''low_watermark: '' @ show_int low_watermark
      | Inl (Some code) \<Rightarrow> ''error: '' @ exception_text code
      | Inl None \<Rightarrow> ''error: org.apache.kafka.common.errors.ApiException: The response did not contain a result for topic partition '' @ op_name op)"

definition op_json :: "DeleteRecordsOp \<Rightarrow> json \<Rightarrow> json \<Rightarrow> json" where
  "op_json op low_watermark error =
     JObject [(''topic'', JString (dr_topic op)), (''partition'', JInt (dr_partition op)), (''offset'', JInt (dr_offset op)),
       (''low_watermark'', low_watermark), (''error'', error)]"

definition deleted_json :: "DeleteRecordsOp \<Rightarrow> int option + int \<Rightarrow> json" where
  "deleted_json op result =
     op_json op (case result of Inr n \<Rightarrow> JInt n | Inl _ \<Rightarrow> JNull)
       (case result of Inr _ \<Rightarrow> JNull
        | Inl code \<Rightarrow> kafka_error (Some (row_error (case code of Some c \<Rightarrow> c | None \<Rightarrow> - 1))))"

definition deleted :: "DeleteRecordsOp list \<Rightarrow> DeleteRecordsOutcome list \<Rightarrow> CommandResult" where
  "deleted ops outcomes =
     result_rows (records_report (map (\<lambda>op. deleted_line op (op_result outcomes op)) ops))
       (JArray (map (\<lambda>op. deleted_json op (op_result outcomes op)) ops))
       (list_ex (\<lambda>op. isl (op_result outcomes op)) ops)"

definition planned_error :: "(string, int + int) btmap \<Rightarrow> DeleteRecordsOp \<Rightarrow> int option" where
  "planned_error partition_counts op =
     (case map_of partition_counts (dr_topic op) of
        Some (Inr n) \<Rightarrow> if 0 \<le> dr_partition op \<and> dr_partition op < n then None else Some 3
      | Some (Inl code) \<Rightarrow> Some code
      | None \<Rightarrow> Some 3)"

definition planned_line :: "DeleteRecordsOp \<Rightarrow> int option \<Rightarrow> string" where
  "planned_line op error =
     ''partition: '' @ op_name op @ tab_char @
     (case error of
        None \<Rightarrow> ''delete_before: '' @ (if dr_offset op = HIGH_WATERMARK then ''high_watermark'' else show_int (dr_offset op))
      | Some code \<Rightarrow> ''error: '' @ exception_text code)"

definition planned :: "DeleteRecordsOp list \<Rightarrow> (string, int + int) btmap \<Rightarrow> CommandResult" where
  "planned ops partition_counts =
     result_rows (records_report (map (\<lambda>op. planned_line op (planned_error partition_counts op)) ops))
       (JArray (map (\<lambda>op. op_json op JNull (case planned_error partition_counts op of
          None \<Rightarrow> JNull | Some code \<Rightarrow> kafka_error (Some (row_error code)))) ops))
       (list_ex (\<lambda>op. planned_error partition_counts op \<noteq> None) ops)"

section \<open>The command\<close>

record TopicMetadata =
  tmd_name :: string
  tmd_partition_count :: int
  tmd_error :: "KafkaError option"

record 'c RecordsEnv =
  re_connect :: "('c, unit) cmd"
  re_metadata :: "string list \<Rightarrow> 'c \<Rightarrow> (AdminError + TopicMetadata list) \<times> 'c"
  re_delete_records :: "DeleteRecordsOp list \<Rightarrow> nat \<Rightarrow> 'c \<Rightarrow> (AdminError + DeleteRecordsOutcome list) \<times> 'c"
  re_terminal :: Terminal
  re_from_str :: json_parser
  re_to_str :: json_printer

text \<open>\<open>map_err(admin_error)\<close>.\<close>

definition cmd_kafka_admin :: "('c \<Rightarrow> (AdminError + 'a) \<times> 'c) \<Rightarrow> ('c, 'a) cmd" where
  "cmd_kafka_admin call st = (case call st of (r, st') \<Rightarrow> Some (map_sum admin_error id r, st'))"

definition run_delete_records :: "'c RecordsEnv \<Rightarrow> string res \<Rightarrow> ConfirmArgs \<Rightarrow> nat \<Rightarrow> ('c, CommandResult) cmd" where
  "run_delete_records env file_text confirm_args timeout =
     cmd_bind (cmd_try file_text) (\<lambda>s.
     cmd_bind (cmd_try (parse_offset_json (re_from_str env) (re_to_str env) s)) (\<lambda>ops.
     cmd_bind (re_connect env) (\<lambda>_.
     if ca_dry_run confirm_args
     then cmd_bind (cmd_kafka_admin (re_metadata env (remdups_adj (sort (map dr_topic ops))))) (\<lambda>topics.
       let partition_counts = bt_of_list (map (\<lambda>t. (tmd_name t, case tmd_error t of
             None \<Rightarrow> Inr (tmd_partition_count t) | Some e \<Rightarrow> Inl (ke_code e))) topics)
       in cmd_ret (into_dry_run (planned ops partition_counts)))
     else cmd_bind (cmd_confirm (confirm (ca_yes confirm_args) (re_terminal env) ''krabka delete-records''
            \<lparr>im_summary = ''delete records from '' @ show_nat (length ops) @ '' partition(s)'',
             im_resources = map describe_op ops\<rparr>)) (\<lambda>_.
       cmd_bind (cmd_kafka_admin (re_delete_records env ops timeout)) (\<lambda>outcomes. cmd_ret (deleted ops outcomes))))))"

section \<open>What is deleted\<close>

lemma parse_entry_fits:
  assumes "parse_entry to_str v = Inr op"
  shows "i32_min \<le> dr_partition op \<and> dr_partition op \<le> i32_max"
  using assms by (auto simp: parse_entry_def dr_integer_def res_simps bind_eq_Some_conv split: if_splits)

lemma parse_entries_keeps_duplicates:
  "parse_entries to_str ops duplicates vs = Inr (ops', duplicates') \<Longrightarrow> duplicates \<noteq> [] \<Longrightarrow> duplicates' \<noteq> []"
proof (induction vs arbitrary: ops duplicates)
  case (Cons v vs)
  from Cons.prems(1) obtain op where "parse_entry to_str v = Inr op" by (auto simp: res_simps)
  with Cons.prems(1) have "\<exists>more. parse_entries to_str (ops @ [op]) (duplicates @ more) vs = Inr (ops', duplicates')"
    by (auto simp: res_simps Let_def split: if_splits intro: exI [of _ "[]"])
  then show ?case using Cons.IH Cons.prems(2) by blast
qed simp

text \<open>The operations of a file without duplicates: one per entry, in order.\<close>

lemma parse_entries_sound:
  "parse_entries to_str ops [] vs = Inr (ops', []) \<Longrightarrow> distinct (map op_partition ops) \<Longrightarrow>
     \<exists>new. ops' = ops @ new \<and> list_all2 (\<lambda>v op. parse_entry to_str v = Inr op) vs new \<and> distinct (map op_partition ops')"
proof (induction vs arbitrary: ops)
  case (Cons v vs)
  then obtain op where op: "parse_entry to_str v = Inr op" by (auto simp: res_simps)
  let ?seen = "list_ex (\<lambda>o'. op_partition o' = op_partition op) ops"
  have run: "parse_entries to_str (ops @ [op]) (if ?seen then [op_name op] else []) vs = Inr (ops', [])"
    using Cons.prems(1) op by (cases ?seen) (simp_all add: res_simps Let_def)
  have "\<not> ?seen" using parse_entries_keeps_duplicates [OF run] by auto
  then have "distinct (map op_partition (ops @ [op]))" using Cons.prems(2) by (auto simp: list_ex_iff)
  with run \<open>\<not> ?seen\<close> obtain new where "ops' = (ops @ [op]) @ new"
    "list_all2 (\<lambda>v op. parse_entry to_str v = Inr op) vs new" "distinct (map op_partition ops')"
    using Cons.IH [of "ops @ [op]"] by auto
  then show ?case using op by (intro exI [of _ "op # new"]) simp
qed simp

text \<open>An accepted offset file names every partition once and only partitions that fit an int; it has one operation for each entry of the
  file, in its order.\<close>

theorem parse_offset_json_sound:
  assumes "parse_offset_json from_str to_str s = Inr ops"
  shows "distinct (map op_partition ops) \<and> (\<forall>op \<in> set ops. i32_min \<le> dr_partition op \<and> dr_partition op \<le> i32_max)
    \<and> (\<exists>root entries. from_str s = Inr (JObject root) \<and> map_of root ''partitions'' = Some (JArray entries)
         \<and> list_all2 (\<lambda>v op. parse_entry to_str v = Inr op) entries ops)"
proof -
  from assms obtain v root partitions entries where v: "from_str s = Inr v" "as_object v = Some root"
    "map_of root ''partitions'' = Some partitions" "as_array partitions = Some entries"
    and run: "parse_entries to_str [] [] entries = Inr (ops, [])"
    by (auto simp: parse_offset_json_def dr_object_def res_simps split: sum.splits if_splits)
  from parse_entries_sound [OF run] have ops: "list_all2 (\<lambda>v op. parse_entry to_str v = Inr op) entries ops"
    "distinct (map op_partition ops)" by simp_all
  moreover have "i32_min \<le> dr_partition op \<and> dr_partition op \<le> i32_max" if "op \<in> set ops" for op
    using list_all2_in2 [OF ops(1) that] parse_entry_fits by blast
  moreover have "v = JObject root" "partitions = JArray entries"
    using v by (auto elim: as_object.elims as_array.elims)
  ultimately show ?thesis using v by blast
qed

text \<open>The report of a deletion fails exactly when some operation has no success in the answer, and it has a row for every operation.\<close>

theorem deleted_reports:
  "(cr_failed (deleted ops outcomes) \<longleftrightarrow> (\<exists>op \<in> set ops. \<forall>n. op_result outcomes op \<noteq> Inr n))
    \<and> length (cr_human (deleted ops outcomes)) = length ops + 2"
proof -
  have "isl r \<longleftrightarrow> (\<forall>n. r \<noteq> Inr n)" for r :: "int option + int" by (cases r) auto
  then show ?thesis by (simp add: deleted_def result_rows_def records_report_def list_ex_iff)
qed

text \<open>A dry run and a deletion that is not confirmed send no deletion: the outcome does not depend on what the deletion would do.\<close>

theorem unconfirmed_records_kept:
  assumes "ca_dry_run confirm_args \<or> (\<forall>impact. \<exists>refusal.
      confirm (ca_yes confirm_args) (re_terminal env) ''krabka delete-records'' impact = Inl refusal)"
  shows "run_delete_records (env\<lparr>re_delete_records := delete\<rparr>) file_text confirm_args timeout =
    run_delete_records env file_text confirm_args timeout"
proof (cases "ca_dry_run confirm_args")
  case True
  then show ?thesis by (simp add: run_delete_records_def)
next
  case False
  have declined: "cmd_confirm (confirm (ca_yes confirm_args) (re_terminal env) ''krabka delete-records'' impact) =
      cmd_fail (ErrRefused (projl (confirm (ca_yes confirm_args) (re_terminal env) ''krabka delete-records'' impact)))" for impact
    using assms False by (cases "confirm (ca_yes confirm_args) (re_terminal env) ''krabka delete-records'' impact")
      (auto simp: cmd_confirm_def, metis Inr_Inl_False)
  have same: "re_terminal (env\<lparr>re_delete_records := delete\<rparr>) = re_terminal env" "re_connect (env\<lparr>re_delete_records := delete\<rparr>) = re_connect env"
    "re_from_str (env\<lparr>re_delete_records := delete\<rparr>) = re_from_str env" "re_to_str (env\<lparr>re_delete_records := delete\<rparr>) = re_to_str env"
    by simp_all
  show ?thesis
    unfolding run_delete_records_def same declined cmd_bind_fail using False by simp
qed

end
