(* ===== verification/Leader_Election.thy ===== *)
theory Leader_Election
  imports Command_Monad Kafka_Json
begin

text \<open>
  \<^verbatim>\<open>crates/krabka-cli/src/leader_election.rs\<close>: \<open>kafka-leader-election\<close>. The client with its call to elect leaders, the reading of
  a file and the JSON library are the record \<open>ElectionEnv\<close>.
\<close>

section \<open>The arguments\<close>

definition ELECTION_NOT_NEEDED :: int where "ELECTION_NOT_NEEDED = 84"
definition REQUEST_TIMED_OUT :: int where "REQUEST_TIMED_OUT = 7"
definition CLUSTER_AUTHORIZATION_FAILED :: int where "CLUSTER_AUTHORIZATION_FAILED = 31"

record LeaderElectionArgs =
  le_bootstrap_server :: "string list"
  le_bootstrap_controller :: "string list"
  le_command_config :: "string option"
  le_admin_config :: "string option"
  le_path_to_json_file :: "string option"
  le_topic :: "string option"
  le_partition :: "int option"
  le_all_topic_partitions :: bool
  le_election_type :: "string option"

datatype ElectionType = Preferred | Unclean

fun election_name :: "ElectionType \<Rightarrow> string" where
  "election_name Preferred = ''PREFERRED''"
| "election_name Unclean = ''UNCLEAN''"

definition parse_election_type :: "string \<Rightarrow> ElectionType res" where
  "parse_election_type s =
     (let upper = map ascii_upper s
      in if upper = ''PREFERRED'' then Inr Preferred
         else if upper = ''UNCLEAN'' then Inr Unclean
         else Inl (''Cannot parse argument '' @ [CHR 0x27] @ s @ [CHR 0x27] @ '' of option election-type''))"

datatype ElectionSelection = SelectAll | SelectPartitions "TopicPartition list"

fun request_partitions :: "ElectionSelection \<Rightarrow> (string \<times> int) list option" where
  "request_partitions SelectAll = None"
| "request_partitions (SelectPartitions ps) = Some (map (\<lambda>p. (tp_topic p, tp_partition p)) ps)"

datatype ElectionTarget = TargetAll | TargetPartitions "TopicPartition list" | TargetFile string

record Election =
  el_kind :: ElectionType
  el_target :: ElectionTarget
  el_notices :: "string list"

definition missing_options :: "LeaderElectionArgs \<Rightarrow> string list" where
  "missing_options self =
     (if le_bootstrap_server self = [] then [''bootstrap-server''] else []) @
     (if le_election_type self = None then [''election-type''] else [])"

definition chosen_targets :: "LeaderElectionArgs \<Rightarrow> nat" where
  "chosen_targets self =
     length (filter id [le_topic self \<noteq> None, le_all_topic_partitions self, le_path_to_json_file self \<noteq> None])"

definition election_target :: "LeaderElectionArgs \<Rightarrow> ElectionTarget res" where
  "election_target self =
     (case (le_topic self, le_partition self, le_path_to_json_file self) of
        (Some _, None, _) \<Rightarrow> Inl ''Missing required option(s): partition''
      | (None, Some _, _) \<Rightarrow> Inl ''Option partition is only allowed if topic is used''
      | (Some topic, Some p, _) \<Rightarrow> Inr (TargetPartitions [TopicPartition topic p])
      | (None, None, Some path) \<Rightarrow> Inr (TargetFile path)
      | (None, None, None) \<Rightarrow> Inr TargetAll)"

definition ADMIN_CONFIG_DEPRECATED :: string where
  "ADMIN_CONFIG_DEPRECATED =
     ''Option --admin.config has been deprecated and will be removed in a future version. Use --command-config instead.''"

definition validate_election :: "LeaderElectionArgs \<Rightarrow> Election res" where
  "validate_election self =
     (let missing = missing_options self
      in if missing \<noteq> [] then Inl (''Missing required option(s): '' @ join_with '', '' missing)
         else if le_bootstrap_controller self \<noteq> [] then Inl ''bootstrap-controller is not a recognized option''
         else res_bind (parse_election_type (case le_election_type self of Some t \<Rightarrow> t | None \<Rightarrow> [])) (\<lambda>kind.
           if le_admin_config self \<noteq> None \<and> le_command_config self \<noteq> None
           then Inl (''Option '' @ [CHR 0x22] @ ''[admin.config]'' @ [CHR 0x22] @ '' can'' @ [CHR 0x27] @ ''t be used with option '' @
             [CHR 0x22] @ ''[command-config]'' @ [CHR 0x22])
           else if chosen_targets self \<noteq> 1
           then Inl ''One and only one of the following options is required: topic, all-topic-partitions, path-to-json-file''
           else res_bind (election_target self) (\<lambda>target.
             Inr \<lparr>el_kind = kind, el_target = target,
                  el_notices = (if le_admin_config self \<noteq> None then [ADMIN_CONFIG_DEPRECATED] else [])\<rparr>)))"

section \<open>The file\<close>

definition election_entry :: "json_printer \<Rightarrow> json \<Rightarrow> TopicPartition res" where
  "election_entry to_str v =
     res_bind (object to_str v) (\<lambda>entry.
     res_bind (res_bind (field entry ''topic'') (json_string to_str)) (\<lambda>topic.
     res_bind (res_bind (field entry ''partition'') (json_int to_str)) (\<lambda>p.
     Inr (TopicPartition topic p))))"

text \<open>The loop over the entries with its two sets.\<close>

fun election_entries ::
    "json_printer \<Rightarrow> TopicPartition list \<Rightarrow> TopicPartition list \<Rightarrow> json list \<Rightarrow> (TopicPartition list \<times> TopicPartition list) res" where
  "election_entries to_str seen repeated [] = Inr (seen, repeated)"
| "election_entries to_str seen repeated (v # vs) =
     res_bind (election_entry to_str v) (\<lambda>p.
     if p \<in> set seen then election_entries to_str seen (bs_of_list (p # repeated)) vs
     else election_entries to_str (bs_of_list (p # seen)) repeated vs)"

definition parse_election_data :: "json_parser \<Rightarrow> json_printer \<Rightarrow> string \<Rightarrow> TopicPartition list res" where
  "parse_election_data from_str to_str s =
     res_bind (ok_or ''Replica election data is empty'' (parse_full from_str s)) (\<lambda>document.
     res_bind (document_object to_str document) (\<lambda>obj.
     res_bind (ok_or (''Replica election data is missing '' @ [CHR 0x22] @ ''partitions'' @ [CHR 0x22] @ '' field'')
       (map_of obj ''partitions'')) (\<lambda>partitions.
     res_bind (array to_str partitions) (\<lambda>entries.
     res_bind (election_entries to_str [] [] entries) (\<lambda>(seen, repeated).
     if repeated \<noteq> [] then Inl (''Replica election data contains duplicate partitions: ['' @ join_tp '', '' repeated @ '']'')
     else Inr seen)))))"

section \<open>The report\<close>

type_synonym ElectionResults = "(TopicPartition, KafkaError option) btmap"

definition call_failure :: "AdminError \<Rightarrow> CommandError + CommandResult" where
  "call_failure error =
     (let refused = (\<lambda>message. Inr (with_notices [message] (result_rows [message] (JObject [(''error'', JString message)]) True)))
      in case error of
           AdminBroker _ code _ _ \<Rightarrow>
             if code = REQUEST_TIMED_OUT then refused ''Timeout waiting for election results''
             else if code = CLUSTER_AUTHORIZATION_FAILED then refused ''Not authorized to perform leader election''
             else Inl (from_admin_error error)
         | _ \<Rightarrow> Inl (from_admin_error error))"

definition elected_partitions :: "ElectionResults \<Rightarrow> TopicPartition list" where
  "elected_partitions results = hash_set_order (map fst (filter (\<lambda>(_, error). error = None) results)) java_hash"

definition noop_partitions :: "ElectionResults \<Rightarrow> TopicPartition list" where
  "noop_partitions results =
     hash_set_order (map fst (filter (\<lambda>(_, error). case error of Some e \<Rightarrow> ke_code e = ELECTION_NOT_NEEDED | None \<Rightarrow> False) results)) java_hash"

definition failed_partitions :: "ElectionResults \<Rightarrow> (TopicPartition \<times> KafkaError) list" where
  "failed_partitions results =
     hash_order (List.map_filter (\<lambda>(p, error). case error of
         Some e \<Rightarrow> if ke_code e \<noteq> ELECTION_NOT_NEEDED then Some (p, e) else None
       | None \<Rightarrow> None) results) Default (\<lambda>(p, _). java_hash p)"

definition election_json :: "ElectionType \<Rightarrow> TopicPartition \<times> KafkaError option \<Rightarrow> json" where
  "election_json kind = (\<lambda>(p, error).
     JObject [(''topic'', JString (tp_topic p)), (''partition'', JInt (tp_partition p)),
       (''election_type'', JString (election_name kind)), (''error'', kafka_error error)])"

definition election_report :: "ElectionType \<Rightarrow> ElectionResults \<Rightarrow> CommandResult" where
  "election_report kind results =
     (let name = election_name kind; succeeded = elected_partitions results; noop = noop_partitions results;
          failed = failed_partitions results;
          human =
            (if succeeded \<noteq> [] then [''Successfully completed leader election ('' @ name @ '') for partitions '' @ join_tp '', '' succeeded] else []) @
            (if noop \<noteq> [] then [''Valid replica already elected for partitions '' @ join_tp '', '' noop] else []) @
            map (\<lambda>(p, error). ''Error completing leader election ('' @ name @ '') for partition: '' @ show_tp p @ '': '' @ java_exception error) failed;
          notices = (if failed = [] then [] else [show_nat (length failed) @ '' replica(s) could not be elected''])
      in with_notices notices (result_rows human (JArray (map (election_json kind) results)) (failed \<noteq> [])))"

section \<open>The command\<close>

record 'c ElectionEnv =
  ee_connect :: "string option \<Rightarrow> ('c, unit) cmd"
  ee_read_file :: "string \<Rightarrow> 'c \<Rightarrow> string res \<times> 'c"
  ee_elect_leaders :: "ElectionType \<Rightarrow> (string \<times> int) list option \<Rightarrow> 'c \<Rightarrow> (AdminError + (string \<times> int, KafkaError option) btmap) \<times> 'c"
  ee_from_str :: json_parser
  ee_to_str :: json_printer

text \<open>\<open>ee_connect\<close> takes the command config of the connection, \<open>ee_read_file\<close> answers the text or the message of the failure, and a partition
  of \<open>ee_elect_leaders\<close> has the error of its election.\<close>

definition elect_leaders :: "'c ElectionEnv \<Rightarrow> ElectionType \<Rightarrow> ElectionSelection \<Rightarrow> 'c \<Rightarrow> (AdminError + ElectionResults) \<times> 'c" where
  "elect_leaders env kind selection st =
     map_prod (map_sum id (\<lambda>answers. bt_of_list (map (\<lambda>((topic, p), error). (TopicPartition topic p, error)) answers))) id
       (ee_elect_leaders env kind (request_partitions selection) st)"

definition election_selection :: "'c ElectionEnv \<Rightarrow> ElectionTarget \<Rightarrow> ('c, ElectionSelection) cmd" where
  "election_selection env target =
     (case target of
        TargetAll \<Rightarrow> cmd_ret SelectAll
      | TargetPartitions ps \<Rightarrow> cmd_ret (SelectPartitions ps)
      | TargetFile path \<Rightarrow>
          cmd_bind (cmd_bind (cmd_call (ee_read_file env path)) cmd_try) (\<lambda>s.
          cmd_bind (cmd_try (parse_election_data (ee_from_str env) (ee_to_str env) s)) (\<lambda>ps. cmd_ret (SelectPartitions ps))))"

definition run_leader_election :: "'c ElectionEnv \<Rightarrow> LeaderElectionArgs \<Rightarrow> ('c, CommandResult) cmd" where
  "run_leader_election env self =
     cmd_bind (cmd_try (validate_election self)) (\<lambda>election.
     cmd_bind (election_selection env (el_target election)) (\<lambda>selection.
     cmd_bind (ee_connect env (case le_admin_config self of Some config \<Rightarrow> Some config | None \<Rightarrow> le_command_config self)) (\<lambda>_.
     cmd_bind (cmd_call (elect_leaders env (el_kind election) selection)) (\<lambda>answer.
     cmd_bind (case answer of
         Inr results \<Rightarrow> cmd_ret (election_report (el_kind election) results)
       | Inl error \<Rightarrow> (case call_failure error of Inr report \<Rightarrow> cmd_ret report | Inl e \<Rightarrow> cmd_fail e)) (\<lambda>report.
     cmd_ret (report\<lparr>cr_human := el_notices election @ cr_human report\<rparr>))))))"

section \<open>What is elected and reported\<close>

text \<open>A command line is accepted exactly when it names a broker and no controller, an election type, at most one config file and
  exactly one target: a topic with its partition, every partition, or a file.\<close>

theorem validate_election_accepts:
  "(\<exists>election. validate_election self = Inr election) \<longleftrightarrow>
     le_bootstrap_server self \<noteq> [] \<and> le_bootstrap_controller self = [] \<and>
     (\<exists>s. le_election_type self = Some s \<and> map ascii_upper s \<in> {''PREFERRED'', ''UNCLEAN''}) \<and>
     (le_admin_config self = None \<or> le_command_config self = None) \<and>
     (le_topic self \<noteq> None \<and> le_partition self \<noteq> None \<and> \<not> le_all_topic_partitions self \<and> le_path_to_json_file self = None \<or>
      le_topic self = None \<and> le_partition self = None \<and> le_all_topic_partitions self \<noteq> (le_path_to_json_file self \<noteq> None))"
proof -
  have kind: "(\<exists>kind. parse_election_type s = Inr kind) \<longleftrightarrow> map ascii_upper s \<in> {''PREFERRED'', ''UNCLEAN''}" for s
    by (simp add: parse_election_type_def Let_def)
  have target: "chosen_targets self = 1 \<and> (\<exists>target. election_target self = Inr target) \<longleftrightarrow>
      (le_topic self \<noteq> None \<and> le_partition self \<noteq> None \<and> \<not> le_all_topic_partitions self \<and> le_path_to_json_file self = None \<or>
       le_topic self = None \<and> le_partition self = None \<and> le_all_topic_partitions self \<noteq> (le_path_to_json_file self \<noteq> None))"
    by (cases "le_topic self"; cases "le_partition self"; cases "le_path_to_json_file self"; cases "le_all_topic_partitions self")
      (simp_all add: chosen_targets_def election_target_def)
  have "(\<exists>election. validate_election self = Inr election) \<longleftrightarrow>
      missing_options self = [] \<and> le_bootstrap_controller self = [] \<and>
      (\<exists>kind. parse_election_type (case le_election_type self of Some t \<Rightarrow> t | None \<Rightarrow> []) = Inr kind) \<and>
      (le_admin_config self = None \<or> le_command_config self = None) \<and>
      chosen_targets self = 1 \<and> (\<exists>target. election_target self = Inr target)"
    by (auto simp: validate_election_def Let_def res_simps)
  then show ?thesis unfolding kind target missing_options_def by (cases "le_election_type self") simp_all
qed

lemma election_entries_invariant:
  "election_entries to_str seen repeated vs = Inr (seen', []) \<Longrightarrow> sorted seen \<and> distinct seen \<Longrightarrow>
     repeated = [] \<and> (\<exists>ps. list_all2 (\<lambda>v p. election_entry to_str v = Inr p) vs ps \<and> distinct ps \<and>
       set ps \<inter> set seen = {} \<and> set seen' = set seen \<union> set ps) \<and> sorted seen' \<and> distinct seen'"
proof (induction vs arbitrary: seen repeated)
  case (Cons v vs)
  from Cons.prems(1) obtain p where p: "election_entry to_str v = Inr p" by (auto simp: res_simps)
  show ?case
  proof (cases "p \<in> set seen")
    case True
    with Cons.prems p have "bs_of_list (p # repeated) = []" using Cons.IH [of seen "bs_of_list (p # repeated)"] by simp
    then show ?thesis by (metis bs_of_list_Nil_iff list.discI)
  next
    case False
    with Cons.prems p have run: "election_entries to_str (bs_of_list (p # seen)) repeated vs = Inr (seen', [])" by simp
    from Cons.IH [OF this] obtain ps where "repeated = []" "sorted seen'" "distinct seen'"
      and ps: "list_all2 (\<lambda>v p. election_entry to_str v = Inr p) vs ps" "distinct ps"
        "set ps \<inter> insert p (set seen) = {}" "set seen' = insert p (set seen) \<union> set ps"
      by (auto simp del: bs_of_list_Nil_iff)
    moreover have "list_all2 (\<lambda>v p. election_entry to_str v = Inr p) (v # vs) (p # ps)" "distinct (p # ps)"
      "set (p # ps) \<inter> set seen = {}" "set seen' = set seen \<union> set (p # ps)" using ps p False by auto
    ultimately show ?thesis by blast
  qed
qed simp

text \<open>An accepted election file names every partition once: the set that is elected has exactly the partitions of the entries.\<close>

theorem parse_election_data_sound:
  assumes "parse_election_data from_str to_str s = Inr ps"
  shows "\<exists>root entries named. from_str s = Inr (JObject root) \<and> map_of root ''partitions'' = Some (JArray entries)
    \<and> list_all2 (\<lambda>v p. election_entry to_str v = Inr p) entries named \<and> distinct named \<and> ps = sorted_list_of_set (set named)"
proof -
  from assms obtain document root partitions entries where doc: "parse_full from_str s = Some document"
    "document_object to_str document = Inr root" "map_of root ''partitions'' = Some partitions" "array to_str partitions = Inr entries"
    and run: "election_entries to_str [] [] entries = Inr (ps, [])"
    by (auto simp: parse_election_data_def res_simps split: if_splits)
  from election_entries_invariant [OF run] obtain named where
    named: "list_all2 (\<lambda>v p. election_entry to_str v = Inr p) entries named" "distinct named" "set ps = set named"
    and ps: "sorted ps" "distinct ps" by auto
  from doc(1,2) have "from_str s = Inr (JObject root)"
    by (auto simp: parse_full_def try_parse_full_def document_object_def object_Inr map_sum_def split: sum.splits if_splits option.splits)
  moreover have "partitions = JArray entries" using doc(4) by (simp add: array_Inr)
  moreover have "ps = sorted_list_of_set (set named)" using named(3) ps sorted_list_of_set.idem_if_sorted_distinct by metis
  ultimately show ?thesis using doc(3) named(1,2) by blast
qed

lemma failed_partitions_iff:
  "(p, e) \<in> set (failed_partitions results) \<longleftrightarrow> (p, Some e) \<in> set results \<and> ke_code e \<noteq> ELECTION_NOT_NEEDED"
  by (force simp: failed_partitions_def ho.order_set List.map_filter_def split: option.splits if_splits)

lemma failed_partitions_Nil:
  "failed_partitions results \<noteq> [] \<longleftrightarrow> (\<exists>p e. (p, Some e) \<in> set results \<and> ke_code e \<noteq> ELECTION_NOT_NEEDED)"
  using failed_partitions_iff [of _ _ results] by (metis list.set_intros(1) neq_Nil_conv old.prod.exhaust empty_iff list.set(1))

text \<open>The report of an election puts every partition of the answer in exactly one group: elected, already elected, or failed with its error;
  the command fails exactly when the last is not empty, and then says how many failed.\<close>

theorem election_report_groups:
  assumes "bt_ok results"
  shows "(\<forall>p. p \<in> set (elected_partitions results) \<longleftrightarrow> map_of results p = Some None)
    \<and> (\<forall>p. p \<in> set (noop_partitions results) \<longleftrightarrow> (\<exists>e. map_of results p = Some (Some e) \<and> ke_code e = ELECTION_NOT_NEEDED))
    \<and> (\<forall>p e. (p, e) \<in> set (failed_partitions results) \<longleftrightarrow> map_of results p = Some (Some e) \<and> ke_code e \<noteq> ELECTION_NOT_NEEDED)
    \<and> length (elected_partitions results) + length (noop_partitions results) + length (failed_partitions results) = length results
    \<and> (cr_failed (election_report kind results) \<longleftrightarrow> failed_partitions results \<noteq> [])
    \<and> cr_notices (election_report kind results) =
        (if failed_partitions results = [] then [] else [show_nat (length (failed_partitions results)) @ '' replica(s) could not be elected''])"
proof -
  have d: "distinct (map fst results)" using assms by (rule bt_ok_distinct)
  have in_results: "map_of results p = Some x \<longleftrightarrow> (p, x) \<in> set results" for p x
    using map_of_eq_Some_iff [OF d] by simp
  let ?e = "filter (\<lambda>(_, error). error = None) results"
  let ?n = "filter (\<lambda>(_, error). case error of Some e \<Rightarrow> ke_code e = ELECTION_NOT_NEEDED | None \<Rightarrow> False) results"
  have "distinct (map fst ?e)" "distinct (map fst ?n)" using d distinct_map_filter by blast+
  then have "length (elected_partitions results) = length ?e" "length (noop_partitions results) = length ?n"
    unfolding elected_partitions_def noop_partitions_def
    by (metis hash_set_order_distinct hash_set_order_set distinct_card length_map)+
  moreover have "length (failed_partitions results) =
      length (filter (\<lambda>(_, error). case error of Some e \<Rightarrow> ke_code e \<noteq> ELECTION_NOT_NEEDED | None \<Rightarrow> False) results)"
    unfolding failed_partitions_def ho.order_length List.map_filter_def
    by (auto intro!: arg_cong [of _ _ length] filter_cong split: option.splits if_splits)
  moreover have "length ?e + length ?n +
      length (filter (\<lambda>(_, error). case error of Some e \<Rightarrow> ke_code e \<noteq> ELECTION_NOT_NEEDED | None \<Rightarrow> False) results) = length results"
    by (induction results) (auto split: option.splits)
  ultimately have "length (elected_partitions results) + length (noop_partitions results) + length (failed_partitions results) = length results"
    by simp
  moreover have "p \<in> set (elected_partitions results) \<longleftrightarrow> map_of results p = Some None" for p
    unfolding in_results elected_partitions_def by force
  moreover have "p \<in> set (noop_partitions results) \<longleftrightarrow> (\<exists>e. map_of results p = Some (Some e) \<and> ke_code e = ELECTION_NOT_NEEDED)" for p
    unfolding in_results noop_partitions_def by (force split: option.splits)
  ultimately show ?thesis
    by (simp add: in_results failed_partitions_iff election_report_def with_notices_def result_rows_def Let_def)
qed

definition election_sample :: ElectionResults where
  "election_sample =
     [(TopicPartition ''a'' 0, None), (TopicPartition ''a'' 1, Some \<lparr>ke_code = 84, ke_name = ''ELECTION_NOT_NEEDED'', ke_message = None\<rparr>),
      (TopicPartition ''b'' 0, Some \<lparr>ke_code = 80, ke_name = ''PREFERRED_LEADER_NOT_AVAILABLE'', ke_message = None\<rparr>)]"

theorem election_report_groups_witness:
  "bt_ok election_sample \<and> TopicPartition ''a'' 0 \<in> set (elected_partitions election_sample)
    \<and> TopicPartition ''a'' 1 \<in> set (noop_partitions election_sample)
    \<and> TopicPartition ''b'' 0 \<in> fst ` set (failed_partitions election_sample)
    \<and> cr_failed (election_report Preferred election_sample)"
proof -
  have ok: "bt_ok election_sample" by code_simp
  note groups = election_report_groups [OF ok, of Preferred]
  let ?e = "\<lparr>ke_code = 80, ke_name = ''PREFERRED_LEADER_NOT_AVAILABLE'', ke_message = None\<rparr>"
  have failed: "(TopicPartition ''b'' 0, ?e) \<in> set (failed_partitions election_sample)"
    unfolding groups [THEN conjunct2, THEN conjunct2, THEN conjunct1, rule_format] by (simp add: election_sample_def ELECTION_NOT_NEEDED_def)
  have noop: "TopicPartition ''a'' 1 \<in> set (noop_partitions election_sample)"
    unfolding groups [THEN conjunct2, THEN conjunct1, rule_format] by (simp add: election_sample_def ELECTION_NOT_NEEDED_def)
  have elected: "TopicPartition ''a'' 0 \<in> set (elected_partitions election_sample)"
    unfolding groups [THEN conjunct1, rule_format] by (simp add: election_sample_def)
  have "failed_partitions election_sample \<noteq> []" using failed by (metis empty_iff list.set(1))
  then have "cr_failed (election_report Preferred election_sample)"
    unfolding groups [THEN conjunct2, THEN conjunct2, THEN conjunct2, THEN conjunct2, THEN conjunct1] .
  with ok elected noop image_eqI [OF _ failed, of _ fst] show ?thesis unfolding fst_conv by blast
qed

end
