(* ===== verification/Topics_Config.thy ===== *)
theory Topics_Config
  imports Jvm
begin

text \<open>
  \<^verbatim>\<open>crates/krabka-cli/src/topics/java.rs\<close> and \<^verbatim>\<open>topics/config.rs\<close>: the orders and splits of \<open>kafka-topics\<close>, the filter of topic names, and the values
  of \<open>--config\<close> and \<open>--replica-assignment\<close>. The regex library is the record \<open>topic_regex\<close>: how each of the three fixed separators splits a
  text, and what a pattern matches when it compiles.
\<close>

record topic_regex =
  tr_config_separator :: "string \<Rightarrow> string list"
  tr_comma :: "string \<Rightarrow> string list"
  tr_colon :: "string \<Rightarrow> string list"
  tr_new :: "string \<Rightarrow> (string \<Rightarrow> bool) option"

section \<open>Java's orders and splits\<close>

definition describe_order :: "string list \<Rightarrow> string list" where
  "describe_order names =
     (let len = length names;
          first = hash_order names (WithCapacity len) string_hash;
          copy = hash_order first Copy string_hash
      in hash_order copy (WithCapacity len) string_hash)"

definition default_order :: "string list \<Rightarrow> string list" where
  "default_order names = hash_order names Default string_hash"

record ConfigEntry =
  ce_name :: string
  ce_value :: "string option"
  ce_is_default :: bool

type_synonym Config = "(string, ConfigEntry) btmap"

definition non_default_configs :: "Config \<Rightarrow> (string \<times> string) list" where
  "non_default_configs config =
     order_in_table
       (map (\<lambda>entry. (ce_name entry, case ce_value entry of Some v \<Rightarrow> v | None \<Rightarrow> ''null''))
         (filter (\<lambda>entry. \<not> ce_is_default entry) (map snd config)))
       (default_capacity (length config)) (\<lambda>(name, _). string_hash name)"

definition java_regex_split :: "(string \<Rightarrow> string list) \<Rightarrow> string \<Rightarrow> string list" where
  "java_regex_split separator s = (let parts = separator s in if 1 < length parts then pop_empty parts else parts)"

definition include_pattern :: "string \<Rightarrow> string" where
  "include_pattern raw =
     (let quote = (\<lambda>c. c = CHR 0x22 \<or> c = CHR 0x27);
          cleaned = filter (\<lambda>c. c \<noteq> CHR '' '') (map (\<lambda>c. if c = CHR '','' then CHR ''|'' else c) (trim raw))
      in rev (dropWhile quote (rev (dropWhile quote cleaned))))"

definition include_list :: "topic_regex \<Rightarrow> string \<Rightarrow> (string \<Rightarrow> bool) res" where
  "include_list regex raw =
     ok_or (include_pattern raw @ '' is an invalid regex.'') (tr_new regex (''^(?:'' @ include_pattern raw @ '')$''))"

definition is_internal :: "string \<Rightarrow> bool" where
  "is_internal topic \<longleftrightarrow> topic \<in> {''__consumer_offsets'', ''__transaction_state'', ''__share_group_state''}"

definition has_collision_chars :: "string \<Rightarrow> bool" where
  "has_collision_chars topic \<longleftrightarrow> CHR ''.'' \<in> set topic \<or> CHR ''_'' \<in> set topic"

section \<open>Topic configs\<close>

datatype ConfigType = Type_Int | Type_Long | Type_Double | Type_Boolean | Type_String | Type_List

fun config_type_name :: "ConfigType \<Rightarrow> string" where
  "config_type_name Type_Int = ''INT''"
| "config_type_name Type_Long = ''LONG''"
| "config_type_name Type_Double = ''DOUBLE''"
| "config_type_name Type_Boolean = ''BOOLEAN''"
| "config_type_name Type_String = ''STRING''"
| "config_type_name Type_List = ''LIST''"

definition TOPIC_CONFIGS :: "(string \<times> ConfigType) list" where
  "TOPIC_CONFIGS =
    [(''segment.bytes'', Type_Int),
     (''segment.ms'', Type_Long),
     (''segment.jitter.ms'', Type_Long),
     (''segment.index.bytes'', Type_Int),
     (''flush.messages'', Type_Long),
     (''flush.ms'', Type_Long),
     (''retention.bytes'', Type_Long),
     (''retention.ms'', Type_Long),
     (''max.message.bytes'', Type_Int),
     (''index.interval.bytes'', Type_Int),
     (''delete.retention.ms'', Type_Long),
     (''min.compaction.lag.ms'', Type_Long),
     (''max.compaction.lag.ms'', Type_Long),
     (''file.delete.delay.ms'', Type_Long),
     (''min.cleanable.dirty.ratio'', Type_Double),
     (''cleanup.policy'', Type_List),
     (''unclean.leader.election.enable'', Type_Boolean),
     (''min.insync.replicas'', Type_Int),
     (''compression.type'', Type_String),
     (''compression.gzip.level'', Type_Int),
     (''compression.lz4.level'', Type_Int),
     (''compression.zstd.level'', Type_Int),
     (''preallocate'', Type_Boolean),
     (''message.timestamp.type'', Type_String),
     (''message.timestamp.before.max.ms'', Type_Long),
     (''message.timestamp.after.max.ms'', Type_Long),
     (''leader.replication.throttled.replicas'', Type_List),
     (''follower.replication.throttled.replicas'', Type_List),
     (''remote.storage.enable'', Type_Boolean),
     (''local.retention.ms'', Type_Long),
     (''local.retention.bytes'', Type_Long),
     (''remote.log.copy.disable'', Type_Boolean),
     (''remote.log.delete.on.disable'', Type_Boolean),
     (''internal.segment.bytes'', Type_Int),
     (''krabka.diskless'', Type_Boolean),
     (''delivery.mode'', Type_String),
     (''delivery.max.delay.ms'', Type_Long),
     (''delivery.schedule.monotonic'', Type_Boolean),
     (''schema.validation.key'', Type_Boolean),
     (''schema.validation.value'', Type_Boolean),
     (''schema.validation.mode'', Type_String)]"

text \<open>Whether \<open>str::parse::<f64>\<close> accepts a text: a sign, then a name of the special values in any case, or digits with an optional point and an
  optional exponent.\<close>

definition strip_sign :: "string \<Rightarrow> string" where
  "strip_sign s = (case s of c # cs \<Rightarrow> if c = CHR ''+'' \<or> c = CHR ''-'' then cs else s | [] \<Rightarrow> s)"

definition f64_mantissa :: "string \<Rightarrow> bool" where
  "f64_mantissa s =
     (case split_once CHR ''.'' s of
        None \<Rightarrow> s \<noteq> [] \<and> list_all is_ascii_digit s
      | Some (whole, fraction) \<Rightarrow> list_all is_ascii_digit whole \<and> list_all is_ascii_digit fraction \<and> (whole \<noteq> [] \<or> fraction \<noteq> []))"

definition f64_exponent :: "string \<Rightarrow> bool" where
  "f64_exponent s \<longleftrightarrow> strip_sign s \<noteq> [] \<and> list_all is_ascii_digit (strip_sign s)"

definition parses_f64 :: "string \<Rightarrow> bool" where
  "parses_f64 s =
     (let t = map ascii_lower (strip_sign s)
      in t \<in> {''inf'', ''infinity'', ''nan''} \<or>
         (case split_once CHR ''e'' t of
            None \<Rightarrow> f64_mantissa t
          | Some (mantissa, exponent) \<Rightarrow> f64_mantissa mantissa \<and> f64_exponent exponent))"

definition strip_float_suffix :: "string \<Rightarrow> string" where
  "strip_float_suffix s = (if s \<noteq> [] \<and> last s \<in> {CHR ''d'', CHR ''D'', CHR ''f'', CHR ''F''} then butlast s else s)"

definition parses_as :: "string \<Rightarrow> ConfigType \<Rightarrow> bool" where
  "parses_as s kind =
     (let t = trim s
      in case kind of
           Type_Int \<Rightarrow> parse_i32 t \<noteq> None
         | Type_Long \<Rightarrow> parse_i64 t \<noteq> None
         | Type_Double \<Rightarrow> parses_f64 (strip_float_suffix t)
         | Type_Boolean \<Rightarrow> map ascii_lower t = ''true'' \<or> map ascii_lower t = ''false''
         | Type_String \<Rightarrow> True
         | Type_List \<Rightarrow> True)"

definition CONFIG_FORMAT :: string where
  "CONFIG_FORMAT =
     ''requirement failed: Invalid topic config: all configs to be added must be in the format '' @ [CHR 0x22] @ ''key=val'' @ [CHR 0x22] @ ''.''"

definition config_pair :: "string list \<Rightarrow> string \<times> string" where
  "config_pair pair = (trim (pair ! 0), trim (pair ! 1))"

definition config_value_problem :: "(string, string) btmap \<Rightarrow> string \<times> ConfigType \<Rightarrow> string option" where
  "config_value_problem configs = (\<lambda>(name, kind).
     case map_of configs name of
       None \<Rightarrow> None
     | Some v \<Rightarrow>
         if parses_as v kind then None
         else Some (''Invalid value '' @ v @ '' for configuration '' @ name @ '': '' @
           (if kind = Type_Boolean then ''Expected value to be either true or false''
            else ''Not a number of type '' @ config_type_name kind)))"

text \<open>The first problem of a list: a \<open>for\<close> loop that returns the first error.\<close>

definition first_problem :: "('a \<Rightarrow> string option) \<Rightarrow> 'a list \<Rightarrow> unit res" where
  "first_problem problem xs = (case List.map_filter problem xs of [] \<Rightarrow> Inr () | e # _ \<Rightarrow> Inl e)"

definition parse_topic_configs :: "topic_regex \<Rightarrow> string list \<Rightarrow> (string, string) btmap res" where
  "parse_topic_configs regex values =
     (let pairs = map (java_regex_split (tr_config_separator regex)) values
      in if \<not> list_all (\<lambda>pair. length pair = 2) pairs then Inl CONFIG_FORMAT
         else let given = map config_pair pairs;
                  configs = bt_of_list given;
                  names = push_unique [] (map fst given)
              in res_bind (first_problem (\<lambda>name. if name \<in> fst ` set TOPIC_CONFIGS then None
                     else Some (''Unknown topic config name: '' @ name)) (default_order names)) (\<lambda>_.
                 res_bind (first_problem (config_value_problem configs) TOPIC_CONFIGS) (\<lambda>_. Inr configs)))"

section \<open>Replica assignments\<close>

definition repeated_brokers :: "int list \<Rightarrow> int list" where
  "repeated_brokers brokers = sort (push_unique [] (map snd (filter (\<lambda>(i, b). b \<in> set (take i brokers)) (enumerate 0 brokers))))"

definition check_assignment_row :: "nat \<Rightarrow> int list list \<Rightarrow> int list \<Rightarrow> unit res" where
  "check_assignment_row index assignment brokers =
     (let repeated = repeated_brokers brokers
      in if repeated \<noteq> []
         then Inl (''Partition replica lists may not contain duplicate entries: '' @ join_with '','' (map show_int repeated))
         else if assignment \<noteq> [] \<and> length (hd assignment) \<noteq> length brokers
         then Inl (''Partition '' @ show_nat index @ '' has different replication factor: ['' @ join_with '', '' (map show_int brokers) @ '']'')
         else Inr ())"

fun assignment_rows :: "topic_regex \<Rightarrow> nat \<Rightarrow> int list list \<Rightarrow> string list \<Rightarrow> int list list res" where
  "assignment_rows regex index assignment [] = Inr assignment"
| "assignment_rows regex index assignment (p # ps) =
     res_bind (collect_res (\<lambda>broker. parse_int (trim broker)) (java_regex_split (tr_colon regex) p)) (\<lambda>brokers.
     res_bind (check_assignment_row index assignment brokers) (\<lambda>_.
     assignment_rows regex (Suc index) (assignment @ [brokers]) ps))"

definition parse_replica_assignment :: "topic_regex \<Rightarrow> string \<Rightarrow> int list list res" where
  "parse_replica_assignment regex s = assignment_rows regex 0 [] (java_regex_split (tr_comma regex) s)"

section \<open>What is accepted\<close>

lemma first_problem_Inr_iff [res_simps]: "first_problem problem xs = Inr () \<longleftrightarrow> (\<forall>x \<in> set xs. problem x = None)"
  using map_filter_Nil_iff [of problem xs] by (auto simp: first_problem_def split: list.splits)

lemma TOPIC_CONFIGS_distinct: "distinct (map fst TOPIC_CONFIGS)"
  by code_simp

lemma config_value_problem_None_iff:
  "config_value_problem configs (name, kind) = None \<longleftrightarrow> (\<forall>v. map_of configs name = Some v \<longrightarrow> parses_as v kind)"
  by (auto simp: config_value_problem_def split: option.splits if_splits)

lemma default_order_set [simp]: "set (default_order names) = set names"
  by (simp add: default_order_def ho.order_set)

text \<open>\<open>--config\<close> is accepted exactly when every value is a key and a value, every key is a topic config and the last value given for it is of
  its type; what is sent has that last value for each key.\<close>

theorem parse_topic_configs_iff:
  "parse_topic_configs regex values = Inr configs \<longleftrightarrow>
     list_all (\<lambda>pair. length pair = 2) (map (java_regex_split (tr_config_separator regex)) values) \<and>
     configs = bt_of_list (map (config_pair \<circ> java_regex_split (tr_config_separator regex)) values) \<and>
     list_all (\<lambda>(name, v). \<exists>kind. map_of TOPIC_CONFIGS name = Some kind \<and> parses_as v kind) configs"
proof -
  let ?pairs = "map (java_regex_split (tr_config_separator regex)) values"
  let ?given = "map config_pair ?pairs"
  let ?configs = "bt_of_list ?given"
  have names: "set (push_unique [] (map fst ?given)) = fst ` set ?configs"
    by (simp add: push_unique_set bt_simps image_image)
  have typed: "(\<forall>row \<in> set TOPIC_CONFIGS. config_value_problem ?configs row = None) \<longleftrightarrow>
      (\<forall>name v kind. (name, v) \<in> set ?configs \<longrightarrow> map_of TOPIC_CONFIGS name = Some kind \<longrightarrow> parses_as v kind)"
    using map_of_eq_Some_iff [OF TOPIC_CONFIGS_distinct] map_of_eq_Some_iff [OF bt_ok_distinct [OF bt_ok_of_list [of ?given]]]
    by (auto simp: config_value_problem_None_iff)
  have known: "(\<forall>name \<in> fst ` set ?configs. name \<in> fst ` set TOPIC_CONFIGS) \<longleftrightarrow>
      (\<forall>name v. (name, v) \<in> set ?configs \<longrightarrow> (\<exists>kind. map_of TOPIC_CONFIGS name = Some kind))"
  proof -
    have "name \<in> fst ` set TOPIC_CONFIGS \<longleftrightarrow> (\<exists>kind. map_of TOPIC_CONFIGS name = Some kind)" for name
      using map_of_eq_None_iff [of TOPIC_CONFIGS name] by (cases "map_of TOPIC_CONFIGS name") auto
    then show ?thesis by auto
  qed
  have "parse_topic_configs regex values = Inr configs \<longleftrightarrow> list_all (\<lambda>pair. length pair = 2) ?pairs \<and> configs = ?configs \<and>
      (\<forall>name \<in> fst ` set ?configs. name \<in> fst ` set TOPIC_CONFIGS) \<and> (\<forall>row \<in> set TOPIC_CONFIGS. config_value_problem ?configs row = None)"
    unfolding parse_topic_configs_def Let_def names [symmetric] by (auto simp: res_simps)
  moreover have "(\<forall>name \<in> fst ` set ?configs. name \<in> fst ` set TOPIC_CONFIGS) \<and> (\<forall>row \<in> set TOPIC_CONFIGS. config_value_problem ?configs row = None)
      \<longleftrightarrow> list_all (\<lambda>(name, v). \<exists>kind. map_of TOPIC_CONFIGS name = Some kind \<and> parses_as v kind) ?configs"
    unfolding known typed list_all_iff by fastforce
  ultimately show ?thesis unfolding map_map by blast
qed

lemma repeated_brokers_Nil_iff: "repeated_brokers brokers = [] \<longleftrightarrow> distinct brokers"
proof -
  have "set (repeated_brokers brokers) = {b. \<exists>i < length brokers. brokers ! i = b \<and> b \<in> set (take i brokers)}"
    by (force simp: repeated_brokers_def push_unique_set in_set_enumerate_eq)
  moreover have "repeated_brokers brokers = [] \<longleftrightarrow> set (repeated_brokers brokers) = {}" by simp
  ultimately have "repeated_brokers brokers = [] \<longleftrightarrow> (\<forall>i < length brokers. brokers ! i \<notin> set (take i brokers))" by auto
  then show ?thesis unfolding distinct_take_iff .
qed

lemma check_assignment_row_Inr_iff [res_simps]:
  "check_assignment_row index assignment brokers = Inr () \<longleftrightarrow>
     distinct brokers \<and> (assignment = [] \<or> length (hd assignment) = length brokers)"
  by (auto simp: check_assignment_row_def Let_def repeated_brokers_Nil_iff)

text \<open>Rows without a repeated broker, all of the same length.\<close>

definition assignment_ok :: "int list list \<Rightarrow> bool" where
  "assignment_ok rows \<longleftrightarrow> list_all distinct rows \<and> list_all (\<lambda>row. length row = length (hd rows)) rows"

lemma assignment_ok_snoc:
  "assignment_ok (rows @ [row]) \<longleftrightarrow> assignment_ok rows \<and> distinct row \<and> (rows = [] \<or> length (hd rows) = length row)"
  by (cases rows) (auto simp: assignment_ok_def)

lemma assignment_rows_Inr_iff:
  "assignment_ok rows \<Longrightarrow> assignment_rows regex index rows ps = Inr rows' \<longleftrightarrow>
     (\<exists>new. rows' = rows @ new \<and> assignment_ok rows' \<and>
        list_all2 (\<lambda>p row. collect_res (\<lambda>broker. parse_int (trim broker)) (java_regex_split (tr_colon regex) p) = Inr row) ps new)"
proof (induction ps arbitrary: index rows)
  case (Cons p ps)
  let ?row = "collect_res (\<lambda>broker. parse_int (trim broker)) (java_regex_split (tr_colon regex) p)"
  have step: "assignment_rows regex index rows (p # ps) = Inr rows' \<longleftrightarrow>
      (\<exists>row. ?row = Inr row \<and> assignment_ok (rows @ [row]) \<and> assignment_rows regex (Suc index) (rows @ [row]) ps = Inr rows')"
    using Cons.prems by (auto simp: res_simps assignment_ok_snoc simp del: collect_res_Inr_iff)
  have prefix: "assignment_ok ((rows @ [row]) @ new) \<Longrightarrow> assignment_ok (rows @ [row])" for row new
    by (cases rows) (auto simp: assignment_ok_def)
  show ?case
  proof
    assume "assignment_rows regex index rows (p # ps) = Inr rows'"
    then obtain row where row: "?row = Inr row" "assignment_ok (rows @ [row])"
      and run: "assignment_rows regex (Suc index) (rows @ [row]) ps = Inr rows'" unfolding step by blast
    from run obtain new where "rows' = (rows @ [row]) @ new" "assignment_ok rows'"
      "list_all2 (\<lambda>p row. collect_res (\<lambda>broker. parse_int (trim broker)) (java_regex_split (tr_colon regex) p) = Inr row) ps new"
      unfolding Cons.IH [OF row(2)] by blast
    with row(1) show "\<exists>new. rows' = rows @ new \<and> assignment_ok rows' \<and>
        list_all2 (\<lambda>p row. collect_res (\<lambda>broker. parse_int (trim broker)) (java_regex_split (tr_colon regex) p) = Inr row) (p # ps) new"
      by (intro exI [of _ "row # new"]) simp
  next
    assume "\<exists>new. rows' = rows @ new \<and> assignment_ok rows' \<and>
        list_all2 (\<lambda>p row. collect_res (\<lambda>broker. parse_int (trim broker)) (java_regex_split (tr_colon regex) p) = Inr row) (p # ps) new"
    then obtain row new where new: "rows' = (rows @ [row]) @ new" "assignment_ok rows'" "?row = Inr row"
      "list_all2 (\<lambda>p row. collect_res (\<lambda>broker. parse_int (trim broker)) (java_regex_split (tr_colon regex) p) = Inr row) ps new"
      by (auto simp: list_all2_Cons1 simp del: collect_res_Inr_iff)
    with prefix have ok: "assignment_ok (rows @ [row])" by blast
    show "assignment_rows regex index rows (p # ps) = Inr rows'"
      unfolding step using Cons.IH [OF ok, of "Suc index"] ok new by blast
  qed
qed auto

text \<open>What \<open>--replica-assignment\<close> writes for rows of brokers.\<close>

definition show_assignment :: "int list list \<Rightarrow> string" where
  "show_assignment rows = join_with '','' (map (\<lambda>row. join_with '':'' (map show_int row)) rows)"

lemma java_regex_split_join:
  assumes "separator = split_on c" and "pieces \<noteq> []" and "\<forall>piece \<in> set pieces. c \<notin> set piece \<and> piece \<noteq> []"
  shows "java_regex_split separator (join_with [c] pieces) = pieces"
proof -
  have "split_on c (join_with [c] pieces) = pieces" using assms split_on_join by blast
  moreover have "pop_empty pieces = pieces" using assms by (intro pop_empty_no_trailing) auto
  ultimately show ?thesis using assms(1) by (simp add: java_regex_split_def)
qed

lemma trim_show_int: "trim (show_int n) = show_int n"
proof -
  have "graphic c" if "c \<in> set (show_int n)" for c
    using show_int_chars [of n] that by (auto simp: graphic_def is_ascii_digit_def byte_of_def)
  then show ?thesis by (intro trim_graphic) simp_all
qed

lemma parse_int_show_int: "i32_min \<le> n \<Longrightarrow> n \<le> i32_max \<Longrightarrow> parse_int (show_int n) = Inr n"
  by (simp add: parse_int_eq str_simps)

lemma join_colon_no_comma: "CHR '','' \<notin> set (join_with '':'' (map show_int row))"
proof (induction row)
  case (Cons b row)
  then show ?case by (cases row) auto
qed simp

lemma join_colon_Nil_iff [simp]: "join_with '':'' (map show_int row) = [] \<longleftrightarrow> row = []"
  by (cases row; cases "tl row") auto

text \<open>\<open>--replica-assignment\<close>: what is accepted has no broker twice in a partition and the same number of replicas for every partition, and
  every such assignment is read back from what it is written as.\<close>

theorem parse_replica_assignment_roundtrip:
  assumes "tr_comma regex = split_on CHR '',''" and "tr_colon regex = split_on CHR '':''"
  shows "(parse_replica_assignment regex s = Inr rows \<longrightarrow> assignment_ok rows \<and> (\<forall>row \<in> set rows. \<forall>b \<in> set row. i32_min \<le> b \<and> b \<le> i32_max))
    \<and> (rows \<noteq> [] \<and> [] \<notin> set rows \<and> assignment_ok rows \<and> (\<forall>row \<in> set rows. \<forall>b \<in> set row. i32_min \<le> b \<and> b \<le> i32_max) \<longrightarrow>
         parse_replica_assignment regex (show_assignment rows) = Inr rows)"
proof (intro conjI impI)
  let ?read = "\<lambda>p. collect_res (\<lambda>broker. parse_int (trim broker)) (java_regex_split (tr_colon regex) p)"
  have ok0: "assignment_ok []" by (simp add: assignment_ok_def)
  {
    assume "parse_replica_assignment regex s = Inr rows"
    then have rows: "assignment_ok rows" "list_all2 (\<lambda>p row. ?read p = Inr row) (java_regex_split (tr_comma regex) s) rows"
      unfolding parse_replica_assignment_def assignment_rows_Inr_iff [OF ok0] by auto
    show "assignment_ok rows" by (fact rows(1))
    have "i32_min \<le> b \<and> b \<le> i32_max" if "row \<in> set rows" "b \<in> set row" for row b
    proof -
      from list_all2_in2 [OF rows(2) that(1)] obtain p where "?read p = Inr row" by blast
      then have "list_all2 (\<lambda>broker b. parse_int (trim broker) = Inr b) (java_regex_split (tr_colon regex) p) row"
        by (simp add: collect_res_Inr_iff)
      from list_all2_in2 [OF this that(2)] obtain t where "parse_int (trim t) = Inr b" by blast
      then show ?thesis using parse_signed_range [of i32_min i32_max "trim t" b] by (simp only: parse_int_eq ok_or_Inr_iff)
    qed
    then show "\<forall>row \<in> set rows. \<forall>b \<in> set row. i32_min \<le> b \<and> b \<le> i32_max" by blast
  }
  assume rows: "rows \<noteq> [] \<and> [] \<notin> set rows \<and> assignment_ok rows \<and> (\<forall>row \<in> set rows. \<forall>b \<in> set row. i32_min \<le> b \<and> b \<le> i32_max)"
  let ?pieces = "map (\<lambda>row. join_with '':'' (map show_int row)) rows"
  have "java_regex_split (tr_comma regex) (show_assignment rows) = ?pieces"
    unfolding show_assignment_def using rows join_colon_no_comma
    by (intro java_regex_split_join [OF assms(1)]) auto
  moreover have "?read (join_with '':'' (map show_int row)) = Inr row" if "row \<in> set rows" for row
  proof -
    have "java_regex_split (tr_colon regex) (join_with '':'' (map show_int row)) = map show_int row"
      using rows that by (intro java_regex_split_join [OF assms(2)]) auto
    moreover have "list_all2 (\<lambda>broker b. parse_int (trim broker) = Inr b) (map show_int row) row"
      using rows that by (auto simp: list.rel_map list_all2_same trim_show_int parse_int_show_int)
    ultimately show ?thesis by (simp add: collect_res_Inr_iff)
  qed
  then have "list_all2 (\<lambda>p row. ?read p = Inr row) ?pieces rows" by (simp add: list.rel_map list_all2_same)
  ultimately show "parse_replica_assignment regex (show_assignment rows) = Inr rows"
    using rows unfolding parse_replica_assignment_def assignment_rows_Inr_iff [OF ok0] by simp
qed

text \<open>The separators as the documentation of regular expressions defines them: a comma, a colon, and an equals sign with the white space
  around it. A pattern here matches the text between its anchors.\<close>

definition config_separator_split :: "string \<Rightarrow> string list" where
  "config_separator_split s =
     (case split_on CHR ''='' s of
        first # second # rest \<Rightarrow>
          trim_end first # map trim (butlast (second # rest)) @ [trim_start (last (second # rest))]
      | pieces \<Rightarrow> pieces)"

definition sample_regex :: topic_regex where
  "sample_regex = \<lparr>tr_config_separator = config_separator_split, tr_comma = split_on CHR '','', tr_colon = split_on CHR '':'',
     tr_new = (\<lambda>pattern. Some (\<lambda>topic. ''^(?:'' @ topic @ '')$'' = pattern))\<rparr>"

theorem parse_replica_assignment_roundtrip_witness:
  "parse_replica_assignment sample_regex (show_assignment [[1, 2], [2, 3]]) = Inr [[1, 2], [2, 3]]"
proof -
  have "assignment_ok [[1, 2], [2, 3]]" by code_simp
  then show ?thesis
    using parse_replica_assignment_roundtrip [of sample_regex _ "[[1, 2], [2, 3]]"] by (simp add: sample_regex_def)
qed

end
