(* ===== verification/Topics_Describe.thy ===== *)
theory Topics_Describe
  imports Topics_Config Kafka_Json
begin

text \<open>
  \<^verbatim>\<open>crates/krabka-cli/src/topics/describe.rs\<close>: the lines of \<open>kafka-topics --describe\<close> and the selectors that filter them. The text of a
  topic id, which another crate prints, is the argument \<open>uuid\<close>.
\<close>

record PartitionInfo =
  pi_index :: int
  pi_leader :: "int option"
  pi_replicas :: "int list"
  pi_isr :: "int list"
  pi_elr :: "int list option"
  pi_last_known_elr :: "int list option"

record TopicInfo =
  ti_name :: string
  ti_id :: "string option"
  ti_partitions :: "PartitionInfo list"

record Reassignment =
  ra_replicas :: "int list"
  ra_adding :: "int list"
  ra_removing :: "int list"

section \<open>The selectors\<close>

definition reassignment_in_progress :: "PartitionInfo \<Rightarrow> Reassignment option \<Rightarrow> bool" where
  "reassignment_in_progress p reassignment =
     (case reassignment of
        None \<Rightarrow> False
      | Some r \<Rightarrow> list_ex (\<lambda>replica. replica \<in> set (ra_adding r) \<or> replica \<in> set (ra_removing r)) (pi_replicas p))"

definition replication_factor :: "PartitionInfo \<Rightarrow> Reassignment option \<Rightarrow> nat" where
  "replication_factor p reassignment =
     (case reassignment of
        Some r \<Rightarrow> if reassignment_in_progress p (Some r) then length (ra_replicas r) - length (ra_adding r) else length (pi_replicas p)
      | None \<Rightarrow> length (pi_replicas p))"

definition is_under_replicated :: "PartitionInfo \<Rightarrow> Reassignment option \<Rightarrow> bool" where
  "is_under_replicated p reassignment \<longleftrightarrow> length (pi_isr p) < replication_factor p reassignment"

definition is_unavailable :: "PartitionInfo \<Rightarrow> int list \<Rightarrow> bool" where
  "is_unavailable p live_brokers = (case pi_leader p of None \<Rightarrow> True | Some leader \<Rightarrow> leader \<notin> set live_brokers)"

definition isr_count :: "PartitionInfo \<Rightarrow> int" where
  "isr_count p = min (int (length (pi_isr p))) i64_max"

definition is_under_min_isr :: "PartitionInfo \<Rightarrow> int res \<Rightarrow> bool res" where
  "is_under_min_isr p min_isr =
     (if pi_leader p = None then Inr True else res_bind min_isr (\<lambda>n. Inr (isr_count p < n)))"

definition is_at_min_isr :: "PartitionInfo \<Rightarrow> int res \<Rightarrow> bool res" where
  "is_at_min_isr p min_isr = res_bind min_isr (\<lambda>n. Inr (n = isr_count p))"

definition min_insync_replicas :: "Config \<Rightarrow> int res" where
  "min_insync_replicas config =
     res_bind (ok_or (''Cannot invoke '' @ [CHR 0x22] @ ''org.apache.kafka.clients.admin.ConfigEntry.value()'' @ [CHR 0x22] @
         '' because the return value of '' @ [CHR 0x22] @ ''org.apache.kafka.clients.admin.Config.get(String)'' @ [CHR 0x22] @ '' is null'')
       (map_of config ''min.insync.replicas'')) (\<lambda>entry.
     case ce_value entry of Some v \<Rightarrow> parse_int v | None \<Rightarrow> Inl ''Cannot parse null string: null'')"

datatype Selector = UnderReplicated | Unavailable | UnderMinIsr | AtMinIsr | TopicsWithOverrides

type_synonym Selectors = "Selector list"

definition describe_configs :: "Selectors \<Rightarrow> bool" where
  "describe_configs selectors \<longleftrightarrow>
     \<not> (Unavailable \<in> set selectors \<or> UnderReplicated \<in> set selectors \<or> UnderMinIsr \<in> set selectors \<or> AtMinIsr \<in> set selectors)"

definition describe_partitions :: "Selectors \<Rightarrow> bool" where
  "describe_partitions selectors \<longleftrightarrow> TopicsWithOverrides \<notin> set selectors"

section \<open>The lines\<close>

record TopicReport =
  tr_topic :: TopicInfo
  tr_configs :: "(string \<times> string) list"
  tr_min_isr :: "int res"
  tr_reassignments :: "(int, Reassignment) btmap"

record DescribeFailure =
  df_printed :: "string list"
  df_message :: string

definition NO_FIRST_PARTITION :: string where "NO_FIRST_PARTITION = ''Index 0 out of bounds for length 0''"

definition tabbed :: "string \<Rightarrow> string" where "tabbed s = CHR 0x09 # s"

definition joined :: "int list \<Rightarrow> string" where "joined ids = join_with '','' (map show_int ids)"

definition elr_field :: "int list option \<Rightarrow> string" where
  "elr_field ids = (case ids of None \<Rightarrow> ''N/A'' | Some ids \<Rightarrow> joined ids)"

definition summary_line :: "(string \<Rightarrow> string) \<Rightarrow> TopicInfo \<Rightarrow> nat \<Rightarrow> (string \<times> string) list \<Rightarrow> string" where
  "summary_line uuid topic factor configs =
     ''Topic: '' @ ti_name topic @ (case ti_id topic of Some i \<Rightarrow> tabbed ''TopicId: '' @ uuid i | None \<Rightarrow> []) @
     tabbed ''PartitionCount: '' @ show_nat (length (ti_partitions topic)) @ tabbed ''ReplicationFactor: '' @ show_nat factor @
     tabbed ''Configs: '' @ join_with '','' (map (\<lambda>(name, v). name @ ''='' @ v) configs)"

definition partition_line :: "string \<Rightarrow> PartitionInfo \<Rightarrow> Reassignment option \<Rightarrow> string" where
  "partition_line topic p reassignment =
     tabbed ''Topic: '' @ topic @ tabbed ''Partition: '' @ show_int (pi_index p) @
     tabbed ''Leader: '' @ (case pi_leader p of None \<Rightarrow> ''none'' | Some leader \<Rightarrow> show_int leader) @
     tabbed ''Replicas: '' @ joined (pi_replicas p) @ tabbed ''Isr: '' @ joined (pi_isr p) @
     (case reassignment of
        Some r \<Rightarrow> tabbed ''Adding Replicas: '' @ joined (ra_adding r) @ tabbed ''Removing Replicas: '' @ joined (ra_removing r)
      | None \<Rightarrow> []) @
     tabbed ''Elr: '' @ elr_field (pi_elr p) @ tabbed ''LastKnownElr: '' @ elr_field (pi_last_known_elr p)"

definition ids_json :: "int list option \<Rightarrow> json" where
  "ids_json ids = (case ids of None \<Rightarrow> JNull | Some ids \<Rightarrow> JArray (map JInt ids))"

definition partition_json :: "PartitionInfo \<Rightarrow> Reassignment option \<Rightarrow> json" where
  "partition_json p reassignment =
     JObject [(''partition'', JInt (pi_index p)), (''leader'', case pi_leader p of None \<Rightarrow> JNull | Some leader \<Rightarrow> JInt leader),
       (''replicas'', JArray (map JInt (pi_replicas p))), (''isr'', JArray (map JInt (pi_isr p))),
       (''adding_replicas'', ids_json (map_option ra_adding reassignment)), (''removing_replicas'', ids_json (map_option ra_removing reassignment)),
       (''elr'', ids_json (pi_elr p)), (''last_known_elr'', ids_json (pi_last_known_elr p))]"

text \<open>\<open>||\<close> of results with its short cut, in the order of the code.\<close>

definition or_else :: "bool \<Rightarrow> bool res \<Rightarrow> bool res" where
  "or_else b r = (if b then Inr True else r)"

definition should_print :: "PartitionInfo \<Rightarrow> Reassignment option \<Rightarrow> TopicReport \<Rightarrow> Selectors \<Rightarrow> int list \<Rightarrow> bool res" where
  "should_print p reassignment report selectors live_brokers =
     or_else (describe_configs selectors)
     (or_else (UnderReplicated \<in> set selectors \<and> is_under_replicated p reassignment)
     (or_else (Unavailable \<in> set selectors \<and> is_unavailable p live_brokers)
     (res_bind (if UnderMinIsr \<in> set selectors then is_under_min_isr p (tr_min_isr report) else Inr False) (\<lambda>under.
      or_else under (if AtMinIsr \<in> set selectors then is_at_min_isr p (tr_min_isr report) else Inr False)))))"

fun describe_rows ::
    "TopicReport \<Rightarrow> Selectors \<Rightarrow> int list \<Rightarrow> string list \<Rightarrow> json list \<Rightarrow> PartitionInfo list \<Rightarrow> DescribeFailure + string list \<times> json list" where
  "describe_rows report selectors live_brokers lines rows [] = Inr (lines, rows)"
| "describe_rows report selectors live_brokers lines rows (p # ps) =
     (let reassignment = map_of (tr_reassignments report) (pi_index p)
      in case should_print p reassignment report selectors live_brokers of
           Inr True \<Rightarrow> describe_rows report selectors live_brokers
             (lines @ [partition_line (ti_name (tr_topic report)) p reassignment]) (rows @ [partition_json p reassignment]) ps
         | Inr False \<Rightarrow> describe_rows report selectors live_brokers lines rows ps
         | Inl message \<Rightarrow> Inl \<lparr>df_printed = lines, df_message = message\<rparr>)"

definition topic_factor :: "TopicReport \<Rightarrow> nat" where
  "topic_factor report =
     (case ti_partitions (tr_topic report) of
        [] \<Rightarrow> 0
      | p # _ \<Rightarrow> replication_factor p (map_of (tr_reassignments report) (pi_index p)))"

definition topic_json :: "(string \<Rightarrow> string) \<Rightarrow> TopicReport \<Rightarrow> json list \<Rightarrow> json" where
  "topic_json uuid report rows =
     JObject [(''topic'', JString (ti_name (tr_topic report))),
       (''topic_id'', case ti_id (tr_topic report) of Some i \<Rightarrow> JString (uuid i) | None \<Rightarrow> JNull),
       (''partition_count'', JInt (int (length (ti_partitions (tr_topic report))))),
       (''replication_factor'', JInt (int (topic_factor report))),
       (''configs'', JObject (bt_of_list (map (\<lambda>(name, v). (name, JString v)) (tr_configs report)))),
       (''partitions'', JArray rows)]"

definition prints_summary :: "TopicReport \<Rightarrow> Selectors \<Rightarrow> bool" where
  "prints_summary report selectors \<longleftrightarrow>
     describe_configs selectors \<and> (TopicsWithOverrides \<notin> set selectors \<or> tr_configs report \<noteq> [])"

definition describe_topic ::
    "(string \<Rightarrow> string) \<Rightarrow> TopicReport \<Rightarrow> Selectors \<Rightarrow> int list \<Rightarrow> DescribeFailure + (string list \<times> json) option" where
  "describe_topic uuid report selectors live_brokers =
     (let topic = tr_topic report
      in if prints_summary report selectors \<and> ti_partitions topic = []
         then Inl \<lparr>df_printed = [], df_message = NO_FIRST_PARTITION\<rparr>
         else let lines = (if prints_summary report selectors then [summary_line uuid topic (topic_factor report) (tr_configs report)] else [])
              in res_bind (if describe_partitions selectors
                   then describe_rows report selectors live_brokers lines [] (ti_partitions topic)
                   else Inr (lines, [])) (\<lambda>(lines, rows).
                 if lines = [] then Inr None else Inr (Some (lines, topic_json uuid report rows))))"

section \<open>Which partitions are printed\<close>

text \<open>The meaning of the selectors: no selector of partitions selects all of them, and each selects those of its kind.\<close>

definition selected_partition :: "int \<Rightarrow> int list \<Rightarrow> Selectors \<Rightarrow> Reassignment option \<Rightarrow> PartitionInfo \<Rightarrow> bool" where
  "selected_partition n live_brokers selectors reassignment p \<longleftrightarrow>
     set selectors \<inter> {UnderReplicated, Unavailable, UnderMinIsr, AtMinIsr} = {} \<or>
     UnderReplicated \<in> set selectors \<and> length (pi_isr p) < replication_factor p reassignment \<or>
     Unavailable \<in> set selectors \<and> pi_leader p \<notin> Some ` set live_brokers \<or>
     UnderMinIsr \<in> set selectors \<and> (pi_leader p = None \<or> int (length (pi_isr p)) < n) \<or>
     AtMinIsr \<in> set selectors \<and> int (length (pi_isr p)) = n"

lemma should_print_iff:
  assumes "tr_min_isr report = Inr n" and "n \<le> i32_max"
  shows "should_print p reassignment report selectors live_brokers = Inr (selected_partition n live_brokers selectors reassignment p)"
proof -
  have count: "isr_count p < n \<longleftrightarrow> int (length (pi_isr p)) < n" "n = isr_count p \<longleftrightarrow> int (length (pi_isr p)) = n"
    using assms(2) by (auto simp: isr_count_def)
  have leader: "is_unavailable p live_brokers \<longleftrightarrow> pi_leader p \<notin> Some ` set live_brokers"
    by (auto simp: is_unavailable_def split: option.splits)
  have configs: "describe_configs selectors \<longleftrightarrow> set selectors \<inter> {UnderReplicated, Unavailable, UnderMinIsr, AtMinIsr} = {}"
    by (auto simp: describe_configs_def)
  show ?thesis
    unfolding should_print_def selected_partition_def or_else_def is_under_replicated_def is_under_min_isr_def is_at_min_isr_def
      leader configs assms(1) res_bind_simps count
    by auto
qed

lemma describe_rows_selected:
  assumes "tr_min_isr report = Inr n" and "n \<le> i32_max"
  shows "describe_rows report selectors live_brokers lines rows ps =
    (let reassignment = \<lambda>p. map_of (tr_reassignments report) (pi_index p);
         chosen = filter (\<lambda>p. selected_partition n live_brokers selectors (reassignment p) p) ps
     in Inr (lines @ map (\<lambda>p. partition_line (ti_name (tr_topic report)) p (reassignment p)) chosen,
             rows @ map (\<lambda>p. partition_json p (reassignment p)) chosen))"
  by (induction ps arbitrary: lines rows) (simp_all add: Let_def should_print_iff [OF assms] split: bool.splits)

text \<open>\<open>--describe\<close> prints the summary line of a topic unless a selector of partitions is set, and then a line for exactly the partitions
  that the selectors name, in partition order; \<open>--topics-with-overrides\<close> prints only the summary of a topic with overrides.\<close>

theorem describe_topic_prints:
  assumes "tr_min_isr report = Inr n" and "n \<le> i32_max" and "ti_partitions (tr_topic report) \<noteq> []"
  shows "\<exists>lines. lines =
      (if prints_summary report selectors then [summary_line uuid (tr_topic report) (topic_factor report) (tr_configs report)] else []) @
      (if TopicsWithOverrides \<in> set selectors then [] else
         map (\<lambda>p. partition_line (ti_name (tr_topic report)) p (map_of (tr_reassignments report) (pi_index p)))
           (filter (\<lambda>p. selected_partition n live_brokers selectors (map_of (tr_reassignments report) (pi_index p)) p) (ti_partitions (tr_topic report))))
    \<and> (case describe_topic uuid report selectors live_brokers of
         Inr None \<Rightarrow> lines = []
       | Inr (Some (printed, _)) \<Rightarrow> printed = lines \<and> lines \<noteq> []
       | Inl _ \<Rightarrow> False)"
  using assms(3)
  by (auto simp: describe_topic_def Let_def describe_partitions_def describe_rows_selected [OF assms(1,2)] split: if_splits)

text \<open>A topic with a partition that is in sync and one that lags: \<open>--under-replicated-partitions\<close> prints the second.\<close>

definition describe_sample :: TopicReport where
  "describe_sample =
     \<lparr>tr_topic = \<lparr>ti_name = ''orders'', ti_id = None, ti_partitions =
        [\<lparr>pi_index = 0, pi_leader = Some 1, pi_replicas = [1, 2], pi_isr = [1, 2], pi_elr = None, pi_last_known_elr = None\<rparr>,
         \<lparr>pi_index = 1, pi_leader = Some 2, pi_replicas = [2, 1], pi_isr = [2], pi_elr = None, pi_last_known_elr = None\<rparr>]\<rparr>,
      tr_configs = [], tr_min_isr = Inr 1, tr_reassignments = []\<rparr>"

theorem describe_topic_prints_witness:
  "\<exists>row. describe_topic id describe_sample [UnderReplicated] [1, 2] =
     Inr (Some ([partition_line ''orders'' (ti_partitions (tr_topic describe_sample) ! 1) None], row))"
proof -
  have row: "tr_min_isr describe_sample = Inr 1" "(1::int) \<le> i32_max" "ti_partitions (tr_topic describe_sample) \<noteq> []"
    by (simp_all add: describe_sample_def)
  from describe_topic_prints [OF row, of "[UnderReplicated]" id "[1, 2]"] show ?thesis
    by (auto simp add: describe_sample_def prints_summary_def describe_configs_def selected_partition_def replication_factor_def
        split: sum.splits option.splits)
qed

end
