(* ===== verification/Topics_Command.thy ===== *)
theory Topics_Command
  imports Topics_Describe Reassign_Plan Command_Monad
begin

text \<open>
  \<^verbatim>\<open>crates/krabka-cli/src/topics/mod.rs\<close>: \<open>kafka-topics\<close>. \<open>topics_plan\<close> is the check of the command line, with the plan of the
  action; the actions run over the record \<open>TopicsEnv\<close> of the client's operations, the terminal, the regex library and the texts of ids.
\<close>

section \<open>The client\<close>

text \<open>A topic id is its 16 bytes.\<close>

record TopicMetadataEntry =
  me_name :: string
  me_topic_id :: "string option"
  me_partition_count :: int
  me_replication_factor :: int
  me_error :: "KafkaError option"

record TopicPartitionDescription =
  pd_partition :: int
  pd_leader :: "ClusterNode option"
  pd_replicas :: "ClusterNode list"
  pd_isr :: "ClusterNode list"
  pd_elr :: "ClusterNode list"
  pd_last_known_elr :: "ClusterNode list"

record TopicDescription =
  td_name :: string
  td_topic_id :: "string option"
  td_partitions :: "TopicPartitionDescription list"

record CreateTopicSpec =
  cs_name :: string
  cs_partitions :: int
  cs_replicas :: int
  cs_configs :: "(string, string) btmap"
  cs_replica_assignments :: "(int, int list) btmap"

record TopicOutcome =
  to_name :: string
  to_topic_id :: "string option"
  to_error :: "KafkaError option"

record CreatePartitionsOp =
  cp_name :: string
  cp_new_total_count :: int
  cp_assignments :: "int list list option"

record 'c TopicsEnv =
  te_connect :: "('c, unit) cmd"
  te_metadata :: "string list \<Rightarrow> 'c \<Rightarrow> (AdminError + TopicMetadataEntry list) \<times> 'c"
  te_create_topics :: "CreateTopicSpec list \<Rightarrow> nat \<Rightarrow> 'c \<Rightarrow> (AdminError + TopicOutcome list) \<times> 'c"
  te_create_partitions :: "CreatePartitionsOp list \<Rightarrow> nat \<Rightarrow> 'c \<Rightarrow> (AdminError + TopicOutcome list) \<times> 'c"
  te_delete_topics :: "string list \<Rightarrow> nat \<Rightarrow> 'c \<Rightarrow> (AdminError + TopicOutcome list) \<times> 'c"
  te_describe_topics :: "string list \<Rightarrow> int option \<Rightarrow> 'c \<Rightarrow> (string, KafkaError + TopicDescription) btmap \<times> 'c"
  te_describe_topics_by_id :: "string list \<Rightarrow> 'c \<Rightarrow> (string, KafkaError + TopicDescription) btmap \<times> 'c"
  te_describe_configs :: "string list \<Rightarrow> 'c \<Rightarrow> (AdminError + (string, KafkaError + Config) btmap) \<times> 'c"
  te_describe_cluster :: "'c \<Rightarrow> (AdminError + ClusterNode list) \<times> 'c"
  te_list_reassignments :: "(string, int list) btmap \<Rightarrow> nat \<Rightarrow> 'c \<Rightarrow> (AdminError + PartitionAssignment list) \<times> 'c"
  te_eprintln :: "string \<Rightarrow> 'c \<Rightarrow> unit \<times> 'c"
  te_terminal :: Terminal
  te_regex :: topic_regex
  te_uuid :: "string \<Rightarrow> string"
  te_uuid_parse :: "string \<Rightarrow> string res"

text \<open>\<open>te_describe_topics\<close> takes the limit of partitions in an answer, \<^const>\<open>None\<close> for the default; \<open>te_describe_configs\<close> is asked for topics by name.\<close>

section \<open>The command line\<close>

definition ACTIONS :: string where
  "ACTIONS = ''Command must include exactly one action: --list, --describe, --create, --alter or --delete''"
definition ALTER_CONFIGS_HINT :: string where
  "ALTER_CONFIGS_HINT = '' (To alter topic configurations, the kafka-configs tool can be used.)''"
definition DELETE_CONFIG_NOTICE :: string where
  "DELETE_CONFIG_NOTICE = ''delete-config option is no longer supported and deprecated since version 4.0. The config will be fully removed in future releases.''"
definition TOPIC_ID_NOTICE :: string where
  "TOPIC_ID_NOTICE = ''Only topic id will be used when both --topic and --topic-id are specified and topicId is not Uuid.ZERO_UUID''"
definition COLLISION_WARNING :: string where
  "COLLISION_WARNING = ''WARNING: Due to limitations in metric names, topics with a period ('' @ [CHR 0x27] @ ''.'' @ [CHR 0x27] @ '') or underscore ('' @
     [CHR 0x27] @ ''_'' @ [CHR 0x27] @ '') could collide. To avoid issues it is best to use either, but not both.''"
definition ERROR_PREFIX :: string where "ERROR_PREFIX = ''Error while executing topic command : ''"
definition DEFAULT_PARTITION_LIMIT :: int where "DEFAULT_PARTITION_LIMIT = 2000"

record TopicsArgs =
  ta_bootstrap_server :: "string list"
  ta_bootstrap_controller :: "string list"
  ta_list :: nat
  ta_create :: nat
  ta_delete :: nat
  ta_alter :: nat
  ta_describe :: nat
  ta_topic :: "string list"
  ta_topic_id :: "string list"
  ta_config :: "string list"
  ta_delete_config :: "string list"
  ta_partitions :: "string list"
  ta_replication_factor :: "string list"
  ta_replica_assignment :: "string list"
  ta_under_replicated_partitions :: nat
  ta_unavailable_partitions :: nat
  ta_under_min_isr_partitions :: nat
  ta_at_min_isr_partitions :: nat
  ta_topics_with_overrides :: nat
  ta_if_exists :: bool
  ta_if_not_exists :: bool
  ta_exclude_internal :: bool
  ta_partition_size_limit_per_response :: "string list"
  ta_confirm :: ConfirmArgs

record TopicSelection =
  tsel_patterns :: "string list"
  tsel_exclude_internal :: bool
  tsel_require_exists :: bool

record CreatePlan =
  cpl_names :: "string list"
  cpl_partitions :: "int option"
  cpl_replication_factor :: "int option"
  cpl_configs :: "(string, string) btmap"
  cpl_replica_assignment :: "(int, int list) btmap"
  cpl_if_not_exists :: bool

datatype DescribeTarget = DescribeNames TopicSelection | DescribeId string bool bool

datatype TopicAction =
    ListTopics TopicSelection
  | CreateTopics CreatePlan
  | AlterTopics TopicSelection int "int list list option"
  | DeleteTopics TopicSelection
  | DescribeTopics DescribeTarget Selectors int

record TopicsPlan =
  tp_action :: TopicAction
  tp_notices :: "string list"
  tp_delete_config_notice :: bool

definition flag_set :: "nat \<Rightarrow> bool" where "flag_set n \<longleftrightarrow> 0 < n"

definition single :: "string list \<Rightarrow> string \<Rightarrow> string option res" where
  "single values option_name =
     (case values of
        [] \<Rightarrow> Inr None
      | [v] \<Rightarrow> Inr (Some v)
      | _ \<Rightarrow> Inl (''Found multiple arguments for option '' @ option_name @ '', but you asked for only one''))"

definition int_option :: "string list \<Rightarrow> string \<Rightarrow> int option res" where
  "int_option values option_name =
     res_bind (single values option_name) (\<lambda>v.
     case v of
       None \<Rightarrow> Inr None
     | Some v \<Rightarrow> map_sum id Some (ok_or (''Cannot parse argument '' @ [CHR 0x27] @ v @ [CHR 0x27] @ '' of option '' @ option_name) (parse_i32 v)))"

definition action_flags :: "TopicsArgs \<Rightarrow> (bool \<times> string) list" where
  "action_flags self =
     [(flag_set (ta_create self), ''create''), (flag_set (ta_list self), ''list''), (flag_set (ta_alter self), ''alter''),
      (flag_set (ta_describe self), ''describe''), (flag_set (ta_delete self), ''delete'')]"

definition action_name :: "TopicsArgs \<Rightarrow> string" where
  "action_name self = (case List.find fst (action_flags self) of Some (_, name) \<Rightarrow> name | None \<Rightarrow> [])"

definition check_invalid :: "TopicsArgs \<Rightarrow> bool \<times> string \<Rightarrow> string list \<Rightarrow> (bool \<times> string) list \<Rightarrow> unit res" where
  "check_invalid self flag actions others =
     (let (present, name) = flag; action = action_name self;
          conflict = (if action \<notin> set actions then Some action else map_option snd (List.find fst others))
      in if \<not> present then Inr ()
         else case conflict of
                Some other \<Rightarrow> Inl (''Option '' @ [CHR 0x22] @ ''['' @ name @ '']'' @ [CHR 0x22] @ '' can'' @ [CHR 0x27] @ ''t be used with option '' @
                  [CHR 0x22] @ ''['' @ other @ '']'' @ [CHR 0x22])
              | None \<Rightarrow> Inr ())"

definition missing_argument :: "string \<Rightarrow> string" where
  "missing_argument name = ''Missing required argument '' @ [CHR 0x22] @ ''['' @ name @ '']'' @ [CHR 0x22]"

definition given :: "string list \<Rightarrow> string \<Rightarrow> bool \<times> string" where
  "given values name = (values \<noteq> [], name)"

definition partition_reports :: "TopicsArgs \<Rightarrow> (bool \<times> string) list" where
  "partition_reports self =
     [(flag_set (ta_under_replicated_partitions self), ''under-replicated-partitions''),
      (flag_set (ta_under_min_isr_partitions self), ''under-min-isr-partitions''),
      (flag_set (ta_at_min_isr_partitions self), ''at-min-isr-partitions''),
      (flag_set (ta_unavailable_partitions self), ''unavailable-partitions'')]"

text \<open>The checks that come before those of pairs of options.\<close>

definition check_required :: "TopicsArgs \<Rightarrow> unit res" where
  "check_required self =
     (let has_topic = ta_topic self \<noteq> []; has_id = ta_topic_id self \<noteq> []
      in if length (filter fst (action_flags self)) \<noteq> 1 then Inl ACTIONS
         else if ta_bootstrap_server self = [] \<and> ta_bootstrap_controller self = [] then Inl ''--bootstrap-server must be specified''
         else if flag_set (ta_describe self) \<and> ta_if_exists self \<and> \<not> has_topic \<and> \<not> has_id
         then Inl ''--topic or --topic-id is required to describe a topic''
         else if \<not> flag_set (ta_list self) \<and> \<not> flag_set (ta_describe self) \<and> \<not> has_topic then Inl (missing_argument ''topic'')
         else if flag_set (ta_alter self) \<and> ta_config self \<noteq> []
         then Inl (''Option combination '' @ [CHR 0x22] @ ''[[bootstrap-server], [config]]'' @ [CHR 0x22] @ '' can'' @ [CHR 0x27] @
           ''t be used with option '' @ [CHR 0x22] @ ''[alter]'' @ [CHR 0x22] @ ALTER_CONFIGS_HINT)
         else if flag_set (ta_alter self) \<and> ta_partitions self = [] then Inl (missing_argument ''partitions'')
         else Inr ())"

definition check_topic_args :: "TopicsArgs \<Rightarrow> unit res" where
  "check_topic_args self =
     (let assignment = given (ta_replica_assignment self) ''replica-assignment'';
          overrides = (flag_set (ta_topics_with_overrides self), ''topics-with-overrides'')
      in res_bind (check_required self) (\<lambda>_.
         res_bind (check_invalid self (given (ta_config self) ''config'') [''alter'', ''create''] []) (\<lambda>_.
         res_bind (check_invalid self (given (ta_partitions self) ''partitions'') [''alter'', ''create''] []) (\<lambda>_.
         res_bind (check_invalid self (given (ta_replication_factor self) ''replication-factor'') [''create''] []) (\<lambda>_.
         res_bind (check_invalid self assignment [''alter'', ''create''] []) (\<lambda>_.
         res_bind (if flag_set (ta_create self)
           then check_invalid self assignment [''create'']
             [given (ta_partitions self) ''partitions'', given (ta_replication_factor self) ''replication-factor'']
           else Inr ()) (\<lambda>_.
         res_bind (collect_res (\<lambda>report. check_invalid self report [''describe''] [overrides]) (partition_reports self)) (\<lambda>_.
         res_bind (check_invalid self overrides [''describe''] (partition_reports self)) (\<lambda>_.
         res_bind (check_invalid self (ta_if_exists self, ''if-exists'') [''alter'', ''delete'', ''describe''] []) (\<lambda>_.
         res_bind (check_invalid self (ta_if_not_exists self, ''if-not-exists'') [''create''] []) (\<lambda>_.
         check_invalid self (ta_exclude_internal self, ''exclude-internal'') [''list'', ''describe''] [])))))))))))"

section \<open>The plan\<close>

definition replica_assignment_arg :: "topic_regex \<Rightarrow> TopicsArgs \<Rightarrow> int list list option res" where
  "replica_assignment_arg regex self =
     res_bind (single (ta_replica_assignment self) ''replica-assignment'') (\<lambda>v.
     case v of
       None \<Rightarrow> Inr None
     | Some v \<Rightarrow> if v = [] then Inr None else map_sum id Some (parse_replica_assignment regex v))"

definition plan_create :: "topic_regex \<Rightarrow> TopicsArgs \<Rightarrow> CreatePlan res" where
  "plan_create regex self =
     res_bind (int_option (ta_partitions self) ''partitions'') (\<lambda>partitions.
     res_bind (int_option (ta_replication_factor self) ''replication-factor'') (\<lambda>factor.
     res_bind (replica_assignment_arg regex self) (\<lambda>assignment.
     res_bind (parse_topic_configs regex (ta_config self)) (\<lambda>configs.
     if (case factor of Some f \<Rightarrow> \<not> (1 \<le> f \<and> f \<le> i16_max) | None \<Rightarrow> False)
     then Inl (''The replication factor must be between 1 and '' @ show_int i16_max @ '' inclusive'')
     else if (case partitions of Some n \<Rightarrow> n < 1 | None \<Rightarrow> False) then Inl ''The partitions must be greater than 0''
     else Inr \<lparr>cpl_names = ta_topic self, cpl_partitions = partitions, cpl_replication_factor = factor, cpl_configs = configs,
       cpl_replica_assignment = bt_of_list (map (\<lambda>(i, brokers). (int i, brokers)) (enumerate 0 (case assignment of Some rows \<Rightarrow> rows | None \<Rightarrow> []))),
       cpl_if_not_exists = ta_if_not_exists self\<rparr>))))"

definition zero_id :: string where "zero_id = replicate 16 (CHR 0x00)"

definition chosen_selectors :: "TopicsArgs \<Rightarrow> Selectors" where
  "chosen_selectors self =
     map snd (filter fst
       [(flag_set (ta_under_replicated_partitions self), UnderReplicated), (flag_set (ta_unavailable_partitions self), Unavailable),
        (flag_set (ta_under_min_isr_partitions self), UnderMinIsr), (flag_set (ta_at_min_isr_partitions self), AtMinIsr),
        (flag_set (ta_topics_with_overrides self), TopicsWithOverrides)])"

definition plan_describe :: "(string \<Rightarrow> string res) \<Rightarrow> TopicsArgs \<Rightarrow> TopicSelection \<Rightarrow> TopicAction res" where
  "plan_describe uuid_parse self sel =
     res_bind (int_option (ta_partition_size_limit_per_response self) ''partition-size-limit-per-response'') (\<lambda>limit.
     res_bind (res_bind (single (ta_topic_id self) ''topic-id'') (\<lambda>v.
       case v of None \<Rightarrow> Inr None | Some v \<Rightarrow> map_sum id Some (uuid_parse v))) (\<lambda>topic_id.
     Inr (DescribeTopics
       (case topic_id of
          Some i \<Rightarrow> if i \<noteq> zero_id then DescribeId i (ta_exclude_internal self) (\<not> ta_if_exists self) else DescribeNames sel
        | None \<Rightarrow> DescribeNames sel)
       (chosen_selectors self) (case limit of Some n \<Rightarrow> n | None \<Rightarrow> DEFAULT_PARTITION_LIMIT))))"

definition topic_selection :: "TopicsArgs \<Rightarrow> bool \<Rightarrow> TopicSelection" where
  "topic_selection self require_exists =
     \<lparr>tsel_patterns = ta_topic self, tsel_exclude_internal = ta_exclude_internal self, tsel_require_exists = require_exists\<rparr>"

definition plan_action :: "topic_regex \<Rightarrow> (string \<Rightarrow> string res) \<Rightarrow> TopicsArgs \<Rightarrow> TopicAction res" where
  "plan_action regex uuid_parse self =
     (if flag_set (ta_list self) then Inr (ListTopics (topic_selection self False))
      else if flag_set (ta_create self) then map_sum id CreateTopics (plan_create regex self)
      else if flag_set (ta_alter self)
      then res_bind (int_option (ta_partitions self) ''partitions'') (\<lambda>partitions.
        res_bind (replica_assignment_arg regex self) (\<lambda>assignment.
        Inr (AlterTopics (topic_selection self (\<not> ta_if_exists self)) (case partitions of Some n \<Rightarrow> n | None \<Rightarrow> 0) assignment)))
      else if flag_set (ta_delete self) then Inr (DeleteTopics (topic_selection self (\<not> ta_if_exists self)))
      else plan_describe uuid_parse self (topic_selection self (\<not> ta_if_exists self)))"

definition topics_plan :: "topic_regex \<Rightarrow> (string \<Rightarrow> string res) \<Rightarrow> TopicsArgs \<Rightarrow> TopicsPlan res" where
  "topics_plan regex uuid_parse self =
     (if ca_dry_run (ta_confirm self) \<and> \<not> (flag_set (ta_create self) \<or> flag_set (ta_delete self))
      then Inl ''--dry-run is only valid with --create or --delete''
      else res_bind (check_topic_args self) (\<lambda>_.
        res_bind (plan_action regex uuid_parse self) (\<lambda>action.
        res_bind (if flag_set (ta_create self) then Inr [] else collect_res (include_list regex) (ta_topic self)) (\<lambda>_.
        Inr \<lparr>tp_action = action,
             tp_notices = (if flag_set (ta_describe self) \<and> ta_if_exists self \<and> ta_topic self \<noteq> [] \<and> ta_topic_id self \<noteq> []
               then [TOPIC_ID_NOTICE] else []),
             tp_delete_config_notice = (ta_delete_config self \<noteq> [])\<rparr>))))"

section \<open>Listing and creating\<close>

definition listing :: "'c TopicsEnv \<Rightarrow> ('c, TopicMetadataEntry list) cmd" where
  "listing env = cmd_bind (cmd_admin (te_metadata env [])) (\<lambda>topics. cmd_ret (sort_key me_name topics))"

definition allowed_topic :: "TopicSelection \<Rightarrow> string \<Rightarrow> bool" where
  "allowed_topic sel topic \<longleftrightarrow> \<not> (tsel_exclude_internal sel \<and> is_internal topic)"

definition pattern_topics :: "topic_regex \<Rightarrow> string list \<Rightarrow> TopicSelection \<Rightarrow> string \<Rightarrow> string list res" where
  "pattern_topics regex all sel pattern =
     res_bind (include_list regex pattern) (\<lambda>matches.
     let found = filter matches (filter (allowed_topic sel) all)
     in if tsel_require_exists sel \<and> pattern \<noteq> [] \<and> found = []
        then Inl (''Topic '' @ [CHR 0x27] @ pattern @ [CHR 0x27] @ '' does not exist as expected'')
        else Inr found)"

definition resolve :: "topic_regex \<Rightarrow> string list \<Rightarrow> TopicSelection \<Rightarrow> string list res" where
  "resolve regex all sel =
     (if tsel_patterns sel = [] then Inr (filter (allowed_topic sel) all)
      else map_sum id (\<lambda>found. bs_of_list (concat found)) (collect_res (pattern_topics regex all sel) (tsel_patterns sel)))"

definition topic_error_message :: "KafkaError \<Rightarrow> string" where
  "topic_error_message error =
     (case ke_message error of
        Some m \<Rightarrow> if m \<noteq> [] then m else ex_message (for_code (ke_code error))
      | None \<Rightarrow> ex_message (for_code (ke_code error)))"

definition unknown_topic :: KafkaError where
  "unknown_topic = \<lparr>ke_code = 3, ke_name = ''UNKNOWN_TOPIC_OR_PARTITION'', ke_message = None\<rparr>"

definition failure_line :: "KafkaError \<Rightarrow> string" where
  "failure_line error = ERROR_PREFIX @ topic_error_message error"

definition failed_after :: "string list \<Rightarrow> json list \<Rightarrow> string \<Rightarrow> CommandResult" where
  "failed_after human values message = result_rows (human @ [ERROR_PREFIX @ message]) (JArray values) True"

definition id_json :: "(string \<Rightarrow> string) \<Rightarrow> string option \<Rightarrow> json" where
  "id_json uuid topic_id = (case topic_id of Some i \<Rightarrow> JString (uuid i) | None \<Rightarrow> JNull)"

definition list_entry_json :: "(string \<Rightarrow> string) \<Rightarrow> TopicMetadataEntry \<Rightarrow> json" where
  "list_entry_json uuid entry =
     JObject [(''topic'', JString (me_name entry)), (''topic_id'', id_json uuid (me_topic_id entry)),
       (''partitions'', JInt (me_partition_count entry)), (''replication_factor'', JInt (me_replication_factor entry)),
       (''error'', kafka_error (me_error entry))]"

definition list_topics :: "'c TopicsEnv \<Rightarrow> TopicSelection \<Rightarrow> ('c, CommandResult) cmd" where
  "list_topics env sel =
     cmd_bind (listing env) (\<lambda>entries.
     cmd_bind (cmd_try (resolve (te_regex env) (map me_name entries) sel)) (\<lambda>selected.
     cmd_ret (result_success (if selected = [] then [[]] else selected)
       (JArray (map (list_entry_json (te_uuid env)) (filter (\<lambda>entry. me_name entry \<in> set selected) entries))))))"

definition TOPIC_ALREADY_EXISTS :: int where "TOPIC_ALREADY_EXISTS = 36"

definition created_line :: "CreatePlan \<Rightarrow> TopicOutcome \<Rightarrow> string list" where
  "created_line create outcome =
     (case to_error outcome of
        Some error \<Rightarrow> if ke_code error = TOPIC_ALREADY_EXISTS \<and> cpl_if_not_exists create then [] else [failure_line error]
      | None \<Rightarrow> [''Created topic '' @ to_name outcome @ ''.''])"

definition created_failed :: "CreatePlan \<Rightarrow> TopicOutcome \<Rightarrow> bool" where
  "created_failed create outcome =
     (case to_error outcome of
        Some error \<Rightarrow> \<not> (ke_code error = TOPIC_ALREADY_EXISTS \<and> cpl_if_not_exists create)
      | None \<Rightarrow> False)"

definition created_json :: "(string \<Rightarrow> string) \<Rightarrow> TopicOutcome \<Rightarrow> json" where
  "created_json uuid outcome =
     JObject [(''topic'', JString (to_name outcome)), (''topic_id'', id_json uuid (to_topic_id outcome)), (''error'', kafka_error (to_error outcome))]"

definition created :: "(string \<Rightarrow> string) \<Rightarrow> TopicOutcome list \<Rightarrow> CreatePlan \<Rightarrow> CommandResult" where
  "created uuid outcomes create =
     (let outcomes = sort_key to_name outcomes
      in result_rows
           ((if list_ex has_collision_chars (cpl_names create) then [COLLISION_WARNING] else []) @ concat (map (created_line create) outcomes))
           (JArray (map (created_json uuid) outcomes)) (list_ex (created_failed create) outcomes))"

definition dry_created :: "TopicMetadataEntry list \<Rightarrow> string \<Rightarrow> TopicOutcome" where
  "dry_created existing name =
     \<lparr>to_name = name, to_topic_id = None,
      to_error = (if list_ex (\<lambda>entry. me_name entry = name \<and> me_error entry = None) existing
        then Some \<lparr>ke_code = 36, ke_name = ''TOPIC_ALREADY_EXISTS'',
          ke_message = Some (''Topic '' @ [CHR 0x27] @ name @ [CHR 0x27] @ '' already exists.'')\<rparr>
        else None)\<rparr>"

definition create_spec :: "CreatePlan \<Rightarrow> string \<Rightarrow> CreateTopicSpec" where
  "create_spec create name =
     \<lparr>cs_name = name, cs_partitions = (case cpl_partitions create of Some n \<Rightarrow> n | None \<Rightarrow> - 1),
      cs_replicas = (case cpl_replication_factor create of Some n \<Rightarrow> n | None \<Rightarrow> - 1),
      cs_configs = cpl_configs create, cs_replica_assignments = cpl_replica_assignment create\<rparr>"

definition create_topics :: "'c TopicsEnv \<Rightarrow> CreatePlan \<Rightarrow> bool \<Rightarrow> nat \<Rightarrow> ('c, CommandResult) cmd" where
  "create_topics env create dry_run timeout =
     (if dry_run
      then cmd_bind (cmd_admin (te_metadata env (cpl_names create))) (\<lambda>existing.
        cmd_ret (into_dry_run (created (te_uuid env) (map (dry_created existing) (cpl_names create)) create)))
      else cmd_bind (cmd_admin (te_create_topics env (map (create_spec create) (cpl_names create)) timeout)) (\<lambda>outcomes.
        cmd_ret (created (te_uuid env) outcomes create)))"

section \<open>Altering and deleting\<close>

definition failures_only :: "(string \<times> KafkaError option \<times> json) list \<Rightarrow> CommandResult" where
  "failures_only rows =
     (let rows = sort_key fst rows
      in result_rows (List.map_filter (\<lambda>(_, error, _). map_option failure_line error) rows)
           (JArray (map (\<lambda>(_, _, v). v) rows)) (list_ex (\<lambda>(_, error, _). error \<noteq> None) rows))"

definition new_rows :: "int list list \<Rightarrow> nat \<Rightarrow> int list list" where
  "new_rows assignment existing =
     map snd (hash_order (drop existing (map (\<lambda>(i, brokers). (int i, brokers)) (enumerate 0 assignment))) Default (\<lambda>(i, _). integer_hash i))"

definition new_assignment ::
    "int list list \<Rightarrow> (string, KafkaError + TopicDescription) btmap \<Rightarrow> string \<Rightarrow> (string \<times> int list list) res" where
  "new_assignment assignment described name =
     (case (case map_of described name of Some d \<Rightarrow> d | None \<Rightarrow> Inl unknown_topic) of
        Inr description \<Rightarrow> Inr (name, new_rows assignment (length (td_partitions description)))
      | Inl error \<Rightarrow> Inl (''java.util.concurrent.ExecutionException: '' @ ex_class (for_code (ke_code error)) @ '': '' @ topic_error_message error))"

definition new_assignments ::
    "string list \<Rightarrow> int list list \<Rightarrow> (string, KafkaError + TopicDescription) btmap \<Rightarrow> (string, int list list) btmap res" where
  "new_assignments selected assignment described =
     map_sum id bt_of_list (collect_res (new_assignment assignment described) selected)"

fun alter_ops :: "int \<Rightarrow> (string, int list list) btmap \<Rightarrow> string list \<Rightarrow> CreatePartitionsOp list" where
  "alter_ops partitions assignments [] = []"
| "alter_ops partitions assignments (name # names) =
     \<lparr>cp_name = name, cp_new_total_count = partitions, cp_assignments = map_of assignments name\<rparr> #
     alter_ops partitions (bt_remove name assignments) names"

definition alter_row :: "int \<Rightarrow> TopicOutcome \<Rightarrow> string \<times> KafkaError option \<times> json" where
  "alter_row partitions outcome =
     (to_name outcome, to_error outcome,
      JObject [(''topic'', JString (to_name outcome)), (''partitions'', JInt partitions), (''error'', kafka_error (to_error outcome))])"

definition alter_topics :: "'c TopicsEnv \<Rightarrow> TopicSelection \<Rightarrow> int \<Rightarrow> int list list option \<Rightarrow> nat \<Rightarrow> ('c, CommandResult) cmd" where
  "alter_topics env sel partitions assignment timeout =
     cmd_bind (listing env) (\<lambda>entries.
     cmd_bind (cmd_try (resolve (te_regex env) (map me_name entries) sel)) (\<lambda>selected.
     if selected = [] then cmd_ret (result_success [] (JArray []))
     else cmd_bind (cmd_call (te_describe_topics env selected None)) (\<lambda>described.
       case (case assignment of Some rows \<Rightarrow> new_assignments selected rows described | None \<Rightarrow> Inr []) of
         Inl message \<Rightarrow> cmd_ret (failed_after [] [] message)
       | Inr assignments \<Rightarrow>
           cmd_bind (cmd_admin (te_create_partitions env (alter_ops partitions assignments selected) timeout)) (\<lambda>outcomes.
           cmd_ret (failures_only (map (alter_row partitions) outcomes))))))"

definition delete_row :: "TopicOutcome \<Rightarrow> string \<times> KafkaError option \<times> json" where
  "delete_row outcome =
     (to_name outcome, to_error outcome, JObject [(''topic'', JString (to_name outcome)), (''error'', kafka_error (to_error outcome))])"

definition deleted_topics :: "TopicOutcome list \<Rightarrow> CommandResult" where
  "deleted_topics outcomes = failures_only (map delete_row outcomes)"

definition dry_deleted :: "TopicMetadataEntry \<Rightarrow> TopicOutcome" where
  "dry_deleted entry = \<lparr>to_name = me_name entry, to_topic_id = None, to_error = me_error entry\<rparr>"

definition delete_topics :: "'c TopicsEnv \<Rightarrow> TopicSelection \<Rightarrow> ConfirmArgs \<Rightarrow> nat \<Rightarrow> ('c, CommandResult) cmd" where
  "delete_topics env sel safety timeout =
     cmd_bind (listing env) (\<lambda>entries.
     cmd_bind (cmd_try (resolve (te_regex env) (map me_name entries) sel)) (\<lambda>selected.
     if ca_dry_run safety
     then let report = deleted_topics (map dry_deleted (filter (\<lambda>entry. me_name entry \<in> set selected) entries))
          in cmd_ret (into_dry_run (report\<lparr>cr_human := selected @ cr_human report\<rparr>))
     else if selected = [] then cmd_ret (result_success [] (JArray []))
     else cmd_bind (cmd_confirm (confirm (ca_yes safety) (te_terminal env) ''krabka topics''
            \<lparr>im_summary = ''delete '' @ show_nat (length selected) @ '' topic(s)'', im_resources = selected\<rparr>)) (\<lambda>_.
       cmd_bind (cmd_admin (te_delete_topics env selected timeout)) (\<lambda>outcomes. cmd_ret (deleted_topics outcomes)))))"

section \<open>Describing\<close>

type_synonym reassignment_map = "(string \<times> int, Reassignment) btmap"

definition no_reassignments_known :: "AdminError \<Rightarrow> bool" where
  "no_reassignments_known error =
     (case error of
        AdminBroker _ code _ _ \<Rightarrow> code = 31 \<or> code = 35
      | AdminIncompatibleVersion _ \<Rightarrow> True
      | _ \<Rightarrow> False)"

definition reassignments_of :: "PartitionAssignment list \<Rightarrow> reassignment_map" where
  "reassignments_of ongoing =
     bt_of_list (map (\<lambda>a. ((pa_topic a, pa_partition a), \<lparr>ra_replicas = pa_replicas a, ra_adding = pa_adding a, ra_removing = pa_removing a\<rparr>)) ongoing)"

definition reassignments :: "'c TopicsEnv \<Rightarrow> TopicInfo list \<Rightarrow> nat \<Rightarrow> ('c, reassignment_map) cmd" where
  "reassignments env topics timeout =
     cmd_bind (cmd_call (te_list_reassignments env (bt_of_list (map (\<lambda>topic. (ti_name topic, map pi_index (ti_partitions topic))) topics)) timeout)) (\<lambda>answer.
     case answer of
       Inr ongoing \<Rightarrow> cmd_ret (reassignments_of ongoing)
     | Inl error \<Rightarrow> if no_reassignments_known error then cmd_ret [] else cmd_fail (from_admin_error error))"

definition described_names :: "topic_regex \<Rightarrow> (string \<Rightarrow> string) \<Rightarrow> TopicMetadataEntry list \<Rightarrow> DescribeTarget \<Rightarrow> string list res" where
  "described_names regex uuid entries target =
     (case target of
        DescribeNames sel \<Rightarrow> map_sum id describe_order (resolve regex (map me_name entries) sel)
      | DescribeId topic_id exclude_internal require_exists \<Rightarrow>
          let found = map me_name (filter (\<lambda>entry. me_topic_id entry = Some topic_id)
                (filter (\<lambda>entry. \<not> (exclude_internal \<and> is_internal (me_name entry))) entries))
          in if require_exists \<and> found = []
             then Inl (''TopicId '' @ [CHR 0x27] @ uuid topic_id @ [CHR 0x27] @ '' does not exist as expected'')
             else Inr found)"

record DescribeRequest =
  dq_target :: DescribeTarget
  dq_selectors :: Selectors
  dq_partition_limit :: int

definition partition_from :: "bool \<Rightarrow> TopicPartitionDescription \<Rightarrow> PartitionInfo" where
  "partition_from elr_known p =
     \<lparr>pi_index = pd_partition p, pi_leader = map_option node_id (pd_leader p), pi_replicas = map node_id (pd_replicas p),
      pi_isr = map node_id (pd_isr p), pi_elr = (if elr_known then Some (map node_id (pd_elr p)) else None),
      pi_last_known_elr = (if elr_known then Some (map node_id (pd_last_known_elr p)) else None)\<rparr>"

definition topic_from :: "bool \<Rightarrow> TopicDescription \<Rightarrow> TopicInfo" where
  "topic_from elr_known description =
     \<lparr>ti_name = td_name description, ti_id = td_topic_id description,
      ti_partitions = sort_key pi_index (map (partition_from elr_known) (td_partitions description))\<rparr>"

fun descriptions_in_order :: "(string, KafkaError + TopicDescription) btmap \<Rightarrow> string list \<Rightarrow> (KafkaError + TopicInfo) list" where
  "descriptions_in_order found [] = []"
| "descriptions_in_order found (name # names) =
     map_sum id (topic_from True) (case map_of found name of Some d \<Rightarrow> d | None \<Rightarrow> Inl unknown_topic) #
     descriptions_in_order (bt_remove name found) names"

definition descriptions :: "'c TopicsEnv \<Rightarrow> DescribeRequest \<Rightarrow> string list \<Rightarrow> ('c, KafkaError + TopicInfo list) cmd" where
  "descriptions env request names =
     (case dq_target request of
        DescribeId topic_id _ _ \<Rightarrow>
          cmd_bind (cmd_call (te_describe_topics_by_id env [topic_id])) (\<lambda>found.
          cmd_ret (collect_res (map_sum id (topic_from False)) (map snd found)))
      | DescribeNames _ \<Rightarrow>
          cmd_bind (cmd_call (te_describe_topics env names (Some (dq_partition_limit request)))) (\<lambda>found.
          cmd_ret (collect_res id (descriptions_in_order found names))))"

definition unknown_server_error :: KafkaError where
  "unknown_server_error = \<lparr>ke_code = - 1, ke_name = ''UNKNOWN_SERVER_ERROR'', ke_message = None\<rparr>"

definition topic_report :: "TopicInfo \<Rightarrow> Config \<Rightarrow> reassignment_map \<Rightarrow> TopicReport" where
  "topic_report topic config ongoing =
     \<lparr>tr_topic = topic, tr_configs = non_default_configs config, tr_min_isr = min_insync_replicas config,
      tr_reassignments = bt_of_list (map (\<lambda>((_, p), r). (p, r)) (filter (\<lambda>((name, _), _). name = ti_name topic) ongoing))\<rparr>"

fun describe_each ::
    "(string \<Rightarrow> string) \<Rightarrow> Selectors \<Rightarrow> int list \<Rightarrow> reassignment_map \<Rightarrow> (string, KafkaError + Config) btmap \<Rightarrow> string list \<Rightarrow> json list \<Rightarrow> TopicInfo list \<Rightarrow> CommandResult" where
  "describe_each uuid selectors live_brokers ongoing configs human values [] = result_success human (JArray values)"
| "describe_each uuid selectors live_brokers ongoing configs human values (topic # topics) =
     (case (case map_of configs (ti_name topic) of Some c \<Rightarrow> c | None \<Rightarrow> Inl unknown_server_error) of
        Inl error \<Rightarrow> failed_after human values (topic_error_message error)
      | Inr config \<Rightarrow>
          (case describe_topic uuid (topic_report topic config ongoing) selectors live_brokers of
             Inr (Some (lines, v)) \<Rightarrow>
               describe_each uuid selectors live_brokers ongoing (bt_remove (ti_name topic) configs) (human @ lines) (values @ [v]) topics
           | Inr None \<Rightarrow> describe_each uuid selectors live_brokers ongoing (bt_remove (ti_name topic) configs) human values topics
           | Inl failure \<Rightarrow> failed_after (human @ df_printed failure) values (df_message failure)))"

definition describe_topics_action :: "'c TopicsEnv \<Rightarrow> DescribeRequest \<Rightarrow> nat \<Rightarrow> ('c, CommandResult) cmd" where
  "describe_topics_action env request timeout =
     cmd_bind (listing env) (\<lambda>entries.
     cmd_bind (cmd_try (described_names (te_regex env) (te_uuid env) entries (dq_target request))) (\<lambda>names.
     if names = [] then cmd_ret (result_success [] (JArray []))
     else cmd_bind (descriptions env request names) (\<lambda>answer.
       case answer of
         Inl error \<Rightarrow> cmd_ret (failed_after [] [] (topic_error_message error))
       | Inr topics \<Rightarrow>
           cmd_bind (cmd_admin (te_describe_configs env (map ti_name topics))) (\<lambda>configs.
           cmd_bind (cmd_admin (te_describe_cluster env)) (\<lambda>nodes.
           cmd_bind (reassignments env topics timeout) (\<lambda>ongoing.
           cmd_ret (describe_each (te_uuid env) (dq_selectors request) (bs_of_list (map node_id nodes)) ongoing configs [] [] topics)))))))"

section \<open>The command\<close>

definition run_topic_action :: "'c TopicsEnv \<Rightarrow> TopicsArgs \<Rightarrow> TopicAction \<Rightarrow> nat \<Rightarrow> ('c, CommandResult) cmd" where
  "run_topic_action env self action timeout =
     (case action of
        ListTopics sel \<Rightarrow> list_topics env sel
      | CreateTopics create \<Rightarrow> create_topics env create (ca_dry_run (ta_confirm self)) timeout
      | AlterTopics sel partitions assignment \<Rightarrow> alter_topics env sel partitions assignment timeout
      | DeleteTopics sel \<Rightarrow> delete_topics env sel (ta_confirm self) timeout
      | DescribeTopics target selectors limit \<Rightarrow>
          describe_topics_action env \<lparr>dq_target = target, dq_selectors = selectors, dq_partition_limit = limit\<rparr> timeout)"

definition run_topics :: "'c TopicsEnv \<Rightarrow> TopicsArgs \<Rightarrow> nat \<Rightarrow> ('c, CommandResult) cmd" where
  "run_topics env self timeout =
     cmd_bind (cmd_try (topics_plan (te_regex env) (te_uuid_parse env) self)) (\<lambda>plan.
     cmd_bind (cmd_when (tp_delete_config_notice plan) (cmd_call (te_eprintln env DELETE_CONFIG_NOTICE))) (\<lambda>_.
     cmd_bind (te_connect env) (\<lambda>_.
     cmd_bind (run_topic_action env self (tp_action plan) timeout) (\<lambda>result.
     cmd_ret (result\<lparr>cr_human := tp_notices plan @ cr_human result\<rparr>)))))"

end
