(* ===== verification/Topics_Safety.thy ===== *)
theory Topics_Safety
  imports Topics_Command
begin

text \<open>What \<open>kafka-topics\<close> promises: which operations a command line may use, which command lines it accepts, and which topics it acts on.\<close>

section \<open>The operations that a command uses\<close>

definition with_topic_changes ::
    "'c TopicsEnv \<Rightarrow> (CreateTopicSpec list \<Rightarrow> nat \<Rightarrow> 'c \<Rightarrow> (AdminError + TopicOutcome list) \<times> 'c)
     \<Rightarrow> (CreatePartitionsOp list \<Rightarrow> nat \<Rightarrow> 'c \<Rightarrow> (AdminError + TopicOutcome list) \<times> 'c)
     \<Rightarrow> (string list \<Rightarrow> nat \<Rightarrow> 'c \<Rightarrow> (AdminError + TopicOutcome list) \<times> 'c) \<Rightarrow> 'c TopicsEnv" where
  "with_topic_changes env create alter delete =
     env\<lparr>te_create_topics := create, te_create_partitions := alter, te_delete_topics := delete\<rparr>"

lemma calls_with_topic_changes:
  "te_connect (with_topic_changes env c a d) = te_connect env"
  "te_metadata (with_topic_changes env c a d) = te_metadata env"
  "te_describe_topics (with_topic_changes env c a d) = te_describe_topics env"
  "te_describe_topics_by_id (with_topic_changes env c a d) = te_describe_topics_by_id env"
  "te_describe_configs (with_topic_changes env c a d) = te_describe_configs env"
  "te_describe_cluster (with_topic_changes env c a d) = te_describe_cluster env"
  "te_list_reassignments (with_topic_changes env c a d) = te_list_reassignments env"
  "te_eprintln (with_topic_changes env c a d) = te_eprintln env"
  "te_terminal (with_topic_changes env c a d) = te_terminal env"
  "te_regex (with_topic_changes env c a d) = te_regex env"
  "te_uuid (with_topic_changes env c a d) = te_uuid env"
  "te_uuid_parse (with_topic_changes env c a d) = te_uuid_parse env"
  by (simp_all add: with_topic_changes_def)

lemma changes_with_topic_changes:
  "te_create_topics (with_topic_changes env c a d) = c"
  "te_create_partitions (with_topic_changes env c a d) = a"
  "te_delete_topics (with_topic_changes env c a d) = d"
  by (simp_all add: with_topic_changes_def)

lemma listing_with_topic_changes: "listing (with_topic_changes env c a d) = listing env"
  unfolding listing_def calls_with_topic_changes ..

lemmas reads_with_topic_changes = calls_with_topic_changes listing_with_topic_changes

lemma reading_topic_actions:
  "list_topics (with_topic_changes env c a d) sel = list_topics env sel"
  "describe_topics_action (with_topic_changes env c a d) request timeout = describe_topics_action env request timeout"
  unfolding list_topics_def describe_topics_action_def descriptions_def reassignments_def reads_with_topic_changes
  by (rule refl)+

definition topics_declined :: "TopicsArgs \<Rightarrow> Terminal \<Rightarrow> bool" where
  "topics_declined self terminal \<longleftrightarrow>
     (\<forall>impact. \<exists>refusal. confirm (ca_yes (ta_confirm self)) terminal ''krabka topics'' impact = Inl refusal)"

lemma create_topics_with_changes:
  "dry_run \<or> c = te_create_topics env \<Longrightarrow> create_topics (with_topic_changes env c a d) create dry_run timeout = create_topics env create dry_run timeout"
  unfolding create_topics_def reads_with_topic_changes changes_with_topic_changes by (cases dry_run) simp_all

lemma alter_topics_with_changes:
  "a = te_create_partitions env \<Longrightarrow> alter_topics (with_topic_changes env c a d) sel n rows timeout = alter_topics env sel n rows timeout"
  unfolding alter_topics_def reads_with_topic_changes changes_with_topic_changes by (simp only:)

lemma delete_topics_with_changes:
  assumes "ca_dry_run (ta_confirm self) \<or> topics_declined self (te_terminal env) \<or> d = te_delete_topics env"
  shows "delete_topics (with_topic_changes env c a d) sel (ta_confirm self) timeout = delete_topics env sel (ta_confirm self) timeout"
proof -
  consider "ca_dry_run (ta_confirm self)" | "topics_declined self (te_terminal env)" | "d = te_delete_topics env" using assms by blast
  then show ?thesis
  proof cases
    case 1
    then show ?thesis unfolding delete_topics_def reads_with_topic_changes by (simp only: if_True)
  next
    case 2
    have declines: "cmd_confirm (confirm (ca_yes (ta_confirm self)) (te_terminal env) ''krabka topics'' impact) =
        cmd_fail (ErrRefused (projl (confirm (ca_yes (ta_confirm self)) (te_terminal env) ''krabka topics'' impact)))" for impact
    proof -
      obtain refusal where "confirm (ca_yes (ta_confirm self)) (te_terminal env) ''krabka topics'' impact = Inl refusal"
        using 2 unfolding topics_declined_def by blast
      then show ?thesis by (simp add: cmd_confirm_def)
    qed
    show ?thesis unfolding delete_topics_def reads_with_topic_changes declines cmd_bind_fail ..
  next
    case 3
    then show ?thesis unfolding delete_topics_def reads_with_topic_changes changes_with_topic_changes by (simp only:)
  qed
qed

section \<open>The command lines that are accepted\<close>

lemma check_invalid_Inr_iff:
  "check_invalid self flag actions others = Inr () \<longleftrightarrow>
     (fst flag \<longrightarrow> action_name self \<in> set actions \<and> (\<forall>other \<in> set others. \<not> fst other))"
proof -
  have "List.find fst others = None \<longleftrightarrow> (\<forall>other \<in> set others. \<not> fst other)" by (auto simp: find_None_iff)
  then show ?thesis by (auto simp: check_invalid_def Let_def split: option.splits prod.splits)
qed

lemma unit_res_ex: "(\<exists>u. (r :: unit res) = Inr u) \<longleftrightarrow> r = Inr ()"
  by auto

lemma res_bind_unit_Inr_iff: "res_bind r (\<lambda>_. s) = Inr y \<longleftrightarrow> (\<exists>x. r = Inr x) \<and> s = Inr y"
  by (auto simp: res_simps)

text \<open>With exactly one action, its name is the name of the flag that is set.\<close>

lemma one_action:
  assumes "length (filter fst (action_flags self)) = 1"
  shows "flag_set (ta_create self) \<and> \<not> flag_set (ta_list self) \<and> \<not> flag_set (ta_alter self) \<and> \<not> flag_set (ta_describe self) \<and> \<not> flag_set (ta_delete self) \<or>
    \<not> flag_set (ta_create self) \<and> flag_set (ta_list self) \<and> \<not> flag_set (ta_alter self) \<and> \<not> flag_set (ta_describe self) \<and> \<not> flag_set (ta_delete self) \<or>
    \<not> flag_set (ta_create self) \<and> \<not> flag_set (ta_list self) \<and> flag_set (ta_alter self) \<and> \<not> flag_set (ta_describe self) \<and> \<not> flag_set (ta_delete self) \<or>
    \<not> flag_set (ta_create self) \<and> \<not> flag_set (ta_list self) \<and> \<not> flag_set (ta_alter self) \<and> flag_set (ta_describe self) \<and> \<not> flag_set (ta_delete self) \<or>
    \<not> flag_set (ta_create self) \<and> \<not> flag_set (ta_list self) \<and> \<not> flag_set (ta_alter self) \<and> \<not> flag_set (ta_describe self) \<and> flag_set (ta_delete self)"
  using assms by (simp add: action_flags_def split: if_splits)

lemma action_name_single:
  assumes "length (filter fst (action_flags self)) = 1"
  shows "action_name self = ''create'' \<longleftrightarrow> flag_set (ta_create self)"
    "action_name self = ''list'' \<longleftrightarrow> flag_set (ta_list self)"
    "action_name self = ''alter'' \<longleftrightarrow> flag_set (ta_alter self)"
    "action_name self = ''describe'' \<longleftrightarrow> flag_set (ta_describe self)"
    "action_name self = ''delete'' \<longleftrightarrow> flag_set (ta_delete self)"
  using one_action [OF assms] by (elim disjE; simp add: action_name_def action_flags_def)+

lemma check_required_Inr_iff:
  "check_required self = Inr () \<longleftrightarrow>
     length (filter fst (action_flags self)) = 1 \<and> (ta_bootstrap_server self \<noteq> [] \<or> ta_bootstrap_controller self \<noteq> []) \<and>
     (flag_set (ta_describe self) \<and> ta_if_exists self \<longrightarrow> ta_topic self \<noteq> [] \<or> ta_topic_id self \<noteq> []) \<and>
     (flag_set (ta_list self) \<or> flag_set (ta_describe self) \<or> ta_topic self \<noteq> []) \<and>
     (flag_set (ta_alter self) \<longrightarrow> ta_config self = [] \<and> ta_partitions self \<noteq> [])"
  by (auto simp: check_required_def Let_def)

lemma collect_res_unit_Inr: "(\<exists>us. collect_res f xs = Inr us) \<longleftrightarrow> (\<forall>x \<in> set xs. \<exists>u. f x = Inr u)"
proof
  show "\<forall>x \<in> set xs. \<exists>u. f x = Inr u \<Longrightarrow> \<exists>us. collect_res f xs = Inr us"
    by (metis collect_res_InlE in_set_conv_decomp Inl_Inr_False old.sum.exhaust)
next
  assume "\<exists>us. collect_res f xs = Inr us"
  then obtain us where "list_all2 (\<lambda>x u. f x = Inr u) xs us" by (auto simp: collect_res_Inr_iff)
  then show "\<forall>x \<in> set xs. \<exists>u. f x = Inr u" by (auto simp: list_all2_conv_all_nth in_set_conv_nth)
qed

lemma check_topic_args_Inr_iff:
  "check_topic_args self = Inr () \<longleftrightarrow> check_required self = Inr () \<and>
     (ta_config self \<noteq> [] \<longrightarrow> action_name self \<in> set [''alter'', ''create'']) \<and>
     (ta_partitions self \<noteq> [] \<longrightarrow> action_name self \<in> set [''alter'', ''create'']) \<and>
     (ta_replication_factor self \<noteq> [] \<longrightarrow> action_name self \<in> set [''create'']) \<and>
     (ta_replica_assignment self \<noteq> [] \<longrightarrow> action_name self \<in> set [''alter'', ''create'']) \<and>
     (flag_set (ta_create self) \<longrightarrow> ta_replica_assignment self \<noteq> [] \<longrightarrow>
        action_name self \<in> set [''create''] \<and> ta_partitions self = [] \<and> ta_replication_factor self = []) \<and>
     (\<forall>report \<in> set (partition_reports self). fst report \<longrightarrow> action_name self \<in> set [''describe''] \<and> \<not> flag_set (ta_topics_with_overrides self)) \<and>
     (flag_set (ta_topics_with_overrides self) \<longrightarrow> action_name self \<in> set [''describe''] \<and> (\<forall>report \<in> set (partition_reports self). \<not> fst report)) \<and>
     (ta_if_exists self \<longrightarrow> action_name self \<in> set [''alter'', ''delete'', ''describe'']) \<and>
     (ta_if_not_exists self \<longrightarrow> action_name self \<in> set [''create'']) \<and>
     (ta_exclude_internal self \<longrightarrow> action_name self \<in> set [''list'', ''describe''])"
proof -
  have create: "(if flag_set (ta_create self) then r else Inr ()) = Inr () \<longleftrightarrow> (flag_set (ta_create self) \<longrightarrow> r = Inr ())" for r :: "unit res"
    by simp
  have others: "(\<forall>other \<in> set [o1]. \<not> fst other) \<longleftrightarrow> \<not> fst o1" "(\<forall>other \<in> set [o1, o2]. \<not> fst other) \<longleftrightarrow> \<not> fst o1 \<and> \<not> fst o2"
    "(\<forall>other \<in> set []. \<not> fst other) \<longleftrightarrow> True" for o1 o2 :: "bool \<times> string"
    by simp_all
  show ?thesis
    unfolding check_topic_args_def Let_def given_def res_bind_unit_Inr_iff collect_res_unit_Inr unit_res_ex create check_invalid_Inr_iff others
    by (simp only: fst_conv simp_thms not_not)
qed

text \<open>The action of a plan is that of the flag that is set, and the numbers of \<open>--create\<close> are in their ranges.\<close>

definition action_of_flag :: "TopicsArgs \<Rightarrow> TopicAction \<Rightarrow> bool" where
  "action_of_flag self action =
     (case action of
        ListTopics _ \<Rightarrow> flag_set (ta_list self)
      | CreateTopics create \<Rightarrow> flag_set (ta_create self) \<and> cpl_names create = ta_topic self \<and>
          (\<forall>n. cpl_partitions create = Some n \<longrightarrow> 1 \<le> n) \<and> (\<forall>n. cpl_replication_factor create = Some n \<longrightarrow> 1 \<le> n \<and> n \<le> i16_max)
      | AlterTopics _ _ _ \<Rightarrow> flag_set (ta_alter self)
      | DeleteTopics _ \<Rightarrow> flag_set (ta_delete self)
      | DescribeTopics _ selectors _ \<Rightarrow> flag_set (ta_describe self) \<and> selectors = chosen_selectors self)"

lemma plan_create_ranges:
  "plan_create regex self = Inr create \<Longrightarrow> cpl_names create = ta_topic self \<and>
     (\<forall>n. cpl_partitions create = Some n \<longrightarrow> 1 \<le> n) \<and> (\<forall>n. cpl_replication_factor create = Some n \<longrightarrow> 1 \<le> n \<and> n \<le> i16_max)"
  by (auto simp: plan_create_def res_simps split: if_splits option.splits)

lemma plan_action_flag:
  assumes "plan_action regex uuid_parse self = Inr action" and "length (filter fst (action_flags self)) = 1"
  shows "action_of_flag self action"
proof -
  have create: "\<exists>create. action = CreateTopics create \<and> plan_create regex self = Inr create"
    if "map_sum id CreateTopics (plan_create regex self) = Inr action"
    using that by (cases "plan_create regex self") auto
  have describe: "\<exists>target limit. action = DescribeTopics target (chosen_selectors self) limit" if "plan_describe uuid_parse self sel = Inr action" for sel
    using that by (auto simp: plan_describe_def res_simps)
  show ?thesis
  proof (cases "flag_set (ta_describe self)")
    case True
    with assms(1) one_action [OF assms(2)] have "plan_describe uuid_parse self (topic_selection self (\<not> ta_if_exists self)) = Inr action"
      by (simp add: plan_action_def)
    from describe [OF this] True show ?thesis by (auto simp: action_of_flag_def)
  next
    case False
    then show ?thesis
      using assms(1) one_action [OF assms(2)] create plan_create_ranges
      unfolding plan_action_def action_of_flag_def by (auto simp: res_simps split: if_splits)
  qed
qed

lemma topics_plan_checked:
  assumes "topics_plan regex uuid_parse self = Inr plan"
  shows "ca_dry_run (ta_confirm self) \<longrightarrow> flag_set (ta_create self) \<or> flag_set (ta_delete self)"
    and "check_topic_args self = Inr ()" and "plan_action regex uuid_parse self = Inr (tp_action plan)"
  using assms by (auto simp: topics_plan_def res_simps split: if_splits)

lemma topics_plan_one_action:
  "topics_plan regex uuid_parse self = Inr plan \<Longrightarrow> length (filter fst (action_flags self)) = 1"
  using topics_plan_checked(2) [of regex uuid_parse self plan] by (simp only: check_topic_args_Inr_iff check_required_Inr_iff)

lemma chosen_selectors_spec:
  "chosen_selectors self \<noteq> [] \<longleftrightarrow> flag_set (ta_topics_with_overrides self) \<or> (\<exists>report \<in> set (partition_reports self). fst report)"
  "TopicsWithOverrides \<in> set (chosen_selectors self) \<longleftrightarrow> flag_set (ta_topics_with_overrides self)"
  "chosen_selectors self = [TopicsWithOverrides] \<longleftrightarrow>
     flag_set (ta_topics_with_overrides self) \<and> (\<forall>report \<in> set (partition_reports self). \<not> fst report)"
  by (auto simp: chosen_selectors_def partition_reports_def)

text \<open>What \<open>kafka-topics\<close> accepts: one action, whose plan it makes, with the topics that it needs and only the options that it takes.
  A dry run is one of \<open>--create\<close> or \<open>--delete\<close>, an assignment of replicas excludes their numbers, and \<open>--topics-with-overrides\<close> excludes every other selector.\<close>

theorem topics_plan_accepts:
  assumes "topics_plan regex uuid_parse self = Inr plan"
  shows "length (filter fst (action_flags self)) = 1
    \<and> action_of_flag self (tp_action plan)
    \<and> (ca_dry_run (ta_confirm self) \<longrightarrow> flag_set (ta_create self) \<or> flag_set (ta_delete self))
    \<and> (flag_set (ta_create self) \<or> flag_set (ta_alter self) \<or> flag_set (ta_delete self) \<longrightarrow> ta_topic self \<noteq> [])
    \<and> (ta_config self \<noteq> [] \<or> ta_replication_factor self \<noteq> [] \<or> ta_if_not_exists self \<longrightarrow> flag_set (ta_create self))
    \<and> (ta_partitions self \<noteq> [] \<or> ta_replica_assignment self \<noteq> [] \<longrightarrow> flag_set (ta_create self) \<or> flag_set (ta_alter self))
    \<and> (flag_set (ta_alter self) \<longrightarrow> ta_partitions self \<noteq> [])
    \<and> (flag_set (ta_create self) \<and> ta_replica_assignment self \<noteq> [] \<longrightarrow> ta_partitions self = [] \<and> ta_replication_factor self = [])
    \<and> (chosen_selectors self \<noteq> [] \<longrightarrow> flag_set (ta_describe self))
    \<and> (TopicsWithOverrides \<in> set (chosen_selectors self) \<longrightarrow> chosen_selectors self = [TopicsWithOverrides])
    \<and> (ta_exclude_internal self \<longrightarrow> flag_set (ta_list self) \<or> flag_set (ta_describe self))"
proof -
  note one = topics_plan_one_action [OF assms]
  note names = action_name_single [OF one]
  note checked = topics_plan_checked [OF assms]
  from checked(2) have args: "check_required self = Inr ()"
    "ta_config self \<noteq> [] \<longrightarrow> flag_set (ta_alter self) \<or> flag_set (ta_create self)"
    "ta_partitions self \<noteq> [] \<longrightarrow> flag_set (ta_alter self) \<or> flag_set (ta_create self)"
    "ta_replication_factor self \<noteq> [] \<longrightarrow> flag_set (ta_create self)"
    "ta_replica_assignment self \<noteq> [] \<longrightarrow> flag_set (ta_alter self) \<or> flag_set (ta_create self)"
    "flag_set (ta_create self) \<longrightarrow> ta_replica_assignment self \<noteq> [] \<longrightarrow> ta_partitions self = [] \<and> ta_replication_factor self = []"
    "\<forall>report \<in> set (partition_reports self). fst report \<longrightarrow> flag_set (ta_describe self) \<and> \<not> flag_set (ta_topics_with_overrides self)"
    "flag_set (ta_topics_with_overrides self) \<longrightarrow> flag_set (ta_describe self) \<and> (\<forall>report \<in> set (partition_reports self). \<not> fst report)"
    "ta_if_not_exists self \<longrightarrow> flag_set (ta_create self)"
    "ta_exclude_internal self \<longrightarrow> flag_set (ta_list self) \<or> flag_set (ta_describe self)"
    unfolding check_topic_args_Inr_iff set_simps insert_iff empty_iff names by blast+
  note required = args(1) [unfolded check_required_Inr_iff]
  have selectors: "chosen_selectors self \<noteq> [] \<longrightarrow> flag_set (ta_describe self)"
    "TopicsWithOverrides \<in> set (chosen_selectors self) \<longrightarrow> chosen_selectors self = [TopicsWithOverrides]"
    using args(7,8) by (simp_all only: chosen_selectors_spec, blast+)
  have topic: "flag_set (ta_create self) \<or> flag_set (ta_alter self) \<or> flag_set (ta_delete self) \<longrightarrow> ta_topic self \<noteq> []"
    using required [THEN conjunct2, THEN conjunct2, THEN conjunct2, THEN conjunct1] one_action [OF one] by blast
  have alter: "flag_set (ta_alter self) \<longrightarrow> ta_config self = [] \<and> ta_partitions self \<noteq> []" using required by (rule conjE) blast
  show ?thesis
    by (intro conjI one plan_action_flag [OF checked(3) one] checked(1) topic selectors args(10))
      (use alter args(2-6,9) in blast)+
qed

text \<open>C30. \<open>kafka-topics\<close> changes the cluster only by the operation of its action: it creates topics only under \<open>--create\<close> without \<open>--dry-run\<close>, partitions only
  under \<open>--alter\<close>, and deletes topics only under \<open>--delete\<close> without \<open>--dry-run\<close> and with a confirmation. Its outcome does not depend on
  any other operation that changes the cluster.\<close>

theorem topics_change_only_their_own:
  assumes "flag_set (ta_create self) \<and> \<not> ca_dry_run (ta_confirm self) \<longrightarrow> create = te_create_topics env"
    and "flag_set (ta_alter self) \<longrightarrow> alter = te_create_partitions env"
    and "flag_set (ta_delete self) \<and> \<not> ca_dry_run (ta_confirm self) \<and> \<not> topics_declined self (te_terminal env) \<longrightarrow> delete = te_delete_topics env"
  shows "run_topics (with_topic_changes env create alter delete) self timeout = run_topics env self timeout"
proof (cases "topics_plan (te_regex env) (te_uuid_parse env) self")
  case (Inl message)
  then show ?thesis by (simp add: run_topics_def calls_with_topic_changes cmd_simps)
next
  case (Inr plan)
  have flag: "action_of_flag self (tp_action plan)"
    using plan_action_flag topics_plan_checked(3) topics_plan_one_action Inr by blast
  have "run_topic_action (with_topic_changes env create alter delete) self (tp_action plan) timeout = run_topic_action env self (tp_action plan) timeout"
  proof (cases "tp_action plan")
    case (CreateTopics c)
    with flag assms(1) show ?thesis
      by (auto simp: run_topic_action_def action_of_flag_def intro: create_topics_with_changes)
  next
    case (AlterTopics sel n rows)
    with flag assms(2) show ?thesis by (auto simp: run_topic_action_def action_of_flag_def intro: alter_topics_with_changes)
  next
    case (DeleteTopics sel)
    with flag assms(3) show ?thesis by (auto simp: run_topic_action_def action_of_flag_def intro: delete_topics_with_changes)
  qed (simp_all add: run_topic_action_def reading_topic_actions)
  then show ?thesis unfolding run_topics_def calls_with_topic_changes Inr cmd_try_simps cmd_bind_ret by (simp only:)
qed

section \<open>The topics that a command acts on\<close>

lemma pattern_topics_Inr_iff:
  "pattern_topics regex all sel pattern = Inr found \<longleftrightarrow> (\<exists>m. include_list regex pattern = Inr m
     \<and> found = filter (\<lambda>topic. allowed_topic sel topic \<and> m topic) all
     \<and> (tsel_require_exists sel \<and> pattern \<noteq> [] \<longrightarrow> found \<noteq> []))"
  by (auto simp: pattern_topics_def Let_def res_simps conj_commute split: if_splits)

text \<open>A selection acts on exactly the topics that one of its patterns matches, or on all without a pattern, internal topics left out
  where they are excluded. Where the topics have to exist, every pattern that is not empty matches a topic.\<close>

theorem resolve_selects:
  assumes "resolve regex all sel = Inr names"
  shows "set names = {topic \<in> set all. allowed_topic sel topic \<and>
      (tsel_patterns sel = [] \<or> (\<exists>pattern \<in> set (tsel_patterns sel). \<exists>m. include_list regex pattern = Inr m \<and> m topic))}
    \<and> (tsel_patterns sel \<noteq> [] \<longrightarrow> sorted names \<and> distinct names)
    \<and> (tsel_require_exists sel \<longrightarrow> (\<forall>pattern \<in> set (tsel_patterns sel). pattern \<noteq> [] \<longrightarrow>
         (\<exists>m. include_list regex pattern = Inr m \<and> (\<exists>topic \<in> set names. m topic))))"
proof (cases "tsel_patterns sel = []")
  case True
  with assms show ?thesis by (auto simp: resolve_def)
next
  case False
  with assms obtain found where names: "names = bs_of_list (concat found)"
    and found: "list_all2 (\<lambda>pattern f. pattern_topics regex all sel pattern = Inr f) (tsel_patterns sel) found"
    by (auto simp: resolve_def collect_res_Inr_iff map_sum_def split: sum.splits)
  have pattern: "\<exists>f \<in> set found. pattern_topics regex all sel p = Inr f" if "p \<in> set (tsel_patterns sel)" for p
    using found that by (auto simp: list_all2_conv_all_nth in_set_conv_nth)
  have set: "t \<in> set names \<longleftrightarrow> (\<exists>p \<in> set (tsel_patterns sel). \<exists>f. pattern_topics regex all sel p = Inr f \<and> t \<in> set f)" for t
    using pattern list_all2_in2 [OF found] unfolding names by (fastforce simp: set_concat)
  have matched: "pattern_topics regex all sel p = Inr f \<Longrightarrow> t \<in> set f \<longleftrightarrow> t \<in> set all \<and> allowed_topic sel t \<and> (\<exists>m. include_list regex p = Inr m \<and> m t)"
    for p f t by (auto simp: pattern_topics_Inr_iff)
  have members: "t \<in> set names \<longleftrightarrow> t \<in> set all \<and> allowed_topic sel t \<and> (\<exists>p \<in> set (tsel_patterns sel). \<exists>m. include_list regex p = Inr m \<and> m t)" for t
    unfolding set using matched pattern by blast
  have exist: "\<exists>m. include_list regex p = Inr m \<and> (\<exists>t \<in> set names. m t)"
    if p: "p \<in> set (tsel_patterns sel)" "p \<noteq> []" "tsel_require_exists sel" for p
  proof -
    obtain f where f: "pattern_topics regex all sel p = Inr f" using pattern [OF p(1)] by blast
    then have "f \<noteq> []" using p by (auto simp: pattern_topics_Inr_iff)
    then obtain t where t: "t \<in> set f" using hd_in_set by blast
    with f p(1) have "t \<in> set names" unfolding set by blast
    with t show ?thesis unfolding matched [OF f] by blast
  qed
  show ?thesis
  proof (intro conjI impI ballI)
    show "set names = {topic \<in> set all. allowed_topic sel topic \<and>
        (tsel_patterns sel = [] \<or> (\<exists>pattern \<in> set (tsel_patterns sel). \<exists>m. include_list regex pattern = Inr m \<and> m topic))}"
      unfolding set_eq_iff members mem_Collect_eq by (simp only: False simp_thms)
  qed (simp_all add: names False, use exist names in force)
qed

section \<open>The assignment of new partitions\<close>

lemma spread_integer_hash: "i < 16 \<Longrightarrow> spread (integer_hash (int i)) = i"
proof -
  have "list_all (\<lambda>i. spread (integer_hash (int i)) = i) [0..<16]" by code_simp
  then show "i < 16 \<Longrightarrow> spread (integer_hash (int i)) = i" by (simp add: list_all_iff)
qed

lemma default_capacity_ge: "16 \<le> default_capacity n"
proof -
  have "c \<le> default_capacity_from c n" for c
    by (induction c n rule: default_capacity_from.induct) (subst default_capacity_from.simps, auto)
  then show ?thesis by (simp add: default_capacity_def)
qed

lemma default_capacity_pow2: "pow2 (default_capacity n)"
proof -
  have "pow2 c \<Longrightarrow> pow2 (default_capacity_from c n)" for c
  proof (induction c n rule: default_capacity_from.induct)
    case (1 c n)
    then have "pow2 (c * 2)" by (auto simp: pow2_def intro: exI [of _ "Suc _"])
    with 1 show ?case by (subst default_capacity_from.simps) auto
  qed
  moreover have "pow2 16" by (auto simp: pow2_def intro: exI [of _ 4])
  ultimately show ?thesis by (simp add: default_capacity_def)
qed

lemma sort_key_same: "sorted (map f xs) \<Longrightarrow> sort_key f xs = xs"
  by (simp add: sorted_sort_id sort_key_id_if_sorted)

text \<open>Under \<open>--alter\<close> the rows of an assignment past the partitions that a topic has are sent for its new partitions, all of them; for a topic
  that ends up with at most 16 partitions they are sent in partition order.\<close>

theorem new_rows_of_new_partitions:
  "mset (new_rows assignment existing) = mset (drop existing assignment)
    \<and> (length assignment \<le> 16 \<longrightarrow> new_rows assignment existing = drop existing assignment)"
proof
  let ?rows = "drop existing (map (\<lambda>(i, brokers). (int i, brokers)) (enumerate 0 assignment))"
  let ?hash = "\<lambda>(i :: int, _ :: int list). integer_hash i"
  have snd: "map snd ?rows = drop existing assignment"
    by (simp add: drop_map case_prod_unfold o_def flip: drop_map)
  show "mset (new_rows assignment existing) = mset (drop existing assignment)"
    unfolding new_rows_def mset_map ho.order_mset by (simp flip: mset_map add: snd)
  show "length assignment \<le> 16 \<longrightarrow> new_rows assignment existing = drop existing assignment"
  proof
    assume short: "length assignment \<le> 16"
    have index: "map (\<lambda>row. spread (?hash row)) ?rows = [existing..<length assignment]"
      using short by (auto intro!: nth_equalityI simp: nth_enumerate_eq spread_integer_hash simp flip: of_nat_add)
    then have spreads: "map (spread \<circ> ?hash) ?rows = [existing..<length assignment]" by (simp add: o_def)
    have "length (filter (\<lambda>s. s mod 16 = b) [existing..<length assignment]) \<le> 8" for b
    proof -
      have "filter (\<lambda>s. s mod 16 = b) [existing..<length assignment] = filter (\<lambda>s. s = b) [existing..<length assignment]"
        using short by (intro filter_cong) auto
      moreover have "length (filter (\<lambda>s. s = b) xs) \<le> 1" if "distinct xs" for xs :: "nat list"
        using that by (induction xs) (auto simp: filter_empty_conv)
      ultimately show ?thesis by (metis distinct_upt le_trans one_le_numeral)
    qed
    from hash_table_default_capacity [OF this]
    have cap: "fst (hash_table (map (spread \<circ> ?hash) ?rows) Default) = default_capacity (length assignment - existing)"
      unfolding spreads by simp
    have bin: "bin_of (default_capacity n) s = s" if "s < 16" for n s
      using that default_capacity_ge [of n] by (simp add: bin_of_pow2 default_capacity_pow2)
    have "map (\<lambda>row. bin_of (default_capacity n) (spread (?hash row))) ?rows = [existing..<length assignment]" for n
    proof -
      have "map (bin_of (default_capacity n)) [existing..<length assignment] = [existing..<length assignment]"
        using short by (intro map_idI bin) auto
      with arg_cong [OF index, of "map (bin_of (default_capacity n))"] show ?thesis by (simp add: o_def)
    qed
    then have "hash_order ?rows Default ?hash = ?rows"
      unfolding hash_order_eq cap order_in_table_def by (intro sort_key_same) simp
    then show "new_rows assignment existing = drop existing assignment" unfolding new_rows_def using snd by simp
  qed
qed

section \<open>Concrete inputs\<close>

definition sample_args :: TopicsArgs where
  "sample_args =
     \<lparr>ta_bootstrap_server = [''localhost:9092''], ta_bootstrap_controller = [], ta_list = 0, ta_create = 0, ta_delete = 1, ta_alter = 0,
      ta_describe = 0, ta_topic = [''orders''], ta_topic_id = [], ta_config = [], ta_delete_config = [], ta_partitions = [],
      ta_replication_factor = [], ta_replica_assignment = [], ta_under_replicated_partitions = 0, ta_unavailable_partitions = 0,
      ta_under_min_isr_partitions = 0, ta_at_min_isr_partitions = 0, ta_topics_with_overrides = 0, ta_if_exists = False,
      ta_if_not_exists = False, ta_exclude_internal = False, ta_partition_size_limit_per_response = [],
      ta_confirm = \<lparr>ca_dry_run = True, ca_yes = False\<rparr>\<rparr>"

theorem topics_plan_accepts_witness:
  "\<exists>plan. topics_plan sample_regex Inr sample_args = Inr plan \<and> action_of_flag sample_args (tp_action plan)"
proof -
  have "\<not> isl (topics_plan sample_regex Inr sample_args)" by code_simp
  then obtain plan where plan: "topics_plan sample_regex Inr sample_args = Inr plan" by (metis isl_def old.sum.exhaust)
  then show ?thesis using topics_plan_accepts [OF plan] by blast
qed

definition sample_topics_env :: "nat TopicsEnv" where
  "sample_topics_env =
     \<lparr>te_connect = cmd_ret (),
      te_metadata = (\<lambda>_ st. (Inr [\<lparr>me_name = ''orders'', me_topic_id = None, me_partition_count = 1, me_replication_factor = 1, me_error = None\<rparr>], st)),
      te_create_topics = (\<lambda>_ _ st. (Inr [], st + 1)), te_create_partitions = (\<lambda>_ _ st. (Inr [], st + 1)),
      te_delete_topics = (\<lambda>_ _ st. (Inr [], st + 1)), te_describe_topics = (\<lambda>_ _ st. ([], st)), te_describe_topics_by_id = (\<lambda>_ st. ([], st)),
      te_describe_configs = (\<lambda>_ st. (Inr [], st)), te_describe_cluster = (\<lambda>st. (Inr [], st)), te_list_reassignments = (\<lambda>_ _ st. (Inr [], st)),
      te_eprintln = (\<lambda>_ st. ((), st)),
      te_terminal = \<lparr>tm_interactive = False, tm_write_ok = True, tm_line = None\<rparr>, te_regex = sample_regex, te_uuid = id, te_uuid_parse = Inr\<rparr>"

text \<open>A dry run of a deletion leaves the cluster as it is, whatever the operations that change it do.\<close>

theorem topics_change_only_their_own_witness:
  "run_topics (with_topic_changes sample_topics_env (\<lambda>_ _ st. (Inr [], st + 2)) (\<lambda>_ _ st. (Inr [], st + 2)) (\<lambda>_ _ st. (Inr [], st + 2))) sample_args 1 0 =
     run_topics sample_topics_env sample_args 1 0
   \<and> (\<exists>r. run_topics sample_topics_env sample_args 1 0 = Some (r, 0))"
proof
  show "run_topics (with_topic_changes sample_topics_env (\<lambda>_ _ st. (Inr [], st + 2)) (\<lambda>_ _ st. (Inr [], st + 2)) (\<lambda>_ _ st. (Inr [], st + 2))) sample_args 1 0 =
     run_topics sample_topics_env sample_args 1 0"
    by (subst topics_change_only_their_own) (simp_all add: sample_args_def flag_set_def)
  have "map_option snd (run_topics sample_topics_env sample_args 1 0) = Some 0" by code_simp
  then show "\<exists>r. run_topics sample_topics_env sample_args 1 0 = Some (r, 0)" by auto
qed

definition sample_selection :: TopicSelection where
  "sample_selection = \<lparr>tsel_patterns = [''orders''], tsel_exclude_internal = False, tsel_require_exists = True\<rparr>"

theorem resolve_selects_witness:
  "resolve sample_regex [''audit'', ''orders''] sample_selection = Inr [''orders''] \<and> ''orders'' \<in> set [''audit'', ''orders'']"
proof -
  have r: "resolve sample_regex [''audit'', ''orders''] sample_selection = Inr [''orders'']" by code_simp
  from resolve_selects [OF r] have "set [''orders''] \<subseteq> set [''audit'', ''orders'']" by blast
  with r show ?thesis by simp
qed

theorem new_rows_of_new_partitions_witness: "new_rows [[1], [2], [3]] 1 = [[2], [3]]"
  using new_rows_of_new_partitions [of "[[1], [2], [3]]" 1] by simp

end
