(* ===== verification/Admin_Acls.thy ===== *)
theory Admin_Acls
  imports Prelude
begin

text \<open>
  The types of an ACL in the admin client, with the constructors that the sources name: what \<open>describe_acls\<close> answers, what \<open>create_acls\<close> is
  given and the filters of \<open>describe_acls\<close> and \<open>delete_acls\<close>, in which an absent axis matches everything.
\<close>

datatype ResourceType = Rt_Topic | Rt_Group | Rt_Cluster | Rt_TransactionalId | Rt_DelegationToken | Rt_User

datatype AclOperation =
    Op_All | Op_Read | Op_Write | Op_Create | Op_Delete | Op_Alter | Op_Describe | Op_ClusterAction
  | Op_DescribeConfigs | Op_AlterConfigs | Op_IdempotentWrite | Op_CreateTokens | Op_DescribeTokens
  | Op_TwoPhaseCommit

datatype PermissionType = Allow | Deny

datatype PatternType = Literal | Prefixed | Match_Pattern

record AclEntry =
  ae_resource_type :: ResourceType
  ae_resource_name :: string
  ae_pattern_type :: PatternType
  ae_principal :: string
  ae_host :: string
  ae_operation :: AclOperation
  ae_permission_type :: PermissionType

record AclEntryFilter =
  fl_resource_type :: "ResourceType option"
  fl_resource_name :: "string option"
  fl_pattern_type :: "PatternType option"
  fl_principal :: "string option"
  fl_host :: "string option"
  fl_operation :: "AclOperation option"
  fl_permission_type :: "PermissionType option"

definition any_acl :: AclEntryFilter where
  "any_acl = \<lparr>fl_resource_type = None, fl_resource_name = None, fl_pattern_type = None, fl_principal = None, fl_host = None,
     fl_operation = None, fl_permission_type = None\<rparr>"

text \<open>\<open>DeleteAcls\<close> removes the entries that agree with the filter in every axis that it names; the pattern type
  \<open>MATCH\<close> apart, for which the broker looks for every pattern that applies to the name.\<close>

definition filter_matches :: "AclEntryFilter \<Rightarrow> AclEntry \<Rightarrow> bool" where
  "filter_matches f e \<longleftrightarrow>
     fl_resource_type f \<in> {None, Some (ae_resource_type e)} \<and> fl_resource_name f \<in> {None, Some (ae_resource_name e)}
     \<and> fl_pattern_type f \<in> {None, Some (ae_pattern_type e)} \<and> fl_principal f \<in> {None, Some (ae_principal e)}
     \<and> fl_host f \<in> {None, Some (ae_host e)} \<and> fl_operation f \<in> {None, Some (ae_operation e)}
     \<and> fl_permission_type f \<in> {None, Some (ae_permission_type e)}"

end
