(* ===== verification/Acls.thy ===== *)
theory Acls
  imports Admin_Acls Command_Monad
begin

text \<open>
  \<^verbatim>\<open>crates/krabka-cli/src/acls.rs\<close>: \<open>kafka-acls\<close>. The names of resources, patterns and operations with their conversions to the types of the
  client, \<open>acls_plan\<close> as the check of the command line, and the actions over the record \<open>AclsEnv\<close> of the client's operations.
\<close>

section \<open>Names\<close>

definition CLUSTER_NAME :: string where "CLUSTER_NAME = ''kafka-cluster''"
definition WILDCARD_HOST :: string where "WILDCARD_HOST = ''*''"

datatype ResourceKind = Kind_Topic | Kind_Group | Kind_Cluster | Kind_TransactionalId | Kind_DelegationToken | Kind_User

datatype PatternKind = Pattern_Any | Pattern_Match | Pattern_Literal | Pattern_Prefixed

datatype Operation =
    Unknown_Operation | Any_Operation | All_Operations | Read | Write | Create | Delete | Alter | Describe | ClusterAction
  | DescribeConfigs | AlterConfigs | IdempotentWrite | CreateTokens | DescribeTokens | TwoPhaseCommit

datatype Permission = Permission_Allow | Permission_Deny

fun kind_name :: "ResourceKind \<Rightarrow> string" where
  "kind_name Kind_Topic = ''TOPIC''"
| "kind_name Kind_Group = ''GROUP''"
| "kind_name Kind_Cluster = ''CLUSTER''"
| "kind_name Kind_TransactionalId = ''TRANSACTIONAL_ID''"
| "kind_name Kind_DelegationToken = ''DELEGATION_TOKEN''"
| "kind_name Kind_User = ''USER''"

fun kind_operations :: "ResourceKind \<Rightarrow> Operation list" where
  "kind_operations Kind_Topic = [Read, Write, Create, Describe, Delete, Alter, DescribeConfigs, AlterConfigs]"
| "kind_operations Kind_Group = [Read, Describe, Delete, DescribeConfigs, AlterConfigs]"
| "kind_operations Kind_Cluster = [Create, ClusterAction, DescribeConfigs, AlterConfigs, IdempotentWrite, Alter, Describe]"
| "kind_operations Kind_TransactionalId = [Describe, Write, TwoPhaseCommit]"
| "kind_operations Kind_DelegationToken = [Describe]"
| "kind_operations Kind_User = [CreateTokens, DescribeTokens]"

fun kind_to_wire :: "ResourceKind \<Rightarrow> ResourceType" where
  "kind_to_wire Kind_Topic = Rt_Topic"
| "kind_to_wire Kind_Group = Rt_Group"
| "kind_to_wire Kind_Cluster = Rt_Cluster"
| "kind_to_wire Kind_TransactionalId = Rt_TransactionalId"
| "kind_to_wire Kind_DelegationToken = Rt_DelegationToken"
| "kind_to_wire Kind_User = Rt_User"

fun kind_from_wire :: "ResourceType \<Rightarrow> ResourceKind" where
  "kind_from_wire Rt_Topic = Kind_Topic"
| "kind_from_wire Rt_Group = Kind_Group"
| "kind_from_wire Rt_Cluster = Kind_Cluster"
| "kind_from_wire Rt_TransactionalId = Kind_TransactionalId"
| "kind_from_wire Rt_DelegationToken = Kind_DelegationToken"
| "kind_from_wire Rt_User = Kind_User"

definition PATTERNS :: "PatternKind list" where
  "PATTERNS = [Pattern_Any, Pattern_Match, Pattern_Literal, Pattern_Prefixed]"

fun pattern_name :: "PatternKind \<Rightarrow> string" where
  "pattern_name Pattern_Any = ''ANY''"
| "pattern_name Pattern_Match = ''MATCH''"
| "pattern_name Pattern_Literal = ''LITERAL''"
| "pattern_name Pattern_Prefixed = ''PREFIXED''"

definition eq_ignore_ascii_case :: "string \<Rightarrow> string \<Rightarrow> bool" where
  "eq_ignore_ascii_case a b \<longleftrightarrow> map ascii_lower a = map ascii_lower b"

definition pattern_parse :: "string \<Rightarrow> CommandError + PatternKind" where
  "pattern_parse s =
     ok_or (ErrUsage (''Cannot parse argument '' @ [CHR 0x27] @ s @ [CHR 0x27] @ '' of option resource-pattern-type''))
       (List.find (\<lambda>pattern. eq_ignore_ascii_case (pattern_name pattern) s) PATTERNS)"

definition is_specific :: "PatternKind \<Rightarrow> bool" where
  "is_specific pattern \<longleftrightarrow> pattern \<in> {Pattern_Literal, Pattern_Prefixed}"

fun pattern_to_wire_filter :: "PatternKind \<Rightarrow> PatternType option" where
  "pattern_to_wire_filter Pattern_Any = None"
| "pattern_to_wire_filter Pattern_Match = Some Match_Pattern"
| "pattern_to_wire_filter Pattern_Literal = Some Literal"
| "pattern_to_wire_filter Pattern_Prefixed = Some Prefixed"

definition pattern_to_wire :: "PatternKind \<Rightarrow> CommandError + PatternType" where
  "pattern_to_wire pattern =
     (case pattern of
        Pattern_Literal \<Rightarrow> Inr Literal
      | Pattern_Prefixed \<Rightarrow> Inr Prefixed
      | _ \<Rightarrow> Inl (ErrOther (''a '' @ pattern_name pattern @ '' pattern type does not name a concrete resource pattern'')))"

fun pattern_from_wire :: "PatternType \<Rightarrow> PatternKind" where
  "pattern_from_wire Literal = Pattern_Literal"
| "pattern_from_wire Prefixed = Pattern_Prefixed"
| "pattern_from_wire Match_Pattern = Pattern_Match"

definition OPERATIONS :: "Operation list" where
  "OPERATIONS = [Unknown_Operation, Any_Operation, All_Operations, Read, Write, Create, Delete, Alter, Describe, ClusterAction,
     DescribeConfigs, AlterConfigs, IdempotentWrite, CreateTokens, DescribeTokens, TwoPhaseCommit]"

fun operation_name :: "Operation \<Rightarrow> string" where
  "operation_name Unknown_Operation = ''UNKNOWN''"
| "operation_name Any_Operation = ''ANY''"
| "operation_name All_Operations = ''ALL''"
| "operation_name Read = ''READ''"
| "operation_name Write = ''WRITE''"
| "operation_name Create = ''CREATE''"
| "operation_name Delete = ''DELETE''"
| "operation_name Alter = ''ALTER''"
| "operation_name Describe = ''DESCRIBE''"
| "operation_name ClusterAction = ''CLUSTER_ACTION''"
| "operation_name DescribeConfigs = ''DESCRIBE_CONFIGS''"
| "operation_name AlterConfigs = ''ALTER_CONFIGS''"
| "operation_name IdempotentWrite = ''IDEMPOTENT_WRITE''"
| "operation_name CreateTokens = ''CREATE_TOKENS''"
| "operation_name DescribeTokens = ''DESCRIBE_TOKENS''"
| "operation_name TwoPhaseCommit = ''TWO_PHASE_COMMIT''"

text \<open>The loop of \<open>pascal_case\<close> with its flag; the names it is given are ASCII.\<close>

fun pascal_from :: "bool \<Rightarrow> string \<Rightarrow> string" where
  "pascal_from capitalize [] = []"
| "pascal_from capitalize (c # cs) =
     (if c = CHR ''_'' then pascal_from True cs
      else if capitalize then ascii_upper c # pascal_from False cs
      else ascii_lower c # pascal_from False cs)"

definition pascal_case :: "string \<Rightarrow> string" where
  "pascal_case name = pascal_from True name"

definition operation_parse :: "string \<Rightarrow> Operation" where
  "operation_parse s =
     (case List.find (\<lambda>op. eq_ignore_ascii_case (pascal_case (operation_name op)) s) OPERATIONS of
        Some op \<Rightarrow> op | None \<Rightarrow> Unknown_Operation)"

definition not_concrete :: "Operation \<Rightarrow> CommandError" where
  "not_concrete op = ErrOther (''operation '' @ operation_name op @ '' does not name a concrete operation'')"

fun operation_to_wire :: "Operation \<Rightarrow> CommandError + AclOperation" where
  "operation_to_wire All_Operations = Inr Op_All"
| "operation_to_wire Read = Inr Op_Read"
| "operation_to_wire Write = Inr Op_Write"
| "operation_to_wire Create = Inr Op_Create"
| "operation_to_wire Delete = Inr Op_Delete"
| "operation_to_wire Alter = Inr Op_Alter"
| "operation_to_wire Describe = Inr Op_Describe"
| "operation_to_wire ClusterAction = Inr Op_ClusterAction"
| "operation_to_wire DescribeConfigs = Inr Op_DescribeConfigs"
| "operation_to_wire AlterConfigs = Inr Op_AlterConfigs"
| "operation_to_wire IdempotentWrite = Inr Op_IdempotentWrite"
| "operation_to_wire CreateTokens = Inr Op_CreateTokens"
| "operation_to_wire DescribeTokens = Inr Op_DescribeTokens"
| "operation_to_wire TwoPhaseCommit = Inr Op_TwoPhaseCommit"
| "operation_to_wire Unknown_Operation = Inl (not_concrete Unknown_Operation)"
| "operation_to_wire Any_Operation = Inl (not_concrete Any_Operation)"

fun operation_from_wire :: "AclOperation \<Rightarrow> Operation" where
  "operation_from_wire Op_All = All_Operations"
| "operation_from_wire Op_Read = Read"
| "operation_from_wire Op_Write = Write"
| "operation_from_wire Op_Create = Create"
| "operation_from_wire Op_Delete = Delete"
| "operation_from_wire Op_Alter = Alter"
| "operation_from_wire Op_Describe = Describe"
| "operation_from_wire Op_ClusterAction = ClusterAction"
| "operation_from_wire Op_DescribeConfigs = DescribeConfigs"
| "operation_from_wire Op_AlterConfigs = AlterConfigs"
| "operation_from_wire Op_IdempotentWrite = IdempotentWrite"
| "operation_from_wire Op_TwoPhaseCommit = TwoPhaseCommit"
| "operation_from_wire Op_CreateTokens = CreateTokens"
| "operation_from_wire Op_DescribeTokens = DescribeTokens"

fun permission_name :: "Permission \<Rightarrow> string" where
  "permission_name Permission_Allow = ''ALLOW''"
| "permission_name Permission_Deny = ''DENY''"

fun permission_to_wire :: "Permission \<Rightarrow> PermissionType" where
  "permission_to_wire Permission_Allow = Allow"
| "permission_to_wire Permission_Deny = Deny"

fun permission_from_wire :: "PermissionType \<Rightarrow> Permission" where
  "permission_from_wire Allow = Permission_Allow"
| "permission_from_wire Deny = Permission_Deny"

section \<open>The derived orders\<close>

text \<open>An enum has the order of its declaration, here the position in the list of its values; a struct compares its fields in order.\<close>

definition position :: "'a list \<Rightarrow> 'a \<Rightarrow> nat" where
  "position xs x = length (takeWhile (\<lambda>y. y \<noteq> x) xs)"

lemma position_less: "x \<in> set xs \<Longrightarrow> position xs x < length xs \<and> xs ! position xs x = x"
  by (induction xs) (auto simp: position_def)

lemma position_inj: "x \<in> set xs \<Longrightarrow> y \<in> set xs \<Longrightarrow> position xs x = position xs y \<longleftrightarrow> x = y"
  using position_less by metis

definition KINDS :: "ResourceKind list" where
  "KINDS = [Kind_Topic, Kind_Group, Kind_Cluster, Kind_TransactionalId, Kind_DelegationToken, Kind_User]"

lemma values_complete: "k \<in> set KINDS" "q \<in> set PATTERNS" "op \<in> set OPERATIONS" "m \<in> set [Permission_Allow, Permission_Deny]"
  by (cases k, simp_all add: KINDS_def, cases q, simp_all add: PATTERNS_def, cases op, simp_all add: OPERATIONS_def, cases m, simp_all)

datatype Resource = Resource (rs_kind: ResourceKind) (rs_name: string) (rs_pattern_type: PatternKind)

datatype Entry = Entry (en_principal: string) (en_host: string) (en_operation: Operation) (en_permission: Permission)

definition resource_key :: "Resource \<Rightarrow> nat \<times> string \<times> nat" where
  "resource_key r = (position KINDS (rs_kind r), rs_name r, position PATTERNS (rs_pattern_type r))"

definition entry_key :: "Entry \<Rightarrow> string \<times> string \<times> nat \<times> nat" where
  "entry_key e =
     (en_principal e, en_host e, position OPERATIONS (en_operation e), position [Permission_Allow, Permission_Deny] (en_permission e))"

lemma resource_key_inj: "resource_key a = resource_key b \<longleftrightarrow> a = b"
  by (cases a; cases b) (simp add: resource_key_def position_inj values_complete)

lemma entry_key_inj: "entry_key a = entry_key b \<longleftrightarrow> a = b"
  by (cases a; cases b) (simp only: entry_key_def prod.inject Entry.sel Entry.inject position_inj [OF values_complete(3) values_complete(3)]
      position_inj [OF values_complete(4) values_complete(4)])

instantiation Resource :: linorder
begin

definition less_eq_Resource :: "Resource \<Rightarrow> Resource \<Rightarrow> bool" where "less_eq_Resource a b \<longleftrightarrow> resource_key a \<le> resource_key b"
definition less_Resource :: "Resource \<Rightarrow> Resource \<Rightarrow> bool" where "less_Resource a b \<longleftrightarrow> resource_key a < resource_key b"

instance
  by standard (auto simp: less_eq_Resource_def less_Resource_def simp flip: resource_key_inj)

end

instantiation Entry :: linorder
begin

definition less_eq_Entry :: "Entry \<Rightarrow> Entry \<Rightarrow> bool" where "less_eq_Entry a b \<longleftrightarrow> entry_key a \<le> entry_key b"
definition less_Entry :: "Entry \<Rightarrow> Entry \<Rightarrow> bool" where "less_Entry a b \<longleftrightarrow> entry_key a < entry_key b"

instance
  by standard (auto simp: less_eq_Entry_def less_Entry_def simp flip: entry_key_inj)

end

section \<open>Resources and entries\<close>

definition resource_cluster :: Resource where
  "resource_cluster = Resource Kind_Cluster CLUSTER_NAME Pattern_Literal"

definition resource_wire_filter :: "Resource \<Rightarrow> AclEntryFilter" where
  "resource_wire_filter r =
     any_acl\<lparr>fl_resource_type := Some (kind_to_wire (rs_kind r)), fl_resource_name := Some (rs_name r),
       fl_pattern_type := pattern_to_wire_filter (rs_pattern_type r)\<rparr>"

definition resource_json :: "Resource \<Rightarrow> json" where
  "resource_json r =
     JObject [(''resource_type'', JString (kind_name (rs_kind r))), (''name'', JString (rs_name r)),
       (''pattern_type'', JString (pattern_name (rs_pattern_type r)))]"

definition show_resource :: "Resource \<Rightarrow> string" where
  "show_resource r =
     ''ResourcePattern(resourceType='' @ kind_name (rs_kind r) @ '', name='' @ rs_name r @ '', patternType='' @
     pattern_name (rs_pattern_type r) @ '')''"

definition entry_wire :: "Resource \<Rightarrow> Entry \<Rightarrow> CommandError + AclEntry" where
  "entry_wire r e =
     res_bind (pattern_to_wire (rs_pattern_type r)) (\<lambda>pattern.
     res_bind (operation_to_wire (en_operation e)) (\<lambda>op.
     Inr \<lparr>ae_resource_type = kind_to_wire (rs_kind r), ae_resource_name = rs_name r, ae_pattern_type = pattern,
          ae_principal = en_principal e, ae_host = en_host e, ae_operation = op,
          ae_permission_type = permission_to_wire (en_permission e)\<rparr>))"

definition entry_wire_filter :: "AclEntryFilter \<Rightarrow> Entry \<Rightarrow> CommandError + AclEntryFilter" where
  "entry_wire_filter base e =
     res_bind (operation_to_wire (en_operation e)) (\<lambda>op.
     Inr (base\<lparr>fl_principal := Some (en_principal e), fl_host := Some (en_host e), fl_operation := Some op,
       fl_permission_type := Some (permission_to_wire (en_permission e))\<rparr>))"

definition acl_entry_json :: "Entry \<Rightarrow> json" where
  "acl_entry_json e =
     JObject [(''principal'', JString (en_principal e)), (''host'', JString (en_host e)),
       (''operation'', JString (operation_name (en_operation e))), (''permission_type'', JString (permission_name (en_permission e)))]"

definition show_entry :: "Entry \<Rightarrow> string" where
  "show_entry e =
     ''(principal='' @ en_principal e @ '', host='' @ en_host e @ '', operation='' @ operation_name (en_operation e) @
     '', permissionType='' @ permission_name (en_permission e) @ '')''"

definition binding :: "AclEntry \<Rightarrow> Resource \<times> Entry" where
  "binding acl =
     (Resource (kind_from_wire (ae_resource_type acl)) (ae_resource_name acl) (pattern_from_wire (ae_pattern_type acl)),
      Entry (ae_principal acl) (ae_host acl) (operation_from_wire (ae_operation acl)) (permission_from_wire (ae_permission_type acl)))"

text \<open>Entries by resource; on a filter no entry means every entry.\<close>

type_synonym Acls = "(Resource, Entry list) btmap"

section \<open>The command line\<close>

record AclsArgs =
  ac_bootstrap_server :: "string list"
  ac_bootstrap_controller :: "string list"
  ac_add :: bool
  ac_remove :: bool
  ac_list :: bool
  ac_topic :: "string list"
  ac_cluster :: bool
  ac_group :: "string list"
  ac_transactional_id :: "string list"
  ac_delegation_token :: "string list"
  ac_user_principal :: "string list"
  ac_resource_pattern_type :: string
  ac_operation :: "string list"
  ac_allow_principal :: "string list"
  ac_deny_principal :: "string list"
  ac_principal :: "string list option"
  ac_allow_host :: "string list"
  ac_deny_host :: "string list"
  ac_producer :: bool
  ac_consumer :: bool
  ac_idempotent :: bool
  ac_force :: bool
  ac_confirm :: ConfirmArgs

datatype AclPlan = ListAcls "Resource list" "string list option" | AddAcls Acls | RemoveAcls Acls

definition acl_invalid :: "string \<times> bool \<Rightarrow> (string \<times> bool) list \<Rightarrow> CommandError + unit" where
  "acl_invalid flag invalid =
     (case List.find snd invalid of
        Some (name, _) \<Rightarrow>
          if snd flag
          then Inl (ErrUsage (''Option '' @ [CHR 0x22] @ ''['' @ fst flag @ '']'' @ [CHR 0x22] @ '' can'' @ [CHR 0x27] @ ''t be used with option '' @
            [CHR 0x22] @ ''['' @ name @ '']'' @ [CHR 0x22]))
          else Inr ()
      | None \<Rightarrow> Inr ())"

fun principals_from :: "string list \<Rightarrow> string list \<Rightarrow> CommandError + string list" where
  "principals_from out [] = Inr out"
| "principals_from out (v # vs) =
     (let v = trim v
      in if CHR '':'' \<notin> set v then Inl (ErrUsage (''expected a string in format principalType:principalName but got '' @ v))
         else principals_from (if v \<in> set out then out else out @ [v]) vs)"

definition principals :: "string list \<Rightarrow> CommandError + string list" where
  "principals values = principals_from [] values"

definition hosts :: "string list \<Rightarrow> bool \<Rightarrow> string list" where
  "hosts values principal_given =
     (if values \<noteq> [] then map trim values else if principal_given then [WILDCARD_HOST] else [])"

text \<open>The entries of one permission, in the order in which they are inserted; \<open>ANY\<close> is refused where there is a principal.\<close>

definition permission_entries :: "string list \<Rightarrow> Operation list \<Rightarrow> string list \<Rightarrow> Permission \<Rightarrow> CommandError + Entry list" where
  "permission_entries ps ops hs permission =
     map_sum id concat (collect_res (\<lambda>p.
       map_sum id concat (collect_res (\<lambda>op.
         if op = Any_Operation then Inl (ErrUsage ''operation must not be ANY'')
         else Inr (map (\<lambda>h. Entry p h op permission) hs)) ops)) ps)"

definition acl_entries :: "AclsArgs \<Rightarrow> Operation list \<Rightarrow> CommandError + Entry list" where
  "acl_entries self ops =
     res_bind (principals (ac_allow_principal self)) (\<lambda>allowed.
     res_bind (principals (ac_deny_principal self)) (\<lambda>denied.
     res_bind (permission_entries allowed ops (hosts (ac_allow_host self) (ac_allow_principal self \<noteq> [])) Permission_Allow) (\<lambda>allow.
     res_bind (permission_entries denied ops (hosts (ac_deny_host self) (ac_deny_principal self \<noteq> [])) Permission_Deny) (\<lambda>deny.
     Inr (bs_of_list (allow @ deny))))))"

definition resource_filters :: "AclsArgs \<Rightarrow> PatternKind \<Rightarrow> bool \<Rightarrow> CommandError + Resource list" where
  "resource_filters self pattern required =
     (let named = (\<lambda>kind names. map (\<lambda>name. Resource kind name pattern) names);
          filters = bs_of_list
            (named Kind_Topic (map trim (ac_topic self)) @
             (if pattern = Pattern_Literal \<and> (ac_cluster self \<or> ac_idempotent self) then [resource_cluster] else []) @
             named Kind_Group (map trim (ac_group self)) @ named Kind_TransactionalId (ac_transactional_id self) @
             named Kind_DelegationToken (map trim (ac_delegation_token self)) @ named Kind_User (map trim (ac_user_principal self)))
      in if filters = [] \<and> required
         then Inl (ErrUsage ''You must provide at least one resource: --topic <topic> or --cluster or --group <group> or --delegation-token <Delegation Token ID>'')
         else Inr filters)"

definition plain_acls :: "AclsArgs \<Rightarrow> PatternKind \<Rightarrow> Acls \<Rightarrow> CommandError + Acls" where
  "plain_acls self pattern acls =
     (let ops = (if ac_operation self = [] then [All_Operations] else map (\<lambda>op. operation_parse (trim op)) (ac_operation self))
      in res_bind (acl_entries self ops) (\<lambda>es.
         res_bind (resource_filters self pattern True) (\<lambda>rs.
         Inr (foldl (\<lambda>m r. bt_insert r es m) acls rs))))"

definition producer_acls :: "AclsArgs \<Rightarrow> PatternKind \<Rightarrow> Acls \<Rightarrow> CommandError + Acls" where
  "producer_acls self pattern acls =
     res_bind (acl_entries self [Write, Describe, Create]) (\<lambda>topic.
     res_bind (acl_entries self [Write, Describe]) (\<lambda>transactional_id.
     res_bind (resource_filters self pattern True) (\<lambda>rs.
     let acls = foldl (\<lambda>m r. case rs_kind r of
             Kind_Topic \<Rightarrow> bt_insert r topic m
           | Kind_TransactionalId \<Rightarrow> bt_insert r transactional_id m
           | _ \<Rightarrow> m) acls rs
     in if ac_idempotent self
        then map_sum id (\<lambda>es. bt_insert resource_cluster es acls) (acl_entries self [IdempotentWrite])
        else Inr acls)))"

definition extend_entries :: "Resource \<Rightarrow> Entry list \<Rightarrow> Acls \<Rightarrow> Acls" where
  "extend_entries r es acls =
     bt_insert r (bs_of_list ((case map_of acls r of Some old \<Rightarrow> old | None \<Rightarrow> []) @ es)) acls"

definition consumer_acls :: "AclsArgs \<Rightarrow> PatternKind \<Rightarrow> Acls \<Rightarrow> CommandError + Acls" where
  "consumer_acls self pattern acls =
     res_bind (acl_entries self [Read, Describe]) (\<lambda>topic.
     res_bind (acl_entries self [Read]) (\<lambda>group.
     res_bind (resource_filters self pattern True) (\<lambda>rs.
     Inr (foldl (\<lambda>m r. case rs_kind r of
         Kind_Topic \<Rightarrow> extend_entries r topic m
       | Kind_Group \<Rightarrow> extend_entries r group m
       | _ \<Rightarrow> m) acls rs))))"

definition supported :: "ResourceKind \<Rightarrow> Operation \<Rightarrow> bool" where
  "supported kind op \<longleftrightarrow> op = All_Operations \<or> op \<in> set (kind_operations kind)"

definition check_operations :: "Resource \<times> Entry list \<Rightarrow> CommandError + unit" where
  "check_operations row =
     (let (r, es) = row
      in if list_ex (\<lambda>e. \<not> supported (rs_kind r) (en_operation e)) es
         then Inl (ErrUsage (''ResourceType '' @ kind_name (rs_kind r) @ '' only supports operations ['' @
           join_with '', '' (map operation_name (kind_operations (rs_kind r) @ [All_Operations])) @ '']''))
         else Inr ())"

definition resource_acls :: "AclsArgs \<Rightarrow> PatternKind \<Rightarrow> CommandError + Acls" where
  "resource_acls self pattern =
     res_bind (if \<not> ac_producer self \<and> \<not> ac_consumer self then plain_acls self pattern [] else Inr []) (\<lambda>acls.
     res_bind (if ac_producer self then producer_acls self pattern acls else Inr acls) (\<lambda>acls.
     res_bind (if ac_consumer self then consumer_acls self pattern acls else Inr acls) (\<lambda>acls.
     res_bind (collect_res check_operations acls) (\<lambda>_. Inr acls))))"

text \<open>The checks of the plan that come before the pattern type.\<close>

definition count_given :: "bool list \<Rightarrow> nat" where
  "count_given flags = length (filter id flags)"

definition check_acl_args :: "AclsArgs \<Rightarrow> CommandError + unit" where
  "check_acl_args self =
     (let producer = (''producer'', ac_producer self); consumer = (''consumer'', ac_consumer self);
          allow_host = (''allow-host'', ac_allow_host self \<noteq> []); allow_principal = (''allow-principal'', ac_allow_principal self \<noteq> []);
          deny_host = (''deny-host'', ac_deny_host self \<noteq> []); deny_principal = (''deny-principal'', ac_deny_principal self \<noteq> []);
          op = (''operation'', ac_operation self \<noteq> [])
      in if ac_bootstrap_server self = [] \<and> ac_bootstrap_controller self = []
         then Inl (ErrUsage ''One of --bootstrap-server or --bootstrap-controller must be specified'')
         else if count_given [ac_add self, ac_remove self, ac_list self] \<noteq> 1
         then Inl (ErrUsage ''Command must include exactly one action: --list, --add, --remove. '')
         else res_bind (acl_invalid (''list'', ac_list self) [producer, consumer, allow_host, allow_principal, deny_host, deny_principal]) (\<lambda>_.
           res_bind (acl_invalid producer [op, deny_principal, deny_host]) (\<lambda>_.
           res_bind (acl_invalid consumer [op, deny_principal, deny_host]) (\<lambda>_.
           if ac_principal self \<noteq> None \<and> \<not> ac_list self
           then Inl (ErrUsage ''The --principal option is only available if --list is set'')
           else if ac_producer self \<and> ac_topic self = [] then Inl (ErrUsage ''With --producer you must specify a --topic'')
           else if ac_idempotent self \<and> \<not> ac_producer self
           then Inl (ErrUsage ''The --idempotent option is only available if --producer is set'')
           else if ac_consumer self \<and> (ac_topic self = [] \<or> ac_group self = [] \<or>
             \<not> ac_producer self \<and> (ac_cluster self \<or> ac_transactional_id self \<noteq> []))
           then Inl (ErrUsage ''With --consumer you must specify a --topic and a --group and no --cluster or --transactional-id option should be specified.'')
           else if ac_list self \<and> ca_dry_run (ac_confirm self) then Inl (ErrUsage ''--dry-run is only valid with --add or --remove'')
           else Inr ()))))"

definition acls_plan :: "AclsArgs \<Rightarrow> CommandError + AclPlan" where
  "acls_plan self =
     res_bind (check_acl_args self) (\<lambda>_.
     res_bind (pattern_parse (ac_resource_pattern_type self)) (\<lambda>pattern.
     if ac_list self
     then res_bind (resource_filters self pattern False) (\<lambda>filters.
       res_bind (case ac_principal self of None \<Rightarrow> Inr None | Some ps \<Rightarrow> map_sum id Some (principals ps)) (\<lambda>ps.
       Inr (ListAcls filters ps)))
     else if ac_remove self then map_sum id RemoveAcls (resource_acls self pattern)
     else if \<not> is_specific pattern
     then Inl (ErrUsage (''A '' @ [CHR 0x27] @ ''--resource-pattern-type'' @ [CHR 0x27] @ '' value of '' @ [CHR 0x27] @ pattern_name pattern @ [CHR 0x27] @
       '' is not valid when adding acls.''))
     else res_bind (resource_acls self pattern) (\<lambda>acls.
       if list_ex (\<lambda>(_, es). es = []) acls
       then Inl (ErrUsage ''You must specify one of: --allow-principal, --deny-principal when trying to add ACLs.'')
       else Inr (AddAcls acls))))"

section \<open>Steps\<close>

definition list_requests :: "Resource list \<Rightarrow> AclEntryFilter list" where
  "list_requests filters = (if filters = [] then [any_acl] else map resource_wire_filter filters)"

record AddStep =
  as_resource :: Resource
  as_existing :: AclEntryFilter
  as_creations :: "(Entry \<times> AclEntry) list"

definition add_step :: "Resource \<times> Entry list \<Rightarrow> CommandError + AddStep" where
  "add_step row =
     (let (r, es) = row
      in res_bind (collect_res (\<lambda>e. map_sum id (Pair e) (entry_wire r e)) es) (\<lambda>creations.
         Inr \<lparr>as_resource = r, as_existing = resource_wire_filter r, as_creations = creations\<rparr>))"

definition add_steps :: "Acls \<Rightarrow> CommandError + AddStep list" where
  "add_steps acls = collect_res add_step acls"

record RemoveStep =
  rm_resource :: Resource
  rm_entries :: "Entry list"
  rm_filters :: "AclEntryFilter list"

definition remove_step :: "Resource \<times> Entry list \<Rightarrow> CommandError + RemoveStep" where
  "remove_step row =
     (let (r, es) = row; base = resource_wire_filter r
      in res_bind (if es = [] then Inr [base] else collect_res (entry_wire_filter base) es) (\<lambda>filters.
         Inr \<lparr>rm_resource = r, rm_entries = es, rm_filters = filters\<rparr>))"

definition remove_steps :: "Acls \<Rightarrow> CommandError + RemoveStep list" where
  "remove_steps acls = collect_res remove_step acls"

definition step_impact :: "RemoveStep \<Rightarrow> string list" where
  "step_impact step =
     (if rm_entries step = [] then [''all ACLs for resource filter `'' @ show_resource (rm_resource step) @ ''`'']
      else map (\<lambda>e. show_entry e @ '' from resource filter `'' @ show_resource (rm_resource step) @ ''`'') (rm_entries step))"

definition removal_impact :: "RemoveStep list \<Rightarrow> Impact" where
  "removal_impact steps =
     \<lparr>im_summary = ''remove ACLs from '' @ show_nat (length steps) @ '' resource filter(s)'', im_resources = concat (map step_impact steps)\<rparr>"

section \<open>The report\<close>

record AclReport =
  ap_human :: "string list"
  ap_rows :: "json list"
  ap_failed :: bool

definition empty_acl_report :: AclReport where
  "empty_acl_report = \<lparr>ap_human = [], ap_rows = [], ap_failed = False\<rparr>"

fun acl_error_json :: "CommandError \<Rightarrow> json" where
  "acl_error_json (ErrBroker api code name message) =
     JObject [(''code'', JInt code), (''name'', JString name), (''message'', opt_json message)]"
| "acl_error_json other = JObject [(''message'', JString (show_error other))]"

definition report_stop :: "AclReport \<Rightarrow> CommandError \<Rightarrow> json option \<Rightarrow> CommandError + AclReport" where
  "report_stop self error row =
     (if ap_rows self = [] \<and> row = None then Inl error
      else Inr \<lparr>ap_human = ap_human self @ [''Error while executing ACL command: '' @ show_error error],
        ap_rows = ap_rows self @ [case row of Some v \<Rightarrow> v | None \<Rightarrow> JObject [(''error'', acl_error_json error)]],
        ap_failed = True\<rparr>)"

definition report_finish :: "AclReport \<Rightarrow> bool \<Rightarrow> CommandResult" where
  "report_finish self dry_run =
     (let result = result_rows (ap_human self) (JArray (ap_rows self)) (ap_failed self)
      in if dry_run then into_dry_run result else result)"

definition broker_error :: "string \<Rightarrow> KafkaError \<Rightarrow> CommandError" where
  "broker_error api error = ErrBroker api (ke_code error) (ke_name error) (ke_message error)"

section \<open>The actions\<close>

record DeleteAclsOutcome =
  do_matched :: "AclEntry list"
  do_error :: "KafkaError option"

text \<open>\<open>create_acls\<close> answers an optional error for each entry.\<close>

record 'c AclsEnv =
  ax_connect :: "('c, unit) cmd"
  ax_describe_acls :: "AclEntryFilter \<Rightarrow> 'c \<Rightarrow> (AdminError + AclEntry list) \<times> 'c"
  ax_create_acls :: "AclEntry list \<Rightarrow> 'c \<Rightarrow> (AdminError + KafkaError option list) \<times> 'c"
  ax_delete_acls :: "AclEntryFilter list \<Rightarrow> 'c \<Rightarrow> (AdminError + DeleteAclsOutcome list) \<times> 'c"
  ax_terminal :: Terminal

fun adding_lines :: "Entry list \<Rightarrow> string list" where
  "adding_lines [] = []"
| "adding_lines (e # es) = ('' '' @ [CHR 0x09] @ show_entry e) # map (\<lambda>e. CHR 0x09 # show_entry e) es"

definition add_human :: "Resource \<Rightarrow> Entry list \<Rightarrow> Entry list \<Rightarrow> string list" where
  "add_human r present absent =
     map (\<lambda>e. ''Acl (pattern='' @ show_resource r @ '', entry='' @ show_entry e @ '') already exists.'') present @
     (if absent = [] then []
      else [''Adding ACLs for resource `'' @ show_resource r @ ''`: ''] @ adding_lines absent @ [[]])"

definition add_row :: "Resource \<Rightarrow> Entry list \<Rightarrow> Entry list \<Rightarrow> CommandError option \<Rightarrow> json" where
  "add_row r present absent error =
     JObject [(''resource'', resource_json r), (''existing'', JArray (map acl_entry_json present)), (''added'', JArray (map acl_entry_json absent)),
       (''error'', case error of Some e \<Rightarrow> acl_error_json e | None \<Rightarrow> JNull)]"

text \<open>The error of a \<open>CreateAcls\<close> request: its own, or the first of an entry.\<close>

definition creation_error :: "AdminError + KafkaError option list \<Rightarrow> CommandError option" where
  "creation_error answer =
     (case answer of
        Inl error \<Rightarrow> Some (from_admin_error error)
      | Inr outcomes \<Rightarrow> map_option (broker_error ''CreateAcls'') (Option.bind (List.find (\<lambda>err. err \<noteq> None) outcomes) id))"

definition create_missing :: "'c AclsEnv \<Rightarrow> bool \<Rightarrow> (Entry \<times> AclEntry) list \<Rightarrow> ('c, CommandError option) cmd" where
  "create_missing env dry_run absent =
     (if absent \<noteq> [] \<and> \<not> dry_run
      then cmd_bind (cmd_call (ax_create_acls env (map snd absent))) (\<lambda>answer. cmd_ret (creation_error answer))
      else cmd_ret None)"

fun add_from :: "'c AclsEnv \<Rightarrow> bool \<Rightarrow> AclReport \<Rightarrow> AddStep list \<Rightarrow> ('c, AclReport) cmd" where
  "add_from env dry_run report [] = cmd_ret report"
| "add_from env dry_run report (step # steps) =
     cmd_bind (cmd_call (ax_describe_acls env (as_existing step))) (\<lambda>answer.
     case answer of
       Inl error \<Rightarrow> cmd_res (report_stop report (from_admin_error error) None)
     | Inr existing \<Rightarrow>
         (let r = as_resource step; known = (\<lambda>(e, _). (r, e) \<in> set (map binding existing));
              present = filter known (as_creations step); absent = filter (\<lambda>c. \<not> known c) (as_creations step);
              report = report\<lparr>ap_human := ap_human report @ add_human r (map fst present) (map fst absent)\<rparr>
          in cmd_bind (create_missing env dry_run absent) (\<lambda>error.
             let row = add_row r (map fst present) (map fst absent) error
             in case error of
                  Some e \<Rightarrow> cmd_res (report_stop report e (Some row))
                | None \<Rightarrow> add_from env dry_run (report\<lparr>ap_rows := ap_rows report @ [row]\<rparr>) steps)))"

definition add_acls :: "'c AclsEnv \<Rightarrow> AddStep list \<Rightarrow> bool \<Rightarrow> ('c, CommandResult) cmd" where
  "add_acls env steps dry_run =
     cmd_bind (add_from env dry_run empty_acl_report steps) (\<lambda>report. cmd_ret (report_finish report dry_run))"

text \<open>What a dry run finds: the bindings of every filter up to the first that fails, with its error.\<close>

fun matching_acls :: "'c AclsEnv \<Rightarrow> (Resource \<times> Entry) list \<Rightarrow> AclEntryFilter list \<Rightarrow> ('c, (Resource \<times> Entry) list \<times> CommandError option) cmd" where
  "matching_acls env found [] = cmd_ret (found, None)"
| "matching_acls env found (f # fs) =
     cmd_bind (cmd_call (ax_describe_acls env f)) (\<lambda>answer.
     case answer of
       Inr acls \<Rightarrow> matching_acls env (found @ map binding acls) fs
     | Inl error \<Rightarrow> cmd_ret (found, Some (from_admin_error error)))"

definition deleted_acls :: "'c AclsEnv \<Rightarrow> AclEntryFilter list \<Rightarrow> ('c, (Resource \<times> Entry) list \<times> CommandError option) cmd" where
  "deleted_acls env filters =
     cmd_bind (cmd_call (ax_delete_acls env filters)) (\<lambda>answer. cmd_ret
     (case answer of
        Inr outcomes \<Rightarrow> (concat (map (\<lambda>outcome. map binding (do_matched outcome)) outcomes),
          map_option (broker_error ''DeleteAcls'') (Option.bind (List.find (\<lambda>outcome. do_error outcome \<noteq> None) outcomes) do_error))
      | Inl error \<Rightarrow> ([], Some (from_admin_error error))))"

definition remove_row :: "RemoveStep \<Rightarrow> (Resource \<times> Entry) list \<Rightarrow> CommandError option \<Rightarrow> json" where
  "remove_row step removed error =
     JObject [(''filter'', resource_json (rm_resource step)), (''acls'', JArray (map acl_entry_json (rm_entries step))),
       (''removed'', JArray (map (\<lambda>(r, e). JObject [(''resource'', resource_json r), (''acl'', acl_entry_json e)]) removed)),
       (''error'', case error of Some e \<Rightarrow> acl_error_json e | None \<Rightarrow> JNull)]"

fun remove_from :: "'c AclsEnv \<Rightarrow> bool \<Rightarrow> AclReport \<Rightarrow> RemoveStep list \<Rightarrow> ('c, AclReport) cmd" where
  "remove_from env dry_run report [] = cmd_ret report"
| "remove_from env dry_run report (step # steps) =
     cmd_bind (if dry_run then matching_acls env [] (rm_filters step) else deleted_acls env (rm_filters step)) (\<lambda>(found, error).
     let removed = bs_of_list found; row = remove_row step removed error
     in case error of
          Some e \<Rightarrow> cmd_res (report_stop report e (if removed \<noteq> [] then Some row else None))
        | None \<Rightarrow> remove_from env dry_run (report\<lparr>ap_rows := ap_rows report @ [row]\<rparr>) steps)"

definition remove_acls :: "'c AclsEnv \<Rightarrow> RemoveStep list \<Rightarrow> bool \<Rightarrow> ('c, CommandResult) cmd" where
  "remove_acls env steps dry_run =
     cmd_bind (remove_from env dry_run empty_acl_report steps) (\<lambda>report. cmd_ret (report_finish report dry_run))"

definition current_lines :: "Acls \<Rightarrow> string list" where
  "current_lines acls =
     concat (map (\<lambda>(r, es). [''Current ACLs for resource `'' @ show_resource r @ ''`:''] @ map (\<lambda>e. CHR 0x09 # show_entry e) es @ [[]]) acls)"

definition current_json :: "Acls \<Rightarrow> json" where
  "current_json acls =
     JArray (map (\<lambda>(r, es). JObject [(''resource'', resource_json r), (''acls'', JArray (map acl_entry_json es))]) acls)"

definition own_acls :: "string \<Rightarrow> Acls \<Rightarrow> Acls" where
  "own_acls p acls =
     List.map_filter (\<lambda>(r, es). let own = filter (\<lambda>e. en_principal e = p) es in if own \<noteq> [] then Some (r, own) else None) acls"

definition listed :: "Acls \<Rightarrow> string list option \<Rightarrow> CommandResult" where
  "listed acls ps =
     (case ps of
        Some (p # ps) \<Rightarrow>
          result_success
            (concat (map (\<lambda>p. (''ACLs for principal `'' @ p @ ''`'') # current_lines (own_acls p acls)) (p # ps)))
            (JArray (map (\<lambda>p. JObject [(''principal'', JString p), (''acls'', current_json (own_acls p acls))]) (p # ps)))
      | _ \<Rightarrow> result_success (current_lines acls) (current_json acls))"

definition insert_binding :: "Acls \<Rightarrow> AclEntry \<Rightarrow> Acls" where
  "insert_binding acls acl = (case binding acl of (r, e) \<Rightarrow> extend_entries r [e] acls)"

fun list_from :: "'c AclsEnv \<Rightarrow> Acls \<Rightarrow> AclEntryFilter list \<Rightarrow> ('c, Acls) cmd" where
  "list_from env acls [] = cmd_ret acls"
| "list_from env acls (f # fs) =
     cmd_bind (cmd_admin (ax_describe_acls env f)) (\<lambda>found. list_from env (foldl insert_binding acls found) fs)"

section \<open>The command\<close>

definition execute_acls :: "'c AclsEnv \<Rightarrow> AclsArgs \<Rightarrow> (Impact \<Rightarrow> Refusal + unit) \<Rightarrow> ('c, CommandResult) cmd" where
  "execute_acls env self ask =
     (let dry_run = ca_dry_run (ac_confirm self)
      in cmd_bind (cmd_res (acls_plan self)) (\<lambda>plan.
         case plan of
           ListAcls filters ps \<Rightarrow>
             cmd_bind (ax_connect env) (\<lambda>_.
             cmd_bind (list_from env [] (list_requests filters)) (\<lambda>acls. cmd_ret (listed acls ps)))
         | AddAcls acls \<Rightarrow>
             cmd_bind (cmd_res (add_steps acls)) (\<lambda>steps.
             cmd_bind (ax_connect env) (\<lambda>_. add_acls env steps dry_run))
         | RemoveAcls acls \<Rightarrow>
             cmd_bind (cmd_res (remove_steps acls)) (\<lambda>steps.
             cmd_bind (cmd_when (\<not> dry_run) (cmd_confirm (ask (removal_impact steps)))) (\<lambda>_.
             cmd_bind (ax_connect env) (\<lambda>_. remove_acls env steps dry_run)))))"

definition run_acls :: "'c AclsEnv \<Rightarrow> AclsArgs \<Rightarrow> ('c, CommandResult) cmd" where
  "run_acls env self =
     execute_acls env self (confirm (ca_yes (ac_confirm self) \<or> ac_force self) (ax_terminal env) ''krabka acls'')"

end
