(* ===== verification/Acls_Safety.thy ===== *)
theory Acls_Safety
  imports Acls
begin

text \<open>
  What \<open>kafka-acls\<close> promises: the entries that a command line stands for, which command lines are accepted, and, on a broker that keeps a set
  of ACLs, what adding and removing leave there.
\<close>

section \<open>Names\<close>

lemma eq_ignore_ascii_case_refl [simp]: "eq_ignore_ascii_case s s"
  by (simp add: eq_ignore_ascii_case_def)

lemma kind_wire [simp]: "kind_from_wire (kind_to_wire k) = k" "kind_to_wire (kind_from_wire t) = t"
  by (cases k, simp_all) (cases t, simp_all)

lemma permission_wire [simp]: "permission_from_wire (permission_to_wire m) = m" "permission_to_wire (permission_from_wire t) = t"
  by (cases m, simp_all) (cases t, simp_all)

lemma operation_wire_iff: "operation_to_wire op = Inr w \<longleftrightarrow> op = operation_from_wire w"
  by (cases op; cases w) simp_all

lemma pattern_wire_iff: "pattern_to_wire q = Inr w \<longleftrightarrow> is_specific q \<and> q = pattern_from_wire w"
  by (cases q; cases w) (simp_all add: pattern_to_wire_def is_specific_def)

lemma specific_wire: "is_specific q \<Longrightarrow> \<exists>w. pattern_to_wire q = Inr w"
  by (cases q) (simp_all add: is_specific_def pattern_to_wire_def)

lemma supported_wire: "supported k op \<Longrightarrow> \<exists>w. operation_to_wire op = Inr w"
  by (cases k; cases op) (simp_all add: supported_def)

lemma entry_wire_iff: "entry_wire r e = Inr a \<longleftrightarrow> is_specific (rs_pattern_type r) \<and> binding a = (r, e)"
  by (cases r; cases e; cases a)
    (auto simp: entry_wire_def binding_def res_bind_Inr_iff pattern_wire_iff operation_wire_iff)

lemma binding_inj: "binding a = binding b \<longleftrightarrow> a = b"
proof
  have inj: "(operation_from_wire x = operation_from_wire y) = (x = y)" "(pattern_from_wire p = pattern_from_wire q) = (p = q)" for x y p q
    by (cases x; cases y; simp) (cases p; cases q; simp)
  assume "binding a = binding b"
  then show "a = b"
    by (cases a; cases b) (simp add: binding_def inj, metis kind_wire(2) permission_wire(2))
qed simp

section \<open>The entries of a command line\<close>

lemma principals_from_set:
  "principals_from out vs = Inr ps \<Longrightarrow> distinct out \<Longrightarrow> distinct ps \<and> set ps = set out \<union> trim ` set vs \<and> (\<forall>v \<in> set vs. CHR '':'' \<in> set (trim v))"
  by (induction out vs rule: principals_from.induct) (auto simp: Let_def split: if_splits)

lemma principals_set: "principals vs = Inr ps \<Longrightarrow> set ps = trim ` set vs"
  unfolding principals_def by (drule principals_from_set) simp_all

lemma permission_entries_set:
  assumes "permission_entries ps ops hs m = Inr es"
  shows "set es = {Entry p h op m | p h op. p \<in> set ps \<and> h \<in> set hs \<and> op \<in> set ops}"
proof -
  let ?row = "\<lambda>p op. if op = Any_Operation then Inl (ErrUsage ''operation must not be ANY'') else Inr (map (\<lambda>h. Entry p h op m) hs)"
  let ?all = "\<lambda>p. map_sum id concat (collect_res (?row p) ops)"
  have row: "set rows = {Entry p h op m | h op. h \<in> set hs \<and> op \<in> set ops}" if row: "?all p = Inr rows" for p rows
  proof -
    from row obtain rss where rows: "rows = concat rss" and all: "collect_res (?row p) ops = Inr rss" by (auto simp: map_sum_def split: sum.splits)
    from all have "rss = map (\<lambda>op. map (\<lambda>h. Entry p h op m) hs) ops"
      by (induction ops arbitrary: rss) (auto simp: res_bind_Inr_iff split: if_splits)
    with rows show ?thesis by auto
  qed
  from assms obtain rss where es: "es = concat rss" and all: "collect_res ?all ps = Inr rss"
    by (auto simp: permission_entries_def map_sum_def split: sum.splits)
  then have "list_all2 (\<lambda>p rows. ?all p = Inr rows) ps rss" by (simp add: collect_res_Inr_iff)
  then have "list_all2 (\<lambda>p rows. set rows = {Entry p h op m | h op. h \<in> set hs \<and> op \<in> set ops}) ps rss"
    by (rule list_all2_mono) (rule row)
  then show ?thesis unfolding es by (induction ps rss rule: list_all2_induct) auto
qed

text \<open>The entries that a command line asks for on a resource: every principal from every host of its permission, for each operation.\<close>

definition wanted_entries :: "AclsArgs \<Rightarrow> Operation set \<Rightarrow> Entry set" where
  "wanted_entries self ops =
     {Entry p h op Permission_Allow | p h op. p \<in> trim ` set (ac_allow_principal self) \<and>
        h \<in> set (hosts (ac_allow_host self) (ac_allow_principal self \<noteq> [])) \<and> op \<in> ops} \<union>
     {Entry p h op Permission_Deny | p h op. p \<in> trim ` set (ac_deny_principal self) \<and>
        h \<in> set (hosts (ac_deny_host self) (ac_deny_principal self \<noteq> [])) \<and> op \<in> ops}"

lemma wanted_entries_empty [simp]: "wanted_entries self {} = {}"
  by (simp add: wanted_entries_def)

lemma wanted_entries_Un: "wanted_entries self (a \<union> b) = wanted_entries self a \<union> wanted_entries self b"
  by (auto simp: wanted_entries_def)

lemma finite_wanted_entries: "finite (wanted_entries self ops)"
proof -
  have ops: "finite ops" using values_complete(3) by (meson finite_set finite_subset subsetI)
  have "finite {Entry p h op m | p h op. p \<in> ps \<and> h \<in> hs \<and> op \<in> ops}" if "finite ps" "finite hs" for ps hs m
  proof (rule finite_subset)
    show "{Entry p h op m | p h op. p \<in> ps \<and> h \<in> hs \<and> op \<in> ops} \<subseteq> (\<lambda>(p, h, op). Entry p h op m) ` (ps \<times> hs \<times> ops)" by force
  qed (use that ops in simp)
  then show ?thesis by (simp add: wanted_entries_def)
qed

lemma bs_of_list_eq: "bs_of_list xs = sorted_list_of_set (set xs)"
  by (simp add: bs_of_list_def sorted_list_of_set_sort_remdups)

lemma acl_entries_eq:
  assumes "acl_entries self ops = Inr es"
  shows "es = sorted_list_of_set (wanted_entries self (set ops))"
proof -
  from assms obtain ap dp a d where p: "principals (ac_allow_principal self) = Inr ap" "principals (ac_deny_principal self) = Inr dp"
    and a: "permission_entries ap ops (hosts (ac_allow_host self) (ac_allow_principal self \<noteq> [])) Permission_Allow = Inr a"
    and d: "permission_entries dp ops (hosts (ac_deny_host self) (ac_deny_principal self \<noteq> [])) Permission_Deny = Inr d"
    and es: "es = bs_of_list (a @ d)"
    by (auto simp: acl_entries_def res_bind_Inr_iff)
  show ?thesis
    unfolding es wanted_entries_def bs_of_list_eq set_append permission_entries_set [OF a] permission_entries_set [OF d] principals_set [OF p(1)]
      principals_set [OF p(2)] by simp
qed

section \<open>The resources of a command line\<close>

definition plain_operations :: "AclsArgs \<Rightarrow> Operation list" where
  "plain_operations self =
     (if ac_operation self = [] then [All_Operations] else map (\<lambda>op. operation_parse (trim op)) (ac_operation self))"

text \<open>The operations that a command line stands for on a kind of resource: those of \<open>--operation\<close>, or those of the roles.\<close>

definition producer_operations :: "AclsArgs \<Rightarrow> ResourceKind \<Rightarrow> Operation set" where
  "producer_operations self kind =
     (case kind of
        Kind_Topic \<Rightarrow> {Write, Describe, Create}
      | Kind_TransactionalId \<Rightarrow> {Write, Describe}
      | Kind_Cluster \<Rightarrow> if ac_idempotent self then {IdempotentWrite} else {}
      | _ \<Rightarrow> {})"

definition consumer_operations :: "ResourceKind \<Rightarrow> Operation set" where
  "consumer_operations kind = (case kind of Kind_Topic \<Rightarrow> {Read, Describe} | Kind_Group \<Rightarrow> {Read} | _ \<Rightarrow> {})"

definition requested_operations :: "AclsArgs \<Rightarrow> ResourceKind \<Rightarrow> Operation set" where
  "requested_operations self kind =
     (if \<not> ac_producer self \<and> \<not> ac_consumer self then set (plain_operations self)
      else (if ac_producer self then producer_operations self kind else {}) \<union> (if ac_consumer self then consumer_operations kind else {}))"

lemma fold_insert_entries:
  assumes "bt_ok m"
  shows "bt_ok (foldl (\<lambda>m r. if P r then bt_insert r (f r) m else m) m rs)
    \<and> map_of (foldl (\<lambda>m r. if P r then bt_insert r (f r) m else m) m rs) = (\<lambda>r. if r \<in> set rs \<and> P r then Some (f r) else map_of m r)"
  using assms by (induction rs arbitrary: m) (auto simp: map_of_bt_insert fun_eq_iff)

lemma extend_entries_map:
  "bt_ok m \<Longrightarrow> bt_ok (extend_entries r es m)
    \<and> map_of (extend_entries r es m) = (map_of m)(r \<mapsto> bs_of_list ((case map_of m r of Some old \<Rightarrow> old | None \<Rightarrow> []) @ es))"
  by (simp add: extend_entries_def map_of_bt_insert)

lemma fold_extend_entries:
  assumes "bt_ok m" and "distinct rs"
  shows "bt_ok (foldl (\<lambda>m r. if P r then extend_entries r (f r) m else m) m rs)
    \<and> map_of (foldl (\<lambda>m r. if P r then extend_entries r (f r) m else m) m rs) =
        (\<lambda>r. if r \<in> set rs \<and> P r then Some (bs_of_list ((case map_of m r of Some old \<Rightarrow> old | None \<Rightarrow> []) @ f r)) else map_of m r)"
  using assms
proof (induction rs arbitrary: m)
  case (Cons r rs)
  show ?case
  proof (cases "P r")
    case True
    with Cons extend_entries_map [OF Cons.prems(1), of r "f r"] show ?thesis by (auto simp: fun_eq_iff)
  next
    case False
    with Cons show ?thesis by (auto simp: fun_eq_iff)
  qed
qed simp

lemma resource_filters_props:
  "resource_filters self pattern required = Inr rs \<Longrightarrow>
     distinct rs \<and> (\<forall>r \<in> set rs. rs_kind r = Kind_Cluster \<longrightarrow> r = resource_cluster)
     \<and> (\<forall>r \<in> set rs. rs_pattern_type r = pattern) \<and> (required \<longrightarrow> rs \<noteq> [])"
  by (auto simp: resource_filters_def Let_def resource_cluster_def split: if_splits)

text \<open>The steps of the code as conditional inserts.\<close>

lemma plain_acls_map:
  assumes "plain_acls self pattern [] = Inr acls" and "resource_filters self pattern True = Inr rs"
  shows "bt_ok acls \<and> (\<forall>r. map_of acls r =
      (if r \<in> set rs then Some (sorted_list_of_set (wanted_entries self (set (plain_operations self)))) else None))"
proof -
  from assms obtain es where es: "acl_entries self (plain_operations self) = Inr es" and acls: "acls = foldl (\<lambda>m r. bt_insert r es m) [] rs"
    by (auto simp: plain_acls_def res_bind_Inr_iff plain_operations_def)
  show ?thesis using fold_insert_entries [of "[]" "\<lambda>_. True" "\<lambda>_. es" rs] acl_entries_eq [OF es] unfolding acls by simp
qed

lemma producer_acls_map:
  assumes "producer_acls self pattern [] = Inr acls" and "resource_filters self pattern True = Inr rs"
  shows "bt_ok acls \<and> (\<forall>r. map_of acls r =
      (if r \<in> set rs \<union> (if ac_idempotent self then {resource_cluster} else {}) \<and> producer_operations self (rs_kind r) \<noteq> {}
       then Some (sorted_list_of_set (wanted_entries self (producer_operations self (rs_kind r)))) else None))"
proof -
  let ?P = "\<lambda>r. rs_kind r \<in> {Kind_Topic, Kind_TransactionalId}"
  from assms obtain t x where t: "acl_entries self [Write, Describe, Create] = Inr t" and x: "acl_entries self [Write, Describe] = Inr x"
    by (auto simp: producer_acls_def res_bind_Inr_iff)
  define f where "f r = (if rs_kind r = Kind_Topic then t else x)" for r :: Resource
  define m where "m = foldl (\<lambda>m r. if ?P r then bt_insert r (f r) m else m) [] rs"
  have step: "(\<lambda>m r. case rs_kind r of Kind_Topic \<Rightarrow> bt_insert r t m | Kind_TransactionalId \<Rightarrow> bt_insert r x m | _ \<Rightarrow> m) =
      (\<lambda>m r. if ?P r then bt_insert r (f r) m else m)"
    by (auto simp: fun_eq_iff f_def split: ResourceKind.split)
  have m: "bt_ok m" "map_of m = (\<lambda>r. if r \<in> set rs \<and> ?P r then Some (f r) else None)"
    using fold_insert_entries [of "[]" ?P f rs] by (simp_all add: m_def cong: if_cong)
  have acls: "(if ac_idempotent self then map_sum id (\<lambda>es. bt_insert resource_cluster es m) (acl_entries self [IdempotentWrite]) else Inr m) = Inr acls"
    using assms t x by (simp add: producer_acls_def m_def step Let_def split: if_splits)
  note sets = acl_entries_eq [OF t] acl_entries_eq [OF x]
  have kind: "rs_kind resource_cluster = Kind_Cluster" by (simp add: resource_cluster_def)
  have cluster: "r = resource_cluster" if "r \<in> set rs" "rs_kind r = Kind_Cluster" for r
    using resource_filters_props [OF assms(2)] that by blast
  show ?thesis
  proof (cases "ac_idempotent self")
    case True
    with acls obtain i where i: "acl_entries self [IdempotentWrite] = Inr i" and acls: "acls = bt_insert resource_cluster i m"
      by (auto simp: map_sum_def split: sum.splits)
    note sets = sets acl_entries_eq [OF i]
    show ?thesis using True sets cluster kind m
      by (auto simp: acls map_of_bt_insert f_def producer_operations_def split: ResourceKind.splits option.splits)
  next
    case False
    then show ?thesis using acls sets m by (auto simp: f_def producer_operations_def split: ResourceKind.splits option.splits)
  qed
qed

lemma consumer_acls_map:
  assumes "consumer_acls self pattern m = Inr acls" and "resource_filters self pattern True = Inr rs" and "bt_ok m"
  shows "bt_ok acls \<and> (\<forall>r. map_of acls r =
      (if r \<in> set rs \<and> consumer_operations (rs_kind r) \<noteq> {}
       then Some (sorted_list_of_set ((case map_of m r of Some old \<Rightarrow> set old | None \<Rightarrow> {}) \<union> wanted_entries self (consumer_operations (rs_kind r))))
       else map_of m r))"
proof -
  let ?P = "\<lambda>r. rs_kind r \<in> {Kind_Topic, Kind_Group}"
  from assms obtain t g where t: "acl_entries self [Read, Describe] = Inr t" and g: "acl_entries self [Read] = Inr g"
    by (auto simp: consumer_acls_def res_bind_Inr_iff)
  define f where "f r = (if rs_kind r = Kind_Topic then t else g)" for r :: Resource
  have step: "(\<lambda>m r. case rs_kind r of Kind_Topic \<Rightarrow> extend_entries r t m | Kind_Group \<Rightarrow> extend_entries r g m | _ \<Rightarrow> m) =
      (\<lambda>m r. if ?P r then extend_entries r (f r) m else m)"
    by (auto simp: fun_eq_iff f_def split: ResourceKind.split)
  have acls: "acls = foldl (\<lambda>m r. if ?P r then extend_entries r (f r) m else m) m rs"
    using assms t g by (simp add: consumer_acls_def step)
  have "distinct rs" using resource_filters_props [OF assms(2)] by blast
  note fold = fold_extend_entries [OF assms(3) this, of ?P f]
  have wanted: "set (f r) = wanted_entries self (consumer_operations (rs_kind r))" if "?P r" for r
    using that acl_entries_eq [OF t] acl_entries_eq [OF g] by (auto simp: f_def consumer_operations_def finite_wanted_entries)
  have P: "consumer_operations (rs_kind r) \<noteq> {} \<longleftrightarrow> ?P r" for r
    by (cases "rs_kind r") (simp_all add: consumer_operations_def)
  show ?thesis unfolding acls P fold [THEN conjunct2] using fold [THEN conjunct1] wanted
    by (auto simp: bs_of_list_eq split: option.split)
qed

lemma collect_res_each: "collect_res f xs = Inr ys \<Longrightarrow> x \<in> set xs \<Longrightarrow> \<exists>y. f x = Inr y"
  by (induction xs arbitrary: ys) (auto simp: res_bind_Inr_iff)

lemma check_operations_supported: "check_operations (r, es) = Inr u \<longleftrightarrow> (\<forall>e \<in> set es. supported (rs_kind r) (en_operation e))"
  by (auto simp: check_operations_def list_ex_iff)

lemma resource_acls_map:
  assumes "resource_acls self pattern = Inr acls" and "ac_idempotent self \<longrightarrow> ac_producer self"
  shows "\<exists>rs. resource_filters self pattern True = Inr rs \<and> bt_ok acls \<and> (\<forall>r. map_of acls r =
      (if r \<in> set rs \<union> (if ac_idempotent self then {resource_cluster} else {}) \<and> requested_operations self (rs_kind r) \<noteq> {}
       then Some (sorted_list_of_set (wanted_entries self (requested_operations self (rs_kind r)))) else None))"
proof -
  from assms(1) obtain a1 a2 where a1: "(if \<not> ac_producer self \<and> \<not> ac_consumer self then plain_acls self pattern [] else Inr []) = Inr a1"
    and a2: "(if ac_producer self then producer_acls self pattern a1 else Inr a1) = Inr a2"
    and a3: "(if ac_consumer self then consumer_acls self pattern a2 else Inr a2) = Inr acls"
    unfolding resource_acls_def res_bind_Inr_iff by blast
  from a1 a2 a3 obtain rs where rs: "resource_filters self pattern True = Inr rs"
    by (auto simp: plain_acls_def producer_acls_def consumer_acls_def res_bind_Inr_iff split: if_splits)
  have cluster: "consumer_operations (rs_kind resource_cluster) = {}" by (simp add: resource_cluster_def consumer_operations_def)
  have plain: "plain_operations self \<noteq> []" by (simp add: plain_operations_def)
  consider (plain) "\<not> ac_producer self" "\<not> ac_consumer self" | (producer) "ac_producer self" "\<not> ac_consumer self"
    | (consumer) "\<not> ac_producer self" "ac_consumer self" | (both) "ac_producer self" "ac_consumer self" by blast
  then show ?thesis
  proof cases
    case plain
    with a1 a2 a3 have "plain_acls self pattern [] = Inr acls" by simp
    from plain_acls_map [OF this rs] plain assms(2) \<open>plain_operations self \<noteq> []\<close> rs show ?thesis
      by (simp add: requested_operations_def cong: if_cong)
  next
    case producer
    with a1 a2 a3 have "producer_acls self pattern [] = Inr acls" by simp
    from producer_acls_map [OF this rs] producer rs show ?thesis by (simp add: requested_operations_def cong: if_cong)
  next
    case consumer
    with a1 a2 a3 have "consumer_acls self pattern [] = Inr acls" by simp
    from consumer_acls_map [OF this rs] consumer assms(2) rs show ?thesis by (simp add: requested_operations_def cong: if_cong)
  next
    case both
    with a1 a2 a3 have p: "producer_acls self pattern [] = Inr a2" and c: "consumer_acls self pattern a2 = Inr acls" by simp_all
    note p = producer_acls_map [OF p rs]
    note c = consumer_acls_map [OF c rs p [THEN conjunct1]]
    have "requested_operations self k = producer_operations self k \<union> consumer_operations k" for k
      using both by (simp add: requested_operations_def)
    then show ?thesis using p c cluster
      by (auto simp: rs wanted_entries_Un finite_wanted_entries)
  qed
qed

text \<open>The ACLs of a command line: a resource that the flags name has entries exactly when the command asks for operations on its kind, and then
  every principal from every host with each of those operations; the operations are all supported by the kind.\<close>

theorem resource_acls_expand:
  assumes "resource_acls self pattern = Inr acls" and "ac_idempotent self \<longrightarrow> ac_producer self"
  shows "\<exists>rs. resource_filters self pattern True = Inr rs
    \<and> map fst acls = sorted_list_of_set {r \<in> set rs \<union> (if ac_idempotent self then {resource_cluster} else {}). requested_operations self (rs_kind r) \<noteq> {}}
    \<and> (\<forall>(r, es) \<in> set acls. sorted es \<and> distinct es \<and> set es = wanted_entries self (requested_operations self (rs_kind r))
        \<and> (\<forall>e \<in> set es. supported (rs_kind r) (en_operation e)))"
proof -
  let ?R = "\<lambda>rs. {r \<in> set rs \<union> (if ac_idempotent self then {resource_cluster} else {}). requested_operations self (rs_kind r) \<noteq> {}}"
  obtain rs where rs: "resource_filters self pattern True = Inr rs" and ok: "bt_ok acls"
    and entries: "map_of acls r = (if r \<in> ?R rs then Some (sorted_list_of_set (wanted_entries self (requested_operations self (rs_kind r)))) else None)" for r
    using resource_acls_map [OF assms] by auto
  have "set (map fst acls) = ?R rs" using entries by (auto simp: map_of_eq_None_iff split: if_splits simp flip: dom_map_of_conv_image_fst)
  then have keys: "map fst acls = sorted_list_of_set (?R rs)"
    using sorted_list_of_set.idem_if_sorted_distinct [OF bt_ok_sorted [OF ok] bt_ok_distinct [OF ok]] by simp
  have checked: "\<forall>row \<in> set acls. check_operations row = Inr ()"
    using assms(1) by (auto simp: resource_acls_def res_bind_Inr_iff dest: collect_res_each)
  have "sorted es \<and> distinct es \<and> set es = wanted_entries self (requested_operations self (rs_kind r)) \<and> (\<forall>e \<in> set es. supported (rs_kind r) (en_operation e))"
    if row: "(r, es) \<in> set acls" for r es
  proof -
    have "map_of acls r = Some es" using row bt_ok_distinct [OF ok] by simp
    with entries [of r] have "es = sorted_list_of_set (wanted_entries self (requested_operations self (rs_kind r)))" by (simp split: if_splits)
    moreover have "\<forall>e \<in> set es. supported (rs_kind r) (en_operation e)" using checked row check_operations_supported by blast
    ultimately show ?thesis by (simp add: finite_wanted_entries)
  qed
  with rs keys show ?thesis by blast
qed

section \<open>Accepted command lines\<close>

lemma check_acl_args_given:
  assumes "check_acl_args self = Inr u"
  shows "count_given [ac_add self, ac_remove self, ac_list self] = 1"
    and "ac_idempotent self \<longrightarrow> ac_producer self"
    and "ac_producer self \<longrightarrow> ac_topic self \<noteq> []"
    and "ac_consumer self \<longrightarrow> ac_topic self \<noteq> [] \<and> ac_group self \<noteq> []"
    and "ac_list self \<longrightarrow> \<not> ca_dry_run (ac_confirm self)"
  using assms by (simp_all add: check_acl_args_def Let_def res_bind_Inr_iff split: if_splits)

lemma check_acl_args_exclusive:
  assumes "check_acl_args self = Inr u"
  shows "ac_list self \<Longrightarrow> \<not> ac_producer self \<and> \<not> ac_consumer self \<and> ac_allow_principal self = [] \<and> ac_deny_principal self = []"
    and "ac_producer self \<or> ac_consumer self \<Longrightarrow> ac_operation self = [] \<and> ac_deny_principal self = [] \<and> ac_deny_host self = []"
  using assms by (simp_all add: check_acl_args_def Let_def res_bind_Inr_iff acl_invalid_def split: if_splits option.splits prod.splits)

lemma resource_acls_patterns:
  assumes "resource_acls self pattern = Inr acls" and "ac_idempotent self \<longrightarrow> ac_producer self" and "(r, es) \<in> set acls"
  shows "rs_pattern_type r = pattern \<or> r = resource_cluster"
proof -
  obtain rs where rs: "resource_filters self pattern True = Inr rs" and ok: "bt_ok acls"
    and entries: "map_of acls r = (if r \<in> set rs \<union> (if ac_idempotent self then {resource_cluster} else {}) \<and> requested_operations self (rs_kind r) \<noteq> {}
      then Some (sorted_list_of_set (wanted_entries self (requested_operations self (rs_kind r)))) else None)"
    using resource_acls_map [OF assms(1,2)] by blast
  have "map_of acls r = Some es" using assms(3) bt_ok_distinct [OF ok] by simp
  with entries resource_filters_props [OF rs] show ?thesis by (auto split: if_splits)
qed

lemma resource_acls_supported:
  "resource_acls self pattern = Inr acls \<Longrightarrow> (r, es) \<in> set acls \<Longrightarrow> e \<in> set es \<Longrightarrow> supported (rs_kind r) (en_operation e)"
  by (auto simp: resource_acls_def res_bind_Inr_iff check_operations_supported dest!: collect_res_each)

lemma collect_res_total: "(\<And>x. x \<in> set xs \<Longrightarrow> \<exists>y. f x = Inr y) \<Longrightarrow> \<exists>ys. collect_res f xs = Inr ys"
  by (induction xs) (auto simp: res_bind_Inr_iff)

lemma remove_steps_total:
  assumes "\<And>r es e. (r, es) \<in> set acls \<Longrightarrow> e \<in> set es \<Longrightarrow> supported (rs_kind r) (en_operation e)"
  shows "\<exists>steps. remove_steps acls = Inr steps"
proof -
  have "\<exists>fs. collect_res (entry_wire_filter (resource_wire_filter r)) es = Inr fs" if "(r, es) \<in> set acls" for r es
    using assms [OF that] supported_wire by (intro collect_res_total) (fastforce simp: entry_wire_filter_def res_bind_Inr_iff)
  then show ?thesis unfolding remove_steps_def
    by (intro collect_res_total) (force simp: remove_step_def Let_def res_bind_Inr_iff split: if_splits)
qed

lemma add_steps_total:
  assumes "\<And>r es e. (r, es) \<in> set acls \<Longrightarrow> e \<in> set es \<Longrightarrow> supported (rs_kind r) (en_operation e)"
    and "\<And>r es. (r, es) \<in> set acls \<Longrightarrow> is_specific (rs_pattern_type r)"
  shows "\<exists>steps. add_steps acls = Inr steps"
proof -
  have "\<exists>cs. collect_res (\<lambda>e. map_sum id (Pair e) (entry_wire r e)) es = Inr cs" if "(r, es) \<in> set acls" for r es
  proof (rule collect_res_total)
    fix e assume "e \<in> set es"
    from supported_wire [OF assms(1) [OF that this]] specific_wire [OF assms(2) [OF that]]
    show "\<exists>c. map_sum id (Pair e) (entry_wire r e) = Inr c" by (auto simp: entry_wire_def)
  qed
  then show ?thesis unfolding add_steps_def
    by (intro collect_res_total) (fastforce simp: add_step_def res_bind_Inr_iff)
qed

lemma acls_plan_steps:
  assumes "acls_plan self = Inr plan"
  shows "check_acl_args self = Inr () \<and> (case plan of
      ListAcls _ _ \<Rightarrow> ac_list self \<and> \<not> ca_dry_run (ac_confirm self)
    | AddAcls acls \<Rightarrow> ac_add self \<and> (\<forall>(r, es) \<in> set acls. is_specific (rs_pattern_type r) \<and> es \<noteq> []) \<and> (\<exists>steps. add_steps acls = Inr steps)
    | RemoveAcls acls \<Rightarrow> ac_remove self \<and> (\<exists>steps. remove_steps acls = Inr steps))"
proof -
  from assms obtain pattern where args: "check_acl_args self = Inr ()" and pattern: "pattern_parse (ac_resource_pattern_type self) = Inr pattern"
    by (auto simp: acls_plan_def res_bind_Inr_iff)
  note given = check_acl_args_given [OF args]
  show ?thesis
  proof (cases plan)
    case (ListAcls filters ps)
    with assms args pattern given(5) show ?thesis by (auto simp: acls_plan_def res_bind_Inr_iff map_sum_def split: if_splits sum.splits)
  next
    case (AddAcls acls)
    with assms args pattern have plan: "\<not> ac_list self" "\<not> ac_remove self" "is_specific pattern" "resource_acls self pattern = Inr acls"
      "\<forall>(r, es) \<in> set acls. es \<noteq> []"
      by (auto simp: acls_plan_def res_bind_Inr_iff map_sum_def list_ex_iff split: if_splits sum.splits)
    have specific: "is_specific (rs_pattern_type r)" if "(r, es) \<in> set acls" for r es
      using resource_acls_patterns [OF plan(4) given(2) that] plan(3) by (auto simp: resource_cluster_def is_specific_def)
    with plan given(1) add_steps_total [OF resource_acls_supported [OF plan(4)] specific] args AddAcls show ?thesis
      by (auto simp: count_given_def split: if_splits)
  next
    case (RemoveAcls acls)
    with assms args pattern have plan: "ac_remove self" "resource_acls self pattern = Inr acls"
      by (auto simp: acls_plan_def res_bind_Inr_iff map_sum_def split: if_splits sum.splits)
    with remove_steps_total [OF resource_acls_supported [OF plan(2)]] args RemoveAcls show ?thesis by auto
  qed
qed

text \<open>An accepted command line has one action and what its roles need. The plan of \<open>--add\<close> has only concrete resources, each with an entry, and
  its conversion for the client never fails; nor does that of \<open>--remove\<close>.\<close>

theorem acls_plan_accepts:
  assumes "acls_plan self = Inr plan"
  shows "count_given [ac_add self, ac_remove self, ac_list self] = 1
    \<and> (ac_idempotent self \<longrightarrow> ac_producer self)
    \<and> (ac_producer self \<longrightarrow> ac_topic self \<noteq> []) \<and> (ac_consumer self \<longrightarrow> ac_topic self \<noteq> [] \<and> ac_group self \<noteq> [])
    \<and> (ac_producer self \<or> ac_consumer self \<longrightarrow> ac_operation self = [] \<and> ac_deny_principal self = [] \<and> ac_deny_host self = [])
    \<and> (case plan of
        ListAcls _ _ \<Rightarrow> ac_list self \<and> \<not> ca_dry_run (ac_confirm self)
      | AddAcls acls \<Rightarrow> ac_add self \<and> (\<forall>(r, es) \<in> set acls. is_specific (rs_pattern_type r) \<and> es \<noteq> []) \<and> (\<exists>steps. add_steps acls = Inr steps)
      | RemoveAcls acls \<Rightarrow> ac_remove self \<and> (\<exists>steps. remove_steps acls = Inr steps))"
proof -
  note plan = acls_plan_steps [OF assms]
  note args = plan [THEN conjunct1]
  show ?thesis using check_acl_args_given [OF args] check_acl_args_exclusive(2) [OF args] plan [THEN conjunct2] by (intro conjI impI) simp_all
qed

section \<open>The operations that a command uses\<close>

definition with_acl_changes ::
    "'c AclsEnv \<Rightarrow> (AclEntry list \<Rightarrow> 'c \<Rightarrow> (AdminError + KafkaError option list) \<times> 'c)
     \<Rightarrow> (AclEntryFilter list \<Rightarrow> 'c \<Rightarrow> (AdminError + DeleteAclsOutcome list) \<times> 'c) \<Rightarrow> 'c AclsEnv" where
  "with_acl_changes env create delete = env\<lparr>ax_create_acls := create, ax_delete_acls := delete\<rparr>"

lemma calls_with_acl_changes:
  "ax_connect (with_acl_changes env c d) = ax_connect env"
  "ax_describe_acls (with_acl_changes env c d) = ax_describe_acls env"
  "ax_terminal (with_acl_changes env c d) = ax_terminal env"
  "ax_create_acls (with_acl_changes env c d) = c"
  "ax_delete_acls (with_acl_changes env c d) = d"
  by (simp_all add: with_acl_changes_def)

lemma list_from_with_changes: "list_from (with_acl_changes env c d) acls fs = list_from env acls fs"
  by (induction fs arbitrary: acls) (simp_all add: calls_with_acl_changes)

lemma matching_acls_with_changes: "matching_acls (with_acl_changes env c d) found fs = matching_acls env found fs"
  by (induction fs arbitrary: found) (simp_all add: calls_with_acl_changes)

lemma add_from_with_changes:
  "dry_run \<or> c = ax_create_acls env \<Longrightarrow> add_from (with_acl_changes env c d) dry_run report steps = add_from env dry_run report steps"
  by (induction steps arbitrary: report) (auto simp: calls_with_acl_changes create_missing_def cong: if_cong sum.case_cong option.case_cong)

lemma remove_from_with_changes:
  "dry_run \<or> d = ax_delete_acls env \<Longrightarrow> remove_from (with_acl_changes env c d) dry_run report steps = remove_from env dry_run report steps"
  by (induction steps arbitrary: report)
    (auto simp: calls_with_acl_changes matching_acls_with_changes deleted_acls_def cong: if_cong sum.case_cong option.case_cong)

definition acls_declined :: "AclsArgs \<Rightarrow> Terminal \<Rightarrow> bool" where
  "acls_declined self terminal \<longleftrightarrow>
     (\<forall>impact. \<exists>refusal. confirm (ca_yes (ac_confirm self) \<or> ac_force self) terminal ''krabka acls'' impact = Inl refusal)"

text \<open>C27. \<open>kafka-acls\<close> creates ACLs only under \<open>--add\<close>, and deletes them only under \<open>--remove\<close> that \<open>--yes\<close>, \<open>--force\<close> or the operator confirms; a dry
  run does neither. Otherwise its outcome does not depend on these operations of the client.\<close>

theorem acls_change_only_their_own:
  assumes "ac_add self \<and> \<not> ca_dry_run (ac_confirm self) \<longrightarrow> create = ax_create_acls env"
    and "ac_remove self \<and> \<not> ca_dry_run (ac_confirm self) \<and> \<not> acls_declined self (ax_terminal env) \<longrightarrow> delete = ax_delete_acls env"
  shows "run_acls (with_acl_changes env create delete) self = run_acls env self"
proof (cases "acls_plan self")
  case (Inl e)
  then show ?thesis by (simp add: run_acls_def execute_acls_def cmd_res_def cmd_simps)
next
  case (Inr plan)
  note accepted = acls_plan_steps [OF Inr]
  show ?thesis
  proof (cases plan)
    case (ListAcls filters ps)
    with Inr show ?thesis
      by (simp add: run_acls_def execute_acls_def cmd_res_def cmd_simps calls_with_acl_changes list_from_with_changes)
  next
    case (AddAcls acls)
    with accepted assms(1) have "ca_dry_run (ac_confirm self) \<or> create = ax_create_acls env" by auto
    with Inr AddAcls show ?thesis
      by (simp add: run_acls_def execute_acls_def cmd_res_def cmd_simps calls_with_acl_changes add_acls_def add_from_with_changes)
  next
    case (RemoveAcls acls)
    with accepted have remove: "ac_remove self" by auto
    show ?thesis
    proof (cases "ca_dry_run (ac_confirm self) \<or> delete = ax_delete_acls env")
      case True
      with Inr RemoveAcls show ?thesis
        by (simp add: run_acls_def execute_acls_def cmd_res_def cmd_simps calls_with_acl_changes remove_acls_def remove_from_with_changes)
    next
      case False
      with assms(2) remove have declined: "acls_declined self (ax_terminal env)" by blast
      have refuses: "cmd_confirm (confirm (ca_yes (ac_confirm self) \<or> ac_force self) (ax_terminal env) ''krabka acls'' impact) =
          cmd_fail (ErrRefused (projl (confirm (ca_yes (ac_confirm self) \<or> ac_force self) (ax_terminal env) ''krabka acls'' impact)))" for impact
      proof -
        obtain refusal where "confirm (ca_yes (ac_confirm self) \<or> ac_force self) (ax_terminal env) ''krabka acls'' impact = Inl refusal"
          using declined unfolding acls_declined_def by blast
        then show ?thesis by (simp add: cmd_confirm_def)
      qed
      show ?thesis using False Inr RemoveAcls
        by (simp add: run_acls_def execute_acls_def cmd_res_def cmd_simps calls_with_acl_changes refuses)
    qed
  qed
qed

section \<open>A sample broker\<close>

definition sample_acls_env :: "AclEntry list AclsEnv" where
  "sample_acls_env =
     \<lparr>ax_connect = cmd_ret (), ax_describe_acls = (\<lambda>f st. (Inr (filter (filter_matches f) st), st)),
      ax_create_acls = (\<lambda>new st. (Inr (map (\<lambda>_. None) new), st @ new)),
      ax_delete_acls = (\<lambda>fs st. (Inr (map (\<lambda>f. \<lparr>do_matched = filter (filter_matches f) st, do_error = None\<rparr>) fs),
        filter (\<lambda>a. \<not> list_ex (\<lambda>f. filter_matches f a) fs) st)),
      ax_terminal = \<lparr>tm_interactive = False, tm_write_ok = False, tm_line = None\<rparr>\<rparr>"

definition sample_acl_args :: AclsArgs where
  "sample_acl_args =
     \<lparr>ac_bootstrap_server = [''localhost:9092''], ac_bootstrap_controller = [], ac_add = True, ac_remove = False, ac_list = False,
      ac_topic = [''orders''], ac_cluster = False, ac_group = [], ac_transactional_id = [], ac_delegation_token = [], ac_user_principal = [],
      ac_resource_pattern_type = ''literal'', ac_operation = [], ac_allow_principal = [''User:alice''], ac_deny_principal = [],
      ac_principal = None, ac_allow_host = [], ac_deny_host = [], ac_producer = True, ac_consumer = False, ac_idempotent = False,
      ac_force = True, ac_confirm = \<lparr>ca_dry_run = False, ca_yes = False\<rparr>\<rparr>"

definition sample_acls :: Acls where
  "sample_acls =
     [(Resource Kind_Topic ''orders'' Pattern_Literal,
       map (\<lambda>op. Entry ''User:alice'' ''*'' op Permission_Allow) [Write, Create, Describe])]"

lemma sample_add_plan: "acls_plan sample_acl_args = Inr (AddAcls sample_acls)"
  by code_simp

lemma sample_remove_plan: "acls_plan (sample_acl_args\<lparr>ac_add := False, ac_remove := True\<rparr>) = Inr (RemoveAcls sample_acls)"
  by code_simp

theorem resource_acls_expand_witness:
  "\<exists>rs. resource_filters sample_acl_args Pattern_Literal True = Inr rs
    \<and> map fst sample_acls = sorted_list_of_set {r \<in> set rs. requested_operations sample_acl_args (rs_kind r) \<noteq> {}}"
proof -
  have acls: "resource_acls sample_acl_args Pattern_Literal = Inr sample_acls" by code_simp
  have role: "ac_idempotent sample_acl_args \<longrightarrow> ac_producer sample_acl_args" "\<not> ac_idempotent sample_acl_args" by (simp_all add: sample_acl_args_def)
  from resource_acls_expand [OF acls role(1)] role(2) show ?thesis by auto
qed

theorem acls_plan_accepts_witness:
  "acls_plan sample_acl_args = Inr (AddAcls sample_acls) \<and> ac_topic sample_acl_args \<noteq> [] \<and> (\<exists>steps. add_steps sample_acls = Inr steps)"
  using acls_plan_accepts [OF sample_add_plan] sample_add_plan by (simp add: sample_acl_args_def)

theorem acls_change_only_their_own_witness:
  "run_acls (with_acl_changes sample_acls_env (ax_create_acls sample_acls_env) (\<lambda>_ st. (Inl (AdminOther []), []))) sample_acl_args =
     run_acls sample_acls_env sample_acl_args"
  by (rule acls_change_only_their_own) (simp_all add: sample_acl_args_def)

end
