(* ===== verification/Acls_Broker.thy ===== *)
theory Acls_Broker
  imports Acls_Safety
begin

text \<open>
  \<open>kafka-acls\<close> against a broker that keeps a set of ACLs. \<open>acl_broker\<close> states what the commands rely on: describing answers the entries that a
  filter matches, creating adds entries, deleting removes what the filters match and says which entries those were; a filter that names a principal, a host, an
  operation or a permission matches only entries that have it. How a filter matches the resource of an entry is the broker's.

  What a command line asks for is written out from its flags: \<open>requested_acls\<close> for \<open>--add\<close> and \<open>removed_for\<close> for \<open>--remove\<close>.
\<close>

section \<open>The broker\<close>

definition resource_part :: "AclEntryFilter \<Rightarrow> AclEntryFilter" where
  "resource_part f = f\<lparr>fl_principal := None, fl_host := None, fl_operation := None, fl_permission_type := None\<rparr>"

definition acl_broker :: "'c AclsEnv \<Rightarrow> (AclEntryFilter \<Rightarrow> AclEntry \<Rightarrow> bool) \<Rightarrow> ('c \<Rightarrow> AclEntry set) \<Rightarrow> bool" where
  "acl_broker env matches store \<longleftrightarrow>
     (\<forall>f st. \<exists>acls. ax_describe_acls env f st = (Inr acls, st) \<and> set acls = {a \<in> store st. matches f a})
   \<and> (\<forall>new st. \<exists>outcomes st'. ax_create_acls env new st = (Inr outcomes, st') \<and> set outcomes \<subseteq> {None} \<and> store st' = store st \<union> set new)
   \<and> (\<forall>fs st. \<exists>outcomes st'. ax_delete_acls env fs st = (Inr outcomes, st') \<and> (\<forall>r \<in> set outcomes. do_error r = None)
        \<and> (\<Union>r \<in> set outcomes. set (do_matched r)) = {a \<in> store st. \<exists>f \<in> set fs. matches f a}
        \<and> store st' = {a \<in> store st. \<not> (\<exists>f \<in> set fs. matches f a)})
   \<and> (\<forall>a. matches (resource_wire_filter (fst (binding a))) a)
   \<and> (\<forall>f a. matches f a \<longleftrightarrow> matches (resource_part f) a
        \<and> (\<forall>p. fl_principal f = Some p \<longrightarrow> ae_principal a = p) \<and> (\<forall>h. fl_host f = Some h \<longrightarrow> ae_host a = h)
        \<and> (\<forall>op. fl_operation f = Some op \<longrightarrow> ae_operation a = op) \<and> (\<forall>m. fl_permission_type f = Some m \<longrightarrow> ae_permission_type a = m))
   \<and> (\<forall>st. ax_connect env st = Some (Inr (), st))"

lemma acl_brokerD:
  assumes "acl_broker env matches store"
  shows "\<exists>acls. ax_describe_acls env f st = (Inr acls, st) \<and> set acls = {a \<in> store st. matches f a}"
    and "\<exists>outcomes st'. ax_create_acls env new st = (Inr outcomes, st') \<and> set outcomes \<subseteq> {None} \<and> store st' = store st \<union> set new"
    and "\<exists>outcomes st'. ax_delete_acls env fs st = (Inr outcomes, st') \<and> (\<forall>r \<in> set outcomes. do_error r = None)
        \<and> (\<Union>r \<in> set outcomes. set (do_matched r)) = {a \<in> store st. \<exists>f \<in> set fs. matches f a}
        \<and> store st' = {a \<in> store st. \<not> (\<exists>f \<in> set fs. matches f a)}"
    and "matches (resource_wire_filter (fst (binding a))) a"
    and "ax_connect env st = Some (Inr (), st)"
    and "matches f a \<longleftrightarrow> matches (resource_part f) a
        \<and> (\<forall>p. fl_principal f = Some p \<longrightarrow> ae_principal a = p) \<and> (\<forall>h. fl_host f = Some h \<longrightarrow> ae_host a = h)
        \<and> (\<forall>op. fl_operation f = Some op \<longrightarrow> ae_operation a = op) \<and> (\<forall>m. fl_permission_type f = Some m \<longrightarrow> ae_permission_type a = m)"
proof -
  note laws = assms [unfolded acl_broker_def]
  show "\<exists>acls. ax_describe_acls env f st = (Inr acls, st) \<and> set acls = {a \<in> store st. matches f a}"
    by (rule laws [THEN conjunct1, THEN spec, THEN spec])
  show "\<exists>outcomes st'. ax_create_acls env new st = (Inr outcomes, st') \<and> set outcomes \<subseteq> {None} \<and> store st' = store st \<union> set new"
    by (rule laws [THEN conjunct2, THEN conjunct1, THEN spec, THEN spec])
  show "\<exists>outcomes st'. ax_delete_acls env fs st = (Inr outcomes, st') \<and> (\<forall>r \<in> set outcomes. do_error r = None)
        \<and> (\<Union>r \<in> set outcomes. set (do_matched r)) = {a \<in> store st. \<exists>f \<in> set fs. matches f a}
        \<and> store st' = {a \<in> store st. \<not> (\<exists>f \<in> set fs. matches f a)}"
    by (rule laws [THEN conjunct2, THEN conjunct2, THEN conjunct1, THEN spec, THEN spec])
  show "matches (resource_wire_filter (fst (binding a))) a"
    by (rule laws [THEN conjunct2, THEN conjunct2, THEN conjunct2, THEN conjunct1, THEN spec])
  show "ax_connect env st = Some (Inr (), st)"
    by (rule laws [THEN conjunct2, THEN conjunct2, THEN conjunct2, THEN conjunct2, THEN conjunct2, THEN spec])
  show "matches f a \<longleftrightarrow> matches (resource_part f) a
        \<and> (\<forall>p. fl_principal f = Some p \<longrightarrow> ae_principal a = p) \<and> (\<forall>h. fl_host f = Some h \<longrightarrow> ae_host a = h)
        \<and> (\<forall>op. fl_operation f = Some op \<longrightarrow> ae_operation a = op) \<and> (\<forall>m. fl_permission_type f = Some m \<longrightarrow> ae_permission_type a = m)"
    by (rule laws [THEN conjunct2, THEN conjunct2, THEN conjunct2, THEN conjunct2, THEN conjunct1, THEN spec, THEN spec])
qed

lemma creation_error_None:
  assumes "set outcomes \<subseteq> {None}"
  shows "creation_error (Inr outcomes) = None"
proof -
  have "List.find (\<lambda>err. err \<noteq> None) outcomes = None" using assms by (auto simp: find_None_iff)
  then show ?thesis by (simp add: creation_error_def)
qed

section \<open>What the flags ask for\<close>

text \<open>The resources that the flags name. A transactional id is taken as it is written, every other name is trimmed; the cluster is one resource.\<close>

definition named_resources :: "AclsArgs \<Rightarrow> PatternKind \<Rightarrow> Resource set" where
  "named_resources self pattern =
     (\<lambda>name. Resource Kind_Topic (trim name) pattern) ` set (ac_topic self)
     \<union> (\<lambda>name. Resource Kind_Group (trim name) pattern) ` set (ac_group self)
     \<union> (\<lambda>name. Resource Kind_TransactionalId name pattern) ` set (ac_transactional_id self)
     \<union> (\<lambda>name. Resource Kind_DelegationToken (trim name) pattern) ` set (ac_delegation_token self)
     \<union> (\<lambda>name. Resource Kind_User (trim name) pattern) ` set (ac_user_principal self)
     \<union> (if ac_idempotent self \<or> ac_cluster self \<and> pattern = Pattern_Literal then {Resource Kind_Cluster ''kafka-cluster'' Pattern_Literal} else {})"

text \<open>The entries on a resource of a kind: every principal of a permission, from each of its hosts or from everywhere, for each operation.\<close>

definition asked_entries :: "AclsArgs \<Rightarrow> ResourceKind \<Rightarrow> Entry set" where
  "asked_entries self kind =
     {e. en_operation e \<in> requested_operations self kind
       \<and> (case en_permission e of
            Permission_Allow \<Rightarrow> en_principal e \<in> trim ` set (ac_allow_principal self)
              \<and> en_host e \<in> (if ac_allow_host self = [] then {''*''} else trim ` set (ac_allow_host self))
          | Permission_Deny \<Rightarrow> en_principal e \<in> trim ` set (ac_deny_principal self)
              \<and> en_host e \<in> (if ac_deny_host self = [] then {''*''} else trim ` set (ac_deny_host self)))}"

definition requested_acls :: "AclsArgs \<Rightarrow> AclEntry set" where
  "requested_acls self =
     {a. \<exists>pattern. pattern_parse (ac_resource_pattern_type self) = Inr pattern
       \<and> fst (binding a) \<in> named_resources self pattern \<and> snd (binding a) \<in> asked_entries self (rs_kind (fst (binding a)))}"

text \<open>An ACL is removed for a resource of the flags when the broker matches it for the resource and its entry is one that the flags ask for, or the flags name
  no principal. A role leaves the resources of other kinds alone.\<close>

definition removed_for :: "(AclEntryFilter \<Rightarrow> AclEntry \<Rightarrow> bool) \<Rightarrow> AclsArgs \<Rightarrow> Resource \<Rightarrow> AclEntry \<Rightarrow> bool" where
  "removed_for matches self r a \<longleftrightarrow>
     (\<exists>pattern. pattern_parse (ac_resource_pattern_type self) = Inr pattern \<and> r \<in> named_resources self pattern)
     \<and> requested_operations self (rs_kind r) \<noteq> {}
     \<and> matches \<lparr>fl_resource_type = Some (kind_to_wire (rs_kind r)), fl_resource_name = Some (rs_name r),
         fl_pattern_type = pattern_to_wire_filter (rs_pattern_type r), fl_principal = None, fl_host = None, fl_operation = None, fl_permission_type = None\<rparr> a
     \<and> (ac_allow_principal self = [] \<and> ac_deny_principal self = [] \<or> snd (binding a) \<in> asked_entries self (rs_kind r))"

lemma asked_entries_wanted: "asked_entries self kind = wanted_entries self (requested_operations self kind)"
proof -
  have "e \<in> asked_entries self kind \<longleftrightarrow> e \<in> wanted_entries self (requested_operations self kind)" for e
    by (cases e; cases "en_permission e")
      (auto simp: asked_entries_def wanted_entries_def hosts_def WILDCARD_HOST_def)
  then show ?thesis by blast
qed

lemma asked_entries_empty:
  assumes "requested_operations self kind \<noteq> {}"
  shows "asked_entries self kind = {} \<longleftrightarrow> ac_allow_principal self = [] \<and> ac_deny_principal self = []"
proof -
  obtain op where op: "op \<in> requested_operations self kind" using assms by blast
  have "Entry (trim p) (if ac_allow_host self = [] then ''*'' else trim (hd (ac_allow_host self))) op Permission_Allow \<in> asked_entries self kind"
    if "p \<in> set (ac_allow_principal self)" for p
    using that op by (auto simp: asked_entries_def)
  moreover have "Entry (trim p) (if ac_deny_host self = [] then ''*'' else trim (hd (ac_deny_host self))) op Permission_Deny \<in> asked_entries self kind"
    if "p \<in> set (ac_deny_principal self)" for p
    using that op by (auto simp: asked_entries_def)
  ultimately have "asked_entries self kind = {} \<Longrightarrow> ac_allow_principal self = [] \<and> ac_deny_principal self = []"
    by (cases "ac_allow_principal self"; cases "ac_deny_principal self") auto
  moreover have "asked_entries self kind = {}" if "ac_allow_principal self = [] \<and> ac_deny_principal self = []"
    using that by (auto simp: asked_entries_def split: Permission.splits)
  ultimately show ?thesis by blast
qed

lemma resource_filters_named:
  assumes "resource_filters self pattern True = Inr rs"
  shows "set rs \<union> (if ac_idempotent self then {resource_cluster} else {}) = named_resources self pattern"
proof -
  let ?named = "\<lambda>kind names. map (\<lambda>name. Resource kind name pattern) names"
  let ?all = "?named Kind_Topic (map trim (ac_topic self)) @
     (if pattern = Pattern_Literal \<and> (ac_cluster self \<or> ac_idempotent self) then [resource_cluster] else []) @
     ?named Kind_Group (map trim (ac_group self)) @ ?named Kind_TransactionalId (ac_transactional_id self) @
     ?named Kind_DelegationToken (map trim (ac_delegation_token self)) @ ?named Kind_User (map trim (ac_user_principal self))"
  have "rs = bs_of_list ?all" using assms unfolding resource_filters_def Let_def by (metis sum.distinct(1) sum.inject(2))
  then have rs: "set rs = set ?all" by (simp only: bs_of_list_eq sorted_list_of_set.set_sorted_key_list_of_set finite_set)
  have cluster: "set (if pattern = Pattern_Literal \<and> (ac_cluster self \<or> ac_idempotent self) then [resource_cluster] else [])
      \<union> (if ac_idempotent self then {resource_cluster} else {}) =
      (if ac_idempotent self \<or> ac_cluster self \<and> pattern = Pattern_Literal then {Resource Kind_Cluster ''kafka-cluster'' Pattern_Literal} else {})"
    by (auto simp: resource_cluster_def CLUSTER_NAME_def)
  show ?thesis unfolding rs named_resources_def cluster [symmetric] set_append set_map image_image by (rule set_eqI) (simp only: Un_iff, blast)
qed

text \<open>A plan has a row for each named resource on whose kind there are operations, with the entries that the flags ask for.\<close>

lemma resource_acls_rows:
  assumes "resource_acls self pattern = Inr acls" and "ac_idempotent self \<longrightarrow> ac_producer self"
  shows "distinct (map fst acls)"
    and "(r, es) \<in> set acls \<longleftrightarrow> r \<in> named_resources self pattern \<and> requested_operations self (rs_kind r) \<noteq> {}
      \<and> es = sorted_list_of_set (asked_entries self (rs_kind r))"
proof -
  obtain rs where rs: "resource_filters self pattern True = Inr rs" and ok: "bt_ok acls"
    and entries: "map_of acls r = (if r \<in> set rs \<union> (if ac_idempotent self then {resource_cluster} else {}) \<and> requested_operations self (rs_kind r) \<noteq> {}
      then Some (sorted_list_of_set (wanted_entries self (requested_operations self (rs_kind r)))) else None)" for r
    using resource_acls_map [OF assms] by blast
  show dist: "distinct (map fst acls)" by (rule bt_ok_distinct [OF ok])
  have "(r, es) \<in> set acls \<longleftrightarrow> map_of acls r = Some es" using dist by simp
  then show "(r, es) \<in> set acls \<longleftrightarrow> r \<in> named_resources self pattern \<and> requested_operations self (rs_kind r) \<noteq> {}
      \<and> es = sorted_list_of_set (asked_entries self (rs_kind r))"
    unfolding entries resource_filters_named [OF rs] asked_entries_wanted by auto
qed

section \<open>Adding\<close>

definition step_ok :: "AddStep \<Rightarrow> bool" where
  "step_ok step \<longleftrightarrow> as_existing step = resource_wire_filter (as_resource step)
     \<and> (\<forall>(e, a) \<in> set (as_creations step). binding a = (as_resource step, e))"

lemma create_missing_creates:
  assumes "acl_broker env matches store"
  shows "\<exists>st'. create_missing env False absent st = Some (Inr None, st') \<and> store st' = store st \<union> snd ` set absent
    \<and> (absent = [] \<longrightarrow> st' = st)"
proof (cases "absent = []")
  case True
  then show ?thesis by (simp add: create_missing_def cmd_ret_def)
next
  case False
  obtain outcomes st' where "ax_create_acls env (map snd absent) st = (Inr outcomes, st')" "set outcomes \<subseteq> {None}"
      "store st' = store st \<union> set (map snd absent)"
    using acl_brokerD(2) [OF assms] by blast
  with False show ?thesis by (simp add: create_missing_def cmd_bind_def cmd_call_def cmd_ret_def creation_error_None)
qed

lemma add_from_creates:
  assumes broker: "acl_broker env matches store" and "list_all step_ok steps"
  shows "\<exists>report' st'. add_from env False report steps st = Some (Inr report', st') \<and> ap_failed report' = ap_failed report
    \<and> store st' = store st \<union> (\<Union>step \<in> set steps. snd ` set (as_creations step))
    \<and> ((\<Union>step \<in> set steps. snd ` set (as_creations step)) \<subseteq> store st \<longrightarrow> st' = st)"
  using assms(2)
proof (induction steps arbitrary: report st)
  case Nil
  then show ?case by (simp add: cmd_ret_def)
next
  case (Cons step steps)
  let ?r = "as_resource step" and ?new = "snd ` set (as_creations step)"
  obtain existing where existing: "ax_describe_acls env (as_existing step) st = (Inr existing, st)"
      "set existing = {a \<in> store st. matches (as_existing step) a}"
    using acl_brokerD(1) [OF broker] by blast
  let ?known = "\<lambda>(e, _ :: AclEntry). (?r, e) \<in> set (map binding existing)"
  define absent where "absent = filter (\<lambda>c. \<not> ?known c) (as_creations step)"
  have ok: "step_ok step" using Cons.prems by simp
  have known: "?known c \<longleftrightarrow> snd c \<in> store st" if "c \<in> set (as_creations step)" for c
  proof -
    obtain e a where c: "c = (e, a)" by (cases c)
    with that ok have bound: "binding a = (?r, e)" "as_existing step = resource_wire_filter ?r" by (auto simp: step_ok_def)
    have "?known c \<longleftrightarrow> a \<in> set existing" by (auto simp: c image_iff bound(1) [symmetric] binding_inj)
    also have "\<dots> \<longleftrightarrow> a \<in> store st" using existing(2) acl_brokerD(4) [OF broker, of a] bound by simp
    finally show ?thesis by (simp add: c)
  qed
  have missing: "set absent = {c \<in> set (as_creations step). snd c \<notin> store st}" unfolding absent_def set_filter using known by blast
  then have absent: "snd ` set absent \<union> store st = ?new \<union> store st" "?new \<subseteq> store st \<longrightarrow> absent = []"
    by (force, auto simp flip: set_empty)
  obtain st1 where create: "create_missing env False absent st = Some (Inr None, st1)"
      "store st1 = store st \<union> snd ` set absent" "absent = [] \<longrightarrow> st1 = st"
    using create_missing_creates [OF broker] by blast
  obtain report1 where step: "add_from env False report (step # steps) st = add_from env False report1 steps st1" "ap_failed report1 = ap_failed report"
    using create(1) existing(1) by (fastforce simp: cmd_bind_def cmd_call_def Let_def absent_def)
  have "list_all step_ok steps" using Cons.prems by simp
  from Cons.IH [OF this, of report1 st1] obtain report' st' where
      rest: "add_from env False report1 steps st1 = Some (Inr report', st')" "ap_failed report' = ap_failed report1"
        "store st' = store st1 \<union> (\<Union>step \<in> set steps. snd ` set (as_creations step))"
        "(\<Union>step \<in> set steps. snd ` set (as_creations step)) \<subseteq> store st1 \<longrightarrow> st' = st1"
    by blast
  have st1: "store st1 = store st \<union> ?new" using create(2) absent(1) by blast
  show ?case
  proof (intro exI conjI impI)
    show "add_from env False report (step # steps) st = Some (Inr report', st')" using step(1) rest(1) by (rule trans)
    show "ap_failed report' = ap_failed report" using step(2) rest(2) by simp
    show "store st' = store st \<union> (\<Union>step \<in> set (step # steps). snd ` set (as_creations step))"
      unfolding rest(3) st1 list.set UN_insert Un_assoc ..
    assume "(\<Union>step \<in> set (step # steps). snd ` set (as_creations step)) \<subseteq> store st"
    then have "?new \<subseteq> store st" "(\<Union>step \<in> set steps. snd ` set (as_creations step)) \<subseteq> store st" unfolding list.set UN_insert by blast+
    then show "st' = st" using rest(4) create(3) absent(2) by simp
  qed
qed

lemma add_steps_creations:
  assumes "add_steps acls = Inr steps"
  shows "list_all step_ok steps \<and> (\<Union>step \<in> set steps. snd ` set (as_creations step)) =
    {a. \<exists>(r, es) \<in> set acls. is_specific (rs_pattern_type r) \<and> fst (binding a) = r \<and> snd (binding a) \<in> set es}"
proof -
  have step: "step_ok step \<and> snd ` set (as_creations step) =
      {a. is_specific (rs_pattern_type (fst row)) \<and> fst (binding a) = fst row \<and> snd (binding a) \<in> set (snd row)}"
    if row: "add_step row = Inr step" for row step
  proof -
    obtain r es where row': "row = (r, es)" by (cases row)
    with row obtain cs where cs: "collect_res (\<lambda>e. map_sum id (Pair e) (entry_wire r e)) es = Inr cs"
      and step: "step = \<lparr>as_resource = r, as_existing = resource_wire_filter r, as_creations = cs\<rparr>"
      by (auto simp: add_step_def res_bind_Inr_iff)
    from cs have all: "list_all2 (\<lambda>e c. is_specific (rs_pattern_type r) \<and> fst c = e \<and> binding (snd c) = (r, e)) es cs"
      unfolding collect_res_Inr_iff by (rule list_all2_mono) (auto simp: map_sum_def entry_wire_iff split: sum.splits)
    then have cs: "binding ` snd ` set cs = (\<lambda>e. (r, e)) ` set es" "\<forall>c \<in> set cs. is_specific (rs_pattern_type r) \<and> binding (snd c) = (r, fst c)"
      by (induction es cs rule: list_all2_induct) auto
    have "a \<in> snd ` set cs \<longleftrightarrow> binding a \<in> binding ` snd ` set cs" for a
      using inj_image_mem_iff [of binding a "snd ` set cs"] binding_inj by (simp add: inj_def)
    then have "a \<in> snd ` set cs \<longleftrightarrow> fst (binding a) = r \<and> snd (binding a) \<in> set es" for a
      unfolding cs(1) by (cases "binding a") auto
    moreover have "step_ok step" using cs(2) by (auto simp: step step_ok_def)
    moreover have "is_specific (rs_pattern_type r)" if "a \<in> snd ` set cs" for a using that cs(2) by auto
    ultimately show ?thesis unfolding step row' by auto
  qed
  from assms have "list_all2 (\<lambda>row step. add_step row = Inr step) acls steps" by (simp add: add_steps_def collect_res_Inr_iff)
  then show ?thesis
  proof (induction acls steps rule: list_all2_induct)
    case (Cons row rows st sts)
    with step [OF Cons.hyps(1)] show ?case by auto
  qed simp
qed

text \<open>The ACLs that a map of entries stands for.\<close>

definition acls_of :: "Acls \<Rightarrow> AclEntry set" where
  "acls_of acls = {a. \<exists>(r, es) \<in> set acls. fst (binding a) = r \<and> snd (binding a) \<in> set es}"

lemma acls_of_requested:
  assumes "resource_acls self pattern = Inr acls" and "ac_idempotent self \<longrightarrow> ac_producer self"
    and "pattern_parse (ac_resource_pattern_type self) = Inr pattern"
  shows "acls_of acls = requested_acls self"
proof -
  have "finite (asked_entries self kind)" for kind by (simp add: asked_entries_wanted finite_wanted_entries)
  moreover have "requested_operations self kind \<noteq> {}" if "e \<in> asked_entries self kind" for e kind using that by (auto simp: asked_entries_def)
  moreover have "a \<in> acls_of acls \<longleftrightarrow> (\<exists>es. (fst (binding a), es) \<in> set acls \<and> snd (binding a) \<in> set es)" for a
    by (auto simp: acls_of_def)
  ultimately have "a \<in> acls_of acls \<longleftrightarrow> fst (binding a) \<in> named_resources self pattern
      \<and> snd (binding a) \<in> asked_entries self (rs_kind (fst (binding a)))" for a
    unfolding resource_acls_rows(2) [OF assms(1,2)] by auto
  then show ?thesis by (auto simp: requested_acls_def assms(3))
qed

lemma acls_plan_resources:
  assumes "acls_plan self = Inr plan" and "plan = AddAcls acls \<or> plan = RemoveAcls acls"
  obtains pattern where "pattern_parse (ac_resource_pattern_type self) = Inr pattern" and "resource_acls self pattern = Inr acls"
    and "ac_idempotent self \<longrightarrow> ac_producer self"
proof -
  from assms obtain pattern where "check_acl_args self = Inr ()" "pattern_parse (ac_resource_pattern_type self) = Inr pattern"
      "resource_acls self pattern = Inr acls"
    by (auto simp: acls_plan_def res_bind_Inr_iff map_sum_def split: if_splits sum.splits)
  then show thesis using check_acl_args_given(2) that by blast
qed

lemma acls_plan_action:
  assumes "acls_plan self = Inr plan"
  shows "ac_add self \<Longrightarrow> \<exists>acls. plan = AddAcls acls" and "ac_remove self \<Longrightarrow> \<exists>acls. plan = RemoveAcls acls"
proof -
  have "count_given [ac_add self, ac_remove self, ac_list self] = 1"
    using check_acl_args_given(1) acls_plan_steps [OF assms] by blast
  with acls_plan_steps [OF assms] show "ac_add self \<Longrightarrow> \<exists>acls. plan = AddAcls acls" "ac_remove self \<Longrightarrow> \<exists>acls. plan = RemoveAcls acls"
    by (auto simp: count_given_def split: AclPlan.splits if_splits)
qed

lemma run_add:
  assumes "acl_broker env matches store" and "acls_plan self = Inr (AddAcls acls)" and "\<not> ca_dry_run (ac_confirm self)"
  shows "\<exists>result st'. run_acls env self st = Some (Inr result, st') \<and> \<not> cr_failed result
    \<and> store st' = store st \<union> acls_of acls \<and> (acls_of acls \<subseteq> store st \<longrightarrow> st' = st)"
proof -
  from acls_plan_steps [OF assms(2)] obtain steps where steps: "add_steps acls = Inr steps"
    and specific: "\<forall>(r, es) \<in> set acls. is_specific (rs_pattern_type r)" by auto
  have created: "(\<Union>step \<in> set steps. snd ` set (as_creations step)) = acls_of acls"
    unfolding add_steps_creations [OF steps, THEN conjunct2] acls_of_def using specific by (intro Collect_cong bex_cong) auto
  obtain report' st' where run: "add_from env False empty_acl_report steps st = Some (Inr report', st')" "\<not> ap_failed report'"
      "store st' = store st \<union> acls_of acls" "acls_of acls \<subseteq> store st \<longrightarrow> st' = st"
    using add_from_creates [OF assms(1) add_steps_creations [OF steps, THEN conjunct1], of empty_acl_report st]
    unfolding created by (elim exE conjE) (rule that, assumption, simp add: empty_acl_report_def, assumption+)
  have plan: "cmd_res (acls_plan self) = cmd_ret (AddAcls acls)" "cmd_res (add_steps acls) = cmd_ret steps"
    using assms(2) steps by (simp_all add: cmd_res_def)
  have "add_acls env steps False st = Some (Inr (report_finish report' False), st')"
    using run(1) by (simp add: add_acls_def cmd_bind_def cmd_ret_def)
  then have "run_acls env self st = Some (Inr (report_finish report' False), st')"
    using assms(3) acl_brokerD(5) [OF assms(1)] unfolding run_acls_def execute_acls_def plan Let_def cmd_bind_ret AclPlan.case
    by (simp add: cmd_bind_def)
  with run show ?thesis by (simp add: report_finish_def result_rows_def)
qed

text \<open>C25. Where the command line is accepted and the broker keeps its contract and never fails, \<open>--add\<close> without \<open>--dry-run\<close> ends with a report that is no
  failure, and leaves the broker with the ACLs that it had and exactly those that the flags ask for: on each named resource, each principal from each host (or from
  everywhere) with each operation, of \<open>--operation\<close> or of the roles. If it had them all, nothing is sent.\<close>

theorem add_leaves_requested:
  assumes "acl_broker env matches store" and "acls_plan self = Inr plan" and "ac_add self" and "\<not> ca_dry_run (ac_confirm self)"
  shows "\<exists>result st'. run_acls env self st = Some (Inr result, st') \<and> \<not> cr_failed result
    \<and> store st' = store st \<union> requested_acls self \<and> (requested_acls self \<subseteq> store st \<longrightarrow> st' = st)"
proof -
  obtain acls where acls: "plan = AddAcls acls" using acls_plan_action(1) [OF assms(2,3)] by blast
  obtain pattern where "pattern_parse (ac_resource_pattern_type self) = Inr pattern" "resource_acls self pattern = Inr acls"
      "ac_idempotent self \<longrightarrow> ac_producer self"
    using acls_plan_resources [OF assms(2)] acls by blast
  then have "acls_of acls = requested_acls self" by (intro acls_of_requested)
  with run_add [OF assms(1) assms(2) [unfolded acls] assms(4), of st] show ?thesis by simp
qed

section \<open>Removing\<close>

text \<open>The ACLs that a step of \<open>--remove\<close> hits, and the row that reports them.\<close>

definition hit :: "(AclEntryFilter \<Rightarrow> AclEntry \<Rightarrow> bool) \<Rightarrow> RemoveStep \<Rightarrow> AclEntry \<Rightarrow> bool" where
  "hit matches step a \<longleftrightarrow> (\<exists>f \<in> set (rm_filters step). matches f a)"

definition hit_row :: "(AclEntryFilter \<Rightarrow> AclEntry \<Rightarrow> bool) \<Rightarrow> AclEntry set \<Rightarrow> RemoveStep \<Rightarrow> json" where
  "hit_row matches acls step = remove_row step (sorted_list_of_set (binding ` {a \<in> acls. hit matches step a})) None"

fun removal_rows :: "(AclEntryFilter \<Rightarrow> AclEntry \<Rightarrow> bool) \<Rightarrow> AclEntry set \<Rightarrow> RemoveStep list \<Rightarrow> json list" where
  "removal_rows matches acls [] = []"
| "removal_rows matches acls (step # steps) = hit_row matches acls step # removal_rows matches {a \<in> acls. \<not> hit matches step a} steps"

lemma matching_acls_found:
  assumes "acl_broker env matches store"
  shows "\<exists>found. matching_acls env acc fs st = Some (Inr (acc @ found, None), st) \<and> set found = binding ` {a \<in> store st. \<exists>f \<in> set fs. matches f a}"
proof (induction fs arbitrary: acc)
  case Nil
  then show ?case by (simp add: cmd_ret_def)
next
  case (Cons f fs)
  obtain acls where d: "ax_describe_acls env f st = (Inr acls, st)" "set acls = {a \<in> store st. matches f a}"
    using acl_brokerD(1) [OF assms] by blast
  from Cons [of "acc @ map binding acls"] obtain found where
      rest: "matching_acls env (acc @ map binding acls) fs st = Some (Inr ((acc @ map binding acls) @ found, None), st)"
        "set found = binding ` {a \<in> store st. \<exists>f \<in> set fs. matches f a}" by blast
  have "set (map binding acls @ found) = binding ` {a \<in> store st. \<exists>g \<in> set (f # fs). matches g a}" using d(2) rest(2) by auto
  then show ?case using d(1) rest(1) by (intro exI [of _ "map binding acls @ found"]) (simp add: cmd_bind_def cmd_call_def)
qed

lemma deleted_acls_found:
  assumes "acl_broker env matches store"
  shows "\<exists>found st'. deleted_acls env fs st = Some (Inr (found, None), st') \<and> set found = binding ` {a \<in> store st. \<exists>f \<in> set fs. matches f a}
    \<and> store st' = {a \<in> store st. \<not> (\<exists>f \<in> set fs. matches f a)}"
proof -
  obtain outcomes st' where d: "ax_delete_acls env fs st = (Inr outcomes, st')" "\<forall>r \<in> set outcomes. do_error r = None"
      "(\<Union>r \<in> set outcomes. set (do_matched r)) = {a \<in> store st. \<exists>f \<in> set fs. matches f a}"
      "store st' = {a \<in> store st. \<not> (\<exists>f \<in> set fs. matches f a)}"
    using acl_brokerD(3) [OF assms, of fs st] by (elim exE conjE) (rule that)
  have none: "List.find (\<lambda>outcome. do_error outcome \<noteq> None) outcomes = None" using d(2) by (auto simp: find_None_iff)
  have "set (concat (map (\<lambda>outcome. map binding (do_matched outcome)) outcomes)) = binding ` (\<Union>r \<in> set outcomes. set (do_matched r))" by auto
  then show ?thesis using d none by (simp add: deleted_acls_def cmd_bind_def cmd_call_def cmd_ret_def)
qed

lemma remove_from_dry:
  assumes "acl_broker env matches store"
  shows "remove_from env True report steps st = Some (Inr (report\<lparr>ap_rows := ap_rows report @ map (hit_row matches (store st)) steps\<rparr>), st)"
proof (induction steps arbitrary: report)
  case Nil
  then show ?case by (simp add: cmd_ret_def)
next
  case (Cons step steps)
  obtain found where found: "matching_acls env [] (rm_filters step) st = Some (Inr (found, None), st)"
      "set found = binding ` {a \<in> store st. hit matches step a}"
    using matching_acls_found [OF assms, of "[]" "rm_filters step" st] by (auto simp: hit_def)
  then show ?case by (simp add: cmd_bind_def Let_def Cons bs_of_list_eq hit_row_def)
qed

lemma remove_from_real:
  assumes "acl_broker env matches store"
  shows "\<exists>st'. remove_from env False report steps st = Some (Inr (report\<lparr>ap_rows := ap_rows report @ removal_rows matches (store st) steps\<rparr>), st')
    \<and> store st' = {a \<in> store st. \<not> (\<exists>step \<in> set steps. hit matches step a)}"
proof (induction steps arbitrary: report st)
  case Nil
  then show ?case by (simp add: cmd_ret_def)
next
  case (Cons step steps)
  obtain found st1 where found: "deleted_acls env (rm_filters step) st = Some (Inr (found, None), st1)"
      "set found = binding ` {a \<in> store st. hit matches step a}" "store st1 = {a \<in> store st. \<not> hit matches step a}"
    using deleted_acls_found [OF assms, of "rm_filters step" st] by (auto simp: hit_def)
  obtain st' where rest: "remove_from env False (report\<lparr>ap_rows := ap_rows report @ [hit_row matches (store st) step]\<rparr>) steps st1 =
        Some (Inr (report\<lparr>ap_rows := ap_rows report @ removal_rows matches (store st) (step # steps)\<rparr>), st')"
      "store st' = {a \<in> store st1. \<not> (\<exists>step \<in> set steps. hit matches step a)}"
    using Cons [of "report\<lparr>ap_rows := ap_rows report @ [hit_row matches (store st) step]\<rparr>" st1] found(3) by auto
  have "remove_from env False report (step # steps) st = Some (Inr (report\<lparr>ap_rows := ap_rows report @ removal_rows matches (store st) (step # steps)\<rparr>), st')"
    using found(1,2) rest(1) by (simp add: cmd_bind_def Let_def bs_of_list_eq hit_row_def)
  then show ?case using rest(2) found(3) by auto
qed

lemma removal_rows_disjoint:
  "sorted_wrt (\<lambda>s t. \<forall>a \<in> acls. \<not> (hit matches s a \<and> hit matches t a)) steps \<Longrightarrow> removal_rows matches acls steps = map (hit_row matches acls) steps"
proof (induction steps arbitrary: acls)
  case (Cons step steps)
  let ?left = "{a \<in> acls. \<not> hit matches step a}"
  have "sorted_wrt (\<lambda>s t. \<forall>a \<in> ?left. \<not> (hit matches s a \<and> hit matches t a)) steps"
    using Cons.prems by (auto elim: sorted_wrt_mono_rel [rotated])
  moreover have "hit_row matches ?left t = hit_row matches acls t" if "t \<in> set steps" for t
    using Cons.prems that by (auto simp: hit_row_def intro!: arg_cong3 [of _ _ _ _ _ _ remove_row] arg_cong [of _ _ sorted_list_of_set] arg_cong [of _ _ "image binding"])
  ultimately show ?case using Cons.IH by simp
qed simp

lemma acl_parts_confirm:
  "acl_entries (self\<lparr>ac_confirm := c\<rparr>) ops = acl_entries self ops"
  "resource_filters (self\<lparr>ac_confirm := c\<rparr>) pattern required = resource_filters self pattern required"
  by (simp_all add: acl_entries_def resource_filters_def)

lemma role_acls_confirm:
  "plain_acls (self\<lparr>ac_confirm := c\<rparr>) pattern acls = plain_acls self pattern acls"
  "producer_acls (self\<lparr>ac_confirm := c\<rparr>) pattern acls = producer_acls self pattern acls"
  "consumer_acls (self\<lparr>ac_confirm := c\<rparr>) pattern acls = consumer_acls self pattern acls"
  unfolding plain_acls_def producer_acls_def consumer_acls_def acl_parts_confirm by simp_all

lemma resource_acls_confirm: "resource_acls (self\<lparr>ac_confirm := c\<rparr>) pattern = resource_acls self pattern"
  unfolding resource_acls_def role_acls_confirm by simp

lemma check_acl_args_confirm:
  assumes "\<not> ac_list self"
  shows "check_acl_args (self\<lparr>ac_confirm := c\<rparr>) = check_acl_args self"
  using assms unfolding check_acl_args_def Let_def by (simp cong del: if_weak_cong)

lemma remove_plan_dry:
  assumes "acls_plan self = Inr (RemoveAcls acls)"
  shows "acls_plan (self\<lparr>ac_confirm := c\<rparr>) = Inr (RemoveAcls acls)"
proof -
  obtain pattern where plan: "check_acl_args self = Inr ()" "pattern_parse (ac_resource_pattern_type self) = Inr pattern" "\<not> ac_list self" "ac_remove self"
      "resource_acls self pattern = Inr acls"
    using assms by (auto simp: acls_plan_def res_bind_Inr_iff map_sum_def split: if_splits sum.splits)
  then show ?thesis by (simp add: acls_plan_def resource_acls_confirm check_acl_args_confirm)
qed

text \<open>A removal is confirmed by \<open>--yes\<close> or \<open>--force\<close>, or by the operator, who answers the prompt with \<open>y\<close> or \<open>yes\<close>.\<close>

definition confirmed :: "AclsArgs \<Rightarrow> Terminal \<Rightarrow> bool" where
  "confirmed self terminal \<longleftrightarrow>
     ca_yes (ac_confirm self) \<or> ac_force self
     \<or> tm_interactive terminal \<and> tm_write_ok terminal \<and> (\<exists>line. tm_line terminal = Some line \<and> map ascii_lower (trim line) \<in> {''y'', ''yes''})"

lemma confirm_iff: "confirm (ca_yes (ac_confirm self) \<or> ac_force self) terminal command impact = Inr () \<longleftrightarrow> confirmed self terminal"
  by (auto simp: confirm_def confirm_with_def confirmed_def affirmative_def Let_def split: option.splits if_splits)

lemma run_remove:
  assumes "acl_broker env matches store" and "acls_plan self = Inr (RemoveAcls acls)" and "remove_steps acls = Inr steps"
  shows "ca_dry_run (ac_confirm self) \<Longrightarrow> run_acls env self st = remove_acls env steps True st"
    and "\<not> ca_dry_run (ac_confirm self) \<Longrightarrow> confirmed self (ax_terminal env) \<Longrightarrow> run_acls env self st = remove_acls env steps False st"
proof -
  have plan: "cmd_res (acls_plan self) = cmd_ret (RemoveAcls acls)" "cmd_res (remove_steps acls) = cmd_ret steps"
    using assms(2,3) by (simp_all add: cmd_res_def)
  note run = run_acls_def execute_acls_def plan Let_def cmd_bind_ret AclPlan.case
  show "run_acls env self st = remove_acls env steps True st" if "ca_dry_run (ac_confirm self)"
    using that acl_brokerD(5) [OF assms(1)] unfolding run by (simp add: cmd_simps cmd_bind_def)
  show "run_acls env self st = remove_acls env steps False st" if "\<not> ca_dry_run (ac_confirm self)" "confirmed self (ax_terminal env)"
    using that acl_brokerD(5) [OF assms(1)] unfolding run by (simp add: cmd_simps cmd_confirm_def confirm_iff [THEN iffD2] cmd_bind_def)
qed

lemma remove_acls_dry:
  assumes "acl_broker env matches store"
  shows "\<exists>result. remove_acls env steps True st = Some (Inr result, st) \<and> \<not> cr_failed result \<and> cr_dry_run result
    \<and> cr_data result = JArray (map (hit_row matches (store st)) steps)"
  unfolding remove_acls_def
  by (simp add: cmd_bind_def remove_from_dry [OF assms] cmd_ret_def report_finish_def into_dry_run_def result_rows_def empty_acl_report_def)

lemma remove_acls_real:
  assumes "acl_broker env matches store"
  shows "\<exists>result st'. remove_acls env steps False st = Some (Inr result, st') \<and> \<not> cr_failed result
    \<and> cr_data result = JArray (removal_rows matches (store st) steps) \<and> store st' = {a \<in> store st. \<not> (\<exists>step \<in> set steps. hit matches step a)}"
proof -
  obtain st' where run: "remove_from env False empty_acl_report steps st =
        Some (Inr (empty_acl_report\<lparr>ap_rows := ap_rows empty_acl_report @ removal_rows matches (store st) steps\<rparr>), st')"
      "store st' = {a \<in> store st. \<not> (\<exists>step \<in> set steps. hit matches step a)}"
    using remove_from_real [OF assms, of empty_acl_report steps st] by (elim exE conjE) (rule that)
  then show ?thesis unfolding remove_acls_def
    by (simp add: cmd_bind_def cmd_ret_def report_finish_def result_rows_def empty_acl_report_def)
qed

text \<open>The filters of a step match what is removed for its resource.\<close>

lemma entry_filter_matches:
  assumes "acl_broker env matches store" and "entry_wire_filter (resource_wire_filter r) e = Inr f"
  shows "matches f a \<longleftrightarrow> matches (resource_wire_filter r) a \<and> snd (binding a) = e"
proof -
  obtain w where w: "en_operation e = operation_from_wire w" and f: "f = (resource_wire_filter r)\<lparr>fl_principal := Some (en_principal e), fl_host := Some (en_host e),
      fl_operation := Some w, fl_permission_type := Some (permission_to_wire (en_permission e))\<rparr>"
    using assms(2) by (auto simp: entry_wire_filter_def res_bind_Inr_iff operation_wire_iff)
  have part: "resource_part f = resource_wire_filter r" by (simp add: f resource_part_def resource_wire_filter_def any_acl_def)
  have inj: "operation_from_wire x = operation_from_wire y \<longleftrightarrow> x = y" for x y by (cases x; cases y) simp_all
  have perm: "permission_from_wire x = m \<longleftrightarrow> x = permission_to_wire m" for x m by (cases x; cases m) simp_all
  have "matches f a \<longleftrightarrow> matches (resource_wire_filter r) a \<and> ae_principal a = en_principal e \<and> ae_host a = en_host e \<and> ae_operation a = w
      \<and> ae_permission_type a = permission_to_wire (en_permission e)"
    using acl_brokerD(6) [OF assms(1), of f a] unfolding part by (simp add: f)
  also have "\<dots> \<longleftrightarrow> matches (resource_wire_filter r) a \<and> snd (binding a) = e" by (cases e) (use w in \<open>auto simp: binding_def inj perm\<close>)
  finally show ?thesis .
qed

lemma step_hits:
  assumes "acl_broker env matches store" and "remove_step (r, es) = Inr step"
  shows "hit matches step a \<longleftrightarrow> matches (resource_wire_filter r) a \<and> (es = [] \<or> snd (binding a) \<in> set es)"
proof (cases "es = []")
  case True
  with assms(2) show ?thesis by (auto simp: remove_step_def hit_def Let_def)
next
  case False
  with assms(2) have filters: "collect_res (entry_wire_filter (resource_wire_filter r)) es = Inr (rm_filters step)"
    by (auto simp: remove_step_def Let_def res_bind_Inr_iff)
  then have "list_all2 (\<lambda>e f. matches f a \<longleftrightarrow> matches (resource_wire_filter r) a \<and> snd (binding a) = e) es (rm_filters step)"
    unfolding collect_res_Inr_iff by (rule list_all2_mono) (rule entry_filter_matches [OF assms(1)])
  then have "(\<exists>f \<in> set (rm_filters step). matches f a) \<longleftrightarrow> (\<exists>e \<in> set es. matches (resource_wire_filter r) a \<and> snd (binding a) = e)"
    by (induction rule: list_all2_induct) auto
  with False show ?thesis by (auto simp: hit_def)
qed

lemma row_hits:
  assumes "acl_broker env matches store" and "acls_plan self = Inr (RemoveAcls acls)" and "(r, es) \<in> set acls" and "remove_step (r, es) = Inr step"
  shows "hit matches step a \<longleftrightarrow> removed_for matches self r a"
proof -
  obtain pattern where pattern: "pattern_parse (ac_resource_pattern_type self) = Inr pattern" "resource_acls self pattern = Inr acls"
      "ac_idempotent self \<longrightarrow> ac_producer self"
    using acls_plan_resources [OF assms(2)] by blast
  note row = resource_acls_rows(2) [OF pattern(2,3), THEN iffD1, OF assms(3)]
  have fin: "finite (asked_entries self (rs_kind r))" by (simp add: asked_entries_wanted finite_wanted_entries)
  then have es: "es = [] \<longleftrightarrow> ac_allow_principal self = [] \<and> ac_deny_principal self = []" "set es = asked_entries self (rs_kind r)"
    using row asked_entries_empty [of self "rs_kind r"] by auto
  show ?thesis
    unfolding step_hits [OF assms(1,4)] es removed_for_def resource_wire_filter_def any_acl_def using row pattern(1) by simp
qed

lemma hits_removed_for:
  assumes "acl_broker env matches store" and "acls_plan self = Inr (RemoveAcls acls)" and "remove_steps acls = Inr steps"
  shows "(\<exists>step \<in> set steps. hit matches step a) \<longleftrightarrow> (\<exists>r. removed_for matches self r a)"
    and "(\<And>a r s. a \<in> store st \<Longrightarrow> removed_for matches self r a \<Longrightarrow> removed_for matches self s a \<Longrightarrow> r = s) \<Longrightarrow>
      sorted_wrt (\<lambda>s t. \<forall>a \<in> store st. \<not> (hit matches s a \<and> hit matches t a)) steps"
proof -
  obtain pattern where pattern: "pattern_parse (ac_resource_pattern_type self) = Inr pattern" "resource_acls self pattern = Inr acls"
      "ac_idempotent self \<longrightarrow> ac_producer self"
    using acls_plan_resources [OF assms(2)] by blast
  note rows = resource_acls_rows [OF pattern(2,3)]
  have all: "list_all2 (\<lambda>row step. remove_step row = Inr step) acls steps"
    using assms(3) by (simp add: remove_steps_def collect_res_Inr_iff)
  have hits: "hit matches (steps ! i) a \<longleftrightarrow> removed_for matches self (fst (acls ! i)) a" if "i < length acls" for i a
    using row_hits [OF assms(1,2), of "fst (acls ! i)" "snd (acls ! i)"] list_all2_nthD [OF all that] that by (simp add: nth_mem)
  have len: "length steps = length acls" using all by (simp add: list_all2_lengthD)
  have "r \<in> fst ` set acls" if "removed_for matches self r a" for r a
  proof -
    have "(r, sorted_list_of_set (asked_entries self (rs_kind r))) \<in> set acls"
      using that pattern(1) unfolding rows(2) by (auto simp: removed_for_def)
    then show ?thesis by force
  qed
  then have "(\<exists>r. removed_for matches self r a) \<longleftrightarrow> (\<exists>i < length acls. removed_for matches self (fst (acls ! i)) a)"
    by (metis (no_types, opaque_lifting) imageE in_set_conv_nth)
  moreover have "(\<exists>step \<in> set steps. hit matches step a) \<longleftrightarrow> (\<exists>i < length acls. hit matches (steps ! i) a)"
    unfolding len [symmetric] by (metis in_set_conv_nth)
  ultimately show "(\<exists>step \<in> set steps. hit matches step a) \<longleftrightarrow> (\<exists>r. removed_for matches self r a)"
    using hits by metis
  assume one: "\<And>a r s. a \<in> store st \<Longrightarrow> removed_for matches self r a \<Longrightarrow> removed_for matches self s a \<Longrightarrow> r = s"
  show "sorted_wrt (\<lambda>s t. \<forall>a \<in> store st. \<not> (hit matches s a \<and> hit matches t a)) steps"
    unfolding sorted_wrt_iff_nth_less
  proof (intro allI impI ballI notI)
    fix i j a assume ij: "i < j" "j < length steps" and a: "a \<in> store st" "hit matches (steps ! i) a \<and> hit matches (steps ! j) a"
    have "fst (acls ! i) = fst (acls ! j)" using one [OF a(1)] hits [of i] hits [of j] a(2) ij len by simp
    then show False using rows(1) ij len by (simp add: distinct_conv_nth)
  qed
qed

lemma remove_refused:
  fixes env :: "'c AclsEnv"
  assumes "acls_plan self = Inr (RemoveAcls acls)" and "remove_steps acls = Inr steps" and "\<not> ca_dry_run (ac_confirm self)"
    and "\<not> confirmed self (ax_terminal env)"
  shows "\<exists>e. run_acls env self st = Some (Inl e, st)"
proof -
  let ?ask = "confirm (ca_yes (ac_confirm self) \<or> ac_force self) (ax_terminal env) ''krabka acls'' (removal_impact steps)"
  have "?ask \<noteq> Inr ()" using assms(4) unfolding confirm_iff .
  then obtain refusal where refused: "?ask = Inl refusal" by (cases ?ask) auto
  have plan: "cmd_res (acls_plan self) = cmd_ret (RemoveAcls acls)" "cmd_res (remove_steps acls) = cmd_ret steps"
    using assms(1,2) by (simp_all add: cmd_res_def)
  have "cmd_when (\<not> ca_dry_run (ac_confirm self)) (cmd_confirm ?ask) = (cmd_fail (ErrRefused refusal) :: ('c, unit) cmd)"
    unfolding refused using assms(3) by (simp add: cmd_confirm_def cmd_when_def)
  then show ?thesis
    unfolding run_acls_def execute_acls_def plan Let_def cmd_bind_ret AclPlan.case by (simp only:) (simp add: cmd_bind_def cmd_fail_def)
qed

text \<open>C26. Where the command line is accepted and the broker keeps its contract and never fails, \<open>--remove\<close> that is confirmed, by \<open>--yes\<close>, \<open>--force\<close> or an answer
  \<open>y\<close> or \<open>yes\<close> at the prompt, removes exactly the ACLs that the flags ask for: those that the broker matches for a named resource and whose
  principal, host, operation and permission the flags name, or all of them where the flags name no principal. Not confirmed, it fails and changes nothing. A dry
  run of the same command line changes nothing, and its data is the report of the removal where no ACL is removed for two resources.\<close>

theorem remove_and_its_dry_run:
  assumes "acl_broker env matches store" and "acls_plan self = Inr plan" and "ac_remove self" and "\<not> ca_dry_run (ac_confirm self)"
  shows "(if confirmed self (ax_terminal env)
     then \<exists>result st' dry. run_acls env self st = Some (Inr result, st') \<and> \<not> cr_failed result
       \<and> store st' = {a \<in> store st. \<not> (\<exists>r. removed_for matches self r a)}
       \<and> run_acls env (self\<lparr>ac_confirm := (ac_confirm self)\<lparr>ca_dry_run := True\<rparr>\<rparr>) st = Some (Inr dry, st) \<and> cr_dry_run dry
       \<and> ((\<forall>a \<in> store st. \<forall>r s. removed_for matches self r a \<and> removed_for matches self s a \<longrightarrow> r = s) \<longrightarrow> cr_data dry = cr_data result)
     else \<exists>e. run_acls env self st = Some (Inl e, st))"
proof -
  obtain acls where acls: "plan = RemoveAcls acls" using acls_plan_action(2) [OF assms(2,3)] by blast
  note plan = assms(2) [unfolded acls]
  obtain steps where steps: "remove_steps acls = Inr steps" using acls_plan_steps [OF plan] by auto
  show ?thesis
  proof (cases "confirmed self (ax_terminal env)")
    case False
    then show ?thesis using remove_refused [OF plan steps assms(4) False, of st] by (simp only: if_False)
  next
    case True
    let ?dry = "self\<lparr>ac_confirm := (ac_confirm self)\<lparr>ca_dry_run := True\<rparr>\<rparr>"
    have "acls_plan ?dry = Inr (RemoveAcls acls)" by (rule remove_plan_dry [OF plan])
    note dry = run_remove(1) [OF assms(1) this steps, of st]
    note real = run_remove(2) [OF assms(1) plan steps assms(4) True, of st] and hits = hits_removed_for [OF assms(1) plan steps]
    obtain result st' where result: "remove_acls env steps False st = Some (Inr result, st')" "\<not> cr_failed result"
        "cr_data result = JArray (removal_rows matches (store st) steps)" "store st' = {a \<in> store st. \<not> (\<exists>r. removed_for matches self r a)}"
      using remove_acls_real [OF assms(1), of steps st] unfolding hits(1) by (elim exE conjE) (rule that)
    obtain report where report: "remove_acls env steps True st = Some (Inr report, st)" "cr_dry_run report"
        "cr_data report = JArray (map (hit_row matches (store st)) steps)"
      using remove_acls_dry [OF assms(1), of steps st] by (elim exE conjE) (rule that)
    have same: "cr_data report = cr_data result"
      if "\<forall>a \<in> store st. \<forall>r s. removed_for matches self r a \<and> removed_for matches self s a \<longrightarrow> r = s"
    proof -
      have "removal_rows matches (store st) steps = map (hit_row matches (store st)) steps"
        by (rule removal_rows_disjoint, rule hits(2)) (use that in blast)
      then show ?thesis using result(3) report(3) by simp
    qed
    have runs: "run_acls env ?dry st = Some (Inr report, st)" "run_acls env self st = Some (Inr result, st')"
      using dry report(1) real result(1) by simp_all
    show ?thesis unfolding if_P [OF True]
      by (rule exI [of _ result], rule exI [of _ st'], rule exI [of _ report]) (intro conjI impI runs result(2,4) report(2) same)
  qed
qed

section \<open>A sample broker\<close>

lemma resource_filter_matches: "filter_matches (resource_wire_filter (fst (binding a))) a"
  by (cases "ae_pattern_type a") (simp_all add: filter_matches_def resource_wire_filter_def any_acl_def binding_def)

lemma filter_part_matches:
  "filter_matches f a \<longleftrightarrow> filter_matches (resource_part f) a
    \<and> (\<forall>p. fl_principal f = Some p \<longrightarrow> ae_principal a = p) \<and> (\<forall>h. fl_host f = Some h \<longrightarrow> ae_host a = h)
    \<and> (\<forall>op. fl_operation f = Some op \<longrightarrow> ae_operation a = op) \<and> (\<forall>m. fl_permission_type f = Some m \<longrightarrow> ae_permission_type a = m)"
  by (cases "fl_principal f"; cases "fl_host f"; cases "fl_operation f"; cases "fl_permission_type f")
    (auto simp: filter_matches_def resource_part_def)

lemma sample_acl_broker: "acl_broker sample_acls_env filter_matches set"
  unfolding acl_broker_def
  by (intro conjI; (intro allI, rule filter_part_matches)?) (auto simp: sample_acls_env_def cmd_ret_def resource_filter_matches list_ex_iff)

definition sample_acl :: "string \<Rightarrow> string \<Rightarrow> AclOperation \<Rightarrow> AclEntry" where
  "sample_acl topic who op = \<lparr>ae_resource_type = Rt_Topic, ae_resource_name = topic, ae_pattern_type = Literal, ae_principal = who, ae_host = ''*'',
     ae_operation = op, ae_permission_type = Allow\<rparr>"

lemma sample_flags:
  "ac_topic sample_acl_args = [''orders'']" "ac_group sample_acl_args = []" "ac_transactional_id sample_acl_args = []" "ac_delegation_token sample_acl_args = []"
  "ac_user_principal sample_acl_args = []" "ac_cluster sample_acl_args = False" "ac_idempotent sample_acl_args = False" "ac_producer sample_acl_args = True"
  "ac_consumer sample_acl_args = False" "ac_allow_principal sample_acl_args = [''User:alice'']" "ac_deny_principal sample_acl_args = []"
  "ac_allow_host sample_acl_args = []" "ac_deny_host sample_acl_args = []"
  by (simp_all add: sample_acl_args_def)

lemma sample_asked:
  "sample_acl topic who op \<in> requested_acls sample_acl_args \<longleftrightarrow>
     topic = ''orders'' \<and> who = ''User:alice'' \<and> op \<in> {Op_Write, Op_Describe, Op_Create}"
proof -
  have pattern: "pattern_parse (ac_resource_pattern_type sample_acl_args) = Inr Pattern_Literal" and trim: "trim ''orders'' = ''orders''" "trim ''User:alice'' = ''User:alice''"
    by code_simp+
  show ?thesis
    by (cases op) (auto simp: requested_acls_def pattern sample_acl_def binding_def named_resources_def asked_entries_def requested_operations_def
        producer_operations_def sample_flags trim)
qed

theorem add_leaves_requested_witness:
  "\<exists>result st'. run_acls sample_acls_env sample_acl_args [] = Some (Inr result, st')
    \<and> sample_acl ''orders'' ''User:alice'' Op_Write \<in> set st' \<and> sample_acl ''orders'' ''User:alice'' Op_Read \<notin> set st'"
proof -
  have "ac_add sample_acl_args" "\<not> ca_dry_run (ac_confirm sample_acl_args)" by (simp_all add: sample_acl_args_def)
  from add_leaves_requested [OF sample_acl_broker sample_add_plan this, of "[]"] obtain result st'
    where "run_acls sample_acls_env sample_acl_args [] = Some (Inr result, st')" "set st' = requested_acls sample_acl_args" by auto
  then show ?thesis using sample_asked by blast
qed

theorem remove_and_its_dry_run_witness:
  "\<exists>result st'. run_acls sample_acls_env (sample_acl_args\<lparr>ac_add := False, ac_remove := True\<rparr>)
       [sample_acl ''orders'' ''User:alice'' Op_Write, sample_acl ''orders'' ''User:bob'' Op_Write] = Some (Inr result, st')
    \<and> sample_acl ''orders'' ''User:bob'' Op_Write \<in> set st'"
proof -
  let ?args = "sample_acl_args\<lparr>ac_add := False, ac_remove := True\<rparr>" and ?bob = "sample_acl ''orders'' ''User:bob'' Op_Write"
  have flags: "ac_remove ?args" "\<not> ca_dry_run (ac_confirm ?args)" "confirmed ?args terminal" for terminal by (simp_all add: sample_acl_args_def confirmed_def)
  have "trim ''User:alice'' = ''User:alice''" by code_simp
  then have "\<not> removed_for filter_matches ?args r ?bob" for r
    by (simp add: removed_for_def sample_acl_def binding_def asked_entries_def sample_acl_args_def)
  with remove_and_its_dry_run [OF sample_acl_broker sample_remove_plan flags(1,2), of "[sample_acl ''orders'' ''User:alice'' Op_Write, ?bob]"] flags(3)
  show ?thesis by auto
qed

end
