(* ===== verification/Transactions.thy ===== *)
theory Transactions
  imports Topics_Command
begin

unbundle bit_operations_syntax

text \<open>
  \<^verbatim>\<open>crates/krabka-cli/src/transactions.rs\<close>: \<open>kafka-transactions\<close>. The actions run over the record \<open>TransactionsEnv\<close> of the client's operations, the
  connections to single brokers and the clock. The brokers that \<open>list\<close> asks at once answer one after another; \<open>Fan_Out\<close> has the
  interleavings, whose answers come in the order of the brokers. An \<open>i64\<close> difference wraps, as it does in a build without overflow checks.
\<close>

section \<open>The client\<close>

record BrokerNode = ClusterNode +
  node_host :: string
  node_port :: int

record ProducerState =
  ps_producer_id :: int
  ps_producer_epoch :: int
  ps_last_sequence :: int
  ps_last_timestamp_ms :: int
  ps_coordinator_epoch :: int
  ps_current_txn_start_offset :: "int option"

record TransactionListing =
  tl_transactional_id :: string
  tl_producer_id :: int
  tl_state :: string

record TransactionDescription =
  xd_coordinator_id :: int
  xd_transactional_id :: string
  xd_producer_id :: int
  xd_producer_epoch :: int
  xd_state :: string
  xd_timeout_ms :: int
  xd_start_time_ms :: "int option"
  xd_topic_partitions :: "(string \<times> int) list"

record AbortTransactionSpec =
  ab_topic :: string
  ab_partition :: int
  ab_producer_id :: int
  ab_producer_epoch :: int
  ab_coordinator_epoch :: int

record ListTransactionsRequest =
  lq_duration_filter :: int
  lq_transactional_id_pattern :: "string option"

record ListTransactionsResponse =
  lr_error_code :: int
  lr_transaction_states :: "TransactionListing list"

text \<open>A partition of a \<open>DescribeProducers\<close> response, whose start offsets are not optional.\<close>

record WireProducer =
  wp_producer_id :: int
  wp_producer_epoch :: int
  wp_last_sequence :: int
  wp_last_timestamp :: int
  wp_coordinator_epoch :: int
  wp_current_txn_start_offset :: int

record ProducersAnswer =
  pr_partition_index :: int
  pr_error_code :: int
  pr_error_message :: "string option"
  pr_active_producers :: "WireProducer list"

type_synonym partition_key = "string \<times> int"

text \<open>A connection to one broker is named by its socket. \<open>tx_resolve\<close> fails with the text of its error; \<open>tx_max_version\<close> is the highest version
  of \<open>ListTransactions\<close> that the broker advertises; \<open>tx_expired\<close> tells whether the deadline of a broker's loop has passed at an attempt.\<close>

record 'c TransactionsEnv =
  tx_connect :: "('c, unit) cmd"
  tx_options :: "('c, unit) cmd"
  tx_describe_cluster :: "'c \<Rightarrow> (AdminError + BrokerNode list) \<times> 'c"
  tx_resolve :: "string \<Rightarrow> 'c \<Rightarrow> (string + string list) \<times> 'c"
  tx_open :: "string \<Rightarrow> string \<Rightarrow> 'c \<Rightarrow> (AdminError + unit) \<times> 'c"
  tx_max_version :: "string \<Rightarrow> int option"
  tx_send_list :: "string \<Rightarrow> ListTransactionsRequest \<Rightarrow> 'c \<Rightarrow> (AdminError + ListTransactionsResponse) \<times> 'c"
  tx_expired :: "string \<Rightarrow> nat \<Rightarrow> bool"
  tx_send_producers :: "string \<Rightarrow> (string, int list) btmap \<Rightarrow> 'c \<Rightarrow> (AdminError + (string \<times> ProducersAnswer list) list) \<times> 'c"
  tx_describe_producers :: "partition_key list \<Rightarrow> 'c \<Rightarrow> (partition_key, KafkaError + ProducerState list) btmap \<times> 'c"
  tx_list_transactions :: "int list \<Rightarrow> 'c \<Rightarrow> (AdminError + TransactionListing list) \<times> 'c"
  tx_describe_transaction :: "string \<Rightarrow> 'c \<Rightarrow> (AdminError + TransactionDescription) \<times> 'c"
  tx_list_topics :: "'c \<Rightarrow> (AdminError + string list) \<times> 'c"
  tx_describe_topics :: "string list \<Rightarrow> 'c \<Rightarrow> (string, KafkaError + TopicDescription) btmap \<times> 'c"
  tx_abort_transaction :: "AbortTransactionSpec \<Rightarrow> 'c \<Rightarrow> (AdminError + unit) \<times> 'c"
  tx_force_terminate :: "string \<Rightarrow> 'c \<Rightarrow> (AdminError + unit) \<times> 'c"
  tx_now :: "'c \<Rightarrow> int \<times> 'c"
  tx_terminal :: Terminal

section \<open>Constants\<close>

definition COORDINATOR_LOAD_IN_PROGRESS :: int where "COORDINATOR_LOAD_IN_PROGRESS = 14"
definition COORDINATOR_NOT_AVAILABLE :: int where "COORDINATOR_NOT_AVAILABLE = 15"
definition NOT_LEADER_OR_FOLLOWER :: int where "NOT_LEADER_OR_FOLLOWER = 6"
definition TRANSACTIONAL_ID_NOT_FOUND :: int where "TRANSACTIONAL_ID_NOT_FOUND = 105"
definition MAX_BATCH_SIZE :: nat where "MAX_BATCH_SIZE = 500"
definition LIST_HEADERS :: "string list" where
  "LIST_HEADERS = [''TransactionalId'', ''Coordinator'', ''ProducerId'', ''TransactionState'']"
definition PRODUCERS_HEADERS :: "string list" where
  "PRODUCERS_HEADERS = [''ProducerId'', ''ProducerEpoch'', ''LatestCoordinatorEpoch'', ''LastSequence'', ''LastTimestamp'', ''CurrentTransactionStartOffset'']"
definition HANGING_HEADERS :: "string list" where
  "HANGING_HEADERS = [''Topic'', ''Partition'', ''ProducerId'', ''ProducerEpoch'', ''CoordinatorEpoch'', ''StartOffset'', ''LastTimestamp'', ''Duration(min)'']"
definition NONE_TEXT :: string where "NONE_TEXT = ''None''"
definition DESCRIBE_HEADERS :: "string list" where
  "DESCRIBE_HEADERS = [''CoordinatorId'', ''TransactionalId'', ''ProducerId'', ''ProducerEpoch'', ''TransactionState'', ''TransactionTimeoutMs'',
     ''CurrentTransactionStartTimeMs'', ''TransactionDurationMs'', ''TopicPartitions'']"
definition TRANSACTION_STATES :: "string list" where
  "TRANSACTION_STATES = [''Ongoing'', ''PrepareAbort'', ''PrepareCommit'', ''CompleteAbort'', ''CompleteCommit'', ''Empty'', ''PrepareEpochFence'']"

section \<open>Arguments\<close>

record ListArgs =
  la_duration_filter :: "int option"
  la_transactional_id_pattern :: "string option"

record DescribeProducersArgs =
  dp_broker_id :: "int option"
  dp_topic :: string
  dp_partition :: int

record AbortArgs =
  aa_topic :: string
  aa_partition :: int
  aa_start_offset :: "int option"
  aa_producer_id :: "int option"
  aa_producer_epoch :: "int option"
  aa_coordinator_epoch :: "int option"
  aa_confirm :: ConfirmArgs

record FindHangingArgs =
  fh_broker_id :: "int option"
  fh_max_transaction_timeout :: int
  fh_topic :: "string option"
  fh_partition :: "int option"

record ForceTerminateArgs =
  ft_transactional_id :: string
  ft_confirm :: ConfirmArgs

datatype TransactionsCommand =
    TxList ListArgs
  | TxDescribe "string list"
  | TxDescribeProducers DescribeProducersArgs
  | TxAbort AbortArgs
  | TxFindHanging FindHangingArgs
  | TxForceTerminate ForceTerminateArgs

datatype AbortTarget = StartOffset int | Producer int int int

section \<open>Texts and tables\<close>

definition tx_failure :: "string \<Rightarrow> CommandError \<Rightarrow> CommandError" where
  "tx_failure ctxt cause =
     (let text = show_error cause; text = (case strip_suffix ''.'' text of Some t \<Rightarrow> t | None \<Rightarrow> text)
      in ErrOther (ctxt @ '': '' @ text @ ''. Enable debug logging for additional detail.''))"

definition kafka_failure :: "string \<Rightarrow> KafkaError \<Rightarrow> CommandError" where
  "kafka_failure api error = admin_error (AdminBroker api (ke_code error) (ke_name error) (ke_message error))"

definition transaction_state :: "string \<Rightarrow> string" where
  "transaction_state state = (if state \<in> set TRANSACTION_STATES then state else ''Unknown'')"

definition cell_width :: "string \<Rightarrow> nat" where
  "cell_width cell = length (encode_utf16 cell)"

definition widen :: "nat list \<Rightarrow> string list \<Rightarrow> nat list" where
  "widen widths row = map2 (\<lambda>column cell. max column (cell_width cell)) widths row @ drop (length row) widths"

definition column_widths :: "string list \<Rightarrow> string list list \<Rightarrow> nat list" where
  "column_widths headers rows = foldl widen (map cell_width headers) rows"

definition table_line :: "nat list \<Rightarrow> string list \<Rightarrow> string" where
  "table_line widths cells =
     concat (map2 (\<lambda>cell column. cell @ replicate (column - cell_width cell) (CHR '' '') @ [CHR 0x09]) cells widths)"

definition pretty_table :: "string list \<Rightarrow> string list list \<Rightarrow> string list" where
  "pretty_table headers rows = map (table_line (column_widths headers rows)) (headers # rows)"

definition sub_i64 :: "int \<Rightarrow> int \<Rightarrow> int" where
  "sub_i64 a b = sint (word_of_int (a - b) :: 64 word)"

definition trunc_div :: "int \<Rightarrow> int \<Rightarrow> int" where
  "trunc_div a b = sgn a * sgn b * (\<bar>a\<bar> div \<bar>b\<bar>)"

definition opt_int_json :: "int option \<Rightarrow> json" where
  "opt_int_json v = (case v of Some n \<Rightarrow> JInt n | None \<Rightarrow> JNull)"

definition show_or_none :: "int option \<Rightarrow> string" where
  "show_or_none v = (case v of Some n \<Rightarrow> show_int n | None \<Rightarrow> NONE_TEXT)"

section \<open>Connections to single brokers\<close>

definition broker_address :: "BrokerNode \<Rightarrow> string" where
  "broker_address node =
     (if CHR '':'' \<in> set (node_host node) \<and> strip_prefix ''['' (node_host node) = None
      then ''['' @ node_host node @ '']:'' @ show_int (node_port node)
      else node_host node @ '':'' @ show_int (node_port node))"

definition broker_connection :: "'c TransactionsEnv \<Rightarrow> BrokerNode \<Rightarrow> ('c, string) cmd" where
  "broker_connection env node =
     (let address = broker_address node
      in cmd_bind (cmd_call (tx_resolve env address)) (\<lambda>resolved.
         case resolved of
           Inl error \<Rightarrow> cmd_fail (ErrOther (''resolve '' @ address @ '': '' @ error))
         | Inr [] \<Rightarrow> cmd_fail (ErrOther (''resolve '' @ address @ '': no address''))
         | Inr (socket # _) \<Rightarrow> cmd_bind (cmd_admin_as admin_error (tx_open env address socket)) (\<lambda>_. cmd_ret socket)))"

section \<open>list\<close>

definition list_request :: "ListArgs \<Rightarrow> ListTransactionsRequest" where
  "list_request self =
     \<lparr>lq_duration_filter = (case la_duration_filter self of Some n \<Rightarrow> n | None \<Rightarrow> - 1),
      lq_transactional_id_pattern = (case la_transactional_id_pattern self of Some p \<Rightarrow> if p \<noteq> [] then Some p else None | None \<Rightarrow> None)\<rparr>"

definition check_list_version :: "int \<Rightarrow> ListTransactionsRequest \<Rightarrow> CommandError + unit" where
  "check_list_version max_version request =
     (if 0 \<le> lq_duration_filter request \<and> max_version < 1
      then Inl (ErrOther ''Duration filter can be set only when using API version 1 or higher. If client is connected to an older broker, do not specify duration filter or set duration filter to -1.'')
      else if lq_transactional_id_pattern request \<noteq> None \<and> max_version < 2
      then Inl (ErrOther ''Transactional ID pattern filter can be set only when using API version 2 or higher. If client is connected to an older broker, do not specify the pattern filter.'')
      else Inr ())"

text \<open>The loop over the request to a coordinator that loads its state, with the sending and the deadline as arguments.\<close>

partial_function (option) list_retry ::
    "('c \<Rightarrow> (AdminError + ListTransactionsResponse) \<times> 'c) \<Rightarrow> (nat \<Rightarrow> bool) \<Rightarrow> nat \<Rightarrow> 'c \<Rightarrow> ((CommandError + ListTransactionsResponse) \<times> 'c) option" where
  "list_retry send expired attempt st =
     (case send st of (answer, st) \<Rightarrow>
      case answer of
        Inl error \<Rightarrow> Some (Inl (admin_error error), st)
      | Inr response \<Rightarrow>
          if lr_error_code response = COORDINATOR_LOAD_IN_PROGRESS \<and> \<not> expired attempt
          then list_retry send expired (Suc attempt) st
          else Some (Inr response, st))"

definition list_error :: "BrokerNode \<Rightarrow> int \<Rightarrow> CommandError" where
  "list_error node code =
     admin_error (AdminBroker ''ListTransactions'' code ''UNKNOWN''
       (Some (''ListTransactions request sent to broker '' @ show_int (node_id node) @
         (if code = COORDINATOR_NOT_AVAILABLE then '' failed because the coordinator is shutting down''
          else '' failed with an unexpected exception''))))"

definition list_on_broker :: "'c TransactionsEnv \<Rightarrow> ListTransactionsRequest \<Rightarrow> BrokerNode \<Rightarrow> ('c, TransactionListing list) cmd" where
  "list_on_broker env request node =
     cmd_bind (broker_connection env node) (\<lambda>socket.
     cmd_bind (cmd_res (check_list_version (case tx_max_version env socket of Some v \<Rightarrow> v | None \<Rightarrow> 0) request)) (\<lambda>_.
     cmd_bind (list_retry (tx_send_list env socket request) (tx_expired env socket) 0) (\<lambda>response.
     if lr_error_code response \<noteq> 0 then cmd_fail (list_error node (lr_error_code response))
     else cmd_ret (lr_transaction_states response))))"

definition listed_rows :: "(int \<times> TransactionListing list) list \<Rightarrow> (int \<times> TransactionListing) list" where
  "listed_rows by_broker =
     concat (map (\<lambda>(broker, listings). map (Pair broker) listings) (hash_order by_broker Default (\<lambda>(broker, _). integer_hash broker)))"

definition listed_cells :: "int \<times> TransactionListing \<Rightarrow> string list" where
  "listed_cells row =
     (case row of (broker, t) \<Rightarrow>
        [tl_transactional_id t, show_int broker, show_int (tl_producer_id t), transaction_state (tl_state t)])"

definition tx_listed_json :: "int \<times> TransactionListing \<Rightarrow> json" where
  "tx_listed_json row =
     (case row of (broker, t) \<Rightarrow>
        JObject [(''transactional_id'', JString (tl_transactional_id t)), (''coordinator'', JInt broker),
          (''producer_id'', JInt (tl_producer_id t)), (''transaction_state'', JString (transaction_state (tl_state t)))])"

definition listed_transactions :: "(int \<times> TransactionListing list) list \<Rightarrow> CommandResult" where
  "listed_transactions by_broker =
     (let rows = listed_rows by_broker
      in result_success (pretty_table LIST_HEADERS (map listed_cells rows)) (JArray (map tx_listed_json rows)))"

fun broker_answers ::
    "'c TransactionsEnv \<Rightarrow> ListTransactionsRequest \<Rightarrow> BrokerNode list \<Rightarrow> ('c, (int \<times> (CommandError + TransactionListing list)) list) cmd" where
  "broker_answers env request [] = cmd_ret []"
| "broker_answers env request (node # nodes) =
     cmd_bind (cmd_result (list_on_broker env request node)) (\<lambda>answer.
     cmd_bind (broker_answers env request nodes) (\<lambda>answers. cmd_ret ((node_id node, answer) # answers)))"

definition run_list :: "'c TransactionsEnv \<Rightarrow> ListArgs \<Rightarrow> ('c, CommandResult) cmd" where
  "run_list env self =
     (let fail = tx_failure ''Failed to list transactions''
      in cmd_bind (tx_connect env) (\<lambda>_.
         cmd_bind (tx_options env) (\<lambda>_.
         cmd_bind (cmd_admin_as (\<lambda>e. fail (admin_error e)) (tx_describe_cluster env)) (\<lambda>nodes.
         cmd_bind (broker_answers env (list_request self) nodes) (\<lambda>answers.
         cmd_bind (cmd_res (collect_res (\<lambda>(broker, listings). map_sum fail (Pair broker) listings) answers)) (\<lambda>by_broker.
         cmd_ret (listed_transactions by_broker)))))))"

section \<open>describe\<close>

definition show_partitions :: "TransactionDescription \<Rightarrow> string list" where
  "show_partitions description = map (\<lambda>(topic, p). topic @ ''-'' @ show_int p) (xd_topic_partitions description)"

definition described_cells :: "int \<Rightarrow> TransactionDescription \<Rightarrow> string list" where
  "described_cells now d =
     [show_int (xd_coordinator_id d), xd_transactional_id d, show_int (xd_producer_id d), show_int (xd_producer_epoch d),
      transaction_state (xd_state d), show_int (xd_timeout_ms d), show_or_none (xd_start_time_ms d),
      show_or_none (map_option (sub_i64 now) (xd_start_time_ms d)), join_with '','' (show_partitions d)]"

definition described_json :: "int \<Rightarrow> TransactionDescription \<Rightarrow> json" where
  "described_json now d =
     JObject [(''coordinator_id'', JInt (xd_coordinator_id d)), (''transactional_id'', JString (xd_transactional_id d)),
       (''producer_id'', JInt (xd_producer_id d)), (''producer_epoch'', JInt (xd_producer_epoch d)),
       (''transaction_state'', JString (transaction_state (xd_state d))), (''transaction_timeout_ms'', JInt (xd_timeout_ms d)),
       (''current_transaction_start_time_ms'', opt_int_json (xd_start_time_ms d)),
       (''transaction_duration_ms'', opt_int_json (map_option (sub_i64 now) (xd_start_time_ms d))),
       (''topic_partitions'', JArray (map JString (show_partitions d)))]"

definition described_transactions :: "TransactionDescription list \<Rightarrow> int \<Rightarrow> CommandResult" where
  "described_transactions ds now =
     result_success (pretty_table DESCRIBE_HEADERS (map (described_cells now) ds)) (JArray (map (described_json now) ds))"

fun describe_ids :: "'c TransactionsEnv \<Rightarrow> string list \<Rightarrow> ('c, TransactionDescription list) cmd" where
  "describe_ids env [] = cmd_ret []"
| "describe_ids env (i # names) =
     cmd_bind (cmd_admin_as (\<lambda>e. tx_failure (''Failed to describe transaction state of transactional-id `'' @ i @ ''`'') (admin_error e))
       (tx_describe_transaction env i)) (\<lambda>description.
     cmd_bind (describe_ids env names) (\<lambda>ds. cmd_ret (description # ds)))"

definition run_describe :: "'c TransactionsEnv \<Rightarrow> string list \<Rightarrow> ('c, CommandResult) cmd" where
  "run_describe env names =
     cmd_bind (tx_connect env) (\<lambda>_.
     cmd_bind (describe_ids env names) (\<lambda>ds.
     cmd_bind (cmd_call (tx_now env)) (\<lambda>now. cmd_ret (described_transactions ds now))))"

section \<open>describe-producers\<close>

definition normalized :: "ProducerState \<Rightarrow> ProducerState" where
  "normalized state =
     state\<lparr>ps_coordinator_epoch := max (ps_coordinator_epoch state) (- 1),
       ps_current_txn_start_offset := (case ps_current_txn_start_offset state of Some n \<Rightarrow> if 0 \<le> n then Some n else None | None \<Rightarrow> None)\<rparr>"

definition producer_of_wire :: "WireProducer \<Rightarrow> ProducerState" where
  "producer_of_wire w =
     \<lparr>ps_producer_id = wp_producer_id w, ps_producer_epoch = wp_producer_epoch w, ps_last_sequence = wp_last_sequence w,
      ps_last_timestamp_ms = wp_last_timestamp w, ps_coordinator_epoch = wp_coordinator_epoch w,
      ps_current_txn_start_offset = Some (wp_current_txn_start_offset w)\<rparr>"

definition producers_result :: "int \<Rightarrow> string \<Rightarrow> ProducersAnswer \<Rightarrow> CommandError + ProducerState list" where
  "producers_result broker topic p =
     (if pr_error_code p = 0 then Inr (map producer_of_wire (pr_active_producers p))
      else let message = (if pr_error_code p = NOT_LEADER_OR_FOLLOWER
               then ''Failed to describe active producers for partition '' @ topic @ ''-'' @ show_int (pr_partition_index p) @ '' on brokerId '' @ show_int broker
               else case pr_error_message p of Some m \<Rightarrow> m | None \<Rightarrow> [])
           in Inl (admin_error (AdminBroker ''DescribeProducers'' (pr_error_code p) ''UNKNOWN'' (if message \<noteq> [] then Some message else None))))"

definition producers_answers ::
    "int \<Rightarrow> (string \<times> ProducersAnswer list) list \<Rightarrow> (partition_key, CommandError + ProducerState list) btmap" where
  "producers_answers broker topics =
     bt_of_list (concat (map (\<lambda>(topic, ps). map (\<lambda>p. ((topic, pr_partition_index p), producers_result broker topic p)) ps) topics))"

definition tx_by_topic :: "partition_key list \<Rightarrow> (string, int list) btmap" where
  "tx_by_topic partitions =
     foldl (\<lambda>m (topic, p). bt_insert topic ((case map_of m topic of Some ps \<Rightarrow> ps | None \<Rightarrow> []) @ [p]) m) [] partitions"

definition producers_on_broker ::
    "'c TransactionsEnv \<Rightarrow> int \<Rightarrow> partition_key list \<Rightarrow> ('c, (partition_key, CommandError + ProducerState list) btmap) cmd" where
  "producers_on_broker env broker partitions =
     cmd_bind (cmd_admin_as admin_error (tx_describe_cluster env)) (\<lambda>nodes.
     case List.find (\<lambda>node. node_id node = broker) nodes of
       None \<Rightarrow> cmd_fail (ErrOther ''Timed out waiting for a node assignment. Call: describeProducers'')
     | Some node \<Rightarrow>
         cmd_bind (broker_connection env node) (\<lambda>socket.
         cmd_bind (cmd_admin_as admin_error (tx_send_producers env socket (tx_by_topic partitions))) (\<lambda>topics.
         cmd_ret (producers_answers broker topics))))"

fun take_states ::
    "(partition_key, CommandError + ProducerState list) btmap \<Rightarrow> partition_key list \<Rightarrow> (partition_key \<times> CommandError) + (partition_key \<times> ProducerState list) list" where
  "take_states answers [] = Inr []"
| "take_states answers (key # keys) =
     (case map_of answers key of
        Some (Inr found) \<Rightarrow> map_sum id (Cons (key, map normalized found)) (take_states (bt_remove key answers) keys)
      | Some (Inl cause) \<Rightarrow> Inl (key, cause)
      | None \<Rightarrow> Inl (key, ErrOther (''the DescribeProducers response did not contain a result for partition '' @ fst key @ ''-'' @ show_int (snd key))))"

definition leader_answers :: "(partition_key, KafkaError + ProducerState list) btmap \<Rightarrow> (partition_key, CommandError + ProducerState list) btmap" where
  "leader_answers answers = map (\<lambda>(key, result). (key, map_sum (kafka_failure ''DescribeProducers'') id result)) answers"

definition producer_states ::
    "'c TransactionsEnv \<Rightarrow> int option \<Rightarrow> partition_key list \<Rightarrow> ('c, (partition_key \<times> CommandError) + (partition_key \<times> ProducerState list) list) cmd" where
  "producer_states env broker_id partitions =
     (case broker_id of
        None \<Rightarrow> cmd_bind (cmd_call (tx_describe_producers env partitions)) (\<lambda>answers. cmd_ret (take_states (leader_answers answers) partitions))
      | Some broker \<Rightarrow>
          cmd_bind (cmd_result (producers_on_broker env broker partitions)) (\<lambda>answer.
          cmd_ret (case answer of
              Inr answers \<Rightarrow> take_states answers partitions
            | Inl cause \<Rightarrow> Inl (case partitions of key # _ \<Rightarrow> key | [] \<Rightarrow> ([], 0), cause))))"

definition producer_cells :: "ProducerState \<Rightarrow> string list" where
  "producer_cells state =
     [show_int (ps_producer_id state), show_int (ps_producer_epoch state), show_int (ps_coordinator_epoch state),
      show_int (ps_last_sequence state), show_int (ps_last_timestamp_ms state), show_or_none (ps_current_txn_start_offset state)]"

definition producer_json :: "ProducerState \<Rightarrow> json" where
  "producer_json state =
     JObject [(''producer_id'', JInt (ps_producer_id state)), (''producer_epoch'', JInt (ps_producer_epoch state)),
       (''latest_coordinator_epoch'', JInt (ps_coordinator_epoch state)), (''last_sequence'', JInt (ps_last_sequence state)),
       (''last_timestamp'', JInt (ps_last_timestamp_ms state)), (''current_transaction_start_offset'', opt_int_json (ps_current_txn_start_offset state))]"

definition producers_table :: "ProducerState list \<Rightarrow> CommandResult" where
  "producers_table states =
     result_success (pretty_table PRODUCERS_HEADERS (map producer_cells states)) (JArray (map producer_json states))"

definition run_describe_producers :: "'c TransactionsEnv \<Rightarrow> DescribeProducersArgs \<Rightarrow> ('c, CommandResult) cmd" where
  "run_describe_producers env self =
     cmd_bind (tx_connect env) (\<lambda>_.
     cmd_bind (tx_options env) (\<lambda>_.
     cmd_bind (producer_states env (dp_broker_id self) [(dp_topic self, dp_partition self)]) (\<lambda>answer.
     case answer of
       Inl (_, cause) \<Rightarrow> cmd_fail (tx_failure (''Failed to describe producers for partition '' @ dp_topic self @ ''-'' @ show_int (dp_partition self) @
         '' on '' @ (case dp_broker_id self of None \<Rightarrow> ''leader'' | Some broker \<Rightarrow> ''broker '' @ show_int broker)) cause)
     | Inr states \<Rightarrow> cmd_ret (producers_table (if states = [] then [] else snd (last states))))))"

section \<open>abort\<close>

definition abort_target :: "AbortArgs \<Rightarrow> AbortTarget res" where
  "abort_target self =
     (case aa_start_offset self of
        Some start_offset \<Rightarrow> Inr (StartOffset start_offset)
      | None \<Rightarrow>
          res_bind (ok_or ''The transaction to abort must be identified either with --start-offset (for brokers on 3.0 or above) or with --producer-id, --producer-epoch, and --coordinator-epoch (for older brokers)''
            (aa_producer_id self)) (\<lambda>producer_id.
          res_bind (ok_or ''Missing required argument --producer-epoch'' (aa_producer_epoch self)) (\<lambda>producer_epoch.
          res_bind (ok_or ''Missing required argument --coordinator-epoch'' (aa_coordinator_epoch self)) (\<lambda>coordinator_epoch.
          Inr (Producer producer_id producer_epoch (max coordinator_epoch 0))))))"

definition java_short :: "int \<Rightarrow> int" where
  "java_short n = sint (word_of_int n :: 16 word)"

definition partition_text :: "AbortArgs \<Rightarrow> string" where
  "partition_text self = aa_topic self @ ''-'' @ show_int (aa_partition self)"

definition spec_of_state :: "AbortArgs \<Rightarrow> ProducerState \<Rightarrow> AbortTransactionSpec" where
  "spec_of_state self state =
     \<lparr>ab_topic = aa_topic self, ab_partition = aa_partition self, ab_producer_id = ps_producer_id state,
      ab_producer_epoch = java_short (ps_producer_epoch state), ab_coordinator_epoch = max (ps_coordinator_epoch state) 0\<rparr>"

definition spec_at :: "'c TransactionsEnv \<Rightarrow> AbortArgs \<Rightarrow> int \<Rightarrow> ('c, AbortTransactionSpec) cmd" where
  "spec_at env self start_offset =
     (let key = (aa_topic self, aa_partition self)
      in cmd_bind (cmd_call (tx_describe_producers env [key])) (\<lambda>answers.
         case (case map_of answers key of Some r \<Rightarrow> r | None \<Rightarrow> Inr []) of
           Inl error \<Rightarrow> cmd_fail (tx_failure (''Failed to validate producer state for partition '' @ partition_text self) (kafka_failure ''DescribeProducers'' error))
         | Inr states \<Rightarrow>
             (case List.find (\<lambda>state. ps_current_txn_start_offset state = Some start_offset) (map normalized states) of
                None \<Rightarrow> cmd_fail (ErrOther (''Could not find any open transactions starting at offset '' @ show_int start_offset @ '' on partition '' @ partition_text self))
              | Some state \<Rightarrow> cmd_ret (spec_of_state self state))))"

definition spec_string :: "AbortTransactionSpec \<Rightarrow> string" where
  "spec_string spec =
     ''AbortTransactionSpec(topicPartition='' @ ab_topic spec @ ''-'' @ show_int (ab_partition spec) @ '', producerId='' @ show_int (ab_producer_id spec) @
     '', producerEpoch='' @ show_int (ab_producer_epoch spec) @ '', coordinatorEpoch='' @ show_int (ab_coordinator_epoch spec) @ '')''"

definition spec_json :: "AbortTransactionSpec \<Rightarrow> json" where
  "spec_json spec =
     JObject [(''topic'', JString (ab_topic spec)), (''partition'', JInt (ab_partition spec)), (''producer_id'', JInt (ab_producer_id spec)),
       (''producer_epoch'', JInt (ab_producer_epoch spec)), (''coordinator_epoch'', JInt (ab_coordinator_epoch spec))]"

definition abort_spec :: "'c TransactionsEnv \<Rightarrow> AbortArgs \<Rightarrow> AbortTarget \<Rightarrow> ('c, AbortTransactionSpec) cmd" where
  "abort_spec env self target =
     (case target of
        Producer producer_id producer_epoch coordinator_epoch \<Rightarrow>
          cmd_ret \<lparr>ab_topic = aa_topic self, ab_partition = aa_partition self, ab_producer_id = producer_id,
            ab_producer_epoch = producer_epoch, ab_coordinator_epoch = coordinator_epoch\<rparr>
      | StartOffset start_offset \<Rightarrow> spec_at env self start_offset)"

definition run_abort :: "'c TransactionsEnv \<Rightarrow> AbortArgs \<Rightarrow> ('c, CommandResult) cmd" where
  "run_abort env self =
     cmd_bind (cmd_try (abort_target self)) (\<lambda>target.
     cmd_bind (tx_connect env) (\<lambda>_.
     cmd_bind (abort_spec env self target) (\<lambda>spec.
     let report = result_success [] (spec_json spec)
     in if ca_dry_run (aa_confirm self) then cmd_ret (into_dry_run report)
        else cmd_bind (cmd_confirm (confirm (ca_yes (aa_confirm self)) (tx_terminal env) ''krabka transactions''
               \<lparr>im_summary = ''abort 1 hanging transaction'', im_resources = [spec_string spec]\<rparr>)) (\<lambda>_.
          cmd_bind (cmd_admin_as (\<lambda>e. tx_failure (''Failed to abort transaction '' @ spec_string spec) (admin_error e)) (tx_abort_transaction env spec)) (\<lambda>_.
          cmd_ret report)))))"

section \<open>find-hanging\<close>

definition check_hanging :: "FindHangingArgs \<Rightarrow> unit res" where
  "check_hanging self =
     (if fh_topic self = None \<and> fh_broker_id self = None
      then Inl ''The `find-hanging` command requires either --topic or --broker-id to limit the scope of the search''
      else if fh_partition self \<noteq> None \<and> fh_topic self = None then Inl ''The --partition argument requires --topic to be provided''
      else Inr ())"

fun chunks :: "nat \<Rightarrow> 'a list \<Rightarrow> 'a list list" where
  "chunks n [] = []"
| "chunks n (x # xs) = take n (x # xs) # chunks n (drop (n - 1) xs)"

definition take_description ::
    "nat \<Rightarrow> (string, KafkaError + TopicDescription) btmap \<Rightarrow> string \<Rightarrow> CommandError + TopicDescription" where
  "take_description batch_len described name =
     (let fail = tx_failure (''Failed to describe '' @ show_nat batch_len @ '' topics'')
      in case map_of described name of
           Some (Inr description) \<Rightarrow> Inr description
         | Some (Inl error) \<Rightarrow> Inl (fail (kafka_failure ''DescribeTopicPartitions'' error))
         | None \<Rightarrow> Inl (fail (ErrOther (''the answer did not describe topic '' @ name))))"

fun take_descriptions ::
    "nat \<Rightarrow> (string, KafkaError + TopicDescription) btmap \<Rightarrow> string list \<Rightarrow> CommandError + TopicDescription list" where
  "take_descriptions batch_len described [] = Inr []"
| "take_descriptions batch_len described (name # names) =
     res_bind (take_description batch_len described name) (\<lambda>d.
     res_bind (take_descriptions batch_len (bt_remove name described) names) (\<lambda>ds. Inr (d # ds)))"

definition on_broker :: "FindHangingArgs \<Rightarrow> TopicPartitionDescription \<Rightarrow> bool" where
  "on_broker self p = (case fh_broker_id self of None \<Rightarrow> True | Some broker \<Rightarrow> list_ex (\<lambda>node. node_id node = broker) (pd_replicas p))"

definition searched_partitions :: "FindHangingArgs \<Rightarrow> nat \<Rightarrow> TopicDescription list \<Rightarrow> partition_key list" where
  "searched_partitions self batch_len ds =
     concat (map (\<lambda>d. map (\<lambda>p. (td_name d, pd_partition p)) (filter (on_broker self) (td_partitions d)))
       (hash_order ds (WithCapacity batch_len) (\<lambda>d. string_hash (td_name d))))"

fun search_batches :: "'c TransactionsEnv \<Rightarrow> FindHangingArgs \<Rightarrow> string list list \<Rightarrow> ('c, partition_key list) cmd" where
  "search_batches env self [] = cmd_ret []"
| "search_batches env self (batch # batches) =
     cmd_bind (cmd_call (tx_describe_topics env batch)) (\<lambda>described.
     cmd_bind (cmd_res (take_descriptions (length batch) described batch)) (\<lambda>ds.
     cmd_bind (search_batches env self batches) (\<lambda>rest. cmd_ret (searched_partitions self (length batch) ds @ rest))))"

definition search_topics :: "'c TransactionsEnv \<Rightarrow> FindHangingArgs \<Rightarrow> ('c, string list) cmd" where
  "search_topics env self =
     (case fh_topic self of
        Some topic \<Rightarrow> cmd_ret [topic]
      | None \<Rightarrow> cmd_bind (cmd_admin_as (\<lambda>e. tx_failure ''Failed to list topics'' (admin_error e)) (tx_list_topics env)) (\<lambda>names.
          cmd_ret (hash_order names Default string_hash)))"

definition partitions_to_search :: "'c TransactionsEnv \<Rightarrow> FindHangingArgs \<Rightarrow> ('c, partition_key list) cmd" where
  "partitions_to_search env self =
     (case (fh_topic self, fh_partition self) of
        (Some topic, Some p) \<Rightarrow> cmd_ret [(topic, p)]
      | _ \<Rightarrow> cmd_bind (search_topics env self) (\<lambda>topics. search_batches env self (chunks MAX_BATCH_SIZE topics)))"

record OpenTransaction =
  ot_partition :: partition_key
  ot_state :: ProducerState

definition is_candidate :: "int \<Rightarrow> int \<Rightarrow> ProducerState \<Rightarrow> bool" where
  "is_candidate now max_timeout state \<longleftrightarrow>
     ps_current_txn_start_offset state \<noteq> None \<and> max_timeout < sub_i64 now (ps_last_timestamp_ms state)"

definition open_candidates :: "(partition_key \<times> ProducerState list) list \<Rightarrow> nat \<Rightarrow> int \<Rightarrow> int \<Rightarrow> OpenTransaction list" where
  "open_candidates states batch_len now max_timeout =
     concat (map (\<lambda>(key, states). map (\<lambda>state. \<lparr>ot_partition = key, ot_state = state\<rparr>) (filter (is_candidate now max_timeout) states))
       (hash_order states (WithCapacity batch_len) (\<lambda>(key, _). topic_partition_hash (fst key) (snd key))))"

definition long_hash :: "int \<Rightarrow> 32 word" where
  "long_hash n = (let bits = word_of_int n :: 64 word in ucast (bits XOR drop_bit 32 bits))"

fun add_to_group :: "OpenTransaction \<Rightarrow> (int \<times> OpenTransaction list) list \<Rightarrow> (int \<times> OpenTransaction list) list" where
  "add_to_group c [] = [(ps_producer_id (ot_state c), [c])]"
| "add_to_group c ((producer, grp) # groups) =
     (if producer = ps_producer_id (ot_state c) then (producer, grp @ [c]) # groups
      else (producer, grp) # add_to_group c groups)"

definition group_by_producer :: "OpenTransaction list \<Rightarrow> (int \<times> OpenTransaction list) list" where
  "group_by_producer candidates =
     hash_order (foldl (\<lambda>groups c. add_to_group c groups) [] candidates) Default (\<lambda>(producer, _). long_hash producer)"

definition coordinator_view ::
    "(int, string) btmap \<Rightarrow> (string, TransactionDescription option) btmap \<Rightarrow> int \<Rightarrow> TransactionDescription option" where
  "coordinator_view transactional_ids ds producer =
     Option.bind (Option.bind (map_of transactional_ids producer) (map_of ds)) id"

definition hanging_transactions ::
    "(int \<times> OpenTransaction list) list \<Rightarrow> (int, string) btmap \<Rightarrow> (string, TransactionDescription option) btmap \<Rightarrow> OpenTransaction list" where
  "hanging_transactions by_producer transactional_ids ds =
     concat (map (\<lambda>(producer, open).
       case coordinator_view transactional_ids ds producer of
         None \<Rightarrow> open
       | Some d \<Rightarrow> filter (\<lambda>c. ot_partition c \<notin> set (xd_topic_partitions d)) open) by_producer)"

definition start_offset_or :: "ProducerState \<Rightarrow> int" where
  "start_offset_or state = (case ps_current_txn_start_offset state of Some n \<Rightarrow> n | None \<Rightarrow> - 1)"

definition minutes_open :: "int \<Rightarrow> OpenTransaction \<Rightarrow> int" where
  "minutes_open now c = trunc_div (sub_i64 now (ps_last_timestamp_ms (ot_state c))) 60000"

definition hanging_cells :: "int \<Rightarrow> OpenTransaction \<Rightarrow> string list" where
  "hanging_cells now c =
     [fst (ot_partition c), show_int (snd (ot_partition c)), show_int (ps_producer_id (ot_state c)), show_int (ps_producer_epoch (ot_state c)),
      show_int (ps_coordinator_epoch (ot_state c)), show_int (start_offset_or (ot_state c)), show_int (ps_last_timestamp_ms (ot_state c)),
      show_int (minutes_open now c)]"

definition hanging_json :: "int \<Rightarrow> OpenTransaction \<Rightarrow> json" where
  "hanging_json now c =
     JObject [(''topic'', JString (fst (ot_partition c))), (''partition'', JInt (snd (ot_partition c))),
       (''producer_id'', JInt (ps_producer_id (ot_state c))), (''producer_epoch'', JInt (ps_producer_epoch (ot_state c))),
       (''coordinator_epoch'', JInt (ps_coordinator_epoch (ot_state c))), (''start_offset'', JInt (start_offset_or (ot_state c))),
       (''last_timestamp'', JInt (ps_last_timestamp_ms (ot_state c))), (''duration_min'', JInt (minutes_open now c))]"

definition hanging_table :: "OpenTransaction list \<Rightarrow> int \<Rightarrow> CommandResult" where
  "hanging_table hanging now =
     result_success (pretty_table HANGING_HEADERS (map (hanging_cells now) hanging)) (JArray (map (hanging_json now) hanging))"

definition java_optional :: "int option \<Rightarrow> string" where
  "java_optional v = (case v of None \<Rightarrow> ''Optional.empty'' | Some n \<Rightarrow> ''Optional['' @ show_int n @ '']'')"

fun find_candidates :: "'c TransactionsEnv \<Rightarrow> FindHangingArgs \<Rightarrow> int \<Rightarrow> partition_key list list \<Rightarrow> ('c, OpenTransaction list) cmd" where
  "find_candidates env self max_timeout [] = cmd_ret []"
| "find_candidates env self max_timeout (batch # batches) =
     cmd_bind (producer_states env (fh_broker_id self) batch) (\<lambda>answer.
     case answer of
       Inl (_, cause) \<Rightarrow> cmd_fail (tx_failure (''Failed to describe producers for '' @ show_nat (length batch) @ '' partitions on broker '' @
         java_optional (fh_broker_id self)) cause)
     | Inr states \<Rightarrow>
         cmd_bind (cmd_call (tx_now env)) (\<lambda>now.
         cmd_bind (find_candidates env self max_timeout batches) (\<lambda>rest.
         cmd_ret (open_candidates states (length batch) now max_timeout @ rest))))"

definition known_ids :: "int list \<Rightarrow> TransactionListing list \<Rightarrow> (int, string) btmap" where
  "known_ids producers listings =
     bt_of_list (map (\<lambda>t. (tl_producer_id t, tl_transactional_id t)) (filter (\<lambda>t. tl_producer_id t \<in> set producers) listings))"

fun describe_known ::
    "'c TransactionsEnv \<Rightarrow> nat \<Rightarrow> (string, TransactionDescription option) btmap \<Rightarrow> string list \<Rightarrow> ('c, (string, TransactionDescription option) btmap) cmd" where
  "describe_known env known_count ds [] = cmd_ret ds"
| "describe_known env known_count ds (i # rest) =
     (if map_of ds i \<noteq> None then describe_known env known_count ds rest
      else cmd_bind (cmd_call (tx_describe_transaction env i)) (\<lambda>answer.
        case answer of
          Inr d \<Rightarrow> describe_known env known_count (bt_insert i (Some d) ds) rest
        | Inl error \<Rightarrow>
            if (case error of AdminBroker _ code _ _ \<Rightarrow> code = TRANSACTIONAL_ID_NOT_FOUND | _ \<Rightarrow> False)
            then describe_known env known_count (bt_insert i None ds) rest
            else cmd_fail (tx_failure (''Failed to describe '' @ show_nat known_count @ '' transactions'') (admin_error error))))"

definition run_find_hanging :: "'c TransactionsEnv \<Rightarrow> FindHangingArgs \<Rightarrow> ('c, CommandResult) cmd" where
  "run_find_hanging env self =
     cmd_bind (cmd_try (check_hanging self)) (\<lambda>_.
     cmd_bind (tx_connect env) (\<lambda>_.
     cmd_bind (tx_options env) (\<lambda>_.
     cmd_bind (partitions_to_search env self) (\<lambda>partitions.
     cmd_bind (find_candidates env self (fh_max_transaction_timeout self * 60000) (chunks MAX_BATCH_SIZE partitions)) (\<lambda>candidates.
     if candidates = [] then cmd_bind (cmd_call (tx_now env)) (\<lambda>now. cmd_ret (hanging_table [] now))
     else let by_producer = group_by_producer candidates; producers = map fst by_producer
       in cmd_bind (cmd_admin_as (\<lambda>e. tx_failure (''Failed to list transactions for '' @ show_nat (length producers) @ '' producers'') (admin_error e))
            (tx_list_transactions env producers)) (\<lambda>listings.
          let known = known_ids producers listings
          in cmd_bind (describe_known env (length known) [] (map snd known)) (\<lambda>ds.
             cmd_bind (cmd_call (tx_now env)) (\<lambda>now. cmd_ret (hanging_table (hanging_transactions by_producer known ds) now)))))))))"

section \<open>forceTerminateTransaction\<close>

definition run_force_terminate :: "'c TransactionsEnv \<Rightarrow> ForceTerminateArgs \<Rightarrow> ('c, CommandResult) cmd" where
  "run_force_terminate env self =
     (let i = ft_transactional_id self; report = result_success [] (JObject [(''transactional_id'', JString i)])
      in if ca_dry_run (ft_confirm self) then cmd_bind (tx_connect env) (\<lambda>_. cmd_ret (into_dry_run report))
         else cmd_bind (cmd_confirm (confirm (ca_yes (ft_confirm self)) (tx_terminal env) ''krabka transactions''
                \<lparr>im_summary = ''force-terminate the transaction of 1 transactional id'', im_resources = [i]\<rparr>)) (\<lambda>_.
           cmd_bind (tx_connect env) (\<lambda>_.
           cmd_bind (cmd_admin_as (\<lambda>e. tx_failure (''Failed to force terminate transactionalId `'' @ i @ ''`'') (admin_error e)) (tx_force_terminate env i)) (\<lambda>_.
           cmd_ret report))))"

section \<open>The command\<close>

definition run_transactions :: "'c TransactionsEnv \<Rightarrow> TransactionsCommand \<Rightarrow> ('c, CommandResult) cmd" where
  "run_transactions env command =
     (case command of
        TxList self \<Rightarrow> run_list env self
      | TxDescribe names \<Rightarrow> run_describe env names
      | TxDescribeProducers self \<Rightarrow> run_describe_producers env self
      | TxAbort self \<Rightarrow> run_abort env self
      | TxFindHanging self \<Rightarrow> run_find_hanging env self
      | TxForceTerminate self \<Rightarrow> run_force_terminate env self)"

end
