(* ===== verification/Transactions_Safety.thy ===== *)
theory Transactions_Safety
  imports Transactions
begin

text \<open>
  What \<open>kafka-transactions\<close> promises: which command lines change the cluster, that every command ends, which transaction an abort names, and which
  transactions \<open>find-hanging\<close> reports.
\<close>

section \<open>Hanging transactions\<close>

abbreviation producer_of :: "OpenTransaction \<Rightarrow> int" where "producer_of c \<equiv> ps_producer_id (ot_state c)"

text \<open>Kafka's criterion: the coordinator has no transaction for the producer, or one that does not include the partition.\<close>

definition hangs :: "(int, string) btmap \<Rightarrow> (string, TransactionDescription option) btmap \<Rightarrow> OpenTransaction \<Rightarrow> bool" where
  "hangs known ds c =
     (case coordinator_view known ds (producer_of c) of None \<Rightarrow> True | Some d \<Rightarrow> ot_partition c \<notin> set (xd_topic_partitions d))"

definition groups_ok :: "(int \<times> OpenTransaction list) list \<Rightarrow> bool" where
  "groups_ok gs \<longleftrightarrow> distinct (map fst gs) \<and> (\<forall>(p, cs) \<in> set gs. cs \<noteq> [] \<and> (\<forall>c \<in> set cs. producer_of c = p))"

lemma add_to_group_fst: "set (map fst (add_to_group c gs)) = insert (producer_of c) (set (map fst gs))"
  by (induction c gs rule: add_to_group.induct) auto

lemma add_to_group_ok: "groups_ok gs \<Longrightarrow> groups_ok (add_to_group c gs)"
proof (induction c gs rule: add_to_group.induct)
  case (2 c p cs gs)
  then show ?case using add_to_group_fst [of c gs] by (auto simp: groups_ok_def)
qed (simp add: groups_ok_def)

lemma add_to_group_mset: "mset (concat (map snd (add_to_group c gs))) = add_mset c (mset (concat (map snd gs)))"
  by (induction c gs rule: add_to_group.induct) simp_all

lemma fold_groups:
  "groups_ok gs \<Longrightarrow> groups_ok (foldl (\<lambda>gs c. add_to_group c gs) gs cs)
    \<and> mset (concat (map snd (foldl (\<lambda>gs c. add_to_group c gs) gs cs))) = mset (concat (map snd gs)) + mset cs"
  by (induction cs arbitrary: gs) (simp_all add: add_to_group_ok add_to_group_mset)

lemma groups_ok_mset:
  assumes "mset gs = mset gs'"
  shows "groups_ok gs = groups_ok gs'"
proof -
  have "mset (map fst gs) = mset (map fst gs')" using assms by simp
  then have "distinct (map fst gs) = distinct (map fst gs')" by (rule mset_eq_imp_distinct_iff)
  then show ?thesis unfolding groups_ok_def mset_eq_setD [OF assms] by simp
qed

lemma concat_mset: "mset gs = mset gs' \<Longrightarrow> mset (concat gs) = mset (concat gs')"
  unfolding mset_concat sum_mset_sum_list [symmetric] mset_map by simp

lemma group_by_producer_ok: "groups_ok (group_by_producer cs)" "mset (concat (map snd (group_by_producer cs))) = mset cs"
proof -
  let ?gs = "foldl (\<lambda>gs c. add_to_group c gs) [] cs"
  have same: "mset (group_by_producer cs) = mset ?gs" unfolding group_by_producer_def by (rule ho.order_mset)
  have "groups_ok []" by (simp add: groups_ok_def)
  note gs = fold_groups [OF this, of cs]
  show "groups_ok (group_by_producer cs)" using gs groups_ok_mset [OF same] by simp
  show "mset (concat (map snd (group_by_producer cs))) = mset cs"
    using gs concat_mset [of "map snd (group_by_producer cs)" "map snd ?gs"] same by simp
qed

lemma hanging_of_groups:
  assumes "groups_ok gs"
  shows "hanging_transactions gs known ds = filter (hangs known ds) (concat (map snd gs))"
proof -
  have "(case coordinator_view known ds p of None \<Rightarrow> cs | Some d \<Rightarrow> filter (\<lambda>c. ot_partition c \<notin> set (xd_topic_partitions d)) cs) =
      filter (hangs known ds) cs" if "(p, cs) \<in> set gs" for p cs
  proof -
    have "producer_of c = p" if "c \<in> set cs" for c using assms \<open>(p, cs) \<in> set gs\<close> that by (auto simp: groups_ok_def)
    then show ?thesis by (auto simp: hangs_def intro!: filter_cong split: option.split)
  qed
  then show ?thesis by (auto simp: hanging_transactions_def filter_concat intro!: arg_cong [of _ _ concat])
qed

lemma open_candidates_mset:
  "mset (open_candidates states n now timeout) =
     mset (concat (map (\<lambda>(key, ss). map (\<lambda>s. \<lparr>ot_partition = key, ot_state = s\<rparr>) (filter (is_candidate now timeout) ss)) states))"
  unfolding open_candidates_def by (intro concat_mset) (simp add: ho.order_mset)

lemma hanging_of_candidates: "mset (hanging_transactions (group_by_producer cs) known ds) = mset (filter (hangs known ds) cs)"
  unfolding hanging_of_groups [OF group_by_producer_ok(1)] mset_filter group_by_producer_ok(2) ..

lemma group_by_producer_fst: "set (map fst (group_by_producer cs)) = producer_of ` set cs"
proof -
  note ok = group_by_producer_ok(1) [of cs, unfolded groups_ok_def, THEN conjunct2]
  have "set cs = set (concat (map snd (group_by_producer cs)))" using group_by_producer_ok(2) [of cs] by (rule mset_eq_setD [symmetric])
  then have "producer_of ` set cs = (\<Union>g \<in> set (group_by_producer cs). producer_of ` set (snd g))" by auto
  also have "\<dots> = fst ` set (group_by_producer cs)"
  proof -
    have "producer_of ` set (snd g) = {fst g}" if "g \<in> set (group_by_producer cs)" for g
    proof -
      have "snd g \<noteq> []" "\<forall>c \<in> set (snd g). producer_of c = fst g" using bspec [OF ok that] by (auto simp: case_prod_unfold)
      then show ?thesis by (cases "snd g") auto
    qed
    then show ?thesis by auto
  qed
  finally show ?thesis by simp
qed

subsection \<open>A cluster that answers\<close>

text \<open>What \<open>find-hanging\<close> relies on, of a cluster that does not change and never fails: a clock, the producers that the leader of a partition reports, the
  transactions that the coordinators list by producer id and describe by transactional id, and the topics. A producer id belongs to one transactional id.\<close>

definition quiet_cluster ::
    "'c TransactionsEnv \<Rightarrow> int \<Rightarrow> (partition_key \<Rightarrow> ProducerState list) \<Rightarrow> TransactionListing set \<Rightarrow> (string \<Rightarrow> TransactionDescription option)
      \<Rightarrow> (string \<Rightarrow> TopicDescription) \<Rightarrow> bool" where
  "quiet_cluster env now producers listings descr topics \<longleftrightarrow>
     (\<forall>st. tx_connect env st = Some (Inr (), st)) \<and> (\<forall>st. tx_options env st = Some (Inr (), st)) \<and> (\<forall>st. tx_now env st = (now, st))
   \<and> (\<forall>keys st. \<exists>answers. tx_describe_producers env keys st = (answers, st) \<and> (\<forall>key \<in> set keys. map_of answers key = Some (Inr (producers key))))
   \<and> (\<forall>pids st. \<exists>found. tx_list_transactions env pids st = (Inr found, st) \<and> set found = {t \<in> listings. tl_producer_id t \<in> set pids})
   \<and> (\<forall>i st. \<exists>answer. tx_describe_transaction env i st = (answer, st) \<and>
        (case descr i of Some d \<Rightarrow> answer = Inr d | None \<Rightarrow> \<exists>api name message. answer = Inl (AdminBroker api 105 name message)))
   \<and> (\<forall>names st. \<exists>described. tx_describe_topics env names st = (described, st) \<and> (\<forall>name \<in> set names. map_of described name = Some (Inr (topics name))))
   \<and> (\<forall>t \<in> listings. \<forall>u \<in> listings. tl_producer_id t = tl_producer_id u \<longrightarrow> tl_transactional_id t = tl_transactional_id u)"

lemma quiet_clusterD:
  assumes "quiet_cluster env now producers listings descr topics"
  shows "tx_connect env st = Some (Inr (), st)" "tx_options env st = Some (Inr (), st)" "tx_now env st = (now, st)"
    and "\<exists>answers. tx_describe_producers env keys st = (answers, st) \<and> (\<forall>key \<in> set keys. map_of answers key = Some (Inr (producers key)))"
    and "\<exists>found. tx_list_transactions env pids st = (Inr found, st) \<and> set found = {t \<in> listings. tl_producer_id t \<in> set pids}"
    and "\<exists>answer. tx_describe_transaction env i st = (answer, st) \<and>
        (case descr i of Some d \<Rightarrow> answer = Inr d | None \<Rightarrow> \<exists>api name message. answer = Inl (AdminBroker api 105 name message))"
    and "\<exists>described. tx_describe_topics env names st = (described, st) \<and> (\<forall>name \<in> set names. map_of described name = Some (Inr (topics name)))"
    and "t \<in> listings \<Longrightarrow> u \<in> listings \<Longrightarrow> tl_producer_id t = tl_producer_id u \<Longrightarrow> tl_transactional_id t = tl_transactional_id u"
  using assms unfolding quiet_cluster_def by blast+

text \<open>The transaction of a producer in a partition hangs: it is open, it is older than the timeout, and no transaction that a coordinator lists for the producer
  includes the partition.\<close>

definition hanging ::
    "TransactionListing set \<Rightarrow> (string \<Rightarrow> TransactionDescription option) \<Rightarrow> int \<Rightarrow> int \<Rightarrow> partition_key \<Rightarrow> ProducerState \<Rightarrow> bool" where
  "hanging listings descr now minutes key s \<longleftrightarrow>
     (\<exists>offset \<ge> 0. ps_current_txn_start_offset s = Some offset)
     \<and> minutes * 60000 < now - ps_last_timestamp_ms s
     \<and> \<not> (\<exists>t \<in> listings. tl_producer_id t = ps_producer_id s \<and> (\<exists>d. descr (tl_transactional_id t) = Some d \<and> key \<in> set (xd_topic_partitions d)))"

lemma concat_chunks: "0 < n \<Longrightarrow> concat (chunks n xs) = xs"
proof (induction n xs rule: chunks.induct)
  case (2 n x xs)
  have "drop (n - 1) xs = drop n (x # xs)" using 2(2) by (cases n) simp_all
  then show ?case using 2 by (simp del: take_Suc_Cons drop_Suc_Cons)
qed simp

lemma take_states_all:
  "distinct keys \<Longrightarrow> \<forall>key \<in> set keys. map_of answers key = Some (Inr (f key)) \<Longrightarrow>
     take_states answers keys = Inr (map (\<lambda>key. (key, map normalized (f key))) keys)"
proof (induction keys arbitrary: answers)
  case (Cons key keys)
  have "take_states (bt_remove key answers) keys = Inr (map (\<lambda>key. (key, map normalized (f key))) keys)"
    by (rule Cons.IH) (use Cons.prems in \<open>auto simp: map_of_bt_remove\<close>)
  with Cons.prems show ?case by simp
qed simp

lemma map_of_leader_answers: "map_of (leader_answers answers) key = map_option (map_sum (kafka_failure ''DescribeProducers'') id) (map_of answers key)"
  unfolding leader_answers_def by (induction answers) auto

lemma leader_states:
  assumes "quiet_cluster env now producers listings descr topics" and "distinct keys"
  shows "producer_states env None keys st = Some (Inr (Inr (map (\<lambda>key. (key, map normalized (producers key))) keys)), st)"
proof -
  obtain answers where answers: "tx_describe_producers env keys st = (answers, st)" "\<forall>key \<in> set keys. map_of answers key = Some (Inr (producers key))"
    using quiet_clusterD(4) [OF assms(1)] by blast
  have "take_states (leader_answers answers) keys = Inr (map (\<lambda>key. (key, map normalized (producers key))) keys)"
    using assms(2) by (rule take_states_all) (simp add: map_of_leader_answers answers(2))
  then show ?thesis using answers(1) by (simp add: producer_states_def cmd_bind_def cmd_call_def cmd_ret_def)
qed

abbreviation candidates_of :: "(partition_key \<Rightarrow> ProducerState list) \<Rightarrow> int \<Rightarrow> int \<Rightarrow> partition_key list \<Rightarrow> OpenTransaction list" where
  "candidates_of producers now timeout keys \<equiv>
     concat (map (\<lambda>key. map (\<lambda>s. \<lparr>ot_partition = key, ot_state = s\<rparr>) (filter (is_candidate now timeout) (map normalized (producers key)))) keys)"

lemma find_candidates_all:
  assumes "quiet_cluster env now producers listings descr topics" and "fh_broker_id self = None" and "distinct (concat batches)"
  shows "\<exists>cs. find_candidates env self timeout batches st = Some (Inr cs, st) \<and> mset cs = mset (candidates_of producers now timeout (concat batches))"
  using assms(3)
proof (induction batches)
  case Nil
  then show ?case by (simp add: cmd_ret_def)
next
  case (Cons batch batches)
  then obtain cs where cs: "find_candidates env self timeout batches st = Some (Inr cs, st)" "mset cs = mset (candidates_of producers now timeout (concat batches))"
    by auto
  let ?states = "map (\<lambda>key. (key, map normalized (producers key))) batch"
  have "producer_states env (fh_broker_id self) batch st = Some (Inr (Inr ?states), st)"
    unfolding assms(2) by (rule leader_states [OF assms(1)]) (use Cons.prems in simp)
  then have "find_candidates env self timeout (batch # batches) st = Some (Inr (open_candidates ?states (length batch) now timeout @ cs), st)"
    by (simp add: cmd_bind_def cs(1) cmd_call_def cmd_ret_def quiet_clusterD(3) [OF assms(1)])
  moreover have "mset (open_candidates ?states (length batch) now timeout) = mset (candidates_of producers now timeout batch)"
    unfolding open_candidates_mset by (simp add: comp_def)
  ultimately show ?case using cs(2) by simp
qed

lemma describe_known_all:
  assumes "quiet_cluster env now producers listings descr topics" and "bt_ok ds"
  shows "\<exists>ds'. describe_known env n ds pids st = Some (Inr ds', st)
    \<and> (\<forall>i. map_of ds' i = (if map_of ds i = None \<and> i \<in> set pids then Some (descr i) else map_of ds i))"
  using assms(2)
proof (induction pids arbitrary: ds)
  case Nil
  then show ?case by (simp add: cmd_ret_def)
next
  case (Cons i pids)
  show ?case
  proof (cases "map_of ds i")
    case (Some d)
    then show ?thesis using Cons.IH [OF Cons.prems] by auto
  next
    case None
    obtain answer where answer: "tx_describe_transaction env i st = (answer, st)"
        "case descr i of Some d \<Rightarrow> answer = Inr d | None \<Rightarrow> \<exists>api name message. answer = Inl (AdminBroker api 105 name message)"
      using quiet_clusterD(6) [OF assms(1)] by blast
    have "describe_known env n ds (i # pids) st = describe_known env n (bt_insert i (descr i) ds) pids st"
      using None answer by (auto simp: cmd_bind_def cmd_call_def TRANSACTIONAL_ID_NOT_FOUND_def split: option.splits)
    moreover obtain ds' where "describe_known env n (bt_insert i (descr i) ds) pids st = Some (Inr ds', st)"
        "\<forall>j. map_of ds' j = (if map_of (bt_insert i (descr i) ds) j = None \<and> j \<in> set pids then Some (descr j) else map_of (bt_insert i (descr i) ds) j)"
      using Cons.IH [of "bt_insert i (descr i) ds"] Cons.prems by auto
    ultimately show ?thesis using None Cons.prems by (auto simp: map_of_bt_insert)
  qed
qed

text \<open>The coordinator's view of a producer that is asked for.\<close>

lemma coordinator_view_listed:
  assumes "quiet_cluster env now producers listings descr topics" and "set found = {t \<in> listings. tl_producer_id t \<in> set pids}" and "p \<in> set pids"
    and "\<forall>i. map_of ds i = (if i \<in> set (map snd (known_ids pids found)) then Some (descr i) else None)"
  shows "(case coordinator_view (known_ids pids found) ds p of None \<Rightarrow> True | Some d \<Rightarrow> key \<notin> set (xd_topic_partitions d)) \<longleftrightarrow>
    \<not> (\<exists>t \<in> listings. tl_producer_id t = p \<and> (\<exists>d. descr (tl_transactional_id t) = Some d \<and> key \<in> set (xd_topic_partitions d)))"
proof -
  let ?rows = "map (\<lambda>t. (tl_producer_id t, tl_transactional_id t)) (filter (\<lambda>t. tl_producer_id t \<in> set pids) found)"
  have known: "map_of (known_ids pids found) p = map_of (rev ?rows) p" by (simp add: known_ids_def map_of_bt_of_list)
  have row: "\<exists>t \<in> listings. tl_producer_id t = p \<and> tl_transactional_id t = i" if "map_of (known_ids pids found) p = Some i" for i
  proof -
    have "(p, i) \<in> set ?rows" using map_of_SomeD [OF that [unfolded known]] by simp
    then obtain t where "t \<in> set found" "p = tl_producer_id t" "i = tl_transactional_id t" by auto
    then show ?thesis using assms(2) by blast
  qed
  have some: "map_of (known_ids pids found) p = Some (tl_transactional_id t)" if t: "t \<in> listings" "tl_producer_id t = p" for t
  proof -
    have "t \<in> set (filter (\<lambda>t. tl_producer_id t \<in> set pids) found)" using t assms(2,3) by simp
    then have "(\<lambda>t. (tl_producer_id t, tl_transactional_id t)) t \<in> set (rev ?rows)" unfolding set_rev set_map by (rule imageI)
    then have "p \<in> fst ` set (rev ?rows)" unfolding t(2) by (rule image_eqI [rotated]) simp
    then have "map_of (known_ids pids found) p \<noteq> None" unfolding known map_of_eq_None_iff not_not .
    then obtain i where i: "map_of (known_ids pids found) p = Some i" unfolding not_None_eq by (rule exE)
    obtain u where "u \<in> listings" "tl_producer_id u = p" "tl_transactional_id u = i" using row [OF i] by blast
    with quiet_clusterD(8) [OF assms(1), of t u] t i show ?thesis by simp
  qed
  have seen: "map_of ds i = Some (descr i)" if "map_of (known_ids pids found) p = Some i" for i
  proof -
    have "(p, i) \<in> set (known_ids pids found)" using that by (rule map_of_SomeD)
    then have "i \<in> set (map snd (known_ids pids found))" by force
    with assms(4) show ?thesis by simp
  qed
  show ?thesis
  proof (cases "map_of (known_ids pids found) p")
    case None
    have "tl_producer_id t \<noteq> p" if "t \<in> listings" for t using some [OF that] None by auto
    with None show ?thesis by (auto simp: coordinator_view_def)
  next
    case (Some i)
    have "(\<exists>t \<in> listings. tl_producer_id t = p \<and> Q (tl_transactional_id t)) \<longleftrightarrow> Q i" for Q
    proof -
      obtain u where u: "u \<in> listings" "tl_producer_id u = p" "tl_transactional_id u = i" using row [OF Some] by blast
      have same: "tl_transactional_id t = i" if "t \<in> listings" "tl_producer_id t = p" for t using some [OF that] Some by simp
      show ?thesis
      proof
        assume "\<exists>t \<in> listings. tl_producer_id t = p \<and> Q (tl_transactional_id t)"
        then obtain t where t: "t \<in> listings" "tl_producer_id t = p" "Q (tl_transactional_id t)" by (elim bexE conjE)
        show "Q i" using t(3) unfolding same [OF t(1,2)] .
      next
        assume "Q i"
        then have "Q (tl_transactional_id u)" unfolding u(3) .
        with u(1,2) show "\<exists>t \<in> listings. tl_producer_id t = p \<and> Q (tl_transactional_id t)" by (intro bexI [of _ u] conjI)
      qed
    qed
    from this [of "\<lambda>i. \<exists>d. descr i = Some d \<and> key \<in> set (xd_topic_partitions d)"] show ?thesis
      by (simp add: coordinator_view_def Some seen [OF Some] split: option.split)
  qed
qed

lemma sub_i64_fits: "i64_min \<le> a - b \<Longrightarrow> a - b \<le> i64_max \<Longrightarrow> sub_i64 a b = a - b"
proof -
  have fits: "sint (word_of_int d :: 64 word) = d" if "i64_min \<le> d" "d \<le> i64_max" for d using that by (simp add: int_word_sint)
  show "i64_min \<le> a - b \<Longrightarrow> a - b \<le> i64_max \<Longrightarrow> sub_i64 a b = a - b" unfolding sub_i64_def by (rule fits)
qed

lemma is_candidate_normalized:
  assumes "i64_min \<le> now - ps_last_timestamp_ms s" and "now - ps_last_timestamp_ms s \<le> i64_max"
  shows "is_candidate now timeout (normalized s) \<longleftrightarrow>
    (\<exists>offset \<ge> 0. ps_current_txn_start_offset s = Some offset) \<and> timeout < now - ps_last_timestamp_ms s"
  using sub_i64_fits [OF assms] by (auto simp: is_candidate_def normalized_def split: option.splits)

text \<open>The partitions of a search by topic.\<close>

definition searched :: "FindHangingArgs \<Rightarrow> string \<Rightarrow> (string \<Rightarrow> TopicDescription) \<Rightarrow> partition_key list" where
  "searched self topic topics =
     (case fh_partition self of
        Some p \<Rightarrow> [(topic, p)]
      | None \<Rightarrow> map (\<lambda>p. (td_name (topics topic), pd_partition p)) (td_partitions (topics topic)))"

lemma partitions_to_search_topic:
  assumes "quiet_cluster env now producers listings descr topics" and "fh_broker_id self = None" and "fh_topic self = Some topic"
  shows "partitions_to_search env self st = Some (Inr (searched self topic topics), st)"
proof (cases "fh_partition self")
  case None
  obtain described where d: "tx_describe_topics env [topic] st = (described, st)" "\<forall>name \<in> set [topic]. map_of described name = Some (Inr (topics name))"
    using quiet_clusterD(7) [OF assms(1)] by blast
  have "chunks MAX_BATCH_SIZE [topic] = [[topic]]" by (simp add: MAX_BATCH_SIZE_def)
  moreover have "on_broker self = (\<lambda>_. True)" by (simp add: on_broker_def fun_eq_iff assms(2))
  ultimately show ?thesis using d None
    by (simp add: partitions_to_search_def search_topics_def assms(3) cmd_bind_def cmd_ret_def cmd_call_def cmd_res_def take_description_def
        searched_partitions_def hash_order_single searched_def)
qed (simp add: partitions_to_search_def assms(3) searched_def cmd_ret_def)

text \<open>C29. \<open>find-hanging --topic\<close> (without \<open>--broker-id\<close>), against a cluster that answers and does not change meanwhile, ends with the table of exactly the
  transactions that hang: those of the searched partitions that are open, that are older than the timeout, and of which no coordinator knows, each once, whatever the
  order of the hash tables that the search goes through.\<close>

theorem find_hanging_reports:
  assumes "quiet_cluster env now producers listings descr topics" and "fh_broker_id self = None" and "fh_topic self = Some topic"
    and "distinct (searched self topic topics)"
    and "\<forall>key s. s \<in> set (producers key) \<longrightarrow> i64_min \<le> now - ps_last_timestamp_ms s \<and> now - ps_last_timestamp_ms s \<le> i64_max"
  shows "\<exists>found. run_transactions env (TxFindHanging self) st = Some (Inr (hanging_table found now), st)
    \<and> mset found = mset (concat (map (\<lambda>key. map (\<lambda>s. \<lparr>ot_partition = key, ot_state = normalized s\<rparr>)
        (filter (hanging listings descr now (fh_max_transaction_timeout self) key) (producers key))) (searched self topic topics)))"
proof -
  let ?keys = "searched self topic topics" and ?timeout = "fh_max_transaction_timeout self * 60000"
  have "concat (chunks MAX_BATCH_SIZE ?keys) = ?keys" by (rule concat_chunks) (simp add: MAX_BATCH_SIZE_def)
  then obtain cs where cs: "find_candidates env self ?timeout (chunks MAX_BATCH_SIZE ?keys) st = Some (Inr cs, st)"
      "mset cs = mset (candidates_of producers now ?timeout ?keys)"
    using find_candidates_all [OF assms(1,2), of "chunks MAX_BATCH_SIZE ?keys" ?timeout st] assms(4) by auto
  let ?ids = "map fst (group_by_producer cs)"
  obtain listed where listed: "tx_list_transactions env ?ids st = (Inr listed, st)" "set listed = {t \<in> listings. tl_producer_id t \<in> set ?ids}"
    using quiet_clusterD(5) [OF assms(1)] by blast
  let ?known = "known_ids ?ids listed"
  obtain ds where ds: "describe_known env (length ?known) [] (map snd ?known) st = Some (Inr ds, st)"
      "\<forall>i. map_of ds i = (if i \<in> set (map snd ?known) then Some (descr i) else None)"
    using describe_known_all [OF assms(1) bt_ok_Nil, of "length ?known" "map snd ?known" st] by auto
  define found where "found = (if cs = [] then [] else hanging_transactions (group_by_producer cs) ?known ds)"
  have check: "cmd_try (check_hanging self) st = Some (Inr (), st)" using assms(3) by (simp add: check_hanging_def cmd_try_def cmd_ret_def)
  have clock: "cmd_call (tx_now env) st = Some (Inr now, st)" by (simp add: cmd_call_def quiet_clusterD(3) [OF assms(1)])
  note steps = check quiet_clusterD(1,2) [OF assms(1)] partitions_to_search_topic [OF assms(1-3)] cs(1) clock
  have "run_find_hanging env self st = Some (Inr (hanging_table found now), st)"
    unfolding run_find_hanging_def found_def Let_def
    by (simp add: cmd_bind_def steps cmd_admin_as_def listed(1) ds(1) cmd_ret_def)
  moreover have "mset found = mset (concat (map (\<lambda>key. map (\<lambda>s. \<lparr>ot_partition = key, ot_state = normalized s\<rparr>)
        (filter (hanging listings descr now (fh_max_transaction_timeout self) key) (producers key))) ?keys))"
  proof -
    let ?hangs = "\<lambda>c. \<not> (\<exists>t \<in> listings. tl_producer_id t = producer_of c \<and> (\<exists>d. descr (tl_transactional_id t) = Some d \<and> ot_partition c \<in> set (xd_topic_partitions d)))"
    have view: "hangs ?known ds c = ?hangs c" if "c \<in> set cs" for c
      unfolding hangs_def by (rule coordinator_view_listed [OF assms(1) listed(2) _ ds(2)]) (use that group_by_producer_fst [of cs] in auto)
    have "mset found = mset (filter (hangs ?known ds) cs)" by (simp add: found_def hanging_of_candidates)
    also have "filter (hangs ?known ds) cs = filter ?hangs cs" using view by (intro filter_cong) simp_all
    also have "mset (filter ?hangs cs) = mset (filter ?hangs (candidates_of producers now ?timeout ?keys))" using cs(2) by (simp add: mset_filter)
    also have "filter ?hangs (candidates_of producers now ?timeout ?keys) = concat (map (\<lambda>key. map (\<lambda>s. \<lparr>ot_partition = key, ot_state = normalized s\<rparr>)
        (filter (hanging listings descr now (fh_max_transaction_timeout self) key) (producers key))) ?keys)"
    proof -
      have "filter ?hangs (map (\<lambda>s. \<lparr>ot_partition = key, ot_state = s\<rparr>) (filter (is_candidate now ?timeout) (map normalized (producers key)))) =
          map (\<lambda>s. \<lparr>ot_partition = key, ot_state = normalized s\<rparr>) (filter (hanging listings descr now (fh_max_transaction_timeout self) key) (producers key))" for key
      proof -
        have "is_candidate now ?timeout (normalized s) \<and> ?hangs \<lparr>ot_partition = key, ot_state = normalized s\<rparr> \<longleftrightarrow>
            hanging listings descr now (fh_max_transaction_timeout self) key s" if "s \<in> set (producers key)" for s
        proof -
          have fits: "i64_min \<le> now - ps_last_timestamp_ms s" "now - ps_last_timestamp_ms s \<le> i64_max" using assms(5) that by blast+
          have "ps_producer_id (normalized s) = ps_producer_id s" by (simp add: normalized_def)
          then show ?thesis unfolding is_candidate_normalized [OF fits] hanging_def by simp
        qed
        then show ?thesis by (simp add: filter_map comp_def cong: filter_cong)
      qed
      then show ?thesis by (simp add: filter_concat comp_def)
    qed
    finally show ?thesis .
  qed
  ultimately show ?thesis by (auto simp: run_transactions_def)
qed

section \<open>Aborting\<close>

lemma sint_16_range: "i16_min \<le> sint (w :: 16 word) \<and> sint w \<le> i16_max"
  using sint_range_size [of w] by (simp add: word_size)

text \<open>The transaction that \<open>abort --start-offset\<close> names is one that the leader of the partition reports as open from that offset, which is not
  negative; its epochs fit the request.\<close>

theorem abort_names_open_transaction:
  assumes "spec_at env self start_offset st = Some (Inr spec, st')"
  shows "\<exists>states state. map_of (fst (tx_describe_producers env [(aa_topic self, aa_partition self)] st)) (aa_topic self, aa_partition self) = Some (Inr states)
    \<and> state \<in> set states \<and> ps_current_txn_start_offset state = Some start_offset \<and> 0 \<le> start_offset
    \<and> ab_topic spec = aa_topic self \<and> ab_partition spec = aa_partition self \<and> ab_producer_id spec = ps_producer_id state
    \<and> (i16_min \<le> ps_producer_epoch state \<and> ps_producer_epoch state \<le> i16_max \<longrightarrow> ab_producer_epoch spec = ps_producer_epoch state)
    \<and> i16_min \<le> ab_producer_epoch spec \<and> ab_producer_epoch spec \<le> i16_max
    \<and> ab_coordinator_epoch spec = max (ps_coordinator_epoch state) 0"
proof -
  let ?key = "(aa_topic self, aa_partition self)"
  obtain answers st1 where call: "tx_describe_producers env [?key] st = (answers, st1)" by force
  from assms obtain states found where states: "(case map_of answers ?key of Some r \<Rightarrow> r | None \<Rightarrow> Inr []) = Inr states"
    and found: "List.find (\<lambda>s. ps_current_txn_start_offset s = Some start_offset) (map normalized states) = Some found"
    and spec: "spec = spec_of_state self found"
    by (auto simp: spec_at_def Let_def cmd_bind_def cmd_call_def call cmd_ret_def cmd_fail_def split: sum.splits option.splits)
  from found obtain state where state: "state \<in> set states" "found = normalized state" "ps_current_txn_start_offset found = Some start_offset"
    unfolding find_Some_iff by (metis length_map nth_map nth_mem)
  from state(2,3) have offset: "ps_current_txn_start_offset state = Some start_offset" "0 \<le> start_offset"
    by (auto simp: normalized_def split: option.splits if_splits)
  from states state(1) have "map_of answers ?key = Some (Inr states)" by (auto split: option.splits)
  moreover have "java_short n = n" if "i16_min \<le> n" "n \<le> i16_max" for n
    using that by (simp add: java_short_def int_word_sint)
  ultimately show ?thesis using state offset call spec sint_16_range
    by (intro exI [of _ states] exI [of _ state]) (auto simp: spec_of_state_def normalized_def java_short_def)
qed

section \<open>The operations that a command uses\<close>

definition with_tx_changes ::
    "'c TransactionsEnv \<Rightarrow> (AbortTransactionSpec \<Rightarrow> 'c \<Rightarrow> (AdminError + unit) \<times> 'c) \<Rightarrow> (string \<Rightarrow> 'c \<Rightarrow> (AdminError + unit) \<times> 'c) \<Rightarrow> 'c TransactionsEnv" where
  "with_tx_changes env abort force = env\<lparr>tx_abort_transaction := abort, tx_force_terminate := force\<rparr>"

lemma calls_with_tx_changes:
  "tx_connect (with_tx_changes env a f) = tx_connect env"
  "tx_options (with_tx_changes env a f) = tx_options env"
  "tx_describe_cluster (with_tx_changes env a f) = tx_describe_cluster env"
  "tx_resolve (with_tx_changes env a f) = tx_resolve env"
  "tx_open (with_tx_changes env a f) = tx_open env"
  "tx_max_version (with_tx_changes env a f) = tx_max_version env"
  "tx_send_list (with_tx_changes env a f) = tx_send_list env"
  "tx_expired (with_tx_changes env a f) = tx_expired env"
  "tx_send_producers (with_tx_changes env a f) = tx_send_producers env"
  "tx_describe_producers (with_tx_changes env a f) = tx_describe_producers env"
  "tx_list_transactions (with_tx_changes env a f) = tx_list_transactions env"
  "tx_describe_transaction (with_tx_changes env a f) = tx_describe_transaction env"
  "tx_list_topics (with_tx_changes env a f) = tx_list_topics env"
  "tx_describe_topics (with_tx_changes env a f) = tx_describe_topics env"
  "tx_now (with_tx_changes env a f) = tx_now env"
  "tx_terminal (with_tx_changes env a f) = tx_terminal env"
  "tx_abort_transaction (with_tx_changes env a f) = a"
  "tx_force_terminate (with_tx_changes env a f) = f"
  by (simp_all add: with_tx_changes_def)

definition tx_declined :: "ConfirmArgs \<Rightarrow> Terminal \<Rightarrow> bool" where
  "tx_declined safety terminal \<longleftrightarrow>
     (\<forall>impact. \<exists>refusal. confirm (ca_yes safety) terminal ''krabka transactions'' impact = Inl refusal)"

lemma tx_declined_confirm:
  assumes "tx_declined safety terminal"
  shows "cmd_confirm (confirm (ca_yes safety) terminal ''krabka transactions'' impact) =
    cmd_fail (ErrRefused (projl (confirm (ca_yes safety) terminal ''krabka transactions'' impact)))"
proof -
  obtain refusal where "confirm (ca_yes safety) terminal ''krabka transactions'' impact = Inl refusal"
    using assms unfolding tx_declined_def by blast
  then show ?thesis by (simp add: cmd_confirm_def)
qed

lemma broker_connection_with_tx_changes: "broker_connection (with_tx_changes env a f) node = broker_connection env node"
  unfolding broker_connection_def calls_with_tx_changes ..

lemma producers_on_broker_with_tx_changes: "producers_on_broker (with_tx_changes env a f) broker keys = producers_on_broker env broker keys"
  unfolding producers_on_broker_def calls_with_tx_changes broker_connection_with_tx_changes ..

lemma broker_calls_with_tx_changes:
  "list_on_broker (with_tx_changes env a f) request node = list_on_broker env request node"
  "producer_states (with_tx_changes env a f) broker_id keys = producer_states env broker_id keys"
  "abort_spec (with_tx_changes env a f) args target = abort_spec env args target"
  unfolding list_on_broker_def producer_states_def abort_spec_def spec_at_def producers_on_broker_with_tx_changes broker_connection_with_tx_changes
    calls_with_tx_changes by (rule refl)+

lemmas tx_reads = calls_with_tx_changes broker_calls_with_tx_changes

lemma loops_with_tx_changes:
  "broker_answers (with_tx_changes env a f) request nodes = broker_answers env request nodes"
  "describe_ids (with_tx_changes env a f) names = describe_ids env names"
  "search_batches (with_tx_changes env a f) self batches = search_batches env self batches"
  "find_candidates (with_tx_changes env a f) self timeout keys = find_candidates env self timeout keys"
proof -
  show "broker_answers (with_tx_changes env a f) request nodes = broker_answers env request nodes"
    by (induction nodes) (simp_all add: tx_reads)
  show "describe_ids (with_tx_changes env a f) names = describe_ids env names" by (induction names) (simp_all add: tx_reads)
  show "search_batches (with_tx_changes env a f) self batches = search_batches env self batches"
    by (induction batches) (simp_all add: tx_reads)
  show "find_candidates (with_tx_changes env a f) self timeout keys = find_candidates env self timeout keys"
  proof (induction keys)
    case (Cons key keys)
    show ?case unfolding find_candidates.simps tx_reads Cons ..
  qed simp
qed

lemma describe_known_with_tx_changes: "describe_known (with_tx_changes env a f) n ds names = describe_known env n ds names"
proof (induction names arbitrary: ds)
  case (Cons name names)
  show ?case unfolding describe_known.simps tx_reads Cons ..
qed simp

lemma reading_with_tx_changes:
  "run_list (with_tx_changes env a f) largs = run_list env largs"
  "run_describe (with_tx_changes env a f) names = run_describe env names"
  "run_describe_producers (with_tx_changes env a f) pargs = run_describe_producers env pargs"
  "run_find_hanging (with_tx_changes env a f) fargs = run_find_hanging env fargs"
  unfolding run_list_def run_describe_def run_describe_producers_def run_find_hanging_def partitions_to_search_def search_topics_def
    tx_reads loops_with_tx_changes describe_known_with_tx_changes by (rule refl)+

text \<open>C28. \<open>kafka-transactions\<close> aborts a transaction only under \<open>abort\<close> and terminates one only under \<open>forceTerminateTransaction\<close>, each confirmed and not
  as a dry run. Otherwise its outcome does not depend on these operations of the client.\<close>

theorem transactions_change_only_their_own:
  assumes "\<And>self. command = TxAbort self \<Longrightarrow> \<not> ca_dry_run (aa_confirm self) \<Longrightarrow> \<not> tx_declined (aa_confirm self) (tx_terminal env)
      \<Longrightarrow> abort = tx_abort_transaction env"
    and "\<And>self. command = TxForceTerminate self \<Longrightarrow> \<not> ca_dry_run (ft_confirm self) \<Longrightarrow> \<not> tx_declined (ft_confirm self) (tx_terminal env)
      \<Longrightarrow> force = tx_force_terminate env"
  shows "run_transactions (with_tx_changes env abort force) command = run_transactions env command"
proof (cases command)
  case (TxAbort self)
  consider "ca_dry_run (aa_confirm self)" | "tx_declined (aa_confirm self) (tx_terminal env)" | "abort = tx_abort_transaction env"
    using assms(1) [OF TxAbort] by blast
  then have "run_abort (with_tx_changes env abort force) self = run_abort env self"
    by cases (simp_all add: run_abort_def Let_def tx_reads tx_declined_confirm cmd_bind_fail cong: if_cong)
  with TxAbort show ?thesis by (simp add: run_transactions_def)
next
  case (TxForceTerminate self)
  consider "ca_dry_run (ft_confirm self)" | "tx_declined (ft_confirm self) (tx_terminal env)" | "force = tx_force_terminate env"
    using assms(2) [OF TxForceTerminate] by blast
  then have "run_force_terminate (with_tx_changes env abort force) self = run_force_terminate env self"
    by cases (simp_all add: run_force_terminate_def Let_def calls_with_tx_changes tx_declined_confirm cmd_bind_fail cong: if_cong)
  with TxForceTerminate show ?thesis by (simp add: run_transactions_def)
qed (simp_all add: run_transactions_def reading_with_tx_changes)

section \<open>Every command ends\<close>

lemma list_retry_ends:
  assumes "expired n" and "m \<le> n"
  shows "\<exists>r. list_retry send expired m st = Some r"
  using assms(2)
proof (induction m arbitrary: st rule: inc_induct)
  case base
  show ?case using assms(1) by (subst list_retry.simps) (auto split: prod.splits sum.splits)
next
  case (step m)
  show ?case using step.IH by (subst list_retry.simps) (auto split: prod.splits sum.splits)
qed

text \<open>The steps that always end: a panic or a loop for ever is the value \<^const>\<open>None\<close>.\<close>

definition ends :: "('c, 'a) cmd \<Rightarrow> bool" where
  "ends m \<longleftrightarrow> (\<forall>st. m st \<noteq> None)"

lemma ends_basic [simp]:
  "ends (cmd_ret x)" "ends (cmd_fail e)" "ends (cmd_try r)" "ends (cmd_res x')" "ends (cmd_confirm c)" "ends (cmd_call call)" "ends (cmd_admin_as f call')"
  by (simp_all add: ends_def cmd_res_def cmd_call_def cmd_admin_as_def cmd_ret_def cmd_fail_def cmd_try_def cmd_confirm_def split: sum.splits prod.splits)

lemma ends_bind: "ends m \<Longrightarrow> (\<And>x. ends (f x)) \<Longrightarrow> ends (cmd_bind m f)"
  by (auto simp: ends_def cmd_bind_None_iff)

lemma ends_result: "ends m \<Longrightarrow> ends (cmd_result m)"
  by (auto simp: ends_def cmd_result_def)

lemma ends_split:
  "(\<And>x. ends (g x)) \<Longrightarrow> (\<And>e. ends (h e)) \<Longrightarrow> ends (case s of Inl e \<Rightarrow> h e | Inr x \<Rightarrow> g x)"
  "ends n \<Longrightarrow> (\<And>x. ends (k x)) \<Longrightarrow> ends (case v of None \<Rightarrow> n | Some x \<Rightarrow> k x)"
  "(\<And>x y. ends (p x y)) \<Longrightarrow> ends (case q of (x, y) \<Rightarrow> p x y)"
  "ends l \<Longrightarrow> (\<And>z zs. ends (c z zs)) \<Longrightarrow> ends (case xs of [] \<Rightarrow> l | z # zs \<Rightarrow> c z zs)"
  "ends a \<Longrightarrow> ends b \<Longrightarrow> ends (if cond then a else b)"
  "(\<And>w. ends (body w)) \<Longrightarrow> ends (let w = val in body w)"
  by (simp_all split: sum.split option.split prod.split list.split)

lemmas ends_intros = ends_basic ends_bind ends_result ends_split

lemma broker_commands_end:
  "ends (broker_connection env node)"
  "\<forall>socket. \<exists>n. tx_expired env socket n \<Longrightarrow> ends (list_on_broker env request node)"
  "ends (producers_on_broker env broker keys)"
  "ends (producer_states env broker_id keys)"
  "ends (abort_spec env args target)"
proof -
  show connection: "ends (broker_connection env node)" for node
    unfolding broker_connection_def by (intro ends_intros)
  show "ends (list_on_broker env request node)" if "\<forall>socket. \<exists>n. tx_expired env socket n"
  proof -
    have "ends (list_retry (tx_send_list env socket request) (tx_expired env socket) 0)" for socket
      using that list_retry_ends [of "tx_expired env socket" _ 0] by (fastforce simp: ends_def)
    then show ?thesis unfolding list_on_broker_def by (intro ends_intros connection)
  qed
  show producers: "ends (producers_on_broker env broker keys)" for broker keys
    unfolding producers_on_broker_def by (intro ends_intros connection)
  show "ends (producer_states env broker_id keys)" unfolding producer_states_def by (intro ends_intros producers)
  show "ends (abort_spec env args target)"
    unfolding abort_spec_def spec_at_def by (cases target) (auto intro!: ends_intros)
qed

lemma loops_end:
  "\<forall>socket. \<exists>n. tx_expired env socket n \<Longrightarrow> ends (broker_answers env request nodes)"
  "ends (describe_ids env names)"
  "ends (search_batches env self batches)"
  "ends (find_candidates env self timeout keys)"
  "ends (describe_known env n ds names)"
proof -
  show "ends (broker_answers env request nodes)" if "\<forall>socket. \<exists>n. tx_expired env socket n"
    using that by (induction nodes) (auto intro!: ends_intros broker_commands_end)
  show "ends (describe_ids env names)" by (induction names) (auto intro!: ends_intros)
  show "ends (search_batches env self batches)" by (induction batches) (auto intro!: ends_intros)
  show "ends (find_candidates env self timeout keys)" by (induction keys) (auto intro!: ends_intros broker_commands_end)
  show "ends (describe_known env n ds names)" by (induction names arbitrary: ds) (auto intro!: ends_intros)
qed

text \<open>Every command of \<open>kafka-transactions\<close> ends, with a report or an error, once the clock passes the deadline of each loop over a loading
  coordinator.\<close>

theorem transactions_end:
  assumes "\<And>st. tx_connect env st \<noteq> None" and "\<And>st. tx_options env st \<noteq> None" and "\<forall>socket. \<exists>n. tx_expired env socket n"
  shows "\<exists>r st'. run_transactions env command st = Some (r, st')"
proof -
  have client: "ends (tx_connect env)" "ends (tx_options env)" using assms(1,2) by (simp_all add: ends_def)
  note parts = client broker_commands_end(4,5) loops_end(1) [OF assms(3)] loops_end(2-5)
  have "ends (run_transactions env command)"
    unfolding run_transactions_def run_list_def run_describe_def run_describe_producers_def run_abort_def run_find_hanging_def run_force_terminate_def
      partitions_to_search_def search_topics_def
    by (cases command) (auto intro!: ends_intros parts simp del: ends_basic)
  then show ?thesis by (simp add: ends_def)
qed

section \<open>A sample cluster\<close>

definition sample_state :: ProducerState where
  "sample_state = \<lparr>ps_producer_id = 7, ps_producer_epoch = 0, ps_last_sequence = 1, ps_last_timestamp_ms = 0, ps_coordinator_epoch = - 1,
     ps_current_txn_start_offset = Some 42\<rparr>"

definition sample_tx_env :: "nat TransactionsEnv" where
  "sample_tx_env =
     \<lparr>tx_connect = cmd_ret (), tx_options = cmd_ret (), tx_describe_cluster = (\<lambda>st. (Inr [], st)), tx_resolve = (\<lambda>_ st. (Inr [''socket''], st)),
      tx_open = (\<lambda>_ _ st. (Inr (), st)), tx_max_version = (\<lambda>_. Some 2),
      tx_send_list = (\<lambda>_ _ st. (Inr \<lparr>lr_error_code = 14, lr_transaction_states = []\<rparr>, st)), tx_expired = (\<lambda>_ n. 600 \<le> n),
      tx_send_producers = (\<lambda>_ _ st. (Inr [], st)), tx_describe_producers = (\<lambda>keys st. (map (\<lambda>key. (key, Inr [sample_state])) keys, st)),
      tx_list_transactions = (\<lambda>_ st. (Inr [], st)), tx_describe_transaction = (\<lambda>_ st. (Inl (AdminOther []), st)),
      tx_list_topics = (\<lambda>st. (Inr [], st)), tx_describe_topics = (\<lambda>_ st. ([], st)), tx_abort_transaction = (\<lambda>_ st. (Inr (), st + 1)),
      tx_force_terminate = (\<lambda>_ st. (Inr (), st + 1)), tx_now = (\<lambda>st. (0, st)),
      tx_terminal = \<lparr>tm_interactive = False, tm_write_ok = False, tm_line = None\<rparr>\<rparr>"

definition sample_abort :: AbortArgs where
  "sample_abort = \<lparr>aa_topic = ''orders'', aa_partition = 0, aa_start_offset = Some 42, aa_producer_id = None, aa_producer_epoch = None,
     aa_coordinator_epoch = None, aa_confirm = \<lparr>ca_dry_run = True, ca_yes = False\<rparr>\<rparr>"

theorem abort_names_open_transaction_witness:
  "\<exists>spec st'. spec_at sample_tx_env sample_abort 42 0 = Some (Inr spec, st') \<and> ab_topic spec = ''orders'' \<and> (0 :: int) \<le> 42"
proof -
  have spec: "spec_at sample_tx_env sample_abort 42 0 = Some (Inr (spec_of_state sample_abort (normalized sample_state)), 0)"
    by (simp add: spec_at_def sample_tx_env_def sample_abort_def Let_def cmd_bind_def cmd_call_def cmd_ret_def sample_state_def normalized_def)
  from abort_names_open_transaction [OF spec] have "ab_topic (spec_of_state sample_abort (normalized sample_state)) = aa_topic sample_abort" by blast
  with spec show ?thesis by (simp add: sample_abort_def)
qed

text \<open>A producer of the topic has been open since 0, and no coordinator lists it: after 16 minutes it hangs.\<close>

definition sample_topic :: "string \<Rightarrow> TopicDescription" where
  "sample_topic name = \<lparr>td_name = name, td_topic_id = None, td_partitions = []\<rparr>"

definition sample_quiet_env :: "nat TransactionsEnv" where
  "sample_quiet_env = sample_tx_env\<lparr>tx_now := Pair 960000, tx_describe_topics := (\<lambda>names st. (map (\<lambda>name. (name, Inr (sample_topic name))) names, st)),
     tx_describe_transaction := (\<lambda>_ st. (Inl (AdminBroker [] 105 [] None), st))\<rparr>"

lemma sample_quiet: "quiet_cluster sample_quiet_env 960000 (\<lambda>_. [sample_state]) {} (\<lambda>_. None) sample_topic"
proof -
  have known: "map_of (map (\<lambda>k. (k, f k)) ks) k = Some (f k)" if "k \<in> set ks" for f k and ks using that by (induction ks) auto
  show ?thesis unfolding quiet_cluster_def by (intro conjI) (simp_all add: sample_quiet_env_def sample_tx_env_def cmd_ret_def known)
qed

theorem find_hanging_reports_witness:
  "\<exists>result. run_transactions sample_quiet_env
       (TxFindHanging \<lparr>fh_broker_id = None, fh_max_transaction_timeout = 15, fh_topic = Some ''orders'', fh_partition = Some 0\<rparr>) 0 = Some (Inr result, 0)
     \<and> cr_data result = JArray [hanging_json 960000 \<lparr>ot_partition = (''orders'', 0), ot_state = normalized sample_state\<rparr>]"
proof -
  let ?self = "\<lparr>fh_broker_id = None, fh_max_transaction_timeout = 15, fh_topic = Some ''orders'', fh_partition = Some 0\<rparr>"
  obtain found where run: "run_transactions sample_quiet_env (TxFindHanging ?self) 0 = Some (Inr (hanging_table found 960000), 0)"
      and found: "mset found = {#\<lparr>ot_partition = (''orders'', 0), ot_state = normalized sample_state\<rparr>#}"
    using find_hanging_reports [OF sample_quiet, of ?self "''orders''" 0]
    by (auto simp: searched_def hanging_def sample_state_def)
  have "found = [\<lparr>ot_partition = (''orders'', 0), ot_state = normalized sample_state\<rparr>]" using found by simp
  with run show ?thesis by (simp add: hanging_table_def result_success_def result_rows_def)
qed

theorem transactions_change_only_their_own_witness:
  "run_transactions (with_tx_changes sample_tx_env (\<lambda>_ st. (Inl (AdminOther []), st + 5)) (\<lambda>_ st. (Inl (AdminOther []), st + 5))) (TxAbort sample_abort) =
     run_transactions sample_tx_env (TxAbort sample_abort)"
  by (rule transactions_change_only_their_own) (auto simp: sample_abort_def)

theorem transactions_end_witness:
  "\<exists>r st'. run_transactions sample_tx_env (TxList \<lparr>la_duration_filter = None, la_transactional_id_pattern = None\<rparr>) 0 = Some (r, st')"
  by (rule transactions_end) (auto simp: sample_tx_env_def cmd_ret_def)

end
