(* ===== verification/Admin_Log_Dirs.thy ===== *)
theory Admin_Log_Dirs
  imports Kafka_Errors
begin

text \<open>
  What the admin client returns for the log directories of a broker. \<^verbatim>\<open>kafka-log-dirs\<close> and the log-dirs page of the admin UI both
  read it: a topic of a directory is its name with the replicas of its partitions.
\<close>

record LogDirPartition =
  lp_partition_index :: int
  lp_partition_size :: int
  lp_offset_lag :: int
  lp_is_future_key :: bool

record LogDirInfo =
  li_log_dir :: string
  li_error :: "KafkaError option"
  li_topics :: "(string \<times> LogDirPartition list) list"

end
