(* ===== verification/Log_Dirs.thy ===== *)
theory Log_Dirs
  imports Reassign_Plan Command_Monad Admin_Log_Dirs
begin

text \<open>
  \<^verbatim>\<open>crates/krabka-cli/src/log_dirs.rs\<close>: \<open>kafka-log-dirs\<close>, which describes the log directories of brokers and, as an addition,
  moves replicas between those of one broker. The client is the record \<open>LogDirsEnv\<close>. The document of \<open>--describe\<close> is made as text
  and read back for the data of the result; a document that does not read back is a panic, \<^const>\<open>None\<close>.
\<close>

section \<open>The arguments\<close>

definition NO_LOG_DIR_CODE :: int where "NO_LOG_DIR_CODE = 31"
definition LOG_DIR_NOT_FOUND :: int where "LOG_DIR_NOT_FOUND = 57"

record ReplicaMove =
  rm_topic :: string
  rm_partition :: int
  rm_log_dir :: string

record LogDirsArgs =
  ld_bootstrap_server :: "string list"
  ld_bootstrap_controller :: "string list"
  ld_describe :: bool
  ld_alter :: bool
  ld_topic_list :: string
  ld_broker_list :: string
  ld_broker :: "int option"
  ld_replica_move :: "ReplicaMove list"
  ld_confirm :: ConfirmArgs

definition parse_move :: "string \<Rightarrow> ReplicaMove res" where
  "parse_move v =
     (let expected = ''expected TOPIC:PARTITION=LOG_DIR, got '' @ v
      in res_bind (ok_or expected (split_once (CHR ''='') v)) (\<lambda>(replica, log_dir).
         res_bind (ok_or expected (rsplit_once (CHR '':'') replica)) (\<lambda>(topic, partition).
         res_bind (ok_or (''invalid partition '' @ [CHR 0x27] @ partition @ [CHR 0x27] @ '' in '' @ v)
           (case parse_i32 partition of Some n \<Rightarrow> if 0 \<le> n then Some n else None | None \<Rightarrow> None)) (\<lambda>n.
         if topic = [] \<or> log_dir = [] then Inl expected
         else Inr \<lparr>rm_topic = topic, rm_partition = n, rm_log_dir = log_dir\<rparr>))))"

definition split_list :: "string \<Rightarrow> string list" where
  "split_list v = filter (\<lambda>entry. entry \<noteq> []) (split_on (CHR '','') v)"

fun broker_list_from :: "int list \<Rightarrow> string list \<Rightarrow> int list res" where
  "broker_list_from brokers [] = Inr brokers"
| "broker_list_from brokers (entry # entries) =
     res_bind (ok_or (''For input string: '' @ [CHR 0x22] @ entry @ [CHR 0x22]) (parse_i32 entry)) (\<lambda>broker.
     broker_list_from (if broker \<in> set brokers then brokers else brokers @ [broker]) entries)"

definition broker_list :: "string \<Rightarrow> int list res" where
  "broker_list v = broker_list_from [] (split_list v)"

definition join_brokers :: "int list \<Rightarrow> string" where
  "join_brokers brokers = join_with '','' (map show_int brokers)"

definition brokers_to_query :: "int list \<Rightarrow> int list \<Rightarrow> int list res" where
  "brokers_to_query cluster requested =
     (let cluster_set = hash_order cluster Default integer_hash;
          missing = filter (\<lambda>broker. broker \<notin> set cluster) requested
      in if missing \<noteq> []
         then Inl (''ERROR: The given brokers do not exist from --broker-list: '' @
           join_brokers (hash_order missing HashSetCopy integer_hash) @ ''. Current existent brokers: '' @ join_brokers cluster_set)
         else Inr (hash_order (if requested = [] then cluster_set else requested) HashSetCopy integer_hash))"

definition document_order :: "int list \<Rightarrow> int list" where
  "document_order brokers =
     (let n = length brokers;
          brokers = hash_order brokers (WithCapacity n) integer_hash;
          brokers = hash_order brokers Copy integer_hash
      in hash_order brokers (WithCapacity n) integer_hash)"

section \<open>The document\<close>

record LogReplica =
  lx_topic :: string
  lx_partition :: int
  lx_size :: int
  lx_offset_lag :: int
  lx_is_future :: bool

record LogDir =
  lg_path :: string
  lg_error :: "string option"
  lg_replicas :: "LogReplica list"

definition dir_replicas :: "LogDirInfo \<Rightarrow> LogReplica list" where
  "dir_replicas info =
     concat (map (\<lambda>(topic, partitions). map (\<lambda>p. \<lparr>lx_topic = topic, lx_partition = lp_partition_index p, lx_size = lp_partition_size p,
       lx_offset_lag = lp_offset_lag p, lx_is_future = lp_is_future_key p\<rparr>) partitions) (li_topics info))"

definition replica_hash :: "LogReplica \<Rightarrow> 32 word" where
  "replica_hash replica = topic_partition_hash (lx_topic replica) (lx_partition replica)"

definition printable_dir :: "string list \<Rightarrow> LogDirInfo \<Rightarrow> LogDir" where
  "printable_dir topics info =
     (let replicas = filter (\<lambda>replica. topics = [] \<or> lx_topic replica \<in> set topics) (hash_order (dir_replicas info) Default replica_hash)
      in \<lparr>lg_path = li_log_dir info, lg_error = map_option (\<lambda>error. ex_class (for_code (ke_code error))) (li_error info),
          lg_replicas = hash_order replicas Default replica_hash\<rparr>)"

definition printable_log_dirs :: "LogDirInfo list \<Rightarrow> string list \<Rightarrow> LogDir list" where
  "printable_log_dirs infos topics =
     (let dirs = map (printable_dir topics) infos
      in hash_order dirs (WithCapacity (length dirs)) (\<lambda>dir. string_hash (lg_path dir)))"

definition quoted :: "json_printer \<Rightarrow> string \<Rightarrow> string" where
  "quoted to_str v = to_str (JString v)"

definition show_bool :: "bool \<Rightarrow> string" where
  "show_bool b = (if b then ''true'' else ''false'')"

definition dquote :: string where "dquote = [CHR 0x22]"

definition replica_text :: "json_printer \<Rightarrow> LogReplica \<Rightarrow> string" where
  "replica_text to_str replica =
     ''{'' @ dquote @ ''partition'' @ dquote @ '':'' @ quoted to_str (lx_topic replica @ ''-'' @ show_int (lx_partition replica)) @
     '','' @ dquote @ ''size'' @ dquote @ '':'' @ show_int (lx_size replica) @
     '','' @ dquote @ ''offsetLag'' @ dquote @ '':'' @ show_int (lx_offset_lag replica) @
     '','' @ dquote @ ''isFuture'' @ dquote @ '':'' @ show_bool (lx_is_future replica) @ ''}''"

definition log_dir_text :: "json_printer \<Rightarrow> LogDir \<Rightarrow> string" where
  "log_dir_text to_str dir =
     ''{'' @ dquote @ ''partitions'' @ dquote @ '':['' @ join_with '','' (map (replica_text to_str) (lg_replicas dir)) @
     ''],'' @ dquote @ ''error'' @ dquote @ '':'' @ (case lg_error dir of None \<Rightarrow> ''null'' | Some e \<Rightarrow> quoted to_str e) @
     '','' @ dquote @ ''logDir'' @ dquote @ '':'' @ quoted to_str (lg_path dir) @ ''}''"

definition broker_text :: "json_printer \<Rightarrow> int \<times> LogDir list \<Rightarrow> string" where
  "broker_text to_str = (\<lambda>(broker, dirs).
     ''{'' @ dquote @ ''broker'' @ dquote @ '':'' @ show_int broker @ '','' @ dquote @ ''logDirs'' @ dquote @ '':['' @
     join_with '','' (map (log_dir_text to_str) dirs) @ '']}'')"

definition log_dirs_document :: "json_printer \<Rightarrow> (int \<times> LogDir list) list \<Rightarrow> string" where
  "log_dirs_document to_str brokers =
     ''{'' @ dquote @ ''brokers'' @ dquote @ '':['' @ join_with '','' (map (broker_text to_str) brokers) @ ''],'' @ dquote @ ''version'' @ dquote @ '':1}''"

section \<open>The report of --describe\<close>

record DescribeState =
  dq_answered :: "(int, LogDir list) btmap"
  dq_notices :: "string list"
  dq_failed_brokers :: "json list"

definition log_dirs_answer :: "CommandError + LogDirInfo list \<Rightarrow> CommandError + LogDirInfo list" where
  "log_dirs_answer answer =
     res_bind answer (\<lambda>infos. if infos = [] then Inl (ErrOther (to_java_string (for_code NO_LOG_DIR_CODE))) else Inr infos)"

definition take_broker_answer :: "string list \<Rightarrow> int \<times> (CommandError + LogDirInfo list) \<Rightarrow> DescribeState \<Rightarrow> DescribeState" where
  "take_broker_answer topics = (\<lambda>(broker, answer) state.
     case log_dirs_answer answer of
       Inr infos \<Rightarrow> state\<lparr>dq_answered := bt_insert broker (printable_log_dirs infos topics) (dq_answered state)\<rparr>
     | Inl error \<Rightarrow> state\<lparr>
         dq_notices := dq_notices state @
           [''ERROR: failed to describe the log directories of broker '' @ show_int broker @ '': '' @ show_error error],
         dq_failed_brokers := dq_failed_brokers state @
           [JObject [(''broker'', JInt broker), (''message'', JString (show_error error))]]\<rparr>)"

text \<open>\<open>filter_map\<close> over \<open>answered.remove\<close>.\<close>

fun taken_answers :: "(int, LogDir list) btmap \<Rightarrow> int list \<Rightarrow> (int \<times> LogDir list) list" where
  "taken_answers answered [] = []"
| "taken_answers answered (broker # brokers) =
     (case map_of answered broker of
        None \<Rightarrow> taken_answers answered brokers
      | Some dirs \<Rightarrow> (broker, dirs) # taken_answers (bt_remove broker answered) brokers)"

text \<open>Assigning to a field of a value: an object gets the field, null becomes an object, and anything else panics.\<close>

fun set_field :: "string \<Rightarrow> json \<Rightarrow> json \<Rightarrow> json option" where
  "set_field name v (JObject fs) = Some (JObject (bt_insert name v fs))"
| "set_field name v JNull = Some (JObject [(name, v)])"
| "set_field name v _ = None"

definition describe_result ::
    "json_parser \<Rightarrow> json_printer \<Rightarrow> int list \<Rightarrow> (CommandError + LogDirInfo list) list \<Rightarrow> string \<Rightarrow> CommandResult option" where
  "describe_result from_str to_str queried answers topics =
     (let topics = bs_of_list (split_list topics);
          state = fold (take_broker_answer topics) (zip queried answers) \<lparr>dq_answered = [], dq_notices = [], dq_failed_brokers = []\<rparr>;
          responded = filter (\<lambda>broker. map_of (dq_answered state) broker \<noteq> None) queried;
          brokers = taken_answers (dq_answered state) (document_order responded);
          document = log_dirs_document to_str brokers
      in case from_str document of
           Inl _ \<Rightarrow> None
         | Inr data \<Rightarrow>
             map_option (\<lambda>data. with_notices (dq_notices state) (result_rows
                 [''Querying brokers for log directories information'',
                  ''Received log directory information from brokers '' @ join_brokers responded, document]
                 data (dq_notices state \<noteq> [])))
               (set_field ''failed_brokers'' (JArray (dq_failed_brokers state)) data))"

section \<open>The command\<close>

type_synonym ReplicaKey = "string \<times> int \<times> int"

record 'c LogDirsEnv =
  ldx_connect :: "('c, unit) cmd"
  ldx_describe_cluster :: "'c \<Rightarrow> (AdminError + ClusterNode list) \<times> 'c"
  ldx_describe_log_dirs :: "int list \<Rightarrow> (string, int list) btmap option \<Rightarrow> 'c \<Rightarrow> (int, KafkaError + LogDirInfo list) btmap \<times> 'c"
  ldx_alter_replica_log_dirs :: "(ReplicaKey, string) btmap \<Rightarrow> 'c \<Rightarrow> (ReplicaKey, KafkaError + unit) btmap \<times> 'c"
  ldx_terminal :: Terminal
  ldx_from_str :: json_parser
  ldx_to_str :: json_printer

text \<open>A replica is its topic, partition and broker.\<close>

definition broker_failure :: "KafkaError \<Rightarrow> CommandError" where
  "broker_failure error =
     (let exception = for_code (ke_code error)
      in ErrOther (case ke_message error of
           Some message \<Rightarrow> if message \<noteq> [] then ex_class exception @ '': '' @ message else to_java_string exception
         | None \<Rightarrow> to_java_string exception))"

definition cluster_brokers :: "'c LogDirsEnv \<Rightarrow> ('c, int list) cmd" where
  "cluster_brokers env = cmd_bind (cmd_admin (ldx_describe_cluster env)) (\<lambda>nodes. cmd_ret (map node_id nodes))"

definition current_dir :: "LogDirInfo list \<Rightarrow> string \<Rightarrow> int \<Rightarrow> string option" where
  "current_dir current topic p =
     map_option li_log_dir (List.find (\<lambda>dir. \<exists>entry \<in> set (li_topics dir). fst entry = topic \<and>
       (\<exists>replica \<in> set (snd entry). lp_partition_index replica = p \<and> \<not> lp_is_future_key replica)) current)"

definition replica_key :: "int \<Rightarrow> ReplicaMove \<Rightarrow> ReplicaKey" where
  "replica_key broker m = (rm_topic m, rm_partition m, broker)"

definition move_error :: "int \<Rightarrow> (ReplicaKey, KafkaError + unit) btmap \<Rightarrow> ReplicaMove \<Rightarrow> KafkaError option" where
  "move_error broker outcomes m = (case map_of outcomes (replica_key broker m) of Some (Inl e) \<Rightarrow> Some e | _ \<Rightarrow> None)"

definition moved_line :: "int \<Rightarrow> ReplicaMove \<times> string option \<times> KafkaError option \<Rightarrow> string" where
  "moved_line broker = (\<lambda>(m, source, error).
     case error of
       Some e \<Rightarrow> rm_topic m @ ''-'' @ show_int (rm_partition m) @ [CHR 0x09] @ ''ERROR'' @ [CHR 0x09] @ ke_name e @ '' ('' @ show_int (ke_code e) @ '')''
     | None \<Rightarrow> ''Moving replica '' @ rm_topic m @ ''-'' @ show_int (rm_partition m) @ '' on broker '' @ show_int broker @ '' from '' @
         (case source of Some dir \<Rightarrow> dir | None \<Rightarrow> ''-'') @ '' to '' @ rm_log_dir m @ ''.'')"

definition moved_json :: "int \<Rightarrow> ReplicaMove \<times> string option \<times> KafkaError option \<Rightarrow> json" where
  "moved_json broker = (\<lambda>(m, source, error).
     JObject [(''broker'', JInt broker), (''topic'', JString (rm_topic m)), (''partition'', JInt (rm_partition m)), (''from'', opt_json source),
       (''to'', JString (rm_log_dir m)), (''error'', kafka_error error)])"

definition moved_report :: "int \<Rightarrow> ReplicaMove list \<Rightarrow> LogDirInfo list \<Rightarrow> (ReplicaKey, KafkaError + unit) btmap \<Rightarrow> CommandResult" where
  "moved_report broker moves current outcomes =
     (let rows = map (\<lambda>m. (m, current_dir current (rm_topic m) (rm_partition m), move_error broker outcomes m)) moves
      in result_rows (map (moved_line broker) rows) (JArray (map (moved_json broker) rows)) (list_ex (\<lambda>(_, _, error). error \<noteq> None) rows))"

definition dry_outcome :: "LogDirInfo list \<Rightarrow> ReplicaMove \<Rightarrow> KafkaError + unit" where
  "dry_outcome current m =
     (if \<exists>dir \<in> set current. li_log_dir dir = rm_log_dir m then Inr ()
      else Inl \<lparr>ke_code = LOG_DIR_NOT_FOUND, ke_name = ''LOG_DIR_NOT_FOUND'', ke_message = Some (ex_message (for_code LOG_DIR_NOT_FOUND))\<rparr>)"

text \<open>\<open>entry(topic).or_default().push(partition)\<close> for each move.\<close>

definition move_filter :: "ReplicaMove list \<Rightarrow> (string, int list) btmap" where
  "move_filter moves =
     fold (\<lambda>m known. bt_insert (rm_topic m) ((case map_of known (rm_topic m) of Some ps \<Rightarrow> ps | None \<Rightarrow> []) @ [rm_partition m]) known) moves []"

definition alter_log_dirs :: "'c LogDirsEnv \<Rightarrow> LogDirsArgs \<Rightarrow> int list \<Rightarrow> ('c, CommandResult) cmd" where
  "alter_log_dirs env self brokers =
     cmd_bind (cmd_try (ok_or ''--broker is required with --alter'' (ld_broker self))) (\<lambda>broker.
     if broker \<notin> set brokers
     then cmd_fail (ErrOther (''ERROR: The given broker does not exist: '' @ show_int broker @ ''. Current existent brokers: '' @ join_brokers brokers))
     else cmd_bind (cmd_call (ldx_describe_log_dirs env [broker] (Some (move_filter (ld_replica_move self))))) (\<lambda>answered.
       cmd_bind (case map_of answered broker of
           Some (Inr dirs) \<Rightarrow> cmd_ret dirs
         | Some (Inl error) \<Rightarrow> cmd_fail (broker_failure error)
         | None \<Rightarrow> cmd_ret []) (\<lambda>current.
       if ca_dry_run (ld_confirm self)
       then cmd_ret (into_dry_run (moved_report broker (ld_replica_move self) current
         (bt_of_list (map (\<lambda>m. (replica_key broker m, dry_outcome current m)) (ld_replica_move self)))))
       else cmd_bind (cmd_confirm (confirm (ca_yes (ld_confirm self)) (ldx_terminal env) ''krabka log-dirs''
           \<lparr>im_summary = ''move '' @ show_nat (length (ld_replica_move self)) @ '' replica(s) between the log directories of broker '' @ show_int broker,
            im_resources = map (\<lambda>m. rm_topic m @ ''-'' @ show_int (rm_partition m) @ '' -> '' @ rm_log_dir m) (ld_replica_move self)\<rparr>)) (\<lambda>_.
         cmd_bind (cmd_call (ldx_alter_replica_log_dirs env (bt_of_list (map (\<lambda>m. (replica_key broker m, rm_log_dir m)) (ld_replica_move self))))) (\<lambda>outcomes.
         cmd_ret (moved_report broker (ld_replica_move self) current outcomes))))))"

fun queried_answers :: "(int, KafkaError + LogDirInfo list) btmap \<Rightarrow> int list \<Rightarrow> (CommandError + LogDirInfo list) list" where
  "queried_answers answered [] = []"
| "queried_answers answered (broker # brokers) =
     (case map_of answered broker of
        Some (Inr dirs) \<Rightarrow> Inr dirs
      | Some (Inl error) \<Rightarrow> Inl (broker_failure error)
      | None \<Rightarrow> Inl (ErrOther (''broker '' @ show_int broker @ '' did not answer''))) # queried_answers (bt_remove broker answered) brokers"

definition run_log_dirs :: "'c LogDirsEnv \<Rightarrow> LogDirsArgs \<Rightarrow> ('c, CommandResult) cmd" where
  "run_log_dirs env self =
     (if ld_bootstrap_controller self \<noteq> []
      then cmd_fail (ErrOther ''--bootstrap-controller is not supported by log-dirs; use --bootstrap-server'')
      else if ld_bootstrap_server self = []
      then cmd_fail (ErrOther (''Missing required argument '' @ dquote @ ''[bootstrap-server]'' @ dquote))
      else if ca_dry_run (ld_confirm self) \<and> ld_describe self then cmd_fail (ErrOther ''--dry-run is only valid with --alter'')
      else cmd_bind (ldx_connect env) (\<lambda>_.
        cmd_bind (cluster_brokers env) (\<lambda>brokers.
        if ld_alter self then alter_log_dirs env self brokers
        else cmd_bind (cmd_try (broker_list (ld_broker_list self))) (\<lambda>requested.
          cmd_bind (cmd_try (brokers_to_query brokers requested)) (\<lambda>queried.
          cmd_bind (cmd_call (ldx_describe_log_dirs env queried None)) (\<lambda>answered.
          cmd_index (describe_result (ldx_from_str env) (ldx_to_str env) queried (queried_answers answered queried) (ld_topic_list self))))))))"

end
