(* ===== verification/Log_Dirs_Safety.thy ===== *)
theory Log_Dirs_Safety
  imports Log_Dirs
begin

text \<open>
  What \<open>kafka-log-dirs\<close> reports and changes: a move reads as it is written, the document that is put together as text is the JSON of the
  brokers that answered, every broker that is asked is in the document or named as failed, and only a confirmed \<open>--alter\<close> moves replicas.
\<close>

section \<open>Moves\<close>

definition show_move :: "ReplicaMove \<Rightarrow> string" where
  "show_move m = rm_topic m @ '':'' @ show_int (rm_partition m) @ ''='' @ rm_log_dir m"

lemma rsplit_once_append: "c \<notin> set after \<Longrightarrow> rsplit_once c (before @ c # after) = Some (before, after)"
  by (simp add: rsplit_once_def split_once_append)

lemma rsplit_once_before: "rsplit_once c s = Some (before, after) \<Longrightarrow> set before \<subseteq> set s"
  by (auto simp: rsplit_once_def split_once_Some_iff rev_swap)

lemma parse_move_parts:
  assumes "parse_move v = Inr n"
  shows "rm_topic n \<noteq> [] \<and> rm_log_dir n \<noteq> [] \<and> 0 \<le> rm_partition n \<and> rm_partition n \<le> i32_max \<and> CHR ''='' \<notin> set (rm_topic n)"
proof -
  from assms obtain replica dir topic p where "split_once (CHR ''='') v = Some (replica, dir)" "rsplit_once (CHR '':'') replica = Some (topic, p)"
    and n: "topic \<noteq> []" "dir \<noteq> []" "rm_topic n = topic" "rm_log_dir n = dir" "0 \<le> rm_partition n" "parse_i32 p = Some (rm_partition n)"
    by (auto simp: parse_move_def Let_def ok_or_def res_bind_def split: option.splits if_splits prod.splits)
  then have "CHR ''='' \<notin> set topic" using rsplit_once_before by (fastforce simp: split_once_Some_iff)
  with n show ?thesis using parse_signed_range [OF n(6)] by simp
qed

text \<open>\<open>--move\<close> reads every move as it is written, also for a topic with a colon and a directory with an equals sign, and accepts only a
  topic, a directory and a partition that is not negative and fits an \<open>i32\<close>.\<close>

theorem parse_move_roundtrip:
  assumes "rm_topic m \<noteq> []" "CHR ''='' \<notin> set (rm_topic m)" "0 \<le> rm_partition m" "rm_partition m \<le> i32_max" "rm_log_dir m \<noteq> []"
  shows "parse_move (show_move m) = Inr m \<and>
    (parse_move v = Inr n \<longrightarrow> rm_topic n \<noteq> [] \<and> rm_log_dir n \<noteq> [] \<and> 0 \<le> rm_partition n \<and> rm_partition n \<le> i32_max
      \<and> CHR ''='' \<notin> set (rm_topic n))"
proof (intro conjI impI)
  let ?replica = "rm_topic m @ CHR '':'' # show_int (rm_partition m)"
  have "CHR ''='' \<notin> set ?replica" "CHR '':'' \<notin> set (show_int (rm_partition m))"
    using assms(2) by (simp_all add: is_ascii_digit_punct)
  then have "split_once (CHR ''='') (show_move m) = Some (?replica, rm_log_dir m)"
      "rsplit_once (CHR '':'') ?replica = Some (rm_topic m, show_int (rm_partition m))"
    using split_once_append [of "CHR ''=''" ?replica "rm_log_dir m"] by (simp_all add: show_move_def rsplit_once_append)
  with assms show "parse_move (show_move m) = Inr m" by (simp add: parse_move_def Let_def parse_signed_show_int)
next
  assume "parse_move v = Inr n"
  from parse_move_parts [OF this] show "rm_topic n \<noteq> []" "rm_log_dir n \<noteq> []" "0 \<le> rm_partition n" "rm_partition n \<le> i32_max"
    "CHR ''='' \<notin> set (rm_topic n)" by simp_all
qed

section \<open>The document\<close>

text \<open>JSON on one line: strings as the printer of \<open>serde_json\<close> writes them, the fields of an object in their order.\<close>

fun json_text :: "json_printer \<Rightarrow> json \<Rightarrow> string" where
  "json_text to_str (JArray vs) = ''['' @ join_with '','' (map (json_text to_str) vs) @ '']''"
| "json_text to_str (JObject fs) = ''{'' @ join_with '','' (map (\<lambda>(k, v). dquote @ k @ dquote @ '':'' @ json_text to_str v) fs) @ ''}''"
| "json_text to_str (JInt n) = show_int n"
| "json_text to_str (JBool b) = (if b then ''true'' else ''false'')"
| "json_text to_str JNull = ''null''"
| "json_text to_str (JFloat s) = s"
| "json_text to_str (JString s) = to_str (JString s)"

definition replica_document :: "LogReplica \<Rightarrow> json" where
  "replica_document replica =
     JObject [(''partition'', JString (lx_topic replica @ ''-'' @ show_int (lx_partition replica))), (''size'', JInt (lx_size replica)),
       (''offsetLag'', JInt (lx_offset_lag replica)), (''isFuture'', JBool (lx_is_future replica))]"

definition dir_document :: "LogDir \<Rightarrow> json" where
  "dir_document dir =
     JObject [(''partitions'', JArray (map replica_document (lg_replicas dir))), (''error'', opt_json (lg_error dir)), (''logDir'', JString (lg_path dir))]"

definition broker_document :: "int \<times> LogDir list \<Rightarrow> json" where
  "broker_document = (\<lambda>(broker, dirs). JObject [(''broker'', JInt broker), (''logDirs'', JArray (map dir_document dirs))])"

definition brokers_document :: "(int \<times> LogDir list) list \<Rightarrow> json" where
  "brokers_document brokers = JObject [(''brokers'', JArray (map broker_document brokers)), (''version'', JInt 1)]"

lemma document_texts:
  "replica_text to_str = json_text to_str \<circ> replica_document"
  "log_dir_text to_str = json_text to_str \<circ> dir_document"
  "broker_text to_str = json_text to_str \<circ> broker_document"
proof -
  show replica: "replica_text to_str = json_text to_str \<circ> replica_document"
    by (simp add: fun_eq_iff replica_text_def replica_document_def quoted_def show_bool_def)
  show dir: "log_dir_text to_str = json_text to_str \<circ> dir_document"
    by (simp add: fun_eq_iff log_dir_text_def dir_document_def replica quoted_def opt_json_def split: option.split)
  show "broker_text to_str = json_text to_str \<circ> broker_document"
    by (simp add: fun_eq_iff broker_text_def broker_document_def dir)
qed

lemma show_int_1: "show_int 1 = ''1''"
  by code_simp

lemma log_dirs_document_json: "log_dirs_document to_str brokers = json_text to_str (brokers_document brokers)"
  by (simp add: log_dirs_document_def brokers_document_def document_texts show_int_1)

section \<open>What --describe reports\<close>

definition failed_notice :: "int \<times> CommandError \<Rightarrow> string" where
  "failed_notice = (\<lambda>(broker, error). ''ERROR: failed to describe the log directories of broker '' @ show_int broker @ '': '' @ show_error error)"

definition failed_json :: "int \<times> CommandError \<Rightarrow> json" where
  "failed_json = (\<lambda>(broker, error). JObject [(''broker'', JInt broker), (''message'', JString (show_error error))])"

text \<open>The brokers that answer with a log directory, in the order of the document, with the directories to print, and the brokers that do not.\<close>

definition broker_dirs :: "(int \<times> (CommandError + LogDirInfo list)) list \<Rightarrow> int \<Rightarrow> LogDirInfo list" where
  "broker_dirs asked broker = (case map_of asked broker of Some (Inr infos) \<Rightarrow> infos | _ \<Rightarrow> [])"

definition shown_brokers :: "(int \<times> (CommandError + LogDirInfo list)) list \<Rightarrow> string list \<Rightarrow> (int \<times> LogDir list) list" where
  "shown_brokers asked topics =
     map (\<lambda>broker. (broker, printable_log_dirs (broker_dirs asked broker) topics))
       (document_order (filter (\<lambda>broker. broker_dirs asked broker \<noteq> []) (map fst asked)))"

definition failed_answers :: "(int \<times> (CommandError + LogDirInfo list)) list \<Rightarrow> (int \<times> CommandError) list" where
  "failed_answers asked = List.map_filter (\<lambda>(broker, answer). case log_dirs_answer answer of Inl e \<Rightarrow> Some (broker, e) | Inr _ \<Rightarrow> None) asked"

lemma log_dirs_answer_Inr: "log_dirs_answer answer = Inr infos \<longleftrightarrow> answer = Inr infos \<and> infos \<noteq> []"
  by (cases answer) (auto simp: log_dirs_answer_def)

lemma fold_answers_failed:
  "dq_notices (fold (take_broker_answer topics) asked state) = dq_notices state @ map failed_notice (failed_answers asked)"
  "dq_failed_brokers (fold (take_broker_answer topics) asked state) = dq_failed_brokers state @ map failed_json (failed_answers asked)"
  by (induction asked arbitrary: state)
    (auto simp: failed_answers_def map_filter_simps take_broker_answer_def failed_notice_def failed_json_def split: sum.split)

lemma fold_answers_ok: "bt_ok (dq_answered state) \<Longrightarrow> bt_ok (dq_answered (fold (take_broker_answer topics) asked state))"
  by (induction asked arbitrary: state) (auto simp: take_broker_answer_def split: sum.split)

lemma fold_answers_get:
  assumes "bt_ok (dq_answered state)" and "distinct (map fst asked)"
  shows "map_of (dq_answered (fold (take_broker_answer topics) asked state)) broker =
    (if broker_dirs asked broker \<noteq> [] then Some (printable_log_dirs (broker_dirs asked broker) topics) else map_of (dq_answered state) broker)"
  using assms
proof (induction asked arbitrary: state)
  case Nil
  then show ?case by (simp add: broker_dirs_def)
next
  case (Cons a asked)
  obtain b answer where a: "a = (b, answer)" by force
  from Cons.prems have rest: "broker_dirs asked b = []" unfolding a broker_dirs_def by (simp add: map_of_eq_None_iff [THEN iffD2] image_iff)
  have ok: "bt_ok (dq_answered (take_broker_answer topics a state))"
    using Cons.prems(1) fold_answers_ok [of state topics "[a]"] by simp
  from Cons.IH [OF ok] Cons.prems rest show ?case
    by (cases "log_dirs_answer answer")
      (auto simp: a take_broker_answer_def map_of_bt_insert broker_dirs_def log_dirs_answer_Inr log_dirs_answer_def res_bind_def split: sum.splits if_splits)
qed

lemma map_filter_same: "(\<And>x. x \<in> set xs \<Longrightarrow> f x = g x) \<Longrightarrow> List.map_filter f xs = List.map_filter g xs"
  by (induction xs) (auto split: option.split)

lemma map_filter_total: "(\<And>x. x \<in> set xs \<Longrightarrow> f x = Some (g x)) \<Longrightarrow> List.map_filter f xs = map g xs"
  by (induction xs) auto

lemma taken_answers_eq:
  "distinct brokers \<Longrightarrow> bt_ok answered \<Longrightarrow>
     taken_answers answered brokers = List.map_filter (\<lambda>broker. map_option (Pair broker) (map_of answered broker)) brokers"
proof (induction brokers arbitrary: answered)
  case (Cons broker brokers)
  have "List.map_filter (\<lambda>b. map_option (Pair b) (map_of (bt_remove broker answered) b)) brokers =
      List.map_filter (\<lambda>b. map_option (Pair b) (map_of answered b)) brokers"
    using Cons.prems by (intro map_filter_same) (auto simp: map_of_bt_remove)
  with Cons show ?case by (auto simp: map_filter_simps split: option.split)
qed (simp add: map_filter_simps)

lemma document_order_mset: "mset (document_order brokers) = mset brokers"
  by (simp add: document_order_def Let_def ho.order_mset)

lemma document_order_set: "set (document_order brokers) = set brokers"
  by (rule mset_eq_setD [OF document_order_mset])

lemma document_order_distinct: "distinct (document_order brokers) \<longleftrightarrow> distinct brokers"
  by (rule mset_eq_imp_distinct_iff [OF document_order_mset])

lemma taken_answers_shown:
  assumes "distinct (map fst asked)"
  shows "taken_answers (dq_answered (fold (take_broker_answer topics) asked \<lparr>dq_answered = [], dq_notices = [], dq_failed_brokers = []\<rparr>))
      (document_order (filter (\<lambda>broker. broker_dirs asked broker \<noteq> []) (map fst asked))) = shown_brokers asked topics"
proof -
  let ?state = "fold (take_broker_answer topics) asked \<lparr>dq_answered = [], dq_notices = [], dq_failed_brokers = []\<rparr>"
  let ?bs = "document_order (filter (\<lambda>broker. broker_dirs asked broker \<noteq> []) (map fst asked))"
  have get: "map_option (Pair b) (map_of (dq_answered ?state) b) = Some (b, printable_log_dirs (broker_dirs asked b) topics)" if "b \<in> set ?bs" for b
    using that fold_answers_get [of "\<lparr>dq_answered = [], dq_notices = [], dq_failed_brokers = []\<rparr>" asked topics b] assms
    by (auto simp: document_order_set)
  have "distinct ?bs" using assms by (simp add: document_order_distinct)
  moreover have "bt_ok (dq_answered ?state)" by (rule fold_answers_ok) simp
  ultimately have "taken_answers (dq_answered ?state) ?bs = List.map_filter (\<lambda>b. map_option (Pair b) (map_of (dq_answered ?state) b)) ?bs"
    by (rule taken_answers_eq)
  also have "\<dots> = map (\<lambda>b. (b, printable_log_dirs (broker_dirs asked b) topics)) ?bs"
    by (rule map_filter_total) (rule get)
  finally show ?thesis by (simp add: shown_brokers_def)
qed

lemma set_failed_answers: "set (failed_answers asked) = {(b, e) | b e answer. (b, answer) \<in> set asked \<and> log_dirs_answer answer = Inl e}"
  by (induction asked) (auto simp: failed_answers_def split: sum.splits)

lemma mset_concat_order: "mset xs = mset ys \<Longrightarrow> mset (concat (map f xs)) = mset (concat (map f ys))"
proof -
  have "mset (concat (map f zs)) = sum_mset (image_mset (\<lambda>z. mset (f z)) (mset zs))" for zs by (induction zs) simp_all
  then show "mset xs = mset ys \<Longrightarrow> mset (concat (map f xs)) = mset (concat (map f ys))" by simp
qed

lemma shown_failed:
  assumes "distinct (map fst asked)"
  shows "fst ` set (shown_brokers asked topics) = {b \<in> fst ` set asked. broker_dirs asked b \<noteq> []}"
    and "fst ` set (failed_answers asked) = {b \<in> fst ` set asked. broker_dirs asked b = []}"
proof -
  show "fst ` set (shown_brokers asked topics) = {b \<in> fst ` set asked. broker_dirs asked b \<noteq> []}"
    by (auto simp: shown_brokers_def document_order_set image_image)
  have answer: "map_of asked b = Some answer \<Longrightarrow> broker_dirs asked b = [] \<longleftrightarrow> (\<exists>e. log_dirs_answer answer = Inl e)" for b answer
    by (cases answer) (auto simp: broker_dirs_def log_dirs_answer_def)
  have "fst ` set (failed_answers asked) = {b. \<exists>answer e. map_of asked b = Some answer \<and> log_dirs_answer answer = Inl e}"
    unfolding set_failed_answers using assms by (simp add: image_Collect) metis
  moreover have "b \<in> fst ` set asked \<longleftrightarrow> (\<exists>answer. map_of asked b = Some answer)" for b
    by (metis map_of_eq_None_iff not_None_eq)
  ultimately show "fst ` set (failed_answers asked) = {b \<in> fst ` set asked. broker_dirs asked b = []}"
    using answer by auto
qed

lemma printable_replicas:
  "mset (concat (map lg_replicas (printable_log_dirs infos topics))) =
     mset (filter (\<lambda>replica. topics = [] \<or> lx_topic replica \<in> set topics) (concat (map dir_replicas infos)))"
proof -
  have "mset (concat (map lg_replicas (printable_log_dirs infos topics))) = mset (concat (map (lg_replicas \<circ> printable_dir topics) infos))"
    unfolding printable_log_dirs_def Let_def map_map [symmetric] by (rule mset_concat_order) (rule ho.order_mset)
  also have "\<dots> = mset (filter (\<lambda>replica. topics = [] \<or> lx_topic replica \<in> set topics) (concat (map dir_replicas infos)))"
    by (induction infos) (simp_all add: printable_dir_def Let_def ho.order_mset mset_filter)
  finally show ?thesis .
qed

text \<open>\<open>--describe\<close> ends with a report, also when brokers fail, in which each broker that was asked is either in the document, when it answered with a log
  directory, or in the list of failures and on a line of standard error, and which counts as failed exactly when there is such a failure. The document is
  one line of JSON; what it has of a broker is each replica of the wanted topics exactly once. The JSON library reads that line as the value it is.\<close>

theorem describe_result_complete:
  assumes "distinct queried" and "length answers = length queried"
    and "asked = zip queried answers" and "wanted = bs_of_list (split_list topics)"
    and "from_str (json_text to_str (brokers_document (shown_brokers asked wanted))) = Inr (norm_json (brokers_document (shown_brokers asked wanted)))"
  shows "\<exists>report. describe_result from_str to_str queried answers topics = Some report
    \<and> cr_human report ! 2 = json_text to_str (brokers_document (shown_brokers asked wanted))
    \<and> cr_data report = JObject [(''brokers'', norm_json (JArray (map broker_document (shown_brokers asked wanted)))),
        (''failed_brokers'', JArray (map failed_json (failed_answers asked))), (''version'', JInt 1)]
    \<and> cr_notices report = map failed_notice (failed_answers asked)
    \<and> (cr_failed report \<longleftrightarrow> failed_answers asked \<noteq> [])
    \<and> set (map fst (shown_brokers asked wanted)) \<union> set (map fst (failed_answers asked)) = set queried
    \<and> set (map fst (shown_brokers asked wanted)) \<inter> set (map fst (failed_answers asked)) = {}
    \<and> (\<forall>broker dirs. (broker, dirs) \<in> set (shown_brokers asked wanted) \<longrightarrow>
        mset (concat (map lg_replicas dirs)) =
        mset (filter (\<lambda>replica. wanted = [] \<or> lx_topic replica \<in> set wanted) (concat (map dir_replicas (broker_dirs asked broker)))))"
proof -
  let ?state = "fold (take_broker_answer wanted) asked \<lparr>dq_answered = [], dq_notices = [], dq_failed_brokers = []\<rparr>"
  have asked: "map fst asked = queried" "distinct (map fst asked)" using assms(1-3) by simp_all
  have responded: "filter (\<lambda>broker. map_of (dq_answered ?state) broker \<noteq> None) queried = filter (\<lambda>broker. broker_dirs asked broker \<noteq> []) (map fst asked)"
    unfolding asked(1) by (rule filter_cong [OF refl]) (simp add: fold_answers_get [OF _ asked(2)])
  have "set queried = fst ` set asked" using asked(1) by (metis set_map)
  then have parts: "set (map fst (shown_brokers asked wanted)) \<union> set (map fst (failed_answers asked)) = set queried"
    "set (map fst (shown_brokers asked wanted)) \<inter> set (map fst (failed_answers asked)) = {}"
    using shown_failed [OF asked(2)] by auto
  have replicas: "\<forall>broker dirs. (broker, dirs) \<in> set (shown_brokers asked wanted) \<longrightarrow>
      mset (concat (map lg_replicas dirs)) =
      mset (filter (\<lambda>replica. wanted = [] \<or> lx_topic replica \<in> set wanted) (concat (map dir_replicas (broker_dirs asked broker))))"
    by (auto simp: shown_brokers_def printable_replicas)
  have "describe_result from_str to_str queried answers topics = Some (with_notices (map failed_notice (failed_answers asked)) (result_rows
      [''Querying brokers for log directories information'',
       ''Received log directory information from brokers '' @ join_brokers (filter (\<lambda>broker. broker_dirs asked broker \<noteq> []) (map fst asked)),
       json_text to_str (brokers_document (shown_brokers asked wanted))]
      (JObject [(''brokers'', norm_json (JArray (map broker_document (shown_brokers asked wanted)))),
        (''failed_brokers'', JArray (map failed_json (failed_answers asked))), (''version'', JInt 1)])
      (failed_answers asked \<noteq> [])))"
    unfolding describe_result_def Let_def assms(3)[symmetric] assms(4)[symmetric] responded taken_answers_shown [OF asked(2)] log_dirs_document_json
      assms(5) fold_answers_failed by (simp add: brokers_document_def bt_of_list_def)
  then show ?thesis using parts replicas by (simp add: with_notices_def result_rows_def)
qed

section \<open>What changes the cluster\<close>

definition with_move ::
    "'c LogDirsEnv \<Rightarrow> ((ReplicaKey, string) btmap \<Rightarrow> 'c \<Rightarrow> (ReplicaKey, KafkaError + unit) btmap \<times> 'c) \<Rightarrow> 'c LogDirsEnv" where
  "with_move env alter = env\<lparr>ldx_alter_replica_log_dirs := alter\<rparr>"

lemma calls_with_move:
  "ldx_connect (with_move env a) = ldx_connect env"
  "ldx_describe_cluster (with_move env a) = ldx_describe_cluster env"
  "ldx_describe_log_dirs (with_move env a) = ldx_describe_log_dirs env"
  "ldx_terminal (with_move env a) = ldx_terminal env"
  "ldx_from_str (with_move env a) = ldx_from_str env"
  "ldx_to_str (with_move env a) = ldx_to_str env"
  "ldx_alter_replica_log_dirs (with_move env a) = a"
  by (simp_all add: with_move_def)

lemma ex_confirmed: "(\<exists>impact. f impact = Inr ()) \<or> (\<forall>impact. \<exists>r. f impact = Inl r)" for f :: "'a \<Rightarrow> 'b + unit"
  by (metis old.unit.exhaust sum.exhaust)

text \<open>\<open>kafka-log-dirs\<close> moves replicas only under \<open>--alter\<close> that is confirmed and not a dry run; otherwise its outcome does not depend on that operation
  of the client. Under \<open>--alter\<close> it moves nothing unless the broker is one of the cluster.\<close>

theorem log_dirs_change_only_their_own:
  assumes "ld_alter self \<Longrightarrow> \<not> ca_dry_run (ld_confirm self)
    \<Longrightarrow> \<exists>impact. confirm (ca_yes (ld_confirm self)) (ldx_terminal env) ''krabka log-dirs'' impact = Inr ()
    \<Longrightarrow> \<exists>broker nodes st1 st2. ld_broker self = Some broker \<and> ldx_describe_cluster env st1 = (Inr nodes, st2) \<and> broker \<in> set (map node_id nodes)
    \<Longrightarrow> alter = ldx_alter_replica_log_dirs env"
  shows "run_log_dirs (with_move env alter) self = run_log_dirs env self"
proof -
  have alters: "alter_log_dirs (with_move env alter) self (map node_id nodes) = alter_log_dirs env self (map node_id nodes)"
    if asked: "ld_alter self" "ldx_describe_cluster env st1 = (Inr nodes, st2)" for nodes st1 st2
  proof (cases "ld_broker self")
    case (Some broker)
    consider "broker \<notin> set (map node_id nodes)" | "ca_dry_run (ld_confirm self)"
      | "\<forall>impact. \<exists>r. confirm (ca_yes (ld_confirm self)) (ldx_terminal env) ''krabka log-dirs'' impact = Inl r" | "alter = ldx_alter_replica_log_dirs env"
      using assms asked Some ex_confirmed [of "confirm (ca_yes (ld_confirm self)) (ldx_terminal env) ''krabka log-dirs''"] by blast
    then show ?thesis
    proof cases
      case 3
      have refused: "cmd_confirm (confirm (ca_yes (ld_confirm self)) (ldx_terminal env) ''krabka log-dirs'' impact) =
          cmd_fail (ErrRefused (projl (confirm (ca_yes (ld_confirm self)) (ldx_terminal env) ''krabka log-dirs'' impact)))" for impact
        using spec [OF 3, of impact] by (auto simp: cmd_confirm_def)
      show ?thesis unfolding alter_log_dirs_def calls_with_move refused cmd_bind_fail ..
    qed (simp_all add: alter_log_dirs_def calls_with_move Some cmd_simps cong: if_cong)
  qed (simp add: alter_log_dirs_def cmd_simps)
  show ?thesis
  proof (cases "ld_alter self")
    case True
    have "cmd_bind (cluster_brokers env) (alter_log_dirs (with_move env alter) self) = cmd_bind (cluster_brokers env) (alter_log_dirs env self)"
    proof
      fix st
      obtain r st' where "ldx_describe_cluster env st = (r, st')" by force
      with alters [OF True, of st] show "cmd_bind (cluster_brokers env) (alter_log_dirs (with_move env alter) self) st =
          cmd_bind (cluster_brokers env) (alter_log_dirs env self) st"
        by (cases r) (simp_all add: cmd_bind_def cluster_brokers_def cmd_admin_def cmd_ret_def)
    qed
    with True show ?thesis unfolding run_log_dirs_def cluster_brokers_def calls_with_move by simp
  next
    case False
    then show ?thesis unfolding run_log_dirs_def cluster_brokers_def calls_with_move by simp
  qed
qed

definition broker_outcome :: "LogDirInfo list \<Rightarrow> string \<Rightarrow> KafkaError + unit" where
  "broker_outcome current dir =
     (if dir \<in> li_log_dir ` set current then Inr ()
      else Inl \<lparr>ke_code = 57, ke_name = ''LOG_DIR_NOT_FOUND'', ke_message = Some (ex_message (for_code 57))\<rparr>)"

lemma dry_outcome_eq: "dry_outcome current m = broker_outcome current (rm_log_dir m)"
  unfolding dry_outcome_def broker_outcome_def LOG_DIR_NOT_FOUND_def image_iff by (metis (no_types))

text \<open>The dry run of \<open>--alter\<close> fails exactly when some replica is to move to a directory that the broker does not list, and has the lines, the data and
  the outcome of the command itself on a broker that refuses exactly those moves in that way.\<close>

theorem alter_dry_run_agrees:
  assumes "ld_broker self = Some broker" and "broker \<in> set brokers"
    and "ldx_describe_log_dirs env [broker] (Some (move_filter (ld_replica_move self))) st = (answered, st1)"
    and "map_of answered broker = Some (Inr current)"
    and "distinct (map (replica_key broker) (ld_replica_move self))"
    and "confirm (ca_yes (ld_confirm self)) (ldx_terminal env) ''krabka log-dirs'' = (\<lambda>_. Inr ())"
    and "\<And>moves. ldx_alter_replica_log_dirs env moves st1 =
      (map (\<lambda>(key, dir). (key, broker_outcome current dir)) moves, st2)"
    and "\<not> ca_dry_run (ld_confirm self)"
    and "dry = self\<lparr>ld_confirm := (ld_confirm self)\<lparr>ca_dry_run := True\<rparr>\<rparr>"
  shows "\<exists>report. alter_log_dirs env self brokers st = Some (Inr report, st2) \<and> alter_log_dirs env dry brokers st = Some (Inr (into_dry_run report), st1)
    \<and> (cr_failed report \<longleftrightarrow> (\<exists>m \<in> set (ld_replica_move self). rm_log_dir m \<notin> li_log_dir ` set current))"
proof -
  let ?moves = "ld_replica_move self"
  let ?dry = "bt_of_list (map (\<lambda>m. (replica_key broker m, dry_outcome current m)) ?moves)"
  let ?real = "map (\<lambda>(key, dir). (key, broker_outcome current dir))
    (bt_of_list (map (\<lambda>m. (replica_key broker m, rm_log_dir m)) ?moves))"
  have get: "map_of (bt_of_list (map (\<lambda>m. (replica_key broker m, f m)) ?moves)) (replica_key broker m) = Some (f m)" if "m \<in> set ?moves" for f m
    using that assms(5) by (subst map_of_bt_of_list_distinct) (auto simp: comp_def intro!: map_of_is_SomeI)
  have error: "move_error broker ?dry m = (case dry_outcome current m of Inl e \<Rightarrow> Some e | Inr _ \<Rightarrow> None)"
      "move_error broker ?real m = move_error broker ?dry m" if "m \<in> set ?moves" for m
    using get [OF that, of "dry_outcome current"] get [OF that, of rm_log_dir]
    by (simp_all add: move_error_def map_of_map dry_outcome_eq)
  have same: "moved_report broker ?moves current ?real = moved_report broker ?moves current ?dry"
    unfolding moved_report_def using error(2) by (simp add: Let_def cong: map_cong)
  have "cr_failed (moved_report broker ?moves current ?dry) \<longleftrightarrow> (\<exists>m \<in> set ?moves. rm_log_dir m \<notin> li_log_dir ` set current)"
    using error(1) by (auto simp: moved_report_def Let_def result_rows_def list_ex_iff dry_outcome_eq broker_outcome_def split: if_splits)
  then show ?thesis using assms(1-4,6-9) same by (simp add: alter_log_dirs_def cmd_simps cmd_bind_def cmd_call_def cmd_ret_def cmd_confirm_def)
qed

section \<open>A sample cluster\<close>

definition sample_dir :: LogDirInfo where
  "sample_dir = \<lparr>li_log_dir = ''/a'', li_error = None, li_topics =
     [(''t'', [\<lparr>lp_partition_index = 0, lp_partition_size = 10, lp_offset_lag = 0, lp_is_future_key = False\<rparr>])]\<rparr>"

definition sample_answers :: "(CommandError + LogDirInfo list) list" where
  "sample_answers = [Inr [sample_dir], Inr []]"

definition sample_reader :: json_parser where
  "sample_reader s = Inr (norm_json (brokers_document (shown_brokers (zip [1, 2] sample_answers) (bs_of_list (split_list ''t'')))))"

definition sample_alter :: LogDirsArgs where
  "sample_alter = \<lparr>ld_bootstrap_server = [''b:9092''], ld_bootstrap_controller = [], ld_describe = False, ld_alter = True, ld_topic_list = [],
     ld_broker_list = [], ld_broker = Some 1, ld_replica_move = [\<lparr>rm_topic = ''t'', rm_partition = 0, rm_log_dir = ''/b''\<rparr>],
     ld_confirm = \<lparr>ca_dry_run = False, ca_yes = True\<rparr>\<rparr>"

definition sample_log_dirs_env :: "nat LogDirsEnv" where
  "sample_log_dirs_env = \<lparr>ldx_connect = cmd_ret (), ldx_describe_cluster = (\<lambda>st. (Inr [\<lparr>node_id = 1, node_rack = None\<rparr>], st)),
     ldx_describe_log_dirs = (\<lambda>brokers _ st. (map (\<lambda>b. (b, Inr [sample_dir])) brokers, st)),
     ldx_alter_replica_log_dirs = (\<lambda>moves st. (map (\<lambda>(key, dir). (key, broker_outcome [sample_dir] dir)) moves, st + 1)),
     ldx_terminal = \<lparr>tm_interactive = False, tm_write_ok = False, tm_line = None\<rparr>, ldx_from_str = sample_reader, ldx_to_str = (\<lambda>_. [])\<rparr>"

theorem parse_move_roundtrip_witness:
  "parse_move (show_move \<lparr>rm_topic = ''a:b'', rm_partition = 3, rm_log_dir = ''/d=1''\<rparr>) = Inr \<lparr>rm_topic = ''a:b'', rm_partition = 3, rm_log_dir = ''/d=1''\<rparr>"
  using parse_move_roundtrip [of "\<lparr>rm_topic = ''a:b'', rm_partition = 3, rm_log_dir = ''/d=1''\<rparr>"] by simp

theorem describe_result_complete_witness:
  "\<exists>report. describe_result sample_reader (\<lambda>_. []) [1, 2] sample_answers ''t'' = Some report \<and> cr_failed report"
proof -
  have "failed_answers (zip [1, 2] sample_answers) \<noteq> []"
    by (simp add: failed_answers_def sample_answers_def log_dirs_answer_def)
  moreover have "length sample_answers = length [1 :: int, 2]" by (simp add: sample_answers_def)
  ultimately show ?thesis
    using describe_result_complete [of "[1, 2]" sample_answers _ _ "''t''" sample_reader "\<lambda>_. []", OF _ _ refl refl sample_reader_def] by auto
qed

theorem log_dirs_change_only_their_own_witness:
  "run_log_dirs (with_move sample_log_dirs_env (\<lambda>_ st. ([], st + 5))) (sample_alter\<lparr>ld_confirm := \<lparr>ca_dry_run = True, ca_yes = True\<rparr>\<rparr>) =
     run_log_dirs sample_log_dirs_env (sample_alter\<lparr>ld_confirm := \<lparr>ca_dry_run = True, ca_yes = True\<rparr>\<rparr>)"
  by (rule log_dirs_change_only_their_own) simp

theorem alter_dry_run_agrees_witness:
  "\<exists>report. alter_log_dirs sample_log_dirs_env sample_alter [1] 0 = Some (Inr report, 1) \<and> cr_failed report"
proof -
  have confirmed: "confirm (ca_yes (ld_confirm sample_alter)) (ldx_terminal sample_log_dirs_env) ''krabka log-dirs'' = (\<lambda>_. Inr ())"
    by (simp add: fun_eq_iff confirm_def confirm_with_def sample_alter_def)
  have "\<exists>report. alter_log_dirs sample_log_dirs_env sample_alter [1] 0 = Some (Inr report, 1)
      \<and> alter_log_dirs sample_log_dirs_env (sample_alter\<lparr>ld_confirm := (ld_confirm sample_alter)\<lparr>ca_dry_run := True\<rparr>\<rparr>) [1] 0 = Some (Inr (into_dry_run report), 0)
      \<and> (cr_failed report \<longleftrightarrow> (\<exists>m \<in> set (ld_replica_move sample_alter). rm_log_dir m \<notin> li_log_dir ` set [sample_dir]))"
    by (rule alter_dry_run_agrees [where broker = 1 and answered = "[(1, Inr [sample_dir])]" and st = 0, OF _ _ _ _ _ confirmed _ _ refl])
      (simp_all add: sample_alter_def sample_log_dirs_env_def)
  moreover have "\<exists>m \<in> set (ld_replica_move sample_alter). rm_log_dir m \<notin> li_log_dir ` set [sample_dir]"
    by (simp add: sample_alter_def sample_dir_def)
  ultimately show ?thesis by blast
qed

end
