(* ===== verification/Connection_Properties.thy ===== *)
theory Connection_Properties
  imports Jvm
begin

text \<open>
  The properties files of \<^verbatim>\<open>crates/krabka-cli/src/connection.rs\<close>, as \<open>java.util.Properties\<close> reads them. A file is its bytes, each an ISO 8859-1
  character; a key or a value is the UTF-8 of its characters. Reading back what \<open>java.util.Properties\<close> stores holds for every map of strings of the basic plane.
\<close>

section \<open>Errors\<close>

datatype ConfigError =
    Malformed string
  | Missing string string
  | Invalid string string
  | Unsupported string string

fun show_config_error :: "ConfigError \<Rightarrow> string" where
  "show_config_error (Malformed reason) = ''malformed properties file: '' @ reason"
| "show_config_error (Missing name reason) = name @ '' is required: '' @ reason"
| "show_config_error (Invalid name reason) = name @ '' is invalid: '' @ reason"
| "show_config_error (Unsupported name reason) = name @ '' is not supported: '' @ reason"

section \<open>Characters\<close>

text \<open>\<open>String::push\<close> of a character by its code point.\<close>

definition utf8 :: "nat \<Rightarrow> string" where
  "utf8 u =
     (if u < 128 then [char_of u]
      else if u < 2048 then [char_of (192 + u div 64), char_of (128 + u mod 64)]
      else if u < 65536 then [char_of (224 + u div 4096), char_of (128 + u div 64 mod 64), char_of (128 + u mod 64)]
      else [char_of (240 + u div 262144), char_of (128 + u div 4096 mod 64), char_of (128 + u div 64 mod 64), char_of (128 + u mod 64)])"

text \<open>\<open>u32::from_str_radix(s, 16)\<close> of at most four characters, which cannot overflow: an optional plus sign and at least one digit.\<close>

definition hex_digit :: "char \<Rightarrow> nat option" where
  "hex_digit c =
     (let b = byte_of c
      in if 48 \<le> b \<and> b \<le> 57 then Some (b - 48)
         else if 65 \<le> b \<and> b \<le> 70 then Some (b - 55)
         else if 97 \<le> b \<and> b \<le> 102 then Some (b - 87)
         else None)"

definition hex_digits :: "string \<Rightarrow> nat option" where
  "hex_digits s = foldl (\<lambda>acc c. case (acc, hex_digit c) of (Some n, Some d) \<Rightarrow> Some (16 * n + d) | _ \<Rightarrow> None) (Some 0) s"

definition from_hex :: "string \<Rightarrow> nat option" where
  "from_hex s =
     (let ds = (case s of c # cs \<Rightarrow> if c = CHR ''+'' then cs else s | [] \<Rightarrow> s)
      in if ds = [] then None else hex_digits ds)"

text \<open>\<open>char::from_u32\<close>.\<close>

definition from_u32 :: "nat \<Rightarrow> nat option" where
  "from_u32 n = (if 55296 \<le> n \<and> n < 57344 \<or> 1114112 \<le> n then None else Some n)"

definition is_blank :: "char \<Rightarrow> bool" where
  "is_blank c \<longleftrightarrow> c \<in> {CHR '' '', CHR 0x09, CHR 0x0C}"

definition is_eol :: "char \<Rightarrow> bool" where
  "is_eol c \<longleftrightarrow> c \<in> {CHR 0x0D, CHR 0x0A}"

section \<open>The file\<close>

text \<open>The state of the loop of \<open>logical_lines\<close>: the line so far and its three flags.\<close>

function logical_from :: "string \<Rightarrow> bool \<Rightarrow> bool \<Rightarrow> bool \<Rightarrow> string \<Rightarrow> string list" where
  "logical_from line skip_blank continued backslash [] =
     (if line = [] then [] else [if backslash then butlast line else line])"
| "logical_from line skip_blank continued backslash (c # cs) =
     (if skip_blank \<and> (is_blank c \<or> (\<not> continued \<and> is_eol c)) then logical_from line skip_blank continued backslash cs
      else let continued = (if skip_blank then False else continued) in
        if line = [] \<and> c \<in> {CHR ''#'', CHR ''!''} then logical_from line True continued backslash (dropWhile (\<lambda>c. \<not> is_eol c) cs)
        else if \<not> is_eol c then logical_from (line @ [c]) False continued (c = CHR 0x5C \<and> \<not> backslash) cs
        else if line = [] then logical_from line True continued backslash cs
        else if backslash
        then logical_from (butlast line) True True False (case cs of d # ds \<Rightarrow> if c = CHR 0x0D \<and> d = CHR 0x0A then ds else cs | [] \<Rightarrow> cs)
        else line # logical_from [] True continued backslash cs)"
  by pat_completeness auto
termination
proof (relation "measure (\<lambda>(line, skip, continued, backslash, cs). length cs)", goal_cases)
  case (3 line skip continued backslash c cs)
  then show ?case by (simp add: le_imp_less_Suc length_dropWhile_le)
next
  case (6 line skip continued backslash c cs)
  then show ?case by (simp split: list.split)
qed simp_all

definition logical_lines :: "string \<Rightarrow> string list" where
  "logical_lines text = logical_from [] True False False text"

text \<open>The first loop of \<open>split_key_value\<close>: the key, whether it ended at a separator, and what follows.\<close>

fun split_key :: "bool \<Rightarrow> string \<Rightarrow> string \<times> bool \<times> string" where
  "split_key backslash [] = ([], False, [])"
| "split_key backslash (c # cs) =
     (if c \<in> {CHR ''='', CHR '':''} \<and> \<not> backslash then ([], True, cs)
      else if is_blank c \<and> \<not> backslash then ([], False, cs)
      else case split_key (c = CHR 0x5C \<and> \<not> backslash) cs of (key, rest) \<Rightarrow> (c # key, rest))"

fun skip_separator :: "bool \<Rightarrow> string \<Rightarrow> string" where
  "skip_separator has_separator [] = []"
| "skip_separator has_separator (c # cs) =
     (if is_blank c then skip_separator has_separator cs
      else if \<not> has_separator \<and> c \<in> {CHR ''='', CHR '':''} then skip_separator True cs
      else c # cs)"

definition split_key_value :: "string \<Rightarrow> string \<times> string" where
  "split_key_value line = (case split_key False line of (key, has_separator, rest) \<Rightarrow> (key, skip_separator has_separator rest))"

definition malformed_escape :: ConfigError where
  "malformed_escape = Malformed (''malformed '' @ [CHR 0x5C] @ ''uxxxx encoding'')"

text \<open>The digits of an escape are four characters whose UTF-8 has four bytes.\<close>

definition unescape_code :: "string \<Rightarrow> ConfigError + string" where
  "unescape_code digits =
     (let s = concat (map (\<lambda>c. utf8 (byte_of c)) digits)
      in res_bind (ok_or malformed_escape (if length s = 4 then from_hex s else None)) (\<lambda>code.
         map_sum id utf8 (ok_or (Malformed ([CHR 0x5C] @ ''u'' @ s @ '' is an unpaired surrogate'')) (from_u32 code))))"

fun unescape :: "string \<Rightarrow> ConfigError + string" where
  "unescape [] = Inr []"
| "unescape [c] = Inr (if c \<noteq> CHR 0x5C then utf8 (byte_of c) else [])"
| "unescape (c # d # cs) =
     (if c \<noteq> CHR 0x5C then map_sum id ((@) (utf8 (byte_of c))) (unescape (d # cs))
      else if d = CHR ''u''
      then res_bind (unescape_code (take 4 cs)) (\<lambda>s. map_sum id ((@) s) (unescape (drop 4 cs)))
      else let s = (if d = CHR ''t'' then [CHR 0x09] else if d = CHR ''n'' then [CHR 0x0A] else if d = CHR ''r'' then [CHR 0x0D]
                    else if d = CHR ''f'' then [CHR 0x0C] else utf8 (byte_of d))
           in map_sum id ((@) s) (unescape cs))"

type_synonym Properties = "(string, string) btmap"

fun parse_properties_from :: "Properties \<Rightarrow> string list \<Rightarrow> ConfigError + Properties" where
  "parse_properties_from properties [] = Inr properties"
| "parse_properties_from properties (line # lines) =
     (case split_key_value line of (key, v) \<Rightarrow>
        res_bind (unescape key) (\<lambda>key. res_bind (unescape v) (\<lambda>v. parse_properties_from (bt_insert key v properties) lines)))"

definition parse_properties :: "string \<Rightarrow> ConfigError + Properties" where
  "parse_properties bytes = parse_properties_from [] (logical_lines bytes)"

definition property_get :: "Properties \<Rightarrow> string \<Rightarrow> string option" where
  "property_get properties key = map_option trim (map_of properties key)"

definition property_contains :: "Properties \<Rightarrow> string \<Rightarrow> bool" where
  "property_contains properties key \<longleftrightarrow> map_of properties key \<noteq> None"

section \<open>Reading what is written\<close>

text \<open>What \<open>Properties.store\<close> writes, over the UTF-16 units of the strings: a line with the date, and a line for each entry. It escapes every space of a key and
  the first character of a value that is a space, the separators and the comment signs, and writes a unit that is a control character or not ASCII by its code,
  in four digits. The file is ASCII.\<close>

definition hex_char :: "nat \<Rightarrow> char" where
  "hex_char d = ''0123456789ABCDEF'' ! d"

definition hex4 :: "nat \<Rightarrow> string" where
  "hex4 u = [hex_char (u div 4096 mod 16), hex_char (u div 256 mod 16), hex_char (u div 16 mod 16), hex_char (u mod 16)]"

definition store_char :: "bool \<Rightarrow> nat \<Rightarrow> string" where
  "store_char escape_space u =
     (if u = 32 then (if escape_space then [CHR 0x5C, CHR '' ''] else [CHR '' ''])
      else if u = 9 then [CHR 0x5C, CHR ''t''] else if u = 10 then [CHR 0x5C, CHR ''n''] else if u = 13 then [CHR 0x5C, CHR ''r'']
      else if u = 12 then [CHR 0x5C, CHR ''f'']
      else if u \<in> {92, 61, 58, 35, 33} then [CHR 0x5C, char_of u]
      else if u < 32 \<or> 126 < u then CHR 0x5C # CHR ''u'' # hex4 u
      else [char_of u])"

definition store_key :: "nat list \<Rightarrow> string" where
  "store_key s = concat (map (store_char True) s)"

fun store_value :: "nat list \<Rightarrow> string" where
  "store_value [] = []"
| "store_value (u # s) = store_char True u @ concat (map (store_char False) s)"

definition entry_line :: "nat list \<times> nat list \<Rightarrow> string" where
  "entry_line = (\<lambda>(key, v). store_key key @ [CHR ''=''] @ store_value v)"

definition properties_store :: "string \<Rightarrow> (nat list \<times> nat list) list \<Rightarrow> string" where
  "properties_store date entries = [CHR ''#''] @ date @ [CHR 0x0A] @ concat (map (\<lambda>e. entry_line e @ [CHR 0x0A]) entries)"

text \<open>A unit that is a character by itself, which a surrogate is not.\<close>

definition basic_plane :: "nat list \<Rightarrow> bool" where
  "basic_plane s \<longleftrightarrow> (\<forall>u \<in> set s. u < 55296 \<or> 57344 \<le> u \<and> u < 65536)"

definition utf8_string :: "nat list \<Rightarrow> string" where
  "utf8_string s = concat (map utf8 s)"

definition ascii :: "string \<Rightarrow> bool" where
  "ascii s \<longleftrightarrow> (\<forall>c \<in> set s. byte_of c < 128)"

lemma utf8_ascii: "byte_of c < 128 \<Longrightarrow> utf8 (byte_of c) = [c]"
  by (simp add: utf8_def byte_of_def)

lemma utf8_ascii_string: "ascii s \<Longrightarrow> concat (map (\<lambda>c. utf8 (byte_of c)) s) = s"
  by (induction s) (simp_all add: ascii_def utf8_ascii)

text \<open>A stored character is one that stands for itself, a blank inside a value, or an escape by a letter or by a code.\<close>

definition ordinary :: "char \<Rightarrow> bool" where
  "ordinary c \<longleftrightarrow> c \<notin> {CHR 0x5C, CHR ''='', CHR '':'', CHR ''#'', CHR ''!''} \<and> \<not> is_blank c \<and> \<not> is_eol c"

lemma hex_char_facts:
  assumes "d < 16"
  shows "ordinary (hex_char d)" "hex_char d \<noteq> CHR ''+''" "hex_digit (hex_char d) = Some d" "byte_of (hex_char d) < 128"
proof -
  have "d \<in> {0, 1, 2, 3, 4, 5, 6, 7, 8, 9, 10, 11, 12, 13, 14, 15}" using assms by simp arith
  then show "ordinary (hex_char d)" "hex_char d \<noteq> CHR ''+''" "hex_digit (hex_char d) = Some d" "byte_of (hex_char d) < 128"
    by (auto simp: hex_char_def ordinary_def is_blank_def is_eol_def hex_digit_def byte_of_def)
qed

lemma hex4_ordinary: "\<forall>c \<in> set (hex4 u). ordinary c"
  by (simp add: hex4_def hex_char_facts)

lemma hex4_reads:
  assumes "u < 65536"
  shows "from_hex (hex4 u) = Some u"
proof -
  have "from_hex (hex4 u) = Some (16 * (16 * (16 * (u div 4096 mod 16) + u div 256 mod 16) + u div 16 mod 16) + u mod 16)"
    by (simp add: from_hex_def hex_digits_def hex4_def hex_char_facts)
  also have "16 * (16 * (16 * (u div 4096 mod 16) + u div 256 mod 16) + u div 16 mod 16) + u mod 16 = u"
  proof -
    have "u div 4096 mod 16 = u div 4096" using assms by simp
    moreover have "u div 4096 = u div 256 div 16" "u div 256 = u div 16 div 16" by (simp_all flip: div_mult2_eq)
    moreover have "16 * (x div 16) + x mod 16 = x" for x :: nat by simp
    ultimately show ?thesis by (simp only:)
  qed
  finally show ?thesis .
qed

lemma unescape_hex4: "u < 55296 \<or> 57344 \<le> u \<and> u < 65536 \<Longrightarrow> unescape_code (hex4 u) = Inr (utf8 u)"
proof -
  assume u: "u < 55296 \<or> 57344 \<le> u \<and> u < 65536"
  have "concat (map (\<lambda>c. utf8 (byte_of c)) (hex4 u)) = hex4 u"
    by (rule utf8_ascii_string) (simp add: ascii_def hex4_def hex_char_facts)
  moreover have "from_hex (hex4 u) = Some u" using u by (intro hex4_reads) auto
  moreover have "from_u32 u = Some u" using u by (auto simp: from_u32_def)
  moreover have "length (hex4 u) = 4" by (simp add: hex4_def)
  ultimately show ?thesis by (simp add: unescape_code_def Let_def)
qed

lemma byte_of_char_of: "u < 256 \<Longrightarrow> byte_of (char_of u) = u"
  by (simp add: byte_of_def)

lemma ordinary_code: "32 < (u :: nat) \<Longrightarrow> u \<le> 126 \<Longrightarrow> u \<notin> {92, 61, 58, 35, 33} \<Longrightarrow> ordinary (char_of u)"
proof -
  assume "32 < u" "u \<le> 126" "u \<notin> {92, 61, 58, 35, 33}"
  moreover have "char_of u = c \<Longrightarrow> u < 256 \<Longrightarrow> u = byte_of c" for c by (auto simp: byte_of_def)
  ultimately show ?thesis
    unfolding ordinary_def is_blank_def is_eol_def by (auto dest!: \<open>\<And>c. char_of u = c \<Longrightarrow> u < 256 \<Longrightarrow> u = byte_of c\<close> simp: byte_of_def)
qed

lemma utf8_controls: "utf8 9 = [CHR 0x09]" "utf8 10 = [CHR 0x0A]" "utf8 13 = [CHR 0x0D]" "utf8 12 = [CHR 0x0C]"
  by code_simp+

lemma store_char_cases:
  obtains (plain) "store_char b u = [char_of u]" "ordinary (char_of u)" "u < 128"
  | (blank) "\<not> b" "store_char b u = [CHR '' '']" "u = 32"
  | (letter) d where "store_char b u = [CHR 0x5C, d]" "\<not> is_eol d" "d \<noteq> CHR ''u''"
      "(if d = CHR ''t'' then [CHR 0x09] else if d = CHR ''n'' then [CHR 0x0A] else if d = CHR ''r'' then [CHR 0x0D]
        else if d = CHR ''f'' then [CHR 0x0C] else utf8 (byte_of d)) = utf8 u"
  | (code) "store_char b u = CHR 0x5C # CHR ''u'' # hex4 u"
proof -
  consider "u = 32" | "u \<in> {9, 10, 13, 12}" | "u \<in> {92, 61, 58, 35, 33}" | "u \<notin> {9, 10, 13, 12}" "u < 32 \<or> 126 < u"
    | "32 < u" "u \<le> 126" "u \<notin> {92, 61, 58, 35, 33}" by fastforce
  then show thesis
  proof cases
    case 1
    then show thesis using blank letter [of "CHR '' ''"]
      by (cases b) (simp_all add: store_char_def is_eol_def utf8_def byte_of_def)
  next
    case 2
    then show thesis
      using letter [of "CHR ''t''"] letter [of "CHR ''n''"] letter [of "CHR ''r''"] letter [of "CHR ''f''"]
      by (elim insertE emptyE) (simp_all add: store_char_def is_eol_def utf8_controls)
  next
    case 3
    then show thesis using letter [of "char_of u"]
      by (elim insertE emptyE) (simp_all add: store_char_def is_eol_def utf8_def byte_of_def char_of_eq_iff)
  next
    case 4
    then show thesis using code by (auto simp: store_char_def)
  next
    case 5
    then show thesis using plain ordinary_code [OF 5] by (simp add: store_char_def)
  qed
qed

lemma ordinaryD: "ordinary c \<Longrightarrow> c \<noteq> CHR 0x5C" "ordinary c \<Longrightarrow> \<not> is_eol c" "ordinary c \<Longrightarrow> \<not> is_blank c"
    "ordinary c \<Longrightarrow> c \<noteq> CHR ''=''" "ordinary c \<Longrightarrow> c \<noteq> CHR '':''" "ordinary c \<Longrightarrow> c \<noteq> CHR ''#''" "ordinary c \<Longrightarrow> c \<noteq> CHR ''!''"
  by (simp_all add: ordinary_def)

section \<open>Lines\<close>

lemma logical_char:
  assumes "\<not> is_eol c" and "line = [] \<Longrightarrow> c \<notin> {CHR ''#'', CHR ''!''}"
  shows "logical_from line False continued backslash (c # cs) = logical_from (line @ [c]) False continued (c = CHR 0x5C \<and> \<not> backslash) cs"
  using assms by auto

lemma logical_ordinary:
  "\<forall>c \<in> set w. ordinary c \<Longrightarrow> line \<noteq> [] \<Longrightarrow> w \<noteq> [] \<Longrightarrow>
     logical_from line False continued backslash (w @ cs) = logical_from (line @ w) False continued False cs"
proof (induction w arbitrary: line backslash)
  case (Cons c w)
  then have "logical_from line False continued backslash ((c # w) @ cs) = logical_from (line @ [c]) False continued False (w @ cs)"
    using ordinaryD [of c] by (simp add: logical_char del: logical_from.simps)
  with Cons show ?case by (cases "w = []") (simp_all del: logical_from.simps)
qed simp

lemma logical_store_char:
  "logical_from line False continued False (store_char b u @ cs) = logical_from (line @ store_char b u) False continued False cs"
proof (cases rule: store_char_cases [of b u])
  case plain
  then show ?thesis using ordinaryD [OF plain(2)] by (simp add: logical_char del: logical_from.simps)
next
  case code
  have "logical_from line False continued False (store_char b u @ cs) =
      logical_from (line @ [CHR 0x5C]) False continued True ((CHR ''u'' # hex4 u) @ cs)"
    by (simp add: code logical_char is_eol_def del: logical_from.simps)
  also have "\<dots> = logical_from ((line @ [CHR 0x5C]) @ (CHR ''u'' # hex4 u)) False continued False cs"
    by (rule logical_ordinary) (simp_all add: hex4_ordinary, simp add: ordinary_def is_blank_def is_eol_def)
  finally show ?thesis by (simp add: code)
next
  case (letter d)
  have "logical_from line False continued False (store_char b u @ cs) = logical_from (line @ [CHR 0x5C]) False continued True (d # cs)"
    by (simp add: letter(1) logical_char is_eol_def del: logical_from.simps)
  also have "\<dots> = logical_from (line @ [CHR 0x5C, d]) False continued False cs"
    using logical_char [of d "line @ [CHR 0x5C]" continued True cs] letter(2) by (simp del: logical_from.simps)
  finally show ?thesis by (simp add: letter(1))
qed (simp_all add: logical_char is_eol_def del: logical_from.simps)

lemma logical_stored:
  "logical_from line False continued False (concat (map (store_char b) s) @ cs) = logical_from (line @ concat (map (store_char b) s)) False continued False cs"
  by (induction s arbitrary: line) (simp_all add: logical_store_char del: logical_from.simps)

lemma logical_value:
  "logical_from line False continued False (store_value s @ cs) = logical_from (line @ store_value s) False continued False cs"
  by (cases s) (simp_all add: logical_store_char logical_stored del: logical_from.simps)

lemma stored_start: "\<exists>c w. store_char True u = c # w \<and> \<not> is_blank c \<and> \<not> is_eol c"
  by (cases rule: store_char_cases [of True u]) (auto simp: ordinary_def is_blank_def is_eol_def)

lemma entry_start: "\<exists>c cs. entry_line e @ rest = c # cs \<and> \<not> is_blank c \<and> \<not> is_eol c"
proof (cases e)
  case (Pair key v)
  then show ?thesis using stored_start [of "hd key"]
    by (cases key) (auto simp: entry_line_def store_key_def is_blank_def is_eol_def)
qed

lemma logical_start:
  assumes "\<not> is_blank c" "\<not> is_eol c"
  shows "logical_from line True False backslash (c # cs) = logical_from line False False backslash (c # cs)"
  using assms by simp

lemma entry_not_empty: "entry_line e \<noteq> []"
  by (simp add: entry_line_def split: prod.split)

lemma logical_end: "line \<noteq> [] \<Longrightarrow> logical_from line False False False (CHR 0x0A # rest) = line # logical_from [] True False False rest"
  by (simp add: is_eol_def)

lemma logical_entry: "logical_from [] True False False (entry_line e @ CHR 0x0A # rest) = entry_line e # logical_from [] True False False rest"
proof -
  obtain key v where e: "e = (key, v)" by force
  obtain c cs where start: "entry_line e @ CHR 0x0A # rest = c # cs" "\<not> is_blank c" "\<not> is_eol c" using entry_start by blast
  have "logical_from [] True False False (entry_line e @ CHR 0x0A # rest) = logical_from [] False False False (entry_line e @ CHR 0x0A # rest)"
    unfolding start(1) using start(2,3) by (rule logical_start)
  also have "\<dots> = logical_from (store_key key) False False False (CHR ''='' # store_value v @ CHR 0x0A # rest)"
    using logical_stored [of "[]" False True key] by (simp add: e entry_line_def store_key_def del: logical_from.simps)
  also have "\<dots> = logical_from (store_key key @ [CHR ''='']) False False False (store_value v @ CHR 0x0A # rest)"
    by (simp add: logical_char is_eol_def del: logical_from.simps)
  also have "\<dots> = logical_from (entry_line e) False False False (CHR 0x0A # rest)"
    unfolding logical_value by (simp add: e entry_line_def del: logical_from.simps)
  also have "\<dots> = entry_line e # logical_from [] True False False rest" by (rule logical_end [OF entry_not_empty])
  finally show ?thesis .
qed

lemma logical_entries: "logical_from [] True False False (concat (map (\<lambda>e. entry_line e @ [CHR 0x0A]) entries)) = map entry_line entries"
  by (induction entries) (simp_all add: logical_entry)

lemma logical_lines_store:
  assumes "\<forall>c \<in> set date. \<not> is_eol c"
  shows "logical_lines (properties_store date entries) = map entry_line entries"
proof -
  let ?rest = "concat (map (\<lambda>e. entry_line e @ [CHR 0x0A]) entries)"
  have skip: "dropWhile (\<lambda>c. \<not> is_eol c) (date @ CHR 0x0A # ?rest) = CHR 0x0A # ?rest"
    using assms by (induction date) (simp_all add: is_eol_def)
  have "logical_lines (properties_store date entries) = logical_from [] True False False (CHR 0x0A # ?rest)"
    unfolding logical_lines_def properties_store_def using skip by (simp add: is_blank_def) (simp add: is_eol_def)
  also have "\<dots> = logical_from [] True False False ?rest" by (simp add: is_eol_def)
  finally show ?thesis unfolding logical_entries .
qed

section \<open>Keys and values\<close>

lemma split_key_ordinary:
  "\<forall>c \<in> set w. ordinary c \<Longrightarrow> w \<noteq> [] \<Longrightarrow> split_key b (w @ cs) = (case split_key False cs of (key, rest) \<Rightarrow> (w @ key, rest))"
proof (induction w arbitrary: b)
  case (Cons c w)
  have "split_key b ((c # w) @ cs) = (case split_key False (w @ cs) of (key, rest) \<Rightarrow> (c # key, rest))"
    using Cons.prems ordinaryD [of c] by simp
  with Cons show ?case by (cases "w = []") (simp_all add: case_prod_unfold)
qed simp

lemma split_key_store_char:
  "split_key False (store_char True u @ cs) = (case split_key False cs of (key, rest) \<Rightarrow> (store_char True u @ key, rest))"
proof (cases rule: store_char_cases [of True u])
  case plain
  then show ?thesis using split_key_ordinary [of "[char_of u]" False cs] by simp
next
  case code
  have "split_key True ((CHR ''u'' # hex4 u) @ cs) = (case split_key False cs of (key, rest) \<Rightarrow> ((CHR ''u'' # hex4 u) @ key, rest))"
    by (rule split_key_ordinary) (simp_all add: hex4_ordinary, simp add: ordinary_def is_blank_def is_eol_def)
  then show ?thesis by (simp add: code is_blank_def split: prod.split)
qed (auto simp: is_blank_def split: prod.split)

lemma split_key_stored: "split_key False (store_key s @ CHR ''='' # cs) = (store_key s, True, cs)"
  unfolding store_key_def by (induction s) (simp_all add: split_key_store_char)

lemma skip_separator_value: "skip_separator True (store_value s) = store_value s"
proof (cases s)
  case (Cons u us)
  then show ?thesis using stored_start [of u] by auto
qed simp

lemma unescape_plain: "c \<noteq> CHR 0x5C \<Longrightarrow> unescape (c # cs) = map_sum id ((@) (utf8 (byte_of c))) (unescape cs)"
  by (cases cs) simp_all

lemma unescape_store_char:
  assumes "u < 55296 \<or> 57344 \<le> u \<and> u < 65536"
  shows "unescape (store_char b u @ cs) = map_sum id ((@) (utf8 u)) (unescape cs)"
proof (cases rule: store_char_cases [of b u])
  case plain
  then show ?thesis using ordinaryD(1) [OF plain(2)] byte_of_char_of [of u] by (simp add: unescape_plain)
next
  case blank
  then show ?thesis by (simp add: unescape_plain byte_of_def)
next
  case (letter d)
  then show ?thesis by (simp add: Let_def)
next
  case code
  have "length (hex4 u) = 4" by (simp add: hex4_def)
  then show ?thesis by (simp add: code unescape_hex4 [OF assms])
qed

lemma unescape_stored: "basic_plane s \<Longrightarrow> unescape (concat (map (store_char b) s)) = Inr (utf8_string s)"
  by (induction s) (simp_all add: basic_plane_def unescape_store_char utf8_string_def)

lemma unescape_value: "basic_plane s \<Longrightarrow> unescape (store_value s) = Inr (utf8_string s)"
proof (cases s)
  case (Cons u us)
  assume "basic_plane s"
  then have "u < 55296 \<or> 57344 \<le> u \<and> u < 65536" "basic_plane us" by (auto simp: basic_plane_def Cons)
  then show ?thesis using Cons unescape_stored [of us False] by (simp add: unescape_store_char utf8_string_def)
qed (simp add: utf8_string_def)

abbreviation utf8_entries :: "(nat list \<times> nat list) list \<Rightarrow> (string \<times> string) list" where
  "utf8_entries entries \<equiv> map (\<lambda>(key, v). (utf8_string key, utf8_string v)) entries"

lemma parse_properties_entries:
  "\<forall>(key, v) \<in> set entries. basic_plane key \<and> basic_plane v \<Longrightarrow>
     parse_properties_from properties (map entry_line entries) = Inr (fold (\<lambda>(key, v). bt_insert key v) (utf8_entries entries) properties)"
proof (induction entries arbitrary: properties)
  case (Cons e entries)
  obtain key v where e: "e = (key, v)" by force
  have "split_key_value (entry_line e) = (store_key key, store_value v)"
    by (simp add: split_key_value_def e entry_line_def split_key_stored skip_separator_value)
  moreover have "unescape (store_key key) = Inr (utf8_string key)" "unescape (store_value v) = Inr (utf8_string v)"
    using Cons.prems by (simp_all add: e store_key_def unescape_stored unescape_value)
  ultimately show ?case using Cons e by simp
qed simp

text \<open>C12. A properties file as \<open>Properties.store\<close> writes it, with its date line, reads as the map of the entries, in which a later key replaces an earlier one:
  keys and values may be empty and may have any character of Unicode's basic plane, also separators, comment signs, backslashes, line ends, blanks, and
  characters that are written by their code.\<close>

theorem properties_roundtrip:
  assumes "\<forall>(key, v) \<in> set entries. basic_plane key \<and> basic_plane v" and "\<forall>c \<in> set date. \<not> is_eol c"
  shows "parse_properties (properties_store date entries) = Inr (bt_of_list (utf8_entries entries))"
  unfolding parse_properties_def logical_lines_store [OF assms(2)] parse_properties_entries [OF assms(1)]
  by (simp add: bt_of_list_def foldl_conv_fold case_prod_unfold)

text \<open>The entry \<open>a b\<close> has the value \<open>' = '\<close>; the empty key has a hash sign, a line end, a backslash, and the letter \<open>e\<close> with an acute accent.\<close>

theorem properties_roundtrip_witness:
  "parse_properties (''#Mon Jan 01'' @ [CHR 0x0A] @ ''a'' @ [CHR 0x5C] @ '' b='' @ [CHR 0x5C] @ '' '' @ [CHR 0x5C] @ ''= '' @ [CHR 0x0A]
       @ ''='' @ [CHR 0x5C] @ ''#'' @ [CHR 0x5C] @ ''n'' @ [CHR 0x5C, CHR 0x5C, CHR 0x5C] @ ''u00E9'' @ [CHR 0x0A]) =
     Inr (bt_of_list [(''a b'', '' = ''), ([], ''#'' @ [CHR 0x0A, CHR 0x5C, CHR 0xC3, CHR 0xA9])])"
proof -
  let ?entries = "[([97, 32, 98], [32, 61, 32]), ([], [35, 10, 92, 233])]"
  have "properties_store ''Mon Jan 01'' ?entries = ''#Mon Jan 01'' @ [CHR 0x0A] @ ''a'' @ [CHR 0x5C] @ '' b='' @ [CHR 0x5C] @ '' '' @ [CHR 0x5C] @ ''= '' @ [CHR 0x0A]
       @ ''='' @ [CHR 0x5C] @ ''#'' @ [CHR 0x5C] @ ''n'' @ [CHR 0x5C, CHR 0x5C, CHR 0x5C] @ ''u00E9'' @ [CHR 0x0A]" by code_simp
  moreover have "utf8_entries ?entries = [(''a b'', '' = ''), ([], ''#'' @ [CHR 0x0A, CHR 0x5C, CHR 0xC3, CHR 0xA9])]" by code_simp
  moreover have "parse_properties (properties_store ''Mon Jan 01'' ?entries) = Inr (bt_of_list (utf8_entries ?entries))"
    by (rule properties_roundtrip) (simp_all add: basic_plane_def is_eol_def)
  ultimately show ?thesis by (simp only:)
qed

text \<open>A character outside the basic plane, which \<open>Properties.store\<close> writes as the codes of its two surrogates, is refused, with a message that says that the
  surrogate is not paired.\<close>

theorem surrogate_pair_refused:
  "unescape (concat (map (store_char False) [55357, 56832])) = Inl (Malformed ([CHR 0x5C] @ ''uD83D is an unpaired surrogate''))"
proof -
  have stored: "concat (map (store_char False) [55357, 56832]) = CHR 0x5C # CHR ''u'' # ''D83D'' @ [CHR 0x5C] @ ''uDE00''"
    by (simp add: store_char_def hex4_def hex_char_def)
  have digits: "concat (map (\<lambda>c. utf8 (byte_of c)) ''D83D'') = ''D83D''" by (rule utf8_ascii_string) (simp add: ascii_def byte_of_def)
  have "from_hex ''D83D'' = Some 55357" by (simp add: from_hex_def hex_digits_def hex_digit_def byte_of_def)
  then have "unescape_code ''D83D'' = Inl (Malformed ([CHR 0x5C] @ ''u'' @ ''D83D'' @ '' is an unpaired surrogate''))"
    unfolding unescape_code_def digits Let_def by (simp add: from_u32_def)
  then show ?thesis unfolding stored by simp
qed

text \<open>A sign inside an escape is accepted: \<open>from_str_radix\<close> takes a leading plus.\<close>

theorem unescape_accepts_plus: "unescape ([CHR 0x5C] @ ''u+041'') = Inr ''A''"
proof -
  have digits: "concat (map (\<lambda>c. utf8 (byte_of c)) ''+041'') = ''+041''" by (rule utf8_ascii_string) (simp add: ascii_def byte_of_def)
  have code: "from_hex ''+041'' = Some 65" by (simp add: from_hex_def hex_digits_def hex_digit_def byte_of_def)
  have "unescape_code ''+041'' = Inr (utf8 65)" unfolding unescape_code_def digits Let_def by (simp add: code from_u32_def)
  also have "utf8 65 = ''A''" using utf8_ascii [of "CHR ''A''"] by (simp add: byte_of_def)
  finally show ?thesis by simp
qed

end
