(* ===== verification/Connection.thy ===== *)
theory Connection
  imports Connection_Properties Command_Monad
begin

text \<open>
  \<^verbatim>\<open>crates/krabka-cli/src/connection.rs\<close>: from the connection flags and the properties of a command config to the settings of the admin client. The types
  of the client are records here, its defaults and the class of a listener protocol are arguments, and a \<open>Time\<close> is its milliseconds.
\<close>

section \<open>Characters\<close>

text \<open>\<open>str::chars\<close> and collecting characters into a string; a character is its code point.\<close>

definition chars_of :: "string \<Rightarrow> nat list" where
  "chars_of s = scalars (map byte_of s)"

definition of_chars :: "nat list \<Rightarrow> string" where
  "of_chars us = concat (map utf8 us)"

definition eol_code :: "nat \<Rightarrow> bool" where
  "eol_code u \<longleftrightarrow> u = 13 \<or> u = 10"

definition digit_code :: "nat \<Rightarrow> bool" where
  "digit_code u \<longleftrightarrow> 48 \<le> u \<and> u \<le> 57"

definition alphabetic_code :: "nat \<Rightarrow> bool" where
  "alphabetic_code u \<longleftrightarrow> 65 \<le> u \<and> u \<le> 90 \<or> 97 \<le> u \<and> u \<le> 122"

section \<open>The login module\<close>

record JaasEntry =
  je_module :: string
  je_options :: "(string, string) btmap"

datatype JaasToken = Word string | Quoted string | Number | Punct nat

fun sval :: "JaasToken \<Rightarrow> string option" where
  "sval (Word v) = Some v"
| "sval (Quoted v) = Some v"
| "sval Number = None"
| "sval (Punct _) = None"

definition is_word_start :: "nat \<Rightarrow> bool" where
  "is_word_start u \<longleftrightarrow> alphabetic_code u \<or> u \<in> {byte_of (CHR ''-''), byte_of (CHR ''_''), byte_of (CHR ''$'')} \<or> 160 \<le> u"

definition is_word :: "nat \<Rightarrow> bool" where
  "is_word u \<longleftrightarrow> is_word_start u \<or> digit_code u \<or> u = byte_of (CHR ''.'')"

fun block_comment :: "nat \<Rightarrow> nat list \<Rightarrow> nat list" where
  "block_comment previous [] = []"
| "block_comment previous (c # cs) =
     (if previous = byte_of (CHR ''*'') \<and> c = byte_of (CHR ''/'') then cs else block_comment c cs)"

definition octal_code :: "nat \<Rightarrow> bool" where
  "octal_code u \<longleftrightarrow> 48 \<le> u \<and> u \<le> 55"

fun octal_digits :: "nat \<Rightarrow> nat \<Rightarrow> nat list \<Rightarrow> nat \<times> nat list" where
  "octal_digits (Suc n) code (c # cs) = (if octal_code c then octal_digits n (code * 8 + (c - 48)) cs else (code, c # cs))"
| "octal_digits _ code cs = (code, cs)"

definition resolve_escape :: "nat \<Rightarrow> nat list \<Rightarrow> nat \<times> nat list" where
  "resolve_escape e cs =
     (if e = byte_of (CHR ''a'') then (7, cs)
      else if e = byte_of (CHR ''b'') then (8, cs)
      else if e = byte_of (CHR ''f'') then (12, cs)
      else if e = byte_of (CHR ''n'') then (10, cs)
      else if e = byte_of (CHR ''r'') then (13, cs)
      else if e = byte_of (CHR ''t'') then (9, cs)
      else if e = byte_of (CHR ''v'') then (11, cs)
      else if octal_code e
      then (case octal_digits (if e \<le> byte_of (CHR ''3'') then 2 else 1) (e - 48) cs of
              (code, rest) \<Rightarrow> ((case from_u32 code of Some u \<Rightarrow> u | None \<Rightarrow> 0), rest))
      else (e, cs))"

lemma octal_digits_length: "length (snd (octal_digits n code cs)) \<le> length cs"
  by (induction n code cs rule: octal_digits.induct) auto

lemma resolve_escape_length: "length (snd (resolve_escape e cs)) \<le> length cs"
  using octal_digits_length by (simp add: resolve_escape_def case_prod_unfold)

function jaas_quoted :: "nat \<Rightarrow> nat list \<Rightarrow> nat list \<times> nat list" where
  "jaas_quoted quote [] = ([], [])"
| "jaas_quoted quote (c # cs) =
     (if eol_code c then ([], c # cs)
      else if c = quote then ([], cs)
      else if c \<noteq> 92 then apfst ((#) c) (jaas_quoted quote cs)
      else case cs of
             [] \<Rightarrow> ([], [])
           | e # es \<Rightarrow> apfst ((#) (fst (resolve_escape e es))) (jaas_quoted quote (snd (resolve_escape e es))))"
  by pat_completeness auto
termination
proof (relation "measure (\<lambda>(quote, cs). length cs)", goal_cases)
  case (3 quote c cs e es)
  then show ?case using resolve_escape_length [of e es] by simp
qed simp_all

lemma jaas_quoted_length: "length (snd (jaas_quoted quote cs)) \<le> length cs"
proof (induction quote cs rule: jaas_quoted.induct)
  case (2 quote c cs)
  show ?case
  proof (cases "eol_code c \<or> c = quote \<or> c \<noteq> 92 \<or> cs = []")
    case True
    then show ?thesis using 2(1) by (auto intro: le_SucI)
  next
    case False
    then obtain e es where cs: "cs = e # es" by (cases cs) auto
    have "length (snd (jaas_quoted quote (snd (resolve_escape e es)))) \<le> length es"
      using 2(2) [OF _ _ _ cs] False resolve_escape_length [of e es] by (auto intro: le_trans)
    then show ?thesis using False cs by simp
  qed
qed simp

lemma block_comment_length: "length (block_comment previous cs) \<le> length cs"
  by (induction previous cs rule: block_comment.induct) auto

function jaas_tokens_from :: "nat list \<Rightarrow> JaasToken list" where
  "jaas_tokens_from [] = []"
| "jaas_tokens_from (c # cs) =
     (if c \<le> 32 then jaas_tokens_from cs
      else if c = byte_of (CHR ''/'') \<and> cs \<noteq> [] \<and> hd cs = byte_of (CHR ''*'') then jaas_tokens_from (block_comment 0 (tl cs))
      else if c = byte_of (CHR ''/'') \<and> cs \<noteq> [] \<and> hd cs = byte_of (CHR ''/'') then jaas_tokens_from (dropWhile (\<lambda>c. \<not> eol_code c) (tl cs))
      else if c = 34 \<or> c = 39 then Quoted (of_chars (fst (jaas_quoted c cs))) # jaas_tokens_from (snd (jaas_quoted c cs))
      else if is_word_start c then Word (of_chars (c # takeWhile is_word cs)) # jaas_tokens_from (dropWhile is_word cs)
      else if digit_code c \<or> c = byte_of (CHR ''.'')
      then Number # jaas_tokens_from (dropWhile (\<lambda>c. digit_code c \<or> c = byte_of (CHR ''.'')) cs)
      else Punct c # jaas_tokens_from cs)"
  by pat_completeness auto
termination
proof (relation "measure length", goal_cases)
  case (3 c cs)
  then show ?case using block_comment_length [of 0 "tl cs"] by simp
next
  case (4 c cs)
  then show ?case using length_dropWhile_le [of "\<lambda>c. \<not> eol_code c" "tl cs"] by simp
next
  case (5 c cs)
  then show ?case using jaas_quoted_length [of c cs] by simp
next
  case (6 c cs)
  then show ?case by (simp add: le_imp_less_Suc length_dropWhile_le)
next
  case (7 c cs)
  then show ?case by (simp add: le_imp_less_Suc length_dropWhile_le)
qed simp_all

definition jaas_tokens :: "string \<Rightarrow> JaasToken list" where
  "jaas_tokens text = jaas_tokens_from (chars_of text)"

definition SASL_JAAS_CONFIG :: string where "SASL_JAAS_CONFIG = ''sasl.jaas.config''"

definition invalid_jaas :: "string \<Rightarrow> ConfigError" where
  "invalid_jaas reason = Invalid SASL_JAAS_CONFIG reason"

text \<open>The loop over the options of an entry, with the tokens after its semicolon.\<close>

fun jaas_options :: "(string, string) btmap \<Rightarrow> JaasToken list \<Rightarrow> ConfigError + (string, string) btmap \<times> JaasToken list" where
  "jaas_options opts [] = Inl (invalid_jaas ''entry not terminated by semi-colon'')"
| "jaas_options opts (token # tokens) =
     (if token = Punct (byte_of (CHR '';'')) then Inr (opts, tokens)
      else let key = (case sval token of Some k \<Rightarrow> k | None \<Rightarrow> []);
               missing = Inl (invalid_jaas (''value not specified for key '' @ [CHR 0x27] @ key @ [CHR 0x27]))
           in case tokens of
                Punct e # v # rest \<Rightarrow>
                  (if e = byte_of (CHR ''='')
                   then (case sval v of Some value \<Rightarrow> jaas_options (bt_insert key value opts) rest | None \<Rightarrow> missing)
                   else missing)
              | _ \<Rightarrow> missing)"

definition jaas_flags :: "string list" where
  "jaas_flags = [''required'', ''requisite'', ''sufficient'', ''optional'']"

lemma jaas_options_length: "jaas_options opts tokens = Inr (opts', rest) \<Longrightarrow> length rest < length tokens"
  by (induction opts tokens rule: jaas_options.induct)
    (fastforce simp: Let_def split: if_splits list.splits JaasToken.splits option.splits)+

function jaas_entries :: "JaasToken list \<Rightarrow> ConfigError + JaasEntry list" where
  "jaas_entries [] = Inr []"
| "jaas_entries (token # tokens) =
     res_bind (ok_or (invalid_jaas ''login module not specified'') (sval token)) (\<lambda>module.
     case tokens of
       [] \<Rightarrow> Inl (invalid_jaas ''login module control flag not specified'')
     | flag_token # tokens \<Rightarrow>
         res_bind (ok_or (invalid_jaas ''login module control flag is not available'') (sval flag_token)) (\<lambda>flag.
         if map ascii_lower flag \<notin> set jaas_flags
         then Inl (invalid_jaas (''invalid login module control flag '' @ [CHR 0x27] @ flag @ [CHR 0x27]))
         else case jaas_options [] tokens of
                Inl e \<Rightarrow> Inl e
              | Inr (opts, rest) \<Rightarrow> map_sum id ((#) \<lparr>je_module = module, je_options = opts\<rparr>) (jaas_entries rest)))"
  by pat_completeness auto
termination
proof (relation "measure length", goal_cases)
  case (2 token tokens module flag_token tokens' flag p opts rest)
  then have "jaas_options [] tokens' = Inr (opts, rest)" by simp
  from jaas_options_length [OF this] show ?case using 2 by simp
qed simp

definition parse_jaas :: "string \<Rightarrow> ConfigError + JaasEntry" where
  "parse_jaas text =
     res_bind (jaas_entries (jaas_tokens text)) (\<lambda>entries.
     case entries of
       [entry] \<Rightarrow> Inr entry
     | _ \<Rightarrow> Inl (invalid_jaas (''holds '' @ show_nat (length entries) @ '' login modules, and a client needs exactly 1'')))"

definition jaas_option :: "JaasEntry \<Rightarrow> string \<Rightarrow> string option" where
  "jaas_option self key = map_of (je_options self) key"

definition jaas_required :: "JaasEntry \<Rightarrow> string \<Rightarrow> ConfigError + string" where
  "jaas_required self key =
     ok_or (Missing SASL_JAAS_CONFIG (je_module self @ '' needs the `'' @ key @ ''` option'')) (jaas_option self key)"

section \<open>The security policy\<close>

datatype ListenerProtocol = Ssl | SaslPlaintext | SaslSsl

datatype KeyStore = KeyStore_PemFile string "string option"

record TlsConnectorConfig =
  tls_trust_store :: string
  tls_key_store :: "KeyStore option"
  tls_server_name :: string

datatype SaslMechanism = ScramSha256 | ScramSha512

datatype SaslCredentials =
    Plain string string
  | Scram SaslMechanism string string bool
  | Gssapi string string string string
  | OAuthBearerFile string

record ClientSecurity =
  cs_protocol :: ListenerProtocol
  cs_tls :: "TlsConnectorConfig option"
  cs_sasl :: "SaslCredentials option"

text \<open>The trust store of a \<open>TlsConnectorConfig\<close> is the path of a PEM file; \<open>Plain\<close> and \<open>Scram\<close> have the user and the password, and \<open>Gssapi\<close> the key tab,
  the principal, the service and the KDC.\<close>

record SecurityContext =
  cx_bootstrap_host :: string
  cx_kdc_url :: "string option"

definition PLAIN_LOGIN_MODULE :: string where
  "PLAIN_LOGIN_MODULE = ''org.apache.kafka.common.security.plain.PlainLoginModule''"

definition SCRAM_LOGIN_MODULE :: string where
  "SCRAM_LOGIN_MODULE = ''org.apache.kafka.common.security.scram.ScramLoginModule''"

definition KRB5_LOGIN_MODULE :: string where
  "KRB5_LOGIN_MODULE = ''com.sun.security.auth.module.Krb5LoginModule''"

definition OAUTHBEARER_LOGIN_MODULE :: string where
  "OAUTHBEARER_LOGIN_MODULE = ''org.apache.kafka.common.security.oauthbearer.OAuthBearerLoginModule''"

definition OAUTHBEARER_LOGIN_CALLBACK_HANDLER :: string where
  "OAUTHBEARER_LOGIN_CALLBACK_HANDLER = ''org.apache.kafka.common.security.oauthbearer.OAuthBearerLoginCallbackHandler''"

definition KDC_URL_ENV :: string where "KDC_URL_ENV = ''SSPI_KDC_URL''"

definition require_pem :: "Properties \<Rightarrow> string \<Rightarrow> ConfigError + unit" where
  "require_pem properties key =
     (if property_get properties key = Some ''PEM'' then Inr ()
      else Inl (Unsupported key ((case property_get properties key of Some kind \<Rightarrow> kind | None \<Rightarrow> ''JKS (the default)'') @
        '' is not supported; krabka reads PEM stores only, so set '' @ key @ ''=PEM'')))"

definition pem_content_keys :: "string list" where
  "pem_content_keys = [''ssl.truststore.certificates'', ''ssl.keystore.key'', ''ssl.keystore.certificate.chain'']"

definition key_store :: "Properties \<Rightarrow> ConfigError + KeyStore option" where
  "key_store properties =
     (case property_get properties ''ssl.keystore.location'' of
        None \<Rightarrow> Inr None
      | Some path \<Rightarrow>
          res_bind (require_pem properties ''ssl.keystore.type'') (\<lambda>_.
          if property_contains properties ''ssl.keystore.password''
          then Inl (Invalid ''ssl.keystore.password'' ''a PEM key store takes only ssl.key.password'')
          else if property_contains properties ''ssl.key.password''
          then Inl (Unsupported ''ssl.key.password'' ''an encrypted private key needs krabka-client-core support'')
          else Inr (Some (KeyStore_PemFile path None))))"

definition check_identification :: "Properties \<Rightarrow> ConfigError + unit" where
  "check_identification properties =
     (let name = ''ssl.endpoint.identification.algorithm''
      in case map_option (map ascii_lower) (property_get properties name) of
           None \<Rightarrow> Inr ()
         | Some algorithm \<Rightarrow>
             if algorithm = ''https'' then Inr ()
             else if algorithm = []
             then Inl (Unsupported name ''turning hostname verification off needs krabka-client-core support'')
             else Inl (Invalid name (algorithm @ '' is not https or empty'')))"

definition tls_config :: "Properties \<Rightarrow> string \<Rightarrow> ConfigError + TlsConnectorConfig" where
  "tls_config properties bootstrap_host =
     (case List.find (property_contains properties) pem_content_keys of
        Some key \<Rightarrow> Inl (Unsupported key
          ''PEM content in the config needs krabka-client-core support; name a PEM file with the .location property'')
      | None \<Rightarrow>
          res_bind (ok_or (Unsupported ''ssl.truststore.location''
            ''the platform trust store needs krabka-client-core support; name a PEM file of CA certificates'')
            (property_get properties ''ssl.truststore.location'')) (\<lambda>trust_store.
          res_bind (require_pem properties ''ssl.truststore.type'') (\<lambda>_.
          if property_contains properties ''ssl.truststore.password''
          then Inl (Invalid ''ssl.truststore.password'' ''a PEM trust store has no password'')
          else res_bind (key_store properties) (\<lambda>store.
            res_bind (check_identification properties) (\<lambda>_.
            Inr \<lparr>tls_trust_store = trust_store, tls_key_store = store,
                 tls_server_name = (case property_get properties ''ssl.server.name'' of Some name \<Rightarrow> name | None \<Rightarrow> bootstrap_host)\<rparr>)))))"

definition eq_ignore_case :: "string \<Rightarrow> string \<Rightarrow> bool" where
  "eq_ignore_case a b \<longleftrightarrow> map ascii_lower a = map ascii_lower b"

definition jaas_true :: "JaasEntry \<Rightarrow> string \<Rightarrow> bool" where
  "jaas_true jaas key \<longleftrightarrow> (case jaas_option jaas key of Some v \<Rightarrow> eq_ignore_case v ''true'' | None \<Rightarrow> False)"

definition service_name :: "Properties \<Rightarrow> JaasEntry \<Rightarrow> ConfigError + string" where
  "service_name properties jaas =
     (let key = ''sasl.kerberos.service.name''
      in case (jaas_option jaas ''serviceName'', property_get properties key) of
           (Some jaas_name, Some config_name) \<Rightarrow>
             (if jaas_name \<noteq> config_name
              then Inl (Invalid key (''conflicts with serviceName='' @ jaas_name @ '' in '' @ SASL_JAAS_CONFIG))
              else Inr jaas_name)
         | (Some name, None) \<Rightarrow> Inr name
         | (None, Some name) \<Rightarrow> Inr name
         | (None, None) \<Rightarrow> Inl (Missing key ''no serviceName is defined in either the JAAS or the Kafka config''))"

definition gssapi :: "Properties \<Rightarrow> JaasEntry \<Rightarrow> string option \<Rightarrow> ConfigError + SaslCredentials" where
  "gssapi properties jaas kdc_url =
     (if property_contains properties ''sasl.kerberos.kdc''
      then Inl (Unsupported ''sasl.kerberos.kdc'' (''the JVM reads the KDC from krb5.conf; krabka reads it from '' @ KDC_URL_ENV @
        '' until krabka-client-rs decides the property''))
      else if \<not> jaas_true jaas ''useKeyTab''
      then Inl (Unsupported SASL_JAAS_CONFIG
        ''Krb5LoginModule without useKeyTab=true reads a ticket cache, which krabka-client-core does not'')
      else res_bind (service_name properties jaas) (\<lambda>service.
        res_bind (jaas_required jaas ''keyTab'') (\<lambda>keytab.
        res_bind (jaas_required jaas ''principal'') (\<lambda>principal.
        res_bind (ok_or (Missing KDC_URL_ENV ''GSSAPI needs the KDC address, for example tcp://kdc.example:88'') kdc_url) (\<lambda>kdc.
        Inr (Gssapi keytab principal service kdc))))))"

definition oauthbearer_token_file :: "Properties \<Rightarrow> ConfigError + string" where
  "oauthbearer_token_file properties =
     (let key = ''sasl.oauthbearer.token.endpoint.url''
      in res_bind (ok_or (Missing key ''OAuthBearerLoginCallbackHandler needs a token endpoint'') (property_get properties key)) (\<lambda>url.
         res_bind (ok_or (Invalid key (url @ '' is a URL with no protocol'')) (split_once (CHR '':'') url)) (\<lambda>(scheme, rest).
         let scheme = map ascii_lower scheme
         in if scheme = ''file''
            then let path = (case strip_prefix ''//'' rest of
                       Some after \<Rightarrow> dropWhile (\<lambda>c. c \<noteq> CHR ''/'') after
                     | None \<Rightarrow> rest)
                 in if path = [] then Inl (Invalid key (url @ '' names no file'')) else Inr path
            else if scheme = ''http'' \<or> scheme = ''https''
            then Inl (Unsupported key ''the client-credentials grant needs krabka-client-core support; use a file: URL'')
            else Inl (Invalid key (scheme @ '' is not one of http, https, file'')))))"

definition expect_module :: "JaasEntry \<Rightarrow> string \<Rightarrow> string list \<Rightarrow> ConfigError + unit" where
  "expect_module jaas mechanism modules =
     (if je_module jaas \<in> set modules then Inr ()
      else Inl (Invalid SASL_JAAS_CONFIG (je_module jaas @ '' does not log in for '' @ mechanism)))"

definition sasl_credentials :: "Properties \<Rightarrow> string option \<Rightarrow> ConfigError + SaslCredentials" where
  "sasl_credentials properties kdc_url =
     (let mechanism = (case property_get properties ''sasl.mechanism'' of Some m \<Rightarrow> m | None \<Rightarrow> ''GSSAPI'')
      in res_bind (ok_or (Missing SASL_JAAS_CONFIG
           ''krabka reads no JVM-wide JAAS file, so the login module must be in the command config'')
           (property_get properties SASL_JAAS_CONFIG)) (\<lambda>text.
         res_bind (parse_jaas text) (\<lambda>jaas.
         if mechanism \<in> {''PLAIN'', ''SCRAM-SHA-256'', ''SCRAM-SHA-512''}
         then res_bind (expect_module jaas mechanism [PLAIN_LOGIN_MODULE, SCRAM_LOGIN_MODULE]) (\<lambda>_.
           let delegation_token = jaas_true jaas ''tokenauth''
           in res_bind (jaas_required jaas ''username'') (\<lambda>username.
              res_bind (jaas_required jaas ''password'') (\<lambda>password.
              Inr (if mechanism = ''PLAIN'' then Plain username password
                   else if mechanism = ''SCRAM-SHA-256'' then Scram ScramSha256 username password delegation_token
                   else Scram ScramSha512 username password delegation_token))))
         else if mechanism = ''GSSAPI''
         then res_bind (expect_module jaas mechanism [KRB5_LOGIN_MODULE]) (\<lambda>_. gssapi properties jaas kdc_url)
         else if mechanism = ''OAUTHBEARER''
         then res_bind (expect_module jaas mechanism [OAUTHBEARER_LOGIN_MODULE]) (\<lambda>_.
           if property_get properties ''sasl.login.callback.handler.class'' \<noteq> Some OAUTHBEARER_LOGIN_CALLBACK_HANDLER
           then Inl (Unsupported ''sasl.login.callback.handler.class''
             (''the default is Kafka'' @ [CHR 0x27] @ ''s unsecured-token handler; set '' @ OAUTHBEARER_LOGIN_CALLBACK_HANDLER))
           else map_sum id OAuthBearerFile (oauthbearer_token_file properties))
         else Inl (Invalid ''sasl.mechanism'' (mechanism @ '' is not one of PLAIN, SCRAM-SHA-256, SCRAM-SHA-512, GSSAPI, OAUTHBEARER'')))))"

text \<open>The client says which protocols need TLS and which need SASL.\<close>

record ProtocolClass =
  requires_tls :: "ListenerProtocol \<Rightarrow> bool"
  requires_sasl :: "ListenerProtocol \<Rightarrow> bool"

definition parse_protocol :: "string \<Rightarrow> ConfigError + ListenerProtocol option" where
  "parse_protocol upper =
     (if upper = ''PLAINTEXT'' then Inr None
      else if upper = ''SSL'' then Inr (Some Ssl)
      else if upper = ''SASL_PLAINTEXT'' then Inr (Some SaslPlaintext)
      else if upper = ''SASL_SSL'' then Inr (Some SaslSsl)
      else Inl (Invalid ''security.protocol'' (upper @ '' is not one of PLAINTEXT, SSL, SASL_PLAINTEXT, SASL_SSL'')))"

definition security :: "ProtocolClass \<Rightarrow> Properties \<Rightarrow> SecurityContext \<Rightarrow> ConfigError + ClientSecurity option" where
  "security cls properties ctx =
     res_bind (parse_protocol (map ascii_upper (case property_get properties ''security.protocol'' of Some p \<Rightarrow> p | None \<Rightarrow> ''PLAINTEXT''))) (\<lambda>protocol.
     case protocol of
       None \<Rightarrow> Inr None
     | Some protocol \<Rightarrow>
         res_bind (if requires_tls cls protocol then map_sum id Some (tls_config properties (cx_bootstrap_host ctx)) else Inr None) (\<lambda>tls.
         res_bind (if requires_sasl cls protocol then map_sum id Some (sasl_credentials properties (cx_kdc_url ctx)) else Inr None) (\<lambda>sasl.
         Inr (Some \<lparr>cs_protocol = protocol, cs_tls = tls, cs_sasl = sasl\<rparr>))))"

section \<open>The connection\<close>

type_synonym Time = int

record ConnectionArgs =
  cn_bootstrap_server :: "string list"
  cn_bootstrap_controller :: "string list"
  cn_command_config :: "string option"
  cn_client_id :: "string option"
  cn_request_timeout_ms :: "int option"
  cn_timeout :: Time

text \<open>\<open>parse_time\<close> over the parser of \<open>Time\<close> and the Unicode property \<open>Alphabetic\<close>.\<close>

definition parse_time :: "(string \<Rightarrow> Time res) \<Rightarrow> (nat \<Rightarrow> bool) \<Rightarrow> string \<Rightarrow> Time res" where
  "parse_time from_str is_alphabetic v =
     (case parse_i64 v of
        Some millis \<Rightarrow> Inr millis
      | None \<Rightarrow>
          (case from_str v of
             Inr time \<Rightarrow> Inr time
           | Inl _ \<Rightarrow>
               (let cs = chars_of v
                in if list_ex is_alphabetic cs
                   then map_sum (\<lambda>e. ''invalid timeout: '' @ e) id
                     (from_str (of_chars (takeWhile (\<lambda>c. \<not> is_alphabetic c) cs) @ '' '' @ of_chars (dropWhile (\<lambda>c. \<not> is_alphabetic c) cs)))
                   else Inl ''timeout must include a unit, for example 30s'')))"

record ConnectionOptions =
  co_client_id :: string
  co_request_timeout :: Time
  co_socket_connection_setup_timeout :: Time
  co_security :: "ClientSecurity option"

record AdminClientConfig =
  adc_client_id :: "string option"
  adc_request_timeout :: Time
  adc_socket_connection_setup_timeout :: Time
  adc_security :: "ClientSecurity option"
  adc_default_api_timeout :: "Time option"
  adc_retry_backoff :: Time
  adc_retry_backoff_max :: Time

definition positive_millis :: "Properties \<Rightarrow> string \<Rightarrow> ConfigError + Time option" where
  "positive_millis properties key =
     (case property_get properties key of
        None \<Rightarrow> Inr None
      | Some v \<Rightarrow>
          (let refused = Inl (Invalid key (v @ '' is not a positive number of milliseconds''))
           in case parse_i64 v of Some millis \<Rightarrow> if 0 < millis then Inr (Some millis) else refused | None \<Rightarrow> refused))"

definition bootstrap_host :: "ConnectionArgs \<Rightarrow> string" where
  "bootstrap_host self =
     (case cn_bootstrap_server self @ cn_bootstrap_controller self of
        [] \<Rightarrow> ''localhost''
      | address # _ \<Rightarrow>
          (case strip_prefix ''['' address of
             Some bracketed \<Rightarrow> (case split_once (CHR '']'') bracketed of Some (host, _) \<Rightarrow> host | None \<Rightarrow> bracketed)
           | None \<Rightarrow> (case rsplit_once (CHR '':'') address of Some (host, _) \<Rightarrow> host | None \<Rightarrow> address)))"

text \<open>What is not of this file: the version of the package, the defaults of the client and its classification of protocols.\<close>

record ClientLib =
  cl_version :: string
  cl_options :: ConnectionOptions
  cl_admin_config :: AdminClientConfig
  cl_protocols :: ProtocolClass

definition configured_client_id :: "ClientLib \<Rightarrow> ConnectionArgs \<Rightarrow> Properties \<Rightarrow> string \<Rightarrow> string" where
  "configured_client_id lib self properties command =
     (case cn_client_id self of
        Some name \<Rightarrow> name
      | None \<Rightarrow> (case property_get properties ''client.id'' of
          Some name \<Rightarrow> if name \<noteq> [] then name else ''krabka-cli/'' @ cl_version lib @ '' '' @ command
        | None \<Rightarrow> ''krabka-cli/'' @ cl_version lib @ '' '' @ command))"

definition request_timeout :: "ConnectionArgs \<Rightarrow> Properties \<Rightarrow> ConfigError + Time option" where
  "request_timeout self properties =
     (case cn_request_timeout_ms self of
        Some millis \<Rightarrow> if 0 < millis then Inr (Some millis)
          else Inl (Invalid ''--request-timeout-ms'' (show_int millis @ '' is not a positive number of milliseconds''))
      | None \<Rightarrow> positive_millis properties ''request.timeout.ms'')"

definition options_from :: "ClientLib \<Rightarrow> ConnectionArgs \<Rightarrow> Properties \<Rightarrow> string \<Rightarrow> string option \<Rightarrow> ConfigError + ConnectionOptions" where
  "options_from lib self properties command kdc_url =
     (let options = (cl_options lib)\<lparr>co_client_id := configured_client_id lib self properties command\<rparr>
      in res_bind (request_timeout self properties) (\<lambda>timeout.
         let options = (case timeout of Some t \<Rightarrow> options\<lparr>co_request_timeout := t\<rparr> | None \<Rightarrow> options)
         in res_bind (positive_millis properties ''socket.connection.setup.timeout.ms'') (\<lambda>timeout.
            let options = (case timeout of Some t \<Rightarrow> options\<lparr>co_socket_connection_setup_timeout := t\<rparr> | None \<Rightarrow> options)
            in res_bind (security (cl_protocols lib) properties \<lparr>cx_bootstrap_host = bootstrap_host self, cx_kdc_url = kdc_url\<rparr>) (\<lambda>policy.
               Inr (options\<lparr>co_security := policy\<rparr>)))))"

definition admin_config :: "ClientLib \<Rightarrow> ConnectionArgs \<Rightarrow> Properties \<Rightarrow> string \<Rightarrow> string option \<Rightarrow> ConfigError + AdminClientConfig" where
  "admin_config lib self properties command kdc_url =
     res_bind (options_from lib self properties command kdc_url) (\<lambda>options.
     res_bind (positive_millis properties ''default.api.timeout.ms'') (\<lambda>api_timeout.
     let config = (cl_admin_config lib)\<lparr>adc_client_id := Some (co_client_id options), adc_request_timeout := co_request_timeout options,
           adc_socket_connection_setup_timeout := co_socket_connection_setup_timeout options, adc_security := co_security options,
           adc_default_api_timeout := api_timeout\<rparr>
     in res_bind (positive_millis properties ''retry.backoff.ms'') (\<lambda>backoff.
        let config = (case backoff of Some t \<Rightarrow> config\<lparr>adc_retry_backoff := t\<rparr> | None \<Rightarrow> config)
        in res_bind (positive_millis properties ''retry.backoff.max.ms'') (\<lambda>backoff.
           Inr (case backoff of Some t \<Rightarrow> config\<lparr>adc_retry_backoff_max := t\<rparr> | None \<Rightarrow> config)))))"

definition client_options :: "ClientLib \<Rightarrow> Properties \<Rightarrow> string list \<Rightarrow> string \<Rightarrow> string option \<Rightarrow> ConfigError + ConnectionOptions" where
  "client_options lib properties bootstrap default_client_id kdc_url =
     (let client_id = (case property_get properties ''client.id'' of Some name \<Rightarrow> if name \<noteq> [] then name else default_client_id | None \<Rightarrow> default_client_id);
          self = \<lparr>cn_bootstrap_server = bootstrap, cn_bootstrap_controller = [], cn_command_config = None, cn_client_id = Some client_id,
            cn_request_timeout_ms = None, cn_timeout = 30000\<rparr>
      in options_from lib self properties default_client_id kdc_url)"

datatype ConnectionError =
    MissingBootstrap
  | ReadFailed string string
  | BadConfig ConfigError
  | AdminFailed AdminError

fun from_connection_error :: "ConnectionError \<Rightarrow> CommandError" where
  "from_connection_error (AdminFailed e) = from_admin_error e"
| "from_connection_error MissingBootstrap = ErrOther ''one of --bootstrap-server or --bootstrap-controller is required''"
| "from_connection_error (ReadFailed path source) = ErrOther (''read command config '' @ path @ '': '' @ source)"
| "from_connection_error (BadConfig e) = ErrOther (''command config: '' @ show_config_error e)"

record 'c ConnectionEnv =
  cv_lib :: ClientLib
  cv_kdc_url :: "string option"
  cv_read_file :: "string \<Rightarrow> 'c \<Rightarrow> string res \<times> 'c"
  cv_connect :: "string list \<Rightarrow> AdminClientConfig \<Rightarrow> 'c \<Rightarrow> (AdminError + unit) \<times> 'c"
  cv_connect_controller :: "string list \<Rightarrow> AdminClientConfig \<Rightarrow> 'c \<Rightarrow> (AdminError + unit) \<times> 'c"

definition connection_properties :: "'c ConnectionEnv \<Rightarrow> ConnectionArgs \<Rightarrow> 'c \<Rightarrow> (ConnectionError + Properties) \<times> 'c" where
  "connection_properties env self st =
     (case cn_command_config self of
        None \<Rightarrow> (Inr [], st)
      | Some path \<Rightarrow>
          (case cv_read_file env path st of
             (Inl source, st') \<Rightarrow> (Inl (ReadFailed path source), st')
           | (Inr bytes, st') \<Rightarrow> (map_sum BadConfig id (parse_properties bytes), st')))"

definition connection_options :: "'c ConnectionEnv \<Rightarrow> ConnectionArgs \<Rightarrow> string \<Rightarrow> 'c \<Rightarrow> (ConnectionError + ConnectionOptions) \<times> 'c" where
  "connection_options env self command st =
     (case connection_properties env self st of
        (Inl e, st') \<Rightarrow> (Inl e, st')
      | (Inr properties, st') \<Rightarrow> (map_sum BadConfig id (options_from (cv_lib env) self properties command (cv_kdc_url env)), st'))"

definition connection_connect :: "'c ConnectionEnv \<Rightarrow> ConnectionArgs \<Rightarrow> string \<Rightarrow> 'c \<Rightarrow> (ConnectionError + unit) \<times> 'c" where
  "connection_connect env self command st =
     (case connection_properties env self st of
        (Inl e, st') \<Rightarrow> (Inl e, st')
      | (Inr properties, st') \<Rightarrow>
          (case admin_config (cv_lib env) self properties command (cv_kdc_url env) of
             Inl e \<Rightarrow> (Inl (BadConfig e), st')
           | Inr config \<Rightarrow>
               if cn_bootstrap_controller self \<noteq> []
               then map_prod (map_sum AdminFailed id) id (cv_connect_controller env (cn_bootstrap_controller self) config st')
               else if cn_bootstrap_server self = [] then (Inl MissingBootstrap, st')
               else map_prod (map_sum AdminFailed id) id (cv_connect env (cn_bootstrap_server self) config st')))"

end
