(* ===== verification/Connection_Safety.thy ===== *)
theory Connection_Safety
  imports Connection
begin

text \<open>
  What a command config stands for: a login module reads as it is written, a policy with TLS always verifies the broker, the credentials are those of the
  login module, time limits are positive, and a config that cannot be used is refused before anything is connected.
\<close>

section \<open>Login modules\<close>

definition jaas_escape_char :: "char \<Rightarrow> string" where
  "jaas_escape_char c =
     (if c = CHR 0x0A then [CHR 0x5C, CHR ''n''] else if c = CHR 0x0D then [CHR 0x5C, CHR ''r'']
      else if c \<in> {CHR 0x22, CHR 0x5C} then [CHR 0x5C, c] else [c])"

definition jaas_escaped :: "string \<Rightarrow> string" where
  "jaas_escaped s = concat (map jaas_escape_char s)"

definition show_option :: "string \<times> string \<Rightarrow> string" where
  "show_option = (\<lambda>(key, v). '' '' @ key @ ''='' @ [CHR 0x22] @ jaas_escaped v @ [CHR 0x22])"

definition show_jaas :: "string \<Rightarrow> string \<Rightarrow> (string \<times> string) list \<Rightarrow> string" where
  "show_jaas login flag opts = login @ '' '' @ flag @ concat (map show_option opts) @ '';''"

definition jaas_word :: "string \<Rightarrow> bool" where
  "jaas_word s \<longleftrightarrow> ascii s \<and> s \<noteq> [] \<and> is_word_start (byte_of (hd s)) \<and> (\<forall>c \<in> set s. is_word (byte_of c))"

abbreviation codes :: "string \<Rightarrow> nat list" where
  "codes s \<equiv> map byte_of s"

lemma scalars_ascii: "\<forall>u \<in> set us. u < 128 \<Longrightarrow> scalars us = us"
  by (induction us) auto

lemma chars_of_ascii: "ascii s \<Longrightarrow> chars_of s = codes s"
  unfolding chars_of_def by (rule scalars_ascii) (auto simp: ascii_def)

lemma of_chars_ascii: "ascii s \<Longrightarrow> of_chars (codes s) = s"
  using utf8_ascii_string [of s] by (simp add: of_chars_def comp_def)

lemma ascii_simps [simp]: "ascii []" "ascii (c # s) \<longleftrightarrow> byte_of c < 128 \<and> ascii s" "ascii (s @ t) \<longleftrightarrow> ascii s \<and> ascii t"
  by (auto simp: ascii_def)

lemma byte_eq_iff: "byte_of c = byte_of d \<longleftrightarrow> c = d"
  by (simp add: byte_of_def)

lemma byte_marks: "byte_of c = 34 \<longleftrightarrow> c = CHR 0x22" "byte_of c = 92 \<longleftrightarrow> c = CHR 0x5C" "byte_of c = 10 \<longleftrightarrow> c = CHR 0x0A" "byte_of c = 13 \<longleftrightarrow> c = CHR 0x0D"
  using byte_eq_iff [of c "CHR 0x22"] byte_eq_iff [of c "CHR 0x5C"] byte_eq_iff [of c "CHR 0x0A"] byte_eq_iff [of c "CHR 0x0D"]
  by (simp_all add: byte_of_def)

lemma jaas_quoted_char: "jaas_quoted 34 (codes (jaas_escape_char c) @ cs) = apfst ((#) (byte_of c)) (jaas_quoted 34 cs)"
proof -
  consider "c \<in> {CHR 0x0A, CHR 0x0D, CHR 0x22, CHR 0x5C}" | "byte_of c \<noteq> 34" "byte_of c \<noteq> 92" "\<not> eol_code (byte_of c)" "jaas_escape_char c = [c]"
    unfolding jaas_escape_char_def eol_code_def byte_marks by auto
  then show ?thesis
  proof cases
    case 1
    then show ?thesis by (elim insertE emptyE) (simp_all add: jaas_escape_char_def eol_code_def byte_of_def resolve_escape_def octal_code_def)
  next
    case 2
    then show ?thesis by simp
  qed
qed

lemma jaas_quoted_escaped: "jaas_quoted 34 (codes (jaas_escaped v) @ 34 # cs) = (codes v, cs)"
  by (induction v) (simp_all add: jaas_escaped_def jaas_quoted_char eol_code_def)

lemma tokens_word:
  assumes "jaas_word w" and "\<not> is_word c"
  shows "jaas_tokens_from (codes w @ c # cs) = Word w # jaas_tokens_from (c # cs)"
proof -
  obtain x xs where w: "w = x # xs" using assms by (cases w) (auto simp: jaas_word_def)
  have start: "is_word_start (byte_of x)" "\<forall>c \<in> set (codes xs). is_word c" "ascii w" using assms by (auto simp: jaas_word_def w)
  then have "takeWhile is_word (codes xs @ c # cs) = codes xs" "dropWhile is_word (codes xs @ c # cs) = c # cs"
    using assms(2) by (simp_all add: takeWhile_tail dropWhile_append3 takeWhile_append dropWhile_append)
  moreover have "\<not> byte_of x \<le> 32" "byte_of x \<noteq> byte_of (CHR ''/'')" "byte_of x \<noteq> 34" "byte_of x \<noteq> 39"
    using start(1) by (auto simp: is_word_start_def alphabetic_code_def byte_of_def)
  moreover have "of_chars (byte_of x # codes xs) = w" using of_chars_ascii [OF start(3)] by (simp add: w)
  ultimately show ?thesis using start(1) by (simp add: w)
qed

lemma tokens_marks:
  "jaas_tokens_from (32 # cs) = jaas_tokens_from cs"
  "jaas_tokens_from (byte_of (CHR ''='') # cs) = Punct (byte_of (CHR ''='')) # jaas_tokens_from cs"
  "jaas_tokens_from (byte_of (CHR '';'') # cs) = Punct (byte_of (CHR '';'')) # jaas_tokens_from cs"
  by (simp_all add: byte_of_def is_word_start_def alphabetic_code_def digit_code_def)

lemma not_word: "\<not> is_word 32" "\<not> is_word (byte_of (CHR ''=''))" "\<not> is_word (byte_of (CHR '';''))"
  by (simp_all add: is_word_def is_word_start_def alphabetic_code_def digit_code_def byte_of_def)

lemma byte_space: "byte_of (CHR '' '') = 32" and byte_quote: "byte_of (CHR 0x22) = 34"
  by (simp_all add: byte_of_def)

lemma tokens_option:
  assumes "jaas_word key" and "ascii v"
  shows "jaas_tokens_from (codes (show_option (key, v)) @ cs) = Word key # Punct (byte_of (CHR ''='')) # Quoted v # jaas_tokens_from cs"
proof -
  have "codes (show_option (key, v)) @ cs = 32 # codes key @ byte_of (CHR ''='') # 34 # codes (jaas_escaped v) @ 34 # cs"
    by (simp add: show_option_def byte_space byte_quote)
  then have "jaas_tokens_from (codes (show_option (key, v)) @ cs) =
      Word key # Punct (byte_of (CHR ''='')) # jaas_tokens_from (34 # codes (jaas_escaped v) @ 34 # cs)"
    using tokens_word [OF assms(1) not_word(2)] by (simp only: tokens_marks)
  also have "jaas_tokens_from (34 # codes (jaas_escaped v) @ 34 # cs) = Quoted v # jaas_tokens_from cs"
    using jaas_quoted_escaped [of v cs] of_chars_ascii [OF assms(2)] by (simp add: byte_of_def)
  finally show ?thesis .
qed

lemma tokens_options:
  "\<forall>(key, v) \<in> set opts. jaas_word key \<and> ascii v \<Longrightarrow>
     jaas_tokens_from (codes (concat (map show_option opts)) @ cs) =
     concat (map (\<lambda>(key, v). [Word key, Punct (byte_of (CHR ''='')), Quoted v]) opts) @ jaas_tokens_from cs"
  by (induction opts) (auto simp: tokens_option)

lemma options_of_tokens:
  "jaas_options m (concat (map (\<lambda>(key, v). [Word key, Punct (byte_of (CHR ''='')), Quoted v]) opts) @ Punct (byte_of (CHR '';'')) # rest) =
     Inr (fold (\<lambda>(key, v). bt_insert key v) opts m, rest)"
  by (induction opts arbitrary: m) auto

lemma escaped_ascii: "ascii v \<Longrightarrow> ascii (jaas_escaped v)"
  by (induction v) (auto simp: jaas_escaped_def jaas_escape_char_def byte_of_def)

lemma show_options_ascii: "\<forall>(key, v) \<in> set opts. jaas_word key \<and> ascii v \<Longrightarrow> ascii (concat (map show_option opts))"
  by (induction opts) (auto simp: show_option_def jaas_word_def escaped_ascii, auto simp: byte_of_def)

text \<open>\<open>sasl.jaas.config\<close> reads every login module as it is written: its name, a control flag in any case, and options with quoted values of any ASCII
  characters, of which a later one replaces an earlier one of the same name.\<close>

theorem jaas_roundtrip:
  assumes "jaas_word login" and "jaas_word flag" and "map ascii_lower flag \<in> set jaas_flags"
    and "\<forall>(key, v) \<in> set opts. jaas_word key \<and> ascii v"
  shows "parse_jaas (show_jaas login flag opts) = Inr \<lparr>je_module = login, je_options = bt_of_list opts\<rparr>"
proof -
  let ?os = "codes (concat (map show_option opts))"
  have "ascii (show_jaas login flag opts)"
    using assms show_options_ascii [OF assms(4)] by (simp add: show_jaas_def jaas_word_def) (simp add: byte_of_def)
  then have "chars_of (show_jaas login flag opts) = codes login @ 32 # codes flag @ ?os @ [byte_of (CHR '';'')]"
    by (simp add: chars_of_ascii show_jaas_def byte_space del: map_concat)
  moreover have "jaas_tokens_from (codes flag @ ?os @ [byte_of (CHR '';'')]) = Word flag # jaas_tokens_from (?os @ [byte_of (CHR '';'')])"
  proof -
    obtain c cs where c: "?os @ [byte_of (CHR '';'')] = c # cs" "\<not> is_word c"
      by (cases opts) (auto simp: show_option_def byte_space not_word)
    show ?thesis unfolding c(1) using assms(2) c(2) by (rule tokens_word)
  qed
  ultimately have "jaas_tokens (show_jaas login flag opts) = Word login # Word flag #
      concat (map (\<lambda>(key, v). [Word key, Punct (byte_of (CHR ''='')), Quoted v]) opts) @ [Punct (byte_of (CHR '';''))]"
    using tokens_word [OF assms(1) not_word(1)] tokens_options [OF assms(4)] tokens_marks(3) [of "[]"]
    by (simp only: jaas_tokens_def tokens_marks(1) jaas_tokens_from.simps(1))
  then show ?thesis
    using assms(3) options_of_tokens [of "[]" opts "[]"] by (simp add: parse_jaas_def bt_of_list_def foldl_conv_fold case_prod_unfold)
qed

section \<open>The policy\<close>

text \<open>What a config asks for: the protocol by its name in any case.\<close>

definition asked_protocol :: "Properties \<Rightarrow> string" where
  "asked_protocol properties = map ascii_upper (case property_get properties ''security.protocol'' of Some p \<Rightarrow> p | None \<Rightarrow> ''PLAINTEXT'')"

definition standard_protocols :: "ProtocolClass \<Rightarrow> bool" where
  "standard_protocols cls \<longleftrightarrow>
     requires_tls cls = (\<lambda>p. p \<in> {Ssl, SaslSsl}) \<and> requires_sasl cls = (\<lambda>p. p \<in> {SaslPlaintext, SaslSsl})"

lemma tls_config_Inr:
  assumes "tls_config properties host = Inr tls"
  shows "property_get properties ''ssl.truststore.location'' = Some (tls_trust_store tls) \<and> property_get properties ''ssl.truststore.type'' = Some ''PEM''
    \<and> (property_get properties ''ssl.endpoint.identification.algorithm'' = None
       \<or> map_option (map ascii_lower) (property_get properties ''ssl.endpoint.identification.algorithm'') = Some ''https'')
    \<and> tls_server_name tls = (case property_get properties ''ssl.server.name'' of Some name \<Rightarrow> name | None \<Rightarrow> host)
    \<and> tls_key_store tls = map_option (\<lambda>path. KeyStore_PemFile path None) (property_get properties ''ssl.keystore.location'')
    \<and> \<not> (\<exists>key \<in> set (''ssl.truststore.password'' # pem_content_keys). property_contains properties key)"
proof -
  from assms obtain trust store where none: "List.find (property_contains properties) pem_content_keys = None"
    and trust: "property_get properties ''ssl.truststore.location'' = Some trust" "require_pem properties ''ssl.truststore.type'' = Inr ()"
      "\<not> property_contains properties ''ssl.truststore.password''"
    and store: "key_store properties = Inr store" and identification: "check_identification properties = Inr ()"
    and tls: "tls = \<lparr>tls_trust_store = trust, tls_key_store = store,
        tls_server_name = (case property_get properties ''ssl.server.name'' of Some name \<Rightarrow> name | None \<Rightarrow> host)\<rparr>"
    unfolding tls_config_def by (auto simp: res_bind_Inr_iff ok_or_Inr_iff split: option.splits if_splits)
  from trust(2) have "property_get properties ''ssl.truststore.type'' = Some ''PEM''" by (auto simp: require_pem_def split: if_splits)
  moreover from identification have "property_get properties ''ssl.endpoint.identification.algorithm'' = None
       \<or> map_option (map ascii_lower) (property_get properties ''ssl.endpoint.identification.algorithm'') = Some ''https''"
    by (auto simp: check_identification_def Let_def split: option.splits if_splits)
  moreover from store have "store = map_option (\<lambda>path. KeyStore_PemFile path None) (property_get properties ''ssl.keystore.location'')"
    by (auto simp: key_store_def res_bind_Inr_iff split: option.splits if_splits)
  ultimately show ?thesis using none trust tls by (auto simp: find_None_iff)
qed

lemma security_Inr:
  assumes "security cls properties ctx = Inr policy"
  obtains "asked_protocol properties = ''PLAINTEXT''" "policy = None"
  | p tls sasl where "parse_protocol (asked_protocol properties) = Inr (Some p)" "policy = Some \<lparr>cs_protocol = p, cs_tls = tls, cs_sasl = sasl\<rparr>"
    "(if requires_tls cls p then map_sum id Some (tls_config properties (cx_bootstrap_host ctx)) else Inr None) = Inr tls"
    "(if requires_sasl cls p then map_sum id Some (sasl_credentials properties (cx_kdc_url ctx)) else Inr None) = Inr sasl"
proof -
  from assms obtain protocol where protocol: "parse_protocol (asked_protocol properties) = Inr protocol"
    and rest: "(case protocol of
       None \<Rightarrow> Inr None
     | Some protocol \<Rightarrow>
         res_bind (if requires_tls cls protocol then map_sum id Some (tls_config properties (cx_bootstrap_host ctx)) else Inr None) (\<lambda>tls.
         res_bind (if requires_sasl cls protocol then map_sum id Some (sasl_credentials properties (cx_kdc_url ctx)) else Inr None) (\<lambda>sasl.
         Inr (Some \<lparr>cs_protocol = protocol, cs_tls = tls, cs_sasl = sasl\<rparr>)))) = Inr policy"
    unfolding security_def asked_protocol_def res_bind_Inr_iff by blast
  show thesis
  proof (cases protocol)
    case None
    with protocol rest that(1) show ?thesis by (auto simp: parse_protocol_def split: if_splits)
  next
    case (Some p)
    from rest obtain tls sasl where parts: "(if requires_tls cls p then map_sum id Some (tls_config properties (cx_bootstrap_host ctx)) else Inr None) = Inr tls"
      "(if requires_sasl cls p then map_sum id Some (sasl_credentials properties (cx_kdc_url ctx)) else Inr None) = Inr sasl"
      "Some \<lparr>cs_protocol = p, cs_tls = tls, cs_sasl = sasl\<rparr> = policy"
      unfolding Some option.case res_bind_Inr_iff sum.inject by blast
    show ?thesis by (rule that(2) [OF protocol [unfolded Some] parts(3) [symmetric] parts(1,2)])
  qed
qed

text \<open>C10. A policy that is made of a command config never weakens it. It has no security only under \<open>PLAINTEXT\<close>. Under \<open>SSL\<close> and \<open>SASL_SSL\<close> it has TLS with
  the named PEM trust store and the name of the broker to verify, which is the bootstrap host unless the config names another, and verification was not
  turned off; under the SASL protocols it has credentials. The classes of the protocols are the hypothesis on the client.\<close>

theorem security_never_weakened:
  assumes "security cls properties ctx = Inr policy" and "standard_protocols cls"
  shows "(policy = None \<longleftrightarrow> asked_protocol properties = ''PLAINTEXT'')
    \<and> (asked_protocol properties \<in> {''SSL'', ''SASL_SSL''} \<longrightarrow> (\<exists>s tls. policy = Some s \<and> cs_tls s = Some tls
        \<and> property_get properties ''ssl.truststore.location'' = Some (tls_trust_store tls)
        \<and> tls_server_name tls = (case property_get properties ''ssl.server.name'' of Some name \<Rightarrow> name | None \<Rightarrow> cx_bootstrap_host ctx)
        \<and> property_get properties ''ssl.endpoint.identification.algorithm'' \<noteq> Some []))
    \<and> (asked_protocol properties \<in> {''SASL_PLAINTEXT'', ''SASL_SSL''} \<longrightarrow> (\<exists>s sasl. policy = Some s \<and> cs_sasl s = Some sasl
        \<and> sasl_credentials properties (cx_kdc_url ctx) = Inr sasl))
    \<and> asked_protocol properties \<in> {''PLAINTEXT'', ''SSL'', ''SASL_PLAINTEXT'', ''SASL_SSL''}"
  using assms(1)
proof (cases rule: security_Inr)
  case 1
  then show ?thesis by simp
next
  case (2 p tls sasl)
  have names: "asked_protocol properties \<noteq> ''PLAINTEXT''" "asked_protocol properties \<in> {''SSL'', ''SASL_PLAINTEXT'', ''SASL_SSL''}"
    "p \<in> {Ssl, SaslSsl} \<longleftrightarrow> asked_protocol properties \<in> {''SSL'', ''SASL_SSL''}"
    "p \<in> {SaslPlaintext, SaslSsl} \<longleftrightarrow> asked_protocol properties \<in> {''SASL_PLAINTEXT'', ''SASL_SSL''}"
    using 2(1) by (auto simp: parse_protocol_def split: if_splits)
  have tls: "\<exists>t. tls = Some t \<and> tls_config properties (cx_bootstrap_host ctx) = Inr t" if "asked_protocol properties \<in> {''SSL'', ''SASL_SSL''}"
    using 2(3) assms(2) that names(3) by (cases "tls_config properties (cx_bootstrap_host ctx)") (auto simp: standard_protocols_def)
  have sasl: "\<exists>c. sasl = Some c \<and> sasl_credentials properties (cx_kdc_url ctx) = Inr c" if "asked_protocol properties \<in> {''SASL_PLAINTEXT'', ''SASL_SSL''}"
    using 2(4) assms(2) that names(4) by (cases "sasl_credentials properties (cx_kdc_url ctx)") (auto simp: standard_protocols_def)
  show ?thesis
  proof (intro conjI impI)
    assume "asked_protocol properties \<in> {''SSL'', ''SASL_SSL''}"
    with tls obtain t where t: "tls = Some t" "tls_config properties (cx_bootstrap_host ctx) = Inr t" by blast
    show "\<exists>s tls. policy = Some s \<and> cs_tls s = Some tls
        \<and> property_get properties ''ssl.truststore.location'' = Some (tls_trust_store tls)
        \<and> tls_server_name tls = (case property_get properties ''ssl.server.name'' of Some name \<Rightarrow> name | None \<Rightarrow> cx_bootstrap_host ctx)
        \<and> property_get properties ''ssl.endpoint.identification.algorithm'' \<noteq> Some []"
      using 2(2) t tls_config_Inr [OF t(2)] by auto
  next
    assume "asked_protocol properties \<in> {''SASL_PLAINTEXT'', ''SASL_SSL''}"
    with sasl 2(2) show "\<exists>s sasl. policy = Some s \<and> cs_sasl s = Some sasl \<and> sasl_credentials properties (cx_kdc_url ctx) = Inr sasl" by auto
  qed (use names 2(2) in auto)
qed

lemma login_credentials:
  assumes "property_get properties SASL_JAAS_CONFIG = Some (show_jaas login flag opts)"
    and "login \<in> {PLAIN_LOGIN_MODULE, SCRAM_LOGIN_MODULE}" and "jaas_word login" and "jaas_word flag" and "map ascii_lower flag \<in> set jaas_flags"
    and "\<forall>(key, v) \<in> set opts. jaas_word key \<and> ascii v"
    and "property_get properties ''sasl.mechanism'' = Some mechanism"
    and "mechanism \<in> {''PLAIN'', ''SCRAM-SHA-256'', ''SCRAM-SHA-512''}"
    and "map_of (rev opts) ''username'' = Some user" and "map_of (rev opts) ''password'' = Some password"
  shows "sasl_credentials properties kdc_url = Inr (if mechanism = ''PLAIN'' then Plain user password
    else Scram (if mechanism = ''SCRAM-SHA-256'' then ScramSha256 else ScramSha512) user password
      (\<exists>v. map_of (rev opts) ''tokenauth'' = Some v \<and> map ascii_lower v = ''true''))"
proof -
  have jaas: "parse_jaas (show_jaas login flag opts) = Inr \<lparr>je_module = login, je_options = bt_of_list opts\<rparr>"
    using assms(3-6) by (rule jaas_roundtrip)
  have "map ascii_lower ''true'' = ''true''" by (simp add: ascii_lower_def is_ascii_upper_def byte_of_def)
  then have token: "jaas_true \<lparr>je_module = login, je_options = bt_of_list opts\<rparr> ''tokenauth'' \<longleftrightarrow>
      (\<exists>v. map_of (rev opts) ''tokenauth'' = Some v \<and> map ascii_lower v = ''true'')"
    by (auto simp: jaas_true_def jaas_option_def eq_ignore_case_def map_of_bt_of_list split: option.splits)
  show ?thesis
    using assms(1,2,7-10) jaas token
    by (auto simp: sasl_credentials_def expect_module_def jaas_required_def jaas_option_def map_of_bt_of_list Let_def)
qed

text \<open>C11. Signing in with a user and a password: the credentials are exactly those that the login module of the config names, for \<open>PLAIN\<close> and for both SCRAM
  mechanisms. Under \<open>PLAIN\<close> there is no delegation token. Under a SCRAM mechanism a delegation token is used exactly where the options say \<open>tokenauth=true\<close>;
  the code asks this of either login module, so it holds of \<open>PlainLoginModule\<close> too, though the comment in the code says that this module ignores the option
  (the next theorem).\<close>

theorem sasl_uses_login:
  assumes "property_get properties SASL_JAAS_CONFIG = Some (show_jaas login flag opts)"
    and "login \<in> {PLAIN_LOGIN_MODULE, SCRAM_LOGIN_MODULE}" and "jaas_word login" and "jaas_word flag" and "map ascii_lower flag \<in> set jaas_flags"
    and "\<forall>(key, v) \<in> set opts. jaas_word key \<and> ascii v"
    and "property_get properties ''sasl.mechanism'' = Some mechanism"
    and "mechanism \<in> {''PLAIN'', ''SCRAM-SHA-256'', ''SCRAM-SHA-512''}"
    and "map_of (rev opts) ''username'' = Some user" and "map_of (rev opts) ''password'' = Some password"
  shows "sasl_credentials properties kdc_url = Inr (if mechanism = ''PLAIN'' then Plain user password
    else Scram (if mechanism = ''SCRAM-SHA-256'' then ScramSha256 else ScramSha512) user password
      (\<exists>v. map_of (rev opts) ''tokenauth'' = Some v \<and> map ascii_lower v = ''true''))"
  using assms by (rule login_credentials)

text \<open>Under a SCRAM mechanism, \<open>PlainLoginModule\<close> does not ignore \<open>tokenauth\<close>: it signs in with a delegation token.\<close>

theorem plain_module_takes_token:
  assumes "property_get properties SASL_JAAS_CONFIG = Some (show_jaas PLAIN_LOGIN_MODULE flag opts)"
    and "jaas_word PLAIN_LOGIN_MODULE" and "jaas_word flag" and "map ascii_lower flag \<in> set jaas_flags"
    and "\<forall>(key, v) \<in> set opts. jaas_word key \<and> ascii v" and "property_get properties ''sasl.mechanism'' = Some ''SCRAM-SHA-512''"
    and "map_of (rev opts) ''username'' = Some user" and "map_of (rev opts) ''password'' = Some password"
    and "map_of (rev opts) ''tokenauth'' = Some v" and "map ascii_lower v = ''true''"
  shows "sasl_credentials properties kdc_url = Inr (Scram ScramSha512 user password True)"
  using login_credentials [OF assms(1) _ assms(2-6) _ assms(7,8)] assms(9,10) by simp

section \<open>Time limits\<close>

lemma positive_millis_Inr: "positive_millis properties key = Inr (Some t) \<Longrightarrow> 0 < t \<and> t \<le> i64_max"
  by (auto simp: positive_millis_def Let_def split: option.splits if_splits dest: parse_signed_range)

definition limits_ok :: "AdminClientConfig \<Rightarrow> bool" where
  "limits_ok config \<longleftrightarrow>
     (\<forall>t \<in> {adc_request_timeout config, adc_socket_connection_setup_timeout config, adc_retry_backoff config, adc_retry_backoff_max config}
        \<union> set_option (adc_default_api_timeout config). 0 < t \<and> t \<le> i64_max)"

lemma options_from_timeouts:
  assumes "options_from lib self properties command kdc_url = Inr options"
    and "0 < co_request_timeout (cl_options lib) \<and> co_request_timeout (cl_options lib) \<le> i64_max"
    and "0 < co_socket_connection_setup_timeout (cl_options lib) \<and> co_socket_connection_setup_timeout (cl_options lib) \<le> i64_max"
    and "\<forall>t. cn_request_timeout_ms self = Some t \<longrightarrow> t \<le> i64_max"
  shows "0 < co_request_timeout options \<and> co_request_timeout options \<le> i64_max
    \<and> 0 < co_socket_connection_setup_timeout options \<and> co_socket_connection_setup_timeout options \<le> i64_max"
proof -
  from assms(1) obtain request socket policy where parts: "request_timeout self properties = Inr request"
      "positive_millis properties ''socket.connection.setup.timeout.ms'' = Inr socket"
    and all: "(case socket of Some t \<Rightarrow> (case request of Some t \<Rightarrow> (cl_options lib)\<lparr>co_client_id := configured_client_id lib self properties command\<rparr>\<lparr>co_request_timeout := t\<rparr>
        | None \<Rightarrow> (cl_options lib)\<lparr>co_client_id := configured_client_id lib self properties command\<rparr>)\<lparr>co_socket_connection_setup_timeout := t\<rparr>
      | None \<Rightarrow> (case request of Some t \<Rightarrow> (cl_options lib)\<lparr>co_client_id := configured_client_id lib self properties command\<rparr>\<lparr>co_request_timeout := t\<rparr>
        | None \<Rightarrow> (cl_options lib)\<lparr>co_client_id := configured_client_id lib self properties command\<rparr>))\<lparr>co_security := policy\<rparr> = options"
    unfolding options_from_def Let_def res_bind_Inr_iff sum.inject by blast
  have options: "co_request_timeout options = (case request of Some t \<Rightarrow> t | None \<Rightarrow> co_request_timeout (cl_options lib))"
      "co_socket_connection_setup_timeout options = (case socket of Some t \<Rightarrow> t | None \<Rightarrow> co_socket_connection_setup_timeout (cl_options lib))"
    unfolding all [symmetric] by (simp_all split: option.split)
  from parts(1) assms(4) have "0 < t \<and> t \<le> i64_max" if "request = Some t" for t
    using that positive_millis_Inr unfolding request_timeout_def by (auto split: option.splits if_splits)
  with parts(2) options assms(2,3) positive_millis_Inr show ?thesis by (auto split: option.splits)
qed

text \<open>Every time limit and backoff of the client is positive and fits an \<open>i64\<close>, whatever the flags and the config say, as long as the defaults of the
  client are: a limit of zero or less, or one that is no number, is refused.\<close>

theorem admin_limits_positive:
  assumes "admin_config lib self properties command kdc_url = Inr config" and "limits_ok (cl_admin_config lib)"
    and "0 < co_request_timeout (cl_options lib) \<and> co_request_timeout (cl_options lib) \<le> i64_max"
    and "0 < co_socket_connection_setup_timeout (cl_options lib) \<and> co_socket_connection_setup_timeout (cl_options lib) \<le> i64_max"
    and "\<forall>t. cn_request_timeout_ms self = Some t \<longrightarrow> t \<le> i64_max"
  shows "limits_ok config"
proof -
  let ?base = "\<lambda>options api. (cl_admin_config lib)\<lparr>adc_client_id := Some (co_client_id options), adc_request_timeout := co_request_timeout options,
     adc_socket_connection_setup_timeout := co_socket_connection_setup_timeout options, adc_security := co_security options, adc_default_api_timeout := api\<rparr>"
  from assms(1) obtain options api backoff backoff_max where options: "options_from lib self properties command kdc_url = Inr options"
    and limits: "positive_millis properties ''default.api.timeout.ms'' = Inr api" "positive_millis properties ''retry.backoff.ms'' = Inr backoff"
      "positive_millis properties ''retry.backoff.max.ms'' = Inr backoff_max"
    and all: "(case backoff_max of Some t \<Rightarrow> (case backoff of Some t \<Rightarrow> (?base options api)\<lparr>adc_retry_backoff := t\<rparr> | None \<Rightarrow> ?base options api)\<lparr>adc_retry_backoff_max := t\<rparr>
      | None \<Rightarrow> (case backoff of Some t \<Rightarrow> (?base options api)\<lparr>adc_retry_backoff := t\<rparr> | None \<Rightarrow> ?base options api)) = config"
    unfolding admin_config_def Let_def res_bind_Inr_iff sum.inject by blast
  have config: "adc_request_timeout config = co_request_timeout options"
      "adc_socket_connection_setup_timeout config = co_socket_connection_setup_timeout options" "adc_default_api_timeout config = api"
      "adc_retry_backoff config = (case backoff of Some t \<Rightarrow> t | None \<Rightarrow> adc_retry_backoff (cl_admin_config lib))"
      "adc_retry_backoff_max config = (case backoff_max of Some t \<Rightarrow> t | None \<Rightarrow> adc_retry_backoff_max (cl_admin_config lib))"
    unfolding all [symmetric] by (simp_all split: option.split)
  show ?thesis
    using options_from_timeouts [OF options assms(3-5)] assms(2) limits positive_millis_Inr
    unfolding limits_ok_def config by (auto split: option.splits)
qed

section \<open>Connecting\<close>

definition with_connectors ::
    "'c ConnectionEnv \<Rightarrow> (string list \<Rightarrow> AdminClientConfig \<Rightarrow> 'c \<Rightarrow> (AdminError + unit) \<times> 'c)
      \<Rightarrow> (string list \<Rightarrow> AdminClientConfig \<Rightarrow> 'c \<Rightarrow> (AdminError + unit) \<times> 'c) \<Rightarrow> 'c ConnectionEnv" where
  "with_connectors env f g = env\<lparr>cv_connect := f, cv_connect_controller := g\<rparr>"

lemma map_sum_unit: "map_sum f id r = Inr () \<Longrightarrow> (r = Inr () \<Longrightarrow> P) \<Longrightarrow> P"
  by (cases r) auto

text \<open>A command connects once, with the config that its flags and its properties file make: to the controllers where they are named and to the servers
  otherwise. Where the file does not read, the config is refused or no address is given, it fails and connects to nothing: the result does not depend on the
  functions that connect.\<close>

theorem connect_needs_config:
  "(connection_connect env self command st = (Inr (), st') \<longrightarrow> (\<exists>properties st1 config. connection_properties env self st = (Inr properties, st1)
      \<and> admin_config (cv_lib env) self properties command (cv_kdc_url env) = Inr config
      \<and> (if cn_bootstrap_controller self \<noteq> [] then cv_connect_controller env (cn_bootstrap_controller self) config st1 = (Inr (), st')
         else cn_bootstrap_server self \<noteq> [] \<and> cv_connect env (cn_bootstrap_server self) config st1 = (Inr (), st'))))
    \<and> ((\<exists>e. fst (connection_properties env self st) = Inl e)
       \<or> (\<exists>properties e. fst (connection_properties env self st) = Inr properties
            \<and> admin_config (cv_lib env) self properties command (cv_kdc_url env) = Inl e)
       \<or> cn_bootstrap_controller self = [] \<and> cn_bootstrap_server self = []
       \<longrightarrow> (\<exists>e. fst (connection_connect env self command st) = Inl e)
         \<and> connection_connect (with_connectors env f g) self command st = connection_connect env self command st)"
proof -
  have properties: "connection_properties (with_connectors env f g) self st = connection_properties env self st"
  proof -
    have "cv_read_file (with_connectors env f g) = cv_read_file env" by (simp add: with_connectors_def)
    then show ?thesis unfolding connection_properties_def by (simp only:)
  qed
  have lib: "cv_lib (with_connectors env f g) = cv_lib env" "cv_kdc_url (with_connectors env f g) = cv_kdc_url env"
    by (simp_all add: with_connectors_def)
  obtain r st1 where read: "connection_properties env self st = (r, st1)" by force
  show ?thesis
  proof (cases r)
    case (Inl e)
    then show ?thesis unfolding connection_connect_def properties lib read by simp
  next
    case (Inr props)
    then show ?thesis unfolding connection_connect_def properties lib read
      by (cases "admin_config (cv_lib env) self props command (cv_kdc_url env)")
        (auto simp: map_prod_def with_connectors_def split: prod.splits elim!: map_sum_unit)
  qed
qed

section \<open>A sample config\<close>

definition sample_class :: ProtocolClass where
  "sample_class = \<lparr>requires_tls = (\<lambda>p. p \<in> {Ssl, SaslSsl}), requires_sasl = (\<lambda>p. p \<in> {SaslPlaintext, SaslSsl})\<rparr>"

definition sample_properties :: Properties where
  "sample_properties =
     [(SASL_JAAS_CONFIG, show_jaas SCRAM_LOGIN_MODULE ''required'' [(''username'', ''alice''), (''password'', ''s3'' @ [CHR 0x22])]),
      (''sasl.mechanism'', ''SCRAM-SHA-256''), (''security.protocol'', ''ssl''), (''ssl.truststore.location'', ''/ca.pem''), (''ssl.truststore.type'', ''PEM'')]"

definition sample_lib :: ClientLib where
  "sample_lib = \<lparr>cl_version = ''1.0'',
     cl_options = \<lparr>co_client_id = [], co_request_timeout = 30000, co_socket_connection_setup_timeout = 10000, co_security = None\<rparr>,
     cl_admin_config = \<lparr>adc_client_id = None, adc_request_timeout = 30000, adc_socket_connection_setup_timeout = 10000, adc_security = None,
       adc_default_api_timeout = None, adc_retry_backoff = 100, adc_retry_backoff_max = 1000\<rparr>, cl_protocols = sample_class\<rparr>"

definition sample_connection :: ConnectionArgs where
  "sample_connection = \<lparr>cn_bootstrap_server = [''b:9092''], cn_bootstrap_controller = [], cn_command_config = None, cn_client_id = Some ''me'',
     cn_request_timeout_ms = Some 5, cn_timeout = 30000\<rparr>"

definition sample_connection_env :: "nat ConnectionEnv" where
  "sample_connection_env = \<lparr>cv_lib = sample_lib, cv_kdc_url = None, cv_read_file = (\<lambda>_ st. (Inl [], st)), cv_connect = (\<lambda>_ _ st. (Inr (), st + 1)),
     cv_connect_controller = (\<lambda>_ _ st. (Inr (), st + 2))\<rparr>"

lemmas word_defs = jaas_word_def ascii_def is_word_def is_word_start_def alphabetic_code_def digit_code_def byte_of_def

lemma sample_words: "jaas_word SCRAM_LOGIN_MODULE" "jaas_word ''required''" "jaas_word ''username''" "jaas_word ''password''"
  by (simp_all add: word_defs SCRAM_LOGIN_MODULE_def)

lemma sample_flag: "map ascii_lower ''required'' \<in> set jaas_flags"
  by (simp add: jaas_flags_def ascii_lower_def is_ascii_upper_def byte_of_def)

lemma sample_opts: "\<forall>(key, v) \<in> set [(''username'', ''alice''), (''password'', ''s3'' @ [CHR 0x22])]. jaas_word key \<and> ascii v"
  using sample_words(3,4) by (simp add: ascii_def byte_of_def)

theorem jaas_roundtrip_witness:
  "parse_jaas (show_jaas SCRAM_LOGIN_MODULE ''required'' [(''username'', ''alice''), (''password'', ''s3'' @ [CHR 0x22])]) =
     Inr \<lparr>je_module = SCRAM_LOGIN_MODULE, je_options = bt_of_list [(''username'', ''alice''), (''password'', ''s3'' @ [CHR 0x22])]\<rparr>"
  using sample_words(1,2) sample_flag sample_opts by (rule jaas_roundtrip)

lemma graphic_ends: "s \<noteq> [] \<Longrightarrow> graphic (hd s) \<Longrightarrow> graphic (last s) \<Longrightarrow> trim s = s"
  by (rule trim_graphic)

lemma sample_get:
  "property_get sample_properties SASL_JAAS_CONFIG = Some (show_jaas SCRAM_LOGIN_MODULE ''required'' [(''username'', ''alice''), (''password'', ''s3'' @ [CHR 0x22])])"
  "property_get sample_properties ''sasl.mechanism'' = Some ''SCRAM-SHA-256''"
  "property_get sample_properties ''security.protocol'' = Some ''ssl''"
  "property_get sample_properties ''ssl.truststore.location'' = Some ''/ca.pem''"
  "property_get sample_properties ''ssl.truststore.type'' = Some ''PEM''"
  by (simp_all add: property_get_def sample_properties_def SASL_JAAS_CONFIG_def graphic_ends graphic_def byte_of_def show_jaas_def SCRAM_LOGIN_MODULE_def)

theorem sasl_uses_login_witness:
  "sasl_credentials sample_properties None = Inr (Scram ScramSha256 ''alice'' (''s3'' @ [CHR 0x22]) False)"
  using sasl_uses_login [OF sample_get(1) _ sample_words(1,2) sample_flag sample_opts sample_get(2), of "''alice''" "''s3'' @ [CHR 0x22]" None] by simp

theorem plain_module_takes_token_witness:
  "sasl_credentials
     [(SASL_JAAS_CONFIG, show_jaas PLAIN_LOGIN_MODULE ''required'' [(''username'', ''alice''), (''password'', ''s''), (''tokenauth'', ''true'')]),
      (''sasl.mechanism'', ''SCRAM-SHA-512'')] None = Inr (Scram ScramSha512 ''alice'' ''s'' True)"
  by (rule plain_module_takes_token [where flag = "''required''" and v = "''true''"
        and opts = "[(''username'', ''alice''), (''password'', ''s''), (''tokenauth'', ''true'')]"])
    (simp_all add: property_get_def SASL_JAAS_CONFIG_def graphic_ends graphic_def byte_of_def show_jaas_def PLAIN_LOGIN_MODULE_def
      word_defs sample_flag [unfolded ascii_lower_def is_ascii_upper_def byte_of_def] ascii_lower_def is_ascii_upper_def jaas_flags_def)

theorem security_never_weakened_witness:
  "\<exists>s tls. security sample_class sample_properties \<lparr>cx_bootstrap_host = ''b'', cx_kdc_url = None\<rparr> = Inr (Some s) \<and> cs_tls s = Some tls
    \<and> tls_trust_store tls = ''/ca.pem'' \<and> tls_server_name tls = ''b''"
proof -
  have asked: "asked_protocol sample_properties = ''SSL''"
    by (simp add: asked_protocol_def sample_get ascii_upper_def is_ascii_lower_def byte_of_def) (simp add: char_of_def bit_0)
  have absent: "map_of sample_properties key = None" if "key \<in> {''ssl.truststore.certificates'', ''ssl.keystore.key'', ''ssl.keystore.certificate.chain'',
      ''ssl.truststore.password'', ''ssl.keystore.location'', ''ssl.endpoint.identification.algorithm'', ''ssl.server.name''}" for key
    using that by (auto simp: sample_properties_def SASL_JAAS_CONFIG_def)
  have "tls_config sample_properties ''b'' = Inr \<lparr>tls_trust_store = ''/ca.pem'', tls_key_store = None, tls_server_name = ''b''\<rparr>"
    by (simp add: tls_config_def pem_content_keys_def property_contains_def absent sample_get require_pem_def key_store_def check_identification_def
        property_get_def [of _ "''ssl.keystore.location''"] property_get_def [of _ "''ssl.endpoint.identification.algorithm''"]
        property_get_def [of _ "''ssl.server.name''"])
  then obtain policy where policy: "security sample_class sample_properties \<lparr>cx_bootstrap_host = ''b'', cx_kdc_url = None\<rparr> = Inr policy"
    using asked by (simp add: security_def parse_protocol_def asked_protocol_def [symmetric] sample_class_def)
  have "standard_protocols sample_class" by (simp add: standard_protocols_def sample_class_def)
  from security_never_weakened [OF policy this] asked have "\<exists>s tls. policy = Some s \<and> cs_tls s = Some tls
      \<and> property_get sample_properties ''ssl.truststore.location'' = Some (tls_trust_store tls)
      \<and> tls_server_name tls = (case property_get sample_properties ''ssl.server.name'' of Some name \<Rightarrow> name
          | None \<Rightarrow> cx_bootstrap_host \<lparr>cx_bootstrap_host = ''b'', cx_kdc_url = None\<rparr>)"
    by blast
  moreover have "property_get sample_properties ''ssl.server.name'' = None" using absent by (simp add: property_get_def)
  ultimately show ?thesis using policy sample_get(4) by auto
qed

lemma sample_admin_config: "\<exists>config. admin_config sample_lib sample_connection [] ''topics'' None = Inr config"
  by (simp add: admin_config_def options_from_def request_timeout_def sample_connection_def positive_millis_def property_get_def security_def
      parse_protocol_def ascii_upper_def is_ascii_lower_def byte_of_def Let_def)

theorem admin_limits_positive_witness: "\<exists>config. admin_config sample_lib sample_connection [] ''topics'' None = Inr config \<and> limits_ok config"
proof -
  obtain config where config: "admin_config sample_lib sample_connection [] ''topics'' None = Inr config" using sample_admin_config by blast
  have "limits_ok config"
    by (rule admin_limits_positive [OF config]) (simp_all add: limits_ok_def sample_lib_def sample_connection_def)
  with config show ?thesis by blast
qed

theorem connect_needs_config_witness:
  "\<exists>config. admin_config sample_lib sample_connection [] ''topics'' None = Inr config \<and> connection_connect sample_connection_env sample_connection ''topics'' 0 = (Inr (), 1)"
proof -
  obtain config where config: "admin_config sample_lib sample_connection [] ''topics'' None = Inr config" using sample_admin_config by blast
  then have "connection_connect sample_connection_env sample_connection ''topics'' 0 = (Inr (), 1)"
    by (simp add: connection_connect_def connection_properties_def sample_connection_env_def sample_connection_def)
  with connect_needs_config [of sample_connection_env sample_connection "''topics''" 0 1 undefined undefined]
  show ?thesis by (auto simp: connection_properties_def sample_connection_env_def sample_connection_def)
qed

end
