(* ===== verification/Configs_Parse.thy ===== *)
theory Configs_Parse
  imports Connection_Properties
begin

unbundle bit_operations_syntax

text \<open>
  \<^verbatim>\<open>crates/krabka-cli/src/configs/java.rs\<close> and \<^verbatim>\<open>configs/parse.rs\<close>: the orders of Scala sets, Java's doubles, and the values of \<open>kafka-configs\<close>. A finite
  \<open>f64\<close> other than zero is its sign, the shortest decimal digits that read as it, and the exponent of the first digit; reading decimal text as an \<open>f64\<close> is an
  argument. A Rust \<open>expect\<close> that fails is \<^const>\<open>None\<close>.
\<close>

section \<open>Orders\<close>

definition hash_map_order :: "string list \<Rightarrow> nat option \<Rightarrow> string list" where
  "hash_map_order keys table_capacity =
     hash_order keys (case table_capacity of None \<Rightarrow> Default | Some n \<Rightarrow> WithCapacity n) string_hash"

definition SCALA_SMALL_COLLECTION :: nat where "SCALA_SMALL_COLLECTION = 4"
definition CHAMP_BITS :: nat where "CHAMP_BITS = 5"

definition improve :: "32 word \<Rightarrow> 32 word" where
  "improve hash =
     (let h = hash + NOT (push_bit 9 hash);
          h = h XOR drop_bit 14 h;
          h = h + push_bit 4 h
      in h XOR drop_bit 10 h)"

definition champ_slot :: "nat \<Rightarrow> 32 word \<Rightarrow> nat" where
  "champ_slot shift hash = unat (drop_bit shift hash AND 31)"

function champ_order :: "(32 word \<times> 'a) list \<Rightarrow> nat \<Rightarrow> 'a list" where
  "champ_order items shift =
     (if 32 \<le> shift then map snd items
      else let slots = map (\<lambda>s. filter (\<lambda>(hash, _). champ_slot shift hash = s) items) [0 ..< 2 ^ CHAMP_BITS];
               payload = concat (map (map snd) (filter (\<lambda>slot. length slot = 1) slots));
               nodes = filter (\<lambda>slot. 1 < length slot) slots
           in payload @ concat (map (\<lambda>node. champ_order node (shift + CHAMP_BITS)) nodes))"
  by pat_completeness auto
termination
  by (relation "measure (\<lambda>(items, shift). 32 - shift)") (auto simp: CHAMP_BITS_def)

declare champ_order.simps [simp del]

definition scala_set_order :: "string list \<Rightarrow> string list" where
  "scala_set_order items =
     (let unique = push_unique [] items
      in if length unique \<le> SCALA_SMALL_COLLECTION then unique
         else champ_order (map (\<lambda>item. (improve (string_hash item), item)) unique) 0)"

definition scala_join :: "string list \<Rightarrow> string" where
  "scala_join items = join_with '', '' items"

definition scala_set :: "string list \<Rightarrow> string" where
  "scala_set items =
     (let ordered = scala_set_order items
      in (if SCALA_SMALL_COLLECTION < length ordered then ''HashSet'' else ''Set'') @ ''('' @ scala_join ordered @ '')'')"

definition scala_buffer :: "string list \<Rightarrow> string" where
  "scala_buffer items = ''ArrayBuffer('' @ scala_join items @ '')''"

section \<open>Doubles\<close>

datatype Double = DNan | DInfinite bool | DZero bool | DFinite bool string int

text \<open>The flag is the sign. \<open>format!("{:e}")\<close> of a magnitude.\<close>

definition lower_exp :: "string \<Rightarrow> int \<Rightarrow> string" where
  "lower_exp digits exponent =
     (case digits of [] \<Rightarrow> [] | d # ds \<Rightarrow> d # (if ds = [] then [] else CHR ''.'' # ds)) @ ''e'' @ show_int exponent"

definition java_sign :: "bool \<Rightarrow> string" where
  "java_sign negative = (if negative then ''-'' else [])"

text \<open>A magnitude is at least \<open>1e-3\<close> and below \<open>1e7\<close> exactly when the exponent of its first digit is from \<open>-3\<close> to \<open>6\<close>.\<close>

definition plain_or_scientific :: "string \<Rightarrow> string \<Rightarrow> int \<Rightarrow> string" where
  "plain_or_scientific sign digits exponent =
     (if - 3 \<le> exponent \<and> exponent \<le> 6
      then if 0 \<le> exponent
           then let integer_len = nat exponent + 1;
                    padded = digits @ replicate (integer_len - length digits) (CHR ''0'');
                    fraction = drop integer_len padded
                in sign @ take integer_len padded @ ''.'' @ (if fraction = [] then ''0'' else fraction)
           else sign @ ''0.'' @ replicate (nat (- exponent - 1)) (CHR ''0'') @ digits
      else let rest = drop 1 digits
           in sign @ take 1 digits @ ''.'' @ (if rest = [] then ''0'' else rest) @ ''E'' @ show_int exponent)"

fun double_to_string :: "Double \<Rightarrow> string option" where
  "double_to_string DNan = Some ''NaN''"
| "double_to_string (DInfinite negative) = Some (java_sign negative @ ''Infinity'')"
| "double_to_string (DZero negative) = Some (java_sign negative @ ''0.0'')"
| "double_to_string (DFinite negative digits exponent) =
     (case split_once (CHR ''e'') (lower_exp digits exponent) of
        None \<Rightarrow> None
      | Some (mantissa, exponent_text) \<Rightarrow>
          map_option (plain_or_scientific (java_sign negative) (filter (\<lambda>c. c \<noteq> CHR ''.'') mantissa)) (parse_i32 exponent_text))"

text \<open>\<open>String.trim\<close>: the characters up to the space are single bytes.\<close>

definition java_trim :: "string \<Rightarrow> string" where
  "java_trim s = rev (dropWhile (\<lambda>c. byte_of c \<le> 32) (rev (dropWhile (\<lambda>c. byte_of c \<le> 32) s)))"

definition parse_double :: "(string \<Rightarrow> Double option) \<Rightarrow> string \<Rightarrow> Double option" where
  "parse_double parse_f64 v =
     (let v = java_trim v;
          (negative, unsigned) = (case v of
              c # cs \<Rightarrow> if c = CHR ''-'' then (True, cs) else if c = CHR ''+'' then (False, cs) else (False, v)
            | [] \<Rightarrow> (False, v))
      in if unsigned = ''NaN'' then Some DNan
         else if unsigned = ''Infinity'' then Some (DInfinite negative)
         else let decimal = (if v \<noteq> [] \<and> last v \<in> {CHR ''f'', CHR ''F'', CHR ''d'', CHR ''D''} then butlast v else v)
              in if \<exists>c \<in> set decimal. (is_ascii_upper c \<or> is_ascii_lower c) \<and> c \<noteq> CHR ''e'' \<and> c \<noteq> CHR ''E'' then None
                 else parse_f64 decimal)"

section \<open>Values of the command line\<close>

definition INVALID_ENTITY_CONFIG :: string where
  "INVALID_ENTITY_CONFIG =
     ''requirement failed: Invalid entity config: all configs to be added must be in the format '' @ [CHR 0x22] @ ''key=val'' @ [CHR 0x22] @ '' or  '' @ [CHR 0x22] @
     ''key=[val1,val2]'' @ [CHR 0x22] @ '' to group values which contain commas.''"

definition DEFAULT_SCRAM_ITERATIONS :: int where "DEFAULT_SCRAM_ITERATIONS = 4096"

datatype Mechanism = Sha256 | Sha512

definition from_config_key :: "string \<Rightarrow> Mechanism option" where
  "from_config_key key = (if key = ''SCRAM-SHA-256'' then Some Sha256 else if key = ''SCRAM-SHA-512'' then Some Sha512 else None)"

fun mechanism_name :: "Mechanism \<Rightarrow> string" where
  "mechanism_name Sha256 = ''SCRAM-SHA-256''"
| "mechanism_name Sha512 = ''SCRAM-SHA-512''"

fun mechanism_constant :: "Mechanism \<Rightarrow> string" where
  "mechanism_constant Sha256 = ''SCRAM_SHA_256''"
| "mechanism_constant Sha512 = ''SCRAM_SHA_512''"

definition min_iterations :: "Mechanism \<Rightarrow> int" where
  "min_iterations mechanism = 4096"

record ScramCredential =
  sc_mechanism :: Mechanism
  sc_iterations :: int
  sc_password :: string

text \<open>\<open>rest.find(']')\<close> is absent or a bracket opens before it.\<close>

definition outside_brackets :: "string \<Rightarrow> bool" where
  "outside_brackets rest \<longleftrightarrow> CHR '']'' \<notin> set rest \<or> CHR ''['' \<in> set (takeWhile (\<lambda>c. c \<noteq> CHR '']'') rest)"

definition is_java_space :: "char \<Rightarrow> bool" where
  "is_java_space c \<longleftrightarrow> c \<in> {CHR '' '', CHR 0x09, CHR 0x0A, CHR 0x0B, CHR 0x0C, CHR 0x0D}"

text \<open>The loop of \<open>split\<close>, with the piece since \<open>start\<close>. The skipped characters are spaces, so none of them is the separator.\<close>

function split_pieces :: "char \<Rightarrow> bool \<Rightarrow> string \<Rightarrow> string \<Rightarrow> string list" where
  "split_pieces separator around_space piece [] = [piece]"
| "split_pieces separator around_space piece (c # rest) =
     (if c = separator \<and> outside_brackets rest
      then if around_space
           then rev (dropWhile is_java_space (rev piece)) # split_pieces separator around_space [] (dropWhile is_java_space rest)
           else piece # split_pieces separator around_space [] rest
      else split_pieces separator around_space (piece @ [c]) rest)"
  by pat_completeness auto
termination
proof (relation "measure (\<lambda>(separator, space, piece, rest). length rest)", goal_cases)
  case (2 separator space piece c rest)
  then show ?case by (simp add: le_imp_less_Suc length_dropWhile_le)
qed simp_all

definition split_config :: "string \<Rightarrow> char \<Rightarrow> bool \<Rightarrow> string list" where
  "split_config v separator around_space =
     (let pieces = split_pieces separator around_space [] v
      in if length pieces = 1 \<or> around_space then pieces else pop_empty pieces)"

definition added_pair :: "string list \<Rightarrow> string \<times> string" where
  "added_pair pair = (java_trim (pair ! 0), java_trim (filter (\<lambda>c. c \<noteq> CHR ''['' \<and> c \<noteq> CHR '']'') (pair ! 1)))"

definition add_config :: "string \<Rightarrow> (string \<times> string) list res" where
  "add_config v =
     (let entries = map (\<lambda>entry. split_config entry (CHR ''='') True) (split_config v (CHR '','') False)
      in if \<exists>pair \<in> set entries. length pair \<noteq> 2 then Inl INVALID_ENTITY_CONFIG
         else Inr (map added_pair entries))"

definition config_key :: "string \<Rightarrow> unit res" where
  "config_key key =
     (if list_all (\<lambda>c. is_ascii_alphanumeric c \<or> c \<in> {CHR ''$'', CHR ''.'', CHR ''_'', CHR ''-''}) key then Inr ()
      else Inl (''Invalid character found for config key: '' @ key))"

text \<open>A line terminator of Java, by its UTF-8, occurs in the password.\<close>

definition line_terminators :: "string list" where
  "line_terminators = [[CHR 0x0A], [CHR 0x0D], [CHR 0xC2, CHR 0x85], [CHR 0xE2, CHR 0x80, CHR 0xA8], [CHR 0xE2, CHR 0x80, CHR 0xA9]]"

fun contains_str :: "string \<Rightarrow> string \<Rightarrow> bool" where
  "contains_str p [] = (p = [])"
| "contains_str p (c # cs) = (take (length p) (c # cs) = p \<or> contains_str p cs)"

definition credential_parts :: "Mechanism \<Rightarrow> string \<Rightarrow> (string option \<times> string) res" where
  "credential_parts mechanism v =
     (let invalid = ''Invalid credential property '' @ mechanism_constant mechanism @ ''=[redacted]''
      in case strip_prefix ''password='' v of
           Some password \<Rightarrow> Inr (None, password)
         | None \<Rightarrow>
             res_bind (ok_or invalid (strip_prefix ''iterations='' v)) (\<lambda>rest.
             let digits = (case strip_prefix ''-'' rest of Some ds \<Rightarrow> ds | None \<Rightarrow> rest);
                 count_len = length rest - length digits + length (takeWhile is_ascii_digit digits)
             in res_bind (ok_or invalid (strip_prefix '',password='' (drop count_len rest))) (\<lambda>password.
                Inr (Some (take count_len rest), password))))"

definition scram_credential :: "Mechanism \<Rightarrow> string \<Rightarrow> ScramCredential res" where
  "scram_credential mechanism v =
     res_bind (credential_parts mechanism v) (\<lambda>(count, password).
     if \<exists>t \<in> set line_terminators. contains_str t password
     then Inl (''Invalid credential property '' @ mechanism_constant mechanism @ ''=[redacted]'')
     else res_bind (case count of
         Some c \<Rightarrow> if c \<noteq> ''-1'' then parse_int c else Inr DEFAULT_SCRAM_ITERATIONS
       | None \<Rightarrow> Inr DEFAULT_SCRAM_ITERATIONS) (\<lambda>iterations.
       if iterations < min_iterations mechanism
       then Inl (''Iterations '' @ show_int iterations @ '' is less than the minimum '' @ show_int (min_iterations mechanism) @ '' required for '' @
         mechanism_name mechanism)
       else Inr \<lparr>sc_mechanism = mechanism, sc_iterations = iterations, sc_password = password\<rparr>))"

definition MAX_NAME_LENGTH :: nat where "MAX_NAME_LENGTH = 249"

definition topic_name :: "string \<Rightarrow> unit res" where
  "topic_name name =
     (let fail = (\<lambda>reason. Inl (''Topic name is invalid: '' @ reason)); tick = [CHR 0x27]
      in if name = [] then fail ''the empty string is not allowed''
         else if name = ''.'' then fail (tick @ ''.'' @ tick @ '' is not allowed'')
         else if name = ''..'' then fail (tick @ ''..'' @ tick @ '' is not allowed'')
         else if MAX_NAME_LENGTH < length (encode_utf16 name)
         then fail (''the length of '' @ tick @ name @ tick @ '' is longer than the max allowed length '' @ show_nat MAX_NAME_LENGTH)
         else if \<not> list_all (\<lambda>c. is_ascii_alphanumeric c \<or> c \<in> {CHR ''.'', CHR ''_'', CHR ''-''}) name
         then fail (tick @ name @ tick @ '' contains one or more characters other than ASCII alphanumerics, '' @ tick @ ''.'' @ tick @ '', '' @ tick @ ''_'' @ tick @
           '' and '' @ tick @ ''-'' @ tick)
         else Inr ())"

end
