(* ===== verification/Configs.thy ===== *)
theory Configs
  imports Configs_Parse Reset_Time Command_Monad
begin

unbundle bit_operations_syntax

text \<open>
  \<^verbatim>\<open>crates/krabka-cli/src/configs.rs\<close> and \<^verbatim>\<open>configs/render.rs\<close>: \<open>kafka-configs\<close>. A command line becomes a plan before anything is connected, and the plan runs over
  the record \<open>ConfigsEnv\<close> of the client's operations. A Rust \<open>expect\<close> or index that fails is \<^const>\<open>None\<close>. The properties of a file are those of
  \<open>Connection_Properties\<close>; \<open>resolve\<close> says whether a name is an address or a host that resolves.
\<close>

section \<open>Entities\<close>

definition TOPICS :: string where "TOPICS = ''topics''"
definition CLIENTS :: string where "CLIENTS = ''clients''"
definition USERS :: string where "USERS = ''users''"
definition BROKERS :: string where "BROKERS = ''brokers''"
definition IPS :: string where "IPS = ''ips''"
definition CLIENT_METRICS :: string where "CLIENT_METRICS = ''client-metrics''"
definition GROUPS :: string where "GROUPS = ''groups''"
definition BROKER_LOGGERS :: string where "BROKER_LOGGERS = ''broker-loggers''"

lemmas entity_type_defs = TOPICS_def CLIENTS_def USERS_def BROKERS_def IPS_def CLIENT_METRICS_def GROUPS_def BROKER_LOGGERS_def

definition ENTITY_TYPES :: "string list" where
  "ENTITY_TYPES = [TOPICS, CLIENTS, USERS, BROKERS, IPS, CLIENT_METRICS, GROUPS, BROKER_LOGGERS]"

definition USER_AND_CLIENT_QUOTAS :: "string list" where
  "USER_AND_CLIENT_QUOTAS = [''producer_byte_rate'', ''consumer_byte_rate'', ''request_percentage'', ''controller_mutation_rate'']"

definition IP_QUOTAS :: "string list" where "IP_QUOTAS = [''connection_creation_rate'']"

definition ALTERED_TWICE :: string where
  "ALTERED_TWICE = ''AlterUserScramCredentials failed: DUPLICATE_RESOURCE (92): A user credential cannot be altered twice in the same request''"

record EntitySelectors =
  es_names :: "string list"
  es_entity_names :: "string list"
  es_entity_default :: bool

text \<open>From the positions of the flags on the command line: each \<open>--entity-name\<close> with its value and each \<open>--entity-default\<close>.\<close>

definition entity_selectors :: "(nat \<times> string) list \<Rightarrow> nat list \<Rightarrow> EntitySelectors" where
  "entity_selectors named defaults =
     \<lparr>es_names = map snd (sort_key fst (named @ map (\<lambda>index. (index, [])) defaults)), es_entity_names = map snd named, es_entity_default = defaults \<noteq> []\<rparr>"

record ConfigsArgs =
  cf_bootstrap_server :: "string list"
  cf_bootstrap_controller :: "string list"
  cf_alter :: bool
  cf_describe :: bool
  cf_all :: bool
  cf_entity_type :: "string list"
  cf_entity :: EntitySelectors
  cf_add_config :: "string list"
  cf_add_config_file :: "string list"
  cf_delete_config :: "string list"
  cf_topic :: "string list"
  cf_client :: "string list"
  cf_client_defaults :: bool
  cf_user :: "string list"
  cf_user_defaults :: bool
  cf_broker :: "string list"
  cf_broker_defaults :: bool
  cf_broker_logger :: "string list"
  cf_ip_defaults :: bool
  cf_ip :: "string list"
  cf_group :: "string list"
  cf_client_metrics :: "string list"

text \<open>The entities of quotas and the components of a filter: a name, the default entity, or any entity of the type.\<close>

definition ENTITY_USER :: string where "ENTITY_USER = ''user''"
definition ENTITY_CLIENT_ID :: string where "ENTITY_CLIENT_ID = ''client-id''"
definition ENTITY_IP :: string where "ENTITY_IP = ''ip''"

type_synonym ClientQuotaEntity = "(string, string option) btmap"

datatype FilterComponent = OfEntity string string | OfDefaultEntity string | OfEntityType string

datatype ScramChange = Upsert ScramCredential | Delete Mechanism

datatype ConfigsPlan =
    DescribeResources string "string option" bool
  | AlterResource string string "string list" "(string \<times> string) list"
  | AlterBrokerLoggers string "string list" "(string \<times> string) list"
  | DescribeQuotas "FilterComponent list" "string list option"
  | AlterQuotas string string ClientQuotaEntity "FilterComponent list" "(string \<times> string) list" "string list"
  | AlterUserScram string string "ScramChange option"

definition static_type :: "string \<Rightarrow> string option" where
  "static_type entity_type = List.find (\<lambda>known. known = entity_type) ENTITY_TYPES"

definition quota_entity_type :: "string \<Rightarrow> string" where
  "quota_entity_type entity_type = (if entity_type = USERS then ENTITY_USER else if entity_type = CLIENTS then ENTITY_CLIENT_ID else ENTITY_IP)"

definition quota_entity :: "string list \<Rightarrow> string list \<Rightarrow> ClientQuotaEntity" where
  "quota_entity types names =
     bt_of_list (map (\<lambda>(entity_type, name). (quota_entity_type entity_type, if name = [] then None else Some name)) (zip types names))"

definition quota_component :: "string list \<Rightarrow> nat \<times> string \<Rightarrow> FilterComponent" where
  "quota_component names = (\<lambda>(index, entity_type).
     let entity_type = quota_entity_type entity_type
     in if length names \<le> index then OfEntityType entity_type
        else if names ! index = [] then OfDefaultEntity entity_type
        else OfEntity entity_type (names ! index))"

definition quota_components :: "string list \<Rightarrow> string list \<Rightarrow> FilterComponent list" where
  "quota_components types names = map (quota_component names) (List.enumerate 0 types)"

definition single_value :: "'a list \<Rightarrow> string \<Rightarrow> 'a option res" where
  "single_value values option_name =
     (case values of
        [] \<Rightarrow> Inr None
      | [v] \<Rightarrow> Inr (Some v)
      | _ \<Rightarrow> Inl (''Found multiple arguments for option '' @ option_name @ '', but you asked for only one''))"

definition entity_flags :: "ConfigsArgs \<Rightarrow> (string list \<times> string \<times> string) list" where
  "entity_flags self =
     [(cf_topic self, ''topic'', TOPICS), (cf_client self, ''client'', CLIENTS), (cf_user self, ''user'', USERS), (cf_broker self, ''broker'', BROKERS),
      (cf_broker_logger self, ''broker-logger'', BROKER_LOGGERS), (cf_ip self, ''ip'', IPS), (cf_client_metrics self, ''client-metrics'', CLIENT_METRICS),
      (cf_group self, ''group'', GROUPS)]"

definition default_flags :: "ConfigsArgs \<Rightarrow> (bool \<times> string) list" where
  "default_flags self =
     [(cf_client_defaults self, CLIENTS), (cf_user_defaults self, USERS), (cf_broker_defaults self, BROKERS), (cf_ip_defaults self, IPS)]"

definition has_entity_flag :: "ConfigsArgs \<Rightarrow> bool" where
  "has_entity_flag self \<longleftrightarrow> list_ex (\<lambda>(values, _, _). values \<noteq> []) (entity_flags self) \<or> list_ex fst (default_flags self)"

definition entity_types :: "ConfigsArgs \<Rightarrow> string list" where
  "entity_types self =
     cf_entity_type self @ map (\<lambda>(_, _, entity_type). entity_type) (filter (\<lambda>(values, _, _). values \<noteq> []) (entity_flags self)) @
     map snd (filter fst (default_flags self))"

definition entity_names :: "ConfigsArgs \<Rightarrow> string list res" where
  "entity_names self =
     res_bind (collect_res (\<lambda>(values, option_name, _). single_value values option_name) (entity_flags self)) (\<lambda>flags.
     Inr (es_names (cf_entity self) @ List.map_filter id flags @ map (\<lambda>_. []) (filter fst (default_flags self))))"

definition dedup :: "string list \<Rightarrow> string list" where
  "dedup items = push_unique [] items"

section \<open>The plan\<close>

definition refuse :: "bool \<Rightarrow> string \<Rightarrow> unit res" where
  "refuse refused message = (if refused then Inl message else Inr ())"

definition broker_id_error :: "string \<Rightarrow> string \<Rightarrow> string \<Rightarrow> string" where
  "broker_id_error head verb name = ''The entity name for '' @ head @ '' must be a valid integer broker id, '' @ verb @ '': '' @ name"

definition check_broker_ids :: "ConfigsArgs \<Rightarrow> string \<Rightarrow> unit list res" where
  "check_broker_ids self head =
     collect_res (\<lambda>(values, option_name).
       res_bind (single_value values option_name) (\<lambda>v.
       case v of
         None \<Rightarrow> Inr ()
       | Some name \<Rightarrow> map_sum (\<lambda>_. broker_id_error head ''but it is'' name) (\<lambda>_. ()) (parse_int name)))
       [(es_entity_names (cf_entity self), ''entity-name''), (cf_broker self, ''broker''), (cf_broker_logger self, ''broker-logger'')]"

definition check_ips :: "(string \<Rightarrow> bool) \<Rightarrow> ConfigsArgs \<Rightarrow> string \<Rightarrow> unit list res" where
  "check_ips resolves self head =
     collect_res (\<lambda>(values, option_name).
       res_bind (single_value values option_name) (\<lambda>v.
       case v of
         None \<Rightarrow> Inr ()
       | Some ip \<Rightarrow> refuse (\<not> resolves ip) (''The entity name for '' @ head @ '' must be a valid IP or resolvable host, but it is: '' @ ip)))
       [(es_entity_names (cf_entity self), ''entity-name''), (cf_ip self, ''ip'')]"

definition describe_plan :: "ConfigsArgs \<Rightarrow> string \<Rightarrow> string list \<Rightarrow> string list \<Rightarrow> ConfigsPlan res option" where
  "describe_plan self head types names =
     (if head \<in> {TOPICS, BROKERS, BROKER_LOGGERS, CLIENT_METRICS, GROUPS}
      then let name = (case names of [] \<Rightarrow> None | n # _ \<Rightarrow> Some n)
           in run_bind (Some (case name of Some n \<Rightarrow> if head = TOPICS then topic_name n else Inr () | None \<Rightarrow> Inr ())) (\<lambda>_.
              map_option (\<lambda>t. Inr (DescribeResources t name (cf_all self))) (static_type head))
      else if length types < length names then Some (Inl ''More entity names specified than entity types'')
      else Some (Inr (DescribeQuotas (quota_components types names)
             (if head \<noteq> IPS \<and> CLIENTS \<notin> set types \<and> [] \<notin> set names then Some names else None))))"

definition configs_to_add :: "(string \<Rightarrow> string res) \<Rightarrow> ConfigsArgs \<Rightarrow> (string \<times> string) list res" where
  "configs_to_add read self =
     res_bind (single_value (cf_add_config_file self) ''add-config-file'') (\<lambda>path.
     res_bind (case path of
         None \<Rightarrow> Inr []
       | Some path \<Rightarrow>
           res_bind (map_sum (\<lambda>e. ''read --add-config-file '' @ path @ '': '' @ e) id (read path)) (\<lambda>bytes.
           map_sum show_config_error id (parse_properties bytes))) (\<lambda>properties.
     res_bind (single_value (cf_add_config self) ''add-config'') (\<lambda>v.
     res_bind (case v of None \<Rightarrow> Inr [] | Some v \<Rightarrow> add_config v) (\<lambda>added.
     let configs = foldl (\<lambda>m e. bt_insert (fst e) (snd e) m) properties added;
         order = hash_map_order (map fst configs) None
     in res_bind (collect_res config_key order) (\<lambda>_.
        Inr (List.map_filter (\<lambda>key. map_option (Pair key) (map_of configs key)) (scala_set_order order)))))))"

text \<open>The keys of the order are those of the map, so that no index fails.\<close>

definition is_quota :: "string \<Rightarrow> bool" where "is_quota key \<longleftrightarrow> key \<in> set USER_AND_CLIENT_QUOTAS"
definition is_scram :: "string \<Rightarrow> bool" where "is_scram key \<longleftrightarrow> from_config_key key \<noteq> None"

definition only_quotas_error :: "string \<Rightarrow> string \<Rightarrow> string \<Rightarrow> string" where
  "only_quotas_error what entity_type names =
     ''Only '' @ what @ '' for '' @ [CHR 0x27] @ entity_type @ [CHR 0x27] @ '' using --bootstrap-server. Unexpected config names: '' @ names"

definition check_user_or_client :: "string \<Rightarrow> string list \<Rightarrow> string \<Rightarrow> string list \<Rightarrow> string list \<Rightarrow> unit res" where
  "check_user_or_client head types name add_keys deletes =
     (let unknown_adds = filter (\<lambda>key. \<not> is_quota key \<and> \<not> is_scram key) add_keys;
          scram_adds = filter is_scram add_keys;
          unknown_deletes = filter (\<lambda>key. \<not> is_quota key \<and> \<not> is_scram key) deletes;
          scram_deletes = filter is_scram deletes
      in if head = CLIENTS \<or> length types = 2
         then if unknown_adds \<noteq> [] \<or> scram_adds \<noteq> []
              then Inl (only_quotas_error ''quota configs can be added'' CLIENTS (scala_set (dedup (unknown_adds @ scram_adds))))
              else if unknown_deletes \<noteq> [] \<or> scram_deletes \<noteq> []
              then Inl (only_quotas_error ''quota configs can be deleted'' CLIENTS (scala_buffer (unknown_deletes @ scram_deletes)))
              else Inr ()
         else if unknown_adds \<noteq> []
         then Inl (only_quotas_error ''quota and SCRAM credential configs can be added'' USERS (scala_set unknown_adds))
         else if unknown_deletes \<noteq> []
         then Inl (only_quotas_error ''quota and SCRAM credential configs can be deleted'' USERS (scala_buffer unknown_deletes))
         else if scram_adds \<noteq> [] \<or> scram_deletes \<noteq> []
         then if name = []
              then Inl ''The use of --entity-default or --user-defaults is not allowed with User SCRAM Credentials using --bootstrap-server.''
              else refuse (list_ex is_quota add_keys \<or> list_ex is_quota deletes)
                (''Cannot alter both quota and SCRAM credential configs simultaneously for '' @ [CHR 0x27] @ USERS @ [CHR 0x27] @ '' using --bootstrap-server.'')
         else Inr ())"

definition scram_changes :: "(string \<times> string) list \<Rightarrow> string list \<Rightarrow> ScramChange list res" where
  "scram_changes adds deletes =
     res_bind (collect_res (\<lambda>(mechanism, v). map_sum id Upsert (scram_credential mechanism v))
       (List.map_filter (\<lambda>(key, v). map_option (\<lambda>m. (m, v)) (from_config_key key)) adds)) (\<lambda>upserts.
     Inr (List.map_filter (\<lambda>key. map_option Delete (from_config_key key)) deletes @ upserts))"

fun empty_password :: "ScramChange \<Rightarrow> bool" where
  "empty_password (Upsert credential) = (sc_password credential = [])"
| "empty_password (Delete _) = False"

definition alter_user_or_client_plan ::
    "string \<Rightarrow> string list \<Rightarrow> string list \<Rightarrow> (string \<times> string) list \<Rightarrow> string list \<Rightarrow> ConfigsPlan res option" where
  "alter_user_or_client_plan head types names adds deletes =
     (case names of
        [] \<Rightarrow> None
      | name # _ \<Rightarrow>
          run_bind (Some (check_user_or_client head types name (map fst adds) deletes)) (\<lambda>_.
          if list_ex is_quota (map fst adds) \<or> list_ex is_quota deletes
          then map_option (\<lambda>t. Inr (AlterQuotas t name (quota_entity types names) (quota_components types names) adds deletes)) (static_type head)
          else run_bind (Some (scram_changes adds deletes)) (\<lambda>changes.
            if list_ex empty_password changes then Some (Inl ''Password must not be empty'')
            else if 1 < length changes then Some (Inl ALTERED_TWICE)
            else if length types = 2
            then Some (Inl (''Altering user SCRAM credentials should never occur for more zero or multiple users: List('' @ join_with '', '' names @ '')''))
            else Some (Inr (AlterUserScram (if head = CLIENTS then CLIENTS else USERS) name (if changes = [] then None else Some (last changes)))))))"

definition alter_plan :: "(string \<Rightarrow> string res) \<Rightarrow> ConfigsArgs \<Rightarrow> string \<Rightarrow> string list \<Rightarrow> string list \<Rightarrow> ConfigsPlan res option" where
  "alter_plan read self head types names =
     run_bind (Some (configs_to_add read self)) (\<lambda>adds.
     let deletes = map java_trim (cf_delete_config self)
     in case names of
          [] \<Rightarrow> None
        | name # _ \<Rightarrow>
            if head \<in> {TOPICS, CLIENT_METRICS, BROKERS, GROUPS}
            then run_bind (Some (if head = BROKERS \<and> name \<noteq> []
                then map_sum (\<lambda>_. broker_id_error head ''found'' name) (\<lambda>_. ()) (parse_int name) else Inr ())) (\<lambda>_.
              map_option (\<lambda>t. Inr (AlterResource t name deletes adds)) (static_type head))
            else if head = BROKER_LOGGERS then Some (Inr (AlterBrokerLoggers name deletes adds))
            else if head = IPS
            then let unknown = join_with '','' (filter (\<lambda>key. key \<notin> set IP_QUOTAS) (map fst adds @ deletes))
                 in if unknown \<noteq> [] then Some (Inl (only_quotas_error ''connection quota configs can be added'' IPS unknown))
                    else Some (Inr (AlterQuotas IPS name (quota_entity types names) (quota_components types names) adds deletes))
            else alter_user_or_client_plan head types names adds deletes)"

definition head_type :: "string list \<Rightarrow> string res" where
  "head_type types =
     (case types of
        [] \<Rightarrow> Inl ''At least one entity type must be specified''
      | [head] \<Rightarrow> Inr head
      | [head, other] \<Rightarrow>
          (if head \<in> {USERS, CLIENTS} \<and> other \<in> {USERS, CLIENTS} then Inr head
           else Inl (''Only '' @ [CHR 0x27] @ ''users'' @ [CHR 0x27] @ '' and '' @ [CHR 0x27] @ ''clients'' @ [CHR 0x27] @ '' entity types may be specified together''))
      | _ \<Rightarrow> Inl (''Only '' @ [CHR 0x27] @ ''users'' @ [CHR 0x27] @ '' and '' @ [CHR 0x27] @ ''clients'' @ [CHR 0x27] @ '' entity types may be specified together''))"

text \<open>The types beyond the first of each kind: every distinct type is removed from the list once.\<close>

definition extra_types :: "string list \<Rightarrow> string list" where
  "extra_types types = fold remove1 (dedup types) types"

definition cannot_describe_with :: "string \<Rightarrow> string" where
  "cannot_describe_with option_name =
     ''Option '' @ [CHR 0x22] @ ''[describe]'' @ [CHR 0x22] @ '' can'' @ [CHR 0x27] @ ''t be used with option '' @ [CHR 0x22] @ ''['' @ option_name @ '']'' @ [CHR 0x22]"

definition check_entities :: "ConfigsArgs \<Rightarrow> string res" where
  "check_entities self =
     (let types = entity_types self
      in res_bind (refuse (cf_alter self = cf_describe self) ''Command must include exactly one action: --describe, --alter'') (\<lambda>_.
         res_bind (refuse (cf_describe self \<and> cf_add_config self \<noteq> []) (cannot_describe_with ''add-config'')) (\<lambda>_.
         res_bind (refuse (cf_describe self \<and> cf_delete_config self \<noteq> []) (cannot_describe_with ''delete-config'')) (\<lambda>_.
         res_bind (refuse (extra_types types \<noteq> []) (''Duplicate entity type(s) specified: '' @ join_with '','' (extra_types types))) (\<lambda>_.
         res_bind (refuse (cf_bootstrap_server self = [] \<and> cf_bootstrap_controller self = [])
           ''Either --bootstrap-server or --bootstrap-controller must be specified.'') (\<lambda>_.
         res_bind (case List.find (\<lambda>t. t \<notin> set ENTITY_TYPES) types of
             Some invalid \<Rightarrow> Inl (''Invalid entity type '' @ invalid @ '', the entity type must be one of '' @ join_with '', '' ENTITY_TYPES @
               '' with a --bootstrap-server or --bootstrap-controller argument'')
           | None \<Rightarrow> Inr ()) (\<lambda>_.
         res_bind (head_type types) (\<lambda>head.
         res_bind (refuse ((es_names (cf_entity self) \<noteq> [] \<or> cf_entity_type self \<noteq> []) \<and> has_entity_flag self)
           ''--entity-{type,name,default} should not be used in conjunction with specific entity flags'') (\<lambda>_.
         Inr head)))))))))"

definition check_alter :: "ConfigsArgs \<Rightarrow> string list \<Rightarrow> string list \<Rightarrow> unit res" where
  "check_alter self types names =
     (let has_name = (\<exists>name \<in> set names. name \<noteq> []); has_default = [] \<in> set names
      in res_bind (if set types \<inter> {USERS, CLIENTS, BROKERS, IPS} \<noteq> {}
           then refuse (\<not> has_name \<and> \<not> has_default)
             ''An entity-name or default entity must be specified with --alter of users, clients, brokers or ips''
           else refuse (\<not> has_name) (''An entity name must be specified with --alter of '' @ join_with '','' types)) (\<lambda>_.
         res_bind (refuse (cf_add_config self \<noteq> [] \<and> cf_add_config_file self \<noteq> [])
           ''Only one of --add-config or --add-config-file must be specified'') (\<lambda>_.
         res_bind (refuse (cf_add_config self = [] \<and> cf_add_config_file self = [] \<and> cf_delete_config self = [])
           ''At least one of --add-config, --add-config-file, or --delete-config must be specified with --alter'') (\<lambda>_.
         refuse (length types \<noteq> length names) ''An entity name must be specified for every entity type''))))"

definition configs_plan :: "(string \<Rightarrow> bool) \<Rightarrow> (string \<Rightarrow> string res) \<Rightarrow> ConfigsArgs \<Rightarrow> ConfigsPlan res option" where
  "configs_plan resolves read self =
     (let types = entity_types self
      in run_bind (Some (check_entities self)) (\<lambda>head.
         run_bind (Some (entity_names self)) (\<lambda>names.
         let has_name = (\<exists>name \<in> set names. name \<noteq> [])
         in run_bind (Some (if has_name \<and> (BROKERS \<in> set types \<or> BROKER_LOGGERS \<in> set types) then check_broker_ids self head else Inr [])) (\<lambda>_.
            run_bind (Some (if has_name \<and> IPS \<in> set types then check_ips resolves self head else Inr [])) (\<lambda>_.
            if cf_describe self
            then run_bind (Some (refuse (set types \<inter> {USERS, CLIENTS, BROKERS, IPS} = {} \<and> es_entity_default (cf_entity self))
                (''--entity-default must not be specified with --describe of '' @ join_with '','' types))) (\<lambda>_.
              run_bind (Some (refuse (BROKER_LOGGERS \<in> set types \<and> \<not> has_name)
                (''An entity name must be specified with --describe of '' @ join_with '','' types))) (\<lambda>_.
              describe_plan self head types names))
            else run_bind (Some (check_alter self types names)) (\<lambda>_. alter_plan read self head types names))))))"

section \<open>Lines and data\<close>

record Synonym =
  sy_source :: int
  sy_name :: string
  sy_value :: "string option"

record DescribedConfig =
  dc_name :: string
  dc_value :: "string option"
  dc_sensitive :: bool
  dc_synonyms :: "Synonym list"

text \<open>An entry of the client, with its source by wire id.\<close>

record ResourceEntry =
  rs_name :: string
  rs_value :: "string option"
  rs_is_sensitive :: bool
  rs_source :: int
  rs_synonyms :: "Synonym list"

definition described_of_entry :: "ResourceEntry \<Rightarrow> DescribedConfig" where
  "described_of_entry entry =
     \<lparr>dc_name = rs_name entry, dc_value = rs_value entry, dc_sensitive = rs_is_sensitive entry,
      dc_synonyms = map (\<lambda>s. \<lparr>sy_source = sy_source s, sy_name = sy_name s, sy_value = sy_value s\<rparr>) (rs_synonyms entry)\<rparr>"

definition shown_value :: "DescribedConfig \<Rightarrow> string option" where
  "shown_value self = (if dc_sensitive self then None else dc_value self)"

definition shown_synonym_value :: "DescribedConfig \<Rightarrow> Synonym \<Rightarrow> string option" where
  "shown_synonym_value self synonym = (if dc_sensitive self then None else sy_value synonym)"

definition config_source_name :: "int \<Rightarrow> string" where
  "config_source_name n =
     (if n = 1 then ''DYNAMIC_TOPIC_CONFIG'' else if n = 2 then ''DYNAMIC_BROKER_CONFIG'' else if n = 3 then ''DYNAMIC_DEFAULT_BROKER_CONFIG''
      else if n = 4 then ''STATIC_BROKER_CONFIG'' else if n = 5 then ''DEFAULT_CONFIG'' else if n = 6 then ''DYNAMIC_BROKER_LOGGER_CONFIG''
      else if n = 7 then ''DYNAMIC_CLIENT_METRICS_CONFIG'' else if n = 8 then ''DYNAMIC_GROUP_CONFIG'' else ''UNKNOWN'')"

definition or_null :: "string option \<Rightarrow> string" where
  "or_null v = (case v of Some s \<Rightarrow> s | None \<Rightarrow> ''null'')"

definition config_line :: "DescribedConfig \<Rightarrow> string" where
  "config_line self =
     ''  '' @ dc_name self @ ''='' @ or_null (shown_value self) @ '' sensitive='' @ (if dc_sensitive self then ''true'' else ''false'') @ '' synonyms={'' @
     join_with '', '' (map (\<lambda>s. config_source_name (sy_source s) @ '':'' @ sy_name s @ ''='' @ or_null (shown_synonym_value self s)) (dc_synonyms self)) @ ''}''"

definition config_json :: "DescribedConfig \<Rightarrow> json" where
  "config_json self =
     JObject [(''name'', JString (dc_name self)), (''value'', opt_json (shown_value self)), (''sensitive'', JBool (dc_sensitive self)),
       (''synonyms'', JArray (map (\<lambda>s. JObject [(''source'', JString (config_source_name (sy_source s))), (''name'', JString (sy_name s)),
         (''value'', opt_json (shown_synonym_value self s))]) (dc_synonyms self)))]"

text \<open>\<open>entityType.dropRight(1)\<close>; the entity types are ASCII.\<close>

definition singular :: "string \<Rightarrow> string" where
  "singular entity_type = butlast entity_type"

definition config_header :: "string \<Rightarrow> string \<Rightarrow> bool \<Rightarrow> string" where
  "config_header entity_type entity all =
     (if entity = [] then ''Default configs for '' @ entity_type @ '' in the cluster are:''
      else (if all then ''All'' else ''Dynamic'') @ '' configs for '' @ singular entity_type @ '' '' @ entity @ '' are:'')"

definition missing_entity :: "string \<Rightarrow> string \<Rightarrow> string" where
  "missing_entity entity_type entity =
     ''The '' @ singular entity_type @ '' '' @ [CHR 0x27] @ entity @ [CHR 0x27] @ '' doesn'' @ [CHR 0x27] @ ''t exist and doesn'' @ [CHR 0x27] @ ''t have dynamic config.''"

definition entity_label :: "ClientQuotaEntity \<Rightarrow> string \<times> string \<Rightarrow> string option" where
  "entity_label entity = (\<lambda>(entity_type, label).
     map_option (\<lambda>name. case name of Some n \<Rightarrow> label @ '' '' @ [CHR 0x27] @ n @ [CHR 0x27] | None \<Rightarrow> ''the default '' @ label) (map_of entity entity_type))"

text \<open>The values print as doubles; a value that does not is a panic.\<close>

fun quota_entries :: "(string, Double) btmap \<Rightarrow> string list \<Rightarrow> string list option" where
  "quota_entries values [] = Some []"
| "quota_entries values (key # keys) =
     Option.bind (map_of values key) (\<lambda>v. Option.bind (double_to_string v) (\<lambda>s. map_option ((#) (key @ ''='' @ s)) (quota_entries values keys)))"

definition quota_line :: "ClientQuotaEntity \<times> (string, Double) btmap \<Rightarrow> string option" where
  "quota_line = (\<lambda>(entity, values).
     let names = join_with '', '' (List.map_filter (entity_label entity) [(ENTITY_USER, ''user-principal''), (ENTITY_CLIENT_ID, ''client-id''), (ENTITY_IP, ''ip'')])
     in map_option (\<lambda>entries. ''Quota configs for '' @ names @ '' are '' @ join_with '', '' entries)
          (quota_entries values (hash_map_order (map fst values) (Some (length values)))))"

definition quota_json :: "(Double \<Rightarrow> json) \<Rightarrow> ClientQuotaEntity \<times> (string, Double) btmap \<Rightarrow> json" where
  "quota_json float_json = (\<lambda>(entity, values).
     JObject [(''entity'', JObject (map (\<lambda>(k, v). (k, opt_json v)) entity)), (''values'', JObject (map (\<lambda>(k, v). (k, float_json v)) values))])"

definition RESOURCE_NOT_FOUND :: int where "RESOURCE_NOT_FOUND = 91"

record UserScram =
  su_username :: string
  su_credentials :: "(string \<times> int) list"
  su_error :: "KafkaError option"

text \<open>Each user stands for the first result of its name, which is in the answer.\<close>

definition described_users :: "UserScram list \<Rightarrow> UserScram list" where
  "described_users users =
     map (\<lambda>user. case List.find (\<lambda>first. su_username first = su_username user) users of Some first \<Rightarrow> first | None \<Rightarrow> user)
       (filter (\<lambda>user. case su_error user of Some e \<Rightarrow> ke_code e \<noteq> RESOURCE_NOT_FOUND | None \<Rightarrow> True) users)"

definition scram_line :: "UserScram \<Rightarrow> string" where
  "scram_line user =
     (case su_error user of
        Some e \<Rightarrow>
          (let exception = for_code (ke_code e)
           in ''Error retrieving SCRAM credential configs for user-principal '' @ [CHR 0x27] @ su_username user @ [CHR 0x27] @ '': ExecutionException: '' @
              ex_class exception @ '': '' @ (case ke_message e of Some m \<Rightarrow> m | None \<Rightarrow> ex_message exception))
      | None \<Rightarrow>
          ''SCRAM credential configs for user-principal '' @ [CHR 0x27] @ su_username user @ [CHR 0x27] @ '' are '' @
          join_with '', '' (map (\<lambda>(mechanism, n). mechanism @ ''=iterations='' @ show_int n) (su_credentials user)))"

definition scram_json :: "UserScram \<Rightarrow> json" where
  "scram_json user =
     JObject [(''user'', JString (su_username user)),
       (''credentials'', JArray (map (\<lambda>(mechanism, n). JObject [(''mechanism'', JString mechanism), (''iterations'', JInt n)]) (su_credentials user))),
       (''error'', kafka_error (su_error user))]"

section \<open>Running a plan\<close>

datatype ConfigResourceType = Res_Topic | Res_Broker | Res_BrokerLogger | Res_ClientMetrics | Res_Group

type_synonym ResourceName = "ConfigResourceType \<times> string"
type_synonym ResourceConfig = "(string, ResourceEntry) btmap"

datatype ConfigOp = OpDelete string string | OpSet string string

datatype QuotaChange = SetQuota string Double | RemoveQuota string

record ScramUpsertion =
  up_username :: string
  up_password :: string
  up_iterations :: int

record 'c ConfigsEnv =
  cfx_connect :: "('c, unit) cmd"
  cfx_describe_configs :: "ResourceName list \<Rightarrow> bool \<Rightarrow> 'c \<Rightarrow> (AdminError + (ResourceName \<times> (KafkaError + ResourceConfig)) list) \<times> 'c"
  cfx_describe_cluster :: "'c \<Rightarrow> (AdminError + int list) \<times> 'c"
  cfx_list_topics :: "'c \<Rightarrow> (AdminError + string list) \<times> 'c"
  cfx_list_config_resources :: "ConfigResourceType \<Rightarrow> 'c \<Rightarrow> (AdminError + string list) \<times> 'c"
  cfx_list_groups :: "'c \<Rightarrow> (AdminError + (KafkaError + string list)) \<times> 'c"
  cfx_describe_client_quotas :: "FilterComponent list \<Rightarrow> 'c \<Rightarrow> (AdminError + (ClientQuotaEntity \<times> (string, Double) btmap) list) \<times> 'c"
  cfx_describe_user_scram :: "string list \<Rightarrow> 'c \<Rightarrow> (AdminError + UserScram list) \<times> 'c"
  cfx_incremental_alter_configs :: "ResourceName \<Rightarrow> ConfigOp list \<Rightarrow> 'c \<Rightarrow> (AdminError + (KafkaError + unit) list) \<times> 'c"
  cfx_alter_client_quotas :: "ClientQuotaEntity \<Rightarrow> QuotaChange list \<Rightarrow> 'c \<Rightarrow> (AdminError + (KafkaError + unit) list) \<times> 'c"
  cfx_alter_user_scram :: "Mechanism \<Rightarrow> ScramUpsertion list \<Rightarrow> string list \<Rightarrow> 'c \<Rightarrow> (AdminError + KafkaError option list) \<times> 'c"
  cfx_dynamic_source :: "ResourceName \<Rightarrow> int option"
  cfx_debug :: "ResourceName \<Rightarrow> string"
  cfx_parse_f64 :: "string \<Rightarrow> Double option"
  cfx_float_json :: "Double \<Rightarrow> json"

text \<open>The client's calls: the cluster by node ids, topics and groups by name, quotas for the filter that contains only the components, one resource or
  entity per alteration with the outcomes in order, and the SCRAM request of a mechanism with the users to delete. \<open>cfx_dynamic_source\<close>, \<open>cfx_debug\<close>,
  \<open>cfx_parse_f64\<close> and \<open>cfx_float_json\<close> are functions of the client and the libraries.\<close>

definition configs_broker_error :: "string \<Rightarrow> KafkaError \<Rightarrow> CommandError" where
  "configs_broker_error api error = ErrBroker api (ke_code error) (ke_name error) (ke_message error)"

definition completed :: "string \<Rightarrow> string \<Rightarrow> CommandResult" where
  "completed entity_type name =
     result_success
       [if name = [] then ''Completed updating default config for '' @ entity_type @ '' in the cluster.''
        else ''Completed updating config for '' @ singular entity_type @ '' '' @ name @ ''.'']
       (JObject [(''entity_type'', JString entity_type), (''entity_name'', JString name)])"

definition UNSUPPORTED_VERSION_CODE :: int where "UNSUPPORTED_VERSION_CODE = 35"
definition CLUSTER_AUTHORIZATION_CODE :: int where "CLUSTER_AUTHORIZATION_CODE = 31"

definition INCREMENTAL_ALTER_CONFIGS_UNSUPPORTED :: string where
  "INCREMENTAL_ALTER_CONFIGS_UNSUPPORTED =
     ''The INCREMENTAL_ALTER_CONFIGS API is not supported by the cluster. The API is supported starting from version 2.3.0. You may want to use an older version of this tool to interact with your cluster, or upgrade your brokers to version 2.3.0 or newer to avoid this error.''"

definition config_resource :: "string \<Rightarrow> string \<Rightarrow> ResourceName" where
  "config_resource entity_type name =
     (if entity_type = TOPICS then Res_Topic else if entity_type = BROKERS then Res_Broker else if entity_type = BROKER_LOGGERS then Res_BrokerLogger
      else if entity_type = CLIENT_METRICS then Res_ClientMetrics else Res_Group, name)"

definition dynamic_source :: "'c ConfigsEnv \<Rightarrow> ResourceName \<Rightarrow> int option" where
  "dynamic_source env resource = (if fst resource = Res_BrokerLogger then None else cfx_dynamic_source env resource)"

fun admin_kafka_error :: "AdminError \<Rightarrow> KafkaError" where
  "admin_kafka_error (AdminBroker _ code name message) = \<lparr>ke_code = code, ke_name = name, ke_message = message\<rparr>"
| "admin_kafka_error (AdminIncompatibleVersion s) = \<lparr>ke_code = UNSUPPORTED_VERSION_CODE, ke_name = ''UNSUPPORTED_VERSION'', ke_message = Some s\<rparr>"
| "admin_kafka_error (AdminConnect s) = \<lparr>ke_code = - 1, ke_name = ''UNKNOWN_SERVER_ERROR'', ke_message = Some s\<rparr>"
| "admin_kafka_error (AdminOther s) = \<lparr>ke_code = - 1, ke_name = ''UNKNOWN_SERVER_ERROR'', ke_message = Some s\<rparr>"

fun first_error :: "('e + unit) list \<Rightarrow> 'e + unit" where
  "first_error [] = Inr ()"
| "first_error (Inl e # _) = Inl e"
| "first_error (Inr _ # rs) = first_error rs"

definition config_ops :: "string list \<Rightarrow> (string \<times> string) list \<Rightarrow> ConfigOp list" where
  "config_ops deletes sets = map (\<lambda>name. OpDelete name []) deletes @ map (\<lambda>(key, v). OpSet key v) sets"

definition alter_resource ::
    "'c ConfigsEnv \<Rightarrow> ResourceName \<Rightarrow> string list \<Rightarrow> (string \<times> string) list \<Rightarrow> (KafkaError \<Rightarrow> CommandError) \<Rightarrow> ('c, unit) cmd" where
  "alter_resource env resource deletes sets failure =
     cmd_bind (cmd_admin_as (\<lambda>e. failure (admin_kafka_error e)) (cfx_incremental_alter_configs env resource (config_ops deletes sets))) (\<lambda>outcomes.
     cmd_res (map_sum failure id (first_error outcomes)))"

definition resource_config :: "'c ConfigsEnv \<Rightarrow> ResourceName \<Rightarrow> bool \<Rightarrow> ('c, ResourceConfig) cmd" where
  "resource_config env resource include_synonyms =
     cmd_bind (cmd_admin (cfx_describe_configs env [resource] include_synonyms)) (\<lambda>answers.
     case map_of answers resource of
       Some (Inr config) \<Rightarrow> cmd_ret config
     | Some (Inl error) \<Rightarrow> cmd_fail (configs_broker_error ''DescribeConfigs'' error)
     | None \<Rightarrow> cmd_fail (ErrOther (''DescribeConfigs gave no result for '' @ cfx_debug env resource)))"

definition quota_ops :: "(string \<Rightarrow> Double option) \<Rightarrow> (string \<times> string) list \<Rightarrow> string list \<Rightarrow> QuotaChange list res" where
  "quota_ops parse_f64 sets deletes =
     res_bind (collect_res (\<lambda>(key, v).
         map_sum id (SetQuota key) (ok_or (''Cannot parse quota configuration value for '' @ key @ '': '' @ v) (parse_double parse_f64 v))) sets) (\<lambda>ops.
     Inr (ops @ map RemoveQuota deletes))"

definition quota_entity_hash :: "ClientQuotaEntity \<Rightarrow> 32 word" where
  "quota_entity_hash entity =
     31 + foldl (\<lambda>sum (entity_type, name). sum + (string_hash entity_type XOR (case name of Some n \<Rightarrow> string_hash n | None \<Rightarrow> 0))) 0 entity"

definition quota_order :: "(ClientQuotaEntity \<times> (string, Double) btmap) list \<Rightarrow> (ClientQuotaEntity \<times> (string, Double) btmap) list" where
  "quota_order quotas = hash_order quotas (WithCapacity (length quotas)) (\<lambda>(entity, _). quota_entity_hash entity)"

definition broker_ids :: "'c ConfigsEnv \<Rightarrow> ('c, string list) cmd" where
  "broker_ids env = cmd_bind (cmd_admin (cfx_describe_cluster env)) (\<lambda>nodes. cmd_ret (map show_int (hash_order nodes Default integer_hash)))"

definition cluster_topics :: "'c ConfigsEnv \<Rightarrow> ('c, string list) cmd" where
  "cluster_topics env = cmd_bind (cmd_admin (cfx_list_topics env)) (\<lambda>topics. cmd_ret (hash_map_order topics None))"

definition client_metrics_names :: "'c ConfigsEnv \<Rightarrow> ('c, string list) cmd" where
  "client_metrics_names env = cmd_admin (cfx_list_config_resources env Res_ClientMetrics)"

definition group_ids :: "'c ConfigsEnv \<Rightarrow> ('c, string list) cmd" where
  "group_ids env = cmd_bind (cmd_admin (cfx_list_groups env)) (\<lambda>listed. cmd_res (map_sum (configs_broker_error ''ListGroups'') id listed))"

definition group_config_names :: "'c ConfigsEnv \<Rightarrow> ('c, string list option) cmd" where
  "group_config_names env =
     cmd_bind (cmd_call (cfx_list_config_resources env Res_Group)) (\<lambda>answer.
     case answer of
       Inr names \<Rightarrow> cmd_ret (Some names)
     | Inl error \<Rightarrow>
         if ke_code (admin_kafka_error error) \<in> {UNSUPPORTED_VERSION_CODE, CLUSTER_AUTHORIZATION_CODE} then cmd_ret None
         else cmd_fail (from_admin_error error))"

definition entity_exists :: "'c ConfigsEnv \<Rightarrow> string \<Rightarrow> string \<Rightarrow> ('c, bool) cmd" where
  "entity_exists env entity_type name =
     (if entity_type = TOPICS then cmd_bind (cluster_topics env) (\<lambda>topics. cmd_ret (name \<in> set topics))
      else if entity_type = BROKERS \<or> entity_type = BROKER_LOGGERS then cmd_bind (broker_ids env) (\<lambda>brokers. cmd_ret (name \<in> set brokers \<or> name = []))
      else if entity_type = CLIENT_METRICS then cmd_bind (client_metrics_names env) (\<lambda>names. cmd_ret (name \<in> set names))
      else cmd_bind (group_ids env) (\<lambda>groups.
        if name \<in> set groups then cmd_ret True
        else cmd_bind (group_config_names env) (\<lambda>names. cmd_ret (case names of Some ns \<Rightarrow> name \<in> set ns | None \<Rightarrow> True))))"

definition described_entities :: "'c ConfigsEnv \<Rightarrow> string \<Rightarrow> ('c, string list) cmd" where
  "described_entities env entity_type =
     (if entity_type = TOPICS then cluster_topics env
      else if entity_type = BROKERS \<or> entity_type = BROKER_LOGGERS then cmd_bind (broker_ids env) (\<lambda>brokers. cmd_ret (brokers @ [[]]))
      else if entity_type = CLIENT_METRICS then client_metrics_names env
      else cmd_bind (group_ids env) (\<lambda>groups.
        cmd_bind (group_config_names env) (\<lambda>names. cmd_ret (scala_set_order (groups @ (case names of Some ns \<Rightarrow> ns | None \<Rightarrow> []))))))"

definition shown_configs :: "'c ConfigsEnv \<Rightarrow> bool \<Rightarrow> ResourceName \<Rightarrow> ResourceConfig \<Rightarrow> DescribedConfig list" where
  "shown_configs env all resource config =
     (let source = (if all then None else dynamic_source env resource)
      in map described_of_entry (filter (\<lambda>entry. case source of None \<Rightarrow> True | Some s \<Rightarrow> rs_source entry = s) (map snd config)))"

fun describe_entities :: "'c ConfigsEnv \<Rightarrow> string \<Rightarrow> bool \<Rightarrow> string list \<Rightarrow> ('c, string list \<times> json list) cmd" where
  "describe_entities env entity_type all [] = cmd_ret ([], [])"
| "describe_entities env entity_type all (entity # entities) =
     (let resource = config_resource entity_type entity
      in cmd_bind (resource_config env resource True) (\<lambda>config.
         let configs = shown_configs env all resource config
         in cmd_bind (describe_entities env entity_type all entities) (\<lambda>(human, data).
            cmd_ret (config_header entity_type entity all # map config_line configs @ human,
              JObject [(''entity_type'', JString entity_type), (''entity_name'', JString entity), (''exists'', JBool True),
                (''configs'', JArray (map config_json configs))] # data))))"

definition describe_resources :: "'c ConfigsEnv \<Rightarrow> string \<Rightarrow> string option \<Rightarrow> bool \<Rightarrow> ('c, CommandResult) cmd" where
  "describe_resources env entity_type name all =
     cmd_bind (case name of Some n \<Rightarrow> if all then cmd_ret True else entity_exists env entity_type n | None \<Rightarrow> cmd_ret True) (\<lambda>known.
     if \<not> known
     then let n = (case name of Some n \<Rightarrow> n | None \<Rightarrow> [])
          in cmd_ret (result_success [missing_entity entity_type n]
            (JArray [JObject [(''entity_type'', JString entity_type), (''entity_name'', JString n), (''exists'', JBool False), (''configs'', JArray [])]]))
     else cmd_bind (case name of Some n \<Rightarrow> cmd_ret [n] | None \<Rightarrow> described_entities env entity_type) (\<lambda>entities.
       cmd_bind (describe_entities env entity_type all entities) (\<lambda>(human, data).
       cmd_ret (result_success human (JArray data)))))"

fun quota_lines :: "(ClientQuotaEntity \<times> (string, Double) btmap) list \<Rightarrow> string list option" where
  "quota_lines [] = Some []"
| "quota_lines (e # es) = Option.bind (quota_line e) (\<lambda>line. map_option ((#) line) (quota_lines es))"

definition describe_quotas :: "'c ConfigsEnv \<Rightarrow> FilterComponent list \<Rightarrow> string list option \<Rightarrow> ('c, CommandResult) cmd" where
  "describe_quotas env components scram_users =
     cmd_bind (cmd_admin (cfx_describe_client_quotas env components)) (\<lambda>quotas.
     let ordered = quota_order quotas
     in cmd_bind (cmd_index (quota_lines ordered)) (\<lambda>human.
        cmd_bind (case scram_users of
            None \<Rightarrow> cmd_ret []
          | Some users \<Rightarrow> cmd_bind (cmd_admin (cfx_describe_user_scram env users)) (\<lambda>described. cmd_ret (described_users described))) (\<lambda>users.
        cmd_ret (result_success (human @ map scram_line users)
          (JObject [(''quotas'', JArray (map (quota_json (cfx_float_json env)) ordered)), (''scram_credentials'', JArray (map scram_json users))])))))"

definition alter_quotas ::
    "'c ConfigsEnv \<Rightarrow> string \<Rightarrow> string \<Rightarrow> ClientQuotaEntity \<Rightarrow> FilterComponent list \<Rightarrow> (string \<times> string) list \<Rightarrow> string list \<Rightarrow> ('c, CommandResult) cmd" where
  "alter_quotas env entity_type name entity components sets deletes =
     cmd_bind (cmd_admin (cfx_describe_client_quotas env components)) (\<lambda>described.
     let current = (case quota_order described of [] \<Rightarrow> [] | (_, values) # _ \<Rightarrow> values);
         invalid = filter (\<lambda>key. map_of current key = None) deletes
     in if invalid \<noteq> [] then cmd_fail (ErrOther (''Invalid config(s): '' @ join_with '','' invalid))
        else cmd_bind (cmd_try (quota_ops (cfx_parse_f64 env) sets deletes)) (\<lambda>ops.
          cmd_bind (cmd_admin (cfx_alter_client_quotas env entity ops)) (\<lambda>results.
          cmd_bind (cmd_res (map_sum (configs_broker_error ''AlterClientQuotas'') id (first_error results))) (\<lambda>_.
          cmd_ret (completed entity_type name)))))"

definition alter_user_scram :: "'c ConfigsEnv \<Rightarrow> string \<Rightarrow> string \<Rightarrow> ScramChange option \<Rightarrow> ('c, CommandResult) cmd" where
  "alter_user_scram env entity_type name change =
     cmd_bind (case change of
         None \<Rightarrow> cmd_ret []
       | Some (Upsert credential) \<Rightarrow>
           cmd_admin (cfx_alter_user_scram env (sc_mechanism credential)
             [\<lparr>up_username = name, up_password = sc_password credential, up_iterations = sc_iterations credential\<rparr>] [])
       | Some (Delete mechanism) \<Rightarrow> cmd_admin (cfx_alter_user_scram env mechanism [] [name])) (\<lambda>outcomes.
     case List.map_filter id outcomes of
       e # _ \<Rightarrow> cmd_fail (configs_broker_error ''AlterUserScramCredentials'' e)
     | [] \<Rightarrow> cmd_ret (completed entity_type name))"

definition alter_failure :: "KafkaError \<Rightarrow> CommandError" where
  "alter_failure error =
     (if ke_code error = UNSUPPORTED_VERSION_CODE then ErrOther INCREMENTAL_ALTER_CONFIGS_UNSUPPORTED else configs_broker_error ''IncrementalAlterConfigs'' error)"

definition alter_broker_loggers :: "'c ConfigsEnv \<Rightarrow> string \<Rightarrow> string list \<Rightarrow> (string \<times> string) list \<Rightarrow> ('c, CommandResult) cmd" where
  "alter_broker_loggers env broker deletes sets =
     (let resource = config_resource BROKER_LOGGERS broker
      in cmd_bind (resource_config env resource False) (\<lambda>loggers.
         let invalid = filter (\<lambda>logger. map_of loggers logger = None) (deletes @ map fst sets)
         in if invalid \<noteq> [] then cmd_fail (ErrOther (''Invalid broker logger(s): '' @ join_with '','' invalid))
            else cmd_bind (alter_resource env resource deletes sets (configs_broker_error ''IncrementalAlterConfigs'')) (\<lambda>_.
              cmd_ret (completed BROKER_LOGGERS broker))))"

fun execute_configs :: "'c ConfigsEnv \<Rightarrow> ConfigsPlan \<Rightarrow> ('c, CommandResult) cmd" where
  "execute_configs env (DescribeResources entity_type name all) = describe_resources env entity_type name all"
| "execute_configs env (AlterResource entity_type name deletes sets) =
     cmd_bind (alter_resource env (config_resource entity_type name) deletes sets alter_failure) (\<lambda>_. cmd_ret (completed entity_type name))"
| "execute_configs env (AlterBrokerLoggers broker deletes sets) = alter_broker_loggers env broker deletes sets"
| "execute_configs env (DescribeQuotas components scram_users) = describe_quotas env components scram_users"
| "execute_configs env (AlterQuotas entity_type name entity components sets deletes) = alter_quotas env entity_type name entity components sets deletes"
| "execute_configs env (AlterUserScram entity_type name change) = alter_user_scram env entity_type name change"

definition run_configs :: "'c ConfigsEnv \<Rightarrow> (string \<Rightarrow> bool) \<Rightarrow> (string \<Rightarrow> string res) \<Rightarrow> ConfigsArgs \<Rightarrow> ('c, CommandResult) cmd" where
  "run_configs env resolves read self =
     cmd_bind (cmd_bind (cmd_index (configs_plan resolves read self)) cmd_try) (\<lambda>plan.
     cmd_bind (cfx_connect env) (\<lambda>_. execute_configs env plan))"

end
