(* ===== verification/Configs_Values.thy ===== *)
theory Configs_Values
  imports Configs_Parse
begin

text \<open>
  What the values of \<open>kafka-configs\<close> stand for: the order of a Scala set lists each element once, \<open>--add-config\<close> reads grouped values as they are written, a SCRAM
  credential is what the value names and an error never shows the password.
\<close>

section \<open>Scala sets\<close>

lemma sum_single: "(\<Sum>s \<leftarrow> [0 ..< n]. if s = k then {#x#} else {#}) = (if k < n then {#x#} else {#})"
  by (induction n) (auto simp: less_Suc_eq)

lemma filter_slots_mset:
  "(\<forall>x \<in> set xs. f x < n) \<Longrightarrow> (\<Sum>s \<leftarrow> [0 ..< n]. mset (filter (\<lambda>x. f x = s) xs)) = mset xs"
proof (induction xs)
  case (Cons x xs)
  have split: "mset (filter (\<lambda>y. f y = s) (x # xs)) = mset (filter (\<lambda>y. f y = s) xs) + (if s = f x then {#x#} else {#})" for s
    by simp
  from Cons show ?case unfolding split sum_list_addf by (simp add: sum_single)
next
  case Nil
  show ?case by (induction n) simp_all
qed

lemma mset_concat_filter: "mset (concat (map g (filter P xs))) = (\<Sum>x \<leftarrow> xs. if P x then mset (g x) else {#})"
  by (induction xs) simp_all

lemma image_mset_sum_list: "image_mset f (\<Sum>x \<leftarrow> xs. g x) = (\<Sum>x \<leftarrow> xs. image_mset f (g x))"
  by (induction xs) simp_all

lemma champ_slot_less: "champ_slot shift hash < 2 ^ CHAMP_BITS"
proof -
  have "unat (w AND 31) \<le> unat (31 :: 32 word)" for w :: "32 word" by (metis word_and_le1 word_le_nat_alt)
  from this [of "drop_bit shift hash"] show ?thesis by (simp add: champ_slot_def CHAMP_BITS_def)
qed

lemma champ_order_mset: "mset (champ_order items shift) = mset (map snd items)"
proof (induction items shift rule: champ_order.induct)
  case (1 items shift)
  show ?case
  proof (cases "32 \<le> shift")
    case True
    then show ?thesis by (subst champ_order.simps) simp
  next
    case False
    let ?slot = "\<lambda>s. filter (\<lambda>(hash, _). champ_slot shift hash = s) items"
    let ?slots = "map ?slot [0 ..< 2 ^ CHAMP_BITS]"
    have node: "(if length slot = 1 then mset (map snd slot) else {#}) + (if 1 < length slot then mset (champ_order slot (shift + CHAMP_BITS)) else {#}) =
        mset (map snd slot)" if "slot \<in> set ?slots" for slot
      using 1 [OF False refl refl refl, of slot] that by (cases slot) auto
    have "mset (champ_order items shift) =
        (\<Sum>slot \<leftarrow> ?slots. if length slot = 1 then mset (map snd slot) else {#}) +
        (\<Sum>slot \<leftarrow> ?slots. if 1 < length slot then mset (champ_order slot (shift + CHAMP_BITS)) else {#})"
      using False by (subst champ_order.simps) (simp only: Let_def if_False mset_append mset_concat_filter)
    also have "\<dots> = (\<Sum>slot \<leftarrow> ?slots. mset (map snd slot))"
      unfolding sum_list_addf [symmetric] by (intro arg_cong [where f = sum_list] map_cong refl node)
    also have "\<dots> = image_mset snd (\<Sum>s \<leftarrow> [0 ..< 2 ^ CHAMP_BITS]. mset (filter (\<lambda>x. champ_slot shift (fst x) = s) items))"
      by (simp add: image_mset_sum_list comp_def case_prod_unfold)
    also have "\<dots> = mset (map snd items)" by (subst filter_slots_mset) (simp_all add: champ_slot_less)
    finally show ?thesis .
  qed
qed

lemma scala_set_order_mset: "mset (scala_set_order items) = mset (push_unique [] items)"
  by (simp add: scala_set_order_def Let_def champ_order_mset comp_def)

lemma scala_set_order_distinct: "distinct (scala_set_order items)"
  using scala_set_order_mset [THEN mset_eq_imp_distinct_iff] by (simp add: push_unique_distinct)

lemma scala_set_order_set: "set (scala_set_order items) = set items"
  using scala_set_order_mset [THEN mset_eq_setD] by (simp add: push_unique_set)

text \<open>A Scala set lists each of its elements exactly once, in whichever of its orders: the small set and the trie over the improved hash.\<close>

theorem scala_set_order_lists: "distinct (scala_set_order items) \<and> set (scala_set_order items) = set items"
  by (simp add: scala_set_order_distinct scala_set_order_set)

section \<open>Adding configs\<close>

definition grouped :: "string \<times> string \<Rightarrow> string" where
  "grouped = (\<lambda>(key, v). key @ ''=['' @ v @ '']'')"

definition plain_key :: "string \<Rightarrow> bool" where
  "plain_key key \<longleftrightarrow> list_all (\<lambda>c. is_ascii_alphanumeric c \<or> c \<in> {CHR ''$'', CHR ''.'', CHR ''_'', CHR ''-''}) key"

definition ungrouped :: "string \<Rightarrow> bool" where
  "ungrouped v \<longleftrightarrow> CHR ''['' \<notin> set v \<and> CHR '']'' \<notin> set v"

lemma config_key_iff: "config_key key = Inr () \<longleftrightarrow> plain_key key"
  by (simp add: config_key_def plain_key_def)

lemma plain_key_chars:
  "plain_key key \<Longrightarrow> c \<in> set key \<Longrightarrow> c \<notin> {CHR '','', CHR ''='', CHR ''['', CHR '']''} \<and> \<not> is_java_space c \<and> \<not> byte_of c \<le> 32"
  by (auto simp: plain_key_def list_all_iff is_ascii_alphanumeric_def is_ascii_digit_def is_ascii_upper_def is_ascii_lower_def is_java_space_def byte_of_def)

lemma outside_next: "ungrouped pre \<Longrightarrow> outside_brackets (pre @ CHR ''['' # rest)"
  by (auto simp: outside_brackets_def ungrouped_def takeWhile_append)

lemma inside_group: "ungrouped pre \<Longrightarrow> \<not> outside_brackets (pre @ CHR '']'' # rest)"
  by (auto simp: outside_brackets_def ungrouped_def takeWhile_append)

lemma outside_plain: "CHR '']'' \<notin> set rest \<Longrightarrow> outside_brackets rest"
  by (simp add: outside_brackets_def)

text \<open>No separator of the text before \<open>rest\<close> is outside brackets.\<close>

lemma split_pieces_skip:
  "(\<And>pre post. skipped = pre @ separator # post \<Longrightarrow> \<not> outside_brackets (post @ rest)) \<Longrightarrow>
     split_pieces separator space piece (skipped @ rest) = split_pieces separator space (piece @ skipped) rest"
proof (induction skipped arbitrary: piece)
  case (Cons c cs)
  have "\<not> (c = separator \<and> outside_brackets (cs @ rest))" using Cons.prems [of "[]" cs] by auto
  moreover have "split_pieces separator space (piece @ [c]) (cs @ rest) = split_pieces separator space ((piece @ [c]) @ cs) rest"
    by (rule Cons.IH) (use Cons.prems in \<open>metis append_Cons\<close>)
  ultimately show ?case by (simp cong: conj_cong)
qed simp

lemma split_pieces_plain:
  "separator \<notin> set skipped \<Longrightarrow> split_pieces separator space piece (skipped @ rest) = split_pieces separator space (piece @ skipped) rest"
  by (rule split_pieces_skip) simp

lemma split_pieces_group:
  assumes "ungrouped v"
  shows "split_pieces separator space piece (v @ CHR '']'' # rest) = split_pieces separator space (piece @ v) (CHR '']'' # rest)"
proof (rule split_pieces_skip)
  fix pre post assume "v = pre @ separator # post"
  with assms have "ungrouped post" by (auto simp: ungrouped_def)
  then show "\<not> outside_brackets (post @ CHR '']'' # rest)" by (rule inside_group)
qed

lemma split_pieces_grouped:
  assumes "plain_key key" and "ungrouped v"
  shows "split_pieces (CHR '','') space piece (grouped (key, v) @ rest) = split_pieces (CHR '','') space (piece @ grouped (key, v)) rest"
proof -
  have "split_pieces (CHR '','') space piece ((key @ ''=['') @ v @ CHR '']'' # rest) = split_pieces (CHR '','') space (piece @ key @ ''=['') (v @ CHR '']'' # rest)"
    by (rule split_pieces_plain) (use plain_key_chars [OF assms(1)] in auto)
  also have "\<dots> = split_pieces (CHR '','') space ((piece @ key @ ''=['') @ v) ('']'' @ rest)"
    using split_pieces_group [OF assms(2)] by simp
  also have "\<dots> = split_pieces (CHR '','') space (((piece @ key @ ''=['') @ v) @ '']'') rest"
    by (rule split_pieces_plain) simp
  finally show ?thesis by (simp add: grouped_def)
qed

lemma split_entries:
  assumes "entries \<noteq> []" and "\<forall>(key, v) \<in> set entries. plain_key key \<and> ungrouped v"
  shows "split_pieces (CHR '','') False [] (join_with '','' (map grouped entries)) = map grouped entries"
  using assms
proof (induction entries)
  case (Cons e entries)
  note step = Cons
  obtain key v where e: "e = (key, v)" "plain_key key" "ungrouped v" using Cons.prems by (cases e) auto
  show ?case
  proof (cases entries)
    case Nil
    then show ?thesis using split_pieces_grouped [OF e(2,3), of False "[]" "[]"] by (simp add: e)
  next
    case (Cons e' es)
    obtain key' v' where e': "e' = (key', v')" "plain_key key'" using step(3) Cons by (cases e') auto
    let ?rest = "join_with '','' (map grouped entries)"
    obtain tail where tail: "?rest = (key' @ ''='') @ CHR ''['' # tail"
      using Cons e'(1) by (cases es) (auto simp: grouped_def)
    have "outside_brackets ?rest"
      unfolding tail by (rule outside_next) (use plain_key_chars [OF e'(2)] in \<open>auto simp: ungrouped_def\<close>)
    then have "split_pieces (CHR '','') False (grouped e) (CHR '','' # ?rest) = grouped e # split_pieces (CHR '','') False [] ?rest" by simp
    moreover have "join_with '','' (map grouped (e # entries)) = grouped e @ CHR '','' # ?rest" using Cons by simp
    ultimately show ?thesis
      using split_pieces_grouped [OF e(2,3), of False "[]" "CHR '','' # ?rest"] step(1) step(3) Cons e by simp
  qed
qed simp

lemma split_grouped:
  assumes "plain_key key" and "ungrouped v"
  shows "split_config (grouped (key, v)) (CHR ''='') True = [key, ''['' @ v @ '']'']"
proof -
  have "split_pieces (CHR ''='') True [] (key @ CHR ''='' # CHR ''['' # v @ '']'') = split_pieces (CHR ''='') True key (CHR ''='' # CHR ''['' # v @ '']'')"
  proof -
    have "CHR ''='' \<notin> set key" using plain_key_chars [OF assms(1)] by auto
    from split_pieces_plain [OF this, of True "[]"] show ?thesis by (simp only: append_Nil)
  qed
  moreover have "outside_brackets (CHR ''['' # v @ '']'')" using outside_next [of "[]"] by (simp add: ungrouped_def)
  moreover have "rev (dropWhile is_java_space (rev key)) = key"
    using plain_key_chars [OF assms(1)] by (cases key rule: rev_cases) auto
  moreover have "split_pieces (CHR ''='') True [] (CHR ''['' # v @ '']'') = [''['' @ v @ '']'']"
    using split_pieces_group [OF assms(2), of "CHR ''=''" True "''[''" "[]"] by simp
  moreover have "\<not> is_java_space (CHR ''['')" by (simp add: is_java_space_def)
  ultimately show ?thesis by (simp add: split_config_def grouped_def)
qed

lemma java_trim_plain: "plain_key key \<Longrightarrow> java_trim key = key"
proof -
  assume key: "plain_key key"
  have "dropWhile (\<lambda>c. byte_of c \<le> 32) key = key" using plain_key_chars [OF key] by (cases key) auto
  moreover have "dropWhile (\<lambda>c. byte_of c \<le> 32) (rev key) = rev key" using plain_key_chars [OF key] by (cases key rule: rev_cases) auto
  ultimately show ?thesis by (simp add: java_trim_def)
qed

text \<open>\<open>--add-config\<close> reads every list of keys with grouped values as it is written: commas and equals signs inside the brackets belong to the value, of
  which only the spaces around it are lost.\<close>

theorem add_config_roundtrip:
  assumes "entries \<noteq> []" and "\<forall>(key, v) \<in> set entries. config_key key = Inr () \<and> ungrouped v"
  shows "add_config (join_with '','' (map grouped entries)) = Inr (map (\<lambda>(key, v). (key, java_trim v)) entries)"
proof -
  have ok: "\<forall>(key, v) \<in> set entries. plain_key key \<and> ungrouped v" using assms(2) by (simp add: config_key_iff)
  have "last (map grouped entries) \<noteq> []" using assms(1) by (cases entries rule: rev_cases) (auto simp: grouped_def)
  then have "split_config (join_with '','' (map grouped entries)) (CHR '','') False = map grouped entries"
    using assms(1) by (simp add: split_config_def split_entries [OF assms(1) ok] pop_empty_no_trailing Let_def)
  moreover have "map (\<lambda>entry. split_config entry (CHR ''='') True) (map grouped entries) = map (\<lambda>(key, v). [key, ''['' @ v @ '']'']) entries"
    using ok by (auto simp: split_grouped)
  moreover have "added_pair [key, ''['' @ v @ '']''] = (key, java_trim v)" if "plain_key key" "ungrouped v" for key v
  proof -
    have "filter (\<lambda>c. c \<noteq> CHR ''['' \<and> c \<noteq> CHR '']'') v = v" using that(2) by (intro filter_True) (auto simp: ungrouped_def)
    then show ?thesis by (simp add: added_pair_def java_trim_plain [OF that(1)])
  qed
  ultimately show ?thesis using ok by (auto simp: add_config_def Let_def)
qed

theorem add_config_roundtrip_witness:
  "add_config (join_with '','' (map grouped [(''a.b'', ''x=1,y''), (''c'', [])])) = Inr [(''a.b'', ''x=1,y''), (''c'', [])]"
proof -
  have "config_key ''a.b'' = Inr ()" "config_key ''c'' = Inr ()"
    by (simp_all add: config_key_def is_ascii_alphanumeric_def is_ascii_digit_def is_ascii_upper_def is_ascii_lower_def byte_of_def)
  then show ?thesis
    using add_config_roundtrip [of "[(''a.b'', ''x=1,y''), (''c'', [])]"] by (simp add: ungrouped_def java_trim_def byte_of_def)
qed

section \<open>Credentials\<close>

definition redacted :: "Mechanism \<Rightarrow> string" where
  "redacted mechanism = ''Invalid credential property '' @ mechanism_constant mechanism @ ''=[redacted]''"

text \<open>An optional minus sign and digits.\<close>

definition count_text :: "string \<Rightarrow> bool" where
  "count_text s \<longleftrightarrow> (\<exists>sign ds. s = sign @ ds \<and> sign \<in> {[], ''-''} \<and> (\<forall>c \<in> set ds. is_ascii_digit c))"

lemma strip_prefix_append [simp]: "strip_prefix p (p @ r) = Some r"
  by (simp add: strip_prefix_Some_iff)

lemma credential_parts_forms:
  "strip_prefix ''password='' v = Some password \<Longrightarrow> credential_parts mechanism v = Inr (None, password)"
  "strip_prefix ''password='' v = None \<Longrightarrow> strip_prefix ''iterations='' v = None \<Longrightarrow> credential_parts mechanism v = Inl (redacted mechanism)"
  "strip_prefix ''password='' v = None \<Longrightarrow> strip_prefix ''iterations='' v = Some rest \<Longrightarrow>
     digits = (case strip_prefix ''-'' rest of Some ds \<Rightarrow> ds | None \<Rightarrow> rest) \<Longrightarrow>
     len = length rest - length digits + length (takeWhile is_ascii_digit digits) \<Longrightarrow>
     credential_parts mechanism v = res_bind (ok_or (redacted mechanism) (strip_prefix '',password='' (drop len rest))) (\<lambda>password. Inr (Some (take len rest), password))"
  by (simp_all add: credential_parts_def Let_def redacted_def)

lemma credential_parts_cases:
  assumes "credential_parts mechanism v = r"
  obtains "r = Inl (redacted mechanism)"
  | password where "v = ''password='' @ password" "r = Inr (None, password)"
  | sign_count password where "v = ''iterations='' @ sign_count @ '',password='' @ password" "r = Inr (Some sign_count, password)"
    "count_text sign_count"
proof (cases "strip_prefix ''password='' v")
  case (Some password)
  show ?thesis
  proof (rule that(2))
    show "v = ''password='' @ password" using Some by (simp only: strip_prefix_Some_iff)
    show "r = Inr (None, password)" using assms credential_parts_forms(1) [OF Some] by simp
  qed
next
  case None
  show ?thesis
  proof (cases "strip_prefix ''iterations='' v")
    case None': None
    then show ?thesis using assms credential_parts_forms(2) [OF None] that(1) by simp
  next
    case (Some rest)
    define digits where "digits = (case strip_prefix ''-'' rest of Some ds \<Rightarrow> ds | None \<Rightarrow> rest)"
    define sign where "sign = take (length rest - length digits) rest"
    have rest: "rest = sign @ digits" "sign \<in> {[], ''-''}"
      by (auto simp: sign_def digits_def strip_prefix_Some_iff split: option.splits)
    let ?len = "length rest - length digits + length (takeWhile is_ascii_digit digits)"
    have parts: "take ?len rest = sign @ takeWhile is_ascii_digit digits" "drop ?len rest = dropWhile is_ascii_digit digits"
    proof -
      have "?len = length sign + length (takeWhile is_ascii_digit digits)" using arg_cong [OF rest(1), of length] by simp
      then show "take ?len rest = sign @ takeWhile is_ascii_digit digits" "drop ?len rest = dropWhile is_ascii_digit digits"
        using takeWhile_eq_take [of is_ascii_digit digits] dropWhile_eq_drop [of is_ascii_digit digits] by (simp_all add: rest(1))
    qed
    have r: "r = res_bind (ok_or (redacted mechanism) (strip_prefix '',password='' (dropWhile is_ascii_digit digits)))
        (\<lambda>password. Inr (Some (sign @ takeWhile is_ascii_digit digits), password))"
      using credential_parts_forms(3) [OF None Some digits_def refl, of mechanism] assms unfolding parts by simp
    show ?thesis
    proof (cases "strip_prefix '',password='' (dropWhile is_ascii_digit digits)")
      case None'': None
      then show ?thesis using r that(1) by simp
    next
      case Some': (Some password)
      have drop: "dropWhile is_ascii_digit digits = '',password='' @ password" using Some' by (simp only: strip_prefix_Some_iff)
      have "v = ''iterations='' @ rest" using Some by (simp only: strip_prefix_Some_iff)
      also have "rest = (sign @ takeWhile is_ascii_digit digits) @ dropWhile is_ascii_digit digits" using rest(1) by simp
      finally have "v = ''iterations='' @ (sign @ takeWhile is_ascii_digit digits) @ '',password='' @ password" unfolding drop append_assoc .
      moreover have "count_text (sign @ takeWhile is_ascii_digit digits)"
        using rest(2) by (auto simp: count_text_def dest: set_takeWhileD)
      moreover have "r = Inr (Some (sign @ takeWhile is_ascii_digit digits), password)" using r Some' by simp
      ultimately show ?thesis by (intro that(3))
    qed
  qed
qed

lemma credential_parts_read:
  assumes "count_text s"
  shows "credential_parts mechanism (''iterations='' @ s @ '',password='' @ p) = Inr (Some s, p)"
proof -
  obtain sign ds where s: "s = sign @ ds" "sign \<in> {[], ''-''}" "\<forall>c \<in> set ds. is_ascii_digit c" using assms by (auto simp: count_text_def)
  let ?rest = "s @ '',password='' @ p"
  have other: "strip_prefix ''password='' (''iterations='' @ ?rest) = None" by (simp add: strip_prefix_def)
  have marks: "\<not> is_ascii_digit (CHR '','')" "\<not> is_ascii_digit (CHR ''-'')" by (simp_all add: is_ascii_digit_def byte_of_def)
  have "hd (ds @ '',password='' @ p) \<noteq> CHR ''-''" using s(3) marks by (cases ds) auto
  then have "(case strip_prefix ''-'' ?rest of Some ds \<Rightarrow> ds | None \<Rightarrow> ?rest) = ds @ '',password='' @ p"
    using s(1,2) by (cases ds) (auto simp: strip_prefix_def)
  moreover have "takeWhile is_ascii_digit (ds @ '',password='' @ p) = ds" using s(3) marks by (simp add: takeWhile_append)
  moreover have "length ?rest - length (ds @ '',password='' @ p) + length ds = length s" using s(1) by simp
  ultimately show ?thesis
    using credential_parts_forms(3) [OF other strip_prefix_append, of "ds @ '',password='' @ p" "length s" mechanism] strip_prefix_append [of "'',password=''" p]
    by (simp del: append_Cons)
qed

text \<open>C15. The value of a SCRAM credential: with a count from 4096 up to what an \<open>i32\<close> holds, or none, and any password on one line, it is that count, or 4096, and that
  password. An accepted count is never below 4096, and an error is the redacted one or about the count alone, so it never shows the password.\<close>

theorem scram_credential_reads:
  assumes "\<forall>t \<in> set line_terminators. \<not> contains_str t password" and "4096 \<le> n" and "n \<le> i32_max"
  shows "scram_credential mechanism (''password='' @ password) = Inr \<lparr>sc_mechanism = mechanism, sc_iterations = 4096, sc_password = password\<rparr>
    \<and> scram_credential mechanism (''iterations='' @ show_int n @ '',password='' @ password) =
        Inr \<lparr>sc_mechanism = mechanism, sc_iterations = n, sc_password = password\<rparr>
    \<and> (scram_credential mechanism v = Inr credential \<longrightarrow> 4096 \<le> sc_iterations credential \<and> sc_iterations credential \<le> i32_max \<and> sc_mechanism credential = mechanism)
    \<and> (scram_credential mechanism v = Inl e \<longrightarrow> e = redacted mechanism
        \<or> (\<exists>s hidden. v = ''iterations='' @ s @ '',password='' @ hidden \<and> count_text s
            \<and> (\<forall>other. (\<forall>t \<in> set line_terminators. \<not> contains_str t other) \<longrightarrow> scram_credential mechanism (''iterations='' @ s @ '',password='' @ other) = Inl e)))"
proof -
  have count: "count_text (show_int n)" using assms(2) show_nat_digits [of "nat n"] unfolding count_text_def
    by (intro exI [of _ "[]"] exI [of _ "show_int n"]) (auto simp: show_int_def list_all_iff)
  have n: "parse_int (show_int n) = Inr n" "show_int n \<noteq> ''-1''"
  proof -
    show "parse_int (show_int n) = Inr n" using assms(2,3) by (simp add: parse_int_eq parse_signed_show_int)
    have "\<not> is_ascii_digit (CHR ''-'')" by (simp add: is_ascii_digit_def byte_of_def)
    then show "show_int n \<noteq> ''-1''" using assms(2) show_nat_digits [of "nat n"] by (auto simp: show_int_def)
  qed
  have first: "credential_parts mechanism (''password='' @ p) = Inr (None, p)" for p by (rule credential_parts_forms, rule strip_prefix_append)
  have fits: "parse_int c = Inr i \<Longrightarrow> i \<le> i32_max" for c i by (auto simp: parse_int_eq ok_or_Inr_iff dest: parse_signed_range)
  have same: "scram_credential mechanism v = Inl e \<Longrightarrow> e = redacted mechanism \<or> (\<exists>s hidden. v = ''iterations='' @ s @ '',password='' @ hidden \<and> count_text s
      \<and> (\<forall>other. (\<forall>t \<in> set line_terminators. \<not> contains_str t other) \<longrightarrow> scram_credential mechanism (''iterations='' @ s @ '',password='' @ other) = Inl e))"
  proof (cases rule: credential_parts_cases [OF refl, of mechanism v])
    case (3 s hidden)
    assume "scram_credential mechanism v = Inl e"
    with 3 have "e = redacted mechanism \<or> (\<forall>other. (\<forall>t \<in> set line_terminators. \<not> contains_str t other) \<longrightarrow>
        scram_credential mechanism (''iterations='' @ s @ '',password='' @ other) = Inl e)"
      using credential_parts_read [OF 3(3)]
      by (cases "parse_int s") (auto simp: scram_credential_def redacted_def simp del: append_Cons split: if_splits)
    with 3 show ?thesis by blast
  qed (auto simp: scram_credential_def redacted_def DEFAULT_SCRAM_ITERATIONS_def min_iterations_def split: if_splits)
  have bound: "scram_credential mechanism v = Inr credential \<Longrightarrow> 4096 \<le> sc_iterations credential \<and> sc_iterations credential \<le> i32_max \<and> sc_mechanism credential = mechanism"
    using fits by (auto simp: scram_credential_def res_bind_Inr_iff DEFAULT_SCRAM_ITERATIONS_def min_iterations_def split: if_splits option.splits)
  show ?thesis
    using same bound n assms credential_parts_read [OF count] first
    by (auto simp: scram_credential_def DEFAULT_SCRAM_ITERATIONS_def min_iterations_def simp del: append_Cons)
qed

theorem scram_credential_reads_witness:
  "scram_credential Sha256 (''iterations='' @ show_int 8192 @ '',password='' @ ''s,3'') = Inr \<lparr>sc_mechanism = Sha256, sc_iterations = 8192, sc_password = ''s,3''\<rparr>"
proof -
  have "\<forall>t \<in> set line_terminators. \<not> contains_str t ''s,3''" by (simp add: line_terminators_def)
  from scram_credential_reads [OF this, of 8192 Sha256] show ?thesis by simp
qed

end
