(* ===== verification/Configs_Safety.thy ===== *)
theory Configs_Safety
  imports Configs Configs_Values
begin

text \<open>
  What \<open>kafka-configs\<close> does: a command line is planned without a panic and only as its own action, \<open>--describe\<close> never changes the cluster, the values of
  sensitive configs are never shown, and what is added is what the file and the flag name.
\<close>

section \<open>Sensitive values\<close>

definition censored_entry :: "ResourceEntry \<Rightarrow> ResourceEntry" where
  "censored_entry entry =
     (if rs_is_sensitive entry then entry\<lparr>rs_value := None, rs_synonyms := map (\<lambda>s. s\<lparr>sy_value := None\<rparr>) (rs_synonyms entry)\<rparr> else entry)"

definition censored :: "'c ConfigsEnv \<Rightarrow> 'c ConfigsEnv" where
  "censored env = env\<lparr>cfx_describe_configs := (\<lambda>resources synonyms st.
     map_prod (map_sum id (map (map_prod id (map_sum id (map (map_prod id censored_entry)))))) id (cfx_describe_configs env resources synonyms st))\<rparr>"

lemma described_censored:
  "config_line (described_of_entry (censored_entry entry)) = config_line (described_of_entry entry)"
  "config_json (described_of_entry (censored_entry entry)) = config_json (described_of_entry entry)"
  by (simp_all add: censored_entry_def described_of_entry_def config_line_def config_json_def shown_value_def shown_synonym_value_def comp_def)

lemma censored_calls:
  "cfx_connect (censored env) = cfx_connect env" "cfx_describe_cluster (censored env) = cfx_describe_cluster env"
  "cfx_list_topics (censored env) = cfx_list_topics env" "cfx_list_config_resources (censored env) = cfx_list_config_resources env"
  "cfx_list_groups (censored env) = cfx_list_groups env" "cfx_describe_client_quotas (censored env) = cfx_describe_client_quotas env"
  "cfx_describe_user_scram (censored env) = cfx_describe_user_scram env"
  "cfx_incremental_alter_configs (censored env) = cfx_incremental_alter_configs env" "cfx_alter_client_quotas (censored env) = cfx_alter_client_quotas env"
  "cfx_alter_user_scram (censored env) = cfx_alter_user_scram env" "cfx_dynamic_source (censored env) = cfx_dynamic_source env"
  "cfx_debug (censored env) = cfx_debug env" "cfx_parse_f64 (censored env) = cfx_parse_f64 env" "cfx_float_json (censored env) = cfx_float_json env"
  by (simp_all add: censored_def)

lemma map_of_map_prod: "map_of (map (map_prod id f) m) k = map_option f (map_of m k)"
  by (induction m) auto

lemma resource_config_censored:
  "cmd_bind (resource_config (censored env) resource synonyms) f =
     cmd_bind (resource_config env resource synonyms) (\<lambda>config. f (map (map_prod id censored_entry) config))"
proof
  fix st
  obtain r st' where call: "cfx_describe_configs env [resource] synonyms st = (r, st')" by force
  show "cmd_bind (resource_config (censored env) resource synonyms) f st =
      cmd_bind (resource_config env resource synonyms) (\<lambda>config. f (map (map_prod id censored_entry) config)) st"
  proof (cases r)
    case (Inr answers)
    show ?thesis
      by (cases "map_of answers resource" rule: option.exhaust [case_names None Some])
        (auto simp: resource_config_def censored_def call Inr cmd_bind_def cmd_admin_def cmd_ret_def cmd_fail_def map_of_map_prod split: sum.split)
  qed (simp add: resource_config_def censored_def call cmd_bind_def cmd_admin_def)
qed

lemma shown_censored:
  "map config_line (shown_configs (censored env) all resource (map (map_prod id censored_entry) config)) = map config_line (shown_configs env all resource config)"
  "map config_json (shown_configs (censored env) all resource (map (map_prod id censored_entry) config)) = map config_json (shown_configs env all resource config)"
proof -
  have source: "rs_source (censored_entry entry) = rs_source entry" for entry by (simp add: censored_entry_def)
  have "filter (P \<circ> rs_source) (map censored_entry es) = map censored_entry (filter (P \<circ> rs_source) es)" for P es
    by (induction es) (simp_all add: source)
  then have entries: "filter (\<lambda>entry. case s of None \<Rightarrow> True | Some s \<Rightarrow> rs_source entry = s) (map censored_entry es) =
      map censored_entry (filter (\<lambda>entry. case s of None \<Rightarrow> True | Some s \<Rightarrow> rs_source entry = s) es)" for s es
    by (cases s) (simp_all add: comp_def)
  have snds: "map snd (map (map_prod id censored_entry) config) = map censored_entry (map snd config)" by simp
  show "map config_line (shown_configs (censored env) all resource (map (map_prod id censored_entry) config)) = map config_line (shown_configs env all resource config)"
    "map config_json (shown_configs (censored env) all resource (map (map_prod id censored_entry) config)) = map config_json (shown_configs env all resource config)"
    unfolding shown_configs_def Let_def snds entries dynamic_source_def censored_calls by (simp_all add: described_censored)
qed

lemma describe_entities_censored: "describe_entities (censored env) entity_type all entities = describe_entities env entity_type all entities"
proof (induction entities)
  case (Cons entity entities)
  show ?case unfolding describe_entities.simps Let_def resource_config_censored shown_censored Cons ..
qed simp

lemma reads_censored:
  "broker_ids (censored env) = broker_ids env" "cluster_topics (censored env) = cluster_topics env"
  "client_metrics_names (censored env) = client_metrics_names env" "group_ids (censored env) = group_ids env"
  "group_config_names (censored env) = group_config_names env"
  unfolding broker_ids_def cluster_topics_def client_metrics_names_def group_ids_def group_config_names_def censored_calls by (rule refl)+

lemma alter_resource_censored: "alter_resource (censored env) resource deletes sets failure = alter_resource env resource deletes sets failure"
  unfolding alter_resource_def censored_calls ..

text \<open>C13. No value of a sensitive config, nor of its synonyms, reaches what the command prints or does: its outcome is the same on a client that answers
  without these values.\<close>

theorem sensitive_values_hidden: "run_configs (censored env) resolves read self = run_configs env resolves read self"
proof -
  have keys: "(map_of (map (map_prod id censored_entry) loggers) logger = None) = (map_of loggers logger = None)" for loggers logger
    by (simp add: map_of_map_prod)
  have loggers: "alter_broker_loggers (censored env) broker deletes sets = alter_broker_loggers env broker deletes sets" for broker deletes sets
    unfolding alter_broker_loggers_def Let_def resource_config_censored alter_resource_censored keys ..
  have "execute_configs (censored env) plan = execute_configs env plan" for plan
    by (cases plan)
      (simp_all only: execute_configs.simps describe_resources_def describe_quotas_def alter_quotas_def alter_user_scram_def loggers censored_calls reads_censored
        entity_exists_def described_entities_def describe_entities_censored alter_resource_censored)
  then show ?thesis unfolding run_configs_def censored_calls by simp
qed

section \<open>Plans\<close>

lemma run_bind_Some: "run_bind (Some r) f = Some (Inr y) \<longleftrightarrow> (\<exists>x. r = Inr x \<and> f x = Some (Inr y))"
  by (cases r) auto

lemma run_bind_None: "run_bind (Some r) f = None \<longleftrightarrow> (\<exists>x. r = Inr x \<and> f x = None)"
  by (cases r) auto

lemma refuse_Inr [simp]: "refuse refused message = Inr () \<longleftrightarrow> \<not> refused"
  by (simp add: refuse_def)

lemma static_type_known: "t \<in> set ENTITY_TYPES \<Longrightarrow> static_type t = Some t"
  by (auto simp: static_type_def ENTITY_TYPES_def)

definition one_head :: "string \<Rightarrow> string list \<Rightarrow> bool" where
  "one_head head types \<longleftrightarrow> types = [head] \<or> (head \<in> {USERS, CLIENTS} \<and> (\<exists>other \<in> {USERS, CLIENTS}. types = [head, other]))"

lemma head_type_Inr: "head_type types = Inr head \<Longrightarrow> one_head head types"
  by (auto simp: head_type_def one_head_def split: list.splits if_splits)

lemma check_entities_Inr:
  assumes "check_entities self = Inr head"
  shows "cf_alter self \<noteq> cf_describe self" "one_head head (entity_types self)" "head \<in> set ENTITY_TYPES"
proof -
  from assms show "cf_alter self \<noteq> cf_describe self" and one: "one_head head (entity_types self)"
    by (auto simp: check_entities_def Let_def res_bind_Inr_iff dest: head_type_Inr)
  from assms have "List.find (\<lambda>t. t \<notin> set ENTITY_TYPES) (entity_types self) = None"
    by (auto simp: check_entities_def Let_def res_bind_Inr_iff split: option.splits)
  with one show "head \<in> set ENTITY_TYPES" by (auto simp: find_None_iff one_head_def)
qed

lemma check_alter_Inr:
  assumes "check_alter self types names = Inr ()" "one_head head types"
  obtains name rest where "names = name # rest" "head \<notin> {USERS, CLIENTS, BROKERS, IPS} \<Longrightarrow> name \<noteq> []"
proof -
  have lengths: "length names = length types" using assms(1) by (auto simp: check_alter_def Let_def res_bind_Inr_iff split: if_splits)
  have "head \<in> set types" using assms(2) by (auto simp: one_head_def)
  then have "names \<noteq> []" using lengths by auto
  then obtain name rest where names: "names = name # rest" by (cases names) auto
  moreover have "name \<noteq> []" if "head \<notin> {USERS, CLIENTS, BROKERS, IPS}"
  proof -
    have types: "types = [head]" using assms(2) that by (auto simp: one_head_def)
    then have "set types \<inter> {USERS, CLIENTS, BROKERS, IPS} = {}" using that by simp
    then have "\<exists>name \<in> set names. name \<noteq> []" using assms(1) by (simp add: check_alter_def Let_def res_bind_Inr_iff)
    then show ?thesis using lengths names types by simp
  qed
  ultimately show ?thesis by (rule that)
qed

text \<open>What a plan may do. For the quotas of an address one exception is made, to say what the code does: a single key that is empty passes beside the keys of
  the quotas.\<close>

fun plan_allowed :: "ConfigsArgs \<Rightarrow> ConfigsPlan \<Rightarrow> bool" where
  "plan_allowed self (DescribeResources entity_type name all) \<longleftrightarrow>
     cf_describe self \<and> all = cf_all self \<and> entity_type \<in> {TOPICS, BROKERS, BROKER_LOGGERS, CLIENT_METRICS, GROUPS}"
| "plan_allowed self (DescribeQuotas _ _) \<longleftrightarrow> cf_describe self"
| "plan_allowed self (AlterResource entity_type name deletes sets) \<longleftrightarrow>
     cf_alter self \<and> entity_type \<in> {TOPICS, CLIENT_METRICS, BROKERS, GROUPS} \<and> (if entity_type = BROKERS then name = [] \<or> (\<exists>n. parse_int name = Inr n) else name \<noteq> [])"
| "plan_allowed self (AlterBrokerLoggers broker deletes sets) \<longleftrightarrow> cf_alter self \<and> broker \<noteq> []"
| "plan_allowed self (AlterQuotas entity_type name entity components sets deletes) \<longleftrightarrow>
     cf_alter self \<and> (if entity_type = IPS then filter (\<lambda>key. key \<notin> set IP_QUOTAS) (map fst sets @ deletes) \<in> {[], [[]]}
       else entity_type \<in> {USERS, CLIENTS} \<and> fst ` set sets \<union> set deletes \<subseteq> set USER_AND_CLIENT_QUOTAS)"
| "plan_allowed self (AlterUserScram entity_type name None) \<longleftrightarrow> cf_alter self"
| "plan_allowed self (AlterUserScram entity_type name (Some (Upsert credential))) \<longleftrightarrow>
     cf_alter self \<and> entity_type = USERS \<and> name \<noteq> [] \<and> sc_password credential \<noteq> [] \<and> 4096 \<le> sc_iterations credential"
| "plan_allowed self (AlterUserScram entity_type name (Some (Delete mechanism))) \<longleftrightarrow> cf_alter self \<and> entity_type = USERS \<and> name \<noteq> []"

lemma describe_plan_Inr:
  assumes "describe_plan self head types names = Some (Inr plan)" "cf_describe self" "head \<in> set ENTITY_TYPES"
  shows "plan_allowed self plan"
  using assms static_type_known [OF assms(3)]
  by (auto simp: describe_plan_def Let_def run_bind_Some split: if_splits)

lemma no_join: "join_with '','' ks = [] \<Longrightarrow> ks \<in> {[], [[]]}"
  by (cases ks rule: remdups_adj.cases) auto

lemma scram_credential_bounds: "scram_credential mechanism v = Inr credential \<Longrightarrow> 4096 \<le> sc_iterations credential"
  by (auto simp: scram_credential_def res_bind_Inr_iff min_iterations_def split: if_splits prod.splits)

lemma collect_res_elem: "collect_res f xs = Inr ys \<Longrightarrow> y \<in> set ys \<Longrightarrow> \<exists>x \<in> set xs. f x = Inr y"
  by (induction xs arbitrary: ys) (auto simp: res_bind_Inr_iff)

lemma scram_changes_Inr:
  assumes "scram_changes adds deletes = Inr changes" "change \<in> set changes"
  shows "(\<exists>credential. change = Upsert credential \<and> 4096 \<le> sc_iterations credential \<and> list_ex is_scram (map fst adds)) \<or>
    ((\<exists>mechanism. change = Delete mechanism) \<and> list_ex is_scram deletes)"
proof -
  obtain upserts where upserts: "collect_res (\<lambda>(mechanism, v). map_sum id Upsert (scram_credential mechanism v))
      (List.map_filter (\<lambda>(key, v). map_option (\<lambda>m. (m, v)) (from_config_key key)) adds) = Inr upserts"
    and changes: "changes = List.map_filter (\<lambda>key. map_option Delete (from_config_key key)) deletes @ upserts"
    using assms(1) by (auto simp: scram_changes_def res_bind_Inr_iff)
  show ?thesis
  proof (cases "change \<in> set upserts")
    case True
    from collect_res_elem [OF upserts True] obtain mechanism v where
      "(mechanism, v) \<in> set (List.map_filter (\<lambda>(key, v). map_option (\<lambda>m. (m, v)) (from_config_key key)) adds)"
      "map_sum id Upsert (scram_credential mechanism v) = Inr change" by auto
    then obtain key credential where "(key, v) \<in> set adds" "is_scram key" "scram_credential mechanism v = Inr credential" "change = Upsert credential"
      by (cases "scram_credential mechanism v") (auto simp: map_filter_def is_scram_def)
    then show ?thesis using scram_credential_bounds by (force simp: list_ex_iff)
  next
    case False
    then show ?thesis using assms(2) by (auto simp: changes map_filter_def is_scram_def list_ex_iff)
  qed
qed

lemma check_user_or_client_Inr:
  assumes "check_user_or_client head types name add_keys deletes = Inr ()"
  shows "list_ex is_quota add_keys \<or> list_ex is_quota deletes \<Longrightarrow> set add_keys \<union> set deletes \<subseteq> set USER_AND_CLIENT_QUOTAS"
    "list_ex is_scram add_keys \<or> list_ex is_scram deletes \<Longrightarrow> head \<noteq> CLIENTS \<and> name \<noteq> []"
proof -
  have known: "\<forall>key \<in> set add_keys \<union> set deletes. is_quota key \<or> is_scram key"
    using assms by (auto simp: check_user_or_client_def Let_def filter_empty_conv split: if_splits)
  have quotas: "\<not> (list_ex is_scram add_keys \<or> list_ex is_scram deletes)" if "list_ex is_quota add_keys \<or> list_ex is_quota deletes"
    using assms that by (auto simp: check_user_or_client_def Let_def filter_empty_conv list_ex_iff split: if_splits)
  show "set add_keys \<union> set deletes \<subseteq> set USER_AND_CLIENT_QUOTAS" if "list_ex is_quota add_keys \<or> list_ex is_quota deletes"
    using known quotas [OF that] by (auto simp: list_ex_iff is_quota_def)
  show "head \<noteq> CLIENTS \<and> name \<noteq> []" if "list_ex is_scram add_keys \<or> list_ex is_scram deletes"
    using assms that by (auto simp: check_user_or_client_def Let_def filter_empty_conv list_ex_iff split: if_splits)
qed

lemma alter_user_or_client_plan_Inr:
  assumes plan: "alter_user_or_client_plan head types names adds deletes = Some (Inr plan)"
    and alter: "cf_alter self" and head: "head \<in> {USERS, CLIENTS}"
  shows "plan_allowed self plan"
proof -
  have known: "static_type head = Some head" using head by (intro static_type_known) (auto simp: ENTITY_TYPES_def)
  from plan obtain name rest where names: "names = name # rest"
    and checked: "check_user_or_client head types name (map fst adds) deletes = Inr ()"
    by (auto simp: alter_user_or_client_plan_def run_bind_Some split: list.splits)
  note facts = check_user_or_client_Inr [OF checked]
  show ?thesis
  proof (cases "list_ex is_quota (map fst adds) \<or> list_ex is_quota deletes")
    case True
    have "head \<noteq> IPS" using head by (auto simp: entity_type_defs)
    then show ?thesis using plan facts(1) [OF True] alter head known True by (auto simp: alter_user_or_client_plan_def names checked)
  next
    case False
    from plan False obtain changes where changes: "scram_changes adds deletes = Inr changes" "\<not> list_ex empty_password changes"
      and made: "plan = AlterUserScram (if head = CLIENTS then CLIENTS else USERS) name (if changes = [] then None else Some (last changes))"
      by (auto simp: alter_user_or_client_plan_def names checked run_bind_Some split: if_splits)
    show ?thesis
    proof (cases "changes = []")
      case nonempty: False
      have "\<not> empty_password (last changes)" using changes(2) nonempty by (auto simp: list_ex_iff)
      with scram_changes_Inr [OF changes(1) last_in_set [OF nonempty]] facts(2) show ?thesis
        by (auto simp: made nonempty alter)
    qed (simp add: made alter)
  qed
qed

lemma alter_plan_Inr:
  assumes plan: "alter_plan read self head types names = Some (Inr plan)" and alter: "cf_alter self"
    and known: "head \<in> set ENTITY_TYPES" and named: "names = name # rest" "head \<notin> {USERS, CLIENTS, BROKERS, IPS} \<Longrightarrow> name \<noteq> []"
  shows "plan_allowed self plan"
proof -
  from plan obtain adds where adds: "configs_to_add read self = Inr adds" by (auto simp: alter_plan_def run_bind_Some)
  let ?deletes = "map java_trim (cf_delete_config self)"
  consider "head \<in> {TOPICS, CLIENT_METRICS, BROKERS, GROUPS}" | "head = BROKER_LOGGERS" | "head = IPS" | "head \<in> {USERS, CLIENTS}"
    using known by (auto simp: ENTITY_TYPES_def)
  then show ?thesis
  proof cases
    case 1
    have names: "head = BROKERS \<or> name \<noteq> []" using 1 named(2) by (auto simp: entity_type_defs)
    show ?thesis using plan 1 alter names static_type_known [OF known]
      by (cases "parse_int name") (auto simp: alter_plan_def adds named(1) run_bind_Some split: if_splits)
  next
    case 2
    then have "name \<noteq> []" by (intro named(2)) (auto simp: entity_type_defs)
    then show ?thesis using plan 2 alter by (auto simp: alter_plan_def adds named(1) entity_type_defs)
  next
    case 3
    have other: "IPS \<notin> {TOPICS, CLIENT_METRICS, BROKERS, GROUPS}" "IPS \<noteq> BROKER_LOGGERS" by (simp_all add: entity_type_defs)
    have "join_with '','' (filter (\<lambda>key. key \<notin> set IP_QUOTAS) (map fst adds @ ?deletes)) = []"
      and made: "plan = AlterQuotas IPS name (quota_entity types names) (quota_components types names) adds ?deletes"
      using plan other unfolding 3 by (simp_all add: alter_plan_def adds named(1) Let_def del: filter_append split: if_splits)
    from no_join [OF this(1)] show ?thesis by (simp only: made alter plan_allowed.simps simp_thms if_True)
  next
    case 4
    have other: "head \<notin> {TOPICS, CLIENT_METRICS, BROKERS, GROUPS}" "head \<noteq> BROKER_LOGGERS" "head \<noteq> IPS" using 4 by (auto simp: entity_type_defs)
    have "alter_user_or_client_plan head types names adds ?deletes = Some (Inr plan)"
      using plan other by (simp add: alter_plan_def adds named(1) Let_def)
    then show ?thesis by (rule alter_user_or_client_plan_Inr [OF _ alter 4])
  qed
qed

lemma describe_plan_total: "head \<in> set ENTITY_TYPES \<Longrightarrow> describe_plan self head types names \<noteq> None"
  using static_type_known [of head] by (auto simp: describe_plan_def Let_def run_bind_None simp del: not_None_eq)

lemma alter_plan_total:
  assumes known: "head \<in> set ENTITY_TYPES" and named: "names = name # rest"
  shows "alter_plan read self head types names \<noteq> None"
proof -
  note static = static_type_known [OF known]
  have user_or_client: "alter_user_or_client_plan head types names adds deletes \<noteq> None" for adds deletes
    by (auto simp: alter_user_or_client_plan_def named static run_bind_None simp del: not_None_eq split: if_splits)
  show ?thesis
    using static_type_known [of BROKERS] user_or_client [unfolded named] by (auto simp: static ENTITY_TYPES_def alter_plan_def named Let_def static run_bind_None simp del: not_None_eq split: if_splits)
qed

definition sound_plan :: "ConfigsArgs \<Rightarrow> ConfigsPlan res option \<Rightarrow> bool" where
  "sound_plan self planned \<longleftrightarrow>
     planned \<noteq> None \<and> (\<forall>plan. planned = Some (Inr plan) \<longrightarrow> cf_alter self \<noteq> cf_describe self \<and> plan_allowed self plan)"

lemma sound_plan_bind: "(\<And>x. r = Inr x \<Longrightarrow> sound_plan self (f x)) \<Longrightarrow> sound_plan self (run_bind (Some r) f)"
  by (cases r) (simp_all add: sound_plan_def)

lemma sound_plan_if: "(c \<Longrightarrow> sound_plan self p) \<Longrightarrow> (\<not> c \<Longrightarrow> sound_plan self q) \<Longrightarrow> sound_plan self (if c then p else q)"
  by simp

lemma configs_plan_accepted: "sound_plan self (configs_plan resolves read self)"
proof -
  have "sound_plan self (describe_plan self head types names)"
    if head: "check_entities self = Inr head" and "cf_describe self" for head types names
    using describe_plan_Inr [OF _ that(2) check_entities_Inr(3) [OF head]] describe_plan_total [OF check_entities_Inr(3) [OF head]] check_entities_Inr(1) [OF head]
    unfolding sound_plan_def by (intro conjI allI impI)
  moreover have "sound_plan self (alter_plan read self head (entity_types self) names)"
    if head: "check_entities self = Inr head" and alter: "\<not> cf_describe self" and named: "check_alter self (entity_types self) names = Inr ()" for head names
  proof (rule check_alter_Inr [OF named check_entities_Inr(2) [OF head]])
    fix name rest assume names: "names = name # rest" "head \<notin> {USERS, CLIENTS, BROKERS, IPS} \<Longrightarrow> name \<noteq> []"
    from check_entities_Inr(1) [OF head] alter have "cf_alter self" by simp
    from alter_plan_Inr [OF _ this check_entities_Inr(3) [OF head] names] alter_plan_total [OF check_entities_Inr(3) [OF head] names(1)]
      check_entities_Inr(1) [OF head] show ?thesis unfolding sound_plan_def by (intro conjI allI impI)
  qed
  ultimately show ?thesis
    unfolding configs_plan_def Let_def by (intro sound_plan_bind sound_plan_if) simp_all
qed

text \<open>C14. A command line is always planned or refused, never a panic, and a plan is one of its own action: \<open>--describe\<close> only describes and \<open>--alter\<close> only alters;
  a resource to alter is named (a broker by an integer or as the default), the quotas of users and clients change only by their keys, those of an address only by
  its key and, once, by the empty key (which the code means to refuse: \<open>empty_ip_quota_accepted\<close>), and a SCRAM credential is of a named user, with a password
  and at least 4096 iterations.\<close>

theorem configs_plan_sound:
  "\<exists>planned. configs_plan resolves read self = Some planned \<and> (\<forall>plan. planned = Inr plan \<longrightarrow> cf_alter self \<noteq> cf_describe self \<and> plan_allowed self plan)"
  using configs_plan_accepted [of self resolves read] unfolding sound_plan_def by blast

section \<open>What changes the cluster\<close>

definition with_config_changes ::
    "'c ConfigsEnv \<Rightarrow> (ResourceName \<Rightarrow> ConfigOp list \<Rightarrow> 'c \<Rightarrow> (AdminError + (KafkaError + unit) list) \<times> 'c)
      \<Rightarrow> (ClientQuotaEntity \<Rightarrow> QuotaChange list \<Rightarrow> 'c \<Rightarrow> (AdminError + (KafkaError + unit) list) \<times> 'c)
      \<Rightarrow> (Mechanism \<Rightarrow> ScramUpsertion list \<Rightarrow> string list \<Rightarrow> 'c \<Rightarrow> (AdminError + KafkaError option list) \<times> 'c) \<Rightarrow> 'c ConfigsEnv" where
  "with_config_changes env configs quotas scram =
     env\<lparr>cfx_incremental_alter_configs := configs, cfx_alter_client_quotas := quotas, cfx_alter_user_scram := scram\<rparr>"

lemma calls_with_config_changes:
  "cfx_connect (with_config_changes env a b c) = cfx_connect env" "cfx_describe_cluster (with_config_changes env a b c) = cfx_describe_cluster env"
  "cfx_list_topics (with_config_changes env a b c) = cfx_list_topics env"
  "cfx_list_config_resources (with_config_changes env a b c) = cfx_list_config_resources env"
  "cfx_list_groups (with_config_changes env a b c) = cfx_list_groups env"
  "cfx_describe_configs (with_config_changes env a b c) = cfx_describe_configs env"
  "cfx_describe_client_quotas (with_config_changes env a b c) = cfx_describe_client_quotas env"
  "cfx_describe_user_scram (with_config_changes env a b c) = cfx_describe_user_scram env"
  "cfx_dynamic_source (with_config_changes env a b c) = cfx_dynamic_source env" "cfx_debug (with_config_changes env a b c) = cfx_debug env"
  "cfx_parse_f64 (with_config_changes env a b c) = cfx_parse_f64 env" "cfx_float_json (with_config_changes env a b c) = cfx_float_json env"
  "cfx_incremental_alter_configs (with_config_changes env a b c) = a" "cfx_alter_client_quotas (with_config_changes env a b c) = b"
  "cfx_alter_user_scram (with_config_changes env a b c) = c"
  by (simp_all add: with_config_changes_def)

lemma reads_with_config_changes:
  "broker_ids (with_config_changes env a b c) = broker_ids env" "cluster_topics (with_config_changes env a b c) = cluster_topics env"
  "client_metrics_names (with_config_changes env a b c) = client_metrics_names env" "group_ids (with_config_changes env a b c) = group_ids env"
  "group_config_names (with_config_changes env a b c) = group_config_names env"
  "resource_config (with_config_changes env a b c) = resource_config env"
  "shown_configs (with_config_changes env a b c) = shown_configs env"
  unfolding broker_ids_def cluster_topics_def client_metrics_names_def group_ids_def group_config_names_def resource_config_def [abs_def]
    shown_configs_def [abs_def] dynamic_source_def calls_with_config_changes by (rule refl)+

lemma describe_entities_with_config_changes:
  "describe_entities (with_config_changes env a b c) entity_type all entities = describe_entities env entity_type all entities"
proof (induction entities)
  case (Cons entity entities)
  show ?case unfolding describe_entities.simps Let_def reads_with_config_changes Cons ..
qed simp

text \<open>\<open>kafka-configs\<close> changes the cluster only under \<open>--alter\<close>: otherwise its outcome does not depend on the client's alterations of configs, quotas and SCRAM
  credentials. It does not touch the client at all, connecting included, unless the command line is accepted.\<close>

theorem configs_change_only_their_own:
  assumes "cf_alter self \<Longrightarrow> configs = cfx_incremental_alter_configs env \<and> quotas = cfx_alter_client_quotas env \<and> scram = cfx_alter_user_scram env"
  shows "run_configs (with_config_changes env configs quotas scram) resolves read self = run_configs env resolves read self \<and>
    (\<forall>message. configs_plan resolves read self = Some (Inl message) \<longrightarrow> run_configs env resolves read self = cmd_try (Inl message))"
proof (intro conjI allI impI)
  show "run_configs (with_config_changes env configs quotas scram) resolves read self = run_configs env resolves read self"
  proof (cases "cf_alter self")
    case True
    then show ?thesis using assms by (simp add: with_config_changes_def)
  next
    case False
    have same: "execute_configs (with_config_changes env configs quotas scram) plan = execute_configs env plan" if "plan_allowed self plan" for plan
      using that False
      by (induction self plan rule: plan_allowed.induct)
        (simp_all only: plan_allowed.simps execute_configs.simps describe_resources_def describe_quotas_def calls_with_config_changes reads_with_config_changes
          entity_exists_def described_entities_def describe_entities_with_config_changes simp_thms)
    consider message where "configs_plan resolves read self = Some (Inl message)" | plan where "configs_plan resolves read self = Some (Inr plan)" "plan_allowed self plan"
      using configs_plan_accepted [of self resolves read] unfolding sound_plan_def by (metis not_None_eq sum.exhaust)
    then show ?thesis
      by cases (simp_all add: run_configs_def same calls_with_config_changes fun_eq_iff cmd_bind_def cmd_index_def cmd_try_def cmd_fail_def cmd_ret_def)
  qed
next
  fix message assume "configs_plan resolves read self = Some (Inl message)"
  then show "run_configs env resolves read self = cmd_try (Inl message)"
    by (simp add: run_configs_def fun_eq_iff cmd_bind_def cmd_index_def cmd_try_def cmd_fail_def cmd_ret_def)
qed

section \<open>What is added\<close>

lemma single_value_Inr: "single_value values option_name = Inr v \<Longrightarrow> v = (case values of [] \<Rightarrow> None | x # _ \<Rightarrow> Some x)"
  by (auto simp: single_value_def split: list.splits)

lemma map_sum_Inr_iff: "map_sum f g r = Inr y \<longleftrightarrow> (\<exists>x. r = Inr x \<and> y = g x)"
  by (cases r) auto

lemma bt_ok_fold_insert: "bt_ok m \<Longrightarrow> bt_ok (foldl (\<lambda>m e. bt_insert (fst e) (snd e) m) m es)"
  by (induction es arbitrary: m) simp_all

lemma map_of_fold_insert: "bt_ok m \<Longrightarrow> map_of (foldl (\<lambda>m e. bt_insert (fst e) (snd e) m) m es) = map_of m ++ map_of (rev es)"
  by (induction es arbitrary: m) (auto simp: bt_simps fun_eq_iff map_add_def split: option.splits)

lemma bt_ok_parse_properties: "parse_properties bytes = Inr properties \<Longrightarrow> bt_ok properties"
proof -
  have "bt_ok m \<Longrightarrow> parse_properties_from m lines = Inr p \<Longrightarrow> bt_ok p" for m lines p
    by (induction m lines rule: parse_properties_from.induct) (auto simp: res_bind_Inr_iff split: prod.splits)
  moreover have "bt_ok []" by (simp add: bt_ok_def)
  ultimately show "parse_properties bytes = Inr properties \<Longrightarrow> bt_ok properties" unfolding parse_properties_def by blast
qed

lemma map_of_looked_up: "map_of (List.map_filter (\<lambda>key. map_option (Pair key) (m key)) keys) = m |` set keys"
  by (induction keys) (auto simp: map_filter_simps fun_eq_iff restrict_map_def split: option.splits)

lemma fst_looked_up: "(\<And>key. key \<in> set keys \<Longrightarrow> m key \<noteq> None) \<Longrightarrow> map fst (List.map_filter (\<lambda>key. map_option (Pair key) (m key)) keys) = keys"
  by (induction keys) (auto simp: map_filter_simps split: option.splits)

text \<open>What \<open>--alter\<close> adds is what the file and the flag name, the flag's last value of a key over the file's, each key once and of allowed characters.\<close>

theorem configs_to_add_complete:
  assumes "configs_to_add read self = Inr adds"
  shows "\<exists>properties added.
    (case cf_add_config_file self of [] \<Rightarrow> properties = [] | path # _ \<Rightarrow> \<exists>bytes. read path = Inr bytes \<and> parse_properties bytes = Inr properties)
    \<and> (case cf_add_config self of [] \<Rightarrow> added = [] | v # _ \<Rightarrow> add_config v = Inr added)
    \<and> distinct (map fst adds) \<and> map_of adds = map_of properties ++ map_of (rev added) \<and> (\<forall>key \<in> fst ` set adds. config_key key = Inr ())"
proof -
  from assms obtain path properties v added keys where named: "single_value (cf_add_config_file self) ''add-config-file'' = Inr path"
    and read: "(case path of None \<Rightarrow> Inr [] | Some path \<Rightarrow> res_bind (map_sum (\<lambda>e. ''read --add-config-file '' @ path @ '': '' @ e) id (read path)) (\<lambda>bytes.
        map_sum show_config_error id (parse_properties bytes))) = Inr properties"
    and flag: "single_value (cf_add_config self) ''add-config'' = Inr v" "(case v of None \<Rightarrow> Inr [] | Some v \<Rightarrow> add_config v) = Inr added"
    and keys: "collect_res config_key (hash_map_order (map fst (foldl (\<lambda>m e. bt_insert (fst e) (snd e) m) properties added)) None) = Inr keys"
    and adds: "adds = List.map_filter (\<lambda>key. map_option (Pair key) (map_of (foldl (\<lambda>m e. bt_insert (fst e) (snd e) m) properties added) key))
        (scala_set_order (hash_map_order (map fst (foldl (\<lambda>m e. bt_insert (fst e) (snd e) m) properties added)) None))"
    by (auto simp: configs_to_add_def Let_def res_bind_Inr_iff)
  define configs where "configs = foldl (\<lambda>m e. bt_insert (fst e) (snd e) m) properties added"
  have parsed: "case path of None \<Rightarrow> properties = [] | Some path \<Rightarrow> \<exists>bytes. read path = Inr bytes \<and> parse_properties bytes = Inr properties"
  proof (cases path)
    case (Some p)
    then show ?thesis using read by (cases "read p"; simp) (simp add: map_sum_Inr_iff)
  qed (use read in simp)
  then have "bt_ok properties" by (auto simp: bt_ok_def split: option.splits dest: bt_ok_parse_properties)
  then have configs: "map_of configs = map_of properties ++ map_of (rev added)" by (simp add: configs_def map_of_fold_insert)
  let ?order = "hash_map_order (map fst configs) None"
  have order: "set ?order = fst ` set configs" by (simp add: hash_map_order_def ho.order_set)
  have listed: "map fst adds = scala_set_order ?order"
    unfolding adds configs_def [symmetric] by (rule fst_looked_up) (simp add: scala_set_order_set order map_of_eq_None_iff)
  have "map_of adds = map_of configs |` (fst ` set configs)"
    unfolding adds configs_def [symmetric] by (simp add: map_of_looked_up scala_set_order_set order)
  also have "\<dots> = map_of configs" by (rule ext) (auto simp: restrict_map_def map_of_eq_None_iff [symmetric])
  finally have lookup: "map_of adds = map_of properties ++ map_of (rev added)" by (simp add: configs)
  have "\<forall>key \<in> set ?order. config_key key = Inr ()" using keys unfolding configs_def [symmetric] by (auto simp: collect_res_Inr_iff list_all2_conv_all_nth in_set_conv_nth)
  then have plain: "\<forall>key \<in> fst ` set adds. config_key key = Inr ()"
    using arg_cong [OF listed, of set] by (simp add: scala_set_order_set)
  have "distinct (map fst adds)" by (simp add: listed scala_set_order_distinct)
  with parsed flag lookup plain single_value_Inr [OF named] single_value_Inr [OF flag(1)] show ?thesis
    by (intro exI [of _ properties] exI [of _ added]) (auto split: list.splits)
qed

section \<open>Witnesses\<close>

definition sample_configs_args :: ConfigsArgs where
  "sample_configs_args =
     \<lparr>cf_bootstrap_server = [''b:9092''], cf_bootstrap_controller = [], cf_alter = True, cf_describe = False, cf_all = False, cf_entity_type = [],
      cf_entity = \<lparr>es_names = [], es_entity_names = [], es_entity_default = False\<rparr>, cf_add_config = [''k=[v]''], cf_add_config_file = [], cf_delete_config = [],
      cf_topic = [], cf_client = [], cf_client_defaults = False, cf_user = [], cf_user_defaults = False, cf_broker = [''1''], cf_broker_defaults = False,
      cf_broker_logger = [], cf_ip_defaults = False, cf_ip = [], cf_group = [], cf_client_metrics = []\<rparr>"

definition sample_delete_args :: ConfigsArgs where
  "sample_delete_args = sample_configs_args\<lparr>cf_broker := [], cf_topic := [''t''], cf_add_config := [], cf_delete_config := [''retention.ms '']\<rparr>"

definition sample_describe_args :: ConfigsArgs where
  "sample_describe_args = sample_configs_args\<lparr>cf_alter := False, cf_describe := True, cf_add_config := []\<rparr>"

definition sample_configs_env :: "nat ConfigsEnv" where
  "sample_configs_env =
     \<lparr>cfx_connect = cmd_ret (), cfx_describe_configs = (\<lambda>resources _ st. (Inr (map (\<lambda>r. (r, Inr [])) resources), st)),
      cfx_describe_cluster = (\<lambda>st. (Inr [1], st)), cfx_list_topics = (\<lambda>st. (Inr [''t''], st)), cfx_list_config_resources = (\<lambda>_ st. (Inr [], st)),
      cfx_list_groups = (\<lambda>st. (Inr (Inr []), st)), cfx_describe_client_quotas = (\<lambda>_ st. (Inr [], st)), cfx_describe_user_scram = (\<lambda>_ st. (Inr [], st)),
      cfx_incremental_alter_configs = (\<lambda>_ _ st. (Inr [Inr ()], st + 1)), cfx_alter_client_quotas = (\<lambda>_ _ st. (Inr [Inr ()], st + 1)),
      cfx_alter_user_scram = (\<lambda>_ _ _ st. (Inr [None], st + 1)), cfx_dynamic_source = (\<lambda>_. Some 1), cfx_debug = (\<lambda>_. []), cfx_parse_f64 = (\<lambda>_. None),
      cfx_float_json = (\<lambda>_. JNull)\<rparr>"

lemma sample_delete_planned:
  "configs_plan (\<lambda>_. False) (\<lambda>_. Inl []) sample_delete_args = Some (Inr (AlterResource TOPICS ''t'' [''retention.ms''] []))"
  by code_simp

theorem configs_plan_sound_witness: "plan_allowed sample_delete_args (AlterResource TOPICS ''t'' [''retention.ms''] [])"
  using configs_plan_sound [of "\<lambda>_. False" "\<lambda>_. Inl []" sample_delete_args] by (simp only: sample_delete_planned option.inject sum.inject simp_thms)

text \<open>The names of unknown quotas are joined before the test for emptiness, so a lone empty name is not seen: an empty quota is planned for every address.\<close>

theorem empty_ip_quota_accepted:
  "configs_plan (\<lambda>_. False) (\<lambda>_. Inl []) (sample_delete_args\<lparr>cf_topic := [], cf_ip_defaults := True, cf_delete_config := ['' '']\<rparr>) =
     Some (Inr (AlterQuotas IPS [] (quota_entity [IPS] [[]]) (quota_components [IPS] [[]]) [] [[]]))"
  by code_simp

theorem configs_change_only_their_own_witness:
  "run_configs (with_config_changes sample_configs_env (\<lambda>_ _ st. (Inr [], st + 5)) (\<lambda>_ _ st. (Inr [], st + 5)) (\<lambda>_ _ _ st. (Inr [], st + 5)))
     (\<lambda>_. False) (\<lambda>_. Inl []) sample_describe_args = run_configs sample_configs_env (\<lambda>_. False) (\<lambda>_. Inl []) sample_describe_args"
  using configs_change_only_their_own [of sample_describe_args "\<lambda>_ _ st. (Inr [], st + 5)" sample_configs_env "\<lambda>_ _ st. (Inr [], st + 5)"
      "\<lambda>_ _ _ st. (Inr [], st + 5)" "\<lambda>_. False" "\<lambda>_. Inl []"]
  by (simp add: sample_describe_args_def)

lemma sample_added: "configs_to_add (\<lambda>_. Inl []) sample_configs_args = Inr [(''k'', ''v'')]"
proof -
  have "add_config ''k=[v]'' = Inr [(''k'', ''v'')]" "config_key ''k'' = Inr ()" by code_simp+
  then show ?thesis
    by (simp add: configs_to_add_def single_value_def sample_configs_args_def hash_map_order_def hash_order_single scala_set_order_def
      SCALA_SMALL_COLLECTION_def)
qed

theorem configs_to_add_complete_witness:
  "configs_to_add (\<lambda>_. Inl []) sample_configs_args = Inr [(''k'', ''v'')] \<and> config_key ''k'' = Inr ()"
  using configs_to_add_complete [OF sample_added] sample_added by auto

end
