(* ===== verification/Delegation_Tokens.thy ===== *)
theory Delegation_Tokens
  imports Reset_Time Command_Monad
begin

unbundle bit_operations_syntax

text \<open>
  \<^verbatim>\<open>crates/krabka-cli/src/delegation_tokens.rs\<close>: \<open>kafka-delegation-tokens\<close>. An HMAC is its bytes, a time of the client its milliseconds; the printing of a
  principal, the reading of the HMAC file and the client are arguments.
\<close>

section \<open>Base64\<close>

definition BASE64_ALPHABET :: string where
  "BASE64_ALPHABET = ''ABCDEFGHIJKLMNOPQRSTUVWXYZabcdefghijklmnopqrstuvwxyz0123456789+/''"

text \<open>The bytes of a chunk, in the 24 low bits from the top.\<close>

definition chunk_bits :: "string \<Rightarrow> 32 word" where
  "chunk_bits chunk = foldl (\<lambda>bits (index, byte). bits OR push_bit (16 - 8 * index) (word_of_nat (byte_of byte))) 0 (List.enumerate 0 chunk)"

definition base64_symbol :: "string \<Rightarrow> nat \<Rightarrow> char" where
  "base64_symbol chunk index =
     (if index \<le> length chunk then BASE64_ALPHABET ! unat (drop_bit (18 - 6 * index) (chunk_bits chunk) AND 0x3f) else CHR ''='')"

function encode_base64 :: "string \<Rightarrow> string" where
  "encode_base64 bytes = (if bytes = [] then [] else map (base64_symbol (take 3 bytes)) [0 ..< 4] @ encode_base64 (drop 3 bytes))"
  by pat_completeness auto
termination by (relation "measure length") auto

declare encode_base64.simps [simp del]

definition alphabet_position :: "char \<Rightarrow> nat option" where
  "alphabet_position byte =
     (let index = length (takeWhile (\<lambda>symbol. symbol \<noteq> byte) BASE64_ALPHABET) in if index < length BASE64_ALPHABET then Some index else None)"

definition hex_digit :: "nat \<Rightarrow> char" where
  "hex_digit n = ''0123456789abcdef'' ! n"

text \<open>\<open>{:x}\<close> of a number below 256.\<close>

definition hex_text :: "nat \<Rightarrow> string" where
  "hex_text n = (if n < 16 then [hex_digit n] else [hex_digit (n div 16), hex_digit (n mod 16)])"

definition illegal_character :: "char \<Rightarrow> string" where
  "illegal_character byte =
     (let n = byte_of byte in ''Illegal base64 character '' @ (if 128 \<le> n then ''-'' @ hex_text (256 - n) else hex_text n))"

definition be_byte :: "32 word \<Rightarrow> nat \<Rightarrow> char" where
  "be_byte bits index = char_of (unat (drop_bit (24 - 8 * index) bits))"

fun decode_units :: "nat \<Rightarrow> 32 word \<Rightarrow> int \<Rightarrow> string \<Rightarrow> string \<Rightarrow> (nat \<times> 32 word \<times> int \<times> string) res" where
  "decode_units position bits shift out [] = Inr (position, bits, shift, out)"
| "decode_units position bits shift out (byte # rest) =
     (if byte = CHR ''=''
      then let complete = (if shift = 6 then (case rest of [] \<Rightarrow> False | next # _ \<Rightarrow> next = CHR ''='') else shift \<noteq> 18);
               position = (if shift = 6 then position + 2 else position + 1)
           in if complete then Inr (position, bits, shift, out) else Inl ''Input byte array has wrong 4-byte ending unit''
      else case alphabet_position byte of
          None \<Rightarrow> Inl (illegal_character byte)
        | Some sextet \<Rightarrow>
            let bits = bits OR push_bit (nat shift) (word_of_nat sextet); shift = shift - 6
            in if shift < 0 then decode_units (position + 1) 0 18 (out @ map (be_byte bits) [1, 2, 3]) rest
               else decode_units (position + 1) bits shift out rest)"

definition decode_base64 :: "string \<Rightarrow> string res" where
  "decode_base64 input =
     (if input = [] then Inr []
      else if length input < 2 then Inl ''Input byte[] should at least have 2 bytes for base64 bytes''
      else res_bind (decode_units 0 0 18 [] input) (\<lambda>(position, bits, shift, out).
        res_bind (if shift = 6 then Inr (out @ [be_byte bits 1])
          else if shift = 0 then Inr (out @ map (be_byte bits) [1, 2])
          else if shift = 12 then Inl ''Last unit does not have enough valid bits''
          else Inr out) (\<lambda>out.
        if position < length input then Inl (''Input byte array has incorrect ending byte at '' @ show_nat position) else Inr out)))"

section \<open>Dates\<close>

definition civil_from_days :: "int \<Rightarrow> int \<times> int \<times> int" where
  "civil_from_days days =
     (let shifted = days + 719468;
          era = shifted div 146097;
          day_of_era = shifted mod 146097;
          year_of_era = (day_of_era - day_of_era div 1460 + day_of_era div 36524 - day_of_era div 146096) div 365;
          day_of_year = day_of_era - (365 * year_of_era + year_of_era div 4 - year_of_era div 100);
          month_index = (5 * day_of_year + 2) div 153;
          day = day_of_year - (153 * month_index + 2) div 5 + 1;
          month = (if month_index < 10 then month_index + 3 else month_index - 9);
          year = year_of_era + era * 400 + (if month \<le> 2 then 1 else 0)
      in (year, month, day))"

text \<open>\<open>{:0w}\<close>: zeros after the sign up to the width.\<close>

definition zero_padded :: "nat \<Rightarrow> int \<Rightarrow> string" where
  "zero_padded width n =
     (let sign = (if n < 0 then ''-'' else []); ds = show_nat (nat \<bar>n\<bar>)
      in sign @ replicate (width - length sign - length ds) (CHR ''0'') @ ds)"

definition format_date :: "int \<Rightarrow> string" where
  "format_date epoch_ms =
     (let seconds = epoch_ms div 1000;
          (year, month, day) = civil_from_days (seconds div 86400);
          second_of_day = seconds mod 86400
      in zero_padded 4 year @ ''-'' @ zero_padded 2 month @ ''-'' @ zero_padded 2 day @ ''T'' @
         zero_padded 2 (second_of_day div 3600) @ '':'' @ zero_padded 2 (second_of_day mod 3600 div 60))"

section \<open>Arguments\<close>

definition BROKER_DEFAULT :: int where "BROKER_DEFAULT = - 1"

record DelegationTokensArgs =
  dt_bootstrap_server :: "string list"
  dt_command_config :: "string option"
  dt_create :: bool
  dt_renew :: bool
  dt_expire :: bool
  dt_describe :: bool
  dt_owner_principal :: "string list"
  dt_renewer_principal :: "string list"
  dt_max_life_time_period :: "int option"
  dt_renew_time_period :: "int option"
  dt_expiry_time_period :: "int option"
  dt_hmac :: "string option"
  dt_hmac_file :: "string option"
  dt_confirm :: ConfirmArgs

datatype TokenAction = Token_Create | Token_Renew | Token_Expire | Token_Describe

record TokenRow =
  tr_token_id :: string
  tr_hmac :: string
  tr_owner :: string
  tr_requester :: "string option"
  tr_renewers :: "string list"
  tr_issue_timestamp_ms :: int
  tr_expiry_timestamp_ms :: int
  tr_max_timestamp_ms :: int

record KafkaPrincipal =
  kp_principal_type :: string
  kp_name :: string

record DelegationToken =
  tk_token_id :: string
  tk_hmac :: string
  tk_owner :: KafkaPrincipal
  tk_token_requester :: KafkaPrincipal
  tk_renewers :: "KafkaPrincipal list"
  tk_issue_timestamp_ms :: int
  tk_expiry_timestamp_ms :: int
  tk_max_timestamp_ms :: int

definition given_actions :: "DelegationTokensArgs \<Rightarrow> TokenAction list" where
  "given_actions self =
     map snd (filter fst [(dt_create self, Token_Create), (dt_renew self, Token_Renew), (dt_expire self, Token_Expire), (dt_describe self, Token_Describe)])"

definition hmac_flag :: "DelegationTokensArgs \<Rightarrow> bool" where
  "hmac_flag self \<longleftrightarrow> dt_hmac self \<noteq> None \<or> dt_hmac_file self \<noteq> None"

definition token_required :: "DelegationTokensArgs \<Rightarrow> bool \<Rightarrow> TokenAction \<Rightarrow> (bool \<times> string \<times> bool) list" where
  "token_required self env_hmac action =
     [(True, ''bootstrap-server'', dt_bootstrap_server self \<noteq> []), (True, ''command-config'', dt_command_config self \<noteq> None),
      (action = Token_Create, ''max-life-time-period'', dt_max_life_time_period self \<noteq> None),
      (action = Token_Renew, ''hmac'', hmac_flag self \<or> env_hmac), (action = Token_Renew, ''renew-time-period'', dt_renew_time_period self \<noteq> None),
      (action = Token_Expire, ''hmac'', hmac_flag self \<or> env_hmac), (action = Token_Expire, ''expiry-time-period'', dt_expiry_time_period self \<noteq> None)]"

definition token_excluded :: "DelegationTokensArgs \<Rightarrow> TokenAction \<Rightarrow> (bool \<times> string \<times> string \<times> bool) list" where
  "token_excluded self action =
     (let owner = dt_owner_principal self \<noteq> []; renewer = dt_renewer_principal self \<noteq> []; max_life = dt_max_life_time_period self \<noteq> None;
          renew_period = dt_renew_time_period self \<noteq> None; expiry_period = dt_expiry_time_period self \<noteq> None
      in [(action = Token_Create, ''create'', ''hmac'', hmac_flag self), (action = Token_Create, ''create'', ''renew-time-period'', renew_period),
          (action = Token_Create, ''create'', ''expiry-time-period'', expiry_period), (action = Token_Renew, ''renew'', ''renewer-principal'', renewer),
          (action = Token_Renew, ''renew'', ''max-life-time-period'', max_life), (action = Token_Renew, ''renew'', ''expiry-time-period'', expiry_period),
          (action = Token_Renew, ''renew'', ''owner-principal'', owner), (action = Token_Expire, ''expire'', ''max-life-time-period'', max_life),
          (action = Token_Expire, ''expire'', ''renew-time-period'', renew_period), (action = Token_Expire, ''expire'', ''owner-principal'', owner),
          (action = Token_Describe, ''describe'', ''renew-time-period'', renew_period), (action = Token_Describe, ''describe'', ''max-life-time-period'', max_life),
          (action = Token_Describe, ''describe'', ''hmac'', hmac_flag self), (action = Token_Describe, ''describe'', ''expiry-time-period'', expiry_period)])"

definition check_tokens :: "DelegationTokensArgs \<Rightarrow> bool \<Rightarrow> TokenAction res" where
  "check_tokens self env_hmac =
     (case given_actions self of
        [action] \<Rightarrow>
          (case List.find (\<lambda>(applies, _, present). applies \<and> \<not> present) (token_required self env_hmac action) of
             Some (_, name, _) \<Rightarrow> Inl (''Missing required argument '' @ [CHR 0x22] @ ''['' @ name @ '']'' @ [CHR 0x22])
           | None \<Rightarrow>
               (case List.find (\<lambda>(applies, _, _, present). applies \<and> present) (token_excluded self action) of
                  Some (_, used, other, _) \<Rightarrow>
                    Inl (''Option '' @ [CHR 0x22] @ ''['' @ used @ '']'' @ [CHR 0x22] @ '' can'' @ [CHR 0x27] @ ''t be used with option '' @ [CHR 0x22] @ ''['' @ other @
                      '']'' @ [CHR 0x22])
                | None \<Rightarrow>
                    if ca_dry_run (dt_confirm self) \<and> action \<noteq> Token_Expire then Inl ''--dry-run is only valid with --expire'' else Inr action))
      | _ \<Rightarrow> Inl ''Command must include exactly one action: --create, --renew, --expire or --describe'')"

definition hmac_value :: "(string \<Rightarrow> string res) \<Rightarrow> DelegationTokensArgs \<Rightarrow> string option \<Rightarrow> string res" where
  "hmac_value read self env =
     (case dt_hmac self of
        Some hmac \<Rightarrow> Inr hmac
      | None \<Rightarrow>
          (case dt_hmac_file self of
             Some path \<Rightarrow> map_sum (\<lambda>e. ''read HMAC file '' @ path @ '': '' @ e) trim (read path)
           | None \<Rightarrow> ok_or (''Missing required argument '' @ [CHR 0x22] @ ''[hmac]'' @ [CHR 0x22]) (map_option trim env)))"

definition time_period :: "int \<Rightarrow> int option" where
  "time_period millis = (if millis \<noteq> BROKER_DEFAULT then Some millis else None)"

definition parse_principal :: "string \<Rightarrow> KafkaPrincipal res" where
  "parse_principal v =
     (let v = trim v
      in map_sum id (\<lambda>(principal_type, name). \<lparr>kp_principal_type = principal_type, kp_name = name\<rparr>)
           (ok_or (''expected a string in format principalType:principalName but got '' @ v) (split_once CHR '':'' v)))"

definition token_principals :: "string list \<Rightarrow> KafkaPrincipal list res" where
  "token_principals values = collect_res parse_principal values"

section \<open>Reports\<close>

definition java_list_text :: "string list \<Rightarrow> string" where
  "java_list_text items = ''['' @ join_with '', '' items @ '']''"

definition token_row :: "(KafkaPrincipal \<Rightarrow> string) \<Rightarrow> DelegationToken \<Rightarrow> TokenRow" where
  "token_row to_str token =
     \<lparr>tr_token_id = tk_token_id token, tr_hmac = tk_hmac token, tr_owner = to_str (tk_owner token), tr_requester = Some (to_str (tk_token_requester token)),
      tr_renewers = map to_str (tk_renewers token), tr_issue_timestamp_ms = tk_issue_timestamp_ms token,
      tr_expiry_timestamp_ms = tk_expiry_timestamp_ms token, tr_max_timestamp_ms = tk_max_timestamp_ms token\<rparr>"

text \<open>In UTF-16 code units.\<close>

definition pad_cell :: "string \<Rightarrow> nat \<Rightarrow> string" where
  "pad_cell v width = v @ replicate (width - length (encode_utf16 v)) (CHR '' '')"

definition TOKEN_WIDTHS :: "nat list" where "TOKEN_WIDTHS = [15, 30, 15, 15, 25, 15, 15, 15]"

definition token_line :: "string list \<Rightarrow> string" where
  "token_line cells = join_with '' '' (map (\<lambda>(cell, width). pad_cell cell width) (zip cells TOKEN_WIDTHS))"

definition token_cells :: "TokenRow \<Rightarrow> string list" where
  "token_cells token =
     [tr_token_id token, encode_base64 (tr_hmac token), tr_owner token, (case tr_requester token of Some r \<Rightarrow> r | None \<Rightarrow> '':''),
      java_list_text (tr_renewers token), format_date (tr_issue_timestamp_ms token), format_date (tr_expiry_timestamp_ms token),
      format_date (tr_max_timestamp_ms token)]"

definition token_table :: "TokenRow list \<Rightarrow> string list" where
  "token_table tokens =
     token_line [''TOKENID'', ''HMAC'', ''OWNER'', ''REQUESTER'', ''RENEWERS'', ''ISSUEDATE'', ''EXPIRYDATE'', ''MAXDATE''] #
     concat (map (\<lambda>token. [[], token_line (token_cells token)]) tokens)"

definition token_json :: "TokenRow \<Rightarrow> json" where
  "token_json token =
     JObject [(''token_id'', JString (tr_token_id token)), (''hmac'', JString (encode_base64 (tr_hmac token))), (''owner'', JString (tr_owner token)),
       (''requester'', opt_json (tr_requester token)), (''renewers'', JArray (map JString (tr_renewers token))),
       (''issue_timestamp_ms'', JInt (tr_issue_timestamp_ms token)), (''expiry_timestamp_ms'', JInt (tr_expiry_timestamp_ms token)),
       (''max_timestamp_ms'', JInt (tr_max_timestamp_ms token))]"

definition token_created :: "string list \<Rightarrow> int \<Rightarrow> TokenRow \<Rightarrow> CommandResult" where
  "token_created renewers lifetime_ms token =
     result_success
       ([''Calling create token operation with renewers :'' @ java_list_text renewers @ '' , max-life-time-period :'' @ show_int lifetime_ms,
         ''Created delegation token with tokenId : '' @ tr_token_id token, []] @ token_table [token])
       (token_json token)"

definition tokens_described :: "(KafkaPrincipal \<Rightarrow> string) \<Rightarrow> KafkaPrincipal list \<Rightarrow> TokenRow list \<Rightarrow> CommandResult" where
  "tokens_described to_str owners tokens =
     (let owners = map to_str owners
      in result_success
           ([if owners = [] then ''Calling describe token operation for current user.''
             else ''Calling describe token operation for owners: '' @ java_list_text owners,
             ''Total number of tokens : '' @ show_nat (length tokens)] @ token_table tokens)
           (JArray (map token_json tokens)))"

definition completed_token :: "string \<Rightarrow> string \<Rightarrow> int \<Rightarrow> CommandResult" where
  "completed_token operation calling expiry =
     without_final_newline (result_success
       [calling, ''Completed '' @ operation @ '' operation. New expiry date : '' @ format_date expiry]
       (JObject [(''expiry_timestamp_ms'', JInt expiry)]))"

definition calling_token :: "string \<Rightarrow> string \<Rightarrow> int \<Rightarrow> string" where
  "calling_token operation hmac period =
     ''Calling '' @ operation @ '' token operation with hmac :'' @ hmac @ '' , '' @ operation @ ''-time-period :'' @ show_int period"

section \<open>Actions\<close>

record 'c TokensEnv =
  tkx_connect :: "('c, unit) cmd"
  tkx_create :: "KafkaPrincipal option \<Rightarrow> KafkaPrincipal list \<Rightarrow> int option \<Rightarrow> 'c \<Rightarrow> (AdminError + DelegationToken) \<times> 'c"
  tkx_describe :: "KafkaPrincipal list option \<Rightarrow> 'c \<Rightarrow> (AdminError + DelegationToken list) \<times> 'c"
  tkx_renew :: "string \<Rightarrow> int option \<Rightarrow> 'c \<Rightarrow> (AdminError + int) \<times> 'c"
  tkx_expire :: "string \<Rightarrow> int option \<Rightarrow> 'c \<Rightarrow> (AdminError + int) \<times> 'c"
  tkx_terminal :: Terminal
  tkx_to_str :: "KafkaPrincipal \<Rightarrow> string"

definition create_token :: "'c TokensEnv \<Rightarrow> KafkaPrincipal list \<Rightarrow> KafkaPrincipal option \<Rightarrow> int \<Rightarrow> ('c, CommandResult) cmd" where
  "create_token env renewers owner lifetime_ms =
     cmd_bind (cmd_admin_as admin_error (tkx_create env owner renewers (time_period lifetime_ms))) (\<lambda>token.
     cmd_ret (token_created (map (tkx_to_str env) renewers) lifetime_ms (token_row (tkx_to_str env) token)))"

definition describe_tokens :: "'c TokensEnv \<Rightarrow> KafkaPrincipal list \<Rightarrow> ('c, CommandResult) cmd" where
  "describe_tokens env owners =
     cmd_bind (cmd_admin_as admin_error (tkx_describe env (Some owners))) (\<lambda>tokens.
     cmd_ret (tokens_described (tkx_to_str env) owners (map (token_row (tkx_to_str env)) tokens)))"

definition expire_summary :: "int \<Rightarrow> string" where
  "expire_summary period =
     (if period < 0 then ''expire the delegation token of the given HMAC now''
      else ''expire the delegation token of the given HMAC in '' @ show_int period @ '' ms'')"

definition renew_token :: "'c TokensEnv \<Rightarrow> DelegationTokensArgs \<Rightarrow> string \<Rightarrow> string \<Rightarrow> ('c, CommandResult) cmd" where
  "renew_token env self encoded hmac =
     (let period = (case dt_renew_time_period self of Some p \<Rightarrow> p | None \<Rightarrow> BROKER_DEFAULT)
      in cmd_bind (tkx_connect env) (\<lambda>_.
         cmd_bind (cmd_admin_as admin_error (tkx_renew env hmac (time_period period))) (\<lambda>expiry.
         cmd_ret (completed_token ''renew'' (calling_token ''renew'' encoded period) expiry))))"

definition expire_token :: "'c TokensEnv \<Rightarrow> DelegationTokensArgs \<Rightarrow> string \<Rightarrow> string \<Rightarrow> ('c, CommandResult) cmd" where
  "expire_token env self encoded hmac =
     (let period = (case dt_expiry_time_period self of Some p \<Rightarrow> p | None \<Rightarrow> BROKER_DEFAULT);
          calling = calling_token ''expire'' encoded period
      in cmd_bind (tkx_connect env) (\<lambda>_.
         if ca_dry_run (dt_confirm self)
         then cmd_ret (into_dry_run (result_success [calling] (JObject [(''expiry_timestamp_ms'', JNull)])))
         else cmd_bind (cmd_confirm (confirm (ca_yes (dt_confirm self)) (tkx_terminal env) ''krabka delegation-tokens''
             \<lparr>im_summary = expire_summary period, im_resources = []\<rparr>)) (\<lambda>_.
           cmd_bind (cmd_admin_as admin_error (tkx_expire env hmac (time_period period))) (\<lambda>expiry.
           cmd_ret (completed_token ''expire'' calling expiry)))))"

definition run_tokens :: "'c TokensEnv \<Rightarrow> string option \<Rightarrow> (string \<Rightarrow> string res) \<Rightarrow> DelegationTokensArgs \<Rightarrow> ('c, CommandResult) cmd" where
  "run_tokens env env_hmac read self =
     cmd_bind (cmd_try (check_tokens self (env_hmac \<noteq> None))) (\<lambda>action.
     case action of
       Token_Create \<Rightarrow>
         cmd_bind (cmd_try (token_principals (dt_renewer_principal self))) (\<lambda>renewers.
         cmd_bind (cmd_try (token_principals (dt_owner_principal self))) (\<lambda>owners.
         cmd_bind (tkx_connect env) (\<lambda>_.
         create_token env renewers (case owners of [] \<Rightarrow> None | owner # _ \<Rightarrow> Some owner)
           (case dt_max_life_time_period self of Some p \<Rightarrow> p | None \<Rightarrow> BROKER_DEFAULT))))
     | Token_Describe \<Rightarrow>
         cmd_bind (cmd_try (token_principals (dt_owner_principal self))) (\<lambda>owners.
         cmd_bind (tkx_connect env) (\<lambda>_. describe_tokens env owners))
     | Token_Renew \<Rightarrow>
         cmd_bind (cmd_try (hmac_value read self env_hmac)) (\<lambda>encoded.
         cmd_bind (cmd_try (decode_base64 encoded)) (\<lambda>hmac. renew_token env self encoded hmac))
     | Token_Expire \<Rightarrow>
         cmd_bind (cmd_try (hmac_value read self env_hmac)) (\<lambda>encoded.
         cmd_bind (cmd_try (decode_base64 encoded)) (\<lambda>hmac. expire_token env self encoded hmac)))"

end
