(* ===== verification/Delegation_Safety.thy ===== *)
theory Delegation_Safety
  imports Delegation_Tokens
begin

unbundle bit_operations_syntax

text \<open>
  What \<open>kafka-delegation-tokens\<close> does: an HMAC that is printed reads back, a printed date is the minute of its instant, and only the action of the command
  line reaches the cluster.
\<close>

section \<open>Base64\<close>

lemma distinct_alphabet: "distinct BASE64_ALPHABET" "CHR ''='' \<notin> set BASE64_ALPHABET" "length BASE64_ALPHABET = 64"
  by (simp_all add: BASE64_ALPHABET_def)

lemma takeWhile_nth: "distinct xs \<Longrightarrow> n < length xs \<Longrightarrow> takeWhile (\<lambda>x. x \<noteq> xs ! n) xs = take n xs"
proof (induction xs arbitrary: n)
  case (Cons x xs)
  then show ?case by (cases n) (auto simp: nth_mem)
qed simp

lemma alphabet_position_nth: "n < 64 \<Longrightarrow> alphabet_position (BASE64_ALPHABET ! n) = Some n"
  using takeWhile_nth [of BASE64_ALPHABET n] by (simp add: alphabet_position_def distinct_alphabet)

lemma symbol_not_pad: "n < 64 \<Longrightarrow> BASE64_ALPHABET ! n \<noteq> CHR ''=''"
  using distinct_alphabet by (metis nth_mem)

definition sextet :: "32 word \<Rightarrow> nat \<Rightarrow> 32 word" where
  "sextet bits shift = drop_bit shift bits AND 0x3f"

lemma sextet_eq: "sextet bits shift = take_bit 6 (drop_bit shift bits)"
  by (simp add: sextet_def take_bit_eq_mask mask_eq_exp_minus_1)

lemma sextet_small: "unat (sextet bits shift) < 64"
proof -
  have "unat (take_bit 6 w) < 2 ^ 6" for w :: "32 word" unfolding unsigned_take_bit_eq by (rule take_bit_nat_less_exp)
  then show ?thesis by (simp add: sextet_eq)
qed

lemma bit_sextet: "bit (sextet bits shift) n \<longleftrightarrow> n < 6 \<and> bit bits (shift + n)"
  by (auto simp: sextet_eq bit_simps)

lemma sextet_word: "word_of_nat (unat (sextet bits shift)) = sextet bits shift"
  by simp

definition sextets :: "32 word \<Rightarrow> 32 word" where
  "sextets bits = push_bit 18 (sextet bits 18) OR push_bit 12 (sextet bits 12) OR push_bit 6 (sextet bits 6) OR sextet bits 0"

lemma bit_sextets:
  "bit (sextets bits) n \<longleftrightarrow> n < 24 \<and> bit bits n"
proof -
  consider "n < 6" | "6 \<le> n" "n < 12" | "12 \<le> n" "n < 18" | "18 \<le> n" "n < 24" | "24 \<le> n" by linarith
  then show ?thesis
  proof cases
    case 5
    then have "\<not> n < 6" "\<not> n - 6 < 6" "\<not> n - 12 < 6" "\<not> n - 18 < 6" by linarith+
    with 5 show ?thesis by (simp add: sextets_def bit_or_iff bit_push_bit_iff bit_sextet)
  qed (auto simp: sextets_def bit_or_iff bit_push_bit_iff bit_sextet less_diff_conv2)
qed

lemma sextets_join: "take_bit 24 bits = bits \<Longrightarrow> sextets bits = bits"
  by (rule bit_word_eqI) (metis bit_sextets bit_take_bit_iff)

definition byte_word :: "char \<Rightarrow> 32 word" where
  "byte_word c = word_of_nat (byte_of c)"

lemma take_byte_of: "take_bit 8 (byte_of c) = byte_of c"
proof -
  have "byte_of c < 2 ^ 8" by (simp add: byte_of_def)
  then show ?thesis by (simp add: take_bit_nat_eq_self)
qed

lemma bit_byte_word: "bit (byte_word c) n \<longleftrightarrow> n < 8 \<and> bit (byte_of c) n"
proof -
  have "bit (byte_of c) n \<Longrightarrow> n < 8" using take_byte_of by (metis bit_take_bit_iff)
  then show ?thesis by (auto simp: byte_word_def bit_simps)
qed

lemma chunk_bits_simps:
  "chunk_bits [a] = push_bit 16 (byte_word a)"
  "chunk_bits [a, b] = push_bit 16 (byte_word a) OR push_bit 8 (byte_word b)"
  "chunk_bits [a, b, c] = push_bit 16 (byte_word a) OR push_bit 8 (byte_word b) OR byte_word c"
  by (simp_all add: chunk_bits_def byte_word_def or.assoc)

lemmas bit_chunk = chunk_bits_simps bit_or_iff bit_push_bit_iff bit_byte_word

lemma chunk_small: "take_bit 24 (chunk_bits [a]) = chunk_bits [a]" "take_bit 24 (chunk_bits [a, b]) = chunk_bits [a, b]"
  "take_bit 24 (chunk_bits [a, b, c]) = chunk_bits [a, b, c]"
  by (rule bit_word_eqI; auto simp: bit_chunk bit_take_bit_iff)+

lemma chunk_rest: "sextet (chunk_bits [a]) 6 = 0" "sextet (chunk_bits [a]) 0 = 0" "sextet (chunk_bits [a, b]) 0 = 0"
  by (rule bit_word_eqI; auto simp: bit_chunk bit_sextet)+

lemma be_byte_eqI: "(\<And>n. n < 8 \<Longrightarrow> bit bits (24 - 8 * index + n) \<longleftrightarrow> bit (byte_of c) n) \<Longrightarrow> be_byte bits index = c"
proof -
  assume bits: "\<And>n. n < 8 \<Longrightarrow> bit bits (24 - 8 * index + n) \<longleftrightarrow> bit (byte_of c) n"
  have "take_bit 8 (unat (drop_bit (24 - 8 * index) bits)) = take_bit 8 (byte_of c)"
    by (rule bit_eqI) (auto simp: bit_take_bit_iff bit_unsigned_iff bit_drop_bit_eq bits bit_imp_le_length)
  then have "char_of (unat (drop_bit (24 - 8 * index) bits)) = char_of (byte_of c)" by (simp add: char_of_eq_iff take_byte_of [unfolded byte_of_def] byte_of_def)
  then show ?thesis by (simp add: be_byte_def byte_of_def)
qed

lemma be_byte_chunk:
  "be_byte (chunk_bits [a]) 1 = a"
  "be_byte (chunk_bits [a, b]) 1 = a" "be_byte (chunk_bits [a, b]) 2 = b"
  "be_byte (chunk_bits [a, b, c]) 1 = a" "be_byte (chunk_bits [a, b, c]) 2 = b" "be_byte (chunk_bits [a, b, c]) 3 = c"
  by (rule be_byte_eqI; auto simp: bit_chunk)+

lemma decode_symbol:
  "decode_units position bits shift out (BASE64_ALPHABET ! unat (sextet w k) # rest) =
     (let bits = bits OR push_bit (nat shift) (sextet w k)
      in if shift - 6 < 0 then decode_units (position + 1) 0 18 (out @ map (be_byte bits) [1, 2, 3]) rest
         else decode_units (position + 1) bits (shift - 6) out rest)"
  by (simp add: symbol_not_pad [OF sextet_small] alphabet_position_nth [OF sextet_small] Let_def)

lemma decode_pads:
  "decode_units position bits 6 out ''=='' = Inr (position + 2, bits, 6, out)" "decode_units position bits 0 out ''='' = Inr (position + 1, bits, 0, out)"
  by simp_all

lemmas decode_steps = decode_symbol decode_pads

lemma sextets_eq:
  "take_bit 24 w = w \<Longrightarrow> push_bit 18 (sextet w 18) OR push_bit 12 (sextet w 12) OR push_bit 6 (sextet w 6) OR sextet w 0 = w"
  using sextets_join [of w] by (simp add: sextets_def)

lemma encode_chunk:
  "base64_symbol chunk index = (if index \<le> length chunk then BASE64_ALPHABET ! unat (sextet (chunk_bits chunk) (18 - 6 * index)) else CHR ''='')"
  by (simp add: base64_symbol_def sextet_def)

lemma decode_chunks:
  "\<exists>bits shift before after. decode_units position 0 18 out (encode_base64 bytes) = Inr (position + length (encode_base64 bytes), bits, shift, out @ before) \<and>
     bytes = before @ after \<and> (shift = 18 \<and> after = [] \<or> shift = 6 \<and> after = [be_byte bits 1] \<or> shift = 0 \<and> after = map (be_byte bits) [1, 2])"
proof (induction bytes arbitrary: position out rule: encode_base64.induct)
  case (1 bytes)
  have upt: "[0 ..< 4] = [0, 1, 2, 3 :: nat]" by code_simp
  consider "bytes = []" | a where "bytes = [a]" | a b where "bytes = [a, b]" | a b c rest where "bytes = a # b # c # rest"
    by (metis neq_Nil_conv)
  then show ?case
  proof cases
    case (2 a)
    have encoded: "encode_base64 bytes = map (base64_symbol [a]) [0, 1, 2, 3]" by (simp add: 2 encode_base64.simps [of "[a]"] encode_base64.simps [of "[]"] upt)
    have bits: "push_bit 18 (sextet (chunk_bits [a]) 18) OR push_bit 12 (sextet (chunk_bits [a]) 12) = chunk_bits [a]"
      using sextets_eq [OF chunk_small(1)] by (simp add: chunk_rest)
    show ?thesis
      unfolding encoded by (rule exI [of _ "chunk_bits [a]"], rule exI [of _ 6], rule exI [of _ "[]"], rule exI [of _ "[a]"]) (simp add: 2 bits encode_chunk decode_steps be_byte_chunk [unfolded One_nat_def] del: decode_units.simps(2))
  next
    case (3 a b)
    have encoded: "encode_base64 bytes = map (base64_symbol [a, b]) [0, 1, 2, 3]" by (simp add: 3 encode_base64.simps [of "[a, b]"] encode_base64.simps [of "[]"] upt)
    have bits: "push_bit 18 (sextet (chunk_bits [a, b]) 18) OR push_bit 12 (sextet (chunk_bits [a, b]) 12) OR push_bit 6 (sextet (chunk_bits [a, b]) 6) = chunk_bits [a, b]"
      using sextets_eq [OF chunk_small(2)] by (simp add: chunk_rest or.assoc)
    show ?thesis
      unfolding encoded by (rule exI [of _ "chunk_bits [a, b]"], rule exI [of _ 0], rule exI [of _ "[]"], rule exI [of _ "[a, b]"]) (simp add: 3 bits encode_chunk decode_steps be_byte_chunk [unfolded One_nat_def] or.assoc del: decode_units.simps(2))
  next
    case (4 a b c rest)
    let ?chunk = "[a, b, c]"
    have encoded: "encode_base64 bytes = map (base64_symbol ?chunk) [0, 1, 2, 3] @ encode_base64 rest" by (simp add: 4 encode_base64.simps [of "a # b # c # rest"] upt)
    have "push_bit 18 (sextet (chunk_bits ?chunk) 18) OR (push_bit 12 (sextet (chunk_bits ?chunk) 12) OR (push_bit 6 (sextet (chunk_bits ?chunk) 6) OR sextet (chunk_bits ?chunk) 0)) = chunk_bits ?chunk"
      using sextets_eq [OF chunk_small(3)] by (simp add: or.assoc)
    then have step: "decode_units position 0 18 out (encode_base64 bytes) = decode_units (Suc (Suc (Suc (Suc position)))) 0 18 (out @ ?chunk) (encode_base64 rest)"
      by (simp add: encoded encode_chunk decode_steps be_byte_chunk [unfolded One_nat_def] or.assoc del: decode_units.simps(2))
    obtain bits shift before after where "decode_units (Suc (Suc (Suc (Suc position)))) 0 18 (out @ ?chunk) (encode_base64 rest) =
        Inr (Suc (Suc (Suc (Suc position))) + length (encode_base64 rest), bits, shift, (out @ ?chunk) @ before)" "rest = before @ after"
      "shift = 18 \<and> after = [] \<or> shift = 6 \<and> after = [be_byte bits 1] \<or> shift = 0 \<and> after = map (be_byte bits) [1, 2]"
      using "1.IH" [of "Suc (Suc (Suc (Suc position)))" "out @ ?chunk"] 4 by auto
    note IH = this
    have "decode_units position 0 18 out (encode_base64 bytes) = Inr (position + length (encode_base64 bytes), bits, shift, out @ ?chunk @ before)"
      unfolding step IH(1) by (simp add: encoded)
    moreover have "bytes = (?chunk @ before) @ after" using IH(2) 4 by simp
    ultimately show ?thesis using IH(3) by blast
  qed (simp add: encode_base64.simps)
qed

text \<open>C16. Base64 round trip: an HMAC that is printed reads back as its bytes.\<close>

theorem base64_roundtrip: "decode_base64 (encode_base64 bytes) = Inr bytes"
proof -
  obtain bits shift before after where units: "decode_units 0 0 18 [] (encode_base64 bytes) = Inr (length (encode_base64 bytes), bits, shift, before)"
    "bytes = before @ after" "shift = 18 \<and> after = [] \<or> shift = 6 \<and> after = [be_byte bits 1] \<or> shift = 0 \<and> after = map (be_byte bits) [1, 2]"
    using decode_chunks [of 0 "[]" bytes] by auto
  have "encode_base64 bytes = [] \<longleftrightarrow> bytes = []" "\<not> length (encode_base64 bytes) = 1"
    by (subst encode_base64.simps; simp)+
  then show ?thesis using units by (auto simp: decode_base64_def less_2_cases_iff)
qed

section \<open>Dates\<close>

text \<open>The parts of a day of an era: centuries, periods of four years, years and days, with the leap days last.\<close>

lemma day_of_era_parts:
  fixes doe :: int
  assumes "0 \<le> doe" "doe \<le> 146096"
  obtains c q k t where "doe = 36524 * c + 1461 * q + 365 * k + t" "0 \<le> c" "c \<le> 3" "0 \<le> q" "q \<le> 24" "0 \<le> k" "k \<le> 3" "0 \<le> t"
    "t \<le> 364 \<or> t = 365 \<and> k = 3 \<and> (q < 24 \<or> c = 3)"
proof -
  define c where "c = (if doe = 146096 then 3 else doe div 36524)"
  define r where "r = doe - 36524 * c"
  define q where "q = r div 1461"
  define s where "s = r mod 1461"
  define k where "k = (if s = 1460 then 3 else s div 365)"
  have century: "doe = 36524 * (doe div 36524) + doe mod 36524" "0 \<le> doe mod 36524" "doe mod 36524 < 36524" by simp_all
  then have c: "0 \<le> c" "c \<le> 3" "0 \<le> r" "r \<le> 36524" "r = 36524 \<Longrightarrow> c = 3" using assms by (auto simp: c_def r_def)
  have r: "r = 1461 * q + s" "0 \<le> s" "s \<le> 1460" by (simp_all add: q_def s_def)
  have q: "0 \<le> q" "q \<le> 24" using r c by linarith+
  have year: "s = 365 * (s div 365) + s mod 365" "0 \<le> s mod 365" "s mod 365 < 365" by simp_all
  then have k: "0 \<le> k" "k \<le> 3" "0 \<le> s - 365 * k" "s - 365 * k \<le> 364 \<or> s - 365 * k = 365 \<and> k = 3 \<and> s = 1460" using r by (auto simp: k_def)
  have "q < 24 \<or> c = 3" if "s = 1460" using that r(1) q c(5) by (cases "q = 24") auto
  then have last: "s - 365 * k \<le> 364 \<or> s - 365 * k = 365 \<and> k = 3 \<and> (q < 24 \<or> c = 3)" using k(4) by blast
  show ?thesis
  proof (rule that [of c q k "s - 365 * k"])
    show "s - 365 * k \<le> 364 \<or> s - 365 * k = 365 \<and> k = 3 \<and> (q < 24 \<or> c = 3)" by (rule last)
  qed (use c q k r in \<open>simp_all add: r_def\<close>)
qed

lemma year_of_era_parts:
  fixes c q k t :: int
  assumes "doe = 36524 * c + 1461 * q + 365 * k + t" "0 \<le> c" "c \<le> 3" "0 \<le> q" "q \<le> 24" "0 \<le> k" "k \<le> 3" "0 \<le> t"
    "t \<le> 364 \<or> t = 365 \<and> k = 3 \<and> (q < 24 \<or> c = 3)"
  shows "(doe - doe div 1460 + doe div 36524 - doe div 146096) div 365 = 100 * c + 4 * q + k"
    "365 * (100 * c + 4 * q + k) + (100 * c + 4 * q + k) div 4 - (100 * c + 4 * q + k) div 100 = doe - t"
proof -
  define e where "e = (24 * c + q + 365 * k + t) div 1460"
  have rest: "24 * c + q + 365 * k + t = 1460 * e + (24 * c + q + 365 * k + t) mod 1460" "0 \<le> (24 * c + q + 365 * k + t) mod 1460"
    "(24 * c + q + 365 * k + t) mod 1460 < 1460" by (simp_all add: e_def)
  have "doe div 1460 = 25 * c + q + e"
    by (rule int_div_pos_eq [where r = "(24 * c + q + 365 * k + t) mod 1460"]) (use rest assms(1) in \<open>simp_all add: algebra_simps\<close>)
  moreover have "doe div 36524 - doe div 146096 = c"
  proof (cases "doe = 146096")
    case True
    then show ?thesis using assms by simp
  next
    case False
    have "doe < 146096" "doe - 36524 * c < 36524" using False assms by auto
    moreover have "0 \<le> doe" "0 \<le> doe - 36524 * c" using assms by simp_all
    moreover from calculation have "doe div 36524 = c" by (intro int_div_pos_eq [where r = "doe - 36524 * c"]) simp_all
    ultimately show ?thesis by (simp add: div_pos_pos_trivial)
  qed
  ultimately have sum: "doe - doe div 1460 + doe div 36524 - doe div 146096 = 365 * (100 * c + 4 * q + k) + (t - e)" using assms(1) by simp
  have "0 \<le> t - e" "t - e \<le> 364" using assms rest by auto
  then show "(doe - doe div 1460 + doe div 36524 - doe div 146096) div 365 = 100 * c + 4 * q + k"
    unfolding sum by (intro int_div_pos_eq [where r = "t - e"]) simp_all
  have "(100 * c + 4 * q + k) div 4 = 25 * c + q" by (rule int_div_pos_eq [where r = k]) (use assms in simp_all)
  moreover have "(100 * c + 4 * q + k) div 100 = c" by (rule int_div_pos_eq [where r = "4 * q + k"]) (use assms in simp_all)
  ultimately show "365 * (100 * c + 4 * q + k) + (100 * c + 4 * q + k) div 4 - (100 * c + 4 * q + k) div 100 = doe - t" using assms(1) by simp
qed

lemma month_parts:
  fixes t :: int
  assumes "0 \<le> t" "t \<le> 365"
  defines "i \<equiv> (5 * t + 2) div 153"
  shows "0 \<le> i" "i \<le> 11" "1 \<le> t - (153 * i + 2) div 5 + 1"
    "i < 11 \<Longrightarrow> t - (153 * i + 2) div 5 + 1 \<le> days_in_month y (if i < 10 then i + 3 else i - 9)" "i = 11 \<Longrightarrow> t - (153 * i + 2) div 5 + 1 = t - 336"
proof -
  have bounds: "153 * i \<le> 5 * t + 2" "5 * t + 2 < 153 * i + 153"
    using pos_mod_bound [of 153 "5 * t + 2"] pos_mod_sign [of 153 "5 * t + 2"] div_mult_mod_eq [of "5 * t + 2" 153] by (simp_all add: i_def)
  then show i: "0 \<le> i" "i \<le> 11" using assms(1,2) by linarith+
  then have "i = 0 \<or> i = 1 \<or> i = 2 \<or> i = 3 \<or> i = 4 \<or> i = 5 \<or> i = 6 \<or> i = 7 \<or> i = 8 \<or> i = 9 \<or> i = 10 \<or> i = 11" by presburger
  then show "1 \<le> t - (153 * i + 2) div 5 + 1"
    "i < 11 \<Longrightarrow> t - (153 * i + 2) div 5 + 1 \<le> days_in_month y (if i < 10 then i + 3 else i - 9)" "i = 11 \<Longrightarrow> t - (153 * i + 2) div 5 + 1 = t - 336"
    using bounds by (elim disjE; simp add: days_in_month_def)+
qed

lemma civil_from_days_parts:
  assumes "civil_from_days days = (y, m, d)"
  shows "days_from_civil y m d = days" "1 \<le> m" "m \<le> 12" "1 \<le> d" "d \<le> days_in_month y m"
proof -
  define era where "era = (days + 719468) div 146097"
  define doe where "doe = (days + 719468) mod 146097"
  have days: "days + 719468 = 146097 * era + doe" "0 \<le> doe" "doe \<le> 146096"
    using pos_mod_bound [of 146097 "days + 719468"] by (simp_all add: era_def doe_def)
  obtain c q k t where parts: "doe = 36524 * c + 1461 * q + 365 * k + t" "0 \<le> c" "c \<le> 3" "0 \<le> q" "q \<le> 24" "0 \<le> k" "k \<le> 3" "0 \<le> t"
    "t \<le> 364 \<or> t = 365 \<and> k = 3 \<and> (q < 24 \<or> c = 3)" using days(2,3) by (rule day_of_era_parts)
  note year = year_of_era_parts [OF parts]
  define yoe where "yoe = 100 * c + 4 * q + k"
  define i where "i = (5 * t + 2) div 153"
  have t: "0 \<le> t" "t \<le> 365" using parts by auto
  have doy: "doe - (365 * yoe + yoe div 4 - yoe div 100) = t" using year(2) unfolding yoe_def by linarith
  have "civil_from_days days = (yoe + era * 400 + (if (if i < 10 then i + 3 else i - 9) \<le> 2 then 1 else 0), if i < 10 then i + 3 else i - 9, t - (153 * i + 2) div 5 + 1)"
    unfolding civil_from_days_def Let_def era_def [symmetric] doe_def [symmetric] year(1) [folded yoe_def] doy i_def [symmetric] ..
  then have made: "m = (if i < 10 then i + 3 else i - 9)" "d = t - (153 * i + 2) div 5 + 1" "y = yoe + era * 400 + (if m \<le> 2 then 1 else 0)"
    unfolding assms prod.inject by blast+
  note month = month_parts [OF t, folded i_def]
  have range: "0 \<le> yoe" "yoe < 400" using parts by (auto simp: yoe_def)
  then have "(yoe + era * 400) div 400 = era" by simp
  then have "year_days (yoe + era * 400) = 146097 * era + doe - t"
    using era_days [of "yoe + era * 400"] year(2) by (simp add: yoe_def [symmetric])
  then show "days_from_civil y m d = days"
    using made month(1,2) days(1) by (simp add: days_from_civil_eq)
  show "1 \<le> m" "m \<le> 12" "1 \<le> d" using made month(1,2,3) by simp_all
  show "d \<le> days_in_month y m"
  proof (cases "i = 11")
    case True
    have feb: "m = 2" "d = t - 336" "y = yoe + 1 + 400 * era" using made month(5) True by simp_all
    show ?thesis
    proof (cases "t \<le> 364")
      case False
      then have leap: "t = 365" "k = 3" "q < 24 \<or> c = 3" using parts by auto
      have y: "y = 4 * (25 * c + q + 1 + 100 * era)" by (simp add: feb yoe_def leap)
      moreover have "y mod 100 \<noteq> 0 \<or> y mod 400 = 0"
      proof (cases "q < 24")
        case True
        have "y mod 100 = (4 * q + 4) mod 100" using y mod_mult_self2 [of "4 * q + 4" 100 "c + 4 * era"] by (simp add: algebra_simps)
        then show ?thesis using True parts by simp
      next
        case False
        then have "y = 400 * (era + 1)" using y leap parts by simp
        then show ?thesis by simp
      qed
      moreover have "y mod 4 = 0" by (simp add: y)
      ultimately show ?thesis using feb leap by (simp add: days_in_month_def)
    qed (simp add: feb days_in_month_def)
  qed (use made month(2,4) in simp)
qed

text \<open>C17. The date of a day number is the calendar's: a day of its month, with that day number.\<close>

theorem civil_from_days_calendar:
  "case civil_from_days days of (y, m, d) \<Rightarrow> days_from_civil y m d = days \<and> m \<in> {1 .. 12} \<and> d \<in> {1 .. days_in_month y m}"
  using civil_from_days_parts [of days] by (cases "civil_from_days days") simp

lemma pad_nat_zeros: "n < 10 ^ w \<Longrightarrow> 0 < w \<Longrightarrow> pad_nat w n = replicate (w - length (show_nat n)) (CHR ''0'') @ show_nat n"
proof (induction w arbitrary: n)
  case (Suc w)
  have digit: "digit_char 0 = CHR ''0''" by code_simp
  have zeros: "pad_nat w 0 = replicate w (CHR ''0'')" for w by (induction w) (simp_all add: digit replicate_append_same)
  show ?case
  proof (cases "n < 10")
    case True
    then show ?thesis by (simp add: zeros show_nat.simps [of n])
  next
    case False
    then have "0 < w" using Suc.prems by (cases w) simp_all
    moreover have "n div 10 < 10 ^ w" using Suc.prems by (simp add: less_mult_imp_div_less)
    ultimately show ?thesis using Suc.IH [of "n div 10"] False by (simp add: show_nat.simps [of n])
  qed
qed simp

lemma zero_padded_pad_nat: "n < 10 ^ w \<Longrightarrow> 0 < w \<Longrightarrow> zero_padded w (int n) = pad_nat w n"
  by (simp add: zero_padded_def Let_def pad_nat_zeros)

text \<open>A printed date is the minute of its instant: with the seconds and the zone it reads back, as a date of \<open>--to-datetime\<close>, as the start of that minute.\<close>

theorem format_date_reads:
  assumes "civil_from_days (ms div 86400000) = (y, m, d)" and "0 \<le> y" and "y < 10000"
  shows "parse_datetime (format_date ms @ '':00.000+00:00'') = Some (Inr (ms - ms mod 60000))"
proof -
  define sec where "sec = ms div 1000 mod 86400"
  define h where "h = sec div 3600"
  define mi where "mi = sec mod 3600 div 60"
  note date = civil_from_days_parts [OF assms(1)]
  have "days_in_month y m \<le> 31" by (simp add: days_in_month_def)
  have sec: "0 \<le> sec" "sec < 86400" by (simp_all add: sec_def)
  have hm: "0 \<le> h" "h < 24" "0 \<le> mi" "mi < 60" using sec by (simp_all add: h_def mi_def div_less_iff_less_mult)
  have "ms div 1000 div 86400 = ms div 86400000" by (simp add: zdiv_zmult2_eq [symmetric])
  moreover have "zero_padded 4 y = pad_nat 4 (nat y)" using zero_padded_pad_nat [of "nat y" 4] assms(2,3) by simp
  moreover have "zero_padded 2 n = pad_nat 2 (nat n)" if "0 \<le> n" "n < 100" for n using zero_padded_pad_nat [of "nat n" 2] that by simp
  then have "zero_padded 2 m = pad_nat 2 (nat m)" "zero_padded 2 d = pad_nat 2 (nat d)" "zero_padded 2 h = pad_nat 2 (nat h)" "zero_padded 2 mi = pad_nat 2 (nat mi)"
    using date \<open>_ \<le> 31\<close> hm by auto
  ultimately have printed: "format_date ms = show_date (nat y) (nat m) (nat d) @ ''T'' @ pad_nat 2 (nat h) @ '':'' @ pad_nat 2 (nat mi)"
    by (simp only: format_date_def Let_def assms(1) prod.case show_date_def sec_def [symmetric] h_def [symmetric] mi_def [symmetric] append.assoc)
  have "show_clock (nat h) (nat mi) 0 0 @ show_zone True 0 0 = pad_nat 2 (nat h) @ '':'' @ pad_nat 2 (nat mi) @ '':00.000+00:00''"
  proof -
    have "pad_nat 2 0 = ''00''" "pad_nat 3 0 = ''000''" by code_simp+
    then show ?thesis by (simp add: show_clock_def show_zone_def)
  qed
  then have "format_date ms @ '':00.000+00:00'' = show_date (nat y) (nat m) (nat d) @ ''T'' @ show_clock (nat h) (nat mi) 0 0 @ show_zone True 0 0"
    by (simp add: printed)
  moreover have "((days_from_civil y m d * 24 + h) * 60 + mi) * 60 * 1000 = ms - ms mod 60000"
  proof -
    define s where "s = sec mod 3600 mod 60"
    have "sec = 3600 * h + sec mod 3600" "sec mod 3600 = 60 * mi + s" "0 \<le> s" "s < 60" by (simp_all add: h_def mi_def s_def)
    moreover have "ms = 1000 * (ms div 1000) + ms mod 1000" "0 \<le> ms mod 1000" "ms mod 1000 < 1000" by simp_all
    moreover have "ms div 1000 = 86400 * (ms div 86400000) + sec" unfolding sec_def \<open>ms div 1000 div 86400 = _\<close> [symmetric] by simp
    moreover have "ms' = 60000 * (1440 * D + 60 * h + mi) + (1000 * s + f) \<and> 0 \<le> 1000 * s + f \<and> 1000 * s + f < 60000"
      if "sec = 3600 * h + R" "R = 60 * mi + s" "0 \<le> s" "s < 60" "ms' = 1000 * S + f" "0 \<le> f" "f < 1000" "S = 86400 * D + sec" for ms' S D R f :: int
      using that by simp
    ultimately have parts: "ms = 60000 * (1440 * (ms div 86400000) + 60 * h + mi) + (1000 * s + ms mod 1000)" "0 \<le> 1000 * s + ms mod 1000" "1000 * s + ms mod 1000 < 60000"
      by blast+
    have "((D * 24 + h) * 60 + mi) * 60 * 1000 = ms' - r" if "ms' = 60000 * (1440 * D + 60 * h + mi) + r" for ms' D r :: int
      using that by simp
    from this [OF parts(1)] show ?thesis unfolding date(1) int_mod_pos_eq [OF parts] .
  qed
  ultimately show ?thesis
    using parse_datetime_roundtrip [of "nat y" "nat m" "nat d" "nat h" "nat mi" 0 0 0 0 True] date assms hm by simp
qed

section \<open>What reaches the cluster\<close>

lemma find_None_list_all: "List.find P xs = None \<longleftrightarrow> list_all (\<lambda>x. \<not> P x) xs"
  by (auto simp: find_None_iff list_all_iff)

lemma check_tokens_iff:
  "check_tokens self env_hmac = Inr action \<longleftrightarrow> given_actions self = [action] \<and>
     list_all (\<lambda>(applies, _, present). applies \<longrightarrow> present) (token_required self env_hmac action) \<and>
     list_all (\<lambda>(applies, _, _, present). applies \<longrightarrow> \<not> present) (token_excluded self action) \<and> (ca_dry_run (dt_confirm self) \<longrightarrow> action = Token_Expire)"
proof (cases "given_actions self = [action]")
  case True
  let ?missing = "List.find (\<lambda>(applies, _, present). applies \<and> \<not> present) (token_required self env_hmac action)"
  let ?excluded = "List.find (\<lambda>(applies, _, _, present). applies \<and> present) (token_excluded self action)"
  have "?missing = None \<longleftrightarrow> list_all (\<lambda>(applies, _, present). applies \<longrightarrow> present) (token_required self env_hmac action)"
    "?excluded = None \<longleftrightarrow> list_all (\<lambda>(applies, _, _, present). applies \<longrightarrow> \<not> present) (token_excluded self action)"
    unfolding find_None_list_all by (rule arg_cong [where f = "\<lambda>P. list_all P _"]; auto)+
  with True show ?thesis by (cases ?missing; cases ?excluded) (auto simp: check_tokens_def)
qed (auto simp: check_tokens_def split: list.splits option.splits if_splits)

lemmas check_tokens_Inr = check_tokens_iff [THEN iffD1, THEN conjunct1]

lemma given_action: "given_actions self = [action] \<Longrightarrow>
    (dt_create self \<longleftrightarrow> action = Token_Create) \<and> (dt_renew self \<longleftrightarrow> action = Token_Renew) \<and> (dt_expire self \<longleftrightarrow> action = Token_Expire) \<and>
    (dt_describe self \<longleftrightarrow> action = Token_Describe)"
  by (auto simp: given_actions_def split: if_splits)

text \<open>A command line is accepted exactly when it has one action, the options this action needs and none it excludes, and asks for a dry run only to expire.\<close>

theorem check_tokens_accepts:
  "check_tokens self env_hmac = Inr action \<longleftrightarrow>
     given_actions self = [action] \<and> dt_bootstrap_server self \<noteq> [] \<and> dt_command_config self \<noteq> None \<and> (ca_dry_run (dt_confirm self) \<longrightarrow> action = Token_Expire) \<and>
     (dt_max_life_time_period self \<noteq> None \<longleftrightarrow> action = Token_Create) \<and> (dt_renew_time_period self \<noteq> None \<longleftrightarrow> action = Token_Renew) \<and>
     (dt_expiry_time_period self \<noteq> None \<longleftrightarrow> action = Token_Expire) \<and>
     (if action \<in> {Token_Renew, Token_Expire} then (hmac_flag self \<or> env_hmac) \<and> dt_owner_principal self = [] else \<not> hmac_flag self) \<and>
     (action = Token_Renew \<longrightarrow> dt_renewer_principal self = [])"
  unfolding check_tokens_iff by (cases action) (auto simp: token_required_def token_excluded_def Let_def)

definition with_token_changes ::
    "'c TokensEnv \<Rightarrow> (KafkaPrincipal option \<Rightarrow> KafkaPrincipal list \<Rightarrow> int option \<Rightarrow> 'c \<Rightarrow> (AdminError + DelegationToken) \<times> 'c)
      \<Rightarrow> (string \<Rightarrow> int option \<Rightarrow> 'c \<Rightarrow> (AdminError + int) \<times> 'c) \<Rightarrow> (string \<Rightarrow> int option \<Rightarrow> 'c \<Rightarrow> (AdminError + int) \<times> 'c) \<Rightarrow> 'c TokensEnv" where
  "with_token_changes env create renew expire = env\<lparr>tkx_create := create, tkx_renew := renew, tkx_expire := expire\<rparr>"

lemma calls_with_token_changes:
  "tkx_connect (with_token_changes env a b c) = tkx_connect env" "tkx_describe (with_token_changes env a b c) = tkx_describe env"
  "tkx_terminal (with_token_changes env a b c) = tkx_terminal env" "tkx_to_str (with_token_changes env a b c) = tkx_to_str env"
  "tkx_create (with_token_changes env a b c) = a" "tkx_renew (with_token_changes env a b c) = b" "tkx_expire (with_token_changes env a b c) = c"
  by (simp_all add: with_token_changes_def)

text \<open>\<open>kafka-delegation-tokens\<close> creates a token only under \<open>--create\<close>, renews one only under \<open>--renew\<close> and expires one only under a confirmed \<open>--expire\<close> that is not
  a dry run: otherwise the outcome does not depend on that operation of the client.\<close>

theorem tokens_change_only_their_own:
  assumes "dt_create self \<Longrightarrow> create = tkx_create env" and "dt_renew self \<Longrightarrow> renew = tkx_renew env"
    and "dt_expire self \<Longrightarrow> \<not> ca_dry_run (dt_confirm self)
      \<Longrightarrow> \<exists>impact. confirm (ca_yes (dt_confirm self)) (tkx_terminal env) ''krabka delegation-tokens'' impact = Inr () \<Longrightarrow> expire = tkx_expire env"
  shows "run_tokens (with_token_changes env create renew expire) env_hmac read self = run_tokens env env_hmac read self"
proof (cases "check_tokens self (env_hmac \<noteq> None)")
  case (Inr action)
  note chosen = run_tokens_def Inr cmd_try_simps cmd_bind_ret
  note given = given_action [OF check_tokens_Inr [OF Inr]]
  show ?thesis
  proof (cases action)
    case Token_Create
    then have "create = tkx_create env" using given assms(1) by simp
    then show ?thesis unfolding chosen Token_Create TokenAction.case create_token_def calls_with_token_changes by simp
  next
    case Token_Renew
    then have "renew = tkx_renew env" using given assms(2) by simp
    then show ?thesis unfolding chosen Token_Renew TokenAction.case renew_token_def calls_with_token_changes by simp
  next
    case Token_Describe
    show ?thesis unfolding chosen Token_Describe TokenAction.case describe_tokens_def calls_with_token_changes ..
  next
    case Token_Expire
    have refused: "cmd_bind (cmd_confirm (confirm (ca_yes (dt_confirm self)) (tkx_terminal env) ''krabka delegation-tokens'' impact)) f =
        cmd_bind (cmd_confirm (confirm (ca_yes (dt_confirm self)) (tkx_terminal env) ''krabka delegation-tokens'' impact)) g"
      if "\<not> ca_dry_run (dt_confirm self)" "expire = tkx_expire env \<Longrightarrow> f () = g ()" for impact and f g :: "unit \<Rightarrow> ('a, CommandResult) cmd"
    proof (cases "confirm (ca_yes (dt_confirm self)) (tkx_terminal env) ''krabka delegation-tokens'' impact")
      case confirmed: (Inr u)
      then have "expire = tkx_expire env" using assms(3) given Token_Expire that(1) by auto
      then show ?thesis using that(2) by (simp add: confirmed cmd_confirm_def cmd_bind_ret)
    qed (simp add: cmd_confirm_def cmd_bind_fail)
    have "expire_token (with_token_changes env create renew expire) self encoded = expire_token env self encoded" for encoded
      unfolding expire_token_def [abs_def] Let_def calls_with_token_changes
      by (intro ext arg_cong [where f = "cmd_bind _"] if_cong refused refl) simp_all
    then show ?thesis unfolding chosen Token_Expire TokenAction.case by simp
  qed
qed (simp add: run_tokens_def cmd_simps del: not_None_eq)

section \<open>Witnesses\<close>

definition sample_tokens_args :: DelegationTokensArgs where
  "sample_tokens_args =
     \<lparr>dt_bootstrap_server = [''b:9092''], dt_command_config = Some ''c'', dt_create = False, dt_renew = False, dt_expire = True, dt_describe = False,
      dt_owner_principal = [], dt_renewer_principal = [], dt_max_life_time_period = None, dt_renew_time_period = None, dt_expiry_time_period = Some 0,
      dt_hmac = Some ''AAA='', dt_hmac_file = None, dt_confirm = \<lparr>ca_dry_run = True, ca_yes = True\<rparr>\<rparr>"

definition sample_token :: DelegationToken where
  "sample_token =
     (let p = \<lparr>kp_principal_type = ''User'', kp_name = ''a''\<rparr>
      in \<lparr>tk_token_id = ''t'', tk_hmac = ''h'', tk_owner = p, tk_token_requester = p, tk_renewers = [], tk_issue_timestamp_ms = 0, tk_expiry_timestamp_ms = 0,
          tk_max_timestamp_ms = 0\<rparr>)"

definition sample_tokens_env :: "nat TokensEnv" where
  "sample_tokens_env =
     \<lparr>tkx_connect = cmd_ret (), tkx_create = (\<lambda>_ _ _ st. (Inr sample_token, st + 1)), tkx_describe = (\<lambda>_ st. (Inr [], st)),
      tkx_renew = (\<lambda>_ _ st. (Inr 0, st + 1)), tkx_expire = (\<lambda>_ _ st. (Inr 0, st + 1)),
      tkx_terminal = \<lparr>tm_interactive = False, tm_write_ok = False, tm_line = None\<rparr>, tkx_to_str = (\<lambda>p. kp_principal_type p @ '':'' @ kp_name p)\<rparr>"

theorem check_tokens_accepts_witness: "check_tokens sample_tokens_args False = Inr Token_Expire"
  unfolding check_tokens_accepts by (simp add: sample_tokens_args_def given_actions_def hmac_flag_def)

theorem format_date_reads_witness: "parse_datetime (format_date 1709210096789 @ '':00.000+00:00'') = Some (Inr 1709210040000)"
proof -
  have "civil_from_days (1709210096789 div 86400000) = (2024, 2, 29)" by code_simp
  from format_date_reads [OF this] show ?thesis by simp
qed

theorem tokens_change_only_their_own_witness:
  "run_tokens (with_token_changes sample_tokens_env (\<lambda>_ _ _ st. (Inr sample_token, st + 5)) (\<lambda>_ _ st. (Inr 0, st + 5)) (\<lambda>_ _ st. (Inr 0, st + 5))) None (\<lambda>_. Inl []) sample_tokens_args =
     run_tokens sample_tokens_env None (\<lambda>_. Inl []) sample_tokens_args"
  by (rule tokens_change_only_their_own) (simp_all add: sample_tokens_args_def)

end
