(* ===== verification/Features.thy ===== *)
theory Features
  imports Group_Tables Command_Monad
begin

text \<open>
  \<^verbatim>\<open>crates/krabka-cli/src/feature_catalog.rs\<close> and \<^verbatim>\<open>features.rs\<close>: \<open>kafka-features\<close>, with what \<open>kafka-storage\<close> prints of it. The registry of features, the table of
  \<open>metadata.version\<close> and the constructor of an update are the record \<open>Registry\<close>; a Rust \<open>expect\<close> that fails is \<^const>\<open>None\<close>.
\<close>

section \<open>The catalog\<close>

record FeatureInfo =
  ft_name :: string
  ft_min :: int
  ft_max :: int
  ft_default_level :: "int \<Rightarrow> int"
  ft_dependencies :: "int \<Rightarrow> (string \<times> int) list"

record MetadataVersion =
  mv_feature_level :: int
  mv_ivn :: string
  mv_short :: string

datatype UpgradeType = Upgrade_Only | SafeDowngrade | UnsafeDowngrade

record FeatureUpdate =
  fu_max_version_level :: int
  fu_upgrade_type :: UpgradeType

text \<open>The error of the constructor of an update: an invalid argument with its message, or another with its text.\<close>

datatype UpdateError = InvalidArgument string | OtherUpdateError string

record Registry =
  rg_features :: "FeatureInfo list"
  rg_feature :: "string \<Rightarrow> FeatureInfo option"
  rg_from_feature_level :: "int \<Rightarrow> MetadataVersion option"
  rg_metadata_version_feature :: string
  rg_kraft_version_feature :: string
  rg_share_version_feature :: string
  rg_metadata_version_min :: int
  rg_latest_production :: int
  rg_new_update :: "int \<Rightarrow> UpgradeType \<Rightarrow> UpdateError + FeatureUpdate"

definition KAFKA_FEATURE_ORDER :: "string list" where
  "KAFKA_FEATURE_ORDER =
     [''kraft.version'', ''transaction.version'', ''group.version'', ''eligible.leader.replicas.version'', ''share.version'', ''streams.version'']"

definition KAFKA_LATEST_TESTING_METADATA_VERSION :: int where "KAFKA_LATEST_TESTING_METADATA_VERSION = 31"
definition KRAFT_VERSION_1_METADATA_VERSION :: int where "KRAFT_VERSION_1_METADATA_VERSION = 21"

datatype Dialect = Dialect_Features | Dialect_Storage

definition kafka_rank :: "string \<Rightarrow> nat" where
  "kafka_rank name =
     (let i = length (takeWhile (\<lambda>known. known \<noteq> name) KAFKA_FEATURE_ORDER) in if i < length KAFKA_FEATURE_ORDER then i else 2 ^ 64 - 1)"

definition production_features :: "Registry \<Rightarrow> FeatureInfo list" where
  "production_features reg =
     sort_key (\<lambda>feature. kafka_rank (ft_name feature)) (filter (\<lambda>feature. ft_name feature \<in> set KAFKA_FEATURE_ORDER) (rg_features reg))"

definition default_level :: "Registry \<Rightarrow> FeatureInfo \<Rightarrow> int \<Rightarrow> int" where
  "default_level reg feature metadata_level =
     (if ft_name feature = rg_kraft_version_feature reg then if KRAFT_VERSION_1_METADATA_VERSION \<le> metadata_level then 1 else 0
      else if ft_name feature = rg_share_version_feature reg then min (ft_default_level feature metadata_level) 1
      else ft_default_level feature metadata_level)"

definition metadata_versions :: "Registry \<Rightarrow> MetadataVersion list" where
  "metadata_versions reg =
     List.map_filter (rg_from_feature_level reg) [rg_metadata_version_min reg .. KAFKA_LATEST_TESTING_METADATA_VERSION]"

definition known_metadata_version :: "Registry \<Rightarrow> int \<Rightarrow> MetadataVersion option" where
  "known_metadata_version reg level = List.find (\<lambda>version. mv_feature_level version = level) (metadata_versions reg)"

definition latest_production_metadata_version :: "Registry \<Rightarrow> MetadataVersion option" where
  "latest_production_metadata_version reg = rg_from_feature_level reg (rg_latest_production reg)"

definition level_to_string :: "Registry \<Rightarrow> string \<Rightarrow> int \<Rightarrow> string" where
  "level_to_string reg feature level =
     (if feature = rg_metadata_version_feature reg
      then case known_metadata_version reg level of None \<Rightarrow> ''UNKNOWN '' @ show_int level | Some version \<Rightarrow> mv_ivn version
      else show_int level)"

text \<open>\<open>max_by_key\<close>: the last of the highest.\<close>

definition highest_version :: "MetadataVersion list \<Rightarrow> MetadataVersion option" where
  "highest_version versions =
     foldl (\<lambda>best version. case best of None \<Rightarrow> Some version | Some b \<Rightarrow> if mv_feature_level b \<le> mv_feature_level version then Some version else Some b) None versions"

definition release_key :: "string \<Rightarrow> string" where
  "release_key release = (let segments = split_on CHR ''.'' release in if length segments \<le> 2 then release else join_with ''.'' (take 2 segments))"

definition release_matches :: "Registry \<Rightarrow> string \<Rightarrow> MetadataVersion \<Rightarrow> bool" where
  "release_matches reg key version \<longleftrightarrow>
     (if CHR ''-'' \<in> set key then mv_ivn version = key else mv_short version = key \<and> mv_feature_level version \<le> rg_latest_production reg)"

definition resolve_release :: "Registry \<Rightarrow> string \<Rightarrow> MetadataVersion res" where
  "resolve_release reg release =
     ok_or (''Unknown metadata.version '' @ [CHR 0x27] @ release @ [CHR 0x27] @ ''. Supported metadata.version are: '' @ join_with '', '' (map mv_ivn (metadata_versions reg)))
       (highest_version (filter (release_matches reg (release_key release)) (metadata_versions reg)))"

record VersionMapping =
  vm_release :: string
  vm_metadata_version :: MetadataVersion
  vm_features :: "(string \<times> int) list"

definition mapping_at :: "Registry \<Rightarrow> MetadataVersion \<Rightarrow> string \<Rightarrow> VersionMapping" where
  "mapping_at reg version release =
     \<lparr>vm_release = release, vm_metadata_version = version,
      vm_features = map (\<lambda>feature. (ft_name feature, default_level reg feature (mv_feature_level version))) (production_features reg)\<rparr>"

definition mapping_human :: "Registry \<Rightarrow> VersionMapping \<Rightarrow> string list" where
  "mapping_human reg self =
     (rg_metadata_version_feature reg @ ''='' @ show_int (mv_feature_level (vm_metadata_version self)) @ '' ('' @ vm_release self @ '')'') #
     map (\<lambda>(name, level). name @ ''='' @ show_int level) (vm_features self)"

definition mapping_row :: "Registry \<Rightarrow> VersionMapping \<Rightarrow> string" where
  "mapping_row reg self = join_with '' '' (mapping_human reg self)"

definition mapping_json :: "VersionMapping \<Rightarrow> json" where
  "mapping_json self =
     JObject [(''release_version'', JString (vm_release self)),
       (''metadata_version'', JObject [(''level'', JInt (mv_feature_level (vm_metadata_version self))), (''name'', JString (mv_ivn (vm_metadata_version self)))]),
       (''features'', JArray (map (\<lambda>(name, level). JObject [(''feature'', JString name), (''level'', JInt level)]) (vm_features self)))]"

definition version_mapping :: "Registry \<Rightarrow> string option \<Rightarrow> VersionMapping res option" where
  "version_mapping reg release =
     (case release of
        Some r \<Rightarrow> Some (map_sum id (\<lambda>version. mapping_at reg version r) (resolve_release reg r))
      | None \<Rightarrow> map_option (\<lambda>latest. Inr (mapping_at reg latest (mv_ivn latest))) (latest_production_metadata_version reg))"

definition version_mapping_table :: "Registry \<Rightarrow> CommandResult" where
  "version_mapping_table reg =
     (let rows = map (\<lambda>version. mapping_at reg version (mv_ivn version)) (metadata_versions reg)
      in result_success (map (mapping_row reg) rows) (JArray (map mapping_json rows)))"

record VersionMappingArgs =
  va_release_version :: "string option"
  va_all :: bool

definition run_version_mapping :: "Registry \<Rightarrow> VersionMappingArgs \<Rightarrow> CommandResult res option" where
  "run_version_mapping reg self =
     (if va_all self then Some (Inr (version_mapping_table reg))
      else map_option (map_sum id (\<lambda>m. result_success (mapping_human reg m) (mapping_json m))) (version_mapping reg (va_release_version self)))"

record Dependency =
  dp_feature :: string
  dp_level :: int

record FeatureDependencies =
  fd_feature :: string
  fd_level :: int
  fd_dependencies :: "Dependency list"

definition dependency_line :: "Registry \<Rightarrow> Dependency \<Rightarrow> string" where
  "dependency_line reg dependency =
     ''    '' @ dp_feature dependency @ ''='' @ show_int (dp_level dependency) @
     (if dp_feature dependency = rg_metadata_version_feature reg then '' ('' @ level_to_string reg (dp_feature dependency) (dp_level dependency) @ '')'' else [])"

definition dependencies_human :: "Registry \<Rightarrow> FeatureDependencies \<Rightarrow> string list" where
  "dependencies_human reg self =
     (let subject = fd_feature self @ ''='' @ show_int (fd_level self)
      in if fd_feature self = rg_metadata_version_feature reg
         then [subject @ '' ('' @ level_to_string reg (fd_feature self) (fd_level self) @ '') has no dependencies.'']
         else if fd_dependencies self = [] then [subject @ '' has no dependencies.'']
         else (subject @ '' requires:'') # map (dependency_line reg) (fd_dependencies self))"

definition dependencies_json :: "FeatureDependencies \<Rightarrow> json" where
  "dependencies_json self =
     JObject [(''feature'', JString (fd_feature self)), (''level'', JInt (fd_level self)),
       (''dependencies'', JArray (map (\<lambda>d. JObject [(''feature'', JString (dp_feature d)), (''level'', JInt (dp_level d))]) (fd_dependencies self)))]"

definition parse_name_and_level :: "string \<Rightarrow> (string \<times> int) res" where
  "parse_name_and_level spec =
     (let fail = (\<lambda>why. ''Can'' @ [CHR 0x27] @ ''t parse feature=level string '' @ spec @ '': '' @ why)
      in res_bind (ok_or (fail ''equals sign not found.'') (split_once CHR ''='' spec)) (\<lambda>(name, level).
         let level = trim level
         in res_bind (ok_or (fail (''unable to parse '' @ level @ '' as a short.'')) (parse_i16 level)) (\<lambda>n. Inr (trim name, n))))"

definition parse_dependency_query :: "string \<Rightarrow> Dialect \<Rightarrow> (string \<times> int) res" where
  "parse_dependency_query spec dialect =
     (case dialect of
        Dialect_Features \<Rightarrow> parse_name_and_level spec
      | Dialect_Storage \<Rightarrow>
          res_bind (ok_or (''Invalid feature format: '' @ spec @ ''. Expected format: '' @ [CHR 0x27] @ ''feature=version'' @ [CHR 0x27] @ '' (e.g. '' @ [CHR 0x27] @
              ''group.version=1'' @ [CHR 0x27] @ '')'') (split_once CHR ''='' spec)) (\<lambda>(name, level).
          let name = trim name; level = trim level
          in res_bind (ok_or (''Invalid version format: '' @ level @ '' for feature '' @ name) (parse_i16 level)) (\<lambda>n. Inr (name, n))))"

definition dependencies_of :: "FeatureInfo \<Rightarrow> int \<Rightarrow> FeatureDependencies" where
  "dependencies_of feature level =
     \<lparr>fd_feature = ft_name feature, fd_level = level, fd_dependencies = map (\<lambda>(name, l). \<lparr>dp_feature = name, dp_level = l\<rparr>) (ft_dependencies feature level)\<rparr>"

definition feature_dependencies :: "Registry \<Rightarrow> string \<Rightarrow> int \<Rightarrow> Dialect \<Rightarrow> FeatureDependencies res" where
  "feature_dependencies reg name level dialect =
     (if name = rg_metadata_version_feature reg
      then if known_metadata_version reg level = None then Inl (''Unknown metadata.version '' @ show_int level)
           else Inr \<lparr>fd_feature = name, fd_level = level, fd_dependencies = []\<rparr>
      else res_bind (ok_or (''Unknown feature: '' @ name) (rg_feature reg name)) (\<lambda>registered.
        if \<not> (ft_min registered \<le> level \<and> level \<le> ft_max registered)
        then Inl (case dialect of
            Dialect_Features \<Rightarrow> ''No feature:'' @ name @ '' with feature level '' @ show_int level
          | Dialect_Storage \<Rightarrow> ''Feature level '' @ show_int level @ '' is not supported for feature '' @ name)
        else Inr (dependencies_of registered level)))"

definition all_feature_dependencies :: "Registry \<Rightarrow> FeatureDependencies list" where
  "all_feature_dependencies reg =
     map (\<lambda>version. \<lparr>fd_feature = rg_metadata_version_feature reg, fd_level = mv_feature_level version, fd_dependencies = []\<rparr>) (metadata_versions reg) @
     concat (map (\<lambda>feature. map (dependencies_of feature) [ft_min feature .. ft_max feature]) (production_features reg))"

definition run_feature_dependencies :: "Registry \<Rightarrow> string list \<Rightarrow> Dialect \<Rightarrow> CommandResult res" where
  "run_feature_dependencies reg features dialect =
     res_bind (if features = [] then Inr (all_feature_dependencies reg)
       else collect_res (\<lambda>spec. res_bind (parse_dependency_query spec dialect) (\<lambda>(name, level). feature_dependencies reg name level dialect)) features) (\<lambda>rows.
     Inr (result_success (concat (map (dependencies_human reg) rows)) (JArray (map dependencies_json rows))))"

section \<open>The plan of an update\<close>

definition METADATA_FLAG_NOTICE :: string where
  "METADATA_FLAG_NOTICE = '' `metadata` flag is deprecated and may be removed in a future release.''"

definition downgrade_type :: "bool \<Rightarrow> UpgradeType" where
  "downgrade_type unsafe = (if unsafe then UnsafeDowngrade else SafeDowngrade)"

fun upgrade_type_name :: "UpgradeType \<Rightarrow> string" where
  "upgrade_type_name Upgrade_Only = ''UPGRADE''"
| "upgrade_type_name SafeDowngrade = ''SAFE_DOWNGRADE''"
| "upgrade_type_name UnsafeDowngrade = ''UNSAFE_DOWNGRADE''"

datatype FeatureOp = Op_Upgrade | Op_Downgrade | Op_Disable

fun op_verb :: "FeatureOp \<Rightarrow> string" where
  "op_verb Op_Upgrade = ''upgrade''"
| "op_verb Op_Downgrade = ''downgrade''"
| "op_verb Op_Disable = ''disable''"

type_synonym Updates = "(string, FeatureUpdate) btmap"

record FeaturesPlan =
  fp_op :: FeatureOp
  fp_notices :: "string list"
  fp_updates :: Updates
  fp_dry_run :: bool

record FeatureRowError =
  fr_code :: int
  fr_name :: string
  fr_message :: string

definition new_update :: "Registry \<Rightarrow> int \<Rightarrow> UpgradeType \<Rightarrow> FeatureUpdate res" where
  "new_update reg level upgrade_type =
     map_sum (\<lambda>e. case e of InvalidArgument message \<Rightarrow> message | OtherUpdateError text \<Rightarrow> text) id (rg_new_update reg level upgrade_type)"

fun release_updates :: "Registry \<Rightarrow> int \<Rightarrow> UpgradeType \<Rightarrow> Updates \<Rightarrow> FeatureInfo list \<Rightarrow> Updates res" where
  "release_updates reg level upgrade_type updates [] = Inr updates"
| "release_updates reg level upgrade_type updates (feature # features) =
     (let default = default_level reg feature level
      in if upgrade_type \<noteq> Upgrade_Only \<or> 0 < default
         then res_bind (new_update reg default upgrade_type) (\<lambda>update. release_updates reg level upgrade_type (bt_insert (ft_name feature) update updates) features)
         else release_updates reg level upgrade_type updates features)"

definition more_than_once :: "string \<Rightarrow> string" where
  "more_than_once name = ''Feature '' @ name @ '' was specified more than once.''"

fun spec_updates :: "Registry \<Rightarrow> UpgradeType \<Rightarrow> Updates \<Rightarrow> string list \<Rightarrow> Updates res" where
  "spec_updates reg upgrade_type updates [] = Inr updates"
| "spec_updates reg upgrade_type updates (spec # specs) =
     res_bind (parse_name_and_level spec) (\<lambda>(name, level).
     res_bind (new_update reg level upgrade_type) (\<lambda>update.
     if map_of updates name \<noteq> None then Inl (more_than_once name)
     else spec_updates reg upgrade_type (bt_insert name update updates) specs))"

definition upgrade_or_downgrade ::
    "Registry \<Rightarrow> FeatureOp \<Rightarrow> string option \<Rightarrow> string option \<Rightarrow> string list \<Rightarrow> UpgradeType \<Rightarrow> bool \<Rightarrow> FeaturesPlan res" where
  "upgrade_or_downgrade reg op metadata release_version features upgrade_type dry_run =
     (if release_version \<noteq> None \<and> (metadata \<noteq> None \<or> features \<noteq> []) then Inl ''Can not specify `release-version` with other feature flags.''
      else case release_version of
        Some release \<Rightarrow>
          res_bind (resolve_release reg release) (\<lambda>version.
          let level = mv_feature_level version
          in res_bind (new_update reg level upgrade_type) (\<lambda>update.
             res_bind (release_updates reg level upgrade_type (bt_insert (rg_metadata_version_feature reg) update []) (production_features reg)) (\<lambda>updates.
             Inr \<lparr>fp_op = op, fp_notices = [], fp_updates = updates, fp_dry_run = dry_run\<rparr>)))
      | None \<Rightarrow>
          res_bind (case metadata of
              None \<Rightarrow> Inr ([], [])
            | Some m \<Rightarrow>
                res_bind (resolve_release reg m) (\<lambda>version.
                res_bind (new_update reg (mv_feature_level version) upgrade_type) (\<lambda>update.
                Inr ([METADATA_FLAG_NOTICE], bt_insert (rg_metadata_version_feature reg) update [])))) (\<lambda>(notices, updates).
          res_bind (spec_updates reg upgrade_type updates features) (\<lambda>updates.
          Inr \<lparr>fp_op = op, fp_notices = notices, fp_updates = updates, fp_dry_run = dry_run\<rparr>)))"

fun disable_updates :: "Registry \<Rightarrow> UpgradeType \<Rightarrow> Updates \<Rightarrow> string list \<Rightarrow> Updates res" where
  "disable_updates reg upgrade_type updates [] = Inr updates"
| "disable_updates reg upgrade_type updates (name # names) =
     res_bind (new_update reg 0 upgrade_type) (\<lambda>update.
     if map_of updates name \<noteq> None then Inl (more_than_once name)
     else disable_updates reg upgrade_type (bt_insert name update updates) names)"

definition disable_plan :: "Registry \<Rightarrow> string list \<Rightarrow> UpgradeType \<Rightarrow> bool \<Rightarrow> FeaturesPlan res" where
  "disable_plan reg features upgrade_type dry_run =
     res_bind (disable_updates reg upgrade_type [] features) (\<lambda>updates.
     Inr \<lparr>fp_op = Op_Disable, fp_notices = [], fp_updates = updates, fp_dry_run = dry_run\<rparr>)"

definition validate_update :: "Registry \<Rightarrow> string \<times> FeatureUpdate \<Rightarrow> unit res" where
  "validate_update reg = (\<lambda>(name, update).
     case rg_feature reg name of
       None \<Rightarrow> Inl (''Unsupported feature: '' @ name @ ''. Supported features are: '' @ join_with '', '' (sort (map ft_name (rg_features reg))))
     | Some registered \<Rightarrow>
         if ft_min registered \<le> fu_max_version_level update \<and> fu_max_version_level update \<le> ft_max registered then Inr ()
         else Inl (''feature '' @ name @ ''='' @ show_int (fu_max_version_level update) @ '' is outside the supported range '' @ show_int (ft_min registered) @ ''..='' @
           show_int (ft_max registered)))"

definition validate_plan :: "Registry \<Rightarrow> FeaturesPlan \<Rightarrow> unit res" where
  "validate_plan reg self =
     (if fp_updates self = [] then Inl (''You must specify at least one feature to '' @ op_verb (fp_op self))
      else if \<exists>(name, _) \<in> set (fp_updates self). trim name = [] then Inl ''Provided feature can not be empty.''
      else map_sum id (\<lambda>_. ()) (collect_res (validate_update reg) (fp_updates self)))"

definition registry_dependencies :: "Registry \<Rightarrow> string \<Rightarrow> int \<Rightarrow> (string \<times> int) list" where
  "registry_dependencies reg name level =
     (if name = rg_metadata_version_feature reg \<or> name = rg_kraft_version_feature reg then []
      else case rg_feature reg name of None \<Rightarrow> [] | Some feature \<Rightarrow> ft_dependencies feature level)"

definition needs_current_levels :: "Registry \<Rightarrow> FeaturesPlan \<Rightarrow> bool" where
  "needs_current_levels reg self \<longleftrightarrow> (\<exists>(name, update) \<in> set (fp_updates self). registry_dependencies reg name (fu_max_version_level update) \<noteq> [])"

record FeatureRange =
  fg_name :: string
  fg_min_version :: int
  fg_max_version :: int

record FeatureMetadata =
  fm_finalized :: "FeatureRange list"
  fm_supported :: "FeatureRange list"
  fm_finalized_features_epoch :: "int option"

definition proposed_levels :: "Updates \<Rightarrow> FeatureMetadata \<Rightarrow> (string, int) btmap" where
  "proposed_levels updates metadata =
     bt_of_list (map (\<lambda>bounds. (fg_name bounds, fg_max_version bounds)) (fm_finalized metadata) @ map (\<lambda>(name, update). (name, fu_max_version_level update)) updates)"

definition is_unmet :: "(string, int) btmap \<Rightarrow> string \<times> int \<Rightarrow> bool" where
  "is_unmet proposed = (\<lambda>(dependency, least). case map_of proposed dependency of None \<Rightarrow> True | Some level \<Rightarrow> level < least)"

fun unmet_dependency :: "(string \<Rightarrow> int \<Rightarrow> (string \<times> int) list) \<Rightarrow> (string, int) btmap \<Rightarrow> Updates \<Rightarrow> (string \<times> int \<times> string) option" where
  "unmet_dependency dependencies proposed [] = None"
| "unmet_dependency dependencies proposed ((name, update) # updates) =
     (let level = fu_max_version_level update
      in case List.find (is_unmet proposed) (dependencies name level) of
           Some (dependency, least) \<Rightarrow>
             Some (name, level, name @ '' could not be set to '' @ show_int level @ '' because it depends on '' @ dependency @ '' level '' @ show_int least)
         | None \<Rightarrow> unmet_dependency dependencies proposed updates)"

section \<open>Reports\<close>

definition row_error_from_kafka :: "KafkaError \<Rightarrow> FeatureRowError" where
  "row_error_from_kafka error =
     (let exception = for_code (ke_code error)
      in \<lparr>fr_code = ke_code error, fr_name = (if is_known (ke_code error) then ex_name exception else ke_name error),
          fr_message = (case ke_message error of Some m \<Rightarrow> m | None \<Rightarrow> ex_message exception)\<rparr>)"

definition no_result :: "string \<Rightarrow> KafkaError" where
  "no_result name =
     \<lparr>ke_code = - 1, ke_name = ''UNKNOWN_SERVER_ERROR'', ke_message = Some (''The controller response did not contain a result for feature '' @ name)\<rparr>"

definition outcome_errors ::
    "Updates \<Rightarrow> AdminError + (string \<times> (KafkaError + unit)) list \<Rightarrow> CommandError + (string, FeatureRowError option) btmap" where
  "outcome_errors updates outcome =
     (case outcome of
        Inr results \<Rightarrow>
          Inr (bt_of_list (map (\<lambda>(name, _). (name, case map_of results name of
              Some (Inr _) \<Rightarrow> None
            | Some (Inl error) \<Rightarrow> Some (row_error_from_kafka error)
            | None \<Rightarrow> Some (row_error_from_kafka (no_result name)))) updates))
      | Inl error \<Rightarrow>
          (case error of
             AdminBroker api code name message \<Rightarrow>
               if api = ''UpdateFeatures''
               then Inr (bt_of_list (map (\<lambda>(feature, _).
                 (feature, Some (row_error_from_kafka \<lparr>ke_code = code, ke_name = name, ke_message = message\<rparr>))) updates))
               else Inl (from_admin_error error)
           | _ \<Rightarrow> Inl (from_admin_error error)))"

definition update_line :: "FeaturesPlan \<Rightarrow> string \<Rightarrow> int \<Rightarrow> FeatureRowError option \<Rightarrow> string" where
  "update_line self name level error =
     (case error of
        Some e \<Rightarrow>
          (if fp_dry_run self then ''Can not '' else ''Could not '') @
          (if fp_op self = Op_Disable then ''disable '' @ name else op_verb (fp_op self) @ '' '' @ name @ '' to '' @ show_int level) @ ''. '' @ fr_message e
      | None \<Rightarrow>
          name @ (if fp_dry_run self then '' can be '' else '' was '') @
          (if fp_op self = Op_Disable then ''disabled.'' else op_verb (fp_op self) @ ''d to '' @ show_int level @ ''.''))"

definition update_json :: "string \<times> FeatureUpdate \<Rightarrow> FeatureRowError option \<Rightarrow> json" where
  "update_json = (\<lambda>(name, update) error.
     JObject [(''feature'', JString name), (''level'', JInt (fu_max_version_level update)), (''upgrade_type'', JString (upgrade_type_name (fu_upgrade_type update))),
       (''error'', case error of
          None \<Rightarrow> JNull
        | Some e \<Rightarrow> JObject [(''code'', JInt (fr_code e)), (''name'', JString (fr_name e)), (''message'', JString (fr_message e))])])"

definition features_report :: "FeaturesPlan \<Rightarrow> (string \<Rightarrow> FeatureRowError option) \<Rightarrow> CommandResult" where
  "features_report self error =
     (let updates = fp_updates self;
          failures = length (filter (\<lambda>(name, _). error name \<noteq> None) updates)
      in with_notices (if 0 < failures then [show_nat failures @ '' out of '' @ show_nat (length updates) @ '' operation(s) failed.''] else [])
           (result_rows (fp_notices self @ map (\<lambda>(name, update). update_line self name (fu_max_version_level update) (error name)) updates)
             (JObject [(''operation'', JString (op_verb (fp_op self))), (''updates'', JArray (map (\<lambda>row. update_json row (error (fst row))) updates)),
               (''failures'', JInt (int failures))])
             (0 < failures)))"

definition finalized_level :: "FeatureMetadata \<Rightarrow> string \<Rightarrow> int" where
  "finalized_level metadata name =
     (case List.find (\<lambda>finalized. fg_name finalized = name) (fm_finalized metadata) of None \<Rightarrow> 0 | Some finalized \<Rightarrow> fg_max_version finalized)"

definition describe_line :: "Registry \<Rightarrow> FeatureMetadata \<Rightarrow> FeatureRange \<Rightarrow> string" where
  "describe_line reg metadata bounds =
     ''Feature: '' @ pad (fg_name bounds) 40 @ ''  SupportedMinVersion: '' @ pad (level_to_string reg (fg_name bounds) (fg_min_version bounds)) 15 @
     ''  SupportedMaxVersion: '' @ pad (level_to_string reg (fg_name bounds) (fg_max_version bounds)) 15 @
     ''  FinalizedVersionLevel: '' @ pad (level_to_string reg (fg_name bounds) (finalized_level metadata (fg_name bounds))) 15 @
     ''  Epoch: '' @ (case fm_finalized_features_epoch metadata of None \<Rightarrow> ''-'' | Some epoch \<Rightarrow> show_int epoch)"

definition render_describe :: "Registry \<Rightarrow> FeatureMetadata \<Rightarrow> CommandResult" where
  "render_describe reg metadata =
     (let supported = sort_key fg_name (fm_supported metadata)
      in result_success (map (describe_line reg metadata) supported)
           (JObject [(''features'', JArray (map (\<lambda>bounds.
               JObject [(''feature'', JString (fg_name bounds)), (''supported_min_version'', JInt (fg_min_version bounds)),
                 (''supported_max_version'', JInt (fg_max_version bounds)), (''finalized_version_level'', JInt (finalized_level metadata (fg_name bounds)))]) supported)),
             (''finalized_features_epoch'', case fm_finalized_features_epoch metadata of None \<Rightarrow> JNull | Some epoch \<Rightarrow> JInt epoch)]))"

section \<open>The command\<close>

record UpgradeArgs =
  ua_metadata :: "string option"
  ua_release_version :: "string option"
  ua_feature :: "string list"
  ua_dry_run :: bool

record DowngradeArgs =
  da_metadata :: "string option"
  da_release_version :: "string option"
  da_feature :: "string list"
  da_unsafe_downgrade :: bool
  da_dry_run :: bool

record DisableArgs =
  di_feature :: "string list"
  di_unsafe_downgrade :: bool
  di_dry_run :: bool

datatype FeaturesCommand =
    Features_Describe "int option"
  | Features_Upgrade UpgradeArgs
  | Features_Downgrade DowngradeArgs
  | Features_Disable DisableArgs
  | Features_VersionMapping VersionMappingArgs
  | Features_Dependencies "string list"

record 'c FeaturesEnv =
  fex_connect :: "('c, unit) cmd"
  fex_describe_features :: "int option \<Rightarrow> 'c \<Rightarrow> (AdminError + FeatureMetadata) \<times> 'c"
  fex_update_features :: "Updates \<Rightarrow> bool \<Rightarrow> 'c \<Rightarrow> (AdminError + (string \<times> (KafkaError + unit)) list) \<times> 'c"

text \<open>The flag of \<open>fex_update_features\<close> is \<open>validate_only\<close>; the timeout of the connection goes with every call.\<close>

definition check_dependencies :: "'c FeaturesEnv \<Rightarrow> Registry \<Rightarrow> FeaturesPlan \<Rightarrow> ('c, unit) cmd" where
  "check_dependencies env reg plan =
     (if \<not> fp_dry_run plan \<and> needs_current_levels reg plan
      then cmd_bind (cmd_admin (fex_describe_features env None)) (\<lambda>metadata.
        case unmet_dependency (registry_dependencies reg) (proposed_levels (fp_updates plan) metadata) (fp_updates plan) of
          Some (name, level, message) \<Rightarrow> cmd_fail (ErrOther (''Invalid update version '' @ show_int level @ '' for feature '' @ name @ ''. '' @ message))
        | None \<Rightarrow> cmd_ret ())
      else cmd_ret ())"

definition run_update :: "'c FeaturesEnv \<Rightarrow> Registry \<Rightarrow> FeaturesPlan res \<Rightarrow> ('c, CommandResult) cmd" where
  "run_update env reg planned =
     cmd_bind (cmd_try planned) (\<lambda>plan.
     cmd_bind (cmd_try (validate_plan reg plan)) (\<lambda>_.
     cmd_bind (fex_connect env) (\<lambda>_.
     cmd_bind (check_dependencies env reg plan) (\<lambda>_.
     cmd_bind (cmd_call (fex_update_features env (fp_updates plan) (fp_dry_run plan))) (\<lambda>outcome.
     cmd_bind (cmd_res (outcome_errors (fp_updates plan) outcome)) (\<lambda>errors.
     let report = features_report plan (\<lambda>name. Option.bind (map_of errors name) id)
     in cmd_ret (if fp_dry_run plan then into_kafka_dry_run report else report)))))))"

definition describe_features :: "'c FeaturesEnv \<Rightarrow> Registry \<Rightarrow> int option \<Rightarrow> ('c, CommandResult) cmd" where
  "describe_features env reg node_id =
     (case node_id of
        Some n \<Rightarrow> if n < 0 then cmd_fail (ErrOther (''Invalid node id '' @ show_int n @ '': must be non-negative.''))
          else cmd_bind (fex_connect env) (\<lambda>_. cmd_bind (cmd_admin (fex_describe_features env node_id)) (\<lambda>metadata. cmd_ret (render_describe reg metadata)))
      | None \<Rightarrow> cmd_bind (fex_connect env) (\<lambda>_. cmd_bind (cmd_admin (fex_describe_features env node_id)) (\<lambda>metadata. cmd_ret (render_describe reg metadata))))"

fun run_features :: "'c FeaturesEnv \<Rightarrow> Registry \<Rightarrow> FeaturesCommand \<Rightarrow> ('c, CommandResult) cmd" where
  "run_features env reg (Features_VersionMapping args) = cmd_bind (cmd_index (run_version_mapping reg args)) cmd_try"
| "run_features env reg (Features_Dependencies features) = cmd_try (run_feature_dependencies reg features Dialect_Features)"
| "run_features env reg (Features_Describe node_id) = describe_features env reg node_id"
| "run_features env reg (Features_Upgrade args) =
     run_update env reg (upgrade_or_downgrade reg Op_Upgrade (ua_metadata args) (ua_release_version args) (ua_feature args) Upgrade_Only (ua_dry_run args))"
| "run_features env reg (Features_Downgrade args) =
     run_update env reg (upgrade_or_downgrade reg Op_Downgrade (da_metadata args) (da_release_version args) (da_feature args)
       (downgrade_type (da_unsafe_downgrade args)) (da_dry_run args))"
| "run_features env reg (Features_Disable args) = run_update env reg (disable_plan reg (di_feature args) (downgrade_type (di_unsafe_downgrade args)) (di_dry_run args))"

end
