(* ===== verification/Features_Safety.thy ===== *)
theory Features_Safety
  imports Features Topics_Config
begin

text \<open>
  What \<open>kafka-features\<close> does: a release is the highest level it names, a level reads as it is written, an update that is sent has been checked, its report fails
  exactly when a feature did, and a dry run only validates.
\<close>

section \<open>Releases and levels\<close>

lemma highest_version_from:
  "(\<exists>b. foldl (\<lambda>best version. case best of None \<Rightarrow> Some version | Some b \<Rightarrow> if mv_feature_level b \<le> mv_feature_level version then Some version else Some b)
      (Some a) versions = Some b \<and> b \<in> insert a (set versions) \<and> (\<forall>v \<in> insert a (set versions). mv_feature_level v \<le> mv_feature_level b))"
proof (induction versions arbitrary: a)
  case (Cons v versions)
  define c where "c = (if mv_feature_level a \<le> mv_feature_level v then v else a)"
  have step: "(if mv_feature_level a \<le> mv_feature_level v then Some v else Some a) = Some c" by (simp add: c_def)
  have "c \<in> {a, v}" "mv_feature_level a \<le> mv_feature_level c" "mv_feature_level v \<le> mv_feature_level c" by (simp_all add: c_def)
  then show ?case using Cons.IH [of c] unfolding foldl_Cons option.case step by (fastforce intro: order_trans)
qed simp

lemma highest_version_spec:
  "highest_version versions = None \<longleftrightarrow> versions = []"
  "highest_version versions = Some b \<Longrightarrow> b \<in> set versions \<and> (\<forall>v \<in> set versions. mv_feature_level v \<le> mv_feature_level b)"
proof -
  have "\<exists>b. highest_version (v # vs) = Some b \<and> b \<in> set (v # vs) \<and> (\<forall>w \<in> set (v # vs). mv_feature_level w \<le> mv_feature_level b)" for v vs
    using highest_version_from [of v vs] by (simp add: highest_version_def)
  note nonempty = this
  show "highest_version versions = None \<longleftrightarrow> versions = []"
  proof (cases versions)
    case (Cons v vs)
    then show ?thesis using nonempty [of v vs] by auto
  qed (simp add: highest_version_def)
  show "b \<in> set versions \<and> (\<forall>v \<in> set versions. mv_feature_level v \<le> mv_feature_level b)" if "highest_version versions = Some b"
  proof (cases versions)
    case (Cons v vs)
    then show ?thesis using nonempty [of v vs] that by auto
  qed (use that in \<open>simp add: highest_version_def\<close>)
qed

text \<open>A release is the highest known level that it names: by its \<open>X.Y-IVn\<close> name, or among the production levels of \<open>X.Y\<close>, of which further segments are
  left out; it is refused exactly when there is none.\<close>

theorem resolve_release_highest:
  "(case resolve_release reg release of
      Inr version \<Rightarrow> version \<in> set (metadata_versions reg) \<and> release_matches reg (release_key release) version
        \<and> list_all (\<lambda>other. mv_feature_level other \<le> mv_feature_level version) (filter (release_matches reg (release_key release)) (metadata_versions reg))
    | Inl _ \<Rightarrow> filter (release_matches reg (release_key release)) (metadata_versions reg) = [])"
  using highest_version_spec [of "filter (release_matches reg (release_key release)) (metadata_versions reg)"]
  by (cases "highest_version (filter (release_matches reg (release_key release)) (metadata_versions reg))")
    (auto simp: resolve_release_def ok_or_def list_all_iff)

text \<open>A feature and its level read as they are written, and an accepted level is one of 16 bits.\<close>

theorem parse_name_and_level_roundtrip:
  assumes "CHR ''='' \<notin> set name" and "trim name = name" and "i16_min \<le> level" and "level \<le> i16_max"
  shows "parse_name_and_level (name @ ''='' @ show_int level) = Inr (name, level)
    \<and> (parse_name_and_level spec = Inr (n, l) \<longrightarrow> i16_min \<le> l \<and> l \<le> i16_max)"
proof -
  have "split_once CHR ''='' (name @ CHR ''='' # show_int level) = Some (name, show_int level)" using assms(1) by (rule split_once_append)
  moreover have "trim (show_int level) = show_int level" by (rule trim_show_int)
  ultimately have "parse_name_and_level (name @ ''='' @ show_int level) = Inr (name, level)"
    using assms(2-4) by (simp add: parse_name_and_level_def parse_signed_show_int ok_or_def)
  moreover have "i16_min \<le> l \<and> l \<le> i16_max" if "parse_name_and_level spec = Inr (n, l)"
    using that by (auto simp: parse_name_and_level_def res_bind_Inr_iff ok_or_Inr_iff Let_def dest: parse_signed_range)
  ultimately show ?thesis by blast
qed

section \<open>Updates\<close>

lemma cmd_answers:
  "cmd_call call st = Some (Inr x, st') \<longleftrightarrow> call st = (x, st')" "cmd_res r st = Some (Inr y, st') \<longleftrightarrow> r = Inr y \<and> st' = st"
  "cmd_admin ask st = Some (Inr z, st') \<longleftrightarrow> ask st = (Inr z, st')"
  by (auto simp: cmd_call_def cmd_res_def cmd_admin_def cmd_ret_def cmd_fail_def split: prod.splits sum.splits)
    (metis map_sum.simps sum.exhaust sum.simps(4) Inr_inject id_apply)+

lemma no_triple: "(\<forall>a b c. x \<noteq> Some (a, b, c)) \<longleftrightarrow> x = None"
  by (cases x) auto

lemma unmet_dependency_None:
  "unmet_dependency dependencies proposed updates = None \<longleftrightarrow>
     (\<forall>(name, update) \<in> set updates. \<forall>(dependency, least) \<in> set (dependencies name (fu_max_version_level update)). \<exists>level \<ge> least. map_of proposed dependency = Some level)"
proof (induction updates)
  case (Cons row updates)
  obtain name update where row: "row = (name, update)" by force
  have met: "\<not> is_unmet proposed (dependency, least) \<longleftrightarrow> (\<exists>level \<ge> least. map_of proposed dependency = Some level)" for dependency least
    by (auto simp: is_unmet_def split: option.splits)
  show ?case
  proof (cases "List.find (is_unmet proposed) (dependencies name (fu_max_version_level update))")
    case None
    then have "\<forall>(dependency, least) \<in> set (dependencies name (fu_max_version_level update)). \<exists>level \<ge> least. map_of proposed dependency = Some level"
      using met by (force simp: find_None_iff)
    then show ?thesis by (simp add: row Let_def None Cons.IH)
  next
    case (Some found)
    then obtain dependency least where "found = (dependency, least)" "(dependency, least) \<in> set (dependencies name (fu_max_version_level update))"
      "is_unmet proposed (dependency, least)" by (cases found) (auto simp: find_Some_iff)
    then show ?thesis using Some met by (force simp: row Let_def)
  qed
qed simp

lemma validate_update_Inr:
  "validate_update reg (name, update) = Inr () \<longleftrightarrow>
     (\<exists>feature. rg_feature reg name = Some feature \<and> fu_max_version_level update \<in> {ft_min feature .. ft_max feature})"
  by (auto simp: validate_update_def split: option.splits)

lemma collect_unit_Inr: "map_sum id (\<lambda>_. ()) (collect_res f xs) = Inr () \<longleftrightarrow> (\<forall>x \<in> set xs. f x = Inr ())" for f :: "'a \<Rightarrow> unit res"
proof (induction xs)
  case (Cons x xs)
  then show ?case by (cases "f x"; cases "collect_res f xs") auto
qed simp

lemma validate_plan_Inr:
  assumes "validate_plan reg plan = Inr ()"
  shows "fp_updates plan \<noteq> []" "(name, update) \<in> set (fp_updates plan) \<Longrightarrow>
    \<exists>feature. rg_feature reg name = Some feature \<and> fu_max_version_level update \<in> {ft_min feature .. ft_max feature}"
proof -
  show "fp_updates plan \<noteq> []" using assms by (auto simp: validate_plan_def)
  have "map_sum id (\<lambda>_. ()) (collect_res (validate_update reg) (fp_updates plan)) = Inr ()"
    using assms unfolding validate_plan_def by (simp only: sum.distinct split: if_splits)
  then show "(name, update) \<in> set (fp_updates plan) \<Longrightarrow>
    \<exists>feature. rg_feature reg name = Some feature \<and> fu_max_version_level update \<in> {ft_min feature .. ft_max feature}"
    unfolding collect_unit_Inr validate_update_Inr [symmetric] by blast
qed

definition update_failed :: "AdminError + (string \<times> (KafkaError + unit)) list \<Rightarrow> string \<Rightarrow> bool" where
  "update_failed outcome name \<longleftrightarrow> (case outcome of Inl _ \<Rightarrow> True | Inr results \<Rightarrow> map_of results name \<noteq> Some (Inr ()))"

lemma map_of_updates: "map_of (bt_of_list (map (\<lambda>(name, _). (name, g name)) updates)) name = (if name \<in> fst ` set updates then Some (g name) else None)"
proof -
  have "map_of (rev (map (\<lambda>(name, _). (name, g name)) updates)) name = (if name \<in> fst ` set updates then Some (g name) else None)"
    by (induction updates rule: rev_induct) (auto split: prod.splits)
  then show ?thesis by (simp add: map_of_bt_of_list)
qed

lemma outcome_errors_Inr:
  assumes "outcome_errors updates outcome = Inr errors" "name \<in> fst ` set updates"
  shows "Option.bind (map_of errors name) id \<noteq> None \<longleftrightarrow> update_failed outcome name"
proof (cases outcome)
  case (Inr results)
  then have "errors = bt_of_list (map (\<lambda>(name, _). (name, case map_of results name of
      Some (Inr _) \<Rightarrow> None | Some (Inl error) \<Rightarrow> Some (row_error_from_kafka error) | None \<Rightarrow> Some (row_error_from_kafka (no_result name)))) updates)"
    using assms(1) by (simp add: outcome_errors_def)
  then show ?thesis using assms(2) by (simp only: map_of_updates if_True) (auto simp: Inr update_failed_def split: option.splits sum.splits)
next
  case (Inl error)
  then obtain row where "errors = bt_of_list (map (\<lambda>(name, _). (name, Some row)) updates)"
    using assms(1) by (cases error) (auto simp: outcome_errors_def split: if_splits)
  then show ?thesis using assms(2) map_of_updates [of "\<lambda>_. Some row" updates name] by (simp add: Inl update_failed_def)
qed

lemma some_failed: "0 < length (filter (\<lambda>(name, _). P name) updates) \<longleftrightarrow> (\<exists>name \<in> fst ` set updates. P name)"
  by (induction updates) auto

text \<open>C18. An update that ends with a report was checked before it was sent: it has a feature, each registered and within its supported range, and, except in a dry
  run, every dependency of a level is met by the levels that the cluster would have. The report fails exactly when the answer has no success for some feature.\<close>

theorem features_update_checked:
  assumes "run_update env reg planned st = Some (Inr report, st')"
  shows "\<exists>plan st1 outcome. planned = Inr plan \<and> fp_updates plan \<noteq> []
    \<and> (\<forall>(name, update) \<in> set (fp_updates plan). \<exists>feature. rg_feature reg name = Some feature \<and> fu_max_version_level update \<in> {ft_min feature .. ft_max feature})
    \<and> (fp_dry_run plan \<or> (\<exists>metadata. (needs_current_levels reg plan \<longrightarrow> (\<exists>st2 st3. fex_describe_features env None st2 = (Inr metadata, st3)))
        \<and> (\<forall>(name, update) \<in> set (fp_updates plan). \<forall>(dependency, least) \<in> set (registry_dependencies reg name (fu_max_version_level update)).
            \<exists>level \<ge> least. map_of (proposed_levels (fp_updates plan) metadata) dependency = Some level)))
    \<and> fex_update_features env (fp_updates plan) (fp_dry_run plan) st1 = (outcome, st')
    \<and> (cr_failed report \<longleftrightarrow> (\<exists>name \<in> fst ` set (fp_updates plan). update_failed outcome name))"
proof -
  from assms obtain plan st0 st1 outcome errors where plan: "planned = Inr plan" "validate_plan reg plan = Inr ()"
    and checked: "check_dependencies env reg plan st0 = Some (Inr (), st1)"
    and call: "fex_update_features env (fp_updates plan) (fp_dry_run plan) st1 = (outcome, st')"
    and errors: "outcome_errors (fp_updates plan) outcome = Inr errors"
    and report: "report = (let r = features_report plan (\<lambda>name. Option.bind (map_of errors name) id) in if fp_dry_run plan then into_kafka_dry_run r else r)"
    by (auto simp: run_update_def cmd_Inr_iff cmd_answers Let_def)
  have "cr_failed report \<longleftrightarrow> (\<exists>name \<in> fst ` set (fp_updates plan). Option.bind (map_of errors name) id \<noteq> None)"
    by (simp add: report features_report_def Let_def into_kafka_dry_run_def with_notices_def result_rows_def some_failed del: length_greater_0_conv)
  then have failed: "cr_failed report \<longleftrightarrow> (\<exists>name \<in> fst ` set (fp_updates plan). update_failed outcome name)"
    using outcome_errors_Inr [OF errors] by blast
  have met: "fp_dry_run plan \<or> (\<exists>metadata. (needs_current_levels reg plan \<longrightarrow> (\<exists>st2 st3. fex_describe_features env None st2 = (Inr metadata, st3)))
        \<and> (\<forall>(name, update) \<in> set (fp_updates plan). \<forall>(dependency, least) \<in> set (registry_dependencies reg name (fu_max_version_level update)).
            \<exists>level \<ge> least. map_of (proposed_levels (fp_updates plan) metadata) dependency = Some level))"
  proof (cases "needs_current_levels reg plan")
    case True
    show ?thesis
    proof (cases "fp_dry_run plan")
      case False
      with True checked obtain metadata where "fex_describe_features env None st0 = (Inr metadata, st1)"
        "unmet_dependency (registry_dependencies reg) (proposed_levels (fp_updates plan) metadata) (fp_updates plan) = None"
        by (auto simp: check_dependencies_def cmd_Inr_iff cmd_answers no_triple split: option.splits)
      then show ?thesis unfolding unmet_dependency_None by blast
    qed simp
  next
    case False
    then have "registry_dependencies reg name (fu_max_version_level update) = []" if "(name, update) \<in> set (fp_updates plan)" for name update
      using that unfolding needs_current_levels_def by blast
    then show ?thesis using False by fastforce
  qed
  have "\<forall>(name, update) \<in> set (fp_updates plan). \<exists>feature. rg_feature reg name = Some feature \<and> fu_max_version_level update \<in> {ft_min feature .. ft_max feature}"
    using validate_plan_Inr(2) [OF plan(2)] by blast
  with plan(1) validate_plan_Inr(1) [OF plan(2)] met call failed show ?thesis by (intro exI conjI) assumption+
qed

section \<open>What changes the cluster\<close>

fun applies_update :: "FeaturesCommand \<Rightarrow> bool" where
  "applies_update (Features_Upgrade args) \<longleftrightarrow> \<not> ua_dry_run args"
| "applies_update (Features_Downgrade args) \<longleftrightarrow> \<not> da_dry_run args"
| "applies_update (Features_Disable args) \<longleftrightarrow> \<not> di_dry_run args"
| "applies_update _ \<longleftrightarrow> False"

text \<open>A client whose calls that do more than validate are replaced.\<close>

definition with_real_updates ::
    "'c FeaturesEnv \<Rightarrow> (Updates \<Rightarrow> 'c \<Rightarrow> (AdminError + (string \<times> (KafkaError + unit)) list) \<times> 'c) \<Rightarrow> 'c FeaturesEnv" where
  "with_real_updates env update =
     env\<lparr>fex_update_features := (\<lambda>updates validate_only. if validate_only then fex_update_features env updates True else update updates)\<rparr>"

lemma calls_with_real_updates:
  "fex_connect (with_real_updates env u) = fex_connect env" "fex_describe_features (with_real_updates env u) = fex_describe_features env"
  "fex_update_features (with_real_updates env u) updates True = fex_update_features env updates True"
  by (simp_all add: with_real_updates_def)

lemma planned_dry_run:
  "upgrade_or_downgrade reg op metadata release features upgrade_type dry_run = Inr plan \<Longrightarrow> fp_dry_run plan = dry_run"
  "disable_plan reg names upgrade_type dry_run = Inr plan \<Longrightarrow> fp_dry_run plan = dry_run"
  by (auto simp: upgrade_or_downgrade_def disable_plan_def Let_def res_bind_Inr_iff split: option.splits if_splits prod.splits)

lemma run_update_validates:
  assumes "\<And>plan. planned = Inr plan \<Longrightarrow> fp_dry_run plan"
  shows "run_update (with_real_updates env update) reg planned = run_update env reg planned"
proof (cases planned)
  case (Inr plan)
  have dry: "fp_dry_run plan" using assms Inr by simp
  show ?thesis
    unfolding run_update_def Inr cmd_try_simps cmd_bind_ret check_dependencies_def calls_with_real_updates
    using dry by (simp add: calls_with_real_updates)
qed (simp add: run_update_def cmd_simps)

lemma describe_features_same: "describe_features (with_real_updates env update) reg node_id = describe_features env reg node_id"
  unfolding describe_features_def calls_with_real_updates ..

text \<open>\<open>kafka-features\<close> changes levels only under \<open>upgrade\<close>, \<open>downgrade\<close> and \<open>disable\<close> without \<open>--dry-run\<close>: every other command line only asks the controller to
  validate, or does not ask it at all, so its outcome does not depend on what an update does.\<close>

theorem features_change_only_their_own:
  assumes "applies_update command \<Longrightarrow> update = (\<lambda>updates. fex_update_features env updates False)"
  shows "run_features (with_real_updates env update) reg command = run_features env reg command"
proof (cases "applies_update command")
  case True
  have "(\<lambda>updates validate_only. if validate_only then fex_update_features env updates True else fex_update_features env updates False) = fex_update_features env"
    by (simp add: fun_eq_iff)
  then have "with_real_updates env update = env" unfolding assms [OF True] with_real_updates_def by simp
  then show ?thesis by simp
next
  case False
  then show ?thesis
    by (cases command)
      (simp_all add: describe_features_same run_update_validates planned_dry_run)
qed

section \<open>Witnesses\<close>

definition sample_feature :: FeatureInfo where
  "sample_feature = \<lparr>ft_name = ''group.version'', ft_min = 0, ft_max = 1, ft_default_level = (\<lambda>_. 1), ft_dependencies = (\<lambda>_. [(''metadata.version'', 5)])\<rparr>"

definition sample_registry :: Registry where
  "sample_registry =
     \<lparr>rg_features = [sample_feature], rg_feature = (\<lambda>name. if name = ''group.version'' then Some sample_feature else None), rg_from_feature_level = (\<lambda>_. None),
      rg_metadata_version_feature = ''metadata.version'', rg_kraft_version_feature = ''kraft.version'', rg_share_version_feature = ''share.version'',
      rg_metadata_version_min = 7, rg_latest_production = 25,
      rg_new_update = (\<lambda>level t. Inr \<lparr>fu_max_version_level = level, fu_upgrade_type = t\<rparr>)\<rparr>"

definition sample_plan :: FeaturesPlan where
  "sample_plan =
     \<lparr>fp_op = Op_Upgrade, fp_notices = [], fp_updates = [(''group.version'', \<lparr>fu_max_version_level = 1, fu_upgrade_type = Upgrade_Only\<rparr>)], fp_dry_run = False\<rparr>"

definition sample_features_env :: "nat FeaturesEnv" where
  "sample_features_env =
     \<lparr>fex_connect = cmd_ret (),
      fex_describe_features = (\<lambda>_ st. (Inr \<lparr>fm_finalized = [\<lparr>fg_name = ''metadata.version'', fg_min_version = 1, fg_max_version = 25\<rparr>], fm_supported = [],
        fm_finalized_features_epoch = None\<rparr>, st)),
      fex_update_features = (\<lambda>updates _ st. (Inr (map (\<lambda>(name, _). (name, Inr ())) updates), st + 1))\<rparr>"

theorem parse_name_and_level_roundtrip_witness: "parse_name_and_level (''group.version'' @ ''='' @ show_int 1) = Inr (''group.version'', 1)"
proof -
  have "trim ''group.version'' = ''group.version''" by (rule trim_graphic) (simp_all add: graphic_def byte_of_def)
  from parse_name_and_level_roundtrip [OF _ this, of 1] show ?thesis by simp
qed

theorem features_update_checked_witness: "\<exists>report. run_update sample_features_env sample_registry (Inr sample_plan) 0 = Some (Inr report, 1) \<and> \<not> cr_failed report"
proof -
  have "case run_update sample_features_env sample_registry (Inr sample_plan) 0 of Some (Inr _, st) \<Rightarrow> st = 1 | _ \<Rightarrow> False" by code_simp
  then have "\<exists>report. run_update sample_features_env sample_registry (Inr sample_plan) 0 = Some (Inr report, 1)" 
    by (cases "run_update sample_features_env sample_registry (Inr sample_plan) 0"; cases "fst (the (run_update sample_features_env sample_registry (Inr sample_plan) 0))") auto
  then obtain report where report: "run_update sample_features_env sample_registry (Inr sample_plan) 0 = Some (Inr report, 1)" ..
  from features_update_checked [OF this] have "\<not> cr_failed report"
    by (auto simp: sample_plan_def sample_features_env_def update_failed_def)
  with report show ?thesis by blast
qed

theorem features_change_only_their_own_witness:
  "run_features (with_real_updates sample_features_env (\<lambda>_ st. (Inr [], st + 5))) sample_registry
      (Features_Disable \<lparr>di_feature = [''group.version''], di_unsafe_downgrade = False, di_dry_run = True\<rparr>) =
    run_features sample_features_env sample_registry (Features_Disable \<lparr>di_feature = [''group.version''], di_unsafe_downgrade = False, di_dry_run = True\<rparr>)"
  by (rule features_change_only_their_own) simp

end
