(* ===== verification/Ui_Permissions.thy ===== *)
theory Ui_Permissions
  imports Admin_Acls
begin

unbundle bit_operations_syntax

text \<open>
  \<^verbatim>\<open>crates/admin-ui/src/permissions.rs\<close>: what an operator's ACLs permit, as a set of bits. The types of an
  ACL entry are those of \<open>Admin_Acls\<close>.
\<close>

section \<open>Capabilities\<close>

type_synonym Capabilities = "16 word"

definition VIEW_TOPICS :: "16 word" where "VIEW_TOPICS = push_bit 0 1"
definition CREATE_TOPICS :: "16 word" where "CREATE_TOPICS = push_bit 1 1"
definition ALTER_TOPICS :: "16 word" where "ALTER_TOPICS = push_bit 2 1"
definition DELETE_TOPICS :: "16 word" where "DELETE_TOPICS = push_bit 3 1"
definition VIEW_GROUPS :: "16 word" where "VIEW_GROUPS = push_bit 4 1"
definition VIEW_ACLS :: "16 word" where "VIEW_ACLS = push_bit 5 1"
definition ALTER_ACLS :: "16 word" where "ALTER_ACLS = push_bit 6 1"
definition ALTER_USERS :: "16 word" where "ALTER_USERS = push_bit 7 1"
definition VIEW_QUOTAS :: "16 word" where "VIEW_QUOTAS = push_bit 8 1"
definition ALTER_QUOTAS :: "16 word" where "ALTER_QUOTAS = push_bit 9 1"
definition VIEW_LOG_DIRS :: "16 word" where "VIEW_LOG_DIRS = push_bit 10 1"
definition VIEW_USERS :: "16 word" where "VIEW_USERS = push_bit 11 1"
definition ALTER_LOG_DIRS :: "16 word" where "ALTER_LOG_DIRS = push_bit 12 1"
definition EVERY :: "16 word" where "EVERY = push_bit 13 1 - 1"

lemmas capability_defs =
  VIEW_TOPICS_def CREATE_TOPICS_def ALTER_TOPICS_def DELETE_TOPICS_def VIEW_GROUPS_def VIEW_ACLS_def
  ALTER_ACLS_def ALTER_USERS_def VIEW_QUOTAS_def ALTER_QUOTAS_def VIEW_LOG_DIRS_def VIEW_USERS_def
  ALTER_LOG_DIRS_def

definition capabilities_all :: Capabilities where "capabilities_all = EVERY"
definition capabilities_none :: Capabilities where "capabilities_none = 0"

definition capabilities_contains :: "Capabilities \<Rightarrow> 16 word \<Rightarrow> bool" where
  "capabilities_contains self capability \<longleftrightarrow> self AND capability \<noteq> 0"

definition can_view_topics :: "Capabilities \<Rightarrow> bool" where
  "can_view_topics self = capabilities_contains self VIEW_TOPICS"
definition can_create_topics :: "Capabilities \<Rightarrow> bool" where
  "can_create_topics self = capabilities_contains self CREATE_TOPICS"
definition can_alter_topics :: "Capabilities \<Rightarrow> bool" where
  "can_alter_topics self = capabilities_contains self ALTER_TOPICS"
definition can_delete_topics :: "Capabilities \<Rightarrow> bool" where
  "can_delete_topics self = capabilities_contains self DELETE_TOPICS"
definition can_view_groups :: "Capabilities \<Rightarrow> bool" where
  "can_view_groups self = capabilities_contains self VIEW_GROUPS"
definition can_view_acls :: "Capabilities \<Rightarrow> bool" where
  "can_view_acls self = capabilities_contains self VIEW_ACLS"
definition can_alter_acls :: "Capabilities \<Rightarrow> bool" where
  "can_alter_acls self = capabilities_contains self ALTER_ACLS"
definition can_alter_users :: "Capabilities \<Rightarrow> bool" where
  "can_alter_users self = capabilities_contains self ALTER_USERS"
definition can_view_quotas :: "Capabilities \<Rightarrow> bool" where
  "can_view_quotas self = capabilities_contains self VIEW_QUOTAS"
definition can_alter_quotas :: "Capabilities \<Rightarrow> bool" where
  "can_alter_quotas self = capabilities_contains self ALTER_QUOTAS"
definition can_view_log_dirs :: "Capabilities \<Rightarrow> bool" where
  "can_view_log_dirs self = capabilities_contains self VIEW_LOG_DIRS"
definition can_view_users :: "Capabilities \<Rightarrow> bool" where
  "can_view_users self = capabilities_contains self VIEW_USERS"
definition can_alter_log_dirs :: "Capabilities \<Rightarrow> bool" where
  "can_alter_log_dirs self = capabilities_contains self ALTER_LOG_DIRS"

lemmas can_defs =
  can_view_topics_def can_create_topics_def can_alter_topics_def can_delete_topics_def can_view_groups_def
  can_view_acls_def can_alter_acls_def can_alter_users_def can_view_quotas_def can_alter_quotas_def
  can_view_log_dirs_def can_view_users_def can_alter_log_dirs_def

section \<open>Deriving the capabilities\<close>

definition implies :: "AclOperation \<Rightarrow> AclOperation \<Rightarrow> bool" where
  "implies stored requested \<longleftrightarrow>
     (case stored of
        Op_Read \<Rightarrow> requested = Op_Describe
      | Op_Write \<Rightarrow> requested = Op_Describe
      | Op_Delete \<Rightarrow> requested = Op_Describe
      | Op_Alter \<Rightarrow> requested = Op_Describe
      | Op_AlterConfigs \<Rightarrow> requested = Op_DescribeConfigs
      | _ \<Rightarrow> False)"

definition matches_operation :: "AclOperation \<Rightarrow> AclOperation \<Rightarrow> bool" where
  "matches_operation stored requested \<longleftrightarrow> stored = requested \<or> stored = Op_All \<or> implies stored requested"

definition is_for_principal :: "AclEntry \<Rightarrow> string \<Rightarrow> bool" where
  "is_for_principal entry who \<longleftrightarrow> ae_principal entry = who \<or> ae_principal entry = ''User:*''"

definition is_for_host :: "AclEntry \<Rightarrow> string option \<Rightarrow> bool" where
  "is_for_host entry peer_host \<longleftrightarrow>
     (if ae_host entry = ''*'' then True else case peer_host of Some host \<Rightarrow> ae_host entry = host | None \<Rightarrow> False)"

definition is_for_principal_and_host :: "AclEntry \<Rightarrow> string \<Rightarrow> string option \<Rightarrow> bool" where
  "is_for_principal_and_host entry who peer_host \<longleftrightarrow> is_for_principal entry who \<and> is_for_host entry peer_host"

fun effective_from :: "(AclEntry \<Rightarrow> bool) \<Rightarrow> AclEntry list \<Rightarrow> bool \<Rightarrow> bool" where
  "effective_from skipped [] saw_allow = saw_allow"
| "effective_from skipped (entry # entries) saw_allow =
     (if skipped entry then effective_from skipped entries saw_allow
      else case ae_permission_type entry of
             Allow \<Rightarrow> effective_from skipped entries True
           | Deny \<Rightarrow> False)"

definition has_effective_permission ::
    "string \<Rightarrow> string option \<Rightarrow> AclEntry list \<Rightarrow> ResourceType \<Rightarrow> AclOperation \<Rightarrow> bool" where
  "has_effective_permission who peer_host entries resource_type operation =
     effective_from (\<lambda>entry. ae_resource_type entry \<noteq> resource_type
         \<or> \<not> is_for_principal_and_host entry who peer_host
         \<or> \<not> matches_operation (ae_operation entry) operation) entries False"

definition grant :: "16 word \<Rightarrow> 16 word \<times> bool \<Rightarrow> 16 word" where
  "grant bits = (\<lambda>(capability, granted). if granted then bits OR capability else bits)"

definition derive_capabilities_for_optional_host :: "string \<Rightarrow> string option \<Rightarrow> AclEntry list \<Rightarrow> Capabilities" where
  "derive_capabilities_for_optional_host who peer_host entries =
     (let effective = has_effective_permission who peer_host entries
      in foldl grant 0
           [(VIEW_TOPICS, effective Rt_Topic Op_Describe),
            (CREATE_TOPICS, effective Rt_Cluster Op_Create),
            (ALTER_TOPICS, effective Rt_Topic Op_Alter \<or> effective Rt_Topic Op_AlterConfigs),
            (DELETE_TOPICS, effective Rt_Topic Op_Delete),
            (VIEW_GROUPS, effective Rt_Group Op_Describe),
            (VIEW_ACLS, effective Rt_Cluster Op_Describe),
            (ALTER_ACLS, effective Rt_Cluster Op_Alter),
            (ALTER_USERS, effective Rt_Cluster Op_Alter),
            (VIEW_QUOTAS, effective Rt_Cluster Op_Describe),
            (ALTER_QUOTAS, effective Rt_Cluster Op_Alter),
            (VIEW_LOG_DIRS, effective Rt_Cluster Op_Describe),
            (VIEW_USERS, effective Rt_Cluster Op_Describe),
            (ALTER_LOG_DIRS, effective Rt_Cluster Op_Alter)])"

definition derive_capabilities :: "string \<Rightarrow> AclEntry list \<Rightarrow> Capabilities" where
  "derive_capabilities who entries = derive_capabilities_for_optional_host who None entries"

definition derive_capabilities_for_host :: "string \<Rightarrow> string \<Rightarrow> AclEntry list \<Rightarrow> Capabilities" where
  "derive_capabilities_for_host who peer_host entries =
     derive_capabilities_for_optional_host who (Some peer_host) entries"

section \<open>Properties\<close>

text \<open>What the ACLs permit, without the order of a loop: some entry allows the operation and none
  denies it. The table of the operations that stand for a requested one is written out here, on its
  own: \<open>All\<close> stands for every operation, and an operation that changes or reads a resource
  stands for \<open>Describe\<close> too. The table is the same for an entry that allows and for one that
  denies, so to deny \<open>Alter\<close> is to deny \<open>Describe\<close>.\<close>

definition standing_for :: "AclOperation \<Rightarrow> AclOperation set" where
  "standing_for operation =
     (if operation = Op_Describe then {Op_All, Op_Describe, Op_Read, Op_Write, Op_Delete, Op_Alter}
      else if operation = Op_DescribeConfigs then {Op_All, Op_DescribeConfigs, Op_AlterConfigs}
      else {Op_All, operation})"

definition concerns :: "string \<Rightarrow> string option \<Rightarrow> ResourceType \<Rightarrow> AclEntry \<Rightarrow> bool" where
  "concerns who peer_host resource_type entry \<longleftrightarrow>
     ae_resource_type entry = resource_type
     \<and> ae_principal entry \<in> {who, ''User:*''}
     \<and> (ae_host entry = ''*'' \<or> Some (ae_host entry) = peer_host)"

definition permits ::
    "string \<Rightarrow> string option \<Rightarrow> AclEntry list \<Rightarrow> ResourceType \<Rightarrow> AclOperation \<Rightarrow> bool" where
  "permits who peer_host entries resource_type operation \<longleftrightarrow>
     (\<exists>entry \<in> set entries. concerns who peer_host resource_type entry
        \<and> ae_operation entry \<in> standing_for operation \<and> ae_permission_type entry = Allow)
     \<and> \<not> (\<exists>entry \<in> set entries. concerns who peer_host resource_type entry
        \<and> ae_operation entry \<in> standing_for operation \<and> ae_permission_type entry = Deny)"

lemma matches_operation_iff: "matches_operation stored requested \<longleftrightarrow> stored \<in> standing_for requested"
  by (cases stored) (auto simp: matches_operation_def implies_def standing_for_def)

lemma effective_from_iff:
  "effective_from skipped entries saw \<longleftrightarrow>
     (saw \<or> (\<exists>e \<in> set entries. \<not> skipped e \<and> ae_permission_type e = Allow))
     \<and> \<not> (\<exists>e \<in> set entries. \<not> skipped e \<and> ae_permission_type e = Deny)"
  by (induction skipped entries saw rule: effective_from.induct) (auto split: PermissionType.split)

lemma has_effective_permission_iff:
  "has_effective_permission who peer_host entries resource_type operation =
     permits who peer_host entries resource_type operation"
proof -
  have "\<not> (ae_resource_type entry \<noteq> resource_type \<or> \<not> is_for_principal_and_host entry who peer_host
      \<or> \<not> matches_operation (ae_operation entry) operation) \<longleftrightarrow>
      concerns who peer_host resource_type entry \<and> ae_operation entry \<in> standing_for operation" for entry
    by (auto simp: concerns_def matches_operation_iff is_for_principal_and_host_def is_for_principal_def is_for_host_def split: option.splits)
  then show ?thesis unfolding has_effective_permission_def effective_from_iff permits_def by (simp add: conj_assoc)
qed

lemma bit_grants: "bit (foldl grant bits gs) n \<longleftrightarrow> bit bits n \<or> (\<exists>(c, granted) \<in> set gs. granted \<and> bit c n)"
proof (induction gs arbitrary: bits)
  case (Cons g gs)
  obtain c granted where g: "g = (c, granted)" by (cases g)
  have "bit (grant bits g) n \<longleftrightarrow> bit bits n \<or> granted \<and> bit c n" by (simp add: g grant_def bit_or_iff)
  then show ?case unfolding foldl_Cons Cons.IH by (simp add: g)
qed simp

lemma contains_bit: "n < 16 \<Longrightarrow> capabilities_contains w (push_bit n 1) \<longleftrightarrow> bit w n"
  by (simp add: capabilities_contains_def bit_iff_and_push_bit_not_eq_0)

lemma bit_capability: "n < 16 \<Longrightarrow> bit (push_bit k 1 :: 16 word) n \<longleftrightarrow> n = k"
  by (auto simp: bit_simps)

lemma bit_every: "bit EVERY n \<longleftrightarrow> n < 13"
proof -
  have every: "EVERY = mask 13" by (simp add: EVERY_def mask_eq_exp_minus_1 push_bit_eq_mult)
  show ?thesis unfolding every bit_mask_iff by auto
qed

lemma can_bits:
  "can_view_topics w = bit w 0" "can_create_topics w = bit w 1" "can_alter_topics w = bit w 2"
  "can_delete_topics w = bit w 3" "can_view_groups w = bit w 4" "can_view_acls w = bit w 5"
  "can_alter_acls w = bit w 6" "can_alter_users w = bit w 7" "can_view_quotas w = bit w 8"
  "can_alter_quotas w = bit w 9" "can_view_log_dirs w = bit w 10" "can_view_users w = bit w 11"
  "can_alter_log_dirs w = bit w 12"
  by (simp_all only: can_defs capability_defs contains_bit)

lemma derived_bits:
  fixes who host entries
  defines "w \<equiv> derive_capabilities_for_optional_host who host entries" and "p \<equiv> permits who host entries"
  shows "bit w 0 = p Rt_Topic Op_Describe" "bit w 1 = p Rt_Cluster Op_Create"
    "bit w 2 \<longleftrightarrow> p Rt_Topic Op_Alter \<or> p Rt_Topic Op_AlterConfigs" "bit w 3 = p Rt_Topic Op_Delete"
    "bit w 4 = p Rt_Group Op_Describe" "bit w 5 = p Rt_Cluster Op_Describe" "bit w 6 = p Rt_Cluster Op_Alter"
    "bit w 7 = p Rt_Cluster Op_Alter" "bit w 8 = p Rt_Cluster Op_Describe" "bit w 9 = p Rt_Cluster Op_Alter"
    "bit w 10 = p Rt_Cluster Op_Describe" "bit w 11 = p Rt_Cluster Op_Describe" "bit w 12 = p Rt_Cluster Op_Alter"
    "\<not> bit w 13" "\<not> bit w 14" "\<not> bit w 15"
  unfolding w_def p_def derive_capabilities_for_optional_host_def Let_def bit_grants has_effective_permission_iff
    capability_defs
  by (simp_all add: bit_capability bit_simps)

text \<open>C40. The capabilities of an operator follow the ACLs: each is granted exactly when some entry for the
  principal (or everyone) and the host allows the operation on the kind of resource and no such entry
  denies it, in any order of the entries. An entry is about an operation when it names it, names
  \<open>All\<close>, or, for \<open>Describe\<close>, names \<open>Read\<close>, \<open>Write\<close>, \<open>Delete\<close> or \<open>Alter\<close>; this holds of entries
  that deny as well, so an operator who is denied \<open>Alter\<close> is shown nothing that needs \<open>Describe\<close>. No
  other bit is set.\<close>

theorem derive_capabilities_spec:
  "(let w = derive_capabilities_for_optional_host who host entries; p = permits who host entries in
    (can_view_topics w \<longleftrightarrow> p Rt_Topic Op_Describe)
    \<and> (can_create_topics w \<longleftrightarrow> p Rt_Cluster Op_Create)
    \<and> (can_alter_topics w \<longleftrightarrow> p Rt_Topic Op_Alter \<or> p Rt_Topic Op_AlterConfigs)
    \<and> (can_delete_topics w \<longleftrightarrow> p Rt_Topic Op_Delete)
    \<and> (can_view_groups w \<longleftrightarrow> p Rt_Group Op_Describe)
    \<and> (can_view_acls w \<longleftrightarrow> p Rt_Cluster Op_Describe) \<and> (can_alter_acls w \<longleftrightarrow> p Rt_Cluster Op_Alter)
    \<and> (can_view_users w \<longleftrightarrow> p Rt_Cluster Op_Describe) \<and> (can_alter_users w \<longleftrightarrow> p Rt_Cluster Op_Alter)
    \<and> (can_view_quotas w \<longleftrightarrow> p Rt_Cluster Op_Describe) \<and> (can_alter_quotas w \<longleftrightarrow> p Rt_Cluster Op_Alter)
    \<and> (can_view_log_dirs w \<longleftrightarrow> p Rt_Cluster Op_Describe) \<and> (can_alter_log_dirs w \<longleftrightarrow> p Rt_Cluster Op_Alter)
    \<and> w AND EVERY = w)"
proof -
  have "derive_capabilities_for_optional_host who host entries AND EVERY =
      derive_capabilities_for_optional_host who host entries" (is "?w AND _ = _")
  proof (rule bit_word_eqI)
    fix n :: nat
    assume "n < LENGTH(16)"
    then have "n < 13 \<or> n = 13 \<or> n = 14 \<or> n = 15" by auto
    then have "bit ?w n \<Longrightarrow> n < 13" using derived_bits(14-16) by blast
    then show "bit (?w AND EVERY) n \<longleftrightarrow> bit ?w n" by (auto simp: bit_and_iff bit_every)
  qed
  then show ?thesis unfolding Let_def can_bits by (simp only: derived_bits simp_thms)
qed

text \<open>An operator who may do everything on the cluster but is denied \<open>Alter\<close> there, sees neither the ACLs nor
  the quotas: the entry that denies \<open>Alter\<close> stands for \<open>Describe\<close>.\<close>

theorem deny_alter_hides_views:
  "(let entry = \<lambda>operation permission. \<lparr> ae_resource_type = Rt_Cluster, ae_resource_name = ''kafka-cluster'',
       ae_pattern_type = Literal, ae_principal = ''User:alice'', ae_host = ''*'',
       ae_operation = operation, ae_permission_type = permission \<rparr>;
      w = derive_capabilities ''User:alice'' [entry Op_All Allow, entry Op_Alter Deny]
    in can_create_topics w \<and> \<not> can_view_acls w \<and> \<not> can_view_quotas w)"
  by code_simp

text \<open>The capabilities that a set of bits grants are nothing but the bits.\<close>

lemma capabilities_all_can:
  "can_view_topics capabilities_all" "can_create_topics capabilities_all" "can_alter_topics capabilities_all"
  "can_delete_topics capabilities_all" "can_view_groups capabilities_all" "can_view_acls capabilities_all"
  "can_alter_acls capabilities_all" "can_alter_users capabilities_all" "can_view_quotas capabilities_all"
  "can_alter_quotas capabilities_all" "can_view_log_dirs capabilities_all" "can_view_users capabilities_all"
  "can_alter_log_dirs capabilities_all"
  by (simp_all add: can_bits capabilities_all_def bit_every)

end
