(* ===== verification/Ui_Sessions.thy ===== *)
theory Ui_Sessions
  imports Ui_Permissions
begin

text \<open>
  \<^verbatim>\<open>crates/admin-ui/src/session.rs\<close>: the CSRF token, the session records and their store. A session id is
  the text of its UUID; a new UUID and the time of a call are arguments. An \<open>Instant\<close> is a number
  of clock units, up to the last one that the platform's clock can represent. The store's \<open>HashMap\<close> is the
  map of its entries in the order of the ids: no operation depends on its order.
\<close>

section \<open>The CSRF token\<close>

type_synonym SessionId = string
type_synonym CsrfToken = string
type_synonym Instant = nat

definition byte_word :: "char \<Rightarrow> 8 word" where
  "byte_word c = of_nat (byte_of c)"

definition csrf_matches :: "CsrfToken \<Rightarrow> string \<Rightarrow> bool" where
  "csrf_matches self candidate =
     (if length self \<noteq> length candidate then False
      else foldl (\<lambda>difference (expected, supplied). difference OR (byte_word expected XOR byte_word supplied)) 0
             (zip self candidate) = 0)"

section \<open>Records\<close>

record SessionUser =
  su_username :: string
  su_principal :: string

record SessionCredentials =
  sc_password :: string

record SessionRecord =
  sr_user :: SessionUser
  sr_credentials :: "SessionCredentials option"
  sr_capabilities :: Capabilities
  sr_csrf_token :: CsrfToken
  sr_expires_at :: Instant

definition is_expired :: "SessionRecord \<Rightarrow> Instant \<Rightarrow> bool" where
  "is_expired self now \<longleftrightarrow> sr_expires_at self \<le> now"

section \<open>The store\<close>

record SessionStore =
  ss_ttl :: nat
  ss_sessions :: "(SessionId, SessionRecord) btmap"

definition SessionStore_new :: "nat \<Rightarrow> SessionStore" where
  "SessionStore_new ttl = \<lparr>ss_ttl = ttl, ss_sessions = []\<rparr>"

text \<open>\<open>Instant::checked_add\<close> on a platform whose last instant is \<open>last_instant\<close>.\<close>

definition checked_add :: "Instant \<Rightarrow> Instant \<Rightarrow> nat \<Rightarrow> Instant option" where
  "checked_add last_instant now duration = (if now + duration \<le> last_instant then Some (now + duration) else None)"

text \<open>A call of \<open>create_record\<close>: the last instant, the time, the new id and the new token.\<close>

record Fresh =
  fr_last_instant :: Instant
  fr_now :: Instant
  fr_id :: SessionId
  fr_token :: CsrfToken

definition new_record :: "Fresh \<Rightarrow> nat \<Rightarrow> SessionUser \<Rightarrow> SessionCredentials option \<Rightarrow> Capabilities \<Rightarrow> SessionRecord" where
  "new_record fresh ttl user credentials capabilities =
     \<lparr>sr_user = user, sr_credentials = credentials, sr_capabilities = capabilities, sr_csrf_token = fr_token fresh,
      sr_expires_at = (case checked_add (fr_last_instant fresh) (fr_now fresh) ttl of
                         Some instant \<Rightarrow> instant | None \<Rightarrow> fr_now fresh)\<rparr>"

definition create_record ::
    "Fresh \<Rightarrow> SessionUser \<Rightarrow> SessionCredentials option \<Rightarrow> Capabilities \<Rightarrow> SessionStore \<Rightarrow> SessionId \<times> SessionStore" where
  "create_record fresh user credentials capabilities self =
     (let record = new_record fresh (ss_ttl self) user credentials capabilities;
          sessions = filter (\<lambda>(_, record). \<not> is_expired record (fr_now fresh)) (ss_sessions self)
      in (fr_id fresh, self\<lparr>ss_sessions := bt_insert (fr_id fresh) record sessions\<rparr>))"

definition session_create :: "Fresh \<Rightarrow> SessionUser \<Rightarrow> SessionStore \<Rightarrow> SessionId \<times> SessionStore" where
  "session_create fresh user self = create_record fresh user None capabilities_all self"

definition create_user :: "Fresh \<Rightarrow> string \<Rightarrow> string \<Rightarrow> SessionStore \<Rightarrow> SessionId \<times> SessionStore" where
  "create_user fresh username principal_name self =
     session_create fresh \<lparr>su_username = username, su_principal = principal_name\<rparr> self"

definition create_authenticated ::
    "Fresh \<Rightarrow> SessionUser \<Rightarrow> SessionCredentials \<Rightarrow> Capabilities \<Rightarrow> SessionStore \<Rightarrow> SessionId \<times> SessionStore" where
  "create_authenticated fresh user credentials capabilities self =
     create_record fresh user (Some credentials) capabilities self"

definition session_remove :: "SessionId \<Rightarrow> SessionStore \<Rightarrow> bool \<times> SessionStore" where
  "session_remove i self =
     (map_of (ss_sessions self) i \<noteq> None, self\<lparr>ss_sessions := bt_remove i (ss_sessions self)\<rparr>)"

text \<open>\<open>get\<close> reads under the read lock and removes an expired record later, under the write lock. The
  first part, and the whole of it when no other call comes between.\<close>

definition get_read :: "Instant \<Rightarrow> SessionId \<Rightarrow> SessionStore \<Rightarrow> SessionRecord option \<times> bool" where
  "get_read now i self =
     (case map_of (ss_sessions self) i of
        None \<Rightarrow> (None, False)
      | Some record \<Rightarrow> if \<not> is_expired record now then (Some record, False) else (None, True))"

definition session_get :: "Instant \<Rightarrow> SessionId \<Rightarrow> SessionStore \<Rightarrow> SessionRecord option \<times> SessionStore" where
  "session_get now i self =
     (case get_read now i self of
        (result, expired) \<Rightarrow> (result, if expired then snd (session_remove i self) else self))"

definition session_len :: "SessionStore \<Rightarrow> nat" where
  "session_len self = length (ss_sessions self)"

definition session_is_empty :: "SessionStore \<Rightarrow> bool" where
  "session_is_empty self \<longleftrightarrow> session_len self = 0"

section \<open>The token comparison\<close>

lemma byte_word_eq: "byte_word a XOR byte_word b = 0 \<longleftrightarrow> a = b"
proof -
  have "byte_of c < 256" for c by (simp add: byte_of_def)
  then have "byte_word a = byte_word b \<longleftrightarrow> byte_of a = byte_of b"
    by (simp add: byte_word_def word_of_nat_eq_iff take_bit_eq_mod)
  also have "\<dots> \<longleftrightarrow> a = b" by (simp add: byte_of_def)
  finally show ?thesis by (metis xor.assoc xor.right_neutral xor_self_eq)
qed

lemma differences_zero:
  fixes d :: "8 word"
  shows "foldl (\<lambda>difference (e, s). difference OR (byte_word e XOR byte_word s)) d (zip xs ys) = 0
    \<longleftrightarrow> d = 0 \<and> list_all (\<lambda>(e, s). e = s) (zip xs ys)"
proof (induction xs ys arbitrary: d rule: list_induct2')
  case (4 x xs y ys)
  have "d OR (byte_word x XOR byte_word y) = 0 \<longleftrightarrow> d = 0 \<and> x = y"
    by (simp add: or_eq_0_iff byte_word_eq)
  with 4 show ?case by auto
qed auto

text \<open>The comparison that runs over the whole length is equality.\<close>

lemma csrf_matches_eq: "csrf_matches self candidate \<longleftrightarrow> candidate = self"
proof (cases "length self = length candidate")
  case True
  then have "list_all (\<lambda>(e, s). e = s) (zip self candidate) \<longleftrightarrow> candidate = self"
    by (induction self candidate rule: list_induct2) auto
  with True show ?thesis by (simp add: csrf_matches_def differences_zero)
qed (auto simp: csrf_matches_def)

section \<open>What the store promises\<close>

text \<open>The sessions that count at a time: a map of ids to records, without the expired ones.\<close>

definition live :: "Instant \<Rightarrow> SessionStore \<Rightarrow> SessionId \<Rightarrow> SessionRecord option" where
  "live now self i =
     (case map_of (ss_sessions self) i of
        Some record \<Rightarrow> if is_expired record now then None else Some record
      | None \<Rightarrow> None)"

definition store_ok :: "SessionStore \<Rightarrow> bool" where
  "store_ok self \<longleftrightarrow> bt_ok (ss_sessions self)"

text \<open>The contract of a store of sessions, by the map of its live sessions.\<close>

locale session_spec =
  fixes view :: "Instant \<Rightarrow> 'store \<Rightarrow> SessionId \<Rightarrow> SessionRecord option"
    and ok :: "'store \<Rightarrow> bool"
    and lookup :: "Instant \<Rightarrow> SessionId \<Rightarrow> 'store \<Rightarrow> SessionRecord option \<times> 'store"
    and discard :: "SessionId \<Rightarrow> 'store \<Rightarrow> bool \<times> 'store"
  assumes lookup_result: "ok s \<Longrightarrow> fst (lookup now i s) = view now s i"
    and lookup_view: "ok s \<Longrightarrow> now \<le> later \<Longrightarrow> view later (snd (lookup now i s)) = view later s"
    and lookup_ok: "ok s \<Longrightarrow> ok (snd (lookup now i s))"
    and discard_view: "ok s \<Longrightarrow> view now (snd (discard i s)) = (view now s)(i := None)"
    and discard_ok: "ok s \<Longrightarrow> ok (snd (discard i s))"
    and view_expires: "view later s i = Some r \<Longrightarrow> now \<le> later \<Longrightarrow> view now s i = Some r"
    and view_live: "view now s i = Some r \<Longrightarrow> \<not> is_expired r now"
begin

lemma lookup_Some:
  assumes "ok s" and "lookup now i s = (Some r, s')"
  shows "view now s i = Some r" and "\<not> is_expired r now" and "ok s'"
  using lookup_result [OF assms(1), of now i] lookup_ok [OF assms(1), of now i] view_live [of now s i r] assms(2)
  by auto

text \<open>Looking up twice gives the same answer, at the same time.\<close>

lemma lookup_twice:
  assumes "ok s"
  shows "fst (lookup now i (snd (lookup now j s))) = fst (lookup now i s)"
  using lookup_view [OF assms, of now now j] lookup_ok [OF assms, of now j] lookup_result assms by simp

lemma discard_lookup:
  assumes "ok s"
  shows "fst (lookup now i (snd (discard i s))) = None"
  using discard_view [OF assms] discard_ok [OF assms] lookup_result by simp

lemma discard_other:
  assumes "ok s" and "i \<noteq> j"
  shows "fst (lookup now i (snd (discard j s))) = fst (lookup now i s)"
  using discard_view [OF assms(1)] discard_ok [OF assms(1)] lookup_result assms by simp

lemma lookup_later_none:
  assumes "ok s" and "fst (lookup now i s) = None" and "now \<le> later"
  shows "fst (lookup later i s) = None"
  using lookup_result [OF assms(1)] view_expires [OF _ assms(3), of s i] assms(2)
  by (metis option.exhaust)

end

lemma is_expired_mono: "is_expired r now \<Longrightarrow> now \<le> later \<Longrightarrow> is_expired r later"
  by (simp add: is_expired_def)

interpretation ss: session_spec live store_ok session_get session_remove
proof
  fix s :: SessionStore and now later :: Instant and i r
  show "fst (session_get now i s) = live now s i"
    by (simp add: session_get_def get_read_def live_def split: option.split)
  show "store_ok s \<Longrightarrow> now \<le> later \<Longrightarrow> live later (snd (session_get now i s)) = live later s"
    by (auto simp: fun_eq_iff session_get_def get_read_def session_remove_def live_def map_of_bt_remove
        intro: is_expired_mono split: option.split)
  show "store_ok s \<Longrightarrow> store_ok (snd (session_get now i s))"
    by (auto simp: session_get_def get_read_def session_remove_def store_ok_def split: option.split)
  show "live now (snd (session_remove i s)) = (live now s)(i := None)"
    by (auto simp: fun_eq_iff session_remove_def live_def map_of_bt_remove)
  show "store_ok s \<Longrightarrow> store_ok (snd (session_remove i s))"
    by (auto simp: session_remove_def store_ok_def)
  show "live later s i = Some r \<Longrightarrow> now \<le> later \<Longrightarrow> live now s i = Some r"
    using is_expired_mono [of r now later] by (auto simp: live_def split: option.splits if_splits)
  show "live now s i = Some r \<Longrightarrow> \<not> is_expired r now"
    by (auto simp: live_def split: option.splits if_splits)
qed

section \<open>Creating sessions\<close>

lemma map_of_filter_live:
  "bt_ok m \<Longrightarrow> map_of (filter (\<lambda>(_, r). \<not> is_expired r now) m) i =
     (case map_of m i of Some r \<Rightarrow> if is_expired r now then None else Some r | None \<Rightarrow> None)"
proof (induction m)
  case (Cons e m)
  obtain k r where e: "e = (k, r)" by (cases e)
  have "map_of m k = None"
    using bt_ok_distinct [OF Cons.prems] by (simp add: e map_of_eq_None_iff)
  with Cons show ?case by (auto simp: e split: option.splits)
qed simp

lemma new_record_expires: "sr_expires_at (new_record fresh ttl user c caps) \<le> fr_now fresh + ttl"
  by (simp add: new_record_def checked_add_def)

lemma live_create:
  assumes "store_ok s" and "fr_now fresh \<le> later"
  shows "live later (snd (create_record fresh user c caps s)) =
    (live later s)(fr_id fresh :=
       (let r = new_record fresh (ss_ttl s) user c caps in if is_expired r later then None else Some r))"
    and "store_ok (snd (create_record fresh user c caps s))"
proof -
  let ?kept = "filter (\<lambda>(_, r). \<not> is_expired r (fr_now fresh)) (ss_sessions s)"
  have ok: "bt_ok ?kept" using assms(1) by (simp add: store_ok_def)
  show "store_ok (snd (create_record fresh user c caps s))"
    using ok by (simp add: create_record_def store_ok_def Let_def)
  show "live later (snd (create_record fresh user c caps s)) =
    (live later s)(fr_id fresh :=
       (let r = new_record fresh (ss_ttl s) user c caps in if is_expired r later then None else Some r))"
  proof
    fix i
    have "live later s i = (case map_of ?kept i of Some r \<Rightarrow> if is_expired r later then None else Some r | None \<Rightarrow> None)"
      using assms is_expired_mono [OF _ assms(2)]
      by (auto simp: live_def store_ok_def map_of_filter_live split: option.split)
    then show "live later (snd (create_record fresh user c caps s)) i =
      ((live later s)(fr_id fresh :=
         (let r = new_record fresh (ss_ttl s) user c caps in if is_expired r later then None else Some r))) i"
      using ok by (simp add: create_record_def live_def map_of_bt_insert Let_def)
  qed
qed

text \<open>C7. The store implements a map of live sessions: a lookup returns the live session of the id and
  changes nothing that counts, now or later; signing out removes the one session; a new session
  is added under its id and leaves the others as they are.\<close>

theorem session_store_refines:
  assumes "store_ok s" and "now \<le> later"
  shows "fst (session_get now i s) = live now s i
    \<and> live later (snd (session_get now i s)) = live later s
    \<and> live now (snd (session_remove i s)) = (live now s)(i := None)
    \<and> (let fresh = \<lparr>fr_last_instant = end_of_time, fr_now = now, fr_id = i, fr_token = token\<rparr>;
           r = new_record fresh (ss_ttl s) user c caps
       in live later (snd (create_record fresh user c caps s)) =
            (live later s)(i := (if is_expired r later then None else Some r)))"
  using ss.lookup_result [OF assms(1), of now i] ss.lookup_view [OF assms, of i] ss.discard_view [OF assms(1), of now i]
    live_create(1) [OF assms(1), of "\<lparr>fr_last_instant = end_of_time, fr_now = now, fr_id = i, fr_token = token\<rparr>" later]
    assms(2)
  by (simp add: Let_def)

definition sample_store :: SessionStore where
  "sample_store = snd (create_user \<lparr>fr_last_instant = 1000, fr_now = 10, fr_id = ''a'', fr_token = ''t''\<rparr>
     ''alice'' ''User:alice'' (SessionStore_new 60))"

lemma sample_store_ok: "store_ok sample_store"
  by (simp add: sample_store_def create_user_def session_create_def create_record_def SessionStore_new_def store_ok_def Let_def)

theorem session_store_refines_witness:
  "fst (session_get 69 ''a'' sample_store) = live 69 sample_store ''a'' \<and> live 69 sample_store ''a'' \<noteq> None
   \<and> live 70 sample_store ''a'' = None"
proof -
  have "live 69 sample_store ''a'' \<noteq> None" "live 70 sample_store ''a'' = None" by code_simp+
  with session_store_refines [OF sample_store_ok, of 69 69 "''a''"] show ?thesis by simp
qed

section \<open>Concurrent requests\<close>

text \<open>The store under concurrent requests: the clock, the removals of expired records that are still to
  come, and the ids that were ever issued. A request reads the clock before it takes the lock.\<close>

record Sessions =
  sy_store :: SessionStore
  sy_now :: Instant
  sy_pending :: "SessionId list"
  sy_issued :: "SessionId list"

datatype Event =
    Tick
  | Created Fresh SessionUser "SessionCredentials option" Capabilities
  | Read Instant SessionId
  | Dropped SessionId
  | SignedOut SessionId

text \<open>A new UUID is one that was never issued.\<close>

inductive session_step :: "Event \<Rightarrow> Sessions \<Rightarrow> Sessions \<Rightarrow> bool" where
  tick: "session_step Tick y (y\<lparr>sy_now := Suc (sy_now y)\<rparr>)"
| created: "fr_now fresh \<le> sy_now y \<Longrightarrow> fr_id fresh \<notin> set (sy_issued y) \<Longrightarrow>
     session_step (Created fresh user c caps) y
       (y\<lparr>sy_store := snd (create_record fresh user c caps (sy_store y)), sy_issued := fr_id fresh # sy_issued y\<rparr>)"
| read: "at \<le> sy_now y \<Longrightarrow>
     session_step (Read at i) y
       (if snd (get_read at i (sy_store y)) then y\<lparr>sy_pending := i # sy_pending y\<rparr> else y)"
| dropped: "i \<in> set (sy_pending y) \<Longrightarrow>
     session_step (Dropped i) y
       (y\<lparr>sy_store := snd (session_remove i (sy_store y)), sy_pending := remove1 i (sy_pending y)\<rparr>)"
| signed_out: "session_step (SignedOut i) y (y\<lparr>sy_store := snd (session_remove i (sy_store y))\<rparr>)"

inductive_cases session_stepE: "session_step e y y'"

inductive sessions_reachable :: "nat \<Rightarrow> Sessions \<Rightarrow> bool" for ttl where
  start: "sessions_reachable ttl \<lparr>sy_store = SessionStore_new ttl, sy_now = now, sy_pending = [], sy_issued = []\<rparr>"
| step: "sessions_reachable ttl y \<Longrightarrow> session_step e y y' \<Longrightarrow> sessions_reachable ttl y'"

text \<open>Every record was issued and ends at most a lifetime from now; a removal that is still to come is
  of a record that is expired or gone.\<close>

definition sessions_inv :: "nat \<Rightarrow> Sessions \<Rightarrow> bool" where
  "sessions_inv ttl y \<longleftrightarrow>
     store_ok (sy_store y) \<and> ss_ttl (sy_store y) = ttl
     \<and> (\<forall>i r. map_of (ss_sessions (sy_store y)) i = Some r \<longrightarrow>
          i \<in> set (sy_issued y) \<and> sr_expires_at r \<le> sy_now y + ttl)
     \<and> (\<forall>i \<in> set (sy_pending y). i \<in> set (sy_issued y) \<and> live (sy_now y) (sy_store y) i = None)"

lemma map_of_create:
  "store_ok s \<Longrightarrow> map_of (ss_sessions (snd (create_record fresh user c caps s))) i = Some r \<Longrightarrow>
     (i = fr_id fresh \<and> r = new_record fresh (ss_ttl s) user c caps)
     \<or> (map_of (ss_sessions s) i = Some r \<and> fr_now fresh < sr_expires_at r)"
  using map_of_filter_live [of "ss_sessions s" "fr_now fresh" i]
  by (auto simp: create_record_def Let_def store_ok_def map_of_bt_insert not_le [symmetric] is_expired_def [symmetric]
      split: if_splits option.splits)

lemma map_of_session_remove:
  "map_of (ss_sessions (snd (session_remove i s))) j = (if j = i then None else map_of (ss_sessions s) j)"
  by (simp add: session_remove_def map_of_bt_remove)

lemma ttl_kept [simp]:
  "ss_ttl (snd (create_record fresh user c caps s)) = ss_ttl s" "ss_ttl (snd (session_remove i s)) = ss_ttl s"
  by (simp_all add: create_record_def session_remove_def Let_def)

lemma live_None_later: "live now s i = None \<Longrightarrow> now \<le> later \<Longrightarrow> live later s i = None"
  using ss.view_expires [of later s i _ now] by (metis option.exhaust)

lemma get_read_returns: "fst (get_read at i s) = Some r \<Longrightarrow> at < sr_expires_at r"
  by (auto simp: get_read_def is_expired_def split: option.splits if_splits)

lemma get_read_drops: "map_of (ss_sessions s) i = Some r \<Longrightarrow> snd (get_read at i s) \<longleftrightarrow> sr_expires_at r \<le> at"
  by (simp add: get_read_def is_expired_def)

lemma get_read_expired: "snd (get_read at i s) \<Longrightarrow> live at s i = None \<and> map_of (ss_sessions s) i \<noteq> None"
  by (auto simp: get_read_def live_def split: option.splits if_splits)

lemma inv_created:
  assumes "sessions_inv ttl y" and "fr_now fresh \<le> sy_now y" and "fr_id fresh \<notin> set (sy_issued y)"
  shows "sessions_inv ttl (y\<lparr>sy_store := snd (create_record fresh user c caps (sy_store y)),
    sy_issued := fr_id fresh # sy_issued y\<rparr>)"
proof -
  have ok: "store_ok (sy_store y)" and ttl: "ss_ttl (sy_store y) = ttl" using assms(1) by (simp_all add: sessions_inv_def)
  have pend: "fr_id fresh \<notin> set (sy_pending y)" using assms(1,3) by (auto simp: sessions_inv_def)
  let ?s = "snd (create_record fresh user c caps (sy_store y))"
  have new: "sr_expires_at (new_record fresh ttl user c caps) \<le> sy_now y + ttl"
    using new_record_expires [of fresh ttl user c caps] assms(2) by simp
  have recs: "i \<in> set (fr_id fresh # sy_issued y) \<and> sr_expires_at r \<le> sy_now y + ttl"
    if "map_of (ss_sessions ?s) i = Some r" for i r
    using map_of_create [OF ok that] new ttl assms(1) by (auto simp: sessions_inv_def)
  have drops: "i \<in> set (fr_id fresh # sy_issued y) \<and> live (sy_now y) ?s i = None" if "i \<in> set (sy_pending y)" for i
    using assms(1) pend that unfolding live_create(1) [OF ok assms(2)] by (auto simp: sessions_inv_def)
  show ?thesis using recs drops live_create(2) [OF ok assms(2)] ttl by (simp add: sessions_inv_def)
qed

lemma session_step_inv:
  assumes "session_step e y y'" and "sessions_inv ttl y"
  shows "sessions_inv ttl y'"
  using assms
proof (cases rule: session_step.cases)
  case tick
  then show ?thesis using assms(2) live_None_later
    by (auto simp: sessions_inv_def) (metis le_add1 plus_1_eq_Suc add.commute le_SucI)+
next
  case (created fresh user c caps)
  then show ?thesis using inv_created [OF assms(2)] by simp
next
  case (read at i)
  then show ?thesis
    using assms(2) get_read_expired [of at i "sy_store y"] live_None_later [of at "sy_store y" i "sy_now y"]
    by (auto simp: sessions_inv_def)
next
  case (dropped i)
  then show ?thesis using assms(2) ss.discard_ok ss.discard_view notin_set_remove1
    by (auto simp: sessions_inv_def map_of_session_remove split: if_splits)
next
  case (signed_out i)
  then show ?thesis using assms(2) ss.discard_ok ss.discard_view
    by (auto simp: sessions_inv_def map_of_session_remove split: if_splits)
qed

lemma sessions_reachable_inv: "sessions_reachable ttl y \<Longrightarrow> sessions_inv ttl y"
proof (induction rule: sessions_reachable.induct)
  case (start now)
  show ?case by (simp add: sessions_inv_def SessionStore_new_def store_ok_def)
next
  case (step y e y')
  then show ?case by (blast intro: session_step_inv)
qed

definition sample_state :: Sessions where
  "sample_state = \<lparr>sy_store = sample_store, sy_now = 10, sy_pending = [], sy_issued = [''a'']\<rparr>"

lemma sample_reachable: "sessions_reachable 60 sample_state"
proof -
  let ?y = "\<lparr>sy_store = SessionStore_new 60, sy_now = 10, sy_pending = [], sy_issued = []\<rparr>"
  let ?fresh = "\<lparr>fr_last_instant = 1000, fr_now = 10, fr_id = ''a'', fr_token = ''t''\<rparr>"
  let ?user = "\<lparr>su_username = ''alice'', su_principal = ''User:alice''\<rparr>"
  have "session_step (Created ?fresh ?user None capabilities_all) ?y
      (?y\<lparr>sy_store := snd (create_record ?fresh ?user None capabilities_all (sy_store ?y)), sy_issued := fr_id ?fresh # sy_issued ?y\<rparr>)"
    by (rule session_step.created) simp_all
  from sessions_reachable.step [OF sessions_reachable.start this]
  show ?thesis by (simp add: sample_state_def sample_store_def create_user_def session_create_def)
qed

text \<open>C37. Under any interleaving of requests: a record expires at most a lifetime from now. A lookup never
  returns a record whose time is over, whatever the store still holds; one that meets such a
  record queues its removal, and the removal takes the record away. A removal that is still queued never
  hits a live session. A new session sweeps the store: after it, the store holds the new record and,
  of the old ones, only those whose time is not over.\<close>

theorem sessions_never_outlive_ttl:
  assumes "sessions_reachable ttl y"
  shows "(\<forall>i r. map_of (ss_sessions (sy_store y)) i = Some r \<longrightarrow> sr_expires_at r \<le> sy_now y + ttl)
    \<and> (\<forall>at i r. fst (get_read at i (sy_store y)) = Some r \<longrightarrow> at < sr_expires_at r)
    \<and> (\<forall>at i r y'. session_step (Read at i) y y' \<and> map_of (ss_sessions (sy_store y)) i = Some r \<and> sr_expires_at r \<le> at \<longrightarrow>
         i \<in> set (sy_pending y'))
    \<and> (\<forall>i y'. session_step (Dropped i) y y' \<longrightarrow> map_of (ss_sessions (sy_store y')) i = None)
    \<and> (\<forall>i \<in> set (sy_pending y). live (sy_now y) (sy_store y) i = None)
    \<and> (\<forall>fresh user c caps y'. session_step (Created fresh user c caps) y y' \<longrightarrow>
         (\<forall>i r. map_of (ss_sessions (sy_store y')) i = Some r \<longrightarrow>
            i = fr_id fresh \<and> r = new_record fresh ttl user c caps
            \<or> map_of (ss_sessions (sy_store y)) i = Some r \<and> fr_now fresh < sr_expires_at r))"
proof -
  have inv: "sessions_inv ttl y" by (rule sessions_reachable_inv [OF assms])
  then have ok: "store_ok (sy_store y)" and ttl: "ss_ttl (sy_store y) = ttl" by (simp_all add: sessions_inv_def)
  have queued: "i \<in> set (sy_pending y')"
    if "session_step (Read at i) y y'" "map_of (ss_sessions (sy_store y)) i = Some r" "sr_expires_at r \<le> at" for at i r y'
    using that(1) by (rule session_stepE) (use that(2,3) get_read_drops [OF that(2)] in auto)
  have gone: "map_of (ss_sessions (sy_store y')) i = None" if "session_step (Dropped i) y y'" for i y'
    using that by (rule session_stepE) (auto simp: map_of_session_remove)
  have swept: "i = fr_id fresh \<and> r = new_record fresh ttl user c caps
      \<or> map_of (ss_sessions (sy_store y)) i = Some r \<and> fr_now fresh < sr_expires_at r"
    if step: "session_step (Created fresh user c caps) y y'" and r: "map_of (ss_sessions (sy_store y')) i = Some r"
    for fresh user c caps y' i r
    using step by (rule session_stepE) (use r map_of_create [OF ok, of fresh user c caps i r] ttl in auto)
  show ?thesis
    using inv queued gone swept get_read_returns unfolding sessions_inv_def by blast
qed

text \<open>The session of alice, which lasts from 10 to 70, when bob signs in at 70.\<close>

definition sample_sweep :: Sessions where
  "sample_sweep =
     (let bob = \<lparr>fr_last_instant = 1000, fr_now = 70, fr_id = ''b'', fr_token = ''u''\<rparr>
      in sample_state\<lparr>sy_now := 70, sy_issued := [''b'', ''a''],
           sy_store := snd (create_user bob ''bob'' ''User:bob'' sample_store)\<rparr>)"

lemma sessions_reachable_later: "sessions_reachable ttl y \<Longrightarrow> sessions_reachable ttl (y\<lparr>sy_now := sy_now y + n\<rparr>)"
proof (induction n)
  case (Suc n)
  from sessions_reachable.step [OF Suc.IH [OF Suc.prems] session_step.tick] show ?case by simp
qed simp

text \<open>An abandoned session holds its record, and the password in it, past its time, as long as nobody asks
  for it and nobody signs in.\<close>

theorem abandoned_session_stays:
  "sessions_reachable 60 (sample_state\<lparr>sy_now := 10 + n\<rparr>)
   \<and> map_of (ss_sessions (sy_store (sample_state\<lparr>sy_now := 10 + n\<rparr>))) ''a'' \<noteq> None"
proof -
  have "map_of (ss_sessions (sy_store sample_state)) ''a'' \<noteq> None" by code_simp
  with sessions_reachable_later [OF sample_reachable, of n] show ?thesis by (simp add: sample_state_def)
qed

theorem sessions_never_outlive_ttl_witness:
  "map_of (ss_sessions sample_store) ''a'' \<noteq> None \<and> map_of (ss_sessions (sy_store sample_sweep)) ''a'' = None
   \<and> map_of (ss_sessions (sy_store sample_sweep)) ''b'' \<noteq> None"
proof -
  let ?y = "sample_state\<lparr>sy_now := 70\<rparr>"
  let ?bob = "\<lparr>fr_last_instant = 1000, fr_now = 70, fr_id = ''b'', fr_token = ''u''\<rparr>"
  let ?user = "\<lparr>su_username = ''bob'', su_principal = ''User:bob''\<rparr>"
  have y: "sessions_reachable 60 ?y"
    using sessions_reachable_later [OF sample_reachable, of 60] by (simp add: sample_state_def)
  have "session_step (Created ?bob ?user None capabilities_all) ?y
      (?y\<lparr>sy_store := snd (create_record ?bob ?user None capabilities_all (sy_store ?y)), sy_issued := fr_id ?bob # sy_issued ?y\<rparr>)"
    by (rule session_step.created) (simp_all add: sample_state_def)
  then have step: "session_step (Created ?bob ?user None capabilities_all) ?y sample_sweep"
    by (simp add: sample_sweep_def sample_state_def create_user_def session_create_def)
  obtain r where a: "map_of (ss_sessions sample_store) ''a'' = Some r" "sr_expires_at r = 70"
    by (simp add: sample_store_def create_user_def session_create_def create_record_def new_record_def
        checked_add_def SessionStore_new_def Let_def)
  have "map_of (ss_sessions (sy_store sample_sweep)) ''a'' = None"
    using sessions_never_outlive_ttl [OF y] step a by (cases "map_of (ss_sessions (sy_store sample_sweep)) ''a''") (fastforce simp: sample_state_def)+
  moreover have "map_of (ss_sessions (sy_store sample_sweep)) ''b'' \<noteq> None" by code_simp
  ultimately show ?thesis using a by simp
qed

text \<open>C38. A live session stays live, with the same record, under any step that does not sign it out, until
  it expires.\<close>

theorem session_stays_live:
  assumes "sessions_reachable ttl y" and "session_step e y y'" and "live (sy_now y) (sy_store y) i = Some r"
    and "e \<noteq> SignedOut i" and "\<not> is_expired r (sy_now y')"
  shows "live (sy_now y') (sy_store y') i = Some r"
proof -
  have inv: "sessions_inv ttl y" using assms(1) by (rule sessions_reachable_inv)
  then have ok: "store_ok (sy_store y)" by (simp add: sessions_inv_def)
  have m: "map_of (ss_sessions (sy_store y)) i = Some r"
    using assms(3) by (auto simp: live_def split: option.splits if_splits)
  from assms(2) show ?thesis
  proof (cases rule: session_step.cases)
    case tick
    then show ?thesis using m assms(5) by (simp add: live_def)
  next
    case (created fresh user c caps)
    have "i \<noteq> fr_id fresh" using m inv created(4) unfolding sessions_inv_def by auto
    then show ?thesis using created(2) live_create(1) [OF ok created(3)] assms(3) by simp
  next
    case (read at j)
    then show ?thesis using assms(3) by simp
  next
    case (dropped j)
    then have "i \<noteq> j" using assms(3) inv by (auto simp: sessions_inv_def)
    then show ?thesis using dropped(2) assms(3) ss.discard_view [OF ok] by simp
  next
    case (signed_out j)
    then show ?thesis using assms(3,4) ss.discard_view [OF ok] by auto
  qed
qed

theorem session_stays_live_witness:
  "live 10 sample_store ''a'' \<noteq> None \<and> live 11 sample_store ''a'' = live 10 sample_store ''a''"
proof -
  obtain r where r: "live 10 sample_store ''a'' = Some r" and fresh: "\<not> is_expired r 11"
    by (simp add: live_def sample_store_def create_user_def session_create_def create_record_def new_record_def
        checked_add_def SessionStore_new_def is_expired_def Let_def)
  have "session_step Tick sample_state (sample_state\<lparr>sy_now := Suc (sy_now sample_state)\<rparr>)" by (rule session_step.tick)
  from session_stays_live [OF sample_reachable this, of "''a''" r] r fresh show ?thesis
    by (simp add: sample_state_def)
qed

end
