(* ===== verification/Ui_Requests.thy ===== *)
theory Ui_Requests
  imports Ui_Permissions Cli_Output
begin

text \<open>
  \<^verbatim>\<open>crates/admin-ui/src/dto.rs\<close>, \<^verbatim>\<open>error.rs\<close>, \<^verbatim>\<open>admin.rs\<close> and the request parsing of \<^verbatim>\<open>server_fns.rs\<close>: the
  requests that the admin UI takes, their checks, the ACL that a request names, and the rows and
  outcomes that it shows.
\<close>

section \<open>Errors\<close>

datatype UiError =
    NotAuthenticated
  | NotPermitted
  | InvalidRequest string
  | SessionExpired
  | BrokerConnection string
  | Broker string int string "string option"
  | Admin string

text \<open>The messages; \<open>debug\<close> is the \<open>Debug\<close> printing of a \<open>str\<close>.\<close>

fun ui_error_text :: "(string \<Rightarrow> string) \<Rightarrow> UiError \<Rightarrow> string" where
  "ui_error_text debug NotAuthenticated = ''not authenticated''"
| "ui_error_text debug NotPermitted = ''not permitted''"
| "ui_error_text debug (InvalidRequest m) = ''invalid request: '' @ m"
| "ui_error_text debug SessionExpired = ''session expired''"
| "ui_error_text debug (BrokerConnection m) = ''broker connection failed: '' @ m"
| "ui_error_text debug (Broker api code name message) =
     ''broker returned error: api='' @ api @ '' code='' @ show_int code @ '' ('' @ name @ '')'' @
     (case message of Some m \<Rightarrow> '' '' @ debug m | None \<Rightarrow> [])"
| "ui_error_text debug (Admin m) = ''admin operation failed: '' @ m"

fun ui_error :: "AdminError \<Rightarrow> UiError" where
  "ui_error (AdminConnect text) = BrokerConnection text"
| "ui_error (AdminBroker api code name message) = Broker api code name message"
| "ui_error (AdminIncompatibleVersion text) = Admin text"
| "ui_error (AdminOther text) = Admin text"

section \<open>Checks of fields\<close>

definition ensure_not_blank :: "string \<Rightarrow> string \<Rightarrow> unit res" where
  "ensure_not_blank label value =
     (if trim value = [] then Inl (label @ '' must not be blank'') else Inr ())"

definition ensure_positive :: "string \<Rightarrow> int \<Rightarrow> unit res" where
  "ensure_positive label value = (if value \<le> 0 then Inl (label @ '' must be positive'') else Inr ())"

definition ensure_nonnegative :: "string \<Rightarrow> int \<Rightarrow> unit res" where
  "ensure_nonnegative label value = (if value < 0 then Inl (label @ '' must be nonnegative'') else Inr ())"

text \<open>An \<open>f64\<close>: a finite value with its mantissa and its exponent of 2, an infinity with its sign, or
  not a number.\<close>

datatype F64 = F64_finite int int | F64_infinite bool | F64_nan

definition ensure_finite :: "string \<Rightarrow> F64 \<Rightarrow> unit res" where
  "ensure_finite label value =
     (case value of F64_finite _ _ \<Rightarrow> Inr () | _ \<Rightarrow> Inl (label @ '' must be finite''))"

fun all_ok :: "('a \<Rightarrow> unit res) \<Rightarrow> 'a list \<Rightarrow> unit res" where
  "all_ok f [] = Inr ()"
| "all_ok f (x # xs) = res_bind (f x) (\<lambda>_. all_ok f xs)"

section \<open>Requests\<close>

record ConfigEntryDto =
  ce_name :: string
  ce_value :: string

definition ConfigEntryDto_validate :: "ConfigEntryDto \<Rightarrow> unit res" where
  "ConfigEntryDto_validate self = ensure_not_blank ''config name'' (ce_name self)"

text \<open>\<open>name=value,name=value\<close>.\<close>

definition config_entry_from_form :: "string \<Rightarrow> ConfigEntryDto res" where
  "config_entry_from_form entry =
     (case split_once CHR ''='' entry of
        None \<Rightarrow> Inl (''config entry \"'' @ entry @ ''\" must read name=value'')
      | Some (name, value) \<Rightarrow> Inr \<lparr>ce_name = trim name, ce_value = trim value\<rparr>)"

definition config_entries_from_form :: "string \<Rightarrow> ConfigEntryDto list res" where
  "config_entries_from_form value =
     collect_res config_entry_from_form (filter (\<lambda>entry. entry \<noteq> []) (map trim (split_on CHR '','' value)))"

record CreateTopicRequestDto =
  ct_name :: string
  ct_partitions :: int
  ct_replicas :: int
  ct_configs :: "ConfigEntryDto list"

definition CreateTopicRequestDto_validate :: "CreateTopicRequestDto \<Rightarrow> unit res" where
  "CreateTopicRequestDto_validate self =
     res_bind (ensure_not_blank ''topic name'' (ct_name self)) (\<lambda>_.
     res_bind (ensure_positive ''partition count'' (ct_partitions self)) (\<lambda>_.
     res_bind (ensure_positive ''replica count'' (ct_replicas self)) (\<lambda>_.
     all_ok ConfigEntryDto_validate (ct_configs self))))"

record DeleteTopicRequestDto =
  dt_name :: string

definition DeleteTopicRequestDto_validate :: "DeleteTopicRequestDto \<Rightarrow> unit res" where
  "DeleteTopicRequestDto_validate self = ensure_not_blank ''topic name'' (dt_name self)"

record CreatePartitionsRequestDto =
  cp_topic :: string
  cp_total_count :: int

definition CreatePartitionsRequestDto_validate :: "CreatePartitionsRequestDto \<Rightarrow> unit res" where
  "CreatePartitionsRequestDto_validate self =
     res_bind (ensure_not_blank ''topic name'' (cp_topic self)) (\<lambda>_.
     ensure_positive ''partition count'' (cp_total_count self))"

record AlterConfigRequestDto =
  ac_resource_type :: string
  ac_resource_name :: string
  ac_configs :: "ConfigEntryDto list"

definition AlterConfigRequestDto_validate :: "AlterConfigRequestDto \<Rightarrow> unit res" where
  "AlterConfigRequestDto_validate self =
     res_bind (ensure_not_blank ''config resource type'' (ac_resource_type self)) (\<lambda>_.
     res_bind (ensure_not_blank ''config resource name'' (ac_resource_name self)) (\<lambda>_.
     all_ok ConfigEntryDto_validate (ac_configs self)))"

record AclRequestDto =
  ar_resource_type :: string
  ar_resource_name :: string
  ar_pattern_type :: string
  ar_principal :: string
  ar_operation :: string
  ar_permission :: string
  ar_host :: string

definition AclRequestDto_validate :: "AclRequestDto \<Rightarrow> unit res" where
  "AclRequestDto_validate self =
     res_bind (ensure_not_blank ''ACL resource type'' (ar_resource_type self)) (\<lambda>_.
     res_bind (ensure_not_blank ''ACL resource name'' (ar_resource_name self)) (\<lambda>_.
     res_bind (ensure_not_blank ''ACL pattern type'' (ar_pattern_type self)) (\<lambda>_.
     res_bind (ensure_not_blank ''ACL principal'' (ar_principal self)) (\<lambda>_.
     res_bind (ensure_not_blank ''ACL operation'' (ar_operation self)) (\<lambda>_.
     res_bind (ensure_not_blank ''ACL permission'' (ar_permission self)) (\<lambda>_.
     ensure_not_blank ''ACL host'' (ar_host self)))))))"

record ScramUserUpsertDto =
  us_username :: string
  us_password :: string
  us_iterations :: int

definition ScramUserUpsertDto_validate :: "ScramUserUpsertDto \<Rightarrow> unit res" where
  "ScramUserUpsertDto_validate self =
     res_bind (ensure_not_blank ''SCRAM username'' (us_username self)) (\<lambda>_.
     res_bind (ensure_not_blank ''SCRAM password'' (us_password self)) (\<lambda>_.
     ensure_positive ''SCRAM iterations'' (us_iterations self)))"

record ScramUserDeleteDto =
  ds_username :: string

definition ScramUserDeleteDto_validate :: "ScramUserDeleteDto \<Rightarrow> unit res" where
  "ScramUserDeleteDto_validate self = ensure_not_blank ''SCRAM username'' (ds_username self)"

record QuotaUpsertDto =
  qu_entity :: string
  qu_quota_type :: string
  qu_value :: F64

definition QuotaUpsertDto_validate :: "QuotaUpsertDto \<Rightarrow> unit res" where
  "QuotaUpsertDto_validate self =
     res_bind (ensure_not_blank ''quota entity'' (qu_entity self)) (\<lambda>_.
     res_bind (ensure_not_blank ''quota type'' (qu_quota_type self)) (\<lambda>_.
     ensure_finite ''quota value'' (qu_value self)))"

record QuotaDeleteDto =
  qd_entity :: string
  qd_quota_type :: string

definition QuotaDeleteDto_validate :: "QuotaDeleteDto \<Rightarrow> unit res" where
  "QuotaDeleteDto_validate self =
     res_bind (ensure_not_blank ''quota entity'' (qd_entity self)) (\<lambda>_.
     ensure_not_blank ''quota type'' (qd_quota_type self))"

record LogDirMoveRequestDto =
  lm_topic :: string
  lm_partition :: int
  lm_broker_id :: int
  lm_destination_log_dir :: string

definition LogDirMoveRequestDto_validate :: "LogDirMoveRequestDto \<Rightarrow> unit res" where
  "LogDirMoveRequestDto_validate self =
     res_bind (ensure_not_blank ''log-dir move topic'' (lm_topic self)) (\<lambda>_.
     res_bind (ensure_nonnegative ''log-dir move partition'' (lm_partition self)) (\<lambda>_.
     res_bind (ensure_nonnegative ''log-dir move broker id'' (lm_broker_id self)) (\<lambda>_.
     ensure_not_blank ''destination log dir'' (lm_destination_log_dir self))))"

section \<open>Forms\<close>

record CreateTopicFormDto =
  cf_name :: string
  cf_partitions :: int
  cf_replicas :: int
  cf_configs :: string

definition CreateTopicFormDto_into_request :: "CreateTopicFormDto \<Rightarrow> CreateTopicRequestDto res" where
  "CreateTopicFormDto_into_request self =
     res_bind (config_entries_from_form (cf_configs self)) (\<lambda>configs.
     Inr \<lparr>ct_name = cf_name self, ct_partitions = cf_partitions self, ct_replicas = cf_replicas self, ct_configs = configs\<rparr>)"

record AlterConfigFormDto =
  af_resource_type :: string
  af_resource_name :: string
  af_configs :: string

definition AlterConfigFormDto_into_request :: "AlterConfigFormDto \<Rightarrow> AlterConfigRequestDto res" where
  "AlterConfigFormDto_into_request self =
     res_bind (config_entries_from_form (af_configs self)) (\<lambda>configs.
     Inr \<lparr>ac_resource_type = af_resource_type self, ac_resource_name = af_resource_name self, ac_configs = configs\<rparr>)"

section \<open>The ACL of a request\<close>

definition lower :: "string \<Rightarrow> string" where
  "lower value = map ascii_lower value"

definition parse_pattern_type :: "string \<Rightarrow> UiError + PatternType" where
  "parse_pattern_type value =
     (let v = lower value
      in if v = ''literal'' then Inr Literal
         else if v = ''prefixed'' then Inr Prefixed
         else Inl (InvalidRequest (''unsupported ACL pattern type '' @ value)))"

definition parse_resource_type :: "string \<Rightarrow> UiError + ResourceType" where
  "parse_resource_type value =
     (let v = lower value
      in if v = ''topic'' then Inr Rt_Topic
         else if v = ''group'' then Inr Rt_Group
         else if v = ''cluster'' then Inr Rt_Cluster
         else if v \<in> {''transactionalid'', ''transactional_id'', ''transactional-id''} then Inr Rt_TransactionalId
         else Inl (InvalidRequest (''unsupported ACL resource type '' @ value)))"

definition parse_acl_operation :: "string \<Rightarrow> UiError + AclOperation" where
  "parse_acl_operation value =
     (let v = lower value
      in if v = ''all'' then Inr Op_All
         else if v = ''read'' then Inr Op_Read
         else if v = ''write'' then Inr Op_Write
         else if v = ''create'' then Inr Op_Create
         else if v = ''delete'' then Inr Op_Delete
         else if v = ''alter'' then Inr Op_Alter
         else if v = ''describe'' then Inr Op_Describe
         else if v \<in> {''clusteraction'', ''cluster_action'', ''cluster-action''} then Inr Op_ClusterAction
         else if v \<in> {''describeconfigs'', ''describe_configs'', ''describe-configs''} then Inr Op_DescribeConfigs
         else if v \<in> {''alterconfigs'', ''alter_configs'', ''alter-configs''} then Inr Op_AlterConfigs
         else if v \<in> {''idempotentwrite'', ''idempotent_write'', ''idempotent-write''} then Inr Op_IdempotentWrite
         else if v \<in> {''twophasecommit'', ''two_phase_commit'', ''two-phase-commit''} then Inr Op_TwoPhaseCommit
         else Inl (InvalidRequest (''unsupported ACL operation '' @ value)))"

definition parse_permission_type :: "string \<Rightarrow> UiError + PermissionType" where
  "parse_permission_type value =
     (let v = lower value
      in if v = ''allow'' then Inr Allow
         else if v = ''deny'' then Inr Deny
         else Inl (InvalidRequest (''unsupported ACL permission '' @ value)))"

definition acl_entry_from_request :: "AclRequestDto \<Rightarrow> UiError + AclEntry" where
  "acl_entry_from_request request =
     res_bind (parse_resource_type (ar_resource_type request)) (\<lambda>resource_type.
     res_bind (parse_pattern_type (ar_pattern_type request)) (\<lambda>pattern_type.
     res_bind (parse_acl_operation (ar_operation request)) (\<lambda>operation.
     res_bind (parse_permission_type (ar_permission request)) (\<lambda>permission_type.
     Inr \<lparr>ae_resource_type = resource_type, ae_resource_name = ar_resource_name request, ae_pattern_type = pattern_type,
          ae_principal = ar_principal request, ae_host = ar_host request, ae_operation = operation,
          ae_permission_type = permission_type\<rparr>))))"

definition acl_filter_from_request :: "AclRequestDto \<Rightarrow> UiError + AclEntryFilter" where
  "acl_filter_from_request request =
     res_bind (parse_resource_type (ar_resource_type request)) (\<lambda>resource_type.
     res_bind (parse_pattern_type (ar_pattern_type request)) (\<lambda>pattern_type.
     res_bind (parse_acl_operation (ar_operation request)) (\<lambda>operation.
     res_bind (parse_permission_type (ar_permission request)) (\<lambda>permission_type.
     Inr \<lparr>fl_resource_type = Some resource_type, fl_resource_name = Some (ar_resource_name request),
          fl_pattern_type = Some pattern_type, fl_principal = Some (ar_principal request), fl_host = Some (ar_host request),
          fl_operation = Some operation, fl_permission_type = Some permission_type\<rparr>))))"

section \<open>Outcomes and rows\<close>

record KafkaErrorDto =
  kd_code :: int
  kd_name :: string
  kd_message :: "string option"

definition error_dto :: "KafkaError \<Rightarrow> KafkaErrorDto" where
  "error_dto error = \<lparr>kd_code = ke_code error, kd_name = ke_name error, kd_message = ke_message error\<rparr>"

record ResourceOutcome =
  ro_resource :: string
  ro_error :: "KafkaErrorDto option"

definition has_error :: "ResourceOutcome \<Rightarrow> bool" where
  "has_error self \<longleftrightarrow> ro_error self \<noteq> None"

definition kafka_error_outcome :: "string \<Rightarrow> KafkaError option \<Rightarrow> ResourceOutcome" where
  "kafka_error_outcome resource error = \<lparr>ro_resource = resource, ro_error = map_option error_dto error\<rparr>"

text \<open>The outcomes of the client's calls, each with its own rule for the name of the resource.\<close>

datatype Outcomes =
    NamedOutcomes "(string \<times> KafkaError option) list"
  | AclOutcomes "KafkaError option list"
  | FilterOutcomes "KafkaError option list"
  | ReplicaOutcomes "((string \<times> int) \<times> KafkaError option) list"

fun resource_outcome_rows :: "Outcomes \<Rightarrow> ResourceOutcome list" where
  "resource_outcome_rows (NamedOutcomes os) = map (\<lambda>(name, error). kafka_error_outcome name error) os"
| "resource_outcome_rows (AclOutcomes os) = map (kafka_error_outcome ''acl'') os"
| "resource_outcome_rows (FilterOutcomes os) = map (kafka_error_outcome ''acl-filter'') os"
| "resource_outcome_rows (ReplicaOutcomes os) =
     map (\<lambda>((topic, p), error). kafka_error_outcome (topic @ ''-'' @ show_int p) error) os"

definition quota_mutation_outcome :: "string \<Rightarrow> string \<Rightarrow> KafkaError option \<Rightarrow> ResourceOutcome" where
  "quota_mutation_outcome username quota_type error = kafka_error_outcome (username @ '':'' @ quota_type) error"

text \<open>The names that \<open>Debug\<close> prints for an ACL.\<close>

fun debug_resource_type :: "ResourceType \<Rightarrow> string" where
  "debug_resource_type Rt_Topic = ''Topic''"
| "debug_resource_type Rt_Group = ''Group''"
| "debug_resource_type Rt_Cluster = ''Cluster''"
| "debug_resource_type Rt_TransactionalId = ''TransactionalId''"
| "debug_resource_type Rt_DelegationToken = ''DelegationToken''"
| "debug_resource_type Rt_User = ''User''"

fun debug_operation :: "AclOperation \<Rightarrow> string" where
  "debug_operation Op_All = ''All''"
| "debug_operation Op_Read = ''Read''"
| "debug_operation Op_Write = ''Write''"
| "debug_operation Op_Create = ''Create''"
| "debug_operation Op_Delete = ''Delete''"
| "debug_operation Op_Alter = ''Alter''"
| "debug_operation Op_Describe = ''Describe''"
| "debug_operation Op_ClusterAction = ''ClusterAction''"
| "debug_operation Op_DescribeConfigs = ''DescribeConfigs''"
| "debug_operation Op_AlterConfigs = ''AlterConfigs''"
| "debug_operation Op_IdempotentWrite = ''IdempotentWrite''"
| "debug_operation Op_CreateTokens = ''CreateTokens''"
| "debug_operation Op_DescribeTokens = ''DescribeTokens''"
| "debug_operation Op_TwoPhaseCommit = ''TwoPhaseCommit''"

fun debug_pattern_type :: "PatternType \<Rightarrow> string" where
  "debug_pattern_type Literal = ''Literal''"
| "debug_pattern_type Prefixed = ''Prefixed''"
| "debug_pattern_type Match_Pattern = ''Match''"

fun debug_permission :: "PermissionType \<Rightarrow> string" where
  "debug_permission Allow = ''Allow''"
| "debug_permission Deny = ''Deny''"

record AclRow =
  aw_resource :: string
  aw_pattern_type :: string
  aw_principal :: string
  aw_host :: string
  aw_operation :: string
  aw_permission :: string

definition acl_row :: "AclEntry \<Rightarrow> AclRow" where
  "acl_row acl =
     \<lparr>aw_resource = debug_resource_type (ae_resource_type acl) @ '':'' @ ae_resource_name acl,
      aw_pattern_type = debug_pattern_type (ae_pattern_type acl), aw_principal = ae_principal acl, aw_host = ae_host acl,
      aw_operation = debug_operation (ae_operation acl), aw_permission = debug_permission (ae_permission_type acl)\<rparr>"

definition acl_rows :: "AclEntry list \<Rightarrow> AclRow list" where
  "acl_rows acls = map acl_row acls"

section \<open>Properties\<close>

text \<open>The request that repeats a row of the ACL page, with the resource split at its first colon.\<close>

definition request_of_row :: "AclRow \<Rightarrow> AclRequestDto option" where
  "request_of_row row =
     map_option (\<lambda>(resource_type, resource_name).
       \<lparr>ar_resource_type = resource_type, ar_resource_name = resource_name, ar_pattern_type = aw_pattern_type row,
        ar_principal = aw_principal row, ar_operation = aw_operation row, ar_permission = aw_permission row,
        ar_host = aw_host row\<rparr>) (split_once CHR '':'' (aw_resource row))"

lemma parse_debug_resource_type:
  "parse_resource_type (debug_resource_type t) =
     (if t \<in> {Rt_DelegationToken, Rt_User}
      then Inl (InvalidRequest (''unsupported ACL resource type '' @ debug_resource_type t)) else Inr t)"
  by (cases t; hypsubst; code_simp)

lemma parse_debug_pattern_type:
  "parse_pattern_type (debug_pattern_type q) =
     (if q = Match_Pattern
      then Inl (InvalidRequest (''unsupported ACL pattern type '' @ debug_pattern_type q)) else Inr q)"
  by (cases q; hypsubst; code_simp)

lemma parse_debug_operation:
  "parse_acl_operation (debug_operation a) =
     (if a \<in> {Op_CreateTokens, Op_DescribeTokens}
      then Inl (InvalidRequest (''unsupported ACL operation '' @ debug_operation a)) else Inr a)"
  by (cases a; hypsubst; code_simp)

lemma parse_debug_permission: "parse_permission_type (debug_permission a) = Inr a"
  by (cases a; hypsubst; code_simp)

lemmas parse_debug =
  parse_debug_resource_type parse_debug_pattern_type parse_debug_operation parse_debug_permission

lemma split_once_resource:
  "split_once CHR '':'' (debug_resource_type t @ CHR '':'' # name) = Some (debug_resource_type t, name)"
  by (cases t) simp_all

text \<open>A row of the ACL page read back as a request names the ACL of the row, for every ACL that the parser
  knows the names of; the rows of delegation tokens, of users and of the token operations are
  refused.\<close>

theorem acl_row_roundtrip:
  "(case Option.bind (request_of_row (acl_row acl)) (\<lambda>request. Some (acl_entry_from_request request)) of
      None \<Rightarrow> False
    | Some (Inr entry) \<Rightarrow> entry = acl
        \<and> ae_resource_type acl \<notin> {Rt_DelegationToken, Rt_User} \<and> ae_operation acl \<notin> {Op_CreateTokens, Op_DescribeTokens}
        \<and> ae_pattern_type acl \<in> {Literal, Prefixed}
    | Some (Inl _) \<Rightarrow> ae_resource_type acl \<in> {Rt_DelegationToken, Rt_User}
        \<or> ae_operation acl \<in> {Op_CreateTokens, Op_DescribeTokens} \<or> ae_pattern_type acl = Match_Pattern)"
proof -
  have "ae_pattern_type acl \<in> {Literal, Prefixed, Match_Pattern}" by (cases "ae_pattern_type acl") simp_all
  then show ?thesis
    by (simp add: request_of_row_def acl_row_def split_once_resource acl_entry_from_request_def parse_debug) blast
qed

text \<open>A request to delete an ACL is refused exactly when the request to create it is, with the same error,
  and its filter matches that one ACL and no other.\<close>

theorem acl_delete_exact:
  "case acl_entry_from_request request of
     Inl e \<Rightarrow> acl_filter_from_request request = Inl e
   | Inr entry \<Rightarrow> (\<exists>f. acl_filter_from_request request = Inr f \<and> (\<forall>other. filter_matches f other \<longleftrightarrow> other = entry))"
proof (cases "acl_entry_from_request request")
  case (Inl e)
  then show ?thesis by (auto simp: acl_entry_from_request_def acl_filter_from_request_def res_bind_Inl_iff)
next
  case (Inr entry)
  then obtain t q a m where p: "parse_resource_type (ar_resource_type request) = Inr t"
      "parse_pattern_type (ar_pattern_type request) = Inr q" "parse_acl_operation (ar_operation request) = Inr a"
      "parse_permission_type (ar_permission request) = Inr m"
    by (auto simp: acl_entry_from_request_def res_bind_Inr_iff)
  with Inr have "entry = \<lparr>ae_resource_type = t, ae_resource_name = ar_resource_name request, ae_pattern_type = q,
      ae_principal = ar_principal request, ae_host = ar_host request, ae_operation = a, ae_permission_type = m\<rparr>"
    by (simp add: acl_entry_from_request_def)
  with Inr p show ?thesis by (auto simp: acl_filter_from_request_def filter_matches_def)
qed

lemma ensure_ok [res_simps]:
  "ensure_not_blank label v = Inr () \<longleftrightarrow> trim v \<noteq> []"
  "ensure_positive label n = Inr () \<longleftrightarrow> 0 < n"
  "ensure_nonnegative label n = Inr () \<longleftrightarrow> 0 \<le> n"
  "ensure_finite label x = Inr () \<longleftrightarrow> (\<exists>m e. x = F64_finite m e)"
  by (auto simp: ensure_not_blank_def ensure_positive_def ensure_nonnegative_def ensure_finite_def split: F64.splits)

lemma all_ok_iff [res_simps]: "all_ok f xs = Inr () \<longleftrightarrow> list_all (\<lambda>x. f x = Inr ()) xs"
  by (induction xs) (auto simp: res_bind_Inr_iff)

end
