(* ===== verification/Ui_Server.thy ===== *)
theory Ui_Server
  imports Ui_Sessions Ui_Requests
begin

text \<open>
  \<^verbatim>\<open>crates/admin-ui/src/server_fns.rs\<close> and the requests of \<^verbatim>\<open>server.rs\<close> and \<^verbatim>\<open>auth.rs\<close> that change something: the
  session behind a cookie, the checks before a mutation, the call of the broker that it makes,
  signing in and signing out. The broker, the decoders of JSON and of forms, UUIDs and the clock
  are arguments.
\<close>

section \<open>Mutations\<close>

datatype Mutation =
    CreateTopic CreateTopicRequestDto
  | DeleteTopic DeleteTopicRequestDto
  | CreatePartitions CreatePartitionsRequestDto
  | AlterConfigs AlterConfigRequestDto
  | CreateAcl AclRequestDto
  | DeleteAcl AclRequestDto
  | UpsertScram ScramUserUpsertDto
  | DeleteScram ScramUserDeleteDto
  | UpsertQuota QuotaUpsertDto
  | DeleteQuota QuotaDeleteDto
  | MoveLogDir LogDirMoveRequestDto

datatype MutationKind =
    K_CreateTopic | K_DeleteTopic | K_CreatePartitions | K_AlterConfigs | K_CreateAcl | K_DeleteAcl
  | K_UpsertScram | K_DeleteScram | K_UpsertQuota | K_DeleteQuota | K_MoveLogDir

fun mutation_kind :: "Mutation \<Rightarrow> MutationKind" where
  "mutation_kind (CreateTopic _) = K_CreateTopic"
| "mutation_kind (DeleteTopic _) = K_DeleteTopic"
| "mutation_kind (CreatePartitions _) = K_CreatePartitions"
| "mutation_kind (AlterConfigs _) = K_AlterConfigs"
| "mutation_kind (CreateAcl _) = K_CreateAcl"
| "mutation_kind (DeleteAcl _) = K_DeleteAcl"
| "mutation_kind (UpsertScram _) = K_UpsertScram"
| "mutation_kind (DeleteScram _) = K_DeleteScram"
| "mutation_kind (UpsertQuota _) = K_UpsertQuota"
| "mutation_kind (DeleteQuota _) = K_DeleteQuota"
| "mutation_kind (MoveLogDir _) = K_MoveLogDir"

fun mutation_validate :: "Mutation \<Rightarrow> unit res" where
  "mutation_validate (CreateTopic request) = CreateTopicRequestDto_validate request"
| "mutation_validate (DeleteTopic request) = DeleteTopicRequestDto_validate request"
| "mutation_validate (CreatePartitions request) = CreatePartitionsRequestDto_validate request"
| "mutation_validate (AlterConfigs request) = AlterConfigRequestDto_validate request"
| "mutation_validate (CreateAcl request) = AclRequestDto_validate request"
| "mutation_validate (DeleteAcl request) = AclRequestDto_validate request"
| "mutation_validate (UpsertScram request) = ScramUserUpsertDto_validate request"
| "mutation_validate (DeleteScram request) = ScramUserDeleteDto_validate request"
| "mutation_validate (UpsertQuota request) = QuotaUpsertDto_validate request"
| "mutation_validate (DeleteQuota request) = QuotaDeleteDto_validate request"
| "mutation_validate (MoveLogDir request) = LogDirMoveRequestDto_validate request"

text \<open>The route and the capability of each mutation, as the router and the handlers name them.\<close>

fun mutation_path :: "MutationKind \<Rightarrow> string" where
  "mutation_path K_CreateTopic = ''/topics/create''"
| "mutation_path K_DeleteTopic = ''/topics/delete''"
| "mutation_path K_CreatePartitions = ''/topics/partitions''"
| "mutation_path K_AlterConfigs = ''/topics/configs''"
| "mutation_path K_CreateAcl = ''/acls/create''"
| "mutation_path K_DeleteAcl = ''/acls/delete''"
| "mutation_path K_UpsertScram = ''/users/scram/upsert''"
| "mutation_path K_DeleteScram = ''/users/scram/delete''"
| "mutation_path K_UpsertQuota = ''/quotas/upsert''"
| "mutation_path K_DeleteQuota = ''/quotas/delete''"
| "mutation_path K_MoveLogDir = ''/log-dirs/move''"

fun required_capability :: "MutationKind \<Rightarrow> Capabilities \<Rightarrow> bool" where
  "required_capability K_CreateTopic = can_create_topics"
| "required_capability K_DeleteTopic = can_delete_topics"
| "required_capability K_CreatePartitions = can_alter_topics"
| "required_capability K_AlterConfigs = can_alter_topics"
| "required_capability K_CreateAcl = can_alter_acls"
| "required_capability K_DeleteAcl = can_alter_acls"
| "required_capability K_UpsertScram = can_alter_users"
| "required_capability K_DeleteScram = can_alter_users"
| "required_capability K_UpsertQuota = can_alter_quotas"
| "required_capability K_DeleteQuota = can_alter_quotas"
| "required_capability K_MoveLogDir = can_alter_log_dirs"

definition any_capability :: "Capabilities \<Rightarrow> bool" where
  "any_capability _ = True"

section \<open>The broker\<close>

text \<open>The calls of the client that change something; the timeout of the configuration that they carry is part of
  the broker argument, as are the bootstrap addresses.\<close>

datatype BrokerCall =
    Call_CreateTopics string int int "(string, string) btmap"
  | Call_DeleteTopics string
  | Call_CreatePartitions string int
  | Call_AlterTopicConfigs string "(string \<times> string) list"
  | Call_CreateAcls AclEntry
  | Call_DeleteAcls AclEntryFilter
  | Call_UpsertScram string string int
  | Call_DeleteScram string

datatype QuotaOp = QuotaSet string F64 | QuotaRemove string

record 'c Broker =
  br_connect :: "string \<Rightarrow> string \<Rightarrow> 'c \<Rightarrow> (AdminError + unit) \<times> 'c"
  br_call :: "BrokerCall \<Rightarrow> 'c \<Rightarrow> (AdminError + Outcomes) \<times> 'c"
  br_quota :: "string \<Rightarrow> QuotaOp \<Rightarrow> 'c \<Rightarrow> (AdminError + KafkaError option) \<times> 'c"
  br_move_replica :: "string \<Rightarrow> int \<Rightarrow> int \<Rightarrow> string \<Rightarrow> 'c \<Rightarrow> ((string \<times> int) \<times> KafkaError option) list \<times> 'c"

record Seam =
  sm_username :: string
  sm_password :: string

definition seam_from_session :: "SessionRecord \<Rightarrow> UiError + Seam" where
  "seam_from_session record =
     (case sr_credentials record of
        None \<Rightarrow> Inl NotAuthenticated
      | Some credentials \<Rightarrow> Inr \<lparr>sm_username = su_username (sr_user record), sm_password = sc_password credentials\<rparr>)"

text \<open>\<open>facade()\<close>, then the call, which may still fail to be named.\<close>

definition facade_call ::
    "'c Broker \<Rightarrow> Seam \<Rightarrow> UiError + BrokerCall \<Rightarrow> 'c \<Rightarrow> (UiError + ResourceOutcome list) \<times> 'c" where
  "facade_call broker seam call st =
     (case br_connect broker (sm_username seam) (sm_password seam) st of
        (Inl e, st) \<Rightarrow> (Inl (ui_error e), st)
      | (Inr _, st) \<Rightarrow>
          (case call of
             Inl e \<Rightarrow> (Inl e, st)
           | Inr c \<Rightarrow>
               (case br_call broker c st of
                  (Inl e, st) \<Rightarrow> (Inl (ui_error e), st)
                | (Inr outcomes, st) \<Rightarrow> (Inr (resource_outcome_rows outcomes), st))))"

definition facade_quota ::
    "'c Broker \<Rightarrow> Seam \<Rightarrow> string \<Rightarrow> string \<Rightarrow> QuotaOp \<Rightarrow> 'c \<Rightarrow> (UiError + ResourceOutcome list) \<times> 'c" where
  "facade_quota broker seam entity quota_type qop st =
     (case br_connect broker (sm_username seam) (sm_password seam) st of
        (Inl e, st) \<Rightarrow> (Inl (ui_error e), st)
      | (Inr _, st) \<Rightarrow>
          (case br_quota broker entity qop st of
             (Inl e, st) \<Rightarrow> (Inl (ui_error e), st)
           | (Inr error, st) \<Rightarrow> (Inr [quota_mutation_outcome entity quota_type error], st)))"

definition ensure_topic_config_resource :: "string \<Rightarrow> string \<Rightarrow> UiError + unit" where
  "ensure_topic_config_resource resource_type resource_name =
     (if lower resource_type = ''topic'' then Inr ()
      else Inl (InvalidRequest (''alter configs only supports topic resources through krabka-client-admin; '' @
             resource_type @ '':'' @ resource_name @ '' is unsupported'')))"

text \<open>\<open>alter_replica_log_dirs\<close> reports per replica and cannot fail as a whole.\<close>

definition facade_move :: "'c Broker \<Rightarrow> Seam \<Rightarrow> LogDirMoveRequestDto \<Rightarrow> 'c \<Rightarrow> (UiError + ResourceOutcome list) \<times> 'c" where
  "facade_move broker seam r st =
     (case br_connect broker (sm_username seam) (sm_password seam) st of
        (Inl e, st) \<Rightarrow> (Inl (ui_error e), st)
      | (Inr _, st) \<Rightarrow>
          (case br_move_replica broker (lm_topic r) (lm_partition r) (lm_broker_id r) (lm_destination_log_dir r) st of
             (outcomes, st) \<Rightarrow> (Inr (resource_outcome_rows (ReplicaOutcomes outcomes)), st)))"

definition seam_create_topic where
  "seam_create_topic broker seam r =
     facade_call broker seam (Inr (Call_CreateTopics (ct_name r) (ct_partitions r) (ct_replicas r)
       (bt_of_list (map (\<lambda>c. (ce_name c, ce_value c)) (ct_configs r)))))"

definition seam_delete_topic where
  "seam_delete_topic broker seam r = facade_call broker seam (Inr (Call_DeleteTopics (dt_name r)))"

definition seam_create_partitions where
  "seam_create_partitions broker seam r =
     facade_call broker seam (Inr (Call_CreatePartitions (cp_topic r) (cp_total_count r)))"

definition seam_alter_configs where
  "seam_alter_configs broker seam r st =
     (case ensure_topic_config_resource (ac_resource_type r) (ac_resource_name r) of
        Inl e \<Rightarrow> (Inl e, st)
      | Inr _ \<Rightarrow> facade_call broker seam (Inr (Call_AlterTopicConfigs (ac_resource_name r)
          (map (\<lambda>c. (ce_name c, ce_value c)) (ac_configs r)))) st)"

definition seam_create_acl where
  "seam_create_acl broker seam r = facade_call broker seam (map_sum id Call_CreateAcls (acl_entry_from_request r))"

definition seam_delete_acl where
  "seam_delete_acl broker seam r = facade_call broker seam (map_sum id Call_DeleteAcls (acl_filter_from_request r))"

definition seam_upsert_scram where
  "seam_upsert_scram broker seam r =
     facade_call broker seam (Inr (Call_UpsertScram (us_username r) (us_password r) (us_iterations r)))"

definition seam_delete_scram where
  "seam_delete_scram broker seam r = facade_call broker seam (Inr (Call_DeleteScram (ds_username r)))"

definition seam_upsert_quota where
  "seam_upsert_quota broker seam r =
     facade_quota broker seam (qu_entity r) (qu_quota_type r) (QuotaSet (qu_quota_type r) (qu_value r))"

definition seam_delete_quota where
  "seam_delete_quota broker seam r =
     facade_quota broker seam (qd_entity r) (qd_quota_type r) (QuotaRemove (qd_quota_type r))"

text \<open>The method of the mutation seam for each request.\<close>

fun seam_mutate :: "'c Broker \<Rightarrow> Seam \<Rightarrow> Mutation \<Rightarrow> 'c \<Rightarrow> (UiError + ResourceOutcome list) \<times> 'c" where
  "seam_mutate broker seam (CreateTopic r) = seam_create_topic broker seam r"
| "seam_mutate broker seam (DeleteTopic r) = seam_delete_topic broker seam r"
| "seam_mutate broker seam (CreatePartitions r) = seam_create_partitions broker seam r"
| "seam_mutate broker seam (AlterConfigs r) = seam_alter_configs broker seam r"
| "seam_mutate broker seam (CreateAcl r) = seam_create_acl broker seam r"
| "seam_mutate broker seam (DeleteAcl r) = seam_delete_acl broker seam r"
| "seam_mutate broker seam (UpsertScram r) = seam_upsert_scram broker seam r"
| "seam_mutate broker seam (DeleteScram r) = seam_delete_scram broker seam r"
| "seam_mutate broker seam (UpsertQuota r) = seam_upsert_quota broker seam r"
| "seam_mutate broker seam (DeleteQuota r) = seam_delete_quota broker seam r"
| "seam_mutate broker seam (MoveLogDir r) = facade_move broker seam r"

section \<open>Sessions of requests\<close>

text \<open>\<open>parse_uuid\<close> is \<open>Uuid::parse_str\<close> followed by printing.\<close>

type_synonym uuid_parser = "string \<Rightarrow> SessionId option"

definition require_session ::
    "uuid_parser \<Rightarrow> Instant \<Rightarrow> string option \<Rightarrow> SessionStore \<Rightarrow> (UiError + SessionRecord) \<times> SessionStore" where
  "require_session parse_uuid now raw_session_id sessions =
     (case raw_session_id of
        None \<Rightarrow> (Inl NotAuthenticated, sessions)
      | Some raw \<Rightarrow>
          (case parse_uuid raw of
             None \<Rightarrow> (Inl NotAuthenticated, sessions)
           | Some session_id \<Rightarrow>
               (case session_get now session_id sessions of
                  (record, sessions) \<Rightarrow> (ok_or NotAuthenticated record, sessions))))"

definition require_session_id ::
    "uuid_parser \<Rightarrow> Instant \<Rightarrow> string option \<Rightarrow> SessionStore \<Rightarrow> (UiError + SessionId) \<times> SessionStore" where
  "require_session_id parse_uuid now raw_session_id sessions =
     (case raw_session_id of
        None \<Rightarrow> (Inl NotAuthenticated, sessions)
      | Some raw \<Rightarrow>
          (case parse_uuid raw of
             None \<Rightarrow> (Inl NotAuthenticated, sessions)
           | Some session_id \<Rightarrow>
               (case session_get now session_id sessions of
                  (record, sessions) \<Rightarrow> (if record = None then Inl NotAuthenticated else Inr session_id, sessions))))"

definition logout_with_context ::
    "uuid_parser \<Rightarrow> Instant \<Rightarrow> string option \<Rightarrow> SessionStore \<Rightarrow> (UiError + unit) \<times> SessionStore" where
  "logout_with_context parse_uuid now raw_session_id sessions =
     (case require_session_id parse_uuid now raw_session_id sessions of
        (Inl e, sessions) \<Rightarrow> (Inl e, sessions)
      | (Inr session_id, sessions) \<Rightarrow> (Inr (), snd (session_remove session_id sessions)))"

definition ensure_valid_request :: "unit res \<Rightarrow> UiError + unit" where
  "ensure_valid_request validation = map_sum InvalidRequest id validation"

definition mutation_seam_after_valid_request ::
    "uuid_parser \<Rightarrow> Instant \<Rightarrow> string option \<Rightarrow> unit res \<Rightarrow> SessionStore \<Rightarrow> (UiError + Seam) \<times> SessionStore" where
  "mutation_seam_after_valid_request parse_uuid now raw validation sessions =
     (case require_session parse_uuid now raw sessions of
        (Inl e, sessions) \<Rightarrow> (Inl e, sessions)
      | (Inr record, sessions) \<Rightarrow>
          (res_bind (ensure_valid_request validation) (\<lambda>_. seam_from_session record), sessions))"

definition mutate_with_context ::
    "'c Broker \<Rightarrow> uuid_parser \<Rightarrow> Instant \<Rightarrow> string option \<Rightarrow> Mutation \<Rightarrow> SessionStore \<times> 'c
       \<Rightarrow> (UiError + ResourceOutcome list) \<times> SessionStore \<times> 'c" where
  "mutate_with_context broker parse_uuid now raw m = (\<lambda>(sessions, st).
     case mutation_seam_after_valid_request parse_uuid now raw (mutation_validate m) sessions of
       (Inl e, sessions) \<Rightarrow> (Inl e, sessions, st)
     | (Inr seam, sessions) \<Rightarrow>
         (case seam_mutate broker seam m st of (result, st) \<Rightarrow> (result, sessions, st)))"

end
