(* ===== verification/Ui_Views.thy ===== *)
theory Ui_Views
  imports Ui_Requests Admin_Log_Dirs
begin

text \<open>
  \<^verbatim>\<open>crates/admin-ui/src/views/\<close> and the rows of \<^verbatim>\<open>admin.rs\<close>: the routes, the pages and the element tree that is
  rendered for an operator. The printing of a tree as HTML is \<open>dioxus_ssr\<close>'s and an argument, as is the
  printing of a quota's \<open>f64\<close>.
\<close>

section \<open>Rows\<close>

text \<open>What the client returns: topics and users with the names of their mechanisms; log dirs are in \<open>Admin_Log_Dirs\<close>.\<close>

record TopicInfo =
  ti_name :: string
  ti_topic_id :: "string option"
  ti_partition_count :: int
  ti_replication_factor :: int
  ti_error :: "KafkaError option"

record UserScramCredentials =
  uc_username :: string
  uc_mechanisms :: "string list"

record TopicRow =
  tr_name :: string
  tr_topic_id :: "string option"
  tr_partition_count :: int
  tr_replication_factor :: int
  tr_error :: "KafkaErrorDto option"

record GroupRow =
  gr_group_id :: string

record UserRow =
  ur_username :: string
  ur_principal :: string

record QuotaRow =
  qr_entity :: string
  qr_quota_type :: string
  qr_value :: string

record LogDirRow =
  lr_broker_id :: int
  lr_log_dir :: string
  lr_topic :: string
  lr_partition :: int
  lr_partition_size :: int
  lr_offset_lag :: int
  lr_is_future_key :: bool
  lr_error :: "KafkaErrorDto option"

definition topic_rows :: "TopicInfo list \<Rightarrow> TopicRow list" where
  "topic_rows metadata =
     map (\<lambda>topic. \<lparr>tr_name = ti_name topic, tr_topic_id = ti_topic_id topic, tr_partition_count = ti_partition_count topic,
       tr_replication_factor = ti_replication_factor topic, tr_error = map_option error_dto (ti_error topic)\<rparr>) metadata"

definition group_rows :: "string list \<Rightarrow> GroupRow list" where
  "group_rows group_ids = map (\<lambda>group_id. \<lparr>gr_group_id = group_id\<rparr>) group_ids"

definition quota_rows :: "(F64 \<Rightarrow> string) \<Rightarrow> string \<Rightarrow> (string, F64) btmap \<Rightarrow> QuotaRow list" where
  "quota_rows format_quota_value username quotas =
     map (\<lambda>(quota_type, value). \<lparr>qr_entity = username, qr_quota_type = quota_type, qr_value = format_quota_value value\<rparr>) quotas"

definition scram_credential_summary :: "string list \<Rightarrow> string" where
  "scram_credential_summary mechanisms = join_with '', '' mechanisms"

definition user_rows :: "UserScramCredentials list \<Rightarrow> UserRow list" where
  "user_rows users =
     map (\<lambda>user. \<lparr>ur_username = uc_username user, ur_principal = scram_credential_summary (uc_mechanisms user)\<rparr>) users"

definition error_row :: "int \<Rightarrow> string \<Rightarrow> KafkaErrorDto option \<Rightarrow> LogDirRow" where
  "error_row broker_id log_dir error =
     \<lparr>lr_broker_id = broker_id, lr_log_dir = log_dir, lr_topic = [], lr_partition = -1, lr_partition_size = 0,
      lr_offset_lag = 0, lr_is_future_key = False, lr_error = error\<rparr>"

definition log_dir_partition_rows :: "int \<Rightarrow> LogDirInfo \<Rightarrow> LogDirRow list" where
  "log_dir_partition_rows broker_id log_dir =
     (let log_dir_error = map_option error_dto (li_error log_dir)
      in if li_topics log_dir = [] \<and> log_dir_error \<noteq> None
         then [error_row broker_id (li_log_dir log_dir) log_dir_error]
         else concat (map (\<lambda>(topic, partitions).
                map (\<lambda>p. \<lparr>lr_broker_id = broker_id, lr_log_dir = li_log_dir log_dir, lr_topic = topic,
                  lr_partition = lp_partition_index p, lr_partition_size = lp_partition_size p,
                  lr_offset_lag = lp_offset_lag p, lr_is_future_key = lp_is_future_key p, lr_error = log_dir_error\<rparr>) partitions)
                (li_topics log_dir)))"

definition log_dir_rows :: "(int, KafkaError + LogDirInfo list) btmap \<Rightarrow> LogDirRow list" where
  "log_dir_rows log_dirs =
     concat (map (\<lambda>(broker_id, result).
       case result of
         Inr dirs \<Rightarrow> concat (map (log_dir_partition_rows broker_id) dirs)
       | Inl error \<Rightarrow> [error_row broker_id [] (Some (error_dto error))]) log_dirs)"

section \<open>Routes and pages\<close>

datatype Route = R_Overview | R_Login | R_Topics | R_Groups | R_Acls | R_Users | R_Quotas | R_LogDirs

fun route_path :: "Route \<Rightarrow> string" where
  "route_path R_Overview = ''/''"
| "route_path R_Login = ''/login''"
| "route_path R_Topics = ''/topics''"
| "route_path R_Groups = ''/groups''"
| "route_path R_Acls = ''/acls''"
| "route_path R_Users = ''/users''"
| "route_path R_Quotas = ''/quotas''"
| "route_path R_LogDirs = ''/log-dirs''"

fun route_label :: "Route \<Rightarrow> string" where
  "route_label R_Overview = ''Overview''"
| "route_label R_Login = ''Login''"
| "route_label R_Topics = ''Topics''"
| "route_label R_Groups = ''Groups''"
| "route_label R_Acls = ''ACLs''"
| "route_label R_Users = ''Users''"
| "route_label R_Quotas = ''Quotas''"
| "route_label R_LogDirs = ''Log Dirs''"

definition guard_for_authentication :: "bool \<Rightarrow> Route \<Rightarrow> Route" where
  "guard_for_authentication is_authenticated self = (if is_authenticated \<or> self = R_Login then self else R_Login)"

fun is_permitted :: "Route \<Rightarrow> Capabilities \<Rightarrow> bool" where
  "is_permitted R_Overview capabilities = True"
| "is_permitted R_Login capabilities = True"
| "is_permitted R_Topics capabilities = can_view_topics capabilities"
| "is_permitted R_Groups capabilities = can_view_groups capabilities"
| "is_permitted R_Acls capabilities = can_view_acls capabilities"
| "is_permitted R_Users capabilities = can_view_users capabilities"
| "is_permitted R_Quotas capabilities = can_view_quotas capabilities"
| "is_permitted R_LogDirs capabilities = can_view_log_dirs capabilities"

datatype 'r ReadRouteState = Loading | AuthenticationRequired | PageNotPermitted | LoadFailed | Rows "'r list"

datatype LoginRouteState = Login_Form | AuthenticationFailed | BrokerUnavailable

record OperatorView =
  ov_capabilities :: Capabilities
  ov_csrf_token :: "string option"

definition OperatorView_new :: "Capabilities \<Rightarrow> string \<Rightarrow> OperatorView" where
  "OperatorView_new capabilities csrf_token = \<lparr>ov_capabilities = capabilities, ov_csrf_token = Some csrf_token\<rparr>"

definition anonymous :: OperatorView where
  "anonymous = \<lparr>ov_capabilities = capabilities_all, ov_csrf_token = None\<rparr>"

datatype RoutePage =
    Pg_Overview "string option"
  | Pg_Login LoginRouteState
  | Pg_Topics "TopicRow ReadRouteState"
  | Pg_Groups "GroupRow ReadRouteState"
  | Pg_Acls "AclRow ReadRouteState"
  | Pg_Users "UserRow ReadRouteState"
  | Pg_Quotas "QuotaRow ReadRouteState" "string option"
  | Pg_LogDirs "LogDirRow ReadRouteState"

definition overview :: RoutePage where "overview = Pg_Overview None"
definition signed_in :: RoutePage where "signed_in = Pg_Overview (Some ''Signed in.'')"
definition login_form :: RoutePage where "login_form = Pg_Login Login_Form"
definition login_failed :: RoutePage where "login_failed = Pg_Login AuthenticationFailed"
definition login_broker_unavailable :: RoutePage where "login_broker_unavailable = Pg_Login BrokerUnavailable"

fun for_guarded_route :: "Route \<Rightarrow> RoutePage" where
  "for_guarded_route R_Overview = overview"
| "for_guarded_route R_Login = login_form"
| "for_guarded_route R_Topics = Pg_Topics Loading"
| "for_guarded_route R_Groups = Pg_Groups Loading"
| "for_guarded_route R_Acls = Pg_Acls Loading"
| "for_guarded_route R_Users = Pg_Users Loading"
| "for_guarded_route R_Quotas = Pg_Quotas Loading None"
| "for_guarded_route R_LogDirs = Pg_LogDirs Loading"

definition for_unauthenticated_route :: "Route \<Rightarrow> RoutePage" where
  "for_unauthenticated_route route = for_guarded_route (guard_for_authentication False route)"

definition for_authenticated_route :: "Route \<Rightarrow> RoutePage" where
  "for_authenticated_route route = for_guarded_route (guard_for_authentication True route)"

fun page_title :: "RoutePage \<Rightarrow> string" where
  "page_title (Pg_Overview _) = ''Krabka Admin''"
| "page_title (Pg_Login _) = ''Sign in to Krabka''"
| "page_title (Pg_Topics _) = ''Topics''"
| "page_title (Pg_Groups _) = ''Consumer Groups''"
| "page_title (Pg_Acls _) = ''ACLs''"
| "page_title (Pg_Users _) = ''SCRAM Users''"
| "page_title (Pg_Quotas _ _) = ''Quotas''"
| "page_title (Pg_LogDirs _) = ''Log Dirs''"

record SidebarLink =
  sl_route :: Route
  sl_path :: string
  sl_label :: string

definition SidebarLink_new :: "Route \<Rightarrow> SidebarLink" where
  "SidebarLink_new route = \<lparr>sl_route = route, sl_path = route_path route, sl_label = route_label route\<rparr>"

definition SIDEBAR_LINKS :: "SidebarLink list" where
  "SIDEBAR_LINKS = map SidebarLink_new [R_Overview, R_Topics, R_Groups, R_Acls, R_Users, R_Quotas, R_LogDirs]"

definition sidebar_links_for :: "Capabilities \<Rightarrow> SidebarLink list" where
  "sidebar_links_for capabilities = filter (\<lambda>link. is_permitted (sl_route link) capabilities) SIDEBAR_LINKS"

section \<open>The forms\<close>

text \<open>An element with its tag, attributes and children, or a text.\<close>

datatype Node = Elem string "(string \<times> string) list" "Node list" | Txt string

definition CSRF_HEADER_NAME :: string where "CSRF_HEADER_NAME = ''x-krabka-csrf''"
definition CSRF_FIELD_NAME :: string where "CSRF_FIELD_NAME = ''csrf_token''"

record FormField =
  ff_name :: string
  ff_label :: string
  ff_kind :: string
  ff_value :: string

definition FormField_text :: "string \<Rightarrow> string \<Rightarrow> string \<Rightarrow> FormField" where
  "FormField_text name label value = \<lparr>ff_name = name, ff_label = label, ff_kind = ''text'', ff_value = value\<rparr>"

definition FormField_number :: "string \<Rightarrow> string \<Rightarrow> string \<Rightarrow> FormField" where
  "FormField_number name label value = \<lparr>ff_name = name, ff_label = label, ff_kind = ''number'', ff_value = value\<rparr>"

definition FormField_password :: "string \<Rightarrow> string \<Rightarrow> FormField" where
  "FormField_password name label = \<lparr>ff_name = name, ff_label = label, ff_kind = ''password'', ff_value = []\<rparr>"

definition FormField_fixed :: "string \<Rightarrow> string \<Rightarrow> FormField" where
  "FormField_fixed name value = \<lparr>ff_name = name, ff_label = [], ff_kind = ''hidden'', ff_value = value\<rparr>"

definition csrf_input :: "string \<Rightarrow> Node" where
  "csrf_input token = Elem ''input'' [(''type'', ''hidden''), (''name'', CSRF_FIELD_NAME), (''value'', token)] []"

definition field_node :: "FormField \<Rightarrow> Node" where
  "field_node f =
     (if ff_kind f = ''hidden''
      then Elem ''input'' [(''type'', ''hidden''), (''name'', ff_name f), (''value'', ff_value f)] []
      else Elem ''label'' []
             [Txt (ff_label f @ '' ''),
              Elem ''input'' [(''type'', ff_kind f), (''name'', ff_name f), (''value'', ff_value f)] []])"

definition submit_button :: "string \<Rightarrow> Node" where
  "submit_button label = Elem ''button'' [(''type'', ''submit'')] [Txt label]"

definition mutation_form :: "string \<Rightarrow> string \<Rightarrow> string \<Rightarrow> FormField list \<Rightarrow> Node" where
  "mutation_form action submit_label token fs =
     Elem ''form'' [(''class'', ''mutation-form''), (''method'', ''post''), (''action'', action)]
       ([Elem ''h3'' [] [Txt submit_label], csrf_input token] @ map field_node fs @ [submit_button submit_label])"

definition topics_forms :: "string \<Rightarrow> Capabilities \<Rightarrow> Node list" where
  "topics_forms token capabilities =
     (if can_create_topics capabilities
      then [mutation_form ''/topics/create'' ''Create Topic'' token
              [FormField_text ''name'' ''Name'' [],
               FormField_number ''partitions'' ''Partitions'' ''1'',
               FormField_number ''replicas'' ''Replicas'' ''1'',
               FormField_text ''configs'' ''Configs (name=value,name=value)'' []]]
      else []) @
     (if can_alter_topics capabilities
      then [mutation_form ''/topics/partitions'' ''Add Partitions'' token
              [FormField_text ''topic'' ''Topic'' [],
               FormField_number ''total_count'' ''Total partitions'' ''1''],
            mutation_form ''/topics/configs'' ''Alter Topic Configs'' token
              [FormField_fixed ''resource_type'' ''topic'',
               FormField_text ''resource_name'' ''Topic'' [],
               FormField_text ''configs'' ''Configs (name=value,name=value)'' []]]
      else []) @
     (if can_delete_topics capabilities
      then [mutation_form ''/topics/delete'' ''Delete Topic'' token [FormField_text ''name'' ''Name'' []]]
      else [])"

definition acl_fields :: "FormField list" where
  "acl_fields =
     [FormField_text ''resource_type'' ''Resource type'' ''topic'',
      FormField_text ''resource_name'' ''Resource name'' [],
      FormField_text ''pattern_type'' ''Pattern type (literal or prefixed)'' ''literal'',
      FormField_text ''principal'' ''Principal'' ''User:'',
      FormField_text ''host'' ''Host'' ''*'',
      FormField_text ''operation'' ''Operation'' ''read'',
      FormField_text ''permission'' ''Permission'' ''allow'']"

definition acls_forms :: "string \<Rightarrow> Capabilities \<Rightarrow> Node list" where
  "acls_forms token capabilities =
     (if \<not> can_alter_acls capabilities then []
      else [mutation_form ''/acls/create'' ''Create ACL'' token acl_fields,
            mutation_form ''/acls/delete'' ''Delete ACL'' token acl_fields])"

definition users_forms :: "string \<Rightarrow> Capabilities \<Rightarrow> Node list" where
  "users_forms token capabilities =
     (if \<not> can_alter_users capabilities then []
      else [mutation_form ''/users/scram/upsert'' ''Upsert SCRAM-SHA-512'' token
              [FormField_text ''username'' ''Username'' [],
               FormField_password ''password'' ''Password'',
               FormField_number ''iterations'' ''Iterations'' ''4096''],
            mutation_form ''/users/scram/delete'' ''Delete SCRAM User'' token
              [FormField_text ''username'' ''Username'' []]])"

definition quotas_forms :: "string \<Rightarrow> Capabilities \<Rightarrow> Node list" where
  "quotas_forms token capabilities =
     (if \<not> can_alter_quotas capabilities then []
      else [mutation_form ''/quotas/upsert'' ''Set Quota'' token
              [FormField_text ''entity'' ''User'' [],
               FormField_text ''quota_type'' ''Quota'' ''producer_byte_rate'',
               FormField_text ''value'' ''Value'' []],
            mutation_form ''/quotas/delete'' ''Remove Quota'' token
              [FormField_text ''entity'' ''User'' [],
               FormField_text ''quota_type'' ''Quota'' ''producer_byte_rate'']])"

definition log_dirs_forms :: "string \<Rightarrow> Capabilities \<Rightarrow> Node list" where
  "log_dirs_forms token capabilities =
     (if \<not> can_alter_log_dirs capabilities then []
      else [mutation_form ''/log-dirs/move'' ''Move Replica'' token
              [FormField_text ''topic'' ''Topic'' [],
               FormField_number ''partition'' ''Partition'' ''0'',
               FormField_number ''broker_id'' ''Broker id'' ''0'',
               FormField_text ''destination_log_dir'' ''Destination log dir'' []]])"

definition mutation_forms :: "RoutePage \<Rightarrow> OperatorView \<Rightarrow> Node list" where
  "mutation_forms page operator =
     (case ov_csrf_token operator of
        None \<Rightarrow> []
      | Some token \<Rightarrow>
          (let capabilities = ov_capabilities operator
           in case page of
                Pg_Topics _ \<Rightarrow> topics_forms token capabilities
              | Pg_Acls _ \<Rightarrow> acls_forms token capabilities
              | Pg_Users _ \<Rightarrow> users_forms token capabilities
              | Pg_Quotas _ _ \<Rightarrow> quotas_forms token capabilities
              | Pg_LogDirs _ \<Rightarrow> log_dirs_forms token capabilities
              | _ \<Rightarrow> []))"

section \<open>The tree of a page\<close>

definition render_login_element :: "LoginRouteState \<Rightarrow> Node" where
  "render_login_element state =
     (let message = (case state of
                Login_Form \<Rightarrow> None
              | AuthenticationFailed \<Rightarrow> Some ''Authentication failed.''
              | BrokerUnavailable \<Rightarrow>
                  Some ''No broker answered. The cluster may be down; sign in again when it is back.'')
      in Elem ''div'' [] [Elem ''section'' [(''class'', ''login-shell'')]
           [Elem ''h1'' [] [Txt ''Sign in to Krabka Admin''],
            Elem ''p'' [] [Txt ''Authentication is required before broker operations are shown.''],
            (case message of
               Some message \<Rightarrow> Elem ''p'' [(''class'', ''login-message'')] [Txt message]
             | None \<Rightarrow>
                 Elem ''form'' [(''method'', ''post''), (''action'', ''/login'')]
                   [Elem ''label'' [] [Txt ''Username '', Elem ''input'' [(''name'', ''username''), (''autocomplete'', ''username'')] []],
                    Elem ''label'' [] [Txt ''Password '',
                      Elem ''input'' [(''name'', ''password''), (''type'', ''password''), (''autocomplete'', ''current-password'')] []],
                    submit_button ''Sign in''])]])"

definition render_overview_element :: "string option \<Rightarrow> Node" where
  "render_overview_element message =
     Elem ''section'' []
       ([Elem ''h2'' [] [Txt ''Cluster Overview''], Elem ''p'' [] [Txt ''Broker administration shell is ready.'']] @
        (case message of Some message \<Rightarrow> [Elem ''p'' [] [Txt message]] | None \<Rightarrow> []))"

text \<open>A section of a page: the heading, then \<open>lead\<close>, then the rows as a list, or the message of the state.\<close>

definition section_element :: "string \<Rightarrow> string \<Rightarrow> Node list \<Rightarrow> ('r \<Rightarrow> string) \<Rightarrow> ('r ReadRouteState \<Rightarrow> string) \<Rightarrow> 'r ReadRouteState \<Rightarrow> Node" where
  "section_element class heading lead row_text message state =
     Elem ''section'' [(''class'', ''admin-section '' @ class)]
       ([Elem ''h2'' [] [Txt heading]] @ lead @
        (case state of
           Rows (row # rows) \<Rightarrow> [Elem ''ul'' [] (map (\<lambda>row. Elem ''li'' [] [Txt (row_text row)]) (row # rows))]
         | _ \<Rightarrow> [Elem ''p'' [] [Txt (message state)]]))"

definition ellipsis :: string where "ellipsis = [CHR 0xE2, CHR 0x80, CHR 0xA6]"

fun topics_message :: "TopicRow ReadRouteState \<Rightarrow> string" where
  "topics_message Loading = ''Loading topics'' @ ellipsis"
| "topics_message AuthenticationRequired = ''Authentication required.''"
| "topics_message PageNotPermitted = ''Your ACLs do not permit topic access.''"
| "topics_message LoadFailed = ''Unable to load topics.''"
| "topics_message (Rows _) = ''No topics loaded yet.''"

fun groups_message :: "GroupRow ReadRouteState \<Rightarrow> string" where
  "groups_message Loading = ''Loading consumer groups'' @ ellipsis"
| "groups_message AuthenticationRequired = ''Authentication required.''"
| "groups_message PageNotPermitted = ''Your ACLs do not permit consumer group access.''"
| "groups_message LoadFailed = ''Unable to load consumer groups.''"
| "groups_message (Rows _) = ''No consumer groups loaded yet.''"

fun acls_message :: "AclRow ReadRouteState \<Rightarrow> string" where
  "acls_message Loading = ''Loading ACLs'' @ ellipsis"
| "acls_message AuthenticationRequired = ''Authentication required.''"
| "acls_message PageNotPermitted = ''Your ACLs do not permit ACL access.''"
| "acls_message LoadFailed = ''Unable to load ACLs.''"
| "acls_message (Rows _) = ''No ACLs loaded yet.''"

fun users_message :: "UserRow ReadRouteState \<Rightarrow> string" where
  "users_message Loading = ''Loading SCRAM users'' @ ellipsis"
| "users_message AuthenticationRequired = ''Authentication required.''"
| "users_message PageNotPermitted = ''Your ACLs do not permit SCRAM user access.''"
| "users_message LoadFailed = ''Unable to load SCRAM users.''"
| "users_message (Rows _) = ''No SCRAM users loaded yet.''"

fun quotas_message :: "QuotaRow ReadRouteState \<Rightarrow> string" where
  "quotas_message Loading = ''Loading quotas'' @ ellipsis"
| "quotas_message AuthenticationRequired = ''Authentication required.''"
| "quotas_message PageNotPermitted = ''Your ACLs do not permit quota access.''"
| "quotas_message LoadFailed = ''Unable to load quotas.''"
| "quotas_message (Rows _) = ''No quotas loaded yet.''"

fun log_dirs_message :: "LogDirRow ReadRouteState \<Rightarrow> string" where
  "log_dirs_message Loading = ''Loading log-dir data'' @ ellipsis"
| "log_dirs_message AuthenticationRequired = ''Authentication required.''"
| "log_dirs_message PageNotPermitted = ''Your ACLs do not permit log-dir access.''"
| "log_dirs_message LoadFailed = ''Unable to load log-dir data.''"
| "log_dirs_message (Rows _) = ''No log-dir data loaded yet.''"

definition log_dir_row_text :: "LogDirRow \<Rightarrow> string" where
  "log_dir_row_text row =
     (let location =
            (if lr_partition row < 0
             then trim_end (''broker '' @ show_int (lr_broker_id row) @ '' '' @ lr_log_dir row)
             else ''broker '' @ show_int (lr_broker_id row) @ '' '' @ lr_log_dir row @ '' '' @ lr_topic row @ ''/'' @
               show_int (lr_partition row) @ ''-'' @ show_int (lr_partition_size row))
      in case lr_error row of
           None \<Rightarrow> location
         | Some error \<Rightarrow>
             (case kd_message error of
                Some message \<Rightarrow> location @ '' error='' @ kd_name error @ '' ('' @ show_int (kd_code error) @ ''): '' @ message
              | None \<Rightarrow> location @ '' error='' @ kd_name error @ '' ('' @ show_int (kd_code error) @ '')''))"

definition acl_row_text :: "AclRow \<Rightarrow> string" where
  "acl_row_text row =
     aw_resource row @ '' '' @ aw_pattern_type row @ '' '' @ aw_principal row @ '' host='' @ aw_host row @ '' '' @
     aw_operation row @ '' '' @ aw_permission row"

definition quota_lookup_form :: "string \<Rightarrow> Node" where
  "quota_lookup_form entity =
     Elem ''form'' [(''class'', ''quota-lookup-form''), (''method'', ''get''), (''action'', ''/quotas'')]
       [Elem ''label'' [] [Txt ''User '', Elem ''input'' [(''type'', ''text''), (''name'', ''entity''), (''value'', entity)] []],
        submit_button ''Show quotas'']"

definition render_topics_element :: "TopicRow ReadRouteState \<Rightarrow> Node" where
  "render_topics_element = section_element ''topics-section'' ''Topics'' [] tr_name topics_message"

definition render_groups_element :: "GroupRow ReadRouteState \<Rightarrow> Node" where
  "render_groups_element = section_element ''groups-section'' ''Consumer Groups'' [] gr_group_id groups_message"

definition render_acls_element :: "AclRow ReadRouteState \<Rightarrow> Node" where
  "render_acls_element = section_element ''acls-section'' ''ACLs'' [] acl_row_text acls_message"

definition render_users_element :: "UserRow ReadRouteState \<Rightarrow> Node" where
  "render_users_element = section_element ''users-section'' ''SCRAM Users'' []
     (\<lambda>row. ur_username row @ '' '' @ ur_principal row) users_message"

definition render_quotas_element :: "QuotaRow ReadRouteState \<Rightarrow> string option \<Rightarrow> Node" where
  "render_quotas_element state entity =
     (let lookup_value = (case entity of Some entity \<Rightarrow> entity | None \<Rightarrow> [])
      in section_element ''quotas-section'' ''Quotas'' [quota_lookup_form lookup_value]
           (\<lambda>row. qr_entity row @ '' '' @ qr_quota_type row @ '' '' @ qr_value row) quotas_message state)"

definition render_log_dirs_element :: "LogDirRow ReadRouteState \<Rightarrow> Node" where
  "render_log_dirs_element = section_element ''log-dirs-section'' ''Log Dirs'' [] log_dir_row_text log_dirs_message"

text \<open>The content of a page inside the shell; a login page is rendered outside of it.\<close>

fun page_content :: "RoutePage \<Rightarrow> Node option" where
  "page_content (Pg_Overview message) = Some (render_overview_element message)"
| "page_content (Pg_Topics state) = Some (render_topics_element state)"
| "page_content (Pg_Groups state) = Some (render_groups_element state)"
| "page_content (Pg_Acls state) = Some (render_acls_element state)"
| "page_content (Pg_Users state) = Some (render_users_element state)"
| "page_content (Pg_Quotas state entity) = Some (render_quotas_element state entity)"
| "page_content (Pg_LogDirs state) = Some (render_log_dirs_element state)"
| "page_content (Pg_Login _) = None"

definition sign_out_form :: "string \<Rightarrow> Node" where
  "sign_out_form token =
     Elem ''form'' [(''class'', ''sign-out-form''), (''method'', ''post''), (''action'', ''/logout'')]
       [csrf_input token, submit_button ''Sign out'']"

text \<open>\<open>None\<close> is the \<open>unreachable!\<close> of a login page.\<close>

definition render_operations_shell_element :: "RoutePage \<Rightarrow> OperatorView \<Rightarrow> Node option" where
  "render_operations_shell_element page operator =
     map_option (\<lambda>content.
       Elem ''div'' [] [Elem ''section'' [(''class'', ''operations-shell'')]
         [Elem ''aside'' []
            ([Elem ''h1'' [] [Txt ''Krabka Operations''],
              Elem ''nav'' [] (map (\<lambda>link. Elem ''a'' [(''class'', ''nav-link''), (''href'', sl_path link)] [Txt (sl_label link)])
                (sidebar_links_for (ov_capabilities operator)))] @
             (case ov_csrf_token operator of Some token \<Rightarrow> [sign_out_form token] | None \<Rightarrow> [])),
          Elem ''main'' [] (content # mutation_forms page operator)]]) (page_content page)"

definition render_page_element_for_operator :: "RoutePage \<Rightarrow> OperatorView \<Rightarrow> Node option" where
  "render_page_element_for_operator page operator =
     (case page of
        Pg_Login state \<Rightarrow> Some (render_login_element state)
      | _ \<Rightarrow> render_operations_shell_element page operator)"

fun escaped_char :: "char \<Rightarrow> string" where
  "escaped_char c =
     (if c = CHR ''&'' then ''&amp;'' else if c = CHR ''<'' then ''&lt;'' else if c = CHR ''>'' then ''&gt;''
      else if c = CHR 0x22 then ''&quot;'' else if c = CHR 0x27 then ''&#39;'' else [c])"

definition push_escaped :: "string \<Rightarrow> string \<Rightarrow> string" where
  "push_escaped html value = html @ concat (map escaped_char value)"

definition render_page_for_operator :: "(Node \<Rightarrow> string) \<Rightarrow> RoutePage \<Rightarrow> OperatorView \<Rightarrow> string option" where
  "render_page_for_operator render_element page operator =
     map_option (\<lambda>tree.
       push_escaped (''<!doctype html>'' @ newline @
         ''<html lang=\"en\"><head><meta charset=\"utf-8\"><meta name=\"viewport\" content=\"width=device-width, initial-scale=1\"><title>'')
         (page_title page) @ ''</title></head><body>'' @ render_element tree @ ''</body></html>'')
       (render_page_element_for_operator page operator)"

definition render_page :: "(Node \<Rightarrow> string) \<Rightarrow> RoutePage \<Rightarrow> string option" where
  "render_page render_element page = render_page_for_operator render_element page anonymous"

section \<open>Properties\<close>

text \<open>The error of a log dir reaches the page exactly when the broker lists no topic for the directory or some
  partition: a directory whose topics have no partitions fails without a row.\<close>

theorem log_dir_error_shown:
  "(\<exists>row \<in> set (log_dir_partition_rows broker_id dir). lr_error row \<noteq> None) \<longleftrightarrow>
     li_error dir \<noteq> None \<and> (li_topics dir = [] \<or> (\<exists>(topic, partitions) \<in> set (li_topics dir). partitions \<noteq> []))"
proof (cases "li_topics dir = []")
  case True
  then show ?thesis by (auto simp: log_dir_partition_rows_def error_row_def Let_def)
next
  case False
  then have "log_dir_partition_rows broker_id dir \<noteq> [] \<longleftrightarrow> (\<exists>(topic, partitions) \<in> set (li_topics dir). partitions \<noteq> [])"
    by (simp add: log_dir_partition_rows_def Let_def case_prod_unfold)
  moreover have "lr_error row = map_option error_dto (li_error dir)" if "row \<in> set (log_dir_partition_rows broker_id dir)" for row
    using that False by (auto simp: log_dir_partition_rows_def Let_def)
  ultimately show ?thesis using False by (cases "log_dir_partition_rows broker_id dir") auto
qed

end
