(* ===== verification/Ui_Http.thy ===== *)
theory Ui_Http
  imports Ui_Server Ui_Views
begin

text \<open>
  \<^verbatim>\<open>crates/admin-ui/src/server.rs\<close> and \<^verbatim>\<open>auth.rs\<close>: what an HTTP request must carry before a mutation is
  tried, the responses, signing in and signing out.
\<close>

section \<open>Requests and responses\<close>

text \<open>The value of a header, which \<open>to_str\<close> reads only when it is visible ASCII.\<close>

datatype HeaderValue = Visible string | Opaque

fun to_str :: "HeaderValue \<Rightarrow> string option" where
  "to_str (Visible s) = Some s"
| "to_str Opaque = None"

text \<open>A request; \<open>rq_body_ok\<close> tells whether the body can be read to its end.\<close>

record Request =
  rq_headers :: "(string \<times> HeaderValue) list"
  rq_body :: string
  rq_body_ok :: bool

definition header_str :: "string \<Rightarrow> Request \<Rightarrow> string option" where
  "header_str name request = Option.bind (map_of (rq_headers request) name) to_str"

text \<open>The body of a response: a text, or a page and the operator it is rendered for.\<close>

datatype Body = Text string | Html RoutePage OperatorView

definition page_body :: "RoutePage \<Rightarrow> Body" where
  "page_body page = Html page anonymous"

record Response =
  rs_status :: nat
  rs_cookie :: "string option"
  rs_body :: Body

definition SESSION_COOKIE_NAME :: string where "SESSION_COOKIE_NAME = ''krabka_admin_session''"

definition mutation_error_response :: "nat \<Rightarrow> string \<Rightarrow> Response" where
  "mutation_error_response status message =
     \<lparr>rs_status = status, rs_cookie = None,
      rs_body = Text (''status=error'' @ newline @ ''message='' @ message @ newline)\<rparr>"

definition csrf_error_response :: Response where
  "csrf_error_response = mutation_error_response 403 ''missing or stale CSRF token''"

fun mutation_error_status :: "UiError \<Rightarrow> nat" where
  "mutation_error_status NotAuthenticated = 401"
| "mutation_error_status SessionExpired = 401"
| "mutation_error_status NotPermitted = 403"
| "mutation_error_status (InvalidRequest _) = 400"
| "mutation_error_status (BrokerConnection _) = 502"
| "mutation_error_status (Broker _ _ _ _) = 502"
| "mutation_error_status (Admin _) = 500"

definition tab :: string where "tab = [CHR 0x09]"

definition outcome_text :: "ResourceOutcome \<Rightarrow> string" where
  "outcome_text outcome =
     ''resource='' @ ro_resource outcome @
     (case ro_error outcome of
        Some error \<Rightarrow> tab @ ''status=error'' @ tab @ ''error_code='' @ show_int (kd_code error) @
          tab @ ''error_name='' @ kd_name error
      | None \<Rightarrow> tab @ ''status=ok'') @ newline"

definition mutation_outcome_text :: "ResourceOutcome list \<Rightarrow> string" where
  "mutation_outcome_text outcomes = ''status=ok'' @ newline @ concat (map outcome_text outcomes)"

definition mutation_result_response :: "(string \<Rightarrow> string) \<Rightarrow> UiError + ResourceOutcome list \<Rightarrow> Response" where
  "mutation_result_response debug result =
     (case result of
        Inr outcomes \<Rightarrow> \<lparr>rs_status = 200, rs_cookie = None, rs_body = Text (mutation_outcome_text outcomes)\<rparr>
      | Inl error \<Rightarrow> mutation_error_response (mutation_error_status error) (ui_error_text debug error))"

section \<open>The session of a request\<close>

fun find_map :: "('a \<Rightarrow> 'b option) \<Rightarrow> 'a list \<Rightarrow> 'b option" where
  "find_map f [] = None"
| "find_map f (x # xs) = (case f x of Some y \<Rightarrow> Some y | None \<Rightarrow> find_map f xs)"

definition cookie_value :: "string \<Rightarrow> string option" where
  "cookie_value cookie =
     Option.bind (split_once CHR ''='' (trim cookie)) (\<lambda>(name, value).
       if name = SESSION_COOKIE_NAME then Some value else None)"

definition session_cookie :: "Request \<Rightarrow> string option" where
  "session_cookie request =
     Option.bind (header_str ''cookie'' request) (\<lambda>header. find_map cookie_value (split_on CHR '';'' header))"

definition request_content_type :: "Request \<Rightarrow> string option" where
  "request_content_type request =
     map_option (\<lambda>value. lower (trim (hd (split_on CHR '';'' value)))) (header_str ''content-type'' request)"

text \<open>What the server knows and is given: the body limit, UUIDs, and the decoders.\<close>

datatype MutationForm =
    CreateTopicForm CreateTopicFormDto
  | AlterConfigForm AlterConfigFormDto
  | FlatForm Mutation

fun into_request :: "MutationForm \<Rightarrow> Mutation res" where
  "into_request (CreateTopicForm form) = map_sum id CreateTopic (CreateTopicFormDto_into_request form)"
| "into_request (AlterConfigForm form) = map_sum id AlterConfigs (AlterConfigFormDto_into_request form)"
| "into_request (FlatForm m) = Inr m"

fun form_kind :: "MutationForm \<Rightarrow> MutationKind" where
  "form_kind (CreateTopicForm _) = K_CreateTopic"
| "form_kind (AlterConfigForm _) = K_AlterConfigs"
| "form_kind (FlatForm m) = mutation_kind m"

record Server =
  sv_body_limit :: nat
  sv_parse_uuid :: uuid_parser
  sv_form_fields :: "string \<Rightarrow> (string \<times> string) list option"
  sv_form_encode :: "(string \<times> string) list \<Rightarrow> string option"
  sv_json_request :: "MutationKind \<Rightarrow> string \<Rightarrow> Mutation option"
  sv_form_request :: "MutationKind \<Rightarrow> string \<Rightarrow> MutationForm option"
  sv_debug :: "string \<Rightarrow> string"

definition authenticated_session ::
    "Server \<Rightarrow> Instant \<Rightarrow> Request \<Rightarrow> SessionStore \<Rightarrow> (string \<times> SessionRecord) option \<times> SessionStore" where
  "authenticated_session server now request sessions =
     (case session_cookie request of
        None \<Rightarrow> (None, sessions)
      | Some raw \<Rightarrow>
          (case require_session (sv_parse_uuid server) now (Some raw) sessions of
             (Inl _, sessions) \<Rightarrow> (None, sessions)
           | (Inr record, sessions) \<Rightarrow> (Some (raw, record), sessions)))"

datatype MutationBody = JsonBody string | FormBody string

definition form_body :: "Server \<Rightarrow> SessionRecord \<Rightarrow> string \<Rightarrow> Response + MutationBody" where
  "form_body server record body =
     (case sv_form_fields server body of
        None \<Rightarrow> Inl (mutation_error_response 400 ''invalid form request'')
      | Some pairs \<Rightarrow>
          (let supplied = (case List.find (\<lambda>(name, _). name = CSRF_FIELD_NAME) pairs of
                             Some (_, value) \<Rightarrow> value | None \<Rightarrow> [])
           in if \<not> csrf_matches (sr_csrf_token record) supplied then Inl csrf_error_response
              else case sv_form_encode server (filter (\<lambda>(name, _). name \<noteq> CSRF_FIELD_NAME) pairs) of
                     None \<Rightarrow> Inl (mutation_error_response 400 ''invalid form request'')
                   | Some encoded \<Rightarrow> Inr (FormBody encoded)))"

definition proven_body :: "Server \<Rightarrow> SessionRecord \<Rightarrow> Request \<Rightarrow> Response + MutationBody" where
  "proven_body server record request =
     (let header_token = (case header_str CSRF_HEADER_NAME request of Some t \<Rightarrow> t | None \<Rightarrow> [])
      in if \<not> rq_body_ok request \<or> sv_body_limit server < length (rq_body request)
         then Inl (mutation_error_response 413 ''request body too large'')
         else if request_content_type request = Some ''application/json''
         then (if \<not> csrf_matches (sr_csrf_token record) header_token then Inl csrf_error_response
               else Inr (JsonBody (rq_body request)))
         else if request_content_type request = Some ''application/x-www-form-urlencoded''
         then form_body server record (rq_body request)
         else Inl (mutation_error_response 415
                ''mutations take application/json or application/x-www-form-urlencoded''))"

definition authenticated_mutation_body ::
    "Server \<Rightarrow> Instant \<Rightarrow> (Capabilities \<Rightarrow> bool) \<Rightarrow> Request \<Rightarrow> SessionStore
       \<Rightarrow> (Response + string \<times> MutationBody) \<times> SessionStore" where
  "authenticated_mutation_body server now capability request sessions =
     (case authenticated_session server now request sessions of
        (None, sessions) \<Rightarrow> (Inl (mutation_error_response 401 ''not authenticated''), sessions)
      | (Some (raw, record), sessions) \<Rightarrow>
          (if \<not> capability (sr_capabilities record) then Inl (mutation_error_response 403 ''not permitted'')
           else map_sum id (\<lambda>body. (raw, body)) (proven_body server record request), sessions))"

definition decode_body :: "Server \<Rightarrow> MutationKind \<Rightarrow> MutationBody \<Rightarrow> Response + Mutation" where
  "decode_body server kind body =
     (case body of
        JsonBody bytes \<Rightarrow> ok_or (mutation_error_response 400 ''invalid JSON request'') (sv_json_request server kind bytes)
      | FormBody encoded \<Rightarrow>
          res_bind (ok_or (mutation_error_response 400 ''invalid form request'') (sv_form_request server kind encoded)) (\<lambda>form.
          map_sum (mutation_error_response 400) id (into_request form)))"

definition parse_authenticated_mutation_request ::
    "Server \<Rightarrow> Instant \<Rightarrow> MutationKind \<Rightarrow> Request \<Rightarrow> SessionStore \<Rightarrow> (Response + string \<times> Mutation) \<times> SessionStore" where
  "parse_authenticated_mutation_request server now kind request sessions =
     (case authenticated_mutation_body server now (required_capability kind) request sessions of
        (Inl response, sessions) \<Rightarrow> (Inl response, sessions)
      | (Inr (raw, body), sessions) \<Rightarrow> (map_sum id (\<lambda>m. (raw, m)) (decode_body server kind body), sessions))"

text \<open>A handler of a mutation route; it reads the clock twice.\<close>

definition post_mutation ::
    "Server \<Rightarrow> 'c Broker \<Rightarrow> Instant \<Rightarrow> Instant \<Rightarrow> MutationKind \<Rightarrow> Request \<Rightarrow> SessionStore \<times> 'c
       \<Rightarrow> Response \<times> SessionStore \<times> 'c" where
  "post_mutation server broker now later kind request = (\<lambda>(sessions, st).
     case parse_authenticated_mutation_request server now kind request sessions of
       (Inl response, sessions) \<Rightarrow> (response, sessions, st)
     | (Inr (raw, m), sessions) \<Rightarrow>
         (case mutate_with_context broker (sv_parse_uuid server) later (Some raw) m (sessions, st) of
            (result, sessions, st) \<Rightarrow> (mutation_result_response (sv_debug server) result, sessions, st)))"

section \<open>Signing in and out\<close>

definition capabilities_from_broker :: "AdminError + AclEntry list \<Rightarrow> string \<Rightarrow> Capabilities" where
  "capabilities_from_broker acls username =
     (case acls of
        Inl _ \<Rightarrow> capabilities_all
      | Inr entries \<Rightarrow>
          (let derived = derive_capabilities (''User:'' @ username) entries
           in if derived = capabilities_none then capabilities_all else derived))"

definition classify_connect_failure :: "bool \<Rightarrow> AdminError \<Rightarrow> UiError" where
  "classify_connect_failure accepts_tcp error =
     (case error of
        AdminConnect _ \<Rightarrow> if accepts_tcp then NotAuthenticated else ui_error error
      | _ \<Rightarrow> ui_error error)"

text \<open>\<open>any_address_accepts_tcp\<close>, given which addresses accept a connection in time.\<close>

definition any_address_accepts_tcp :: "(string \<Rightarrow> bool) \<Rightarrow> string list \<Rightarrow> bool" where
  "any_address_accepts_tcp accepts addrs = list_ex accepts addrs"

record LoginRequest =
  lr_username :: string
  lr_password :: string

record LoginSuccess =
  lg_username :: string
  lg_principal :: string
  lg_session_id :: string

definition login :: "UiError + Capabilities \<Rightarrow> Fresh \<Rightarrow> LoginRequest \<Rightarrow> SessionStore \<Rightarrow> (UiError + LoginSuccess) \<times> SessionStore" where
  "login authenticated fresh request sessions =
     (case authenticated of
        Inl e \<Rightarrow> (Inl e, sessions)
      | Inr capabilities \<Rightarrow>
          (let user = \<lparr>su_username = lr_username request, su_principal = ''User:'' @ lr_username request\<rparr>;
               (session_id, sessions) =
                 create_authenticated fresh user \<lparr>sc_password = lr_password request\<rparr> capabilities sessions
           in (Inr \<lparr>lg_username = lr_username request, lg_principal = ''User:'' @ lr_username request,
                    lg_session_id = session_id\<rparr>, sessions)))"

fun login_failure_response :: "UiError \<Rightarrow> nat \<times> RoutePage" where
  "login_failure_response NotAuthenticated = (401, login_failed)"
| "login_failure_response SessionExpired = (401, login_failed)"
| "login_failure_response (BrokerConnection _) = (503, login_broker_unavailable)"
| "login_failure_response _ = (502, login_broker_unavailable)"

definition post_login :: "UiError + Capabilities \<Rightarrow> Fresh \<Rightarrow> LoginRequest \<Rightarrow> SessionStore \<Rightarrow> Response \<times> SessionStore" where
  "post_login authenticated fresh request sessions =
     (case login authenticated fresh request sessions of
        (Inl error, sessions) \<Rightarrow>
          (case login_failure_response error of
             (status, page) \<Rightarrow> (\<lparr>rs_status = status, rs_cookie = None, rs_body = page_body page\<rparr>, sessions))
      | (Inr success, sessions) \<Rightarrow>
          (\<lparr>rs_status = 200,
            rs_cookie = Some (SESSION_COOKIE_NAME @ ''='' @ lg_session_id success @ ''; HttpOnly; SameSite=Lax; Path=/''),
            rs_body = page_body signed_in\<rparr>, sessions))"

definition post_logout :: "Server \<Rightarrow> Instant \<Rightarrow> Instant \<Rightarrow> Request \<Rightarrow> SessionStore \<Rightarrow> Response \<times> SessionStore" where
  "post_logout server now later request sessions =
     (case authenticated_mutation_body server now any_capability request sessions of
        (Inl response, sessions) \<Rightarrow> (response, sessions)
      | (Inr (raw, _), sessions) \<Rightarrow>
          (case logout_with_context (sv_parse_uuid server) later (Some raw) sessions of
             (Inl _, sessions) \<Rightarrow> (mutation_error_response 401 ''not authenticated'', sessions)
           | (Inr _, sessions) \<Rightarrow>
               (\<lparr>rs_status = 200,
                 rs_cookie = Some (SESSION_COOKIE_NAME @ ''=; HttpOnly; SameSite=Lax; Path=/; Max-Age=0''),
                 rs_body = page_body login_form\<rparr>, sessions)))"

end
