(* ===== verification/Ui_Security.thy ===== *)
theory Ui_Security
  imports Ui_Http
begin

text \<open>
  What the admin UI guarantees of a request that changes something: it reaches the broker only
  with a live session, the capability of its route and the session's CSRF token, and then with
  the credentials of that session; signing out ends the session, and a session that was just
  created is the one that its cookie names.
\<close>

section \<open>The session of a request\<close>

text \<open>The session that the cookie of a request names at a time.\<close>

definition request_session :: "Server \<Rightarrow> Instant \<Rightarrow> Request \<Rightarrow> SessionStore \<Rightarrow> (SessionId \<times> SessionRecord) option" where
  "request_session server now request sessions =
     Option.bind (session_cookie request) (\<lambda>raw.
     Option.bind (sv_parse_uuid server raw) (\<lambda>i.
     map_option (Pair i) (live now sessions i)))"

text \<open>The token that a request repeats: in the header of a JSON request, in the field of a form.\<close>

definition supplied_token :: "Server \<Rightarrow> Request \<Rightarrow> string option" where
  "supplied_token server request =
     (if request_content_type request = Some ''application/json''
      then Some (case header_str CSRF_HEADER_NAME request of Some t \<Rightarrow> t | None \<Rightarrow> [])
      else if request_content_type request = Some ''application/x-www-form-urlencoded''
      then map_option (\<lambda>pairs. case map_of pairs CSRF_FIELD_NAME of Some t \<Rightarrow> t | None \<Rightarrow> [])
             (sv_form_fields server (rq_body request))
      else None)"

lemma require_session_result:
  assumes "store_ok s"
  shows "fst (require_session parse now (Some raw) s) =
      ok_or NotAuthenticated (Option.bind (parse raw) (live now s))"
    and "now \<le> later \<Longrightarrow> live later (snd (require_session parse now (Some raw) s)) = live later s"
    and "store_ok (snd (require_session parse now (Some raw) s))"
  using ss.lookup_result [OF assms, of now] ss.lookup_view [OF assms, of now later] ss.lookup_ok [OF assms, of now] assms
  by (auto simp: require_session_def case_prod_unfold split: option.split)

lemma authenticated_session_result:
  assumes "store_ok s"
  shows "fst (authenticated_session server now request s) =
      Option.bind (session_cookie request) (\<lambda>raw.
        map_option (\<lambda>(_, r). (raw, r)) (request_session server now request s))"
    and "now \<le> later \<Longrightarrow> live later (snd (authenticated_session server now request s)) = live later s"
    and "store_ok (snd (authenticated_session server now request s))"
proof -
  have "fst (authenticated_session server now request s) =
      Option.bind (session_cookie request) (\<lambda>raw.
        map_option (\<lambda>(_, r). (raw, r)) (request_session server now request s))
    \<and> (now \<le> later \<longrightarrow> live later (snd (authenticated_session server now request s)) = live later s)
    \<and> store_ok (snd (authenticated_session server now request s))"
  proof (cases "session_cookie request")
    case None
    then show ?thesis using assms by (simp add: authenticated_session_def)
  next
    case (Some raw)
    obtain res s1 where req: "require_session (sv_parse_uuid server) now (Some raw) s = (res, s1)" by fastforce
    note r = require_session_result [OF assms, where parse = "sv_parse_uuid server" and now = now and raw = raw, unfolded req fst_conv snd_conv]
    show ?thesis
    proof (cases "Option.bind (sv_parse_uuid server raw) (live now s)")
      case None
      then have "request_session server now request s = None"
        using Some by (cases "sv_parse_uuid server raw") (simp_all add: request_session_def)
      with None show ?thesis using r Some req by (simp add: authenticated_session_def)
    next
      case (Some rec)
      then obtain i where "request_session server now request s = Some (i, rec)"
        using \<open>session_cookie request = Some raw\<close> by (cases "sv_parse_uuid server raw") (auto simp: request_session_def)
      with Some show ?thesis using r \<open>session_cookie request = Some raw\<close> req by (simp add: authenticated_session_def)
    qed
  qed
  then show "fst (authenticated_session server now request s) =
      Option.bind (session_cookie request) (\<lambda>raw.
        map_option (\<lambda>(_, r). (raw, r)) (request_session server now request s))"
    and "now \<le> later \<Longrightarrow> live later (snd (authenticated_session server now request s)) = live later s"
    and "store_ok (snd (authenticated_session server now request s))"
    by blast+
qed

lemma find_pair_map_of: "List.find (\<lambda>(name, _). name = k) pairs = map_option (Pair k) (map_of pairs k)"
  by (induction pairs) auto

lemma proven_body_token:
  assumes "proven_body server r request = Inr body"
  shows "supplied_token server request = Some (sr_csrf_token r)"
proof -
  have form: "supplied_token server request = Some (sr_csrf_token r)"
    if ct: "request_content_type request = Some ''application/x-www-form-urlencoded''"
      and fb: "form_body server r (rq_body request) = Inr body"
  proof -
    from fb obtain pairs where pairs: "sv_form_fields server (rq_body request) = Some pairs"
      by (auto simp: form_body_def split: option.splits)
    have "(case map_of pairs CSRF_FIELD_NAME of Some t \<Rightarrow> t | None \<Rightarrow> []) = sr_csrf_token r"
      using fb by (auto simp: form_body_def pairs find_pair_map_of csrf_matches_eq Let_def split: option.splits if_splits)
    then show ?thesis by (simp add: supplied_token_def ct pairs)
  qed
  show ?thesis
    using assms form
    by (auto simp: proven_body_def supplied_token_def csrf_matches_eq Let_def split: if_splits)
qed

section \<open>Mutations\<close>

lemma authenticated_mutation_body_Inr:
  assumes "store_ok s" and "authenticated_mutation_body server now capability request s = (Inr (raw, body), s')"
  obtains i r where "session_cookie request = Some raw" and "request_session server now request s = Some (i, r)"
    and "sv_parse_uuid server raw = Some i" and "live now s i = Some r"
    and "capability (sr_capabilities r)" and "proven_body server r request = Inr body"
    and "s' = snd (authenticated_session server now request s)"
proof -
  obtain a s1 where a: "authenticated_session server now request s = (a, s1)" by fastforce
  then obtain r where r: "a = Some (raw, r)" "s' = s1" "capability (sr_capabilities r)" "proven_body server r request = Inr body"
    using assms(2) by (auto simp: authenticated_mutation_body_def split: option.splits if_splits) (auto simp: map_sum_def split: sum.splits)
  have "Option.bind (session_cookie request) (\<lambda>raw. map_option (\<lambda>(_, r). (raw, r)) (request_session server now request s)) =
      Some (raw, r)"
    using authenticated_session_result(1) [OF assms(1), of server now request] a r by simp
  then obtain i where i: "session_cookie request = Some raw" "request_session server now request s = Some (i, r)"
    by (auto simp: bind_eq_Some_conv)
  then have "sv_parse_uuid server raw = Some i" "live now s i = Some r"
    by (auto simp: request_session_def bind_eq_Some_conv)
  with i r a show thesis by (intro that) auto
qed

lemma seam_from_session_Inr:
  "seam_from_session r = Inr seam \<longleftrightarrow>
     (\<exists>c. sr_credentials r = Some c \<and> seam = \<lparr>sm_username = su_username (sr_user r), sm_password = sc_password c\<rparr>)"
  by (auto simp: seam_from_session_def split: option.splits)

lemma mutation_seam_result:
  assumes "store_ok s"
  shows "fst (mutation_seam_after_valid_request parse now (Some raw) v s) =
      res_bind (ok_or NotAuthenticated (Option.bind (parse raw) (live now s))) (\<lambda>r.
      res_bind (ensure_valid_request v) (\<lambda>_. seam_from_session r))"
    and "now \<le> later \<Longrightarrow> live later (snd (mutation_seam_after_valid_request parse now (Some raw) v s)) = live later s"
    and "store_ok (snd (mutation_seam_after_valid_request parse now (Some raw) v s))"
  using require_session_result [OF assms, where parse = parse and now = now and raw = raw]
  by (auto simp: mutation_seam_after_valid_request_def case_prod_unfold split: sum.split)

lemma mutate_with_context_result:
  "mutate_with_context broker parse now raw m (s, st) =
     (case fst (mutation_seam_after_valid_request parse now raw (mutation_validate m) s) of
        Inl e \<Rightarrow> (Inl e, snd (mutation_seam_after_valid_request parse now raw (mutation_validate m) s), st)
      | Inr seam \<Rightarrow> (fst (seam_mutate broker seam m st),
          snd (mutation_seam_after_valid_request parse now raw (mutation_validate m) s), snd (seam_mutate broker seam m st)))"
  by (simp add: mutate_with_context_def case_prod_unfold split: sum.split prod.split)

text \<open>The decoders return a request of the type that the route asks for.\<close>

definition typed_decoders :: "Server \<Rightarrow> bool" where
  "typed_decoders server \<longleftrightarrow>
     (\<forall>kind input m. sv_json_request server kind input = Some m \<longrightarrow> mutation_kind m = kind)
     \<and> (\<forall>kind input f. sv_form_request server kind input = Some f \<longrightarrow> form_kind f = kind)"

lemma decode_body_kind:
  assumes "typed_decoders server" and "decode_body server kind body = Inr m"
  shows "mutation_kind m = kind"
proof (cases body)
  case (JsonBody input)
  then show ?thesis using assms by (auto simp: decode_body_def typed_decoders_def ok_or_def split: option.splits)
next
  case (FormBody input)
  then obtain f where f: "sv_form_request server kind input = Some f" "into_request f = Inr m"
    using assms(2) by (auto simp: decode_body_def ok_or_def res_bind_Inr_iff map_sum_def split: option.splits sum.splits)
  then have "form_kind f = kind" using assms(1) by (auto simp: typed_decoders_def)
  with f(2) show ?thesis by (cases f) (auto simp: map_sum_def split: sum.splits)
qed

lemma post_mutation_cases:
  assumes "store_ok s"
  obtains (refused) response where "post_mutation server broker now later kind request (s, st) =
      (response, snd (parse_authenticated_mutation_request server now kind request s), st)"
  | (accepted) raw i r body m s1 where "session_cookie request = Some raw" and "sv_parse_uuid server raw = Some i"
      and "live now s i = Some r" and "required_capability kind (sr_capabilities r)"
      and "proven_body server r request = Inr body" and "decode_body server kind body = Inr m"
      and "s1 = snd (authenticated_session server now request s)"
      and "post_mutation server broker now later kind request (s, st) =
        (case mutate_with_context broker (sv_parse_uuid server) later (Some raw) m (s1, st) of
           (result, s2, st) \<Rightarrow> (mutation_result_response (sv_debug server) result, s2, st))"
proof -
  obtain p s1 where p: "parse_authenticated_mutation_request server now kind request s = (p, s1)" by fastforce
  show thesis
  proof (cases p)
    case (Inl response)
    then show thesis using p by (intro refused) (simp add: post_mutation_def)
  next
    case (Inr rm)
    obtain raw m where rm: "rm = (raw, m)" by (cases rm)
    obtain ab s0 where ab: "authenticated_mutation_body server now (required_capability kind) request s = (ab, s0)"
      by fastforce
    obtain body where body: "ab = Inr (raw, body)" "decode_body server kind body = Inr m" "s1 = s0"
      using p Inr rm ab
      by (cases ab) (auto simp: parse_authenticated_mutation_request_def map_sum_def split: sum.splits)
    obtain i r where "session_cookie request = Some raw" "sv_parse_uuid server raw = Some i" "live now s i = Some r"
        "required_capability kind (sr_capabilities r)" "proven_body server r request = Inr body"
        "s1 = snd (authenticated_session server now request s)"
      using authenticated_mutation_body_Inr [OF assms, of server now "required_capability kind" request raw body s0] ab body
      by metis
    then show thesis using p Inr rm body by (intro accepted) (simp_all add: post_mutation_def)
  qed
qed

text \<open>The request that a body carries: a JSON text as the decoder reads it, or the fields of a form, less
  the CSRF token, as the decoder reads them. It is read from the posted bytes, within the limit.\<close>

definition posted_request :: "Server \<Rightarrow> MutationKind \<Rightarrow> Request \<Rightarrow> Mutation \<Rightarrow> bool" where
  "posted_request server kind request m \<longleftrightarrow>
     rq_body_ok request \<and> length (rq_body request) \<le> sv_body_limit server
     \<and> (if request_content_type request = Some ''application/json''
        then sv_json_request server kind (rq_body request) = Some m
        else request_content_type request = Some ''application/x-www-form-urlencoded''
          \<and> (\<exists>pairs encoded form. sv_form_fields server (rq_body request) = Some pairs
               \<and> sv_form_encode server (filter (\<lambda>(name, _). name \<noteq> ''csrf_token'') pairs) = Some encoded
               \<and> sv_form_request server kind encoded = Some form \<and> into_request form = Inr m))"

lemma decode_body_Inr_iff:
  "decode_body server kind (JsonBody bytes) = Inr m \<longleftrightarrow> sv_json_request server kind bytes = Some m"
  "decode_body server kind (FormBody encoded) = Inr m \<longleftrightarrow>
     (\<exists>form. sv_form_request server kind encoded = Some form \<and> into_request form = Inr m)"
  by (auto simp: decode_body_def ok_or_def res_bind_Inr_iff map_sum_def split: option.splits sum.splits)

lemma form_body_Inr:
  assumes "form_body server r text = Inr body"
  obtains pairs encoded where "sv_form_fields server text = Some pairs" and "body = FormBody encoded"
    and "sv_form_encode server (filter (\<lambda>(name, _). name \<noteq> ''csrf_token'') pairs) = Some encoded"
  using assms that by (auto simp: form_body_def Let_def CSRF_FIELD_NAME_def split: option.splits if_splits)

lemma posted_decoded:
  assumes "proven_body server r request = Inr body" and "decode_body server kind body = Inr m"
  shows "posted_request server kind request m"
proof -
  have size: "rq_body_ok request" "length (rq_body request) \<le> sv_body_limit server"
    using assms(1) by (auto simp: proven_body_def Let_def split: if_splits)
  show ?thesis
  proof (cases "request_content_type request = Some ''application/json''")
    case True
    then have "body = JsonBody (rq_body request)"
      using assms(1) by (auto simp: proven_body_def Let_def split: if_splits)
    then show ?thesis using True size assms(2) by (simp add: posted_request_def decode_body_Inr_iff)
  next
    case False
    then have form: "request_content_type request = Some ''application/x-www-form-urlencoded''"
        "form_body server r (rq_body request) = Inr body"
      using assms(1) by (auto simp: proven_body_def Let_def split: if_splits)
    from form(2) show ?thesis
      by (rule form_body_Inr) (use False form(1) size assms(2) in \<open>auto simp: posted_request_def decode_body_Inr_iff\<close>)
  qed
qed

text \<open>What a mutation that changes the broker's state needed and did.\<close>

lemma post_mutation_authority:
  assumes "store_ok s" and "typed_decoders server" and "now \<le> later"
    and "post_mutation server broker now later kind request (s, st) = (response, s', st')" and "st' \<noteq> st"
  shows "\<exists>i r c m. request_session server now request s = Some (i, r) \<and> live later s i = Some r
    \<and> required_capability kind (sr_capabilities r)
    \<and> supplied_token server request = Some (sr_csrf_token r)
    \<and> posted_request server kind request m
    \<and> sr_credentials r = Some c \<and> mutation_kind m = kind \<and> mutation_validate m = Inr ()
    \<and> st' = snd (seam_mutate broker \<lparr>sm_username = su_username (sr_user r), sm_password = sc_password c\<rparr> m st)"
  using assms(1)
proof (cases rule: post_mutation_cases [of s server broker now later kind request st])
  case (refused response')
  then show ?thesis using assms(4,5) by simp
next
  case (accepted raw i r body m s1)
  have s1: "store_ok s1" "live later s1 = live later s"
    using authenticated_session_result(2,3) [OF assms(1), where server = server and now = now and request = request]
      assms(3) accepted(7) by auto
  let ?seam = "mutation_seam_after_valid_request (sv_parse_uuid server) later (Some raw) (mutation_validate m) s1"
  obtain seam where seam: "fst ?seam = Inr seam" "st' = snd (seam_mutate broker seam m st)"
    using accepted(8) assms(4,5) by (cases "fst ?seam") (auto simp: mutate_with_context_result)
  then obtain r' where r': "live later s i = Some r'" "mutation_validate m = Inr ()" "seam_from_session r' = Inr seam"
    using accepted(2) s1
    by (auto simp: mutation_seam_result(1) [OF s1(1)] res_bind_Inr_iff ensure_valid_request_def map_sum_def ok_or_def
        split: option.splits sum.splits)
  have "r' = r" using ss.view_expires [OF r'(1) assms(3)] accepted(3) by simp
  moreover have "request_session server now request s = Some (i, r)"
    using accepted(1-3) by (simp add: request_session_def)
  ultimately show ?thesis
    using r' seam(2) accepted(4) proven_body_token [OF accepted(5)] decode_body_kind [OF assms(2) accepted(6)]
      posted_decoded [OF accepted(5,6)]
    by (auto simp: seam_from_session_Inr)
qed

text \<open>A server, a broker that records its calls, the session ''a'' of an operator, and her request to
  delete a topic.\<close>

definition sample_server :: Server where
  "sample_server = \<lparr>sv_body_limit = 100, sv_parse_uuid = Some, sv_form_fields = (\<lambda>_. None), sv_form_encode = (\<lambda>_. None),
     sv_json_request = (\<lambda>kind input. if kind = K_DeleteTopic then Some (DeleteTopic \<lparr>dt_name = ''orders''\<rparr>) else None),
     sv_form_request = (\<lambda>_ _. None), sv_debug = id\<rparr>"

definition sample_broker :: "BrokerCall list Broker" where
  "sample_broker = \<lparr>br_connect = (\<lambda>_ _ st. (Inr (), st)), br_call = (\<lambda>c st. (Inr (NamedOutcomes [(''orders'', None)]), st @ [c])),
     br_quota = (\<lambda>_ _ st. (Inr None, st)), br_move_replica = (\<lambda>_ _ _ _ st. ([], st))\<rparr>"

definition sample_fresh :: Fresh where
  "sample_fresh = \<lparr>fr_last_instant = 1000, fr_now = 10, fr_id = ''a'', fr_token = ''t''\<rparr>"

definition operator_store :: SessionStore where
  "operator_store = snd (create_authenticated sample_fresh \<lparr>su_username = ''alice'', su_principal = ''User:alice''\<rparr>
     \<lparr>sc_password = ''secret''\<rparr> capabilities_all (SessionStore_new 60))"

definition operator_request :: Request where
  "operator_request = \<lparr>rq_headers = [(''cookie'', Visible ''krabka_admin_session=a''),
     (''content-type'', Visible ''application/json''), (''x-krabka-csrf'', Visible ''t'')],
     rq_body = [], rq_body_ok = True\<rparr>"

lemma operator_store_ok: "store_ok operator_store"
  by (simp add: operator_store_def create_authenticated_def create_record_def SessionStore_new_def store_ok_def Let_def)

lemma sample_typed_decoders: "typed_decoders sample_server"
  by (auto simp: typed_decoders_def sample_server_def split: if_splits)

section \<open>The sessions after a request\<close>

lemma authenticated_mutation_body_store:
  "snd (authenticated_mutation_body server now capability request s) = snd (authenticated_session server now request s)"
  by (auto simp: authenticated_mutation_body_def split: prod.split option.split)

lemma parse_store:
  "snd (parse_authenticated_mutation_request server now kind request s) = snd (authenticated_session server now request s)"
  using authenticated_mutation_body_store [of server now "required_capability kind" request s]
  by (auto simp: parse_authenticated_mutation_request_def split: prod.split sum.split)

text \<open>A request for a mutation leaves the sessions alone.\<close>

lemma post_mutation_keeps_sessions:
  assumes "store_ok s" and "now \<le> later" and "later \<le> t"
  shows "live t (fst (snd (post_mutation server broker now later kind request (s, st)))) = live t s
    \<and> store_ok (fst (snd (post_mutation server broker now later kind request (s, st))))"
  using assms(1)
proof (cases rule: post_mutation_cases [of s server broker now later kind request st])
  case (refused response)
  then show ?thesis
    using authenticated_session_result(2,3) [OF assms(1), where now = now] assms(2,3)
    by (simp add: parse_store)
next
  case (accepted raw i r body m s1)
  have s1: "store_ok s1" "live t s1 = live t s"
    using authenticated_session_result(2,3) [OF assms(1), where now = now and server = server and request = request]
      assms(2,3) accepted(7) by auto
  show ?thesis
    using accepted(8) mutation_seam_result(2) [OF s1(1) assms(3)] mutation_seam_result(3) [OF s1(1)] s1(2)
    by (simp add: mutate_with_context_result split: sum.split)
qed

text \<open>The responses that refuse a mutation, and those of a mutation, are texts.\<close>

lemma refusal_text:
  assumes "authenticated_mutation_body server now capability request s = (Inl e, s')"
  shows "\<exists>m. rs_body e = Text m" and "rs_status e \<noteq> 200"
  using assms
  by (auto simp: authenticated_mutation_body_def proven_body_def form_body_def csrf_error_response_def
      mutation_error_response_def map_sum_def Let_def split: option.splits if_splits sum.splits prod.splits)

lemma post_mutation_text: "\<exists>m. rs_body (fst (post_mutation server broker now later kind request (s, st))) = Text m"
proof -
  obtain ab s1 where ab: "authenticated_mutation_body server now (required_capability kind) request s = (ab, s1)" by fastforce
  have "\<exists>m. rs_body (mutation_result_response debug result) = Text m" for debug result
    by (simp add: mutation_result_response_def mutation_error_response_def split: sum.split)
  moreover have "\<exists>m. rs_body e = Text m" if "decode_body server kind body = Inl e" for body e
  proof -
    have "map_sum f id x = Inl e \<longleftrightarrow> (\<exists>y. x = Inl y \<and> e = f y)" for f and x :: "string + Mutation" by (cases x) auto
    then have "\<exists>status m. e = mutation_error_response status m"
      using that by (auto simp: decode_body_def res_bind_Inl_iff ok_or_Inl_iff split: MutationBody.splits)
    then show ?thesis by (auto simp: mutation_error_response_def)
  qed
  ultimately show ?thesis
    using ab refusal_text(1) [of server now "required_capability kind" request s]
    by (cases ab) (auto simp: post_mutation_def parse_authenticated_mutation_request_def case_prod_unfold map_sum_def split: sum.split)
qed

text \<open>What signing out does to the sessions.\<close>

lemma post_logout_sessions:
  assumes "store_ok s" and "now \<le> later" and "later \<le> t" and "post_logout server now later request s = (response, s')"
  obtains (refused) "rs_status response \<noteq> 200" and "\<exists>m. rs_body response = Text m" and "live t s' = live t s" and "store_ok s'"
  | (ended) i r where "request_session server now request s = Some (i, r)" and "supplied_token server request = Some (sr_csrf_token r)"
      and "live t s' = (live t s)(i := None)" and "store_ok s'" and "rs_body response = page_body login_form"
proof -
  obtain ab s1 where ab: "authenticated_mutation_body server now any_capability request s = (ab, s1)" by fastforce
  have s1_eq: "s1 = snd (authenticated_session server now request s)"
    using authenticated_mutation_body_store [of server now any_capability request s] ab by simp
  have s1: "store_ok s1" "live t s1 = live t s"
    using authenticated_session_result(2,3) [OF assms(1), where now = now and server = server and request = request]
      assms(2,3) s1_eq by auto
  show thesis
  proof (cases ab)
    case (Inl e)
    then show thesis using refused refusal_text assms(4) ab s1 by (simp add: post_logout_def)
  next
    case (Inr rb)
    obtain raw body where rb: "rb = (raw, body)" by (cases rb)
    obtain i r where i: "request_session server now request s = Some (i, r)" "sv_parse_uuid server raw = Some i"
        "proven_body server r request = Inr body"
      using authenticated_mutation_body_Inr [OF assms(1), of server now any_capability request raw body s1] ab Inr rb
      by metis
    let ?s2 = "snd (session_get later i s1)"
    have s2: "store_ok ?s2" "live t ?s2 = live t s"
      using ss.lookup_ok [OF s1(1)] ss.lookup_view [OF s1(1) assms(3)] s1(2) by auto
    have "response = mutation_error_response 401 ''not authenticated'' \<and> s' = ?s2
        \<or> rs_body response = page_body login_form \<and> s' = snd (session_remove i ?s2)"
      using assms(4) ab Inr rb i(2)
      by (auto simp: post_logout_def logout_with_context_def require_session_id_def split: prod.splits if_splits)
    then show thesis
      using refused ended i proven_body_token [OF i(3)] ss.discard_view [OF s2(1)] ss.discard_ok [OF s2(1)] s2
      by (auto simp: mutation_error_response_def)
  qed
qed

text \<open>Signing out needs the session and its CSRF token; when it succeeds, the session of the cookie is gone
  for good, and no other session is touched.\<close>

theorem logout_ends_session:
  assumes "store_ok s" and "now \<le> later" and "later \<le> t"
    and "post_logout server now later request s = (response, s')" and "rs_status response = 200"
  shows "\<exists>i r. request_session server now request s = Some (i, r) \<and> supplied_token server request = Some (sr_csrf_token r)
    \<and> live t s' = (live t s)(i := None)"
  using assms(1-4) by (cases rule: post_logout_sessions) (use assms(5) in auto)

theorem logout_ends_session_witness:
  "live 21 (snd (post_logout sample_server 20 21 operator_request operator_store)) ''a'' = None
   \<and> live 21 operator_store ''a'' \<noteq> None"
proof -
  let ?post = "post_logout sample_server 20 21 operator_request operator_store"
  have "rs_status (fst ?post) = 200" by code_simp
  then obtain i r where i: "request_session sample_server 20 operator_request operator_store = Some (i, r)"
      "live 21 (snd ?post) = (live 21 operator_store)(i := None)"
    using logout_ends_session [OF operator_store_ok, of 20 21 21 sample_server operator_request "fst ?post" "snd ?post"] by auto
  have "map_option fst (request_session sample_server 20 operator_request operator_store) = Some ''a''" by code_simp
  moreover have "live 21 operator_store ''a'' \<noteq> None" by code_simp
  ultimately show ?thesis using i by simp
qed

text \<open>A request of an operator with a live session, the capability of the route, the session's CSRF token and a
  valid body is carried out: the response reports what the broker answered.\<close>

theorem authorised_mutation_runs:
  assumes "store_ok s" and "request_session server now request s = Some (i, r)" and "now \<le> later"
    and "\<not> is_expired r later" and "required_capability kind (sr_capabilities r)"
    and "proven_body server r request = Inr body" and "decode_body server kind body = Inr m"
    and "mutation_validate m = Inr ()" and "sr_credentials r = Some c"
  shows "\<exists>s'. post_mutation server broker now later kind request (s, st) =
    (let (result, st') = seam_mutate broker \<lparr>sm_username = su_username (sr_user r), sm_password = sc_password c\<rparr> m st
     in (mutation_result_response (sv_debug server) result, s', st'))"
proof -
  obtain raw where raw: "session_cookie request = Some raw" "sv_parse_uuid server raw = Some i" "live now s i = Some r"
    using assms(2) by (auto simp: request_session_def bind_eq_Some_conv)
  obtain a s1 where a: "authenticated_session server now request s = (a, s1)" by fastforce
  have auth: "a = Some (raw, r)" and s1: "store_ok s1" "live later s1 = live later s"
    using authenticated_session_result [OF assms(1), where server = server and now = now and request = request] a raw(1)
      assms(2,3) by auto
  have parsed: "parse_authenticated_mutation_request server now kind request s = (Inr (raw, m), s1)"
    by (simp add: parse_authenticated_mutation_request_def authenticated_mutation_body_def a auth assms(5-7))
  have "live later s i = Some r"
    using raw(3) assms(4) by (auto simp: live_def split: option.splits if_splits)
  then have "fst (mutation_seam_after_valid_request (sv_parse_uuid server) later (Some raw) (mutation_validate m) s1) =
      Inr \<lparr>sm_username = su_username (sr_user r), sm_password = sc_password c\<rparr>"
    using raw(2) s1 assms(8,9)
    by (simp add: mutation_seam_result(1) ok_or_def ensure_valid_request_def seam_from_session_def)
  then show ?thesis
    by (simp add: post_mutation_def parsed mutate_with_context_result Let_def case_prod_unfold)
qed

theorem authorised_mutation_runs_witness:
  "fst (post_mutation sample_server sample_broker 20 21 K_DeleteTopic operator_request (operator_store, [])) =
     mutation_result_response id (Inr [kafka_error_outcome ''orders'' None])"
proof -
  let ?m = "DeleteTopic \<lparr>dt_name = ''orders''\<rparr>"
  obtain r where r: "request_session sample_server 20 operator_request operator_store = Some (''a'', r)" "\<not> is_expired r 21"
      "can_delete_topics (sr_capabilities r)" "proven_body sample_server r operator_request = Inr (JsonBody [])"
      "sr_credentials r = Some \<lparr>sc_password = ''secret''\<rparr>"
  proof -
    let ?r = "new_record sample_fresh 60 \<lparr>su_username = ''alice'', su_principal = ''User:alice''\<rparr>
      (Some \<lparr>sc_password = ''secret''\<rparr>) capabilities_all"
    have "request_session sample_server 20 operator_request operator_store = Some (''a'', ?r)"
      "\<not> is_expired ?r 21" "can_delete_topics (sr_capabilities ?r)"
      "proven_body sample_server ?r operator_request = Inr (JsonBody [])"
      "sr_credentials ?r = Some \<lparr>sc_password = ''secret''\<rparr>" by code_simp+
    then show thesis by (rule that)
  qed
  have "decode_body sample_server K_DeleteTopic (JsonBody []) = Inr ?m" "mutation_validate ?m = Inr ()" by code_simp+
  with authorised_mutation_runs [OF operator_store_ok r(1) _ r(2) _ r(4), of K_DeleteTopic ?m _ sample_broker "[]"] r(3,5)
  show ?thesis by (auto simp: case_prod_unfold Let_def seam_delete_topic_def facade_call_def sample_broker_def sample_server_def)
qed

section \<open>Signing in\<close>

text \<open>The part of a \<open>Set-Cookie\<close> value that a browser sends back.\<close>

definition cookie_pair :: "string \<Rightarrow> string" where
  "cookie_pair set_cookie = hd (split_on CHR '';'' set_cookie)"

lemma session_cookie_of_pair:
  assumes "header_str ''cookie'' request = Some (SESSION_COOKIE_NAME @ ''='' @ i)" and "i \<noteq> []" and "list_all graphic i"
    and "CHR '';'' \<notin> set i"
  shows "session_cookie request = Some i"
proof -
  let ?c = "SESSION_COOKIE_NAME @ ''='' @ i"
  have "CHR '';'' \<notin> set ?c" using assms(4) by (auto simp: SESSION_COOKIE_NAME_def)
  then have "split_on CHR '';'' ?c = [?c]" by (rule split_on_no_sep)
  moreover have "graphic (hd ?c)" by code_simp
  moreover have "graphic (last ?c)" using assms(2,3) by (simp add: list_all_iff)
  moreover have "split_once CHR ''='' ?c = Some (SESSION_COOKIE_NAME, i)"
    using split_once_append [of "CHR ''=''" SESSION_COOKIE_NAME i] by (simp add: SESSION_COOKIE_NAME_def)
  ultimately show ?thesis
    using trim_graphic [of ?c] by (simp add: session_cookie_def assms(1) cookie_value_def SESSION_COOKIE_NAME_def)
qed

text \<open>C39. Signing in gives the browser a cookie that authenticates it: a request that carries it has the new
  session, of that user, with that password and the capabilities that the broker's ACLs gave, until the
  session's lifetime ends, and every session that was live stays live.\<close>

theorem login_session_authenticates:
  assumes "store_ok s" and "sv_parse_uuid server (fr_id fresh) = Some (fr_id fresh)"
    and "fr_id fresh \<noteq> []" and "list_all graphic (fr_id fresh)" and "CHR '';'' \<notin> set (fr_id fresh)"
    and "post_login (Inr capabilities) fresh login_request s = (response, s')"
    and "rs_cookie response = Some set_cookie" and "header_str ''cookie'' request = Some (cookie_pair set_cookie)"
    and "fr_now fresh + ss_ttl s \<le> fr_last_instant fresh" and "fr_now fresh \<le> now" and "now < fr_now fresh + ss_ttl s"
  shows "(\<exists>r. request_session server now request s' = Some (fr_id fresh, r)
      \<and> su_username (sr_user r) = lr_username login_request \<and> sr_capabilities r = capabilities
      \<and> sr_credentials r = Some \<lparr>sc_password = lr_password login_request\<rparr> \<and> sr_csrf_token r = fr_token fresh)
    \<and> (\<forall>i. i = fr_id fresh \<or> live now s' i = live now s i)"
proof -
  let ?i = "fr_id fresh"
  let ?user = "\<lparr>su_username = lr_username login_request, su_principal = ''User:'' @ lr_username login_request\<rparr>"
  let ?r = "new_record fresh (ss_ttl s) ?user (Some \<lparr>sc_password = lr_password login_request\<rparr>) capabilities"
  have s': "s' = snd (create_record fresh ?user (Some \<lparr>sc_password = lr_password login_request\<rparr>) capabilities s)"
    and cookie: "set_cookie = SESSION_COOKIE_NAME @ ''='' @ ?i @ ''; HttpOnly; SameSite=Lax; Path=/''"
    using assms(6,7) by (auto simp: post_login_def login_def create_authenticated_def create_record_def Let_def)
  have "CHR '';'' \<notin> set (SESSION_COOKIE_NAME @ ''='' @ ?i)" using assms(5) by (auto simp: SESSION_COOKIE_NAME_def)
  from split_on_append_sep [OF this, of "'' HttpOnly; SameSite=Lax; Path=/''"]
  have "cookie_pair set_cookie = SESSION_COOKIE_NAME @ ''='' @ ?i" by (simp add: cookie_pair_def cookie)
  then have sc: "session_cookie request = Some ?i" using session_cookie_of_pair assms(3-5,8) by simp
  have live_new: "live now s' = (live now s)(?i := Some ?r)"
    using live_create(1) [OF assms(1,10)] assms(9,11)
    by (simp add: s' is_expired_def new_record_def checked_add_def)
  then show ?thesis using sc assms(2) by (auto simp: request_session_def new_record_def)
qed

theorem login_session_authenticates_witness:
  "\<exists>r. request_session sample_server 20 operator_request (snd (post_login (Inr capabilities_all) sample_fresh
     \<lparr>lr_username = ''alice'', lr_password = ''secret''\<rparr> (SessionStore_new 60))) = Some (''a'', r)
     \<and> su_username (sr_user r) = ''alice''"
proof -
  let ?login = "\<lparr>lr_username = ''alice'', lr_password = ''secret''\<rparr>"
  let ?post = "post_login (Inr capabilities_all) sample_fresh ?login (SessionStore_new 60)"
  let ?cookie = "''krabka_admin_session=a; HttpOnly; SameSite=Lax; Path=/''"
  have "rs_cookie (fst ?post) = Some ?cookie" "header_str ''cookie'' operator_request = Some (cookie_pair ?cookie)"
    "store_ok (SessionStore_new 60)" "list_all graphic ''a''" by code_simp+
  with login_session_authenticates [of "SessionStore_new 60" sample_server sample_fresh capabilities_all ?login
      "fst ?post" "snd ?post" ?cookie operator_request 20]
  show ?thesis by (auto simp: sample_server_def sample_fresh_def SessionStore_new_def)
qed

text \<open>An operator whose ACL entries all deny gets every capability, like one that matches no entry.\<close>

theorem deny_only_operator_unrestricted:
  assumes "\<forall>entry \<in> set entries. ae_permission_type entry = Deny"
  shows "capabilities_from_broker (Inr entries) username = capabilities_all"
proof -
  have none: "\<not> permits who host entries rt op" for who host rt op
    using assms by (auto simp: permits_def)
  have "derive_capabilities (''User:'' @ username) entries = capabilities_none"
    by (simp add: derive_capabilities_def derive_capabilities_for_optional_host_def has_effective_permission_iff none
        grant_def capabilities_none_def)
  then show ?thesis by (simp add: capabilities_from_broker_def)
qed

theorem deny_only_operator_unrestricted_witness:
  "capabilities_from_broker (Inr [\<lparr>ae_resource_type = Rt_Cluster, ae_resource_name = ''kafka-cluster'', ae_pattern_type = Literal,
     ae_principal = ''User:alice'', ae_host = ''*'', ae_operation = Op_All, ae_permission_type = Deny\<rparr>]) ''alice'' = capabilities_all"
  by (rule deny_only_operator_unrestricted) simp

end
