(* ===== verification/Ui_Router.thy ===== *)
theory Ui_Router
  imports Ui_Security
begin

text \<open>
  The router of \<^verbatim>\<open>crates/admin-ui/src/server.rs\<close> with its read handlers, and the read side of \<^verbatim>\<open>server_fns.rs\<close>
  and \<^verbatim>\<open>admin.rs\<close>. A request is a method, a path, the query of the quota page and the headers and body; the
  theorems are about every request that the router can get.
\<close>

section \<open>Reading\<close>

text \<open>The calls of the client that read.\<close>

record 'c Reader =
  rd_connect :: "string \<Rightarrow> string \<Rightarrow> 'c \<Rightarrow> (AdminError + unit) \<times> 'c"
  rd_metadata :: "'c \<Rightarrow> (AdminError + TopicInfo list) \<times> 'c"
  rd_list_groups :: "'c \<Rightarrow> (AdminError + string list) \<times> 'c"
  rd_describe_cluster :: "'c \<Rightarrow> (AdminError + int list) \<times> 'c"
  rd_describe_log_dirs :: "int list \<Rightarrow> 'c \<Rightarrow> (int, KafkaError + LogDirInfo list) btmap \<times> 'c"
  rd_describe_acls :: "'c \<Rightarrow> (AdminError + AclEntry list) \<times> 'c"
  rd_describe_user_quotas :: "string \<Rightarrow> 'c \<Rightarrow> (AdminError + (string, F64) btmap) \<times> 'c"
  rd_describe_scram :: "'c \<Rightarrow> (AdminError + UserScramCredentials list) \<times> 'c"
  rd_accepts_tcp :: "string \<Rightarrow> bool"

text \<open>A call whose rows are shown.\<close>

definition facade_rows :: "('c \<Rightarrow> (AdminError + 'a) \<times> 'c) \<Rightarrow> ('a \<Rightarrow> 'r list) \<Rightarrow> 'c \<Rightarrow> (AdminError + 'r list) \<times> 'c" where
  "facade_rows call rows st = (case call st of (result, st) \<Rightarrow> (map_sum id rows result, st))"

definition facade_topics :: "'c Reader \<Rightarrow> 'c \<Rightarrow> (AdminError + TopicRow list) \<times> 'c" where
  "facade_topics reader = facade_rows (rd_metadata reader) topic_rows"

definition facade_groups :: "'c Reader \<Rightarrow> 'c \<Rightarrow> (AdminError + GroupRow list) \<times> 'c" where
  "facade_groups reader = facade_rows (rd_list_groups reader) group_rows"

definition facade_log_dirs :: "'c Reader \<Rightarrow> 'c \<Rightarrow> (AdminError + LogDirRow list) \<times> 'c" where
  "facade_log_dirs reader st =
     (case rd_describe_cluster reader st of
        (Inl e, st) \<Rightarrow> (Inl e, st)
      | (Inr brokers, st) \<Rightarrow>
          (case rd_describe_log_dirs reader brokers st of (log_dirs, st) \<Rightarrow> (Inr (log_dir_rows log_dirs), st)))"

definition facade_acls :: "'c Reader \<Rightarrow> 'c \<Rightarrow> (AdminError + AclRow list) \<times> 'c" where
  "facade_acls reader = facade_rows (rd_describe_acls reader) acl_rows"

definition facade_quotas_for_user :: "(F64 \<Rightarrow> string) \<Rightarrow> 'c Reader \<Rightarrow> string \<Rightarrow> 'c \<Rightarrow> (AdminError + QuotaRow list) \<times> 'c" where
  "facade_quotas_for_user format_quota_value reader username =
     facade_rows (rd_describe_user_quotas reader username) (quota_rows format_quota_value username)"

definition facade_users :: "'c Reader \<Rightarrow> 'c \<Rightarrow> (AdminError + UserRow list) \<times> 'c" where
  "facade_users reader = facade_rows (rd_describe_scram reader) user_rows"

text \<open>A method of the read seam: connect as the session's user, then call.\<close>

definition seam_read ::
    "'c Reader \<Rightarrow> (Seam \<Rightarrow> 'c \<Rightarrow> (AdminError + 'r list) \<times> 'c) \<Rightarrow> Seam \<Rightarrow> 'c \<Rightarrow> (UiError + 'r list) \<times> 'c" where
  "seam_read reader call seam st =
     (case rd_connect reader (sm_username seam) (sm_password seam) st of
        (Inl e, st) \<Rightarrow> (Inl (ui_error e), st)
      | (Inr _, st) \<Rightarrow> (case call seam st of (result, st) \<Rightarrow> (map_sum ui_error id result, st)))"

definition read_seam_from_context ::
    "uuid_parser \<Rightarrow> Instant \<Rightarrow> string option \<Rightarrow> SessionStore \<Rightarrow> (UiError + Seam) \<times> SessionStore" where
  "read_seam_from_context parse_uuid now raw sessions =
     (case require_session parse_uuid now raw sessions of
        (result, sessions) \<Rightarrow> (res_bind result seam_from_session, sessions))"

text \<open>The \<open>list_\<close> functions.\<close>

definition list_with_context ::
    "uuid_parser \<Rightarrow> Instant \<Rightarrow> string option \<Rightarrow> (Seam \<Rightarrow> 'c \<Rightarrow> (UiError + 'r list) \<times> 'c) \<Rightarrow> SessionStore \<times> 'c
       \<Rightarrow> (UiError + 'r list) \<times> SessionStore \<times> 'c" where
  "list_with_context parse_uuid now raw read = (\<lambda>(sessions, st).
     case read_seam_from_context parse_uuid now raw sessions of
       (Inl e, sessions) \<Rightarrow> (Inl e, sessions, st)
     | (Inr seam, sessions) \<Rightarrow> (case read seam st of (rows, st) \<Rightarrow> (rows, sessions, st)))"

section \<open>Read handlers\<close>

definition authenticated_page ::
    "Server \<Rightarrow> Instant \<Rightarrow> Request \<Rightarrow> SessionStore \<Rightarrow> (string \<times> OperatorView) option \<times> SessionStore" where
  "authenticated_page server now request sessions =
     (case authenticated_session server now request sessions of
        (found, sessions) \<Rightarrow>
          (map_option (\<lambda>(raw, record). (raw, OperatorView_new (sr_capabilities record) (sr_csrf_token record))) found,
           sessions))"

definition html :: "Body \<Rightarrow> Response" where
  "html body = \<lparr>rs_status = 200, rs_cookie = None, rs_body = body\<rparr>"

definition login_page :: Response where
  "login_page = html (page_body login_form)"

definition read_page :: "RoutePage \<Rightarrow> OperatorView \<Rightarrow> Response" where
  "read_page page operator = html (Html page operator)"

text \<open>What the handlers of the read routes have in common: the route, the page of a state and the rows.\<close>

definition read_handler ::
    "Server \<Rightarrow> Instant \<Rightarrow> Instant \<Rightarrow> Route \<Rightarrow> ('r ReadRouteState \<Rightarrow> RoutePage)
       \<Rightarrow> (Seam \<Rightarrow> 'c \<Rightarrow> (UiError + 'r list) \<times> 'c) \<Rightarrow> Request \<Rightarrow> SessionStore \<times> 'c \<Rightarrow> Response \<times> SessionStore \<times> 'c" where
  "read_handler server now later route page read request = (\<lambda>(sessions, st).
     case authenticated_page server now request sessions of
       (None, sessions) \<Rightarrow> (login_page, sessions, st)
     | (Some (raw, operator), sessions) \<Rightarrow>
         if \<not> is_permitted route (ov_capabilities operator)
         then (read_page (page PageNotPermitted) operator, sessions, st)
         else case list_with_context (sv_parse_uuid server) later (Some raw) read (sessions, st) of
                (Inr rows, sessions, st) \<Rightarrow> (read_page (page (Rows rows)) operator, sessions, st)
              | (Inl error, sessions, st) \<Rightarrow>
                  (case error of NotAuthenticated \<Rightarrow> login_page | _ \<Rightarrow> read_page (page LoadFailed) operator, sessions, st))"

definition get_topics where
  "get_topics server reader now later =
     read_handler server now later R_Topics Pg_Topics (seam_read reader (\<lambda>_. facade_topics reader))"

definition get_groups where
  "get_groups server reader now later =
     read_handler server now later R_Groups Pg_Groups (seam_read reader (\<lambda>_. facade_groups reader))"

definition get_acls where
  "get_acls server reader now later =
     read_handler server now later R_Acls Pg_Acls (seam_read reader (\<lambda>_. facade_acls reader))"

definition get_users where
  "get_users server reader now later =
     read_handler server now later R_Users Pg_Users (seam_read reader (\<lambda>_. facade_users reader))"

definition requested_entity :: "string option \<Rightarrow> string option" where
  "requested_entity entity =
     (case map_option trim entity of Some (c # cs) \<Rightarrow> Some (c # cs) | _ \<Rightarrow> None)"

definition get_quotas where
  "get_quotas format_quota_value server reader now later lookup =
     (let entity = requested_entity lookup
      in read_handler server now later R_Quotas (\<lambda>state. Pg_Quotas state entity)
           (seam_read reader (\<lambda>seam. facade_quotas_for_user format_quota_value reader
              (case entity of Some entity \<Rightarrow> entity | None \<Rightarrow> sm_username seam))))"

definition get_log_dirs where
  "get_log_dirs server reader now later =
     read_handler server now later R_LogDirs Pg_LogDirs (seam_read reader (\<lambda>_. facade_log_dirs reader))"

definition root :: "Server \<Rightarrow> Instant \<Rightarrow> Request \<Rightarrow> SessionStore \<Rightarrow> Response \<times> SessionStore" where
  "root server now request sessions =
     (case authenticated_page server now request sessions of
        (None, sessions) \<Rightarrow> (html (page_body (for_unauthenticated_route R_Overview)), sessions)
      | (Some (_, operator), sessions) \<Rightarrow> (read_page overview operator, sessions))"

definition healthz :: Response where
  "healthz = \<lparr>rs_status = 200, rs_cookie = None, rs_body = Text []\<rparr>"

section \<open>The mutation handlers\<close>

definition post_create_topic where
  "post_create_topic server broker now later = post_mutation server broker now later K_CreateTopic"
definition post_delete_topic where
  "post_delete_topic server broker now later = post_mutation server broker now later K_DeleteTopic"
definition post_create_partitions where
  "post_create_partitions server broker now later = post_mutation server broker now later K_CreatePartitions"
definition post_alter_configs where
  "post_alter_configs server broker now later = post_mutation server broker now later K_AlterConfigs"
definition post_create_acl where
  "post_create_acl server broker now later = post_mutation server broker now later K_CreateAcl"
definition post_delete_acl where
  "post_delete_acl server broker now later = post_mutation server broker now later K_DeleteAcl"
definition post_upsert_scram where
  "post_upsert_scram server broker now later = post_mutation server broker now later K_UpsertScram"
definition post_delete_scram where
  "post_delete_scram server broker now later = post_mutation server broker now later K_DeleteScram"
definition post_upsert_quota where
  "post_upsert_quota server broker now later = post_mutation server broker now later K_UpsertQuota"
definition post_delete_quota where
  "post_delete_quota server broker now later = post_mutation server broker now later K_DeleteQuota"
definition post_move_log_dir where
  "post_move_log_dir server broker now later = post_mutation server broker now later K_MoveLogDir"

lemmas post_handler_defs =
  post_create_topic_def post_delete_topic_def post_create_partitions_def post_alter_configs_def post_create_acl_def
  post_delete_acl_def post_upsert_scram_def post_delete_scram_def post_upsert_quota_def post_delete_quota_def
  post_move_log_dir_def

section \<open>Signing in against a broker\<close>

text \<open>\<open>AdminClientLoginBroker::authenticate\<close> with the calls that it makes: the connection, the probe of the
  bootstrap addresses when the connection failed, and the operator's ACLs.\<close>

definition broker_authenticate ::
    "'c Reader \<Rightarrow> string list \<Rightarrow> string \<Rightarrow> string \<Rightarrow> 'c \<Rightarrow> (UiError + Capabilities) \<times> 'c" where
  "broker_authenticate reader bootstrap_addrs username password st =
     (case rd_connect reader username password st of
        (Inl error, st) \<Rightarrow>
          (Inl (classify_connect_failure (any_address_accepts_tcp (rd_accepts_tcp reader) bootstrap_addrs) error), st)
      | (Inr _, st) \<Rightarrow>
          (case rd_describe_acls reader st of
             (acls, st) \<Rightarrow> (Inr (capabilities_from_broker acls username), st)))"

section \<open>The router\<close>

datatype Method = Method_Get | Method_Post

text \<open>A call of the server: the times at which its handler reads the clock, the id and token of a session that it
  may create, and the request. \<open>cl_login\<close> is the form that \<open>axum\<close> reads for \<open>/login\<close>, or its rejection.\<close>

record Call =
  cl_now :: Instant
  cl_later :: Instant
  cl_fresh :: Fresh
  cl_method :: Method
  cl_path :: string
  cl_lookup :: "string option"
  cl_login :: "(nat \<times> string) + LoginRequest"
  cl_request :: Request

text \<open>The environment: the server, the calls that read and change, the addresses, the printing of quotas, and
  what \<open>axum\<close> answers where no route matches.\<close>

record 'c Ui =
  ui_server :: Server
  ui_reader :: "'c Reader"
  ui_broker :: "'c Broker"
  ui_bootstrap_addrs :: "string list"
  ui_format_quota_value :: "F64 \<Rightarrow> string"
  ui_no_route :: "Method \<Rightarrow> string \<Rightarrow> nat \<times> string"

definition plain :: "nat \<times> string \<Rightarrow> Response" where
  "plain = (\<lambda>(status, message). \<lparr>rs_status = status, rs_cookie = None, rs_body = Text message\<rparr>)"

definition with_state :: "(SessionStore \<Rightarrow> Response \<times> SessionStore) \<Rightarrow> SessionStore \<times> 'c \<Rightarrow> Response \<times> SessionStore \<times> 'c" where
  "with_state handler = (\<lambda>(sessions, st). case handler sessions of (response, sessions) \<Rightarrow> (response, sessions, st))"

definition route_get :: "'c Ui \<Rightarrow> Call \<Rightarrow> (SessionStore \<times> 'c \<Rightarrow> Response \<times> SessionStore \<times> 'c) option" where
  "route_get ui call =
     (let server = ui_server ui; reader = ui_reader ui; now = cl_now call; later = cl_later call; request = cl_request call
      in map_of
        [(''/healthz'', with_state (Pair healthz)),
         (''/'', with_state (root server now request)),
         (''/login'', with_state (Pair login_page)),
         (''/topics'', get_topics server reader now later request),
         (''/groups'', get_groups server reader now later request),
         (''/acls'', get_acls server reader now later request),
         (''/users'', get_users server reader now later request),
         (''/quotas'', get_quotas (ui_format_quota_value ui) server reader now later (cl_lookup call) request),
         (''/log-dirs'', get_log_dirs server reader now later request)] (cl_path call))"

definition login_handler :: "'c Ui \<Rightarrow> Call \<Rightarrow> SessionStore \<times> 'c \<Rightarrow> Response \<times> SessionStore \<times> 'c" where
  "login_handler ui call = (\<lambda>(sessions, st).
     case cl_login call of
       Inl rejection \<Rightarrow> (plain rejection, sessions, st)
     | Inr request \<Rightarrow>
         (case broker_authenticate (ui_reader ui) (ui_bootstrap_addrs ui) (lr_username request) (lr_password request) st of
            (authenticated, st) \<Rightarrow>
              (case post_login authenticated (cl_fresh call) request sessions of
                 (response, sessions) \<Rightarrow> (response, sessions, st))))"

definition route_post :: "'c Ui \<Rightarrow> Call \<Rightarrow> (SessionStore \<times> 'c \<Rightarrow> Response \<times> SessionStore \<times> 'c) option" where
  "route_post ui call =
     (let server = ui_server ui; broker = ui_broker ui; now = cl_now call; later = cl_later call; request = cl_request call
      in map_of
        [(''/login'', login_handler ui call),
         (''/logout'', with_state (post_logout server now later request)),
         (''/topics/create'', post_create_topic server broker now later request),
         (''/topics/delete'', post_delete_topic server broker now later request),
         (''/topics/partitions'', post_create_partitions server broker now later request),
         (''/topics/configs'', post_alter_configs server broker now later request),
         (''/acls/create'', post_create_acl server broker now later request),
         (''/acls/delete'', post_delete_acl server broker now later request),
         (''/users/scram/upsert'', post_upsert_scram server broker now later request),
         (''/users/scram/delete'', post_delete_scram server broker now later request),
         (''/quotas/upsert'', post_upsert_quota server broker now later request),
         (''/quotas/delete'', post_delete_quota server broker now later request),
         (''/log-dirs/move'', post_move_log_dir server broker now later request)] (cl_path call))"

definition router :: "'c Ui \<Rightarrow> Call \<Rightarrow> SessionStore \<times> 'c \<Rightarrow> Response \<times> SessionStore \<times> 'c" where
  "router ui call =
     (case (case cl_method call of Method_Get \<Rightarrow> route_get ui call | Method_Post \<Rightarrow> route_post ui call) of
        Some handler \<Rightarrow> handler
      | None \<Rightarrow> with_state (Pair (plain (ui_no_route ui (cl_method call) (cl_path call)))))"

section \<open>What a handler keeps\<close>

text \<open>The calls that read leave the cluster as it is.\<close>

definition reader_pure :: "'c Reader \<Rightarrow> bool" where
  "reader_pure reader \<longleftrightarrow>
     (\<forall>user password st. snd (rd_connect reader user password st) = st) \<and> (\<forall>st. snd (rd_metadata reader st) = st)
     \<and> (\<forall>st. snd (rd_list_groups reader st) = st) \<and> (\<forall>st. snd (rd_describe_cluster reader st) = st)
     \<and> (\<forall>brokers st. snd (rd_describe_log_dirs reader brokers st) = st) \<and> (\<forall>st. snd (rd_describe_acls reader st) = st)
     \<and> (\<forall>user st. snd (rd_describe_user_quotas reader user st) = st) \<and> (\<forall>st. snd (rd_describe_scram reader st) = st)"

lemma reader_pureD:
  assumes "reader_pure reader"
  shows "snd (rd_connect reader user password st) = st" "snd (rd_metadata reader st) = st"
    "snd (rd_list_groups reader st) = st" "snd (rd_describe_cluster reader st) = st"
    "snd (rd_describe_log_dirs reader brokers st) = st" "snd (rd_describe_acls reader st) = st"
    "snd (rd_describe_user_quotas reader user st) = st" "snd (rd_describe_scram reader st) = st"
  using assms by (simp_all add: reader_pure_def)

lemma facade_rows_pure: "snd (call st) = st \<Longrightarrow> snd (facade_rows call rows st) = st"
  by (simp add: facade_rows_def case_prod_unfold)

lemma facade_pure:
  assumes "reader_pure reader"
  shows "snd (facade_topics reader st) = st" "snd (facade_groups reader st) = st" "snd (facade_acls reader st) = st"
    "snd (facade_users reader st) = st" "snd (facade_quotas_for_user format reader user st) = st"
    "snd (facade_log_dirs reader st) = st"
proof -
  show "snd (facade_log_dirs reader st) = st"
    using reader_pureD(4,5) [OF assms]
    by (auto simp: facade_log_dirs_def case_prod_unfold split: sum.split)
qed (simp_all add: facade_topics_def facade_groups_def facade_acls_def facade_users_def facade_quotas_for_user_def
    facade_rows_pure reader_pureD [OF assms])

lemma seam_read_pure:
  assumes "reader_pure reader" and "\<And>seam st. snd (call seam st) = st"
  shows "snd (seam_read reader call seam st) = st"
  using reader_pureD(1) [OF assms(1)] assms(2) by (simp add: seam_read_def case_prod_unfold split: sum.split)

lemma list_with_context_state:
  assumes "store_ok s" and "\<And>seam st. snd (read seam st) = st"
  shows "snd (snd (list_with_context parse now (Some raw) read (s, st))) = st"
    and "now \<le> t \<Longrightarrow> live t (fst (snd (list_with_context parse now (Some raw) read (s, st)))) = live t s"
    and "store_ok (fst (snd (list_with_context parse now (Some raw) read (s, st))))"
  using require_session_result [OF assms(1), where parse = parse and now = now and raw = raw] assms(2)
  by (auto simp: list_with_context_def read_seam_from_context_def case_prod_unfold split: sum.split)

text \<open>The route of a page, and whether it shows rows of the cluster.\<close>

fun page_route :: "RoutePage \<Rightarrow> Route" where
  "page_route (Pg_Overview _) = R_Overview"
| "page_route (Pg_Login _) = R_Login"
| "page_route (Pg_Topics _) = R_Topics"
| "page_route (Pg_Groups _) = R_Groups"
| "page_route (Pg_Acls _) = R_Acls"
| "page_route (Pg_Users _) = R_Users"
| "page_route (Pg_Quotas _ _) = R_Quotas"
| "page_route (Pg_LogDirs _) = R_LogDirs"

fun has_rows :: "'r ReadRouteState \<Rightarrow> bool" where
  "has_rows (Rows _) = True"
| "has_rows _ = False"

fun shows_rows :: "RoutePage \<Rightarrow> bool" where
  "shows_rows (Pg_Topics state) = has_rows state"
| "shows_rows (Pg_Groups state) = has_rows state"
| "shows_rows (Pg_Acls state) = has_rows state"
| "shows_rows (Pg_Users state) = has_rows state"
| "shows_rows (Pg_Quotas state _) = has_rows state"
| "shows_rows (Pg_LogDirs state) = has_rows state"
| "shows_rows _ = False"

definition page_allowed :: "Server \<Rightarrow> Instant \<Rightarrow> Request \<Rightarrow> SessionStore \<Rightarrow> Body \<Rightarrow> bool" where
  "page_allowed server now request sessions body \<longleftrightarrow>
     (case body of
        Text _ \<Rightarrow> True
      | Html page operator \<Rightarrow>
          (if shows_rows page then
             (\<exists>i r. request_session server now request sessions = Some (i, r) \<and> is_permitted (page_route page) (sr_capabilities r)
                \<and> operator = OperatorView_new (sr_capabilities r) (sr_csrf_token r))
           else True))"

text \<open>What every read handler keeps: the cluster, the sessions, and pages with rows for permitted operators only.\<close>

definition read_only ::
    "Server \<Rightarrow> Instant \<Rightarrow> Instant \<Rightarrow> Request \<Rightarrow> SessionStore \<Rightarrow> (SessionStore \<times> 'c \<Rightarrow> Response \<times> SessionStore \<times> 'c) \<Rightarrow> bool" where
  "read_only server now later request s handler \<longleftrightarrow>
     (\<forall>st. case handler (s, st) of (response, s', st') \<Rightarrow>
        st' = st \<and> store_ok s' \<and> (\<forall>t \<ge> later. live t s' = live t s) \<and> page_allowed server now request s (rs_body response))"

lemma authenticated_page_result:
  assumes "store_ok s" and "authenticated_page server now request s = (found, s')"
  shows "store_ok s'" and "now \<le> later \<Longrightarrow> live later s' = live later s"
    and "found = Some (raw, operator) \<Longrightarrow> \<exists>i r. request_session server now request s = Some (i, r)
      \<and> operator = OperatorView_new (sr_capabilities r) (sr_csrf_token r)"
proof -
  have s': "s' = snd (authenticated_session server now request s)"
    and found: "found = map_option (\<lambda>(raw, r). (raw, OperatorView_new (sr_capabilities r) (sr_csrf_token r)))
      (fst (authenticated_session server now request s))"
    using assms(2) by (auto simp: authenticated_page_def case_prod_unfold)
  show "store_ok s'" "now \<le> later \<Longrightarrow> live later s' = live later s"
    unfolding s' using authenticated_session_result(2,3) [OF assms(1)] by auto
  show "found = Some (raw, operator) \<Longrightarrow> \<exists>i r. request_session server now request s = Some (i, r)
      \<and> operator = OperatorView_new (sr_capabilities r) (sr_csrf_token r)"
    unfolding found authenticated_session_result(1) [OF assms(1)] by (auto simp: bind_eq_Some_conv)
qed

lemma read_handler_read_only:
  assumes "store_ok s" and "now \<le> later" and "\<And>seam st. snd (read seam st) = st"
    and "\<And>state. page_route (page state) = route" and "\<And>state. shows_rows (page state) = has_rows state"
  shows "read_only server now later request s (read_handler server now later route page read request)"
proof -
  obtain found s1 where found: "authenticated_page server now request s = (found, s1)" by fastforce
  note page = authenticated_page_result [OF assms(1) found]
  have s1: "store_ok s1" "\<And>t. later \<le> t \<Longrightarrow> live t s1 = live t s" using page(1,2) assms(2) by auto
  show ?thesis
  proof (cases found)
    case None
    then show ?thesis
      using s1 found by (simp add: read_only_def read_handler_def page_allowed_def login_page_def html_def page_body_def login_form_def)
  next
    case (Some ro)
    obtain raw operator where ro: "ro = (raw, operator)" by (cases ro)
    obtain i r where r: "request_session server now request s = Some (i, r)"
        "operator = OperatorView_new (sr_capabilities r) (sr_csrf_token r)"
      using page(3) Some ro by blast
    note listed = list_with_context_state [OF s1(1) assms(3), where parse = "sv_parse_uuid server" and now = later and raw = raw]
    show ?thesis
    proof (cases "is_permitted route (sr_capabilities r)")
      case False
      then show ?thesis
        using s1 found Some ro r
        by (simp add: read_only_def read_handler_def page_allowed_def read_page_def html_def OperatorView_new_def assms(5))
    next
      case True
      have "page_allowed server now request s (Html (page (Rows rows)) operator)" for rows
        using True r by (simp add: page_allowed_def assms(4,5))
      moreover have "page_allowed server now request s (rs_body login_page)"
        "page_allowed server now request s (Html (page LoadFailed) operator)"
        by (simp_all add: page_allowed_def login_page_def html_def page_body_def login_form_def assms(5))
      moreover have "ov_capabilities operator = sr_capabilities r" by (simp add: r(2) OperatorView_new_def)
      ultimately show ?thesis
        using s1 found Some ro listed True
        by (simp add: read_only_def read_handler_def read_page_def html_def case_prod_unfold split: sum.split UiError.split)
    qed
  qed
qed

lemma root_read_only:
  assumes "store_ok s" and "now \<le> later"
  shows "read_only server now later request s (with_state (root server now request))"
proof -
  obtain found s1 where found: "authenticated_page server now request s = (found, s1)" by fastforce
  note page = authenticated_page_result [OF assms(1) found]
  have "store_ok s1" "\<And>t. later \<le> t \<Longrightarrow> live t s1 = live t s" using page(1,2) assms(2) by auto
  moreover have "page_allowed server now request s (rs_body (fst (root server now request s)))"
    by (simp add: root_def found page_allowed_def html_def page_body_def read_page_def overview_def
        for_unauthenticated_route_def guard_for_authentication_def login_form_def split: option.split)
  moreover have "snd (root server now request s) = s1" by (simp add: root_def found split: option.split)
  ultimately show ?thesis by (simp add: read_only_def with_state_def case_prod_unfold)
qed

lemma constant_read_only:
  assumes "store_ok s" and "page_allowed server now request s (rs_body response)"
  shows "read_only server now later request s (with_state (Pair response))"
  using assms by (simp add: read_only_def with_state_def)

lemma page_allowed_plain: "page_allowed server now request s (Text m)" "page_allowed server now request s (Html (Pg_Login state) operator)"
  "page_allowed server now request s (Html (Pg_Overview message) operator)"
  by (simp_all add: page_allowed_def)

lemma route_get_read_only:
  assumes "store_ok s" and "reader_pure (ui_reader ui)" and "cl_now call \<le> cl_later call" and "route_get ui call = Some handler"
  shows "read_only (ui_server ui) (cl_now call) (cl_later call) (cl_request call) s handler"
proof -
  note facade = facade_pure [OF assms(2)]
  note read = read_handler_read_only [OF assms(1,3)] and seam = seam_read_pure [OF assms(2)]
  let ?ro = "\<lambda>h. read_only (ui_server ui) (cl_now call) (cl_later call) (cl_request call) s h"
  have "?ro (with_state (Pair healthz))" "?ro (with_state (Pair login_page))"
    by (simp_all add: constant_read_only assms(1) page_allowed_plain healthz_def login_page_def html_def page_body_def login_form_def)
  moreover have "?ro (get_topics (ui_server ui) (ui_reader ui) (cl_now call) (cl_later call) (cl_request call))"
    "?ro (get_groups (ui_server ui) (ui_reader ui) (cl_now call) (cl_later call) (cl_request call))"
    "?ro (get_acls (ui_server ui) (ui_reader ui) (cl_now call) (cl_later call) (cl_request call))"
    "?ro (get_users (ui_server ui) (ui_reader ui) (cl_now call) (cl_later call) (cl_request call))"
    "?ro (get_quotas format (ui_server ui) (ui_reader ui) (cl_now call) (cl_later call) lookup (cl_request call))"
    "?ro (get_log_dirs (ui_server ui) (ui_reader ui) (cl_now call) (cl_later call) (cl_request call))" for format lookup
    by (simp_all add: get_topics_def get_groups_def get_acls_def get_users_def get_quotas_def get_log_dirs_def Let_def
        read seam facade)
  ultimately show ?thesis
    using assms(4) root_read_only [OF assms(1,3)] by (auto simp: route_get_def Let_def split: if_splits)
qed

lemma route_post_cases:
  assumes "route_post ui call = Some handler"
  obtains (sign_in) "cl_path call = ''/login''" "handler = login_handler ui call"
  | (sign_out) "cl_path call = ''/logout''"
      "handler = with_state (post_logout (ui_server ui) (cl_now call) (cl_later call) (cl_request call))"
  | (mutation) kind where "cl_path call = mutation_path kind"
      "handler = post_mutation (ui_server ui) (ui_broker ui) (cl_now call) (cl_later call) kind (cl_request call)"
proof -
  have "(cl_path call = ''/login'' \<and> handler = login_handler ui call)
    \<or> (cl_path call = ''/logout'' \<and>
        handler = with_state (post_logout (ui_server ui) (cl_now call) (cl_later call) (cl_request call)))
    \<or> (\<exists>kind. cl_path call = mutation_path kind \<and>
        handler = post_mutation (ui_server ui) (ui_broker ui) (cl_now call) (cl_later call) kind (cl_request call))"
    using assms unfolding route_post_def Let_def post_handler_defs map_of.simps fst_conv snd_conv fun_upd_apply
    by (auto split: if_splits intro: exI [of _ K_CreateTopic] exI [of _ K_DeleteTopic] exI [of _ K_CreatePartitions]
        exI [of _ K_AlterConfigs] exI [of _ K_CreateAcl] exI [of _ K_DeleteAcl] exI [of _ K_UpsertScram] exI [of _ K_DeleteScram]
        exI [of _ K_UpsertQuota] exI [of _ K_DeleteQuota] exI [of _ K_MoveLogDir])
  then show thesis using that by blast
qed

text \<open>Every route of a mutation is one.\<close>

lemma route_post_mutation:
  assumes "cl_path call = mutation_path kind"
  shows "route_post ui call =
    Some (post_mutation (ui_server ui) (ui_broker ui) (cl_now call) (cl_later call) kind (cl_request call))"
  using assms by (cases kind) (simp_all add: route_post_def Let_def post_handler_defs)

section \<open>Every request\<close>

lemma broker_authenticate_pure: "reader_pure reader \<Longrightarrow> snd (broker_authenticate reader addrs user password st) = st"
  by (simp add: broker_authenticate_def case_prod_unfold reader_pureD split: sum.split)

lemma login_handler_state: "reader_pure (ui_reader ui) \<Longrightarrow> snd (snd (login_handler ui call (s, st))) = st"
  by (simp add: login_handler_def case_prod_unfold broker_authenticate_pure split: sum.split)

lemma router_not_found:
  assumes "(case cl_method call of Method_Get \<Rightarrow> route_get ui call | Method_Post \<Rightarrow> route_post ui call) = None"
  shows "router ui call (s, st) = (plain (ui_no_route ui (cl_method call) (cl_path call)), s, st)"
  unfolding router_def assms by (simp add: with_state_def)

lemma router_get: "cl_method call = Method_Get \<Longrightarrow> route_get ui call = Some handler \<Longrightarrow> router ui call = handler"
  by (simp add: router_def)

lemma router_post: "cl_method call = Method_Post \<Longrightarrow> route_post ui call = Some handler \<Longrightarrow> router ui call = handler"
  by (simp add: router_def)

lemma router_cases [consumes 1, case_names not_found read sign_in sign_out mutation]:
  assumes "router ui call (s, st) = (response, s', st')"
  obtains "response = plain (ui_no_route ui (cl_method call) (cl_path call))" "s' = s" "st' = st"
  | handler where "route_get ui call = Some handler" "handler (s, st) = (response, s', st')"
  | "cl_method call = Method_Post" "cl_path call = ''/login''" "login_handler ui call (s, st) = (response, s', st')"
  | "cl_method call = Method_Post" "cl_path call = ''/logout''" "st' = st"
      "post_logout (ui_server ui) (cl_now call) (cl_later call) (cl_request call) s = (response, s')"
  | kind where "cl_method call = Method_Post" "cl_path call = mutation_path kind"
      "post_mutation (ui_server ui) (ui_broker ui) (cl_now call) (cl_later call) kind (cl_request call) (s, st) = (response, s', st')"
proof (cases "case cl_method call of Method_Get \<Rightarrow> route_get ui call | Method_Post \<Rightarrow> route_post ui call")
  case None
  from router_not_found [OF this] show thesis using assms that(1) by simp
next
  case (Some handler)
  have run: "router ui call = handler" by (simp add: router_def Some)
  show thesis
  proof (cases "cl_method call")
    case Method_Get
    then show thesis using Some run assms that(2) by simp
  next
    case Method_Post
    then have "route_post ui call = Some handler" using Some by simp
    then show thesis
    proof (cases rule: route_post_cases)
      case sign_in
      then show thesis using that(3) Method_Post run assms by simp
    next
      case sign_out
      then show thesis using that(4) Method_Post run assms by (auto simp: with_state_def split: prod.splits)
    next
      case (mutation kind)
      then show thesis using that(5) Method_Post run assms by simp
    qed
  qed
qed

text \<open>C1. Whatever a request to the admin UI is, it changes the cluster only when it is a post to the route of a
  mutation, its cookie names a live session, the session has the capability of the route, the
  request repeats the session's CSRF token, and its posted body decodes to a valid request of the
  route; and what it does is that request, under the user name and the password of the session.\<close>

theorem router_changes_need_authority:
  assumes "store_ok s" and "typed_decoders (ui_server ui)" and "reader_pure (ui_reader ui)" and "cl_now call \<le> cl_later call"
    and "router ui call (s, st) = (response, s', st')" and "st' \<noteq> st"
  shows "\<exists>kind i r c m. cl_method call = Method_Post \<and> cl_path call = mutation_path kind
    \<and> request_session (ui_server ui) (cl_now call) (cl_request call) s = Some (i, r) \<and> live (cl_later call) s i = Some r
    \<and> required_capability kind (sr_capabilities r)
    \<and> supplied_token (ui_server ui) (cl_request call) = Some (sr_csrf_token r)
    \<and> posted_request (ui_server ui) kind (cl_request call) m
    \<and> sr_credentials r = Some c \<and> mutation_kind m = kind \<and> mutation_validate m = Inr ()
    \<and> st' = snd (seam_mutate (ui_broker ui) \<lparr>sm_username = su_username (sr_user r), sm_password = sc_password c\<rparr> m st)"
  using assms(5)
proof (cases rule: router_cases)
  case (read handler)
  then show ?thesis using route_get_read_only [OF assms(1,3,4) read(1)] assms(6) by (auto simp: read_only_def split: prod.splits)
next
  case sign_in
  then show ?thesis using login_handler_state [OF assms(3), of call s st] assms(6) by simp
next
  case (mutation kind)
  then show ?thesis using post_mutation_authority [OF assms(1,2,4) mutation(3) assms(6)] by metis
qed (use assms(6) in simp_all)

text \<open>C8. The rows of the cluster are shown only to an operator with a live session whose capabilities permit the
  page, and the page is rendered with the capabilities and the token of that session.\<close>

theorem router_shows_rows_to_permitted:
  assumes "store_ok s" and "reader_pure (ui_reader ui)" and "cl_now call \<le> cl_later call"
    and "router ui call (s, st) = (response, s', st')" and "rs_body response = Html page operator" and "shows_rows page"
  shows "\<exists>i r. request_session (ui_server ui) (cl_now call) (cl_request call) s = Some (i, r)
    \<and> is_permitted (page_route page) (sr_capabilities r)
    \<and> operator = OperatorView_new (sr_capabilities r) (sr_csrf_token r)"
proof -
  let ?allowed = "page_allowed (ui_server ui) (cl_now call) (cl_request call) s"
  have "?allowed (rs_body response)"
    using assms(4)
  proof (cases rule: router_cases)
    case not_found
    then show ?thesis by (simp add: plain_def page_allowed_plain case_prod_unfold)
  next
    case (read handler)
    then show ?thesis using route_get_read_only [OF assms(1-3) read(1)] by (auto simp: read_only_def split: prod.splits)
  next
    case sign_in
    have "?allowed (page_body (snd (login_failure_response e)))" for e
      by (cases e) (simp_all add: page_body_def login_failed_def login_broker_unavailable_def page_allowed_plain)
    then show ?thesis
      using sign_in(3) by (auto simp: login_handler_def post_login_def plain_def page_body_def signed_in_def page_allowed_plain
          case_prod_unfold split: sum.splits prod.splits)
  next
    case sign_out
    from assms(1,3) order.refl sign_out(4) have "rs_body response = page_body login_form \<or> (\<exists>m. rs_body response = Text m)"
      by (cases rule: post_logout_sessions) auto
    then show ?thesis by (auto simp: page_body_def login_form_def page_allowed_plain)
  next
    case (mutation kind)
    then have "\<exists>m. rs_body response = Text m" using post_mutation_text by (metis fst_conv)
    then show ?thesis by (auto simp: page_allowed_plain)
  qed
  then show ?thesis using assms(5,6) by (simp add: page_allowed_def)
qed

lemma login_handler_sessions:
  assumes "store_ok s" and "fr_now (cl_fresh call) \<le> t" and "login_handler ui call (s, st) = (response, s', st')"
  obtains "live t s' = live t s" "store_ok s'"
  | request caps where "cl_login call = Inr request"
      "fst (broker_authenticate (ui_reader ui) (ui_bootstrap_addrs ui) (lr_username request) (lr_password request) st) = Inr caps"
      "live t s' = (live t s)(fr_id (cl_fresh call) :=
         (let r = new_record (cl_fresh call) (ss_ttl s) \<lparr>su_username = lr_username request, su_principal = ''User:'' @ lr_username request\<rparr>
            (Some \<lparr>sc_password = lr_password request\<rparr>) caps in if is_expired r t then None else Some r))" "store_ok s'"
proof (cases "cl_login call")
  case (Inl rejection)
  then show thesis using that(1) assms by (simp add: login_handler_def)
next
  case (Inr request)
  let ?auth = "fst (broker_authenticate (ui_reader ui) (ui_bootstrap_addrs ui) (lr_username request) (lr_password request) st)"
  have s': "s' = snd (post_login ?auth (cl_fresh call) request s)"
    using assms(3) by (auto simp: login_handler_def Inr case_prod_unfold)
  show thesis
  proof (cases ?auth)
    case (Inl e)
    then show thesis using that(1) s' assms(1) by (simp add: post_login_def login_def case_prod_unfold)
  next
    case (Inr caps)
    then have "s' = snd (create_record (cl_fresh call) \<lparr>su_username = lr_username request, su_principal = ''User:'' @ lr_username request\<rparr>
        (Some \<lparr>sc_password = lr_password request\<rparr>) caps s)"
      using s' by (simp add: post_login_def login_def create_authenticated_def case_prod_unfold Let_def)
    with that(2) [OF \<open>cl_login call = Inr request\<close> Inr] live_create [OF assms(1,2)] show thesis by simp
  qed
qed

text \<open>C6. The sessions change only by signing in and signing out: a post to \<open>/logout\<close> with a session's cookie and token
  ends that session, a post to \<open>/login\<close> that the broker authenticates adds the new one, with the
  capabilities of the broker's ACLs; no other request changes which sessions are live, then or later.\<close>

theorem router_changes_sessions:
  assumes "store_ok s" and "reader_pure (ui_reader ui)" and "cl_now call \<le> cl_later call" and "cl_later call \<le> t"
    and "fr_now (cl_fresh call) \<le> t" and "router ui call (s, st) = (response, s', st')"
  shows "store_ok s' \<and>
    (live t s' = live t s
     \<or> (\<exists>i r. cl_method call = Method_Post \<and> cl_path call = ''/logout''
          \<and> request_session (ui_server ui) (cl_now call) (cl_request call) s = Some (i, r)
          \<and> supplied_token (ui_server ui) (cl_request call) = Some (sr_csrf_token r) \<and> live t s' = (live t s)(i := None))
     \<or> (\<exists>request caps. cl_method call = Method_Post \<and> cl_path call = ''/login'' \<and> cl_login call = Inr request
          \<and> fst (broker_authenticate (ui_reader ui) (ui_bootstrap_addrs ui) (lr_username request) (lr_password request) st) = Inr caps
          \<and> live t s' = (live t s)(fr_id (cl_fresh call) :=
              (let r = new_record (cl_fresh call) (ss_ttl s)
                    \<lparr>su_username = lr_username request, su_principal = ''User:'' @ lr_username request\<rparr>
                    (Some \<lparr>sc_password = lr_password request\<rparr>) caps in if is_expired r t then None else Some r))))"
  using assms(6)
proof (cases rule: router_cases)
  case not_found
  then show ?thesis using assms(1) by simp
next
  case (read handler)
  then show ?thesis using route_get_read_only [OF assms(1-3) read(1)] assms(4) by (auto simp: read_only_def split: prod.splits)
next
  case sign_in
  from assms(1,5) sign_in(3) show ?thesis by (cases rule: login_handler_sessions) (use sign_in(1,2) in auto)
next
  case sign_out
  from assms(1,3,4) sign_out(4) show ?thesis by (cases rule: post_logout_sessions) (use sign_out(1,2) in auto)
next
  case (mutation kind)
  then show ?thesis using post_mutation_keeps_sessions [OF assms(1,3,4)] by (metis fst_conv snd_conv)
qed

section \<open>The forms of a page\<close>

text \<open>The forms of a tree: the method, the action, and the names and values of the inputs.\<close>

definition attribute :: "string \<Rightarrow> (string \<times> string) list \<Rightarrow> string" where
  "attribute name attrs = (case map_of attrs name of Some value \<Rightarrow> value | None \<Rightarrow> [])"

fun inputs :: "Node \<Rightarrow> (string \<times> string) list" where
  "inputs (Txt _) = []"
| "inputs (Elem tag attrs children) =
     (if tag = ''input'' then [(attribute ''name'' attrs, attribute ''value'' attrs)] else concat (map inputs children))"

fun forms :: "Node \<Rightarrow> (string \<times> string \<times> (string \<times> string) list) list" where
  "forms (Txt _) = []"
| "forms (Elem tag attrs children) =
     (if tag = ''form'' then [(attribute ''method'' attrs, attribute ''action'' attrs, concat (map inputs children))]
      else concat (map forms children))"

definition post_forms :: "Node \<Rightarrow> (string \<times> (string \<times> string) list) list" where
  "post_forms tree = map snd (filter (\<lambda>(verb, _). verb = ''post'') (forms tree))"

text \<open>The page on which a mutation is offered.\<close>

fun mutation_page :: "MutationKind \<Rightarrow> Route" where
  "mutation_page K_CreateTopic = R_Topics"
| "mutation_page K_DeleteTopic = R_Topics"
| "mutation_page K_CreatePartitions = R_Topics"
| "mutation_page K_AlterConfigs = R_Topics"
| "mutation_page K_CreateAcl = R_Acls"
| "mutation_page K_DeleteAcl = R_Acls"
| "mutation_page K_UpsertScram = R_Users"
| "mutation_page K_DeleteScram = R_Users"
| "mutation_page K_UpsertQuota = R_Quotas"
| "mutation_page K_DeleteQuota = R_Quotas"
| "mutation_page K_MoveLogDir = R_LogDirs"

definition all_kinds :: "MutationKind list" where
  "all_kinds = [K_CreateTopic, K_CreatePartitions, K_AlterConfigs, K_DeleteTopic, K_CreateAcl, K_DeleteAcl, K_UpsertScram,
     K_DeleteScram, K_UpsertQuota, K_DeleteQuota, K_MoveLogDir]"

lemma forms_rows: "concat (map (\<lambda>row. forms (Elem ''li'' [] [Txt (f row)])) rows) = []"
  by (induction rows) auto

lemma forms_section:
  "forms (section_element class heading lead row_text message state) = concat (map forms lead)"
  by (simp add: section_element_def comp_def forms_rows split: ReadRouteState.split list.split)

lemma forms_links: "concat (map (\<lambda>link. forms (Elem ''a'' (attrs link) [Txt (f link)])) links) = []"
  by (induction links) auto

lemma forms_lookup: "forms (quota_lookup_form entity) = [(''get'', ''/quotas'', [(''entity'', entity)])]"
  by (simp add: quota_lookup_form_def submit_button_def attribute_def)

lemma forms_overview: "forms (render_overview_element message) = []"
  by (cases message) (simp_all add: render_overview_element_def)

lemma forms_elements:
  "forms (render_topics_element ts) = []" "forms (render_groups_element gs) = []" "forms (render_acls_element as) = []"
  "forms (render_users_element us) = []" "forms (render_log_dirs_element ls) = []"
  by (simp_all only: render_topics_element_def render_groups_element_def render_acls_element_def render_users_element_def
      render_log_dirs_element_def forms_section list.map concat.simps)

lemma forms_quotas:
  "forms (render_quotas_element qs entity) = [(''get'', ''/quotas'', [(''entity'', case entity of Some e \<Rightarrow> e | None \<Rightarrow> [])])]"
  by (simp only: render_quotas_element_def Let_def forms_section list.map concat.simps forms_lookup append_Nil2)

lemma forms_content:
  assumes "page_content page = Some content"
  shows "filter (\<lambda>(verb, _). verb = ''post'') (forms content) = []"
proof -
  have "forms content = [] \<or> (\<exists>entity. forms content = [(''get'', ''/quotas'', [(''entity'', entity)])])"
    using assms by (cases page) (simp_all only: page_content.simps option.inject option.distinct, (metis forms_overview forms_elements forms_quotas)+)
  then show ?thesis by auto
qed

lemma forms_mutation_form:
  "forms (mutation_form action label token fs) =
     [(''post'', action, (CSRF_FIELD_NAME, token) # concat (map (inputs \<circ> field_node) fs))]"
  by (simp add: mutation_form_def attribute_def csrf_input_def submit_button_def)

lemma forms_sign_out: "forms (sign_out_form token) = [(''post'', ''/logout'', [(CSRF_FIELD_NAME, token)])]"
  by (simp add: sign_out_form_def attribute_def csrf_input_def submit_button_def)

lemma post_forms_shell:
  assumes "render_operations_shell_element page operator = Some tree"
  shows "post_forms tree =
    (case ov_csrf_token operator of Some token \<Rightarrow> [(''/logout'', [(CSRF_FIELD_NAME, token)])] | None \<Rightarrow> []) @
    map snd (filter (\<lambda>(verb, _). verb = ''post'') (concat (map forms (mutation_forms page operator))))"
proof -
  obtain content where content: "page_content page = Some content"
    using assms by (auto simp: render_operations_shell_element_def)
  then show ?thesis
    using assms forms_content [OF content]
    by (auto simp: render_operations_shell_element_def post_forms_def comp_def forms_links forms_sign_out split: option.splits)
qed

text \<open>Each form of a mutation posts to its route and carries the token.\<close>

lemma mutation_forms_post:
  assumes "ov_csrf_token operator = Some token"
  shows "set (concat (map forms (mutation_forms page operator))) \<subseteq> {(''post'', action, (CSRF_FIELD_NAME, token) # ins) | action ins. True}"
  using assms
  by (cases page) (auto simp: mutation_forms_def topics_forms_def acls_forms_def users_forms_def quotas_forms_def
      log_dirs_forms_def forms_mutation_form Let_def)

lemma mutation_forms_actions:
  assumes "ov_csrf_token operator = Some token"
  shows "map (\<lambda>(_, action, _). action) (concat (map forms (mutation_forms page operator))) =
    map mutation_path (filter (\<lambda>kind. mutation_page kind = page_route page \<and> required_capability kind (ov_capabilities operator)) all_kinds)"
  by (cases page) (simp_all add: mutation_forms_def assms topics_forms_def acls_forms_def users_forms_def quotas_forms_def
      log_dirs_forms_def forms_mutation_form Let_def all_kinds_def)

text \<open>C9. A page of the shell offers exactly what its operator may do there: the forms that post are the one that signs
  out and one for each mutation of the page whose route accepts the operator's capabilities, in the order
  of the page, and each carries the session's CSRF token. Without a session there is no form that posts.\<close>

theorem page_offers_permitted_forms:
  assumes "page_route page \<noteq> R_Login"
  shows "\<exists>tree. render_page_element_for_operator page operator = Some tree \<and>
    (case ov_csrf_token operator of
       None \<Rightarrow> post_forms tree = []
     | Some token \<Rightarrow>
         map fst (post_forms tree) = ''/logout'' # map mutation_path (filter (\<lambda>kind. mutation_page kind = page_route page
             \<and> required_capability kind (ov_capabilities operator)) all_kinds)
         \<and> list_all (\<lambda>(_, ins). map_of ins CSRF_FIELD_NAME = Some token) (post_forms tree))"
proof -
  obtain content where "page_content page = Some content" using assms by (cases page) auto
  then obtain tree where shell: "render_operations_shell_element page operator = Some tree"
    by (simp add: render_operations_shell_element_def)
  then have tree: "render_page_element_for_operator page operator = Some tree"
    using assms by (cases page) (simp_all add: render_page_element_for_operator_def)
  show ?thesis
  proof (cases "ov_csrf_token operator")
    case None
    then show ?thesis using tree post_forms_shell [OF shell] by (simp add: mutation_forms_def)
  next
    case (Some token)
    let ?fs = "concat (map forms (mutation_forms page operator))"
    have sub: "set ?fs \<subseteq> {(''post'', action, (CSRF_FIELD_NAME, token) # ins) | action ins. True}"
      by (rule mutation_forms_post [OF Some])
    then have keep: "filter (\<lambda>(verb, _). verb = ''post'') ?fs = ?fs" by (subst filter_True) auto
    have posts: "post_forms tree = (''/logout'', [(CSRF_FIELD_NAME, token)]) # map snd ?fs"
      using post_forms_shell [OF shell] by (simp add: Some keep)
    have "map fst (map snd ?fs) = map (\<lambda>(_, action, _). action) ?fs" by (simp add: case_prod_unfold comp_def)
    moreover have "list_all (\<lambda>(_, ins). map_of ins CSRF_FIELD_NAME = Some token) (map snd ?fs)"
    proof -
      have "map_of ins CSRF_FIELD_NAME = Some token" if "f \<in> set ?fs" and "snd f = (action, ins)" for f action ins
        using subsetD [OF sub that(1)] that(2) by auto
      then show ?thesis unfolding list_all_iff set_map ball_simps case_prod_unfold by (metis prod.collapse)
    qed
    ultimately show ?thesis using tree posts mutation_forms_actions [OF Some, of page] by (simp add: Some)
  qed
qed

theorem page_offers_permitted_forms_witness:
  "\<exists>tree. render_page_element_for_operator (Pg_LogDirs Loading) (OperatorView_new capabilities_all ''t'') = Some tree
     \<and> map fst (post_forms tree) = [''/logout'', ''/log-dirs/move'']"
proof -
  have "filter (\<lambda>kind. mutation_page kind = R_LogDirs \<and> required_capability kind capabilities_all) all_kinds = [K_MoveLogDir]"
    by (simp add: all_kinds_def capabilities_all_can)
  then show ?thesis
    using page_offers_permitted_forms [of "Pg_LogDirs Loading" "OperatorView_new capabilities_all ''t''"]
    by (auto simp: OperatorView_new_def)
qed

section \<open>Examples\<close>

definition sample_reader :: "BrokerCall list Reader" where
  "sample_reader = \<lparr>rd_connect = (\<lambda>_ _ st. (Inr (), st)),
     rd_metadata = (\<lambda>st. (Inr [\<lparr>ti_name = ''orders'', ti_topic_id = None, ti_partition_count = 1, ti_replication_factor = 1,
       ti_error = None\<rparr>], st)),
     rd_list_groups = (\<lambda>st. (Inr [], st)), rd_describe_cluster = (\<lambda>st. (Inr [], st)),
     rd_describe_log_dirs = (\<lambda>_ st. ([], st)), rd_describe_acls = (\<lambda>st. (Inr [], st)),
     rd_describe_user_quotas = (\<lambda>_ st. (Inr [], st)), rd_describe_scram = (\<lambda>st. (Inr [], st)),
     rd_accepts_tcp = (\<lambda>_. False)\<rparr>"

lemma sample_reader_pure: "reader_pure sample_reader"
  by (simp add: reader_pure_def sample_reader_def)

definition sample_ui :: "BrokerCall list Ui" where
  "sample_ui = \<lparr>ui_server = sample_server, ui_reader = sample_reader, ui_broker = sample_broker, ui_bootstrap_addrs = [],
     ui_format_quota_value = (\<lambda>_. []), ui_no_route = (\<lambda>_ _. (404, []))\<rparr>"

definition sample_call :: "Method \<Rightarrow> string \<Rightarrow> Call" where
  "sample_call verb path = \<lparr>cl_now = 20, cl_later = 21, cl_fresh = sample_fresh, cl_method = verb, cl_path = path, cl_lookup = None,
     cl_login = Inl (415, []), cl_request = operator_request\<rparr>"

lemma sample_simps:
  "ui_server sample_ui = sample_server" "ui_reader sample_ui = sample_reader" "ui_broker sample_ui = sample_broker"
  "cl_now (sample_call verb path) = 20" "cl_later (sample_call verb path) = 21" "cl_method (sample_call verb path) = verb"
  "cl_path (sample_call verb path) = path" "cl_request (sample_call verb path) = operator_request"
  "fr_now (cl_fresh (sample_call verb path)) = 10"
  by (simp_all add: sample_ui_def sample_call_def sample_fresh_def)

lemma sample_session:
  assumes "request_session sample_server 20 operator_request operator_store = Some (i, r)"
  shows "i = ''a''"
proof -
  have "map_option fst (request_session sample_server 20 operator_request operator_store) = Some ''a''" by code_simp
  with assms show ?thesis by simp
qed

theorem router_changes_need_authority_witness:
  "\<exists>r. request_session sample_server 20 operator_request operator_store = Some (''a'', r) \<and> can_delete_topics (sr_capabilities r)
     \<and> snd (snd (router sample_ui (sample_call Method_Post ''/topics/delete'') (operator_store, []))) = [Call_DeleteTopics ''orders'']"
proof -
  let ?post = "router sample_ui (sample_call Method_Post ''/topics/delete'') (operator_store, [])"
  have "?post = post_mutation sample_server sample_broker 20 21 K_DeleteTopic operator_request (operator_store, [])"
    using router_post [OF _ route_post_mutation [of "sample_call Method_Post ''/topics/delete''" K_DeleteTopic sample_ui]]
    by (simp add: sample_simps)
  moreover have "snd (snd (post_mutation sample_server sample_broker 20 21 K_DeleteTopic operator_request (operator_store, []))) =
      [Call_DeleteTopics ''orders'']" by code_simp
  ultimately have calls: "snd (snd ?post) = [Call_DeleteTopics ''orders'']" by simp
  obtain response s' where post: "?post = (response, s', [Call_DeleteTopics ''orders''])" using calls by (cases ?post) auto
  have "typed_decoders (ui_server sample_ui)" "reader_pure (ui_reader sample_ui)"
    by (simp_all only: sample_simps sample_typed_decoders sample_reader_pure)
  from router_changes_need_authority [OF operator_store_ok this _ post]
  obtain kind i r where kind: "''/topics/delete'' = mutation_path kind" "required_capability kind (sr_capabilities r)"
      and r: "request_session sample_server 20 operator_request operator_store = Some (i, r)"
    unfolding sample_simps by auto
  have "kind = K_DeleteTopic" using kind(1) by (cases kind) simp_all
  with kind(2) r sample_session [OF r] calls show ?thesis by simp
qed

theorem router_shows_rows_to_permitted_witness:
  "\<exists>r rows operator. request_session sample_server 20 operator_request operator_store = Some (''a'', r)
     \<and> rs_body (fst (router sample_ui (sample_call Method_Get ''/topics'') (operator_store, []))) = Html (Pg_Topics (Rows rows)) operator
     \<and> rows \<noteq> [] \<and> can_view_topics (sr_capabilities r)"
proof -
  let ?rows = "topic_rows [\<lparr>ti_name = ''orders'', ti_topic_id = None, ti_partition_count = 1, ti_replication_factor = 1, ti_error = None\<rparr>]"
  let ?op = "OperatorView_new capabilities_all ''t''"
  let ?get = "router sample_ui (sample_call Method_Get ''/topics'') (operator_store, [])"
  have body: "rs_body (fst ?get) = Html (Pg_Topics (Rows ?rows)) ?op" by code_simp
  obtain response s' st' where get: "?get = (response, s', st')" by (cases ?get)
  have "reader_pure (ui_reader sample_ui)" by (simp only: sample_simps sample_reader_pure)
  from router_shows_rows_to_permitted [OF operator_store_ok this _ get, of "Pg_Topics (Rows ?rows)" ?op]
  obtain i r where r: "request_session sample_server 20 operator_request operator_store = Some (i, r)"
      "can_view_topics (sr_capabilities r)"
    using body unfolding sample_simps get by auto
  with sample_session [OF r(1)] body show ?thesis by (auto simp: topic_rows_def)
qed

theorem router_changes_sessions_witness:
  "let s' = fst (snd (router sample_ui (sample_call Method_Post ''/logout'') (operator_store, [])))
   in store_ok s' \<and> live 30 s' ''a'' = None \<and> live 30 operator_store ''a'' \<noteq> None"
proof -
  let ?post = "router sample_ui (sample_call Method_Post ''/logout'') (operator_store, [])"
  obtain response s' st' where post: "?post = (response, s', st')" by (cases ?post)
  have "reader_pure (ui_reader sample_ui)" by (simp only: sample_simps sample_reader_pure)
  from router_changes_sessions [OF operator_store_ok this _ _ _ post, of 30]
  have ok: "store_ok s'" unfolding sample_simps by simp
  have "?post = with_state (post_logout sample_server 20 21 operator_request) (operator_store, [])"
    by (simp add: router_def route_post_def sample_simps Let_def)
  moreover have "live 30 (fst (snd (with_state (post_logout sample_server 20 21 operator_request) (operator_store, [])))) ''a'' = None"
    "live 30 operator_store ''a'' \<noteq> None" by code_simp+
  ultimately have "live 30 s' ''a'' = None \<and> live 30 operator_store ''a'' \<noteq> None"
    using post by (metis fst_conv snd_conv)
  with ok show ?thesis unfolding post Let_def by simp
qed

end
