(* ===== verification/Spec2Isabelle.thy ===== *)
theory Spec2Isabelle
  imports Replica_Placement Reassign_Safety Group_Safety Fan_Out Get_Offsets Delete_Records Leader_Election Topics_Safety Acls_Broker Transactions_Safety Log_Dirs_Safety Connection_Safety Configs_Safety Delegation_Safety Features_Safety Ui_Router
begin

text \<open>
  A verification library for the krabka command line and its admin UI.

  \<^bold>\<open>The program.\<close> \<^verbatim>\<open>crates/krabka-cli\<close> is a command line with the commands of Kafka's own tools; it
  reproduces their output, down to the order in which a \<open>java.util.HashMap\<close> iterates and the replicas that
  Kafka's placer draws from \<open>java.util.Random\<close>. \<^verbatim>\<open>crates/admin-ui\<close> is a web server in which an operator signs in
  with the broker's credentials and administers the cluster. Both reach the cluster through the admin client of
  another repository.

  \<^bold>\<open>The theories\<close>, in the order of their imports:

  \<^item> \<open>Prelude\<close>: results as sums, byte strings with the operations of \<open>str\<close>, decimal integers, ordered maps
    (\<open>BTreeMap\<close> as an ascending association list, with the locale \<open>ordered_map\<close> and its interpretations for the
    plain and the nested map), and the collections of simplification rules.
  \<^item> \<open>Jvm\<close> (\<^verbatim>\<open>jvm.rs\<close>, \<^verbatim>\<open>topic_partition.rs\<close>): Java hash codes on 32-bit words, the growth and the iteration order of a
    \<open>HashMap\<close>, \<open>Integer.parseInt\<close>. The simulated table iterates as a stable sort by bin.
  \<^item> \<open>Java_Random\<close> and \<open>Replica_Placer\<close> (\<^verbatim>\<open>replica_placer.rs\<close>): the 48-bit generator, rejection sampling, shuffles, the striped
    placer and \<open>propose\<close>; \<open>Replica_Placement\<close> holds their theorems: the placer ends for every seed and gives
    every partition distinct brokers, a proposal has the partitions of the assignment with the factor of the first one
    of each topic.
  \<^item> \<open>Kafka_Errors\<close> (\<^verbatim>\<open>compat.rs\<close>, \<^verbatim>\<open>common.rs\<close>, \<^verbatim>\<open>kafka_errors.rs\<close>): the table of error codes and the texts of errors.
  \<^item> \<open>Kafka_Json\<close> (\<^verbatim>\<open>kafka_json.rs\<close>): the decoding of JSON values, with the parser of \<open>serde_json\<close> as an argument.
  \<^item> \<open>Cli_Output\<close> (\<^verbatim>\<open>exit.rs\<close>, \<^verbatim>\<open>safety.rs\<close>, \<^verbatim>\<open>output.rs\<close>): exit codes, the confirmation prompt, the output formats.
  \<^item> \<open>Reassign_Files\<close> and \<open>Reassign_Plan\<close> (\<^verbatim>\<open>reassign_partitions/files.rs\<close>, \<^verbatim>\<open>plan.rs\<close>): the files of
    \<^verbatim>\<open>kafka-reassign-partitions\<close>, the moves, the throttles and the lines of a report.
  \<^item> \<open>Command_Monad\<close> and \<open>Reassign_Command\<close> (\<^verbatim>\<open>reassign_partitions.rs\<close>): the validation of the arguments and every
    action as a computation over a client, which is a record of its operations over an opaque state.
    \<open>Reassign_Safety\<close>: a dry run and an unconfirmed command only read, \<open>--verify\<close> reports what it found, the plan of
    \<open>--execute\<close> has only partitions and brokers that exist, and starting the moves ends.
  \<^item> \<open>Connection_Properties\<close> and \<open>Connection\<close> (\<^verbatim>\<open>connection.rs\<close>): the properties files of \<open>java.util.Properties\<close>, the login modules of
    \<open>sasl.jaas.config\<close>, the security policy and the settings of the client. \<open>Connection_Safety\<close>: both formats read as they are written (properties
    as \<open>Properties.store\<close> writes them), the policy
    never weakens what the config asks for, and a config that cannot be used is refused before anything is connected.
  \<^item> \<open>Reset_Time\<close>, \<open>Reset_Plan\<close> and \<open>Reset_File\<close> (\<^verbatim>\<open>consumer_groups/reset.rs\<close>): the dates and durations of \<^verbatim>\<open>--reset-offsets\<close>, with
    the day count shown to be that of the calendar, the plan of every scenario with the specification \<open>plan_target\<close> that it meets, and the
    CSV file of plans. A panic of the code is the value \<^const>\<open>None\<close>.
  \<^item> \<open>Group_Tables\<close> (\<^verbatim>\<open>consumer_groups/render.rs\<close>): the tables that \<^verbatim>\<open>kafka-consumer-groups\<close> prints.
    \<open>Consumer_Groups\<close> (\<^verbatim>\<open>consumer_groups.rs\<close>): the check of its arguments and every action over the record \<open>GroupsEnv\<close> of the
    client's operations. \<open>Group_Safety\<close>: which command lines change the cluster, that a reset writes what it
    reports, that the rows of a group are complete.
  \<^item> \<open>Fan_Out\<close> (\<^verbatim>\<open>fan_out.rs\<close>): the batches of calls with a bounded number in flight, as a step relation in which any call in
    flight may end next.
  \<^item> \<open>Get_Offsets\<close>, \<open>Delete_Records\<close> and \<open>Leader_Election\<close> (the files of these names): the three commands with their files, filters and reports.
  \<^item> \<open>Topics_Config\<close>, \<open>Topics_Describe\<close> and \<open>Topics_Command\<close> (\<^verbatim>\<open>topics/\<close>): \<^verbatim>\<open>kafka-topics\<close>, with the parsing of its configs and
    replica assignments, the lines of \<open>--describe\<close>, and every action over the record \<open>TopicsEnv\<close>. \<open>Topics_Safety\<close>: which operations a command line
    uses, which command lines are accepted, which topics a selection has.
  \<^item> \<open>Admin_Acls\<close>: the client's types of ACLs, for the command line and the admin UI. \<open>Acls\<close> (\<^verbatim>\<open>acls.rs\<close>): \<^verbatim>\<open>kafka-acls\<close>, from the
    flags to the entries they stand for and the actions. \<open>Acls_Safety\<close>: those entries, the accepted command lines, which operations a command
    uses. \<open>Acls_Broker\<close>: what adding, removing and the dry run of a removal do on a broker that keeps a set of ACLs, with the ACLs that the flags ask
    for specified apart from the code (\<open>requested_acls\<close>, \<open>removed_for\<close>).
  \<^item> \<open>Transactions\<close> (\<^verbatim>\<open>transactions.rs\<close>): \<^verbatim>\<open>kafka-transactions\<close>, with the calls of single brokers that it makes itself.
    \<open>Transactions_Safety\<close>: which commands change the cluster, that every command ends, which transaction an abort names, and what
    \<open>find-hanging\<close> reports of a cluster that does not change meanwhile.
  \<^item> \<open>Admin_Log_Dirs\<close>: the client's log directories. \<open>Log_Dirs\<close> (\<^verbatim>\<open>log_dirs.rs\<close>): \<^verbatim>\<open>kafka-log-dirs\<close>. \<open>Log_Dirs_Safety\<close>: the moves read as they are
    written, the document is the JSON of the brokers that answered and complete, the dry run of a move agrees with the move, and only a confirmed
    \<open>--alter\<close> moves replicas.
  \<^item> \<open>Configs_Parse\<close> and \<open>Configs\<close> (\<^verbatim>\<open>configs.rs\<close>, \<^verbatim>\<open>configs/\<close>): \<^verbatim>\<open>kafka-configs\<close>, from the flags to a plan and its execution, with the iteration order of
    Scala's sets. \<open>Configs_Values\<close> and \<open>Configs_Safety\<close>: values read as they are written, every command line is planned or refused as its action asks,
    sensitive values are never shown, and only \<open>--alter\<close> changes the cluster.
  \<^item> \<open>Delegation_Tokens\<close> (\<^verbatim>\<open>delegation_tokens.rs\<close>): \<^verbatim>\<open>kafka-delegation-tokens\<close>, with its own Base64 and calendar. \<open>Delegation_Safety\<close>: Base64 reads back what it
    writes, dates are those of the calendar and read back, which command lines are accepted, and which operations of the client they use.
  \<^item> \<open>Features\<close> (\<^verbatim>\<open>feature_catalog.rs\<close>, \<^verbatim>\<open>features.rs\<close>): \<^verbatim>\<open>kafka-features\<close> over a registry of features. \<open>Features_Safety\<close>: a release is the highest level it names,
    an update that is sent was checked against the registry and its dependencies, its report fails exactly when a feature did, and a dry run only validates.
  \<^item> \<open>Ui_Permissions\<close> (\<^verbatim>\<open>permissions.rs\<close>): capabilities as a 16-bit word and their derivation from ACLs, against the table
    \<open>standing_for\<close> of which operations an entry is about.
  \<^item> \<open>Ui_Sessions\<close> (\<^verbatim>\<open>session.rs\<close>): the store of sessions with the locale \<open>session_spec\<close>, which the store is an instance
    of, and the interleavings of concurrent requests as a step relation.
  \<^item> \<open>Ui_Requests\<close> (\<^verbatim>\<open>dto.rs\<close>, \<^verbatim>\<open>error.rs\<close>, \<^verbatim>\<open>admin.rs\<close> and the parsing of \<^verbatim>\<open>server_fns.rs\<close>): requests and their checks,
    ACLs by name, outcomes. \<open>Ui_Views\<close> (\<^verbatim>\<open>views/\<close>, the rows of \<^verbatim>\<open>admin.rs\<close>): pages and their element trees.
  \<^item> \<open>Ui_Server\<close> (\<^verbatim>\<open>server_fns.rs\<close>), \<open>Ui_Http\<close> (\<^verbatim>\<open>server.rs\<close>, \<^verbatim>\<open>auth.rs\<close>), \<open>Ui_Router\<close> (the router and the read routes): the
    handlers over the state of the sessions and of the cluster. \<open>Ui_Security\<close> and \<open>Ui_Router\<close> hold the theorems about every
    request: what it needs to change the cluster, who sees rows, which requests change sessions, and that the
    forms of a page are those that its operator may post.

  \<^bold>\<open>How the code is represented.\<close> A string is its UTF-8 bytes. An \<open>i32\<close> or \<open>i64\<close> that is only stored, compared and
  printed is an \<open>int\<close>; where the code wraps (hash codes, the generator) it is a word, and where it parses, the
  bounds are written out. \<open>Result\<close> is a sum with the error on the left. An asynchronous call is the state
  transformer of its client; the clock is a number or a list of readings. The client, files, terminals,
  decoders, UUIDs and the HTML printer are arguments; what a theorem needs of them is a hypothesis by name
  (\<open>reader_pure\<close>, \<open>typed_decoders\<close>, the laws of the JSON printer), and each such theorem has a witness with
  concrete functions. A JSON object has its keys in the order of the source, where the printer of the code sorts them.

  \<^bold>\<open>Loops.\<close> The loops of the placer and of \<open>next_int\<close> are partial functions into \<open>option\<close>, so that not returning is
  \<^const>\<open>None\<close>; their theorems show that they return. The retries of \<open>execute_moves\<close> and of \<open>list_on_broker\<close> run over the readings of the clock, and
  theorems show that the deadline ends them. Everything else is total.

  \<^bold>\<open>Not modelled.\<close> The commands that are listed as such in the manifest (the console tools, storage, metadata-quorum and gres), which stream records,
  read files of other crates or print the answers of services with the same client, output and confirmation; most of the cluster commands; the
  \<open>clap\<close> command tree, the network, start-up and configuration of the web server, and its answers to \<open>HEAD\<close>, which \<open>axum\<close> serves by the routes of \<open>GET\<close>; and the conversions between an \<open>f64\<close> and its decimal digits.
\<close>

end
